(* ===== verification/JsBase.thy ===== *)
theory JsBase
  imports Complex_Main "HOL-Library.Multiset"
begin

text \<open>
  The prelude of the development: the part of the JavaScript language and standard library that
  the modelled TypeScript files under src/src/core use, as executable HOL functions, with the
  lemmas the component theories share.

  \<^item> Strings are \<^typ>\<open>string\<close>, one \<^typ>\<open>char\<close> per code unit below U+0100, so \<open>trim\<close>
    removes the white space JavaScript removes in that range (tab, LF, VT, FF, CR, space and the
    no-break space), and \<open>toLowerCase\<close> covers A-Z and the Latin-1 capitals.
  \<^item> An optional property or a value that may be \<open>undefined\<close> or \<open>null\<close> is an \<^typ>\<open>'a option\<close>;
    \<open>truthy\<close> is the truth value of an optional string (the empty string is falsy), \<open>orElse\<close>
    is \<open>a || b\<close> and \<open>nullish\<close> is \<open>a ?? b\<close>.
  \<^item> A \<open>Map\<close> keeps the insertion order of its keys, so it is an association list: \<open>om_set\<close>
    overwrites in place or appends, \<open>om_del\<close> removes. The locale \<open>js_map\<close> states what a client
    of a \<open>Map\<close> relies on, and is interpreted on these functions.
  \<^item> \<open>Array.prototype.sort\<close> is stable: \<open>sort_by\<close>, with the locale \<open>js_comparator\<close> for the
    comparators that are consistent.
\<close>

named_theorems js_simps \<open>values of the JavaScript helper functions\<close>
named_theorems om_simps \<open>lookup, update and deletion in a Map\<close>

section \<open>Truth values and defaults\<close>

definition truthy :: "string option \<Rightarrow> bool" where
  "truthy v = (case v of None \<Rightarrow> False | Some s \<Rightarrow> s \<noteq> [])"

definition orElse :: "string option \<Rightarrow> string option \<Rightarrow> string option" where
  "orElse a b = (if truthy a then a else b)"

definition nullish :: "'a option \<Rightarrow> 'a option \<Rightarrow> 'a option" where
  "nullish a b = (case a of None \<Rightarrow> b | Some x \<Rightarrow> Some x)"

definition orDefault :: "'a option \<Rightarrow> 'a \<Rightarrow> 'a" where
  "orDefault a d = (case a of None \<Rightarrow> d | Some x \<Rightarrow> x)"

definition trueOpt :: "bool option \<Rightarrow> bool" where
  "trueOpt v = (v = Some True)"

lemma truthy_simps [simp, js_simps]:
  "\<not> truthy None"
  "truthy (Some s) \<longleftrightarrow> s \<noteq> []"
  by (simp_all add: truthy_def)

lemma nullish_simps [simp, js_simps]:
  "nullish None b = b"
  "nullish (Some x) b = Some x"
  "nullish a None = a"
  by (simp_all add: nullish_def split: option.split)

lemma orDefault_simps [simp, js_simps]:
  "orDefault None d = d"
  "orDefault (Some x) d = x"
  by (simp_all add: orDefault_def)

lemma orElse_simps [simp, js_simps]:
  "orElse None b = b"
  "orElse (Some []) b = b"
  "s \<noteq> [] \<Longrightarrow> orElse (Some s) b = Some s"
  by (simp_all add: orElse_def)

section \<open>Strings\<close>

definition is_ws :: "char \<Rightarrow> bool" where
  "is_ws c = (let n = (of_char c :: nat) in (9 \<le> n \<and> n \<le> 13) \<or> n = 32 \<or> n = 160)"

definition trimStart :: "string \<Rightarrow> string" where
  "trimStart s = dropWhile is_ws s"

definition trimEnd :: "string \<Rightarrow> string" where
  "trimEnd s = rev (dropWhile is_ws (rev s))"

definition trim :: "string \<Rightarrow> string" where
  "trim s = trimStart (trimEnd s)"

text \<open>A string that \<open>trim\<close> leaves as it is.\<close>

definition trimmed :: "string \<Rightarrow> bool" where
  "trimmed s = (s = [] \<or> (\<not> is_ws (hd s) \<and> \<not> is_ws (last s)))"

definition lower_char :: "char \<Rightarrow> char" where
  "lower_char c = (let n = (of_char c :: nat) in
     if (65 \<le> n \<and> n \<le> 90) \<or> (192 \<le> n \<and> n \<le> 222 \<and> n \<noteq> 215) then char_of (n + 32) else c)"

definition toLowerCase :: "string \<Rightarrow> string" where
  "toLowerCase s = map lower_char s"

text \<open>
  \<open>toUpperCase\<close> sends the sharp s (223) to two letters; the micro sign (181) and y with
  diaeresis (255) have their capitals above U+00FF and are left as they are.
\<close>

definition upper_char :: "char \<Rightarrow> string" where
  "upper_char c = (let n = (of_char c :: nat) in
     if n = 223 then ''SS''
     else if (97 \<le> n \<and> n \<le> 122) \<or> (224 \<le> n \<and> n \<le> 254 \<and> n \<noteq> 247) then [char_of (n - 32)] else [c])"

definition toUpperCase :: "string \<Rightarrow> string" where
  "toUpperCase s = concat (map upper_char s)"

fun startsWith :: "string \<Rightarrow> string \<Rightarrow> bool" where
  "startsWith s [] = True"
| "startsWith [] (c # p) = False"
| "startsWith (x # s) (c # p) = (x = c \<and> startsWith s p)"

fun strIncludes :: "string \<Rightarrow> string \<Rightarrow> bool" where
  "strIncludes [] p = (p = [])"
| "strIncludes (c # s) p = (startsWith (c # s) p \<or> strIncludes s p)"

fun js_join :: "string \<Rightarrow> string list \<Rightarrow> string" where
  "js_join sep [] = []"
| "js_join sep [s] = s"
| "js_join sep (s # t # r) = s @ sep @ js_join sep (t # r)"

definition digit_char :: "nat \<Rightarrow> char" where
  "digit_char d = char_of (48 + d)"

fun show_nat :: "nat \<Rightarrow> string" where
  "show_nat n = (if n < 10 then [digit_char n] else show_nat (n div 10) @ [digit_char (n mod 10)])"

declare show_nat.simps [simp del]

definition show_int :: "int \<Rightarrow> string" where
  "show_int n = (if n < 0 then ''-'' @ show_nat (nat (- n)) else show_nat (nat n))"

lemma show_nat_not_Nil [simp]: "show_nat n \<noteq> []"
  by (subst show_nat.simps) simp

lemma digit_char_not_ws: "d < 10 \<Longrightarrow> \<not> is_ws (digit_char d)"
  by (simp add: digit_char_def is_ws_def Let_def)

lemma show_nat_not_ws: "\<forall>c\<in>set (show_nat n). \<not> is_ws c"
proof (induction n rule: show_nat.induct)
  case (1 n)
  then show ?case by (subst show_nat.simps) (auto simp: digit_char_not_ws)
qed

lemma trim_Nil [simp]: "trim [] = []"
  by (simp add: trim_def trimStart_def trimEnd_def)

lemma trimEnd_last: "trimEnd s = [] \<or> \<not> is_ws (last (trimEnd s))"
proof -
  have "dropWhile is_ws (rev s) = [] \<or> \<not> is_ws (hd (dropWhile is_ws (rev s)))"
    by (metis hd_dropWhile)
  then show ?thesis by (auto simp: trimEnd_def last_rev)
qed

lemma last_dropWhile: "dropWhile P xs \<noteq> [] \<Longrightarrow> last (dropWhile P xs) = last xs"
  by (metis dropWhile_eq_Nil_conv last_append takeWhile_dropWhile_id)

lemma trimmed_trim [simp]: "trimmed (trim s)"
proof (cases "trim s = []")
  case True
  then show ?thesis by (simp add: trimmed_def)
next
  case False
  then have "\<not> is_ws (hd (trim s))"
    unfolding trim_def trimStart_def by (rule hd_dropWhile)
  moreover have "last (trim s) = last (trimEnd s)"
    using False unfolding trim_def trimStart_def by (rule last_dropWhile)
  moreover have "trimEnd s \<noteq> []"
    using False by (auto simp: trim_def trimStart_def)
  ultimately show ?thesis using trimEnd_last [of s] by (simp add: trimmed_def)
qed

lemma trim_trimmed: "trimmed s \<Longrightarrow> trim s = s"
proof (cases "s = []")
  case False
  assume "trimmed s"
  with False have h: "\<not> is_ws (hd s)" and l: "\<not> is_ws (last s)" by (auto simp: trimmed_def)
  from l False have "dropWhile is_ws (rev s) = rev s"
    by (cases "rev s") (auto simp: last_rev)
  then have "trimEnd s = s" by (simp add: trimEnd_def)
  with h False show ?thesis
    by (cases s) (auto simp: trim_def trimStart_def)
qed simp

lemma trim_idem [simp]: "trim (trim s) = trim s"
  by (rule trim_trimmed) simp

lemma trimmed_iff: "trimmed s \<longleftrightarrow> trim s = s"
  by (metis trim_trimmed trimmed_trim)

lemma startsWith_append [simp]: "startsWith (p @ s) p"
  by (induction p) (cases s; simp)+

lemma startsWith_iff: "startsWith s p \<longleftrightarrow> (\<exists>t. s = p @ t)"
  by (induction s p rule: startsWith.induct) auto

lemma strIncludes_iff: "strIncludes s p \<longleftrightarrow> (\<exists>a b. s = a @ p @ b)"
proof (induction s)
  case Nil
  then show ?case by auto
next
  case (Cons c s)
  show ?case
  proof
    assume "strIncludes (c # s) p"
    then consider "startsWith (c # s) p" | "strIncludes s p" by auto
    then show "\<exists>a b. c # s = a @ p @ b"
    proof cases
      case 1
      then show ?thesis unfolding startsWith_iff by (metis append_Nil)
    next
      case 2
      with Cons.IH show ?thesis by (metis append_Cons)
    qed
  next
    assume "\<exists>a b. c # s = a @ p @ b"
    then obtain a b where ab: "c # s = a @ p @ b" by blast
    show "strIncludes (c # s) p"
    proof (cases a)
      case Nil
      with ab have "startsWith (c # s) p" by (auto simp: startsWith_iff)
      then show ?thesis by simp
    next
      case (Cons x a')
      with ab Cons.IH show ?thesis by auto
    qed
  qed
qed

section \<open>Arrays\<close>

fun find_index :: "('a \<Rightarrow> bool) \<Rightarrow> 'a list \<Rightarrow> nat option" where
  "find_index P [] = None"
| "find_index P (x # xs) = (if P x then Some 0 else map_option Suc (find_index P xs))"

text \<open>\<open>Array.from(new Set(xs))\<close>: the first occurrence of each element, in order.\<close>

function uniq :: "'a list \<Rightarrow> 'a list" where
  "uniq [] = []"
| "uniq (x # xs) = x # uniq (filter (\<lambda>y. y \<noteq> x) xs)"
  by pat_completeness auto
termination
  by (relation "measure length") (auto simp: le_imp_less_Suc)

text \<open>\<open>xs.map(f).filter(Boolean)\<close> for a partial \<open>f\<close>.\<close>

fun map_some :: "('a \<Rightarrow> 'b option) \<Rightarrow> 'a list \<Rightarrow> 'b list" where
  "map_some f [] = []"
| "map_some f (x # xs) = (case f x of None \<Rightarrow> map_some f xs | Some y \<Rightarrow> y # map_some f xs)"

lemma find_index_Some: "find_index P xs = Some i \<Longrightarrow> i < length xs \<and> P (xs ! i)"
  by (induction xs arbitrary: i) (auto split: if_splits)

lemma find_index_None: "find_index P xs = None \<longleftrightarrow> (\<forall>x\<in>set xs. \<not> P x)"
  by (induction xs) auto

lemma find_index_first: "find_index P xs = Some i \<Longrightarrow> j < i \<Longrightarrow> \<not> P (xs ! j)"
proof (induction xs arbitrary: i j)
  case (Cons x xs)
  then show ?case by (cases j) (auto split: if_splits)
qed simp

lemma find_Some_iff_set: "List.find P xs = Some x \<Longrightarrow> x \<in> set xs \<and> P x"
  by (metis find_Some_iff nth_mem)

lemma find_append: "List.find P (as @ bs) = (case List.find P as of None \<Rightarrow> List.find P bs | Some y \<Rightarrow> Some y)"
  by (induction as) auto

lemma find_by_index: "List.find P xs = map_option (\<lambda>i. xs ! i) (find_index P xs)"
  by (induction xs) (auto simp: option.map_comp comp_def)

lemma find_cong_set: "(\<And>x. x \<in> set xs \<Longrightarrow> P x = Q x) \<Longrightarrow> List.find P xs = List.find Q xs"
  by (induction xs) auto

lemma set_uniq [simp]: "set (uniq xs) = set xs"
  by (induction xs rule: uniq.induct) auto

lemma distinct_uniq [simp]: "distinct (uniq xs)"
  by (induction xs rule: uniq.induct) auto

lemma uniq_distinct: "distinct xs \<Longrightarrow> uniq xs = xs"
proof (induction xs rule: uniq.induct)
  case (2 x xs)
  then have "filter (\<lambda>y. y \<noteq> x) xs = xs" by (auto intro: filter_True)
  with 2 show ?case by simp
qed simp

lemma uniq_idem [simp]: "uniq (uniq xs) = uniq xs"
  by (rule uniq_distinct) simp

lemma uniq_eq_Nil [simp]: "uniq xs = [] \<longleftrightarrow> xs = []"
  by (cases xs) auto

lemma length_uniq_le: "length (uniq xs) \<le> length xs"
proof (induction xs rule: uniq.induct)
  case (2 x xs)
  then show ?case by (simp add: order_trans [OF 2 length_filter_le])
qed simp

lemma set_map_some: "set (map_some f xs) = {y. \<exists>x\<in>set xs. f x = Some y}"
  by (induction xs) (auto split: option.splits)

lemma map_some_map: "(\<And>x. x \<in> set xs \<Longrightarrow> f (g x) = Some x) \<Longrightarrow> map_some f (map g xs) = xs"
  by (induction xs) auto

section \<open>Stable sorting\<close>

fun ins_by :: "('a \<Rightarrow> 'a \<Rightarrow> int) \<Rightarrow> 'a \<Rightarrow> 'a list \<Rightarrow> 'a list" where
  "ins_by cmp x [] = [x]"
| "ins_by cmp x (y # ys) = (if cmp x y \<le> 0 then x # y # ys else y # ins_by cmp x ys)"

definition sort_by :: "('a \<Rightarrow> 'a \<Rightarrow> int) \<Rightarrow> 'a list \<Rightarrow> 'a list" where
  "sort_by cmp xs = foldr (ins_by cmp) xs []"

lemma sort_by_simps [simp]:
  "sort_by cmp [] = []"
  "sort_by cmp (x # xs) = ins_by cmp x (sort_by cmp xs)"
  by (simp_all add: sort_by_def)

lemma set_ins_by [simp]: "set (ins_by cmp x ys) = insert x (set ys)"
  by (induction ys) auto

lemma set_sort_by [simp]: "set (sort_by cmp xs) = set xs"
  by (induction xs) auto

lemma mset_ins_by [simp]: "mset (ins_by cmp x ys) = add_mset x (mset ys)"
  by (induction ys) auto

lemma mset_sort_by [simp]: "mset (sort_by cmp xs) = mset xs"
  by (induction xs) auto

lemma length_ins_by [simp]: "length (ins_by cmp x ys) = Suc (length ys)"
  by (induction ys) auto

lemma length_sort_by [simp]: "length (sort_by cmp xs) = length xs"
  by (induction xs) auto

lemma distinct_ins_by [simp]: "distinct (ins_by cmp x ys) \<longleftrightarrow> x \<notin> set ys \<and> distinct ys"
  by (induction ys) auto

lemma distinct_sort_by [simp]: "distinct (sort_by cmp xs) \<longleftrightarrow> distinct xs"
  by (induction xs) auto

lemma length_filter_ins_by:
  "length (filter P (ins_by cmp x ys)) = (if P x then 1 else 0) + length (filter P ys)"
  by (induction ys) auto

lemma length_filter_sort_by [simp]: "length (filter P (sort_by cmp xs)) = length (filter P xs)"
  by (induction xs) (auto simp: length_filter_ins_by)

text \<open>A list that is in order already is not changed (the sort is stable).\<close>

lemma sort_by_id: "sorted_wrt (\<lambda>x y. cmp x y \<le> 0) xs \<Longrightarrow> sort_by cmp xs = xs"
proof (induction xs)
  case (Cons x xs)
  then show ?case by (cases xs) auto
qed simp

text \<open>What a comparator must satisfy for \<open>sort\<close> to order the array.\<close>

locale js_comparator =
  fixes cmp :: "'a \<Rightarrow> 'a \<Rightarrow> int"
  assumes cmp_total: "cmp x y \<le> 0 \<or> cmp y x \<le> 0"
    and cmp_trans: "cmp x y \<le> 0 \<Longrightarrow> cmp y z \<le> 0 \<Longrightarrow> cmp x z \<le> 0"
begin

lemma ins_by_sorted:
  "sorted_wrt (\<lambda>x y. cmp x y \<le> 0) ys \<Longrightarrow> sorted_wrt (\<lambda>x y. cmp x y \<le> 0) (ins_by cmp x ys)"
proof (induction ys)
  case (Cons y ys)
  then show ?case using cmp_total [of x y] by (auto intro: cmp_trans)
qed simp

lemma sort_by_sorted: "sorted_wrt (\<lambda>x y. cmp x y \<le> 0) (sort_by cmp xs)"
  by (induction xs) (auto simp: ins_by_sorted)

lemma sort_by_idem: "sort_by cmp (sort_by cmp xs) = sort_by cmp xs"
  by (rule sort_by_id) (rule sort_by_sorted)

end

text \<open>The comparators \<open>(a, b) => k(a) - k(b)\<close> and \<open>(a, b) => k(b) - k(a)\<close>.\<close>

definition by_key :: "('a \<Rightarrow> int) \<Rightarrow> 'a \<Rightarrow> 'a \<Rightarrow> int" where
  "by_key k a b = k a - k b"

definition by_key_desc :: "('a \<Rightarrow> int) \<Rightarrow> 'a \<Rightarrow> 'a \<Rightarrow> int" where
  "by_key_desc k a b = k b - k a"

interpretation asc: js_comparator "by_key k" for k
  by unfold_locales (auto simp: by_key_def)

interpretation desc: js_comparator "by_key_desc k" for k
  by unfold_locales (auto simp: by_key_desc_def)

section \<open>Maps\<close>

type_synonym ('k, 'v) omap = "('k \<times> 'v) list"

abbreviation om_get :: "('k, 'v) omap \<Rightarrow> 'k \<Rightarrow> 'v option" where
  "om_get m k \<equiv> map_of m k"

fun om_set :: "('k, 'v) omap \<Rightarrow> 'k \<Rightarrow> 'v \<Rightarrow> ('k, 'v) omap" where
  "om_set [] k v = [(k, v)]"
| "om_set ((k', v') # m) k v = (if k' = k then (k, v) # m else (k', v') # om_set m k v)"

definition om_del :: "('k, 'v) omap \<Rightarrow> 'k \<Rightarrow> ('k, 'v) omap" where
  "om_del m k = filter (\<lambda>kv. fst kv \<noteq> k) m"

definition om_has :: "('k, 'v) omap \<Rightarrow> 'k \<Rightarrow> bool" where
  "om_has m k = (om_get m k \<noteq> None)"

definition om_keys :: "('k, 'v) omap \<Rightarrow> 'k list" where
  "om_keys m = map fst m"

definition om_values :: "('k, 'v) omap \<Rightarrow> 'v list" where
  "om_values m = map snd m"

definition om_wf :: "('k, 'v) omap \<Rightarrow> bool" where
  "om_wf m = distinct (map fst m)"

lemma om_get_set [simp, om_simps]:
  "om_get (om_set m k v) k' = (if k' = k then Some v else om_get m k')"
  by (induction m k v rule: om_set.induct) auto

lemma om_get_del [simp, om_simps]:
  "om_get (om_del m k) k' = (if k' = k then None else om_get m k')"
  by (induction m) (auto simp: om_del_def)

lemma om_keys_set [om_simps]: "set (om_keys (om_set m k v)) = insert k (set (om_keys m))"
  by (induction m k v rule: om_set.induct) (auto simp: om_keys_def)

lemma om_keys_del [om_simps]: "set (om_keys (om_del m k)) = set (om_keys m) - {k}"
  by (auto simp: om_keys_def om_del_def)

lemma om_set_fst: "set (map fst (om_set m k v)) = insert k (set (map fst m))"
  by (induction m k v rule: om_set.induct) auto

lemma om_wf_Nil [simp]: "om_wf []"
  by (simp add: om_wf_def)

lemma om_wf_set [simp]: "om_wf m \<Longrightarrow> om_wf (om_set m k v)"
  unfolding om_wf_def using om_set_fst [of m k v]
  by (induction m k v rule: om_set.induct) (auto simp: om_set_fst [simplified])

lemma om_wf_del [simp]: "om_wf m \<Longrightarrow> om_wf (om_del m k)"
  by (simp add: om_wf_def om_del_def distinct_map_filter)

lemma om_get_in_values: "om_get m k = Some v \<Longrightarrow> v \<in> set (om_values m)"
  by (force simp: om_values_def dest: map_of_SomeD)

lemma om_mem_get: "om_wf m \<Longrightarrow> (k, v) \<in> set m \<longleftrightarrow> om_get m k = Some v"
  by (simp add: om_wf_def)

lemma om_set_absent: "om_get m k = None \<Longrightarrow> om_set m k v = m @ [(k, v)]"
  by (induction m k v rule: om_set.induct) (auto split: if_splits)

lemma om_del_absent: "om_get m k = None \<Longrightarrow> om_del m k = m"
  by (auto simp: om_del_def map_of_eq_None_iff intro!: filter_True)

text \<open>What a client of a \<open>Map\<close> relies on.\<close>

locale js_map =
  fixes get :: "'m \<Rightarrow> 'k \<Rightarrow> 'v option"
    and put :: "'m \<Rightarrow> 'k \<Rightarrow> 'v \<Rightarrow> 'm"
    and del :: "'m \<Rightarrow> 'k \<Rightarrow> 'm"
  assumes get_put: "get (put m k v) = (get m)(k := Some v)"
    and get_del: "get (del m k) = (get m)(k := None)"
begin

lemma get_put_same: "get (put m k v) k = Some v"
  by (simp add: get_put)

lemma get_put_other: "k' \<noteq> k \<Longrightarrow> get (put m k v) k' = get m k'"
  by (simp add: get_put)

lemma get_put_put: "get (put (put m k v) k w) = get (put m k w)"
  by (simp add: get_put)

lemma get_put_commute: "k \<noteq> k' \<Longrightarrow> get (put (put m k v) k' w) = get (put (put m k' w) k v)"
  by (auto simp: get_put)

lemma get_del_put: "get (del (put m k v) k) = get (del m k)"
  by (auto simp: get_put get_del)

text \<open>A property of every stored value is kept by storing a value that has it and by deletion.\<close>

lemma all_put:
  "(\<And>k' v'. get m k' = Some v' \<Longrightarrow> P k' v') \<Longrightarrow> P k v \<Longrightarrow> get (put m k v) k' = Some v' \<Longrightarrow> P k' v'"
  by (auto simp: get_put split: if_splits)

lemma all_del:
  "(\<And>k' v'. get m k' = Some v' \<Longrightarrow> P k' v') \<Longrightarrow> get (del m k) k' = Some v' \<Longrightarrow> P k' v'"
  by (auto simp: get_del split: if_splits)

end

interpretation om: js_map map_of om_set om_del
  by unfold_locales (simp_all add: fun_eq_iff)

section \<open>Components that evolve\<close>

text \<open>
  A component whose operations keep an invariant and move its state forward in some order: both
  then hold over any sequence of operations.
\<close>

locale machine =
  fixes step :: "'op \<Rightarrow> 's \<Rightarrow> 's"
    and inv :: "'s \<Rightarrow> bool"
    and le :: "'s \<Rightarrow> 's \<Rightarrow> bool"
  assumes step_inv: "inv s \<Longrightarrow> inv (step oper s)"
    and step_le: "inv s \<Longrightarrow> le s (step oper s)"
    and le_refl: "le s s"
    and le_trans: "le s t \<Longrightarrow> le t u \<Longrightarrow> le s u"
begin

lemma run_inv: "inv s \<Longrightarrow> inv (fold step ops s)"
  by (induction ops arbitrary: s) (simp_all add: step_inv)

lemma run_le: "inv s \<Longrightarrow> le s (fold step ops s)"
proof (induction ops arbitrary: s)
  case (Cons oper ops)
  then show ?case using step_inv step_le le_trans by (metis fold_simps(2))
qed (simp add: le_refl)

lemma run_later: "inv s \<Longrightarrow> le (fold step before s) (fold step (before @ after) s)"
  using run_inv run_le by simp

end

section \<open>JavaScript values\<close>

text \<open>A value of unknown shape: what \<open>JSON.parse\<close> gives, and \<open>undefined\<close>.\<close>

datatype js_num = Fin rat | NaN | PosInf | NegInf

datatype json =
    JUndef | JNull | JBool bool | JNum js_num | JStr string | JArr "json list"
  | JObj "(string \<times> json) list"

section \<open>The host\<close>

text \<open>
  What ECMAScript leaves to the implementation, or what depends on the machine, is an argument of
  the functions that use it: \<open>Date.parse\<close> (\<^const>\<open>None\<close> for NaN), \<open>Date.prototype.toISOString\<close>
  and \<open>String.prototype.localeCompare\<close>.
\<close>

record js_host =
  hostDateParse :: "string \<Rightarrow> int option"
  hostToISO :: "int \<Rightarrow> string"
  hostLocaleCompare :: "string \<Rightarrow> string \<Rightarrow> int"

end
