(* ===== verification/TaskTypes.thy ===== *)
theory TaskTypes
  imports JsBase
begin

text \<open>
  The enumerations and plain records of src/src/core/models/task.ts: task status, priority and
  verdict, lane sessions (one run of a lane step by an agent session), handoffs between lanes,
  comments and fallback agents. Enumerations are datatypes with the function that gives the string
  the code compares or prints; interfaces are records whose fields carry a two-letter prefix,
  because several interfaces share field names. Times that the code stores as ISO strings are
  strings.
\<close>

section \<open>Task status, priority, verdict\<close>

datatype task_status =
    TS_PENDING | TS_IN_PROGRESS | TS_REVIEW_REQUIRED | TS_COMPLETED | TS_NEEDS_FIX | TS_BLOCKED
  | TS_CANCELLED

fun task_status_str :: "task_status \<Rightarrow> string" where
  "task_status_str TS_PENDING = ''PENDING''"
| "task_status_str TS_IN_PROGRESS = ''IN_PROGRESS''"
| "task_status_str TS_REVIEW_REQUIRED = ''REVIEW_REQUIRED''"
| "task_status_str TS_COMPLETED = ''COMPLETED''"
| "task_status_str TS_NEEDS_FIX = ''NEEDS_FIX''"
| "task_status_str TS_BLOCKED = ''BLOCKED''"
| "task_status_str TS_CANCELLED = ''CANCELLED''"

datatype task_priority = TP_LOW | TP_MEDIUM | TP_HIGH | TP_URGENT

datatype verification_verdict = VV_APPROVED | VV_NOT_APPROVED | VV_BLOCKED

section \<open>Lane sessions\<close>

datatype lane_status = LaneRunning | LaneCompleted | LaneFailed | LaneTimedOut | LaneTransitioned

fun lane_status_str :: "lane_status \<Rightarrow> string" where
  "lane_status_str LaneRunning = ''running''"
| "lane_status_str LaneCompleted = ''completed''"
| "lane_status_str LaneFailed = ''failed''"
| "lane_status_str LaneTimedOut = ''timed_out''"
| "lane_status_str LaneTransitioned = ''transitioned''"

datatype lane_loop_mode = WatchdogRetry | RalphLoop

datatype lane_completion_requirement = TurnComplete | CompletionSummary | VerificationReport

datatype lane_recovery_reason =
    WatchdogInactivity | AgentFailed | CompletionCriteriaNotMet | EnvironmentFailure
  | TurnCancelled | UserCancelled | RestartInterrupted | RateLimited | ManualRerun

fun recovery_reason_str :: "lane_recovery_reason \<Rightarrow> string" where
  "recovery_reason_str WatchdogInactivity = ''watchdog_inactivity''"
| "recovery_reason_str AgentFailed = ''agent_failed''"
| "recovery_reason_str CompletionCriteriaNotMet = ''completion_criteria_not_met''"
| "recovery_reason_str EnvironmentFailure = ''environment_failure''"
| "recovery_reason_str TurnCancelled = ''turn_cancelled''"
| "recovery_reason_str UserCancelled = ''user_cancelled''"
| "recovery_reason_str RestartInterrupted = ''restart_interrupted''"
| "recovery_reason_str RateLimited = ''rate_limited''"
| "recovery_reason_str ManualRerun = ''manual_rerun''"

record lane_session =
  ls_sessionId :: string
  ls_routaAgentId :: "string option"
  ls_worktreeId :: "string option"
  ls_cwd :: "string option"
  ls_columnId :: "string option"
  ls_columnName :: "string option"
  ls_stepId :: "string option"
  ls_stepIndex :: "int option"
  ls_stepName :: "string option"
  ls_provider :: "string option"
  ls_role :: "string option"
  ls_specialistId :: "string option"
  ls_specialistName :: "string option"
  ls_model :: "string option"
  ls_reasoningEffort :: "string option"
  ls_transport :: "string option"
  ls_externalTaskId :: "string option"
  ls_contextId :: "string option"
  ls_attempt :: "int option"
  ls_loopMode :: "lane_loop_mode option"
  ls_completionRequirement :: "lane_completion_requirement option"
  ls_objective :: "string option"
  ls_lastActivityAt :: "string option"
  ls_recoveredFromSessionId :: "string option"
  ls_recoveryReason :: "lane_recovery_reason option"
  ls_retryAfterAt :: "string option"
  ls_laneRerunRequestedAt :: "string option"
  ls_attentionReason :: "string option"
  ls_status :: lane_status
  ls_startedAt :: string
  ls_completedAt :: "string option"

section \<open>Handoffs, comments, fallback agents\<close>

datatype handoff_request_type = EnvironmentPreparation | RuntimeContext | Clarification | RerunCommand

datatype handoff_status = HoRequested | HoDelivered | HoCompleted | HoBlocked | HoFailed

fun handoff_status_str :: "handoff_status \<Rightarrow> string" where
  "handoff_status_str HoRequested = ''requested''"
| "handoff_status_str HoDelivered = ''delivered''"
| "handoff_status_str HoCompleted = ''completed''"
| "handoff_status_str HoBlocked = ''blocked''"
| "handoff_status_str HoFailed = ''failed''"

record lane_handoff =
  lh_id :: string
  lh_fromSessionId :: string
  lh_toSessionId :: string
  lh_fromColumnId :: "string option"
  lh_toColumnId :: "string option"
  lh_worktreeId :: "string option"
  lh_cwd :: "string option"
  lh_requestType :: handoff_request_type
  lh_request :: string
  lh_status :: handoff_status
  lh_requestedAt :: string
  lh_respondedAt :: "string option"
  lh_responseSummary :: "string option"

datatype comment_source = LegacyImport | UpdateCard

record task_comment =
  tc_id :: string
  tc_body :: string
  tc_createdAt :: string
  tc_source :: "comment_source option"
  tc_agentId :: "string option"
  tc_sessionId :: "string option"

record fallback_agent =
  fa_providerId :: "string option"
  fa_role :: "string option"
  fa_specialistId :: "string option"
  fa_specialistName :: "string option"

text \<open>The strings of the enumerations tell their values apart.\<close>

lemma lane_status_str_inj: "lane_status_str a = lane_status_str b \<longleftrightarrow> a = b"
  by (cases a; cases b) simp_all

lemma task_status_str_inj: "task_status_str a = task_status_str b \<longleftrightarrow> a = b"
  by (cases a; cases b) simp_all

lemma recovery_reason_str_inj: "recovery_reason_str a = recovery_reason_str b \<longleftrightarrow> a = b"
  by (cases a; cases b) simp_all

section \<open>Splitting a legacy comment\<close>

text \<open>\<open>hydrateTaskComments\<close> and \<open>splitLegacyTaskComment\<close>: a card without structured comments
  shows its old free-text comment as one entry.\<close>

definition splitLegacyTaskComment :: "string option \<Rightarrow> task_comment list" where
  "splitLegacyTaskComment comment =
     (let trimmedText = map_option trim comment in
      if \<not> truthy trimmedText then []
      else [\<lparr>tc_id = ''legacy-comment-1'', tc_body = the trimmedText, tc_createdAt = [],
             tc_source = Some LegacyImport, tc_agentId = None, tc_sessionId = None\<rparr>])"

definition hydrateTaskComments :: "task_comment list option \<Rightarrow> string option \<Rightarrow> task_comment list" where
  "hydrateTaskComments comments legacyComment =
     (if length (orDefault comments []) > 0 then orDefault comments []
      else splitLegacyTaskComment legacyComment)"

definition buildInitialTaskComments :: "string \<Rightarrow> string option \<Rightarrow> string \<Rightarrow> task_comment list" where
  "buildInitialTaskComments newId comment nowIso =
     (let trimmedText = map_option trim comment in
      if \<not> truthy trimmedText then []
      else [\<lparr>tc_id = newId, tc_body = the trimmedText, tc_createdAt = nowIso,
             tc_source = Some LegacyImport, tc_agentId = None, tc_sessionId = None\<rparr>])"

lemma splitLegacy_bodies: "c \<in> set (splitLegacyTaskComment m) \<Longrightarrow> tc_body c \<noteq> [] \<and> trimmed (tc_body c)"
  by (cases m) (auto simp: splitLegacyTaskComment_def Let_def split: if_splits)

lemma buildInitial_bodies: "c \<in> set (buildInitialTaskComments i m t) \<Longrightarrow> tc_body c \<noteq> [] \<and> trimmed (tc_body c)"
  by (cases m) (auto simp: buildInitialTaskComments_def Let_def split: if_splits)

lemma hydrate_idem: "hydrateTaskComments (Some (hydrateTaskComments cs m)) m = hydrateTaskComments cs m"
  by (simp add: hydrateTaskComments_def)

end
