(* ===== verification/KanbanModel.thy ===== *)
theory KanbanModel
  imports TaskTypes
begin

text \<open>
  The Kanban board model, src/src/core/models/kanban.ts and models/task-requirements.ts: columns
  and their stages, the automation of a column and its steps, default positions, the happy path
  through the columns, and the two maps between columns and task statuses.
\<close>

section \<open>Data\<close>

datatype column_stage = StBacklog | StTodo | StDev | StReview | StBlocked | StDone

fun stage_str :: "column_stage \<Rightarrow> string" where
  "stage_str StBacklog = ''backlog''"
| "stage_str StTodo = ''todo''"
| "stage_str StDev = ''dev''"
| "stage_str StReview = ''review''"
| "stage_str StBlocked = ''blocked''"
| "stage_str StDone = ''done''"

datatype kanban_transport = TrAcp | TrA2a

datatype gate_mode = GateBlocking | GateWarning

datatype transition_type = TtEntry | TtExit | TtBoth

datatype required_artifact = RaScreenshot | RaTestResults | RaCodeDiff

datatype required_task_field =
    RfScope | RfAcceptanceCriteria | RfVerificationCommands | RfTestCases | RfVerificationPlan
  | RfDependenciesDeclared

definition KANBAN_REQUIRED_TASK_FIELDS :: "required_task_field list" where
  "KANBAN_REQUIRED_TASK_FIELDS =
     [RfScope, RfAcceptanceCriteria, RfVerificationCommands, RfTestCases, RfVerificationPlan,
      RfDependenciesDeclared]"

definition DEFAULT_DEV_REQUIRED_TASK_FIELDS :: "required_task_field list" where
  "DEFAULT_DEV_REQUIRED_TASK_FIELDS = [RfScope, RfAcceptanceCriteria, RfVerificationPlan]"

record delivery_rules =
  dr_requireCommittedChanges :: "bool option"
  dr_requireCleanWorktree :: "bool option"
  dr_requirePullRequestReady :: "bool option"

record contract_rules =
  cr_requireCanonicalStory :: "bool option"
  cr_loopBreakerThreshold :: "int option"

record automation_step =
  as_id :: "string option"
  as_transport :: "kanban_transport option"
  as_providerId :: "string option"
  as_role :: "string option"
  as_specialistId :: "string option"
  as_specialistName :: "string option"
  as_specialistLocale :: "string option"
  as_model :: "string option"
  as_reasoningEffort :: "string option"
  as_agentCardUrl :: "string option"
  as_skillId :: "string option"
  as_authConfigId :: "string option"

record column_automation =
  ca_enabled :: bool
  ca_steps :: "automation_step list option"
  ca_providerId :: "string option"
  ca_role :: "string option"
  ca_specialistId :: "string option"
  ca_specialistName :: "string option"
  ca_specialistLocale :: "string option"
  ca_transitionType :: "transition_type option"
  ca_requiredArtifacts :: "required_artifact list option"
  ca_requiredTaskFields :: "required_task_field list option"
  ca_contractRules :: "contract_rules option"
  ca_deliveryRules :: "delivery_rules option"
  ca_requiredChecklist :: "string list option"
  ca_requiredHumanApproval :: "bool option"
  ca_validatorCommand :: "string option"
  ca_gateMode :: "gate_mode option"
  ca_autoAdvanceOnSuccess :: "bool option"

datatype column_width = WCompact | WStandard | WWide

record kanban_column =
  kc_id :: string
  kc_name :: string
  kc_color :: "string option"
  kc_position :: int
  kc_stage :: column_stage
  kc_visible :: "bool option"
  kc_width :: "column_width option"
  kc_automation :: "column_automation option"

record kanban_board =
  kb_id :: string
  kb_workspaceId :: string
  kb_name :: string
  kb_isDefault :: bool
  kb_githubToken :: "string option"
  kb_columns :: "kanban_column list"
  kb_createdAt :: int
  kb_updatedAt :: int

section \<open>Column order and positions\<close>

definition DEFAULT_KANBAN_COLUMN_ORDER :: "column_stage list" where
  "DEFAULT_KANBAN_COLUMN_ORDER = [StBacklog, StTodo, StDev, StReview, StDone, StBlocked]"

definition KANBAN_HAPPY_PATH_COLUMN_ORDER :: "column_stage list" where
  "KANBAN_HAPPY_PATH_COLUMN_ORDER = [StBacklog, StTodo, StDev, StReview, StDone]"

definition default_column :: "string \<Rightarrow> string \<Rightarrow> string \<Rightarrow> int \<Rightarrow> column_stage \<Rightarrow> kanban_column" where
  "default_column cid name color pos stage =
     \<lparr>kc_id = cid, kc_name = name, kc_color = Some color, kc_position = pos, kc_stage = stage,
      kc_visible = None, kc_width = None, kc_automation = None\<rparr>"

definition DEFAULT_KANBAN_COLUMNS :: "kanban_column list" where
  "DEFAULT_KANBAN_COLUMNS =
     [default_column ''backlog'' ''Backlog'' ''slate'' 0 StBacklog,
      default_column ''todo'' ''Todo'' ''sky'' 1 StTodo,
      default_column ''dev'' ''Dev'' ''amber'' 2 StDev,
      default_column ''review'' ''Review'' ''slate'' 3 StReview,
      default_column ''done'' ''Done'' ''emerald'' 4 StDone,
      default_column ''blocked'' ''Blocked'' ''rose'' 5 StBlocked]"

definition getDefaultKanbanColumnPosition :: "string option \<Rightarrow> nat" where
  "getDefaultKanbanColumnPosition columnId =
     (let normalizedColumnId = map_option toLowerCase columnId;
          index = find_index (\<lambda>st. Some (stage_str st) = normalizedColumnId) DEFAULT_KANBAN_COLUMN_ORDER
      in case index of Some i \<Rightarrow> i | None \<Rightarrow> length DEFAULT_KANBAN_COLUMN_ORDER)"

definition getNextHappyPathColumnId :: "string option \<Rightarrow> string option" where
  "getNextHappyPathColumnId currentColumnId =
     (let normalizedColumnId = orDefault (map_option toLowerCase currentColumnId) ''backlog''
      in case find_index (\<lambda>st. stage_str st = normalizedColumnId) KANBAN_HAPPY_PATH_COLUMN_ORDER of
           None \<Rightarrow> None
         | Some i \<Rightarrow>
             if i < length KANBAN_HAPPY_PATH_COLUMN_ORDER - 1
             then Some (stage_str (KANBAN_HAPPY_PATH_COLUMN_ORDER ! (i + 1))) else None)"

definition compareColumnPositions :: "kanban_column \<Rightarrow> kanban_column \<Rightarrow> int" where
  "compareColumnPositions left right =
     (let rankDiff = int (getDefaultKanbanColumnPosition (Some (kc_id left)))
                   - int (getDefaultKanbanColumnPosition (Some (kc_id right)))
      in if rankDiff \<noteq> 0 then rankDiff else kc_position left - kc_position right)"

definition normalizeDefaultKanbanColumnPositions :: "kanban_column list \<Rightarrow> kanban_column list" where
  "normalizeDefaultKanbanColumnPositions columns =
     (let sorted = sort_by compareColumnPositions columns
      in map (\<lambda>i. (sorted ! i)\<lparr>kc_position := int i\<rparr>) [0..<length sorted])"

definition cloneColumnAutomation :: "column_automation \<Rightarrow> column_automation" where
  "cloneColumnAutomation a =
     a\<lparr>ca_requiredArtifacts := map_option (map (\<lambda>x. x)) (ca_requiredArtifacts a),
       ca_requiredTaskFields := map_option (map (\<lambda>x. x)) (ca_requiredTaskFields a),
       ca_contractRules := ca_contractRules a,
       ca_deliveryRules := ca_deliveryRules a,
       ca_requiredChecklist := map_option (map (\<lambda>x. x)) (ca_requiredChecklist a),
       ca_steps := map_option (map (\<lambda>step. step)) (ca_steps a)\<rparr>"

definition cloneKanbanColumns :: "kanban_column list \<Rightarrow> kanban_column list" where
  "cloneKanbanColumns columns =
     map (\<lambda>column. column\<lparr>kc_automation := map_option cloneColumnAutomation (kc_automation column)\<rparr>) columns"

section \<open>Automation steps\<close>

definition createFallbackAutomationStep :: "column_automation \<Rightarrow> automation_step" where
  "createFallbackAutomationStep a =
     \<lparr>as_id = Some ''step-1'', as_transport = None, as_providerId = ca_providerId a,
      as_role = ca_role a, as_specialistId = ca_specialistId a,
      as_specialistName = ca_specialistName a, as_specialistLocale = ca_specialistLocale a,
      as_model = None, as_reasoningEffort = None, as_agentCardUrl = None, as_skillId = None,
      as_authConfigId = None\<rparr>"

definition with_step_id :: "nat \<Rightarrow> automation_step \<Rightarrow> automation_step" where
  "with_step_id index step =
     step\<lparr>as_id := orElse (map_option trim (as_id step)) (Some (''step-'' @ show_nat (index + 1)))\<rparr>"

definition step_is_configured :: "automation_step \<Rightarrow> bool" where
  "step_is_configured step =
     (as_transport step = Some TrA2a
      \<or> truthy (as_providerId step) \<or> truthy (as_role step) \<or> truthy (as_specialistId step)
      \<or> truthy (as_specialistName step) \<or> truthy (as_agentCardUrl step)
      \<or> truthy (as_skillId step) \<or> truthy (as_authConfigId step))"

definition getKanbanAutomationSteps :: "column_automation option \<Rightarrow> automation_step list" where
  "getKanbanAutomationSteps automation =
     (case automation of None \<Rightarrow> [] | Some a \<Rightarrow>
        if \<not> ca_enabled a then [] else
        (let normalizedSteps =
               filter step_is_configured
                 (map (\<lambda>(index, step). with_step_id index step)
                   (List.enumerate 0 (orDefault (ca_steps a) [])))
         in if length normalizedSteps > 0 then normalizedSteps
            else [createFallbackAutomationStep a]))"

definition getPrimaryKanbanAutomationStep :: "column_automation option \<Rightarrow> automation_step option" where
  "getPrimaryKanbanAutomationStep automation =
     (case getKanbanAutomationSteps automation of [] \<Rightarrow> None | s # _ \<Rightarrow> Some s)"

definition normalizeKanbanAutomation :: "column_automation option \<Rightarrow> column_automation option" where
  "normalizeKanbanAutomation automation =
     (case automation of None \<Rightarrow> None | Some a \<Rightarrow>
        (let steps = getKanbanAutomationSteps (Some a);
             primaryStep = (case steps of [] \<Rightarrow> None | s # _ \<Rightarrow> Some s)
         in Some (a\<lparr>ca_steps := Some steps,
                    ca_providerId := Option.bind primaryStep as_providerId,
                    ca_role := Option.bind primaryStep as_role,
                    ca_specialistId := Option.bind primaryStep as_specialistId,
                    ca_specialistName := Option.bind primaryStep as_specialistName,
                    ca_specialistLocale := Option.bind primaryStep as_specialistLocale\<rparr>)))"

section \<open>Boards, and columns against task statuses\<close>

definition createKanbanBoard ::
  "int \<Rightarrow> string \<Rightarrow> string \<Rightarrow> string \<Rightarrow> bool option \<Rightarrow> string option \<Rightarrow> kanban_column list option
   \<Rightarrow> kanban_board" where
  "createKanbanBoard now bid workspaceId name isDefault githubToken columns =
     \<lparr>kb_id = bid, kb_workspaceId = workspaceId, kb_name = name,
      kb_isDefault = orDefault isDefault False,
      kb_githubToken = orElse (map_option trim githubToken) None,
      kb_columns = cloneKanbanColumns (orDefault columns DEFAULT_KANBAN_COLUMNS),
      kb_createdAt = now, kb_updatedAt = now\<rparr>"

definition columnIdToTaskStatus :: "string option \<Rightarrow> task_status" where
  "columnIdToTaskStatus columnId =
     (let c = toLowerCase (orDefault columnId ''backlog'') in
      if c = ''dev'' then TS_IN_PROGRESS
      else if c = ''review'' then TS_REVIEW_REQUIRED
      else if c = ''blocked'' then TS_BLOCKED
      else if c = ''done'' then TS_COMPLETED
      else TS_PENDING)"

definition columnStageToTaskStatus :: "column_stage option \<Rightarrow> task_status" where
  "columnStageToTaskStatus stage =
     (case orDefault stage StBacklog of
        StDev \<Rightarrow> TS_IN_PROGRESS | StReview \<Rightarrow> TS_REVIEW_REQUIRED | StBlocked \<Rightarrow> TS_BLOCKED
      | StDone \<Rightarrow> TS_COMPLETED | _ \<Rightarrow> TS_PENDING)"

definition resolveTaskStatusForBoardColumn :: "kanban_column list \<Rightarrow> string option \<Rightarrow> task_status" where
  "resolveTaskStatusForBoardColumn columns columnId =
     (case List.find (\<lambda>entry. Some (kc_id entry) = columnId) columns of
        Some column \<Rightarrow> columnStageToTaskStatus (Some (kc_stage column))
      | None \<Rightarrow> columnIdToTaskStatus columnId)"

definition taskStatusToColumnId :: "string option \<Rightarrow> string" where
  "taskStatusToColumnId status =
     (let s = toUpperCase (orDefault status (task_status_str TS_PENDING)) in
      if s = task_status_str TS_IN_PROGRESS then ''dev''
      else if s = task_status_str TS_REVIEW_REQUIRED then ''review''
      else if s = task_status_str TS_BLOCKED then ''blocked''
      else if s = task_status_str TS_COMPLETED then ''done''
      else ''backlog'')"


section \<open>Positions\<close>

interpretation column_order: js_comparator compareColumnPositions
  by unfold_locales (auto simp: compareColumnPositions_def Let_def split: if_splits)

lemma compareColumnPositions_le:
  "getDefaultKanbanColumnPosition (Some (kc_id a)) \<le> getDefaultKanbanColumnPosition (Some (kc_id b))
   \<Longrightarrow> kc_position a \<le> kc_position b \<Longrightarrow> compareColumnPositions a b \<le> 0"
  by (simp add: compareColumnPositions_def Let_def)

lemma length_normalizePositions [simp]:
  "length (normalizeDefaultKanbanColumnPositions cs) = length cs"
  by (simp add: normalizeDefaultKanbanColumnPositions_def Let_def)

lemma normalizePositions_nth:
  "i < length cs \<Longrightarrow>
   normalizeDefaultKanbanColumnPositions cs ! i = (sort_by compareColumnPositions cs ! i)\<lparr>kc_position := int i\<rparr>"
  by (simp add: normalizeDefaultKanbanColumnPositions_def Let_def)

lemma rank_normalizePositions:
  assumes "i \<le> j" and "j < length cs"
  shows "getDefaultKanbanColumnPosition (Some (kc_id (sort_by compareColumnPositions cs ! i)))
       \<le> getDefaultKanbanColumnPosition (Some (kc_id (sort_by compareColumnPositions cs ! j)))"
proof (cases "i = j")
  case False
  with assms have "compareColumnPositions (sort_by compareColumnPositions cs ! i)
                     (sort_by compareColumnPositions cs ! j) \<le> 0"
    using column_order.sort_by_sorted [of cs] by (simp add: sorted_wrt_iff_nth_less)
  then show ?thesis by (auto simp: compareColumnPositions_def Let_def split: if_splits)
qed simp

text \<open>Normalising the default positions numbers the columns 0, 1, ... in the order of their default rank (unknown columns last), keeps exactly the same columns, and doing it twice changes nothing.\<close>
theorem normalize_positions_ordered:
  "map kc_position (normalizeDefaultKanbanColumnPositions cs) = map int [0..<length cs]
   \<and> sorted (map (\<lambda>c. getDefaultKanbanColumnPosition (Some (kc_id c))) (normalizeDefaultKanbanColumnPositions cs))
   \<and> mset (map kc_id (normalizeDefaultKanbanColumnPositions cs)) = mset (map kc_id cs)
   \<and> normalizeDefaultKanbanColumnPositions (normalizeDefaultKanbanColumnPositions cs)
     = normalizeDefaultKanbanColumnPositions cs"
proof -
  let ?n = normalizeDefaultKanbanColumnPositions
  let ?s = "sort_by compareColumnPositions cs"
  have pos: "map kc_position (?n cs) = map int [0..<length cs]"
    by (rule nth_equalityI) (simp_all add: normalizePositions_nth)
  have ids: "map kc_id (?n cs) = map kc_id ?s"
    by (rule nth_equalityI) (simp_all add: normalizePositions_nth)
  have le: "compareColumnPositions (?n cs ! i) (?n cs ! j) \<le> 0" if "i < j" "j < length cs" for i j
    using rank_normalizePositions [of i j cs] that
    by (intro compareColumnPositions_le) (simp_all add: normalizePositions_nth)
  then have stays: "sort_by compareColumnPositions (?n cs) = ?n cs"
    by (intro sort_by_id) (simp add: sorted_wrt_iff_nth_less)
  have "sorted (map (\<lambda>c. getDefaultKanbanColumnPosition (Some (kc_id c))) (?n cs))"
    using rank_normalizePositions [of _ _ cs]
    by (simp add: sorted_iff_nth_mono normalizePositions_nth)
  moreover have "mset (map kc_id (?n cs)) = mset (map kc_id cs)"
    unfolding ids by (metis mset_map mset_sort_by)
  moreover have "?n (?n cs) = ?n cs"
    by (rule nth_equalityI) (simp_all add: normalizePositions_nth stays)
  ultimately show ?thesis using pos by blast
qed

section \<open>Well-formed steps\<close>

lemma with_step_id_id: "\<exists>s. as_id (with_step_id i st) = Some s \<and> s \<noteq> [] \<and> trimmed s"
proof (cases "truthy (map_option trim (as_id st))")
  case True
  then show ?thesis by (cases "as_id st") (auto simp: with_step_id_def orElse_def)
next
  case False
  have "\<not> is_ws CHR ''s''" by code_simp
  moreover have "\<not> is_ws (last (''step-'' @ show_nat (i + 1)))"
    using show_nat_not_ws [of "i + 1"] by (simp add: last_in_set del: last_ConsR)
  ultimately show ?thesis using False by (auto simp: with_step_id_def orElse_def trimmed_def)
qed

lemma with_step_id_fixed: "as_id st = Some s \<Longrightarrow> s \<noteq> [] \<Longrightarrow> trimmed s \<Longrightarrow> with_step_id i st = st"
  by (simp add: with_step_id_def orElse_def trim_trimmed)

lemma step_is_configured_id [simp]: "step_is_configured (with_step_id i st) = step_is_configured st"
  by (simp add: step_is_configured_def with_step_id_def)

text \<open>A step that an agent session can be started for: its id is not blank.\<close>

definition step_ok :: "automation_step \<Rightarrow> bool" where
  "step_ok st = (\<exists>s. as_id st = Some s \<and> s \<noteq> [] \<and> trimmed s)"

lemma getSteps_ok: "st \<in> set (getKanbanAutomationSteps a) \<Longrightarrow> step_ok st"
proof -
  have "step_ok (createFallbackAutomationStep x)" for x
    unfolding step_ok_def createFallbackAutomationStep_def trimmed_def by (simp add: is_ws_def)
  moreover assume "st \<in> set (getKanbanAutomationSteps a)"
  ultimately show ?thesis
    using with_step_id_id
    by (fastforce simp: getKanbanAutomationSteps_def Let_def step_ok_def split: option.splits if_splits)
qed

lemma renumber_fixed:
  assumes "\<forall>st\<in>set xs. step_ok st"
  shows "map (\<lambda>(index, step). with_step_id index step) (List.enumerate n xs) = xs"
  using assms
proof (induction xs arbitrary: n)
  case (Cons x xs)
  then show ?case using with_step_id_fixed by (auto simp: step_ok_def)
qed simp

lemma getSteps_normal_form:
  assumes "\<forall>st\<in>set xs. step_ok st" and "ca_steps a = Some xs" and "ca_enabled a"
  shows "getKanbanAutomationSteps (Some a)
         = (if filter step_is_configured xs \<noteq> [] then filter step_is_configured xs
            else [createFallbackAutomationStep a])"
  using assms by (simp add: getKanbanAutomationSteps_def Let_def renumber_fixed)


lemma getSteps_configured:
  assumes "st \<in> set (getKanbanAutomationSteps (Some a))"
  shows "step_is_configured st \<or> getKanbanAutomationSteps (Some a) = [createFallbackAutomationStep a]"
  using assms by (auto simp: getKanbanAutomationSteps_def Let_def split: if_splits)

lemma fallback_configured_cong:
  "createFallbackAutomationStep a = createFallbackAutomationStep b
   \<longleftrightarrow> ca_providerId a = ca_providerId b \<and> ca_role a = ca_role b \<and> ca_specialistId a = ca_specialistId b
     \<and> ca_specialistName a = ca_specialistName b \<and> ca_specialistLocale a = ca_specialistLocale b"
  by (auto simp: createFallbackAutomationStep_def)

lemma getSteps_eq_Nil [simp]: "getKanbanAutomationSteps (Some a) = [] \<longleftrightarrow> \<not> ca_enabled a"
  by (auto simp: getKanbanAutomationSteps_def Let_def)

lemma getSteps_normalized:
  assumes "normalizeKanbanAutomation (Some a) = Some b"
  shows "getKanbanAutomationSteps (Some b) = getKanbanAutomationSteps (Some a)"
proof (cases "ca_enabled a")
  case False
  with assms show ?thesis
    by (auto simp: normalizeKanbanAutomation_def getKanbanAutomationSteps_def)
next
  case True
  let ?xs = "getKanbanAutomationSteps (Some a)"
  obtain x xs where xs: "?xs = x # xs" using True getSteps_eq_Nil [of a] by (cases ?xs) auto
  have b: "b = a\<lparr>ca_steps := Some ?xs, ca_providerId := as_providerId x, ca_role := as_role x,
      ca_specialistId := as_specialistId x, ca_specialistName := as_specialistName x,
      ca_specialistLocale := as_specialistLocale x\<rparr>"
    using assms xs by (auto simp: normalizeKanbanAutomation_def)
  have nf: "getKanbanAutomationSteps (Some b) = (if filter step_is_configured ?xs \<noteq> []
      then filter step_is_configured ?xs else [createFallbackAutomationStep b])"
    using getSteps_ok True by (intro getSteps_normal_form) (auto simp: b)
  show ?thesis
  proof (cases "\<forall>st\<in>set ?xs. step_is_configured st")
    case True
    then have "filter step_is_configured ?xs = ?xs" by (rule filter_True)
    with nf xs show ?thesis by simp
  next
    case False
    then have one: "?xs = [createFallbackAutomationStep a]"
      using getSteps_configured by blast
    have "createFallbackAutomationStep b = createFallbackAutomationStep a"
      using one xs by (simp add: b createFallbackAutomationStep_def)
    with nf one False show ?thesis by simp
  qed
qed

text \<open>C40. An enabled automation always has at least one step; every step has a non-blank, trimmed id; and every step names what to run, unless the single fallback step built from the column-level fields is used.\<close>
theorem automation_steps_well_formed:
  assumes "ca_enabled a"
  shows "getKanbanAutomationSteps (Some a) \<noteq> []
    \<and> (\<forall>st\<in>set (getKanbanAutomationSteps (Some a)). step_ok st)
    \<and> ((\<forall>st\<in>set (getKanbanAutomationSteps (Some a)). step_is_configured st)
       \<or> getKanbanAutomationSteps (Some a) = [createFallbackAutomationStep a])"
  using assms getSteps_ok getSteps_configured by auto

definition sample_automation :: column_automation where
  "sample_automation =
     \<lparr>ca_enabled = True, ca_steps = Some [], ca_providerId = Some ''claude'', ca_role = Some ''CRAFTER'',
      ca_specialistId = None, ca_specialistName = None, ca_specialistLocale = None,
      ca_transitionType = None, ca_requiredArtifacts = None, ca_requiredTaskFields = None,
      ca_contractRules = None, ca_deliveryRules = None, ca_requiredChecklist = None,
      ca_requiredHumanApproval = None, ca_validatorCommand = None, ca_gateMode = None,
      ca_autoAdvanceOnSuccess = None\<rparr>"

theorem automation_steps_well_formed_witness:
  "getKanbanAutomationSteps (Some sample_automation) = [createFallbackAutomationStep sample_automation]
   \<and> step_ok (createFallbackAutomationStep sample_automation)"
proof -
  have one: "getKanbanAutomationSteps (Some sample_automation) = [createFallbackAutomationStep sample_automation]"
    by (simp add: getKanbanAutomationSteps_def sample_automation_def)
  have "ca_enabled sample_automation" by (simp add: sample_automation_def)
  from automation_steps_well_formed [OF this] one show ?thesis by simp
qed

text \<open>Normalising an automation is idempotent and does not change the steps that will run.\<close>
theorem normalize_automation_idempotent:
  "normalizeKanbanAutomation (normalizeKanbanAutomation a) = normalizeKanbanAutomation a
   \<and> getKanbanAutomationSteps (normalizeKanbanAutomation a) = getKanbanAutomationSteps a"
proof (cases a)
  case (Some x)
  then obtain y where y: "normalizeKanbanAutomation (Some x) = Some y"
    by (auto simp: normalizeKanbanAutomation_def Let_def)
  note steps = getSteps_normalized [OF y]
  have "normalizeKanbanAutomation (Some y) = Some y"
    using y by (simp add: normalizeKanbanAutomation_def [of "Some y"] steps)
      (auto simp: normalizeKanbanAutomation_def Let_def)
  with y steps Some show ?thesis by simp
qed (simp add: normalizeKanbanAutomation_def)

section \<open>The happy path and the statuses\<close>

lemma happy_path_chain:
  "getNextHappyPathColumnId None = Some ''todo''"
  "getNextHappyPathColumnId (Some ''backlog'') = Some ''todo''"
  "getNextHappyPathColumnId (Some ''todo'') = Some ''dev''"
  "getNextHappyPathColumnId (Some ''dev'') = Some ''review''"
  "getNextHappyPathColumnId (Some ''review'') = Some ''done''"
  "getNextHappyPathColumnId (Some ''done'') = None"
  "getNextHappyPathColumnId (Some ''blocked'') = None"
  by code_simp+

text \<open>A step along the happy path goes to the next default column, never to Blocked, and the path stops exactly at Done.\<close>
theorem happy_path_advances:
  assumes "getNextHappyPathColumnId c = Some d"
  shows "getDefaultKanbanColumnPosition (Some d) = Suc (getDefaultKanbanColumnPosition (Some (orDefault c ''backlog'')))
    \<and> d \<in> {''todo'', ''dev'', ''review'', ''done''}
    \<and> columnIdToTaskStatus (Some d) \<noteq> TS_BLOCKED
    \<and> (getNextHappyPathColumnId (Some d) = None \<longleftrightarrow> columnIdToTaskStatus (Some d) = TS_COMPLETED)"
proof -
  define l where "l = toLowerCase (orDefault c ''backlog'')"
  have l: "orDefault (map_option toLowerCase c) ''backlog'' = l"
    by (cases c) (auto simp: l_def toLowerCase_def lower_char_def)
  have "l = ''backlog'' \<and> d = ''todo'' \<or> l = ''todo'' \<and> d = ''dev''
      \<or> l = ''dev'' \<and> d = ''review'' \<or> l = ''review'' \<and> d = ''done''"
    using assms
    by (auto simp: getNextHappyPathColumnId_def l KANBAN_HAPPY_PATH_COLUMN_ORDER_def Let_def
        split: if_splits)
  then show ?thesis
    by (elim disjE conjE; hypsubst)
       (simp_all add: getDefaultKanbanColumnPosition_def l_def [symmetric]
         DEFAULT_KANBAN_COLUMN_ORDER_def, code_simp+)
qed


theorem happy_path_advances_witness:
  "getDefaultKanbanColumnPosition (Some ''review'') = Suc (getDefaultKanbanColumnPosition (Some ''dev''))
    \<and> columnIdToTaskStatus (Some ''review'') \<noteq> TS_BLOCKED"
  using happy_path_advances [OF happy_path_chain(4)] by simp

text \<open>A status goes to a column and back to itself exactly when a column stands for it; the map ignores case; and a column whose status is not PENDING is recovered from that status.\<close>
theorem task_status_column_roundtrip:
  "columnIdToTaskStatus (Some (taskStatusToColumnId (Some (task_status_str st))))
     = (if st \<in> {TS_IN_PROGRESS, TS_REVIEW_REQUIRED, TS_BLOCKED, TS_COMPLETED} then st else TS_PENDING)
   \<and> taskStatusToColumnId (Some (toLowerCase (task_status_str st))) = taskStatusToColumnId (Some (task_status_str st))
   \<and> (columnIdToTaskStatus c \<noteq> TS_PENDING \<longrightarrow>
        taskStatusToColumnId (Some (task_status_str (columnIdToTaskStatus c))) = toLowerCase (orDefault c ''backlog''))"
proof (intro conjI)
  show "columnIdToTaskStatus (Some (taskStatusToColumnId (Some (task_status_str st))))
     = (if st \<in> {TS_IN_PROGRESS, TS_REVIEW_REQUIRED, TS_BLOCKED, TS_COMPLETED} then st else TS_PENDING)"
    by (induct st; code_simp)
  show "taskStatusToColumnId (Some (toLowerCase (task_status_str st))) = taskStatusToColumnId (Some (task_status_str st))"
    by (induct st; code_simp)
  have bk: "taskStatusToColumnId (Some (task_status_str TS_IN_PROGRESS)) = ''dev''"
    "taskStatusToColumnId (Some (task_status_str TS_REVIEW_REQUIRED)) = ''review''"
    "taskStatusToColumnId (Some (task_status_str TS_BLOCKED)) = ''blocked''"
    "taskStatusToColumnId (Some (task_status_str TS_COMPLETED)) = ''done''"
    by code_simp+
  show "columnIdToTaskStatus c \<noteq> TS_PENDING \<longrightarrow>
        taskStatusToColumnId (Some (task_status_str (columnIdToTaskStatus c))) = toLowerCase (orDefault c ''backlog'')"
    unfolding columnIdToTaskStatus_def Let_def by (auto simp: bk simp del: task_status_str.simps)
qed

theorem task_status_column_roundtrip_witness:
  "taskStatusToColumnId (Some (task_status_str (columnIdToTaskStatus (Some ''DEV'')))) = ''dev''"
proof -
  have "columnIdToTaskStatus (Some ''DEV'') \<noteq> TS_PENDING" by code_simp
  then have "taskStatusToColumnId (Some (task_status_str (columnIdToTaskStatus (Some ''DEV''))))
      = toLowerCase (orDefault (Some ''DEV'') ''backlog'')"
    using task_status_column_roundtrip [of TS_PENDING "Some ''DEV''"] by blast
  also have "\<dots> = ''dev''" by code_simp
  finally show ?thesis .
qed

text \<open>On the default board the stage of a column and its id give the same status, for every column id; cloning the columns of a board changes no status.\<close>
theorem default_board_status_agrees:
  "resolveTaskStatusForBoardColumn DEFAULT_KANBAN_COLUMNS c = columnIdToTaskStatus c
   \<and> resolveTaskStatusForBoardColumn (cloneKanbanColumns cs) c = resolveTaskStatusForBoardColumn cs c"
proof
  have strs: "columnIdToTaskStatus (Some ''backlog'') = TS_PENDING"
    "columnIdToTaskStatus (Some ''todo'') = TS_PENDING"
    "columnIdToTaskStatus (Some ''dev'') = TS_IN_PROGRESS"
    "columnIdToTaskStatus (Some ''review'') = TS_REVIEW_REQUIRED"
    "columnIdToTaskStatus (Some ''done'') = TS_COMPLETED"
    "columnIdToTaskStatus (Some ''blocked'') = TS_BLOCKED"
    by code_simp+
  let ?find = "List.find (\<lambda>e. Some (kc_id e) = c) DEFAULT_KANBAN_COLUMNS"
  have found: "columnStageToTaskStatus (Some (kc_stage k)) = columnIdToTaskStatus (Some (kc_id k))"
    if "k \<in> set DEFAULT_KANBAN_COLUMNS" for k
    using that unfolding DEFAULT_KANBAN_COLUMNS_def
    by (auto simp only: list.set insert_iff empty_iff default_column_def kanban_column.select_convs strs
        columnStageToTaskStatus_def orDefault_simps column_stage.case)
  show "resolveTaskStatusForBoardColumn DEFAULT_KANBAN_COLUMNS c = columnIdToTaskStatus c"
  proof (cases ?find)
    case (Some k)
    then have "k \<in> set DEFAULT_KANBAN_COLUMNS" and "Some (kc_id k) = c"
      by (auto dest: find_Some_iff_set)
    with Some found show ?thesis by (auto simp: resolveTaskStatusForBoardColumn_def)
  qed (simp add: resolveTaskStatusForBoardColumn_def)
  have "List.find (\<lambda>e. Some (kc_id e) = c) (cloneKanbanColumns cs)
      = map_option (\<lambda>k. k\<lparr>kc_automation := map_option cloneColumnAutomation (kc_automation k)\<rparr>)
          (List.find (\<lambda>e. Some (kc_id e) = c) cs)"
    unfolding cloneKanbanColumns_def by (induction cs) auto
  then show "resolveTaskStatusForBoardColumn (cloneKanbanColumns cs) c = resolveTaskStatusForBoardColumn cs c"
    by (auto simp: resolveTaskStatusForBoardColumn_def split: option.splits)
qed

end
