(* ===== verification/TaskContext.thy ===== *)
theory TaskContext
  imports TaskTypes
begin

text \<open>
  The retrieval context of a task, src/src/core/models/task.ts from \<open>TaskContextSearchSpec\<close> to
  \<open>mergeTaskJitContextAnalysis\<close>: the search hints of a card and the just-in-time (JIT) snapshot
  with its analyses. The snapshot is read back from stored JSON, and the code checks its shape at
  run time, so the normalisers take a JavaScript value (\<open>json\<close>) and give a typed record; an
  uncaught TypeError (calling \<open>map\<close> on something that is not an array) is \<open>Inl TypeError\<close>. The
  \<open>js_of_\<close> functions are the typed records seen as JavaScript objects again, which is how the code
  passes an already typed value to a normaliser. \<open>nowIso\<close> is \<open>new Date().toISOString()\<close>.
\<close>

section \<open>JavaScript values\<close>

datatype js_error = TypeError

definition falsy :: "json \<Rightarrow> bool" where
  "falsy v = (case v of JUndef \<Rightarrow> True | JNull \<Rightarrow> True | JBool b \<Rightarrow> \<not> b
     | JNum n \<Rightarrow> n = NaN \<or> n = Fin 0 | JStr s \<Rightarrow> s = [] | JArr vs \<Rightarrow> False | JObj kvs \<Rightarrow> False)"

text \<open>Reading one of the properties below: only an object has them.\<close>

definition jprop :: "json \<Rightarrow> string \<Rightarrow> json" where
  "jprop v k = (case v of JObj kvs \<Rightarrow> (case map_of kvs k of Some w \<Rightarrow> w | None \<Rightarrow> JUndef) | _ \<Rightarrow> JUndef)"

fun json_strings :: "json list \<Rightarrow> string list" where
  "json_strings [] = []"
| "json_strings (JStr s # vs) = s # json_strings vs"
| "json_strings (v # vs) = json_strings vs"

fun map_or_throw :: "('a \<Rightarrow> js_error + 'b option) \<Rightarrow> 'a list \<Rightarrow> js_error + 'b list" where
  "map_or_throw f [] = Inr []"
| "map_or_throw f (v # vs) = (case f v of Inl e \<Rightarrow> Inl e | Inr r \<Rightarrow>
     (case map_or_throw f vs of Inl e \<Rightarrow> Inl e
      | Inr rs \<Rightarrow> Inr (case r of None \<Rightarrow> rs | Some x \<Rightarrow> x # rs)))"

text \<open>\<open>(v ?? []).map(f).filter(Boolean)\<close>\<close>

definition map_entries :: "(json \<Rightarrow> js_error + 'b option) \<Rightarrow> json \<Rightarrow> js_error + 'b list" where
  "map_entries f v = (case v of JUndef \<Rightarrow> Inr [] | JNull \<Rightarrow> Inr [] | JArr vs \<Rightarrow> map_or_throw f vs
     | _ \<Rightarrow> Inl TypeError)"

section \<open>Records\<close>

record search_spec =
  sp_query :: "string option"
  sp_featureCandidates :: "string list option"
  sp_relatedFiles :: "string list option"
  sp_routeCandidates :: "string list option"
  sp_apiCandidates :: "string list option"
  sp_moduleHints :: "string list option"
  sp_symptomHints :: "string list option"

datatype match_confidence = McHigh | McMedium | McLow

record failure_signal =
  fs_provider :: "string option"
  fs_sessionId :: string
  fs_message :: string
  fs_toolName :: string
  fs_command :: "string option"

record matched_file =
  mf_filePath :: string
  mf_changes :: rat
  mf_sessions :: rat
  mf_updatedAt :: string

record session_summary =
  ss_provider :: string
  ss_sessionId :: string
  ss_updatedAt :: string
  ss_promptSnippet :: string
  ss_matchedFiles :: "string list"
  ss_matchedChangedFiles :: "string list"
  ss_matchedReadFiles :: "string list"
  ss_matchedWrittenFiles :: "string list"
  ss_repeatedReadFiles :: "string list"
  ss_toolNames :: "string list"
  ss_failedReadSignals :: "failure_signal list"
  ss_resumeCommand :: "string option"

record seed_session =
  sd_provider :: string
  sd_sessionId :: string
  sd_updatedAt :: string
  sd_promptSnippet :: string
  sd_touchedFiles :: "string list"
  sd_repeatedReadFiles :: "string list"
  sd_toolNames :: "string list"
  sd_failedReadSignals :: "failure_signal list"

record history_summary =
  hs_overview :: string
  hs_seedSessionCount :: rat
  hs_recoveredSessionCount :: rat
  hs_matchedFileCount :: rat
  hs_seedSessions :: "seed_session list"

record session_lead =
  sl_sessionId :: string
  sl_provider :: "string option"
  sl_reason :: string

record jit_analysis =
  ja_updatedAt :: "string option"
  ja_summary :: string
  ja_topFiles :: "string list"
  ja_topSessions :: "session_lead list"
  ja_reusablePrompts :: "string list"
  ja_recommendedContextSearchSpec :: "search_spec option"

datatype guidance_severity = GsInfo | GsWarning | GsCritical

record flow_guidance =
  fg_category :: string
  fg_severity :: guidance_severity
  fg_summary :: string
  fg_recommendation :: string
  fg_affectedColumns :: "string list"

record lane_analysis =
  la_columnId :: string
  la_columnName :: "string option"
  la_synthesizedAt :: string
  la_sessionCount :: nat
  la_latestSessionId :: "string option"
  la_latestStatus :: "lane_status option"
  la_completedSessions :: nat
  la_failedSessions :: nat
  la_recoveredSessions :: nat
  la_summary :: string
  la_learnedPatterns :: "string list"
  la_topFailures :: "string list"
  la_recommendedActions :: "string list"
  la_contextHints :: "search_spec option"
  la_flowGuidance :: "flow_guidance list"

record jit_snapshot =
  js_generatedAt :: string
  js_repoPath :: "string option"
  js_featureId :: "string option"
  js_featureName :: "string option"
  js_summary :: string
  js_matchConfidence :: match_confidence
  js_matchReasons :: "string list"
  js_warnings :: "string list"
  js_matchedFileDetails :: "matched_file list"
  js_matchedSessionIds :: "string list"
  js_failures :: "failure_signal list"
  js_repeatedReadFiles :: "string list"
  js_sessions :: "session_summary list"
  js_historySummary :: "history_summary option"
  js_recommendedContextSearchSpec :: "search_spec option"
  js_analysis :: "jit_analysis option"
  js_perLaneAnalysis :: "(string \<times> lane_analysis) list option"

section \<open>Text and item lists\<close>

definition normalizeTaskContextSearchText :: "json \<Rightarrow> string option" where
  "normalizeTaskContextSearchText value =
     (case value of JStr s \<Rightarrow> (let t = trim s in if length t > 0 then Some t else None) | _ \<Rightarrow> None)"

definition normalizeTaskContextSearchItems :: "json \<Rightarrow> string list option" where
  "normalizeTaskContextSearchItems values =
     (case values of JArr vs \<Rightarrow>
        (let normalized = uniq (filter (\<lambda>s. s \<noteq> []) (map trim (json_strings vs)))
         in if length normalized > 0 then Some normalized else None)
      | _ \<Rightarrow> None)"

abbreviation normText :: "json \<Rightarrow> string option" where
  "normText \<equiv> normalizeTaskContextSearchText"

text \<open>\<open>normalizeTaskContextSearchItems(v) ?? []\<close>\<close>

definition itemsOrEmpty :: "json \<Rightarrow> string list" where
  "itemsOrEmpty v = orDefault (normalizeTaskContextSearchItems v) []"

definition normalizeTaskContextSearchSpec :: "json \<Rightarrow> search_spec option" where
  "normalizeTaskContextSearchSpec value =
     (if falsy value then None else
      (let n = \<lparr>sp_query = normText (jprop value ''query''),
                sp_featureCandidates = normalizeTaskContextSearchItems (jprop value ''featureCandidates''),
                sp_relatedFiles = normalizeTaskContextSearchItems (jprop value ''relatedFiles''),
                sp_routeCandidates = normalizeTaskContextSearchItems (jprop value ''routeCandidates''),
                sp_apiCandidates = normalizeTaskContextSearchItems (jprop value ''apiCandidates''),
                sp_moduleHints = normalizeTaskContextSearchItems (jprop value ''moduleHints''),
                sp_symptomHints = normalizeTaskContextSearchItems (jprop value ''symptomHints'')\<rparr>
       in if truthy (sp_query n)
             \<or> (\<exists>entry\<in>set [sp_featureCandidates n, sp_relatedFiles n, sp_routeCandidates n,
                   sp_apiCandidates n, sp_moduleHints n, sp_symptomHints n].
                  length (orDefault entry []) > 0)
          then Some n else None))"

text \<open>\<open>typeof v === "string" ? v : d\<close> and \<open>Array.isArray(v) ? v.filter(isString) : d\<close>\<close>

definition stringOr :: "json \<Rightarrow> json \<Rightarrow> json" where
  "stringOr v d = (case v of JStr s \<Rightarrow> JStr s | _ \<Rightarrow> d)"

definition stringItemsOr :: "json \<Rightarrow> json \<Rightarrow> json" where
  "stringItemsOr v d = (case v of JArr vs \<Rightarrow> JArr (map JStr (json_strings vs)) | _ \<Rightarrow> d)"

definition arrayOr :: "json \<Rightarrow> json \<Rightarrow> json" where
  "arrayOr v d = (case v of JArr vs \<Rightarrow> JArr vs | _ \<Rightarrow> d)"

definition is_object :: "json \<Rightarrow> bool" where
  "is_object v = (case v of JObj kvs \<Rightarrow> True | _ \<Rightarrow> False)"

definition parseTaskContextSearchSpec :: "json \<Rightarrow> search_spec option" where
  "parseTaskContextSearchSpec value =
     (if \<not> is_object value then None else
      normalizeTaskContextSearchSpec (JObj
        [(''query'', stringOr (jprop value ''query'') JUndef),
         (''featureCandidates'', stringItemsOr (jprop value ''featureCandidates'') JUndef),
         (''relatedFiles'', stringItemsOr (jprop value ''relatedFiles'') JUndef),
         (''routeCandidates'', stringItemsOr (jprop value ''routeCandidates'') JUndef),
         (''apiCandidates'', stringItemsOr (jprop value ''apiCandidates'') JUndef),
         (''moduleHints'', stringItemsOr (jprop value ''moduleHints'') JUndef),
         (''symptomHints'', stringItemsOr (jprop value ''symptomHints'') JUndef)]))"

section \<open>Parts of a snapshot\<close>

definition normalizeTaskJitContextFailureSignal :: "json \<Rightarrow> failure_signal option" where
  "normalizeTaskJitContextFailureSignal value =
     (if falsy value then None else
      (case (normText (jprop value ''sessionId''), normText (jprop value ''message''),
             normText (jprop value ''toolName'')) of
         (Some sessionId, Some message, Some toolName) \<Rightarrow>
           Some \<lparr>fs_provider = normText (jprop value ''provider''), fs_sessionId = sessionId,
                 fs_message = message, fs_toolName = toolName,
                 fs_command = normText (jprop value ''command'')\<rparr>
       | _ \<Rightarrow> None))"

definition finiteOrZero :: "json \<Rightarrow> rat" where
  "finiteOrZero v = (case v of JNum (Fin r) \<Rightarrow> r | _ \<Rightarrow> 0)"

definition normalizeTaskJitContextMatchedFileDetail :: "json \<Rightarrow> matched_file option" where
  "normalizeTaskJitContextMatchedFileDetail value =
     (if falsy value then None else
      (case normText (jprop value ''filePath'') of
         None \<Rightarrow> None
       | Some filePath \<Rightarrow>
           Some \<lparr>mf_filePath = filePath, mf_changes = finiteOrZero (jprop value ''changes''),
                 mf_sessions = finiteOrZero (jprop value ''sessions''),
                 mf_updatedAt = orDefault (normText (jprop value ''updatedAt'')) []\<rparr>))"

abbreviation total :: "(json \<Rightarrow> 'a option) \<Rightarrow> json \<Rightarrow> js_error + 'a option" where
  "total f \<equiv> \<lambda>v. Inr (f v)"

definition normalizeTaskJitContextSessionSummary :: "json \<Rightarrow> js_error + session_summary option" where
  "normalizeTaskJitContextSessionSummary value =
     (if falsy value then Inr None else
      (case (normText (jprop value ''provider''), normText (jprop value ''sessionId''),
             normText (jprop value ''updatedAt''), normText (jprop value ''promptSnippet'')) of
         (Some provider, Some sessionId, Some updatedAt, Some promptSnippet) \<Rightarrow>
           (case map_entries (total normalizeTaskJitContextFailureSignal) (jprop value ''failedReadSignals'') of
              Inl e \<Rightarrow> Inl e
            | Inr signals \<Rightarrow>
                Inr (Some \<lparr>ss_provider = provider, ss_sessionId = sessionId, ss_updatedAt = updatedAt,
                  ss_promptSnippet = promptSnippet,
                  ss_matchedFiles = itemsOrEmpty (jprop value ''matchedFiles''),
                  ss_matchedChangedFiles = itemsOrEmpty (jprop value ''matchedChangedFiles''),
                  ss_matchedReadFiles = itemsOrEmpty (jprop value ''matchedReadFiles''),
                  ss_matchedWrittenFiles = itemsOrEmpty (jprop value ''matchedWrittenFiles''),
                  ss_repeatedReadFiles = itemsOrEmpty (jprop value ''repeatedReadFiles''),
                  ss_toolNames = itemsOrEmpty (jprop value ''toolNames''),
                  ss_failedReadSignals = signals,
                  ss_resumeCommand = normText (jprop value ''resumeCommand'')\<rparr>))
       | _ \<Rightarrow> Inr None))"

definition normalizeTaskJitContextSeedSessionSummary :: "json \<Rightarrow> js_error + seed_session option" where
  "normalizeTaskJitContextSeedSessionSummary value =
     (if falsy value then Inr None else
      (case (normText (jprop value ''provider''), normText (jprop value ''sessionId''),
             normText (jprop value ''updatedAt''), normText (jprop value ''promptSnippet'')) of
         (Some provider, Some sessionId, Some updatedAt, Some promptSnippet) \<Rightarrow>
           (case map_entries (total normalizeTaskJitContextFailureSignal) (jprop value ''failedReadSignals'') of
              Inl e \<Rightarrow> Inl e
            | Inr signals \<Rightarrow>
                Inr (Some \<lparr>sd_provider = provider, sd_sessionId = sessionId, sd_updatedAt = updatedAt,
                  sd_promptSnippet = promptSnippet,
                  sd_touchedFiles = itemsOrEmpty (jprop value ''touchedFiles''),
                  sd_repeatedReadFiles = itemsOrEmpty (jprop value ''repeatedReadFiles''),
                  sd_toolNames = itemsOrEmpty (jprop value ''toolNames''),
                  sd_failedReadSignals = signals\<rparr>))
       | _ \<Rightarrow> Inr None))"

definition normalizeTaskJitContextHistorySummary :: "json \<Rightarrow> js_error + history_summary option" where
  "normalizeTaskJitContextHistorySummary value =
     (if falsy value then Inr None else
      (case normText (jprop value ''overview'') of
         None \<Rightarrow> Inr None
       | Some overview \<Rightarrow>
           (case map_entries normalizeTaskJitContextSeedSessionSummary (jprop value ''seedSessions'') of
              Inl e \<Rightarrow> Inl e
            | Inr seeds \<Rightarrow>
                Inr (Some \<lparr>hs_overview = overview,
                  hs_seedSessionCount = finiteOrZero (jprop value ''seedSessionCount''),
                  hs_recoveredSessionCount = finiteOrZero (jprop value ''recoveredSessionCount''),
                  hs_matchedFileCount = finiteOrZero (jprop value ''matchedFileCount''),
                  hs_seedSessions = seeds\<rparr>))))"

definition normalizeTaskJitContextAnalysisSessionLead :: "json \<Rightarrow> session_lead option" where
  "normalizeTaskJitContextAnalysisSessionLead value =
     (if falsy value then None else
      (case (normText (jprop value ''sessionId''), normText (jprop value ''reason'')) of
         (Some sessionId, Some reason) \<Rightarrow>
           Some \<lparr>sl_sessionId = sessionId, sl_provider = normText (jprop value ''provider''),
                 sl_reason = reason\<rparr>
       | _ \<Rightarrow> None))"

definition normalizeTaskJitContextAnalysis :: "string \<Rightarrow> json \<Rightarrow> js_error + jit_analysis option" where
  "normalizeTaskJitContextAnalysis nowIso value =
     (if falsy value then Inr None else
      (case normText (jprop value ''summary'') of
         None \<Rightarrow> Inr None
       | Some summary \<Rightarrow>
           (case map_entries (total normalizeTaskJitContextAnalysisSessionLead) (jprop value ''topSessions'') of
              Inl e \<Rightarrow> Inl e
            | Inr leads \<Rightarrow>
                Inr (Some \<lparr>ja_updatedAt = Some (orDefault (normText (jprop value ''updatedAt'')) nowIso),
                  ja_summary = summary,
                  ja_topFiles = itemsOrEmpty (jprop value ''topFiles''),
                  ja_topSessions = leads,
                  ja_reusablePrompts = itemsOrEmpty (jprop value ''reusablePrompts''),
                  ja_recommendedContextSearchSpec =
                    normalizeTaskContextSearchSpec (jprop value ''recommendedContextSearchSpec'')\<rparr>))))"

definition normalizeTaskJitContextLaneStatus :: "json \<Rightarrow> lane_status option" where
  "normalizeTaskJitContextLaneStatus value =
     (if value = JStr ''running'' then Some LaneRunning
      else if value = JStr ''completed'' then Some LaneCompleted
      else if value = JStr ''failed'' then Some LaneFailed
      else if value = JStr ''timed_out'' then Some LaneTimedOut
      else if value = JStr ''transitioned'' then Some LaneTransitioned
      else None)"

definition normalizeTaskJitContextCount :: "json \<Rightarrow> nat" where
  "normalizeTaskJitContextCount value =
     (case value of JNum (Fin r) \<Rightarrow> (if r > 0 then nat \<lfloor>r\<rfloor> else 0) | _ \<Rightarrow> 0)"

definition normalizeTaskJitContextLaneFlowGuidance :: "json \<Rightarrow> flow_guidance option" where
  "normalizeTaskJitContextLaneFlowGuidance value =
     (if falsy value then None else
      (let severity = (if jprop value ''severity'' = JStr ''critical'' then Some GsCritical
                       else if jprop value ''severity'' = JStr ''warning'' then Some GsWarning
                       else if jprop value ''severity'' = JStr ''info'' then Some GsInfo
                       else None)
       in case (normText (jprop value ''category''), severity, normText (jprop value ''summary''),
                normText (jprop value ''recommendation'')) of
            (Some category, Some sev, Some summary, Some recommendation) \<Rightarrow>
              Some \<lparr>fg_category = category, fg_severity = sev, fg_summary = summary,
                    fg_recommendation = recommendation,
                    fg_affectedColumns = itemsOrEmpty (jprop value ''affectedColumns'')\<rparr>
          | _ \<Rightarrow> None))"

definition normalizeTaskJitContextLaneAnalysis :: "json \<Rightarrow> lane_analysis option" where
  "normalizeTaskJitContextLaneAnalysis value =
     (if falsy value then None else
      (case (normText (jprop value ''columnId''), normText (jprop value ''synthesizedAt''),
             normText (jprop value ''summary'')) of
         (Some columnId, Some synthesizedAt, Some summary) \<Rightarrow>
           Some \<lparr>la_columnId = columnId,
             la_columnName = normText (jprop value ''columnName''),
             la_synthesizedAt = synthesizedAt,
             la_sessionCount = normalizeTaskJitContextCount (jprop value ''sessionCount''),
             la_latestSessionId = normText (jprop value ''latestSessionId''),
             la_latestStatus = normalizeTaskJitContextLaneStatus (jprop value ''latestStatus''),
             la_completedSessions = normalizeTaskJitContextCount (jprop value ''completedSessions''),
             la_failedSessions = normalizeTaskJitContextCount (jprop value ''failedSessions''),
             la_recoveredSessions = normalizeTaskJitContextCount (jprop value ''recoveredSessions''),
             la_summary = summary,
             la_learnedPatterns = itemsOrEmpty (jprop value ''learnedPatterns''),
             la_topFailures = itemsOrEmpty (jprop value ''topFailures''),
             la_recommendedActions = itemsOrEmpty (jprop value ''recommendedActions''),
             la_contextHints = normalizeTaskContextSearchSpec (jprop value ''contextHints''),
             la_flowGuidance =
               (case jprop value ''flowGuidance'' of
                  JArr vs \<Rightarrow> map_some normalizeTaskJitContextLaneFlowGuidance vs | _ \<Rightarrow> [])\<rparr>
       | _ \<Rightarrow> None))"

text \<open>
  \<open>Object.fromEntries\<close>: a later entry with the same key replaces the value of an earlier one, and
  the properties of an object are listed with the array indices first, in increasing order.
\<close>

definition decimal_value :: "string \<Rightarrow> nat" where
  "decimal_value s = foldl (\<lambda>n c. 10 * n + (of_char c - 48)) 0 s"

definition is_index_key :: "string \<Rightarrow> bool" where
  "is_index_key s =
     (s \<noteq> [] \<and> (\<forall>c\<in>set s. 48 \<le> (of_char c :: nat) \<and> (of_char c :: nat) \<le> 57)
      \<and> (s = ''0'' \<or> hd s \<noteq> CHR ''0'') \<and> decimal_value s < 4294967295)"

definition property_order :: "(string \<times> 'v) list \<Rightarrow> (string \<times> 'v) list" where
  "property_order kvs =
     sort_by (by_key (\<lambda>kv. int (decimal_value (fst kv)))) (filter (\<lambda>kv. is_index_key (fst kv)) kvs)
     @ filter (\<lambda>kv. \<not> is_index_key (fst kv)) kvs"

definition fromEntries :: "(string \<times> 'v) list \<Rightarrow> (string \<times> 'v) list" where
  "fromEntries kvs = property_order (foldl (\<lambda>m kv. om_set m (fst kv) (snd kv)) [] kvs)"

definition normalizeTaskJitContextPerLaneAnalysis :: "json \<Rightarrow> (string \<times> lane_analysis) list option" where
  "normalizeTaskJitContextPerLaneAnalysis value =
     (case value of JObj kvs \<Rightarrow>
        (let normalizedEntries =
               map_some (\<lambda>(key, entry). map_option
                   (\<lambda>n. (the (orElse (Some (la_columnId n)) (Some key)), n))
                   (normalizeTaskJitContextLaneAnalysis entry)) kvs
         in if length normalizedEntries > 0 then Some (fromEntries normalizedEntries) else None)
      | _ \<Rightarrow> None)"

section \<open>The snapshot\<close>

definition normalizeMatchConfidence :: "json \<Rightarrow> match_confidence" where
  "normalizeMatchConfidence v =
     (if v = JStr ''low'' then McLow else if v = JStr ''medium'' then McMedium
      else if v = JStr ''high'' then McHigh else McLow)"

definition normalizeTaskJitContextSnapshot :: "string \<Rightarrow> json \<Rightarrow> js_error + jit_snapshot option" where
  "normalizeTaskJitContextSnapshot nowIso value =
     (if falsy value then Inr None else
      (case (normText (jprop value ''generatedAt''), normText (jprop value ''summary'')) of
         (Some generatedAt, Some summary) \<Rightarrow>
           (case map_entries (total normalizeTaskJitContextMatchedFileDetail) (jprop value ''matchedFileDetails'') of
              Inl e \<Rightarrow> Inl e | Inr files \<Rightarrow>
           (case map_entries (total normalizeTaskJitContextFailureSignal) (jprop value ''failures'') of
              Inl e \<Rightarrow> Inl e | Inr failures \<Rightarrow>
           (case map_entries normalizeTaskJitContextSessionSummary (jprop value ''sessions'') of
              Inl e \<Rightarrow> Inl e | Inr sessions \<Rightarrow>
           (case normalizeTaskJitContextHistorySummary (jprop value ''historySummary'') of
              Inl e \<Rightarrow> Inl e | Inr history \<Rightarrow>
           (case normalizeTaskJitContextAnalysis nowIso (jprop value ''analysis'') of
              Inl e \<Rightarrow> Inl e | Inr analysis \<Rightarrow>
              Inr (Some \<lparr>js_generatedAt = generatedAt,
                js_repoPath = normText (jprop value ''repoPath''),
                js_featureId = normText (jprop value ''featureId''),
                js_featureName = normText (jprop value ''featureName''),
                js_summary = summary,
                js_matchConfidence = normalizeMatchConfidence (jprop value ''matchConfidence''),
                js_matchReasons = itemsOrEmpty (jprop value ''matchReasons''),
                js_warnings = itemsOrEmpty (jprop value ''warnings''),
                js_matchedFileDetails = files,
                js_matchedSessionIds = itemsOrEmpty (jprop value ''matchedSessionIds''),
                js_failures = failures,
                js_repeatedReadFiles = itemsOrEmpty (jprop value ''repeatedReadFiles''),
                js_sessions = sessions,
                js_historySummary = history,
                js_recommendedContextSearchSpec =
                  normalizeTaskContextSearchSpec (jprop value ''recommendedContextSearchSpec''),
                js_analysis = analysis,
                js_perLaneAnalysis =
                  normalizeTaskJitContextPerLaneAnalysis (jprop value ''perLaneAnalysis'')\<rparr>))))))
       | _ \<Rightarrow> Inr None))"

section \<open>Typed records as JavaScript objects\<close>

definition js_text :: "string option \<Rightarrow> json" where
  "js_text v = (case v of None \<Rightarrow> JUndef | Some s \<Rightarrow> JStr s)"

definition js_items :: "string list \<Rightarrow> json" where
  "js_items xs = JArr (map JStr xs)"

definition js_itemsOpt :: "string list option \<Rightarrow> json" where
  "js_itemsOpt v = (case v of None \<Rightarrow> JUndef | Some xs \<Rightarrow> js_items xs)"

definition js_opt :: "('a \<Rightarrow> json) \<Rightarrow> 'a option \<Rightarrow> json" where
  "js_opt f v = (case v of None \<Rightarrow> JUndef | Some x \<Rightarrow> f x)"

definition js_nat :: "nat \<Rightarrow> json" where
  "js_nat n = JNum (Fin (of_nat n))"

definition js_of_spec :: "search_spec \<Rightarrow> json" where
  "js_of_spec v = JObj
     [(''query'', js_text (sp_query v)),
      (''featureCandidates'', js_itemsOpt (sp_featureCandidates v)),
      (''relatedFiles'', js_itemsOpt (sp_relatedFiles v)),
      (''routeCandidates'', js_itemsOpt (sp_routeCandidates v)),
      (''apiCandidates'', js_itemsOpt (sp_apiCandidates v)),
      (''moduleHints'', js_itemsOpt (sp_moduleHints v)),
      (''symptomHints'', js_itemsOpt (sp_symptomHints v))]"

definition js_of_failure :: "failure_signal \<Rightarrow> json" where
  "js_of_failure v = JObj
     [(''provider'', js_text (fs_provider v)),
      (''sessionId'', JStr (fs_sessionId v)),
      (''message'', JStr (fs_message v)),
      (''toolName'', JStr (fs_toolName v)),
      (''command'', js_text (fs_command v))]"

definition js_of_file :: "matched_file \<Rightarrow> json" where
  "js_of_file v = JObj
     [(''filePath'', JStr (mf_filePath v)),
      (''changes'', JNum (Fin (mf_changes v))),
      (''sessions'', JNum (Fin (mf_sessions v))),
      (''updatedAt'', JStr (mf_updatedAt v))]"

definition js_of_session :: "session_summary \<Rightarrow> json" where
  "js_of_session v = JObj
     [(''provider'', JStr (ss_provider v)),
      (''sessionId'', JStr (ss_sessionId v)),
      (''updatedAt'', JStr (ss_updatedAt v)),
      (''promptSnippet'', JStr (ss_promptSnippet v)),
      (''matchedFiles'', js_items (ss_matchedFiles v)),
      (''matchedChangedFiles'', js_items (ss_matchedChangedFiles v)),
      (''matchedReadFiles'', js_items (ss_matchedReadFiles v)),
      (''matchedWrittenFiles'', js_items (ss_matchedWrittenFiles v)),
      (''repeatedReadFiles'', js_items (ss_repeatedReadFiles v)),
      (''toolNames'', js_items (ss_toolNames v)),
      (''failedReadSignals'', JArr (map js_of_failure (ss_failedReadSignals v))),
      (''resumeCommand'', js_text (ss_resumeCommand v))]"

definition js_of_seed :: "seed_session \<Rightarrow> json" where
  "js_of_seed v = JObj
     [(''provider'', JStr (sd_provider v)),
      (''sessionId'', JStr (sd_sessionId v)),
      (''updatedAt'', JStr (sd_updatedAt v)),
      (''promptSnippet'', JStr (sd_promptSnippet v)),
      (''touchedFiles'', js_items (sd_touchedFiles v)),
      (''repeatedReadFiles'', js_items (sd_repeatedReadFiles v)),
      (''toolNames'', js_items (sd_toolNames v)),
      (''failedReadSignals'', JArr (map js_of_failure (sd_failedReadSignals v)))]"

definition js_of_history :: "history_summary \<Rightarrow> json" where
  "js_of_history v = JObj
     [(''overview'', JStr (hs_overview v)),
      (''seedSessionCount'', JNum (Fin (hs_seedSessionCount v))),
      (''recoveredSessionCount'', JNum (Fin (hs_recoveredSessionCount v))),
      (''matchedFileCount'', JNum (Fin (hs_matchedFileCount v))),
      (''seedSessions'', JArr (map js_of_seed (hs_seedSessions v)))]"

definition js_of_lead :: "session_lead \<Rightarrow> json" where
  "js_of_lead v = JObj
     [(''sessionId'', JStr (sl_sessionId v)),
      (''provider'', js_text (sl_provider v)),
      (''reason'', JStr (sl_reason v))]"

definition js_of_analysis :: "jit_analysis \<Rightarrow> json" where
  "js_of_analysis v = JObj
     [(''updatedAt'', js_text (ja_updatedAt v)),
      (''summary'', JStr (ja_summary v)),
      (''topFiles'', js_items (ja_topFiles v)),
      (''topSessions'', JArr (map js_of_lead (ja_topSessions v))),
      (''reusablePrompts'', js_items (ja_reusablePrompts v)),
      (''recommendedContextSearchSpec'', js_opt js_of_spec (ja_recommendedContextSearchSpec v))]"

fun severity_str :: "guidance_severity \<Rightarrow> string" where
  "severity_str GsInfo = ''info''"
| "severity_str GsWarning = ''warning''"
| "severity_str GsCritical = ''critical''"

fun confidence_str :: "match_confidence \<Rightarrow> string" where
  "confidence_str McHigh = ''high''"
| "confidence_str McMedium = ''medium''"
| "confidence_str McLow = ''low''"

definition js_of_guidance :: "flow_guidance \<Rightarrow> json" where
  "js_of_guidance v = JObj
     [(''category'', JStr (fg_category v)),
      (''severity'', JStr (severity_str (fg_severity v))),
      (''summary'', JStr (fg_summary v)),
      (''recommendation'', JStr (fg_recommendation v)),
      (''affectedColumns'', js_items (fg_affectedColumns v))]"

definition js_of_lane :: "lane_analysis \<Rightarrow> json" where
  "js_of_lane v = JObj
     [(''columnId'', JStr (la_columnId v)),
      (''columnName'', js_text (la_columnName v)),
      (''synthesizedAt'', JStr (la_synthesizedAt v)),
      (''sessionCount'', js_nat (la_sessionCount v)),
      (''latestSessionId'', js_text (la_latestSessionId v)),
      (''latestStatus'', js_text (map_option lane_status_str (la_latestStatus v))),
      (''completedSessions'', js_nat (la_completedSessions v)),
      (''failedSessions'', js_nat (la_failedSessions v)),
      (''recoveredSessions'', js_nat (la_recoveredSessions v)),
      (''summary'', JStr (la_summary v)),
      (''learnedPatterns'', js_items (la_learnedPatterns v)),
      (''topFailures'', js_items (la_topFailures v)),
      (''recommendedActions'', js_items (la_recommendedActions v)),
      (''contextHints'', js_opt js_of_spec (la_contextHints v)),
      (''flowGuidance'', JArr (map js_of_guidance (la_flowGuidance v)))]"

definition js_of_lanes :: "(string \<times> lane_analysis) list \<Rightarrow> json" where
  "js_of_lanes kvs = JObj (map (\<lambda>kv. (fst kv, js_of_lane (snd kv))) kvs)"

definition js_of_snapshot :: "jit_snapshot \<Rightarrow> json" where
  "js_of_snapshot v = JObj
     [(''generatedAt'', JStr (js_generatedAt v)),
      (''repoPath'', js_text (js_repoPath v)),
      (''featureId'', js_text (js_featureId v)),
      (''featureName'', js_text (js_featureName v)),
      (''summary'', JStr (js_summary v)),
      (''matchConfidence'', JStr (confidence_str (js_matchConfidence v))),
      (''matchReasons'', js_items (js_matchReasons v)),
      (''warnings'', js_items (js_warnings v)),
      (''matchedFileDetails'', JArr (map js_of_file (js_matchedFileDetails v))),
      (''matchedSessionIds'', js_items (js_matchedSessionIds v)),
      (''failures'', JArr (map js_of_failure (js_failures v))),
      (''repeatedReadFiles'', js_items (js_repeatedReadFiles v)),
      (''sessions'', JArr (map js_of_session (js_sessions v))),
      (''historySummary'', js_opt js_of_history (js_historySummary v)),
      (''recommendedContextSearchSpec'', js_opt js_of_spec (js_recommendedContextSearchSpec v)),
      (''analysis'', js_opt js_of_analysis (js_analysis v)),
      (''perLaneAnalysis'', js_opt js_of_lanes (js_perLaneAnalysis v))]"

section \<open>Reading a stored snapshot, merging an analysis\<close>

definition parseTaskJitContextAnalysis :: "string \<Rightarrow> json \<Rightarrow> js_error + jit_analysis option" where
  "parseTaskJitContextAnalysis nowIso value =
     (if \<not> is_object value then Inr None else
      normalizeTaskJitContextAnalysis nowIso (JObj
     [(''updatedAt'', stringOr (jprop value ''updatedAt'') (JStr [])),
      (''summary'', stringOr (jprop value ''summary'') (JStr [])),
      (''topFiles'', stringItemsOr (jprop value ''topFiles'') (JArr [])),
      (''topSessions'', arrayOr (jprop value ''topSessions'') (JArr [])),
      (''reusablePrompts'', stringItemsOr (jprop value ''reusablePrompts'') (JArr [])),
      (''recommendedContextSearchSpec'', js_opt js_of_spec (parseTaskContextSearchSpec (jprop value ''recommendedContextSearchSpec'')))]))"

definition parseTaskJitContextSnapshot :: "string \<Rightarrow> json \<Rightarrow> js_error + jit_snapshot option" where
  "parseTaskJitContextSnapshot nowIso value =
     (if \<not> is_object value then Inr None else
      (case parseTaskJitContextAnalysis nowIso (jprop value ''analysis'') of
         Inl e \<Rightarrow> Inl e
       | Inr analysis \<Rightarrow> normalizeTaskJitContextSnapshot nowIso (JObj
     [(''generatedAt'', stringOr (jprop value ''generatedAt'') (JStr [])),
      (''repoPath'', stringOr (jprop value ''repoPath'') JUndef),
      (''featureId'', stringOr (jprop value ''featureId'') JUndef),
      (''featureName'', stringOr (jprop value ''featureName'') JUndef),
      (''summary'', stringOr (jprop value ''summary'') (JStr [])),
      (''matchConfidence'', jprop value ''matchConfidence''),
      (''matchReasons'', stringItemsOr (jprop value ''matchReasons'') (JArr [])),
      (''warnings'', stringItemsOr (jprop value ''warnings'') (JArr [])),
      (''matchedFileDetails'', arrayOr (jprop value ''matchedFileDetails'') (JArr [])),
      (''matchedSessionIds'', stringItemsOr (jprop value ''matchedSessionIds'') (JArr [])),
      (''failures'', arrayOr (jprop value ''failures'') (JArr [])),
      (''repeatedReadFiles'', stringItemsOr (jprop value ''repeatedReadFiles'') (JArr [])),
      (''sessions'', arrayOr (jprop value ''sessions'') (JArr [])),
      (''historySummary'', jprop value ''historySummary''),
      (''recommendedContextSearchSpec'', js_opt js_of_spec (parseTaskContextSearchSpec (jprop value ''recommendedContextSearchSpec''))),
      (''analysis'', js_opt js_of_analysis analysis),
      (''perLaneAnalysis'', jprop value ''perLaneAnalysis'')])))"

definition mergeTaskJitContextAnalysis :: "string \<Rightarrow> json \<Rightarrow> json \<Rightarrow> js_error + jit_snapshot option" where
  "mergeTaskJitContextAnalysis nowIso snapshot analysis =
     (case normalizeTaskJitContextAnalysis nowIso analysis of Inl e \<Rightarrow> Inl e | Inr normalizedAnalysis \<Rightarrow>
      (case normalizeTaskJitContextSnapshot nowIso snapshot of Inl e \<Rightarrow> Inl e | Inr normalizedSnapshot \<Rightarrow>
        (case normalizedSnapshot of
           None \<Rightarrow>
             (case normalizedAnalysis of None \<Rightarrow> Inr None | Some a \<Rightarrow>
                normalizeTaskJitContextSnapshot nowIso (js_of_snapshot
                  \<lparr>js_generatedAt = orDefault (ja_updatedAt a) nowIso, js_repoPath = None,
                   js_featureId = None, js_featureName = None, js_summary = ja_summary a,
                   js_matchConfidence = McLow, js_matchReasons = [], js_warnings = [],
                   js_matchedFileDetails = [], js_matchedSessionIds = [], js_failures = [],
                   js_repeatedReadFiles = [], js_sessions = [], js_historySummary = None,
                   js_recommendedContextSearchSpec = ja_recommendedContextSearchSpec a,
                   js_analysis = Some a, js_perLaneAnalysis = None\<rparr>))
         | Some snap \<Rightarrow>
             normalizeTaskJitContextSnapshot nowIso (js_of_snapshot
               (snap\<lparr>js_recommendedContextSearchSpec :=
                       nullish (Option.bind normalizedAnalysis ja_recommendedContextSearchSpec)
                         (js_recommendedContextSearchSpec snap),
                     js_analysis := normalizedAnalysis\<rparr>)))))"

section \<open>Well-formed records\<close>

text \<open>What the normalisers promise of their results: texts are trimmed and not blank, item lists
  have no blank and no repeated entry, and an optional item list is never empty.\<close>

definition text_ok :: "string \<Rightarrow> bool" where
  "text_ok s = (s \<noteq> [] \<and> trimmed s)"

definition otext_ok :: "string option \<Rightarrow> bool" where
  "otext_ok v = (case v of None \<Rightarrow> True | Some s \<Rightarrow> text_ok s)"

definition items_ok :: "string list \<Rightarrow> bool" where
  "items_ok xs = (distinct xs \<and> list_all text_ok xs)"

definition oitems_ok :: "string list option \<Rightarrow> bool" where
  "oitems_ok v = (case v of None \<Rightarrow> True | Some xs \<Rightarrow> xs \<noteq> [] \<and> items_ok xs)"

definition opt_ok :: "('a \<Rightarrow> bool) \<Rightarrow> 'a option \<Rightarrow> bool" where
  "opt_ok P v = (case v of None \<Rightarrow> True | Some x \<Rightarrow> P x)"

definition spec_ok :: "search_spec \<Rightarrow> bool" where
  "spec_ok v = (otext_ok (sp_query v)
     \<and> list_all oitems_ok [sp_featureCandidates v, sp_relatedFiles v, sp_routeCandidates v,
         sp_apiCandidates v, sp_moduleHints v, sp_symptomHints v]
     \<and> (sp_query v \<noteq> None \<or> list_ex (\<lambda>e. e \<noteq> None) [sp_featureCandidates v, sp_relatedFiles v,
         sp_routeCandidates v, sp_apiCandidates v, sp_moduleHints v, sp_symptomHints v]))"

definition failure_ok :: "failure_signal \<Rightarrow> bool" where
  "failure_ok v = (otext_ok (fs_provider v) \<and> text_ok (fs_sessionId v) \<and> text_ok (fs_message v)
     \<and> text_ok (fs_toolName v) \<and> otext_ok (fs_command v))"

definition file_ok :: "matched_file \<Rightarrow> bool" where
  "file_ok v = (text_ok (mf_filePath v) \<and> trimmed (mf_updatedAt v))"

definition session_ok :: "session_summary \<Rightarrow> bool" where
  "session_ok v = (list_all text_ok [ss_provider v, ss_sessionId v, ss_updatedAt v, ss_promptSnippet v]
     \<and> list_all items_ok [ss_matchedFiles v, ss_matchedChangedFiles v, ss_matchedReadFiles v,
          ss_matchedWrittenFiles v, ss_repeatedReadFiles v, ss_toolNames v]
     \<and> list_all failure_ok (ss_failedReadSignals v) \<and> otext_ok (ss_resumeCommand v))"

definition seed_ok :: "seed_session \<Rightarrow> bool" where
  "seed_ok v = (list_all text_ok [sd_provider v, sd_sessionId v, sd_updatedAt v, sd_promptSnippet v]
     \<and> list_all items_ok [sd_touchedFiles v, sd_repeatedReadFiles v, sd_toolNames v]
     \<and> list_all failure_ok (sd_failedReadSignals v))"

definition history_ok :: "history_summary \<Rightarrow> bool" where
  "history_ok v = (text_ok (hs_overview v) \<and> list_all seed_ok (hs_seedSessions v))"

definition lead_ok :: "session_lead \<Rightarrow> bool" where
  "lead_ok v = (text_ok (sl_sessionId v) \<and> otext_ok (sl_provider v) \<and> text_ok (sl_reason v))"

definition analysis_ok :: "jit_analysis \<Rightarrow> bool" where
  "analysis_ok v = ((\<exists>t\<in>set_option (ja_updatedAt v). text_ok t) \<and> text_ok (ja_summary v)
     \<and> items_ok (ja_topFiles v) \<and> list_all lead_ok (ja_topSessions v)
     \<and> items_ok (ja_reusablePrompts v) \<and> opt_ok spec_ok (ja_recommendedContextSearchSpec v))"

definition guidance_ok :: "flow_guidance \<Rightarrow> bool" where
  "guidance_ok v = (list_all text_ok [fg_category v, fg_summary v, fg_recommendation v]
     \<and> items_ok (fg_affectedColumns v))"

definition lane_ok :: "lane_analysis \<Rightarrow> bool" where
  "lane_ok v = (list_all text_ok [la_columnId v, la_synthesizedAt v, la_summary v]
     \<and> list_all otext_ok [la_columnName v, la_latestSessionId v]
     \<and> list_all items_ok [la_learnedPatterns v, la_topFailures v, la_recommendedActions v]
     \<and> opt_ok spec_ok (la_contextHints v) \<and> list_all guidance_ok (la_flowGuidance v))"

definition lanes_ok :: "(string \<times> lane_analysis) list \<Rightarrow> bool" where
  "lanes_ok kvs = (kvs \<noteq> [] \<and> distinct (map fst kvs) \<and> property_order kvs = kvs
     \<and> list_all (\<lambda>kv. lane_ok (snd kv) \<and> fst kv = la_columnId (snd kv)) kvs)"

definition snapshot_ok :: "jit_snapshot \<Rightarrow> bool" where
  "snapshot_ok v = (list_all text_ok [js_generatedAt v, js_summary v]
     \<and> list_all otext_ok [js_repoPath v, js_featureId v, js_featureName v]
     \<and> list_all items_ok [js_matchReasons v, js_warnings v, js_matchedSessionIds v, js_repeatedReadFiles v]
     \<and> list_all file_ok (js_matchedFileDetails v) \<and> list_all failure_ok (js_failures v)
     \<and> list_all session_ok (js_sessions v) \<and> opt_ok history_ok (js_historySummary v)
     \<and> opt_ok spec_ok (js_recommendedContextSearchSpec v) \<and> opt_ok analysis_ok (js_analysis v)
     \<and> opt_ok lanes_ok (js_perLaneAnalysis v))"

lemma opt_ok_simps [simp]: "opt_ok P None" "opt_ok P (Some x) = P x"
  by (simp_all add: opt_ok_def)

lemma otext_ok_simps [simp]: "otext_ok None" "otext_ok (Some s) = text_ok s"
  by (simp_all add: otext_ok_def)

lemma oitems_ok_simps [simp]: "oitems_ok None" "oitems_ok (Some xs) \<longleftrightarrow> xs \<noteq> [] \<and> items_ok xs"
  by (simp_all add: oitems_ok_def)

lemma text_ok_iff: "text_ok s \<longleftrightarrow> s \<noteq> [] \<and> trim s = s"
  by (simp add: text_ok_def trimmed_iff)

lemma normText_ok: "otext_ok (normText v)"
  by (cases v) (simp_all add: normalizeTaskContextSearchText_def Let_def text_ok_def)

lemma normText_Some: "normText v = Some s \<Longrightarrow> text_ok s"
  using normText_ok [of v] by simp

lemma normText_JStr [simp]: "text_ok s \<Longrightarrow> normText (JStr s) = Some s"
  by (simp add: normalizeTaskContextSearchText_def text_ok_iff Let_def)

lemma normText_js [simp]: "otext_ok v \<Longrightarrow> normText (js_text v) = v"
  by (cases v) (simp_all add: js_text_def, simp add: normalizeTaskContextSearchText_def)

lemma json_strings_map [simp]: "json_strings (map JStr xs) = xs"
  by (induction xs) auto

lemma list_all_uniq: "list_all P xs \<Longrightarrow> list_all P (uniq xs)"
  by (simp add: list_all_iff)

lemma normItems_ok: "oitems_ok (normalizeTaskContextSearchItems v)"
  by (cases v) (auto simp: normalizeTaskContextSearchItems_def Let_def items_ok_def list_all_iff text_ok_def)

lemma itemsOrEmpty_ok: "items_ok (itemsOrEmpty v)"
  using normItems_ok [of v] by (cases "normalizeTaskContextSearchItems v") (simp_all add: itemsOrEmpty_def items_ok_def)

lemma items_fixed: "items_ok xs \<Longrightarrow> uniq (filter (\<lambda>s. s \<noteq> []) (map trim xs)) = xs"
proof -
  assume ok: "items_ok xs"
  then have "map trim xs = xs"
    by (auto simp: items_ok_def list_all_iff text_ok_iff intro: map_idI)
  moreover have "filter (\<lambda>s. s \<noteq> []) xs = xs"
    using ok by (auto simp: items_ok_def list_all_iff text_ok_iff intro: filter_True)
  ultimately show ?thesis using ok by (simp add: items_ok_def uniq_distinct)
qed

lemma normItems_js [simp]: "oitems_ok v \<Longrightarrow> normalizeTaskContextSearchItems (js_itemsOpt v) = v"
  by (cases v) (simp_all add: normalizeTaskContextSearchItems_def js_itemsOpt_def js_items_def items_fixed Let_def)

lemma itemsOrEmpty_js [simp]: "items_ok xs \<Longrightarrow> itemsOrEmpty (js_items xs) = xs"
  by (simp add: itemsOrEmpty_def normalizeTaskContextSearchItems_def js_items_def items_fixed Let_def)

lemma orDefault_items: "oitems_ok v \<Longrightarrow> orDefault v [] = [] \<longleftrightarrow> v = None"
  by (cases v) auto

lemma falsy_JObj [simp]: "\<not> falsy (JObj kvs)"
  by (simp add: falsy_def)

lemma jprop_JObj: "jprop (JObj kvs) k = (case map_of kvs k of Some w \<Rightarrow> w | None \<Rightarrow> JUndef)"
  by (simp add: jprop_def)

lemma normSpec_ok: "opt_ok spec_ok (normalizeTaskContextSearchSpec v)"
proof -
  have t: "truthy w \<longleftrightarrow> w \<noteq> None" if "otext_ok w" for w
    using that by (cases w) (auto simp: text_ok_def)
  show ?thesis
    by (simp add: normalizeTaskContextSearchSpec_def Let_def spec_ok_def normText_ok normItems_ok t orDefault_items) blast
qed

lemma normSpec_js [simp]: "spec_ok v \<Longrightarrow> normalizeTaskContextSearchSpec (js_of_spec v) = Some v"
proof -
  assume ok: "spec_ok v"
  have t: "truthy w \<longleftrightarrow> w \<noteq> None" if "otext_ok w" for w
    using that by (cases w) (auto simp: text_ok_def)
  show ?thesis using ok
    by (simp add: normalizeTaskContextSearchSpec_def js_of_spec_def jprop_JObj Let_def spec_ok_def t orDefault_items) blast
qed

lemma js_opt_simps [simp]: "js_opt f None = JUndef" "js_opt f (Some x) = f x"
  by (simp_all add: js_opt_def)

lemma js_text_simps [simp]: "js_text None = JUndef" "js_text (Some s) = JStr s"
  by (simp_all add: js_text_def)

lemma spec_undef [simp]:
  "normalizeTaskContextSearchSpec JUndef = None"
  "parseTaskContextSearchSpec JUndef = None"
  by (simp_all add: normalizeTaskContextSearchSpec_def parseTaskContextSearchSpec_def falsy_def is_object_def)

lemma normSpec_js_opt [simp]: "opt_ok spec_ok v \<Longrightarrow> normalizeTaskContextSearchSpec (js_opt js_of_spec v) = v"
  by (cases v) simp_all

lemma js_parts [simp]:
  "stringOr (JStr s) d = JStr s"
  "stringOr (js_text v) JUndef = js_text v"
  "stringItemsOr (js_items xs) d = js_items xs"
  "stringItemsOr (js_itemsOpt w) JUndef = js_itemsOpt w"
  "arrayOr (JArr vs) d = JArr vs"
  "is_object (JObj kvs)"
  "finiteOrZero (JNum (Fin r)) = r"
  "falsy JUndef"
  "map_entries f (JArr vs) = map_or_throw f vs"
  "map_entries f JUndef = Inr []"
  by (simp_all add: stringOr_def js_text_def stringItemsOr_def js_items_def js_itemsOpt_def arrayOr_def
      is_object_def finiteOrZero_def falsy_def map_entries_def split: option.split)

lemma parseSpec_js [simp]: "spec_ok v \<Longrightarrow> parseTaskContextSearchSpec (js_of_spec v) = Some v"
proof -
  have "parseTaskContextSearchSpec (js_of_spec v) = normalizeTaskContextSearchSpec (js_of_spec v)"
    by (simp add: parseTaskContextSearchSpec_def js_of_spec_def jprop_JObj)
  then show "spec_ok v \<Longrightarrow> parseTaskContextSearchSpec (js_of_spec v) = Some v" by simp
qed

lemma parseSpec_js_opt [simp]:
  "opt_ok spec_ok v \<Longrightarrow> parseTaskContextSearchSpec (js_opt js_of_spec v) = v"
  by (cases v) simp_all

lemma map_or_throw_js:
  "(\<And>x. P x \<Longrightarrow> f (g x) = Inr (Some x)) \<Longrightarrow> list_all P xs \<Longrightarrow> map_or_throw f (map g xs) = Inr xs"
  by (induction xs) auto

lemma map_or_throw_ok:
  "(\<And>v x. f v = Inr (Some x) \<Longrightarrow> P x) \<Longrightarrow> map_or_throw f vs = Inr xs \<Longrightarrow> list_all P xs"
  by (induction vs arbitrary: xs) (auto split: sum.splits option.splits)

lemma map_entries_ok:
  "(\<And>v x. f v = Inr (Some x) \<Longrightarrow> P x) \<Longrightarrow> map_entries f v = Inr xs \<Longrightarrow> list_all P xs"
  by (cases v) (auto simp: map_entries_def intro: map_or_throw_ok)

lemma normFailure_ok: "normalizeTaskJitContextFailureSignal v = Some x \<Longrightarrow> failure_ok x"
  by (auto simp: normalizeTaskJitContextFailureSignal_def failure_ok_def normText_ok
      split: if_splits option.splits dest: normText_Some)

lemma normFailure_js: "failure_ok x \<Longrightarrow> normalizeTaskJitContextFailureSignal (js_of_failure x) = Some x"
  by (simp add: normalizeTaskJitContextFailureSignal_def js_of_failure_def jprop_JObj failure_ok_def)

lemma normFile_ok: "normalizeTaskJitContextMatchedFileDetail v = Some x \<Longrightarrow> file_ok x"
proof -
  have "trimmed (orDefault (normText w) [])" for w
    using normText_ok [of w] by (cases "normText w") (simp_all add: text_ok_def, simp add: trimmed_def)
  then show "normalizeTaskJitContextMatchedFileDetail v = Some x \<Longrightarrow> file_ok x"
    by (auto simp: normalizeTaskJitContextMatchedFileDetail_def file_ok_def
        split: if_splits option.splits dest: normText_Some)
qed

lemma normFile_js: "file_ok x \<Longrightarrow> normalizeTaskJitContextMatchedFileDetail (js_of_file x) = Some x"
proof -
  have "orDefault (normText (JStr s)) [] = s" if "trimmed s" for s
    using that by (simp add: normalizeTaskContextSearchText_def Let_def trimmed_iff)
  then show "file_ok x \<Longrightarrow> normalizeTaskJitContextMatchedFileDetail (js_of_file x) = Some x"
    by (simp add: normalizeTaskJitContextMatchedFileDetail_def js_of_file_def jprop_JObj file_ok_def)
qed

lemma total_ok: "(\<And>v x. f v = Some x \<Longrightarrow> P x) \<Longrightarrow> map_entries (total f) v = Inr xs \<Longrightarrow> list_all P xs"
  by (rule map_entries_ok) auto

lemma total_js:
  "(\<And>x. P x \<Longrightarrow> f (g x) = Some x) \<Longrightarrow> list_all P xs \<Longrightarrow> map_or_throw (total f) (map g xs) = Inr xs"
  by (rule map_or_throw_js) auto

lemma failures_ok: "map_entries (total normalizeTaskJitContextFailureSignal) v = Inr xs \<Longrightarrow> list_all failure_ok xs"
  by (rule total_ok) (erule normFailure_ok)

lemma failures_js: "list_all failure_ok xs \<Longrightarrow> map_or_throw (total normalizeTaskJitContextFailureSignal) (map js_of_failure xs) = Inr xs"
  by (rule total_js) (rule normFailure_js)

lemma files_ok: "map_entries (total normalizeTaskJitContextMatchedFileDetail) v = Inr xs \<Longrightarrow> list_all file_ok xs"
  by (rule total_ok) (erule normFile_ok)

lemma files_js: "list_all file_ok xs \<Longrightarrow> map_or_throw (total normalizeTaskJitContextMatchedFileDetail) (map js_of_file xs) = Inr xs"
  by (rule total_js) (rule normFile_js)

lemma normSession_ok: "normalizeTaskJitContextSessionSummary v = Inr (Some x) \<Longrightarrow> session_ok x"
  by (auto simp: normalizeTaskJitContextSessionSummary_def session_ok_def normText_ok itemsOrEmpty_ok
      split: if_splits option.splits sum.splits dest: normText_Some failures_ok)

lemma normSession_js: "session_ok x \<Longrightarrow> normalizeTaskJitContextSessionSummary (js_of_session x) = Inr (Some x)"
  by (simp add: normalizeTaskJitContextSessionSummary_def js_of_session_def jprop_JObj session_ok_def
      failures_js)

lemma normSeed_ok: "normalizeTaskJitContextSeedSessionSummary v = Inr (Some x) \<Longrightarrow> seed_ok x"
  by (auto simp: normalizeTaskJitContextSeedSessionSummary_def seed_ok_def normText_ok itemsOrEmpty_ok
      split: if_splits option.splits sum.splits dest: normText_Some failures_ok)

lemma normSeed_js: "seed_ok x \<Longrightarrow> normalizeTaskJitContextSeedSessionSummary (js_of_seed x) = Inr (Some x)"
  by (simp add: normalizeTaskJitContextSeedSessionSummary_def js_of_seed_def jprop_JObj seed_ok_def
      failures_js)

lemma sessions_ok: "map_entries (normalizeTaskJitContextSessionSummary) v = Inr xs \<Longrightarrow> list_all session_ok xs"
  by (rule map_entries_ok) (erule normSession_ok)

lemma sessions_js: "list_all session_ok xs \<Longrightarrow> map_or_throw (normalizeTaskJitContextSessionSummary) (map js_of_session xs) = Inr xs"
  by (rule map_or_throw_js) (rule normSession_js)

lemma seeds_ok: "map_entries (normalizeTaskJitContextSeedSessionSummary) v = Inr xs \<Longrightarrow> list_all seed_ok xs"
  by (rule map_entries_ok) (erule normSeed_ok)

lemma seeds_js: "list_all seed_ok xs \<Longrightarrow> map_or_throw (normalizeTaskJitContextSeedSessionSummary) (map js_of_seed xs) = Inr xs"
  by (rule map_or_throw_js) (rule normSeed_js)

lemma normHistory_ok: "normalizeTaskJitContextHistorySummary v = Inr w \<Longrightarrow> opt_ok history_ok w"
  by (auto simp: normalizeTaskJitContextHistorySummary_def history_ok_def
      split: if_splits option.splits sum.splits dest: normText_Some seeds_ok)

lemma normHistory_js:
  "opt_ok history_ok w \<Longrightarrow> normalizeTaskJitContextHistorySummary (js_opt js_of_history w) = Inr w"
  by (cases w) (simp_all add: normalizeTaskJitContextHistorySummary_def js_of_history_def
      jprop_JObj history_ok_def seeds_js)

lemma normLead_ok: "normalizeTaskJitContextAnalysisSessionLead v = Some x \<Longrightarrow> lead_ok x"
  by (auto simp: normalizeTaskJitContextAnalysisSessionLead_def lead_ok_def normText_ok
      split: if_splits option.splits dest: normText_Some)

lemma normLead_js: "lead_ok x \<Longrightarrow> normalizeTaskJitContextAnalysisSessionLead (js_of_lead x) = Some x"
  by (simp add: normalizeTaskJitContextAnalysisSessionLead_def js_of_lead_def jprop_JObj lead_ok_def)

lemma leads_ok: "map_entries (total normalizeTaskJitContextAnalysisSessionLead) v = Inr xs \<Longrightarrow> list_all lead_ok xs"
  by (rule total_ok) (erule normLead_ok)

lemma leads_js: "list_all lead_ok xs \<Longrightarrow> map_or_throw (total normalizeTaskJitContextAnalysisSessionLead) (map js_of_lead xs) = Inr xs"
  by (rule total_js) (rule normLead_js)

lemma normAnalysis_ok:
  "text_ok nowIso \<Longrightarrow> normalizeTaskJitContextAnalysis nowIso v = Inr w \<Longrightarrow> opt_ok analysis_ok w"
proof -
  assume "text_ok nowIso"
  then have "text_ok (orDefault (normText u) nowIso)" for u
    by (cases "normText u") (simp_all add: normText_Some)
  then show "normalizeTaskJitContextAnalysis nowIso v = Inr w \<Longrightarrow> opt_ok analysis_ok w"
    by (auto simp: normalizeTaskJitContextAnalysis_def analysis_ok_def itemsOrEmpty_ok normSpec_ok
        split: if_splits option.splits sum.splits dest: normText_Some leads_ok)
qed

lemma normAnalysis_js:
  "opt_ok analysis_ok w \<Longrightarrow> normalizeTaskJitContextAnalysis nowIso (js_opt js_of_analysis w) = Inr w"
proof (cases w)
  case None
  then show ?thesis by (simp add: normalizeTaskJitContextAnalysis_def)
next
  case (Some a)
  assume "opt_ok analysis_ok w"
  with Some show ?thesis
    by (cases a) (auto simp: normalizeTaskJitContextAnalysis_def js_of_analysis_def jprop_JObj
      analysis_ok_def leads_js)
qed

lemma parseAnalysis_js:
  "opt_ok analysis_ok w \<Longrightarrow> parseTaskJitContextAnalysis nowIso (js_opt js_of_analysis w) = Inr w"
proof (cases w)
  case None
  then show ?thesis by (simp add: parseTaskJitContextAnalysis_def is_object_def)
next
  case (Some a)
  assume "opt_ok analysis_ok w"
  with Some have ok: "analysis_ok a" by simp
  then have "parseTaskJitContextAnalysis nowIso (js_of_analysis a)
      = normalizeTaskJitContextAnalysis nowIso (js_of_analysis a)"
    by (auto simp: parseTaskJitContextAnalysis_def js_of_analysis_def jprop_JObj analysis_ok_def js_text_def)
  with normAnalysis_js [of w nowIso] ok Some show ?thesis by simp
qed

lemma normLaneStatus_js [simp]:
  "normalizeTaskJitContextLaneStatus (js_text (map_option lane_status_str w)) = w"
proof (cases w)
  case None
  then show ?thesis by (simp add: normalizeTaskJitContextLaneStatus_def)
next
  case (Some st)
  then show ?thesis by (cases st) (simp_all add: normalizeTaskJitContextLaneStatus_def)
qed

lemma normCount_js [simp]: "normalizeTaskJitContextCount (js_nat n) = n"
  by (simp add: normalizeTaskJitContextCount_def js_nat_def)

lemma normGuidance_ok: "normalizeTaskJitContextLaneFlowGuidance v = Some x \<Longrightarrow> guidance_ok x"
  by (auto simp: normalizeTaskJitContextLaneFlowGuidance_def Let_def guidance_ok_def itemsOrEmpty_ok
      split: if_splits option.splits dest: normText_Some)

lemma normGuidance_js: "guidance_ok x \<Longrightarrow> normalizeTaskJitContextLaneFlowGuidance (js_of_guidance x) = Some x"
proof -
  assume ok: "guidance_ok x"
  obtain sev where sev: "fg_severity x = sev" by simp
  with ok show ?thesis
    by (cases x; cases sev)
       (simp_all add: normalizeTaskJitContextLaneFlowGuidance_def js_of_guidance_def jprop_JObj guidance_ok_def)
qed

lemma map_some_ok: "(\<And>v x. f v = Some x \<Longrightarrow> P x) \<Longrightarrow> list_all P (map_some f vs)"
  by (auto simp: list_all_iff set_map_some)

lemma map_some_js: "(\<And>x. P x \<Longrightarrow> f (g x) = Some x) \<Longrightarrow> list_all P xs \<Longrightarrow> map_some f (map g xs) = xs"
  by (rule map_some_map) (auto simp: list_all_iff)

lemma guidances_ok: "list_all guidance_ok (map_some normalizeTaskJitContextLaneFlowGuidance vs)"
  by (rule map_some_ok) (erule normGuidance_ok)

lemma guidances_js:
  "list_all guidance_ok xs \<Longrightarrow> map_some normalizeTaskJitContextLaneFlowGuidance (map js_of_guidance xs) = xs"
  by (rule map_some_js) (rule normGuidance_js)

lemma normLane_ok: "normalizeTaskJitContextLaneAnalysis v = Some x \<Longrightarrow> lane_ok x"
  by (auto simp: normalizeTaskJitContextLaneAnalysis_def lane_ok_def itemsOrEmpty_ok normSpec_ok normText_ok
      guidances_ok split: if_splits option.splits json.splits dest: normText_Some)

lemma normLane_js: "lane_ok x \<Longrightarrow> normalizeTaskJitContextLaneAnalysis (js_of_lane x) = Some x"
  by (simp add: normalizeTaskJitContextLaneAnalysis_def js_of_lane_def jprop_JObj lane_ok_def guidances_js)

text \<open>The property order of an object.\<close>

lemma property_order_mset: "mset (property_order kvs) = mset kvs"
  by (simp add: property_order_def)

lemma property_order_set: "set (property_order kvs) = set kvs"
  by (auto simp: property_order_def)

lemma property_order_distinct: "distinct (map fst (property_order kvs)) \<longleftrightarrow> distinct (map fst kvs)"
  by (rule mset_eq_imp_distinct_iff) (simp add: property_order_mset)

lemma property_order_idem: "property_order (property_order kvs) = property_order kvs"
proof -
  let ?P = "\<lambda>kv. is_index_key (fst kv)"
  let ?k = "by_key (\<lambda>kv. int (decimal_value (fst kv)))"
  have "filter ?P (sort_by ?k (filter ?P kvs)) = sort_by ?k (filter ?P kvs)"
    by (rule filter_True) auto
  moreover have "filter (\<lambda>kv. \<not> ?P kv) (sort_by ?k (filter ?P kvs)) = []"
    by (rule filter_False) auto
  ultimately show ?thesis by (simp add: property_order_def asc.sort_by_idem)
qed

lemma om_fold_absent:
  "distinct (map fst kvs) \<Longrightarrow> set (map fst kvs) \<inter> set (map fst m) = {} \<Longrightarrow>
   foldl (\<lambda>m kv. om_set m (fst kv) (snd kv)) m kvs = m @ kvs"
proof (induction kvs arbitrary: m)
  case (Cons kv kvs)
  then have "om_get m (fst kv) = None" by (auto simp: map_of_eq_None_iff)
  then have "om_set m (fst kv) (snd kv) = m @ [kv]" by (simp add: om_set_absent)
  with Cons show ?case by simp
qed simp

lemma fromEntries_fixed: "distinct (map fst kvs) \<Longrightarrow> property_order kvs = kvs \<Longrightarrow> fromEntries kvs = kvs"
  using om_fold_absent [of kvs "[]"] by (simp add: fromEntries_def)

lemma om_fold_keys: "om_wf m \<Longrightarrow> om_wf (foldl (\<lambda>m kv. om_set m (fst kv) (snd kv)) m kvs)"
  by (induction kvs arbitrary: m) auto

lemma set_om_set: "set (om_set m k v) \<subseteq> insert (k, v) (set m)"
  by (induction m k v rule: om_set.induct) auto

lemma om_fold_set: "set (foldl (\<lambda>m kv. om_set m (fst kv) (snd kv)) m kvs) \<subseteq> set m \<union> set kvs"
proof (induction kvs arbitrary: m)
  case (Cons kv kvs)
  then show ?case using Cons [of "om_set m (fst kv) (snd kv)"] set_om_set [of m "fst kv" "snd kv"] by fastforce
qed simp

lemma om_fold_nonempty: "kvs \<noteq> [] \<or> m \<noteq> [] \<Longrightarrow> foldl (\<lambda>m kv. om_set m (fst kv) (snd kv)) m kvs \<noteq> []"
proof (induction kvs arbitrary: m)
  case (Cons kv kvs)
  have "om_set m (fst kv) (snd kv) \<noteq> []" by (cases m) (auto split: if_splits)
  with Cons.IH show ?case by simp
qed simp

lemma fromEntries_ok:
  "kvs \<noteq> [] \<Longrightarrow> fromEntries kvs \<noteq> [] \<and> distinct (map fst (fromEntries kvs))
     \<and> property_order (fromEntries kvs) = fromEntries kvs \<and> set (fromEntries kvs) \<subseteq> set kvs"
  using om_fold_keys [of "[]" kvs] om_fold_set [of "[]" kvs] om_fold_nonempty [of kvs "[]"]
  by (auto simp: fromEntries_def property_order_idem property_order_distinct om_wf_def property_order_set
      simp flip: set_empty)

lemma normPerLane_ok: "opt_ok lanes_ok (normalizeTaskJitContextPerLaneAnalysis v)"
proof (cases v)
  case (JObj kvs)
  let ?es = "map_some (\<lambda>(key, entry). map_option
                   (\<lambda>n. (the (orElse (Some (la_columnId n)) (Some key)), n))
                   (normalizeTaskJitContextLaneAnalysis entry)) kvs"
  have e: "lane_ok (snd kv) \<and> fst kv = la_columnId (snd kv)" if "kv \<in> set ?es" for kv
    using that normLane_ok by (fastforce simp: set_map_some lane_ok_def text_ok_def orElse_def)
  show ?thesis
  proof (cases "?es = []")
    case False
    then have "lanes_ok (fromEntries ?es)"
      using fromEntries_ok [OF False] e unfolding lanes_ok_def list_all_iff by blast
    with JObj False show ?thesis by (simp add: normalizeTaskJitContextPerLaneAnalysis_def Let_def)
  qed (simp add: JObj normalizeTaskJitContextPerLaneAnalysis_def Let_def)
qed (simp_all add: normalizeTaskJitContextPerLaneAnalysis_def)

lemma normPerLane_js:
  "opt_ok lanes_ok w \<Longrightarrow> normalizeTaskJitContextPerLaneAnalysis (js_opt js_of_lanes w) = w"
proof (cases w)
  case (Some kvs)
  assume "opt_ok lanes_ok w"
  with Some have ok: "lanes_ok kvs" by simp
  let ?f = "\<lambda>(key, entry). map_option
                   (\<lambda>n. (the (orElse (Some (la_columnId n)) (Some key)), n))
                   (normalizeTaskJitContextLaneAnalysis entry)"
  have "map_some ?f (map (\<lambda>kv. (fst kv, js_of_lane (snd kv))) kvs) = kvs"
    using ok by (intro map_some_map) (auto simp: lanes_ok_def list_all_iff normLane_js lane_ok_def text_ok_def)
  with ok Some show ?thesis
    by (simp add: normalizeTaskJitContextPerLaneAnalysis_def js_of_lanes_def lanes_ok_def fromEntries_fixed)
qed (simp add: normalizeTaskJitContextPerLaneAnalysis_def)

lemma normConfidence_js [simp]: "normalizeMatchConfidence (JStr (confidence_str c)) = c"
  by (cases c) (simp_all add: normalizeMatchConfidence_def)

section \<open>Snapshots\<close>

lemma normSnapshot_ok:
  "text_ok nowIso \<Longrightarrow> normalizeTaskJitContextSnapshot nowIso v = Inr (Some s) \<Longrightarrow> snapshot_ok s"
  by (auto simp: normalizeTaskJitContextSnapshot_def snapshot_ok_def itemsOrEmpty_ok normSpec_ok normText_ok
      normPerLane_ok split: if_splits option.splits sum.splits
      dest: normText_Some files_ok failures_ok sessions_ok normHistory_ok normAnalysis_ok)

lemma normSnapshot_js: "snapshot_ok s \<Longrightarrow> normalizeTaskJitContextSnapshot nowIso (js_of_snapshot s) = Inr (Some s)"
  by (simp add: normalizeTaskJitContextSnapshot_def js_of_snapshot_def jprop_JObj snapshot_ok_def
      files_js failures_js sessions_js normHistory_js normAnalysis_js normPerLane_js)

lemma parseSnapshot_js: "snapshot_ok s \<Longrightarrow> parseTaskJitContextSnapshot nowIso (js_of_snapshot s) = Inr (Some s)"
proof -
  assume ok: "snapshot_ok s"
  then have "parseTaskJitContextSnapshot nowIso (js_of_snapshot s)
      = normalizeTaskJitContextSnapshot nowIso (js_of_snapshot s)"
    by (simp add: parseTaskJitContextSnapshot_def js_of_snapshot_def jprop_JObj snapshot_ok_def parseAnalysis_js)
  with ok show ?thesis by (simp add: normSnapshot_js)
qed

lemma parseSnapshot_ok:
  "text_ok nowIso \<Longrightarrow> parseTaskJitContextSnapshot nowIso v = Inr (Some s) \<Longrightarrow> snapshot_ok s"
  by (auto simp: parseTaskJitContextSnapshot_def split: if_splits sum.splits intro: normSnapshot_ok)

section \<open>When reading throws\<close>

definition not_array :: "json \<Rightarrow> bool" where
  "not_array v = (case v of JUndef \<Rightarrow> False | JNull \<Rightarrow> False | JArr vs \<Rightarrow> False | _ \<Rightarrow> True)"

definition elements :: "json \<Rightarrow> json list" where
  "elements v = (case v of JArr vs \<Rightarrow> vs | _ \<Rightarrow> [])"

text \<open>A session entry that is kept but whose \<open>failedReadSignals\<close> cannot be mapped over.\<close>

definition session_throws :: "json \<Rightarrow> bool" where
  "session_throws v = (list_all (\<lambda>k. normText (jprop v k) \<noteq> None)
      [''provider'', ''sessionId'', ''updatedAt'', ''promptSnippet'']
    \<and> not_array (jprop v ''failedReadSignals''))"

definition history_throws :: "json \<Rightarrow> bool" where
  "history_throws v = (normText (jprop v ''overview'') \<noteq> None
    \<and> (not_array (jprop v ''seedSessions'') \<or> list_ex session_throws (elements (jprop v ''seedSessions''))))"

lemma map_or_throw_Inl: "(\<exists>e. map_or_throw f vs = Inl e) \<longleftrightarrow> (\<exists>v\<in>set vs. \<exists>e. f v = Inl e)"
proof (induction vs)
  case (Cons v vs)
  then show ?case by (cases "f v"; cases "map_or_throw f vs") auto
qed simp

lemma map_entries_throw: "(\<exists>e. map_entries f v = Inl e) \<longleftrightarrow> not_array v \<or> list_ex (\<lambda>w. \<exists>e. f w = Inl e) (elements v)"
  by (cases v) (simp_all add: map_entries_def not_array_def elements_def map_or_throw_Inl list_ex_iff)

lemma total_throw: "(\<exists>e. map_entries (total f) v = Inl e) \<longleftrightarrow> not_array v"
  using map_entries_throw [of "total f" v] by (simp add: list_ex_iff)

lemma falsy_jprop: "falsy v \<Longrightarrow> jprop v k = JUndef"
  by (cases v) (simp_all add: falsy_def jprop_def)

lemma normText_undef [simp]: "normText JUndef = None"
  by (simp add: normalizeTaskContextSearchText_def)

lemma session_throw_iff: "(\<exists>e. normalizeTaskJitContextSessionSummary v = Inl e) \<longleftrightarrow> session_throws v"
proof (cases "falsy v")
  case False
  then show ?thesis
    using map_entries_throw [of "total normalizeTaskJitContextFailureSignal" "jprop v ''failedReadSignals''"]
    by (auto simp: normalizeTaskJitContextSessionSummary_def session_throws_def list_ex_iff split: option.splits sum.splits)
qed (simp add: normalizeTaskJitContextSessionSummary_def session_throws_def falsy_jprop)

lemma seed_throw_iff: "(\<exists>e. normalizeTaskJitContextSeedSessionSummary v = Inl e) \<longleftrightarrow> session_throws v"
proof (cases "falsy v")
  case False
  then show ?thesis
    using map_entries_throw [of "total normalizeTaskJitContextFailureSignal" "jprop v ''failedReadSignals''"]
    by (auto simp: normalizeTaskJitContextSeedSessionSummary_def session_throws_def list_ex_iff split: option.splits sum.splits)
qed (simp add: normalizeTaskJitContextSeedSessionSummary_def session_throws_def falsy_jprop)

lemma history_throw_iff: "(\<exists>e. normalizeTaskJitContextHistorySummary v = Inl e) \<longleftrightarrow> history_throws v"
proof (cases "falsy v")
  case False
  then show ?thesis
    using map_entries_throw [of normalizeTaskJitContextSeedSessionSummary "jprop v ''seedSessions''"]
    by (auto simp: normalizeTaskJitContextHistorySummary_def history_throws_def list_ex_iff seed_throw_iff
      split: option.splits sum.splits)
qed (simp add: normalizeTaskJitContextHistorySummary_def history_throws_def falsy_jprop)

lemma guarded_text: "normText (stringOr w (JStr [])) = normText w" "normText (stringOr w JUndef) = normText w"
  by (cases w; simp add: stringOr_def normalizeTaskContextSearchText_def)+

lemma guarded_array: "\<not> not_array (arrayOr w (JArr []))" "elements (arrayOr w (JArr [])) = elements w"
  by (cases w; simp add: arrayOr_def not_array_def elements_def)+

lemma parseAnalysis_total: "parseTaskJitContextAnalysis nowIso v \<noteq> Inl e"
proof -
  have "map_entries (total f) (arrayOr w (JArr [])) \<noteq> Inl e'" for f :: "json \<Rightarrow> 'x option" and w e'
    using total_throw [of f "arrayOr w (JArr [])"] guarded_array by blast
  then show ?thesis
    by (auto simp: parseTaskJitContextAnalysis_def normalizeTaskJitContextAnalysis_def jprop_JObj
        split: option.splits sum.splits)
qed

lemma normAnalysis_total: "normalizeTaskJitContextAnalysis nowIso (js_opt js_of_analysis w) \<noteq> Inl e"
proof (cases w)
  case (Some a)
  have "map_entries (total f) (JArr vs) \<noteq> Inl e'" for f :: "json \<Rightarrow> 'x option" and vs e'
    using total_throw [of f "JArr vs"] by (auto simp: not_array_def)
  then show ?thesis using Some
    by (auto simp: normalizeTaskJitContextAnalysis_def js_of_analysis_def jprop_JObj
        split: option.splits sum.splits simp del: js_parts(9))
qed (simp add: normalizeTaskJitContextAnalysis_def)

text \<open>Every snapshot that reading stored JSON or normalising gives is well formed: its texts are trimmed and not blank, its lists have no blank and no repeated entry, nested analyses and search hints are never empty, and the per-lane analyses are keyed by their column.\<close>
theorem jit_snapshot_well_formed:
  assumes "text_ok nowIso"
    and "parseTaskJitContextSnapshot nowIso v = Inr (Some s) \<or> normalizeTaskJitContextSnapshot nowIso v = Inr (Some s)"
  shows "snapshot_ok s"
  using assms parseSnapshot_ok normSnapshot_ok by blast

text \<open>A well-formed snapshot survives storage: read back, or normalised again, at any later time, it is the same snapshot.\<close>
theorem jit_snapshot_roundtrip:
  assumes "snapshot_ok s"
  shows "parseTaskJitContextSnapshot later (js_of_snapshot s) = Inr (Some s)
    \<and> normalizeTaskJitContextSnapshot later (js_of_snapshot s) = Inr (Some s)"
  using parseSnapshot_js [OF assms] normSnapshot_js [OF assms] by simp

text \<open>Reading a stored snapshot throws a TypeError exactly when the object has a generation time and a summary and one of its sessions, or its history summary, is complete but holds something other than an array where the code maps over one; every other malformed value is read as a snapshot or as no snapshot.\<close>
theorem parse_snapshot_throws_iff:
  "(\<exists>e. parseTaskJitContextSnapshot nowIso v = Inl e) \<longleftrightarrow>
     is_object v \<and> normText (jprop v ''generatedAt'') \<noteq> None \<and> normText (jprop v ''summary'') \<noteq> None
     \<and> (list_ex session_throws (elements (jprop v ''sessions'')) \<or> history_throws (jprop v ''historySummary''))"
proof (cases "is_object v")
  case obj: True
  obtain a where a: "parseTaskJitContextAnalysis nowIso (jprop v ''analysis'') = Inr a"
    using parseAnalysis_total by (cases "parseTaskJitContextAnalysis nowIso (jprop v ''analysis'')") auto
  have tot: "\<exists>xs. map_entries (total f) (arrayOr w (JArr [])) = Inr xs" for f :: "json \<Rightarrow> 'x option" and w
    using total_throw [of f "arrayOr w (JArr [])"] guarded_array
    by (cases "map_entries (total f) (arrayOr w (JArr []))") auto
  obtain fs where fs: "map_entries (total normalizeTaskJitContextMatchedFileDetail)
      (arrayOr (jprop v ''matchedFileDetails'') (JArr [])) = Inr fs" using tot by blast
  obtain ls where ls: "map_entries (total normalizeTaskJitContextFailureSignal)
      (arrayOr (jprop v ''failures'') (JArr [])) = Inr ls" using tot by blast
  obtain w where w: "normalizeTaskJitContextAnalysis nowIso (js_opt js_of_analysis a) = Inr w"
    using normAnalysis_total by (cases "normalizeTaskJitContextAnalysis nowIso (js_opt js_of_analysis a)") auto
  have ss: "(\<exists>e. map_entries normalizeTaskJitContextSessionSummary (arrayOr (jprop v ''sessions'') (JArr [])) = Inl e)
      \<longleftrightarrow> list_ex session_throws (elements (jprop v ''sessions''))"
    using map_entries_throw [of normalizeTaskJitContextSessionSummary] guarded_array
    by (simp add: session_throw_iff)
  show ?thesis using obj history_throw_iff [of "jprop v ''historySummary''"] ss
    by (auto simp: parseTaskJitContextSnapshot_def a normalizeTaskJitContextSnapshot_def jprop_JObj
        guarded_text fs ls w split: option.splits sum.splits)
qed (simp add: parseTaskJitContextSnapshot_def)

text \<open>The snapshot that an analysis alone becomes.\<close>

definition analysis_snapshot :: "jit_analysis \<Rightarrow> jit_snapshot" where
  "analysis_snapshot b =
     \<lparr>js_generatedAt = the (ja_updatedAt b), js_repoPath = None, js_featureId = None,
      js_featureName = None, js_summary = ja_summary b, js_matchConfidence = McLow,
      js_matchReasons = [], js_warnings = [], js_matchedFileDetails = [], js_matchedSessionIds = [],
      js_failures = [], js_repeatedReadFiles = [], js_sessions = [], js_historySummary = None,
      js_recommendedContextSearchSpec = ja_recommendedContextSearchSpec b,
      js_analysis = Some b, js_perLaneAnalysis = None\<rparr>"

definition merged_snapshot :: "jit_snapshot \<Rightarrow> jit_analysis option \<Rightarrow> jit_snapshot" where
  "merged_snapshot s a = s\<lparr>js_recommendedContextSearchSpec :=
       nullish (Option.bind a ja_recommendedContextSearchSpec) (js_recommendedContextSearchSpec s),
     js_analysis := a\<rparr>"

lemma merged_snapshot_ok: "snapshot_ok s \<Longrightarrow> opt_ok analysis_ok a \<Longrightarrow> snapshot_ok (merged_snapshot s a)"
proof -
  assume "snapshot_ok s" and a: "opt_ok analysis_ok a"
  moreover from a have "opt_ok spec_ok (Option.bind a ja_recommendedContextSearchSpec)"
    by (cases a) (simp_all add: analysis_ok_def)
  ultimately show ?thesis
    by (cases "Option.bind a ja_recommendedContextSearchSpec") (simp_all add: merged_snapshot_def snapshot_ok_def)
qed

lemma analysis_snapshot_ok: "analysis_ok b \<Longrightarrow> snapshot_ok (analysis_snapshot b)"
  by (auto simp: analysis_snapshot_def snapshot_ok_def analysis_ok_def items_ok_def)

lemma merge_into:
  "snapshot_ok s \<Longrightarrow> opt_ok analysis_ok a \<Longrightarrow>
   mergeTaskJitContextAnalysis nowIso (js_of_snapshot s) (js_opt js_of_analysis a) = Inr (Some (merged_snapshot s a))"
  using merged_snapshot_ok [of s a]
  by (simp add: mergeTaskJitContextAnalysis_def normAnalysis_js normSnapshot_js flip: merged_snapshot_def)

lemma merge_fresh:
  assumes "opt_ok analysis_ok a"
  shows "mergeTaskJitContextAnalysis nowIso JUndef (js_opt js_of_analysis a) = Inr (map_option analysis_snapshot a)"
proof -
  have none: "normalizeTaskJitContextSnapshot nowIso JUndef = Inr None"
    by (simp add: normalizeTaskJitContextSnapshot_def)
  note na = normAnalysis_js [OF assms, of nowIso]
  show ?thesis
  proof (cases a)
    case (Some b)
    with assms obtain t where t: "ja_updatedAt b = Some t" and b: "analysis_ok b"
      by (auto simp: analysis_ok_def)
    note sn = normSnapshot_js [OF analysis_snapshot_ok [OF b], of nowIso]
    from na sn Some t show ?thesis
      by (simp add: mergeTaskJitContextAnalysis_def none analysis_snapshot_def)
  qed (use na in \<open>simp add: mergeTaskJitContextAnalysis_def none\<close>)
qed

text \<open>Merging an analysis into a stored snapshot replaces its analysis, takes over the recommended search hints when the analysis has some, and leaves the rest; merging nothing therefore removes the stored analysis. Without a stored snapshot, an analysis becomes a low-confidence snapshot of its own.\<close>
theorem merge_analysis_result:
  assumes "opt_ok analysis_ok a" and "snapshot_ok s"
  shows "mergeTaskJitContextAnalysis nowIso (js_of_snapshot s) (js_opt js_of_analysis a)
      = Inr (Some (merged_snapshot s a))
    \<and> mergeTaskJitContextAnalysis nowIso (js_of_snapshot s) JUndef = Inr (Some (s\<lparr>js_analysis := None\<rparr>))
    \<and> mergeTaskJitContextAnalysis nowIso JUndef (js_opt js_of_analysis a) = Inr (map_option analysis_snapshot a)"
  using merge_into [OF assms(2,1), of nowIso] merge_into [OF assms(2), of None nowIso] merge_fresh [OF assms(1)]
  by (simp add: merged_snapshot_def)

section \<open>An example\<close>

definition sample_stored :: json where
  "sample_stored = JObj
     [(''generatedAt'', JStr ''2026-01-01''), (''summary'', JStr '' fix ''),
      (''warnings'', JArr [JStr ''w'', JStr ''w '', JNull, JStr '' '']),
      (''analysis'', JObj [(''summary'', JStr ''found'')]),
      (''sessions'', JArr [JNull, JObj [(''provider'', JStr ''p'')]])]"

definition sample_analysis :: jit_analysis where
  "sample_analysis = \<lparr>ja_updatedAt = Some ''now'', ja_summary = ''found'', ja_topFiles = [],
     ja_topSessions = [], ja_reusablePrompts = [], ja_recommendedContextSearchSpec = None\<rparr>"

definition sample_snapshot :: jit_snapshot where
  "sample_snapshot =
     \<lparr>js_generatedAt = ''2026-01-01'', js_repoPath = None, js_featureId = None, js_featureName = None,
      js_summary = ''fix'', js_matchConfidence = McLow, js_matchReasons = [], js_warnings = [''w''],
      js_matchedFileDetails = [], js_matchedSessionIds = [], js_failures = [], js_repeatedReadFiles = [],
      js_sessions = [], js_historySummary = None, js_recommendedContextSearchSpec = None,
      js_analysis = Some sample_analysis, js_perLaneAnalysis = None\<rparr>"

lemma sample_parse: "parseTaskJitContextSnapshot ''now'' sample_stored = Inr (Some sample_snapshot)"
  by code_simp

lemma sample_ok: "snapshot_ok sample_snapshot" "opt_ok analysis_ok (Some sample_analysis)" "text_ok ''now''"
  by code_simp+

theorem jit_snapshot_well_formed_witness: "snapshot_ok sample_snapshot"
  using jit_snapshot_well_formed [of "''now''" sample_stored sample_snapshot] sample_parse sample_ok(3) by blast

theorem jit_snapshot_roundtrip_witness:
  "parseTaskJitContextSnapshot ''later'' (js_of_snapshot sample_snapshot) = Inr (Some sample_snapshot)"
  using jit_snapshot_roundtrip [OF sample_ok(1), of "''later''"] by blast

theorem merge_analysis_result_witness:
  "mergeTaskJitContextAnalysis ''later'' (js_of_snapshot sample_snapshot) JUndef
     = Inr (Some (sample_snapshot\<lparr>js_analysis := None\<rparr>))"
  using merge_analysis_result [OF sample_ok(2,1), of "''later''"] by blast

end
