(* ===== verification/TaskModel.thy ===== *)
theory TaskModel
  imports TaskContext
begin

text \<open>
  The card: src/src/core/models/task.ts (\<open>Task\<close>, \<open>createTask\<close>), the conclusion of the Blocked
  resolver (models/task-attention-resolution.ts), the hold label (kanban/task-hold.ts) and where a
  card comes from (kanban/task-creation-policy.ts). A \<open>Date\<close> is its time in milliseconds.
\<close>

section \<open>Creation source and hold label\<close>

datatype creation_source = SrcManual | SrcAgent | SrcApi | SrcSession

definition normalizeTaskCreationSource :: "json \<Rightarrow> string option \<Rightarrow> creation_source" where
  "normalizeTaskCreationSource value sessionId =
     (if value = JStr ''manual'' then SrcManual
      else if value = JStr ''agent'' then SrcAgent
      else if value = JStr ''session'' then SrcSession
      else if falsy value \<and> truthy sessionId then SrcSession
      else SrcApi)"

definition shouldCreateGitHubIssueOnTaskCreate :: "bool \<Rightarrow> creation_source \<Rightarrow> bool" where
  "shouldCreateGitHubIssueOnTaskCreate createGitHubIssue creationSource =
     (createGitHubIssue \<and> creationSource = SrcManual)"

definition HOLD_LABEL :: string where
  "HOLD_LABEL = ''hold''"

text \<open>The labels of a card as the code finds them: any value.\<close>

definition isTaskOnHold :: "json \<Rightarrow> bool" where
  "isTaskOnHold labels =
     (case labels of JArr ls \<Rightarrow> list_ex (\<lambda>label. case label of JStr s \<Rightarrow> toLowerCase (trim s) = HOLD_LABEL | _ \<Rightarrow> False) ls
      | _ \<Rightarrow> False)"

section \<open>Attention resolution\<close>

datatype attention_category = CatLanded | CatSuperseded | CatHandedOff | CatWaiting | CatNeedsOwner

fun attention_category_str :: "attention_category \<Rightarrow> string" where
  "attention_category_str CatLanded = ''landed''"
| "attention_category_str CatSuperseded = ''superseded''"
| "attention_category_str CatHandedOff = ''handed_off''"
| "attention_category_str CatWaiting = ''waiting''"
| "attention_category_str CatNeedsOwner = ''needs_owner''"

definition TASK_ATTENTION_RESOLUTION_CATEGORIES :: "attention_category list" where
  "TASK_ATTENTION_RESOLUTION_CATEGORIES = [CatLanded, CatSuperseded, CatHandedOff, CatWaiting, CatNeedsOwner]"

record attention_resolution =
  ar_category :: attention_category
  ar_conclusion :: string
  ar_ref :: "string option"
  ar_resolvedAt :: string
  ar_sessionId :: "string option"

definition RESOLVED_ATTENTION_CATEGORIES :: "attention_category set" where
  "RESOLVED_ATTENTION_CATEGORIES = {CatLanded, CatSuperseded, CatHandedOff, CatWaiting}"

definition DONE_WITHOUT_OWN_COMMITS_CATEGORIES :: "attention_category set" where
  "DONE_WITHOUT_OWN_COMMITS_CATEGORIES = {CatLanded, CatSuperseded}"

definition isAttentionResolved :: "attention_resolution option \<Rightarrow> bool" where
  "isAttentionResolved resolution =
     (case resolution of None \<Rightarrow> False | Some r \<Rightarrow> ar_category r \<in> RESOLVED_ATTENTION_CATEGORIES)"

definition parseIsoMs :: "js_host \<Rightarrow> string \<Rightarrow> int" where
  "parseIsoMs host value = (if value = [] then 0 else orDefault (hostDateParse host value) 0)"

definition isAttentionResolutionInEffect ::
  "js_host \<Rightarrow> attention_resolution option \<Rightarrow> string option \<Rightarrow> lane_session list \<Rightarrow> bool" where
  "isAttentionResolutionInEffect host resolution column laneSessions =
     (case resolution of None \<Rightarrow> False | Some r \<Rightarrow>
        if ar_category r \<in> DONE_WITHOUT_OWN_COMMITS_CATEGORIES
        then column = Some ''blocked'' \<or> column = Some ''done''
        else if ar_category r = CatHandedOff \<or> ar_category r = CatWaiting then column = Some ''blocked''
        else if ar_category r = CatNeedsOwner then
          column = Some ''blocked''
          \<or> \<not> list_ex (\<lambda>session. parseIsoMs host (ls_startedAt session) > parseIsoMs host (ar_resolvedAt r)) laneSessions
        else False)"

definition attentionResolutionAfterMove ::
  "attention_resolution option \<Rightarrow> string option \<Rightarrow> string option \<Rightarrow> attention_resolution option" where
  "attentionResolutionAfterMove resolution fromColumnId toColumnId =
     (case resolution of None \<Rightarrow> None | Some r \<Rightarrow>
        if fromColumnId = toColumnId then Some r
        else if toColumnId = Some ''blocked'' then Some r
        else if toColumnId = Some ''done'' \<and> (fromColumnId = Some ''blocked'' \<or> fromColumnId = Some ''done'')
             \<and> ar_category r \<in> DONE_WITHOUT_OWN_COMMITS_CATEGORIES then Some r
        else None)"

definition isAttentionResolvedInEffect ::
  "js_host \<Rightarrow> attention_resolution option \<Rightarrow> string option \<Rightarrow> lane_session list \<Rightarrow> bool" where
  "isAttentionResolvedInEffect host resolution column laneSessions =
     (isAttentionResolved resolution \<and> isAttentionResolutionInEffect host resolution column laneSessions)"

text \<open>The errors of \<open>parseTaskAttentionResolution\<close>; the first carries the value it rejects.\<close>

datatype attention_error = NotObject | InvalidCategory json | ConclusionRequired | ResolvedAtNotIso

definition optionalString :: "json \<Rightarrow> string option" where
  "optionalString value = (case value of JStr s \<Rightarrow> if trim s \<noteq> [] then Some (trim s) else None | _ \<Rightarrow> None)"

definition parse_category :: "json \<Rightarrow> attention_category option" where
  "parse_category v = (case v of
     JStr s \<Rightarrow> List.find (\<lambda>c. attention_category_str c = s) TASK_ATTENTION_RESOLUTION_CATEGORIES | _ \<Rightarrow> None)"

definition parseTaskAttentionResolution :: "js_host \<Rightarrow> json \<Rightarrow> attention_error + attention_resolution option" where
  "parseTaskAttentionResolution host value =
     (if value = JNull then Inr None
      else if \<not> is_object value then Inl NotObject
      else (case parse_category (jprop value ''category'') of
         None \<Rightarrow> Inl (InvalidCategory (jprop value ''category''))
       | Some category \<Rightarrow>
        (case optionalString (jprop value ''conclusion'') of
           None \<Rightarrow> Inl ConclusionRequired
         | Some conclusion \<Rightarrow>
          (case optionalString (jprop value ''resolvedAt'') of
             None \<Rightarrow> Inl ResolvedAtNotIso
           | Some resolvedAt \<Rightarrow>
               if hostDateParse host resolvedAt = None then Inl ResolvedAtNotIso
               else Inr (Some \<lparr>ar_category = category, ar_conclusion = conclusion,
                  ar_ref = optionalString (jprop value ''ref''), ar_resolvedAt = resolvedAt,
                  ar_sessionId = optionalString (jprop value ''sessionId'')\<rparr>)))))"

section \<open>The card\<close>

record delivery_commit =
  dc_sha :: string
  dc_shortSha :: string
  dc_summary :: string
  dc_authorName :: string
  dc_authoredAt :: string
  dc_additions :: int
  dc_deletions :: int

datatype delivery_source = DsReviewTransition | DsDoneTransition | DsPrRun | DsManual

record delivery_snapshot =
  dv_capturedAt :: string
  dv_repoPath :: string
  dv_worktreeId :: "string option"
  dv_worktreePath :: "string option"
  dv_branch :: "string option"
  dv_baseBranch :: "string option"
  dv_baseRef :: string
  dv_baseSha :: string
  dv_headSha :: string
  dv_commits :: "delivery_commit list"
  dv_source :: delivery_source
  dv_landedAt :: "string option"

record task =
  tk_id :: string
  tk_title :: string
  tk_objective :: string
  tk_comment :: "string option"
  tk_comments :: "task_comment list"
  tk_scope :: "string option"
  tk_acceptanceCriteria :: "string list option"
  tk_verificationCommands :: "string list option"
  tk_testCases :: "string list option"
  tk_assignedTo :: "string option"
  tk_status :: task_status
  tk_boardId :: "string option"
  tk_columnId :: "string option"
  tk_position :: int
  tk_priority :: "task_priority option"
  tk_labels :: "string list"
  tk_assignee :: "string option"
  tk_assignedProvider :: "string option"
  tk_assignedRole :: "string option"
  tk_assignedSpecialistId :: "string option"
  tk_assignedSpecialistName :: "string option"
  tk_assignedModel :: "string option"
  tk_assignedReasoningEffort :: "string option"
  tk_fallbackAgentChain :: "fallback_agent list option"
  tk_enableAutomaticFallback :: "bool option"
  tk_maxFallbackAttempts :: "int option"
  tk_triggerSessionId :: "string option"
  tk_sessionIds :: "string list"
  tk_laneSessions :: "lane_session list"
  tk_laneHandoffs :: "lane_handoff list"
  tk_githubId :: "string option"
  tk_githubNumber :: "int option"
  tk_githubUrl :: "string option"
  tk_githubRepo :: "string option"
  tk_githubState :: "string option"
  tk_githubSyncedAt :: "int option"
  tk_lastSyncError :: "string option"
  tk_attentionResolution :: "attention_resolution option"
  tk_isPullRequest :: "bool option"
  tk_dependencies :: "string list"
  tk_parallelGroup :: "string option"
  tk_workspaceId :: string
  tk_sessionId :: "string option"
  tk_creationSource :: "creation_source option"
  tk_codebaseIds :: "string list"
  tk_contextSearchSpec :: "search_spec option"
  tk_jitContextSnapshot :: "jit_snapshot option"
  tk_worktreeId :: "string option"
  tk_deliverySnapshot :: "delivery_snapshot option"
  tk_createdAt :: int
  tk_updatedAt :: int
  tk_completionSummary :: "string option"
  tk_verificationVerdict :: "verification_verdict option"
  tk_verificationReport :: "string option"

text \<open>\<open>normalizeTaskJitContextSnapshot\<close> on a typed snapshot; it does not throw there, because the
  lists of a typed snapshot are arrays (lemma \<open>typed_snapshot_total\<close>).\<close>

definition normalizeSnapshot :: "string \<Rightarrow> jit_snapshot option \<Rightarrow> jit_snapshot option" where
  "normalizeSnapshot nowIso v =
     (case normalizeTaskJitContextSnapshot nowIso (js_opt js_of_snapshot v) of Inl e \<Rightarrow> None | Inr r \<Rightarrow> r)"

record task_params =
  tp_id :: string
  tp_title :: string
  tp_objective :: string
  tp_comment :: "string option"
  tp_comments :: "task_comment list option"
  tp_workspaceId :: string
  tp_triggerSessionId :: "string option"
  tp_sessionId :: "string option"
  tp_creationSource :: "creation_source option"
  tp_scope :: "string option"
  tp_acceptanceCriteria :: "string list option"
  tp_verificationCommands :: "string list option"
  tp_testCases :: "string list option"
  tp_dependencies :: "string list option"
  tp_parallelGroup :: "string option"
  tp_boardId :: "string option"
  tp_columnId :: "string option"
  tp_position :: "int option"
  tp_priority :: "task_priority option"
  tp_labels :: "string list option"
  tp_assignee :: "string option"
  tp_assignedProvider :: "string option"
  tp_assignedRole :: "string option"
  tp_assignedSpecialistId :: "string option"
  tp_assignedSpecialistName :: "string option"
  tp_assignedModel :: "string option"
  tp_assignedReasoningEffort :: "string option"
  tp_fallbackAgentChain :: "fallback_agent list option"
  tp_enableAutomaticFallback :: "bool option"
  tp_maxFallbackAttempts :: "int option"
  tp_githubId :: "string option"
  tp_githubNumber :: "int option"
  tp_githubUrl :: "string option"
  tp_githubRepo :: "string option"
  tp_githubState :: "string option"
  tp_githubSyncedAt :: "int option"
  tp_lastSyncError :: "string option"
  tp_attentionResolution :: "attention_resolution option"
  tp_isPullRequest :: "bool option"
  tp_status :: "task_status option"
  tp_codebaseIds :: "string list option"
  tp_contextSearchSpec :: "search_spec option"
  tp_jitContextSnapshot :: "jit_snapshot option"
  tp_worktreeId :: "string option"

text \<open>\<open>now\<close> is the time of the call, \<open>newCommentId\<close> the id drawn for a first comment.\<close>

definition createTask :: "js_host \<Rightarrow> int \<Rightarrow> string \<Rightarrow> task_params \<Rightarrow> task" where
  "createTask host now newCommentId p =
     \<lparr>tk_id = tp_id p, tk_title = tp_title p, tk_objective = tp_objective p, tk_comment = tp_comment p,
      tk_comments = orDefault (tp_comments p) (buildInitialTaskComments newCommentId (tp_comment p) (hostToISO host now)),
      tk_scope = tp_scope p, tk_acceptanceCriteria = tp_acceptanceCriteria p,
      tk_verificationCommands = tp_verificationCommands p, tk_testCases = tp_testCases p,
      tk_assignedTo = None, tk_status = orDefault (tp_status p) TS_PENDING,
      tk_boardId = tp_boardId p, tk_columnId = tp_columnId p, tk_position = orDefault (tp_position p) 0,
      tk_priority = tp_priority p, tk_labels = orDefault (tp_labels p) [], tk_assignee = tp_assignee p,
      tk_assignedProvider = tp_assignedProvider p, tk_assignedRole = tp_assignedRole p,
      tk_assignedSpecialistId = tp_assignedSpecialistId p,
      tk_assignedSpecialistName = tp_assignedSpecialistName p, tk_assignedModel = tp_assignedModel p,
      tk_assignedReasoningEffort = tp_assignedReasoningEffort p,
      tk_fallbackAgentChain = tp_fallbackAgentChain p,
      tk_enableAutomaticFallback = tp_enableAutomaticFallback p,
      tk_maxFallbackAttempts = tp_maxFallbackAttempts p, tk_triggerSessionId = tp_triggerSessionId p,
      tk_sessionIds = [], tk_laneSessions = [], tk_laneHandoffs = [],
      tk_githubId = tp_githubId p, tk_githubNumber = tp_githubNumber p, tk_githubUrl = tp_githubUrl p,
      tk_githubRepo = tp_githubRepo p, tk_githubState = tp_githubState p,
      tk_githubSyncedAt = tp_githubSyncedAt p, tk_lastSyncError = tp_lastSyncError p,
      tk_attentionResolution = tp_attentionResolution p, tk_isPullRequest = tp_isPullRequest p,
      tk_dependencies = orDefault (tp_dependencies p) [], tk_parallelGroup = tp_parallelGroup p,
      tk_workspaceId = tp_workspaceId p, tk_sessionId = tp_sessionId p,
      tk_creationSource = tp_creationSource p, tk_codebaseIds = orDefault (tp_codebaseIds p) [],
      tk_contextSearchSpec = normalizeTaskContextSearchSpec (js_opt js_of_spec (tp_contextSearchSpec p)),
      tk_jitContextSnapshot = normalizeSnapshot (hostToISO host now) (tp_jitContextSnapshot p),
      tk_worktreeId = tp_worktreeId p, tk_deliverySnapshot = None,
      tk_createdAt = now, tk_updatedAt = now, tk_completionSummary = None,
      tk_verificationVerdict = None, tk_verificationReport = None\<rparr>"

section \<open>Lemmas\<close>

definition concrete_host :: js_host where
  "concrete_host = \<lparr>hostDateParse = (\<lambda>s. if s = ''7'' then Some 7 else if s = ''9'' then Some 9 else None),
     hostToISO = (\<lambda>t. if t = 7 then ''7'' else ''9''), hostLocaleCompare = (\<lambda>a b. 0)\<rparr>"

lemma optionalString_ok: "optionalString v = Some s \<Longrightarrow> text_ok s"
  by (auto simp: optionalString_def text_ok_def split: json.splits if_splits)

lemma parse_category_iff: "parse_category v = Some c \<longleftrightarrow> v = JStr (attention_category_str c)"
proof
  assume "parse_category v = Some c"
  then show "v = JStr (attention_category_str c)"
    by (cases v) (auto simp: parse_category_def dest: find_Some_iff_set)
next
  assume "v = JStr (attention_category_str c)"
  then show "parse_category v = Some c" by (cases c; simp; code_simp)
qed

text \<open>The value accepted for a resolver's conclusion is complete: one of the five categories as written, a conclusion that is not blank, a time the platform can parse, everything trimmed; null clears the field; and reading a stored conclusion back gives it again.\<close>
theorem attention_parse_accepts:
  "(\<forall>r. parseTaskAttentionResolution host v = Inr (Some r) \<longrightarrow>
      jprop v ''category'' = JStr (attention_category_str (ar_category r)) \<and> text_ok (ar_conclusion r)
      \<and> text_ok (ar_resolvedAt r) \<and> hostDateParse host (ar_resolvedAt r) \<noteq> None
      \<and> otext_ok (ar_ref r) \<and> otext_ok (ar_sessionId r)
      \<and> parseTaskAttentionResolution host (JObj [(''category'', JStr (attention_category_str (ar_category r))),
          (''conclusion'', JStr (ar_conclusion r)), (''ref'', js_text (ar_ref r)),
          (''resolvedAt'', JStr (ar_resolvedAt r)), (''sessionId'', js_text (ar_sessionId r))]) = Inr (Some r))
   \<and> (parseTaskAttentionResolution host v = Inr None \<longleftrightarrow> v = JNull)"
proof (intro conjI allI impI)
  have opt: "otext_ok (optionalString w)" for w
    using optionalString_ok [of w] by (cases "optionalString w") auto
  have tx: "text_ok t \<Longrightarrow> optionalString (JStr t) = Some t" for t
    by (simp add: optionalString_def text_ok_iff)
  have otx: "otext_ok w \<Longrightarrow> optionalString (js_text w) = w" for w
    by (cases w) (simp_all add: tx, simp add: optionalString_def)
  fix r assume r: "parseTaskAttentionResolution host v = Inr (Some r)"
  then obtain c concl tm where c: "parse_category (jprop v ''category'') = Some c"
      and concl: "optionalString (jprop v ''conclusion'') = Some concl"
      and tm: "optionalString (jprop v ''resolvedAt'') = Some tm" "hostDateParse host tm \<noteq> None"
      and r_eq: "r = \<lparr>ar_category = c, ar_conclusion = concl, ar_ref = optionalString (jprop v ''ref''),
                  ar_resolvedAt = tm, ar_sessionId = optionalString (jprop v ''sessionId'')\<rparr>"
    by (auto simp: parseTaskAttentionResolution_def split: if_splits option.splits)
  have ok: "text_ok (ar_conclusion r)" "text_ok (ar_resolvedAt r)" "hostDateParse host (ar_resolvedAt r) \<noteq> None"
      "otext_ok (ar_ref r)" "otext_ok (ar_sessionId r)"
    using optionalString_ok [OF concl] optionalString_ok [OF tm(1)] tm(2) opt by (simp_all add: r_eq)
  have c: "parse_category (jprop v ''category'') = Some c" "ar_category r = c" using c by (simp_all add: r_eq)
  show "text_ok (ar_conclusion r)" "text_ok (ar_resolvedAt r)" "hostDateParse host (ar_resolvedAt r) \<noteq> None"
      "otext_ok (ar_ref r)" "otext_ok (ar_sessionId r)" by (fact ok)+
  show "jprop v ''category'' = JStr (attention_category_str (ar_category r))" using c parse_category_iff by simp
  have "parse_category (JStr (attention_category_str c)) = Some c" by (simp add: parse_category_iff)
  then show "parseTaskAttentionResolution host (JObj [(''category'', JStr (attention_category_str (ar_category r))),
          (''conclusion'', JStr (ar_conclusion r)), (''ref'', js_text (ar_ref r)),
          (''resolvedAt'', JStr (ar_resolvedAt r)), (''sessionId'', js_text (ar_sessionId r))]) = Inr (Some r)"
    using ok c by (cases r) (simp add: parseTaskAttentionResolution_def jprop_JObj tx otx)
qed (auto simp: parseTaskAttentionResolution_def is_object_def split: if_splits option.splits)

theorem attention_parse_accepts_witness:
  "parseTaskAttentionResolution concrete_host (JObj [(''category'', JStr ''landed''), (''conclusion'', JStr '' on main ''),
      (''resolvedAt'', JStr ''7'')]) = Inr (Some \<lparr>ar_category = CatLanded, ar_conclusion = ''on main'', ar_ref = None,
      ar_resolvedAt = ''7'', ar_sessionId = None\<rparr>)
   \<and> text_ok ''on main''"
proof -
  have p: "parseTaskAttentionResolution concrete_host (JObj [(''category'', JStr ''landed''), (''conclusion'', JStr '' on main ''),
      (''resolvedAt'', JStr ''7'')]) = Inr (Some \<lparr>ar_category = CatLanded, ar_conclusion = ''on main'', ar_ref = None,
      ar_resolvedAt = ''7'', ar_sessionId = None\<rparr>)" by code_simp
  then show ?thesis
    using attention_parse_accepts [of concrete_host "JObj [(''category'', JStr ''landed''), (''conclusion'', JStr '' on main ''),
      (''resolvedAt'', JStr ''7'')]"] by simp
qed

text \<open>A conclusion kept by a column move is in effect in the column the card lands in, whatever ran before, unless it is an escalation to the owner kept by a move that changes no column; and the move decides it twice the same way: keeping a kept conclusion in its column changes nothing.\<close>
theorem attention_kept_is_in_effect:
  assumes "attentionResolutionAfterMove (Some r) fromCol toCol = Some r'" and "fromCol \<noteq> toCol"
  shows "r' = r \<and> isAttentionResolutionInEffect host (Some r) toCol laneSessions
    \<and> (toCol = Some ''blocked'' \<or> toCol = Some ''done'' \<and> fromCol = Some ''blocked'' \<and> ar_category r \<in> {CatLanded, CatSuperseded})
    \<and> attentionResolutionAfterMove (Some r) toCol toCol = Some r"
  using assms
  by (cases "ar_category r")
    (auto simp: attentionResolutionAfterMove_def isAttentionResolutionInEffect_def
      DONE_WITHOUT_OWN_COMMITS_CATEGORIES_def split: if_splits)

theorem attention_kept_is_in_effect_witness:
  "isAttentionResolutionInEffect concrete_host (Some \<lparr>ar_category = CatLanded, ar_conclusion = ''x'', ar_ref = None,
      ar_resolvedAt = ''7'', ar_sessionId = None\<rparr>) (Some ''done'') []"
proof -
  have "attentionResolutionAfterMove (Some \<lparr>ar_category = CatLanded, ar_conclusion = ''x'', ar_ref = None,
      ar_resolvedAt = ''7'', ar_sessionId = None\<rparr>) (Some ''blocked'') (Some ''done'')
    = Some \<lparr>ar_category = CatLanded, ar_conclusion = ''x'', ar_ref = None, ar_resolvedAt = ''7'', ar_sessionId = None\<rparr>"
    by code_simp
  from attention_kept_is_in_effect [OF this] show ?thesis by simp
qed

lemma js_session_no_throw: "\<not> session_throws (js_of_session w)" "\<not> session_throws (js_of_seed u)"
  by (simp_all add: session_throws_def not_array_def js_of_session_def js_of_seed_def jprop_JObj)

lemma typed_snapshot_total: "normalizeTaskJitContextSnapshot nowIso (js_opt js_of_snapshot v) \<noteq> Inl e"
proof (cases v)
  case (Some s)
  have tot: "map_entries (total f) (JArr vs) \<noteq> Inl e'" for f :: "json \<Rightarrow> 'x option" and vs e'
    using total_throw [of f "JArr vs"] by (auto simp: not_array_def)
  have ss: "map_entries normalizeTaskJitContextSessionSummary (JArr (map js_of_session xs)) \<noteq> Inl e'" for xs e'
    using map_entries_throw [of normalizeTaskJitContextSessionSummary "JArr (map js_of_session xs)"]
    by (auto simp: not_array_def elements_def list_ex_iff session_throw_iff js_session_no_throw)
  have "\<not> history_throws (js_opt js_of_history h)" for h
    by (cases h) (auto simp: history_throws_def js_of_history_def jprop_JObj not_array_def elements_def
        list_ex_iff js_session_no_throw jprop_def)
  then have hs: "normalizeTaskJitContextHistorySummary (js_opt js_of_history h) \<noteq> Inl e'" for h e'
    using history_throw_iff by blast
  show ?thesis using Some
    by (auto simp: normalizeTaskJitContextSnapshot_def normAnalysis_total tot ss hs js_of_snapshot_def jprop_JObj
        split: option.splits sum.splits simp del: js_parts)
qed (simp add: normalizeTaskJitContextSnapshot_def)

lemma normalizeSnapshot_eq:
  "normalizeTaskJitContextSnapshot nowIso (js_opt js_of_snapshot v) = Inr (normalizeSnapshot nowIso v)"
  using typed_snapshot_total [of nowIso v "projl (normalizeTaskJitContextSnapshot nowIso (js_opt js_of_snapshot v))"]
  by (cases "normalizeTaskJitContextSnapshot nowIso (js_opt js_of_snapshot v)") (simp_all add: normalizeSnapshot_def)

lemma normalizeSnapshot_ok: "text_ok nowIso \<Longrightarrow> opt_ok snapshot_ok (normalizeSnapshot nowIso v)"
  using normSnapshot_ok normalizeSnapshot_eq [of nowIso v] by (cases "normalizeSnapshot nowIso v") auto

lemma normalizeSnapshot_id: "opt_ok snapshot_ok v \<Longrightarrow> normalizeSnapshot nowIso v = v"
  by (cases v) (simp_all add: normalizeSnapshot_def normSnapshot_js, simp add: normalizeTaskJitContextSnapshot_def)

text \<open>A new card has run nothing: no session, no lane session, no handoff and no delivery are recorded, its two dates are the time of the call, and it is pending unless the caller says otherwise; the comment it is created with becomes its first comment when the caller passes no comments, trimmed and never blank; its search hints and its snapshot are well formed whatever the caller passes, and well-formed ones are stored as given.\<close>
theorem createTask_fresh:
  assumes "text_ok (hostToISO host now)"
  shows "let t = createTask host now newId p in
    tk_sessionIds t = [] \<and> tk_laneSessions t = [] \<and> tk_laneHandoffs t = [] \<and> tk_deliverySnapshot t = None
    \<and> tk_createdAt t = now \<and> tk_updatedAt t = now \<and> (tp_status p = None \<longrightarrow> tk_status t = TS_PENDING)
    \<and> (tp_comments p = None \<longrightarrow> length (tk_comments t) \<le> 1
         \<and> map tc_body (tk_comments t) = map trim (filter (\<lambda>m. trim m \<noteq> []) (case tp_comment p of None \<Rightarrow> [] | Some m \<Rightarrow> [m])))
    \<and> opt_ok spec_ok (tk_contextSearchSpec t) \<and> opt_ok snapshot_ok (tk_jitContextSnapshot t)
    \<and> (opt_ok spec_ok (tp_contextSearchSpec p) \<longrightarrow> tk_contextSearchSpec t = tp_contextSearchSpec p)
    \<and> (opt_ok snapshot_ok (tp_jitContextSnapshot p) \<longrightarrow> tk_jitContextSnapshot t = tp_jitContextSnapshot p)"
  using assms
  by (cases "tp_comment p")
    (simp_all add: Let_def createTask_def normSpec_ok normalizeSnapshot_ok normalizeSnapshot_id buildInitialTaskComments_def)

definition sample_params :: task_params where
  "sample_params = \<lparr>tp_id = ''t'', tp_title = ''T'', tp_objective = ''O'', tp_comment = Some '' hello '', tp_comments = None,
     tp_workspaceId = ''w'', tp_triggerSessionId = None, tp_sessionId = None, tp_creationSource = None, tp_scope = None,
     tp_acceptanceCriteria = None, tp_verificationCommands = None, tp_testCases = None, tp_dependencies = None,
     tp_parallelGroup = None, tp_boardId = None, tp_columnId = Some ''dev'', tp_position = None, tp_priority = None,
     tp_labels = None, tp_assignee = None, tp_assignedProvider = None, tp_assignedRole = None,
     tp_assignedSpecialistId = None, tp_assignedSpecialistName = None, tp_assignedModel = None,
     tp_assignedReasoningEffort = None, tp_fallbackAgentChain = None, tp_enableAutomaticFallback = None,
     tp_maxFallbackAttempts = None, tp_githubId = None, tp_githubNumber = None, tp_githubUrl = None,
     tp_githubRepo = None, tp_githubState = None, tp_githubSyncedAt = None, tp_lastSyncError = None,
     tp_attentionResolution = None, tp_isPullRequest = None, tp_status = None, tp_codebaseIds = None,
     tp_contextSearchSpec = None, tp_jitContextSnapshot = Some sample_snapshot, tp_worktreeId = None\<rparr>"

theorem createTask_fresh_witness:
  "map tc_body (tk_comments (createTask concrete_host 7 ''c1'' sample_params)) = [''hello'']
   \<and> tk_jitContextSnapshot (createTask concrete_host 7 ''c1'' sample_params) = Some sample_snapshot"
proof -
  have iso: "text_ok (hostToISO concrete_host 7)" by code_simp
  have tr: "trim '' hello '' = ''hello''" by code_simp
  show ?thesis using createTask_fresh [OF iso, of "''c1''" sample_params] sample_ok(1) tr
    by (simp add: Let_def sample_params_def)
qed

end
