(* ===== verification/LaneExperience.thy ===== *)
theory LaneExperience
  imports TaskModel
begin

text \<open>
  The lane memory of a card: src/src/core/kanban/task-lane-experience.ts. The runs of a card are
  grouped by column, each column gets an analysis (counts, latest run, learned patterns, failures,
  actions, search hints, board guidance), and the analyses are merged into the card's snapshot. Of
  a flow report only its guidance is read, so a report is its list of guidance items.
\<close>

section \<open>Strings\<close>

record lane_options =
  lo_flowReport :: "flow_guidance list option"
  lo_synthesizedAt :: "string option"

definition LANE_MEMORY_TEXT_LIMIT :: nat where
  "LANE_MEMORY_TEXT_LIMIT = 240"

definition FALLBACK_SYNTHESIZED_AT :: string where
  "FALLBACK_SYNTHESIZED_AT = ''1970-01-01T00:00:00.000Z''"

text \<open>\<open>undefined\<close> and \<open>null\<close> entries are \<^const>\<open>None\<close>; \<open>map_some id\<close> is the filter on strings.\<close>

definition uniqueStrings :: "string option list \<Rightarrow> string list" where
  "uniqueStrings values = uniq (filter (\<lambda>s. s \<noteq> []) (map trim (map_some id values)))"

text \<open>\<open>value.replace(/\s+/g, " ")\<close>; the flag says that the last character was white space.\<close>

fun collapse_ws :: "bool \<Rightarrow> string \<Rightarrow> string" where
  "collapse_ws inws [] = []"
| "collapse_ws inws (c # s) =
     (if is_ws c then (if inws then collapse_ws True s else CHR '' '' # collapse_ws True s)
      else c # collapse_ws False s)"

definition compactLaneMemoryText :: "string option \<Rightarrow> nat \<Rightarrow> string" where
  "compactLaneMemoryText value maxLength =
     (let compacted = (case value of Some s \<Rightarrow> trim (collapse_ws False s) | None \<Rightarrow> [])
      in if length compacted \<le> maxLength then compacted
         else trimEnd (take (maxLength - 3) compacted) @ ''...'')"

section \<open>Times and grouping\<close>

definition parseStableTimestamp :: "js_host \<Rightarrow> string option \<Rightarrow> int option" where
  "parseStableTimestamp host value = (if \<not> truthy value then None else hostDateParse host (the value))"

definition lane_timestamps :: "js_host \<Rightarrow> task \<Rightarrow> int list" where
  "lane_timestamps host t = map_some (parseStableTimestamp host)
     (concat (map (\<lambda>s. [Some (ls_startedAt s), ls_completedAt s, ls_lastActivityAt s]) (tk_laneSessions t))
      @ concat (map (\<lambda>h. [Some (lh_requestedAt h), lh_respondedAt h]) (tk_laneHandoffs t))
      @ [map_option js_generatedAt (tk_jitContextSnapshot t)])"

definition resolveLaneExperienceSynthesizedAt :: "js_host \<Rightarrow> task \<Rightarrow> lane_options \<Rightarrow> string" where
  "resolveLaneExperienceSynthesizedAt host t options =
     (if truthy (lo_synthesizedAt options) then the (lo_synthesizedAt options)
      else if lane_timestamps host t = [] then FALLBACK_SYNTHESIZED_AT
      else hostToISO host (Max (set (lane_timestamps host t))))"

definition cmp_by_start :: "js_host \<Rightarrow> lane_session \<Rightarrow> lane_session \<Rightarrow> int" where
  "cmp_by_start host left right =
     (let d = orDefault (hostDateParse host (ls_startedAt left)) 0 - orDefault (hostDateParse host (ls_startedAt right)) 0
      in if d \<noteq> 0 then d else hostLocaleCompare host (ls_sessionId left) (ls_sessionId right))"

definition sortSessionsByStart :: "js_host \<Rightarrow> lane_session list \<Rightarrow> lane_session list" where
  "sortSessionsByStart host sessions = sort_by (cmp_by_start host) sessions"

definition column_key :: "lane_session \<Rightarrow> string" where
  "column_key s = the (orElse (map_option trim (ls_columnId s)) (Some ''unknown''))"

definition groupSessionsByColumn :: "lane_session list \<Rightarrow> (string, lane_session list) omap" where
  "groupSessionsByColumn sessions =
     foldl (\<lambda>byColumn s. om_set byColumn (column_key s) (orDefault (om_get byColumn (column_key s)) [] @ [s])) [] sessions"

definition countRecoveryReasons :: "js_host \<Rightarrow> lane_session list \<Rightarrow> (lane_recovery_reason \<times> nat) list" where
  "countRecoveryReasons host sessions =
     sort_by (\<lambda>left right. let d = int (snd right) - int (snd left)
              in if d \<noteq> 0 then d
                 else hostLocaleCompare host (recovery_reason_str (fst left)) (recovery_reason_str (fst right)))
       (foldl (\<lambda>counts s. case ls_recoveryReason s of None \<Rightarrow> counts
           | Some r \<Rightarrow> om_set counts r (orDefault (om_get counts r) 0 + 1)) [] sessions)"

section \<open>Guidance and failures of a lane\<close>

definition toLaneFlowGuidance :: "flow_guidance \<Rightarrow> flow_guidance" where
  "toLaneFlowGuidance item = \<lparr>fg_category = fg_category item, fg_severity = fg_severity item,
     fg_summary = fg_summary item, fg_recommendation = fg_recommendation item,
     fg_affectedColumns = fg_affectedColumns item\<rparr>"

definition collectLaneFlowGuidance :: "string \<Rightarrow> flow_guidance list option \<Rightarrow> flow_guidance list" where
  "collectLaneFlowGuidance columnId flowReport =
     (case flowReport of None \<Rightarrow> []
      | Some guidance \<Rightarrow>
          take 4 (map toLaneFlowGuidance (filter (\<lambda>item. columnId \<in> set (fg_affectedColumns item)) guidance)))"

definition handoff_failure_line :: "lane_handoff \<Rightarrow> string" where
  "handoff_failure_line h =
     (let direction = orDefault (lh_fromColumnId h) ''unknown'' @ '' -> '' @ orDefault (lh_toColumnId h) ''unknown'';
          failureText = compactLaneMemoryText (nullish (lh_responseSummary h) (Some (lh_request h))) LANE_MEMORY_TEXT_LIMIT
      in ''Handoff '' @ lh_id h @ '' '' @ handoff_status_str (lh_status h) @ '' on '' @ direction @ '': '' @ failureText)"

definition collectLaneHandoffFailures :: "string \<Rightarrow> lane_handoff list \<Rightarrow> string list" where
  "collectLaneHandoffFailures columnId handoffs =
     take 3 (map handoff_failure_line
       (filter (\<lambda>h. (lh_fromColumnId h = Some columnId \<or> lh_toColumnId h = Some columnId)
                    \<and> (lh_status h = HoBlocked \<or> lh_status h = HoFailed)) handoffs))"

section \<open>The texts of an analysis\<close>

definition summarizeLane ::
  "string \<Rightarrow> nat \<Rightarrow> nat \<Rightarrow> nat \<Rightarrow> nat \<Rightarrow> lane_session option \<Rightarrow> flow_guidance list \<Rightarrow> string" where
  "summarizeLane columnName sessionCount completedSessions failedSessions recoveredSessions latestSession flowGuidance =
     (let statusPart = (case latestSession of
            Some s \<Rightarrow> ''Latest session '' @ ls_sessionId s @ '' is '' @ lane_status_str (ls_status s) @ ''.''
          | None \<Rightarrow> ''No latest session is available.'');
          flowPart = (if length flowGuidance > 0
            then '' Board flow guidance has '' @ show_nat (length flowGuidance) @ '' related item(s).'' else [])
      in columnName @ '' has '' @ show_nat sessionCount @ '' lane session(s): ''
         @ show_nat completedSessions @ '' completed or transitioned, ''
         @ show_nat failedSessions @ '' failed or timed out, ''
         @ show_nat recoveredSessions @ '' recovered. '' @ statusPart @ flowPart)"

definition guidance_pattern :: "flow_guidance \<Rightarrow> string" where
  "guidance_pattern g = ''Board-level '' @ fg_category g @ '': '' @ fg_summary g"

definition buildLearnedPatterns ::
  "lane_session list \<Rightarrow> lane_session option \<Rightarrow> nat \<Rightarrow> nat \<Rightarrow> nat \<Rightarrow> (lane_recovery_reason \<times> nat) list
     \<Rightarrow> flow_guidance list \<Rightarrow> string list" where
  "buildLearnedPatterns sessions latestSession completedSessions failedSessions recoveredSessions recoveryReasons flowGuidance =
     (let specialistNames = uniqueStrings (map (\<lambda>s. nullish (nullish (ls_specialistName s) (ls_specialistId s)) (ls_role s)) sessions)
      in take 8 (uniqueStrings (map Some
        ((if completedSessions > 0
          then [show_nat completedSessions @ '' prior run(s) completed or transitioned successfully in this lane.''] else [])
       @ (if failedSessions > 0 then [show_nat failedSessions @ '' prior run(s) failed or timed out in this lane.''] else [])
       @ (if recoveredSessions > 0
          then (case recoveryReasons of
                  (topReason, n) # _ \<Rightarrow> [''Recovery has been needed '' @ show_nat recoveredSessions
                     @ '' time(s), most often for '' @ recovery_reason_str topReason @ ''.'']
                | [] \<Rightarrow> [''Recovery has been needed '' @ show_nat recoveredSessions @ '' time(s).'']) else [])
       @ (if length sessions > 1
          then [''This lane has '' @ show_nat (length sessions)
                @ '' attempts recorded; check earlier runs before repeating setup.''] else [])
       @ (if length specialistNames > 0
          then [''Specialist context used here: '' @ js_join '', '' (take 3 specialistNames) @ ''.''] else [])
       @ (case latestSession of None \<Rightarrow> []
          | Some s \<Rightarrow> if truthy (ls_objective s) then [''Latest objective: '' @ the (ls_objective s)] else [])
       @ map guidance_pattern (take 2 flowGuidance)))))"

definition buildTopFailures ::
  "lane_session list \<Rightarrow> string list \<Rightarrow> (lane_recovery_reason \<times> nat) list \<Rightarrow> string list" where
  "buildTopFailures failedSessions handoffFailures recoveryReasons =
     take 6 (uniqueStrings (map Some
       (map (\<lambda>s. ls_sessionId s @ '' ended as '' @ lane_status_str (ls_status s)
           @ (case ls_recoveryReason s of Some r \<Rightarrow> '', recovery reason: '' @ recovery_reason_str r | None \<Rightarrow> []) @ ''.'') failedSessions
        @ handoffFailures
        @ map (\<lambda>(r, n). recovery_reason_str r @ '' appeared '' @ show_nat n @ '' time(s) as a recovery reason.'') recoveryReasons)))"

definition buildRecommendedActions ::
  "string \<Rightarrow> lane_session option \<Rightarrow> lane_session list \<Rightarrow> nat \<Rightarrow> flow_guidance list \<Rightarrow> string list" where
  "buildRecommendedActions columnName latestSession failedSessions recoveredSessions flowGuidance =
     (let actions =
        (case latestSession of
           Some s \<Rightarrow> if ls_status s = LaneRunning
             then [''Continue from running session '' @ ls_sessionId s @ '' before starting another '' @ columnName @ '' run.'']
             else []
         | None \<Rightarrow> [])
        @ (case failedSessions of
             s # _ \<Rightarrow> [''Review '' @ ls_sessionId s @ '' before retrying this lane to avoid repeating the same failure.'']
           | [] \<Rightarrow> [])
        @ (if recoveredSessions > 0
           then [''Check recovery reasons and handoff notes before assuming the lane environment is clean.''] else [])
        @ map fg_recommendation flowGuidance
      in take 6 (uniqueStrings (map Some
           (if actions = [] then [''Reuse the latest '' @ columnName @ '' session context before doing broad rediscovery.'']
            else actions))))"

section \<open>Search hints of a lane\<close>

definition spec_items :: "(search_spec \<Rightarrow> string list option) \<Rightarrow> search_spec option \<Rightarrow> string option list" where
  "spec_items f v = (case v of None \<Rightarrow> [] | Some sp \<Rightarrow> map Some (orDefault (f sp) []))"

definition raw_lane_hints :: "task \<Rightarrow> lane_session list \<Rightarrow> search_spec" where
  "raw_lane_hints t sessions =
     (let own = tk_contextSearchSpec t; snapshot = tk_jitContextSnapshot t;
          recommended = Option.bind snapshot js_recommendedContextSearchSpec;
          analysis = Option.bind snapshot js_analysis;
          analysisSpec = Option.bind analysis ja_recommendedContextSearchSpec;
          three = (\<lambda>f. Some (uniqueStrings (spec_items f own @ spec_items f recommended @ spec_items f analysisSpec)))
      in \<lparr>sp_query = nullish (Option.bind own sp_query) (Some (tk_title t)),
          sp_featureCandidates = Some (uniqueStrings (spec_items sp_featureCandidates own
            @ [Option.bind snapshot js_featureId] @ spec_items sp_featureCandidates recommended
            @ spec_items sp_featureCandidates analysisSpec)),
          sp_relatedFiles = Some (uniqueStrings (spec_items sp_relatedFiles own
            @ (case snapshot of None \<Rightarrow> [] | Some s \<Rightarrow> map (\<lambda>d. Some (mf_filePath d)) (js_matchedFileDetails s))
            @ (case analysis of None \<Rightarrow> [] | Some a \<Rightarrow> map Some (ja_topFiles a)))),
          sp_routeCandidates = three sp_routeCandidates,
          sp_apiCandidates = three sp_apiCandidates,
          sp_moduleHints = three sp_moduleHints,
          sp_symptomHints = Some (uniqueStrings (spec_items sp_symptomHints own
            @ map (\<lambda>s. map_option recovery_reason_str (ls_recoveryReason s)) sessions
            @ map (\<lambda>s. Some (orDefault (nullish (ls_columnName s) (ls_columnId s)) ''lane'' @ '' '' @ lane_status_str (ls_status s)))
                (filter (\<lambda>s. ls_status s = LaneFailed \<or> ls_status s = LaneTimedOut) sessions)))\<rparr>)"

definition buildLaneContextHints :: "task \<Rightarrow> lane_session list \<Rightarrow> search_spec option" where
  "buildLaneContextHints t sessions = normalizeTaskContextSearchSpec (js_of_spec (raw_lane_hints t sessions))"

section \<open>The analysis of a lane\<close>

definition completed_run :: "lane_session \<Rightarrow> bool" where
  "completed_run s = (ls_status s = LaneCompleted \<or> ls_status s = LaneTransitioned)"

definition failed_run :: "lane_session \<Rightarrow> bool" where
  "failed_run s = (ls_status s = LaneFailed \<or> ls_status s = LaneTimedOut)"

definition last_opt :: "'a list \<Rightarrow> 'a option" where
  "last_opt xs = (if xs = [] then None else Some (last xs))"

definition buildLaneAnalysis ::
  "js_host \<Rightarrow> task \<Rightarrow> string \<Rightarrow> lane_session list \<Rightarrow> string \<Rightarrow> flow_guidance list option \<Rightarrow> lane_analysis" where
  "buildLaneAnalysis host t columnId sessions synthesizedAt flowReport =
     (let ordered = sortSessionsByStart host sessions;
          latest = last_opt ordered;
          columnName = orDefault (Option.bind latest ls_columnName) columnId;
          completed = length (filter completed_run ordered);
          failedEntries = filter failed_run ordered;
          recovered = length (filter (\<lambda>s. truthy (ls_recoveredFromSessionId s)) ordered);
          reasons = countRecoveryReasons host ordered;
          flowGuidance = collectLaneFlowGuidance columnId flowReport;
          handoffFailures = collectLaneHandoffFailures columnId (tk_laneHandoffs t)
      in \<lparr>la_columnId = columnId, la_columnName = Some columnName, la_synthesizedAt = synthesizedAt,
          la_sessionCount = length ordered,
          la_latestSessionId = map_option ls_sessionId latest,
          la_latestStatus = map_option ls_status latest,
          la_completedSessions = completed, la_failedSessions = length failedEntries,
          la_recoveredSessions = recovered,
          la_summary = summarizeLane columnName (length ordered) completed (length failedEntries) recovered latest flowGuidance,
          la_learnedPatterns = buildLearnedPatterns ordered latest completed (length failedEntries) recovered reasons flowGuidance,
          la_topFailures = buildTopFailures failedEntries handoffFailures reasons,
          la_recommendedActions = buildRecommendedActions columnName latest failedEntries recovered flowGuidance,
          la_contextHints = buildLaneContextHints t ordered,
          la_flowGuidance = flowGuidance\<rparr>)"

section \<open>Merging with the stored analyses\<close>

definition mergeLaneAnalysisWithPreviousGuidance ::
  "lane_analysis option \<Rightarrow> lane_analysis \<Rightarrow> bool \<Rightarrow> lane_analysis" where
  "mergeLaneAnalysisWithPreviousGuidance previous nextAnalysis preservePreviousGuidance =
     (case previous of
        Some p \<Rightarrow>
          if \<not> preservePreviousGuidance \<or> length (la_flowGuidance nextAnalysis) > 0 \<or> length (la_flowGuidance p) = 0 then nextAnalysis
          else nextAnalysis\<lparr>
            la_summary := (if strIncludes (la_summary nextAnalysis) ''Board flow guidance'' then la_summary nextAnalysis
              else la_summary nextAnalysis @ '' Board flow guidance has '' @ show_nat (length (la_flowGuidance p)) @ '' related item(s).''),
            la_learnedPatterns := take 8 (uniqueStrings (map Some (la_learnedPatterns nextAnalysis
              @ map guidance_pattern (take 2 (la_flowGuidance p))))),
            la_recommendedActions := take 6 (uniqueStrings (map Some (la_recommendedActions nextAnalysis
              @ map fg_recommendation (la_flowGuidance p)))),
            la_flowGuidance := la_flowGuidance p\<rparr>
      | None \<Rightarrow> nextAnalysis)"

text \<open>
  \<open>previousEntries[columnId]\<close> on a plain object also finds what the object inherits: for these
  names the value is there but has no \<open>flowGuidance\<close>, and reading its length throws.
\<close>

definition OBJECT_PROTOTYPE_KEYS :: "string list" where
  "OBJECT_PROTOTYPE_KEYS = [''constructor'', ''__defineGetter__'', ''__defineSetter__'', ''hasOwnProperty'',
     ''__lookupGetter__'', ''__lookupSetter__'', ''isPrototypeOf'', ''propertyIsEnumerable'', ''toString'',
     ''valueOf'', ''__proto__'', ''toLocaleString'']"

definition merge_guidance_throws :: "(string \<times> lane_analysis) list \<Rightarrow> bool \<Rightarrow> string \<times> lane_analysis \<Rightarrow> bool" where
  "merge_guidance_throws previousEntries preserve kv =
     (preserve \<and> length (la_flowGuidance (snd kv)) = 0 \<and> om_get previousEntries (fst kv) = None
      \<and> fst kv \<in> set OBJECT_PROTOTYPE_KEYS)"

fun merge_next ::
  "(string \<times> lane_analysis) list \<Rightarrow> bool \<Rightarrow> (string \<times> lane_analysis) list \<Rightarrow> (string \<times> lane_analysis) list
     \<Rightarrow> js_error + (string \<times> lane_analysis) list" where
  "merge_next previousEntries preserve merged [] = Inr merged"
| "merge_next previousEntries preserve merged (kv # kvs) =
     (if merge_guidance_throws previousEntries preserve kv then Inl TypeError
      else merge_next previousEntries preserve
        (om_set merged (fst kv) (mergeLaneAnalysisWithPreviousGuidance (om_get previousEntries (fst kv)) (snd kv) preserve)) kvs)"

definition cmp_key :: "js_host \<Rightarrow> string \<times> 'v \<Rightarrow> string \<times> 'v \<Rightarrow> int" where
  "cmp_key host left right = hostLocaleCompare host (fst left) (fst right)"

definition mergePerLaneAnalysis ::
  "js_host \<Rightarrow> (string \<times> lane_analysis) list option \<Rightarrow> (string \<times> lane_analysis) list \<Rightarrow> lane_options
     \<Rightarrow> js_error + (string \<times> lane_analysis) list" where
  "mergePerLaneAnalysis host previous nextAnalysis options =
     (let previousEntries = orDefault previous [];
          preserve = (lo_flowReport options = None);
          merged = foldl (\<lambda>m kv. om_set m (fst kv) (snd kv)) [] previousEntries
      in case merge_next previousEntries preserve merged nextAnalysis of
           Inl e \<Rightarrow> Inl e
         | Inr m \<Rightarrow> Inr (fromEntries (sort_by (cmp_key host) m)))"

definition synthesizeTaskLaneJitContextAnalysis ::
  "js_host \<Rightarrow> task \<Rightarrow> lane_options \<Rightarrow> (string \<times> lane_analysis) list option" where
  "synthesizeTaskLaneJitContextAnalysis host t options =
     (if length (tk_laneSessions t) = 0 then None
      else let synthesizedAt = resolveLaneExperienceSynthesizedAt host t options;
               entries = map (\<lambda>(columnId, sessions).
                   (columnId, buildLaneAnalysis host t columnId sessions synthesizedAt (lo_flowReport options)))
                 (sort_by (cmp_key host) (groupSessionsByColumn (tk_laneSessions t)))
           in if length entries > 0 then Some (fromEntries entries) else None)"

text \<open>The object the snapshot is rebuilt from; \<open>s\<close> is the normalised snapshot, if there is one.\<close>

definition lane_snapshot :: "task \<Rightarrow> string \<Rightarrow> jit_snapshot option \<Rightarrow> (string \<times> lane_analysis) list \<Rightarrow> jit_snapshot" where
  "lane_snapshot t synthesizedAt s lanes =
     \<lparr>js_generatedAt = orDefault (map_option js_generatedAt s) synthesizedAt,
      js_repoPath = Option.bind s js_repoPath, js_featureId = Option.bind s js_featureId,
      js_featureName = Option.bind s js_featureName,
      js_summary = orDefault (map_option js_summary s) (''Kanban lane experience memory for '' @ tk_title t @ ''.''),
      js_matchConfidence = orDefault (map_option js_matchConfidence s) McLow,
      js_matchReasons = orDefault (map_option js_matchReasons s) [],
      js_warnings = orDefault (map_option js_warnings s) [],
      js_matchedFileDetails = orDefault (map_option js_matchedFileDetails s) [],
      js_matchedSessionIds = orDefault (map_option js_matchedSessionIds s) [],
      js_failures = orDefault (map_option js_failures s) [],
      js_repeatedReadFiles = orDefault (map_option js_repeatedReadFiles s) [],
      js_sessions = orDefault (map_option js_sessions s) [],
      js_historySummary = Option.bind s js_historySummary,
      js_recommendedContextSearchSpec = Option.bind s js_recommendedContextSearchSpec,
      js_analysis = Option.bind s js_analysis,
      js_perLaneAnalysis = Some lanes\<rparr>"

definition mergeTaskLaneExperienceIntoJitSnapshot ::
  "js_host \<Rightarrow> string \<Rightarrow> task \<Rightarrow> lane_options \<Rightarrow> js_error + jit_snapshot option" where
  "mergeTaskLaneExperienceIntoJitSnapshot host nowIso t options =
     (let synthesizedAt = resolveLaneExperienceSynthesizedAt host t options;
          normalizedSnapshot = normalizeSnapshot nowIso (tk_jitContextSnapshot t)
      in case synthesizeTaskLaneJitContextAnalysis host t (options\<lparr>lo_synthesizedAt := Some synthesizedAt\<rparr>) of
           None \<Rightarrow> Inr normalizedSnapshot
         | Some perLaneAnalysis \<Rightarrow>
             (case mergePerLaneAnalysis host (Option.bind normalizedSnapshot js_perLaneAnalysis) perLaneAnalysis options of
                Inl e \<Rightarrow> Inl e
              | Inr merged \<Rightarrow> Inr (normalizeSnapshot nowIso (Some (lane_snapshot t synthesizedAt normalizedSnapshot merged)))))"

definition refreshTaskLaneExperienceMemory :: "js_host \<Rightarrow> string \<Rightarrow> task \<Rightarrow> lane_options \<Rightarrow> js_error + task" where
  "refreshTaskLaneExperienceMemory host nowIso t options =
     (case mergeTaskLaneExperienceIntoJitSnapshot host nowIso t options of
        Inl e \<Rightarrow> Inl e
      | Inr None \<Rightarrow> Inr t
      | Inr (Some snapshot) \<Rightarrow> Inr (t\<lparr>tk_jitContextSnapshot := Some snapshot\<rparr>))"

section \<open>The prompt section\<close>

definition prompt_analyses :: "js_host \<Rightarrow> string option \<Rightarrow> (string \<times> lane_analysis) list \<Rightarrow> lane_analysis list" where
  "prompt_analyses host currentColumnId lanes =
     (let analyses = sort_by (\<lambda>left right. hostLocaleCompare host (la_columnId left) (la_columnId right)) (map snd lanes)
      in take 4 (filter (\<lambda>a. Some (la_columnId a) = currentColumnId) analyses
                 @ filter (\<lambda>a. Some (la_columnId a) \<noteq> currentColumnId) analyses))"

definition analysis_lines :: "lane_analysis \<Rightarrow> string list" where
  "analysis_lines a =
     [''- **'' @ orDefault (la_columnName a) (la_columnId a) @ ''**: '' @ la_summary a]
     @ (if length (la_learnedPatterns a) > 0 then [''  Learned: '' @ js_join '' | '' (take 2 (la_learnedPatterns a))] else [])
     @ (if length (la_topFailures a) > 0 then [''  Watch: '' @ js_join '' | '' (take 2 (la_topFailures a))] else [])
     @ (if length (la_recommendedActions a) > 0 then [''  Next: '' @ js_join '' | '' (take 2 (la_recommendedActions a))] else [])"

definition buildLaneExperiencePromptSection :: "js_host \<Rightarrow> string option \<Rightarrow> jit_snapshot option \<Rightarrow> string option" where
  "buildLaneExperiencePromptSection host columnId snapshot =
     (case Option.bind snapshot js_perLaneAnalysis of
        None \<Rightarrow> None
      | Some lanes \<Rightarrow>
          if lanes = [] then None
          else Some (js_join [CHR 0x0A] ([''## Lane Experience Memory'', []]
                 @ concat (map analysis_lines (prompt_analyses host columnId lanes)) @ [[]])))"

section \<open>Grouping\<close>

lemma trim_Nil_iff: "trim s = [] \<longleftrightarrow> (\<forall>c\<in>set s. is_ws c)"
proof -
  have "(\<forall>c\<in>set (trimEnd s). is_ws c) \<longleftrightarrow> (\<forall>c\<in>set s. is_ws c)"
  proof
    assume "\<forall>c\<in>set (trimEnd s). is_ws c"
    with trimEnd_last [of s] last_in_set [of "trimEnd s"] have "trimEnd s = []" by blast
    then show "\<forall>c\<in>set s. is_ws c" by (simp add: trimEnd_def)
  qed (auto simp: trimEnd_def dest: set_dropWhileD)
  then show ?thesis by (simp add: trim_def trimStart_def)
qed

lemma group_step:
  "foldl (\<lambda>m s. om_set m (column_key s) (orDefault (om_get m (column_key s)) [] @ [s])) m ss = m'
   \<Longrightarrow> (\<And>k. om_get m k = (if f k = [] then None else Some (f k)))
   \<Longrightarrow> om_get m' k = (if f k @ filter (\<lambda>s. column_key s = k) ss = [] then None
        else Some (f k @ filter (\<lambda>s. column_key s = k) ss))"
proof (induction ss arbitrary: m f)
  case (Cons s ss)
  define g where "g = (\<lambda>k. if k = column_key s then f k @ [s] else f k)"
  have "om_get (om_set m (column_key s) (orDefault (om_get m (column_key s)) [] @ [s])) k = (if g k = [] then None else Some (g k))" for k
    using Cons.prems(2) by (auto simp: g_def)
  from Cons.IH [OF _ this] Cons.prems(1) show ?case by (auto simp: g_def)
qed simp

lemma group_get: "om_get (groupSessionsByColumn ss) k =
    (if \<exists>s\<in>set ss. column_key s = k then Some (filter (\<lambda>s. column_key s = k) ss) else None)"
  using group_step [OF refl, of "[]" "\<lambda>k. []" ss k] by (auto simp: groupSessionsByColumn_def filter_empty_conv)

lemma group_wf: "distinct (map fst (groupSessionsByColumn ss))"
proof -
  have "om_wf m \<Longrightarrow> om_wf (foldl (\<lambda>m s. om_set m (column_key s) (orDefault (om_get m (column_key s)) [] @ [s])) m ss)" for m
    by (induction ss arbitrary: m) simp_all
  then show ?thesis by (simp add: groupSessionsByColumn_def flip: om_wf_def)
qed

lemma distinct_fst_mset: "mset xs = mset ys \<Longrightarrow> distinct (map fst xs) \<longleftrightarrow> distinct (map fst ys)"
  by (rule mset_eq_imp_distinct_iff) simp

lemma map_of_same_set: "distinct (map fst xs) \<Longrightarrow> mset xs = mset ys \<Longrightarrow> map_of xs = map_of ys"
  using distinct_fst_mset [of xs ys] map_of_inject_set [of xs ys] mset_eq_setD [of xs ys] by simp

lemma fromEntries_distinct: "distinct (map fst kvs) \<Longrightarrow> fromEntries kvs = property_order kvs"
  using om_fold_absent [of kvs "[]"] by (simp add: fromEntries_def)

lemma fromEntries_get: "distinct (map fst kvs) \<Longrightarrow> map_of (fromEntries kvs) = map_of kvs"
  by (rule map_of_same_set) (simp_all add: fromEntries_distinct property_order_mset property_order_distinct)

lemma sort_distinct_fst [simp]: "distinct (map fst (sort_by cmp kvs)) \<longleftrightarrow> distinct (map fst kvs)"
  by (rule distinct_fst_mset) simp

lemma map_of_mapk: "map_of (map (\<lambda>(k, v). (k, f k v)) kvs) col = map_option (f col) (map_of kvs col)"
  by (induction kvs) auto

lemma sort_get: "distinct (map fst kvs) \<Longrightarrow> map_of (sort_by cmp kvs) = map_of kvs"
  by (rule map_of_same_set) simp_all

lemma column_key_ok: "text_ok (column_key s)"
proof -
  have "text_ok ''unknown''" by code_simp
  then show ?thesis by (cases "ls_columnId s") (auto simp: column_key_def orElse_def text_ok_def)
qed

section \<open>The analyses of a card\<close>

definition lane_runs :: "task \<Rightarrow> string \<Rightarrow> lane_session list" where
  "lane_runs t col = filter (\<lambda>s. column_key s = col) (tk_laneSessions t)"

lemma synthesize_None_iff: "synthesizeTaskLaneJitContextAnalysis host t options = None \<longleftrightarrow> tk_laneSessions t = []"
proof -
  have "groupSessionsByColumn ss \<noteq> []" if "ss \<noteq> []" for ss
  proof
    assume "groupSessionsByColumn ss = []"
    then have "om_get (groupSessionsByColumn ss) (column_key (hd ss)) = None" by simp
    with that show False by (auto simp: group_get split: if_splits)
  qed
  then show ?thesis
    by (auto simp: synthesizeTaskLaneJitContextAnalysis_def Let_def simp flip: length_greater_0_conv)
qed

lemma synthesize_get:
  assumes "synthesizeTaskLaneJitContextAnalysis host t options = Some lanes"
  shows "distinct (map fst lanes)"
    and "map_of lanes col = (if lane_runs t col = [] then None
          else Some (buildLaneAnalysis host t col (lane_runs t col)
            (resolveLaneExperienceSynthesizedAt host t options) (lo_flowReport options)))"
proof -
  let ?syn = "resolveLaneExperienceSynthesizedAt host t options"
  let ?b = "\<lambda>k ss. buildLaneAnalysis host t k ss ?syn (lo_flowReport options)"
  let ?g = "sort_by (cmp_key host) (groupSessionsByColumn (tk_laneSessions t))"
  let ?es = "map (\<lambda>(k, ss). (k, ?b k ss)) ?g"
  have lanes: "lanes = fromEntries ?es"
    using assms by (auto simp: synthesizeTaskLaneJitContextAnalysis_def Let_def split: if_splits)
  have fst_es: "map fst ?es = map fst ?g" by (simp add: case_prod_beta)
  have d: "distinct (map fst ?es)" unfolding fst_es by (simp add: group_wf)
  then show "distinct (map fst lanes)"
    by (simp only: lanes fromEntries_distinct property_order_distinct)
  have "map_of ?es col = map_option (?b col) (map_of ?g col)"
    by (rule map_of_mapk)
  then show "map_of lanes col = (if lane_runs t col = [] then None else Some (?b col (lane_runs t col)))"
    using d by (auto simp: lanes fromEntries_get sort_get group_wf group_get lane_runs_def filter_empty_conv)
qed

lemma analysis_fields [simp]:
  "la_columnId (buildLaneAnalysis host t col ss syn report) = col"
  "la_synthesizedAt (buildLaneAnalysis host t col ss syn report) = syn"
  "la_sessionCount (buildLaneAnalysis host t col ss syn report) = length ss"
  "la_completedSessions (buildLaneAnalysis host t col ss syn report) = length (filter completed_run ss)"
  "la_failedSessions (buildLaneAnalysis host t col ss syn report) = length (filter failed_run ss)"
  "la_latestSessionId (buildLaneAnalysis host t col ss syn report) = map_option ls_sessionId (last_opt (sort_by (cmp_by_start host) ss))"
  "la_latestStatus (buildLaneAnalysis host t col ss syn report) = map_option ls_status (last_opt (sort_by (cmp_by_start host) ss))"
  "la_flowGuidance (buildLaneAnalysis host t col ss syn report) = collectLaneFlowGuidance col report"
  by (simp_all add: buildLaneAnalysis_def Let_def sortSessionsByStart_def)

lemma count_split: "length xs = length (filter P xs) + length (filter Q xs) + length (filter (\<lambda>x. \<not> P x \<and> \<not> Q x) xs)"
  if "\<And>x. \<not> (P x \<and> Q x)"
  using that by (induction xs) auto

lemma sum_map_of:
  assumes "distinct (map fst kvs)" and "finite K" and "\<And>k. k \<notin> K \<Longrightarrow> map_of kvs k = None"
  shows "sum_list (map (\<lambda>kv. f (snd kv)) kvs) = (\<Sum>k\<in>K. case map_of kvs k of None \<Rightarrow> 0 | Some v \<Rightarrow> (f v :: nat))"
  using assms
proof (induction kvs arbitrary: K)
  case (Cons kv kvs)
  have inK: "fst kv \<in> K" using Cons.prems(3) [of "fst kv"] by (cases kv) auto
  have none: "map_of kvs (fst kv) = None" using Cons.prems(1) by (auto simp: map_of_eq_None_iff)
  have abs: "map_of kvs k = None" if "k \<notin> K - {fst kv}" for k
    using Cons.prems(3) [of k] none that by (auto split: if_splits)
  have "sum_list (map (\<lambda>kv. f (snd kv)) kvs)
      = (\<Sum>k\<in>K - {fst kv}. case map_of kvs k of None \<Rightarrow> 0 | Some v \<Rightarrow> f v)"
    using Cons.prems(1,2) abs by (intro Cons.IH) auto
  moreover have "(\<Sum>k\<in>K - {fst kv}. case map_of kvs k of None \<Rightarrow> 0 | Some v \<Rightarrow> f v)
      = (\<Sum>k\<in>K - {fst kv}. case map_of (kv # kvs) k of None \<Rightarrow> 0 | Some v \<Rightarrow> f v)"
    by (rule sum.cong) auto
  moreover have "(\<Sum>k\<in>K. case map_of (kv # kvs) k of None \<Rightarrow> 0 | Some v \<Rightarrow> f v)
      = f (snd kv) + (\<Sum>k\<in>K - {fst kv}. case map_of (kv # kvs) k of None \<Rightarrow> 0 | Some v \<Rightarrow> f v)"
    by (subst sum.remove [OF Cons.prems(2) inK]) simp
  ultimately show ?case by (simp only: list.map sum_list.Cons)
qed simp

lemma sum_columns: "(\<Sum>k\<in>column_key ` set ss. length (filter (\<lambda>s. column_key s = k) ss)) = length ss"
proof -
  have "(\<Sum>k\<in>K. length (filter (\<lambda>s. column_key s = k) ss)) = length ss"
    if "finite K" "column_key ` set ss \<subseteq> K" for K
    using that
  proof (induction ss)
    case (Cons s ss)
    have "(\<Sum>k\<in>K. length (filter (\<lambda>s. column_key s = k) (s # ss)))
        = (\<Sum>k\<in>K. (if column_key s = k then 1 else 0) + length (filter (\<lambda>s. column_key s = k) ss))"
      by (rule sum.cong) auto
    with Cons show ?case by (simp add: sum.distrib)
  qed simp
  then show ?thesis by simp
qed

text \<open>The analyses of a card account for every run exactly once: there is one per column that has runs and none for another, an analysis counts exactly the runs of its column, of these the completed or transitioned, the failed or timed out and the running ones add up to all of them, and over the columns the counts add up to the number of runs of the card.\<close>
theorem lane_analysis_counts:
  assumes "synthesizeTaskLaneJitContextAnalysis host t options = Some lanes"
  shows "(\<forall>col. map_of lanes col = None \<longleftrightarrow> lane_runs t col = [])
    \<and> (\<forall>col a. map_of lanes col = Some a \<longrightarrow>
         la_columnId a = col \<and> la_sessionCount a = length (lane_runs t col)
         \<and> la_completedSessions a + la_failedSessions a
             + length (filter (\<lambda>s. ls_status s = LaneRunning) (lane_runs t col)) = la_sessionCount a)
    \<and> sum_list (map (\<lambda>kv. la_sessionCount (snd kv)) lanes) = length (tk_laneSessions t)"
proof -
  note get = synthesize_get(2) [OF assms] and d = synthesize_get(1) [OF assms]
  have running: "(\<lambda>s. \<not> completed_run s \<and> \<not> failed_run s) = (\<lambda>s. ls_status s = LaneRunning)"
    by (rule ext) (metis completed_run_def failed_run_def lane_status.distinct lane_status.exhaust)
  have disjoint: "\<not> (completed_run s \<and> failed_run s)" for s
    by (auto simp: completed_run_def failed_run_def)
  have "length xs = length (filter completed_run xs) + length (filter failed_run xs)
      + length (filter (\<lambda>s. ls_status s = LaneRunning) xs)" for xs
    using count_split [of completed_run failed_run xs, unfolded running] by (simp add: disjoint)
  note analysis_counts = this [symmetric]
  have a: "la_columnId a = col \<and> la_sessionCount a = length (lane_runs t col)
         \<and> la_completedSessions a + la_failedSessions a
             + length (filter (\<lambda>s. ls_status s = LaneRunning) (lane_runs t col)) = la_sessionCount a"
    if "map_of lanes col = Some a" for col a
    using that by (auto simp: get analysis_counts split: if_splits)
  have "sum_list (map (\<lambda>kv. la_sessionCount (snd kv)) lanes)
      = (\<Sum>k\<in>column_key ` set (tk_laneSessions t). case map_of lanes k of None \<Rightarrow> 0 | Some v \<Rightarrow> la_sessionCount v)"
    by (rule sum_map_of [OF d]) (auto simp: get lane_runs_def filter_empty_conv)
  also have "\<dots> = (\<Sum>k\<in>column_key ` set (tk_laneSessions t). length (lane_runs t k))"
  proof (rule sum.cong [OF refl])
    fix k assume "k \<in> column_key ` set (tk_laneSessions t)"
    then have "lane_runs t k \<noteq> []" by (auto simp: lane_runs_def filter_empty_conv)
    then obtain v where "map_of lanes k = Some v" using get [of k] by simp
    with a [OF this] show "(case map_of lanes k of None \<Rightarrow> 0 | Some v \<Rightarrow> la_sessionCount v) = length (lane_runs t k)" by simp
  qed
  finally have total: "sum_list (map (\<lambda>kv. la_sessionCount (snd kv)) lanes) = length (tk_laneSessions t)"
    by (simp only: lane_runs_def sum_columns)
  have "map_of lanes col = None \<longleftrightarrow> lane_runs t col = []" for col by (simp add: get)
  with a total show ?thesis by blast
qed

text \<open>On a host whose string comparison is a consistent order, the run an analysis names as the latest of its column is a run of that column that started no earlier than any other, and the analysis carries its status.\<close>
theorem lane_latest_is_latest:
  assumes "js_comparator (hostLocaleCompare host)"
    and "synthesizeTaskLaneJitContextAnalysis host t options = Some lanes" and "map_of lanes col = Some a"
  shows "\<exists>s\<in>set (lane_runs t col). la_latestSessionId a = Some (ls_sessionId s) \<and> la_latestStatus a = Some (ls_status s)
    \<and> (\<forall>r\<in>set (lane_runs t col).
         orDefault (hostDateParse host (ls_startedAt r)) 0 \<le> orDefault (hostDateParse host (ls_startedAt s)) 0)"
proof -
  let ?st = "\<lambda>s. orDefault (hostDateParse host (ls_startedAt s)) 0"
  let ?o = "sort_by (cmp_by_start host) (lane_runs t col)"
  have ne: "lane_runs t col \<noteq> []" and a: "la_latestSessionId a = map_option ls_sessionId (last_opt ?o)"
      "la_latestStatus a = map_option ls_status (last_opt ?o)"
    using assms(3) by (auto simp: synthesize_get(2) [OF assms(2)] split: if_splits)
  have "js_comparator (cmp_by_start host)"
    using assms(1) unfolding js_comparator_def cmp_by_start_def Let_def by (smt (verit))
  then have srt: "sorted_wrt (\<lambda>x y. cmp_by_start host x y \<le> 0) ?o" by (rule js_comparator.sort_by_sorted)
  have le: "cmp_by_start host x y \<le> 0 \<Longrightarrow> ?st x \<le> ?st y" for x y
    by (auto simp: cmp_by_start_def Let_def split: if_splits)
  from ne have ne': "?o \<noteq> []" by (metis length_0_conv length_sort_by)
  then have o: "?o = butlast ?o @ [last ?o]" by simp
  have "?st r \<le> ?st (last ?o)" if "r \<in> set ?o" for r
    using that srt le by (subst (asm) o, subst (asm) (2) o) (auto simp: sorted_wrt_append)
  moreover have "last ?o \<in> set (lane_runs t col)" using ne' last_in_set [of ?o] by simp
  ultimately show ?thesis using a ne' by (intro bexI [of _ "last ?o"]) (auto simp: last_opt_def)
qed

section \<open>Normalising the merged analyses\<close>

definition norm_lane :: "lane_analysis \<Rightarrow> lane_analysis option" where
  "norm_lane a = normalizeTaskJitContextLaneAnalysis (js_of_lane a)"

text \<open>What the merged analyses satisfy before they are normalised.\<close>

definition raw_lane_ok :: "string \<Rightarrow> lane_analysis \<Rightarrow> bool" where
  "raw_lane_ok k a = (la_columnId a = k \<and> text_ok k \<and> text_ok (la_synthesizedAt a) \<and> trim (la_summary a) \<noteq> [])"

lemma norm_lane_ok: "lane_ok a \<Longrightarrow> norm_lane a = Some a"
  by (simp add: norm_lane_def normLane_js)

lemma lane_ok_raw: "lane_ok a \<Longrightarrow> raw_lane_ok (la_columnId a) a"
  by (simp add: lane_ok_def raw_lane_ok_def text_ok_iff)

lemma norm_lane_raw:
  assumes "raw_lane_ok k a"
  shows "\<exists>b. norm_lane a = Some b \<and> la_columnId b = k \<and> la_sessionCount b = la_sessionCount a
    \<and> la_completedSessions b = la_completedSessions a \<and> la_failedSessions b = la_failedSessions a
    \<and> la_latestStatus b = la_latestStatus a \<and> la_synthesizedAt b = la_synthesizedAt a"
proof -
  have t: "normText (JStr s) = Some (trim s)" if "trim s \<noteq> []" for s
    using that by (simp add: normalizeTaskContextSearchText_def Let_def)
  show ?thesis using assms
    by (simp add: norm_lane_def raw_lane_ok_def normalizeTaskJitContextLaneAnalysis_def js_of_lane_def
        jprop_JObj t)
qed

lemma normPerLane_get:
  assumes "distinct (map fst kvs)" and "kvs \<noteq> []" and "\<And>k a. (k, a) \<in> set kvs \<Longrightarrow> raw_lane_ok k a"
  shows "\<exists>ls. normalizeTaskJitContextPerLaneAnalysis (js_of_lanes kvs) = Some ls
    \<and> (\<forall>k. map_of ls k = Option.bind (map_of kvs k) norm_lane)"
proof -
  let ?f = "\<lambda>(key, entry). map_option
                   (\<lambda>n. (the (orElse (Some (la_columnId n)) (Some key)), n))
                   (normalizeTaskJitContextLaneAnalysis entry)"
  let ?es = "map_some ?f (map (\<lambda>kv. (fst kv, js_of_lane (snd kv))) kvs)"
  have es: "?es = map (\<lambda>(k, a). (k, the (norm_lane a))) kvs"
    using assms(3)
  proof (induction kvs)
    case (Cons kv kvs)
    obtain k a where kv: "kv = (k, a)" by (cases kv)
    then have "raw_lane_ok k a" using Cons.prems by simp
    from norm_lane_raw [OF this] obtain b where "norm_lane a = Some b" "la_columnId b = k" by blast
    moreover have "k \<noteq> []" using \<open>raw_lane_ok k a\<close> by (auto simp: raw_lane_ok_def text_ok_def)
    ultimately show ?case using Cons kv by (simp add: norm_lane_def)
  qed simp
  have d: "distinct (map fst (map (\<lambda>(k, a). (k, the (norm_lane a))) kvs))"
    using assms(1) by (simp add: comp_def case_prod_beta)
  have "map_of (fromEntries (map (\<lambda>(k, a). (k, the (norm_lane a))) kvs)) k = Option.bind (map_of kvs k) norm_lane" for k
  proof (cases "map_of kvs k")
    case (Some a)
    then have "(k, a) \<in> set kvs" by (rule map_of_SomeD)
    from norm_lane_raw [OF assms(3) [OF this]] show ?thesis
      using Some by (auto simp: fromEntries_get [OF d] map_of_mapk [of "\<lambda>_ a. the (norm_lane a)"])
  qed (simp add: fromEntries_get [OF d] map_of_mapk [of "\<lambda>_ a. the (norm_lane a)"])
  then show ?thesis using assms(2)
    by (simp add: normalizeTaskJitContextPerLaneAnalysis_def js_of_lanes_def es del: map_some.simps)
qed

text \<open>Rebuilding the snapshot changes only the analyses per lane.\<close>

lemma title_text_ok: "text_ok (''Kanban lane experience memory for '' @ title @ ''.'')"
proof -
  have "\<not> is_ws (CHR ''K'')" "\<not> is_ws (CHR ''.'')" by code_simp+
  then show ?thesis by (simp add: text_ok_def trimmed_def)
qed

lemma lane_snapshot_norm:
  assumes "opt_ok snapshot_ok s" and "text_ok syn"
  shows "normalizeSnapshot nowIso (Some (lane_snapshot t syn s lanes))
    = Some ((lane_snapshot t syn s lanes)\<lparr>js_perLaneAnalysis := normalizeTaskJitContextPerLaneAnalysis (js_of_lanes lanes)\<rparr>)"
proof (cases s)
  case None
  have "normalizeTaskJitContextHistorySummary JUndef = Inr None" "normalizeTaskJitContextAnalysis nowIso JUndef = Inr None"
    by (simp_all add: normalizeTaskJitContextHistorySummary_def normalizeTaskJitContextAnalysis_def)
  with None assms(2) show ?thesis
    by (simp add: normalizeSnapshot_def lane_snapshot_def normalizeTaskJitContextSnapshot_def
        js_of_snapshot_def jprop_JObj title_text_ok [simplified] map_entries_def
        items_ok_def normalizeMatchConfidence_def)
next
  case (Some v)
  with assms show ?thesis
    by (simp add: normalizeSnapshot_def lane_snapshot_def normalizeTaskJitContextSnapshot_def
        js_of_snapshot_def jprop_JObj snapshot_ok_def files_js failures_js sessions_js normHistory_js normAnalysis_js)
qed

section \<open>Merging\<close>

lemma merge_next_Inl:
  "(\<exists>e. merge_next prev preserve m kvs = Inl e) \<longleftrightarrow> list_ex (merge_guidance_throws prev preserve) kvs"
  by (induction kvs arbitrary: m) auto

lemma merge_next_Inr:
  assumes "merge_next prev preserve m kvs = Inr m'" and "distinct (map fst kvs)" and "distinct (map fst m)"
  shows "distinct (map fst m') \<and> (\<forall>k. map_of m' k = (case map_of kvs k of None \<Rightarrow> map_of m k
      | Some a \<Rightarrow> Some (mergeLaneAnalysisWithPreviousGuidance (map_of prev k) a preserve)))"
  using assms
proof (induction kvs arbitrary: m)
  case (Cons kv kvs)
  have wf: "om_wf m" using Cons.prems(3) by (simp add: om_wf_def)
  have d: "distinct (map fst (om_set m (fst kv) w))" for w
    using om_wf_set [OF wf, of "fst kv" w] unfolding om_wf_def .
  have none: "map_of kvs (fst kv) = None" using Cons.prems(2) by (auto simp: map_of_eq_None_iff)
  from Cons.prems(1) have "merge_next prev preserve (om_set m (fst kv)
      (mergeLaneAnalysisWithPreviousGuidance (om_get prev (fst kv)) (snd kv) preserve)) kvs = Inr m'"
    by (simp only: merge_next.simps split: if_splits) simp
  moreover have "distinct (map fst kvs)" using Cons.prems(2) by simp
  ultimately have step: "merge_next prev preserve (om_set m (fst kv)
      (mergeLaneAnalysisWithPreviousGuidance (om_get prev (fst kv)) (snd kv) preserve)) kvs = Inr m'"
      and dk: "distinct (map fst kvs)" by blast+
  from Cons.IH [OF step dk d] have d': "distinct (map fst m')"
      and get: "map_of m' k = (case map_of kvs k of None \<Rightarrow> map_of (om_set m (fst kv)
          (mergeLaneAnalysisWithPreviousGuidance (om_get prev (fst kv)) (snd kv) preserve)) k
        | Some a \<Rightarrow> Some (mergeLaneAnalysisWithPreviousGuidance (map_of prev k) a preserve))" for k by blast+
  have "map_of m' k = (case map_of (kv # kvs) k of None \<Rightarrow> map_of m k
      | Some a \<Rightarrow> Some (mergeLaneAnalysisWithPreviousGuidance (map_of prev k) a preserve))" for k
    using none by (cases "k = fst kv") (simp_all add: get split: option.split)
  with d' show ?case by blast
qed simp

lemma merge_guidance_raw: "raw_lane_ok k a \<Longrightarrow> raw_lane_ok k (mergeLaneAnalysisWithPreviousGuidance p a preserve)"
  by (cases p) (auto simp: mergeLaneAnalysisWithPreviousGuidance_def raw_lane_ok_def trim_Nil_iff)

lemma merge_guidance_counts [simp]:
  "la_columnId (mergeLaneAnalysisWithPreviousGuidance p a preserve) = la_columnId a"
  "la_sessionCount (mergeLaneAnalysisWithPreviousGuidance p a preserve) = la_sessionCount a"
  "la_latestStatus (mergeLaneAnalysisWithPreviousGuidance p a preserve) = la_latestStatus a"
  by (cases p; simp add: mergeLaneAnalysisWithPreviousGuidance_def)+

lemma summary_not_blank: "trim (summarizeLane n sc c f r l g) \<noteq> []"
proof -
  have "CHR ''h'' \<in> set (summarizeLane n sc c f r l g)" by (simp add: summarizeLane_def Let_def)
  moreover have "\<not> is_ws (CHR ''h'')" by code_simp
  ultimately show ?thesis unfolding trim_Nil_iff by blast
qed

lemma built_lane_raw:
  "lane_runs t col \<noteq> [] \<Longrightarrow> text_ok syn \<Longrightarrow> raw_lane_ok col (buildLaneAnalysis host t col ss syn report)"
proof -
  assume "lane_runs t col \<noteq> []" and syn: "text_ok syn"
  then obtain s where "column_key s = col" by (auto simp: lane_runs_def filter_empty_conv)
  with column_key_ok [of s] syn show ?thesis
    by (simp add: raw_lane_ok_def) (simp add: buildLaneAnalysis_def Let_def summary_not_blank)
qed

text \<open>The analyses stored in the snapshot of a card.\<close>

definition stored_lanes :: "jit_snapshot option \<Rightarrow> (string \<times> lane_analysis) list" where
  "stored_lanes s = orDefault (Option.bind s js_perLaneAnalysis) []"

lemma stored_lanes_ok:
  "opt_ok snapshot_ok s \<Longrightarrow> distinct (map fst (stored_lanes s))
     \<and> ((k, a) \<in> set (stored_lanes s) \<longrightarrow> lane_ok a \<and> k = la_columnId a)"
  by (cases s) (auto simp: stored_lanes_def snapshot_ok_def opt_ok_def lanes_ok_def list_all_iff orDefault_def
      split: option.splits)

section \<open>Refreshing a card\<close>

lemma refresh_no_runs:
  "opt_ok snapshot_ok (tk_jitContextSnapshot t) \<Longrightarrow> tk_laneSessions t = []
     \<Longrightarrow> refreshTaskLaneExperienceMemory host nowIso t options = Inr t"
  by (cases "tk_jitContextSnapshot t")
    (simp_all add: refreshTaskLaneExperienceMemory_def mergeTaskLaneExperienceIntoJitSnapshot_def Let_def
      normalizeSnapshot_id synthesizeTaskLaneJitContextAnalysis_def)

lemma resolve_fixed:
  "text_ok (resolveLaneExperienceSynthesizedAt host t options) \<Longrightarrow>
   resolveLaneExperienceSynthesizedAt host t
     (options\<lparr>lo_synthesizedAt := Some (resolveLaneExperienceSynthesizedAt host t options)\<rparr>)
   = resolveLaneExperienceSynthesizedAt host t options"
  by (simp add: resolveLaneExperienceSynthesizedAt_def [of host t "options\<lparr>lo_synthesizedAt := _\<rparr>"] text_ok_def)

text \<open>What the analysis of a column becomes.\<close>

definition next_lane :: "js_host \<Rightarrow> task \<Rightarrow> lane_options \<Rightarrow> string \<Rightarrow> lane_analysis" where
  "next_lane host t options col =
     mergeLaneAnalysisWithPreviousGuidance (map_of (stored_lanes (tk_jitContextSnapshot t)) col)
       (buildLaneAnalysis host t col (lane_runs t col) (resolveLaneExperienceSynthesizedAt host t options)
          (lo_flowReport options)) (lo_flowReport options = None)"

lemma stored_merged:
  "distinct (map fst kvs) \<Longrightarrow> foldl (\<lambda>m kv. om_set m (fst kv) (snd kv)) [] kvs = kvs"
  using om_fold_absent [of kvs "[]"] by simp

lemma refresh_runs:
  assumes ok: "opt_ok snapshot_ok (tk_jitContextSnapshot t)" and syn: "text_ok (resolveLaneExperienceSynthesizedAt host t options)"
    and runs: "tk_laneSessions t \<noteq> []" and r: "refreshTaskLaneExperienceMemory host nowIso t options = Inr t'"
  shows "\<exists>ls. t' = t\<lparr>tk_jitContextSnapshot := Some ((lane_snapshot t (resolveLaneExperienceSynthesizedAt host t options)
        (tk_jitContextSnapshot t) ls))\<rparr>
    \<and> (\<forall>k. map_of ls k = (if lane_runs t k = [] then map_of (stored_lanes (tk_jitContextSnapshot t)) k
         else norm_lane (next_lane host t options k)))"
proof -
  let ?syn = "resolveLaneExperienceSynthesizedAt host t options"
  let ?s = "tk_jitContextSnapshot t"
  let ?prev = "stored_lanes ?s"
  obtain lanes where lanes: "synthesizeTaskLaneJitContextAnalysis host t (options\<lparr>lo_synthesizedAt := Some ?syn\<rparr>) = Some lanes"
    using runs synthesize_None_iff by fastforce
  note get = synthesize_get(2) [OF lanes, unfolded resolve_fixed [OF syn], simplified]
  have dprev: "distinct (map fst ?prev)" using stored_lanes_ok [OF ok] by blast
  have r': "mergeTaskLaneExperienceIntoJitSnapshot host nowIso t options =
      (case mergePerLaneAnalysis host (Option.bind ?s js_perLaneAnalysis) lanes options of Inl e \<Rightarrow> Inl e
       | Inr merged \<Rightarrow> Inr (normalizeSnapshot nowIso (Some (lane_snapshot t ?syn ?s merged))))"
    by (simp add: mergeTaskLaneExperienceIntoJitSnapshot_def Let_def lanes normalizeSnapshot_id [OF ok])
  obtain m where m: "merge_next ?prev (lo_flowReport options = None) ?prev lanes = Inr m"
      and per: "mergePerLaneAnalysis host (Option.bind ?s js_perLaneAnalysis) lanes options = Inr (fromEntries (sort_by (cmp_key host) m))"
    using r r' stored_merged [OF dprev]
    by (auto simp: refreshTaskLaneExperienceMemory_def mergePerLaneAnalysis_def Let_def stored_lanes_def split: sum.splits)
  let ?m = "fromEntries (sort_by (cmp_key host) m)"
  from merge_next_Inr [OF m synthesize_get(1) [OF lanes] dprev] have dm: "distinct (map fst m)"
    and mget: "map_of m k = (if lane_runs t k = [] then map_of ?prev k else Some (next_lane host t options k))" for k
    by (auto simp: get next_lane_def)
  have dm': "distinct (map fst ?m)" using dm by (simp add: fromEntries_distinct property_order_distinct)
  have "map_of ?m = map_of (sort_by (cmp_key host) m)" by (rule fromEntries_get) (simp add: dm)
  then have mget': "map_of ?m = map_of m" using sort_get [OF dm] by simp
  have raw: "raw_lane_ok k a" if "(k, a) \<in> set ?m" for k a
  proof -
    from that dm' mget' have a: "map_of m k = Some a" by (metis map_of_is_SomeI)
    show ?thesis
    proof (cases "lane_runs t k = []")
      case True
      with a mget have "(k, a) \<in> set ?prev" by (auto dest: map_of_SomeD)
      with stored_lanes_ok [OF ok] lane_ok_raw show ?thesis by blast
    next
      case False
      with a mget [of k] have "a = next_lane host t options k" by simp
      then show ?thesis unfolding next_lane_def by (simp add: merge_guidance_raw [OF built_lane_raw [OF False syn]])
    qed
  qed
  obtain x where x: "x \<in> set (tk_laneSessions t)" using runs by (cases "tk_laneSessions t") auto
  then have "lane_runs t (column_key x) \<noteq> []" by (auto simp: lane_runs_def filter_empty_conv)
  then have "map_of ?m (column_key x) \<noteq> None" by (simp add: mget mget')
  then have ne: "?m \<noteq> []" by auto
  from normPerLane_get [OF dm' ne raw] obtain ls where
    ls: "normalizeTaskJitContextPerLaneAnalysis (js_of_lanes ?m) = Some ls"
      and lget: "map_of ls k = Option.bind (map_of ?m k) norm_lane" for k by blast
  have "t' = t\<lparr>tk_jitContextSnapshot := Some (lane_snapshot t ?syn ?s ls)\<rparr>"
    using r by (simp add: refreshTaskLaneExperienceMemory_def r' per lane_snapshot_norm [OF ok syn] ls)
      (simp add: lane_snapshot_def)
  moreover have "map_of ls k = (if lane_runs t k = [] then map_of ?prev k else norm_lane (next_lane host t options k))" for k
  proof (cases "map_of ?prev k")
    case (Some a)
    then have "norm_lane a = Some a" using stored_lanes_ok [OF ok, of k a] norm_lane_ok map_of_SomeD by fast
    with Some show ?thesis by (simp add: lget mget mget')
  qed (simp add: lget mget mget')
  ultimately show ?thesis by blast
qed

lemma refresh_throws:
  assumes "opt_ok snapshot_ok (tk_jitContextSnapshot t)" and "text_ok (resolveLaneExperienceSynthesizedAt host t options)"
  shows "(\<exists>e. refreshTaskLaneExperienceMemory host nowIso t options = Inl e) \<longleftrightarrow>
    lo_flowReport options = None \<and> (\<exists>k\<in>set OBJECT_PROTOTYPE_KEYS. lane_runs t k \<noteq> []
      \<and> map_of (stored_lanes (tk_jitContextSnapshot t)) k = None)"
proof (cases "tk_laneSessions t = []")
  case True
  with refresh_no_runs [OF assms(1) True] show ?thesis by (simp add: lane_runs_def)
next
  case False
  let ?syn = "resolveLaneExperienceSynthesizedAt host t options"
  let ?s = "tk_jitContextSnapshot t"
  obtain lanes where lanes: "synthesizeTaskLaneJitContextAnalysis host t (options\<lparr>lo_synthesizedAt := Some ?syn\<rparr>) = Some lanes"
    using False synthesize_None_iff by fastforce
  note get = synthesize_get(2) [OF lanes, unfolded resolve_fixed [OF assms(2)], simplified]
  have dprev: "distinct (map fst (stored_lanes ?s))" using stored_lanes_ok [OF assms(1)] by blast
  have "(\<exists>e. refreshTaskLaneExperienceMemory host nowIso t options = Inl e) \<longleftrightarrow>
      (\<exists>e. merge_next (stored_lanes ?s) (lo_flowReport options = None) (stored_lanes ?s) lanes = Inl e)"
    using stored_merged [OF dprev]
    by (auto simp: refreshTaskLaneExperienceMemory_def mergeTaskLaneExperienceIntoJitSnapshot_def Let_def lanes
        normalizeSnapshot_id [OF assms(1)] mergePerLaneAnalysis_def stored_lanes_def split: sum.splits option.splits)
  also have "\<dots> \<longleftrightarrow> (\<exists>kv\<in>set lanes. merge_guidance_throws (stored_lanes ?s) (lo_flowReport options = None) kv)"
    by (simp only: merge_next_Inl list_ex_iff)
  also have "\<dots> \<longleftrightarrow> (\<exists>k a. map_of lanes k = Some a \<and> merge_guidance_throws (stored_lanes ?s) (lo_flowReport options = None) (k, a))"
    using map_of_eq_Some_iff [OF synthesize_get(1) [OF lanes]] by fast
  also have "\<dots> \<longleftrightarrow> lo_flowReport options = None \<and> (\<exists>k\<in>set OBJECT_PROTOTYPE_KEYS. lane_runs t k \<noteq> []
      \<and> map_of (stored_lanes ?s) k = None)"
    by (auto simp: get merge_guidance_throws_def collectLaneFlowGuidance_def split: if_splits option.splits)
  finally show ?thesis .
qed

text \<open>C27. Refreshing the lane memory of a card touches nothing else: only the snapshot of the card may change, and of a stored snapshot only the analyses per column; a column without runs keeps the analysis it had, and a column with runs gets one that counts exactly its runs, so no column is ever lost.\<close>
theorem refresh_keeps_the_rest:
  assumes "opt_ok snapshot_ok (tk_jitContextSnapshot t)" and "text_ok (resolveLaneExperienceSynthesizedAt host t options)"
    and "refreshTaskLaneExperienceMemory host nowIso t options = Inr t'"
  shows "t'\<lparr>tk_jitContextSnapshot := tk_jitContextSnapshot t\<rparr> = t
    \<and> (\<forall>s. tk_jitContextSnapshot t = Some s \<longrightarrow>
         (\<exists>s'. tk_jitContextSnapshot t' = Some s' \<and> s'\<lparr>js_perLaneAnalysis := js_perLaneAnalysis s\<rparr> = s))
    \<and> (\<forall>k. lane_runs t k = [] \<longrightarrow>
         map_of (stored_lanes (tk_jitContextSnapshot t')) k = map_of (stored_lanes (tk_jitContextSnapshot t)) k)
    \<and> (\<forall>k. lane_runs t k \<noteq> [] \<longrightarrow> (\<exists>a. map_of (stored_lanes (tk_jitContextSnapshot t')) k = Some a
         \<and> la_sessionCount a = length (lane_runs t k)
         \<and> la_synthesizedAt a = resolveLaneExperienceSynthesizedAt host t options))"
proof (cases "tk_laneSessions t = []")
  case True
  with refresh_no_runs [OF assms(1) True] assms(3) show ?thesis by (simp add: lane_runs_def)
next
  case False
  obtain ls where t': "t' = t\<lparr>tk_jitContextSnapshot := Some ((lane_snapshot t (resolveLaneExperienceSynthesizedAt host t options)
        (tk_jitContextSnapshot t) ls))\<rparr>"
    and get: "map_of ls k = (if lane_runs t k = [] then map_of (stored_lanes (tk_jitContextSnapshot t)) k
         else norm_lane (next_lane host t options k))" for k
    using refresh_runs [OF assms(1,2) False assms(3)] by blast
  have st: "stored_lanes (tk_jitContextSnapshot t') = ls" by (simp add: t' stored_lanes_def lane_snapshot_def)
  have new: "\<exists>a. map_of ls k = Some a \<and> la_sessionCount a = length (lane_runs t k)
      \<and> la_synthesizedAt a = resolveLaneExperienceSynthesizedAt host t options" if "lane_runs t k \<noteq> []" for k
  proof -
    have "la_synthesizedAt (mergeLaneAnalysisWithPreviousGuidance p a b) = la_synthesizedAt a" for p a b
      by (cases p) (simp_all add: mergeLaneAnalysisWithPreviousGuidance_def)
    then have syn: "la_synthesizedAt (next_lane host t options k) = resolveLaneExperienceSynthesizedAt host t options"
      by (simp add: next_lane_def)
    have count: "la_sessionCount (next_lane host t options k) = length (lane_runs t k)" by (simp add: next_lane_def)
    have "raw_lane_ok k (next_lane host t options k)"
      unfolding next_lane_def by (rule merge_guidance_raw [OF built_lane_raw [OF that assms(2)]])
    from norm_lane_raw [OF this] show ?thesis unfolding syn count using that by (auto simp: get)
  qed
  have "t'\<lparr>tk_jitContextSnapshot := tk_jitContextSnapshot t\<rparr> = t" by (simp add: t')
  moreover have "\<exists>s'. tk_jitContextSnapshot t' = Some s' \<and> s'\<lparr>js_perLaneAnalysis := js_perLaneAnalysis s\<rparr> = s"
    if "tk_jitContextSnapshot t = Some s" for s
    using that by (simp add: t' lane_snapshot_def)
  ultimately show ?thesis using new by (simp add: st get)
qed

text \<open>Refreshing the lane memory of a card with a well-formed snapshot throws exactly when no flow report is given and some column with runs is named like a property every object inherits (for example constructor) and has no stored analysis.\<close>
theorem refresh_throws_iff:
  assumes "opt_ok snapshot_ok (tk_jitContextSnapshot t)" and "text_ok (resolveLaneExperienceSynthesizedAt host t options)"
  shows "(\<exists>e. refreshTaskLaneExperienceMemory host nowIso t options = Inl e) \<longleftrightarrow>
    lo_flowReport options = None \<and> (\<exists>k\<in>set OBJECT_PROTOTYPE_KEYS. lane_runs t k \<noteq> []
      \<and> map_of (stored_lanes (tk_jitContextSnapshot t)) k = None)"
  by (rule refresh_throws [OF assms])

section \<open>Bounds\<close>

lemma items_ok_take: "items_ok xs \<Longrightarrow> items_ok (take n xs)"
  by (auto simp: items_ok_def list_all_iff dest: in_set_takeD)

lemma uniqueStrings_ok: "items_ok (uniqueStrings vs)"
  by (auto simp: uniqueStrings_def items_ok_def list_all_iff text_ok_def)

lemma collapse_spaces: "c \<in> set (collapse_ws b s) \<Longrightarrow> is_ws c \<Longrightarrow> c = CHR '' ''"
  by (induction b s rule: collapse_ws.induct) (auto split: if_splits)

lemma set_trim: "set (trim s) \<subseteq> set s"
  by (auto simp: trim_def trimStart_def trimEnd_def dest!: set_dropWhileD)

lemma set_trimEnd: "set (trimEnd s) \<subseteq> set s"
  by (auto simp: trimEnd_def dest!: set_dropWhileD)

lemma length_trimEnd: "length (trimEnd s) \<le> length s"
  using length_dropWhile_le [of is_ws "rev s"] by (simp add: trimEnd_def)

text \<open>What a prompt can take from a lane is bounded and clean: an analysis has at most eight learned patterns, six failures, six actions and four guidance items, the texts in these lists are trimmed, not blank and not repeated, its search hints are well formed, and a handoff text is cut to the limit, with every run of white space turned into one space.\<close>
theorem lane_texts_bounded:
  "let a = buildLaneAnalysis host t col ss syn report in
     length (la_learnedPatterns a) \<le> 8 \<and> length (la_topFailures a) \<le> 6 \<and> length (la_recommendedActions a) \<le> 6
     \<and> length (la_flowGuidance a) \<le> 4
     \<and> items_ok (la_learnedPatterns a) \<and> items_ok (la_topFailures a) \<and> items_ok (la_recommendedActions a)
     \<and> opt_ok spec_ok (la_contextHints a)
     \<and> length (compactLaneMemoryText v LANE_MEMORY_TEXT_LIMIT) \<le> LANE_MEMORY_TEXT_LIMIT
     \<and> list_all (\<lambda>c. \<not> (is_ws c \<and> c \<noteq> CHR '' '')) (compactLaneMemoryText v LANE_MEMORY_TEXT_LIMIT)"
proof -
  let ?a = "buildLaneAnalysis host t col ss syn report"
  have f: "\<exists>xs. la_learnedPatterns ?a = take 8 (uniqueStrings xs)" "\<exists>xs. la_topFailures ?a = take 6 (uniqueStrings xs)"
    "\<exists>xs. la_recommendedActions ?a = take 6 (uniqueStrings xs)" "opt_ok spec_ok (la_contextHints ?a)"
    by (auto simp: buildLaneAnalysis_def Let_def buildLearnedPatterns_def buildTopFailures_def
        buildRecommendedActions_def buildLaneContextHints_def normSpec_ok)
  have g: "length (la_flowGuidance ?a) \<le> 4" by (simp add: collectLaneFlowGuidance_def split: option.split)
  have c: "length (compactLaneMemoryText v LANE_MEMORY_TEXT_LIMIT) \<le> LANE_MEMORY_TEXT_LIMIT"
    using length_trimEnd [of "take 237 (trim (collapse_ws False (the v)))"]
    by (cases v) (auto simp: compactLaneMemoryText_def LANE_MEMORY_TEXT_LIMIT_def Let_def)
  have d: "\<not> is_ws (CHR ''.'')" by code_simp
  have w: "c = CHR '' ''" if "c \<in> set (compactLaneMemoryText v LANE_MEMORY_TEXT_LIMIT)" "is_ws c" for c
  proof (cases v)
    case (Some s)
    have "c \<in> set (trim (collapse_ws False s)) \<or> c = CHR ''.''"
      using that(1) Some set_trimEnd set_take_subset
      by (fastforce simp: compactLaneMemoryText_def Let_def split: if_splits)
    then show ?thesis using that(2) d set_trim collapse_spaces [of c False s] by blast
  qed (use that in \<open>simp add: compactLaneMemoryText_def LANE_MEMORY_TEXT_LIMIT_def\<close>)
  from f obtain x y z where "la_learnedPatterns ?a = take 8 (uniqueStrings x)"
      "la_topFailures ?a = take 6 (uniqueStrings y)" "la_recommendedActions ?a = take 6 (uniqueStrings z)" by blast
  with f(4) g c w show ?thesis
    by (auto simp: Let_def list_all_iff intro!: items_ok_take uniqueStrings_ok)
qed

text \<open>The prompt section of a card exists exactly when it has stored analyses; it shows at most four of them, and all of them when there are no more than four; and when the card's own column has one, an analysis of that column comes first.\<close>
theorem prompt_current_lane_first:
  "(buildLaneExperiencePromptSection host col s = None \<longleftrightarrow> stored_lanes s = [])
   \<and> length (prompt_analyses host col lanes) \<le> 4
   \<and> set (prompt_analyses host col lanes) \<subseteq> snd ` set lanes
   \<and> (length lanes \<le> 4 \<longrightarrow> mset (prompt_analyses host col lanes) = mset (map snd lanes))
   \<and> (\<forall>c. col = Some c \<longrightarrow> c \<in> la_columnId ` snd ` set lanes \<longrightarrow>
        (\<exists>a rest. prompt_analyses host col lanes = a # rest \<and> la_columnId a = c))"
proof -
  let ?s = "sort_by (\<lambda>left right. hostLocaleCompare host (la_columnId left) (la_columnId right)) (map snd lanes)"
  let ?P = "\<lambda>a. Some (la_columnId a) = col"
  let ?l = "filter ?P ?s @ filter (\<lambda>a. \<not> ?P a) ?s"
  have p: "prompt_analyses host col lanes = take 4 ?l" by (simp add: prompt_analyses_def Let_def)
  have l: "mset ?l = mset (map snd lanes)" by simp
  then have len: "length ?l = length lanes" by (metis length_map size_mset)
  have "set ?l = snd ` set lanes" using mset_eq_setD [OF l] by simp
  then have "set (take 4 ?l) \<subseteq> snd ` set lanes" using set_take_subset [of 4 ?l] by simp
  moreover have "mset (take 4 ?l) = mset (map snd lanes)" if "length lanes \<le> 4"
    using that l len by simp
  moreover have "\<exists>a rest. take 4 ?l = a # rest \<and> la_columnId a = c"
    if "col = Some c" "c \<in> la_columnId ` snd ` set lanes" for c
  proof -
    from that have "filter ?P ?s \<noteq> []" by (auto simp: filter_empty_conv)
    then obtain a as where a: "filter ?P ?s = a # as" by (cases "filter ?P ?s") auto
    then have "a \<in> set (filter ?P ?s)" by simp
    then have "la_columnId a = c" using that(1) by simp
    with a show ?thesis by (simp add: numeral_eq_Suc)
  qed
  moreover have "buildLaneExperiencePromptSection host col s = None \<longleftrightarrow> stored_lanes s = []"
    by (auto simp: buildLaneExperiencePromptSection_def stored_lanes_def split: option.splits)
  ultimately show ?thesis unfolding p by simp
qed

section \<open>Witnesses\<close>

definition sample_run :: "string \<Rightarrow> lane_status \<Rightarrow> string \<Rightarrow> lane_session" where
  "sample_run i st started = \<lparr>ls_sessionId = i, ls_routaAgentId = None, ls_worktreeId = None, ls_cwd = None,
     ls_columnId = Some ''dev'', ls_columnName = None, ls_stepId = None, ls_stepIndex = None, ls_stepName = None,
     ls_provider = None, ls_role = None, ls_specialistId = None, ls_specialistName = None, ls_model = None,
     ls_reasoningEffort = None, ls_transport = None, ls_externalTaskId = None, ls_contextId = None,
     ls_attempt = None, ls_loopMode = None, ls_completionRequirement = None, ls_objective = None,
     ls_lastActivityAt = None, ls_recoveredFromSessionId = None, ls_recoveryReason = None,
     ls_retryAfterAt = None, ls_laneRerunRequestedAt = None, ls_attentionReason = None,
     ls_status = st, ls_startedAt = started, ls_completedAt = None\<rparr>"

definition sample_card :: task where
  "sample_card = (createTask concrete_host 7 ''c1'' sample_params)
     \<lparr>tk_laneSessions := [sample_run ''a'' LaneFailed ''7'', sample_run ''b'' LaneRunning ''9'']\<rparr>"

definition sample_options :: lane_options where
  "sample_options = \<lparr>lo_flowReport = None, lo_synthesizedAt = Some ''now''\<rparr>"

lemma sample_lanes: "\<exists>lanes. synthesizeTaskLaneJitContextAnalysis concrete_host sample_card sample_options = Some lanes"
  using synthesize_None_iff [of concrete_host sample_card sample_options] by (auto simp: sample_card_def)

lemma sample_card_runs: "lane_runs sample_card ''dev'' = [sample_run ''a'' LaneFailed ''7'', sample_run ''b'' LaneRunning ''9'']"
  "length (tk_laneSessions sample_card) = 2"
  by code_simp+

lemma sample_snapshot_of: "tk_jitContextSnapshot sample_card = Some sample_snapshot"
  using sample_ok(1) by (simp add: sample_card_def createTask_def sample_params_def normalizeSnapshot_id)

lemma sample_synthesizedAt: "resolveLaneExperienceSynthesizedAt concrete_host sample_card sample_options = ''now''"
  by (simp add: resolveLaneExperienceSynthesizedAt_def sample_options_def)

lemma sample_refresh_ok: "opt_ok snapshot_ok (tk_jitContextSnapshot sample_card)"
    "text_ok (resolveLaneExperienceSynthesizedAt concrete_host sample_card sample_options)"
  using sample_ok by (simp_all add: sample_snapshot_of sample_synthesizedAt)

lemma sample_no_reserved_lane: "\<not> (\<exists>k\<in>set OBJECT_PROTOTYPE_KEYS. lane_runs sample_card k \<noteq> [])"
  by code_simp

theorem lane_analysis_counts_witness:
  "\<exists>lanes. synthesizeTaskLaneJitContextAnalysis concrete_host sample_card sample_options = Some lanes
    \<and> sum_list (map (\<lambda>kv. la_sessionCount (snd kv)) lanes) = 2"
  using sample_lanes lane_analysis_counts [of concrete_host sample_card sample_options] sample_card_runs by fastforce

theorem lane_latest_is_latest_witness:
  "\<exists>lanes a. synthesizeTaskLaneJitContextAnalysis concrete_host sample_card sample_options = Some lanes
    \<and> map_of lanes ''dev'' = Some a \<and> la_latestSessionId a = Some ''b''"
proof -
  obtain lanes where l: "synthesizeTaskLaneJitContextAnalysis concrete_host sample_card sample_options = Some lanes"
    using sample_lanes by blast
  obtain a where a: "map_of lanes ''dev'' = Some a" using synthesize_get(2) [OF l, of "''dev''"] by (simp add: sample_card_runs)
  have "js_comparator (hostLocaleCompare concrete_host)" by (simp add: concrete_host_def js_comparator_def)
  from lane_latest_is_latest [OF this l a] obtain s where "s \<in> set (lane_runs sample_card ''dev'')"
      "la_latestSessionId a = Some (ls_sessionId s)"
      "\<forall>r\<in>set (lane_runs sample_card ''dev''). orDefault (hostDateParse concrete_host (ls_startedAt r)) 0
         \<le> orDefault (hostDateParse concrete_host (ls_startedAt s)) 0" by blast
  then have "la_latestSessionId a = Some ''b''"
    by (auto simp: sample_card_runs sample_run_def concrete_host_def)
  with l a show ?thesis by blast
qed

theorem refresh_throws_iff_witness:
  "\<exists>t'. refreshTaskLaneExperienceMemory concrete_host ''now'' sample_card sample_options = Inr t'"
  using refresh_throws_iff [OF sample_refresh_ok, of "''now''"] sample_no_reserved_lane
  by (cases "refreshTaskLaneExperienceMemory concrete_host ''now'' sample_card sample_options") auto

theorem refresh_keeps_the_rest_witness:
  "\<exists>t' a. refreshTaskLaneExperienceMemory concrete_host ''now'' sample_card sample_options = Inr t'
    \<and> map_of (stored_lanes (tk_jitContextSnapshot t')) ''dev'' = Some a \<and> la_sessionCount a = 2"
proof -
  obtain t' where r: "refreshTaskLaneExperienceMemory concrete_host ''now'' sample_card sample_options = Inr t'"
    using refresh_throws [OF sample_refresh_ok, of "''now''"] sample_no_reserved_lane
    by (cases "refreshTaskLaneExperienceMemory concrete_host ''now'' sample_card sample_options") auto
  moreover have "lane_runs sample_card ''dev'' \<noteq> []" "length (lane_runs sample_card ''dev'') = 2"
    by (simp_all add: sample_card_runs)
  ultimately show ?thesis using refresh_keeps_the_rest [OF sample_refresh_ok, of "''now''" t'] by metis
qed

theorem prompt_current_lane_first_witness:
  "\<exists>a rest. prompt_analyses concrete_host (Some ''dev'')
     [(''todo'', buildLaneAnalysis concrete_host sample_card ''todo'' [] ''now'' None),
      (''dev'', buildLaneAnalysis concrete_host sample_card ''dev'' [] ''now'' None)] = a # rest \<and> la_columnId a = ''dev''"
  using prompt_current_lane_first [of concrete_host "Some ''dev''" None
    "[(''todo'', buildLaneAnalysis concrete_host sample_card ''todo'' [] ''now'' None),
      (''dev'', buildLaneAnalysis concrete_host sample_card ''dev'' [] ''now'' None)]"] by simp

end
