(* ===== verification/LaneHistory.thy ===== *)
theory LaneHistory
  imports LaneExperience KanbanModel
begin

text \<open>
  The record of a card's runs and how it changes: src/src/core/kanban/task-lane-history.ts (runs and
  handoffs, one record each), lane-session-merge.ts (the merge on save), task-session-transition.ts
  (what ends when a card moves) and lane-session-backfill.ts. The code changes the card in place and
  then refreshes its lane memory, which may throw: an operation gives the card as it is afterwards
  and its result or error. \<open>now\<close> is the ISO time of the operation; the code reads the clock more
  than once, the model takes these readings as one instant.
\<close>

section \<open>Recording a run\<close>

text \<open>
  The argument of \<open>upsertTaskLaneSession\<close>. \<open>Object.assign\<close> copies every property the argument has,
  also one whose value is \<open>undefined\<close>: \<^const>\<open>None\<close> is no such property, \<open>Some None\<close> the property
  with the value \<open>undefined\<close>.
\<close>

record lane_patch =
  lp_sessionId :: string
  lp_routaAgentId :: "string option option"
  lp_worktreeId :: "string option option"
  lp_cwd :: "string option option"
  lp_columnId :: "string option option"
  lp_columnName :: "string option option"
  lp_stepId :: "string option option"
  lp_stepIndex :: "int option option"
  lp_stepName :: "string option option"
  lp_provider :: "string option option"
  lp_role :: "string option option"
  lp_specialistId :: "string option option"
  lp_specialistName :: "string option option"
  lp_model :: "string option option"
  lp_reasoningEffort :: "string option option"
  lp_transport :: "string option option"
  lp_externalTaskId :: "string option option"
  lp_contextId :: "string option option"
  lp_attempt :: "int option option"
  lp_loopMode :: "lane_loop_mode option option"
  lp_completionRequirement :: "lane_completion_requirement option option"
  lp_objective :: "string option option"
  lp_lastActivityAt :: "string option option"
  lp_recoveredFromSessionId :: "string option option"
  lp_recoveryReason :: "lane_recovery_reason option option"
  lp_retryAfterAt :: "string option option"
  lp_laneRerunRequestedAt :: "string option option"
  lp_attentionReason :: "string option option"
  lp_status :: "lane_status option option"
  lp_startedAt :: "string option option"
  lp_completedAt :: "string option option"

definition given :: "'a option option \<Rightarrow> 'a option" where
  "given v = orDefault v None"

definition assign_lane_session :: "string \<Rightarrow> lane_patch \<Rightarrow> lane_session \<Rightarrow> lane_session" where
  "assign_lane_session now p e =
     (let started = orDefault (lp_startedAt p) (Some (ls_startedAt e));
          status = orDefault (lp_status p) (Some (ls_status e))
      in \<lparr>ls_sessionId = lp_sessionId p,
          ls_routaAgentId = orDefault (lp_routaAgentId p) (ls_routaAgentId e),
          ls_worktreeId = orDefault (lp_worktreeId p) (ls_worktreeId e),
          ls_cwd = orDefault (lp_cwd p) (ls_cwd e),
          ls_columnId = orDefault (lp_columnId p) (ls_columnId e),
          ls_columnName = orDefault (lp_columnName p) (ls_columnName e),
          ls_stepId = orDefault (lp_stepId p) (ls_stepId e),
          ls_stepIndex = orDefault (lp_stepIndex p) (ls_stepIndex e),
          ls_stepName = orDefault (lp_stepName p) (ls_stepName e),
          ls_provider = orDefault (lp_provider p) (ls_provider e),
          ls_role = orDefault (lp_role p) (ls_role e),
          ls_specialistId = orDefault (lp_specialistId p) (ls_specialistId e),
          ls_specialistName = orDefault (lp_specialistName p) (ls_specialistName e),
          ls_model = orDefault (lp_model p) (ls_model e),
          ls_reasoningEffort = orDefault (lp_reasoningEffort p) (ls_reasoningEffort e),
          ls_transport = orDefault (lp_transport p) (ls_transport e),
          ls_externalTaskId = orDefault (lp_externalTaskId p) (ls_externalTaskId e),
          ls_contextId = orDefault (lp_contextId p) (ls_contextId e),
          ls_attempt = orDefault (lp_attempt p) (ls_attempt e),
          ls_loopMode = orDefault (lp_loopMode p) (ls_loopMode e),
          ls_completionRequirement = orDefault (lp_completionRequirement p) (ls_completionRequirement e),
          ls_objective = orDefault (lp_objective p) (ls_objective e),
          ls_lastActivityAt = orDefault (lp_lastActivityAt p) (ls_lastActivityAt e),
          ls_recoveredFromSessionId = orDefault (lp_recoveredFromSessionId p) (ls_recoveredFromSessionId e),
          ls_recoveryReason = orDefault (lp_recoveryReason p) (ls_recoveryReason e),
          ls_retryAfterAt = orDefault (lp_retryAfterAt p) (ls_retryAfterAt e),
          ls_laneRerunRequestedAt = orDefault (lp_laneRerunRequestedAt p) (ls_laneRerunRequestedAt e),
          ls_attentionReason = orDefault (lp_attentionReason p) (ls_attentionReason e),
          ls_status = (case status of Some s \<Rightarrow> s | None \<Rightarrow> LaneRunning),
          ls_startedAt = (if truthy started then the started else orDefault (given (lp_startedAt p)) now),
          ls_completedAt = orDefault (lp_completedAt p) (ls_completedAt e)\<rparr>)"

definition new_lane_session :: "string \<Rightarrow> lane_patch \<Rightarrow> lane_session" where
  "new_lane_session now p =
     \<lparr>ls_sessionId = lp_sessionId p, ls_routaAgentId = given (lp_routaAgentId p),
      ls_worktreeId = given (lp_worktreeId p), ls_cwd = given (lp_cwd p),
      ls_columnId = given (lp_columnId p), ls_columnName = given (lp_columnName p),
      ls_stepId = given (lp_stepId p), ls_stepIndex = given (lp_stepIndex p),
      ls_stepName = given (lp_stepName p), ls_provider = given (lp_provider p), ls_role = given (lp_role p),
      ls_specialistId = given (lp_specialistId p), ls_specialistName = given (lp_specialistName p),
      ls_model = given (lp_model p), ls_reasoningEffort = given (lp_reasoningEffort p),
      ls_transport = given (lp_transport p), ls_externalTaskId = given (lp_externalTaskId p),
      ls_contextId = given (lp_contextId p), ls_attempt = given (lp_attempt p),
      ls_loopMode = given (lp_loopMode p), ls_completionRequirement = given (lp_completionRequirement p),
      ls_objective = given (lp_objective p), ls_lastActivityAt = given (lp_lastActivityAt p),
      ls_recoveredFromSessionId = given (lp_recoveredFromSessionId p),
      ls_recoveryReason = given (lp_recoveryReason p), ls_retryAfterAt = given (lp_retryAfterAt p),
      ls_laneRerunRequestedAt = None,
      ls_attentionReason = (if truthy (given (lp_attentionReason p)) then given (lp_attentionReason p) else None),
      ls_status = orDefault (given (lp_status p)) LaneRunning,
      ls_startedAt = orDefault (given (lp_startedAt p)) now,
      ls_completedAt = given (lp_completedAt p)\<rparr>"

text \<open>The card is changed before its memory is refreshed, so the change stays when that throws.\<close>

definition with_refresh :: "js_host \<Rightarrow> string \<Rightarrow> task \<Rightarrow> 'a \<Rightarrow> task \<times> (js_error + 'a)" where
  "with_refresh host now t result =
     (case refreshTaskLaneExperienceMemory host now t \<lparr>lo_flowReport = None, lo_synthesizedAt = None\<rparr> of
        Inl e \<Rightarrow> (t, Inl e) | Inr t' \<Rightarrow> (t', Inr result))"

definition session_index :: "string \<Rightarrow> task \<Rightarrow> nat option" where
  "session_index sessionId t = find_index (\<lambda>e. ls_sessionId e = sessionId) (tk_laneSessions t)"

definition upsertTaskLaneSession :: "js_host \<Rightarrow> string \<Rightarrow> task \<Rightarrow> lane_patch \<Rightarrow> task \<times> (js_error + lane_session)" where
  "upsertTaskLaneSession host now t session =
     (case session_index (lp_sessionId session) t of
        Some i \<Rightarrow>
          (let existing = assign_lane_session now session (tk_laneSessions t ! i)
           in with_refresh host now (t\<lparr>tk_laneSessions := (tk_laneSessions t)[i := existing]\<rparr>) existing)
      | None \<Rightarrow>
          (let created = new_lane_session now session
           in with_refresh host now (t\<lparr>tk_laneSessions := tk_laneSessions t @ [created]\<rparr>) created))"

definition markTaskLaneSessionStatus ::
  "js_host \<Rightarrow> string \<Rightarrow> task \<Rightarrow> string option \<Rightarrow> lane_status \<Rightarrow> string option \<Rightarrow> task \<times> (js_error + lane_session option)" where
  "markTaskLaneSessionStatus host now t sessionId status completedAt =
     (if \<not> truthy sessionId then (t, Inr None)
      else case session_index (the sessionId) t of
        None \<Rightarrow> (t, Inr None)
      | Some i \<Rightarrow>
          (let marked = (tk_laneSessions t ! i)\<lparr>ls_status := status\<rparr>;
               entry = (if status \<noteq> LaneRunning then marked\<lparr>ls_completedAt := Some (orDefault completedAt now)\<rparr> else marked)
           in with_refresh host now (t\<lparr>tk_laneSessions := (tk_laneSessions t)[i := entry]\<rparr>) (Some entry)))"

section \<open>Reading the runs\<close>

definition getTaskLaneSession :: "task \<Rightarrow> string option \<Rightarrow> lane_session option" where
  "getTaskLaneSession t sessionId =
     (if \<not> truthy sessionId then None
      else List.find (\<lambda>e. ls_sessionId e = the sessionId) (tk_laneSessions t))"

definition getLatestLaneSessionForColumn :: "task \<Rightarrow> string option \<Rightarrow> lane_session option" where
  "getLatestLaneSessionForColumn t columnId =
     (if \<not> truthy columnId then None
      else List.find (\<lambda>e. ls_columnId e = columnId) (rev (tk_laneSessions t)))"

definition getPreviousLaneSession :: "task \<Rightarrow> kanban_board \<Rightarrow> string option \<Rightarrow> lane_session option" where
  "getPreviousLaneSession t board currentColumnId =
     (if \<not> truthy currentColumnId then None
      else let orderedColumns = sort_by (by_key kc_position) (kb_columns board)
           in case find_index (\<lambda>c. kc_id c = the currentColumnId) orderedColumns of
                None \<Rightarrow> None
              | Some 0 \<Rightarrow> None
              | Some (Suc j) \<Rightarrow> getLatestLaneSessionForColumn t (Some (kc_id (orderedColumns ! j))))"

text \<open>The loop over the entries before the current one, the nearest first.\<close>

fun previous_run_loop :: "lane_session \<Rightarrow> lane_session option \<Rightarrow> lane_session list \<Rightarrow> lane_session option" where
  "previous_run_loop current fallback [] = fallback"
| "previous_run_loop current fallback (e # es) =
     (if ls_columnId e \<noteq> ls_columnId current then previous_run_loop current fallback es
      else case (ls_stepIndex current, ls_stepIndex e) of
             (Some c, Some i) \<Rightarrow> if c > 0 \<and> i < c then Some e
               else previous_run_loop current (if fallback = None then Some e else fallback) es
           | _ \<Rightarrow> previous_run_loop current (if fallback = None then Some e else fallback) es)"

definition getPreviousLaneRun :: "task \<Rightarrow> string option \<Rightarrow> lane_session option" where
  "getPreviousLaneRun t sessionId =
     (if \<not> truthy sessionId then None
      else case session_index (the sessionId) t of
        None \<Rightarrow> None
      | Some i \<Rightarrow> if i = 0 then None
          else previous_run_loop (tk_laneSessions t ! i) None (rev (take i (tk_laneSessions t))))"

section \<open>Handoffs\<close>

record handoff_params =
  hp_id :: string
  hp_fromSessionId :: string
  hp_toSessionId :: string
  hp_fromColumnId :: "string option"
  hp_toColumnId :: "string option"
  hp_worktreeId :: "string option"
  hp_cwd :: "string option"
  hp_requestType :: handoff_request_type
  hp_request :: string
  hp_status :: "handoff_status option"

text \<open>A handoff object as it is passed on: which of its optional properties it has, and their values.\<close>

record handoff_object =
  ho_id :: string
  ho_fromSessionId :: string
  ho_toSessionId :: string
  ho_fromColumnId :: "string option option"
  ho_toColumnId :: "string option option"
  ho_worktreeId :: "string option option"
  ho_cwd :: "string option option"
  ho_requestType :: handoff_request_type
  ho_request :: string
  ho_status :: handoff_status
  ho_requestedAt :: string
  ho_respondedAt :: "string option option"
  ho_responseSummary :: "string option option"

definition handoff_value :: "handoff_object \<Rightarrow> lane_handoff" where
  "handoff_value h =
     \<lparr>lh_id = ho_id h, lh_fromSessionId = ho_fromSessionId h, lh_toSessionId = ho_toSessionId h,
      lh_fromColumnId = given (ho_fromColumnId h), lh_toColumnId = given (ho_toColumnId h),
      lh_worktreeId = given (ho_worktreeId h), lh_cwd = given (ho_cwd h),
      lh_requestType = ho_requestType h, lh_request = ho_request h, lh_status = ho_status h,
      lh_requestedAt = ho_requestedAt h, lh_respondedAt = given (ho_respondedAt h),
      lh_responseSummary = given (ho_responseSummary h)\<rparr>"

definition assign_handoff :: "handoff_object \<Rightarrow> lane_handoff \<Rightarrow> lane_handoff" where
  "assign_handoff h e =
     \<lparr>lh_id = ho_id h, lh_fromSessionId = ho_fromSessionId h, lh_toSessionId = ho_toSessionId h,
      lh_fromColumnId = orDefault (ho_fromColumnId h) (lh_fromColumnId e),
      lh_toColumnId = orDefault (ho_toColumnId h) (lh_toColumnId e),
      lh_worktreeId = orDefault (ho_worktreeId h) (lh_worktreeId e), lh_cwd = orDefault (ho_cwd h) (lh_cwd e),
      lh_requestType = ho_requestType h, lh_request = ho_request h, lh_status = ho_status h,
      lh_requestedAt = ho_requestedAt h, lh_respondedAt = orDefault (ho_respondedAt h) (lh_respondedAt e),
      lh_responseSummary = orDefault (ho_responseSummary h) (lh_responseSummary e)\<rparr>"

definition createTaskLaneHandoff :: "string \<Rightarrow> handoff_params \<Rightarrow> handoff_object" where
  "createTaskLaneHandoff now p =
     \<lparr>ho_id = hp_id p, ho_fromSessionId = hp_fromSessionId p, ho_toSessionId = hp_toSessionId p,
      ho_fromColumnId = Some (hp_fromColumnId p), ho_toColumnId = Some (hp_toColumnId p),
      ho_worktreeId = Some (hp_worktreeId p), ho_cwd = Some (hp_cwd p),
      ho_requestType = hp_requestType p, ho_request = hp_request p,
      ho_status = orDefault (hp_status p) HoRequested, ho_requestedAt = now,
      ho_respondedAt = None, ho_responseSummary = None\<rparr>"

definition upsertTaskLaneHandoff :: "js_host \<Rightarrow> string \<Rightarrow> task \<Rightarrow> handoff_object \<Rightarrow> task \<times> (js_error + lane_handoff)" where
  "upsertTaskLaneHandoff host now t handoff =
     (case find_index (\<lambda>e. lh_id e = ho_id handoff) (tk_laneHandoffs t) of
        Some i \<Rightarrow>
          (let existing = assign_handoff handoff (tk_laneHandoffs t ! i)
           in with_refresh host now (t\<lparr>tk_laneHandoffs := (tk_laneHandoffs t)[i := existing]\<rparr>) existing)
      | None \<Rightarrow> with_refresh host now (t\<lparr>tk_laneHandoffs := tk_laneHandoffs t @ [handoff_value handoff]\<rparr>) (handoff_value handoff))"

definition getTaskLaneHandoff :: "task \<Rightarrow> string \<Rightarrow> lane_handoff option" where
  "getTaskLaneHandoff t handoffId = List.find (\<lambda>e. lh_id e = handoffId) (tk_laneHandoffs t)"

section \<open>The end of a run\<close>

definition archiveActiveTaskSession :: "task \<Rightarrow> task" where
  "archiveActiveTaskSession t =
     (if \<not> truthy (tk_triggerSessionId t) then t
      else if the (tk_triggerSessionId t) \<in> set (tk_sessionIds t) then t
      else t\<lparr>tk_sessionIds := tk_sessionIds t @ [the (tk_triggerSessionId t)]\<rparr>)"

text \<open>The status is never \<open>LaneRunning\<close> here (the type of the argument excludes it).\<close>

definition finalizeActiveTaskSession :: "js_host \<Rightarrow> string \<Rightarrow> task \<Rightarrow> lane_status \<Rightarrow> task \<times> (js_error + unit)" where
  "finalizeActiveTaskSession host now t status =
     (if \<not> truthy (tk_triggerSessionId t) then (t, Inr ())
      else let archived = archiveActiveTaskSession t in
        (case markTaskLaneSessionStatus host now archived (tk_triggerSessionId archived) status None of
           (t', Inl e) \<Rightarrow> (t', Inl e)
         | (t', Inr _) \<Rightarrow> (t'\<lparr>tk_triggerSessionId := None\<rparr>, Inr ())))"

text \<open>The loop reads the entry at each index as the marks before it left it.\<close>

fun complete_loop ::
  "js_host \<Rightarrow> string \<Rightarrow> string option \<Rightarrow> string option \<Rightarrow> nat list \<Rightarrow> task \<Rightarrow> bool \<Rightarrow> task \<times> (js_error + bool)" where
  "complete_loop host now columnId excluded [] t mutated = (t, Inr mutated)"
| "complete_loop host now columnId excluded (i # rest) t mutated =
     (let entry = tk_laneSessions t ! i in
      if ls_status entry \<noteq> LaneRunning \<or> Some (ls_sessionId entry) = excluded \<or> ls_columnId entry = columnId
      then complete_loop host now columnId excluded rest t mutated
      else (case markTaskLaneSessionStatus host now t (Some (ls_sessionId entry)) LaneCompleted None of
              (t', Inl e) \<Rightarrow> (t', Inl e)
            | (t', Inr _) \<Rightarrow> complete_loop host now columnId excluded rest t' True))"

definition completeRunningSessionsOutsideColumn ::
  "js_host \<Rightarrow> string \<Rightarrow> task \<Rightarrow> string option \<Rightarrow> string option \<Rightarrow> task \<times> (js_error + bool)" where
  "completeRunningSessionsOutsideColumn host now t columnId excluded =
     complete_loop host now columnId excluded [0..<length (tk_laneSessions t)] t False"

definition prepareTaskForColumnChange ::
  "js_host \<Rightarrow> string \<Rightarrow> string option \<Rightarrow> task \<Rightarrow> task \<times> (js_error + bool)" where
  "prepareTaskForColumnChange host now previousColumnId t =
     (if tk_columnId t = previousColumnId then (t, Inr False)
      else (case finalizeActiveTaskSession host now t LaneCompleted of
              (t', Inl e) \<Rightarrow> (t', Inl e)
            | (t', Inr _) \<Rightarrow> (t'\<lparr>tk_lastSyncError := None\<rparr>, Inr True)))"

section \<open>Backfilling a lost start record\<close>

definition empty_patch :: "string \<Rightarrow> lane_patch" where
  "empty_patch sessionId =
     \<lparr>lp_sessionId = sessionId, lp_routaAgentId = None, lp_worktreeId = None, lp_cwd = None, lp_columnId = None,
      lp_columnName = None, lp_stepId = None, lp_stepIndex = None, lp_stepName = None, lp_provider = None,
      lp_role = None, lp_specialistId = None, lp_specialistName = None, lp_model = None,
      lp_reasoningEffort = None, lp_transport = None, lp_externalTaskId = None, lp_contextId = None,
      lp_attempt = None, lp_loopMode = None, lp_completionRequirement = None, lp_objective = None,
      lp_lastActivityAt = None, lp_recoveredFromSessionId = None, lp_recoveryReason = None,
      lp_retryAfterAt = None, lp_laneRerunRequestedAt = None, lp_attentionReason = None, lp_status = None,
      lp_startedAt = None, lp_completedAt = None\<rparr>"

record backfill_automation =
  ba_columnId :: "string option"
  ba_columnName :: "string option"
  ba_currentStepIndex :: int
  ba_steps :: "automation_step list option"

definition step_at :: "automation_step list option \<Rightarrow> int \<Rightarrow> automation_step option" where
  "step_at steps i = (case steps of None \<Rightarrow> None
     | Some ss \<Rightarrow> if 0 \<le> i \<and> i < int (length ss) then Some (ss ! nat i) else None)"

text \<open>The properties that are spread into the skeleton; the empty patch is \<open>{}\<close>.\<close>

definition buildLaneSessionBackfill :: "task \<Rightarrow> backfill_automation option \<Rightarrow> string \<Rightarrow> lane_patch" where
  "buildLaneSessionBackfill t automation sessionId =
     (case automation of
        None \<Rightarrow> empty_patch sessionId
      | Some a \<Rightarrow>
          if \<not> truthy (ba_columnId a) \<or> getTaskLaneSession t (Some sessionId) \<noteq> None then empty_patch sessionId
          else let base = (empty_patch sessionId)\<lparr>
                 lp_columnId := Some (ba_columnId a),
                 lp_columnName := (if truthy (ba_columnName a) then Some (ba_columnName a) else None),
                 lp_stepIndex := Some (Some (ba_currentStepIndex a))\<rparr>
               in (case step_at (ba_steps a) (ba_currentStepIndex a) of
                     None \<Rightarrow> base
                   | Some step \<Rightarrow> base\<lparr>
                       lp_stepId := (if truthy (as_id step) then Some (as_id step) else None),
                       lp_stepName := Some (nullish (nullish (as_specialistName step) (as_specialistId step)) (as_role step)),
                       lp_role := Some (as_role step),
                       lp_specialistId := Some (as_specialistId step),
                       lp_specialistName := Some (as_specialistName step)\<rparr>))"

section \<open>Merging lane records on save\<close>

definition mergeSessionIds :: "string list option \<Rightarrow> string list option \<Rightarrow> string list" where
  "mergeSessionIds stored incoming =
     foldl (\<lambda>merged i. if i \<in> set merged then merged else merged @ [i]) (orDefault incoming []) (orDefault stored [])"

definition fill_lane_session :: "lane_session \<Rightarrow> lane_session \<Rightarrow> lane_session" where
  "fill_lane_session w other =
     \<lparr>ls_sessionId = ls_sessionId w, ls_routaAgentId = nullish (ls_routaAgentId w) (ls_routaAgentId other),
      ls_worktreeId = nullish (ls_worktreeId w) (ls_worktreeId other), ls_cwd = nullish (ls_cwd w) (ls_cwd other),
      ls_columnId = nullish (ls_columnId w) (ls_columnId other),
      ls_columnName = nullish (ls_columnName w) (ls_columnName other),
      ls_stepId = nullish (ls_stepId w) (ls_stepId other),
      ls_stepIndex = nullish (ls_stepIndex w) (ls_stepIndex other),
      ls_stepName = nullish (ls_stepName w) (ls_stepName other),
      ls_provider = nullish (ls_provider w) (ls_provider other), ls_role = nullish (ls_role w) (ls_role other),
      ls_specialistId = nullish (ls_specialistId w) (ls_specialistId other),
      ls_specialistName = nullish (ls_specialistName w) (ls_specialistName other),
      ls_model = nullish (ls_model w) (ls_model other),
      ls_reasoningEffort = nullish (ls_reasoningEffort w) (ls_reasoningEffort other),
      ls_transport = nullish (ls_transport w) (ls_transport other),
      ls_externalTaskId = nullish (ls_externalTaskId w) (ls_externalTaskId other),
      ls_contextId = nullish (ls_contextId w) (ls_contextId other),
      ls_attempt = nullish (ls_attempt w) (ls_attempt other),
      ls_loopMode = nullish (ls_loopMode w) (ls_loopMode other),
      ls_completionRequirement = nullish (ls_completionRequirement w) (ls_completionRequirement other),
      ls_objective = nullish (ls_objective w) (ls_objective other),
      ls_lastActivityAt = nullish (ls_lastActivityAt w) (ls_lastActivityAt other),
      ls_recoveredFromSessionId = nullish (ls_recoveredFromSessionId w) (ls_recoveredFromSessionId other),
      ls_recoveryReason = nullish (ls_recoveryReason w) (ls_recoveryReason other),
      ls_retryAfterAt = nullish (ls_retryAfterAt w) (ls_retryAfterAt other),
      ls_laneRerunRequestedAt = nullish (ls_laneRerunRequestedAt w) (ls_laneRerunRequestedAt other),
      ls_attentionReason = nullish (ls_attentionReason w) (ls_attentionReason other),
      ls_status = ls_status w, ls_startedAt = ls_startedAt w,
      ls_completedAt = nullish (ls_completedAt w) (ls_completedAt other)\<rparr>"

definition mergeLaneSession :: "lane_session \<Rightarrow> lane_session \<Rightarrow> lane_session" where
  "mergeLaneSession stored incoming =
     (let storedEnded = ls_status stored \<noteq> LaneRunning;
          incomingEnded = ls_status incoming \<noteq> LaneRunning
      in if incomingEnded \<or> \<not> storedEnded then fill_lane_session incoming stored
         else fill_lane_session stored incoming)"

definition mergeLaneSessions :: "lane_session list option \<Rightarrow> lane_session list option \<Rightarrow> lane_session list" where
  "mergeLaneSessions stored incoming =
     (let storedById = foldl (\<lambda>m e. om_set m (ls_sessionId e) e) [] (orDefault stored []);
          incomingIds = set (map ls_sessionId (orDefault incoming []))
      in map (\<lambda>e. case om_get storedById (ls_sessionId e) of
                   Some counterpart \<Rightarrow> mergeLaneSession counterpart e | None \<Rightarrow> e) (orDefault incoming [])
         @ filter (\<lambda>e. ls_sessionId e \<notin> incomingIds) (orDefault stored []))"

text \<open>\<open>mergeLaneRecords\<close>: both lists of the stored row, if there is one, and of the incoming card.\<close>

definition mergeLaneRecords ::
  "(string list \<times> lane_session list) option \<Rightarrow> string list \<times> lane_session list \<Rightarrow> string list \<times> lane_session list" where
  "mergeLaneRecords stored incoming =
     (mergeSessionIds (map_option fst stored) (Some (fst incoming)),
      mergeLaneSessions (map_option snd stored) (Some (snd incoming)))"

end
