(* ===== verification/LaneHistoryProps.thy ===== *)
theory LaneHistoryProps
  imports LaneHistory
begin

text \<open>
  What the changes to a card's runs guarantee: one record per run, the end of the runs of a card
  that moves, the run before a run, the backfill of a lost record, and the merge on save that loses
  no run and never reopens an ended one.
\<close>

section \<open>Updates of one record\<close>

lemma with_refresh_frame: "\<exists>s. fst (with_refresh host now t x) = t\<lparr>tk_jitContextSnapshot := s\<rparr>"
proof (cases "refreshTaskLaneExperienceMemory host now t \<lparr>lo_flowReport = None, lo_synthesizedAt = None\<rparr>")
  case (Inl e)
  then show ?thesis by (intro exI [of _ "tk_jitContextSnapshot t"]) (simp add: with_refresh_def)
next
  case (Inr t')
  then have "t' = t \<or> (\<exists>s. t' = t\<lparr>tk_jitContextSnapshot := s\<rparr>)"
    by (auto simp: refreshTaskLaneExperienceMemory_def split: sum.splits option.splits)
  then obtain s where "t' = t\<lparr>tk_jitContextSnapshot := s\<rparr>"
  proof
    assume "t' = t"
    then have "t' = t\<lparr>tk_jitContextSnapshot := tk_jitContextSnapshot t\<rparr>" by simp
    then show ?thesis by (rule that)
  qed (use that in blast)
  with Inr show ?thesis by (intro exI [of _ s]) (simp add: with_refresh_def)
qed

lemma with_refresh_result: "snd (with_refresh host now t x) = Inr y \<Longrightarrow> y = x"
  by (simp add: with_refresh_def split: sum.splits)

lemma with_refresh_get [simp]:
  "tk_laneSessions (fst (with_refresh host now t x)) = tk_laneSessions t"
  "tk_laneHandoffs (fst (with_refresh host now t x)) = tk_laneHandoffs t"
  "tk_sessionIds (fst (with_refresh host now t x)) = tk_sessionIds t"
  "tk_triggerSessionId (fst (with_refresh host now t x)) = tk_triggerSessionId t"
  "tk_columnId (fst (with_refresh host now t x)) = tk_columnId t"
  using with_refresh_frame [of host now t x] by auto

text \<open>Replacing the first entry with a key by one with the same key, or appending one.\<close>

definition put_first :: "('a \<Rightarrow> 'k) \<Rightarrow> 'a \<Rightarrow> 'a list \<Rightarrow> 'a list" where
  "put_first key x xs = (case find_index (\<lambda>y. key y = key x) xs of Some i \<Rightarrow> xs[i := x] | None \<Rightarrow> xs @ [x])"

lemma find_index_split:
  "find_index P xs = Some i \<Longrightarrow> \<exists>as y bs. xs = as @ y # bs \<and> length as = i \<and> P y \<and> (\<forall>a\<in>set as. \<not> P a)"
proof (induction xs arbitrary: i)
  case (Cons x xs)
  show ?case
  proof (cases "P x")
    case True
    with Cons.prems show ?thesis by (intro exI [of _ "[]"]) auto
  next
    case False
    then obtain j where j: "find_index P xs = Some j" "i = Suc j" using Cons.prems by auto
    from Cons.IH [OF j(1)] obtain as y bs where "xs = as @ y # bs" "length as = j" "P y" "\<forall>a\<in>set as. \<not> P a" by blast
    with False j show ?thesis by (intro exI [of _ "x # as"]) auto
  qed
qed simp

lemma put_first_cases:
  obtains (new) "\<forall>y\<in>set xs. key y \<noteq> key x" "put_first key x xs = xs @ [x]"
  | (old) as y bs where "xs = as @ y # bs" "key y = key x" "\<forall>a\<in>set as. key a \<noteq> key x" "put_first key x xs = as @ x # bs"
proof (cases "find_index (\<lambda>y. key y = key x) xs")
  case None
  then have "put_first key x xs = xs @ [x]" by (simp add: put_first_def)
  moreover from None have "\<forall>y\<in>set xs. key y \<noteq> key x" by (simp only: find_index_None simp_thms)
  ultimately show ?thesis by (intro new)
next
  case (Some i)
  from find_index_split [OF Some] obtain as y bs
    where "xs = as @ y # bs" "length as = i" "key y = key x" "\<forall>a\<in>set as. key a \<noteq> key x" by blast
  moreover from this have "xs[i := x] = as @ x # bs" by (auto simp: list_update_append)
  ultimately show ?thesis using Some by (intro old [of as y bs]) (simp_all add: put_first_def)
qed

lemma put_first_find: "List.find (\<lambda>y. key y = key x) (put_first key x xs) = Some x"
proof -
  have "List.find (\<lambda>y. key y = key x) as = None" if "\<forall>a\<in>set as. key a \<noteq> key x" for as
    using that by (simp add: find_None_iff)
  then show ?thesis by (cases rule: put_first_cases [of xs key x]) (simp_all add: find_append)
qed

lemma put_first_others: "filter (\<lambda>y. key y \<noteq> key x) (put_first key x xs) = filter (\<lambda>y. key y \<noteq> key x) xs"
  by (cases rule: put_first_cases [of xs key x]) auto

lemma put_first_keys: "distinct (map key xs) \<Longrightarrow> distinct (map key (put_first key x xs))"
  by (cases rule: put_first_cases [of xs key x]) auto

lemma put_first_key_set: "key ` set (put_first key x xs) = insert (key x) (key ` set xs)"
  by (cases rule: put_first_cases [of xs key x]) auto

lemma put_first_length:
  "length (put_first key x xs) = (if key x \<in> key ` set xs then length xs else Suc (length xs))"
  by (cases rule: put_first_cases [of xs key x]) (auto simp: image_iff)

text \<open>An update that finds its entry replaces it.\<close>

lemma list_update_put_first:
  "find_index (\<lambda>y. key y = key x) xs = Some i \<Longrightarrow> xs[i := x] = put_first key x xs"
  "find_index (\<lambda>y. key y = key x) xs = None \<Longrightarrow> xs @ [x] = put_first key x xs"
  by (simp_all add: put_first_def)

definition upserted :: "string \<Rightarrow> task \<Rightarrow> lane_patch \<Rightarrow> lane_session" where
  "upserted now t p = (case session_index (lp_sessionId p) t of
     Some i \<Rightarrow> assign_lane_session now p (tk_laneSessions t ! i) | None \<Rightarrow> new_lane_session now p)"

lemma upsert_eq:
  "upsertTaskLaneSession host now t p =
     with_refresh host now (t\<lparr>tk_laneSessions := put_first ls_sessionId (upserted now t p) (tk_laneSessions t)\<rparr>) (upserted now t p)"
  "ls_sessionId (upserted now t p) = lp_sessionId p"
proof -
  show *: "ls_sessionId (upserted now t p) = lp_sessionId p"
    by (simp add: upserted_def assign_lane_session_def new_lane_session_def Let_def split: option.split)
  show "upsertTaskLaneSession host now t p =
     with_refresh host now (t\<lparr>tk_laneSessions := put_first ls_sessionId (upserted now t p) (tk_laneSessions t)\<rparr>) (upserted now t p)"
    unfolding put_first_def *
    by (simp add: upsertTaskLaneSession_def session_index_def upserted_def Let_def split: option.split)
qed

text \<open>Recording a run changes one record and, whatever the refresh of the lane memory does, leaves the rest: afterwards the card has a record of that run, the records of the other runs are as they were and in the same order, one record is added only when there was none, records stay one per run, and nothing but the runs and the snapshot of the card changes; the record has a start time, and it is running when neither the argument nor an earlier record gives a status.\<close>
theorem upsert_lane_session_spec:
  assumes "now \<noteq> []"
  shows "let t' = fst (upsertTaskLaneSession host now t p); sid = lp_sessionId p;
             old = List.find (\<lambda>e. ls_sessionId e = sid) (tk_laneSessions t)
    in (\<exists>e. List.find (\<lambda>e. ls_sessionId e = sid) (tk_laneSessions t') = Some e
          \<and> (snd (upsertTaskLaneSession host now t p) = Inr e \<or> (\<exists>x. snd (upsertTaskLaneSession host now t p) = Inl x))
          \<and> (ls_startedAt e \<noteq> [] \<or> lp_startedAt p = Some (Some []))
          \<and> ls_status e = (case lp_status p of Some (Some s) \<Rightarrow> s | Some None \<Rightarrow> LaneRunning
               | None \<Rightarrow> (case old of None \<Rightarrow> LaneRunning | Some o' \<Rightarrow> ls_status o')))
     \<and> filter (\<lambda>e. ls_sessionId e \<noteq> sid) (tk_laneSessions t') = filter (\<lambda>e. ls_sessionId e \<noteq> sid) (tk_laneSessions t)
     \<and> length (tk_laneSessions t') = length (tk_laneSessions t) + (if old = None then 1 else 0)
     \<and> (distinct (map ls_sessionId (tk_laneSessions t)) \<longrightarrow> distinct (map ls_sessionId (tk_laneSessions t')))
     \<and> t'\<lparr>tk_laneSessions := tk_laneSessions t, tk_jitContextSnapshot := tk_jitContextSnapshot t\<rparr> = t"
proof -
  let ?e = "upserted now t p" and ?t' = "fst (upsertTaskLaneSession host now t p)"
  note id = upsert_eq(2) [of now t p]
  have ls: "tk_laneSessions ?t' = put_first ls_sessionId ?e (tk_laneSessions t)" by (simp add: upsert_eq(1))
  let ?old = "List.find (\<lambda>e. ls_sessionId e = lp_sessionId p) (tk_laneSessions t)"
  have old: "?old = map_option (\<lambda>i. tk_laneSessions t ! i) (session_index (lp_sessionId p) t)"
    unfolding session_index_def by (rule find_by_index)
  have st: "ls_status ?e = (case lp_status p of Some (Some s) \<Rightarrow> s | Some None \<Rightarrow> LaneRunning
               | None \<Rightarrow> (case ?old of None \<Rightarrow> LaneRunning | Some o' \<Rightarrow> ls_status o'))"
    unfolding old
    by (auto simp: upserted_def assign_lane_session_def new_lane_session_def given_def Let_def orDefault_def split: option.splits)
  have started: "ls_startedAt ?e \<noteq> [] \<or> lp_startedAt p = Some (Some [])"
    using assms by (auto simp: upserted_def assign_lane_session_def new_lane_session_def given_def Let_def
        orDefault_def truthy_def split: option.splits)
  have res: "snd (upsertTaskLaneSession host now t p) = Inr ?e \<or> (\<exists>x. snd (upsertTaskLaneSession host now t p) = Inl x)"
    using with_refresh_result by (cases "snd (upsertTaskLaneSession host now t p)") (auto simp: upsert_eq(1))
  have len: "length (tk_laneSessions ?t') = length (tk_laneSessions t) + (if ?old = None then 1 else 0)"
    unfolding ls put_first_length id by (force simp: find_None_iff image_iff)
  obtain s where "?t' = (t\<lparr>tk_laneSessions := put_first ls_sessionId ?e (tk_laneSessions t)\<rparr>)\<lparr>tk_jitContextSnapshot := s\<rparr>"
    unfolding upsert_eq(1)
    using with_refresh_frame [of host now "t\<lparr>tk_laneSessions := put_first ls_sessionId ?e (tk_laneSessions t)\<rparr>" ?e] by blast
  then have frame: "?t'\<lparr>tk_laneSessions := tk_laneSessions t, tk_jitContextSnapshot := tk_jitContextSnapshot t\<rparr> = t" by simp
  show ?thesis
    unfolding Let_def
    using put_first_find [of ls_sessionId ?e "tk_laneSessions t"] put_first_others [of ls_sessionId ?e "tk_laneSessions t"]
      put_first_keys [of ls_sessionId "tk_laneSessions t" ?e] st started res len frame
    unfolding id ls by blast
qed

definition marked_session :: "string \<Rightarrow> lane_status \<Rightarrow> string option \<Rightarrow> lane_session \<Rightarrow> lane_session" where
  "marked_session now status completedAt e =
     (if status \<noteq> LaneRunning then e\<lparr>ls_status := status, ls_completedAt := Some (orDefault completedAt now)\<rparr>
      else e\<lparr>ls_status := status\<rparr>)"

lemma mark_cases:
  obtains (same) "\<not> truthy sid \<or> session_index (the sid) t = None" "markTaskLaneSessionStatus host now t sid st ca = (t, Inr None)"
  | (marked) s i e where "sid = Some s" "session_index s t = Some i"
      "e = marked_session now st ca (tk_laneSessions t ! i)" "ls_sessionId (tk_laneSessions t ! i) = s" "i < length (tk_laneSessions t)"
      "markTaskLaneSessionStatus host now t sid st ca =
         with_refresh host now (t\<lparr>tk_laneSessions := (tk_laneSessions t)[i := e]\<rparr>) (Some e)"
proof (cases "truthy sid \<and> session_index (the sid) t \<noteq> None")
  case False
  then show ?thesis by (intro same) (auto simp: markTaskLaneSessionStatus_def split: option.splits)
next
  case True
  then obtain s i where s: "sid = Some s" "s \<noteq> []" and i: "session_index s t = Some i" by (cases sid) auto
  from find_index_Some [OF i [unfolded session_index_def]] have "i < length (tk_laneSessions t)" "ls_sessionId (tk_laneSessions t ! i) = s" by auto
  with s i show ?thesis
    by (intro marked) (auto simp: markTaskLaneSessionStatus_def marked_session_def Let_def)
qed

text \<open>What marking does to the runs: the first record of the run changes, the others do not.\<close>

lemma mark_runs:
  "tk_laneSessions (fst (markTaskLaneSessionStatus host now t sid st ca)) =
     (case sid of None \<Rightarrow> tk_laneSessions t | Some s \<Rightarrow> if s = [] then tk_laneSessions t else
        (case session_index s t of None \<Rightarrow> tk_laneSessions t
         | Some i \<Rightarrow> (tk_laneSessions t)[i := marked_session now st ca (tk_laneSessions t ! i)]))"
  by (auto simp: markTaskLaneSessionStatus_def marked_session_def Let_def truthy_def split: option.splits)

lemma mark_frame:
  "\<exists>ls s. fst (markTaskLaneSessionStatus host now t sid st ca) = t\<lparr>tk_laneSessions := ls, tk_jitContextSnapshot := s\<rparr>"
proof (cases rule: mark_cases [of sid t host now st ca])
  case same
  then show ?thesis
    by (intro exI [of _ "tk_laneSessions t"] exI [of _ "tk_jitContextSnapshot t"]) simp
next
  case (marked s i e)
  obtain v where "fst (with_refresh host now (t\<lparr>tk_laneSessions := (tk_laneSessions t)[i := e]\<rparr>) (Some e))
      = (t\<lparr>tk_laneSessions := (tk_laneSessions t)[i := e]\<rparr>)\<lparr>tk_jitContextSnapshot := v\<rparr>"
    using with_refresh_frame [of host now "t\<lparr>tk_laneSessions := (tk_laneSessions t)[i := e]\<rparr>" "Some e"] by blast
  then show ?thesis using marked(6) by (intro exI [of _ "(tk_laneSessions t)[i := e]"] exI [of _ v]) simp
qed

lemma session_index_get: "session_index s t = Some i \<Longrightarrow>
    i < length (tk_laneSessions t) \<and> ls_sessionId (tk_laneSessions t ! i) = s \<and> getTaskLaneSession t (Some s) = (if s = [] then None else Some (tk_laneSessions t ! i))"
  using find_by_index [of "\<lambda>e. ls_sessionId e = s" "tk_laneSessions t"]
  by (auto simp: session_index_def getTaskLaneSession_def dest: find_index_Some)

lemma marked_session_id [simp]: "ls_sessionId (marked_session now st ca e) = ls_sessionId e"
  "ls_columnId (marked_session now st ca e) = ls_columnId e" "ls_status (marked_session now st ca e) = st"
  by (simp_all add: marked_session_def)

lemma mark_runs_put: "session_index s t = Some i \<Longrightarrow> s \<noteq> [] \<Longrightarrow>
    tk_laneSessions (fst (markTaskLaneSessionStatus host now t (Some s) st ca))
      = put_first ls_sessionId (marked_session now st ca (tk_laneSessions t ! i)) (tk_laneSessions t)"
  using session_index_get [of s t i]
  by (simp add: mark_runs list_update_put_first session_index_def)

lemma mark_done:
  assumes "s \<noteq> []"
  shows "getTaskLaneSession (fst (markTaskLaneSessionStatus host now t (Some s) st ca)) (Some s)
      = map_option (marked_session now st ca) (getTaskLaneSession t (Some s))"
    and "filter (\<lambda>e. ls_sessionId e \<noteq> s) (tk_laneSessions (fst (markTaskLaneSessionStatus host now t (Some s) st ca)))
      = filter (\<lambda>e. ls_sessionId e \<noteq> s) (tk_laneSessions t)"
proof -
  let ?m = "fst (markTaskLaneSessionStatus host now t (Some s) st ca)"
  have "getTaskLaneSession ?m (Some s) = map_option (marked_session now st ca) (getTaskLaneSession t (Some s))
      \<and> filter (\<lambda>e. ls_sessionId e \<noteq> s) (tk_laneSessions ?m) = filter (\<lambda>e. ls_sessionId e \<noteq> s) (tk_laneSessions t)"
  proof (cases "session_index s t")
    case None
    then have "tk_laneSessions ?m = tk_laneSessions t" by (simp add: mark_runs)
    moreover have "getTaskLaneSession t (Some s) = None"
      using None find_by_index [of "\<lambda>e. ls_sessionId e = s" "tk_laneSessions t"]
      by (simp add: getTaskLaneSession_def session_index_def)
    ultimately show ?thesis using assms by (auto simp: getTaskLaneSession_def)
  next
    case (Some i)
    let ?e = "marked_session now st ca (tk_laneSessions t ! i)"
    have ls: "tk_laneSessions ?m = put_first ls_sessionId ?e (tk_laneSessions t)"
      by (rule mark_runs_put [OF Some assms])
    have id: "ls_sessionId ?e = s" and get: "getTaskLaneSession t (Some s) = Some (tk_laneSessions t ! i)"
      using session_index_get [OF Some] assms by simp_all
    show ?thesis
      using put_first_find [of ls_sessionId ?e "tk_laneSessions t"] put_first_others [of ls_sessionId ?e "tk_laneSessions t"] assms
      unfolding id get by (simp add: getTaskLaneSession_def ls)
  qed
  then show "getTaskLaneSession ?m (Some s) = map_option (marked_session now st ca) (getTaskLaneSession t (Some s))"
    "filter (\<lambda>e. ls_sessionId e \<noteq> s) (tk_laneSessions ?m) = filter (\<lambda>e. ls_sessionId e \<noteq> s) (tk_laneSessions t)"
    by blast+
qed

text \<open>C23. When a card leaves its column and no error occurs, the run it had is over: it is archived among the card's sessions, without a second entry, its record has the status completed and the end time of the move, no run is the card's active one and the last error is cleared; every other run keeps its record. A move to the same column changes nothing.\<close>
theorem column_change_ends_the_run:
  assumes "prepareTaskForColumnChange host now previous t = (t', Inr moved)"
  shows "(moved \<longleftrightarrow> tk_columnId t \<noteq> previous) \<and> (\<not> moved \<longrightarrow> t' = t)
    \<and> (moved \<longrightarrow> \<not> truthy (tk_triggerSessionId t') \<and> tk_lastSyncError t' = None
        \<and> tk_columnId t' = tk_columnId t
        \<and> (\<forall>s. tk_triggerSessionId t = Some s \<longrightarrow> s \<noteq> [] \<longrightarrow>
             s \<in> set (tk_sessionIds t')
             \<and> tk_sessionIds t' = (if s \<in> set (tk_sessionIds t) then tk_sessionIds t else tk_sessionIds t @ [s])
             \<and> (\<forall>e. getTaskLaneSession t (Some s) = Some e \<longrightarrow>
                  getTaskLaneSession t' (Some s) = Some (e\<lparr>ls_status := LaneCompleted, ls_completedAt := Some now\<rparr>))
             \<and> filter (\<lambda>e. ls_sessionId e \<noteq> s) (tk_laneSessions t') = filter (\<lambda>e. ls_sessionId e \<noteq> s) (tk_laneSessions t)))"
proof (cases "tk_columnId t = previous")
  case True
  with assms show ?thesis by (simp add: prepareTaskForColumnChange_def)
next
  case False
  show ?thesis
  proof (cases "truthy (tk_triggerSessionId t)")
    case no: False
    with assms False have "t' = t\<lparr>tk_lastSyncError := None\<rparr>" "moved"
      by (auto simp: prepareTaskForColumnChange_def finalizeActiveTaskSession_def)
    with no False show ?thesis by auto
  next
    case True
    then obtain s where s: "tk_triggerSessionId t = Some s" "s \<noteq> []" by (cases "tk_triggerSessionId t") auto
    let ?a = "archiveActiveTaskSession t"
    have a: "tk_triggerSessionId ?a = Some s" "tk_laneSessions ?a = tk_laneSessions t" "tk_columnId ?a = tk_columnId t"
      "tk_sessionIds ?a = (if s \<in> set (tk_sessionIds t) then tk_sessionIds t else tk_sessionIds t @ [s])"
      using s by (simp_all add: archiveActiveTaskSession_def)
    let ?m = "fst (markTaskLaneSessionStatus host now ?a (Some s) LaneCompleted None)"
    have t': "t' = ?m\<lparr>tk_triggerSessionId := None, tk_lastSyncError := None\<rparr>" "moved"
      using assms False s a
      by (auto simp: prepareTaskForColumnChange_def finalizeActiveTaskSession_def Let_def split: prod.splits sum.splits)
    obtain ls v where m: "?m = ?a\<lparr>tk_laneSessions := ls, tk_jitContextSnapshot := v\<rparr>" using mark_frame by blast
    have "getTaskLaneSession ?a (Some s) = getTaskLaneSession t (Some s)" using a by (simp add: getTaskLaneSession_def)
    moreover have "getTaskLaneSession t' (Some s) = getTaskLaneSession ?m (Some s)" "tk_laneSessions t' = tk_laneSessions ?m"
      by (simp_all add: t' getTaskLaneSession_def)
    ultimately have "getTaskLaneSession t' (Some s) = map_option (marked_session now LaneCompleted None) (getTaskLaneSession t (Some s))"
      "filter (\<lambda>e. ls_sessionId e \<noteq> s) (tk_laneSessions t') = filter (\<lambda>e. ls_sessionId e \<noteq> s) (tk_laneSessions t)"
      using mark_done [OF s(2), of host now ?a LaneCompleted None] a by simp_all
    moreover have "tk_sessionIds t' = tk_sessionIds ?a" "tk_columnId t' = tk_columnId t" "tk_triggerSessionId t' = None"
      "tk_lastSyncError t' = None" using m a by (simp_all add: t')
    ultimately show ?thesis using s a False t'(2) by (simp add: marked_session_def)
  qed
qed

section \<open>Ending the runs outside a column\<close>

definition leftover :: "string option \<Rightarrow> string option \<Rightarrow> lane_session \<Rightarrow> bool" where
  "leftover columnId excluded e =
     (ls_status e = LaneRunning \<and> Some (ls_sessionId e) \<noteq> excluded \<and> ls_columnId e \<noteq> columnId)"

lemma find_index_distinct:
  "distinct (map f xs) \<Longrightarrow> i < length xs \<Longrightarrow> find_index (\<lambda>y. f y = f (xs ! i)) xs = Some i"
proof (induction xs arbitrary: i)
  case (Cons x xs)
  show ?case
  proof (cases i)
    case (Suc j)
    with Cons.prems have "f (xs ! j) \<in> f ` set xs" "f x \<notin> f ` set xs" by auto
    then have "f x \<noteq> f (xs ! j)" by metis
    with Suc Cons show ?thesis by simp
  qed simp
qed simp

text \<open>After the loop over the first indices, these entries are completed where they were left over.\<close>

definition swept :: "string \<Rightarrow> string option \<Rightarrow> string option \<Rightarrow> lane_session \<Rightarrow> lane_session" where
  "swept now columnId excluded e =
     (if leftover columnId excluded e then e\<lparr>ls_status := LaneCompleted, ls_completedAt := Some now\<rparr> else e)"

lemma complete_loop_spec:
  assumes "complete_loop host now columnId excluded [k..<n] t mutated = (t', Inr m)"
    and "distinct (map ls_sessionId (tk_laneSessions t))" and "n = length (tk_laneSessions t)" and "k \<le> n"
    and "\<forall>e\<in>set (tk_laneSessions t). ls_sessionId e \<noteq> []"
  shows "tk_laneSessions t' = take k (tk_laneSessions t) @ map (swept now columnId excluded) (drop k (tk_laneSessions t))
    \<and> (m \<longleftrightarrow> mutated \<or> list_ex (leftover columnId excluded) (drop k (tk_laneSessions t)))"
  using assms
proof (induction "n - k" arbitrary: k t mutated)
  case 0
  then show ?case by simp
next
  case (Suc d)
  let ?ls = "tk_laneSessions t"
  from Suc have k: "k < length ?ls" by linarith
  then have up: "[k..<n] = k # [Suc k..<n]" using Suc.prems(3) by (simp add: upt_conv_Cons)
  have drop: "drop k ?ls = ?ls ! k # drop (Suc k) ?ls" using k by (simp add: Cons_nth_drop_Suc)
  have take: "take (Suc k) ?ls = take k ?ls @ [?ls ! k]" using k by (simp add: take_Suc_conv_app_nth)
  have d: "d = n - Suc k" using Suc.hyps(2) by simp
  show ?case
  proof (cases "leftover columnId excluded (?ls ! k)")
    case False
    then have "complete_loop host now columnId excluded [Suc k..<n] t mutated = (t', Inr m)"
      using Suc.prems(1) by (auto simp: up leftover_def Let_def split: if_splits)
    from Suc.hyps(1) [OF d this] Suc.prems k False show ?thesis
      by (simp add: drop take swept_def)
  next
    case True
    let ?r = "markTaskLaneSessionStatus host now t (Some (ls_sessionId (?ls ! k))) LaneCompleted None"
    let ?t1 = "fst ?r"
    have loop: "complete_loop host now columnId excluded [Suc k..<n] ?t1 True = (t', Inr m)"
      using Suc.prems(1) True by (auto simp: up leftover_def Let_def split: if_splits prod.splits sum.splits)
    have ne: "ls_sessionId (?ls ! k) \<noteq> []" using Suc.prems(5) k by simp
    have "session_index (ls_sessionId (?ls ! k)) t = Some k"
      unfolding session_index_def using find_index_distinct [OF Suc.prems(2) k] .
    with ne have ls1: "tk_laneSessions ?t1 = ?ls[k := swept now columnId excluded (?ls ! k)]"
      using True by (simp add: mark_runs marked_session_def swept_def)
    have sid: "ls_sessionId (swept now columnId excluded (?ls ! k)) = ls_sessionId (?ls ! k)" by (simp add: swept_def)
    have map1: "map ls_sessionId (tk_laneSessions ?t1) = map ls_sessionId ?ls"
      by (simp add: ls1 map_update sid) (metis k list_update_id map_update nth_map)
    have "distinct (map ls_sessionId (tk_laneSessions ?t1))" "n = length (tk_laneSessions ?t1)"
      using Suc.prems(2,3) by (simp_all only: map1) (simp add: ls1)
    moreover have "\<forall>e\<in>set (tk_laneSessions ?t1). ls_sessionId e \<noteq> []"
      using Suc.prems(5) arg_cong [OF map1, of set] by auto (metis image_iff)
    ultimately have "tk_laneSessions t' = take (Suc k) (tk_laneSessions ?t1)
        @ map (swept now columnId excluded) (drop (Suc k) (tk_laneSessions ?t1)) \<and> m"
      using Suc.hyps(1) [OF d loop] Suc.prems(3) k by simp
    moreover have "take (Suc k) (tk_laneSessions ?t1) = take k ?ls @ [swept now columnId excluded (?ls ! k)]"
      "drop (Suc k) (tk_laneSessions ?t1) = drop (Suc k) ?ls"
      using k by (simp_all add: ls1 take_Suc_conv_app_nth)
    ultimately show ?thesis using True by (simp add: drop)
  qed
qed

text \<open>Ending the runs outside a column, on a card with one record per run: afterwards no run is left running outside the column except the excluded one, the runs it ends get the status completed and the end time, every other record stays as it was, and it reports a change exactly when it ended a run.\<close>
theorem sweep_ends_leftover_runs:
  assumes "completeRunningSessionsOutsideColumn host now t columnId excluded = (t', Inr m)"
    and "distinct (map ls_sessionId (tk_laneSessions t))" and "\<forall>e\<in>set (tk_laneSessions t). ls_sessionId e \<noteq> []"
  shows "\<not> list_ex (leftover columnId excluded) (tk_laneSessions t')
    \<and> length (tk_laneSessions t') = length (tk_laneSessions t)
    \<and> (\<forall>i < length (tk_laneSessions t). let e = tk_laneSessions t ! i; e' = tk_laneSessions t' ! i in
         (leftover columnId excluded e \<longrightarrow> e' = e\<lparr>ls_status := LaneCompleted, ls_completedAt := Some now\<rparr>)
         \<and> (\<not> leftover columnId excluded e \<longrightarrow> e' = e))
    \<and> (m \<longleftrightarrow> list_ex (leftover columnId excluded) (tk_laneSessions t))"
proof -
  from complete_loop_spec [of host now columnId excluded 0 "length (tk_laneSessions t)" t False t' m] assms
  have ls: "tk_laneSessions t' = map (swept now columnId excluded) (tk_laneSessions t)"
    and m: "m \<longleftrightarrow> list_ex (leftover columnId excluded) (tk_laneSessions t)"
    by (simp_all add: completeRunningSessionsOutsideColumn_def)
  have "\<not> leftover columnId excluded (swept now columnId excluded e)" for e
    by (auto simp: swept_def leftover_def)
  then have "\<not> list_ex (leftover columnId excluded) (tk_laneSessions t')" by (simp add: ls list_ex_iff)
  with m show ?thesis by (simp add: ls Let_def swept_def)
qed

section \<open>The run before\<close>

definition earlier_step :: "lane_session \<Rightarrow> lane_session \<Rightarrow> bool" where
  "earlier_step current e = (case (ls_stepIndex current, ls_stepIndex e) of
     (Some c, Some i) \<Rightarrow> c > 0 \<and> i < c | _ \<Rightarrow> False)"

lemma previous_run_loop_step:
  "previous_run_loop current fallback (e # es) =
     (if ls_columnId e \<noteq> ls_columnId current then previous_run_loop current fallback es
      else if earlier_step current e then Some e
      else previous_run_loop current (if fallback = None then Some e else fallback) es)"
  by (auto simp: earlier_step_def split: option.split)

text \<open>The loop finds the nearest run of the column that is an earlier step, or else the nearest run of the column.\<close>

lemma previous_run_loop_eq:
  "previous_run_loop current fallback es =
     (case List.find (\<lambda>e. ls_columnId e = ls_columnId current \<and> earlier_step current e) es of
        Some e \<Rightarrow> Some e
      | None \<Rightarrow> (case fallback of Some f \<Rightarrow> Some f
          | None \<Rightarrow> List.find (\<lambda>e. ls_columnId e = ls_columnId current) es))"
proof (induction es arbitrary: fallback)
  case (Cons e es)
  show ?case unfolding previous_run_loop_step Cons by (cases fallback) (auto split: option.split)
qed (simp split: option.split)

text \<open>The run before a run is an earlier run of the same column: the latest one that ran an earlier step of it, when the run itself is a later step and there is such a run, and otherwise the latest one; no run is found exactly when the column has no earlier run.\<close>
theorem previous_run_is_nearest:
  assumes "s \<noteq> []" and "session_index s t = Some i"
  shows "let current = tk_laneSessions t ! i;
             before = filter (\<lambda>e. ls_columnId e = ls_columnId current) (take i (tk_laneSessions t));
             steps = filter (earlier_step current) before
    in getPreviousLaneRun t (Some s) =
       (if steps \<noteq> [] then Some (last steps) else if before \<noteq> [] then Some (last before) else None)"
proof -
  have find_rev: "List.find P (rev xs) = (if filter P xs = [] then None else Some (last (filter P xs)))" for P :: "lane_session \<Rightarrow> bool" and xs
  proof (induction xs rule: rev_induct)
    case (snoc x xs)
    then show ?case by (auto simp: filter_empty_conv)
  qed simp
  have conj: "filter (\<lambda>e. ls_columnId e = c \<and> Q e) xs = filter Q (filter (\<lambda>e. ls_columnId e = c) xs)" for c Q xs
    by (induction xs) auto
  have "getPreviousLaneRun t (Some s) = previous_run_loop (tk_laneSessions t ! i) None (rev (take i (tk_laneSessions t)))"
    using assms by (cases i) (simp_all add: getPreviousLaneRun_def)
  then show ?thesis unfolding previous_run_loop_eq find_rev conj Let_def by simp
qed

section \<open>Backfill\<close>

text \<open>When the start record of a run was lost, the record written at its end, with the backfill, tells the column and the step of the run, as the automation knows them, so a rerun can match it; and when the record exists, the backfill sets nothing, so writing it with the backfill alone leaves every field of the record as it was.\<close>
theorem backfill_completes_lost_record:
  assumes "s \<noteq> []" and "truthy (ba_columnId a)"
  shows "let t' = fst (upsertTaskLaneSession host now t (buildLaneSessionBackfill t (Some a) s));
             step = step_at (ba_steps a) (ba_currentStepIndex a)
    in (getTaskLaneSession t (Some s) = None \<longrightarrow>
         (\<exists>e. getTaskLaneSession t' (Some s) = Some e \<and> ls_columnId e = ba_columnId a
            \<and> ls_stepIndex e = Some (ba_currentStepIndex a) \<and> ls_status e = LaneRunning
            \<and> (\<forall>st. step = Some st \<longrightarrow> ls_role e = as_role st \<and> ls_specialistId e = as_specialistId st)))
     \<and> (\<forall>e. getTaskLaneSession t (Some s) = Some e \<and> ls_startedAt e \<noteq> [] \<longrightarrow> tk_laneSessions t' = tk_laneSessions t)"
proof -
  let ?p = "buildLaneSessionBackfill t (Some a) s"
  let ?e = "upserted now t ?p"
  let ?t' = "fst (upsertTaskLaneSession host now t ?p)"
  have pid: "lp_sessionId ?p = s"
    by (simp add: buildLaneSessionBackfill_def empty_patch_def Let_def split: option.split)
  have ls: "tk_laneSessions ?t' = put_first ls_sessionId ?e (tk_laneSessions t)" by (simp add: upsert_eq(1))
  have found: "getTaskLaneSession ?t' (Some s) = Some ?e"
    using put_first_find [of ls_sessionId ?e "tk_laneSessions t"] assms(1)
    by (simp add: getTaskLaneSession_def ls upsert_eq(2) pid)
  note get = find_by_index [of "\<lambda>e. ls_sessionId e = s" "tk_laneSessions t"]
  have new: "ls_columnId ?e = ba_columnId a \<and> ls_stepIndex ?e = Some (ba_currentStepIndex a) \<and> ls_status ?e = LaneRunning
      \<and> (\<forall>st. step_at (ba_steps a) (ba_currentStepIndex a) = Some st \<longrightarrow> ls_role ?e = as_role st \<and> ls_specialistId ?e = as_specialistId st)"
    if none: "getTaskLaneSession t (Some s) = None"
  proof -
    have "session_index s t = None" using none assms(1) get by (simp add: getTaskLaneSession_def session_index_def)
    then have e: "?e = new_lane_session now ?p" by (simp add: upserted_def pid)
    have p: "lp_columnId ?p = Some (ba_columnId a)" "lp_stepIndex ?p = Some (Some (ba_currentStepIndex a))" "lp_status ?p = None"
      "step_at (ba_steps a) (ba_currentStepIndex a) = Some st \<Longrightarrow> lp_role ?p = Some (as_role st) \<and> lp_specialistId ?p = Some (as_specialistId st)" for st
      using none assms by (simp_all add: buildLaneSessionBackfill_def empty_patch_def Let_def split: option.split)
    show ?thesis unfolding e using p by (simp add: new_lane_session_def given_def)
  qed
  have old: "tk_laneSessions ?t' = tk_laneSessions t"
    if e: "getTaskLaneSession t (Some s) = Some e" "ls_startedAt e \<noteq> []" for e
  proof -
    obtain i where i: "session_index s t = Some i" "e = tk_laneSessions t ! i"
      using e(1) assms(1) get by (auto simp: getTaskLaneSession_def session_index_def)
    from session_index_get [OF i(1)] i(2) have id: "ls_sessionId e = s" by simp
    have "?p = empty_patch s" using e(1) by (simp add: buildLaneSessionBackfill_def)
    then have "?e = e" using i e(2) id
      by (simp add: upserted_def assign_lane_session_def empty_patch_def given_def)
    moreover have "put_first ls_sessionId e (tk_laneSessions t) = tk_laneSessions t"
      using i id by (simp add: put_first_def session_index_def)
    ultimately show ?thesis by (simp add: ls)
  qed
  show ?thesis using found new old unfolding Let_def by blast
qed

section \<open>Merging on save\<close>

lemma mergeSessionIds_step:
  "foldl (\<lambda>merged i. if i \<in> set merged then merged else merged @ [i]) xs ys
     = xs @ filter (\<lambda>i. i \<notin> set xs) (uniq ys)"
proof (induction ys arbitrary: xs rule: uniq.induct)
  case (2 y ys)
  have skip: "foldl (\<lambda>merged i. if i \<in> set merged then merged else merged @ [i]) zs ys
      = foldl (\<lambda>merged i. if i \<in> set merged then merged else merged @ [i]) zs (filter (\<lambda>i. i \<noteq> y) ys)"
    if "y \<in> set zs" for zs
    using that by (induction ys arbitrary: zs) auto
  show ?case
  proof (cases "y \<in> set xs")
    case True
    have "filter (\<lambda>i. i \<notin> set xs) (uniq (filter (\<lambda>z. z \<noteq> y) ys)) = filter (\<lambda>i. i \<notin> set xs) (uniq (filter (\<lambda>z. z \<noteq> y) ys))" by simp
    with True 2 skip [OF True] show ?thesis by simp
  next
    case False
    have "y \<in> set (xs @ [y])" by simp
    from skip [OF this] 2 [of "xs @ [y]"] False
    have "foldl (\<lambda>merged i. if i \<in> set merged then merged else merged @ [i]) xs (y # ys)
        = (xs @ [y]) @ filter (\<lambda>i. i \<notin> set (xs @ [y])) (uniq (filter (\<lambda>z. z \<noteq> y) ys))" by simp
    moreover have "filter (\<lambda>i. i \<notin> set (xs @ [y])) (uniq (filter (\<lambda>z. z \<noteq> y) ys))
        = filter (\<lambda>i. i \<notin> set xs) (uniq (filter (\<lambda>z. z \<noteq> y) ys))"
      by (rule filter_cong) auto
    ultimately show ?thesis using False by simp
  qed
qed simp

lemma mergeSessionIds_eq:
  "mergeSessionIds (Some stored) (Some incoming) = incoming @ filter (\<lambda>i. i \<notin> set incoming) (uniq stored)"
  by (simp add: mergeSessionIds_def mergeSessionIds_step)

lemma fill_keeps:
  "ls_sessionId (fill_lane_session w e) = ls_sessionId w" "ls_status (fill_lane_session w e) = ls_status w"
  "ls_columnId (fill_lane_session w e) = nullish (ls_columnId w) (ls_columnId e)"
  "ls_stepIndex (fill_lane_session w e) = nullish (ls_stepIndex w) (ls_stepIndex e)"
  "ls_startedAt (fill_lane_session w e) = ls_startedAt w"
  by (simp_all add: fill_lane_session_def)

lemma fill_self: "fill_lane_session e e = e"
proof -
  have n: "nullish v v = v" for v :: "'x option" by (cases v) simp_all
  show ?thesis by (simp add: fill_lane_session_def n)
qed

lemma fill_again: "fill_lane_session (fill_lane_session w e) w = fill_lane_session w e"
  "fill_lane_session (fill_lane_session w e) e = fill_lane_session w e"
proof -
  have n: "nullish (nullish a b) a = nullish a b" "nullish (nullish a b) b = nullish a b" for a b :: "'x option"
    by (cases a; cases b; simp)+
  show "fill_lane_session (fill_lane_session w e) w = fill_lane_session w e"
    "fill_lane_session (fill_lane_session w e) e = fill_lane_session w e"
    by (simp_all add: fill_lane_session_def n)
qed

lemma merge_session_id [simp]: "ls_sessionId b = ls_sessionId a \<Longrightarrow> ls_sessionId (mergeLaneSession a b) = ls_sessionId a"
  by (simp add: mergeLaneSession_def Let_def fill_keeps)

lemma merge_ended: "ls_status (mergeLaneSession a b) = LaneRunning \<longleftrightarrow> ls_status a = LaneRunning \<and> ls_status b = LaneRunning"
  by (auto simp: mergeLaneSession_def Let_def fill_keeps)

lemma merge_columns:
  "ls_columnId (mergeLaneSession a b) = None \<longleftrightarrow> ls_columnId a = None \<and> ls_columnId b = None"
  "ls_stepIndex (mergeLaneSession a b) = None \<longleftrightarrow> ls_stepIndex a = None \<and> ls_stepIndex b = None"
  by (auto simp: mergeLaneSession_def Let_def fill_keeps nullish_def split: option.splits)

text \<open>The stored record a run is merged with: the last one with its id.\<close>

lemma last_by_id_step:
  "om_get (foldl (\<lambda>m e. om_set m (ls_sessionId e) e) m ss) i =
     (case List.find (\<lambda>e. ls_sessionId e = i) (rev ss) of Some e \<Rightarrow> Some e | None \<Rightarrow> om_get m i)"
proof (induction ss arbitrary: m)
  case (Cons s ss)
  show ?case by (auto simp: Cons find_append split: option.split)
qed simp

definition counterpart :: "lane_session list \<Rightarrow> string \<Rightarrow> lane_session option" where
  "counterpart stored i = List.find (\<lambda>e. ls_sessionId e = i) (rev stored)"

lemma mergeLaneSessions_eq:
  "mergeLaneSessions (Some stored) (Some incoming) =
     map (\<lambda>e. case counterpart stored (ls_sessionId e) of Some c \<Rightarrow> mergeLaneSession c e | None \<Rightarrow> e) incoming
     @ filter (\<lambda>e. ls_sessionId e \<notin> ls_sessionId ` set incoming) stored"
proof -
  have eq: "(case om_get (foldl (\<lambda>m e. om_set m (ls_sessionId e) e) [] stored) i of Some c \<Rightarrow> f c | None \<Rightarrow> g)
      = (case counterpart stored i of Some c \<Rightarrow> f c | None \<Rightarrow> g)" for f :: "lane_session \<Rightarrow> 'x" and g i
    by (simp add: last_by_id_step counterpart_def split: option.split)
  show ?thesis by (simp add: mergeLaneSessions_def Let_def eq)
qed

lemma counterpart_mem: "counterpart stored i = Some c \<Longrightarrow> c \<in> set stored \<and> ls_sessionId c = i"
  unfolding counterpart_def using find_Some_iff_set by fastforce

lemma counterpart_None: "counterpart stored i = None \<longleftrightarrow> i \<notin> ls_sessionId ` set stored"
  by (auto simp: counterpart_def find_None_iff)

lemma merge_ids: "ls_sessionId ` set (mergeLaneSessions (Some stored) (Some incoming)) = ls_sessionId ` set stored \<union> ls_sessionId ` set incoming"
proof -
  have id: "ls_sessionId (case counterpart stored (ls_sessionId e) of Some c \<Rightarrow> mergeLaneSession c e | None \<Rightarrow> e) = ls_sessionId e" for e
    by (auto dest: counterpart_mem split: option.split)
  show ?thesis unfolding mergeLaneSessions_eq set_append image_Un set_map image_image id by auto
qed

definition ended_in :: "lane_session list \<Rightarrow> string \<Rightarrow> bool" where
  "ended_in ls i = ((\<exists>e\<in>set ls. ls_sessionId e = i) \<and> (\<forall>e\<in>set ls. ls_sessionId e = i \<longrightarrow> ls_status e \<noteq> LaneRunning))"

definition placed_in :: "lane_session list \<Rightarrow> string \<Rightarrow> bool" where
  "placed_in ls i = ((\<exists>e\<in>set ls. ls_sessionId e = i)
     \<and> (\<forall>e\<in>set ls. ls_sessionId e = i \<longrightarrow> ls_columnId e \<noteq> None \<and> ls_stepIndex e \<noteq> None))"

definition merged_entry :: "lane_session list \<Rightarrow> lane_session \<Rightarrow> lane_session" where
  "merged_entry stored e = (case counterpart stored (ls_sessionId e) of Some c \<Rightarrow> mergeLaneSession c e | None \<Rightarrow> e)"

lemma merged_entry_id [simp]: "ls_sessionId (merged_entry stored e) = ls_sessionId e"
  by (auto simp: merged_entry_def dest: counterpart_mem split: option.split)

lemma merge_lists:
  "mergeLaneSessions (Some stored) (Some incoming) =
     map (merged_entry stored) incoming @ filter (\<lambda>e. ls_sessionId e \<notin> ls_sessionId ` set incoming) stored"
  by (simp add: mergeLaneSessions_eq merged_entry_def [abs_def])

text \<open>A property of the records of one run that either side of a merge passes on.\<close>

lemma merge_passes:
  assumes P: "\<And>a b. P (mergeLaneSession a b) \<longleftrightarrow> P a \<or> P b"
    and side: "(\<exists>e\<in>set side. ls_sessionId e = i) \<and> (\<forall>e\<in>set side. ls_sessionId e = i \<longrightarrow> P e)"
    and which: "side = stored \<or> side = incoming"
    and r: "e \<in> set (mergeLaneSessions (Some stored) (Some incoming))" "ls_sessionId e = i"
  shows "P e"
proof -
  from r consider (inc) e' where "e' \<in> set incoming" "e = merged_entry stored e'"
    | (sto) "e \<in> set stored" "ls_sessionId e \<notin> ls_sessionId ` set incoming"
    by (auto simp: merge_lists)
  then show ?thesis
  proof cases
    case inc
    with r have id: "ls_sessionId e' = i" by simp
    show ?thesis
    proof (cases "counterpart stored i")
      case None
      then have "\<forall>x\<in>set stored. ls_sessionId x \<noteq> i" by (auto simp: counterpart_None)
      with side which have "side = incoming" by blast
      with side inc id None show ?thesis by (simp add: merged_entry_def)
    next
      case (Some c)
      from counterpart_mem [OF this] have "c \<in> set stored" "ls_sessionId c = i" by auto
      with side which inc id have "P c \<or> P e'" by blast
      with inc id Some show ?thesis by (simp add: merged_entry_def P)
    qed
  next
    case sto
    with side which r show ?thesis by blast
  qed
qed

lemma merge_has: "(\<exists>e\<in>set stored. ls_sessionId e = i) \<or> (\<exists>e\<in>set incoming. ls_sessionId e = i) \<Longrightarrow>
    \<exists>e\<in>set (mergeLaneSessions (Some stored) (Some incoming)). ls_sessionId e = i"
  using merge_ids [of stored incoming] by (metis (no_types, lifting) Un_iff image_iff)

lemma ended_merge:
  assumes "ended_in side i" and "side = stored \<or> side = incoming"
  shows "ended_in (mergeLaneSessions (Some stored) (Some incoming)) i"
proof -
  have P: "ls_status (mergeLaneSession a b) \<noteq> LaneRunning \<longleftrightarrow> ls_status a \<noteq> LaneRunning \<or> ls_status b \<noteq> LaneRunning" for a b
    using merge_ended by blast
  from assms merge_has [of stored i incoming] merge_passes [of "\<lambda>e. ls_status e \<noteq> LaneRunning", OF P, of side i stored incoming]
  show ?thesis unfolding ended_in_def by blast
qed

lemma placed_merge:
  assumes "placed_in side i" and "side = stored \<or> side = incoming"
  shows "placed_in (mergeLaneSessions (Some stored) (Some incoming)) i"
proof -
  have P: "ls_columnId (mergeLaneSession a b) \<noteq> None \<longleftrightarrow> ls_columnId a \<noteq> None \<or> ls_columnId b \<noteq> None"
    and Q: "ls_stepIndex (mergeLaneSession a b) \<noteq> None \<longleftrightarrow> ls_stepIndex a \<noteq> None \<or> ls_stepIndex b \<noteq> None" for a b
    by (simp_all add: merge_columns)
  from assms merge_has [of stored i incoming] merge_passes [of "\<lambda>e. ls_columnId e \<noteq> None", OF P, of side i stored incoming]
    merge_passes [of "\<lambda>e. ls_stepIndex e \<noteq> None", OF Q, of side i stored incoming]
  show ?thesis unfolding placed_in_def by blast
qed

lemma merge_distinct:
  "distinct (map ls_sessionId stored) \<Longrightarrow> distinct (map ls_sessionId incoming)
     \<Longrightarrow> distinct (map ls_sessionId (mergeLaneSessions (Some stored) (Some incoming)))"
  by (auto simp: merge_lists comp_def distinct_map_filter) (metis image_eqI)

lemma counterpart_distinct:
  assumes "distinct (map ls_sessionId r)" and "x \<in> set r"
  shows "counterpart r (ls_sessionId x) = Some x"
proof -
  obtain c where c: "counterpart r (ls_sessionId x) = Some c"
    using assms(2) counterpart_None [of r "ls_sessionId x"] by (cases "counterpart r (ls_sessionId x)") auto
  from counterpart_mem [OF c] assms have "c = x" by (auto simp: distinct_map inj_on_def)
  with c show ?thesis by simp
qed

lemma merge_entry_again: "mergeLaneSession (merged_entry stored e) e = merged_entry stored e"
proof (cases "counterpart stored (ls_sessionId e)")
  case None
  then show ?thesis by (simp add: merged_entry_def mergeLaneSession_def Let_def fill_self)
next
  case (Some c)
  have n: "nullish a (nullish a b) = nullish a b" for a b :: "'x option" by (cases a) simp_all
  have "fill_lane_session e (fill_lane_session e c) = fill_lane_session e c"
    by (simp add: fill_lane_session_def n)
  with Some show ?thesis
    by (auto simp: merged_entry_def mergeLaneSession_def Let_def fill_keeps fill_again)
qed

text \<open>C10. Saving a card never loses a run: after the merge the card knows the sessions and the runs of both the stored row and the incoming copy, the incoming sessions first; a run that had ended on either side is not running again, a run whose column and step were known on either side keeps a column and a step, and one record per run stays one record per run.\<close>
theorem lane_merge_loses_nothing:
  "let (ids, runs) = mergeLaneRecords (Some (sids, sruns)) (iids, iruns)
   in set ids = set sids \<union> set iids \<and> take (length iids) ids = iids
      \<and> ls_sessionId ` set runs = ls_sessionId ` set sruns \<union> ls_sessionId ` set iruns
      \<and> (\<forall>i. ended_in sruns i \<or> ended_in iruns i \<longrightarrow> ended_in runs i)
      \<and> (\<forall>i. placed_in sruns i \<or> placed_in iruns i \<longrightarrow> placed_in runs i)
      \<and> (distinct (map ls_sessionId sruns) \<and> distinct (map ls_sessionId iruns) \<longrightarrow> distinct (map ls_sessionId runs))"
  using ended_merge placed_merge merge_distinct
  by (auto simp: mergeLaneRecords_def mergeSessionIds_eq merge_ids)

lemma uniq_filter: "uniq (filter P xs) = filter P (uniq xs)"
proof (induction xs rule: uniq.induct)
  case (2 x xs)
  have c: "filter (\<lambda>y. P y \<and> y \<noteq> x) xs = filter P (filter (\<lambda>y. y \<noteq> x) xs)" "filter P (filter (\<lambda>y. y \<noteq> x) xs) = filter P xs" if "\<not> P x"
    using that by (induction xs) auto
  have f: "filter (\<lambda>y. y \<noteq> x) (filter P xs) = filter P (filter (\<lambda>y. y \<noteq> x) xs)" by (simp add: conj_commute)
  show ?case
  proof (cases "P x")
    case True
    then show ?thesis by (simp add: f 2 del: filter_filter)
  next
    case False
    then show ?thesis using 2 c(2) by (simp del: filter_filter)
  qed
qed simp

lemma uniq_skip: "filter (\<lambda>i. i \<notin> set as) (uniq (as @ bs)) = filter (\<lambda>i. i \<notin> set as) (uniq bs)"
proof -
  have "filter (\<lambda>i. i \<notin> set as) (as @ bs) = filter (\<lambda>i. i \<notin> set as) bs" by (simp add: filter_empty_conv)
  then show ?thesis by (metis uniq_filter)
qed

text \<open>Saving is stable: saving the same copy again changes nothing more, and saving what was read back changes nothing, when each side has one record per run.\<close>
theorem lane_merge_idempotent:
  assumes "distinct (map ls_sessionId sruns)" and "distinct (map ls_sessionId iruns)" and "distinct sids"
  shows "mergeLaneRecords (Some (mergeLaneRecords (Some (sids, sruns)) (iids, iruns))) (iids, iruns)
      = mergeLaneRecords (Some (sids, sruns)) (iids, iruns)
    \<and> mergeLaneRecords (Some (sids, sruns)) (sids, sruns) = (sids, sruns)"
proof -
  let ?r = "mergeLaneSessions (Some sruns) (Some iruns)"
  let ?rest = "filter (\<lambda>e. ls_sessionId e \<notin> ls_sessionId ` set iruns) sruns"
  have d: "distinct (map ls_sessionId ?r)" by (rule merge_distinct [OF assms(1,2)])
  have "merged_entry ?r e = merged_entry sruns e" if "e \<in> set iruns" for e
  proof -
    have "merged_entry sruns e \<in> set ?r" using that by (simp add: merge_lists)
    from counterpart_distinct [OF d this] show ?thesis
      by (simp add: merged_entry_def [of ?r] merge_entry_again)
  qed
  then have m: "map (merged_entry ?r) iruns = map (merged_entry sruns) iruns" by simp
  have "filter (\<lambda>e. ls_sessionId e \<notin> ls_sessionId ` set iruns) ?r = ?rest"
    by (auto simp: merge_lists filter_empty_conv)
  with m have "map (merged_entry ?r) iruns @ filter (\<lambda>e. ls_sessionId e \<notin> ls_sessionId ` set iruns) ?r
      = map (merged_entry sruns) iruns @ ?rest" by simp
  then have runs: "mergeLaneSessions (Some ?r) (Some iruns) = ?r"
    by (subst merge_lists) (simp only: merge_lists [of sruns iruns])
  have self: "mergeLaneSessions (Some sruns) (Some sruns) = sruns"
  proof -
    have "merged_entry sruns e = e" if "e \<in> set sruns" for e
      using counterpart_distinct [OF assms(1) that] by (simp add: merged_entry_def mergeLaneSession_def Let_def fill_self)
    then have "map (merged_entry sruns) sruns = sruns" by (simp add: map_idI)
    then show ?thesis by (simp add: merge_lists filter_empty_conv)
  qed
  let ?s = "mergeSessionIds (Some sids) (Some iids)"
  have s: "?s = iids @ filter (\<lambda>i. i \<notin> set iids) sids" by (simp add: mergeSessionIds_eq uniq_distinct assms(3))
  have ids: "mergeSessionIds (Some ?s) (Some iids) = ?s"
    unfolding s mergeSessionIds_eq by (simp add: uniq_skip uniq_distinct assms(3))
  have "mergeSessionIds (Some sids) (Some sids) = sids" using assms(3) by (simp add: mergeSessionIds_eq)
  with runs self ids show ?thesis by (simp add: mergeLaneRecords_def)
qed

section \<open>Witnesses\<close>

definition sample_moving :: task where
  "sample_moving = (createTask concrete_host 7 ''c1'' (sample_params\<lparr>tp_jitContextSnapshot := None\<rparr>))
     \<lparr>tk_laneSessions := [sample_run ''a'' LaneFailed ''7'', sample_run ''b'' LaneRunning ''9''],
      tk_columnId := Some ''review'', tk_triggerSessionId := Some ''b''\<rparr>"

theorem upsert_lane_session_spec_witness:
  "length (tk_laneSessions (fst (upsertTaskLaneSession concrete_host ''now'' sample_moving (empty_patch ''c'')))) = 3"
proof -
  have "List.find (\<lambda>e. ls_sessionId e = lp_sessionId (empty_patch ''c'')) (tk_laneSessions sample_moving) = None"
    "length (tk_laneSessions sample_moving) = 2" by code_simp+
  with upsert_lane_session_spec [of "''now''" concrete_host sample_moving "empty_patch ''c''"] show ?thesis
    by (simp add: Let_def)
qed

theorem column_change_ends_the_run_witness:
  "\<exists>t'. prepareTaskForColumnChange concrete_host ''now'' (Some ''dev'') sample_moving = (t', Inr True)
    \<and> getTaskLaneSession t' (Some ''b'') = Some ((sample_run ''b'' LaneRunning ''9'')\<lparr>ls_status := LaneCompleted, ls_completedAt := Some ''now''\<rparr>)"
proof -
  have "case prepareTaskForColumnChange concrete_host ''now'' (Some ''dev'') sample_moving of
      (t', Inr m) \<Rightarrow> m | _ \<Rightarrow> False" by code_simp
  then obtain t' where r: "prepareTaskForColumnChange concrete_host ''now'' (Some ''dev'') sample_moving = (t', Inr True)"
    by (auto split: prod.splits sum.splits)
  have "tk_triggerSessionId sample_moving = Some ''b''"
    "getTaskLaneSession sample_moving (Some ''b'') = Some (sample_run ''b'' LaneRunning ''9'')" by code_simp+
  with column_change_ends_the_run [OF r] r show ?thesis by blast
qed

theorem sweep_ends_leftover_runs_witness:
  "\<exists>t' m. completeRunningSessionsOutsideColumn concrete_host ''now'' sample_moving (Some ''review'') None = (t', Inr m)
    \<and> m \<and> \<not> list_ex (leftover (Some ''review'') None) (tk_laneSessions t')"
proof -
  have "case completeRunningSessionsOutsideColumn concrete_host ''now'' sample_moving (Some ''review'') None of
      (t', Inr m) \<Rightarrow> True | _ \<Rightarrow> False" by code_simp
  then obtain t' m where r: "completeRunningSessionsOutsideColumn concrete_host ''now'' sample_moving (Some ''review'') None = (t', Inr m)"
    by (auto split: prod.splits sum.splits)
  have "distinct (map ls_sessionId (tk_laneSessions sample_moving))"
    "\<forall>e\<in>set (tk_laneSessions sample_moving). ls_sessionId e \<noteq> []"
    "list_ex (leftover (Some ''review'') None) (tk_laneSessions sample_moving)" by code_simp+
  with sweep_ends_leftover_runs [OF r] r show ?thesis by blast
qed

theorem previous_run_is_nearest_witness:
  "getPreviousLaneRun sample_moving (Some ''b'') = Some (sample_run ''a'' LaneFailed ''7'')"
proof -
  have "session_index ''b'' sample_moving = Some 1" by code_simp
  from previous_run_is_nearest [OF _ this] show ?thesis
    by (simp add: Let_def sample_moving_def sample_run_def earlier_step_def)
qed

theorem backfill_completes_lost_record_witness:
  "\<exists>e. getTaskLaneSession (fst (upsertTaskLaneSession concrete_host ''now'' sample_moving
      (buildLaneSessionBackfill sample_moving (Some \<lparr>ba_columnId = Some ''dev'', ba_columnName = None,
         ba_currentStepIndex = 1, ba_steps = None\<rparr>) ''c''))) (Some ''c'') = Some e
    \<and> ls_columnId e = Some ''dev'' \<and> ls_stepIndex e = Some 1"
proof -
  let ?a = "\<lparr>ba_columnId = Some ''dev'', ba_columnName = None, ba_currentStepIndex = 1, ba_steps = None\<rparr>"
  have "getTaskLaneSession sample_moving (Some ''c'') = None" by code_simp
  moreover have "truthy (ba_columnId ?a)" by simp
  ultimately show ?thesis
    using backfill_completes_lost_record [of "''c''" ?a concrete_host "''now''" sample_moving] by (auto simp: Let_def)
qed

theorem lane_merge_loses_nothing_witness:
  "ended_in (snd (mergeLaneRecords (Some ([''b''], [sample_run ''b'' LaneCompleted ''9'']))
      ([], [sample_run ''b'' LaneRunning ''9'']))) ''b''"
proof -
  have "ended_in [sample_run ''b'' LaneCompleted ''9''] ''b''" by (simp add: ended_in_def sample_run_def)
  then show ?thesis
    using lane_merge_loses_nothing [of "[''b'']" "[sample_run ''b'' LaneCompleted ''9'']" "[]" "[sample_run ''b'' LaneRunning ''9'']"]
    by (auto simp: case_prod_beta)
qed

theorem lane_merge_idempotent_witness:
  "mergeLaneRecords (Some (mergeLaneRecords (Some ([''a''], [sample_run ''a'' LaneCompleted ''9'']))
      ([''b''], [sample_run ''a'' LaneRunning ''9'']))) ([''b''], [sample_run ''a'' LaneRunning ''9''])
    = mergeLaneRecords (Some ([''a''], [sample_run ''a'' LaneCompleted ''9''])) ([''b''], [sample_run ''a'' LaneRunning ''9''])"
  using lane_merge_idempotent [of "[sample_run ''a'' LaneCompleted ''9'']" "[sample_run ''a'' LaneRunning ''9'']" "[''a'']" "[''b'']"]
  by simp

end
