(* ===== verification/EventBus.thy ===== *)
theory EventBus
  imports JsBase
begin

text \<open>
  src/src/core/events/event-bus.ts, the publish/subscribe bus between agents: direct handlers,
  buffered agent subscriptions, wait groups and pre-subscriptions. The bus is a record of its four
  maps. A callback that the bus calls (a handler, the \<open>resolve\<close> of a promise, the \<open>onComplete\<close> of
  a wait group) is an entry of the list of calls the operation returns, in the order of the calls;
  what a callback does is outside the model, and so is a callback that calls the bus again while
  \<open>emit\<close> runs. An exception of a handler is caught by the bus and leaves no trace in its state.
\<close>

section \<open>Data\<close>

datatype agent_event_type =
    AGENT_CREATED | AGENT_ACTIVATED | AGENT_COMPLETED | AGENT_ERROR | TASK_ASSIGNED | TASK_COMPLETED
  | TASK_FAILED | TASK_STATUS_CHANGED | MESSAGE_SENT | REPORT_SUBMITTED | WORKSPACE_UPDATED
  | COLUMN_TRANSITION | ARTIFACT_REQUESTED | ARTIFACT_PROVIDED | FILE_CHANGES | AGENT_IDLE
  | AGENT_FAILED | AGENT_TIMEOUT | PERMISSION_REQUESTED | PERMISSION_RESPONDED | SHUTDOWN_REQUESTED
  | SHUTDOWN_ACKNOWLEDGED

record agent_event =
  ev_type :: agent_event_type
  ev_agentId :: string
  ev_workspaceId :: string
  ev_data :: "(string \<times> json) list"
  ev_timestamp :: int

record subscription =
  sub_id :: string
  sub_agentId :: string
  sub_agentName :: string
  sub_eventTypes :: "agent_event_type list"
  sub_excludeSelf :: bool
  sub_oneShot :: "bool option"
  sub_waitGroupId :: "string option"
  sub_priority :: "int option"

text \<open>\<open>completedAgentIds\<close> is a set; \<open>wg_onComplete\<close> names the callback, if there is one.\<close>

record wait_group =
  wg_id :: string
  wg_parentAgentId :: string
  wg_expectedAgentIds :: "string list"
  wg_completedAgentIds :: "string list"
  wg_onComplete :: "string option"

record pre_params =
  pp_id :: string
  pp_agentId :: string
  pp_agentName :: string
  pp_eventTypes :: "agent_event_type list"
  pp_excludeSelf :: "bool option"
  pp_priority :: "int option"

text \<open>A handler is a function of a client or the closure that \<open>preSubscribe\<close> registers.\<close>

datatype bus_handler = ClientHandler | PreHandler pre_params

datatype bus_call =
    CallHandler string agent_event
  | ResolvePromise string agent_event
  | CallOnComplete string wait_group

record event_bus =
  eb_handlers :: "(string, bus_handler) omap"
  eb_subscriptions :: "(string, subscription) omap"
  eb_pendingEvents :: "(string, agent_event list) omap"
  eb_waitGroups :: "(string, wait_group) omap"

definition new_bus :: event_bus where
  "new_bus = \<lparr>eb_handlers = [], eb_subscriptions = [], eb_pendingEvents = [], eb_waitGroups = []\<rparr>"

section \<open>Handlers and subscriptions\<close>

definition bus_on :: "string \<Rightarrow> bus_handler \<Rightarrow> event_bus \<Rightarrow> event_bus" where
  "bus_on key handler b = b\<lparr>eb_handlers := om_set (eb_handlers b) key handler\<rparr>"

definition bus_off :: "string \<Rightarrow> event_bus \<Rightarrow> event_bus" where
  "bus_off key b = b\<lparr>eb_handlers := om_del (eb_handlers b) key\<rparr>"

definition subscribe :: "subscription \<Rightarrow> event_bus \<Rightarrow> event_bus" where
  "subscribe s b = b\<lparr>eb_subscriptions := om_set (eb_subscriptions b) (sub_id s) s\<rparr>"

definition unsubscribe :: "string \<Rightarrow> event_bus \<Rightarrow> bool \<times> event_bus" where
  "unsubscribe subscriptionId b =
     (om_has (eb_subscriptions b) subscriptionId,
      b\<lparr>eb_subscriptions := om_del (eb_subscriptions b) subscriptionId\<rparr>)"

definition drainPendingEvents :: "string \<Rightarrow> event_bus \<Rightarrow> agent_event list \<times> event_bus" where
  "drainPendingEvents agentId b =
     (orDefault (om_get (eb_pendingEvents b) agentId) [],
      b\<lparr>eb_pendingEvents := om_del (eb_pendingEvents b) agentId\<rparr>)"

section \<open>Publishing\<close>

definition preHandlerKey :: "string \<Rightarrow> string" where
  "preHandlerKey i = ''pre-subscribe-'' @ i"

definition pre_matches :: "pre_params \<Rightarrow> agent_event \<Rightarrow> bool" where
  "pre_matches p event =
     (\<not> (pp_excludeSelf p \<noteq> Some False \<and> ev_agentId event = pp_agentId p)
      \<and> ev_type event \<in> set (pp_eventTypes p))"

text \<open>Calling one direct handler; the closure of \<open>preSubscribe\<close> takes itself off when it matches.\<close>

fun call_handler :: "agent_event \<Rightarrow> string \<times> bus_handler \<Rightarrow> event_bus \<times> bus_call list \<Rightarrow> event_bus \<times> bus_call list" where
  "call_handler event (key, ClientHandler) (b, calls) = (b, calls @ [CallHandler key event])"
| "call_handler event (key, PreHandler p) (b, calls) =
     (if pre_matches p event
      then (bus_off (preHandlerKey (pp_id p)) b, calls @ [ResolvePromise (pp_id p) event])
      else (b, calls))"

definition call_handlers :: "agent_event \<Rightarrow> event_bus \<Rightarrow> event_bus \<times> bus_call list" where
  "call_handlers event b = fold (call_handler event) (eb_handlers b) (b, [])"

definition sub_matches :: "agent_event \<Rightarrow> subscription \<Rightarrow> bool" where
  "sub_matches event sub =
     (\<not> (sub_excludeSelf sub \<and> ev_agentId event = sub_agentId sub)
      \<and> ev_type event \<in> set (sub_eventTypes sub))"

definition push_pending :: "string \<Rightarrow> agent_event \<Rightarrow> event_bus \<Rightarrow> event_bus" where
  "push_pending agentId event b =
     b\<lparr>eb_pendingEvents := om_set (eb_pendingEvents b) agentId
         (orDefault (om_get (eb_pendingEvents b) agentId) [] @ [event])\<rparr>"

fun deliver :: "agent_event \<Rightarrow> subscription list \<Rightarrow> event_bus \<times> string list \<Rightarrow> event_bus \<times> string list" where
  "deliver event [] (b, oneShotToRemove) = (b, oneShotToRemove)"
| "deliver event (sub # subs) (b, oneShotToRemove) =
     (if \<not> sub_matches event sub then deliver event subs (b, oneShotToRemove)
      else deliver event subs
        (push_pending (sub_agentId sub) event b,
         if trueOpt (sub_oneShot sub) then oneShotToRemove @ [sub_id sub] else oneShotToRemove))"

definition sub_order :: "subscription \<Rightarrow> subscription \<Rightarrow> int" where
  "sub_order a b = by_key_desc (\<lambda>s. orDefault (sub_priority s) 0) a b"

definition buffer_event :: "agent_event \<Rightarrow> event_bus \<Rightarrow> event_bus" where
  "buffer_event event b =
     (let sortedSubs = sort_by sub_order (om_values (eb_subscriptions b));
          (b', oneShotToRemove) = deliver event sortedSubs (b, [])
      in b'\<lparr>eb_subscriptions := fold (\<lambda>i m. om_del m i) oneShotToRemove (eb_subscriptions b')\<rparr>)"

text \<open>One entry of the loop over the wait groups: what stays in the map, and the callback.\<close>

definition check_group ::
  "string \<Rightarrow> string \<times> wait_group \<Rightarrow> (string \<times> wait_group) option \<times> bus_call list" where
  "check_group completedAgentId gw =
     (let (groupId, grp) = gw in
      if completedAgentId \<in> set (wg_expectedAgentIds grp) then
        let grp' = grp\<lparr>wg_completedAgentIds := List.insert completedAgentId (wg_completedAgentIds grp)\<rparr>
        in if length (wg_completedAgentIds grp') \<ge> length (wg_expectedAgentIds grp')
           then (None, case wg_onComplete grp' of None \<Rightarrow> [] | Some callback \<Rightarrow> [CallOnComplete callback grp'])
           else (Some (groupId, grp'), [])
      else (Some (groupId, grp), []))"

definition checkWaitGroups :: "string \<Rightarrow> event_bus \<Rightarrow> event_bus \<times> bus_call list" where
  "checkWaitGroups completedAgentId b =
     (b\<lparr>eb_waitGroups := map_some (\<lambda>gw. fst (check_group completedAgentId gw)) (eb_waitGroups b)\<rparr>,
      concat (map (\<lambda>gw. snd (check_group completedAgentId gw)) (eb_waitGroups b)))"

definition is_completion :: "agent_event_type \<Rightarrow> bool" where
  "is_completion t = (t = AGENT_COMPLETED \<or> t = AGENT_FAILED \<or> t = AGENT_TIMEOUT \<or> t = REPORT_SUBMITTED)"

definition emit :: "agent_event \<Rightarrow> event_bus \<Rightarrow> event_bus \<times> bus_call list" where
  "emit event b =
     (let (b1, calls1) = call_handlers event b;
          b2 = buffer_event event b1
      in if is_completion (ev_type event) then
           let (b3, calls3) = checkWaitGroups (ev_agentId event) b2 in (b3, calls1 @ calls3)
         else (b2, calls1))"

section \<open>Wait groups and pre-subscriptions\<close>

definition createWaitGroup ::
  "string \<Rightarrow> string \<Rightarrow> string list \<Rightarrow> string option \<Rightarrow> event_bus \<Rightarrow> event_bus" where
  "createWaitGroup i parentAgentId expectedAgentIds onComplete b =
     b\<lparr>eb_waitGroups := om_set (eb_waitGroups b) i
         \<lparr>wg_id = i, wg_parentAgentId = parentAgentId, wg_expectedAgentIds = expectedAgentIds,
          wg_completedAgentIds = [], wg_onComplete = onComplete\<rparr>\<rparr>"

definition addToWaitGroup :: "string \<Rightarrow> string \<Rightarrow> event_bus \<Rightarrow> event_bus" where
  "addToWaitGroup groupId agentId b =
     (case om_get (eb_waitGroups b) groupId of
        None \<Rightarrow> b
      | Some grp \<Rightarrow>
          if agentId \<in> set (wg_expectedAgentIds grp) then b
          else b\<lparr>eb_waitGroups := om_set (eb_waitGroups b) groupId
                  (grp\<lparr>wg_expectedAgentIds := wg_expectedAgentIds grp @ [agentId]\<rparr>)\<rparr>)"

definition getWaitGroup :: "string \<Rightarrow> event_bus \<Rightarrow> wait_group option" where
  "getWaitGroup groupId b = om_get (eb_waitGroups b) groupId"

definition removeWaitGroup :: "string \<Rightarrow> event_bus \<Rightarrow> event_bus" where
  "removeWaitGroup groupId b = b\<lparr>eb_waitGroups := om_del (eb_waitGroups b) groupId\<rparr>"

definition pre_subscription :: "pre_params \<Rightarrow> subscription" where
  "pre_subscription p =
     \<lparr>sub_id = pp_id p, sub_agentId = pp_agentId p, sub_agentName = pp_agentName p,
      sub_eventTypes = pp_eventTypes p, sub_excludeSelf = orDefault (pp_excludeSelf p) True,
      sub_oneShot = Some True, sub_waitGroupId = None,
      sub_priority = Some (orDefault (pp_priority p) 10)\<rparr>"

definition preSubscribe :: "pre_params \<Rightarrow> event_bus \<Rightarrow> event_bus" where
  "preSubscribe p b = subscribe (pre_subscription p) (bus_on (preHandlerKey (pp_id p)) (PreHandler p) b)"

definition dispose :: "pre_params \<Rightarrow> event_bus \<Rightarrow> event_bus" where
  "dispose p b = snd (unsubscribe (pp_id p) (bus_off (preHandlerKey (pp_id p)) b))"

section \<open>Operations in sequence\<close>

datatype bus_op =
    OpOn string | OpOff string | OpEmit agent_event | OpSubscribe subscription | OpUnsubscribe string
  | OpDrain string | OpCreateWaitGroup string string "string list" "string option"
  | OpAddToWaitGroup string string | OpRemoveWaitGroup string | OpPreSubscribe pre_params
  | OpDispose pre_params

fun bus_step :: "bus_op \<Rightarrow> event_bus \<Rightarrow> event_bus" where
  "bus_step (OpOn key) b = bus_on key ClientHandler b"
| "bus_step (OpOff key) b = bus_off key b"
| "bus_step (OpEmit event) b = fst (emit event b)"
| "bus_step (OpSubscribe s) b = subscribe s b"
| "bus_step (OpUnsubscribe i) b = snd (unsubscribe i b)"
| "bus_step (OpDrain a) b = snd (drainPendingEvents a b)"
| "bus_step (OpCreateWaitGroup i par es cb) b = createWaitGroup i par es cb b"
| "bus_step (OpAddToWaitGroup i a) b = addToWaitGroup i a b"
| "bus_step (OpRemoveWaitGroup i) b = removeWaitGroup i b"
| "bus_step (OpPreSubscribe p) b = preSubscribe p b"
| "bus_step (OpDispose p) b = dispose p b"

text \<open>The events an operation hands to an agent, and the events it puts into the agent's buffer:
  one copy for every subscription of the agent that matches.\<close>

fun bus_taken :: "bus_op \<Rightarrow> event_bus \<Rightarrow> string \<Rightarrow> agent_event list" where
  "bus_taken (OpDrain a) b agent = (if agent = a then fst (drainPendingEvents a b) else [])"
| "bus_taken oper b agent = []"

definition match_count :: "agent_event \<Rightarrow> event_bus \<Rightarrow> string \<Rightarrow> nat" where
  "match_count event b agent =
     length (filter (\<lambda>s. sub_matches event s \<and> sub_agentId s = agent) (om_values (eb_subscriptions b)))"

fun bus_posted :: "bus_op \<Rightarrow> event_bus \<Rightarrow> string \<Rightarrow> agent_event list" where
  "bus_posted (OpEmit event) b agent = replicate (match_count event b agent) event"
| "bus_posted oper b agent = []"

abbreviation pending_of :: "event_bus \<Rightarrow> string \<Rightarrow> agent_event list" where
  "pending_of b agent \<equiv> fst (drainPendingEvents agent b)"

fun emits :: "agent_event list \<Rightarrow> event_bus \<Rightarrow> event_bus \<times> bus_call list" where
  "emits [] b = (b, [])"
| "emits (e # es) b = (let (b1, calls1) = emit e b; (b2, calls2) = emits es b1 in (b2, calls1 @ calls2))"

section \<open>Mailboxes\<close>

text \<open>
  What a client of a buffering component relies on: what an operation hands out, followed by what
  is still buffered, is what was buffered followed by what the operation put in. Over any sequence
  of operations nothing is then lost, duplicated or reordered.
\<close>

locale mailbox =
  fixes pend :: "'b \<Rightarrow> 'a \<Rightarrow> 'e list"
    and step :: "'op \<Rightarrow> 'b \<Rightarrow> 'b"
    and taken :: "'op \<Rightarrow> 'b \<Rightarrow> 'a \<Rightarrow> 'e list"
    and posted :: "'op \<Rightarrow> 'b \<Rightarrow> 'a \<Rightarrow> 'e list"
  assumes step_conserves: "taken oper b a @ pend (step oper b) a = pend b a @ posted oper b a"
begin

fun run :: "'op list \<Rightarrow> 'b \<Rightarrow> 'b" where
  "run [] b = b"
| "run (oper # ops) b = run ops (step oper b)"

fun all_taken :: "'op list \<Rightarrow> 'b \<Rightarrow> 'a \<Rightarrow> 'e list" where
  "all_taken [] b a = []"
| "all_taken (oper # ops) b a = taken oper b a @ all_taken ops (step oper b) a"

fun all_posted :: "'op list \<Rightarrow> 'b \<Rightarrow> 'a \<Rightarrow> 'e list" where
  "all_posted [] b a = []"
| "all_posted (oper # ops) b a = posted oper b a @ all_posted ops (step oper b) a"

lemma run_conserves: "all_taken ops b a @ pend (run ops b) a = pend b a @ all_posted ops b a"
proof (induction ops arbitrary: b)
  case (Cons oper ops)
  then show ?case using step_conserves [of oper b a] by (metis all_posted.simps(2) all_taken.simps(2) append.assoc run.simps(2))
qed simp

end

section \<open>What publishing does\<close>

lemma call_handler_frame:
  "eb_subscriptions (fst (call_handler e kh bc)) = eb_subscriptions (fst bc)
   \<and> eb_pendingEvents (fst (call_handler e kh bc)) = eb_pendingEvents (fst bc)
   \<and> eb_waitGroups (fst (call_handler e kh bc)) = eb_waitGroups (fst bc)"
  by (cases "(e, kh, bc)" rule: call_handler.cases) (simp_all add: bus_off_def)

lemma call_handlers_frame [simp]:
  "eb_subscriptions (fst (call_handlers e b)) = eb_subscriptions b"
  "eb_pendingEvents (fst (call_handlers e b)) = eb_pendingEvents b"
  "eb_waitGroups (fst (call_handlers e b)) = eb_waitGroups b"
proof -
  have "eb_subscriptions (fst (fold (call_handler e) hs bc)) = eb_subscriptions (fst bc)
      \<and> eb_pendingEvents (fst (fold (call_handler e) hs bc)) = eb_pendingEvents (fst bc)
      \<and> eb_waitGroups (fst (fold (call_handler e) hs bc)) = eb_waitGroups (fst bc)" for hs bc
    by (induction hs arbitrary: bc) (simp_all add: call_handler_frame)
  then show "eb_subscriptions (fst (call_handlers e b)) = eb_subscriptions b"
    "eb_pendingEvents (fst (call_handlers e b)) = eb_pendingEvents b"
    "eb_waitGroups (fst (call_handlers e b)) = eb_waitGroups b"
    by (simp_all add: call_handlers_def)
qed

lemma push_pending_frame [simp]:
  "eb_handlers (push_pending a e b) = eb_handlers b"
  "eb_subscriptions (push_pending a e b) = eb_subscriptions b"
  "eb_waitGroups (push_pending a e b) = eb_waitGroups b"
  by (simp_all add: push_pending_def)

lemma pending_push [simp]: "pending_of (push_pending a e b) a' = pending_of b a' @ (if a = a' then [e] else [])"
  by (simp add: drainPendingEvents_def push_pending_def)

lemma deliver_frame [simp]:
  "eb_handlers (fst (deliver e subs bl)) = eb_handlers (fst bl)"
  "eb_subscriptions (fst (deliver e subs bl)) = eb_subscriptions (fst bl)"
  "eb_waitGroups (fst (deliver e subs bl)) = eb_waitGroups (fst bl)"
  by (induction e subs bl rule: deliver.induct) simp_all

lemma deliver_pending:
  "pending_of (fst (deliver e subs bl)) a = pending_of (fst bl) a
     @ replicate (length (filter (\<lambda>s. sub_matches e s \<and> sub_agentId s = a) subs)) e"
  by (induction e subs bl rule: deliver.induct) (auto simp: replicate_append_same)

lemma deliver_oneShot:
  "snd (deliver e subs bl) = snd bl @ map sub_id (filter (\<lambda>s. sub_matches e s \<and> trueOpt (sub_oneShot s)) subs)"
  by (induction e subs bl rule: deliver.induct) auto

lemma deliver_wf: "om_wf (eb_pendingEvents (fst bl)) \<Longrightarrow> om_wf (eb_pendingEvents (fst (deliver e subs bl)))"
  by (induction e subs bl rule: deliver.induct) (auto simp: push_pending_def)

lemma fold_om_del: "fold (\<lambda>i m. om_del m i) ks m = filter (\<lambda>kv. fst kv \<notin> set ks) m"
  by (induction ks arbitrary: m) (auto simp: om_del_def intro: filter_cong)

lemma pending_cong: "eb_pendingEvents b = eb_pendingEvents b' \<Longrightarrow> pending_of b a = pending_of b' a"
  by (simp add: drainPendingEvents_def)

lemma buffer_pending: "pending_of (buffer_event e b) a = pending_of b a @ replicate (match_count e b a) e"
proof -
  let ?ss = "sort_by sub_order (om_values (eb_subscriptions b))"
  have "pending_of (buffer_event e b) a = pending_of (fst (deliver e ?ss (b, []))) a"
    by (rule pending_cong) (simp add: buffer_event_def Let_def split: prod.split)
  then show ?thesis by (simp add: deliver_pending match_count_def)
qed

lemma buffer_frame [simp]:
  "eb_handlers (buffer_event e b) = eb_handlers b"
  "eb_waitGroups (buffer_event e b) = eb_waitGroups b"
  by (simp_all add: buffer_event_def Let_def case_prod_beta)

lemma emit_fields:
  "eb_handlers (fst (emit e b)) = eb_handlers (fst (call_handlers e b))"
  "eb_subscriptions (fst (emit e b)) = eb_subscriptions (buffer_event e (fst (call_handlers e b)))"
  "eb_pendingEvents (fst (emit e b)) = eb_pendingEvents (buffer_event e (fst (call_handlers e b)))"
  "eb_waitGroups (fst (emit e b)) = (if is_completion (ev_type e)
      then eb_waitGroups (fst (checkWaitGroups (ev_agentId e) b)) else eb_waitGroups b)"
  "snd (emit e b) = snd (call_handlers e b) @ (if is_completion (ev_type e)
      then snd (checkWaitGroups (ev_agentId e) b) else [])"
  by (simp_all add: emit_def Let_def checkWaitGroups_def split: prod.split)
    (metis call_handlers_frame(3) fst_conv)+

lemma emit_pending: "pending_of (fst (emit e b)) a = pending_of b a @ replicate (match_count e b a) e"
proof -
  have "pending_of (fst (emit e b)) a = pending_of (buffer_event e (fst (call_handlers e b))) a"
    by (rule pending_cong) (rule emit_fields)
  also have "\<dots> = pending_of (fst (call_handlers e b)) a @ replicate (match_count e (fst (call_handlers e b)) a) e"
    by (rule buffer_pending)
  also have "pending_of (fst (call_handlers e b)) a = pending_of b a" by (rule pending_cong) simp
  finally show ?thesis by (simp add: match_count_def)
qed

interpretation mb: mailbox pending_of bus_step bus_taken bus_posted
proof
  fix oper b a
  have other: "pending_of (bus_step oper b) a = pending_of b a"
    if "\<And>e. oper \<noteq> OpEmit e" "\<And>x. oper \<noteq> OpDrain x"
    using that by (cases oper) (auto simp: drainPendingEvents_def bus_on_def bus_off_def subscribe_def
        unsubscribe_def createWaitGroup_def addToWaitGroup_def removeWaitGroup_def preSubscribe_def dispose_def
        split: option.splits)
  show "bus_taken oper b a @ pending_of (bus_step oper b) a = pending_of b a @ bus_posted oper b a"
  proof (cases oper)
    case (OpDrain x)
    then show ?thesis by (simp add: drainPendingEvents_def)
  qed (use other in \<open>simp_all add: emit_pending\<close>)
qed

section \<open>The invariant of the bus\<close>

text \<open>Every map has its keys once, an entry is stored under its own id, and a wait group that is
  still stored is not complete: its callback has not run.\<close>

definition handler_ok :: "string \<times> bus_handler \<Rightarrow> bool" where
  "handler_ok kh = (case snd kh of ClientHandler \<Rightarrow> True | PreHandler p \<Rightarrow> fst kh = preHandlerKey (pp_id p))"

definition group_ok :: "string \<times> wait_group \<Rightarrow> bool" where
  "group_ok gw = (wg_id (snd gw) = fst gw \<and> distinct (wg_completedAgentIds (snd gw))
     \<and> set (wg_completedAgentIds (snd gw)) \<subseteq> set (wg_expectedAgentIds (snd gw))
     \<and> (wg_expectedAgentIds (snd gw) = []
        \<or> length (wg_completedAgentIds (snd gw)) < length (wg_expectedAgentIds (snd gw))))"

definition bus_ok :: "event_bus \<Rightarrow> bool" where
  "bus_ok b = (om_wf (eb_handlers b) \<and> om_wf (eb_subscriptions b) \<and> om_wf (eb_pendingEvents b)
     \<and> om_wf (eb_waitGroups b) \<and> list_all handler_ok (eb_handlers b)
     \<and> list_all (\<lambda>ks. sub_id (snd ks) = fst ks) (eb_subscriptions b) \<and> list_all group_ok (eb_waitGroups b))"

lemma list_all_om_set: "list_all P m \<Longrightarrow> P (k, v) \<Longrightarrow> list_all P (om_set m k v)"
  by (induction m k v rule: om_set.induct) auto

lemma list_all_om_del: "list_all P m \<Longrightarrow> list_all P (om_del m k)"
  by (auto simp: om_del_def list_all_iff)

lemma list_all_map_of: "list_all P m \<Longrightarrow> om_get m k = Some v \<Longrightarrow> P (k, v)"
  by (auto simp: list_all_iff dest: map_of_SomeD)

lemma om_wf_filter: "om_wf m \<Longrightarrow> om_wf (filter P m)"
  by (simp add: om_wf_def distinct_map_filter)

lemma call_handlers_ok:
  "om_wf (eb_handlers b) \<and> list_all handler_ok (eb_handlers b) \<Longrightarrow>
   om_wf (eb_handlers (fst (call_handlers e b))) \<and> list_all handler_ok (eb_handlers (fst (call_handlers e b)))"
proof -
  have one: "om_wf (eb_handlers (fst (call_handler e kh bc))) \<and> list_all handler_ok (eb_handlers (fst (call_handler e kh bc)))"
    if "om_wf (eb_handlers (fst bc)) \<and> list_all handler_ok (eb_handlers (fst bc))" for kh bc
    using that by (cases "(e, kh, bc)" rule: call_handler.cases) (auto simp: bus_off_def list_all_om_del)
  have "om_wf (eb_handlers (fst (fold (call_handler e) hs bc))) \<and> list_all handler_ok (eb_handlers (fst (fold (call_handler e) hs bc)))"
    if "om_wf (eb_handlers (fst bc)) \<and> list_all handler_ok (eb_handlers (fst bc))" for hs bc
    using that by (induction hs arbitrary: bc) (simp_all add: one)
  then show "om_wf (eb_handlers b) \<and> list_all handler_ok (eb_handlers b) \<Longrightarrow> ?thesis"
    by (simp add: call_handlers_def)
qed

text \<open>After an event the one-shot subscriptions that matched are gone, and no other.\<close>

lemma emit_subscriptions:
  assumes "bus_ok b"
  shows "eb_subscriptions (fst (emit e b))
    = filter (\<lambda>ks. \<not> (sub_matches e (snd ks) \<and> trueOpt (sub_oneShot (snd ks)))) (eb_subscriptions b)"
proof -
  let ?hit = "\<lambda>s. sub_matches e s \<and> trueOpt (sub_oneShot s)"
  let ?m = "eb_subscriptions b"
  have ids: "sub_id s = k" if "(k, s) \<in> set ?m" for k s
    using assms that by (auto simp: bus_ok_def list_all_iff)
  have inj: "s = s'" if "(k, s) \<in> set ?m" "(k, s') \<in> set ?m" for k s s'
    using assms that om_mem_get [of ?m k] by (simp add: bus_ok_def)
  have "set (map sub_id (filter ?hit (sort_by sub_order (om_values ?m)))) = sub_id ` {s \<in> snd ` set ?m. ?hit s}"
    by (auto simp: om_values_def)
  then have "eb_subscriptions (fst (emit e b)) = filter (\<lambda>kv. fst kv \<notin> sub_id ` {s \<in> snd ` set ?m. ?hit s}) ?m"
    by (simp add: emit_fields buffer_event_def Let_def case_prod_beta deliver_oneShot fold_om_del)
  also have "\<dots> = filter (\<lambda>ks. \<not> ?hit (snd ks)) ?m"
  proof (rule filter_cong [OF refl])
    fix ks assume mem: "ks \<in> set ?m"
    obtain k s where ks: "ks = (k, s)" by (cases ks)
    have "k \<in> sub_id ` {s \<in> snd ` set ?m. ?hit s} \<longleftrightarrow> ?hit s"
    proof
      assume "k \<in> sub_id ` {s \<in> snd ` set ?m. ?hit s}"
      then obtain k' s' where s': "(k', s') \<in> set ?m" "?hit s'" "k = sub_id s'" by auto
      with ids have "k' = k" by blast
      with inj s' mem ks show "?hit s" by blast
    next
      assume "?hit s"
      moreover have "k = sub_id s" using ids mem ks by blast
      ultimately show "k \<in> sub_id ` {s \<in> snd ` set ?m. ?hit s}"
        using mem ks by (intro image_eqI [of _ _ s]) force+
    qed
    with ks show "(fst ks \<notin> sub_id ` {s \<in> snd ` set ?m. ?hit s}) = (\<not> ?hit (snd ks))" by simp
  qed
  finally show ?thesis .
qed

lemma emit_pending_wf: "om_wf (eb_pendingEvents b) \<Longrightarrow> om_wf (eb_pendingEvents (fst (emit e b)))"
  by (simp add: emit_fields buffer_event_def Let_def case_prod_beta deliver_wf)

lemma check_group_ok:
  "group_ok gw \<Longrightarrow> fst (check_group a gw) = Some gw' \<Longrightarrow> group_ok gw' \<and> fst gw' = fst gw"
  by (cases gw) (auto simp: check_group_def Let_def group_ok_def split: if_splits)

lemma map_some_keys:
  assumes keeps: "\<And>x y. f x = Some y \<Longrightarrow> fst y = fst x"
  shows "distinct (map fst xs) \<Longrightarrow> distinct (map fst (map_some f xs))"
proof (induction xs)
  case (Cons x xs)
  have "fst y \<notin> fst ` set (map_some f xs)" if "f x = Some y" for y
  proof
    assume "fst y \<in> fst ` set (map_some f xs)"
    then obtain z where "z \<in> set (map_some f xs)" and key: "fst z = fst y" by force
    then obtain x' where "x' \<in> set xs" "f x' = Some z" by (auto simp: set_map_some)
    with key keeps [OF that] keeps [of x' z] Cons.prems show False by (metis distinct.simps(2) image_eqI list.simps(9) list.set_map)
  qed
  with Cons show ?case by (auto split: option.split)
qed simp

lemma check_group_key: "fst (check_group a gw) = Some gw' \<Longrightarrow> fst gw' = fst gw"
  by (cases gw) (auto simp: check_group_def Let_def split: if_splits)

lemma checkWaitGroups_ok:
  assumes "om_wf (eb_waitGroups b)" and "list_all group_ok (eb_waitGroups b)"
  shows "om_wf (eb_waitGroups (fst (checkWaitGroups a b))) \<and> list_all group_ok (eb_waitGroups (fst (checkWaitGroups a b)))"
  using assms check_group_ok map_some_keys [of "\<lambda>gw. fst (check_group a gw)" "eb_waitGroups b", OF check_group_key]
  by (auto simp: checkWaitGroups_def om_wf_def list_all_iff set_map_some)

lemma emit_ok: "bus_ok b \<Longrightarrow> bus_ok (fst (emit e b))"
proof -
  assume ok: "bus_ok b"
  then have "om_wf (eb_waitGroups (fst (emit e b))) \<and> list_all group_ok (eb_waitGroups (fst (emit e b)))"
    using checkWaitGroups_ok [of b "ev_agentId e"] by (auto simp: emit_fields bus_ok_def)
  moreover have "om_wf (eb_subscriptions (fst (emit e b))) \<and> list_all (\<lambda>ks. sub_id (snd ks) = fst ks) (eb_subscriptions (fst (emit e b)))"
    using ok by (auto simp: emit_subscriptions bus_ok_def list_all_iff om_wf_filter)
  ultimately show ?thesis
    using ok call_handlers_ok [of b e] emit_pending_wf [of b e] by (simp add: bus_ok_def emit_fields(1))
qed

lemma addToWaitGroup_ok: "bus_ok b \<Longrightarrow> bus_ok (addToWaitGroup i a b)"
proof (cases "om_get (eb_waitGroups b) i")
  case (Some g)
  assume ok: "bus_ok b"
  with Some have "group_ok (i, g)" using list_all_map_of [of group_ok "eb_waitGroups b"] by (auto simp: bus_ok_def)
  then have "group_ok (i, g\<lparr>wg_expectedAgentIds := wg_expectedAgentIds g @ [a]\<rparr>)"
    by (auto simp: group_ok_def)
  with ok Some show ?thesis by (simp add: addToWaitGroup_def bus_ok_def list_all_om_set)
qed (simp add: addToWaitGroup_def)

lemma bus_step_ok: "bus_ok b \<Longrightarrow> bus_ok (bus_step oper b)"
proof (cases oper)
  case (OpCreateWaitGroup i par es cb)
  assume "bus_ok b"
  then show ?thesis
    by (auto simp: OpCreateWaitGroup createWaitGroup_def bus_ok_def list_all_om_set group_ok_def)
next
  case (OpPreSubscribe p)
  assume "bus_ok b"
  then show ?thesis
    by (auto simp: OpPreSubscribe preSubscribe_def subscribe_def bus_on_def pre_subscription_def bus_ok_def
        list_all_om_set handler_ok_def)
qed (auto simp: emit_ok addToWaitGroup_ok, auto simp: bus_ok_def bus_on_def bus_off_def subscribe_def
    unsubscribe_def drainPendingEvents_def removeWaitGroup_def dispose_def list_all_om_set list_all_om_del handler_ok_def)

interpretation bus: machine bus_step bus_ok "\<lambda>b b'. True"
  by unfold_locales (simp_all add: bus_step_ok)

lemma mb_run_fold: "mb.run ops b = fold bus_step ops b"
  by (induction ops arbitrary: b) simp_all

lemma new_bus_ok: "bus_ok new_bus"
  by (simp add: bus_ok_def new_bus_def)

text \<open>The bus keeps its maps consistent under every sequence of operations: keys are unique, entries sit under their own id, and no wait group that is still registered has all its agents completed.\<close>
theorem bus_reachable_ok: "bus_ok (mb.run ops new_bus)"
  using bus.run_inv [of new_bus ops] new_bus_ok by (simp add: mb_run_fold)

section \<open>Delivery\<close>

text \<open>C21. Whatever operations are interleaved, the events an agent has drained followed by those still buffered for it are those that were buffered followed by, for every event published, one copy per subscription of the agent matching at that moment: nothing is lost, duplicated or reordered, and the priorities of the subscriptions make no difference to what any agent receives.\<close>
theorem bus_delivers_exactly:
  "mb.all_taken ops b agent @ pending_of (mb.run ops b) agent = pending_of b agent @ mb.all_posted ops b agent"
  by (rule mb.run_conserves)

lemma emits_Cons:
  "emits (e # es) b = (fst (emits es (fst (emit e b))), snd (emit e b) @ snd (emits es (fst (emit e b))))"
  by (simp add: Let_def case_prod_beta)

declare emits.simps(2) [simp del]

lemma no_match_pending:
  "bus_ok b \<Longrightarrow> filter (\<lambda>s. sub_agentId s = a) (om_values (eb_subscriptions b)) = [] \<Longrightarrow>
   pending_of (fst (emits es b)) a = pending_of b a
   \<and> filter (\<lambda>s. sub_agentId s = a) (om_values (eb_subscriptions (fst (emits es b)))) = []"
proof (induction es arbitrary: b)
  case (Cons e es)
  then have "match_count e b a = 0" by (auto simp: match_count_def filter_empty_conv)
  moreover have "filter (\<lambda>s. sub_agentId s = a) (om_values (eb_subscriptions (fst (emit e b)))) = []"
    using Cons.prems by (auto simp: emit_subscriptions filter_empty_conv om_values_def)
  ultimately show ?case
    using Cons.IH [of "fst (emit e b)"] Cons.prems emit_ok [of b e] by (simp add: emits_Cons emit_pending)
qed simp

text \<open>An agent whose only subscription is one-shot receives exactly the first matching event of any sequence, however many match, and the subscription is gone exactly when one did.\<close>
theorem one_shot_first_match:
  assumes "bus_ok b" and "filter (\<lambda>s. sub_agentId s = a) (om_values (eb_subscriptions b)) = [s]"
    and "sub_oneShot s = Some True"
  shows "pending_of (fst (emits es b)) a
      = pending_of b a @ (case List.find (\<lambda>e. sub_matches e s) es of None \<Rightarrow> [] | Some e \<Rightarrow> [e])
    \<and> filter (\<lambda>s. sub_agentId s = a) (om_values (eb_subscriptions (fst (emits es b))))
      = (if list_ex (\<lambda>e. sub_matches e s) es then [] else [s])"
  using assms
proof (induction es arbitrary: b)
  case (Cons e es)
  note ok = emit_ok [OF Cons.prems(1), of e]
  have "filter (\<lambda>s. sub_agentId s = a) (om_values (eb_subscriptions (fst (emit e b))))
      = filter (\<lambda>s. \<not> (sub_matches e s \<and> trueOpt (sub_oneShot s)))
          (filter (\<lambda>s. sub_agentId s = a) (om_values (eb_subscriptions b)))"
    using Cons.prems(1)
    by (simp add: emit_subscriptions om_values_def filter_map o_def conj_commute conj_left_commute)
  then have left: "filter (\<lambda>s. sub_agentId s = a) (om_values (eb_subscriptions (fst (emit e b))))
      = (if sub_matches e s then [] else [s])"
    using Cons.prems by (simp add: trueOpt_def)
  have "match_count e b a = length (filter (sub_matches e) (filter (\<lambda>s. sub_agentId s = a) (om_values (eb_subscriptions b))))"
    by (simp add: match_count_def conj_commute)
  then have count: "match_count e b a = (if sub_matches e s then 1 else 0)" using Cons.prems by simp
  show ?case
  proof (cases "sub_matches e s")
    case True
    then show ?thesis
      using no_match_pending [OF ok, of a es] left count by (simp add: emits_Cons emit_pending)
  next
    case False
    then show ?thesis
      using Cons.IH [OF ok] left count Cons.prems(3) by (simp add: emits_Cons emit_pending)
  qed
qed simp

section \<open>Wait groups\<close>

text \<open>The agents whose work an event reports as finished.\<close>

definition completers :: "agent_event list \<Rightarrow> string set" where
  "completers es = ev_agentId ` {e \<in> set es. is_completion (ev_type e)}"

fun is_group_call :: "string \<Rightarrow> bus_call \<Rightarrow> bool" where
  "is_group_call i (CallOnComplete cb g) = (wg_id g = i)"
| "is_group_call i c = False"

lemma complete_iff:
  assumes "distinct C" and "set C \<subseteq> set E"
  shows "length C \<ge> length E \<longleftrightarrow> distinct E \<and> set C = set E"
proof -
  have "length C = card (set C)" using assms by (simp add: distinct_card)
  moreover have "card (set C) \<le> card (set E)" using assms by (simp add: card_mono)
  moreover have "card (set E) = length E \<longleftrightarrow> distinct E" using card_distinct distinct_card by blast
  moreover have "card (set E) \<le> length E" by (rule card_length)
  moreover have "set C = set E \<longleftrightarrow> card (set C) = card (set E)" using assms by (metis List.finite_set card_subset_eq)
  ultimately show ?thesis by linarith
qed

lemma map_some_get:
  assumes "\<And>x y. f x = Some y \<Longrightarrow> fst y = fst x" and "distinct (map fst xs)"
  shows "map_of (map_some f xs) k = (case map_of xs k of None \<Rightarrow> None | Some v \<Rightarrow> map_option snd (f (k, v)))"
  using assms(2)
proof (induction xs)
  case (Cons x xs)
  have absent: "map_of xs (fst x) = None" using Cons.prems by (simp add: map_of_eq_None_iff)
  show ?case
  proof (cases "f x")
    case None
    with Cons absent show ?thesis by (cases x) (auto split: option.split)
  next
    case (Some y)
    with Cons absent assms(1) [OF Some] show ?thesis by (cases x; cases y) auto
  qed
qed simp

lemma check_get:
  assumes "om_wf (eb_waitGroups b)"
  shows "getWaitGroup i (fst (checkWaitGroups a b))
    = (case getWaitGroup i b of None \<Rightarrow> None | Some g \<Rightarrow> map_option snd (fst (check_group a (i, g))))"
  using map_some_get [of "\<lambda>gw. fst (check_group a gw)" "eb_waitGroups b" i, OF check_group_key] assms
  by (simp add: getWaitGroup_def checkWaitGroups_def om_wf_def)

lemma check_group_call:
  "group_ok gw \<Longrightarrow> filter (is_group_call i) (snd (check_group a gw)) = (if fst gw = i then snd (check_group a gw) else [])"
  by (cases gw) (auto simp: check_group_def Let_def group_ok_def split: option.split)

lemma concat_one:
  "distinct (map fst xs) \<Longrightarrow> concat (map (\<lambda>x. if fst x = i then h x else []) xs)
     = (case map_of xs i of None \<Rightarrow> [] | Some v \<Rightarrow> h (i, v))"
proof (induction xs)
  case (Cons x xs)
  have "concat (map (\<lambda>x. if fst x = i then h x else []) xs) = []" if "i \<notin> fst ` set xs"
    using that by (induction xs) auto
  with Cons show ?case by (cases x) (auto simp: map_of_eq_None_iff split: option.split)
qed simp

lemma filter_concat_map: "filter P (concat (map f xs)) = concat (map (\<lambda>x. filter P (f x)) xs)"
  by (induction xs) auto

lemma check_calls:
  assumes "bus_ok b"
  shows "filter (is_group_call i) (snd (checkWaitGroups a b))
    = (case getWaitGroup i b of None \<Rightarrow> [] | Some g \<Rightarrow> snd (check_group a (i, g)))"
proof -
  have "filter (is_group_call i) (snd (checkWaitGroups a b))
      = concat (map (\<lambda>gw. if fst gw = i then snd (check_group a gw) else []) (eb_waitGroups b))"
    using assms check_group_call
    by (auto simp: checkWaitGroups_def filter_concat_map bus_ok_def list_all_iff
        intro!: arg_cong [where f = concat] map_cong)
  then show ?thesis using assms concat_one [of "eb_waitGroups b" i "\<lambda>gw. snd (check_group a gw)"]
    by (simp add: bus_ok_def om_wf_def getWaitGroup_def)
qed

lemma handler_calls_no_group: "filter (is_group_call i) (snd (call_handlers e b)) = []"
proof -
  have "filter (is_group_call i) (snd (fold (call_handler e) hs bc)) = []"
    if "filter (is_group_call i) (snd bc) = []" for hs bc
    using that
  proof (induction hs arbitrary: bc)
    case (Cons h hs)
    then have "filter (is_group_call i) (snd (call_handler e h bc)) = []"
      by (cases "(e, h, bc)" rule: call_handler.cases) auto
    with Cons.IH show ?case by simp
  qed simp
  then show ?thesis by (simp add: call_handlers_def)
qed

lemma emit_group:
  assumes "bus_ok b"
  shows "getWaitGroup i (fst (emit e b)) = (if is_completion (ev_type e)
      then (case getWaitGroup i b of None \<Rightarrow> None | Some g \<Rightarrow> map_option snd (fst (check_group (ev_agentId e) (i, g))))
      else getWaitGroup i b)"
    and "filter (is_group_call i) (snd (emit e b)) = (if is_completion (ev_type e)
      then (case getWaitGroup i b of None \<Rightarrow> [] | Some g \<Rightarrow> snd (check_group (ev_agentId e) (i, g))) else [])"
  using assms check_get [of b i "ev_agentId e"] check_calls [of b i "ev_agentId e"]
  by (simp_all add: emit_fields getWaitGroup_def handler_calls_no_group bus_ok_def)

lemma emits_no_group:
  "bus_ok b \<Longrightarrow> getWaitGroup i b = None \<Longrightarrow>
   getWaitGroup i (fst (emits es b)) = None \<and> filter (is_group_call i) (snd (emits es b)) = []"
proof (induction es arbitrary: b)
  case (Cons e es)
  then show ?case
    using Cons.IH [of "fst (emit e b)"] emit_ok [of b e] emit_group [of b i e] by (simp add: emits_Cons)
qed simp

lemma check_group_step:
  assumes "group_ok (i, g)" and "wg_onComplete g = Some cb" and "a \<in> set (wg_expectedAgentIds g)"
  defines "C \<equiv> List.insert a (wg_completedAgentIds g)"
  shows "check_group a (i, g) = (if distinct (wg_expectedAgentIds g) \<and> set C = set (wg_expectedAgentIds g)
      then (None, [CallOnComplete cb (g\<lparr>wg_completedAgentIds := C\<rparr>)])
      else (Some (i, g\<lparr>wg_completedAgentIds := C\<rparr>), []))"
proof -
  have "distinct C" "set C \<subseteq> set (wg_expectedAgentIds g)"
    using assms by (auto simp: group_ok_def)
  from complete_iff [OF this] show ?thesis using assms by (auto simp: check_group_def Let_def)
qed

lemma bus_ok_group: "bus_ok b \<Longrightarrow> getWaitGroup i b = Some g \<Longrightarrow> group_ok (i, g)"
  using list_all_map_of [of group_ok "eb_waitGroups b" i g] by (simp add: bus_ok_def getWaitGroup_def)

lemma group_open:
  assumes "group_ok (i, g)"
  shows "\<not> (wg_expectedAgentIds g \<noteq> [] \<and> distinct (wg_expectedAgentIds g)
      \<and> set (wg_expectedAgentIds g) \<subseteq> set (wg_completedAgentIds g))"
proof
  assume h: "wg_expectedAgentIds g \<noteq> [] \<and> distinct (wg_expectedAgentIds g)
      \<and> set (wg_expectedAgentIds g) \<subseteq> set (wg_completedAgentIds g)"
  from assms have d: "distinct (wg_completedAgentIds g)"
    and s: "set (wg_completedAgentIds g) \<subseteq> set (wg_expectedAgentIds g)"
    by (simp_all add: group_ok_def)
  from h s have "set (wg_completedAgentIds g) = set (wg_expectedAgentIds g)" by blast
  with h complete_iff [OF d s] have "length (wg_expectedAgentIds g) \<le> length (wg_completedAgentIds g)" by simp
  with assms h show False by (simp add: group_ok_def)
qed

definition group_fires :: "wait_group \<Rightarrow> agent_event list \<Rightarrow> bool" where
  "group_fires g es = (wg_expectedAgentIds g \<noteq> [] \<and> distinct (wg_expectedAgentIds g)
      \<and> set (wg_expectedAgentIds g) \<subseteq> set (wg_completedAgentIds g) \<union> completers es)"

lemma group_progress:
  assumes "bus_ok b" and "getWaitGroup i b = Some g" and "wg_onComplete g = Some cb"
  shows "(getWaitGroup i (fst (emits es b)) = None \<longleftrightarrow> group_fires g es)
    \<and> length (filter (is_group_call i) (snd (emits es b))) = (if group_fires g es then 1 else 0)"
  using assms
proof (induction es arbitrary: b g)
  case Nil
  from Nil.prems(1,2) have "group_ok (i, g)" by (rule bus_ok_group)
  then have "\<not> (wg_expectedAgentIds g \<noteq> [] \<and> distinct (wg_expectedAgentIds g)
      \<and> set (wg_expectedAgentIds g) \<subseteq> set (wg_completedAgentIds g))"
    by (rule group_open)
  then show ?case using Nil.prems(2) by (simp add: group_fires_def completers_def)
next
  case (Cons e es)
  let ?E = "wg_expectedAgentIds g" and ?a = "ev_agentId e"
  let ?C = "List.insert ?a (wg_completedAgentIds g)"
  have gok: "group_ok (i, g)" using Cons.prems(1,2) by (rule bus_ok_group)
  note ok = emit_ok [OF Cons.prems(1), of e] and grp = emit_group [OF Cons.prems(1), of i e]
  show ?case
  proof (cases "is_completion (ev_type e) \<and> ?a \<in> set ?E")
    case False
    then have same: "getWaitGroup i (fst (emit e b)) = Some g" and quiet: "filter (is_group_call i) (snd (emit e b)) = []"
      using grp Cons.prems(2) by (auto simp: check_group_def Let_def)
    have "set ?E \<subseteq> set (wg_completedAgentIds g) \<union> completers (e # es)
        \<longleftrightarrow> set ?E \<subseteq> set (wg_completedAgentIds g) \<union> completers es"
      using False by (auto simp: completers_def)
    with Cons.IH [OF ok same Cons.prems(3)] quiet show ?thesis by (simp add: emits_Cons group_fires_def)
  next
    case True
    note step = check_group_step [OF gok Cons.prems(3) conjunct2 [OF True]]
    have cov: "set ?E \<subseteq> set (wg_completedAgentIds g) \<union> completers (e # es) \<longleftrightarrow> set ?E \<subseteq> set ?C \<union> completers es"
      using True by (auto simp: completers_def)
    show ?thesis
    proof (cases "distinct ?E \<and> set ?C = set ?E")
      case full: True
      then have "getWaitGroup i (fst (emit e b)) = None" "length (filter (is_group_call i) (snd (emit e b))) = 1"
        using grp step Cons.prems(2) True gok by (auto simp: group_ok_def)
      with emits_no_group [OF ok] full True cov show ?thesis
        by (auto simp: emits_Cons group_fires_def)
    next
      case more: False
      then have next_: "getWaitGroup i (fst (emit e b)) = Some (g\<lparr>wg_completedAgentIds := ?C\<rparr>)"
        and quiet: "filter (is_group_call i) (snd (emit e b)) = []"
        using grp step Cons.prems(2) True by auto
      from Cons.IH [OF ok next_] Cons.prems(3) quiet cov show ?thesis by (simp add: emits_Cons group_fires_def)
    qed
  qed
qed

text \<open>C20. The callback of a wait group runs exactly once, and the group is then gone, as soon as every expected agent has reported an end (completed, failed, timed out or sent its report), in any order and however often; before that it never runs. A group whose list of expected agents is empty or names an agent twice never completes.\<close>
theorem wait_group_fires_iff:
  assumes "bus_ok b"
  shows "(getWaitGroup i (fst (emits es (createWaitGroup i par E (Some cb) b))) = None
      \<longleftrightarrow> E \<noteq> [] \<and> distinct E \<and> set E \<subseteq> completers es)
    \<and> length (filter (is_group_call i) (snd (emits es (createWaitGroup i par E (Some cb) b))))
      = (if E \<noteq> [] \<and> distinct E \<and> set E \<subseteq> completers es then 1 else 0)"
proof -
  let ?b = "createWaitGroup i par E (Some cb) b"
  have ok: "bus_ok ?b" using bus_step_ok [OF assms, of "OpCreateWaitGroup i par E (Some cb)"] by simp
  have g: "getWaitGroup i ?b = Some \<lparr>wg_id = i, wg_parentAgentId = par, wg_expectedAgentIds = E,
      wg_completedAgentIds = [], wg_onComplete = Some cb\<rparr>"
    by (simp add: createWaitGroup_def getWaitGroup_def)
  show ?thesis using group_progress [OF ok g, of cb es] by (simp add: group_fires_def)
qed

section \<open>Pre-subscriptions\<close>

fun is_resolve :: "string \<Rightarrow> bus_call \<Rightarrow> bool" where
  "is_resolve i (ResolvePromise j e) = (j = i)"
| "is_resolve i c = False"

fun fired :: "agent_event \<Rightarrow> string \<times> bus_handler \<Rightarrow> bool" where
  "fired e (key, ClientHandler) = False"
| "fired e (key, PreHandler p) = pre_matches p e"

fun handler_calls :: "agent_event \<Rightarrow> string \<times> bus_handler \<Rightarrow> bus_call list" where
  "handler_calls e (key, ClientHandler) = [CallHandler key e]"
| "handler_calls e (key, PreHandler p) = (if pre_matches p e then [ResolvePromise (pp_id p) e] else [])"

lemma fold_handlers:
  "list_all handler_ok hs \<Longrightarrow>
   snd (fold (call_handler e) hs bc) = snd bc @ concat (map (handler_calls e) hs)
   \<and> eb_handlers (fst (fold (call_handler e) hs bc))
     = filter (\<lambda>kh. fst kh \<notin> fst ` {kh' \<in> set hs. fired e kh'}) (eb_handlers (fst bc))"
proof (induction hs arbitrary: bc)
  case (Cons h hs)
  let ?bc = "call_handler e h bc"
  have "snd ?bc = snd bc @ handler_calls e h"
    by (cases "(e, h, bc)" rule: call_handler.cases) auto
  moreover have "eb_handlers (fst ?bc) = filter (\<lambda>kh. \<not> (fired e h \<and> fst kh = fst h)) (eb_handlers (fst bc))"
    using Cons.prems
    by (cases "(e, h, bc)" rule: call_handler.cases) (auto simp: bus_off_def om_del_def handler_ok_def)
  ultimately show ?case
    using Cons.IH [of ?bc] Cons.prems by (auto intro!: filter_cong)
qed simp

lemma om_get_filter:
  "om_wf m \<Longrightarrow> om_get (filter P m) k = (case om_get m k of None \<Rightarrow> None | Some v \<Rightarrow> if P (k, v) then Some v else None)"
proof (induction m)
  case (Cons kv m)
  then have "om_get (filter P m) (fst kv) = None" by (auto simp: om_wf_def map_of_eq_None_iff)
  with Cons show ?case by (cases kv) (auto simp: om_wf_def split: option.split)
qed simp

lemma emit_handlers:
  assumes "bus_ok b"
  shows "snd (call_handlers e b) = concat (map (handler_calls e) (eb_handlers b))"
    and "om_get (eb_handlers (fst (emit e b))) k = (case om_get (eb_handlers b) k of None \<Rightarrow> None
      | Some h \<Rightarrow> if fired e (k, h) then None else Some h)"
proof -
  have ok: "list_all handler_ok (eb_handlers b)" and wf: "om_wf (eb_handlers b)"
    using assms by (simp_all add: bus_ok_def)
  from fold_handlers [OF ok, of e "(b, [])"]
  show "snd (call_handlers e b) = concat (map (handler_calls e) (eb_handlers b))"
    by (simp add: call_handlers_def)
  have "k \<in> fst ` {kh \<in> set (eb_handlers b). fired e kh} \<longleftrightarrow> fired e (k, h)"
    if "om_get (eb_handlers b) k = Some h" for h
    using om_mem_get [OF wf, of k] that by (auto simp: image_iff)
  then show "om_get (eb_handlers (fst (emit e b))) k = (case om_get (eb_handlers b) k of None \<Rightarrow> None
      | Some h \<Rightarrow> if fired e (k, h) then None else Some h)"
    using fold_handlers [OF ok, of e "(b, [])"]
    by (auto simp: emit_fields call_handlers_def om_get_filter [OF wf] split: option.split)
qed

lemma preHandlerKey_inj: "preHandlerKey i = preHandlerKey j \<longleftrightarrow> i = j"
  by (simp add: preHandlerKey_def)

lemma resolve_calls:
  assumes "bus_ok b"
  shows "filter (is_resolve i) (snd (emit e b)) = (case om_get (eb_handlers b) (preHandlerKey i) of
      Some (PreHandler p) \<Rightarrow> if pre_matches p e then [ResolvePromise i e] else [] | _ \<Rightarrow> [])"
proof -
  let ?H = "eb_handlers b"
  have ok: "list_all handler_ok ?H" and wf: "om_wf ?H" using assms by (simp_all add: bus_ok_def)
  have one: "filter (is_resolve i) (handler_calls e kh) = (if fst kh = preHandlerKey i then filter (is_resolve i) (handler_calls e kh) else [])"
    if "kh \<in> set ?H" for kh
    using that ok by (cases "(e, kh)" rule: handler_calls.cases) (auto simp: list_all_iff handler_ok_def)
  have "filter (is_resolve i) (snd (checkWaitGroups a b)) = []" for a
  proof -
    have "filter (is_resolve i) (snd (check_group a gw)) = []" for gw
      by (cases gw) (auto simp: check_group_def Let_def split: option.split)
    then show ?thesis by (simp add: checkWaitGroups_def filter_concat_map)
  qed
  then have "filter (is_resolve i) (snd (emit e b)) = filter (is_resolve i) (snd (call_handlers e b))"
    by (simp add: emit_fields)
  also have "\<dots> = concat (map (\<lambda>kh. if fst kh = preHandlerKey i then filter (is_resolve i) (handler_calls e kh) else []) ?H)"
    unfolding emit_handlers(1) [OF assms] filter_concat_map
    by (intro arg_cong [where f = concat] map_cong refl one)
  also have "\<dots> = (case om_get ?H (preHandlerKey i) of None \<Rightarrow> []
      | Some h \<Rightarrow> filter (is_resolve i) (handler_calls e (preHandlerKey i, h)))"
    using wf by (intro concat_one) (simp add: om_wf_def)
  finally show ?thesis
    using list_all_map_of [OF ok, of "preHandlerKey i"]
    by (auto simp: handler_ok_def preHandlerKey_inj split: option.split bus_handler.split)
qed

lemma pre_subscription_matches: "sub_matches e (pre_subscription p) = pre_matches p e"
  by (cases "pp_excludeSelf p") (auto simp: sub_matches_def pre_matches_def pre_subscription_def)

lemma pre_subscription_oneShot: "sub_oneShot (pre_subscription p) = Some True"
  by (simp add: pre_subscription_def)

text \<open>A pre-subscription is either waiting (handler and buffered subscription registered) or over.\<close>

definition pre_waiting :: "pre_params \<Rightarrow> event_bus \<Rightarrow> bool" where
  "pre_waiting p b = (om_get (eb_handlers b) (preHandlerKey (pp_id p)) = Some (PreHandler p)
     \<and> om_get (eb_subscriptions b) (pp_id p) = Some (pre_subscription p))"

definition pre_over :: "pre_params \<Rightarrow> event_bus \<Rightarrow> bool" where
  "pre_over p b = (om_get (eb_handlers b) (preHandlerKey (pp_id p)) = None
     \<and> om_get (eb_subscriptions b) (pp_id p) = None)"

lemma pre_step:
  assumes "bus_ok b"
  shows "pre_waiting p b \<Longrightarrow> (if pre_matches p e then pre_over p (fst (emit e b)) else pre_waiting p (fst (emit e b)))
      \<and> filter (is_resolve (pp_id p)) (snd (emit e b)) = (if pre_matches p e then [ResolvePromise (pp_id p) e] else [])"
    and "pre_over p b \<Longrightarrow> pre_over p (fst (emit e b)) \<and> filter (is_resolve (pp_id p)) (snd (emit e b)) = []"
  using assms
  by (auto simp: pre_waiting_def pre_over_def emit_handlers resolve_calls emit_subscriptions om_get_filter
      bus_ok_def pre_subscription_matches pre_subscription_oneShot trueOpt_def split: option.splits)

lemma pre_over_emits:
  "bus_ok b \<Longrightarrow> pre_over p b \<Longrightarrow>
   pre_over p (fst (emits es b)) \<and> filter (is_resolve (pp_id p)) (snd (emits es b)) = []"
proof (induction es arbitrary: b)
  case (Cons e es)
  then show ?case using Cons.IH [of "fst (emit e b)"] emit_ok [of b e] pre_step(2) [of b p e] by (simp add: emits_Cons)
qed simp

lemma pre_waiting_emits:
  "bus_ok b \<Longrightarrow> pre_waiting p b \<Longrightarrow>
   (if list_ex (pre_matches p) es then pre_over p (fst (emits es b)) else pre_waiting p (fst (emits es b)))
   \<and> filter (is_resolve (pp_id p)) (snd (emits es b))
     = (case List.find (pre_matches p) es of None \<Rightarrow> [] | Some e \<Rightarrow> [ResolvePromise (pp_id p) e])"
proof (induction es arbitrary: b)
  case (Cons e es)
  note step = pre_step(1) [OF Cons.prems, of e] and ok = emit_ok [OF Cons.prems(1), of e]
  show ?case
  proof (cases "pre_matches p e")
    case True
    then show ?thesis using step pre_over_emits [OF ok, of p es] by (simp add: emits_Cons)
  next
    case False
    then show ?thesis using step Cons.IH [OF ok] by (simp add: emits_Cons)
  qed
qed simp

text \<open>The promise of a pre-subscription is resolved exactly once, with the first matching event published after the call; from then on neither its handler nor its buffered subscription is registered, and until then both are. Disposing removes both at any time.\<close>
theorem pre_subscribe_resolves_first:
  assumes "bus_ok b"
  shows "filter (is_resolve (pp_id p)) (snd (emits es (preSubscribe p b)))
      = (case List.find (pre_matches p) es of None \<Rightarrow> [] | Some e \<Rightarrow> [ResolvePromise (pp_id p) e])
    \<and> (if list_ex (pre_matches p) es then pre_over p (fst (emits es (preSubscribe p b)))
       else pre_waiting p (fst (emits es (preSubscribe p b))))
    \<and> pre_over p (dispose p b)"
proof -
  have ok: "bus_ok (preSubscribe p b)" using bus_step_ok [OF assms, of "OpPreSubscribe p"] by simp
  have "pre_waiting p (preSubscribe p b)"
    by (simp add: pre_waiting_def preSubscribe_def subscribe_def bus_on_def pre_subscription_def)
  with ok have "(if list_ex (pre_matches p) es then pre_over p (fst (emits es (preSubscribe p b)))
       else pre_waiting p (fst (emits es (preSubscribe p b))))
     \<and> filter (is_resolve (pp_id p)) (snd (emits es (preSubscribe p b)))
       = (case List.find (pre_matches p) es of None \<Rightarrow> [] | Some e \<Rightarrow> [ResolvePromise (pp_id p) e])"
    by (rule pre_waiting_emits)
  moreover have "pre_over p (dispose p b)"
    by (simp add: pre_over_def dispose_def unsubscribe_def bus_off_def)
  ultimately show ?thesis by blast
qed

section \<open>Examples\<close>

definition sample_event :: "agent_event_type \<Rightarrow> string \<Rightarrow> agent_event" where
  "sample_event t a = \<lparr>ev_type = t, ev_agentId = a, ev_workspaceId = ''ws'', ev_data = [], ev_timestamp = 0\<rparr>"

definition sample_sub :: subscription where
  "sample_sub = \<lparr>sub_id = ''s'', sub_agentId = ''lead'', sub_agentName = ''Lead'',
     sub_eventTypes = [AGENT_COMPLETED], sub_excludeSelf = True, sub_oneShot = Some True,
     sub_waitGroupId = None, sub_priority = None\<rparr>"

definition sample_pre :: pre_params where
  "sample_pre = \<lparr>pp_id = ''p'', pp_agentId = ''lead'', pp_agentName = ''Lead'',
     pp_eventTypes = [AGENT_COMPLETED], pp_excludeSelf = None, pp_priority = None\<rparr>"

definition sample_events :: "agent_event list" where
  "sample_events = [sample_event AGENT_CREATED ''x'', sample_event AGENT_COMPLETED ''x'',
     sample_event AGENT_FAILED ''y'', sample_event AGENT_COMPLETED ''x'']"

lemma sample_bus_ok: "bus_ok (subscribe sample_sub new_bus)"
  by code_simp

theorem one_shot_first_match_witness:
  "pending_of (fst (emits sample_events (subscribe sample_sub new_bus))) ''lead'' = [sample_event AGENT_COMPLETED ''x'']"
proof -
  have one: "filter (\<lambda>s. sub_agentId s = ''lead'') (om_values (eb_subscriptions (subscribe sample_sub new_bus))) = [sample_sub]"
    and os: "sub_oneShot sample_sub = Some True"
    by code_simp+
  have "pending_of (subscribe sample_sub new_bus) ''lead'' = []" by code_simp
  moreover have "List.find (\<lambda>e. sub_matches e sample_sub) sample_events = Some (sample_event AGENT_COMPLETED ''x'')"
    by code_simp
  ultimately show ?thesis using one_shot_first_match [OF sample_bus_ok one os, of sample_events] by simp
qed

theorem wait_group_fires_iff_witness:
  "getWaitGroup ''g'' (fst (emits sample_events (createWaitGroup ''g'' ''lead'' [''x'', ''y''] (Some ''cb'') new_bus))) = None
   \<and> length (filter (is_group_call ''g'')
       (snd (emits sample_events (createWaitGroup ''g'' ''lead'' [''x'', ''x''] (Some ''cb'') new_bus)))) = 0"
proof -
  have "completers sample_events = set (map ev_agentId (filter (\<lambda>e. is_completion (ev_type e)) sample_events))"
    by (auto simp: completers_def)
  also have "\<dots> = {''x'', ''y''}"
    by (simp add: sample_events_def sample_event_def is_completion_def insert_commute)
  finally have "completers sample_events = {''x'', ''y''}" .
  then show ?thesis
    using wait_group_fires_iff [OF new_bus_ok, of "''g''" sample_events "''lead''" "[''x'', ''y'']" "''cb''"]
      wait_group_fires_iff [OF new_bus_ok, of "''g''" sample_events "''lead''" "[''x'', ''x'']" "''cb''"] by simp
qed

theorem pre_subscribe_resolves_first_witness:
  "filter (is_resolve ''p'') (snd (emits sample_events (preSubscribe sample_pre new_bus)))
     = [ResolvePromise ''p'' (sample_event AGENT_COMPLETED ''x'')]"
proof -
  have "List.find (pre_matches sample_pre) sample_events = Some (sample_event AGENT_COMPLETED ''x'')"
    and "pp_id sample_pre = ''p''"
    by code_simp+
  then show ?thesis using pre_subscribe_resolves_first [OF new_bus_ok, of sample_pre sample_events] by simp
qed

end
