(* ===== verification/LaneAutomation.thy ===== *)
theory LaneAutomation
  imports LaneHistory EventBus
begin

text \<open>
  Where a card stands in the steps of its column: src/src/core/kanban/lane-automation-state.ts (the
  current step, the guard on leaving a lane, the step a rerun starts at), review-verdict-authority.ts,
  review-lane-convergence.ts and review-lane-rerun.ts (who may write the verdict of a review, where
  it moves the card, how often the lane may be run again), done-lane-teardown.ts and
  column-transition.ts (what a move starts). A step index is an integer; \<open>console.warn\<close> is left out.
\<close>

section \<open>The current step of a lane\<close>

record lane_state =
  la_currentColumnId :: string
  la_currentColumn :: "kanban_column option"
  la_steps :: "automation_step list"
  la_currentSession :: "lane_session option"
  la_currentStepIndex :: "int option"
  la_currentStep :: "automation_step option"
  la_nextStep :: "automation_step option"
  la_hasRemainingSteps :: bool

text \<open>One comparison of \<open>getStepMatchScore\<close>: \<^const>\<open>None\<close> is the early \<open>return -1\<close>.\<close>

definition add_match :: "string option \<Rightarrow> string option \<Rightarrow> int \<Rightarrow> int option \<Rightarrow> int option" where
  "add_match stepValue taskValue weight score =
     (case score of None \<Rightarrow> None | Some s \<Rightarrow>
        if truthy stepValue \<and> truthy taskValue
        then (if stepValue \<noteq> taskValue then None else Some (s + weight)) else Some s)"

definition getStepMatchScore :: "automation_step \<Rightarrow> task \<Rightarrow> int" where
  "getStepMatchScore step t =
     orDefault
       (add_match (as_providerId step) (tk_assignedProvider t) 1
         (add_match (as_role step) (tk_assignedRole t) 2
           (add_match (as_specialistName step) (tk_assignedSpecialistName t) 4
             (add_match (as_specialistId step) (tk_assignedSpecialistId t) 8 (Some 0)))))
       (- 1)"

fun best_step_loop :: "task \<Rightarrow> (nat \<times> automation_step) list \<Rightarrow> nat option \<times> int \<Rightarrow> nat option \<times> int" where
  "best_step_loop t [] best = best"
| "best_step_loop t ((index, step) # rest) best =
     (let score = getStepMatchScore step t in
      best_step_loop t rest (if score > snd best then (Some index, score) else best))"

definition findStepIndexFromTaskAssignment :: "automation_step list \<Rightarrow> task \<Rightarrow> nat option" where
  "findStepIndexFromTaskAssignment steps t =
     (let best = best_step_loop t (List.enumerate 0 steps) (None, - 1)
      in if snd best > 0 then fst best else None)"

fun first_candidate :: "task \<Rightarrow> string \<Rightarrow> string list \<Rightarrow> lane_session option" where
  "first_candidate t currentColumnId [] = None"
| "first_candidate t currentColumnId (candidate # rest) =
     (case getTaskLaneSession t (Some candidate) of
        Some session \<Rightarrow> if ls_columnId session = Some currentColumnId then Some session
                        else first_candidate t currentColumnId rest
      | None \<Rightarrow> first_candidate t currentColumnId rest)"

definition findCurrentLaneSession :: "task \<Rightarrow> string \<Rightarrow> string option \<Rightarrow> lane_session option" where
  "findCurrentLaneSession t currentColumnId sessionId =
     (case first_candidate t currentColumnId
             (map_some (\<lambda>v. if truthy v then v else None) [sessionId, tk_triggerSessionId t]) of
        Some session \<Rightarrow> Some session
      | None \<Rightarrow> List.find (\<lambda>s. ls_columnId s = Some currentColumnId
                      \<and> (ls_status s = LaneRunning \<or> ls_status s = LaneTransitioned \<or> ls_status s = LaneCompleted))
                  (rev (tk_laneSessions t)))"

definition find_column :: "kanban_column list \<Rightarrow> string option \<Rightarrow> kanban_column option" where
  "find_column columns i = List.find (\<lambda>column. Some (kc_id column) = i) columns"

definition in_range :: "'a list \<Rightarrow> int option \<Rightarrow> bool" where
  "in_range xs i = (case i of None \<Rightarrow> False | Some k \<Rightarrow> 0 \<le> k \<and> k < int (length xs))"

definition resolve_step_index :: "automation_step list \<Rightarrow> task \<Rightarrow> int option \<Rightarrow> lane_session option \<Rightarrow> int option" where
  "resolve_step_index steps t explicitStepIndex currentSession =
     (let fromSession = (if in_range steps explicitStepIndex then explicitStepIndex
                         else Option.bind currentSession ls_stepIndex);
          fromTask = (if in_range steps fromSession then fromSession
                      else map_option int (findStepIndexFromTaskAssignment steps t))
      in if fromTask = None \<and> length steps = 1 then Some 0 else fromTask)"

definition resolveCurrentLaneAutomationState ::
  "task \<Rightarrow> kanban_column list \<Rightarrow> string option \<Rightarrow> int option \<Rightarrow> lane_state" where
  "resolveCurrentLaneAutomationState t boardColumns currentSessionId explicitStepIndex =
     (let currentColumnId = orDefault (tk_columnId t) ''backlog'';
          currentColumn = find_column boardColumns (Some currentColumnId);
          steps = getKanbanAutomationSteps (Option.bind currentColumn kc_automation);
          currentSession = findCurrentLaneSession t currentColumnId currentSessionId;
          currentStepIndex = resolve_step_index steps t explicitStepIndex currentSession
      in \<lparr>la_currentColumnId = currentColumnId, la_currentColumn = currentColumn, la_steps = steps,
          la_currentSession = currentSession, la_currentStepIndex = currentStepIndex,
          la_currentStep = Option.bind currentStepIndex (step_at (Some steps)),
          la_nextStep = Option.bind currentStepIndex (\<lambda>i. step_at (Some steps) (i + 1)),
          la_hasRemainingSteps = (case currentStepIndex of
             Some i \<Rightarrow> i < int (length steps) - 1 | None \<Rightarrow> length steps > 1)\<rparr>)"

section \<open>Leaving a lane\<close>

definition step_label :: "automation_step option \<Rightarrow> nat \<Rightarrow> string" where
  "step_label step number =
     orDefault (nullish (nullish (Option.bind step as_specialistName) (Option.bind step as_specialistId))
                  (Option.bind step as_role)) (''step '' @ show_nat number)"

definition buildRemainingLaneStepsMessage :: "string \<Rightarrow> lane_state \<Rightarrow> string option" where
  "buildRemainingLaneStepsMessage taskTitle st =
     (if \<not> la_hasRemainingSteps st \<or> la_nextStep st = None then None
      else let number = nat (orDefault (la_currentStepIndex st) 0);
               currentLabel = step_label (la_currentStep st) (number + 1);
               nextLabel = step_label (la_nextStep st) (number + 2)
           in Some (''Cannot move \"'' @ taskTitle @ ''\" out of ''
                 @ orDefault (map_option kc_name (la_currentColumn st)) (la_currentColumnId st)
                 @ '' yet: '' @ currentLabel @ '' is still active and '' @ nextLabel
                 @ '' must run next in the same lane.''))"

definition resolveRemainingLaneStepsMoveBlock :: "task \<Rightarrow> kanban_column list \<Rightarrow> string option" where
  "resolveRemainingLaneStepsMoveBlock t boardColumns =
     (if \<not> truthy (tk_triggerSessionId t) then None
      else buildRemainingLaneStepsMessage (tk_title t)
             (resolveCurrentLaneAutomationState t boardColumns (tk_triggerSessionId t) None))"

text \<open>The verdict is a string: the callers pass what they received.\<close>

definition isExemptFromRemainingLaneStepsGuard ::
  "string option \<Rightarrow> string \<Rightarrow> string option \<Rightarrow> kanban_column list \<Rightarrow> bool" where
  "isExemptFromRemainingLaneStepsGuard fromColumnId targetColumnId verificationVerdict boardColumns =
     (if fromColumnId = Some ''review'' \<and> targetColumnId = ''dev'' \<and> verificationVerdict = Some ''NOT_APPROVED'' then True
      else if targetColumnId = ''blocked'' then True
      else map_option kc_stage (find_column boardColumns (Some targetColumnId)) = Some StBlocked)"

section \<open>Starting a step\<close>

record step_ref =
  sr_id :: "string option"
  sr_specialistId :: "string option"
  sr_specialistName :: "string option"

definition step_ref_of :: "automation_step \<Rightarrow> step_ref" where
  "step_ref_of s = \<lparr>sr_id = as_id s, sr_specialistId = as_specialistId s, sr_specialistName = as_specialistName s\<rparr>"

definition isSameAutomationStep :: "automation_step \<Rightarrow> step_ref \<Rightarrow> bool" where
  "isSameAutomationStep candidate step =
     (if truthy (sr_id step) \<and> truthy (as_id candidate) then as_id candidate = sr_id step
      else if truthy (sr_specialistId step) \<and> truthy (as_specialistId candidate)
        then as_specialistId candidate = sr_specialistId step
      else if truthy (sr_specialistName step) \<and> truthy (as_specialistName candidate)
        then as_specialistName candidate = sr_specialistName step
      else False)"

definition resolveLaunchStepIndex :: "automation_step list \<Rightarrow> step_ref option \<Rightarrow> int option \<Rightarrow> int option" where
  "resolveLaunchStepIndex steps step stepIndex =
     (case step of
        None \<Rightarrow> if in_range steps stepIndex then stepIndex else None
      | Some s \<Rightarrow>
          if in_range steps stepIndex \<and> isSameAutomationStep (steps ! nat (the stepIndex)) s then stepIndex
          else map_option int (find_index (\<lambda>candidate. isSameAutomationStep candidate s) steps))"

definition resume_index :: "nat \<Rightarrow> lane_session option \<Rightarrow> nat" where
  "resume_index n latestRun =
     (case Option.bind latestRun ls_stepIndex of
        None \<Rightarrow> 0
      | Some i \<Rightarrow>
          if 0 \<le> i \<and> i < int n then
            (let finished = (map_option ls_status latestRun = Some LaneCompleted
                             \<or> map_option ls_status latestRun = Some LaneTransitioned)
             in if \<not> finished then nat i else if nat i + 1 < n then nat i + 1 else 0)
          else 0)"

definition resolveLaneResumeStep :: "task \<Rightarrow> kanban_column list \<Rightarrow> (automation_step \<times> nat) option" where
  "resolveLaneResumeStep t boardColumns =
     (let columnId = orDefault (tk_columnId t) ''backlog'';
          automation = Option.bind (find_column boardColumns (Some columnId)) kc_automation
      in if map_option ca_enabled automation \<noteq> Some True then None
         else let steps = getKanbanAutomationSteps automation
              in if length steps = 0 then None
                 else let latestRun = List.find (\<lambda>s. ls_columnId s = Some columnId \<and> ls_stepIndex s \<noteq> None)
                                        (rev (tk_laneSessions t));
                          i = resume_index (length steps) latestRun
                      in Some (steps ! i, i))"

section \<open>The end of a lane\<close>

fun lane_complete_loop :: "nat \<Rightarrow> string \<Rightarrow> lane_session list \<Rightarrow> bool" where
  "lane_complete_loop n columnId [] = False"
| "lane_complete_loop n columnId (entry # rest) =
     (if ls_columnId entry \<noteq> Some columnId then False
      else if ls_status entry \<noteq> LaneCompleted \<and> ls_status entry \<noteq> LaneTransitioned
        then lane_complete_loop n columnId rest
      else let stepIndex = (case ls_stepIndex entry of Some i \<Rightarrow> Some i
                            | None \<Rightarrow> if n = 1 then Some 0 else None)
           in if stepIndex = Some (int n - 1) then True else lane_complete_loop n columnId rest)"

definition isLaneAutomationComplete :: "task \<Rightarrow> string \<Rightarrow> column_automation option \<Rightarrow> bool" where
  "isLaneAutomationComplete t columnId automation =
     (let steps = getKanbanAutomationSteps automation
      in if length steps = 0 then False
         else lane_complete_loop (length steps) columnId (rev (tk_laneSessions t)))"

definition collectTaskSessionIds :: "task \<Rightarrow> string list" where
  "collectTaskSessionIds t =
     uniq (filter (\<lambda>i. length i > 0)
       (map ls_sessionId (tk_laneSessions t) @ tk_sessionIds t
        @ (case tk_triggerSessionId t of None \<Rightarrow> [] | Some i \<Rightarrow> [i])))"

section \<open>The verdict of a review\<close>

definition isReviewStageColumn :: "string \<Rightarrow> kanban_column list \<Rightarrow> bool" where
  "isReviewStageColumn columnId boardColumns =
     (case find_column boardColumns (Some columnId) of
        Some column \<Rightarrow> kc_stage column = StReview | None \<Rightarrow> columnId = ''review'')"

definition session_step :: "automation_step list \<Rightarrow> lane_session \<Rightarrow> automation_step option" where
  "session_step steps session =
     (case ls_stepIndex session of
        Some i \<Rightarrow> step_at (Some steps) i
      | None \<Rightarrow> List.find (\<lambda>entry. (truthy (ls_stepId session) \<and> as_id entry = ls_stepId session)
                    \<or> (truthy (ls_specialistId session) \<and> as_specialistId entry = ls_specialistId session)) steps)"

definition canSessionWriteVerificationVerdict :: "task \<Rightarrow> string option \<Rightarrow> kanban_column list \<Rightarrow> bool" where
  "canSessionWriteVerificationVerdict t sessionId boardColumns =
     (if \<not> truthy sessionId \<or> \<not> truthy (tk_columnId t) then False
      else case List.find (\<lambda>entry. Some (ls_sessionId entry) = sessionId) (tk_laneSessions t) of
        None \<Rightarrow> False
      | Some session \<Rightarrow>
          if ls_columnId session \<noteq> tk_columnId t then False
          else if \<not> isReviewStageColumn (the (tk_columnId t)) boardColumns then False
          else if truthy (ls_role session) then ls_role session = Some ''GATE''
          else let column = find_column boardColumns (tk_columnId t);
                   steps = getKanbanAutomationSteps (Option.bind column kc_automation)
               in Option.bind (session_step steps session) as_role = Some ''GATE'')"

definition resolveColumnIdForStage :: "kanban_column list \<Rightarrow> column_stage \<Rightarrow> string option" where
  "resolveColumnIdForStage boardColumns stage =
     map_option kc_id (List.find (\<lambda>column. kc_stage column = stage) boardColumns)"

definition isReviewStage :: "task \<Rightarrow> kanban_column list \<Rightarrow> bool" where
  "isReviewStage t boardColumns =
     (map_option kc_stage (find_column boardColumns (tk_columnId t)) = Some StReview
      \<or> tk_columnId t = Some ''review'')"

definition resolveReviewLaneConvergenceTarget :: "task \<Rightarrow> kanban_column list \<Rightarrow> string option" where
  "resolveReviewLaneConvergenceTarget t boardColumns =
     (case tk_verificationVerdict t of None \<Rightarrow> None | Some verdict \<Rightarrow>
        if \<not> isReviewStage t boardColumns then None
        else if la_hasRemainingSteps (resolveCurrentLaneAutomationState t boardColumns None None) then None
        else Some (case verdict of
               VV_APPROVED \<Rightarrow> orDefault (resolveColumnIdForStage boardColumns StDone) ''done''
             | VV_NOT_APPROVED \<Rightarrow> orDefault (resolveColumnIdForStage boardColumns StDev) ''dev''
             | VV_BLOCKED \<Rightarrow> orDefault (resolveColumnIdForStage boardColumns StBlocked) ''blocked''))"

record transition_data =
  td_cardId :: string
  td_cardTitle :: string
  td_boardId :: string
  td_workspaceId :: string
  td_fromColumnId :: string
  td_toColumnId :: string
  td_fromColumnName :: "string option"
  td_toColumnName :: "string option"
  td_laneRerun :: "bool option"

text \<open>An empty column id is falsy: the card stays when the target would be one.\<close>

definition applyReviewLaneConvergence :: "task \<Rightarrow> kanban_column list \<Rightarrow> task \<times> transition_data option" where
  "applyReviewLaneConvergence t boardColumns =
     (let fromColumnId = tk_columnId t;
          toColumnId = resolveReviewLaneConvergenceTarget t boardColumns
      in if \<not> truthy toColumnId \<or> toColumnId = fromColumnId then (t, None)
         else let moved = (archiveActiveTaskSession t)\<lparr>tk_triggerSessionId := None, tk_columnId := toColumnId,
                            tk_status := resolveTaskStatusForBoardColumn boardColumns toColumnId,
                            tk_lastSyncError := None\<rparr>
              in (moved,
                  if \<not> truthy (tk_boardId t) \<or> \<not> truthy fromColumnId then None
                  else Some \<lparr>td_cardId = tk_id t, td_cardTitle = tk_title t, td_boardId = the (tk_boardId t),
                         td_workspaceId = tk_workspaceId t, td_fromColumnId = the fromColumnId,
                         td_toColumnId = the toColumnId,
                         td_fromColumnName = map_option kc_name (find_column boardColumns fromColumnId),
                         td_toColumnName = map_option kc_name (find_column boardColumns toColumnId),
                         td_laneRerun = None\<rparr>))"

section \<open>Running the review lane again\<close>

definition REVIEW_LANE_RERUN_LIMIT :: nat where
  "REVIEW_LANE_RERUN_LIMIT = 2"

definition isReviewLaneRerunMove :: "string \<Rightarrow> kanban_column \<Rightarrow> bool" where
  "isReviewLaneRerunMove fromColumnId targetColumn =
     (fromColumnId = kc_id targetColumn \<and> kc_stage targetColumn = StReview
      \<and> map_option ca_enabled (kc_automation targetColumn) = Some True
      \<and> length (getKanbanAutomationSteps (kc_automation targetColumn)) > 0)"

fun rerun_count_loop :: "string \<Rightarrow> lane_session list \<Rightarrow> nat \<Rightarrow> nat" where
  "rerun_count_loop columnId [] n = n"
| "rerun_count_loop columnId (entry # rest) n =
     (if ls_columnId entry \<noteq> Some columnId then n
      else rerun_count_loop columnId rest (if truthy (ls_laneRerunRequestedAt entry) then n + 1 else n))"

definition countLaneRerunRequests :: "task \<Rightarrow> string \<Rightarrow> nat" where
  "countLaneRerunRequests t columnId = rerun_count_loop columnId (rev (tk_laneSessions t)) 0"

text \<open>The record that is marked, by its place in the list: the first one of the trigger session, or
  the last one of the column.\<close>

definition last_index :: "('a \<Rightarrow> bool) \<Rightarrow> 'a list \<Rightarrow> nat option" where
  "last_index P xs = map_option (\<lambda>i. length xs - 1 - i) (find_index P (rev xs))"

definition rerun_mark_index :: "task \<Rightarrow> string \<Rightarrow> nat option" where
  "rerun_mark_index t columnId =
     (case getTaskLaneSession t (tk_triggerSessionId t) of
        Some trigger \<Rightarrow> if ls_columnId trigger = Some columnId then session_index (ls_sessionId trigger) t
          else last_index (\<lambda>s. ls_columnId s = Some columnId) (tk_laneSessions t)
      | None \<Rightarrow> last_index (\<lambda>s. ls_columnId s = Some columnId) (tk_laneSessions t))"

definition markLaneRerunRequest :: "string \<Rightarrow> task \<Rightarrow> string \<Rightarrow> task" where
  "markLaneRerunRequest nowIso t columnId =
     (case rerun_mark_index t columnId of
        None \<Rightarrow> t
      | Some i \<Rightarrow> t\<lparr>tk_laneSessions := (tk_laneSessions t)[i := (tk_laneSessions t ! i)\<lparr>ls_laneRerunRequestedAt := Some nowIso\<rparr>]\<rparr>)"

section \<open>Moves between columns\<close>

definition transition_type_of :: "column_automation option \<Rightarrow> transition_type" where
  "transition_type_of automation = orDefault (Option.bind automation ca_transitionType) TtEntry"

definition enabled_automation :: "kanban_column option \<Rightarrow> column_automation option" where
  "enabled_automation column =
     (case Option.bind column kc_automation of
        Some a \<Rightarrow> if ca_enabled a then Some a else None | None \<Rightarrow> None)"

definition resolveTransitionAutomation ::
  "kanban_column list \<Rightarrow> transition_data \<Rightarrow> (kanban_column \<times> column_automation) option" where
  "resolveTransitionAutomation columns d =
     (let sourceColumn = find_column columns (Some (td_fromColumnId d));
          targetColumn = find_column columns (Some (td_toColumnId d));
          sourceType = transition_type_of (Option.bind sourceColumn kc_automation);
          targetType = transition_type_of (Option.bind targetColumn kc_automation)
      in case (if sourceType = TtExit \<or> sourceType = TtBoth then enabled_automation sourceColumn else None) of
           Some a \<Rightarrow> Some (the sourceColumn, a)
         | None \<Rightarrow>
             (case (if targetType = TtEntry \<or> targetType = TtBoth then enabled_automation targetColumn else None) of
                Some a \<Rightarrow> Some (the targetColumn, a) | None \<Rightarrow> None))"

definition js_flag :: "string \<Rightarrow> bool option \<Rightarrow> (string \<times> json) list" where
  "js_flag name v = (case v of None \<Rightarrow> [] | Some b \<Rightarrow> [(name, JBool b)])"

definition js_name :: "string \<Rightarrow> string option \<Rightarrow> (string \<times> json) list" where
  "js_name name v = (case v of None \<Rightarrow> [] | Some s \<Rightarrow> [(name, JStr s)])"

text \<open>The transition as the data of an event: a property that is \<open>undefined\<close> reads as one that is absent.\<close>

definition js_of_transition :: "transition_data \<Rightarrow> (string \<times> json) list" where
  "js_of_transition d =
     [(''cardId'', JStr (td_cardId d)), (''cardTitle'', JStr (td_cardTitle d)), (''boardId'', JStr (td_boardId d)),
      (''workspaceId'', JStr (td_workspaceId d)), (''fromColumnId'', JStr (td_fromColumnId d)),
      (''toColumnId'', JStr (td_toColumnId d))]
     @ js_name ''fromColumnName'' (td_fromColumnName d) @ js_name ''toColumnName'' (td_toColumnName d)
     @ js_flag ''laneRerun'' (td_laneRerun d)"

definition emitColumnTransition :: "int \<Rightarrow> transition_data \<Rightarrow> event_bus \<Rightarrow> event_bus \<times> bus_call list" where
  "emitColumnTransition now d b =
     emit \<lparr>ev_type = COLUMN_TRANSITION, ev_agentId = ''kanban-system'', ev_workspaceId = td_workspaceId d,
           ev_data = js_of_transition d, ev_timestamp = now\<rparr> b"

definition handlerKey :: string where
  "handlerKey = ''kanban-column-transition-handler''"

definition transition_start :: "event_bus \<Rightarrow> event_bus" where
  "transition_start b = bus_on handlerKey ClientHandler b"

definition transition_stop :: "event_bus \<Rightarrow> event_bus" where
  "transition_stop b = bus_off handlerKey b"

record transition_trigger =
  tt_workspaceId :: string
  tt_boardId :: string
  tt_cardId :: string
  tt_cardTitle :: string
  tt_columnId :: string
  tt_columnName :: string
  tt_automation :: column_automation

text \<open>
  \<open>handleTransition\<close>: what \<open>onTrigger\<close> is called with, if it is called. The board store is the
  argument \<open>boards\<close>; an exception of the callback is caught.
\<close>

definition handleTransition :: "(string \<Rightarrow> kanban_board option) \<Rightarrow> transition_data \<Rightarrow> transition_trigger option" where
  "handleTransition boards d =
     (case boards (td_boardId d) of None \<Rightarrow> None | Some board \<Rightarrow>
        (case resolveTransitionAutomation (kb_columns board) d of None \<Rightarrow> None | Some (column, automation) \<Rightarrow>
           Some \<lparr>tt_workspaceId = td_workspaceId d, tt_boardId = td_boardId d, tt_cardId = td_cardId d,
                 tt_cardTitle = td_cardTitle d, tt_columnId = kc_id column, tt_columnName = kc_name column,
                 tt_automation = automation\<rparr>))"

end
