(* ===== verification/LaneAutomationProps.thy ===== *)
theory LaneAutomationProps
  imports LaneAutomation
begin

text \<open>
  The properties of the lane steps: the current step of a lane is in range and fits the guard on
  leaving the lane; a manual rerun walks through all steps; only a review gate of the card's own
  review column writes a verdict; what the verdict of a finished review does to the card.
\<close>

section \<open>The current step\<close>

lemma step_at_Some_iff: "step_at (Some ss) i = Some s \<longleftrightarrow> 0 \<le> i \<and> i < int (length ss) \<and> s = ss ! nat i"
  by (auto simp: step_at_def)

lemma in_range_Some: "in_range xs (Some k) \<longleftrightarrow> 0 \<le> k \<and> k < int (length xs)"
  by (simp add: in_range_def)

lemma in_range_None [simp]: "\<not> in_range xs None"
  by (simp add: in_range_def)

lemma best_step_loop_range:
  "(\<forall>i. fst best = Some i \<longrightarrow> i < n) \<Longrightarrow> \<forall>(i, s)\<in>set ps. i < n \<Longrightarrow> fst (best_step_loop t ps best) = Some i \<Longrightarrow> i < n"
  by (induction t ps best rule: best_step_loop.induct) (auto simp: Let_def split: if_splits)

lemma find_from_assignment_range:
  assumes "findStepIndexFromTaskAssignment steps t = Some i" shows "i < length steps"
proof -
  have "\<forall>(k, s)\<in>set (List.enumerate 0 steps). k < length steps" by (auto simp: in_set_enumerate_eq)
  then show ?thesis
    using best_step_loop_range [of "(None, - 1)" "length steps" "List.enumerate 0 steps" t i] assms
    by (simp add: findStepIndexFromTaskAssignment_def Let_def split: if_splits)
qed

lemma resolve_step_index_range:
  "resolve_step_index steps t e s = Some i \<Longrightarrow> 0 \<le> i \<and> i < int (length steps)"
  by (auto simp: resolve_step_index_def Let_def in_range_def dest: find_from_assignment_range
      split: if_splits option.splits)

lemma candidates_trigger:
  "findCurrentLaneSession t c (tk_triggerSessionId t) = findCurrentLaneSession t c None"
  by (cases "tk_triggerSessionId t") (auto simp: findCurrentLaneSession_def split: option.splits)

lemma state_trigger:
  "resolveCurrentLaneAutomationState t cols (tk_triggerSessionId t) e = resolveCurrentLaneAutomationState t cols None e"
  by (simp add: resolveCurrentLaneAutomationState_def candidates_trigger)

text \<open>The step is known or the lane has no step or several; the next step exists exactly when the
  current one is known and is not the last.\<close>

lemma state_index:
  fixes t :: task and cols :: "kanban_column list" and s :: "string option" and e :: "int option"
  assumes "la_currentStepIndex (resolveCurrentLaneAutomationState t cols s e) = Some i"
  defines "st \<equiv> resolveCurrentLaneAutomationState t cols s e"
  shows "0 \<le> i \<and> i < int (length (la_steps st)) \<and> la_currentStep st = Some (la_steps st ! nat i)"
  using assms resolve_step_index_range
  by (auto simp: resolveCurrentLaneAutomationState_def Let_def step_at_def)

lemma state_next:
  fixes t :: task and cols :: "kanban_column list" and s :: "string option" and e :: "int option"
  defines "st \<equiv> resolveCurrentLaneAutomationState t cols s e"
  shows "la_nextStep st \<noteq> None \<longleftrightarrow> (\<exists>i. la_currentStepIndex st = Some i \<and> i + 1 < int (length (la_steps st)))"
proof (cases "la_currentStepIndex st")
  case None
  then show ?thesis by (simp add: st_def resolveCurrentLaneAutomationState_def Let_def)
next
  case (Some i)
  then have "0 \<le> i" using state_index [of t cols s e i] by (simp add: st_def)
  then show ?thesis using Some
    by (auto simp: st_def resolveCurrentLaneAutomationState_def Let_def step_at_def)
qed

lemma state_remaining:
  fixes t :: task and cols :: "kanban_column list" and s :: "string option" and e :: "int option"
  defines "st \<equiv> resolveCurrentLaneAutomationState t cols s e"
  shows "la_hasRemainingSteps st \<longleftrightarrow> la_nextStep st \<noteq> None \<or> (la_currentStepIndex st = None \<and> 1 < length (la_steps st))"
  using state_next [of t cols s e]
  by (auto simp: st_def resolveCurrentLaneAutomationState_def Let_def split: option.splits)

lemma block_iff:
  "resolveRemainingLaneStepsMoveBlock t cols \<noteq> None
   \<longleftrightarrow> truthy (tk_triggerSessionId t) \<and> la_nextStep (resolveCurrentLaneAutomationState t cols None None) \<noteq> None"
  using state_remaining [of t cols None None]
  by (auto simp: resolveRemainingLaneStepsMoveBlock_def buildRemainingLaneStepsMessage_def state_trigger Let_def)

definition lane_steps :: "task \<Rightarrow> kanban_column list \<Rightarrow> automation_step list" where
  "lane_steps t cols =
     getKanbanAutomationSteps (Option.bind (find_column cols (Some (orDefault (tk_columnId t) ''backlog''))) kc_automation)"

lemma state_of_trigger_run:
  assumes "getTaskLaneSession t (tk_triggerSessionId t) = Some run"
    and "ls_columnId run = Some (orDefault (tk_columnId t) ''backlog'')"
    and "ls_stepIndex run = Some i" and "0 \<le> i" and "i < int (length (lane_steps t cols))"
  shows "la_currentStepIndex (resolveCurrentLaneAutomationState t cols None None) = Some i"
proof -
  have "truthy (tk_triggerSessionId t)" using assms(1) by (auto simp: getTaskLaneSession_def split: if_splits)
  then have "findCurrentLaneSession t (orDefault (tk_columnId t) ''backlog'') None = Some run"
    using assms(1,2) by (cases "tk_triggerSessionId t") (auto simp: findCurrentLaneSession_def)
  then show ?thesis using assms(3-5)
    by (simp add: resolveCurrentLaneAutomationState_def Let_def resolve_step_index_def in_range_def lane_steps_def)
qed

lemma la_steps_lane [simp]: "la_steps (resolveCurrentLaneAutomationState t cols s e) = lane_steps t cols"
  by (simp add: resolveCurrentLaneAutomationState_def Let_def lane_steps_def)

text \<open>The guard on leaving a lane and the review's own move agree: when the card's session is the recorded run of step i of its column, a move out of the column is refused exactly when a step after i remains, and a final review verdict moves the card on only when the guard would let it go, never from the middle of a lane.\<close>
theorem convergence_respects_guard:
  assumes "getTaskLaneSession t (tk_triggerSessionId t) = Some run"
    and "ls_columnId run = Some (orDefault (tk_columnId t) ''backlog'')"
    and "ls_stepIndex run = Some i" and "0 \<le> i" and "i < int (length (lane_steps t cols))"
  shows "(resolveRemainingLaneStepsMoveBlock t cols \<noteq> None \<longleftrightarrow> i + 1 < int (length (lane_steps t cols)))
    \<and> (resolveReviewLaneConvergenceTarget t cols \<noteq> None
        \<longleftrightarrow> tk_verificationVerdict t \<noteq> None \<and> isReviewStage t cols \<and> resolveRemainingLaneStepsMoveBlock t cols = None)"
proof -
  have idx: "la_currentStepIndex (resolveCurrentLaneAutomationState t cols None None) = Some i"
    using assms by (rule state_of_trigger_run)
  have nxt: "la_nextStep (resolveCurrentLaneAutomationState t cols None None) \<noteq> None \<longleftrightarrow> i + 1 < int (length (lane_steps t cols))"
    using state_next [of t cols None None] idx by simp
  have "truthy (tk_triggerSessionId t)" using assms(1) by (auto simp: getTaskLaneSession_def split: if_splits)
  then have blk: "resolveRemainingLaneStepsMoveBlock t cols \<noteq> None \<longleftrightarrow> i + 1 < int (length (lane_steps t cols))"
    using block_iff [of t cols] nxt by simp
  have "la_hasRemainingSteps (resolveCurrentLaneAutomationState t cols None None) \<longleftrightarrow> i + 1 < int (length (lane_steps t cols))"
    using state_remaining [of t cols None None] nxt idx by simp
  then show ?thesis using blk
    by (auto simp: resolveReviewLaneConvergenceTarget_def split: option.split verification_verdict.split)
qed

section \<open>The step a rerun starts at\<close>

lemma resume_index_range: "0 < n \<Longrightarrow> resume_index n run < n"
  by (auto simp: resume_index_def Let_def split: option.split)

text \<open>The record of a run of step \<open>k\<close> of the card's column that ended normally.\<close>

definition run_of_step :: "task \<Rightarrow> lane_session \<Rightarrow> nat \<Rightarrow> lane_session" where
  "run_of_step t base k =
     base\<lparr>ls_columnId := Some (orDefault (tk_columnId t) ''backlog''), ls_stepIndex := Some (int k), ls_status := LaneCompleted\<rparr>"

text \<open>A round: the step that the rerun picks is run and ends normally.\<close>

definition rerun_round :: "kanban_column list \<Rightarrow> lane_session \<Rightarrow> task \<Rightarrow> task" where
  "rerun_round cols base t =
     (case resolveLaneResumeStep t cols of None \<Rightarrow> t
      | Some (step, k) \<Rightarrow> t\<lparr>tk_laneSessions := tk_laneSessions t @ [run_of_step t base k]\<rparr>)"

lemma resume_value:
  assumes "map_option ca_enabled (Option.bind (find_column cols (Some (orDefault (tk_columnId t) ''backlog''))) kc_automation) = Some True"
    and "lane_steps t cols \<noteq> []"
  shows "resolveLaneResumeStep t cols =
    (let k = resume_index (length (lane_steps t cols))
               (List.find (\<lambda>s. ls_columnId s = Some (orDefault (tk_columnId t) ''backlog'') \<and> ls_stepIndex s \<noteq> None) (rev (tk_laneSessions t)))
     in Some (lane_steps t cols ! k, k))"
  using assms by (simp add: resolveLaneResumeStep_def lane_steps_def Let_def)

definition resume_ready :: "kanban_column list \<Rightarrow> task \<Rightarrow> bool" where
  "resume_ready cols t =
     (map_option ca_enabled (Option.bind (find_column cols (Some (orDefault (tk_columnId t) ''backlog''))) kc_automation) = Some True
      \<and> lane_steps t cols \<noteq> [])"

lemma round_frame:
  "resume_ready cols t \<Longrightarrow> resume_ready cols (rerun_round cols base t)
     \<and> tk_columnId (rerun_round cols base t) = tk_columnId t
     \<and> lane_steps (rerun_round cols base t) cols = lane_steps t cols"
  by (auto simp: resume_ready_def rerun_round_def lane_steps_def split: option.split)

lemma round_next:
  assumes "resume_ready cols t" and "resolveLaneResumeStep t cols = Some (s, k)"
  shows "map_option snd (resolveLaneResumeStep (rerun_round cols base t) cols)
       = Some (if k + 1 < length (lane_steps t cols) then k + 1 else 0)"
proof -
  let ?u = "rerun_round cols base t"
  have k: "k < length (lane_steps t cols)"
    using assms resume_index_range by (auto simp: resume_ready_def resume_value Let_def)
  have u: "?u = t\<lparr>tk_laneSessions := tk_laneSessions t @ [run_of_step t base k]\<rparr>"
    using assms(2) by (simp add: rerun_round_def)
  have "resume_ready cols ?u" using round_frame assms(1) by blast
  then show ?thesis using k
    by (simp add: resume_ready_def resume_value Let_def u run_of_step_def lane_steps_def resume_index_def)
qed

lemma resume_step_at:
  "resume_ready cols t \<Longrightarrow> resolveLaneResumeStep t cols = Some (s, k) \<Longrightarrow> s = lane_steps t cols ! k"
  by (auto simp: resume_ready_def resume_value Let_def)

lemma rounds_frame:
  "resume_ready cols t \<Longrightarrow> resume_ready cols ((rerun_round cols base ^^ j) t)
     \<and> lane_steps ((rerun_round cols base ^^ j) t) cols = lane_steps t cols"
  using round_frame by (induction j) auto

text \<open>Running a lane by hand makes progress: on an automated column without a recorded run the reruns start the steps 0, 1, 2, ... in turn, each once, and begin again at step 0 after the last; a step that did not complete is started again before any later step.\<close>
theorem resume_covers_all_steps:
  assumes "resume_ready cols t"
    and "\<forall>s\<in>set (tk_laneSessions t). ls_columnId s \<noteq> Some (orDefault (tk_columnId t) ''backlog'')"
  shows "resolveLaneResumeStep ((rerun_round cols base ^^ j) t) cols
       = Some (lane_steps t cols ! (j mod length (lane_steps t cols)), j mod length (lane_steps t cols))
    \<and> (\<forall>(run :: lane_session) k. ls_columnId run = Some (orDefault (tk_columnId t) ''backlog'') \<and> ls_stepIndex run = Some (int k)
         \<and> k < length (lane_steps t cols) \<and> ls_status run \<notin> {LaneCompleted, LaneTransitioned}
         \<longrightarrow> resolveLaneResumeStep (t\<lparr>tk_laneSessions := tk_laneSessions t @ [run]\<rparr>) cols = Some (lane_steps t cols ! k, k))"
proof (intro conjI allI impI)
  let ?n = "length (lane_steps t cols)"
  let ?T = "\<lambda>j. (rerun_round cols base ^^ j) t"
  have frame: "resume_ready cols (?T j) \<and> lane_steps (?T j) cols = lane_steps t cols" for j
    using rounds_frame assms(1) by blast
  have "map_option snd (resolveLaneResumeStep (?T j) cols) = Some (j mod ?n)" for j
  proof (induction j)
    case 0
    have "List.find (\<lambda>s. ls_columnId s = Some (orDefault (tk_columnId t) ''backlog'') \<and> ls_stepIndex s \<noteq> None)
            (rev (tk_laneSessions t)) = None"
      using assms(2) by (auto simp: find_None_iff)
    then show ?case using assms(1) by (simp add: resume_ready_def resume_value Let_def resume_index_def)
  next
    case (Suc j)
    then obtain s where "resolveLaneResumeStep (?T j) cols = Some (s, j mod ?n)" by auto
    then have "map_option snd (resolveLaneResumeStep (?T (Suc j)) cols) = Some (if j mod ?n + 1 < ?n then j mod ?n + 1 else 0)"
      using round_next [of cols "?T j" s "j mod ?n" base] frame [of j] by simp
    moreover have "j mod ?n < ?n" using assms(1) by (simp add: resume_ready_def)
    then have "(if j mod ?n + 1 < ?n then j mod ?n + 1 else 0) = Suc j mod ?n" by (auto simp: mod_Suc)
    ultimately show ?case by simp
  qed
  then show "resolveLaneResumeStep (?T j) cols = Some (lane_steps t cols ! (j mod ?n), j mod ?n)"
    using frame [of j] resume_step_at by fastforce
next
  fix run :: lane_session and k
  assume "ls_columnId run = Some (orDefault (tk_columnId t) ''backlog'') \<and> ls_stepIndex run = Some (int k)
         \<and> k < length (lane_steps t cols) \<and> ls_status run \<notin> {LaneCompleted, LaneTransitioned}"
  then show "resolveLaneResumeStep (t\<lparr>tk_laneSessions := tk_laneSessions t @ [run]\<rparr>) cols = Some (lane_steps t cols ! k, k)"
    using assms(1) by (auto simp: resolveLaneResumeStep_def resume_ready_def lane_steps_def Let_def resume_index_def)
qed


section \<open>Starting a step\<close>

lemma same_self: "truthy (as_id s) \<Longrightarrow> isSameAutomationStep s (step_ref_of s)"
  by (simp add: isSameAutomationStep_def step_ref_of_def)

lemma launch_sound:
  "resolveLaunchStepIndex steps (Some s) i = Some k
   \<Longrightarrow> 0 \<le> k \<and> k < int (length steps) \<and> isSameAutomationStep (steps ! nat k) s"
  by (auto simp: resolveLaunchStepIndex_def in_range_def dest!: find_index_Some split: if_splits option.splits)

section \<open>The verdict\<close>

lemma find_column_id: "find_column cols i = Some c \<Longrightarrow> Some (kc_id c) = i \<and> c \<in> set cols"
  by (auto simp: find_column_def dest: find_Some_iff_set)

lemma find_column_unique: "distinct (map kc_id cols) \<Longrightarrow> c \<in> set cols \<Longrightarrow> find_column cols (Some (kc_id c)) = Some c"
  by (induction cols) (force simp: find_column_def)+

lemma step_at_mem: "step_at (Some steps) i = Some s \<Longrightarrow> s \<in> set steps"
  by (auto simp: step_at_def split: if_splits)

lemma session_step_mem: "session_step steps run = Some s \<Longrightarrow> s \<in> set steps"
  by (auto simp: session_step_def dest: find_Some_iff_set step_at_mem split: option.splits)

text \<open>Only the gate of a review records its verdict: a session that may write it is a recorded run of the card's present column, that column is a review column, and the run is a GATE run, by its own role or by the step of the column it ran; nobody may write it once the card has been moved to a column that is no review column.\<close>
theorem verdict_needs_gate:
  "(canSessionWriteVerificationVerdict t s cols \<longrightarrow>
      (\<exists>run. run \<in> set (tk_laneSessions t) \<and> s = Some (ls_sessionId run) \<and> ls_columnId run = tk_columnId t
        \<and> tk_columnId t \<noteq> None \<and> isReviewStageColumn (the (tk_columnId t)) cols
        \<and> (ls_role run = Some ''GATE''
           \<or> (\<not> truthy (ls_role run) \<and> (\<exists>step\<in>set (lane_steps t cols). as_role step = Some ''GATE'')))))
   \<and> (\<not> isReviewStageColumn c cols \<longrightarrow> \<not> canSessionWriteVerificationVerdict (t\<lparr>tk_columnId := Some c\<rparr>) s cols)"
proof (intro conjI impI)
  assume can: "canSessionWriteVerificationVerdict t s cols"
  then obtain run where run: "List.find (\<lambda>entry. Some (ls_sessionId entry) = s) (tk_laneSessions t) = Some run"
    and col: "ls_columnId run = tk_columnId t" "isReviewStageColumn (the (tk_columnId t)) cols" "truthy (tk_columnId t)"
    and role: "if truthy (ls_role run) then ls_role run = Some ''GATE''
       else Option.bind (session_step (getKanbanAutomationSteps (Option.bind (find_column cols (tk_columnId t)) kc_automation)) run) as_role = Some ''GATE''"
    by (auto simp: canSessionWriteVerificationVerdict_def Let_def split: if_splits option.splits)
  have "getKanbanAutomationSteps (Option.bind (find_column cols (tk_columnId t)) kc_automation) = lane_steps t cols"
    using col(3) by (cases "tk_columnId t") (simp_all add: lane_steps_def)
  with role have "ls_role run = Some ''GATE'' \<or> (\<not> truthy (ls_role run) \<and> (\<exists>step\<in>set (lane_steps t cols). as_role step = Some ''GATE''))"
    by (cases "session_step (lane_steps t cols) run") (auto dest: session_step_mem split: if_splits)
  moreover have "run \<in> set (tk_laneSessions t)" "s = Some (ls_sessionId run)"
    using find_Some_iff_set [OF run] by simp_all
  moreover have "tk_columnId t \<noteq> None" using col(3) by (cases "tk_columnId t") auto
  ultimately show "\<exists>run. run \<in> set (tk_laneSessions t) \<and> s = Some (ls_sessionId run) \<and> ls_columnId run = tk_columnId t
        \<and> tk_columnId t \<noteq> None \<and> isReviewStageColumn (the (tk_columnId t)) cols
        \<and> (ls_role run = Some ''GATE''
           \<or> (\<not> truthy (ls_role run) \<and> (\<exists>step\<in>set (lane_steps t cols). as_role step = Some ''GATE'')))"
    using col by blast
next
  assume "\<not> isReviewStageColumn c cols"
  then show "\<not> canSessionWriteVerificationVerdict (t\<lparr>tk_columnId := Some c\<rparr>) s cols"
    by (simp add: canSessionWriteVerificationVerdict_def split: option.split)
qed

text \<open>A board whose columns have distinct ids, none of which is the name of another stage.\<close>

definition sound_board :: "kanban_column list \<Rightarrow> bool" where
  "sound_board cols =
     (distinct (map kc_id cols)
      \<and> list_all (\<lambda>c. kc_id c \<noteq> [] \<and> list_all (\<lambda>st. kc_id c = stage_str st \<longrightarrow> kc_stage c = st)
           DEFAULT_KANBAN_COLUMN_ORDER) cols)"

lemma sound_board_named:
  "sound_board cols \<Longrightarrow> find_column cols (Some (stage_str st)) = Some c \<Longrightarrow> kc_stage c = st"
  by (cases st; drule find_column_id; auto simp: sound_board_def list_all_iff DEFAULT_KANBAN_COLUMN_ORDER_def)

definition verdict_stage :: "verification_verdict \<Rightarrow> column_stage" where
  "verdict_stage v = (case v of VV_APPROVED \<Rightarrow> StDone | VV_NOT_APPROVED \<Rightarrow> StDev | VV_BLOCKED \<Rightarrow> StBlocked)"

lemma target_stage:
  "resolveReviewLaneConvergenceTarget t cols = Some c \<Longrightarrow>
   \<exists>v. tk_verificationVerdict t = Some v \<and> isReviewStage t cols
     \<and> c = orDefault (resolveColumnIdForStage cols (verdict_stage v)) (stage_str (verdict_stage v))"
  by (auto simp: resolveReviewLaneConvergenceTarget_def verdict_stage_def
      split: option.splits if_splits verification_verdict.splits)

lemma stage_column:
  assumes "sound_board cols" and "c = orDefault (resolveColumnIdForStage cols st) (stage_str st)"
  shows "c \<noteq> [] \<and> (case find_column cols (Some c) of Some col \<Rightarrow> kc_stage col = st | None \<Rightarrow> c = stage_str st)"
proof (cases "List.find (\<lambda>column. kc_stage column = st) cols")
  case None
  then have c: "c = stage_str st" using assms(2) by (simp add: resolveColumnIdForStage_def)
  moreover have "stage_str st \<noteq> []" by (cases st) simp_all
  ultimately show ?thesis using sound_board_named [OF assms(1)] by (auto split: option.split)
next
  case (Some col)
  then have c: "c = kc_id col" using assms(2) by (simp add: resolveColumnIdForStage_def)
  have col: "col \<in> set cols" "kc_stage col = st" using find_Some_iff_set [OF Some] by simp_all
  then show ?thesis
    using assms(1) by (auto simp: c find_column_unique sound_board_def list_all_iff)
qed

lemma stage_status: "columnIdToTaskStatus (Some (stage_str st)) = columnStageToTaskStatus (Some st)"
  by (cases st; simp only:; code_simp)

lemma status_of_stage_column:
  assumes "case find_column cols (Some c) of Some col \<Rightarrow> kc_stage col = st | None \<Rightarrow> c = stage_str st"
  shows "resolveTaskStatusForBoardColumn cols (Some c) = columnStageToTaskStatus (Some st)"
  using assms by (auto simp: resolveTaskStatusForBoardColumn_def find_column_def stage_status split: option.splits)

text \<open>A final verdict moves the card of a finished review lane to the column of the verdict (Done, Dev or Blocked), with the status of that stage; the review's session is released and kept among the card's sessions, its runs are left as they are, nobody may write a verdict any more, and applying it again changes nothing.\<close>
theorem convergence_releases:
  assumes "sound_board cols" and "resolveReviewLaneConvergenceTarget t cols = Some c"
    and "applyReviewLaneConvergence t cols = (t', ev)"
  shows "\<exists>v. tk_verificationVerdict t = Some v
    \<and> tk_columnId t' = Some c \<and> tk_columnId t \<noteq> Some c
    \<and> tk_status t' = columnStageToTaskStatus (Some (verdict_stage v))
    \<and> tk_triggerSessionId t' = None \<and> tk_lastSyncError t' = None
    \<and> set (tk_sessionIds t') = set (tk_sessionIds t) \<union> {s. tk_triggerSessionId t = Some s \<and> s \<noteq> []}
    \<and> tk_laneSessions t' = tk_laneSessions t
    \<and> (\<forall>s. \<not> canSessionWriteVerificationVerdict t' s cols)
    \<and> applyReviewLaneConvergence t' cols = (t', None)"
proof -
  obtain v where v: "tk_verificationVerdict t = Some v" and rev: "isReviewStage t cols"
    and c: "c = orDefault (resolveColumnIdForStage cols (verdict_stage v)) (stage_str (verdict_stage v))"
    using target_stage [OF assms(2)] by blast
  have ne: "c \<noteq> []" and st: "case find_column cols (Some c) of Some col \<Rightarrow> kc_stage col = verdict_stage v | None \<Rightarrow> c = stage_str (verdict_stage v)"
    using stage_column [OF assms(1) c] by simp_all
  have vs: "verdict_stage v \<noteq> StReview" by (cases v) (simp_all add: verdict_stage_def)
  have noRev: "c \<noteq> ''review''"
  proof
    assume "c = ''review''"
    then have r: "c = stage_str StReview" by simp
    show False using st vs sound_board_named [OF assms(1), of StReview] r
      by (cases "find_column cols (Some c)"; cases "verdict_stage v") auto
  qed
  have notRev: "\<not> isReviewStageColumn c cols"
    using st vs noRev by (auto simp: isReviewStageColumn_def split: option.splits)
  have away: "tk_columnId t \<noteq> Some c"
    using rev st vs noRev by (auto simp: isReviewStage_def split: option.splits)
  have t': "t' = (archiveActiveTaskSession t)\<lparr>tk_triggerSessionId := None, tk_columnId := Some c,
      tk_status := resolveTaskStatusForBoardColumn cols (Some c), tk_lastSyncError := None\<rparr>"
    using assms(2,3) ne away by (auto simp: applyReviewLaneConvergence_def Let_def split: if_splits)
  have "\<not> isReviewStage t' cols" using st vs noRev by (auto simp: t' isReviewStage_def split: option.splits)
  then have "resolveReviewLaneConvergenceTarget t' cols = None"
    by (simp add: resolveReviewLaneConvergenceTarget_def split: option.split)
  then have again: "applyReviewLaneConvergence t' cols = (t', None)"
    by (simp add: applyReviewLaneConvergence_def Let_def)
  have "\<not> canSessionWriteVerificationVerdict t' s cols" for s
    using notRev by (simp add: canSessionWriteVerificationVerdict_def t' split: option.split)
  moreover have "set (tk_sessionIds t') = set (tk_sessionIds t) \<union> {s. tk_triggerSessionId t = Some s \<and> s \<noteq> []}"
    by (cases "tk_triggerSessionId t") (auto simp: t' archiveActiveTaskSession_def)
  moreover have "tk_laneSessions t' = tk_laneSessions t" by (simp add: t' archiveActiveTaskSession_def)
  ultimately show ?thesis using v away again status_of_stage_column [OF st]
    by (simp add: t')
qed


section \<open>Witnesses\<close>

definition sample_step :: "string \<Rightarrow> automation_step" where
  "sample_step role =
     \<lparr>as_id = None, as_transport = None, as_providerId = None, as_role = Some role, as_specialistId = None,
      as_specialistName = None, as_specialistLocale = None, as_model = None, as_reasoningEffort = None,
      as_agentCardUrl = None, as_skillId = None, as_authConfigId = None\<rparr>"

definition sample_automation :: "automation_step list \<Rightarrow> column_automation" where
  "sample_automation steps =
     \<lparr>ca_enabled = True, ca_steps = Some steps, ca_providerId = None, ca_role = None, ca_specialistId = None,
      ca_specialistName = None, ca_specialistLocale = None, ca_transitionType = None, ca_requiredArtifacts = None,
      ca_requiredTaskFields = None, ca_contractRules = None, ca_deliveryRules = None, ca_requiredChecklist = None,
      ca_requiredHumanApproval = None, ca_validatorCommand = None, ca_gateMode = None,
      ca_autoAdvanceOnSuccess = None\<rparr>"

definition sample_columns :: "kanban_column list" where
  "sample_columns =
     [default_column ''dev'' ''Dev'' ''amber'' 2 StDev,
      (default_column ''review'' ''Review'' ''slate'' 3 StReview)\<lparr>kc_automation :=
         Some (sample_automation [sample_step ''GATE'', sample_step ''DEVELOPER''])\<rparr>,
      default_column ''done'' ''Done'' ''emerald'' 4 StDone]"

definition review_run :: "string \<Rightarrow> int \<Rightarrow> lane_session" where
  "review_run i step = (sample_run i LaneRunning ''9'')\<lparr>ls_columnId := Some ''review'', ls_stepIndex := Some step\<rparr>"

definition sample_review :: task where
  "sample_review = (createTask concrete_host 7 ''c1'' (sample_params\<lparr>tp_jitContextSnapshot := None\<rparr>))
     \<lparr>tk_laneSessions := [sample_run ''a'' LaneCompleted ''7'', review_run ''b'' 0, review_run ''c'' 1],
      tk_columnId := Some ''review'', tk_triggerSessionId := Some ''c'',
      tk_verificationVerdict := Some VV_APPROVED\<rparr>"

lemma sample_review_steps: "length (lane_steps sample_review sample_columns) = 2"
  by code_simp

theorem convergence_respects_guard_witness:
  "resolveReviewLaneConvergenceTarget sample_review sample_columns \<noteq> None
   \<and> resolveRemainingLaneStepsMoveBlock (sample_review\<lparr>tk_triggerSessionId := Some ''b''\<rparr>) sample_columns \<noteq> None"
proof -
  let ?b = "sample_review\<lparr>tk_triggerSessionId := Some ''b''\<rparr>"
  have "getTaskLaneSession sample_review (tk_triggerSessionId sample_review) = Some (review_run ''c'' 1)"
    "ls_columnId (review_run ''c'' 1) = Some (orDefault (tk_columnId sample_review) ''backlog'')"
    "ls_stepIndex (review_run ''c'' 1) = Some 1" "tk_verificationVerdict sample_review \<noteq> None"
    "isReviewStage sample_review sample_columns" by code_simp+
  then have 1: "resolveReviewLaneConvergenceTarget sample_review sample_columns \<noteq> None"
    using convergence_respects_guard [of sample_review "review_run ''c'' 1" 1 sample_columns] sample_review_steps by simp
  have "getTaskLaneSession ?b (tk_triggerSessionId ?b) = Some (review_run ''b'' 0)"
    "ls_columnId (review_run ''b'' 0) = Some (orDefault (tk_columnId ?b) ''backlog'')"
    "ls_stepIndex (review_run ''b'' 0) = Some 0" "length (lane_steps ?b sample_columns) = 2" by code_simp+
  then show ?thesis using 1 convergence_respects_guard [of ?b "review_run ''b'' 0" 0 sample_columns] by simp
qed

theorem resume_covers_all_steps_witness:
  "map_option snd (resolveLaneResumeStep ((rerun_round sample_columns (review_run ''r'' 0) ^^ 3)
      (sample_review\<lparr>tk_laneSessions := []\<rparr>)) sample_columns) = Some 1"
proof -
  let ?t = "sample_review\<lparr>tk_laneSessions := []\<rparr>"
  have "resume_ready sample_columns ?t" "length (lane_steps ?t sample_columns) = 2" by code_simp+
  then show ?thesis
    using resume_covers_all_steps [of sample_columns ?t 3 "review_run ''r'' 0"] by simp
qed

theorem verdict_needs_gate_witness:
  "\<exists>run. run \<in> set (tk_laneSessions sample_review) \<and> Some ''b'' = Some (ls_sessionId run)
     \<and> ls_columnId run = tk_columnId sample_review"
proof -
  have "canSessionWriteVerificationVerdict sample_review (Some ''b'') sample_columns" by code_simp
  then show ?thesis
    using verdict_needs_gate [of sample_review "Some ''b''" sample_columns "''done''"] by blast
qed

theorem convergence_releases_witness:
  "tk_status (fst (applyReviewLaneConvergence sample_review sample_columns)) = TS_COMPLETED"
proof -
  have "sound_board sample_columns" "resolveReviewLaneConvergenceTarget sample_review sample_columns = Some ''done''"
    "tk_verificationVerdict sample_review = Some VV_APPROVED" by code_simp+
  then show ?thesis
    using convergence_releases [of sample_columns sample_review "''done''"
        "fst (applyReviewLaneConvergence sample_review sample_columns)"
        "snd (applyReviewLaneConvergence sample_review sample_columns)"]
    by (auto simp: verdict_stage_def columnStageToTaskStatus_def)
qed

end
