(* ===== verification/EffectiveAutomation.thy ===== *)
theory EffectiveAutomation
  imports LaneAutomation
begin

text \<open>
  src/src/core/kanban/effective-task-automation.ts: which agent runs a card, from the card's own
  assignment, its fallback agents, the steps of its column and the specialists' defaults. The
  specialist catalogue is the argument \<open>resolveSpecialist\<close>; \<^const>\<open>None\<close> is a caller without one.
\<close>

datatype provider_source = PsCard | PsLane | PsAuto | PsSpecialist | PsNone

record specialist_summary =
  sp_name :: "string option"
  sp_role :: "string option"
  sp_defaultProvider :: "string option"

type_synonym specialist_resolver = "(string \<Rightarrow> string option \<Rightarrow> specialist_summary option) option"

record resolved_step = automation_step +
  rs_providerSource :: "provider_source option"
  rs_specialistDefaultProviderId :: "string option"

datatype automation_source = AsCard | AsLane | AsNone

record effective_automation =
  ea_canRun :: bool
  ea_source :: automation_source
  ea_laneAutomation :: "column_automation option"
  ea_steps :: "resolved_step list"
  ea_stepIndex :: "nat option"
  ea_step :: "resolved_step option"
  ea_transport :: "kanban_transport option"
  ea_providerId :: "string option"
  ea_providerSource :: provider_source
  ea_role :: "string option"
  ea_specialistId :: "string option"
  ea_specialistName :: "string option"
  ea_agentCardUrl :: "string option"
  ea_skillId :: "string option"
  ea_authConfigId :: "string option"

definition normalizeProviderId :: "string option \<Rightarrow> string option" where
  "normalizeProviderId providerId = orElse (map_option trim providerId) None"

definition hasTaskAssignment :: "task \<Rightarrow> bool" where
  "hasTaskAssignment t =
     (truthy (tk_assignedProvider t) \<or> truthy (tk_assignedRole t) \<or> truthy (tk_assignedSpecialistId t)
      \<or> truthy (tk_assignedSpecialistName t))"

definition taskAssignmentMatchesStep :: "task \<Rightarrow> resolved_step \<Rightarrow> bool" where
  "taskAssignmentMatchesStep t step =
     (let assignedProvider = normalizeProviderId (tk_assignedProvider t) in
      if truthy assignedProvider \<and> normalizeProviderId (as_providerId step) \<noteq> assignedProvider then False
      else if truthy (tk_assignedRole t) \<and> as_role step \<noteq> tk_assignedRole t then False
      else if truthy (tk_assignedSpecialistId t) \<and> as_specialistId step \<noteq> tk_assignedSpecialistId t then False
      else if truthy (tk_assignedSpecialistName t) \<and> as_specialistName step \<noteq> tk_assignedSpecialistName t then False
      else True)"

definition resolveKanbanAutomationStep ::
  "automation_step \<Rightarrow> specialist_resolver \<Rightarrow> string option \<Rightarrow> resolved_step" where
  "resolveKanbanAutomationStep step resolveSpecialist autoProvider =
     (let specialist = (if truthy (as_specialistId step)
                        then Option.bind resolveSpecialist (\<lambda>f. f (the (as_specialistId step)) (as_specialistLocale step))
                        else None);
          transport = (if as_transport step = Some TrA2a then TrAcp else orDefault (as_transport step) TrAcp);
          configuredProviderId = normalizeProviderId (as_providerId step);
          autoProviderId = normalizeProviderId autoProvider;
          specialistDefaultProviderId = normalizeProviderId (Option.bind specialist sp_defaultProvider);
          providerId = nullish (nullish configuredProviderId autoProviderId) specialistDefaultProviderId;
          providerSource = (if truthy configuredProviderId then PsLane else if truthy autoProviderId then PsAuto
                            else if truthy specialistDefaultProviderId then PsSpecialist else PsNone)
      in automation_step.extend
           (step\<lparr>as_transport := Some transport, as_providerId := providerId,
                 as_role := nullish (as_role step) (Option.bind specialist sp_role),
                 as_specialistName := nullish (as_specialistName step) (Option.bind specialist sp_name)\<rparr>)
           (resolved_step.fields (Some providerSource) specialistDefaultProviderId))"

definition plain_step ::
  "string \<Rightarrow> string option \<Rightarrow> string option \<Rightarrow> string option \<Rightarrow> string option \<Rightarrow> automation_step" where
  "plain_step i provider role specialistId specialistName =
     \<lparr>as_id = Some i, as_transport = None, as_providerId = provider, as_role = role,
      as_specialistId = specialistId, as_specialistName = specialistName, as_specialistLocale = None,
      as_model = None, as_reasoningEffort = None, as_agentCardUrl = None, as_skillId = None,
      as_authConfigId = None\<rparr>"

definition buildFallbackSteps :: "fallback_agent list option \<Rightarrow> automation_step list" where
  "buildFallbackSteps chain =
     map (\<lambda>(index, agent). plain_step (''fallback-'' @ show_nat (index + 1)) (fa_providerId agent) (fa_role agent)
            (fa_specialistId agent) (fa_specialistName agent))
         (List.enumerate 0 (orDefault chain []))"

definition card_override_step :: "task \<Rightarrow> automation_step" where
  "card_override_step t =
     plain_step ''card-override'' (tk_assignedProvider t) (tk_assignedRole t) (tk_assignedSpecialistId t)
       (tk_assignedSpecialistName t)"

definition resolveEffectiveTaskAutomation ::
  "task \<Rightarrow> kanban_column list \<Rightarrow> specialist_resolver \<Rightarrow> string option \<Rightarrow> effective_automation" where
  "resolveEffectiveTaskAutomation t boardColumns resolveSpecialist autoProvider =
     (let laneAutomation = Option.bind (find_column boardColumns (Some (orDefault (tk_columnId t) ''backlog''))) kc_automation;
          enabledLaneAutomation = (case laneAutomation of Some a \<Rightarrow> if ca_enabled a then Some a else None | None \<Rightarrow> None);
          resolvedLaneSteps = map (\<lambda>s. resolveKanbanAutomationStep s resolveSpecialist autoProvider)
                                (getKanbanAutomationSteps enabledLaneAutomation);
          hasCardOverride = (hasTaskAssignment t \<and> \<not> list_ex (taskAssignmentMatchesStep t) resolvedLaneSteps);
          canRun = (hasCardOverride \<or> enabledLaneAutomation \<noteq> None);
          fallbackSteps = (if trueOpt (tk_enableAutomaticFallback t)
                           then buildFallbackSteps (tk_fallbackAgentChain t) else []);
          steps = (if hasCardOverride
                   then map (\<lambda>s. resolveKanbanAutomationStep s resolveSpecialist autoProvider)
                          (card_override_step t # fallbackSteps)
                   else resolvedLaneSteps);
          step = (case steps of [] \<Rightarrow> None | s # _ \<Rightarrow> Some s);
          ownProvider = normalizeProviderId (tk_assignedProvider t);
          defaultRole = (if canRun then Some ''DEVELOPER'' else None)
      in \<lparr>ea_canRun = canRun,
          ea_source = (if hasCardOverride then AsCard else if enabledLaneAutomation \<noteq> None then AsLane else AsNone),
          ea_laneAutomation = enabledLaneAutomation, ea_steps = steps,
          ea_stepIndex = (if step \<noteq> None then Some 0 else None), ea_step = step,
          ea_transport = nullish (Option.bind step as_transport) (if canRun then Some TrAcp else None),
          ea_providerId = (if hasCardOverride then nullish ownProvider (Option.bind step as_providerId)
                           else Option.bind step as_providerId),
          ea_providerSource = (if hasCardOverride \<and> truthy ownProvider then PsCard
                               else orDefault (Option.bind step rs_providerSource) PsNone),
          ea_role = (if hasCardOverride
                     then nullish (nullish (tk_assignedRole t) (Option.bind step as_role)) defaultRole
                     else nullish (Option.bind step as_role) defaultRole),
          ea_specialistId = (if hasCardOverride then nullish (tk_assignedSpecialistId t) (Option.bind step as_specialistId)
                             else Option.bind step as_specialistId),
          ea_specialistName = (if hasCardOverride
                     then nullish (tk_assignedSpecialistName t) (Option.bind step as_specialistName)
                     else Option.bind step as_specialistName),
          ea_agentCardUrl = Option.bind step as_agentCardUrl, ea_skillId = Option.bind step as_skillId,
          ea_authConfigId = Option.bind step as_authConfigId\<rparr>)"

section \<open>Lemmas\<close>

lemma normalizeProviderId_ok: "normalizeProviderId p = Some s \<Longrightarrow> s \<noteq> [] \<and> trimmed s"
  by (cases p) (auto simp: normalizeProviderId_def orElse_def split: if_splits)

lemma normalizeProviderId_truthy [simp]: "truthy (normalizeProviderId p) \<longleftrightarrow> normalizeProviderId p \<noteq> None"
  using normalizeProviderId_ok by (cases "normalizeProviderId p") auto

lemma resolved_provider:
  "as_providerId (resolveKanbanAutomationStep s r a) = Some p \<Longrightarrow> p \<noteq> [] \<and> trimmed p"
  by (auto simp: resolveKanbanAutomationStep_def Let_def automation_step.defs resolved_step.defs
      dest: normalizeProviderId_ok split: if_splits option.splits simp: nullish_def)

lemma resolved_fields [simp]:
  "as_transport (resolveKanbanAutomationStep s r a) = Some TrAcp"
  "as_id (resolveKanbanAutomationStep s r a) = as_id s"
  "as_specialistId (resolveKanbanAutomationStep s r a) = as_specialistId s"
  by (auto simp: resolveKanbanAutomationStep_def Let_def automation_step.defs split: if_splits)
     (metis kanban_transport.exhaust not_None_eq orDefault_simps)

lemma resolved_source:
  "\<exists>src. rs_providerSource (resolveKanbanAutomationStep s r a) = Some src \<and> src \<noteq> PsCard
     \<and> (src = PsNone \<longleftrightarrow> as_providerId (resolveKanbanAutomationStep s r a) = None)
     \<and> (src = PsLane \<longleftrightarrow> normalizeProviderId (as_providerId s) \<noteq> None)
     \<and> (src = PsAuto \<longleftrightarrow> normalizeProviderId (as_providerId s) = None \<and> normalizeProviderId a \<noteq> None)"
  by (auto simp: resolveKanbanAutomationStep_def Let_def automation_step.defs resolved_step.defs nullish_def
      split: option.splits)

lemma enabled_steps_nonempty: "ca_enabled a \<Longrightarrow> getKanbanAutomationSteps (Some a) \<noteq> []"
  by (simp add: getKanbanAutomationSteps_def Let_def)

lemma no_automation_no_steps [simp]: "getKanbanAutomationSteps None = []"
  by (simp add: getKanbanAutomationSteps_def)

text \<open>The enabled automation of the card's column, and whether the card's own assignment replaces it.\<close>

definition enabled_lane :: "task \<Rightarrow> kanban_column list \<Rightarrow> column_automation option" where
  "enabled_lane t cols =
     enabled_automation (find_column cols (Some (orDefault (tk_columnId t) ''backlog'')))"

definition card_overrides :: "task \<Rightarrow> kanban_column list \<Rightarrow> specialist_resolver \<Rightarrow> string option \<Rightarrow> bool" where
  "card_overrides t cols r a =
     (hasTaskAssignment t
      \<and> \<not> list_ex (\<lambda>s. taskAssignmentMatchesStep t (resolveKanbanAutomationStep s r a))
            (getKanbanAutomationSteps (enabled_lane t cols)))"

definition steps_to_run :: "task \<Rightarrow> kanban_column list \<Rightarrow> specialist_resolver \<Rightarrow> string option \<Rightarrow> automation_step list" where
  "steps_to_run t cols r a =
     (if card_overrides t cols r a
      then card_override_step t # (if trueOpt (tk_enableAutomaticFallback t)
        then buildFallbackSteps (tk_fallbackAgentChain t) else [])
      else getKanbanAutomationSteps (enabled_lane t cols))"

lemma override_fold:
  "(hasTaskAssignment t \<and> \<not> list_ex (taskAssignmentMatchesStep t)
      (map (\<lambda>s. resolveKanbanAutomationStep s r a) (getKanbanAutomationSteps (enabled_lane t cols))))
   = card_overrides t cols r a"
  by (simp add: card_overrides_def list_ex_iff)

lemma effective_fields:
  fixes t cols r a
  defines "e \<equiv> resolveEffectiveTaskAutomation t cols r a"
    and "ov \<equiv> card_overrides t cols r a" and "lane \<equiv> enabled_lane t cols"
  shows "ea_canRun e \<longleftrightarrow> ov \<or> lane \<noteq> None"
    and "ea_source e = (if ov then AsCard else if lane \<noteq> None then AsLane else AsNone)"
    and "ea_steps e = map (\<lambda>s. resolveKanbanAutomationStep s r a) (steps_to_run t cols r a)"
    and "ea_step e = (case ea_steps e of [] \<Rightarrow> None | s # _ \<Rightarrow> Some s)"
    and "ea_transport e = nullish (Option.bind (ea_step e) as_transport) (if ea_canRun e then Some TrAcp else None)"
    and "ea_providerId e = nullish (if ov then normalizeProviderId (tk_assignedProvider t) else None) (Option.bind (ea_step e) as_providerId)"
    and "ea_providerSource e = (if ov \<and> normalizeProviderId (tk_assignedProvider t) \<noteq> None then PsCard
           else orDefault (Option.bind (ea_step e) rs_providerSource) PsNone)"
    and "ea_role e = nullish (nullish (if ov then tk_assignedRole t else None) (Option.bind (ea_step e) as_role))
           (if ea_canRun e then Some ''DEVELOPER'' else None)"
  unfolding e_def ov_def lane_def resolveEffectiveTaskAutomation_def Let_def
    enabled_automation_def [symmetric] enabled_lane_def [symmetric]
  unfolding override_fold steps_to_run_def
  by (simp_all add: if_distrib [of "map _"] cong: if_cong)

lemma lane_steps_exist: "getKanbanAutomationSteps (enabled_lane t cols) \<noteq> [] \<longleftrightarrow> enabled_lane t cols \<noteq> None"
proof (cases "enabled_lane t cols")
  case (Some l)
  then have "ca_enabled l" by (auto simp: enabled_lane_def enabled_automation_def split: option.splits if_splits)
  then show ?thesis using Some enabled_steps_nonempty by simp
qed simp

lemma steps_exist: "steps_to_run t cols r a \<noteq> [] \<longleftrightarrow> card_overrides t cols r a \<or> enabled_lane t cols \<noteq> None"
  using lane_steps_exist by (auto simp: steps_to_run_def)

text \<open>Which agent runs a card: it can run exactly when there is a step to run, and then a transport and a role are known; the card's own assignment comes first, unless a step of its enabled column already matches it; every step runs over ACP with a provider that is absent or not blank, and the provider is unknown exactly when no source named one.\<close>
theorem effective_automation_complete:
  "let e = resolveEffectiveTaskAutomation t cols r a in
    (ea_canRun e \<longleftrightarrow> ea_steps e \<noteq> []) \<and> (ea_canRun e \<longleftrightarrow> ea_source e \<noteq> AsNone)
    \<and> (ea_canRun e \<longleftrightarrow> ea_transport e = Some TrAcp) \<and> (ea_canRun e \<longleftrightarrow> ea_role e \<noteq> None)
    \<and> (ea_source e = AsCard \<longleftrightarrow> card_overrides t cols r a)
    \<and> list_all (\<lambda>s. as_transport s = Some TrAcp \<and> as_providerId s \<noteq> Some [] \<and> trimmed (orDefault (as_providerId s) [])) (ea_steps e)
    \<and> (ea_providerId e = None \<longleftrightarrow> ea_providerSource e = PsNone)
    \<and> (ea_providerSource e = PsCard \<longleftrightarrow> card_overrides t cols r a \<and> normalizeProviderId (tk_assignedProvider t) \<noteq> None)"
proof -
  define e where "e = resolveEffectiveTaskAutomation t cols r a"
  note f = effective_fields [of t cols r a, folded e_def]
  have run: "ea_canRun e \<longleftrightarrow> ea_steps e \<noteq> []" using f(1,3) steps_exist by simp
  have src: "ea_canRun e \<longleftrightarrow> ea_source e \<noteq> AsNone" "ea_source e = AsCard \<longleftrightarrow> card_overrides t cols r a"
    using f(1,2) by auto
  have all: "list_all (\<lambda>s. as_transport s = Some TrAcp \<and> as_providerId s \<noteq> Some [] \<and> trimmed (orDefault (as_providerId s) [])) (ea_steps e)"
    using resolved_provider by (fastforce simp: f(3) list_all_iff orDefault_def trimmed_def split: option.split)
  have role: "ea_canRun e \<longleftrightarrow> ea_role e \<noteq> None" and tr: "ea_canRun e \<longleftrightarrow> ea_transport e = Some TrAcp"
    using run f(1,3-5,8) by (auto simp: nullish_def split: list.splits option.splits)
  have prov: "(ea_providerId e = None \<longleftrightarrow> ea_providerSource e = PsNone)
    \<and> (ea_providerSource e = PsCard \<longleftrightarrow> card_overrides t cols r a \<and> normalizeProviderId (tk_assignedProvider t) \<noteq> None)"
  proof (cases "steps_to_run t cols r a")
    case Nil
    then have "\<not> card_overrides t cols r a" using steps_exist by blast
    then show ?thesis using Nil f(3,4,6,7) by simp
  next
    case (Cons s ss)
    then have "ea_step e = Some (resolveKanbanAutomationStep s r a)" using f(3,4) by simp
    then show ?thesis
      using f(6,7) resolved_source [of s r a] by (auto simp: nullish_def split: option.splits if_splits)
  qed
  show ?thesis unfolding Let_def e_def [symmetric] using run src all role tr prov by blast
qed

end
