(* ===== verification/RegexMatch.thy ===== *)
theory RegexMatch
  imports JsBase
begin

text \<open>
  The part of JavaScript's regular expressions that the modelled files use: a backtracking matcher
  that gives the positions where a match can end, the preferred one first (greedy quantifiers try
  the longest text first, an alternative its left side). A position is the character before it, for
  \<open>\b\<close>, and the rest of the text. \<open>\<open>RxStar\<close>\<close> repeats one character class.
\<close>

datatype rx =
    RxEps
  | RxCls "char \<Rightarrow> bool"
  | RxStar "char \<Rightarrow> bool"
  | RxSeq rx rx
  | RxAlt rx rx
  | RxOpt rx
  | RxWordEdge
  | RxEnd

type_synonym rx_pos = "char option \<times> string"

definition is_digit :: "char \<Rightarrow> bool" where
  "is_digit c = (let n = (of_char c :: nat) in 48 \<le> n \<and> n \<le> 57)"

definition is_word :: "char \<Rightarrow> bool" where
  "is_word c = (let n = (of_char c :: nat) in
     (48 \<le> n \<and> n \<le> 57) \<or> (65 \<le> n \<and> n \<le> 90) \<or> n = 95 \<or> (97 \<le> n \<and> n \<le> 122))"

definition word_at :: "string \<Rightarrow> bool" where
  "word_at s = (case s of [] \<Rightarrow> False | c # _ \<Rightarrow> is_word c)"

definition word_before :: "char option \<Rightarrow> bool" where
  "word_before p = (case p of None \<Rightarrow> False | Some c \<Rightarrow> is_word c)"

text \<open>The ends of \<open>c*\<close>, the longest first.\<close>

fun star_ends :: "(char \<Rightarrow> bool) \<Rightarrow> char option \<Rightarrow> string \<Rightarrow> rx_pos list" where
  "star_ends P p [] = [(p, [])]"
| "star_ends P p (c # s) = (if P c then star_ends P (Some c) s @ [(p, c # s)] else [(p, c # s)])"

fun rx_ends :: "rx \<Rightarrow> rx_pos \<Rightarrow> rx_pos list" where
  "rx_ends RxEps pos = [pos]"
| "rx_ends (RxCls P) pos = (case snd pos of [] \<Rightarrow> [] | c # s \<Rightarrow> if P c then [(Some c, s)] else [])"
| "rx_ends (RxStar P) pos = star_ends P (fst pos) (snd pos)"
| "rx_ends (RxSeq a b) pos = concat (map (rx_ends b) (rx_ends a pos))"
| "rx_ends (RxAlt a b) pos = rx_ends a pos @ rx_ends b pos"
| "rx_ends (RxOpt a) pos = rx_ends a pos @ [pos]"
| "rx_ends RxWordEdge pos = (if word_before (fst pos) \<noteq> word_at (snd pos) then [pos] else [])"
| "rx_ends RxEnd pos = (if snd pos = [] then [pos] else [])"

text \<open>The positions of a text from the left, and \<open>test\<close> and \<open>exec(...)?.[1]\<close> for a pattern whose
  group 1 is its last part.\<close>

fun positions :: "char option \<Rightarrow> string \<Rightarrow> rx_pos list" where
  "positions p [] = [(p, [])]"
| "positions p (c # s) = (p, c # s) # positions (Some c) s"

definition rx_test :: "rx \<Rightarrow> string \<Rightarrow> bool" where
  "rx_test r s = list_ex (\<lambda>pos. rx_ends r pos \<noteq> []) (positions None s)"

definition rx_groups :: "rx \<Rightarrow> rx \<Rightarrow> rx_pos \<Rightarrow> string list" where
  "rx_groups r g pos =
     concat (map (\<lambda>m. map (\<lambda>e. take (length (snd m) - length (snd e)) (snd m)) (rx_ends g m)) (rx_ends r pos))"

definition rx_exec :: "rx \<Rightarrow> rx \<Rightarrow> string \<Rightarrow> string option" where
  "rx_exec r g s = (case concat (map (rx_groups r g) (positions None s)) of [] \<Rightarrow> None | x # _ \<Rightarrow> Some x)"

section \<open>Building patterns\<close>

definition rx_seq :: "rx list \<Rightarrow> rx" where
  "rx_seq rs = foldr RxSeq rs RxEps"

text \<open>A literal under the flag \<open>i\<close>.\<close>

definition rx_lit :: "string \<Rightarrow> rx" where
  "rx_lit s = rx_seq (map (\<lambda>c. RxCls (\<lambda>x. lower_char x = lower_char c)) s)"

definition rx_plus :: "(char \<Rightarrow> bool) \<Rightarrow> rx" where
  "rx_plus P = RxSeq (RxCls P) (RxStar P)"

definition rx_times :: "nat \<Rightarrow> rx \<Rightarrow> rx" where
  "rx_times n r = rx_seq (replicate n r)"

definition one_of :: "string \<Rightarrow> char \<Rightarrow> bool" where
  "one_of s c = (c \<in> set s)"

definition rx_quote :: rx where
  "rx_quote = RxOpt (RxCls (one_of [CHR 0x22, CHR 0x27]))"

section \<open>Literals\<close>

text \<open>Searching for a literal under the flag \<open>i\<close> is \<open>includes\<close> on the lower-case texts.\<close>

lemma rx_lit_at: "rx_ends (rx_lit p) (q, s) \<noteq> [] \<longleftrightarrow> startsWith (toLowerCase s) (toLowerCase p)"
proof (induction p arbitrary: q s)
  case Nil
  then show ?case by (simp add: rx_lit_def rx_seq_def toLowerCase_def)
next
  case (Cons c p)
  have "rx_lit (c # p) = RxSeq (RxCls (\<lambda>x. lower_char x = lower_char c)) (rx_lit p)"
    by (simp add: rx_lit_def rx_seq_def)
  then show ?case using Cons by (cases s) (auto simp: toLowerCase_def)
qed

lemma positions_ex: "list_ex (\<lambda>pos. f (snd pos)) (positions p s) \<longleftrightarrow> (\<exists>a b. s = a @ b \<and> f b)"
proof (induction s arbitrary: p)
  case (Cons c s)
  have "(\<exists>a b. c # s = a @ b \<and> f b) \<longleftrightarrow> f (c # s) \<or> (\<exists>a b. s = a @ b \<and> f b)"
    by (auto simp: Cons_eq_append_conv)
  then show ?case using Cons by simp
qed auto

lemma rx_test_lit: "rx_test (rx_lit p) s \<longleftrightarrow> strIncludes (toLowerCase s) (toLowerCase p)"
proof -
  have "rx_test (rx_lit p) s \<longleftrightarrow> list_ex (\<lambda>pos. startsWith (toLowerCase (snd pos)) (toLowerCase p)) (positions None s)"
  proof -
    have "rx_ends (rx_lit p) pos \<noteq> [] \<longleftrightarrow> startsWith (toLowerCase (snd pos)) (toLowerCase p)" for pos
      using rx_lit_at [of p "fst pos" "snd pos"] by simp
    then show ?thesis by (simp add: rx_test_def)
  qed
  also have "\<dots> \<longleftrightarrow> (\<exists>a b. s = a @ b \<and> startsWith (toLowerCase b) (toLowerCase p))"
    by (rule positions_ex)
  also have "\<dots> \<longleftrightarrow> strIncludes (toLowerCase s) (toLowerCase p)"
    unfolding strIncludes_iff startsWith_iff toLowerCase_def
  proof
    assume "\<exists>a b. s = a @ b \<and> (\<exists>t. map lower_char b = map lower_char p @ t)"
    then obtain a b t where "s = a @ b" "map lower_char b = map lower_char p @ t" by blast
    then have "map lower_char s = map lower_char a @ map lower_char p @ t" by simp
    then show "\<exists>a b. map lower_char s = a @ map lower_char p @ b" by blast
  next
    assume "\<exists>a b. map lower_char s = a @ map lower_char p @ b"
    then obtain a b where "map lower_char s = a @ (map lower_char p @ b)" by blast
    then obtain us vs where "s = us @ vs" "map lower_char vs = map lower_char p @ b"
      unfolding map_eq_append_conv [of lower_char s] by metis
    then show "\<exists>a b. s = a @ b \<and> (\<exists>t. map lower_char b = map lower_char p @ t)" by blast
  qed
  finally show ?thesis .
qed

end
