(* ===== verification/RetryPolicy.thy ===== *)
theory RetryPolicy
  imports RegexMatch LaneAutomation
begin

text \<open>
  What happens to a lane step that failed for a reason outside the card: environment-failure.ts
  (classification, fuse, backoff), lane-cancel-origin.ts (a cancelled turn), rate-limit-retry.ts
  (evidence, the plan, the delayed rerun), the repeat limit of workflow-orchestrator.ts and the
  decision of interrupted-lane-resume.ts. Numbers are exact rationals, times are milliseconds, a
  \<open>Date\<close> is \<^const>\<open>None\<close> when it is invalid. The texts for people hold Chinese characters and the
  local time, so they are constructors of \<open>sync_error\<close>. \<open>random\<close> is the number drawn.
\<close>

section \<open>Environment failures\<close>

definition ENVIRONMENT_FAILURE_PATTERNS :: "string list" where
  "ENVIRONMENT_FAILURE_PATTERNS = [''Not registered in ProviderRegistry'', ''Unknown provider:'']"

definition ENVIRONMENT_FAILURE_ERROR_PREFIX :: string where
  "ENVIRONMENT_FAILURE_ERROR_PREFIX = ''[environment]''"

definition isEnvironmentFailureMessage :: "json \<Rightarrow> bool" where
  "isEnvironmentFailureMessage message =
     (case message of
        JStr m \<Rightarrow> if length m = 0 then False else list_ex (strIncludes m) ENVIRONMENT_FAILURE_PATTERNS
      | _ \<Rightarrow> False)"

definition formatEnvironmentFailureError :: "string \<Rightarrow> string" where
  "formatEnvironmentFailureError message =
     (if startsWith message ENVIRONMENT_FAILURE_ERROR_PREFIX then message
      else ENVIRONMENT_FAILURE_ERROR_PREFIX @ '' '' @ message)"

definition isEnvironmentFailureLaneSession :: "lane_session \<Rightarrow> bool" where
  "isEnvironmentFailureLaneSession entry = (ls_recoveryReason entry = Some EnvironmentFailure)"

fun environment_count_loop :: "string \<Rightarrow> lane_session list \<Rightarrow> nat \<Rightarrow> nat" where
  "environment_count_loop columnId [] n = n"
| "environment_count_loop columnId (entry # rest) n =
     (if ls_columnId entry \<noteq> Some columnId then n
      else environment_count_loop columnId rest (if isEnvironmentFailureLaneSession entry then n + 1 else n))"

definition getEnvironmentFailureCount :: "task option \<Rightarrow> string \<Rightarrow> nat" where
  "getEnvironmentFailureCount t columnId =
     environment_count_loop columnId (rev (case t of None \<Rightarrow> [] | Some c \<Rightarrow> tk_laneSessions c)) 0"

section \<open>Retryable environment failures\<close>

definition RETRYABLE_ENVIRONMENT_REASONS :: "lane_recovery_reason list" where
  "RETRYABLE_ENVIRONMENT_REASONS = [RateLimited, TurnCancelled, RestartInterrupted]"

definition RETRYABLE_ENVIRONMENT_FAILURE_FUSE_LIMIT :: nat where
  "RETRYABLE_ENVIRONMENT_FAILURE_FUSE_LIMIT = 5"

definition RATE_LIMIT_BACKOFF_MINUTES :: "int list" where
  "RATE_LIMIT_BACKOFF_MINUTES = [5, 10, 20]"

definition RATE_LIMIT_BACKOFF_JITTER :: rat where
  "RATE_LIMIT_BACKOFF_JITTER = 1 / 5"

definition RATE_LIMIT_SERVER_JITTER_MS :: int where
  "RATE_LIMIT_SERVER_JITTER_MS = 60000"

definition RATE_LIMIT_KEYWORDS :: "string list" where
  "RATE_LIMIT_KEYWORDS = [''usage_limit_reached'', ''rate_limit_error'', ''trial_rate_limited'']"

definition rx_digit :: rx where
  "rx_digit = RxCls is_digit"

definition HTTP_429_PATTERNS :: "rx list" where
  "HTTP_429_PATTERNS =
     [rx_seq [RxWordEdge, rx_lit ''HTTP'',
        RxOpt (rx_seq [rx_lit ''/'', rx_digit, RxOpt (rx_seq [rx_lit ''.'', rx_digit])]),
        RxStar (\<lambda>c. is_ws c \<or> c = CHR '':''), rx_lit ''429'', RxWordEdge],
      rx_seq [RxWordEdge, rx_lit ''status'',
        RxOpt (rx_seq [RxOpt (RxCls (\<lambda>c. c = CHR ''_'' \<or> is_ws c \<or> c = CHR ''-'')), rx_lit ''code'']),
        rx_quote, RxStar is_ws, RxOpt (RxCls (one_of '':='')), RxStar is_ws, rx_quote, rx_lit ''429'', RxWordEdge],
      rx_seq [RxWordEdge, rx_lit ''429'', rx_plus is_ws, rx_lit ''Too Many Requests'', RxWordEdge]]"

definition unescapeLayers :: "string \<Rightarrow> string" where
  "unescapeLayers message = filter (\<lambda>c. c \<noteq> CHR 0x5C) message"

definition isRetryableEnvironmentReason :: "lane_recovery_reason option \<Rightarrow> bool" where
  "isRetryableEnvironmentReason reason =
     (case reason of None \<Rightarrow> False | Some r \<Rightarrow> r \<in> set RETRYABLE_ENVIRONMENT_REASONS)"

definition isRetryableEnvironmentFailureLaneSession :: "lane_session \<Rightarrow> bool" where
  "isRetryableEnvironmentFailureLaneSession entry =
     (isRetryableEnvironmentReason (ls_recoveryReason entry)
      \<and> (ls_status entry = LaneFailed \<or> ls_status entry = LaneTimedOut))"

text \<open>The result "rate_limited" or \<open>undefined\<close>, as a truth value.\<close>

definition classifyRetryableEnvironmentFailure :: "json \<Rightarrow> bool" where
  "classifyRetryableEnvironmentFailure message =
     (case message of
        JStr m \<Rightarrow>
          if length m = 0 then False
          else let text = unescapeLayers m
               in if list_ex (strIncludes text) RATE_LIMIT_KEYWORDS then True
                  else list_ex (\<lambda>pattern. rx_test pattern text) HTTP_429_PATTERNS
      | _ \<Rightarrow> False)"

section \<open>The server's reset time\<close>

fun rx_upto :: "nat \<Rightarrow> rx \<Rightarrow> rx" where
  "rx_upto 0 r = RxEps"
| "rx_upto (Suc n) r = RxOpt (RxSeq r (rx_upto n r))"

definition rx_fraction :: rx where
  "rx_fraction = RxOpt (rx_seq [rx_lit ''.'', rx_plus is_digit])"

definition ISO_TIME :: rx where
  "ISO_TIME = rx_seq
     [rx_times 4 rx_digit, rx_lit ''-'', rx_times 2 rx_digit, rx_lit ''-'', rx_times 2 rx_digit, rx_lit ''T'',
      rx_times 2 rx_digit, rx_lit '':'', rx_times 2 rx_digit,
      RxOpt (rx_seq [rx_lit '':'', rx_times 2 rx_digit, rx_fraction]),
      RxOpt (RxAlt (rx_lit ''Z'')
        (rx_seq [RxCls (one_of ''+-''), rx_times 2 rx_digit, RxOpt (rx_lit '':''), rx_times 2 rx_digit]))]"

definition rx_assign :: rx where
  "rx_assign = rx_seq [rx_quote, RxStar is_ws, RxCls (one_of '':=''), RxStar is_ws, rx_quote]"

definition rx_seconds :: rx where
  "rx_seconds = rx_seq [rx_plus is_digit, rx_fraction]"

definition resets_at_time :: rx where
  "resets_at_time = RxAlt ISO_TIME (rx_seq [rx_times 9 rx_digit, rx_upto 4 rx_digit, rx_fraction])"

definition retry_after_name :: rx where
  "retry_after_name =
     rx_seq [rx_lit ''retry'', RxOpt (RxCls (\<lambda>c. c = CHR ''-'' \<or> c = CHR ''_'' \<or> is_ws c)), rx_lit ''after'']"

text \<open>\<open>Number\<close> on a text that one of these groups captured: digits with an optional fraction have a
  value, an ISO time gives NaN.\<close>

definition digits_value :: "string \<Rightarrow> int" where
  "digits_value s = foldl (\<lambda>n c. 10 * n + (of_char c - 48)) 0 s"

definition captured_number :: "string \<Rightarrow> rat option" where
  "captured_number s =
     (if \<not> list_all (\<lambda>c. is_digit c \<or> c = CHR ''.'') s then None
      else let whole = takeWhile is_digit s; frac = drop 1 (dropWhile is_digit s)
           in Some (of_int (digits_value whole) + of_int (digits_value frac) / 10 ^ length frac))"

text \<open>\<open>new Date(v)\<close>: the time is cut to whole milliseconds, and invalid beyond 8.64e15.\<close>

definition new_date :: "rat \<Rightarrow> int option" where
  "new_date v = (if \<bar>v\<bar> > 8640000000000000 then None else Some (if v \<ge> 0 then \<lfloor>v\<rfloor> else \<lceil>v\<rceil>))"

text \<open>The result of \<open>parseRateLimitResetAt\<close>: no reset time, or a \<open>Date\<close> that may be invalid.\<close>

definition parseRateLimitResetAt :: "js_host \<Rightarrow> json \<Rightarrow> int \<Rightarrow> int option option" where
  "parseRateLimitResetAt host message now =
     (case message of
        JStr m \<Rightarrow>
          if length m = 0 then None
          else let text = unescapeLayers m;
                   resetsAt = rx_exec (RxSeq (rx_lit ''resets_at'') rx_assign) resets_at_time text;
                   ms = (case resetsAt of None \<Rightarrow> None | Some r \<Rightarrow>
                           (case captured_number r of
                              Some numeric \<Rightarrow> Some (if numeric \<ge> 1000000000000 then numeric else numeric * 1000)
                            | None \<Rightarrow> map_option of_int (hostDateParse host r)))
               in (case ms of
                     Some v \<Rightarrow> Some (new_date v)
                   | None \<Rightarrow>
                       (case nullish (rx_exec (RxSeq (rx_lit ''resets_in_seconds'') rx_assign) rx_seconds text)
                                     (rx_exec (RxSeq retry_after_name rx_assign) rx_seconds text) of
                          None \<Rightarrow> None
                        | Some seconds \<Rightarrow> Some (new_date (of_int now + orDefault (captured_number seconds) 0 * 1000))))
      | _ \<Rightarrow> None)"

definition js_round :: "rat \<Rightarrow> int" where
  "js_round v = \<lfloor>v + 1 / 2\<rfloor>"

definition backoff_ms :: "int list \<Rightarrow> nat \<Rightarrow> rat \<Rightarrow> int" where
  "backoff_ms minutes consecutiveCount random =
     (let index = min (max consecutiveCount 1) (length minutes) - 1;
          factor = 1 + (random * 2 - 1) * RATE_LIMIT_BACKOFF_JITTER
      in js_round (of_int (minutes ! index) * 60000 * factor))"

definition computeRateLimitRetryAt :: "js_host \<Rightarrow> json \<Rightarrow> nat \<Rightarrow> int \<Rightarrow> rat \<Rightarrow> int option" where
  "computeRateLimitRetryAt host message consecutiveCount now random =
     (case parseRateLimitResetAt host message now of
        Some None \<Rightarrow> None
      | Some (Some serverTime) \<Rightarrow>
          new_date (of_int (max serverTime now + \<lceil>random * of_int RATE_LIMIT_SERVER_JITTER_MS\<rceil>))
      | None \<Rightarrow> new_date (of_int (now + backoff_ms RATE_LIMIT_BACKOFF_MINUTES consecutiveCount random)))"

section \<open>The fuse\<close>

fun retryable_count_loop :: "string \<Rightarrow> lane_session list \<Rightarrow> nat \<Rightarrow> nat" where
  "retryable_count_loop columnId [] n = n"
| "retryable_count_loop columnId (entry # rest) n =
     (if ls_columnId entry \<noteq> Some columnId then n
      else if ls_status entry = LaneRunning then retryable_count_loop columnId rest n
      else if \<not> isRetryableEnvironmentFailureLaneSession entry then n
      else retryable_count_loop columnId rest (n + 1))"

definition getConsecutiveRetryableEnvironmentFailureCount :: "task \<Rightarrow> string \<Rightarrow> nat" where
  "getConsecutiveRetryableEnvironmentFailureCount t columnId =
     retryable_count_loop columnId (rev (tk_laneSessions t)) 0"

definition hasTrippedRetryableEnvironmentFuse :: "task \<Rightarrow> string \<Rightarrow> bool" where
  "hasTrippedRetryableEnvironmentFuse t columnId =
     (getConsecutiveRetryableEnvironmentFailureCount t columnId \<ge> RETRYABLE_ENVIRONMENT_FAILURE_FUSE_LIMIT)"

definition isWaitingForRateLimitRetry :: "js_host \<Rightarrow> task \<Rightarrow> string \<Rightarrow> int \<Rightarrow> bool" where
  "isWaitingForRateLimitRetry host t columnId now =
     (case rev (tk_laneSessions t) of
        [] \<Rightarrow> False
      | entry # _ \<Rightarrow>
          if ls_columnId entry \<noteq> Some columnId then False
          else if ls_recoveryReason entry \<noteq> Some RateLimited \<or> \<not> truthy (ls_retryAfterAt entry) then False
          else (case hostDateParse host (the (ls_retryAfterAt entry)) of None \<Rightarrow> False | Some ms \<Rightarrow> ms > now))"

definition isAwaitingEnvironmentFix :: "task \<Rightarrow> string \<Rightarrow> bool" where
  "isAwaitingEnvironmentFix t columnId =
     (case rev (tk_laneSessions t) of
        [] \<Rightarrow> False
      | entry # _ \<Rightarrow> if ls_columnId entry \<noteq> Some columnId then False else isEnvironmentFailureLaneSession entry)"

section \<open>Cancelled turns\<close>

definition USER_CANCEL_MARK_TTL_MS :: int where
  "USER_CANCEL_MARK_TTL_MS = 600000"

definition CANCELLED_TURN_RETRY_MINUTES :: "int list" where
  "CANCELLED_TURN_RETRY_MINUTES = [1, 2, 5]"

type_synonym cancel_marks = "(string, int) omap"

definition markUserCancelledSession :: "string \<Rightarrow> int \<Rightarrow> cancel_marks \<Rightarrow> cancel_marks" where
  "markUserCancelledSession sessionId now marks =
     (if sessionId = [] then marks
      else om_set (filter (\<lambda>(i, since). \<not> now - since > USER_CANCEL_MARK_TTL_MS) marks) sessionId now)"

definition isUserCancelledSession :: "json \<Rightarrow> int \<Rightarrow> cancel_marks \<Rightarrow> bool" where
  "isUserCancelledSession sessionId now marks =
     (case sessionId of
        JStr s \<Rightarrow> (case om_get marks s of None \<Rightarrow> False | Some since \<Rightarrow> now - since \<le> USER_CANCEL_MARK_TTL_MS)
      | _ \<Rightarrow> False)"

definition clearUserCancelMarks :: "cancel_marks \<Rightarrow> cancel_marks" where
  "clearUserCancelMarks marks = []"

definition resolveCancelledTurnReason :: "json \<Rightarrow> int \<Rightarrow> cancel_marks \<Rightarrow> lane_recovery_reason" where
  "resolveCancelledTurnReason sessionId now marks =
     (if isUserCancelledSession sessionId now marks then UserCancelled else TurnCancelled)"

definition isRetryAfterReason :: "lane_recovery_reason option \<Rightarrow> bool" where
  "isRetryAfterReason reason = (reason \<in> {Some RateLimited, Some TurnCancelled})"

definition isUserCancelledLaneSession :: "lane_session \<Rightarrow> bool" where
  "isUserCancelledLaneSession entry = (ls_recoveryReason entry = Some UserCancelled)"

definition computeCancelledTurnRetryAt :: "nat \<Rightarrow> int \<Rightarrow> rat \<Rightarrow> int option" where
  "computeCancelledTurnRetryAt consecutiveCount now random =
     new_date (of_int (now + backoff_ms CANCELLED_TURN_RETRY_MINUTES consecutiveCount random))"

section \<open>Planning the rerun\<close>

datatype sync_error =
    RateLimitedUntil int | RateLimitFuse nat | TurnCancelledUntil int | TurnCancelledFuse nat

text \<open>\<open>toISOString\<close> of an invalid date throws a RangeError; refreshing the lane memory may throw.\<close>

datatype retry_error = RangeError | MemoryError js_error

record retry_plan =
  pl_retryAt :: "int option"
  pl_lastSyncError :: sync_error

definition with_retry_at :: "js_host \<Rightarrow> string \<Rightarrow> task \<Rightarrow> string \<Rightarrow> (int \<Rightarrow> sync_error) \<Rightarrow> int option \<Rightarrow> task \<times> (retry_error + retry_plan)" where
  "with_retry_at host nowIso t sessionId err retryAt =
     (case retryAt of
        None \<Rightarrow> (t, Inl RangeError)
      | Some since \<Rightarrow>
          (case upsertTaskLaneSession host nowIso t ((empty_patch sessionId)\<lparr>lp_retryAfterAt := Some (Some (hostToISO host since))\<rparr>) of
             (t', Inl e) \<Rightarrow> (t', Inl (MemoryError e))
           | (t', Inr _) \<Rightarrow> (t', Inr \<lparr>pl_retryAt = Some since, pl_lastSyncError = err since\<rparr>)))"

definition planRateLimitRetry ::
  "js_host \<Rightarrow> string \<Rightarrow> int \<Rightarrow> rat \<Rightarrow> task \<Rightarrow> string \<Rightarrow> string \<Rightarrow> string \<Rightarrow> task \<times> (retry_error + retry_plan)" where
  "planRateLimitRetry host nowIso now random t columnId sessionId evidence =
     (let n = getConsecutiveRetryableEnvironmentFailureCount t columnId in
      if n \<ge> RETRYABLE_ENVIRONMENT_FAILURE_FUSE_LIMIT
      then (t, Inr \<lparr>pl_retryAt = None, pl_lastSyncError = RateLimitFuse n\<rparr>)
      else with_retry_at host nowIso t sessionId RateLimitedUntil
             (computeRateLimitRetryAt host (JStr evidence) n now random))"

definition planCancelledTurnRetry ::
  "js_host \<Rightarrow> string \<Rightarrow> int \<Rightarrow> rat \<Rightarrow> task \<Rightarrow> string \<Rightarrow> string \<Rightarrow> task \<times> (retry_error + retry_plan option)" where
  "planCancelledTurnRetry host nowIso now random t columnId sessionId =
     (case getTaskLaneSession t (Some sessionId) of
        None \<Rightarrow> (t, Inr None)
      | Some record \<Rightarrow>
          if ls_recoveryReason record \<noteq> Some TurnCancelled \<or> ls_status record \<noteq> LaneFailed then (t, Inr None)
          else let n = getConsecutiveRetryableEnvironmentFailureCount t columnId in
            if n \<ge> RETRYABLE_ENVIRONMENT_FAILURE_FUSE_LIMIT
            then (t, Inr (Some \<lparr>pl_retryAt = None, pl_lastSyncError = TurnCancelledFuse n\<rparr>))
            else apsnd (map_sum id Some) (with_retry_at host nowIso t sessionId TurnCancelledUntil
                   (computeCancelledTurnRetryAt n now random)))"

definition planLaneStepRetry ::
  "js_host \<Rightarrow> string \<Rightarrow> int \<Rightarrow> rat \<Rightarrow> task \<Rightarrow> string \<Rightarrow> string \<Rightarrow> string \<Rightarrow> bool \<Rightarrow> task \<times> (retry_error + retry_plan option)" where
  "planLaneStepRetry host nowIso now random t columnId sessionId evidence rateLimited =
     (if rateLimited then apsnd (map_sum id Some) (planRateLimitRetry host nowIso now random t columnId sessionId evidence)
      else planCancelledTurnRetry host nowIso now random t columnId sessionId)"

text \<open>\<open>lastUpdate\<close> is the JSON text of the session's last message, if it has one.\<close>

definition collectRateLimitEvidence :: "bool \<Rightarrow> json \<Rightarrow> json \<Rightarrow> string option \<Rightarrow> string" where
  "collectRateLimitEvidence timeout error acpError lastUpdate =
     js_join ''\<newline>''
       (map_some (\<lambda>v. case v of JStr s \<Rightarrow> if s \<noteq> [] then Some s else None | _ \<Rightarrow> None) [error, acpError]
        @ (if timeout then (case lastUpdate of None \<Rightarrow> [] | Some u \<Rightarrow> [u]) else []))"

section \<open>The repeat limit and the resume after a restart\<close>

definition NON_DEV_AUTOMATION_REPEAT_LIMIT :: nat where
  "NON_DEV_AUTOMATION_REPEAT_LIMIT = 3"

fun non_dev_count_loop :: "string \<Rightarrow> lane_session list \<Rightarrow> nat \<Rightarrow> nat" where
  "non_dev_count_loop columnId [] n = n"
| "non_dev_count_loop columnId (entry # rest) n =
     (if ls_columnId entry \<noteq> Some columnId \<or> truthy (ls_laneRerunRequestedAt entry) then n
      else if isEnvironmentFailureLaneSession entry \<or> isRetryableEnvironmentFailureLaneSession entry
              \<or> isUserCancelledLaneSession entry \<or> ls_recoveryReason entry = Some ManualRerun
        then non_dev_count_loop columnId rest n
      else non_dev_count_loop columnId rest (n + 1))"

definition getNonDevAutomationRunCount :: "task option \<Rightarrow> string \<Rightarrow> column_stage \<Rightarrow> nat" where
  "getNonDevAutomationRunCount t columnId stage =
     (if t = None \<or> stage = StDev then 0
      else non_dev_count_loop columnId (rev (tk_laneSessions (the t))) 0)"

definition hasExceededNonDevAutomationRepeatLimit :: "task option \<Rightarrow> string \<Rightarrow> column_stage \<Rightarrow> bool" where
  "hasExceededNonDevAutomationRepeatLimit t columnId stage =
     (getNonDevAutomationRunCount t columnId stage \<ge> NON_DEV_AUTOMATION_REPEAT_LIMIT)"

datatype resume_decision = DecideResume automation_step nat | DecideWait int | DecideSkip string

definition INTERRUPTED_LANE_REASONS :: "lane_recovery_reason list" where
  "INTERRUPTED_LANE_REASONS = [TurnCancelled, RestartInterrupted]"

definition was_interrupted :: "lane_session \<Rightarrow> bool" where
  "was_interrupted latest =
     ((ls_status latest = LaneFailed \<or> ls_status latest = LaneTimedOut)
      \<and> (case ls_recoveryReason latest of None \<Rightarrow> False | Some r \<Rightarrow> r \<in> set INTERRUPTED_LANE_REASONS))"

text \<open>The end of the decision, for the latest run of the card's column.\<close>

definition decide_latest :: "js_host \<Rightarrow> task \<Rightarrow> kanban_column list \<Rightarrow> int \<Rightarrow> kanban_column \<Rightarrow> string \<Rightarrow> lane_session \<Rightarrow> resume_decision" where
  "decide_latest host t columns now column columnId latest =
     (if list_ex (\<lambda>entry. ls_columnId entry = Some columnId \<and> ls_status entry = LaneRunning) (tk_laneSessions t)
        then DecideSkip ''a step is running''
      else if \<not> was_interrupted latest then DecideSkip ''latest run was not interrupted''
      else if hasTrippedRetryableEnvironmentFuse t columnId then DecideSkip ''fuse tripped''
      else if hasExceededNonDevAutomationRepeatLimit (Some t) columnId (kc_stage column) then DecideSkip ''repeat limit''
      else if kc_stage column = StDone \<and> isLaneAutomationComplete t columnId (kc_automation column)
        then DecideSkip ''lane complete''
      else (case (if truthy (ls_retryAfterAt latest) then hostDateParse host (the (ls_retryAfterAt latest)) else None) of
              Some retryAt \<Rightarrow> if retryAt > now then DecideWait retryAt
                else (case resolveLaneResumeStep t columns of Some (step, i) \<Rightarrow> DecideResume step i
                      | None \<Rightarrow> DecideSkip ''no step'')
            | None \<Rightarrow> (case resolveLaneResumeStep t columns of Some (step, i) \<Rightarrow> DecideResume step i
                      | None \<Rightarrow> DecideSkip ''no step'')))"

definition decideInterruptedLaneResume :: "js_host \<Rightarrow> task \<Rightarrow> kanban_column list \<Rightarrow> int \<Rightarrow> resume_decision" where
  "decideInterruptedLaneResume host t columns now =
     (if isTaskOnHold (JArr (map JStr (tk_labels t))) then DecideSkip ''on hold''
      else let column = find_column columns (tk_columnId t);
               automation = Option.bind column kc_automation;
               transitionType = transition_type_of automation
           in if column = None \<or> \<not> truthy (tk_columnId t) \<or> map_option ca_enabled automation \<noteq> Some True
                 \<or> length (getKanbanAutomationSteps automation) = 0
                 \<or> (transitionType \<noteq> TtEntry \<and> transitionType \<noteq> TtBoth)
                then DecideSkip ''no lane automation''
              else (case rev (tk_laneSessions t) of
                      [] \<Rightarrow> if truthy (tk_triggerSessionId t) then DecideSkip ''a session is assigned''
                            else DecideSkip ''no run in this column''
                    | latest # _ \<Rightarrow>
                        if truthy (tk_triggerSessionId t) \<and> tk_triggerSessionId t \<noteq> Some (ls_sessionId latest)
                          then DecideSkip ''a session is assigned''
                        else if ls_columnId latest \<noteq> tk_columnId t then DecideSkip ''no run in this column''
                        else decide_latest host t columns now (the column) (the (tk_columnId t)) latest))"

end
