(* ===== verification/RetryProps.thy ===== *)
theory RetryProps
  imports RetryPolicy LaneAutomationProps
begin

text \<open>
  The properties of the retry policy: the bounds of a planned rerun, the fuse that stops automatic
  reruns, and what a resume after a restart may start.
\<close>

section \<open>When a rerun is planned\<close>

lemma new_date_int: "new_date (of_int k) = Some d \<Longrightarrow> d = k"
  by (auto simp: new_date_def split: if_splits)

lemma backoff_bounds:
  assumes "0 \<le> r" and "r < 1" and "ms ! (min (max n 1) (length ms) - 1) = (m::int)" and "0 < m"
  shows "48000 * m \<le> backoff_ms ms n r \<and> backoff_ms ms n r \<le> 72000 * m"
proof -
  let ?v = "of_int m * 60000 * (1 + (r * 2 - 1) * RATE_LIMIT_BACKOFF_JITTER) :: rat"
  have "of_int (48000 * m) = of_int m * (48000 :: rat)" by simp
  have f: "4 / 5 \<le> 1 + (r * 2 - 1) * RATE_LIMIT_BACKOFF_JITTER" "1 + (r * 2 - 1) * RATE_LIMIT_BACKOFF_JITTER < 6 / 5"
    using assms(1,2) by (simp_all add: RATE_LIMIT_BACKOFF_JITTER_def field_simps)
  have pos: "(0::rat) < of_int m * 60000" using assms(4) by simp
  have lo: "of_int (48000 * m) \<le> ?v" and hi: "?v \<le> of_int (72000 * m)"
    using mult_left_mono [OF f(1), of "of_int m * 60000"] mult_left_mono [OF less_imp_le [OF f(2)], of "of_int m * 60000"] pos
    by (simp_all add: algebra_simps)
  have "backoff_ms ms n r = \<lfloor>?v + 1 / 2\<rfloor>" by (simp only: backoff_ms_def js_round_def Let_def assms(3))
  moreover have "48000 * m \<le> \<lfloor>?v + 1 / 2\<rfloor>" using lo by (simp add: le_floor_iff)
  moreover have "\<lfloor>?v + 1 / 2\<rfloor> \<le> 72000 * m" using hi by (simp add: floor_le_iff)
  ultimately show ?thesis by simp
qed

lemma rate_minutes: "RATE_LIMIT_BACKOFF_MINUTES ! (min (max n 1) (length RATE_LIMIT_BACKOFF_MINUTES) - 1)
   = (if n \<le> 1 then 5 else if n = 2 then 10 else 20)"
  by (auto simp: RATE_LIMIT_BACKOFF_MINUTES_def min_def max_def nth_Cons split: nat.split)

lemma cancel_minutes: "CANCELLED_TURN_RETRY_MINUTES ! (min (max n 1) (length CANCELLED_TURN_RETRY_MINUTES) - 1)
   = (if n \<le> 1 then 1 else if n = 2 then 2 else 5)"
  by (auto simp: CANCELLED_TURN_RETRY_MINUTES_def min_def max_def nth_Cons split: nat.split)

text \<open>The planned time of an automatic rerun is bounded: never before the server's reset time and at most a minute after it (or after now, when that time is past); without a reset time 5, 10 or 20 minutes after a rate limit and 1, 2 or 5 minutes after a cancelled turn, for the first, second and any later failure in a row, give or take a fifth.\<close>
theorem retry_time_bounds:
  assumes "0 \<le> r" and "r < 1"
  shows "(computeRateLimitRetryAt host msg n now r = Some d \<longrightarrow>
      (case parseRateLimitResetAt host msg now of
         Some None \<Rightarrow> False
       | Some (Some server) \<Rightarrow> max server now \<le> d \<and> d \<le> max server now + 60000
       | None \<Rightarrow> let m = (if n \<le> 1 then 5 else if n = 2 then 10 else 20)
                 in now + 48000 * m \<le> d \<and> d \<le> now + 72000 * m))
    \<and> (computeCancelledTurnRetryAt n now r = Some d \<longrightarrow>
      (let m = (if n \<le> 1 then 1 else if n = 2 then 2 else 5) in now + 48000 * m \<le> d \<and> d \<le> now + 72000 * m))"
proof (intro conjI impI)
  assume d: "computeRateLimitRetryAt host msg n now r = Some d"
  have "0 \<le> r * 60000" "r * 60000 \<le> 60000" using assms by simp_all
  moreover define k where "k = \<lceil>r * 60000\<rceil>"
  ultimately have j: "0 \<le> k" "k \<le> 60000" by (simp_all add: ceiling_le_iff)
  show "case parseRateLimitResetAt host msg now of
         Some None \<Rightarrow> False
       | Some (Some server) \<Rightarrow> max server now \<le> d \<and> d \<le> max server now + 60000
       | None \<Rightarrow> let m = (if n \<le> 1 then 5 else if n = 2 then 10 else 20)
                 in now + 48000 * m \<le> d \<and> d \<le> now + 72000 * m"
  proof (cases "parseRateLimitResetAt host msg now")
    case None
    then have "d = now + backoff_ms RATE_LIMIT_BACKOFF_MINUTES n r"
      using d new_date_int by (simp add: computeRateLimitRetryAt_def)
    then show ?thesis
      using None backoff_bounds [OF assms rate_minutes [of n]] by (simp add: Let_def)
  next
    case (Some s)
    then show ?thesis using d j
      by (auto simp: computeRateLimitRetryAt_def RATE_LIMIT_SERVER_JITTER_MS_def k_def [symmetric] simp del: of_int_add
          split: option.splits dest!: new_date_int)
  qed
next
  assume "computeCancelledTurnRetryAt n now r = Some d"
  then have "d = now + backoff_ms CANCELLED_TURN_RETRY_MINUTES n r"
    using new_date_int by (simp add: computeCancelledTurnRetryAt_def)
  then show "let m = (if n \<le> 1 then 1 else if n = 2 then 2 else 5) in now + 48000 * m \<le> d \<and> d \<le> now + 72000 * m"
    using backoff_bounds [OF assms cancel_minutes [of n]] by (simp add: Let_def)
qed

section \<open>The fuse\<close>

text \<open>The streak: the retryable failures at the end of the card's run of the column.\<close>

lemma retryable_loop_spec:
  "retryable_count_loop c es n =
     n + length (takeWhile isRetryableEnvironmentFailureLaneSession
           (filter (\<lambda>e. ls_status e \<noteq> LaneRunning) (takeWhile (\<lambda>e. ls_columnId e = Some c) es)))"
  by (induction c es n rule: retryable_count_loop.induct) auto

lemma streak_append:
  "getConsecutiveRetryableEnvironmentFailureCount (t\<lparr>tk_laneSessions := tk_laneSessions t @ [e]\<rparr>) c =
     (if ls_columnId e \<noteq> Some c then 0
      else if ls_status e = LaneRunning then getConsecutiveRetryableEnvironmentFailureCount t c
      else if isRetryableEnvironmentFailureLaneSession e then getConsecutiveRetryableEnvironmentFailureCount t c + 1
      else 0)"
  by (simp add: getConsecutiveRetryableEnvironmentFailureCount_def retryable_loop_spec)

text \<open>A round of the fuse: a run of the column fails for a retryable reason.\<close>

definition failed_rounds :: "string \<Rightarrow> lane_session list \<Rightarrow> task \<Rightarrow> task" where
  "failed_rounds c runs t = t\<lparr>tk_laneSessions := tk_laneSessions t @ runs\<rparr>"

lemma streak_rounds:
  assumes "list_all (\<lambda>e. ls_columnId e = Some c \<and> isRetryableEnvironmentFailureLaneSession e) runs"
  shows "getConsecutiveRetryableEnvironmentFailureCount (failed_rounds c runs t) c
       = getConsecutiveRetryableEnvironmentFailureCount t c + length runs"
  using assms
proof (induction runs rule: rev_induct)
  case (snoc e runs)
  have "failed_rounds c (runs @ [e]) t
      = (failed_rounds c runs t)\<lparr>tk_laneSessions := tk_laneSessions (failed_rounds c runs t) @ [e]\<rparr>"
    by (simp add: failed_rounds_def)
  moreover have "ls_status e \<noteq> LaneRunning"
    using snoc.prems by (auto simp: isRetryableEnvironmentFailureLaneSession_def)
  ultimately show ?case using snoc streak_append by simp
qed (simp add: failed_rounds_def)

text \<open>Automatic reruns of a lane stop: after k retryable failures in a row (rate limits, cancelled turns, interruptions) a rerun is still planned exactly when k is below five, however the lane began; from the fifth on the card is left unchanged with the fuse recorded, and any success or other failure of the lane resets the streak.\<close>
theorem fuse_trips_at_five:
  assumes "list_all (\<lambda>e. ls_columnId e = Some c \<and> isRetryableEnvironmentFailureLaneSession e) runs"
    and "getConsecutiveRetryableEnvironmentFailureCount t c = 0"
  shows "(hasTrippedRetryableEnvironmentFuse (failed_rounds c runs t) c \<longleftrightarrow> 5 \<le> length runs)
    \<and> (5 \<le> length runs \<longrightarrow>
        planRateLimitRetry host nowIso now r (failed_rounds c runs t) c s evidence
          = (failed_rounds c runs t, Inr \<lparr>pl_retryAt = None, pl_lastSyncError = RateLimitFuse (length runs)\<rparr>))
    \<and> (length runs < 5 \<and> planRateLimitRetry host nowIso now r (failed_rounds c runs t) c s evidence = (t', Inr p)
        \<longrightarrow> pl_retryAt p = computeRateLimitRetryAt host (JStr evidence) (length runs) now r \<and> pl_retryAt p \<noteq> None)
    \<and> (\<not> isRetryableEnvironmentFailureLaneSession e \<and> ls_status e \<noteq> LaneRunning
        \<longrightarrow> getConsecutiveRetryableEnvironmentFailureCount (failed_rounds c [e] (failed_rounds c runs t)) c = 0)"
proof -
  have n: "getConsecutiveRetryableEnvironmentFailureCount (failed_rounds c runs t) c = length runs"
    using streak_rounds [OF assms(1)] assms(2) by simp
  have reset: "\<not> isRetryableEnvironmentFailureLaneSession e \<and> ls_status e \<noteq> LaneRunning
        \<longrightarrow> getConsecutiveRetryableEnvironmentFailureCount (failed_rounds c [e] (failed_rounds c runs t)) c = 0"
    using streak_append [of "failed_rounds c runs t" e c] by (simp add: failed_rounds_def)
  have plan: "length runs < 5 \<and> planRateLimitRetry host nowIso now r (failed_rounds c runs t) c s evidence = (t', Inr p)
        \<longrightarrow> pl_retryAt p = computeRateLimitRetryAt host (JStr evidence) (length runs) now r \<and> pl_retryAt p \<noteq> None"
    by (auto simp: planRateLimitRetry_def Let_def n RETRYABLE_ENVIRONMENT_FAILURE_FUSE_LIMIT_def with_retry_at_def
        split: option.splits prod.splits sum.splits)
  show ?thesis using n reset plan
    by (simp add: hasTrippedRetryableEnvironmentFuse_def planRateLimitRetry_def Let_def RETRYABLE_ENVIRONMENT_FAILURE_FUSE_LIMIT_def)
qed

text \<open>A reset time beyond the range of dates is not handled: when the server's text names such a time the plan throws a RangeError on writing the time, and neither the card nor its run record gets a rerun time.\<close>
theorem far_reset_time_throws:
  assumes "getConsecutiveRetryableEnvironmentFailureCount t c < 5"
    and "parseRateLimitResetAt host (JStr evidence) now = Some None"
  shows "planRateLimitRetry host nowIso now r t c s evidence = (t, Inl RangeError)"
  using assms
  by (simp add: planRateLimitRetry_def RETRYABLE_ENVIRONMENT_FAILURE_FUSE_LIMIT_def computeRateLimitRetryAt_def
      with_retry_at_def Let_def)

section \<open>The resume after a restart\<close>

lemma resume_of_latest:
  assumes "resolveLaneResumeStep t cols = Some (step, i)" and "tk_columnId t = Some c"
    and "tk_laneSessions t = runs @ [latest]" and "ls_columnId latest = Some c"
    and "ls_stepIndex latest = Some (int k)" and "k < length (lane_steps t cols)"
    and "ls_status latest = LaneFailed \<or> ls_status latest = LaneTimedOut"
  shows "i = k \<and> step = lane_steps t cols ! k"
  using assms by (auto simp: resolveLaneResumeStep_def lane_steps_def resume_index_def Let_def split: if_splits)

text \<open>A restart resumes only what it interrupted: a card's step is started again only if the card is not on hold, its latest run is a run of its present column that a restart or a cancelled turn (not the user, not an agent failure) ended, no run of the column is running, the fuse has not tripped and the planned time has come; the step is the interrupted one.\<close>
theorem resume_only_interrupted:
  assumes "decideInterruptedLaneResume host t cols now = DecideResume step i"
  shows "\<not> isTaskOnHold (JArr (map JStr (tk_labels t)))
    \<and> (\<exists>runs latest. tk_laneSessions t = runs @ [latest] \<and> ls_columnId latest = tk_columnId t
        \<and> ls_status latest \<in> {LaneFailed, LaneTimedOut}
        \<and> ls_recoveryReason latest \<in> {Some TurnCancelled, Some RestartInterrupted}
        \<and> (\<forall>retryAt. truthy (ls_retryAfterAt latest) \<and> hostDateParse host (the (ls_retryAfterAt latest)) = Some retryAt \<longrightarrow> retryAt \<le> now)
        \<and> (\<forall>k. ls_stepIndex latest = Some (int k) \<and> k < length (lane_steps t cols) \<longrightarrow> i = k \<and> step = lane_steps t cols ! k))
    \<and> \<not> list_ex (\<lambda>e. ls_columnId e = tk_columnId t \<and> ls_status e = LaneRunning) (tk_laneSessions t)
    \<and> getConsecutiveRetryableEnvironmentFailureCount t (the (tk_columnId t)) < 5"
proof -
  obtain latest rest where rev: "rev (tk_laneSessions t) = latest # rest" and hold: "\<not> isTaskOnHold (JArr (map JStr (tk_labels t)))"
    and tr: "truthy (tk_columnId t)" and col: "ls_columnId latest = tk_columnId t"
    and dec: "decide_latest host t cols now (the (find_column cols (tk_columnId t))) (the (tk_columnId t)) latest = DecideResume step i"
    using assms by (auto simp: decideInterruptedLaneResume_def Let_def split: if_splits list.splits)
  obtain c where c: "tk_columnId t = Some c" using tr by (cases "tk_columnId t") auto
  have ls: "tk_laneSessions t = rev rest @ [latest]" using rev by (metis rev.simps(2) rev_rev_ident)
  have run: "\<not> list_ex (\<lambda>e. ls_columnId e = tk_columnId t \<and> ls_status e = LaneRunning) (tk_laneSessions t)"
    and int: "was_interrupted latest" and fuse: "\<not> hasTrippedRetryableEnvironmentFuse t c"
    and res: "resolveLaneResumeStep t cols = Some (step, i)"
    and time: "\<forall>retryAt. truthy (ls_retryAfterAt latest) \<and> hostDateParse host (the (ls_retryAfterAt latest)) = Some retryAt \<longrightarrow> retryAt \<le> now"
    using dec by (auto simp: decide_latest_def c split: if_splits option.splits)
  have st: "ls_status latest = LaneFailed \<or> ls_status latest = LaneTimedOut"
    and why: "ls_recoveryReason latest \<in> {Some TurnCancelled, Some RestartInterrupted}"
    using int by (auto simp: was_interrupted_def INTERRUPTED_LANE_REASONS_def split: option.splits)
  have step: "\<forall>k. ls_stepIndex latest = Some (int k) \<and> k < length (lane_steps t cols) \<longrightarrow> i = k \<and> step = lane_steps t cols ! k"
    using resume_of_latest [OF res c ls _ _ _ st] col c by simp
  have "getConsecutiveRetryableEnvironmentFailureCount t (the (tk_columnId t)) < 5"
    using fuse by (simp add: hasTrippedRetryableEnvironmentFuse_def RETRYABLE_ENVIRONMENT_FAILURE_FUSE_LIMIT_def c)
  then show ?thesis using hold ls col st why time step run by auto
qed

section \<open>Witnesses\<close>

definition limited_run :: "string \<Rightarrow> lane_session" where
  "limited_run i = (review_run i 1)\<lparr>ls_status := LaneFailed, ls_recoveryReason := Some RateLimited\<rparr>"

theorem retry_time_bounds_witness:
  "computeRateLimitRetryAt concrete_host (JStr ''retry-after: 30'') 1 1000 (1 / 2) = Some 61000
   \<and> max 31000 1000 \<le> (61000::int)"
proof -
  have v: "computeRateLimitRetryAt concrete_host (JStr ''retry-after: 30'') 1 1000 (1 / 2) = Some 61000"
    "parseRateLimitResetAt concrete_host (JStr ''retry-after: 30'') 1000 = Some (Some 31000)" by code_simp+
  then show ?thesis
    using retry_time_bounds [of "1 / 2" concrete_host "JStr ''retry-after: 30''" 1 1000 61000] by simp
qed

theorem fuse_trips_at_five_witness:
  "hasTrippedRetryableEnvironmentFuse
     (failed_rounds ''review'' (map limited_run [''1'', ''2'', ''3'', ''4'', ''5'']) sample_review) ''review''"
proof -
  have "list_all (\<lambda>e. ls_columnId e = Some ''review'' \<and> isRetryableEnvironmentFailureLaneSession e)
      (map limited_run [''1'', ''2'', ''3'', ''4'', ''5''])"
    "getConsecutiveRetryableEnvironmentFailureCount sample_review ''review'' = 0" by code_simp+
  then show ?thesis
    using fuse_trips_at_five [of "''review''" "map limited_run [''1'', ''2'', ''3'', ''4'', ''5'']" sample_review
        concrete_host "''n''" 0 0 "''5''" "''e''"] by simp
qed

theorem far_reset_time_throws_witness:
  "planRateLimitRetry concrete_host ''n'' 0 0 sample_review ''review'' ''c'' ''retry-after: 99999999999999999''
     = (sample_review, Inl RangeError)"
proof -
  have "getConsecutiveRetryableEnvironmentFailureCount sample_review ''review'' < 5"
    "parseRateLimitResetAt concrete_host (JStr ''retry-after: 99999999999999999'') 0 = Some None" by code_simp+
  then show ?thesis by (rule far_reset_time_throws)
qed

definition interrupted_card :: task where
  "interrupted_card = sample_review\<lparr>tk_triggerSessionId := None, tk_laneSessions :=
     [(review_run ''b'' 0)\<lparr>ls_status := LaneCompleted\<rparr>,
      (review_run ''c'' 1)\<lparr>ls_status := LaneFailed, ls_recoveryReason := Some TurnCancelled\<rparr>]\<rparr>"

theorem resume_only_interrupted_witness:
  "\<exists>step. decideInterruptedLaneResume concrete_host interrupted_card sample_columns 9 = DecideResume step 1
     \<and> \<not> isTaskOnHold (JArr (map JStr (tk_labels interrupted_card)))"
proof -
  have "case decideInterruptedLaneResume concrete_host interrupted_card sample_columns 9 of
      DecideResume step i \<Rightarrow> i = 1 | _ \<Rightarrow> False" by code_simp
  then obtain step where d: "decideInterruptedLaneResume concrete_host interrupted_card sample_columns 9 = DecideResume step 1"
    by (auto split: resume_decision.splits)
  then show ?thesis using resume_only_interrupted [OF d] by blast
qed

end
