(* ===== verification/RetryMachines.thy ===== *)
theory RetryMachines
  imports RetryPolicy LaneAutomationProps
begin

text \<open>
  The two parts of the retry logic that act over time: the \<open>RateLimitRetryScheduler\<close> of
  rate-limit-retry.ts with its timers, and the claims of lane-rerun-claim.ts, which keep two paths
  from running one lane again at the same time. Both are state machines whose operations are the
  synchronous pieces of the code: what runs between two awaits or when a timer fires.
\<close>

section \<open>The scheduler of delayed reruns\<close>

record retry_entry =
  re_cardId :: string
  re_columnId :: string
  re_stepIndex :: int
  re_retryAt :: int
  re_failedSessionId :: string
  re_attempt :: int
  re_recoveryAttempts :: int

definition MAX_TIMER_DELAY_MS :: int where
  "MAX_TIMER_DELAY_MS = 2147483647"

text \<open>
  A timer of the host: its closure knows the entry and whether \<open>wait < delay\<close>; it fires once, not
  before its time. \<open>rq_runs\<close> lists the calls of \<open>run\<close> with their times.
\<close>

record armed_timer =
  at_entry :: retry_entry
  at_due :: int
  at_more :: bool

record retry_scheduler =
  rq_pending :: "(string, retry_entry \<times> nat) omap"
  rq_timers :: "(nat, armed_timer) omap"
  rq_next :: nat
  rq_runs :: "(retry_entry \<times> int) list"

definition new_scheduler :: retry_scheduler where
  "new_scheduler = \<lparr>rq_pending = [], rq_timers = [], rq_next = 0, rq_runs = []\<rparr>"

definition sched_arm :: "int \<Rightarrow> retry_entry \<Rightarrow> retry_scheduler \<Rightarrow> retry_scheduler" where
  "sched_arm now entry s =
     (let delay = max 0 (re_retryAt entry - now);
          wait = min delay MAX_TIMER_DELAY_MS;
          timer = rq_next s
      in s\<lparr>rq_timers := om_set (rq_timers s) timer \<lparr>at_entry = entry, at_due = now + wait, at_more = wait < delay\<rparr>,
           rq_next := timer + 1,
           rq_pending := om_set (rq_pending s) (re_cardId entry) (entry, timer)\<rparr>)"

definition sched_cancel :: "string \<Rightarrow> string option \<Rightarrow> retry_scheduler \<Rightarrow> retry_scheduler" where
  "sched_cancel cardId keepColumnId s =
     (case om_get (rq_pending s) cardId of
        None \<Rightarrow> s
      | Some (entry, timer) \<Rightarrow>
          if keepColumnId \<noteq> None \<and> Some (re_columnId entry) = keepColumnId then s
          else s\<lparr>rq_timers := om_del (rq_timers s) timer, rq_pending := om_del (rq_pending s) cardId\<rparr>)"

definition sched_schedule :: "int \<Rightarrow> retry_entry \<Rightarrow> retry_scheduler \<Rightarrow> retry_scheduler" where
  "sched_schedule now entry s = sched_arm now entry (sched_cancel (re_cardId entry) None s)"

definition sched_get :: "string \<Rightarrow> retry_scheduler \<Rightarrow> retry_entry option" where
  "sched_get cardId s = map_option fst (om_get (rq_pending s) cardId)"

definition sched_forget :: "string \<Rightarrow> string option \<Rightarrow> retry_scheduler \<Rightarrow> retry_scheduler" where
  "sched_forget cardId columnId s =
     (if columnId = None \<or> map_option re_columnId (sched_get cardId s) = columnId
      then sched_cancel cardId None s else s)"

definition sched_stopAll :: "retry_scheduler \<Rightarrow> retry_scheduler" where
  "sched_stopAll s =
     s\<lparr>rq_timers := foldl (\<lambda>ts v. om_del ts (snd v)) (rq_timers s) (om_values (rq_pending s)), rq_pending := []\<rparr>"

definition sched_size :: "retry_scheduler \<Rightarrow> nat" where
  "sched_size s = length (rq_pending s)"

text \<open>The host fires a timer at \<open>now\<close>; a timer that is not armed or not due does not fire.\<close>

definition sched_fire :: "nat \<Rightarrow> int \<Rightarrow> retry_scheduler \<Rightarrow> retry_scheduler" where
  "sched_fire timer now s =
     (case om_get (rq_timers s) timer of
        None \<Rightarrow> s
      | Some tm \<Rightarrow>
          if now < at_due tm then s
          else let s1 = s\<lparr>rq_timers := om_del (rq_timers s) timer\<rparr>; entry = at_entry tm
               in if map_option snd (om_get (rq_pending s1) (re_cardId entry)) \<noteq> Some timer then s1
                  else if at_more tm then sched_arm now entry s1
                  else s1\<lparr>rq_pending := om_del (rq_pending s1) (re_cardId entry),
                          rq_runs := rq_runs s1 @ [(entry, now)]\<rparr>)"

definition active_entry :: "string \<Rightarrow> string \<Rightarrow> int \<Rightarrow> int \<Rightarrow> int \<Rightarrow> string \<Rightarrow> int \<Rightarrow> retry_entry" where
  "active_entry cardId columnId currentStepIndex attempt recoveryAttempts failedSessionId retryAt =
     \<lparr>re_cardId = cardId, re_columnId = columnId, re_stepIndex = currentStepIndex, re_retryAt = retryAt,
      re_failedSessionId = failedSessionId, re_attempt = attempt, re_recoveryAttempts = recoveryAttempts\<rparr>"

section \<open>The rerun itself\<close>

definition canRunRateLimitRetry :: "task option \<Rightarrow> retry_entry \<Rightarrow> bool" where
  "canRunRateLimitRetry t entry =
     (case t of
        None \<Rightarrow> False
      | Some c \<Rightarrow>
          if tk_columnId c \<noteq> Some (re_columnId entry) then False
          else if list_ex (\<lambda>s. ls_columnId s = Some (re_columnId entry) \<and> ls_status s = LaneRunning) (tk_laneSessions c)
            then False
          else (case List.find (\<lambda>s. ls_columnId s = Some (re_columnId entry)) (rev (tk_laneSessions c)) of
                  None \<Rightarrow> False
                | Some latest \<Rightarrow> ls_sessionId latest = re_failedSessionId entry
                    \<and> (ls_recoveryReason latest = Some RateLimited \<or> ls_recoveryReason latest = Some TurnCancelled)))"

text \<open>
  \<open>runRateLimitRetry\<close> up to the start of the session: the card it saves, if it goes on. Whether the
  host can create a session and whether the orchestrator adopts the run are arguments; an empty
  trigger id is falsy and stays.
\<close>

definition released_card :: "int \<Rightarrow> task \<Rightarrow> task" where
  "released_card now t =
     (if truthy (tk_triggerSessionId t) then (archiveActiveTaskSession t)\<lparr>tk_triggerSessionId := None\<rparr> else t)
       \<lparr>tk_lastSyncError := None, tk_updatedAt := now\<rparr>"

definition runRateLimitRetry :: "bool \<Rightarrow> bool \<Rightarrow> int \<Rightarrow> task option \<Rightarrow> retry_entry \<Rightarrow> task option" where
  "runRateLimitRetry canCreate adopted now t entry =
     (if \<not> canCreate \<or> t = None \<or> \<not> canRunRateLimitRetry t entry then None
      else if \<not> adopted then None
      else Some (released_card now (the t)))"

section \<open>Claims\<close>

definition claimKey :: "string \<Rightarrow> string option \<Rightarrow> string" where
  "claimKey cardId columnId = cardId @ '':'' @ orDefault columnId []"

text \<open>
  A path that reruns a lane: it holds its claim (\<open>claimLaneRerun\<close>), \<open>runLaneRerunOnce\<close> then reads
  the card and starts the session on it.
\<close>

datatype rerun_phase = Holding | ReadingCard task string | StartingRun task task string

record claim_state =
  cl_claims :: "string list"
  cl_paths :: "(nat, string \<times> rerun_phase) omap"

definition no_claims :: claim_state where
  "no_claims = \<lparr>cl_claims = [], cl_paths = []\<rparr>"

definition isLaneRerunClaimed :: "string \<Rightarrow> string option \<Rightarrow> claim_state \<Rightarrow> bool" where
  "isLaneRerunClaimed cardId columnId s = (claimKey cardId columnId \<in> set (cl_claims s))"

definition running_ids :: "task \<Rightarrow> string \<Rightarrow> string list" where
  "running_ids t columnId =
     map ls_sessionId (filter (\<lambda>e. ls_columnId e = Some columnId \<and> ls_status e = LaneRunning) (tk_laneSessions t))"

definition hasLaneRunStartedSince :: "task \<Rightarrow> task \<Rightarrow> string \<Rightarrow> bool" where
  "hasLaneRunStartedSince snapshot fresh columnId =
     (if truthy (tk_triggerSessionId fresh) \<and> tk_triggerSessionId fresh \<noteq> tk_triggerSessionId snapshot then True
      else let runningBefore = set (running_ids snapshot columnId)
           in list_ex (\<lambda>entry. ls_columnId entry = Some columnId \<and> ls_status entry = LaneRunning
                \<and> ls_sessionId entry \<notin> runningBefore) (tk_laneSessions fresh))"

text \<open>\<open>path\<close> names the call; a call has one claim and releases it once.\<close>

definition claim_for :: "nat \<Rightarrow> string \<Rightarrow> rerun_phase \<Rightarrow> claim_state \<Rightarrow> claim_state" where
  "claim_for path key phase s =
     (if om_get (cl_paths s) path \<noteq> None then s
      else if key \<in> set (cl_claims s) then s
      else s\<lparr>cl_claims := cl_claims s @ [key], cl_paths := om_set (cl_paths s) path (key, phase)\<rparr>)"

definition claimLaneRerun :: "nat \<Rightarrow> string \<Rightarrow> string option \<Rightarrow> claim_state \<Rightarrow> claim_state" where
  "claimLaneRerun path cardId columnId s = claim_for path (claimKey cardId columnId) Holding s"

definition release_claim :: "nat \<Rightarrow> claim_state \<Rightarrow> claim_state" where
  "release_claim path s =
     (case om_get (cl_paths s) path of
        None \<Rightarrow> s
      | Some (key, _) \<Rightarrow> s\<lparr>cl_claims := filter (\<lambda>k. k \<noteq> key) (cl_claims s), cl_paths := om_del (cl_paths s) path\<rparr>)"

text \<open>\<open>runLaneRerunOnce\<close>: its beginning, the answer of the store, and its end (\<open>finally\<close>), which also
  follows a store that throws.\<close>

definition begin_rerun :: "nat \<Rightarrow> task \<Rightarrow> string \<Rightarrow> claim_state \<Rightarrow> claim_state" where
  "begin_rerun path snapshot columnId s =
     claim_for path (claimKey (tk_id snapshot) (Some columnId)) (ReadingCard snapshot columnId) s"

definition read_rerun_card :: "nat \<Rightarrow> task option \<Rightarrow> claim_state \<Rightarrow> claim_state" where
  "read_rerun_card path fresh s =
     (case om_get (cl_paths s) path of
        Some (key, ReadingCard snapshot columnId) \<Rightarrow>
          (if fresh = None \<or> tk_columnId (the fresh) \<noteq> Some columnId \<or> hasLaneRunStartedSince snapshot (the fresh) columnId
           then release_claim path s
           else s\<lparr>cl_paths := om_set (cl_paths s) path (key, StartingRun snapshot (the fresh) columnId)\<rparr>)
      | _ \<Rightarrow> s)"

datatype claim_op = ClaimLane nat string "string option" | BeginRerun nat task string | ReadCard nat "task option" | EndRerun nat

fun claim_step :: "claim_op \<Rightarrow> claim_state \<Rightarrow> claim_state" where
  "claim_step (ClaimLane path cardId columnId) s = claimLaneRerun path cardId columnId s"
| "claim_step (BeginRerun path snapshot columnId) s = begin_rerun path snapshot columnId s"
| "claim_step (ReadCard path fresh) s = read_rerun_card path fresh s"
| "claim_step (EndRerun path) s = release_claim path s"

section \<open>The scheduler keeps its promise\<close>

datatype sched_op =
    Schedule int retry_entry | Cancel string "string option" | Forget string "string option" | StopAll | Fire nat int

fun sched_step :: "sched_op \<Rightarrow> retry_scheduler \<Rightarrow> retry_scheduler" where
  "sched_step (Schedule now entry) s = sched_schedule now entry s"
| "sched_step (Cancel cardId keep) s = sched_cancel cardId keep s"
| "sched_step (Forget cardId columnId) s = sched_forget cardId columnId s"
| "sched_step StopAll s = sched_stopAll s"
| "sched_step (Fire timer now) s = sched_fire timer now s"

text \<open>Every pending rerun has its armed timer and every armed timer belongs to a pending rerun, a
  last timer is not due before the rerun's time, and no rerun ran early.\<close>

definition sched_ok :: "retry_scheduler \<Rightarrow> bool" where
  "sched_ok s =
     (om_wf (rq_pending s) \<and> om_wf (rq_timers s)
      \<and> (\<forall>c e i. om_get (rq_pending s) c = Some (e, i) \<longrightarrow>
            re_cardId e = c \<and> map_option at_entry (om_get (rq_timers s) i) = Some e)
      \<and> (\<forall>i tm. om_get (rq_timers s) i = Some tm \<longrightarrow>
            i < rq_next s \<and> om_get (rq_pending s) (re_cardId (at_entry tm)) = Some (at_entry tm, i)
            \<and> (at_more tm \<or> re_retryAt (at_entry tm) \<le> at_due tm))
      \<and> (\<forall>(e, now)\<in>set (rq_runs s). re_retryAt e \<le> now))"

lemma sched_okD:
  assumes "sched_ok s"
  shows "om_wf (rq_pending s)" "om_wf (rq_timers s)"
    "om_get (rq_pending s) c = Some (e, i) \<Longrightarrow> re_cardId e = c"
    "om_get (rq_pending s) c = Some (e, i) \<Longrightarrow> \<exists>tm. om_get (rq_timers s) i = Some tm \<and> at_entry tm = e"
    "om_get (rq_timers s) i = Some tm \<Longrightarrow> i < rq_next s"
    "om_get (rq_timers s) i = Some tm \<Longrightarrow> om_get (rq_pending s) (re_cardId (at_entry tm)) = Some (at_entry tm, i)"
    "om_get (rq_timers s) i = Some tm \<Longrightarrow> at_more tm \<or> re_retryAt (at_entry tm) \<le> at_due tm"
    "(e, now) \<in> set (rq_runs s) \<Longrightarrow> re_retryAt e \<le> now"
  using assms unfolding sched_ok_def by fastforce+

lemma sched_okI:
  assumes "om_wf (rq_pending s)" "om_wf (rq_timers s)"
    and "\<And>c e i. om_get (rq_pending s) c = Some (e, i) \<Longrightarrow> re_cardId e = c \<and> (\<exists>tm. om_get (rq_timers s) i = Some tm \<and> at_entry tm = e)"
    and "\<And>i tm. om_get (rq_timers s) i = Some tm \<Longrightarrow> i < rq_next s \<and> om_get (rq_pending s) (re_cardId (at_entry tm)) = Some (at_entry tm, i)
            \<and> (at_more tm \<or> re_retryAt (at_entry tm) \<le> at_due tm)"
    and "\<And>e now. (e, now) \<in> set (rq_runs s) \<Longrightarrow> re_retryAt e \<le> now"
  shows "sched_ok s"
  using assms unfolding sched_ok_def by fastforce

lemma pending_injective:
  "sched_ok s \<Longrightarrow> om_get (rq_pending s) c = Some (e, i) \<Longrightarrow> om_get (rq_pending s) c' = Some (e', i) \<Longrightarrow> c' = c"
  using sched_okD(3,4) by (metis option.inject)

lemma cancel_ok: "sched_ok s \<Longrightarrow> sched_ok (sched_cancel c k s)"
proof (cases "om_get (rq_pending s) c")
  case (Some ei)
  obtain e i where ei: "ei = (e, i)" by (cases ei)
  assume ok: "sched_ok s"
  have "sched_ok (s\<lparr>rq_timers := om_del (rq_timers s) i, rq_pending := om_del (rq_pending s) c\<rparr>)"
  proof (rule sched_okI, goal_cases)
    case (3 c' e' i')
    then have p: "om_get (rq_pending s) c' = Some (e', i')" "c' \<noteq> c" by (auto split: if_splits)
    then have "i' \<noteq> i" using pending_injective [OF ok _ p(1)] Some ei by metis
    then show ?case using sched_okD(3,4) [OF ok p(1)] by simp
  next
    case (4 i' tm)
    then have tm: "om_get (rq_timers s) i' = Some tm" "i' \<noteq> i" by (auto split: if_splits)
    then have "re_cardId (at_entry tm) \<noteq> c" using sched_okD(6) [OF ok tm(1)] Some ei by auto
    then show ?case using sched_okD(5-7) [OF ok tm(1)] by simp
  qed (use ok sched_okD(1,2,8) [OF ok] in auto)
  with ok show ?thesis using Some ei by (simp add: sched_cancel_def)
qed (simp add: sched_cancel_def)

lemma arm_ok:
  assumes ok: "sched_ok s" and none: "om_get (rq_pending s) (re_cardId e) = None"
  shows "sched_ok (sched_arm now e s)"
proof (rule sched_okI, goal_cases)
  case (3 c' e' i')
  show ?case
  proof (cases "c' = re_cardId e")
    case True
    then show ?thesis using 3 by (auto simp: sched_arm_def Let_def)
  next
    case False
    then have p: "om_get (rq_pending s) c' = Some (e', i')" using 3 by (simp add: sched_arm_def Let_def)
    then show ?thesis using sched_okD(3-5) [OF ok] by (fastforce simp: sched_arm_def Let_def)
  qed
next
  case (4 i' tm)
  show ?case
  proof (cases "i' = rq_next s")
    case True
    then show ?thesis using 4 by (auto simp: sched_arm_def Let_def)
  next
    case False
    then have tm: "om_get (rq_timers s) i' = Some tm" using 4 by (simp add: sched_arm_def Let_def)
    then have "re_cardId (at_entry tm) \<noteq> re_cardId e" using sched_okD(6) [OF ok tm] none by auto
    then show ?thesis using sched_okD(5-7) [OF ok tm] by (simp add: sched_arm_def Let_def)
  qed
qed (use sched_okD(1,2,8) [OF ok] in \<open>auto simp: sched_arm_def Let_def\<close>)

lemma sched_ok_cong:
  assumes "sched_ok s" and "om_get (rq_pending u) = om_get (rq_pending s)" "om_get (rq_timers u) = om_get (rq_timers s)"
    and "rq_next u = rq_next s" "rq_runs u = rq_runs s" "om_wf (rq_pending u)" "om_wf (rq_timers u)"
  shows "sched_ok u"
  using assms by (simp add: sched_ok_def)

lemma ok_add_run: "sched_ok s \<Longrightarrow> re_retryAt e \<le> now \<Longrightarrow> sched_ok (s\<lparr>rq_runs := rq_runs s @ [(e, now)]\<rparr>)"
  by (simp add: sched_ok_def)

lemma fire_ok:
  assumes ok: "sched_ok s" shows "sched_ok (sched_fire i now s)"
proof (cases "om_get (rq_timers s) i")
  case (Some tm)
  let ?e = "at_entry tm" and ?c = "re_cardId (at_entry tm)"
  have p: "om_get (rq_pending s) ?c = Some (?e, i)" using sched_okD(6) [OF ok Some] .
  let ?cut = "s\<lparr>rq_timers := om_del (rq_timers s) i, rq_pending := om_del (rq_pending s) ?c\<rparr>"
  have cut: "?cut = sched_cancel ?c None s" using p by (simp add: sched_cancel_def)
  have cut_ok: "sched_ok ?cut" unfolding cut using ok by (rule cancel_ok)
  show ?thesis
  proof (cases "now < at_due tm")
    case True
    then show ?thesis using Some ok by (simp add: sched_fire_def)
  next
    case due: False
    show ?thesis
    proof (cases "at_more tm")
      case True
      have f: "sched_fire i now s = sched_arm now ?e (s\<lparr>rq_timers := om_del (rq_timers s) i\<rparr>)"
        using Some due True p by (simp add: sched_fire_def Let_def)
      show ?thesis unfolding f
        by (rule sched_ok_cong [OF arm_ok [OF cut_ok, of ?e now]])
           (use sched_okD(1,2) [OF ok] in \<open>simp_all add: sched_arm_def Let_def fun_eq_iff\<close>)
    next
      case False
      then have f: "sched_fire i now s = ?cut\<lparr>rq_runs := rq_runs s @ [(?e, now)]\<rparr>"
        using Some due p by (simp add: sched_fire_def Let_def)
      have "re_retryAt ?e \<le> now" using sched_okD(7) [OF ok Some] False due by simp
      then show ?thesis using ok_add_run [OF cut_ok] by (simp add: f)
    qed
  qed
qed (use ok in \<open>simp add: sched_fire_def\<close>)

lemma foldl_del_get: "om_get (foldl (\<lambda>ts v. om_del ts (f v)) ts vs) i = (if i \<in> f ` set vs then None else om_get ts i)"
  by (induction vs arbitrary: ts) auto

lemma foldl_del_wf: "om_wf ts \<Longrightarrow> om_wf (foldl (\<lambda>ts v. om_del ts (f v)) ts vs)"
  by (induction vs arbitrary: ts) auto

lemma stop_ok:
  assumes ok: "sched_ok s" shows "sched_ok (sched_stopAll s)"
proof -
  have none: "om_get (rq_timers (sched_stopAll s)) i = None" for i
  proof (cases "om_get (rq_timers s) i")
    case (Some tm)
    from sched_okD(6) [OF ok Some] have "(at_entry tm, i) \<in> set (om_values (rq_pending s))"
      by (rule om_get_in_values)
    then show ?thesis by (force simp: sched_stopAll_def foldl_del_get)
  qed (simp add: sched_stopAll_def foldl_del_get)
  have "om_wf (rq_timers (sched_stopAll s))" using sched_okD(2) [OF ok] by (simp add: sched_stopAll_def foldl_del_wf)
  then show ?thesis
    using none sched_okD(8) [OF ok] by (intro sched_okI) (auto simp: sched_stopAll_def)
qed

lemma schedule_ok: "sched_ok s \<Longrightarrow> sched_ok (sched_schedule now e s)"
  unfolding sched_schedule_def
  by (rule arm_ok [OF cancel_ok]) (auto simp: sched_cancel_def split: option.split)

lemma sched_step_ok: "sched_ok s \<Longrightarrow> sched_ok (sched_step oper s)"
  by (cases oper) (auto simp: schedule_ok cancel_ok sched_forget_def stop_ok fire_ok)

lemma new_scheduler_ok: "sched_ok new_scheduler"
  by (simp add: sched_ok_def new_scheduler_def)

definition runs_grow :: "retry_scheduler \<Rightarrow> retry_scheduler \<Rightarrow> bool" where
  "runs_grow s s' = (\<exists>more. rq_runs s' = rq_runs s @ more)"

lemma cancel_runs [simp]: "rq_runs (sched_cancel c k s) = rq_runs s"
  by (simp add: sched_cancel_def split: option.split)

lemma arm_runs [simp]: "rq_runs (sched_arm now e s) = rq_runs s"
  by (simp add: sched_arm_def Let_def)

lemma step_runs: "runs_grow s (sched_step oper s)"
  by (cases oper) (auto simp: runs_grow_def sched_schedule_def sched_forget_def sched_stopAll_def sched_fire_def Let_def
      split: option.split)

interpretation retry_machine: machine sched_step sched_ok runs_grow
proof unfold_locales
  show "runs_grow s s" for s by (simp add: runs_grow_def)
  show "runs_grow s u" if "runs_grow s t" "runs_grow t u" for s t u
    using that unfolding runs_grow_def by (metis append_assoc)
qed (rule sched_step_ok step_runs; assumption?)+

section \<open>How often a card is rerun\<close>

text \<open>The reruns of a card that ran or are pending, and the calls that scheduled one.\<close>

definition sched_load :: "string \<Rightarrow> retry_scheduler \<Rightarrow> nat" where
  "sched_load c s =
     length (filter (\<lambda>r. re_cardId (fst r) = c) (rq_runs s)) + (if om_get (rq_pending s) c \<noteq> None then 1 else 0)"

fun schedules :: "string \<Rightarrow> sched_op \<Rightarrow> bool" where
  "schedules c (Schedule now e) = (re_cardId e = c)"
| "schedules c oper = False"

lemma load_cancel: "sched_load c (sched_cancel c' k s) \<le> sched_load c s"
  by (auto simp: sched_load_def sched_cancel_def split: option.split)

lemma load_cancelled: "om_get (rq_pending (sched_cancel c None s)) c = None"
  by (auto simp: sched_cancel_def split: option.split)

lemma load_schedule: "sched_load c (sched_schedule now e s) \<le> sched_load c s + (if re_cardId e = c then 1 else 0)"
  using load_cancel [of c "re_cardId e" None s] load_cancelled [of "re_cardId e" s]
  by (auto simp: sched_schedule_def sched_load_def sched_arm_def Let_def split: if_splits)

lemma load_fire:
  assumes ok: "sched_ok s" shows "sched_load c (sched_fire i now s) \<le> sched_load c s"
proof (cases "om_get (rq_timers s) i")
  case (Some tm)
  then show ?thesis using sched_okD(6) [OF ok Some]
    by (auto simp: sched_fire_def sched_load_def sched_arm_def Let_def)
qed (simp add: sched_fire_def)

lemma load_stop: "sched_load c (sched_stopAll s) \<le> sched_load c s"
  by (simp add: sched_load_def sched_stopAll_def)

lemma load_step:
  assumes "sched_ok s"
  shows "sched_load c (sched_step oper s) \<le> sched_load c s + (if schedules c oper then 1 else 0)"
proof (cases oper)
  case (Schedule now e)
  then show ?thesis using load_schedule [of c now e s] by simp
next
  case (Forget c' col)
  then show ?thesis using load_cancel [of c c' None s] by (simp add: sched_forget_def)
qed (simp_all add: load_cancel load_stop load_fire assms)

lemma load_run:
  "sched_ok s \<Longrightarrow> sched_load c (fold sched_step ops s) \<le> sched_load c s + length (filter (schedules c) ops)"
proof (induction ops arbitrary: s)
  case (Cons oper ops)
  have "sched_load c (fold sched_step ops (sched_step oper s)) \<le> sched_load c (sched_step oper s) + length (filter (schedules c) ops)"
    using Cons sched_step_ok by blast
  also have "\<dots> \<le> sched_load c s + (if schedules c oper then 1 else 0) + length (filter (schedules c) ops)"
    using load_step [OF Cons.prems] by simp
  finally show ?case by (cases "schedules c oper") simp_all
qed simp

lemma timer_unique:
  assumes ok: "sched_ok s"
    and a: "om_get (rq_timers s) i = Some tm \<and> om_get (rq_timers s) j = Some tm'
        \<and> re_cardId (at_entry tm) = re_cardId (at_entry tm')"
  shows "i = j"
proof -
  have i: "om_get (rq_timers s) i = Some tm" and j: "om_get (rq_timers s) j = Some tm'"
    and c: "re_cardId (at_entry tm) = re_cardId (at_entry tm')" using a by blast+
  have "Some (at_entry tm, i) = Some (at_entry tm', j)"
    using sched_okD(6) [OF ok i] sched_okD(6) [OF ok j] unfolding c by (rule trans [OF sym])
  then show ?thesis by simp
qed

text \<open>C26. Whatever is scheduled, cancelled, stopped and fired, and in whatever order the host's timers fire: no rerun starts before its planned time, each card has at most one armed timer, and a card is rerun at most once per call that scheduled it, so a replaced or cancelled rerun never starts.\<close>
theorem scheduler_never_early:
  "(\<forall>(e, now)\<in>set (rq_runs (fold sched_step ops new_scheduler)). re_retryAt e \<le> now)
   \<and> (\<forall>i j tm tm'. om_get (rq_timers (fold sched_step ops new_scheduler)) i = Some tm
        \<and> om_get (rq_timers (fold sched_step ops new_scheduler)) j = Some tm'
        \<and> re_cardId (at_entry tm) = re_cardId (at_entry tm') \<longrightarrow> i = j)
   \<and> length (filter (\<lambda>r. re_cardId (fst r) = c) (rq_runs (fold sched_step ops new_scheduler)))
      + (if sched_get c (fold sched_step ops new_scheduler) \<noteq> None then 1 else 0)
      \<le> length (filter (schedules c) ops)"
proof -
  let ?s = "fold sched_step ops new_scheduler"
  have ok: "sched_ok ?s" by (rule retry_machine.run_inv) (rule new_scheduler_ok)
  have "sched_load c ?s \<le> length (filter (schedules c) ops)"
    using load_run [OF new_scheduler_ok, of c ops] by (simp add: sched_load_def new_scheduler_def)
  then have 3: "length (filter (\<lambda>r. re_cardId (fst r) = c) (rq_runs ?s)) + (if sched_get c ?s \<noteq> None then 1 else 0)
      \<le> length (filter (schedules c) ops)"
    by (simp add: sched_load_def sched_get_def)
  have 1: "\<forall>(e, now)\<in>set (rq_runs ?s). re_retryAt e \<le> now" using ok unfolding sched_ok_def by blast
  have "\<forall>i j tm tm'. om_get (rq_timers ?s) i = Some tm \<and> om_get (rq_timers ?s) j = Some tm'
        \<and> re_cardId (at_entry tm) = re_cardId (at_entry tm') \<longrightarrow> i = j"
  proof (intro allI impI)
    fix i j tm tm'
    assume a: "om_get (rq_timers ?s) i = Some tm \<and> om_get (rq_timers ?s) j = Some tm'
        \<and> re_cardId (at_entry tm) = re_cardId (at_entry tm')"
    show "i = j" by (rule timer_unique [OF ok a])
  qed
  with 1 3 show ?thesis by (intro conjI)
qed

section \<open>A pending rerun does run\<close>

text \<open>
  The host fires the card's timer when it is due, again and again while the code arms a next one (a
  wait above 2^31-1 ms is chained). The chain ends: each new timer is due later, and the one that
  reaches the rerun's time is the last.
\<close>

definition pending_timer :: "string \<Rightarrow> retry_scheduler \<Rightarrow> (nat \<times> armed_timer) option" where
  "pending_timer c s =
     (case om_get (rq_pending s) c of None \<Rightarrow> None
      | Some (e, i) \<Rightarrow> (case om_get (rq_timers s) i of
          Some tm \<Rightarrow> if at_entry tm = e \<and> re_cardId e = c then Some (i, tm) else None
        | None \<Rightarrow> None))"

definition chain_measure :: "string \<Rightarrow> retry_scheduler \<Rightarrow> nat" where
  "chain_measure c s =
     (case pending_timer c s of None \<Rightarrow> 0
      | Some (i, tm) \<Rightarrow> if at_more tm then 2 + nat (re_retryAt (at_entry tm) - at_due tm) else 1)"

lemma pending_timerD:
  "pending_timer c s = Some (i, tm) \<Longrightarrow>
   om_get (rq_pending s) c = Some (at_entry tm, i) \<and> om_get (rq_timers s) i = Some tm \<and> re_cardId (at_entry tm) = c"
  by (auto simp: pending_timer_def split: option.splits prod.splits if_splits)

lemma fire_due_more:
  assumes "pending_timer c s = Some (i, tm)" and "at_more tm"
  shows "sched_fire i (at_due tm) s = sched_arm (at_due tm) (at_entry tm) (s\<lparr>rq_timers := om_del (rq_timers s) i\<rparr>)"
  using pending_timerD [OF assms(1)] assms(2) by (simp add: sched_fire_def Let_def)

lemma fire_due_last:
  assumes "pending_timer c s = Some (i, tm)" and "\<not> at_more tm"
  shows "sched_fire i (at_due tm) s = s\<lparr>rq_timers := om_del (rq_timers s) i, rq_pending := om_del (rq_pending s) c,
     rq_runs := rq_runs s @ [(at_entry tm, at_due tm)]\<rparr>"
  using pending_timerD [OF assms(1)] assms(2) by (simp add: sched_fire_def Let_def)

lemma wait_less: "min (max 0 d) MAX_TIMER_DELAY_MS < max 0 d \<longleftrightarrow> MAX_TIMER_DELAY_MS < d"
  by (auto simp: MAX_TIMER_DELAY_MS_def min_def max_def)

lemma wait_reaches:
  "now + min (max 0 (r - now)) MAX_TIMER_DELAY_MS < r \<longleftrightarrow> MAX_TIMER_DELAY_MS < r - now"
  "max (now + min (max 0 (r - now)) MAX_TIMER_DELAY_MS) r = max now r"
  by (auto simp: MAX_TIMER_DELAY_MS_def min_def max_def)

lemma armed_timer:
  "pending_timer (re_cardId e) (sched_arm now e s) =
     Some (rq_next s, \<lparr>at_entry = e, at_due = now + min (max 0 (re_retryAt e - now)) MAX_TIMER_DELAY_MS,
                       at_more = MAX_TIMER_DELAY_MS < re_retryAt e - now\<rparr>)"
  by (simp add: pending_timer_def sched_arm_def Let_def wait_less)

lemma chain_decreases:
  assumes p: "pending_timer c s = Some (i, tm)"
  shows "chain_measure c (sched_fire i (at_due tm) s) < chain_measure c s"
proof (cases "at_more tm")
  case False
  have "pending_timer c (sched_fire i (at_due tm) s) = None"
    unfolding fire_due_last [OF p False] by (simp add: pending_timer_def)
  then show ?thesis using p False by (simp add: chain_measure_def)
next
  case True
  have c: "re_cardId (at_entry tm) = c" using pending_timerD [OF p] by simp
  show ?thesis unfolding fire_due_more [OF p True] chain_measure_def
    using armed_timer [of "at_entry tm" "at_due tm" "s\<lparr>rq_timers := om_del (rq_timers s) i\<rparr>"] p True c
    by (auto simp: MAX_TIMER_DELAY_MS_def)
qed

function run_timers :: "string \<Rightarrow> retry_scheduler \<Rightarrow> retry_scheduler" where
  "run_timers c s =
     (case pending_timer c s of None \<Rightarrow> s
      | Some (i, tm) \<Rightarrow> run_timers c (sched_fire i (at_due tm) s))"
  by pat_completeness auto
termination
  by (relation "measure (\<lambda>(c, s). chain_measure c s)") (auto intro: chain_decreases)

declare run_timers.simps [simp del]

lemma run_timers_pending:
  assumes "pending_timer c s = Some (i, tm)"
    and "at_more tm \<longleftrightarrow> at_due tm < re_retryAt (at_entry tm)"
  shows "rq_runs (run_timers c s) = rq_runs s @ [(at_entry tm, max (at_due tm) (re_retryAt (at_entry tm)))]"
  using assms
proof (induction c s arbitrary: i tm rule: run_timers.induct)
  case (1 c s)
  note p = "1.prems"(1)
  have step: "run_timers c s = run_timers c (sched_fire i (at_due tm) s)"
    using p by (subst run_timers.simps) simp
  show ?case
  proof (cases "at_more tm")
    case False
    have "pending_timer c (sched_fire i (at_due tm) s) = None"
      unfolding fire_due_last [OF p False] by (simp add: pending_timer_def)
    then have "run_timers c (sched_fire i (at_due tm) s) = sched_fire i (at_due tm) s"
      by (subst run_timers.simps) simp
    then show ?thesis using False "1.prems"(2) unfolding step fire_due_last [OF p False] by simp
  next
    case True
    let ?e = "at_entry tm" and ?s1 = "s\<lparr>rq_timers := om_del (rq_timers s) i\<rparr>"
    have c: "re_cardId ?e = c" using pending_timerD [OF p] by simp
    let ?tm = "\<lparr>at_entry = ?e, at_due = at_due tm + min (max 0 (re_retryAt ?e - at_due tm)) MAX_TIMER_DELAY_MS,
                at_more = MAX_TIMER_DELAY_MS < re_retryAt ?e - at_due tm\<rparr>"
    have next_p: "pending_timer c (sched_fire i (at_due tm) s) = Some (rq_next s, ?tm)"
      using armed_timer [of ?e "at_due tm" ?s1] unfolding fire_due_more [OF p True] c by simp
    have "rq_runs (run_timers c (sched_fire i (at_due tm) s))
        = rq_runs (sched_fire i (at_due tm) s) @ [(at_entry ?tm, max (at_due ?tm) (re_retryAt (at_entry ?tm)))]"
      by (intro "1.IH" [OF p refl next_p]) (simp add: wait_reaches(1))
    then show ?thesis unfolding step fire_due_more [OF p True] by (simp add: wait_reaches(2))
  qed
qed

text \<open>A rerun that stays scheduled runs: after it is scheduled, firing the card's timers as they come due ends after finitely many chained waits with exactly one more run, of this entry, at its planned time (or at once, if that time is past), however far away it is.\<close>
theorem scheduled_rerun_runs:
  "rq_runs (run_timers (re_cardId e) (sched_schedule now e s)) = rq_runs s @ [(e, max now (re_retryAt e))]"
proof -
  let ?s = "sched_cancel (re_cardId e) None s"
  note p = armed_timer [of e now ?s]
  have "rq_runs (run_timers (re_cardId e) (sched_arm now e ?s)) = rq_runs (sched_arm now e ?s)
      @ [(e, max (now + min (max 0 (re_retryAt e - now)) MAX_TIMER_DELAY_MS) (re_retryAt e))]"
    using run_timers_pending [OF p] by (simp add: wait_reaches(1))
  then show ?thesis by (simp add: sched_schedule_def wait_reaches(2))
qed

section \<open>One rerun of a lane at a time\<close>

fun phase_ok :: "string \<Rightarrow> rerun_phase \<Rightarrow> bool" where
  "phase_ok key Holding = True"
| "phase_ok key (ReadingCard snapshot c) = (key = claimKey (tk_id snapshot) (Some c))"
| "phase_ok key (StartingRun snapshot fresh c) =
     (key = claimKey (tk_id snapshot) (Some c) \<and> tk_columnId fresh = Some c \<and> \<not> hasLaneRunStartedSince snapshot fresh c)"

definition claim_ok :: "claim_state \<Rightarrow> bool" where
  "claim_ok s =
     ((\<forall>p q k x y. om_get (cl_paths s) p = Some (k, x) \<longrightarrow> om_get (cl_paths s) q = Some (k, y) \<longrightarrow> p = q)
      \<and> (\<forall>k. k \<in> set (cl_claims s) \<longleftrightarrow> (\<exists>p x. om_get (cl_paths s) p = Some (k, x)))
      \<and> (\<forall>p k x. om_get (cl_paths s) p = Some (k, x) \<longrightarrow> phase_ok k x))"

lemma claim_okD:
  assumes "claim_ok s"
  shows "om_get (cl_paths s) p = Some (k, x) \<Longrightarrow> om_get (cl_paths s) q = Some (k, y) \<Longrightarrow> p = q"
    and "k \<in> set (cl_claims s) \<longleftrightarrow> (\<exists>p x. om_get (cl_paths s) p = Some (k, x))"
    and "om_get (cl_paths s) p = Some (k, x) \<Longrightarrow> phase_ok k x"
  using assms unfolding claim_ok_def by blast+

lemma claim_for_ok:
  assumes ok: "claim_ok s" and ph: "phase_ok key phase"
  shows "claim_ok (claim_for path key phase s)"
proof (cases "om_get (cl_paths s) path \<noteq> None \<or> key \<in> set (cl_claims s)")
  case True
  then have "claim_for path key phase s = s" by (auto simp: claim_for_def)
  then show ?thesis using ok by simp
next
  case False
  let ?u = "s\<lparr>cl_claims := cl_claims s @ [key], cl_paths := om_set (cl_paths s) path (key, phase)\<rparr>"
  have u: "claim_for path key phase s = ?u" using False by (simp add: claim_for_def)
  have fresh: "om_get (cl_paths s) path = None" using False by blast
  have other: "om_get (cl_paths s) p \<noteq> Some (key, x)" for p x
    using False claim_okD(2) [OF ok] by blast
  have "p = q" if "om_get (cl_paths ?u) p = Some (k, x)" "om_get (cl_paths ?u) q = Some (k, y)" for p q k x y
    using that fresh other claim_okD(1) [OF ok] by (auto split: if_splits)
  moreover have "(\<exists>p x. om_get (cl_paths ?u) p = Some (k, x)) \<longleftrightarrow> k = key \<or> (\<exists>p x. om_get (cl_paths s) p = Some (k, x))" for k
    using fresh by (auto, metis option.distinct(1))
  then have "k \<in> set (cl_claims ?u) \<longleftrightarrow> (\<exists>p x. om_get (cl_paths ?u) p = Some (k, x))" for k
    using claim_okD(2) [OF ok, of k] by auto
  moreover have "phase_ok k x" if "om_get (cl_paths ?u) p = Some (k, x)" for p k x
    using that ph claim_okD(3) [OF ok] by (auto split: if_splits)
  ultimately show ?thesis unfolding u claim_ok_def by blast
qed

lemma release_ok:
  assumes ok: "claim_ok s" shows "claim_ok (release_claim path s)"
proof (cases "om_get (cl_paths s) path")
  case (Some kx)
  obtain key ph where kx: "kx = (key, ph)" by (cases kx)
  let ?u = "s\<lparr>cl_claims := filter (\<lambda>k. k \<noteq> key) (cl_claims s), cl_paths := om_del (cl_paths s) path\<rparr>"
  have u: "release_claim path s = ?u" using Some kx by (simp add: release_claim_def)
  have mine: "om_get (cl_paths s) p = Some (key, x) \<Longrightarrow> p = path" for p x
    using claim_okD(1) [OF ok] Some kx by blast
  have "p = q" if "om_get (cl_paths ?u) p = Some (k, x)" "om_get (cl_paths ?u) q = Some (k, y)" for p q k x y
    using that claim_okD(1) [OF ok] by (auto split: if_splits)
  moreover have "k \<in> set (cl_claims ?u) \<longleftrightarrow> (\<exists>p x. om_get (cl_paths ?u) p = Some (k, x))" for k
  proof (cases "k = key")
    case True
    then show ?thesis using mine by auto
  next
    case False
    then have "om_get (cl_paths s) p = Some (k, x) \<longleftrightarrow> om_get (cl_paths ?u) p = Some (k, x)" for p x
      using Some kx by auto
    then show ?thesis using claim_okD(2) [OF ok, of k] False by simp
  qed
  moreover have "phase_ok k x" if "om_get (cl_paths ?u) p = Some (k, x)" for p k x
    using that claim_okD(3) [OF ok] by (auto split: if_splits)
  ultimately show ?thesis unfolding u claim_ok_def by blast
qed (use ok in \<open>simp add: release_claim_def\<close>)

lemma read_ok:
  assumes ok: "claim_ok s" shows "claim_ok (read_rerun_card path fresh s)"
proof (cases "\<exists>key snapshot c. om_get (cl_paths s) path = Some (key, ReadingCard snapshot c)")
  case True
  then obtain key snapshot c where p: "om_get (cl_paths s) path = Some (key, ReadingCard snapshot c)" by blast
  show ?thesis
  proof (cases "fresh = None \<or> tk_columnId (the fresh) \<noteq> Some c \<or> hasLaneRunStartedSince snapshot (the fresh) c")
    case True
    then show ?thesis using p release_ok [OF ok] by (simp add: read_rerun_card_def)
  next
    case False
    let ?u = "s\<lparr>cl_paths := om_set (cl_paths s) path (key, StartingRun snapshot (the fresh) c)\<rparr>"
    have u: "read_rerun_card path fresh s = ?u" using p False by (cases fresh) (simp_all add: read_rerun_card_def)
    have "q = r" if "om_get (cl_paths ?u) q = Some (k, x)" "om_get (cl_paths ?u) r = Some (k, y)" for q r k x y
      using that p claim_okD(1) [OF ok] by (auto split: if_splits)
    moreover have "(\<exists>x. om_get (cl_paths ?u) q = Some (k, x)) \<longleftrightarrow> (\<exists>x. om_get (cl_paths s) q = Some (k, x))" for q k
      using p by auto
    then have "k \<in> set (cl_claims ?u) \<longleftrightarrow> (\<exists>p x. om_get (cl_paths ?u) p = Some (k, x))" for k
      using claim_okD(2) [OF ok, of k] by simp
    moreover have "phase_ok k x" if "om_get (cl_paths ?u) q = Some (k, x)" for q k x
      using that False claim_okD(3) [OF ok p] claim_okD(3) [OF ok] by (auto split: if_splits)
    ultimately show ?thesis unfolding u claim_ok_def by blast
  qed
next
  case False
  then have "read_rerun_card path fresh s = s"
    by (auto simp: read_rerun_card_def split: option.split rerun_phase.split)
  then show ?thesis using ok by simp
qed

lemma claim_step_ok: "claim_ok s \<Longrightarrow> claim_ok (claim_step oper s)"
  by (cases oper) (simp_all add: claimLaneRerun_def begin_rerun_def claim_for_ok release_ok read_ok)

lemma no_claims_ok: "claim_ok no_claims"
  by (simp add: claim_ok_def no_claims_def)

interpretation claim_machine: machine claim_step claim_ok "\<lambda>s s'. True"
  by unfold_locales (simp_all add: claim_step_ok)

text \<open>Two reruns of one card lane never overlap: under every interleaving of the startup resume, revive and retry paths (claims, reads of the card, ends) at most one path holds a lane, a path that starts a session has found the card still in its column with no run started since it looked, and no claim outlives its path.\<close>
theorem rerun_claims_exclusive:
  "(\<forall>p q snapshot fresh snapshot' fresh' c k k'.
      om_get (cl_paths (fold claim_step ops no_claims)) p = Some (k, StartingRun snapshot fresh c)
      \<and> om_get (cl_paths (fold claim_step ops no_claims)) q = Some (k', StartingRun snapshot' fresh' c)
      \<and> tk_id snapshot = tk_id snapshot' \<longrightarrow> p = q)
   \<and> (\<forall>p k snapshot fresh c. om_get (cl_paths (fold claim_step ops no_claims)) p = Some (k, StartingRun snapshot fresh c)
        \<longrightarrow> tk_columnId fresh = Some c \<and> \<not> hasLaneRunStartedSince snapshot fresh c
          \<and> isLaneRerunClaimed (tk_id snapshot) (Some c) (fold claim_step ops no_claims))
   \<and> (cl_paths (fold claim_step ops no_claims) = [] \<longrightarrow> cl_claims (fold claim_step ops no_claims) = [])"
proof -
  let ?s = "fold claim_step ops no_claims"
  have ok: "claim_ok ?s" by (rule claim_machine.run_inv) (rule no_claims_ok)
  have 1: "p = q" if "om_get (cl_paths ?s) p = Some (k, StartingRun snapshot fresh c)"
      "om_get (cl_paths ?s) q = Some (k', StartingRun snapshot' fresh' c)" "tk_id snapshot = tk_id snapshot'"
    for p q snapshot fresh snapshot' fresh' c k k'
  proof -
    have "k = k'" using claim_okD(3) [OF ok that(1)] claim_okD(3) [OF ok that(2)] that(3) by simp
    then show ?thesis using claim_okD(1) [OF ok that(1)] that(2) by blast
  qed
  have 2: "tk_columnId fresh = Some c \<and> \<not> hasLaneRunStartedSince snapshot fresh c
          \<and> isLaneRerunClaimed (tk_id snapshot) (Some c) ?s"
    if "om_get (cl_paths ?s) p = Some (k, StartingRun snapshot fresh c)" for p k snapshot fresh c
    using claim_okD(3) [OF ok that] claim_okD(2) [OF ok, of k] that by (auto simp: isLaneRerunClaimed_def)
  have 3: "cl_paths ?s = [] \<longrightarrow> cl_claims ?s = []"
  proof
    assume "cl_paths ?s = []"
    then have "k \<notin> set (cl_claims ?s)" for k using claim_okD(2) [OF ok, of k] by simp
    then show "cl_claims ?s = []" by (metis list.set_intros(1) neq_Nil_conv)
  qed
  show ?thesis using 1 2 3 by blast
qed

section \<open>Witnesses\<close>

definition sample_entry :: retry_entry where
  "sample_entry = active_entry ''t'' ''review'' 1 0 0 ''c'' 5"

theorem scheduler_never_early_witness:
  "rq_runs (fold sched_step [Schedule 0 sample_entry, Schedule 1 sample_entry, Fire 0 5, Fire 1 6] new_scheduler)
     = [(sample_entry, 6)]
   \<and> re_retryAt sample_entry \<le> 6"
proof -
  let ?ops = "[Schedule 0 sample_entry, Schedule 1 sample_entry, Fire 0 5, Fire 1 6]"
  have r: "rq_runs (fold sched_step ?ops new_scheduler) = [(sample_entry, 6)]" by code_simp
  then show ?thesis using scheduler_never_early [of ?ops "''t''"] by auto
qed

theorem rerun_claims_exclusive_witness:
  "let s = fold claim_step [BeginRerun 0 sample_review ''review'', BeginRerun 1 sample_review ''review'',
       ReadCard 0 (Some sample_review)] no_claims
   in om_get (cl_paths s) 1 = None \<and> isLaneRerunClaimed (tk_id sample_review) (Some ''review'') s"
proof -
  let ?s = "fold claim_step [BeginRerun 0 sample_review ''review'', BeginRerun 1 sample_review ''review'',
       ReadCard 0 (Some sample_review)] no_claims"
  have "om_get (cl_paths ?s) 0 = Some (''t:review'', StartingRun sample_review sample_review ''review'')"
    "om_get (cl_paths ?s) 1 = None" by code_simp+
  then show ?thesis
    using rerun_claims_exclusive [of "[BeginRerun 0 sample_review ''review'', BeginRerun 1 sample_review ''review'',
       ReadCard 0 (Some sample_review)]"] unfolding Let_def by blast
qed

end
