(* ===== verification/SessionQueue.thy ===== *)
theory SessionQueue
  imports LaneHistory EventBus
begin

text \<open>
  src/src/core/kanban/kanban-session-queue.ts, the queue that limits how many cards of a board run
  at once, and board-session-limits.ts. The queue's operations are asynchronous: what runs between
  two awaits is atomic, other calls may run in between. So the queue is a machine of threads: a
  thread is the place where a call waits, with its local variables, and a step resumes one thread
  with the value it waited for, or makes a new call.

  A queue entry is an object that the code compares by identity: it is an index into \<open>qs_entries\<close>.
  The array of a board's queue is an object too (it is pushed to while it is iterated): an index
  into \<open>qs_arrays\<close>, with the board it was made for. \<open>qs_starts\<close> records the calls of \<open>start\<close>, and
  \<open>qs_held\<close> those of \<open>onHeldJobDropped\<close>.
\<close>

section \<open>Limits of a board\<close>

definition DEFAULT_KANBAN_SESSION_CONCURRENCY_LIMIT :: int where
  "DEFAULT_KANBAN_SESSION_CONCURRENCY_LIMIT = 5"

definition metadataKey :: "string \<Rightarrow> string" where
  "metadataKey boardId = ''kanbanSessionConcurrencyLimit:'' @ boardId"

definition digit_of :: "char \<Rightarrow> int option" where
  "digit_of c = (let n = (of_char c :: nat) in if 48 \<le> n \<and> n \<le> 57 then Some (int n - 48) else None)"

fun parse_digits :: "int option \<Rightarrow> string \<Rightarrow> int option" where
  "parse_digits acc [] = acc"
| "parse_digits acc (c # s) =
     (case digit_of c of None \<Rightarrow> acc | Some d \<Rightarrow> parse_digits (Some (10 * orDefault acc 0 + d)) s)"

text \<open>\<open>Number.parseInt(s, 10)\<close>; \<^const>\<open>None\<close> is NaN.\<close>

definition parseInt10 :: "string \<Rightarrow> int option" where
  "parseInt10 raw =
     (case trimStart raw of
        [] \<Rightarrow> None
      | c # s \<Rightarrow> if c = CHR ''-'' then map_option uminus (parse_digits None s)
                 else if c = CHR ''+'' then parse_digits None s
                 else parse_digits None (c # s))"

definition getKanbanSessionConcurrencyLimit :: "(string, string) omap option \<Rightarrow> string \<Rightarrow> int" where
  "getKanbanSessionConcurrencyLimit metadata boardId =
     (let raw = Option.bind metadata (\<lambda>m. om_get m (metadataKey boardId));
          parsed = (if truthy raw then parseInt10 (the raw) else None)
      in case parsed of None \<Rightarrow> DEFAULT_KANBAN_SESSION_CONCURRENCY_LIMIT
         | Some p \<Rightarrow> if p < 1 then DEFAULT_KANBAN_SESSION_CONCURRENCY_LIMIT else p)"

text \<open>\<open>String(n)\<close> prints an integer below 10^21 by its digits.\<close>

definition setKanbanSessionConcurrencyLimit ::
  "(string, string) omap option \<Rightarrow> string \<Rightarrow> js_num \<Rightarrow> (string, string) omap" where
  "setKanbanSessionConcurrencyLimit metadata boardId limit =
     (let normalizedLimit = (case limit of
            Fin v \<Rightarrow> if v \<ge> 1 then max 1 \<lfloor>v\<rfloor> else DEFAULT_KANBAN_SESSION_CONCURRENCY_LIMIT
          | _ \<Rightarrow> DEFAULT_KANBAN_SESSION_CONCURRENCY_LIMIT)
      in om_set (orDefault metadata []) (metadataKey boardId) (show_nat (nat normalizedLimit)))"

section \<open>The queue\<close>

record queue_job =
  jb_cardId :: string
  jb_cardTitle :: string
  jb_boardId :: string
  jb_workspaceId :: string
  jb_columnId :: "string option"

datatype entry_status = Queued | Running

record queue_entry =
  qe_job :: queue_job
  qe_status :: entry_status
  qe_sessionId :: "string option"
  qe_startError :: "string option"

text \<open>What was true when an entry was started: the running entries and the limit of its board, and
  the card that the drain read (a job that starts at once is not looked up).\<close>

record queue_start =
  st_entry :: nat
  st_running :: nat
  st_limit :: nat
  st_task :: "task option"

record queue_state =
  qs_started :: bool
  qs_entries :: "queue_entry list"
  qs_arrays :: "(string \<times> nat list) list"
  qs_jobs :: "(string, nat) omap"
  qs_queues :: "(string, nat) omap"
  qs_starts :: "queue_start list"
  qs_held :: "(string \<times> string option) list"

definition new_queue :: queue_state where
  "new_queue = \<lparr>qs_started = False, qs_entries = [], qs_arrays = [], qs_jobs = [], qs_queues = [],
     qs_starts = [], qs_held = []\<rparr>"

definition entry_at :: "queue_state \<Rightarrow> nat \<Rightarrow> queue_entry" where
  "entry_at s i = qs_entries s ! i"

definition card_of :: "queue_state \<Rightarrow> nat \<Rightarrow> string" where
  "card_of s i = jb_cardId (qe_job (entry_at s i))"

definition board_of :: "queue_state \<Rightarrow> nat \<Rightarrow> string" where
  "board_of s i = jb_boardId (qe_job (entry_at s i))"

definition column_of :: "queue_state \<Rightarrow> nat \<Rightarrow> string option" where
  "column_of s i = jb_columnId (qe_job (entry_at s i))"

definition is_job :: "queue_state \<Rightarrow> nat \<Rightarrow> bool" where
  "is_job s i = (om_get (qs_jobs s) (card_of s i) = Some i)"

definition board_queue :: "queue_state \<Rightarrow> string \<Rightarrow> nat list" where
  "board_queue s boardId = (case om_get (qs_queues s) boardId of None \<Rightarrow> [] | Some a \<Rightarrow> snd (qs_arrays s ! a))"

definition running_entries :: "queue_state \<Rightarrow> string \<Rightarrow> nat list" where
  "running_entries s boardId =
     filter (\<lambda>i. board_of s i = boardId \<and> qe_status (entry_at s i) = Running) (om_values (qs_jobs s))"

definition countRunning :: "queue_state \<Rightarrow> string \<Rightarrow> nat" where
  "countRunning s boardId = length (running_entries s boardId)"

definition isInBoardQueue :: "queue_state \<Rightarrow> nat \<Rightarrow> bool" where
  "isInBoardQueue s i = (i \<in> set (board_queue s (board_of s i)))"

definition delete_job :: "string \<Rightarrow> queue_state \<Rightarrow> queue_state" where
  "delete_job cardId s = s\<lparr>qs_jobs := om_del (qs_jobs s) cardId\<rparr>"

text \<open>A new array becomes the board's queue; an empty one is deleted.\<close>

definition set_queue :: "string \<Rightarrow> nat list \<Rightarrow> queue_state \<Rightarrow> queue_state" where
  "set_queue boardId es s =
     (if es = [] then s\<lparr>qs_queues := om_del (qs_queues s) boardId\<rparr>
      else s\<lparr>qs_arrays := qs_arrays s @ [(boardId, es)], qs_queues := om_set (qs_queues s) boardId (length (qs_arrays s))\<rparr>)"

definition removeQueuedEntry :: "string \<Rightarrow> string \<Rightarrow> queue_state \<Rightarrow> queue_state" where
  "removeQueuedEntry boardId cardId s =
     (if om_get (qs_queues s) boardId = None then s
      else set_queue boardId (filter (\<lambda>i. card_of s i \<noteq> cardId) (board_queue s boardId)) s)"

definition removeQueuedEntryInstance :: "string \<Rightarrow> nat \<Rightarrow> queue_state \<Rightarrow> queue_state" where
  "removeQueuedEntryInstance boardId i s =
     (if om_get (qs_queues s) boardId = None then s
      else set_queue boardId (filter (\<lambda>k. k \<noteq> i) (board_queue s boardId)) s)"

text \<open>\<open>push\<close> changes the board's array in place, or makes one.\<close>

definition pushQueuedEntry :: "nat \<Rightarrow> queue_state \<Rightarrow> queue_state" where
  "pushQueuedEntry i s =
     (case om_get (qs_queues s) (board_of s i) of
        None \<Rightarrow> s\<lparr>qs_arrays := qs_arrays s @ [(board_of s i, [i])],
                   qs_queues := om_set (qs_queues s) (board_of s i) (length (qs_arrays s))\<rparr>
      | Some a \<Rightarrow> s\<lparr>qs_arrays := (qs_arrays s)[a := (fst (qs_arrays s ! a), snd (qs_arrays s ! a) @ [i])]\<rparr>)"

definition dropQueuedOrphans :: "string \<Rightarrow> queue_state \<Rightarrow> queue_state" where
  "dropQueuedOrphans boardId s =
     foldl (\<lambda>s (cardId, i).
         if board_of s i = boardId \<and> qe_status (entry_at s i) = Queued \<and> \<not> isInBoardQueue s i
         then delete_job cardId s else s) s (qs_jobs s)"

definition removeCardJob :: "string \<Rightarrow> queue_state \<Rightarrow> queue_state" where
  "removeCardJob cardId s =
     (case om_get (qs_jobs s) cardId of None \<Rightarrow> s
      | Some i \<Rightarrow> delete_job cardId (removeQueuedEntry (board_of s i) cardId s))"

section \<open>Threads\<close>

text \<open>Who waits for \<open>drainQueue\<close>, for \<open>reconcileBoardEntries\<close> and for \<open>startEntry\<close>.\<close>

datatype after_drain = KVoid | KEnqueued nat

datatype after_reconcile = KEnqueue queue_job | KSnapshot | KDrain string after_drain

datatype after_start = KReturn | KLoop string string nat after_drain

record queue_snapshot =
  sn_boardId :: string
  sn_runningCount :: nat
  sn_runningCards :: "(string \<times> string) list"
  sn_queuedCount :: nat
  sn_queuedCardIds :: "string list"
  sn_queuedCards :: "(string \<times> string) list"
  sn_queuedPositions :: "(string, nat) omap"

datatype queue_result =
    REnqueued "string option" bool "string option" | RSnapshot queue_snapshot | RVoid | RThrown

text \<open>
  \<open>RecRunning\<close>, \<open>RecQueued\<close>, \<open>EnqTask\<close> and \<open>DrainTask\<close> wait for the card of an entry, \<open>EnqLimit\<close>
  and \<open>DrainLimit\<close> for the limit, \<open>Starting\<close> for the start of the session; the others wait for a
  promise that is settled (\<open>await\<close> of a function that has returned).
\<close>

datatype queue_thread =
    RecRunning string nat "nat list" after_reconcile
  | AtRecQueued string after_reconcile
  | RecQueued string nat nat nat "nat list" after_reconcile
  | AtCont string after_reconcile
  | EnqTask queue_job nat
  | EnqLimit queue_job
  | DrainLimit string string after_drain
  | DrainTask string string nat nat after_drain
  | Starting nat after_start
  | AtLoop string string nat after_drain
  | AfterDrain after_drain
  | QDone queue_result

datatype queue_input =
    InTask "task option" | InLimit nat | InStarted "string option" "string option" | InThrow string | InGo

section \<open>Reconciling a board\<close>

fun running_next :: "string \<Rightarrow> nat list \<Rightarrow> after_reconcile \<Rightarrow> queue_state \<Rightarrow> queue_thread" where
  "running_next boardId [] k s = AtRecQueued boardId k"
| "running_next boardId (i # rest) k s =
     (if is_job s i \<and> qe_status (entry_at s i) = Running then RecRunning boardId i rest k
      else running_next boardId rest k s)"

definition reconcile_begin :: "string \<Rightarrow> after_reconcile \<Rightarrow> queue_state \<Rightarrow> queue_thread" where
  "reconcile_begin boardId k s = running_next boardId (running_entries s boardId) k s"

definition stale_running :: "queue_state \<Rightarrow> string \<Rightarrow> nat \<Rightarrow> task option \<Rightarrow> bool" where
  "stale_running s boardId i t =
     (case t of None \<Rightarrow> True | Some c \<Rightarrow>
        tk_boardId c \<noteq> Some boardId \<or> (column_of s i \<noteq> None \<and> tk_columnId c \<noteq> column_of s i))"

definition stale_queued :: "queue_state \<Rightarrow> string \<Rightarrow> nat \<Rightarrow> task option \<Rightarrow> bool" where
  "stale_queued s boardId i t =
     (case t of None \<Rightarrow> True | Some c \<Rightarrow>
        tk_boardId c \<noteq> Some boardId \<or> truthy (tk_triggerSessionId c)
        \<or> (column_of s i \<noteq> None \<and> tk_columnId c \<noteq> column_of s i))"

text \<open>The iteration over the array \<open>a\<close> goes on at \<open>index\<close>; it sees what was pushed meanwhile.\<close>

definition queued_next :: "string \<Rightarrow> nat \<Rightarrow> nat \<Rightarrow> nat list \<Rightarrow> after_reconcile \<Rightarrow> queue_state \<Rightarrow> queue_state \<times> queue_thread" where
  "queued_next boardId a index nextEntries k s =
     (let arr = snd (qs_arrays s ! a) in
      case find_index (\<lambda>i. is_job s i \<and> qe_status (entry_at s i) = Queued) (drop index arr) of
        None \<Rightarrow> (set_queue boardId nextEntries s, AtCont boardId k)
      | Some d \<Rightarrow> (s, RecQueued boardId a (index + d) (arr ! (index + d)) nextEntries k))"

definition reconcile_queued_begin :: "string \<Rightarrow> after_reconcile \<Rightarrow> queue_state \<Rightarrow> queue_state \<times> queue_thread" where
  "reconcile_queued_begin boardId k s =
     (let s1 = dropQueuedOrphans boardId s in
      case om_get (qs_queues s1) boardId of
        None \<Rightarrow> (s1, AtCont boardId k)
      | Some a \<Rightarrow> if snd (qs_arrays s1 ! a) = [] then (s1, AtCont boardId k)
                  else queued_next boardId a 0 [] k s1)"

section \<open>Starting and draining\<close>

definition startEntry :: "nat \<Rightarrow> nat \<Rightarrow> task option \<Rightarrow> queue_state \<Rightarrow> queue_state" where
  "startEntry i limit t s =
     (let s1 = removeQueuedEntry (board_of s i) (card_of s i) s in
      s1\<lparr>qs_entries := (qs_entries s1)[i := (entry_at s1 i)\<lparr>qe_status := Running\<rparr>],
         qs_starts := qs_starts s1 @ [\<lparr>st_entry = i, st_running = countRunning s (board_of s i), st_limit = limit, st_task = t\<rparr>]\<rparr>)"

definition drain_begin :: "nat \<Rightarrow> queue_state \<Rightarrow> queue_thread" where
  "drain_begin i s = reconcile_begin (board_of s i) (KDrain (jb_workspaceId (qe_job (entry_at s i))) KVoid) s"

text \<open>The end of \<open>startEntry\<close>; the last component is the drain it starts without waiting for it.\<close>

definition start_failed :: "nat \<Rightarrow> string \<Rightarrow> queue_state \<Rightarrow> queue_state \<times> queue_result \<times> queue_thread option" where
  "start_failed i err s =
     (let s1 = s\<lparr>qs_entries := (qs_entries s)[i := (entry_at s i)\<lparr>qe_startError := Some err\<rparr>]\<rparr>;
          s2 = delete_job (card_of s1 i) s1
      in (s2, REnqueued None False (Some err), Some (drain_begin i s2)))"

definition start_settled :: "nat \<Rightarrow> queue_input \<Rightarrow> queue_state \<Rightarrow> queue_state \<times> queue_result \<times> queue_thread option" where
  "start_settled i inp s =
     (case inp of
        InStarted sessionId err \<Rightarrow>
          if truthy sessionId
          then let s1 = s\<lparr>qs_entries := (qs_entries s)[i := (entry_at s i)\<lparr>qe_sessionId := sessionId\<rparr>]\<rparr>
               in (s1\<lparr>qs_jobs := om_set (qs_jobs s1) (card_of s1 i) i\<rparr>, REnqueued sessionId False None, None)
          else start_failed i (orDefault err ''Failed to start ACP session.'') s
      | InThrow message \<Rightarrow> start_failed i message s
      | _ \<Rightarrow> (s, RThrown, None))"

definition drain_loop :: "string \<Rightarrow> string \<Rightarrow> nat \<Rightarrow> after_drain \<Rightarrow> queue_state \<Rightarrow> queue_thread" where
  "drain_loop boardId workspaceId limit d s =
     (if countRunning s boardId < limit
      then (case board_queue s boardId of [] \<Rightarrow> AfterDrain d
            | i # _ \<Rightarrow> DrainTask boardId workspaceId limit i d)
      else AfterDrain d)"

definition task_on_hold :: "task \<Rightarrow> bool" where
  "task_on_hold t = isTaskOnHold (JArr (map JStr (tk_labels t)))"

definition not_startable :: "queue_state \<Rightarrow> string \<Rightarrow> nat \<Rightarrow> task option \<Rightarrow> bool" where
  "not_startable s boardId i t =
     (case t of None \<Rightarrow> True | Some c \<Rightarrow>
        tk_boardId c \<noteq> Some boardId \<or> (truthy (column_of s i) \<and> tk_columnId c \<noteq> column_of s i) \<or> task_on_hold c)"

definition drain_read :: "string \<Rightarrow> string \<Rightarrow> nat \<Rightarrow> nat \<Rightarrow> after_drain \<Rightarrow> task option \<Rightarrow> queue_state \<Rightarrow> queue_state \<times> queue_thread" where
  "drain_read boardId workspaceId limit i d t s =
     (if \<not> is_job s i \<or> qe_status (entry_at s i) \<noteq> Queued
      then let s1 = removeQueuedEntryInstance boardId i s in (s1, drain_loop boardId workspaceId limit d s1)
      else if not_startable s boardId i t
      then let s1 = delete_job (card_of s i) (removeQueuedEntryInstance boardId i s);
               s2 = (case t of None \<Rightarrow> s1 | Some c \<Rightarrow>
                       if task_on_hold c then s1\<lparr>qs_held := qs_held s1 @ [(card_of s i, column_of s i)]\<rparr> else s1)
           in (s2, drain_loop boardId workspaceId limit d s2)
      else if countRunning s boardId \<ge> limit then (s, AfterDrain d)
      else (startEntry i limit t s, Starting i (KLoop boardId workspaceId limit d)))"

section \<open>Enqueueing and snapshots\<close>

definition enqueue_after_reconcile :: "queue_job \<Rightarrow> queue_state \<Rightarrow> queue_state \<times> queue_thread" where
  "enqueue_after_reconcile job s =
     (case om_get (qs_jobs s) (jb_cardId job) of
        None \<Rightarrow> (s, EnqLimit job)
      | Some i \<Rightarrow>
          if qe_status (entry_at s i) = Running then (s, EnqTask job i)
          else if isInBoardQueue s i then (s, QDone (REnqueued None True None))
          else (delete_job (jb_cardId job) s, EnqLimit job))"

definition enqueue_task :: "queue_job \<Rightarrow> nat \<Rightarrow> task option \<Rightarrow> queue_state \<Rightarrow> queue_state \<times> queue_thread" where
  "enqueue_task job existing t s =
     (if (case t of None \<Rightarrow> False | Some c \<Rightarrow> \<not> truthy (tk_triggerSessionId c))
      then (delete_job (jb_cardId job) s, EnqLimit job)
      else (s, QDone (REnqueued (qe_sessionId (entry_at s existing)) False None)))"

definition enqueue_limit :: "queue_job \<Rightarrow> nat \<Rightarrow> queue_state \<Rightarrow> queue_state \<times> queue_thread" where
  "enqueue_limit job limit s =
     (let runningCount = countRunning s (jb_boardId job);
          i = length (qs_entries s);
          s1 = s\<lparr>qs_entries := qs_entries s @ [\<lparr>qe_job = job, qe_status = Queued, qe_sessionId = None, qe_startError = None\<rparr>],
                  qs_jobs := om_set (qs_jobs s) (jb_cardId job) i\<rparr>
      in if runningCount \<ge> limit then (pushQueuedEntry i s1, QDone (REnqueued None True None))
         else if length (board_queue s1 (jb_boardId job)) > 0
           then let s2 = pushQueuedEntry i s1
                in (s2, reconcile_begin (jb_boardId job) (KDrain (jb_workspaceId job) (KEnqueued i)) s2)
         else (startEntry i limit None s1, Starting i KReturn))"

definition enqueue_drained :: "nat \<Rightarrow> queue_state \<Rightarrow> queue_result" where
  "enqueue_drained i s =
     (if is_job s i \<and> qe_status (entry_at s i) = Running \<and> truthy (qe_sessionId (entry_at s i))
        then REnqueued (qe_sessionId (entry_at s i)) False None
      else if is_job s i then REnqueued None True None
      else REnqueued None False (Some (orDefault (qe_startError (entry_at s i)) ''Failed to start ACP session.'')))"

definition getBoardSnapshot :: "string \<Rightarrow> queue_state \<Rightarrow> queue_snapshot" where
  "getBoardSnapshot boardId s =
     (let queuedEntries = board_queue s boardId;
          card = (\<lambda>i. (card_of s i, jb_cardTitle (qe_job (entry_at s i))))
      in \<lparr>sn_boardId = boardId, sn_runningCount = countRunning s boardId,
          sn_runningCards = map card (running_entries s boardId),
          sn_queuedCount = length queuedEntries, sn_queuedCardIds = map (card_of s) queuedEntries,
          sn_queuedCards = map card queuedEntries,
          sn_queuedPositions = foldl (\<lambda>m (index, i). om_set m (card_of s i) (index + 1)) []
                                 (List.enumerate 0 queuedEntries)\<rparr>)"

section \<open>Resuming a thread\<close>

text \<open>The new state, the thread's next place, and a thread it has started. An input that the thread
  does not wait for changes nothing; a read that throws ends the call.\<close>

definition start_answer :: "queue_input \<Rightarrow> bool" where
  "start_answer inp = (case inp of InStarted _ _ \<Rightarrow> True | InThrow _ \<Rightarrow> True | _ \<Rightarrow> False)"

definition waits_for_value :: "queue_thread \<Rightarrow> bool" where
  "waits_for_value th = (case th of RecRunning _ _ _ _ \<Rightarrow> True | RecQueued _ _ _ _ _ _ \<Rightarrow> True | EnqTask _ _ \<Rightarrow> True
     | EnqLimit _ \<Rightarrow> True | DrainLimit _ _ _ \<Rightarrow> True | DrainTask _ _ _ _ _ \<Rightarrow> True | _ \<Rightarrow> False)"

fun resume :: "queue_thread \<Rightarrow> queue_input \<Rightarrow> queue_state \<Rightarrow> queue_state \<times> queue_thread \<times> queue_thread option" where
  "resume (RecRunning boardId i rest k) (InTask t) s =
     (let s1 = (if stale_running s boardId i t then delete_job (card_of s i) s else s)
      in (s1, running_next boardId rest k s1, None))"
| "resume (AtRecQueued boardId k) InGo s =
     (let (s1, th) = reconcile_queued_begin boardId k s in (s1, th, None))"
| "resume (RecQueued boardId a index i nextEntries k) (InTask t) s =
     (let (s1, next1) = (if stale_queued s boardId i t then (delete_job (card_of s i) s, nextEntries)
                         else (s, nextEntries @ [i]));
          (s2, th) = queued_next boardId a (index + 1) next1 k s1
      in (s2, th, None))"
| "resume (AtCont boardId (KEnqueue job)) InGo s = (let (s1, th) = enqueue_after_reconcile job s in (s1, th, None))"
| "resume (AtCont boardId KSnapshot) InGo s = (s, QDone (RSnapshot (getBoardSnapshot boardId s)), None)"
| "resume (AtCont boardId (KDrain workspaceId d)) InGo s = (s, DrainLimit boardId workspaceId d, None)"
| "resume (EnqTask job existing) (InTask t) s = (let (s1, th) = enqueue_task job existing t s in (s1, th, None))"
| "resume (EnqLimit job) (InLimit limit) s = (let (s1, th) = enqueue_limit job limit s in (s1, th, None))"
| "resume (DrainLimit boardId workspaceId d) (InLimit limit) s = (s, drain_loop boardId workspaceId limit d s, None)"
| "resume (DrainTask boardId workspaceId limit i d) (InTask t) s =
     (let (s1, th) = drain_read boardId workspaceId limit i d t s in (s1, th, None))"
| "resume (Starting i k) inp s =
     (if start_answer inp
      then let (s1, res, drain) = start_settled i inp s
           in (s1, (case k of KReturn \<Rightarrow> QDone res | KLoop boardId workspaceId limit d \<Rightarrow> AtLoop boardId workspaceId limit d), drain)
      else (s, Starting i k, None))"
| "resume (AtLoop boardId workspaceId limit d) InGo s = (s, drain_loop boardId workspaceId limit d s, None)"
| "resume (AfterDrain KVoid) InGo s = (s, QDone RVoid, None)"
| "resume (AfterDrain (KEnqueued i)) InGo s = (s, QDone (enqueue_drained i s), None)"
| "resume (QDone res) inp s = (s, QDone res, None)"
| "resume th (InThrow message) s = (s, if waits_for_value th then QDone RThrown else th, None)"
| "resume th inp s = (s, th, None)"

section \<open>Calls\<close>

text \<open>The events the handler of \<open>start\<close> reacts to, and the session they name.\<close>

definition is_lifecycle :: "agent_event \<Rightarrow> bool" where
  "is_lifecycle event = (ev_type event \<in> {AGENT_COMPLETED, REPORT_SUBMITTED, AGENT_FAILED, AGENT_TIMEOUT})"

definition handleAgentLifecycleEvent :: "agent_event \<Rightarrow> queue_state \<Rightarrow> queue_state \<times> queue_thread option" where
  "handleAgentLifecycleEvent event s =
     (case map_of (ev_data event) ''sessionId'' of
        Some (JStr sessionId) \<Rightarrow>
          if sessionId = [] then (s, None)
          else (case List.find (\<lambda>(cardId, i). qe_status (entry_at s i) = Running \<and> qe_sessionId (entry_at s i) = Some sessionId) (qs_jobs s) of
                  None \<Rightarrow> (s, None)
                | Some (cardId, i) \<Rightarrow> (let s1 = delete_job cardId s in (s1, Some (drain_begin i s1))))
      | _ \<Rightarrow> (s, None))"

datatype queue_call =
    CallStart | CallStop | CallRemove string | CallEnqueue queue_job | CallSnapshot string | CallEvent agent_event

definition queue_call_step :: "queue_call \<Rightarrow> queue_state \<Rightarrow> queue_state \<times> queue_thread option" where
  "queue_call_step c s =
     (case c of
        CallStart \<Rightarrow> (s\<lparr>qs_started := True\<rparr>, None)
      | CallStop \<Rightarrow> (s\<lparr>qs_started := False, qs_jobs := [], qs_queues := []\<rparr>, None)
      | CallRemove cardId \<Rightarrow> (removeCardJob cardId s, None)
      | CallEnqueue job \<Rightarrow> (s, Some (reconcile_begin (jb_boardId job) (KEnqueue job) s))
      | CallSnapshot boardId \<Rightarrow> (s, Some (reconcile_begin boardId KSnapshot s))
      | CallEvent event \<Rightarrow> if qs_started s \<and> is_lifecycle event then handleAgentLifecycleEvent event s else (s, None))"

record queue_system =
  sy_queue :: queue_state
  sy_threads :: "queue_thread list"

datatype queue_op = NewCall queue_call | Resume nat queue_input

definition opt_list :: "'a option \<Rightarrow> 'a list" where
  "opt_list v = (case v of None \<Rightarrow> [] | Some x \<Rightarrow> [x])"

fun queue_step :: "queue_op \<Rightarrow> queue_system \<Rightarrow> queue_system" where
  "queue_step (NewCall c) y =
     (let (s1, th) = queue_call_step c (sy_queue y)
      in y\<lparr>sy_queue := s1, sy_threads := sy_threads y @ opt_list th\<rparr>)"
| "queue_step (Resume n inp) y =
     (if n < length (sy_threads y)
      then let (s1, th, drain) = resume (sy_threads y ! n) inp (sy_queue y)
           in y\<lparr>sy_queue := s1, sy_threads := (sy_threads y)[n := th] @ opt_list drain\<rparr>
      else y)"

definition new_queue_system :: queue_system where
  "new_queue_system = \<lparr>sy_queue = new_queue, sy_threads = []\<rparr>"

end
