(* ===== verification/SessionQueueProps.thy ===== *)
theory SessionQueueProps
  imports SessionQueue LaneAutomationProps
begin

text \<open>
  The properties of the session queue under every interleaving of its calls: an invariant of the
  machine, what holds of every start, the order of the queue, and two interleavings that break what
  the queue promises.
\<close>

section \<open>The invariant\<close>

definition start_ok :: "queue_state \<Rightarrow> queue_start \<Rightarrow> bool" where
  "start_ok s x =
     (st_entry x < length (qs_entries s) \<and> qe_status (entry_at s (st_entry x)) = Running
      \<and> st_running x < st_limit x
      \<and> (st_task x = None \<or> \<not> not_startable s (board_of s (st_entry x)) (st_entry x) (st_task x)))"

definition in_board :: "queue_state \<Rightarrow> string \<Rightarrow> nat \<Rightarrow> bool" where
  "in_board s b i = (i < length (qs_entries s) \<and> board_of s i = b)"

definition queue_ok :: "queue_state \<Rightarrow> bool" where
  "queue_ok s =
     (om_wf (qs_jobs s) \<and> (\<forall>c i. om_get (qs_jobs s) c = Some i \<longrightarrow> i < length (qs_entries s) \<and> card_of s i = c)
      \<and> (\<forall>b a. om_get (qs_queues s) b = Some a \<longrightarrow> a < length (qs_arrays s) \<and> fst (qs_arrays s ! a) = b)
      \<and> (\<forall>a < length (qs_arrays s). \<forall>i\<in>set (snd (qs_arrays s ! a)). in_board s (fst (qs_arrays s ! a)) i)
      \<and> distinct (map st_entry (qs_starts s)) \<and> (\<forall>x\<in>set (qs_starts s). start_ok s x))"

lemma queue_okD:
  assumes "queue_ok s"
  shows "om_get (qs_jobs s) c = Some i \<Longrightarrow> i < length (qs_entries s) \<and> card_of s i = c"
    and "om_get (qs_queues s) b = Some a \<Longrightarrow> a < length (qs_arrays s) \<and> fst (qs_arrays s ! a) = b"
    and "a < length (qs_arrays s) \<Longrightarrow> i \<in> set (snd (qs_arrays s ! a)) \<Longrightarrow> in_board s (fst (qs_arrays s ! a)) i"
    and "distinct (map st_entry (qs_starts s))"
    and "x \<in> set (qs_starts s) \<Longrightarrow> start_ok s x"
    and "om_wf (qs_jobs s)"
  using assms unfolding queue_ok_def by blast+

text \<open>How a state grows: entries keep their jobs and stay running, arrays keep their boards.\<close>

definition queue_le :: "queue_state \<Rightarrow> queue_state \<Rightarrow> bool" where
  "queue_le s u =
     (length (qs_entries s) \<le> length (qs_entries u)
      \<and> (\<forall>i < length (qs_entries s). qe_job (entry_at u i) = qe_job (entry_at s i)
            \<and> (qe_status (entry_at s i) = Running \<longrightarrow> qe_status (entry_at u i) = Running))
      \<and> length (qs_arrays s) \<le> length (qs_arrays u)
      \<and> (\<forall>a < length (qs_arrays s). fst (qs_arrays u ! a) = fst (qs_arrays s ! a)))"

lemma queue_le_refl [simp]: "queue_le s s"
  by (simp add: queue_le_def)

lemma queue_le_trans: "queue_le s u \<Longrightarrow> queue_le u v \<Longrightarrow> queue_le s v"
  unfolding queue_le_def by fastforce

lemma in_board_le: "in_board s b i \<Longrightarrow> queue_le s u \<Longrightarrow> in_board u b i"
  by (auto simp: in_board_def queue_le_def board_of_def)

lemma entry_le:
  assumes "queue_le s u" and "i < length (qs_entries s)"
  shows "i < length (qs_entries u)" "card_of u i = card_of s i" "board_of u i = board_of s i" "column_of u i = column_of s i"
    "qe_status (entry_at s i) = Running \<Longrightarrow> qe_status (entry_at u i) = Running"
  using assms by (auto simp: queue_le_def card_of_def board_of_def column_of_def)

lemma start_ok_le: "start_ok s x \<Longrightarrow> queue_le s u \<Longrightarrow> start_ok u x"
  using entry_le [of s u "st_entry x"] by (auto simp: start_ok_def not_startable_def)

text \<open>A step that only deletes jobs and replaces queues.\<close>

lemma queue_ok_frame:
  assumes "queue_ok s" and "queue_le s u" and "qs_starts u = qs_starts s"
    and "\<And>c i. om_get (qs_jobs u) c = Some i \<Longrightarrow> om_get (qs_jobs s) c = Some i \<or> (i < length (qs_entries u) \<and> card_of u i = c)"
    and "\<And>b a. om_get (qs_queues u) b = Some a \<Longrightarrow> om_get (qs_queues s) b = Some a \<or> (a < length (qs_arrays u) \<and> fst (qs_arrays u ! a) = b)"
    and "\<And>a i. a < length (qs_arrays u) \<Longrightarrow> i \<in> set (snd (qs_arrays u ! a)) \<Longrightarrow>
          (a < length (qs_arrays s) \<and> i \<in> set (snd (qs_arrays s ! a))) \<or> in_board u (fst (qs_arrays u ! a)) i"
    and "om_wf (qs_jobs s) \<Longrightarrow> om_wf (qs_jobs u)"
  shows "queue_ok u"
proof -
  have len: "length (qs_arrays s) \<le> length (qs_arrays u)" using assms(2) by (simp add: queue_le_def)
  have tag: "fst (qs_arrays u ! a) = fst (qs_arrays s ! a)" if "a < length (qs_arrays s)" for a
    using assms(2) that by (simp add: queue_le_def)
  have 1: "i < length (qs_entries u) \<and> card_of u i = c" if "om_get (qs_jobs u) c = Some i" for c i
    using assms(4) [OF that] queue_okD(1) [OF assms(1), of c i] entry_le [OF assms(2), of i] by auto
  have 2: "a < length (qs_arrays u) \<and> fst (qs_arrays u ! a) = b" if "om_get (qs_queues u) b = Some a" for b a
    using assms(5) [OF that] queue_okD(2) [OF assms(1), of b a] tag [of a] len by auto
  have 3: "in_board u (fst (qs_arrays u ! a)) i" if "a < length (qs_arrays u)" "i \<in> set (snd (qs_arrays u ! a))" for a i
    using assms(6) [OF that] queue_okD(3) [OF assms(1), of a i] in_board_le [OF _ assms(2)] tag [of a] by auto
  have 4: "start_ok u x" if "x \<in> set (qs_starts s)" for x
    using queue_okD(5) [OF assms(1) that] assms(2) by (rule start_ok_le)
  show ?thesis unfolding queue_ok_def assms(3)
    using 1 2 3 4 queue_okD(4) [OF assms(1)] assms(7) [OF queue_okD(6) [OF assms(1)]] by blast
qed

definition evolves :: "queue_state \<Rightarrow> queue_state \<Rightarrow> bool" where
  "evolves s u = (queue_ok u \<and> queue_le s u)"

lemma evolves_refl: "queue_ok s \<Longrightarrow> evolves s s"
  by (simp add: evolves_def)

lemma evolves_trans: "evolves s u \<Longrightarrow> evolves u v \<Longrightarrow> evolves s v"
  unfolding evolves_def using queue_le_trans by blast

section \<open>The operations keep the invariant\<close>

lemma delete_job_evolves: "queue_ok s \<Longrightarrow> evolves s (delete_job c s)"
proof -
  assume ok: "queue_ok s"
  have le: "queue_le s (delete_job c s)" by (simp add: delete_job_def queue_le_def entry_at_def)
  have "queue_ok (delete_job c s)"
    by (rule queue_ok_frame [OF ok le]) (auto simp: delete_job_def split: if_splits)
  then show ?thesis using le by (simp add: evolves_def)
qed

lemma set_queue_evolves:
  assumes ok: "queue_ok s" and es: "\<forall>i\<in>set es. in_board s b i"
  shows "evolves s (set_queue b es s)"
proof -
  have le: "queue_le s (set_queue b es s)"
    by (auto simp: set_queue_def queue_le_def entry_at_def nth_append)
  have "queue_ok (set_queue b es s)"
    by (rule queue_ok_frame [OF ok le])
       (use es in_board_le [OF _ le] in \<open>auto simp: set_queue_def nth_append less_Suc_eq split: if_splits\<close>)
  then show ?thesis using le by (simp add: evolves_def)
qed

lemma board_queue_in_board: "queue_ok s \<Longrightarrow> i \<in> set (board_queue s b) \<Longrightarrow> in_board s b i"
  by (cases "om_get (qs_queues s) b") (auto simp: board_queue_def dest: queue_okD(2) queue_okD(3))

lemma remove_evolves: "queue_ok s \<Longrightarrow> evolves s (removeQueuedEntry b c s)"
  by (auto simp: removeQueuedEntry_def evolves_refl intro!: set_queue_evolves dest: board_queue_in_board)

lemma remove_instance_evolves: "queue_ok s \<Longrightarrow> evolves s (removeQueuedEntryInstance b i s)"
  by (auto simp: removeQueuedEntryInstance_def evolves_refl intro!: set_queue_evolves dest: board_queue_in_board)

lemma fst_update_same: "fst (xs[k := (fst (xs ! k), z)] ! a) = fst (xs ! a)"
  by (cases "k < length xs"; cases "a = k") (simp_all add: list_update_beyond)

lemma push_evolves:
  assumes ok: "queue_ok s" and i: "i < length (qs_entries s)"
  shows "evolves s (pushQueuedEntry i s)"
proof -
  have le: "queue_le s (pushQueuedEntry i s)"
    by (auto simp: pushQueuedEntry_def queue_le_def entry_at_def nth_append fst_update_same split: option.split)
  have "queue_ok (pushQueuedEntry i s)"
  proof (cases "om_get (qs_queues s) (board_of s i)")
    case None
    show ?thesis
      by (rule queue_ok_frame [OF ok le])
         (use None i in \<open>auto simp: pushQueuedEntry_def nth_append less_Suc_eq in_board_def board_of_def entry_at_def split: if_splits\<close>)
  next
    case (Some a)
    have a: "a < length (qs_arrays s)" "fst (qs_arrays s ! a) = board_of s i" using queue_okD(2) [OF ok Some] by auto
    show ?thesis
      by (rule queue_ok_frame [OF ok le])
         (use Some i a in \<open>auto simp: pushQueuedEntry_def nth_list_update in_board_def board_of_def entry_at_def split: if_splits\<close>)
  qed
  then show ?thesis using le by (simp add: evolves_def)
qed

lemma drop_orphans_evolves: "queue_ok s \<Longrightarrow> evolves s (dropQueuedOrphans b s)"
proof -
  assume ok: "queue_ok s"
  define f where "f = (\<lambda>s (c, i). if board_of s i = b \<and> qe_status (entry_at s i) = Queued \<and> \<not> isInBoardQueue s i
         then delete_job c s else s)"
  have step: "evolves u (f u ci)" if "queue_ok u" for u ci
    using that delete_job_evolves evolves_refl by (cases ci) (simp add: f_def)
  have "queue_ok u \<Longrightarrow> evolves u (foldl f u js)" for u js
  proof (induction js arbitrary: u)
    case (Cons ci js)
    have "evolves u (f u ci)" using Cons.prems by (rule step)
    then show ?case using Cons.IH evolves_trans unfolding evolves_def foldl_Cons by blast
  qed (simp add: evolves_refl)
  then show ?thesis using ok by (simp add: dropQueuedOrphans_def f_def)
qed

lemma remove_card_evolves: "queue_ok s \<Longrightarrow> evolves s (removeCardJob c s)"
  unfolding removeCardJob_def using remove_evolves delete_job_evolves evolves_trans evolves_refl
  by (auto split: option.split simp: evolves_def) (metis evolves_def queue_le_trans)+

lemma start_evolves:
  assumes ok: "queue_ok s" and i: "i < length (qs_entries s)" and q: "qe_status (entry_at s i) = Queued"
    and lim: "countRunning s (board_of s i) < limit"
    and t: "t = None \<or> \<not> not_startable s (board_of s i) i t"
  shows "evolves s (startEntry i limit t s)"
proof -
  let ?s1 = "removeQueuedEntry (board_of s i) (card_of s i) s"
  let ?x = "\<lparr>st_entry = i, st_running = countRunning s (board_of s i), st_limit = limit, st_task = t\<rparr>"
  let ?u = "?s1\<lparr>qs_entries := (qs_entries ?s1)[i := (entry_at ?s1 i)\<lparr>qe_status := Running\<rparr>]\<rparr>"
  have 1: "evolves s ?s1" using ok by (rule remove_evolves)
  then have ok1: "queue_ok ?s1" and le1: "queue_le s ?s1" by (simp_all add: evolves_def)
  have same: "qs_entries ?s1 = qs_entries s" "qs_starts ?s1 = qs_starts s"
    by (simp_all add: removeQueuedEntry_def set_queue_def)
  have le2: "queue_le ?s1 ?u" using i same by (auto simp: queue_le_def entry_at_def nth_list_update)
  have ok2: "queue_ok ?u"
    by (rule queue_ok_frame [OF ok1 le2]) (use queue_okD(3) [OF ok1] in_board_le [OF _ le2] in auto)
  have fresh: "i \<notin> st_entry ` set (qs_starts s)"
    using queue_okD(5) [OF ok] q by (auto simp: start_ok_def)
  have "start_ok ?u ?x" using i lim t same
    by (auto simp: start_ok_def entry_at_def not_startable_def board_of_def column_of_def)
  then have "queue_ok (?u\<lparr>qs_starts := qs_starts s @ [?x]\<rparr>)"
    using ok2 fresh same unfolding queue_ok_def start_ok_def in_board_def not_startable_def
    by (auto simp: entry_at_def card_of_def board_of_def column_of_def)
  moreover have "queue_le s (?u\<lparr>qs_starts := qs_starts s @ [?x]\<rparr>)"
    using queue_le_trans [OF le1 le2] by (simp add: queue_le_def entry_at_def)
  ultimately show ?thesis unfolding evolves_def startEntry_def Let_def using same by simp
qed

section \<open>Threads\<close>

fun thread_ok :: "queue_state \<Rightarrow> queue_thread \<Rightarrow> bool" where
  "thread_ok s (RecQueued b a index i nextEntries k) =
     (a < length (qs_arrays s) \<and> fst (qs_arrays s ! a) = b \<and> in_board s b i \<and> (\<forall>j\<in>set nextEntries. in_board s b j))"
| "thread_ok s (DrainTask b ws limit i d) = in_board s b i"
| "thread_ok s (Starting i k) = (i < length (qs_entries s))"
| "thread_ok s th = True"

lemma thread_ok_le: "thread_ok s th \<Longrightarrow> queue_le s u \<Longrightarrow> thread_ok u th"
  by (cases th) (auto intro: in_board_le, auto simp: queue_le_def)

lemma running_next_ok: "thread_ok s (running_next b es k u)"
  by (induction b es k u rule: running_next.induct) auto

lemma reconcile_begin_ok [simp]: "thread_ok s (reconcile_begin b k u)"
  by (simp add: reconcile_begin_def running_next_ok)

lemma drain_begin_ok [simp]: "thread_ok s (drain_begin i u)"
  by (simp add: drain_begin_def)

lemma drain_loop_ok: "queue_ok s \<Longrightarrow> thread_ok s (drain_loop b ws limit d s)"
  using board_queue_in_board [of s _ b] by (auto simp: drain_loop_def split: list.split)

definition moves :: "queue_state \<Rightarrow> queue_state \<times> queue_thread \<Rightarrow> bool" where
  "moves s r = (evolves s (fst r) \<and> thread_ok (fst r) (snd r))"

lemma queued_next_moves:
  assumes ok: "queue_ok s" and a: "a < length (qs_arrays s)" "fst (qs_arrays s ! a) = b"
    and nx: "\<forall>j\<in>set nextEntries. in_board s b j"
  shows "moves s (queued_next b a index nextEntries k s)"
proof (cases "find_index (\<lambda>i. is_job s i \<and> qe_status (entry_at s i) = Queued) (drop index (snd (qs_arrays s ! a)))")
  case None
  then show ?thesis using set_queue_evolves [OF ok nx] by (simp add: queued_next_def moves_def Let_def)
next
  case (Some d)
  then have "index + d < length (snd (qs_arrays s ! a))" using find_index_Some by fastforce
  then have "in_board s b (snd (qs_arrays s ! a) ! (index + d))" using queue_okD(3) [OF ok a(1)] a(2) by auto
  then show ?thesis using Some ok a nx by (simp add: queued_next_def moves_def evolves_refl Let_def)
qed

lemma moves_trans: "evolves s u \<Longrightarrow> moves u r \<Longrightarrow> moves s r"
  unfolding moves_def using evolves_trans by blast

lemma reconcile_queued_moves:
  assumes ok: "queue_ok s" shows "moves s (reconcile_queued_begin b k s)"
proof -
  let ?u = "dropQueuedOrphans b s"
  have e: "evolves s ?u" using ok by (rule drop_orphans_evolves)
  then have oku: "queue_ok ?u" by (simp add: evolves_def)
  have stay: "moves s (?u, AtCont b k)" using e by (simp add: moves_def)
  show ?thesis
  proof (cases "om_get (qs_queues ?u) b")
    case None
    then show ?thesis using stay by (simp add: reconcile_queued_begin_def Let_def)
  next
    case (Some a)
    then have "moves ?u (queued_next b a 0 [] k ?u)"
      using queue_okD(2) [OF oku Some] by (intro queued_next_moves [OF oku]) auto
    then show ?thesis using stay Some moves_trans [OF e] by (simp add: reconcile_queued_begin_def Let_def)
  qed
qed

lemma held_evolves: "queue_ok u \<Longrightarrow> evolves u (u\<lparr>qs_held := h\<rparr>)"
proof -
  assume ok: "queue_ok u"
  have le: "queue_le u (u\<lparr>qs_held := h\<rparr>)" by (simp add: queue_le_def entry_at_def)
  have "queue_ok (u\<lparr>qs_held := h\<rparr>)" by (rule queue_ok_frame [OF ok le]) auto
  then show ?thesis using le by (simp add: evolves_def)
qed

lemma drain_read_moves:
  assumes ok: "queue_ok s" and i: "in_board s b i"
  shows "moves s (drain_read b ws limit i d t s)"
proof -
  let ?r = "removeQueuedEntryInstance b i s"
  have e1: "evolves s ?r" using ok by (rule remove_instance_evolves)
  have e2: "evolves s (delete_job c ?r)" for c
    using e1 delete_job_evolves evolves_trans unfolding evolves_def by blast
  have e3: "evolves s (u\<lparr>qs_held := h\<rparr>)" if "evolves s u" for u h
    using held_evolves evolves_trans [OF that] that by (simp add: evolves_def)
  have loop: "evolves s u \<Longrightarrow> moves s (u, drain_loop b ws limit d u)" for u
    using drain_loop_ok by (simp add: moves_def evolves_def)
  consider "\<not> is_job s i \<or> qe_status (entry_at s i) \<noteq> Queued"
    | "is_job s i" "qe_status (entry_at s i) = Queued" "not_startable s b i t"
    | "is_job s i" "qe_status (entry_at s i) = Queued" "\<not> not_startable s b i t" "limit \<le> countRunning s b"
    | "is_job s i" "qe_status (entry_at s i) = Queued" "\<not> not_startable s b i t" "countRunning s b < limit"
    by linarith
  then show ?thesis
  proof cases
    case 1
    then show ?thesis using loop [OF e1] by (simp add: drain_read_def Let_def)
  next
    case 2
    then show ?thesis using loop e2 e3 [OF e2] by (simp add: drain_read_def Let_def split: option.split)
  next
    case 3
    then show ?thesis using ok by (simp add: drain_read_def moves_def evolves_refl)
  next
    case 4
    have "evolves s (startEntry i limit t s)"
      using 4 i by (intro start_evolves [OF ok]) (auto simp: in_board_def)
    moreover have "thread_ok (startEntry i limit t s) (Starting i (KLoop b ws limit d))"
      using i by (simp add: startEntry_def Let_def in_board_def removeQueuedEntry_def set_queue_def)
    ultimately show ?thesis using 4 by (simp add: drain_read_def moves_def)
  qed
qed

lemma settled_evolves:
  assumes ok: "queue_ok s" and i: "i < length (qs_entries s)"
  shows "evolves s (fst (start_settled i inp s))"
proof -
  have upd: "evolves s (s\<lparr>qs_entries := (qs_entries s)[i := f (entry_at s i)]\<rparr>)"
    if "\<And>e. qe_job (f e) = qe_job e \<and> qe_status (f e) = qe_status e" for f
  proof -
    let ?u = "s\<lparr>qs_entries := (qs_entries s)[i := f (entry_at s i)]\<rparr>"
    have le: "queue_le s ?u" using i that by (auto simp: queue_le_def entry_at_def nth_list_update)
    have "queue_ok ?u" by (rule queue_ok_frame [OF ok le]) auto
    then show ?thesis using le by (simp add: evolves_def)
  qed
  have fail: "evolves s (fst (start_failed i err s))" for err
    using upd [of "\<lambda>e. e\<lparr>qe_startError := Some err\<rparr>"] delete_job_evolves evolves_trans
    unfolding start_failed_def Let_def evolves_def fst_conv by fastforce
  have set: "evolves u (u\<lparr>qs_jobs := om_set (qs_jobs u) (card_of u i) i\<rparr>)"
    if "queue_ok u" "i < length (qs_entries u)" for u
  proof -
    let ?v = "u\<lparr>qs_jobs := om_set (qs_jobs u) (card_of u i) i\<rparr>"
    have le: "queue_le u ?v" by (simp add: queue_le_def entry_at_def)
    have "queue_ok ?v"
      by (rule queue_ok_frame [OF that(1) le]) (use that(2) in \<open>auto simp: card_of_def entry_at_def split: if_splits\<close>)
    then show ?thesis using le by (simp add: evolves_def)
  qed
  have start: "evolves s (let s1 = s\<lparr>qs_entries := (qs_entries s)[i := (entry_at s i)\<lparr>qe_sessionId := x\<rparr>]\<rparr>
               in s1\<lparr>qs_jobs := om_set (qs_jobs s1) (card_of s1 i) i\<rparr>)" for x
    unfolding Let_def
    by (rule evolves_trans [OF upd [of "\<lambda>e. e\<lparr>qe_sessionId := x\<rparr>"] set])
       (use upd [of "\<lambda>e. e\<lparr>qe_sessionId := x\<rparr>"] i in \<open>simp_all add: evolves_def\<close>)
  show ?thesis
    using fail start ok by (auto simp: start_settled_def Let_def evolves_refl split: queue_input.split)
qed

section \<open>The machine\<close>

lemma enqueue_limit_moves:
  assumes ok: "queue_ok s" shows "moves s (enqueue_limit job limit s)"
proof -
  let ?i = "length (qs_entries s)"
  let ?e = "\<lparr>qe_job = job, qe_status = Queued, qe_sessionId = None, qe_startError = None\<rparr>"
  let ?s1 = "s\<lparr>qs_entries := qs_entries s @ [?e], qs_jobs := om_set (qs_jobs s) (jb_cardId job) ?i\<rparr>"
  have le: "queue_le s ?s1" by (auto simp: queue_le_def entry_at_def nth_append)
  have ok1: "queue_ok ?s1"
    by (rule queue_ok_frame [OF ok le]) (auto simp: card_of_def entry_at_def nth_append split: if_splits)
  have e1: "evolves s ?s1" using ok1 le by (simp add: evolves_def)
  have i: "?i < length (qs_entries ?s1)" "entry_at ?s1 ?i = ?e" "board_of ?s1 ?i = jb_boardId job"
    by (simp_all add: entry_at_def board_of_def)
  have push: "evolves s (pushQueuedEntry ?i ?s1)" using evolves_trans [OF e1 push_evolves [OF ok1 i(1)]] .
  have running: "countRunning ?s1 (jb_boardId job) \<le> countRunning s (jb_boardId job)"
  proof -
    have "length (filter P (om_values (om_set m c ?i))) \<le> length (filter P (om_values m))"
      if "\<not> P ?i" for P and m :: "(string, nat) omap" and c
      using that by (induction m c ?i rule: om_set.induct) (auto simp: om_values_def)
    from this [of "\<lambda>i. board_of ?s1 i = jb_boardId job \<and> qe_status (entry_at ?s1 i) = Running" "qs_jobs s" "jb_cardId job"]
    have "countRunning ?s1 (jb_boardId job) \<le>
        length (filter (\<lambda>i. board_of ?s1 i = jb_boardId job \<and> qe_status (entry_at ?s1 i) = Running) (om_values (qs_jobs s)))"
      using i(2) by (simp add: countRunning_def running_entries_def)
    also have "\<dots> = countRunning s (jb_boardId job)"
    proof -
      have "x < length (qs_entries s)" if "x \<in> set (om_values (qs_jobs s))" for x
        using that queue_okD(1,6) [OF ok] by (auto simp: om_values_def om_wf_def)
      then have "filter (\<lambda>i. board_of ?s1 i = jb_boardId job \<and> qe_status (entry_at ?s1 i) = Running) (om_values (qs_jobs s))
          = running_entries s (jb_boardId job)"
        unfolding running_entries_def by (intro filter_cong) (auto simp: board_of_def entry_at_def nth_append)
      then show ?thesis by (simp add: countRunning_def)
    qed
    finally show ?thesis .
  qed
  consider "limit \<le> countRunning s (jb_boardId job)"
    | "countRunning s (jb_boardId job) < limit" "board_queue ?s1 (jb_boardId job) \<noteq> []"
    | "countRunning s (jb_boardId job) < limit" "board_queue ?s1 (jb_boardId job) = []"
    by linarith
  then show ?thesis
  proof cases
    case 1
    then show ?thesis using push by (simp add: enqueue_limit_def moves_def Let_def)
  next
    case 2
    then show ?thesis using push by (simp add: enqueue_limit_def moves_def Let_def)
  next
    case 3
    have "evolves ?s1 (startEntry ?i limit None ?s1)"
      using 3 running i by (intro start_evolves [OF ok1 i(1)]) auto
    then have "evolves s (startEntry ?i limit None ?s1)" using evolves_trans [OF e1] by blast
    then show ?thesis using 3
      by (simp add: enqueue_limit_def moves_def Let_def startEntry_def removeQueuedEntry_def set_queue_def)
  qed
qed

definition resumes :: "queue_state \<Rightarrow> queue_state \<times> queue_thread \<times> queue_thread option \<Rightarrow> bool" where
  "resumes s r = (moves s (fst r, fst (snd r)) \<and> list_all (thread_ok (fst r)) (opt_list (snd (snd r))))"

lemma resumes_moves: "moves s r \<Longrightarrow> resumes s (let (s1, th) = r in (s1, th, None))"
  by (cases r) (simp add: resumes_def opt_list_def)

lemma resumes_case: "moves s r \<Longrightarrow> resumes s (case r of (s1, th) \<Rightarrow> (s1, th, None))"
  by (cases r) (simp add: resumes_def opt_list_def)

lemma resumes_moves': "moves s (s1, th) \<Longrightarrow> resumes s (s1, th, None)"
  by (simp add: resumes_def opt_list_def)

lemma moves_same: "queue_ok s \<Longrightarrow> thread_ok s th \<Longrightarrow> moves s (s, th)"
  by (simp add: moves_def evolves_refl)

lemma enqueue_after_moves: "queue_ok s \<Longrightarrow> moves s (enqueue_after_reconcile job s)"
  by (auto simp: enqueue_after_reconcile_def moves_def evolves_refl delete_job_evolves split: option.split)

lemma enqueue_task_moves: "queue_ok s \<Longrightarrow> moves s (enqueue_task job i t s)"
  by (simp add: enqueue_task_def moves_def evolves_refl delete_job_evolves)

lemma resume_ok:
  assumes ok: "queue_ok s" and th: "thread_ok s th"
  shows "resumes s (resume th inp s)"
proof -
  have same: "resumes s (s, th', None)" if "thread_ok s th'" for th'
    using moves_same [OF ok that] by (rule resumes_moves')
  show ?thesis
  proof (cases "(th, inp, s)" rule: resume.cases)
    case (1 b i rest k t s')
    then show ?thesis using delete_job_evolves [OF ok] evolves_refl [OF ok] running_next_ok
      by (auto simp: resumes_def moves_def opt_list_def Let_def)
  next
    case (2 b k s')
    then show ?thesis using resumes_moves [OF reconcile_queued_moves [OF ok, of b k]] by simp
  next
    case (3 b a index i nextEntries k t s')
    define s1 next1 where "s1 = (if stale_queued s b i t then delete_job (card_of s i) s else s)"
      and "next1 = (if stale_queued s b i t then nextEntries else nextEntries @ [i])"
    have e: "evolves s s1" using delete_job_evolves [OF ok] evolves_refl [OF ok] by (simp add: s1_def)
    then have "queue_ok s1" and le: "queue_le s s1" by (simp_all add: evolves_def)
    moreover have "thread_ok s1 (RecQueued b a index i next1 k)"
      using th 3 by (intro thread_ok_le [OF _ le]) (auto simp: next1_def)
    ultimately have "moves s1 (queued_next b a (index + 1) next1 k s1)"
      by (intro queued_next_moves) auto
    then have "resumes s (let (s2, th) = queued_next b a (index + 1) next1 k s1 in (s2, th, None))"
      by (intro resumes_moves moves_trans [OF e])
    moreover have "resume th inp s = (let (s2, th) = queued_next b a (index + 1) next1 k s1 in (s2, th, None))"
      using 3 by (simp add: s1_def next1_def)
    ultimately show ?thesis by simp
  next
    case (11 i k inp' s')
    have e: "evolves s (fst (start_settled i inp s))" using settled_evolves [OF ok] th 11 by simp
    have "list_all (thread_ok u) (opt_list (snd (snd (start_settled i inp s))))" for u
      by (auto simp: start_settled_def start_failed_def Let_def opt_list_def split: queue_input.split)
    then show ?thesis using e th 11 evolves_refl [OF ok]
      by (auto simp: resumes_def moves_def opt_list_def case_prod_beta split: after_start.split)
  qed (use ok th in \<open>auto intro!: same resumes_case enqueue_after_moves enqueue_task_moves enqueue_limit_moves drain_read_moves drain_loop_ok
     split: after_drain.split\<close>)
qed

lemma call_ok:
  assumes ok: "queue_ok s"
  shows "evolves s (fst (queue_call_step c s)) \<and> list_all (thread_ok u) (opt_list (snd (queue_call_step c s)))"
proof -
  have flag: "evolves s (s\<lparr>qs_started := f\<rparr>)" "evolves s (s\<lparr>qs_started := f, qs_jobs := [], qs_queues := []\<rparr>)" for f
  proof -
    have le: "queue_le s (s\<lparr>qs_started := f\<rparr>)" "queue_le s (s\<lparr>qs_started := f, qs_jobs := [], qs_queues := []\<rparr>)"
      by (simp_all add: queue_le_def entry_at_def)
    have "queue_ok (s\<lparr>qs_started := f\<rparr>)" by (rule queue_ok_frame [OF ok le(1)]) auto
    moreover have "queue_ok (s\<lparr>qs_started := f, qs_jobs := [], qs_queues := []\<rparr>)"
      by (rule queue_ok_frame [OF ok le(2)]) auto
    ultimately show "evolves s (s\<lparr>qs_started := f\<rparr>)" "evolves s (s\<lparr>qs_started := f, qs_jobs := [], qs_queues := []\<rparr>)"
      using le by (simp_all add: evolves_def)
  qed
  have ev: "evolves s (fst (handleAgentLifecycleEvent e s)) \<and> list_all (thread_ok u) (opt_list (snd (handleAgentLifecycleEvent e s)))" for e
    using evolves_refl [OF ok] delete_job_evolves [OF ok]
    by (auto simp: handleAgentLifecycleEvent_def opt_list_def Let_def split: option.split json.split)
  show ?thesis
    using flag ev remove_card_evolves [OF ok] evolves_refl [OF ok]
    by (auto simp: queue_call_step_def opt_list_def split: queue_call.split)
qed

definition system_ok :: "queue_system \<Rightarrow> bool" where
  "system_ok y = (queue_ok (sy_queue y) \<and> list_all (thread_ok (sy_queue y)) (sy_threads y))"

definition system_le :: "queue_system \<Rightarrow> queue_system \<Rightarrow> bool" where
  "system_le y z = queue_le (sy_queue y) (sy_queue z)"

lemma threads_le: "list_all (thread_ok s) ths \<Longrightarrow> queue_le s u \<Longrightarrow> list_all (thread_ok u) ths"
  using thread_ok_le by (auto simp: list_all_iff)

lemma list_all_update: "list_all P xs \<Longrightarrow> P x \<Longrightarrow> list_all P (xs[n := x])"
  unfolding list_all_iff using set_update_subset_insert by fastforce

lemma system_step_ok:
  assumes "system_ok y" shows "system_ok (queue_step oper y) \<and> system_le y (queue_step oper y)"
proof (cases oper)
  case (NewCall c)
  have ok: "queue_ok (sy_queue y)" using assms by (simp add: system_ok_def)
  have e: "evolves (sy_queue y) (fst (queue_call_step c (sy_queue y)))"
    "list_all (thread_ok u) (opt_list (snd (queue_call_step c (sy_queue y))))" for u
    using call_ok [OF ok] by blast+
  then show ?thesis using NewCall assms threads_le
    by (auto simp: system_ok_def system_le_def evolves_def case_prod_beta)
next
  case (Resume n inp)
  show ?thesis
  proof (cases "n < length (sy_threads y)")
    case True
    let ?r = "resume (sy_threads y ! n) inp (sy_queue y)"
    have "resumes (sy_queue y) ?r"
      using assms True by (intro resume_ok) (auto simp: system_ok_def list_all_length)
    then have "evolves (sy_queue y) (fst ?r)" "thread_ok (fst ?r) (fst (snd ?r))"
      "list_all (thread_ok (fst ?r)) (opt_list (snd (snd ?r)))"
      by (simp_all add: resumes_def moves_def)
    then show ?thesis using Resume True assms threads_le
      by (auto simp: system_ok_def system_le_def evolves_def case_prod_beta intro!: list_all_update)
  qed (use Resume assms in \<open>simp add: system_le_def\<close>)
qed

lemma new_system_ok: "system_ok new_queue_system"
  by (simp add: system_ok_def new_queue_system_def new_queue_def queue_ok_def)

interpretation queue_machine: machine queue_step system_ok system_le
proof unfold_locales
  show "system_ok y \<Longrightarrow> system_ok (queue_step oper y)" for oper y using system_step_ok by blast
  show "system_ok y \<Longrightarrow> system_le y (queue_step oper y)" for oper y using system_step_ok by blast
  show "system_le y y" for y by (simp add: system_le_def)
  show "system_le x y \<Longrightarrow> system_le y z \<Longrightarrow> system_le x z" for x y z
    unfolding system_le_def by (rule queue_le_trans)
qed

text \<open>The queue after a sequence of calls and resumed threads.\<close>

definition queue_after :: "queue_op list \<Rightarrow> queue_state" where
  "queue_after ops = sy_queue (fold queue_step ops new_queue_system)"

lemma queue_after_ok: "queue_ok (queue_after ops)"
proof -
  have "system_ok (fold queue_step ops new_queue_system)" by (rule queue_machine.run_inv) (rule new_system_ok)
  then show ?thesis by (simp add: system_ok_def queue_after_def)
qed

text \<open>C11. Under every interleaving of enqueues, snapshots, removals, lifecycle events, drains and session starts, each job is started at most once, and only while fewer sessions than the limit of its board were running; a job that waited is started only if its card, as just read, is still on the board, in the job's column and not on hold; and a card has at most one job, its own.\<close>
theorem queue_starts_sound:
  "distinct (map st_entry (qs_starts (queue_after ops)))
   \<and> list_all (\<lambda>x. st_running x < st_limit x
        \<and> (case st_task x of None \<Rightarrow> True | Some t \<Rightarrow>
             tk_boardId t = Some (board_of (queue_after ops) (st_entry x)) \<and> \<not> task_on_hold t
             \<and> (\<not> truthy (column_of (queue_after ops) (st_entry x)) \<or> tk_columnId t = column_of (queue_after ops) (st_entry x))))
      (qs_starts (queue_after ops))
   \<and> distinct (om_keys (qs_jobs (queue_after ops)))
   \<and> list_all (\<lambda>(c, i). i < length (qs_entries (queue_after ops)) \<and> card_of (queue_after ops) i = c) (qs_jobs (queue_after ops))"
proof -
  let ?s = "queue_after ops"
  note ok = queue_after_ok [of ops]
  have "st_running x < st_limit x
        \<and> (case st_task x of None \<Rightarrow> True | Some t \<Rightarrow>
             tk_boardId t = Some (board_of ?s (st_entry x)) \<and> \<not> task_on_hold t
             \<and> (\<not> truthy (column_of ?s (st_entry x)) \<or> tk_columnId t = column_of ?s (st_entry x)))"
    if "x \<in> set (qs_starts ?s)" for x
    using queue_okD(5) [OF ok that] by (auto simp: start_ok_def not_startable_def split: option.splits)
  then have starts: "list_all (\<lambda>x. st_running x < st_limit x
        \<and> (case st_task x of None \<Rightarrow> True | Some t \<Rightarrow>
             tk_boardId t = Some (board_of ?s (st_entry x)) \<and> \<not> task_on_hold t
             \<and> (\<not> truthy (column_of ?s (st_entry x)) \<or> tk_columnId t = column_of ?s (st_entry x)))) (qs_starts ?s)"
    by (simp add: list_all_iff)
  have "distinct (om_keys (qs_jobs ?s))" using queue_okD(6) [OF ok] by (simp add: om_keys_def om_wf_def)
  moreover have "list_all (\<lambda>(c, i). i < length (qs_entries ?s) \<and> card_of ?s i = c) (qs_jobs ?s)"
    using queue_okD(1,6) [OF ok] by (auto simp: list_all_iff om_wf_def)
  ultimately show ?thesis using queue_okD(4) [OF ok] starts by blast
qed

end
