(* ===== verification/SessionQueueOrder.thy ===== *)
theory SessionQueueOrder
  imports SessionQueueProps
begin

text \<open>
  What a drain does when nothing else runs: it ends, and starts the first waiting cards that may
  run, in the order of the queue, as many as there are free slots. And two interleavings in which
  the queue does not keep what it promises.
\<close>

section \<open>A drain alone\<close>

text \<open>The thread is resumed with the cards of \<open>store\<close>, and every start gives the session \<open>sid\<close>.\<close>

definition solo_input :: "(string \<Rightarrow> task option) \<Rightarrow> (nat \<Rightarrow> string) \<Rightarrow> queue_state \<Rightarrow> queue_thread \<Rightarrow> queue_input" where
  "solo_input store sid s th =
     (case th of DrainTask b ws limit i d \<Rightarrow> InTask (store (card_of s i))
      | Starting i k \<Rightarrow> InStarted (Some (sid i)) None
      | _ \<Rightarrow> InGo)"

definition solo_step :: "(string \<Rightarrow> task option) \<Rightarrow> (nat \<Rightarrow> string) \<Rightarrow> queue_state \<times> queue_thread \<Rightarrow> queue_state \<times> queue_thread" where
  "solo_step store sid c = (let (u, th, _) = resume (snd c) (solo_input store sid (fst c) (snd c)) (fst c) in (u, th))"

lemma set_queue_get: "board_queue (set_queue b es s) b = es"
  by (simp add: set_queue_def board_queue_def)

lemma set_queue_other [simp]:
  "qs_entries (set_queue b es s) = qs_entries s" "qs_jobs (set_queue b es s) = qs_jobs s"
  "qs_starts (set_queue b es s) = qs_starts s"
  by (simp_all add: set_queue_def)

lemma remove_other [simp]:
  "qs_entries (removeQueuedEntry b c s) = qs_entries s" "qs_jobs (removeQueuedEntry b c s) = qs_jobs s"
  "qs_starts (removeQueuedEntry b c s) = qs_starts s"
  "qs_entries (removeQueuedEntryInstance b i s) = qs_entries s" "qs_jobs (removeQueuedEntryInstance b i s) = qs_jobs s"
  "qs_starts (removeQueuedEntryInstance b i s) = qs_starts s"
  by (simp_all add: removeQueuedEntry_def removeQueuedEntryInstance_def)

lemma board_queue_frame: "qs_queues u = qs_queues s \<Longrightarrow> qs_arrays u = qs_arrays s \<Longrightarrow> board_queue u b = board_queue s b"
  by (simp add: board_queue_def cong: option.case_cong)

lemma remove_get:
  "board_queue (removeQueuedEntry b c s) b = filter (\<lambda>i. card_of s i \<noteq> c) (board_queue s b)"
  "board_queue (removeQueuedEntryInstance b i s) b = filter (\<lambda>k. k \<noteq> i) (board_queue s b)"
  unfolding removeQueuedEntry_def removeQueuedEntryInstance_def
  by (auto simp: set_queue_get) (simp_all add: board_queue_def)

text \<open>The waiting entries of a board as the drain finds them.\<close>

definition waiting :: "queue_state \<Rightarrow> string \<Rightarrow> nat list \<Rightarrow> bool" where
  "waiting s b es =
     (queue_ok s \<and> board_queue s b = es \<and> distinct es
      \<and> (\<forall>i\<in>set es. in_board s b i \<and> is_job s i \<and> qe_status (entry_at s i) = Queued))"

lemma waiting_card: "waiting s b es \<Longrightarrow> i \<in> set es \<Longrightarrow> j \<in> set es \<Longrightarrow> card_of s i = card_of s j \<Longrightarrow> i = j"
  unfolding waiting_def is_job_def by (metis option.inject)

lemma om_values_del_mem:
  assumes "om_wf m" and "om_get m c = Some v" and "\<not> P v"
  shows "length (filter P (om_values (om_del m c))) = length (filter P (om_values m))"
  using assms
proof (induction m)
  case (Cons kv m)
  obtain k w where kv: "kv = (k, w)" by (cases kv)
  show ?case
  proof (cases "k = c")
    case True
    then have "om_get m c = None" using Cons.prems(1) by (auto simp: om_wf_def kv map_of_eq_None_iff)
    then have "om_del m c = m" by (rule om_del_absent)
    then show ?thesis using True Cons.prems by (simp add: kv om_del_def om_values_def)
  next
    case False
    then show ?thesis using Cons by (simp add: kv om_del_def om_values_def om_wf_def)
  qed
qed simp

lemma om_set_same: "om_get m c = Some v \<Longrightarrow> om_set m c v = m"
  by (induction m c v rule: om_set.induct) (auto split: if_splits)

lemma filter_one_more:
  assumes "distinct xs" and "v \<in> set xs" and "\<And>x. x \<noteq> v \<Longrightarrow> Q x = P x" and "\<not> P v" and "Q v"
  shows "length (filter Q xs) = Suc (length (filter P xs))"
  using assms
proof (induction xs)
  case (Cons x xs)
  show ?case
  proof (cases "x = v")
    case True
    then have "y \<noteq> v" if "y \<in> set xs" for y using Cons.prems(1) that by auto
    then have "filter Q xs = filter P xs" using Cons.prems(3) by (intro filter_cong) auto
    then show ?thesis using True Cons.prems by simp
  next
    case False
    then show ?thesis using Cons by simp
  qed
qed simp

lemma jobs_distinct:
  assumes ok: "queue_ok s" shows "distinct (om_values (qs_jobs s))"
proof -
  have "card_of s v = c" if "(c, v) \<in> set (qs_jobs s)" for c v
    using that queue_okD(1,6) [OF ok] by (auto simp: om_wf_def)
  then have "fst x = card_of s (snd x)" if "x \<in> set (qs_jobs s)" for x
    using that by (metis prod.collapse)
  then have "inj_on snd (set (qs_jobs s))" by (intro inj_onI) (metis prod_eqI)
  moreover have "distinct (qs_jobs s)" using queue_okD(6) [OF ok] by (simp add: om_wf_def distinct_map)
  ultimately show ?thesis by (simp add: om_values_def distinct_map)
qed

text \<open>One start: the state in which the loop goes on.\<close>

definition after_start_state :: "(nat \<Rightarrow> string) \<Rightarrow> nat \<Rightarrow> nat \<Rightarrow> task option \<Rightarrow> queue_state \<Rightarrow> queue_state" where
  "after_start_state sid limit i t s = fst (start_settled i (InStarted (Some (sid i)) None) (startEntry i limit t s))"

lemma after_start:
  assumes w: "waiting s b (i # es)" and lim: "countRunning s b < limit" and t: "\<not> not_startable s b i t" and sid: "sid i \<noteq> []"
  defines "u \<equiv> after_start_state sid limit i t s"
  shows "waiting u b es" and "countRunning u b = Suc (countRunning s b)"
    and "map st_entry (qs_starts u) = map st_entry (qs_starts s) @ [i]"
    and "\<And>j. card_of u j = card_of s j" and "\<And>j. column_of u j = column_of s j"
proof -
  have ok: "queue_ok s" and i: "in_board s b i" "is_job s i" "qe_status (entry_at s i) = Queued"
    using w by (auto simp: waiting_def)
  have il: "i < length (qs_entries s)" and bi: "board_of s i = b" using i(1) by (auto simp: in_board_def)
  let ?v = "startEntry i limit t s"
  have ev: "evolves s ?v"
    by (rule start_evolves [OF ok il i(3)]) (use lim t bi in auto)
  have okv: "queue_ok ?v" using ev by (simp add: evolves_def)
  have jobs_v: "qs_jobs ?v = qs_jobs s" by (simp add: startEntry_def Let_def)
  have ent: "qs_entries u = (qs_entries s)[i := (entry_at s i)\<lparr>qe_status := Running, qe_sessionId := Some (sid i)\<rparr>]"
    using sid il by (simp add: u_def after_start_state_def start_settled_def startEntry_def Let_def entry_at_def)
  have same: "qe_job (entry_at u j) = qe_job (entry_at s j)" for j
    using ent il by (cases "j = i") (simp_all add: entry_at_def)
  have card_v: "card_of ?v i = card_of s i" using entry_le [of s ?v i] ev il by (simp add: evolves_def)
  have jobs: "qs_jobs u = qs_jobs s"
    using sid il i(2) jobs_v card_v om_set_same [of "qs_jobs s" "card_of s i" i]
    by (simp add: u_def after_start_state_def start_settled_def Let_def is_job_def card_of_def entry_at_def startEntry_def)
  have queue: "board_queue u b = filter (\<lambda>k. card_of s k \<noteq> card_of s i) (board_queue s b)"
  proof -
    have "board_queue u b = board_queue (removeQueuedEntry b (card_of s i) s) b"
      using sid bi by (intro board_queue_frame) (simp_all add: u_def after_start_state_def start_settled_def startEntry_def Let_def)
    then show ?thesis by (simp only: remove_get)
  qed
  have oku: "queue_ok u"
    using settled_evolves [OF okv, of i "InStarted (Some (sid i)) None"] il
    by (simp add: u_def after_start_state_def evolves_def startEntry_def Let_def)
  show cards: "card_of u j = card_of s j" "column_of u j = column_of s j" for j
    using same by (simp_all add: card_of_def column_of_def)
  have boards: "board_of u j = board_of s j" for j using same by (simp add: board_of_def)
  have "board_queue u b = es"
    using w waiting_card [OF w] unfolding queue by (auto simp: waiting_def intro!: filter_True)
  moreover have "in_board u b j \<and> is_job u j \<and> qe_status (entry_at u j) = Queued" if "j \<in> set es" for j
    using that w ent il by (auto simp: waiting_def in_board_def is_job_def cards boards jobs entry_at_def nth_list_update)
  ultimately show "waiting u b es" using oku w by (simp add: waiting_def)
  have "i \<in> set (om_values (qs_jobs s))" using i(2) by (auto simp: is_job_def dest: om_get_in_values)
  then show "countRunning u b = Suc (countRunning s b)"
    unfolding countRunning_def running_entries_def jobs
    by (intro filter_one_more [OF jobs_distinct [OF ok]]) (use i bi il ent in \<open>auto simp: boards entry_at_def nth_list_update\<close>)
  show "map st_entry (qs_starts u) = map st_entry (qs_starts s) @ [i]"
    using sid by (simp add: u_def after_start_state_def start_settled_def startEntry_def Let_def)
qed

text \<open>One card that may not run is dropped, without taking a slot.\<close>

lemma after_drop:
  assumes w: "waiting s b (i # es)" and u: "qs_entries u = qs_entries s" "qs_starts u = qs_starts s"
    "qs_jobs u = om_del (qs_jobs s) (card_of s i)" "board_queue u b = filter (\<lambda>k. k \<noteq> i) (board_queue s b)" "queue_ok u"
  shows "waiting u b es" and "countRunning u b = countRunning s b"
    and "\<And>j. card_of u j = card_of s j" and "\<And>j. column_of u j = column_of s j"
proof -
  have same: "entry_at u j = entry_at s j" for j using u(1) by (simp add: entry_at_def)
  show cards: "card_of u j = card_of s j" "column_of u j = column_of s j" for j
    using same by (simp_all add: card_of_def column_of_def)
  have boards: "board_of u j = board_of s j" for j using same by (simp add: board_of_def)
  have i: "i \<notin> set es" "is_job s i" "qe_status (entry_at s i) = Queued" "queue_ok s" using w by (auto simp: waiting_def)
  have "board_queue u b = es" using w by (auto simp: u(4) waiting_def intro!: filter_True)
  moreover have "is_job u j" if "j \<in> set es" for j
  proof -
    have "card_of s j \<noteq> card_of s i" using waiting_card [OF w, of j i] that i(1) by auto
    then show ?thesis using that w by (simp add: waiting_def is_job_def cards u(3))
  qed
  ultimately show "waiting u b es" using w u(5)
    by (auto simp: waiting_def in_board_def boards same u(1))
  have "length (filter P (om_values (om_del (qs_jobs s) (card_of s i)))) = length (filter P (om_values (qs_jobs s)))"
    if "\<not> P i" for P
    using that i(2) by (intro om_values_del_mem [OF queue_okD(6) [OF i(4)]]) (auto simp: is_job_def)
  then show "countRunning u b = countRunning s b"
    using i(3) by (simp add: countRunning_def running_entries_def u(3) boards same)
qed

lemma not_startable_cong: "column_of u i = column_of s i \<Longrightarrow> not_startable u b i t = not_startable s b i t"
  by (simp add: not_startable_def split: option.split)

lemma drain_alone:
  assumes "waiting s b es" and "\<And>i. sid i \<noteq> []"
  shows "\<exists>n u. (solo_step store sid ^^ n) (s, drain_loop b ws limit d s) = (u, AfterDrain d)
    \<and> map st_entry (qs_starts u) = map st_entry (qs_starts s)
        @ take (limit - countRunning s b) (filter (\<lambda>i. \<not> not_startable s b i (store (card_of s i))) es)"
  using assms(1)
proof (induction es arbitrary: s)
  case Nil
  then have "drain_loop b ws limit d s = AfterDrain d" by (simp add: drain_loop_def waiting_def)
  then show ?case by (intro exI [of _ 0] exI [of _ s]) simp
next
  case (Cons i es)
  note w = Cons.prems
  have q: "board_queue s b = i # es" and i: "in_board s b i" "is_job s i" "qe_status (entry_at s i) = Queued"
    using w by (auto simp: waiting_def)
  show ?case
  proof (cases "countRunning s b < limit")
    case False
    then have "drain_loop b ws limit d s = AfterDrain d" by (simp add: drain_loop_def)
    then show ?thesis using False by (intro exI [of _ 0] exI [of _ s]) simp
  next
    case room: True
    let ?t = "store (card_of s i)"
    have loop: "drain_loop b ws limit d s = DrainTask b ws limit i d" using room q by (simp add: drain_loop_def)
    show ?thesis
    proof (cases "not_startable s b i ?t")
      case True
      define u where "u = fst (drain_read b ws limit i d ?t s)"
      have step: "solo_step store sid (s, DrainTask b ws limit i d) = (u, drain_loop b ws limit d u)"
        using True i by (simp add: solo_step_def solo_input_def drain_read_def Let_def u_def)
      have fields: "qs_entries u = qs_entries s" "qs_starts u = qs_starts s" "qs_jobs u = om_del (qs_jobs s) (card_of s i)"
        using True i by (auto simp: u_def drain_read_def Let_def delete_job_def split: option.split)
      have "board_queue u b = board_queue (removeQueuedEntryInstance b i s) b"
        using True i by (intro board_queue_frame)
          (auto simp: u_def drain_read_def Let_def delete_job_def split: option.split)
      then have bq: "board_queue u b = filter (\<lambda>k. k \<noteq> i) (board_queue s b)" by (simp only: remove_get)
      have "queue_ok u" using drain_read_moves [of s b i ws limit d ?t] w i by (simp add: u_def moves_def evolves_def waiting_def)
      note dropped = after_drop [OF w fields(1,2,3) bq this]
      have ns: "not_startable u b j x = not_startable s b j x" for j x using dropped(4) by (rule not_startable_cong)
      obtain n v where "(solo_step store sid ^^ n) (u, drain_loop b ws limit d u) = (v, AfterDrain d)"
        "map st_entry (qs_starts v) = map st_entry (qs_starts u)
           @ take (limit - countRunning u b) (filter (\<lambda>i. \<not> not_startable u b i (store (card_of u i))) es)"
        using Cons.IH [OF dropped(1)] by blast
      then show ?thesis using True dropped(2-4) fields(2)
        by (intro exI [of _ "Suc n"] exI [of _ v]) (simp add: loop step funpow_swap1 ns)
    next
      case start: False
      let ?v = "startEntry i limit ?t s"
      define u where "u = after_start_state sid limit i ?t s"
      note st = after_start [where sid = sid, OF w room start assms(2), folded u_def]
      have ns: "not_startable u b j x = not_startable s b j x" for j x using st(5) by (rule not_startable_cong)
      let ?k = "KLoop b ws limit d"
      have step1: "solo_step store sid (s, DrainTask b ws limit i d) = (?v, Starting i ?k)"
        using start i room by (simp add: solo_step_def solo_input_def drain_read_def)
      have step2: "solo_step store sid (?v, Starting i ?k) = (u, AtLoop b ws limit d)"
        by (simp add: solo_step_def solo_input_def start_answer_def u_def after_start_state_def case_prod_beta)
      have step3: "solo_step store sid (u, AtLoop b ws limit d) = (u, drain_loop b ws limit d u)"
        by (simp add: solo_step_def solo_input_def)
      obtain n x where x: "(solo_step store sid ^^ n) (u, drain_loop b ws limit d u) = (x, AfterDrain d)"
        "map st_entry (qs_starts x) = map st_entry (qs_starts u)
           @ take (limit - countRunning u b) (filter (\<lambda>i. \<not> not_startable u b i (store (card_of u i))) es)"
        using Cons.IH [OF st(1)] by blast
      have "limit - countRunning s b = Suc (limit - countRunning u b)" using st(2) room by simp
      then show ?thesis using start st(3-5) x
        by (intro exI [of _ "Suc (Suc (Suc n))"] exI [of _ x])
           (simp add: loop step1 step2 step3 funpow_swap1 ns)
    qed
  qed
qed

text \<open>C31. A drain that runs undisturbed ends and serves the queue in order: of the cards waiting on the board it starts the first ones that are still on the board, in their column and not on hold, exactly as many as the limit leaves free, and a card that may not run takes no slot.\<close>
theorem drain_serves_in_order:
  assumes "queue_ok s" and "distinct (board_queue s b)"
    and "list_all (\<lambda>i. is_job s i \<and> qe_status (entry_at s i) = Queued) (board_queue s b)" and "\<forall>i. sid i \<noteq> []"
  shows "\<exists>n u. (solo_step store sid ^^ n) (s, drain_loop b ws limit d s) = (u, AfterDrain d)
    \<and> map st_entry (qs_starts u) = map st_entry (qs_starts s)
        @ take (limit - countRunning s b) (filter (\<lambda>i. \<not> not_startable s b i (store (card_of s i))) (board_queue s b))"
proof -
  have "waiting s b (board_queue s b)"
    using assms board_queue_in_board by (auto simp: waiting_def list_all_iff)
  then show ?thesis using assms(4) drain_alone by blast
qed

section \<open>The limit of a board\<close>

lemma digit_of_digit_char: "d < 10 \<Longrightarrow> digit_of (digit_char d) = Some (int d)"
  by (simp add: digit_of_def digit_char_def Let_def)

lemma parse_show:
  "parse_digits acc (show_nat n @ s) = parse_digits (Some (orDefault acc 0 * 10 ^ length (show_nat n) + int n)) s"
proof (induction n arbitrary: s rule: show_nat.induct)
  case (1 n)
  show ?case
  proof (cases "n < 10")
    case True
    then have "show_nat n = [digit_char n]" by (subst show_nat.simps) simp
    then show ?thesis using True by (simp add: digit_of_digit_char mult.commute)
  next
    case False
    then have s: "show_nat n = show_nat (n div 10) @ [digit_char (n mod 10)]" by (subst show_nat.simps) simp
    have "int n = 10 * int (n div 10) + int (n mod 10)" by presburger
    then show ?thesis using 1 [OF False, of "digit_char (n mod 10) # s"]
      by (simp add: s digit_of_digit_char algebra_simps)
  qed
qed

lemma parseInt_show: "parseInt10 (show_nat n) = Some (int n)"
proof -
  have "\<not> is_ws (hd (show_nat n))" using show_nat_not_ws [of n] by (metis hd_in_set show_nat_not_Nil)
  then have t: "trimStart (show_nat n) = show_nat n" by (cases "show_nat n") (simp_all add: trimStart_def)
  have "digit_of (hd (show_nat n)) \<noteq> None"
  proof (induction n rule: show_nat.induct)
    case (1 n)
    then show ?case by (subst show_nat.simps) (auto simp: digit_of_digit_char hd_append)
  qed
  then have "hd (show_nat n) \<noteq> CHR ''-''" "hd (show_nat n) \<noteq> CHR ''+''"
    by (auto simp: digit_of_def)
  then have "parseInt10 (show_nat n) = parse_digits None (show_nat n)"
    using t by (cases "show_nat n") (simp_all add: parseInt10_def)
  then show ?thesis using parse_show [of None n "[]"] by simp
qed

text \<open>A board's concurrency limit is always a positive integer, whatever the stored text, and the limit that was set is read back rounded down; a limit that is not a number or below one is read back as the default of five, and the limits of other boards are not touched.\<close>
theorem board_limit_roundtrip:
  "1 \<le> getKanbanSessionConcurrencyLimit m b
   \<and> getKanbanSessionConcurrencyLimit (Some (setKanbanSessionConcurrencyLimit m b limit)) b
       = (case limit of Fin v \<Rightarrow> if 1 \<le> v then \<lfloor>v\<rfloor> else 5 | _ \<Rightarrow> 5)
   \<and> (if b' = b then True else
        getKanbanSessionConcurrencyLimit (Some (setKanbanSessionConcurrencyLimit m b limit)) b'
          = getKanbanSessionConcurrencyLimit m b')"
proof -
  have pos: "1 \<le> getKanbanSessionConcurrencyLimit m b"
    by (auto simp: getKanbanSessionConcurrencyLimit_def DEFAULT_KANBAN_SESSION_CONCURRENCY_LIMIT_def Let_def split: option.split)
  have get: "getKanbanSessionConcurrencyLimit (Some (om_set n (metadataKey b) (show_nat k))) b = (if k < 1 then 5 else int k)" for n k
    by (simp add: getKanbanSessionConcurrencyLimit_def parseInt_show DEFAULT_KANBAN_SESSION_CONCURRENCY_LIMIT_def)
  have "1 \<le> v \<Longrightarrow> max 1 \<lfloor>v\<rfloor> = \<lfloor>v\<rfloor> \<and> 1 \<le> \<lfloor>v\<rfloor>" for v :: rat by (simp add: le_floor_iff)
  then have same: "getKanbanSessionConcurrencyLimit (Some (setKanbanSessionConcurrencyLimit m b limit)) b
       = (case limit of Fin v \<Rightarrow> if 1 \<le> v then \<lfloor>v\<rfloor> else 5 | _ \<Rightarrow> 5)"
    by (cases limit) (auto simp: setKanbanSessionConcurrencyLimit_def get DEFAULT_KANBAN_SESSION_CONCURRENCY_LIMIT_def)
  have other: "b' \<noteq> b \<Longrightarrow> getKanbanSessionConcurrencyLimit (Some (setKanbanSessionConcurrencyLimit m b limit)) b'
          = getKanbanSessionConcurrencyLimit m b'"
    by (cases m) (simp_all add: setKanbanSessionConcurrencyLimit_def getKanbanSessionConcurrencyLimit_def metadataKey_def Let_def)
  show ?thesis using pos same other by auto
qed

section \<open>Two races\<close>

definition sample_job :: "string \<Rightarrow> queue_job" where
  "sample_job c = \<lparr>jb_cardId = c, jb_cardTitle = c, jb_boardId = ''b'', jb_workspaceId = ''w'', jb_columnId = Some ''dev''\<rparr>"

definition queue_card :: "string \<Rightarrow> string \<Rightarrow> task" where
  "queue_card c column = sample_review\<lparr>tk_id := c, tk_boardId := Some ''b'', tk_columnId := Some column,
     tk_triggerSessionId := None, tk_laneSessions := []\<rparr>"

text \<open>A call of \<open>enqueue\<close> on a board where nothing runs: its thread \<open>n\<close> up to the limit. And the cards
  that a reconcile reads while card 1 runs.\<close>

definition enqueue_ops :: "nat \<Rightarrow> string \<Rightarrow> queue_op list" where
  "enqueue_ops n c = [NewCall (CallEnqueue (sample_job c)), Resume n InGo, Resume n InGo]"

definition reads :: "nat \<Rightarrow> string \<Rightarrow> queue_op" where
  "reads n c = Resume n (InTask (Some (queue_card c ''dev'')))"

text \<open>Card 1 starts; while its session is created it leaves its column, so card 2 takes its place;
  then the session of card 1 arrives.\<close>

definition limit_race :: "queue_op list" where
  "limit_race = enqueue_ops 0 ''1'' @ [Resume 0 (InLimit 1), NewCall (CallEnqueue (sample_job ''2'')),
     Resume 1 (InTask (Some (queue_card ''1'' ''review''))), Resume 1 InGo, Resume 1 InGo, Resume 1 (InLimit 1),
     Resume 0 (InStarted (Some ''s1'') None)]"

text \<open>Card 1 runs, cards 2 and 3 wait.\<close>

definition two_waiting :: "queue_op list" where
  "two_waiting =
     enqueue_ops 0 ''1'' @ [Resume 0 (InLimit 1), Resume 0 (InStarted (Some ''s1'') None)]
     @ [NewCall (CallEnqueue (sample_job ''2'')), reads 1 ''1'', Resume 1 InGo, Resume 1 InGo, Resume 1 (InLimit 1)]
     @ [NewCall (CallEnqueue (sample_job ''3'')), reads 2 ''1'', Resume 2 InGo, reads 2 ''2'', Resume 2 InGo, Resume 2 (InLimit 1)]"

text \<open>
  Card 4 is about to be enqueued. A snapshot reconciles the queue and waits for card 2; card 3 is
  removed, which replaces the board's array; card 4 is pushed to the new array and its caller is
  told that it waits; the snapshot then writes back what it saw, without card 4, and the next
  snapshot drops the job of card 4.
\<close>

definition reconcile_race :: "queue_op list" where
  "reconcile_race =
     two_waiting
     @ [NewCall (CallEnqueue (sample_job ''4'')), reads 3 ''1'', Resume 3 InGo, reads 3 ''2'', reads 3 ''3'', Resume 3 InGo]
     @ [NewCall (CallSnapshot ''b''), reads 4 ''1'', Resume 4 InGo]
     @ [NewCall (CallRemove ''3''), Resume 3 (InLimit 1)]
     @ [reads 4 ''2'']
     @ [NewCall (CallSnapshot ''b''), reads 5 ''1'', Resume 5 InGo]"

text \<open>No call removes the card, and the queue is not stopped.\<close>

fun leaves_card :: "string \<Rightarrow> queue_op \<Rightarrow> bool" where
  "leaves_card c (NewCall (CallRemove c')) = (c' \<noteq> c)"
| "leaves_card c (NewCall CallStop) = False"
| "leaves_card c oper = True"

text \<open>Two interleavings break what the queue promises. A limit of one is exceeded: a session that is still starting when its card leaves the column counts again once it has started, beside the one that took its slot. And a job whose caller was told that it waits is dropped without being started, cancelled or looked up, when a reconcile writes the queue back after another call has replaced it.\<close>
theorem queue_races:
  "list_all (\<lambda>x. st_limit x = 1) (qs_starts (queue_after limit_race))
   \<and> countRunning (queue_after limit_race) ''b'' = 2
   \<and> sy_threads (fold queue_step reconcile_race new_queue_system) ! 3 = QDone (REnqueued None True None)
   \<and> om_get (qs_jobs (queue_after reconcile_race)) ''4'' = None
   \<and> list_all (\<lambda>x. card_of (queue_after reconcile_race) (st_entry x) \<noteq> ''4'') (qs_starts (queue_after reconcile_race))
   \<and> list_all (leaves_card ''4'') reconcile_race"
  by (intro conjI; code_simp)

section \<open>Witnesses\<close>

theorem drain_serves_in_order_witness:
  "\<exists>n u. (solo_step (\<lambda>c. Some (queue_card c ''dev'')) (\<lambda>i. ''s'') ^^ n)
      (queue_after two_waiting, drain_loop ''b'' ''w'' 3 KVoid (queue_after two_waiting)) = (u, AfterDrain KVoid)
    \<and> map st_entry (qs_starts u) = [0, 1, 2]"
proof -
  let ?s = "queue_after two_waiting"
  have q: "board_queue ?s ''b'' = [1, 2]" by code_simp
  have "list_all (\<lambda>i. is_job ?s i \<and> qe_status (entry_at ?s i) = Queued) (board_queue ?s ''b'')"
    "map st_entry (qs_starts ?s) = [0]" "countRunning ?s ''b'' = 1" by code_simp+
  moreover have "filter (\<lambda>i. \<not> not_startable ?s ''b'' i (Some (queue_card (card_of ?s i) ''dev''))) (board_queue ?s ''b'') = [1, 2]"
    by code_simp
  ultimately show ?thesis
    using drain_serves_in_order [OF queue_after_ok, of two_waiting "''b''" "\<lambda>i. ''s''" "\<lambda>c. Some (queue_card c ''dev'')" "''w''" 3 KVoid] q
    by simp
qed

theorem queue_starts_sound_witness:
  "distinct (map st_entry (qs_starts (queue_after two_waiting))) \<and> length (qs_starts (queue_after two_waiting)) = 1"
proof -
  have "length (qs_starts (queue_after two_waiting)) = 1" by code_simp
  then show ?thesis using queue_starts_sound [of two_waiting] by blast
qed

end
