(* ===== verification/SharedSession.thy ===== *)
theory SharedSession
  imports JsBase
begin

text \<open>
  src/src/core/shared-session/service.ts with its types.ts: an agent session that a host shares with
  other users. The service is a record of its maps; \<open>approvalsBySession\<close> and \<open>participantsBySession\<close>
  keep the insertion order of their sets. An operation takes the service and gives its result (a
  \<open>SharedSessionError\<close> on the left) with the service after it.

  What the code gets from outside is the record \<open>shared_env\<close>: the n-th reading of the clock, the
  n-th \<open>uuidv4()\<close>, the n-th random token, and the session hub's answer to the n-th \<open>getSession\<close>;
  the service counts the readings. What it does outside is appended to \<open>sv_log\<close>: events broadcast,
  interceptors added to and removed from the hub, prompts handed to the dispatcher. The promise of
  the dispatcher is settled by an operation of its own, at any later time.
\<close>

section \<open>Types\<close>

datatype shared_role = RoleHost | RoleCollaborator | RoleViewer

datatype shared_mode = ViewOnly | CommentOnly | PromptWithApproval | PromptDirect

datatype shared_status = ShActive | ShClosed | ShExpired

fun shared_status_str :: "shared_status \<Rightarrow> string" where
  "shared_status_str ShActive = ''active''"
| "shared_status_str ShClosed = ''closed''"
| "shared_status_str ShExpired = ''expired''"

datatype prompt_status = PsPending | PsApproved | PsRejected | PsFailed

record shared_session =
  sh_id :: string
  sh_workspaceId :: string
  sh_hostUserId :: string
  sh_hostSessionId :: string
  sh_mode :: shared_mode
  sh_approvalRequired :: bool
  sh_inviteToken :: string
  sh_createdAt :: int
  sh_expiresAt :: "int option"
  sh_status :: shared_status

record participant =
  pa_id :: string
  pa_sharedSessionId :: string
  pa_userId :: string
  pa_displayName :: "string option"
  pa_role :: shared_role
  pa_accessToken :: string
  pa_joinedAt :: int
  pa_leftAt :: "int option"

datatype message_kind = KindComment | KindPrompt | KindSystem

record shared_message =
  ms_id :: string
  ms_sharedSessionId :: string
  ms_participantId :: string
  ms_authorUserId :: string
  ms_kind :: message_kind
  ms_text :: string
  ms_createdAt :: int
  ms_approvalId :: "string option"

record prompt_approval =
  ap_id :: string
  ap_sharedSessionId :: string
  ap_participantId :: string
  ap_prompt :: string
  ap_status :: prompt_status
  ap_createdAt :: int
  ap_resolvedAt :: "int option"
  ap_resolvedByParticipantId :: "string option"
  ap_errorMessage :: "string option"

datatype shared_event_type =
    SharedSessionCreated | SessionClosed | ParticipantJoined | ParticipantLeft | HostSessionUpdate
  | MessageCreated | PromptPendingApproval | PromptApproved | PromptRejected
  | PromptDispatchStarted | PromptDispatchCompleted | PromptDispatchFailed

text \<open>The payloads that the \<open>serialize\<close> functions build: neither the invite token nor an access
  token is part of one.\<close>

record session_payload =
  sep_id :: string
  sep_workspaceId :: string
  sep_hostUserId :: string
  sep_hostSessionId :: string
  sep_mode :: shared_mode
  sep_approvalRequired :: bool
  sep_createdAt :: string
  sep_expiresAt :: "string option"
  sep_status :: shared_status

record participant_payload =
  pap_id :: string
  pap_sharedSessionId :: string
  pap_userId :: string
  pap_displayName :: "string option"
  pap_role :: shared_role
  pap_joinedAt :: string
  pap_leftAt :: "string option"

record approval_payload =
  app_id :: string
  app_sharedSessionId :: string
  app_participantId :: string
  app_prompt :: string
  app_status :: prompt_status
  app_createdAt :: string
  app_resolvedAt :: "string option"
  app_resolvedByParticipantId :: "string option"
  app_errorMessage :: "string option"

record message_payload =
  msp_id :: string
  msp_sharedSessionId :: string
  msp_participantId :: string
  msp_authorUserId :: string
  msp_kind :: message_kind
  msp_text :: string
  msp_createdAt :: string
  msp_approvalId :: "string option"

datatype shared_payload =
    PayloadSession session_payload
  | PayloadParticipant participant_payload
  | PayloadMessage message_payload participant_payload
  | PayloadApproval approval_payload
  | PayloadApprovalBy approval_payload participant_payload
  | PayloadFailure approval_payload string
  | PayloadStatus shared_status
  | PayloadNotification json

record shared_event =
  se_type :: shared_event_type
  se_sharedSessionId :: string
  se_timestamp :: string
  se_payload :: shared_payload

record dispatch_input =
  di_sharedSessionId :: string
  di_hostSessionId :: string
  di_participantId :: string
  di_prompt :: string
  di_approvalId :: string

datatype shared_effect =
    Broadcast shared_event
  | AddInterceptor string string
  | RemoveInterceptor string string
  | DispatchPrompt dispatch_input

text \<open>\<open>SharedSessionError\<close>: code, message and HTTP status.\<close>

datatype shared_error = SharedSessionError string string nat

record shared_env =
  env_now :: "nat \<Rightarrow> int"
  env_iso :: "int \<Rightarrow> string"
  env_uuid :: "nat \<Rightarrow> string"
  env_token :: "nat \<Rightarrow> string"
  env_hostWorkspace :: "nat \<Rightarrow> string \<Rightarrow> string option"

text \<open>\<open>sv_hostInterceptors\<close> maps a shared session to the host session whose notifications it forwards;
  \<open>sv_inflight\<close> lists the approvals whose prompt the dispatcher has not answered yet.\<close>

record shared_svc =
  sv_sessions :: "(string, shared_session) omap"
  sv_participants :: "(string, participant) omap"
  sv_participantsBySession :: "(string, string list) omap"
  sv_approvals :: "(string, prompt_approval) omap"
  sv_approvalsBySession :: "(string, string list) omap"
  sv_messagesBySession :: "(string, shared_message list) omap"
  sv_hostInterceptors :: "(string, string) omap"
  sv_inflight :: "(string \<times> string) list"
  sv_ticks :: nat
  sv_uuids :: nat
  sv_tokens :: nat
  sv_hubReads :: nat
  sv_log :: "shared_effect list"

definition new_service :: shared_svc where
  "new_service = \<lparr>sv_sessions = [], sv_participants = [], sv_participantsBySession = [],
     sv_approvals = [], sv_approvalsBySession = [], sv_messagesBySession = [],
     sv_hostInterceptors = [], sv_inflight = [], sv_ticks = 0, sv_uuids = 0, sv_tokens = 0,
     sv_hubReads = 0, sv_log = []\<rparr>"

section \<open>Clock, ids, effects\<close>

definition read_now :: "shared_env \<Rightarrow> shared_svc \<Rightarrow> int \<times> shared_svc" where
  "read_now env s = (env_now env (sv_ticks s), s\<lparr>sv_ticks := Suc (sv_ticks s)\<rparr>)"

definition uuidv4 :: "shared_env \<Rightarrow> shared_svc \<Rightarrow> string \<times> shared_svc" where
  "uuidv4 env s = (env_uuid env (sv_uuids s), s\<lparr>sv_uuids := Suc (sv_uuids s)\<rparr>)"

definition generateToken :: "shared_env \<Rightarrow> shared_svc \<Rightarrow> string \<times> shared_svc" where
  "generateToken env s = (env_token env (sv_tokens s), s\<lparr>sv_tokens := Suc (sv_tokens s)\<rparr>)"

definition hub_getSession :: "shared_env \<Rightarrow> string \<Rightarrow> shared_svc \<Rightarrow> string option \<times> shared_svc" where
  "hub_getSession env host s =
     (env_hostWorkspace env (sv_hubReads s) host, s\<lparr>sv_hubReads := Suc (sv_hubReads s)\<rparr>)"

definition add_effect :: "shared_effect \<Rightarrow> shared_svc \<Rightarrow> shared_svc" where
  "add_effect e s = s\<lparr>sv_log := sv_log s @ [e]\<rparr>"

definition emit_shared ::
  "shared_env \<Rightarrow> shared_event_type \<Rightarrow> string \<Rightarrow> shared_payload \<Rightarrow> shared_svc \<Rightarrow> shared_svc" where
  "emit_shared env t sid payload s =
     (let (now, s') = read_now env s in
      add_effect (Broadcast \<lparr>se_type = t, se_sharedSessionId = sid, se_timestamp = env_iso env now,
        se_payload = payload\<rparr>) s')"

definition serializeSessionPayload :: "shared_env \<Rightarrow> shared_session \<Rightarrow> session_payload" where
  "serializeSessionPayload env x =
     \<lparr>sep_id = sh_id x, sep_workspaceId = sh_workspaceId x, sep_hostUserId = sh_hostUserId x,
      sep_hostSessionId = sh_hostSessionId x, sep_mode = sh_mode x,
      sep_approvalRequired = sh_approvalRequired x, sep_createdAt = env_iso env (sh_createdAt x),
      sep_expiresAt = map_option (env_iso env) (sh_expiresAt x), sep_status = sh_status x\<rparr>"

definition serializeParticipantPayload :: "shared_env \<Rightarrow> participant \<Rightarrow> participant_payload" where
  "serializeParticipantPayload env x =
     \<lparr>pap_id = pa_id x, pap_sharedSessionId = pa_sharedSessionId x, pap_userId = pa_userId x,
      pap_displayName = pa_displayName x, pap_role = pa_role x,
      pap_joinedAt = env_iso env (pa_joinedAt x), pap_leftAt = map_option (env_iso env) (pa_leftAt x)\<rparr>"

definition serializeApprovalPayload :: "shared_env \<Rightarrow> prompt_approval \<Rightarrow> approval_payload" where
  "serializeApprovalPayload env x =
     \<lparr>app_id = ap_id x, app_sharedSessionId = ap_sharedSessionId x,
      app_participantId = ap_participantId x, app_prompt = ap_prompt x, app_status = ap_status x,
      app_createdAt = env_iso env (ap_createdAt x),
      app_resolvedAt = map_option (env_iso env) (ap_resolvedAt x),
      app_resolvedByParticipantId = ap_resolvedByParticipantId x, app_errorMessage = ap_errorMessage x\<rparr>"

definition serializeMessagePayload :: "shared_env \<Rightarrow> shared_message \<Rightarrow> message_payload" where
  "serializeMessagePayload env x =
     \<lparr>msp_id = ms_id x, msp_sharedSessionId = ms_sharedSessionId x,
      msp_participantId = ms_participantId x, msp_authorUserId = ms_authorUserId x,
      msp_kind = ms_kind x, msp_text = ms_text x, msp_createdAt = env_iso env (ms_createdAt x),
      msp_approvalId = ms_approvalId x\<rparr>"

section \<open>Ending and expiring sessions\<close>

definition mark_left :: "int \<Rightarrow> string list \<Rightarrow> (string, participant) omap \<Rightarrow> (string, participant) omap" where
  "mark_left endedAt ids m =
     fold (\<lambda>pid m. case om_get m pid of None \<Rightarrow> m
        | Some p \<Rightarrow> if pa_leftAt p = None then om_set m pid (p\<lparr>pa_leftAt := Some endedAt\<rparr>) else m) ids m"

definition finalizeSession :: "shared_env \<Rightarrow> string \<Rightarrow> shared_status \<Rightarrow> shared_svc \<Rightarrow> shared_svc" where
  "finalizeSession env sharedSessionId status s =
     (case om_get (sv_sessions s) sharedSessionId of
        None \<Rightarrow> s
      | Some session \<Rightarrow>
        if sh_status session \<noteq> ShActive then s else
        let s1 = s\<lparr>sv_sessions := om_set (sv_sessions s) sharedSessionId (session\<lparr>sh_status := status\<rparr>)\<rparr>;
            s2 = (case om_get (sv_hostInterceptors s1) sharedSessionId of None \<Rightarrow> s1
                  | Some host \<Rightarrow> (add_effect (RemoveInterceptor host sharedSessionId) s1)
                      \<lparr>sv_hostInterceptors := om_del (sv_hostInterceptors s1) sharedSessionId\<rparr>);
            s3 = (case om_get (sv_participantsBySession s2) sharedSessionId of None \<Rightarrow> s2
                  | Some ids \<Rightarrow>
                      let (endedAt, s') = read_now env s2
                      in s'\<lparr>sv_participants := mark_left endedAt ids (sv_participants s')\<rparr>)
        in emit_shared env SessionClosed sharedSessionId (PayloadStatus status) s3)"

definition expireSessions :: "shared_env \<Rightarrow> shared_svc \<Rightarrow> shared_svc" where
  "expireSessions env s0 =
     (let (current, s) = read_now env s0 in
      fold (\<lambda>sid s. case om_get (sv_sessions s) sid of None \<Rightarrow> s
        | Some session \<Rightarrow>
            if sh_status session \<noteq> ShActive then s
            else (case sh_expiresAt session of None \<Rightarrow> s
              | Some e \<Rightarrow> if e \<le> current then finalizeSession env (sh_id session) ShExpired s else s))
        (om_keys (sv_sessions s)) s)"

definition ensureSessionActive ::
  "shared_env \<Rightarrow> string \<Rightarrow> shared_svc \<Rightarrow> (shared_error + shared_session) \<times> shared_svc" where
  "ensureSessionActive env sharedSessionId s0 =
     (let s = expireSessions env s0 in
      case om_get (sv_sessions s) sharedSessionId of
        None \<Rightarrow> (Inl (SharedSessionError ''SESSION_NOT_FOUND'' ''Shared session not found.'' 404), s)
      | Some session \<Rightarrow>
          if sh_status session \<noteq> ShActive
          then (Inl (SharedSessionError ''SESSION_INACTIVE''
                 (''Shared session is '' @ shared_status_str (sh_status session) @ ''.'') 409), s)
          else (Inr session, s))"

section \<open>Reading\<close>

record session_filter =
  sf_workspaceId :: "string option"
  sf_hostSessionId :: "string option"
  sf_status :: "shared_status option"

definition session_passes :: "session_filter \<Rightarrow> shared_session \<Rightarrow> bool" where
  "session_passes f session =
     (\<not> (truthy (sf_workspaceId f) \<and> Some (sh_workspaceId session) \<noteq> sf_workspaceId f)
      \<and> \<not> (truthy (sf_hostSessionId f) \<and> Some (sh_hostSessionId session) \<noteq> sf_hostSessionId f)
      \<and> \<not> (sf_status f \<noteq> None \<and> Some (sh_status session) \<noteq> sf_status f))"

definition listSessions :: "shared_env \<Rightarrow> session_filter \<Rightarrow> shared_svc \<Rightarrow> shared_session list \<times> shared_svc" where
  "listSessions env f s0 =
     (let s = expireSessions env s0 in
      (sort_by (by_key_desc sh_createdAt) (filter (session_passes f) (om_values (sv_sessions s))), s))"

text \<open>\<open>getSession\<close>, also the non-throwing form of \<open>ensureSessionActive\<close>.\<close>

definition getSession :: "shared_env \<Rightarrow> string \<Rightarrow> shared_svc \<Rightarrow> shared_session option \<times> shared_svc" where
  "getSession env sharedSessionId s =
     (case ensureSessionActive env sharedSessionId s of
        (Inl e, s') \<Rightarrow> (None, s') | (Inr session, s') \<Rightarrow> (Some session, s'))"

definition listParticipants ::
  "shared_env \<Rightarrow> string \<Rightarrow> shared_svc \<Rightarrow> (shared_error + participant list) \<times> shared_svc" where
  "listParticipants env sharedSessionId s0 =
     (case ensureSessionActive env sharedSessionId s0 of
        (Inl e, s) \<Rightarrow> (Inl e, s)
      | (Inr session, s) \<Rightarrow>
          (Inr (map_some (om_get (sv_participants s))
             (orDefault (om_get (sv_participantsBySession s) sharedSessionId) [])), s))"

definition listApprovals ::
  "shared_env \<Rightarrow> string \<Rightarrow> shared_svc \<Rightarrow> (shared_error + prompt_approval list) \<times> shared_svc" where
  "listApprovals env sharedSessionId s0 =
     (case ensureSessionActive env sharedSessionId s0 of
        (Inl e, s) \<Rightarrow> (Inl e, s)
      | (Inr session, s) \<Rightarrow>
          (Inr (sort_by (by_key_desc ap_createdAt) (map_some (om_get (sv_approvals s))
             (orDefault (om_get (sv_approvalsBySession s) sharedSessionId) []))), s))"

definition listMessages ::
  "shared_env \<Rightarrow> string \<Rightarrow> shared_svc \<Rightarrow> (shared_error + shared_message list) \<times> shared_svc" where
  "listMessages env sharedSessionId s0 =
     (case ensureSessionActive env sharedSessionId s0 of
        (Inl e, s) \<Rightarrow> (Inl e, s)
      | (Inr session, s) \<Rightarrow> (Inr (orDefault (om_get (sv_messagesBySession s) sharedSessionId) []), s))"

section \<open>Creating and joining\<close>

definition set_add :: "'a \<Rightarrow> 'a list \<Rightarrow> 'a list" where
  "set_add x xs = (if x \<in> set xs then xs else xs @ [x])"

definition insertParticipant :: "participant \<Rightarrow> shared_svc \<Rightarrow> shared_svc" where
  "insertParticipant p s =
     s\<lparr>sv_participants := om_set (sv_participants s) (pa_id p) p,
       sv_participantsBySession := om_set (sv_participantsBySession s) (pa_sharedSessionId p)
         (set_add (pa_id p) (orDefault (om_get (sv_participantsBySession s) (pa_sharedSessionId p)) []))\<rparr>"

definition registerHostSessionForwarder :: "shared_session \<Rightarrow> shared_svc \<Rightarrow> shared_svc" where
  "registerHostSessionForwarder session s =
     (add_effect (AddInterceptor (sh_hostSessionId session) (sh_id session)) s)
       \<lparr>sv_hostInterceptors := om_set (sv_hostInterceptors s) (sh_id session) (sh_hostSessionId session)\<rparr>"

text \<open>The handler that the forwarder registers, when the hub calls it.\<close>

definition onHostNotification :: "shared_env \<Rightarrow> string \<Rightarrow> json \<Rightarrow> shared_svc \<Rightarrow> shared_svc" where
  "onHostNotification env sid notification s =
     (case getSession env sid s of
        (None, s') \<Rightarrow> s'
      | (Some session, s') \<Rightarrow> emit_shared env HostSessionUpdate sid (PayloadNotification notification) s')"

record create_input =
  ci_hostSessionId :: string
  ci_hostUserId :: string
  ci_hostDisplayName :: "string option"
  ci_mode :: "shared_mode option"
  ci_workspaceId :: "string option"
  ci_expiresAt :: "int option"

definition createSession ::
  "shared_env \<Rightarrow> create_input \<Rightarrow> shared_svc \<Rightarrow> (shared_error + shared_session \<times> participant) \<times> shared_svc" where
  "createSession env inp s0 =
     (case hub_getSession env (ci_hostSessionId inp) (expireSessions env s0) of
        (None, s) \<Rightarrow>
          (Inl (SharedSessionError ''HOST_SESSION_NOT_FOUND''
             (''Host session not found: '' @ ci_hostSessionId inp) 404), s)
      | (Some hostWorkspaceId, s1) \<Rightarrow>
          let (sessionId, s2) = uuidv4 env s1;
              mode = orDefault (ci_mode inp) PromptWithApproval;
              (inviteToken, s3) = generateToken env s2;
              (createdAt, s4) = read_now env s3;
              session = \<lparr>sh_id = sessionId, sh_workspaceId = orDefault (ci_workspaceId inp) hostWorkspaceId,
                 sh_hostUserId = trim (ci_hostUserId inp), sh_hostSessionId = ci_hostSessionId inp,
                 sh_mode = mode, sh_approvalRequired = (mode = PromptWithApproval),
                 sh_inviteToken = inviteToken, sh_createdAt = createdAt,
                 sh_expiresAt = ci_expiresAt inp, sh_status = ShActive\<rparr>;
              s5 = s4\<lparr>sv_sessions := om_set (sv_sessions s4) sessionId session\<rparr>;
              (participantId, s6) = uuidv4 env s5;
              (accessToken, s7) = generateToken env s6;
              (joinedAt, s8) = read_now env s7;
              host = \<lparr>pa_id = participantId, pa_sharedSessionId = sessionId,
                 pa_userId = trim (ci_hostUserId inp), pa_displayName = ci_hostDisplayName inp,
                 pa_role = RoleHost, pa_accessToken = accessToken, pa_joinedAt = joinedAt,
                 pa_leftAt = None\<rparr>;
              s9 = registerHostSessionForwarder session (insertParticipant host s8);
              s10 = emit_shared env SharedSessionCreated sessionId
                 (PayloadSession (serializeSessionPayload env session)) s9;
              s11 = emit_shared env ParticipantJoined sessionId
                 (PayloadParticipant (serializeParticipantPayload env host)) s10
          in (Inr (session, host), s11))"

record join_input =
  ji_sharedSessionId :: string
  ji_inviteToken :: string
  ji_userId :: string
  ji_displayName :: "string option"
  ji_role :: "shared_role option"

definition is_active_user :: "shared_svc \<Rightarrow> string \<Rightarrow> string \<Rightarrow> bool" where
  "is_active_user s user pid =
     (case om_get (sv_participants s) pid of None \<Rightarrow> False
      | Some p \<Rightarrow> pa_userId p = user \<and> pa_leftAt p = None)"

definition findActiveParticipantByUserId :: "string \<Rightarrow> string \<Rightarrow> shared_svc \<Rightarrow> participant option" where
  "findActiveParticipantByUserId sharedSessionId userId s =
     (case om_get (sv_participantsBySession s) sharedSessionId of None \<Rightarrow> None
      | Some ids \<Rightarrow> Option.bind (List.find (is_active_user s (trim userId)) ids) (om_get (sv_participants s)))"

definition joinSession ::
  "shared_env \<Rightarrow> join_input \<Rightarrow> shared_svc \<Rightarrow> (shared_error + shared_session \<times> participant) \<times> shared_svc" where
  "joinSession env inp s0 =
     (case ensureSessionActive env (ji_sharedSessionId inp) s0 of
        (Inl e, s) \<Rightarrow> (Inl e, s)
      | (Inr session, s) \<Rightarrow>
          if sh_inviteToken session \<noteq> ji_inviteToken inp
          then (Inl (SharedSessionError ''INVALID_INVITE_TOKEN'' ''Invite token is invalid.'' 403), s)
          else (case findActiveParticipantByUserId (ji_sharedSessionId inp) (ji_userId inp) s of
             Some existing \<Rightarrow> (Inr (session, existing), s)
           | None \<Rightarrow>
               let (participantId, s1) = uuidv4 env s;
                   (accessToken, s2) = generateToken env s1;
                   (joinedAt, s3) = read_now env s2;
                   p = \<lparr>pa_id = participantId, pa_sharedSessionId = sh_id session,
                      pa_userId = trim (ji_userId inp), pa_displayName = ji_displayName inp,
                      pa_role = orDefault (ji_role inp) RoleCollaborator, pa_accessToken = accessToken,
                      pa_joinedAt = joinedAt, pa_leftAt = None\<rparr>;
                   s4 = emit_shared env ParticipantJoined (sh_id session)
                      (PayloadParticipant (serializeParticipantPayload env p)) (insertParticipant p s3)
               in (Inr (session, p), s4)))"

section \<open>Authentication, leaving, closing\<close>

record auth_input =
  ai_sharedSessionId :: string
  ai_participantId :: string
  ai_participantToken :: string

definition authenticateParticipant ::
  "shared_env \<Rightarrow> auth_input \<Rightarrow> shared_svc \<Rightarrow> (shared_error + participant) \<times> shared_svc" where
  "authenticateParticipant env inp s0 =
     (case ensureSessionActive env (ai_sharedSessionId inp) s0 of
        (Inl e, s) \<Rightarrow> (Inl e, s)
      | (Inr session, s) \<Rightarrow>
         (case om_get (sv_participants s) (ai_participantId inp) of
            None \<Rightarrow> (Inl (SharedSessionError ''PARTICIPANT_NOT_FOUND'' ''Participant not found.'' 404), s)
          | Some p \<Rightarrow>
              if pa_sharedSessionId p \<noteq> ai_sharedSessionId inp
              then (Inl (SharedSessionError ''PARTICIPANT_NOT_FOUND'' ''Participant not found.'' 404), s)
              else if pa_accessToken p \<noteq> ai_participantToken inp
              then (Inl (SharedSessionError ''INVALID_PARTICIPANT_TOKEN'' ''Participant token is invalid.'' 403), s)
              else if pa_leftAt p \<noteq> None
              then (Inl (SharedSessionError ''PARTICIPANT_INACTIVE'' ''Participant has already left.'' 409), s)
              else (Inr p, s)))"

definition leaveSession ::
  "shared_env \<Rightarrow> auth_input \<Rightarrow> shared_svc \<Rightarrow> (shared_error + participant) \<times> shared_svc" where
  "leaveSession env inp s0 =
     (case ensureSessionActive env (ai_sharedSessionId inp) s0 of
        (Inl e, s1) \<Rightarrow> (Inl e, s1)
      | (Inr session, s1) \<Rightarrow>
         (case authenticateParticipant env inp s1 of
            (Inl e, s) \<Rightarrow> (Inl e, s)
          | (Inr p, s) \<Rightarrow>
              if pa_leftAt p \<noteq> None then (Inr p, s) else
              let (leftAt, s2) = read_now env s;
                  p' = p\<lparr>pa_leftAt := Some leftAt\<rparr>;
                  s3 = s2\<lparr>sv_participants := om_set (sv_participants s2) (pa_id p) p'\<rparr>
              in (Inr p', emit_shared env ParticipantLeft (pa_sharedSessionId p')
                    (PayloadParticipant (serializeParticipantPayload env p')) s3)))"

definition closeSession ::
  "shared_env \<Rightarrow> auth_input \<Rightarrow> shared_svc \<Rightarrow> (shared_error + shared_session) \<times> shared_svc" where
  "closeSession env inp s0 =
     (case ensureSessionActive env (ai_sharedSessionId inp) s0 of
        (Inl e, s1) \<Rightarrow> (Inl e, s1)
      | (Inr session, s1) \<Rightarrow>
         (case authenticateParticipant env inp s1 of
            (Inl e, s) \<Rightarrow> (Inl e, s)
          | (Inr p, s) \<Rightarrow>
              if pa_role p \<noteq> RoleHost
              then (Inl (SharedSessionError ''HOST_REQUIRED'' ''Only host can close the shared session.'' 403), s)
              else let s' = finalizeSession env (sh_id session) ShClosed s
                   in (Inr (orDefault (om_get (sv_sessions s') (sh_id session)) session), s')))"

section \<open>Comments and prompts\<close>

definition canComment :: "shared_session \<Rightarrow> shared_role \<Rightarrow> bool" where
  "canComment session role =
     (if role = RoleHost then True else if role = RoleViewer then False else sh_mode session \<noteq> ViewOnly)"

definition canPrompt :: "shared_session \<Rightarrow> shared_role \<Rightarrow> bool" where
  "canPrompt session role =
     (if role = RoleViewer then False
      else if sh_mode session = PromptDirect \<or> sh_mode session = PromptWithApproval then True
      else role = RoleHost)"

definition appendMessage :: "shared_message \<Rightarrow> shared_svc \<Rightarrow> shared_svc" where
  "appendMessage m s = s\<lparr>sv_messagesBySession := om_set (sv_messagesBySession s) (ms_sharedSessionId m)
     (orDefault (om_get (sv_messagesBySession s) (ms_sharedSessionId m)) [] @ [m])\<rparr>"

definition sendMessage ::
  "shared_env \<Rightarrow> auth_input \<Rightarrow> string \<Rightarrow> shared_svc \<Rightarrow> (shared_error + shared_message) \<times> shared_svc" where
  "sendMessage env inp txt s0 =
     (case authenticateParticipant env inp s0 of
        (Inl e, s1) \<Rightarrow> (Inl e, s1)
      | (Inr p, s1) \<Rightarrow>
        (case ensureSessionActive env (ai_sharedSessionId inp) s1 of
           (Inl e, s) \<Rightarrow> (Inl e, s)
         | (Inr session, s) \<Rightarrow>
             if \<not> canComment session (pa_role p)
             then (Inl (SharedSessionError ''COMMENT_NOT_ALLOWED'' ''Message sending is not allowed in current mode.'' 403), s)
             else if trim txt = []
             then (Inl (SharedSessionError ''EMPTY_MESSAGE'' ''Message text cannot be empty.'' 400), s)
             else
               let (i, s2) = uuidv4 env s;
                   (createdAt, s3) = read_now env s2;
                   m = \<lparr>ms_id = i, ms_sharedSessionId = sh_id session, ms_participantId = pa_id p,
                      ms_authorUserId = pa_userId p, ms_kind = KindComment, ms_text = trim txt,
                      ms_createdAt = createdAt, ms_approvalId = None\<rparr>
               in (Inr m, emit_shared env MessageCreated (sh_id session)
                    (PayloadMessage (serializeMessagePayload env m) (serializeParticipantPayload env p))
                    (appendMessage m s3))))"

definition createApproval ::
  "shared_env \<Rightarrow> string \<Rightarrow> string \<Rightarrow> string \<Rightarrow> prompt_status \<Rightarrow> int option \<Rightarrow> string option
    \<Rightarrow> shared_svc \<Rightarrow> prompt_approval \<times> shared_svc" where
  "createApproval env sid pid prompt status resolvedAt resolvedBy s0 =
     (let (i, s1) = uuidv4 env s0;
          (createdAt, s2) = read_now env s1;
          a = \<lparr>ap_id = i, ap_sharedSessionId = sid, ap_participantId = pid, ap_prompt = prompt,
            ap_status = status, ap_createdAt = createdAt, ap_resolvedAt = resolvedAt,
            ap_resolvedByParticipantId = resolvedBy, ap_errorMessage = None\<rparr>
      in (a, s2\<lparr>sv_approvals := om_set (sv_approvals s2) i a,
               sv_approvalsBySession := om_set (sv_approvalsBySession s2) sid
                 (set_add i (orDefault (om_get (sv_approvalsBySession s2) sid) []))\<rparr>))"

text \<open>\<open>dispatchPromptWithLifecycle\<close>: the dispatcher is called; its promise stays open.\<close>

definition dispatchPromptWithLifecycle ::
  "shared_env \<Rightarrow> shared_session \<Rightarrow> prompt_approval \<Rightarrow> shared_svc \<Rightarrow> shared_svc" where
  "dispatchPromptWithLifecycle env session approval s =
     (let s' = add_effect (DispatchPrompt
            \<lparr>di_sharedSessionId = sh_id session, di_hostSessionId = sh_hostSessionId session,
             di_participantId = ap_participantId approval, di_prompt = ap_prompt approval,
             di_approvalId = ap_id approval\<rparr>)
          (emit_shared env PromptDispatchStarted (sh_id session)
             (PayloadApproval (serializeApprovalPayload env approval)) s)
      in s'\<lparr>sv_inflight := sv_inflight s' @ [(sh_id session, ap_id approval)]\<rparr>)"

definition sendPrompt ::
  "shared_env \<Rightarrow> auth_input \<Rightarrow> string \<Rightarrow> shared_svc
    \<Rightarrow> (shared_error + prompt_status \<times> prompt_approval) \<times> shared_svc" where
  "sendPrompt env inp txt s0 =
     (case authenticateParticipant env inp s0 of
        (Inl e, s1) \<Rightarrow> (Inl e, s1)
      | (Inr p, s1) \<Rightarrow>
        (case ensureSessionActive env (ai_sharedSessionId inp) s1 of
           (Inl e, s) \<Rightarrow> (Inl e, s)
         | (Inr session, s) \<Rightarrow>
             if \<not> canPrompt session (pa_role p)
             then (Inl (SharedSessionError ''PROMPT_NOT_ALLOWED'' ''Prompt sending is not allowed in current mode.'' 403), s)
             else if trim txt = []
             then (Inl (SharedSessionError ''EMPTY_PROMPT'' ''Prompt cannot be empty.'' 400), s)
             else if sh_mode session = PromptWithApproval \<and> pa_role p \<noteq> RoleHost then
               let (a, s2) = createApproval env (sh_id session) (pa_id p) (trim txt) PsPending None None s;
                   (i, s3) = uuidv4 env s2;
                   (createdAt, s4) = read_now env s3;
                   m = \<lparr>ms_id = i, ms_sharedSessionId = sh_id session, ms_participantId = pa_id p,
                      ms_authorUserId = pa_userId p, ms_kind = KindPrompt, ms_text = trim txt,
                      ms_createdAt = createdAt, ms_approvalId = Some (ap_id a)\<rparr>
               in (Inr (PsPending, a), emit_shared env PromptPendingApproval (sh_id session)
                    (PayloadApprovalBy (serializeApprovalPayload env a) (serializeParticipantPayload env p))
                    (appendMessage m s4))
             else
               let (resolvedAt, s2) = read_now env s;
                   (a, s3) = createApproval env (sh_id session) (pa_id p) (trim txt) PsApproved
                      (Some resolvedAt) (Some (pa_id p)) s2;
                   s4 = emit_shared env PromptApproved (sh_id session)
                      (PayloadApprovalBy (serializeApprovalPayload env a) (serializeParticipantPayload env p)) s3
               in (Inr (ap_status a, a), dispatchPromptWithLifecycle env session a s4)))"

datatype approval_action = ActApprove | ActReject

definition respondToApproval ::
  "shared_env \<Rightarrow> auth_input \<Rightarrow> string \<Rightarrow> approval_action \<Rightarrow> shared_svc
    \<Rightarrow> (shared_error + prompt_approval) \<times> shared_svc" where
  "respondToApproval env inp approvalId action s0 =
     (case authenticateParticipant env inp s0 of
        (Inl e, s1) \<Rightarrow> (Inl e, s1)
      | (Inr p, s1) \<Rightarrow>
        if pa_role p \<noteq> RoleHost
        then (Inl (SharedSessionError ''HOST_REQUIRED'' ''Only host can approve or reject prompts.'' 403), s1)
        else
        (case ensureSessionActive env (ai_sharedSessionId inp) s1 of
           (Inl e, s) \<Rightarrow> (Inl e, s)
         | (Inr session, s) \<Rightarrow>
           (case om_get (sv_approvals s) approvalId of
              None \<Rightarrow> (Inl (SharedSessionError ''APPROVAL_NOT_FOUND'' ''Approval request not found.'' 404), s)
            | Some a \<Rightarrow>
                if ap_sharedSessionId a \<noteq> sh_id session
                then (Inl (SharedSessionError ''APPROVAL_NOT_FOUND'' ''Approval request not found.'' 404), s)
                else if ap_status a \<noteq> PsPending
                then (Inl (SharedSessionError ''APPROVAL_ALREADY_RESOLVED'' ''Approval has already been resolved.'' 409), s)
                else
                  let (resolvedAt, s2) = read_now env s;
                      a' = a\<lparr>ap_resolvedAt := Some resolvedAt, ap_resolvedByParticipantId := Some (pa_id p),
                             ap_status := (if action = ActReject then PsRejected else PsApproved)\<rparr>;
                      s3 = s2\<lparr>sv_approvals := om_set (sv_approvals s2) approvalId a'\<rparr>;
                      s4 = emit_shared env (if action = ActReject then PromptRejected else PromptApproved) (sh_id session)
                         (PayloadApprovalBy (serializeApprovalPayload env a') (serializeParticipantPayload env p)) s3
                  in (Inr a', if action = ActReject then s4 else dispatchPromptWithLifecycle env session a' s4))))"

text \<open>The two continuations of the dispatcher's promise.\<close>

definition dispatchCompleted :: "shared_env \<Rightarrow> string \<times> string \<Rightarrow> shared_svc \<Rightarrow> shared_svc" where
  "dispatchCompleted env job s =
     (if job \<notin> set (sv_inflight s) then s else
      let s1 = s\<lparr>sv_inflight := remove1 job (sv_inflight s)\<rparr> in
      case om_get (sv_approvals s1) (snd job) of
        None \<Rightarrow> s1
      | Some a \<Rightarrow> emit_shared env PromptDispatchCompleted (fst job)
          (PayloadApproval (serializeApprovalPayload env a)) s1)"

definition dispatchFailed :: "shared_env \<Rightarrow> string \<times> string \<Rightarrow> string \<Rightarrow> shared_svc \<Rightarrow> shared_svc" where
  "dispatchFailed env job msg s =
     (if job \<notin> set (sv_inflight s) then s else
      let s1 = s\<lparr>sv_inflight := remove1 job (sv_inflight s)\<rparr> in
      case om_get (sv_approvals s1) (snd job) of
        None \<Rightarrow> s1
      | Some a \<Rightarrow>
          let a' = (if ap_status a = PsApproved then a\<lparr>ap_status := PsFailed, ap_errorMessage := Some msg\<rparr> else a);
              s2 = s1\<lparr>sv_approvals := om_set (sv_approvals s1) (snd job) a'\<rparr>
          in emit_shared env PromptDispatchFailed (fst job)
               (PayloadFailure (serializeApprovalPayload env a') msg) s2)"

end
