(* ===== verification/SharedInvariant.thy ===== *)
theory SharedInvariant
  imports SharedSession
begin

text \<open>
  The shared session service over time: the order in which its data evolves (\<open>svc_le\<close>), its
  invariant (\<open>svc_ok\<close>), and the proof that every operation respects both (\<open>good\<close>), from the small
  updates the operations are made of. Ids are assumed to be distinct (\<open>inj (env_uuid env)\<close>), which
  is what a UUID generator promises.
\<close>

section \<open>How the service evolves\<close>

text \<open>
  A later state keeps every session, participant and approval of an earlier one. Of a session only
  the status changes, and only away from active; of a participant only \<open>leftAt\<close>, once; an approval
  goes from pending to approved or rejected and from approved to failed, and a resolution is final.
\<close>

definition session_le :: "shared_session \<Rightarrow> shared_session \<Rightarrow> bool" where
  "session_le x y = (y = x\<lparr>sh_status := sh_status y\<rparr> \<and> (sh_status x \<noteq> ShActive \<longrightarrow> y = x))"

definition participant_le :: "participant \<Rightarrow> participant \<Rightarrow> bool" where
  "participant_le x y = (y = x\<lparr>pa_leftAt := pa_leftAt y\<rparr> \<and> (pa_leftAt x \<noteq> None \<longrightarrow> y = x))"

definition approval_le :: "prompt_approval \<Rightarrow> prompt_approval \<Rightarrow> bool" where
  "approval_le x y =
     (y = x\<lparr>ap_status := ap_status y, ap_resolvedAt := ap_resolvedAt y,
            ap_resolvedByParticipantId := ap_resolvedByParticipantId y, ap_errorMessage := ap_errorMessage y\<rparr>
      \<and> (ap_status x \<noteq> PsPending \<longrightarrow> ap_resolvedAt y = ap_resolvedAt x
           \<and> ap_resolvedByParticipantId y = ap_resolvedByParticipantId x
           \<and> (y = x \<or> ap_status x = PsApproved \<and> ap_status y = PsFailed)))"

definition omap_le :: "('v \<Rightarrow> 'v \<Rightarrow> bool) \<Rightarrow> ('k, 'v) omap \<Rightarrow> ('k, 'v) omap \<Rightarrow> bool" where
  "omap_le le m m' = (\<forall>k x. om_get m k = Some x \<longrightarrow> (\<exists>y. om_get m' k = Some y \<and> le x y))"

fun is_dispatch :: "shared_effect \<Rightarrow> bool" where
  "is_dispatch (DispatchPrompt d) = True"
| "is_dispatch e = False"

definition dispatched :: "shared_svc \<Rightarrow> dispatch_input list" where
  "dispatched s = concat (map (\<lambda>e. case e of DispatchPrompt d \<Rightarrow> [d] | _ \<Rightarrow> []) (sv_log s))"

definition svc_le :: "shared_svc \<Rightarrow> shared_svc \<Rightarrow> bool" where
  "svc_le s s' = (omap_le session_le (sv_sessions s) (sv_sessions s')
     \<and> omap_le participant_le (sv_participants s) (sv_participants s')
     \<and> omap_le approval_le (sv_approvals s) (sv_approvals s')
     \<and> (\<exists>l. sv_log s' = sv_log s @ l) \<and> sv_uuids s \<le> sv_uuids s')"

lemma session_le_refl [simp]: "session_le x x"
  by (simp add: session_le_def)

lemma participant_le_refl [simp]: "participant_le x x"
  by (simp add: participant_le_def)

lemma approval_le_refl [simp]: "approval_le x x"
  by (simp add: approval_le_def)

lemma session_le_trans: "session_le x y \<Longrightarrow> session_le y z \<Longrightarrow> session_le x z"
  by (cases x; cases y; cases z) (auto simp: session_le_def)

lemma participant_le_trans: "participant_le x y \<Longrightarrow> participant_le y z \<Longrightarrow> participant_le x z"
  by (cases x; cases y; cases z) (auto simp: participant_le_def)

lemma approval_le_trans: "approval_le x y \<Longrightarrow> approval_le y z \<Longrightarrow> approval_le x z"
  by (cases x; cases y; cases z) (auto simp: approval_le_def)

lemma omap_le_refl: "(\<And>x. le x x) \<Longrightarrow> omap_le le m m"
  by (simp add: omap_le_def)

lemma omap_le_trans:
  "(\<And>x y z. le x y \<Longrightarrow> le y z \<Longrightarrow> le x z) \<Longrightarrow> omap_le le m m' \<Longrightarrow> omap_le le m' m'' \<Longrightarrow> omap_le le m m''"
  unfolding omap_le_def by meson

lemma omap_le_set: "(\<And>x. le x x) \<Longrightarrow> (\<And>x. om_get m k = Some x \<Longrightarrow> le x v) \<Longrightarrow> omap_le le m (om_set m k v)"
  by (simp add: omap_le_def)

lemma svc_le_refl [simp]: "svc_le s s"
  by (simp add: svc_le_def omap_le_refl)

lemma svc_le_trans: "svc_le s t \<Longrightarrow> svc_le t u \<Longrightarrow> svc_le s u"
  unfolding svc_le_def
  by (auto intro: omap_le_trans session_le_trans participant_le_trans approval_le_trans)

section \<open>The invariant of the service\<close>

text \<open>An approval that was resolved was resolved by the host, unless the session takes prompts
  directly; its author may prompt in that session.\<close>

definition approval_sound :: "shared_svc \<Rightarrow> prompt_approval \<Rightarrow> bool" where
  "approval_sound s a = (\<exists>ses author. om_get (sv_sessions s) (ap_sharedSessionId a) = Some ses
     \<and> om_get (sv_participants s) (ap_participantId a) = Some author
     \<and> pa_sharedSessionId author = ap_sharedSessionId a \<and> canPrompt ses (pa_role author)
     \<and> ap_prompt a \<noteq> []
     \<and> (ap_status a \<noteq> PsPending \<longrightarrow> (\<exists>pid resolver. ap_resolvedByParticipantId a = Some pid
          \<and> om_get (sv_participants s) pid = Some resolver
          \<and> pa_sharedSessionId resolver = ap_sharedSessionId a
          \<and> (pa_role resolver = RoleHost \<or> sh_mode ses = PromptDirect))))"

definition sessions_ok :: "shared_svc \<Rightarrow> bool" where
  "sessions_ok s = (\<forall>sid ses. om_get (sv_sessions s) sid = Some ses \<longrightarrow> sh_id ses = sid
     \<and> om_get (sv_hostInterceptors s) sid = (if sh_status ses = ShActive then Some (sh_hostSessionId ses) else None))"

definition members :: "shared_svc \<Rightarrow> string \<Rightarrow> string list" where
  "members s sid = orDefault (om_get (sv_participantsBySession s) sid) []"

definition participants_ok :: "shared_svc \<Rightarrow> bool" where
  "participants_ok s =
     ((\<forall>pid p. om_get (sv_participants s) pid = Some p \<longrightarrow> pa_id p = pid
        \<and> (\<exists>ses. om_get (sv_sessions s) (pa_sharedSessionId p) = Some ses
             \<and> (pa_leftAt p = None \<longrightarrow> sh_status ses = ShActive)))
      \<and> (\<forall>sid pid. pid \<in> set (members s sid)
           \<longleftrightarrow> (\<exists>p. om_get (sv_participants s) pid = Some p \<and> pa_sharedSessionId p = sid)))"

definition approvals_ok :: "shared_svc \<Rightarrow> bool" where
  "approvals_ok s = (\<forall>aid a. om_get (sv_approvals s) aid = Some a \<longrightarrow> ap_id a = aid \<and> approval_sound s a)"

definition dispatches_ok :: "shared_svc \<Rightarrow> bool" where
  "dispatches_ok s = (distinct (map di_approvalId (dispatched s))
     \<and> (\<forall>d\<in>set (dispatched s). \<exists>a ses. om_get (sv_approvals s) (di_approvalId d) = Some a
          \<and> om_get (sv_sessions s) (di_sharedSessionId d) = Some ses
          \<and> ap_status a \<in> {PsApproved, PsFailed} \<and> ap_sharedSessionId a = di_sharedSessionId d
          \<and> ap_participantId a = di_participantId d \<and> ap_prompt a = di_prompt d
          \<and> sh_hostSessionId ses = di_hostSessionId d)
     \<and> distinct (sv_inflight s)
     \<and> (\<forall>job\<in>set (sv_inflight s). \<exists>a. om_get (sv_approvals s) (snd job) = Some a
          \<and> ap_status a = PsApproved \<and> ap_sharedSessionId a = fst job))"

definition fresh_ok :: "shared_env \<Rightarrow> shared_svc \<Rightarrow> bool" where
  "fresh_ok env s = (\<forall>n\<ge>sv_uuids s. om_get (sv_sessions s) (env_uuid env n) = None
     \<and> om_get (sv_participants s) (env_uuid env n) = None \<and> om_get (sv_approvals s) (env_uuid env n) = None
     \<and> om_get (sv_participantsBySession s) (env_uuid env n) = None)"

definition svc_ok :: "shared_env \<Rightarrow> shared_svc \<Rightarrow> bool" where
  "svc_ok env s = (sessions_ok s \<and> participants_ok s \<and> approvals_ok s \<and> dispatches_ok s \<and> fresh_ok env s)"

lemmas svc_ok_defs = sessions_ok_def participants_ok_def approvals_ok_def dispatches_ok_def fresh_ok_def members_def

text \<open>Steps that only read the clock, draw ids or log effects other than a dispatch.\<close>

definition same_data :: "shared_svc \<Rightarrow> shared_svc \<Rightarrow> bool" where
  "same_data s s' = (sv_sessions s' = sv_sessions s \<and> sv_participants s' = sv_participants s
     \<and> sv_participantsBySession s' = sv_participantsBySession s \<and> sv_approvals s' = sv_approvals s
     \<and> sv_hostInterceptors s' = sv_hostInterceptors s \<and> sv_inflight s' = sv_inflight s
     \<and> sv_uuids s \<le> sv_uuids s' \<and> dispatched s' = dispatched s \<and> (\<exists>l. sv_log s' = sv_log s @ l))"

lemma same_data_ok: "same_data s s' \<Longrightarrow> svc_ok env s \<Longrightarrow> svc_ok env s'"
  by (auto simp: same_data_def svc_ok_def svc_ok_defs approval_sound_def)

lemma same_data_le: "same_data s s' \<Longrightarrow> svc_le s s'"
  by (auto simp: same_data_def svc_le_def omap_le_refl)

lemma same_data_refl [simp]: "same_data s s"
  by (simp add: same_data_def)

lemma same_data_trans: "same_data s t \<Longrightarrow> same_data t u \<Longrightarrow> same_data s u"
  by (auto simp: same_data_def)

lemma dispatched_append:
  "sv_log s' = sv_log s @ l \<Longrightarrow> dispatched s' = dispatched s @ concat (map (\<lambda>e. case e of DispatchPrompt d \<Rightarrow> [d] | _ \<Rightarrow> []) l)"
  by (simp add: dispatched_def)

lemma dispatched_cong: "sv_log s' = sv_log s \<Longrightarrow> dispatched s' = dispatched s"
  by (simp add: dispatched_def)

lemma same_read_now [simp]: "same_data s (snd (read_now env s))"
  by (simp add: same_data_def read_now_def dispatched_def)

lemma same_uuid [simp]: "same_data s (snd (uuidv4 env s))"
  by (simp add: same_data_def uuidv4_def dispatched_def)

lemma same_token [simp]: "same_data s (snd (generateToken env s))"
  by (simp add: same_data_def generateToken_def dispatched_def)

lemma same_hub [simp]: "same_data s (snd (hub_getSession env h s))"
  by (simp add: same_data_def hub_getSession_def dispatched_def)

lemma same_emit [simp]: "same_data s (emit_shared env t sid pl s)"
  by (simp add: same_data_def emit_shared_def read_now_def add_effect_def dispatched_def)

lemma same_message [simp]: "same_data s (appendMessage m s)"
  by (simp add: same_data_def appendMessage_def dispatched_def)

lemma session_le_keeps: "session_le x y \<Longrightarrow> sh_id y = sh_id x \<and> sh_mode y = sh_mode x \<and> sh_hostSessionId y = sh_hostSessionId x
    \<and> sh_expiresAt y = sh_expiresAt x \<and> sh_inviteToken y = sh_inviteToken x"
  by (cases x; cases y) (simp add: session_le_def)

lemma participant_le_keeps: "participant_le x y \<Longrightarrow> pa_id y = pa_id x \<and> pa_sharedSessionId y = pa_sharedSessionId x
    \<and> pa_role y = pa_role x \<and> pa_userId y = pa_userId x \<and> pa_accessToken y = pa_accessToken x"
  by (cases x; cases y) (simp add: participant_le_def)

lemma approval_le_keeps: "approval_le x y \<Longrightarrow> ap_id y = ap_id x \<and> ap_sharedSessionId y = ap_sharedSessionId x
    \<and> ap_participantId y = ap_participantId x \<and> ap_prompt y = ap_prompt x"
  by (cases x; cases y) (simp add: approval_le_def)

lemma approval_sound_mono:
  assumes "approval_sound s a" and ms: "omap_le session_le (sv_sessions s) (sv_sessions s')"
    and mp: "omap_le participant_le (sv_participants s) (sv_participants s')"
  shows "approval_sound s' a"
proof -
  from assms(1) obtain ses author where a: "om_get (sv_sessions s) (ap_sharedSessionId a) = Some ses"
     "om_get (sv_participants s) (ap_participantId a) = Some author"
     "pa_sharedSessionId author = ap_sharedSessionId a" "canPrompt ses (pa_role author)" "ap_prompt a \<noteq> []"
     and res: "ap_status a \<noteq> PsPending \<longrightarrow> (\<exists>pid resolver. ap_resolvedByParticipantId a = Some pid
          \<and> om_get (sv_participants s) pid = Some resolver
          \<and> pa_sharedSessionId resolver = ap_sharedSessionId a
          \<and> (pa_role resolver = RoleHost \<or> sh_mode ses = PromptDirect))"
    unfolding approval_sound_def by blast
  from ms a(1) obtain ses' where s': "om_get (sv_sessions s') (ap_sharedSessionId a) = Some ses'" "session_le ses ses'"
    unfolding omap_le_def by blast
  from mp a(2) obtain author' where au: "om_get (sv_participants s') (ap_participantId a) = Some author'" "participant_le author author'"
    unfolding omap_le_def by blast
  have "ap_status a \<noteq> PsPending \<longrightarrow> (\<exists>pid resolver. ap_resolvedByParticipantId a = Some pid
          \<and> om_get (sv_participants s') pid = Some resolver
          \<and> pa_sharedSessionId resolver = ap_sharedSessionId a
          \<and> (pa_role resolver = RoleHost \<or> sh_mode ses' = PromptDirect))"
  proof
    assume "ap_status a \<noteq> PsPending"
    with res obtain pid r where r: "ap_resolvedByParticipantId a = Some pid" "om_get (sv_participants s) pid = Some r"
      "pa_sharedSessionId r = ap_sharedSessionId a" "pa_role r = RoleHost \<or> sh_mode ses = PromptDirect" by blast
    from mp r(2) obtain r' where r': "om_get (sv_participants s') pid = Some r'" "participant_le r r'"
      unfolding omap_le_def by blast
    show "\<exists>pid resolver. ap_resolvedByParticipantId a = Some pid
          \<and> om_get (sv_participants s') pid = Some resolver
          \<and> pa_sharedSessionId resolver = ap_sharedSessionId a
          \<and> (pa_role resolver = RoleHost \<or> sh_mode ses' = PromptDirect)"
      using r r'(1) participant_le_keeps [OF r'(2)] session_le_keeps [OF s'(2)] by simp
  qed
  moreover have "canPrompt ses' (pa_role author')"
    using a(4) session_le_keeps [OF s'(2)] participant_le_keeps [OF au(2)]
    by (simp add: canPrompt_def split: if_splits)
  moreover have "pa_sharedSessionId author' = ap_sharedSessionId a" using a(3) participant_le_keeps [OF au(2)] by simp
  ultimately show ?thesis
    unfolding approval_sound_def using s'(1) au(1) a(5) by blast
qed

definition good :: "shared_env \<Rightarrow> shared_svc \<Rightarrow> shared_svc \<Rightarrow> bool" where
  "good env s s' = (svc_ok env s \<longrightarrow> svc_ok env s' \<and> svc_le s s')"

lemma good_refl [simp]: "good env s s"
  by (simp add: good_def)

lemma good_trans: "good env s t \<Longrightarrow> good env t u \<Longrightarrow> good env s u"
  unfolding good_def using svc_le_trans by blast

lemma same_good: "same_data s s' \<Longrightarrow> good env s s'"
  by (simp add: good_def same_data_ok same_data_le)

lemma mark_left_get:
  "om_get (mark_left t ids m) pid = (case om_get m pid of None \<Rightarrow> None
     | Some p \<Rightarrow> Some (if pid \<in> set ids \<and> pa_leftAt p = None then p\<lparr>pa_leftAt := Some t\<rparr> else p))"
proof (induction ids arbitrary: m)
  case (Cons i ids)
  let ?m = "case om_get m i of None \<Rightarrow> m
        | Some p \<Rightarrow> if pa_leftAt p = None then om_set m i (p\<lparr>pa_leftAt := Some t\<rparr>) else m"
  have "mark_left t (i # ids) m = mark_left t ids ?m" by (simp add: mark_left_def)
  with Cons.IH [of ?m] show ?case by (auto split: option.splits)
qed (simp add: mark_left_def split: option.split)

text \<open>The data of a session that \<open>finalizeSession\<close> ends, in one update.\<close>

definition finalized :: "shared_session \<Rightarrow> string \<Rightarrow> shared_status \<Rightarrow> int \<Rightarrow> shared_svc \<Rightarrow> shared_svc" where
  "finalized ses sid st t s = s\<lparr>
     sv_sessions := om_set (sv_sessions s) sid (ses\<lparr>sh_status := st\<rparr>),
     sv_hostInterceptors := om_del (sv_hostInterceptors s) sid,
     sv_participants := mark_left t (members s sid) (sv_participants s)\<rparr>"

lemma finalized_good:
  assumes "om_get (sv_sessions s) sid = Some ses" and "sh_status ses = ShActive" and "st \<noteq> ShActive"
  shows "good env s (finalized ses sid st t s)"
proof -
  let ?s = "finalized ses sid st t s"
  have le: "svc_le s ?s"
    using assms by (auto simp: svc_le_def finalized_def omap_le_def mark_left_get session_le_def participant_le_def)
  {
    assume ok: "svc_ok env s"
    have "sessions_ok ?s" using ok assms by (auto simp: svc_ok_def sessions_ok_def finalized_def)
    moreover have "participants_ok ?s"
    proof -
      have mem: "members ?s sid' = members s sid'" for sid' by (simp add: members_def finalized_def)
      have pok: "participants_ok s" using ok by (simp add: svc_ok_def)
      have old: "\<exists>p'. om_get (sv_participants ?s) pid = Some p' \<and> participant_le p p'
          \<and> (pid \<in> set (members s sid) \<longrightarrow> pa_leftAt p' \<noteq> None)"
        if "om_get (sv_participants s) pid = Some p" for pid p
        using that by (auto simp: finalized_def mark_left_get participant_le_def)
      have new: "\<exists>p'. om_get (sv_participants s) pid = Some p' \<and> participant_le p' p"
        if "om_get (sv_participants ?s) pid = Some p" for pid p
        using that by (auto simp: finalized_def mark_left_get participant_le_def split: option.splits if_splits)
      show ?thesis unfolding participants_ok_def mem
      proof (intro conjI allI impI)
        fix pid p assume p: "om_get (sv_participants ?s) pid = Some p"
        from new [OF p] obtain q where q: "om_get (sv_participants s) pid = Some q" and le': "participant_le q p"
          by blast
        note k = participant_le_keeps [OF le']
        from pok q obtain x where x: "om_get (sv_sessions s) (pa_sharedSessionId q) = Some x"
            "pa_leftAt q = None \<longrightarrow> sh_status x = ShActive" "pa_id q = pid"
          unfolding participants_ok_def by blast
        from x k show "pa_id p = pid" by simp
        have mem': "pid \<in> set (members s (pa_sharedSessionId q))" using pok q unfolding participants_ok_def by blast
        have "pa_leftAt p \<noteq> None" if "pa_sharedSessionId q = sid"
          using old [OF q] mem' that p by auto
        moreover have "pa_leftAt p = None \<Longrightarrow> pa_leftAt q = None"
          using le' unfolding participant_le_def by metis
        ultimately show "\<exists>ses. om_get (sv_sessions ?s) (pa_sharedSessionId p) = Some ses
             \<and> (pa_leftAt p = None \<longrightarrow> sh_status ses = ShActive)"
          using x k by (auto simp: finalized_def)
      next
        fix sid' pid
        have "(\<exists>p. om_get (sv_participants ?s) pid = Some p \<and> pa_sharedSessionId p = sid')
          \<longleftrightarrow> (\<exists>p. om_get (sv_participants s) pid = Some p \<and> pa_sharedSessionId p = sid')"
        proof
          assume "\<exists>p. om_get (sv_participants ?s) pid = Some p \<and> pa_sharedSessionId p = sid'"
          then obtain p where p: "om_get (sv_participants ?s) pid = Some p" "pa_sharedSessionId p = sid'" by blast
          from new [OF p(1)] obtain q where "om_get (sv_participants s) pid = Some q" "participant_le q p" by blast
          with p participant_le_keeps show "\<exists>p. om_get (sv_participants s) pid = Some p \<and> pa_sharedSessionId p = sid'"
            by fastforce
        next
          assume "\<exists>p. om_get (sv_participants s) pid = Some p \<and> pa_sharedSessionId p = sid'"
          then obtain p where p: "om_get (sv_participants s) pid = Some p" "pa_sharedSessionId p = sid'" by blast
          from old [OF p(1)] obtain q where "om_get (sv_participants ?s) pid = Some q" "participant_le p q" by blast
          with p participant_le_keeps show "\<exists>p. om_get (sv_participants ?s) pid = Some p \<and> pa_sharedSessionId p = sid'"
            by fastforce
        qed
        then show "pid \<in> set (members s sid') \<longleftrightarrow> (\<exists>p. om_get (sv_participants ?s) pid = Some p \<and> pa_sharedSessionId p = sid')"
          using pok unfolding participants_ok_def by blast
      qed
    qed
    moreover have "approvals_ok ?s"
      using ok le approval_sound_mono [of s _ ?s] unfolding svc_ok_def approvals_ok_def svc_le_def
      by (auto simp: finalized_def)
    moreover have "dispatches_ok ?s"
      using ok assms by (auto simp: svc_ok_def dispatches_ok_def finalized_def dispatched_def)
    moreover have "fresh_ok env ?s"
      using ok assms by (auto simp: svc_ok_def fresh_ok_def finalized_def mark_left_get)
    ultimately have "svc_ok env ?s" by (simp add: svc_ok_def)
  }
  with le show ?thesis by (simp add: good_def)
qed

lemma same_data_read: "read_now env s = (t, s') \<Longrightarrow> same_data s s'"
  using same_read_now [of s env] by simp

lemma same_data_fields:
  "same_data s s' \<Longrightarrow> sv_sessions s' = sv_sessions s \<and> sv_participants s' = sv_participants s
     \<and> sv_participantsBySession s' = sv_participantsBySession s \<and> sv_approvals s' = sv_approvals s
     \<and> sv_hostInterceptors s' = sv_hostInterceptors s \<and> sv_inflight s' = sv_inflight s"
  by (simp add: same_data_def)

lemma finalize_finalized:
  assumes "om_get (sv_sessions s) sid = Some ses" and "sh_status ses = ShActive"
  shows "same_data (finalized ses sid st (env_now env (sv_ticks s)) s) (finalizeSession env sid st s)"
  using assms
  by (cases "om_get (sv_hostInterceptors s) sid"; cases "om_get (sv_participantsBySession s) sid")
    (simp_all add: finalizeSession_def finalized_def same_data_def read_now_def members_def mark_left_def
      dispatched_def add_effect_def emit_shared_def om_del_absent)

lemma finalize_inactive: "om_get (sv_sessions s) sid = Some ses \<Longrightarrow> sh_status ses \<noteq> ShActive \<Longrightarrow> finalizeSession env sid st s = s"
  by (simp add: finalizeSession_def)

lemma finalize_good: "st \<noteq> ShActive \<Longrightarrow> good env s (finalizeSession env sid st s)"
proof (cases "om_get (sv_sessions s) sid")
  case (Some ses)
  assume st: "st \<noteq> ShActive"
  show ?thesis
  proof (cases "sh_status ses = ShActive")
    case True
    from good_trans [OF finalized_good [OF Some True st] same_good [OF finalize_finalized [OF Some True]]]
    show ?thesis .
  qed (simp add: finalize_inactive [OF Some])
qed (simp add: finalizeSession_def)

text \<open>The loop of \<open>expireSessions\<close>.\<close>

definition expire_one :: "shared_env \<Rightarrow> int \<Rightarrow> string \<Rightarrow> shared_svc \<Rightarrow> shared_svc" where
  "expire_one env current sid s = (case om_get (sv_sessions s) sid of None \<Rightarrow> s
        | Some session \<Rightarrow>
            if sh_status session \<noteq> ShActive then s
            else (case sh_expiresAt session of None \<Rightarrow> s
              | Some e \<Rightarrow> if e \<le> current then finalizeSession env (sh_id session) ShExpired s else s))"

lemma expire_unfold:
  "expireSessions env s = fold (expire_one env (env_now env (sv_ticks s))) (om_keys (sv_sessions s)) (snd (read_now env s))"
  by (simp add: expireSessions_def expire_one_def [abs_def] read_now_def)

lemma expire_one_good: "good env s (expire_one env c sid s)"
  by (auto simp: expire_one_def finalize_good split: option.split)

lemma fold_expire_good: "good env s (fold (expire_one env c) ids s)"
  by (induction ids arbitrary: s) (auto intro: good_trans expire_one_good)

lemma expire_good: "good env s (expireSessions env s)"
  unfolding expire_unfold by (rule good_trans [OF same_good [OF same_read_now] fold_expire_good])

lemma ensure_state: "snd (ensureSessionActive env sid s) = expireSessions env s"
  by (auto simp: ensureSessionActive_def Let_def split: option.split)

lemma ensure_active:
  "ensureSessionActive env sid s = (Inr ses, s') \<longleftrightarrow>
     s' = expireSessions env s \<and> om_get (sv_sessions s') sid = Some ses \<and> sh_status ses = ShActive"
  by (auto simp: ensureSessionActive_def Let_def split: option.splits if_splits)

lemma goodI:
  assumes "svc_ok env s \<Longrightarrow> svc_le s s'" and "svc_ok env s \<Longrightarrow> sessions_ok s'" and "svc_ok env s \<Longrightarrow> participants_ok s'"
    and "svc_ok env s \<Longrightarrow> svc_le s s' \<Longrightarrow> approvals_ok s'" and "svc_ok env s \<Longrightarrow> dispatches_ok s'" and "svc_ok env s \<Longrightarrow> fresh_ok env s'"
  shows "good env s s'"
  using assms by (simp add: good_def svc_ok_def)

lemma approvals_ok_mono:
  "approvals_ok s \<Longrightarrow> svc_le s s' \<Longrightarrow> sv_approvals s' = sv_approvals s \<Longrightarrow> approvals_ok s'"
  using approval_sound_mono [of s _ s'] by (simp add: approvals_ok_def svc_le_def)

lemma goodI_frame:
  assumes "sv_approvals s' = sv_approvals s" and "svc_le s s'" and "svc_ok env s \<Longrightarrow> sessions_ok s'"
    and "svc_ok env s \<Longrightarrow> participants_ok s'" and "svc_ok env s \<Longrightarrow> dispatches_ok s'" and "svc_ok env s \<Longrightarrow> fresh_ok env s'"
  shows "good env s s'"
proof (rule goodI)
  assume "svc_ok env s"
  then have "approvals_ok s" by (simp add: svc_ok_def)
  then show "approvals_ok s'" using assms(1,2) approvals_ok_mono by blast
qed (use assms in simp_all)

lemma insert_participant_good:
  assumes "inj (env_uuid env)" and n: "pa_id p = env_uuid env n" "n < sv_uuids s"
    and fresh: "om_get (sv_participants s) (pa_id p) = None"
    and ses: "om_get (sv_sessions s) (pa_sharedSessionId p) = Some ses" "sh_status ses = ShActive"
  shows "good env s (insertParticipant p s)"
proof (rule goodI_frame)
  let ?s = "insertParticipant p s"
  show "sv_approvals ?s = sv_approvals s" by (simp add: insertParticipant_def)
  show "svc_le s ?s"
    using fresh by (simp add: svc_le_def insertParticipant_def omap_le_def)
  assume ok: "svc_ok env s"
  show "sessions_ok ?s" using ok by (simp add: svc_ok_def sessions_ok_def insertParticipant_def)
  show "dispatches_ok ?s" using ok by (simp add: svc_ok_def dispatches_ok_def insertParticipant_def dispatched_def)
  have mem: "set (members ?s sid) = set (members s sid) \<union> (if sid = pa_sharedSessionId p then {pa_id p} else {})" for sid
    by (auto simp: members_def insertParticipant_def set_add_def)
  show "participants_ok ?s"
    using ok ses fresh unfolding svc_ok_def participants_ok_def mem
    by (auto simp: insertParticipant_def split: if_splits)
  have diff: "env_uuid env m \<noteq> pa_id p" if "m \<ge> sv_uuids s" for m
    using assms(1) n that by (auto dest: injD)
  have "om_get (sv_sessions s) (env_uuid env m) = None" if "m \<ge> sv_uuids s" for m
    using ok that by (simp add: svc_ok_def fresh_ok_def)
  with ses have "env_uuid env m \<noteq> pa_sharedSessionId p" if "m \<ge> sv_uuids s" for m
    using that by force
  with diff show "fresh_ok env ?s" using ok by (auto simp: svc_ok_def fresh_ok_def insertParticipant_def)
qed

definition opened :: "shared_session \<Rightarrow> shared_svc \<Rightarrow> shared_svc" where
  "opened ses s = s\<lparr>sv_sessions := om_set (sv_sessions s) (sh_id ses) ses,
     sv_hostInterceptors := om_set (sv_hostInterceptors s) (sh_id ses) (sh_hostSessionId ses)\<rparr>"

lemma opened_good:
  assumes "inj (env_uuid env)" and n: "sh_id ses = env_uuid env n" "n < sv_uuids s"
    and fresh: "om_get (sv_sessions s) (sh_id ses) = None" and act: "sh_status ses = ShActive"
  shows "good env s (opened ses s)"
proof (rule goodI_frame)
  let ?s = "opened ses s"
  show "sv_approvals ?s = sv_approvals s" by (simp add: opened_def)
  show "svc_le s ?s" using fresh by (simp add: svc_le_def opened_def omap_le_def)
  assume ok: "svc_ok env s"
  show "sessions_ok ?s" using ok act by (simp add: svc_ok_def sessions_ok_def opened_def)
  have keep: "\<exists>x. om_get (sv_sessions ?s) k = Some x \<and> P x" if "\<exists>x. om_get (sv_sessions s) k = Some x \<and> P x" for k P
    using that fresh by (auto simp: opened_def)
  show "dispatches_ok ?s"
    using ok fresh unfolding svc_ok_def dispatches_ok_def by (fastforce simp: opened_def dispatched_def)
  have mem: "members ?s sid = members s sid" for sid by (simp add: members_def opened_def)
  have "sv_participants ?s = sv_participants s" by (simp add: opened_def)
  then show "participants_ok ?s" using ok keep unfolding svc_ok_def participants_ok_def mem by auto
  have "env_uuid env m \<noteq> sh_id ses" if "m \<ge> sv_uuids s" for m
    using assms(1) n that by (auto dest: injD)
  then show "fresh_ok env ?s" using ok by (auto simp: svc_ok_def fresh_ok_def opened_def)
qed

lemma set_left_good:
  assumes "om_get (sv_participants s) pid = Some p" and "pa_leftAt p = None" and "pa_id p = pid"
  shows "good env s (s\<lparr>sv_participants := om_set (sv_participants s) (pa_id p) (p\<lparr>pa_leftAt := Some t\<rparr>)\<rparr>)"
proof (rule goodI_frame)
  let ?s = "s\<lparr>sv_participants := om_set (sv_participants s) (pa_id p) (p\<lparr>pa_leftAt := Some t\<rparr>)\<rparr>"
  show "sv_approvals ?s = sv_approvals s" by simp
  show "svc_le s ?s" using assms by (simp add: svc_le_def omap_le_def participant_le_def)
  assume ok: "svc_ok env s"
  show "sessions_ok ?s" using ok by (simp add: svc_ok_def sessions_ok_def)
  show "dispatches_ok ?s" using ok by (simp add: svc_ok_def dispatches_ok_def dispatched_def)
  have mem: "members ?s sid = members s sid" for sid by (simp add: members_def)
  have pok: "participants_ok s" using ok by (simp add: svc_ok_def)
  then obtain x where "om_get (sv_sessions s) (pa_sharedSessionId p) = Some x"
    using assms unfolding participants_ok_def by blast
  then show "participants_ok ?s" using pok assms unfolding participants_ok_def mem by auto
  show "fresh_ok env ?s" using ok assms by (auto simp: svc_ok_def fresh_ok_def)
qed

text \<open>Storing an approval that is new, or one that was pending.\<close>

definition stored :: "prompt_approval \<Rightarrow> (string, string list) omap \<Rightarrow> shared_svc \<Rightarrow> shared_svc" where
  "stored a idx s = s\<lparr>sv_approvals := om_set (sv_approvals s) (ap_id a) a, sv_approvalsBySession := idx\<rparr>"

lemma not_dispatched:
  assumes "svc_ok env s" and "\<And>a. om_get (sv_approvals s) aid = Some a \<Longrightarrow> ap_status a = PsPending"
  shows "aid \<notin> di_approvalId ` set (dispatched s)" and "aid \<notin> snd ` set (sv_inflight s)"
  using assms unfolding svc_ok_def dispatches_ok_def by force+

lemma stored_good:
  assumes "approval_sound s a" and old: "\<And>x. om_get (sv_approvals s) (ap_id a) = Some x \<Longrightarrow> ap_status x = PsPending \<and> approval_le x a"
    and new: "\<forall>m\<ge>sv_uuids s. env_uuid env m \<noteq> ap_id a"
  shows "good env s (stored a idx s)"
proof (rule goodI)
  let ?s = "stored a idx s"
  show le: "svc_le s ?s" using old by (simp add: svc_le_def stored_def omap_le_refl omap_le_set)
  assume ok: "svc_ok env s"
  show "sessions_ok ?s" using ok by (simp add: svc_ok_def sessions_ok_def stored_def)
  show "participants_ok ?s" using ok by (simp add: svc_ok_def participants_ok_def stored_def members_def)
  show "fresh_ok env ?s" using ok new by (auto simp: svc_ok_def fresh_ok_def stored_def)
  have "ap_id a \<notin> di_approvalId ` set (dispatched s)" "ap_id a \<notin> snd ` set (sv_inflight s)"
    using not_dispatched [OF ok] old by blast+
  moreover have "sv_inflight ?s = sv_inflight s" "dispatched ?s = dispatched s" "sv_sessions ?s = sv_sessions s"
    by (simp_all add: stored_def dispatched_def)
  moreover have "om_get (sv_approvals ?s) k = om_get (sv_approvals s) k" if "k \<noteq> ap_id a" for k
    using that by (simp add: stored_def)
  ultimately show "dispatches_ok ?s"
    using ok unfolding svc_ok_def dispatches_ok_def by (metis (no_types, lifting) image_eqI)
next
  assume ok: "svc_ok env s" and le: "svc_le s (stored a idx s)"
  have "approval_sound (stored a idx s) x" if "approval_sound s x" for x
    using that approval_sound_mono [OF that] le unfolding svc_le_def by blast
  with assms(1) ok show "approvals_ok (stored a idx s)"
    by (auto simp: svc_ok_def approvals_ok_def stored_def)
qed

definition queued :: "dispatch_input \<Rightarrow> shared_svc \<Rightarrow> shared_svc" where
  "queued d s = (add_effect (DispatchPrompt d) s)
     \<lparr>sv_inflight := sv_inflight s @ [(di_sharedSessionId d, di_approvalId d)]\<rparr>"

lemma dispatched_queued: "dispatched (queued d s) = dispatched s @ [d]"
  by (simp add: queued_def add_effect_def dispatched_def)

lemma queued_good:
  assumes a: "om_get (sv_approvals s) (di_approvalId d) = Some a" "ap_status a = PsApproved"
      "ap_sharedSessionId a = di_sharedSessionId d" "ap_participantId a = di_participantId d" "ap_prompt a = di_prompt d"
    and ses: "om_get (sv_sessions s) (di_sharedSessionId d) = Some ses" "sh_hostSessionId ses = di_hostSessionId d"
    and nd: "di_approvalId d \<notin> di_approvalId ` set (dispatched s)" "di_approvalId d \<notin> snd ` set (sv_inflight s)"
  shows "good env s (queued d s)"
proof (rule goodI_frame)
  let ?s = "queued d s"
  show "sv_approvals ?s = sv_approvals s" by (simp add: queued_def add_effect_def)
  have same: "sv_sessions ?s = sv_sessions s" "sv_participants ?s = sv_participants s" "sv_approvals ?s = sv_approvals s"
    "sv_hostInterceptors ?s = sv_hostInterceptors s" "sv_participantsBySession ?s = sv_participantsBySession s"
    "sv_uuids ?s = sv_uuids s" "sv_inflight ?s = sv_inflight s @ [(di_sharedSessionId d, di_approvalId d)]"
    by (simp_all add: queued_def add_effect_def)
  show "svc_le s ?s" by (simp add: svc_le_def same omap_le_refl) (simp add: queued_def add_effect_def)
  assume ok: "svc_ok env s"
  show "sessions_ok ?s" using ok by (simp add: svc_ok_def sessions_ok_def same)
  show "participants_ok ?s" using ok by (simp add: svc_ok_def participants_ok_def same members_def)
  show "fresh_ok env ?s" using ok by (simp add: svc_ok_def fresh_ok_def same)
  have dok: "dispatches_ok s" using ok by (simp add: svc_ok_def)
  have "distinct (map di_approvalId (dispatched ?s))" using dok nd by (simp add: dispatches_ok_def dispatched_queued)
  moreover have "distinct (sv_inflight ?s)" using dok nd by (auto simp: dispatches_ok_def same image_iff)
  ultimately show "dispatches_ok ?s"
    using dok a ses unfolding dispatches_ok_def same dispatched_queued by simp
qed

text \<open>The dispatcher's answer takes a job out of flight, and may turn its approval to failed.\<close>

lemma job_removed_good: "good env s (s\<lparr>sv_inflight := remove1 job (sv_inflight s)\<rparr>)"
proof (rule goodI_frame)
  let ?s = "s\<lparr>sv_inflight := remove1 job (sv_inflight s)\<rparr>"
  show "sv_approvals ?s = sv_approvals s" by simp
  show "svc_le s ?s" by (simp add: svc_le_def omap_le_refl)
  assume ok: "svc_ok env s"
  show "sessions_ok ?s" using ok by (simp add: svc_ok_def sessions_ok_def)
  show "participants_ok ?s" using ok by (simp add: svc_ok_def participants_ok_def members_def)
  show "fresh_ok env ?s" using ok by (simp add: svc_ok_def fresh_ok_def)
  have "dispatched ?s = dispatched s" by (simp add: dispatched_def)
  then show "dispatches_ok ?s"
    using ok set_remove1_subset [of job "sv_inflight s"] unfolding svc_ok_def dispatches_ok_def by auto
qed

lemma set_failed_good:
  assumes a: "om_get (sv_approvals s) aid = Some a" "ap_status a = PsApproved" and no: "aid \<notin> snd ` set (sv_inflight s)"
  shows "good env s (s\<lparr>sv_approvals := om_set (sv_approvals s) aid (a\<lparr>ap_status := PsFailed, ap_errorMessage := Some m\<rparr>)\<rparr>)"
proof (rule goodI)
  let ?a = "a\<lparr>ap_status := PsFailed, ap_errorMessage := Some m\<rparr>"
  let ?s = "s\<lparr>sv_approvals := om_set (sv_approvals s) aid ?a\<rparr>"
  show "svc_le s ?s" using a by (simp add: svc_le_def omap_le_def approval_le_def)
  assume ok: "svc_ok env s"
  show "sessions_ok ?s" using ok by (simp add: svc_ok_def sessions_ok_def)
  show "participants_ok ?s" using ok by (simp add: svc_ok_def participants_ok_def members_def)
  show "fresh_ok env ?s" using ok a by (auto simp: svc_ok_def fresh_ok_def)
  have "dispatched ?s = dispatched s" by (simp add: dispatched_def)
  then show "dispatches_ok ?s"
    using ok a no unfolding svc_ok_def dispatches_ok_def by (auto simp: image_iff)
next
  assume ok: "svc_ok env s"
  let ?a = "a\<lparr>ap_status := PsFailed, ap_errorMessage := Some m\<rparr>"
  have "approval_sound s a" "ap_id a = aid" using ok a by (auto simp: svc_ok_def approvals_ok_def)
  then have "approval_sound s ?a" using a(2) by (simp add: approval_sound_def)
  with ok \<open>ap_id a = aid\<close> show "approvals_ok (s\<lparr>sv_approvals := om_set (sv_approvals s) aid ?a\<rparr>)"
    by (auto simp: svc_ok_def approvals_ok_def approval_sound_def)
qed

section \<open>Every operation keeps the invariant\<close>

lemma goodD: "good env s t \<Longrightarrow> svc_ok env s \<Longrightarrow> svc_ok env t"
  by (simp add: good_def)

lemma goodD_le: "good env s t \<Longrightarrow> svc_ok env s \<Longrightarrow> svc_le s t"
  by (simp add: good_def)

lemma good_by: "(svc_ok env s \<Longrightarrow> good env s t) \<Longrightarrow> good env s t"
  by (simp add: good_def)

lemma same_emit' [simp]: "same_data s t \<Longrightarrow> same_data s (emit_shared env ty sid pl t)"
  using same_emit same_data_trans by blast

lemma same_chain [simp]:
  "same_data s t \<Longrightarrow> same_data s (snd (read_now env t))"
  "same_data s t \<Longrightarrow> same_data s (snd (uuidv4 env t))"
  "same_data s t \<Longrightarrow> same_data s (snd (generateToken env t))"
  "same_data s t \<Longrightarrow> same_data s (snd (hub_getSession env h t))"
  "same_data s t \<Longrightarrow> same_data s (appendMessage m t)"
  using same_data_trans same_read_now same_uuid same_token same_hub same_message by blast+

lemma authenticate_state: "snd (authenticateParticipant env inp s) = expireSessions env s"
  using ensure_state [of env "ai_sharedSessionId inp" s]
  by (auto simp: authenticateParticipant_def split: sum.split prod.split option.split)

lemma authenticate_iff:
  "authenticateParticipant env inp s = (Inr p, s') \<longleftrightarrow> s' = expireSessions env s
     \<and> (\<exists>ses. om_get (sv_sessions s') (ai_sharedSessionId inp) = Some ses \<and> sh_status ses = ShActive)
     \<and> om_get (sv_participants s') (ai_participantId inp) = Some p
     \<and> pa_sharedSessionId p = ai_sharedSessionId inp \<and> pa_accessToken p = ai_participantToken inp
     \<and> pa_leftAt p = None"
proof (cases "ensureSessionActive env (ai_sharedSessionId inp) s")
  case (Pair r t)
  then have t: "t = expireSessions env s" using ensure_state [of env "ai_sharedSessionId inp" s] by simp
  show ?thesis
  proof (cases r)
    case (Inl e)
    have "\<not> (\<exists>ses. om_get (sv_sessions t) (ai_sharedSessionId inp) = Some ses \<and> sh_status ses = ShActive)"
      using Pair Inl t ensure_active [of env "ai_sharedSessionId inp" s] by auto
    with Pair Inl t show ?thesis by (auto simp: authenticateParticipant_def)
  next
    case (Inr ses)
    then have "om_get (sv_sessions t) (ai_sharedSessionId inp) = Some ses" "sh_status ses = ShActive"
      using Pair ensure_active [of env "ai_sharedSessionId inp" s ses t] by auto
    with Pair Inr t show ?thesis by (auto simp: authenticateParticipant_def split: option.splits)
  qed
qed

text \<open>Two guards in a row: the participant is authenticated, then the session is looked up again.\<close>

lemma two_guards:
  assumes ok: "svc_ok env s" and a: "authenticateParticipant env inp s = (Inr p, s1)"
    and e: "ensureSessionActive env (ai_sharedSessionId inp) s1 = (Inr ses, s2)"
  shows "svc_ok env s2" and "svc_le s s2" and "om_get (sv_sessions s2) (ai_sharedSessionId inp) = Some ses"
    and "sh_status ses = ShActive" and "sh_id ses = ai_sharedSessionId inp"
    and "\<exists>p'. om_get (sv_participants s2) (pa_id p) = Some p' \<and> participant_le p p'"
    and "pa_sharedSessionId p = ai_sharedSessionId inp"
proof -
  from a have s1: "s1 = expireSessions env s" and p: "om_get (sv_participants s1) (ai_participantId inp) = Some p"
    "pa_sharedSessionId p = ai_sharedSessionId inp" by (auto simp: authenticate_iff)
  from e have s2: "s2 = expireSessions env s1" and ses: "om_get (sv_sessions s2) (ai_sharedSessionId inp) = Some ses"
    "sh_status ses = ShActive" by (auto simp: ensure_active)
  have ok1: "svc_ok env s1" unfolding s1 by (rule goodD [OF expire_good ok])
  show ok2: "svc_ok env s2" unfolding s2 by (rule goodD [OF expire_good ok1])
  have "good env s s2" unfolding s1 s2 by (rule good_trans [OF expire_good expire_good])
  then show "svc_le s s2" using ok by (rule goodD_le)
  show "om_get (sv_sessions s2) (ai_sharedSessionId inp) = Some ses" "sh_status ses = ShActive"
    "pa_sharedSessionId p = ai_sharedSessionId inp" by fact+
  show "sh_id ses = ai_sharedSessionId inp" using ok2 ses by (auto simp: svc_ok_def sessions_ok_def)
  have "svc_le s1 s2" unfolding s2 by (rule goodD_le [OF expire_good ok1])
  moreover have "pa_id p = ai_participantId inp" using ok1 p by (auto simp: svc_ok_def participants_ok_def)
  ultimately show "\<exists>p'. om_get (sv_participants s2) (pa_id p) = Some p' \<and> participant_le p p'"
    using p(1) unfolding svc_le_def omap_le_def by auto
qed

lemma createApproval_eq:
  "createApproval env sid pid pr st ra rb s =
    (let a = \<lparr>ap_id = env_uuid env (sv_uuids s), ap_sharedSessionId = sid, ap_participantId = pid, ap_prompt = pr,
            ap_status = st, ap_createdAt = env_now env (sv_ticks s), ap_resolvedAt = ra,
            ap_resolvedByParticipantId = rb, ap_errorMessage = None\<rparr>;
         s2 = snd (read_now env (snd (uuidv4 env s)))
     in (a, stored a (om_set (sv_approvalsBySession s2) sid (set_add (ap_id a) (orDefault (om_get (sv_approvalsBySession s2) sid) []))) s2))"
  by (simp add: createApproval_def stored_def read_now_def uuidv4_def)

lemma createApproval_good:
  assumes inj: "inj (env_uuid env)" and ok: "svc_ok env s" and c: "createApproval env sid pid pr st ra rb s = (a, t)"
    and sound: "\<And>a. ap_sharedSessionId a = sid \<Longrightarrow> ap_participantId a = pid \<Longrightarrow> ap_prompt a = pr \<Longrightarrow> ap_status a = st
      \<Longrightarrow> ap_resolvedByParticipantId a = rb \<Longrightarrow> approval_sound s a"
  shows "good env s t" and "om_get (sv_approvals s) (ap_id a) = None" and "om_get (sv_approvals t) (ap_id a) = Some a"
    and "dispatched t = dispatched s" and "sv_inflight t = sv_inflight s" and "sv_sessions t = sv_sessions s"
    and "ap_sharedSessionId a = sid" and "ap_participantId a = pid" and "ap_prompt a = pr" and "ap_status a = st"
proof -
  let ?s2 = "snd (read_now env (snd (uuidv4 env s)))"
  from c obtain idx where a: "a = \<lparr>ap_id = env_uuid env (sv_uuids s), ap_sharedSessionId = sid, ap_participantId = pid, ap_prompt = pr,
            ap_status = st, ap_createdAt = env_now env (sv_ticks s), ap_resolvedAt = ra,
            ap_resolvedByParticipantId = rb, ap_errorMessage = None\<rparr>" and t: "t = stored a idx ?s2"
    by (auto simp: createApproval_eq Let_def)
  have same: "same_data s ?s2" by simp
  show none: "om_get (sv_approvals s) (ap_id a) = None" using ok by (simp add: a svc_ok_def fresh_ok_def)
  have "approval_sound s a" by (rule sound) (simp_all add: a)
  then have "approval_sound ?s2 a" by (simp add: approval_sound_def read_now_def uuidv4_def)
  then have "good env ?s2 t" unfolding t
  proof (rule stored_good)
    show "\<forall>m\<ge>sv_uuids ?s2. env_uuid env m \<noteq> ap_id a"
      using inj by (auto simp: a read_now_def uuidv4_def dest: injD)
  qed (use none in \<open>simp add: read_now_def uuidv4_def\<close>)+
  with same show "good env s t" using same_good good_trans by blast
  show "om_get (sv_approvals t) (ap_id a) = Some a" "dispatched t = dispatched s" "sv_inflight t = sv_inflight s" "sv_sessions t = sv_sessions s"
    by (simp_all add: t stored_def read_now_def uuidv4_def dispatched_def)
  show "ap_sharedSessionId a = sid" "ap_participantId a = pid" "ap_prompt a = pr" "ap_status a = st" by (simp_all add: a)
qed

lemma dispatch_eq:
  "dispatchPromptWithLifecycle env ses a s = queued
     \<lparr>di_sharedSessionId = sh_id ses, di_hostSessionId = sh_hostSessionId ses, di_participantId = ap_participantId a,
      di_prompt = ap_prompt a, di_approvalId = ap_id a\<rparr>
     (emit_shared env PromptDispatchStarted (sh_id ses) (PayloadApproval (serializeApprovalPayload env a)) s)"
  by (simp add: dispatchPromptWithLifecycle_def queued_def add_effect_def)

lemma dispatch_good:
  assumes "om_get (sv_approvals s) (ap_id a) = Some a" "ap_status a = PsApproved" "ap_sharedSessionId a = sh_id ses"
    and "om_get (sv_sessions s) (sh_id ses) = Some ses"
    and "ap_id a \<notin> di_approvalId ` set (dispatched s)" "ap_id a \<notin> snd ` set (sv_inflight s)"
  shows "good env s (dispatchPromptWithLifecycle env ses a s)"
proof -
  let ?t = "emit_shared env PromptDispatchStarted (sh_id ses) (PayloadApproval (serializeApprovalPayload env a)) s"
  have same: "same_data s ?t" by simp
  have "good env ?t (dispatchPromptWithLifecycle env ses a s)"
    unfolding dispatch_eq using assms same_data_fields [OF same] same
    by (intro queued_good) (simp_all add: same_data_def)
  with same show ?thesis using same_good good_trans by blast
qed

lemma sendPrompt_good:
  assumes inj: "inj (env_uuid env)"
  shows "good env s (snd (sendPrompt env inp txt s))"
proof (rule good_by)
  assume ok: "svc_ok env s"
  obtain r1 s1 where a: "authenticateParticipant env inp s = (r1, s1)" by fastforce
  have g1: "good env s s1" using authenticate_state [of env inp s] a expire_good by simp
  obtain r2 s2 where e: "ensureSessionActive env (ai_sharedSessionId inp) s1 = (r2, s2)" by fastforce
  have g2: "good env s s2" using ensure_state [of env "ai_sharedSessionId inp" s1] e good_trans [OF g1 expire_good] by simp
  show ?thesis
  proof (cases r1)
    case (Inl e1)
    with a g1 show ?thesis by (simp add: sendPrompt_def)
  next
    case r1: (Inr p)
    show ?thesis
    proof (cases r2)
      case (Inl e2)
      with a r1 e g2 show ?thesis by (simp add: sendPrompt_def)
    next
      case r2: (Inr ses)
      note G = two_guards [OF ok a [unfolded r1] e [unfolded r2]]
      show ?thesis
      proof (cases "canPrompt ses (pa_role p) \<and> trim txt \<noteq> []")
        case False
        with a r1 e r2 g2 show ?thesis by (auto simp: sendPrompt_def)
      next
        case can: True
        from G(6) obtain p' where p': "om_get (sv_participants s2) (pa_id p) = Some p'" "participant_le p p'" by blast
        note keeps = participant_le_keeps [OF p'(2)]
        have sound: "approval_sound s2 x" if "ap_sharedSessionId x = sh_id ses" "ap_participantId x = pa_id p"
            "ap_prompt x = trim txt" "ap_status x \<noteq> PsPending \<Longrightarrow> ap_resolvedByParticipantId x = Some (pa_id p)
               \<and> (pa_role p = RoleHost \<or> sh_mode ses = PromptDirect)" for x
          unfolding approval_sound_def using that G p' keeps can by auto
        show ?thesis
        proof (cases "sh_mode ses = PromptWithApproval \<and> pa_role p \<noteq> RoleHost")
          case True
          obtain x t where c: "createApproval env (sh_id ses) (pa_id p) (trim txt) PsPending None None s2 = (x, t)" by fastforce
          have "good env s2 t" by (rule createApproval_good(1) [OF inj G(1) c]) (rule sound, auto)
          moreover have "same_data t (snd (sendPrompt env inp txt s))"
            using True can a r1 e r2 c by (simp add: sendPrompt_def Let_def case_prod_beta)
          ultimately show ?thesis using g2 same_good good_trans by blast
        next
          case False
          let ?s3 = "snd (read_now env s2)"
          obtain x t where c: "createApproval env (sh_id ses) (pa_id p) (trim txt) PsApproved
              (Some (fst (read_now env s2))) (Some (pa_id p)) ?s3 = (x, t)" by fastforce
          have who: "pa_role p = RoleHost \<or> sh_mode ses = PromptDirect"
            using False can by (auto simp: canPrompt_def split: if_splits)
          have ok3: "svc_ok env ?s3" by (rule same_data_ok [OF same_read_now G(1)])
          have snd3: "approval_sound ?s3 y" if "approval_sound s2 y" for y
            using that by (simp add: approval_sound_def read_now_def)
          note C = createApproval_good [OF inj ok3 c]
          have gt: "good env ?s3 t" by (rule C(1)) (rule snd3, rule sound, use who in auto)
          have C': "om_get (sv_approvals ?s3) (ap_id x) = None" "om_get (sv_approvals t) (ap_id x) = Some x"
            "dispatched t = dispatched ?s3" "sv_inflight t = sv_inflight ?s3" "sv_sessions t = sv_sessions ?s3"
            "ap_sharedSessionId x = sh_id ses" "ap_status x = PsApproved"
            by (rule C; rule snd3, rule sound, use who in auto)+
          let ?u = "emit_shared env PromptApproved (sh_id ses)
             (PayloadApprovalBy (serializeApprovalPayload env x) (serializeParticipantPayload env p)) t"
          have nd: "ap_id x \<notin> di_approvalId ` set (dispatched ?s3)" "ap_id x \<notin> snd ` set (sv_inflight ?s3)"
            using not_dispatched [OF ok3, of "ap_id x"] C'(1) by auto
          have "same_data t ?u" by simp
          then have "good env ?u (dispatchPromptWithLifecycle env ses x ?u)"
            using C' nd G(3,5) same_data_fields [of t ?u] by (intro dispatch_good) (simp_all add: same_data_def read_now_def)
          moreover have "snd (sendPrompt env inp txt s) = dispatchPromptWithLifecycle env ses x ?u"
            using False can a r1 e r2 c
            by (cases "pa_role p = RoleHost") (simp_all add: sendPrompt_def Let_def case_prod_beta)
          ultimately show ?thesis using g2 same_good [OF same_read_now] gt same_good [OF \<open>same_data t ?u\<close>] good_trans by metis
        qed
      qed
    qed
  qed
qed

lemma ensure_good: "good env s (snd (ensureSessionActive env sid s))"
  by (simp add: ensure_state expire_good)

lemma authenticate_good: "good env s (snd (authenticateParticipant env inp s))"
  by (simp add: authenticate_state expire_good)

lemma sendMessage_good: "good env s (snd (sendMessage env inp txt s))"
proof -
  obtain r1 s1 where a: "authenticateParticipant env inp s = (r1, s1)" by fastforce
  obtain r2 s2 where e: "ensureSessionActive env (ai_sharedSessionId inp) s1 = (r2, s2)" by fastforce
  have g1: "good env s s1" using authenticate_good [of env s inp] a by simp
  have g2: "good env s s2" using ensure_good [of env s1 "ai_sharedSessionId inp"] e good_trans [OF g1] by simp
  have "snd (sendMessage env inp txt s) = s1 \<or> same_data s2 (snd (sendMessage env inp txt s))"
    by (cases r1; cases r2) (simp_all add: sendMessage_def a e Let_def case_prod_beta)
  then show ?thesis
  proof
    assume "same_data s2 (snd (sendMessage env inp txt s))"
    from good_trans [OF g2 same_good [OF this]] show ?thesis .
  qed (use g1 in simp)
qed

lemma respondToApproval_good:
  assumes inj: "inj (env_uuid env)"
  shows "good env s (snd (respondToApproval env inp aid action s))"
proof (rule good_by)
  assume ok: "svc_ok env s"
  obtain r1 s1 where a: "authenticateParticipant env inp s = (r1, s1)" by fastforce
  obtain r2 s2 where e: "ensureSessionActive env (ai_sharedSessionId inp) s1 = (r2, s2)" by fastforce
  have g1: "good env s s1" using authenticate_good [of env s inp] a by simp
  have g2: "good env s s2" using ensure_good [of env s1 "ai_sharedSessionId inp"] e good_trans [OF g1] by simp
  let ?res = "snd (respondToApproval env inp aid action s)"
  consider "?res = s1" | "?res = s2"
    | p ses x where "r1 = Inr p" "r2 = Inr ses" "pa_role p = RoleHost" "om_get (sv_approvals s2) aid = Some x"
        "ap_sharedSessionId x = sh_id ses" "ap_status x = PsPending"
  proof (cases r1)
    case r1: (Inr p)
    show ?thesis
    proof (cases "pa_role p = RoleHost")
      case host: True
      show ?thesis
      proof (cases r2)
        case r2: (Inr ses)
        show ?thesis
        proof (cases "om_get (sv_approvals s2) aid")
          case (Some x)
          then show ?thesis
            using that(2) that(3) [OF r1 r2 host Some] r1 r2 host a e
            by (cases "ap_sharedSessionId x = sh_id ses"; cases "ap_status x = PsPending")
              (simp_all add: respondToApproval_def)
        qed (use that(2) r1 r2 host a e in \<open>simp add: respondToApproval_def\<close>)
      qed (use that(2) r1 host a e in \<open>simp add: respondToApproval_def\<close>)
    qed (use that(1) r1 a in \<open>simp add: respondToApproval_def\<close>)
  qed (use that(1) a in \<open>simp add: respondToApproval_def\<close>)
  then show ?thesis
  proof cases
    case 3
    note G = two_guards [OF ok a [unfolded 3(1)] e [unfolded 3(2)]]
    from G(6) obtain p' where p': "om_get (sv_participants s2) (pa_id p) = Some p'" "participant_le p p'" by blast
    have ap: "ap_id x = aid" "approval_sound s2 x" using G(1) 3(4) by (auto simp: svc_ok_def approvals_ok_def)
    let ?s3 = "snd (read_now env s2)"
    define y where "y = x\<lparr>ap_resolvedAt := Some (fst (read_now env s2)), ap_resolvedByParticipantId := Some (pa_id p),
        ap_status := (if action = ActReject then PsRejected else PsApproved)\<rparr>"
    have y: "ap_id y = aid" "ap_sharedSessionId y = sh_id ses" "ap_prompt y = ap_prompt x" "ap_participantId y = ap_participantId x"
      using ap 3(5) by (simp_all add: y_def)
    have ok3: "svc_ok env ?s3" by (rule same_data_ok [OF same_read_now G(1)])
    have f3: "sv_approvals ?s3 = sv_approvals s2" "sv_sessions ?s3 = sv_sessions s2" "sv_participants ?s3 = sv_participants s2"
      "sv_approvalsBySession ?s3 = sv_approvalsBySession s2" "sv_uuids ?s3 = sv_uuids s2"
      by (simp_all add: read_now_def)
    have sound: "approval_sound ?s3 y"
      using ap(2) p' participant_le_keeps [OF p'(2)] G(3,5,7) 3(3,5) y by (auto simp: approval_sound_def f3 y_def)
    let ?t = "stored y (sv_approvalsBySession s2) ?s3"
    have new: "\<forall>m\<ge>sv_uuids ?s3. env_uuid env m \<noteq> ap_id y"
      using G(1) 3(4) y f3 by (auto simp: svc_ok_def fresh_ok_def)
    have gt: "good env ?s3 ?t"
      using sound new 3(4,6) y f3 by (intro stored_good) (auto simp: approval_le_def y_def)
    have nd: "aid \<notin> di_approvalId ` set (dispatched ?s3)" "aid \<notin> snd ` set (sv_inflight ?s3)"
      using not_dispatched [OF ok3, of aid] 3(4,6) f3 by auto
    let ?u = "emit_shared env (if action = ActReject then PromptRejected else PromptApproved) (sh_id ses)
        (PayloadApprovalBy (serializeApprovalPayload env y) (serializeParticipantPayload env p)) ?t"
    have tu: "same_data ?t ?u" by simp
    have gu: "good env s ?u"
      using good_trans [OF good_trans [OF good_trans [OF g2 same_good [OF same_read_now]] gt] same_good [OF tu]] .
    have s3eq: "?s3\<lparr>sv_approvals := om_set (sv_approvals ?s3) aid y\<rparr> = ?t"
      by (simp add: stored_def y f3 flip: f3(4))
    have res: "?res = (if action = ActReject then ?u else dispatchPromptWithLifecycle env ses y ?u)"
      using 3 a e s3eq unfolding y_def respondToApproval_def
      by (cases action) (simp_all add: Let_def case_prod_beta)
    show ?thesis
    proof (cases "action = ActReject")
      case False
      have "good env ?u (dispatchPromptWithLifecycle env ses y ?u)"
        using nd G(3,5) y False same_data_fields [OF tu] tu
        by (intro dispatch_good) (simp_all add: same_data_def stored_def f3 y_def dispatched_def)
      from good_trans [OF gu this] res False show ?thesis by simp
    qed (use res gu in simp)
  qed (use g1 g2 in simp_all)
qed

lemma createSession_good:
  assumes inj: "inj (env_uuid env)"
  shows "good env s (snd (createSession env inp s))"
proof (rule good_by)
  assume "svc_ok env s"
  then have ok0: "svc_ok env (expireSessions env s)" by (rule goodD [OF expire_good])
  let ?s1 = "snd (hub_getSession env (ci_hostSessionId inp) (expireSessions env s))"
  have g1: "good env s ?s1" by (rule good_trans [OF expire_good same_good [OF same_hub]])
  have ok1: "svc_ok env ?s1" by (rule same_data_ok [OF same_hub ok0])
  show ?thesis
  proof (cases "fst (hub_getSession env (ci_hostSessionId inp) (expireSessions env s))")
    case None
    then have "snd (createSession env inp s) = ?s1"
      by (simp add: createSession_def case_prod_beta)
    with g1 show ?thesis by simp
  next
    case (Some ws)
    let ?k = "sv_uuids ?s1"
    define ses where "ses = \<lparr>sh_id = env_uuid env ?k, sh_workspaceId = orDefault (ci_workspaceId inp) ws,
       sh_hostUserId = trim (ci_hostUserId inp), sh_hostSessionId = ci_hostSessionId inp,
       sh_mode = orDefault (ci_mode inp) PromptWithApproval,
       sh_approvalRequired = (orDefault (ci_mode inp) PromptWithApproval = PromptWithApproval),
       sh_inviteToken = env_token env (sv_tokens ?s1), sh_createdAt = env_now env (sv_ticks ?s1),
       sh_expiresAt = ci_expiresAt inp, sh_status = ShActive\<rparr>"
    define host where "host = \<lparr>pa_id = env_uuid env (Suc ?k), pa_sharedSessionId = env_uuid env ?k,
       pa_userId = trim (ci_hostUserId inp), pa_displayName = ci_hostDisplayName inp, pa_role = RoleHost,
       pa_accessToken = env_token env (Suc (sv_tokens ?s1)), pa_joinedAt = env_now env (Suc (sv_ticks ?s1)),
       pa_leftAt = None\<rparr>"
    let ?s2 = "?s1\<lparr>sv_uuids := Suc (Suc ?k)\<rparr>"
    let ?s3 = "opened ses ?s2"
    let ?s4 = "insertParticipant host ?s3"
    have same2: "same_data ?s1 ?s2" by (simp add: same_data_def dispatched_def)
    have none: "om_get (sv_sessions ?s1) (env_uuid env ?k) = None" "om_get (sv_participants ?s1) (env_uuid env (Suc ?k)) = None"
      using ok1 by (auto simp: svc_ok_def fresh_ok_def)
    have g3: "good env ?s2 ?s3"
      using inj none by (intro opened_good [of env ses ?k]) (simp_all add: ses_def)
    have g4: "good env ?s3 ?s4"
      using inj none
      by (intro insert_participant_good [of env host "Suc ?k" ?s3 ses]) (simp_all add: host_def opened_def, simp_all add: ses_def)
    have "same_data ?s4 (snd (createSession env inp s))"
      using Some
      by (simp add: createSession_def case_prod_beta Let_def same_data_def uuidv4_def generateToken_def read_now_def
          registerHostSessionForwarder_def insertParticipant_def add_effect_def emit_shared_def opened_def dispatched_def
          ses_def host_def)
    from good_trans [OF good_trans [OF good_trans [OF good_trans [OF g1 same_good [OF same2]] g3] g4] same_good [OF this]]
    show ?thesis .
  qed
qed

lemma joinSession_good:
  assumes inj: "inj (env_uuid env)"
  shows "good env s (snd (joinSession env inp s))"
proof (rule good_by)
  assume ok0: "svc_ok env s"
  obtain r s1 where e: "ensureSessionActive env (ji_sharedSessionId inp) s = (r, s1)" by fastforce
  have g1: "good env s s1" using ensure_good [of env s "ji_sharedSessionId inp"] e by simp
  have ok1: "svc_ok env s1" by (rule goodD [OF g1 ok0])
  show ?thesis
  proof (cases r)
    case (Inl x)
    with e g1 show ?thesis by (simp add: joinSession_def)
  next
    case r: (Inr ses)
    from e r have ses: "om_get (sv_sessions s1) (ji_sharedSessionId inp) = Some ses" "sh_status ses = ShActive"
      by (auto simp: ensure_active)
    have sid: "sh_id ses = ji_sharedSessionId inp" using ok1 ses by (auto simp: svc_ok_def sessions_ok_def)
    show ?thesis
    proof (cases "sh_inviteToken ses = ji_inviteToken inp \<and> findActiveParticipantByUserId (ji_sharedSessionId inp) (ji_userId inp) s1 = None")
      case False
      then have "snd (joinSession env inp s) = s1"
        using e r by (auto simp: joinSession_def split: option.split)
      with g1 show ?thesis by simp
    next
      case True
      define p where "p = \<lparr>pa_id = env_uuid env (sv_uuids s1), pa_sharedSessionId = sh_id ses,
         pa_userId = trim (ji_userId inp), pa_displayName = ji_displayName inp,
         pa_role = orDefault (ji_role inp) RoleCollaborator, pa_accessToken = env_token env (sv_tokens s1),
         pa_joinedAt = env_now env (sv_ticks s1), pa_leftAt = None\<rparr>"
      let ?s2 = "s1\<lparr>sv_uuids := Suc (sv_uuids s1)\<rparr>"
      have same2: "same_data s1 ?s2" by (simp add: same_data_def dispatched_def)
      have "om_get (sv_participants s1) (env_uuid env (sv_uuids s1)) = None" using ok1 by (auto simp: svc_ok_def fresh_ok_def)
      then have g3: "good env ?s2 (insertParticipant p ?s2)"
        using inj ses sid by (intro insert_participant_good [of env p "sv_uuids s1" ?s2 ses]) (simp_all add: p_def)
      have "same_data (insertParticipant p ?s2) (snd (joinSession env inp s))"
        using True e r
        by (simp add: joinSession_def case_prod_beta Let_def same_data_def uuidv4_def generateToken_def read_now_def
          insertParticipant_def add_effect_def emit_shared_def dispatched_def p_def)
      from good_trans [OF good_trans [OF good_trans [OF g1 same_good [OF same2]] g3] same_good [OF this]]
      show ?thesis .
    qed
  qed
qed

lemma leaveSession_good: "good env s (snd (leaveSession env inp s))"
proof (rule good_by)
  assume ok: "svc_ok env s"
  obtain r1 s1 where e: "ensureSessionActive env (ai_sharedSessionId inp) s = (r1, s1)" by fastforce
  obtain r2 s2 where a: "authenticateParticipant env inp s1 = (r2, s2)" by fastforce
  have g1: "good env s s1" using ensure_good [of env s "ai_sharedSessionId inp"] e by simp
  have g2: "good env s s2" using authenticate_good [of env s1 inp] a good_trans [OF g1] by simp
  show ?thesis
  proof (cases r1)
    case r1: (Inr ses)
    show ?thesis
    proof (cases r2)
      case r2: (Inr p)
      with a have p: "om_get (sv_participants s2) (ai_participantId inp) = Some p" "pa_leftAt p = None"
        by (auto simp: authenticate_iff)
      have pid: "pa_id p = ai_participantId inp" using goodD [OF g2 ok] p by (auto simp: svc_ok_def participants_ok_def)
      let ?s3 = "snd (read_now env s2)"
      let ?s4 = "?s3\<lparr>sv_participants := om_set (sv_participants ?s3) (pa_id p) (p\<lparr>pa_leftAt := Some (fst (read_now env s2))\<rparr>)\<rparr>"
      have "om_get (sv_participants ?s3) (ai_participantId inp) = Some p" using p by (simp add: read_now_def)
      then have g4: "good env ?s3 ?s4" using p(2) pid by (rule set_left_good)
      have "same_data ?s4 (snd (leaveSession env inp s))"
        using e r1 a r2 p by (simp add: leaveSession_def Let_def case_prod_beta)
      from good_trans [OF good_trans [OF good_trans [OF g2 same_good [OF same_read_now]] g4] same_good [OF this]] show ?thesis .
    qed (use g2 e r1 a in \<open>simp add: leaveSession_def\<close>)
  qed (use g1 e in \<open>simp add: leaveSession_def\<close>)
qed

lemma closeSession_good: "good env s (snd (closeSession env inp s))"
proof -
  obtain r1 s1 where e: "ensureSessionActive env (ai_sharedSessionId inp) s = (r1, s1)" by fastforce
  obtain r2 s2 where a: "authenticateParticipant env inp s1 = (r2, s2)" by fastforce
  have g1: "good env s s1" using ensure_good [of env s "ai_sharedSessionId inp"] e by simp
  have g2: "good env s s2" using authenticate_good [of env s1 inp] a good_trans [OF g1] by simp
  have "snd (closeSession env inp s) \<in> {s1, s2} \<or> (\<exists>sid. snd (closeSession env inp s) = finalizeSession env sid ShClosed s2)"
    using e a by (cases r1; cases r2) (auto simp: closeSession_def Let_def)
  then show ?thesis using g1 g2 finalize_good [of ShClosed env s2] good_trans by fastforce
qed

lemma onHostNotification_good: "good env s (onHostNotification env sid nf s)"
proof -
  obtain r t where e: "ensureSessionActive env sid s = (r, t)" by fastforce
  have g: "good env s t" using ensure_good [of env s sid] e by simp
  then show ?thesis
    using e good_trans [OF g same_good [OF same_emit]] by (cases r) (simp_all add: onHostNotification_def getSession_def)
qed

lemma dispatchCompleted_good: "good env s (dispatchCompleted env job s)"
  using job_removed_good [of env s job] good_trans [OF job_removed_good [of env s job] same_good [OF same_emit]]
  by (simp add: dispatchCompleted_def Let_def split: option.split)

lemma dispatchFailed_good: "good env s (dispatchFailed env job msg s)"
proof (rule good_by)
  assume ok: "svc_ok env s"
  let ?s1 = "s\<lparr>sv_inflight := remove1 job (sv_inflight s)\<rparr>"
  show ?thesis
  proof (cases "job \<in> set (sv_inflight s)")
    case True
    then obtain a where a: "om_get (sv_approvals s) (snd job) = Some a" "ap_status a = PsApproved" "ap_sharedSessionId a = fst job"
      using ok unfolding svc_ok_def dispatches_ok_def by blast
    let ?s2 = "?s1\<lparr>sv_approvals := om_set (sv_approvals ?s1) (snd job) (a\<lparr>ap_status := PsFailed, ap_errorMessage := Some msg\<rparr>)\<rparr>"
    have dist: "distinct (sv_inflight s)" using ok by (simp add: svc_ok_def dispatches_ok_def)
    have "snd job \<notin> snd ` set (sv_inflight ?s1)"
    proof
      assume "snd job \<in> snd ` set (sv_inflight ?s1)"
      then obtain j where j1: "j \<in> set (sv_inflight ?s1)" and j2: "snd j = snd job" by (elim imageE) simp
      have j: "j \<in> set (sv_inflight s)" "j \<noteq> job" "snd j = snd job" using j1 j2 dist by auto
      then have "fst j = fst job" using ok a unfolding svc_ok_def dispatches_ok_def by fastforce
      with j show False by (simp add: prod_eq_iff)
    qed
    then have "good env ?s1 ?s2" using a by (intro set_failed_good) simp_all
    moreover have "dispatchFailed env job msg s = emit_shared env PromptDispatchFailed (fst job)
        (PayloadFailure (serializeApprovalPayload env (a\<lparr>ap_status := PsFailed, ap_errorMessage := Some msg\<rparr>)) msg) ?s2"
      using True a by (simp add: dispatchFailed_def Let_def)
    ultimately show ?thesis
      using good_trans [OF good_trans [OF job_removed_good [of env s job]] same_good [OF same_emit]] by simp
  qed (simp add: dispatchFailed_def)
qed

section \<open>Sequences of operations\<close>

datatype shared_op =
    OpCreate create_input | OpJoin join_input | OpLeave auth_input | OpClose auth_input
  | OpMessage auth_input string | OpPrompt auth_input string | OpRespond auth_input string approval_action
  | OpListSessions session_filter | OpGetSession string | OpListParticipants string
  | OpListApprovals string | OpListMessages string | OpNotify string json
  | OpDispatched "string \<times> string" | OpDispatchFailed "string \<times> string" string

fun shared_step :: "shared_env \<Rightarrow> shared_op \<Rightarrow> shared_svc \<Rightarrow> shared_svc" where
  "shared_step env (OpCreate i) s = snd (createSession env i s)"
| "shared_step env (OpJoin i) s = snd (joinSession env i s)"
| "shared_step env (OpLeave i) s = snd (leaveSession env i s)"
| "shared_step env (OpClose i) s = snd (closeSession env i s)"
| "shared_step env (OpMessage i t) s = snd (sendMessage env i t s)"
| "shared_step env (OpPrompt i t) s = snd (sendPrompt env i t s)"
| "shared_step env (OpRespond i a c) s = snd (respondToApproval env i a c s)"
| "shared_step env (OpListSessions f) s = snd (listSessions env f s)"
| "shared_step env (OpGetSession i) s = snd (getSession env i s)"
| "shared_step env (OpListParticipants i) s = snd (listParticipants env i s)"
| "shared_step env (OpListApprovals i) s = snd (listApprovals env i s)"
| "shared_step env (OpListMessages i) s = snd (listMessages env i s)"
| "shared_step env (OpNotify i n) s = onHostNotification env i n s"
| "shared_step env (OpDispatched j) s = dispatchCompleted env j s"
| "shared_step env (OpDispatchFailed j m) s = dispatchFailed env j m s"

definition shared_run :: "shared_env \<Rightarrow> shared_op list \<Rightarrow> shared_svc \<Rightarrow> shared_svc" where
  "shared_run env ops s = fold (shared_step env) ops s"

lemma lists_state:
  "snd (listSessions env f s) = expireSessions env s"
  "snd (getSession env sid s) = expireSessions env s"
  "snd (listParticipants env sid s) = expireSessions env s"
  "snd (listApprovals env sid s) = expireSessions env s"
  "snd (listMessages env sid s) = expireSessions env s"
  using ensure_state [of env sid s]
  by (auto simp: listSessions_def getSession_def listParticipants_def listApprovals_def listMessages_def Let_def
      split: prod.split sum.split)

lemma shared_step_good: "inj (env_uuid env) \<Longrightarrow> good env s (shared_step env op s)"
  by (cases op) (simp_all add: createSession_good joinSession_good leaveSession_good closeSession_good sendMessage_good
      sendPrompt_good respondToApproval_good lists_state expire_good onHostNotification_good dispatchCompleted_good dispatchFailed_good)

interpretation sh: machine "shared_step env" "\<lambda>s. inj (env_uuid env) \<and> svc_ok env s" svc_le for env
  by unfold_locales (auto simp: goodD [OF shared_step_good] goodD_le [OF shared_step_good] intro: svc_le_trans)

lemma shared_run_good: "inj (env_uuid env) \<Longrightarrow> good env s (shared_run env ops s)"
  using sh.run_inv [of env s ops] sh.run_le [of env s ops] by (simp add: good_def shared_run_def)

lemma new_service_ok: "svc_ok env new_service"
  by (simp add: svc_ok_def svc_ok_defs new_service_def dispatched_def)

end
