(* ===== verification/SharedProps.thy ===== *)
theory SharedProps
  imports SharedInvariant
begin

text \<open>
  What a shared session guarantees its participants: expiry, authorisation of every action and of
  every prompt dispatched, one seat per user; and an example session.
\<close>

section \<open>Expiry\<close>

text \<open>What the operations on one session see of it: the session, its participants.\<close>

definition session_view :: "shared_svc \<Rightarrow> string \<Rightarrow> shared_session option \<times> string list \<times> participant option list" where
  "session_view s sid = (om_get (sv_sessions s) sid, members s sid, map (om_get (sv_participants s)) (members s sid))"

lemma view_same: "same_data s t \<Longrightarrow> session_view t sid = session_view s sid"
  by (simp add: session_view_def members_def same_data_def)

lemma members_unique: "svc_ok env s \<Longrightarrow> pid \<in> set (members s a) \<Longrightarrow> pid \<in> set (members s b) \<Longrightarrow> a = b"
  unfolding svc_ok_def participants_ok_def by (metis option.inject)

lemma finalized_view: "svc_ok env s \<Longrightarrow> k \<noteq> sid \<Longrightarrow> session_view (finalized ses k st t s) sid = session_view s sid"
  using members_unique [of env s _ k sid]
  by (auto simp: session_view_def finalized_def members_def [of "s\<lparr>sv_sessions := x\<rparr>" for x] members_def mark_left_get
      split: option.split)

lemma expire_one_view:
  assumes ok: "svc_ok env s" and "k \<noteq> sid"
  shows "session_view (expire_one env c k s) sid = session_view s sid"
proof (cases "om_get (sv_sessions s) k")
  case (Some ses)
  have id: "sh_id ses = k" using ok Some by (auto simp: svc_ok_def sessions_ok_def)
  have "expire_one env c k s = s \<or> sh_status ses = ShActive \<and> expire_one env c k s = finalizeSession env k ShExpired s"
    using Some id by (auto simp: expire_one_def split: option.split)
  then show ?thesis
    using view_same [OF finalize_finalized [OF Some]] finalized_view [OF ok assms(2)] by auto
qed (simp add: expire_one_def)

lemma expire_one_due:
  assumes ok: "svc_ok env s" and ses: "om_get (sv_sessions s) sid = Some ses"
    and "sh_expiresAt ses = Some e" and "e \<le> c"
  shows "\<exists>x. om_get (sv_sessions (expire_one env c sid s)) sid = Some x \<and> sh_status x \<noteq> ShActive"
proof (cases "sh_status ses = ShActive")
  case True
  have id: "sh_id ses = sid" using ok ses by (auto simp: svc_ok_def sessions_ok_def)
  have "expire_one env c sid s = finalizeSession env sid ShExpired s"
    using assms True id by (simp add: expire_one_def)
  moreover have "om_get (sv_sessions (finalizeSession env sid ShExpired s)) sid = Some (ses\<lparr>sh_status := ShExpired\<rparr>)"
    using same_data_fields [OF finalize_finalized [OF ses True]] by (simp add: finalized_def)
  ultimately show ?thesis by simp
next
  case False
  with ses show ?thesis by (simp add: expire_one_def)
qed

lemma inactive_stays:
  "svc_le s t \<Longrightarrow> om_get (sv_sessions s) sid = Some x \<Longrightarrow> sh_status x \<noteq> ShActive \<Longrightarrow> om_get (sv_sessions t) sid = Some x"
  unfolding svc_le_def omap_le_def session_le_def by fastforce

lemma fold_expire_due:
  assumes "svc_ok env s" and "om_get (sv_sessions s) sid = Some ses" and "sh_expiresAt ses = Some e" and "e \<le> c"
    and "sid \<in> set ids"
  shows "\<exists>x. om_get (sv_sessions (fold (expire_one env c) ids s)) sid = Some x \<and> sh_status x \<noteq> ShActive"
  using assms
proof (induction ids arbitrary: s ses)
  case (Cons k ids)
  let ?t = "expire_one env c k s"
  have okt: "svc_ok env ?t" by (rule goodD [OF expire_one_good Cons.prems(1)])
  show ?case
  proof (cases "k = sid")
    case True
    with expire_one_due [OF Cons.prems(1-4)] obtain x where x: "om_get (sv_sessions ?t) sid = Some x" "sh_status x \<noteq> ShActive"
      by blast
    have "svc_le ?t (fold (expire_one env c) ids ?t)" by (rule goodD_le [OF fold_expire_good okt])
    from inactive_stays [OF this x] x(2) show ?thesis by simp
  next
    case False
    have "om_get (sv_sessions ?t) sid = Some ses"
      using expire_one_view [OF Cons.prems(1) False] Cons.prems(2) by (simp add: session_view_def)
    from Cons.IH [OF okt this Cons.prems(3,4)] False Cons.prems(5) show ?thesis by simp
  qed
qed simp

lemma expire_due:
  assumes ok: "svc_ok env s" and ses: "om_get (sv_sessions s) sid = Some ses"
    and due: "sh_status ses \<noteq> ShActive \<or> (\<exists>e. sh_expiresAt ses = Some e \<and> e \<le> env_now env (sv_ticks s))"
  shows "\<exists>x. om_get (sv_sessions (expireSessions env s)) sid = Some x \<and> sh_status x \<noteq> ShActive"
proof (cases "sh_status ses = ShActive")
  case False
  from inactive_stays [OF goodD_le [OF expire_good ok] ses False] False show ?thesis by blast
next
  case True
  with due obtain e where e: "sh_expiresAt ses = Some e" "e \<le> env_now env (sv_ticks s)" by blast
  have ok': "svc_ok env (snd (read_now env s))" by (rule same_data_ok [OF same_read_now ok])
  have "sid \<in> set (om_keys (sv_sessions s))"
    using ses by (auto simp: om_keys_def dest: map_of_SomeD intro: rev_image_eqI)
  with fold_expire_due [OF ok' _ e] ses show ?thesis unfolding expire_unfold by (simp add: read_now_def)
qed

text \<open>A session that is still active after the expiry pass was not touched by it.\<close>

lemma expire_view:
  assumes ok: "svc_ok env s" and act: "om_get (sv_sessions (expireSessions env s)) sid = Some ses" "sh_status ses = ShActive"
  shows "session_view (expireSessions env s) sid = session_view s sid"
proof -
  have "session_view (fold (expire_one env c) ids t) sid = session_view t sid"
    if "svc_ok env t" "om_get (sv_sessions (fold (expire_one env c) ids t)) sid = Some ses" for c ids t
    using that
  proof (induction ids arbitrary: t)
    case (Cons k ids)
    let ?t = "expire_one env c k t"
    have okt: "svc_ok env ?t" by (rule goodD [OF expire_one_good Cons.prems(1)])
    have IH: "session_view (fold (expire_one env c) ids ?t) sid = session_view ?t sid"
      using Cons.IH [OF okt] Cons.prems(2) by simp
    have "session_view ?t sid = session_view t sid"
    proof (cases "k = sid")
      case True
      have "?t = t \<or> (\<exists>x. om_get (sv_sessions t) sid = Some x \<and> sh_status x = ShActive \<and> ?t = finalizeSession env sid ShExpired t)"
        using True Cons.prems(1) by (auto simp: expire_one_def svc_ok_def sessions_ok_def split: option.split)
      moreover have False if x: "om_get (sv_sessions t) sid = Some x" "sh_status x = ShActive" "?t = finalizeSession env sid ShExpired t" for x
      proof -
        have "om_get (sv_sessions ?t) sid = Some (x\<lparr>sh_status := ShExpired\<rparr>)"
          using same_data_fields [OF finalize_finalized [OF x(1,2)]] x(3) by (simp add: finalized_def)
        with IH Cons.prems(2) act(2) show False by (auto simp: session_view_def)
      qed
      ultimately show ?thesis by auto
    qed (rule expire_one_view [OF Cons.prems(1)])
    with IH show ?case by simp
  qed simp
  from this [OF same_data_ok [OF same_read_now ok]] act(1) view_same [OF same_read_now] show ?thesis
    unfolding expire_unfold by metis
qed

lemma find_user_view:
  "session_view s sid = session_view t sid \<Longrightarrow> findActiveParticipantByUserId sid u s = findActiveParticipantByUserId sid u t"
proof -
  assume v: "session_view s sid = session_view t sid"
  have f: "findActiveParticipantByUserId sid u s = Option.bind (List.find (is_active_user s (trim u)) (members s sid)) (om_get (sv_participants s))" for s
    by (auto simp: findActiveParticipantByUserId_def members_def split: option.split)
  have eq: "om_get (sv_participants s) pid = om_get (sv_participants t) pid" if "pid \<in> set (members s sid)" for pid
    using v that by (auto simp: session_view_def)
  have "List.find (is_active_user s (trim u)) (members s sid) = List.find (is_active_user t (trim u)) (members t sid)"
    using v eq by (auto simp: session_view_def is_active_user_def intro: find_cong_set)
  then show ?thesis unfolding f
    using eq v by (auto simp: session_view_def dest: find_Some_iff_set split: bind_splits)
qed

section \<open>Properties\<close>

text \<open>After any sequence of operations the service is consistent: ids are unique and entries sit under their own id, a session has its forwarder registered exactly while it is active, the participants of an ended session have all left, participants and approvals belong to sessions that exist, and everything handed to the dispatcher belongs to an approval that was granted.\<close>
theorem shared_reachable_ok:
  assumes "inj (env_uuid env)"
  shows "svc_ok env (shared_run env ops new_service)"
  using goodD [OF shared_run_good [OF assms] new_service_ok] .

text \<open>Sessions, participants and approvals are never lost or rewritten: at any later time a session differs at most by having left the active state, a participant by having left, an approval by its one resolution and by a granted prompt having failed; the log of effects only grows.\<close>
theorem shared_only_moves_forward:
  assumes "inj (env_uuid env)"
  shows "svc_le (shared_run env before new_service) (shared_run env (before @ after) new_service)"
  using goodD_le [OF shared_run_good [OF assms, of "shared_run env before new_service" after]
      goodD [OF shared_run_good [OF assms] new_service_ok]]
  by (simp add: shared_run_def)

section \<open>Where a dispatched prompt comes from\<close>

text \<open>The operations of a run that explain an approval: the prompt was sent by its author, and a granted one was
  either granted at once, to its author, or approved by an operation of the participant who resolved it.\<close>

definition asked :: "shared_op list \<Rightarrow> prompt_approval \<Rightarrow> bool" where
  "asked ops a = (\<exists>inp txt. OpPrompt inp txt \<in> set ops \<and> ap_prompt a = trim txt
     \<and> ap_participantId a = ai_participantId inp \<and> ap_sharedSessionId a = ai_sharedSessionId inp)"

definition granted :: "shared_op list \<Rightarrow> prompt_approval \<Rightarrow> bool" where
  "granted ops a = (ap_resolvedByParticipantId a = Some (ap_participantId a)
     \<or> (\<exists>inp. OpRespond inp (ap_id a) ActApprove \<in> set ops \<and> ai_sharedSessionId inp = ap_sharedSessionId a
          \<and> ap_resolvedByParticipantId a = Some (ai_participantId inp)))"

definition explained :: "shared_op list \<Rightarrow> shared_svc \<Rightarrow> bool" where
  "explained ops s = (\<forall>aid a. om_get (sv_approvals s) aid = Some a \<longrightarrow>
     asked ops a \<and> (ap_status a \<in> {PsApproved, PsFailed} \<longrightarrow> granted ops a))"

lemma explained_more: "explained ops s \<Longrightarrow> set ops \<subseteq> set ops' \<Longrightarrow> explained ops' s"
  unfolding explained_def asked_def granted_def by (meson subsetD)

lemma explained_same: "sv_approvals t = sv_approvals s \<Longrightarrow> explained ops t = explained ops s"
  by (simp add: explained_def)

text \<open>The parts of the operations that leave the approvals alone.\<close>

lemma expire_approvals: "sv_approvals (expireSessions env s) = sv_approvals s"
proof -
  have fin: "sv_approvals (finalizeSession env sid st s) = sv_approvals s" for sid st s
  proof (cases "om_get (sv_sessions s) sid")
    case (Some ses)
    show ?thesis
    proof (cases "sh_status ses = ShActive")
      case True
      then show ?thesis using same_data_fields [OF finalize_finalized [OF Some True, of st env]] by (simp add: finalized_def)
    qed (simp add: finalize_inactive [OF Some])
  qed (simp add: finalizeSession_def)
  have "sv_approvals (fold (expire_one env c) ids s) = sv_approvals s" for c ids s
    by (induction ids arbitrary: s) (simp_all add: expire_one_def fin split: option.split)
  then show ?thesis by (simp add: expire_unfold read_now_def)
qed

lemma guards_approvals:
  "authenticateParticipant env inp s = (r, t) \<Longrightarrow> sv_approvals t = sv_approvals s"
  "ensureSessionActive env sid s = (q, t) \<Longrightarrow> sv_approvals t = sv_approvals s"
  using authenticate_state [of env inp s] ensure_state [of env sid s] expire_approvals [of env s] by auto

lemma quiet_approvals:
  "sv_approvals (emit_shared env ty sid pl s) = sv_approvals s" "sv_approvals (snd (read_now env s)) = sv_approvals s"
  "sv_approvals (snd (uuidv4 env s)) = sv_approvals s" "sv_approvals (snd (generateToken env s)) = sv_approvals s"
  "sv_approvals (snd (hub_getSession env h s)) = sv_approvals s" "sv_approvals (appendMessage m s) = sv_approvals s"
  "sv_approvals (dispatchPromptWithLifecycle env ses x s) = sv_approvals s"
  "sv_approvals (insertParticipant q s) = sv_approvals s" "sv_approvals (registerHostSessionForwarder ses s) = sv_approvals s"
  "sv_approvals (add_effect e s) = sv_approvals s"
  by (simp_all add: emit_shared_def read_now_def uuidv4_def generateToken_def hub_getSession_def appendMessage_def
      dispatchPromptWithLifecycle_def insertParticipant_def registerHostSessionForwarder_def add_effect_def)

text \<open>What an operation can do to the approvals: nothing, enter a prompt, resolve a pending one, or note a failure.\<close>

lemma prompt_approvals:
  assumes ok: "svc_ok env s" and new: "om_get (sv_approvals (snd (sendPrompt env inp txt s))) k = Some a"
  shows "om_get (sv_approvals s) k = Some a
    \<or> ap_prompt a = trim txt \<and> ap_participantId a = ai_participantId inp \<and> ap_sharedSessionId a = ai_sharedSessionId inp
       \<and> (ap_status a = PsPending \<or> ap_resolvedByParticipantId a = Some (ap_participantId a))"
proof -
  obtain r1 s1 where a: "authenticateParticipant env inp s = (r1, s1)" by fastforce
  obtain r2 s2 where e: "ensureSessionActive env (ai_sharedSessionId inp) s1 = (r2, s2)" by fastforce
  note approvals = guards_approvals(1) [OF a] guards_approvals(2) [OF e]
  show ?thesis
  proof (cases r1)
    case r1: (Inr p)
    have ok1: "svc_ok env s1" using goodD [OF authenticate_good ok, of inp] a by simp
    then have pid: "pa_id p = ai_participantId inp"
      using a r1 by (auto simp: authenticate_iff svc_ok_def participants_ok_def)
    show ?thesis
    proof (cases r2)
      case r2: (Inr ses)
      have "sh_id ses = ai_sharedSessionId inp" using two_guards(5) [OF ok] a e r1 r2 by blast
      with pid approvals r1 r2 a e new show ?thesis
        by (auto simp: sendPrompt_def Let_def case_prod_beta quiet_approvals createApproval_def split: if_splits)
    qed (use a e r1 approvals new in \<open>simp add: sendPrompt_def\<close>)
  qed (use a approvals new in \<open>simp add: sendPrompt_def\<close>)
qed

lemma respond_approvals:
  assumes ok: "svc_ok env s" and new: "om_get (sv_approvals (snd (respondToApproval env inp aid action s))) k = Some a"
  shows "om_get (sv_approvals s) k = Some a
    \<or> (\<exists>x. om_get (sv_approvals s) k = Some x \<and> ap_prompt a = ap_prompt x \<and> ap_participantId a = ap_participantId x
         \<and> ap_sharedSessionId a = ap_sharedSessionId x
         \<and> (ap_status a = PsRejected \<or> ap_status a = PsApproved \<and> action = ActApprove \<and> ap_id a = aid
              \<and> ap_sharedSessionId a = ai_sharedSessionId inp \<and> ap_resolvedByParticipantId a = Some (ai_participantId inp)))"
proof -
  obtain r1 s1 where a: "authenticateParticipant env inp s = (r1, s1)" by fastforce
  obtain r2 s2 where e: "ensureSessionActive env (ai_sharedSessionId inp) s1 = (r2, s2)" by fastforce
  note approvals = guards_approvals(1) [OF a] guards_approvals(2) [OF e]
  show ?thesis
  proof (cases r1)
    case r1: (Inr p)
    have ok1: "svc_ok env s1" using goodD [OF authenticate_good ok, of inp] a by simp
    then have pid: "pa_id p = ai_participantId inp"
      using a r1 by (auto simp: authenticate_iff svc_ok_def participants_ok_def)
    show ?thesis
    proof (cases r2)
      case r2: (Inr ses)
      have ses: "sh_id ses = ai_sharedSessionId inp" using two_guards(5) [OF ok] a e r1 r2 by blast
      have ids: "ap_id x = aid" if "om_get (sv_approvals s) aid = Some x" for x
        using ok that by (auto simp: svc_ok_def approvals_ok_def)
      show ?thesis
        using ses ids pid approvals r1 r2 a e new
        by (cases action)
          (auto simp: respondToApproval_def Let_def case_prod_beta quiet_approvals split: if_splits option.splits)
    qed (use a e r1 approvals new in \<open>auto simp: respondToApproval_def split: if_splits\<close>)
  qed (use a approvals new in \<open>simp add: respondToApproval_def\<close>)
qed

lemma failed_approvals:
  assumes new: "om_get (sv_approvals (dispatchFailed env job msg s)) k = Some a"
  shows "om_get (sv_approvals s) k = Some a
    \<or> (\<exists>x. om_get (sv_approvals s) k = Some x \<and> ap_status x = PsApproved
         \<and> a = x\<lparr>ap_status := PsFailed, ap_errorMessage := Some msg\<rparr>)"
  using new by (auto simp: dispatchFailed_def Let_def quiet_approvals split: if_splits option.splits)

lemma finalize_approvals: "sv_approvals (finalizeSession env sid st s) = sv_approvals s"
  by (auto simp: finalizeSession_def Let_def case_prod_beta quiet_approvals split: option.split)

lemma other_approvals:
  "sv_approvals (snd (createSession env ci s)) = sv_approvals s" "sv_approvals (snd (joinSession env ji s)) = sv_approvals s"
  "sv_approvals (snd (leaveSession env inp s)) = sv_approvals s" "sv_approvals (snd (closeSession env inp s)) = sv_approvals s"
  "sv_approvals (snd (sendMessage env inp txt s)) = sv_approvals s" "sv_approvals (onHostNotification env sid n s) = sv_approvals s"
  "sv_approvals (dispatchCompleted env job s) = sv_approvals s"
  by (auto simp: createSession_def joinSession_def leaveSession_def closeSession_def sendMessage_def onHostNotification_def
      getSession_def dispatchCompleted_def Let_def case_prod_beta quiet_approvals finalize_approvals
      ensure_state authenticate_state expire_approvals split: option.split sum.split)

lemma explainedI:
  assumes "explained ops s"
    and "\<And>k a. om_get (sv_approvals t) k = Some a \<Longrightarrow> om_get (sv_approvals s) k = Some a
      \<or> asked (ops @ [op]) a \<and> (ap_status a \<in> {PsApproved, PsFailed} \<longrightarrow> granted (ops @ [op]) a)"
  shows "explained (ops @ [op]) t"
  using assms(2) explained_more [OF assms(1), of "ops @ [op]"] unfolding explained_def by fastforce

lemma explained_step:
  assumes ok: "svc_ok env s" and old: "explained ops s"
  shows "explained (ops @ [op]) (shared_step env op s)"
proof -
  have frame: "explained (ops @ [op]) (shared_step env op s)" if "sv_approvals (shared_step env op s) = sv_approvals s"
    using explained_more [OF old, of "ops @ [op]"] explained_same [OF that] by auto
  have asked: "om_get (sv_approvals s) k = Some x \<Longrightarrow> ap_prompt a = ap_prompt x \<Longrightarrow> ap_participantId a = ap_participantId x
      \<Longrightarrow> ap_sharedSessionId a = ap_sharedSessionId x \<Longrightarrow> asked (ops @ [op]) a" for k x a
    using old unfolding explained_def asked_def by fastforce
  show ?thesis
  proof (cases op)
    case (OpPrompt inp said)
    then show ?thesis
      using prompt_approvals [OF ok, of inp said] by (intro explainedI [OF old]) (fastforce simp: asked_def granted_def)
  next
    case (OpRespond inp aid action)
    show ?thesis
    proof (rule explainedI [OF old])
      fix k a assume "om_get (sv_approvals (shared_step env op s)) k = Some a"
      then have "om_get (sv_approvals s) k = Some a \<or> asked (ops @ [op]) a
          \<and> (ap_status a = PsRejected \<or> ap_status a = PsApproved \<and> granted (ops @ [op]) a)"
        using respond_approvals [OF ok, of inp aid action k a] asked OpRespond by (auto simp: granted_def)
      then show "om_get (sv_approvals s) k = Some a \<or> asked (ops @ [op]) a
          \<and> (ap_status a \<in> {PsApproved, PsFailed} \<longrightarrow> granted (ops @ [op]) a)" by auto
    qed
  next
    case (OpDispatchFailed job msg)
    show ?thesis
    proof (rule explainedI [OF old])
      fix k a assume "om_get (sv_approvals (shared_step env op s)) k = Some a"
      then consider "om_get (sv_approvals s) k = Some a"
        | x where "om_get (sv_approvals s) k = Some x" "ap_status x = PsApproved" "a = x\<lparr>ap_status := PsFailed, ap_errorMessage := Some msg\<rparr>"
        using failed_approvals [of env job msg s k a] OpDispatchFailed by auto
      then show "om_get (sv_approvals s) k = Some a \<or> asked (ops @ [op]) a
          \<and> (ap_status a \<in> {PsApproved, PsFailed} \<longrightarrow> granted (ops @ [op]) a)"
      proof cases
        case 2
        then have "granted ops x" using old by (auto simp: explained_def)
        then have "granted (ops @ [op]) a" using 2(3) by (auto simp: granted_def)
        then show ?thesis using asked [OF 2(1)] 2(3) by simp
      qed simp
    qed
  qed (rule frame, simp add: other_approvals lists_state expire_approvals)+
qed

lemma explained_run: "inj (env_uuid env) \<Longrightarrow> explained ops (shared_run env ops new_service)"
proof (induction ops rule: rev_induct)
  case (snoc op ops)
  have "svc_ok env (shared_run env ops new_service)" by (rule goodD [OF shared_run_good [OF snoc.prems] new_service_ok])
  from explained_step [OF this snoc.IH [OF snoc.prems]] show ?case by (simp add: shared_run_def)
qed (simp add: explained_def shared_run_def new_service_def)

text \<open>C1. A prompt reaches the host's agent session only with authority, and with the text its author sent. It stems from a prompt operation of a participant of that session who may prompt there and is no viewer, and its text is the trimmed, not empty text of that operation; its approval stands as approved, or as failed after it was dispatched; it was granted at once to an author who is the host or whose session takes prompts directly, or by an operation in which the host approved this very approval, so that a prompt that was only rejected, or never answered, is not dispatched; it goes to the host session the shared session was created for; and no approval is dispatched twice.\<close>
theorem shared_dispatch_authorised:
  assumes "inj (env_uuid env)" and "d \<in> set (dispatched (shared_run env ops new_service))"
  defines "s \<equiv> shared_run env ops new_service"
  shows "distinct (map di_approvalId (dispatched s))
    \<and> (\<exists>a ses author resolver pid. om_get (sv_approvals s) (di_approvalId d) = Some a
        \<and> om_get (sv_sessions s) (di_sharedSessionId d) = Some ses
        \<and> om_get (sv_participants s) (di_participantId d) = Some author
        \<and> om_get (sv_participants s) pid = Some resolver \<and> ap_resolvedByParticipantId a = Some pid
        \<and> ap_status a \<in> {PsApproved, PsFailed}
        \<and> di_prompt d = ap_prompt a \<and> di_prompt d \<noteq> [] \<and> di_hostSessionId d = sh_hostSessionId ses
        \<and> pa_sharedSessionId author = di_sharedSessionId d \<and> pa_sharedSessionId resolver = di_sharedSessionId d
        \<and> pa_role author \<noteq> RoleViewer \<and> canPrompt ses (pa_role author)
        \<and> (\<exists>inp txt. OpPrompt inp txt \<in> set ops \<and> di_prompt d = trim txt
             \<and> ai_participantId inp = di_participantId d \<and> ai_sharedSessionId inp = di_sharedSessionId d)
        \<and> (pa_role resolver = RoleHost \<or> sh_mode ses = PromptDirect)
        \<and> (pid = di_participantId d
            \<or> (\<exists>inp. OpRespond inp (di_approvalId d) ActApprove \<in> set ops \<and> ai_participantId inp = pid
                 \<and> ai_sharedSessionId inp = di_sharedSessionId d)))"
proof -
  have ok: "svc_ok env s" unfolding s_def by (rule goodD [OF shared_run_good [OF assms(1)] new_service_ok])
  then obtain a ses where a: "om_get (sv_approvals s) (di_approvalId d) = Some a"
      "om_get (sv_sessions s) (di_sharedSessionId d) = Some ses" "ap_status a \<in> {PsApproved, PsFailed}"
      "ap_sharedSessionId a = di_sharedSessionId d" "ap_participantId a = di_participantId d"
      "ap_prompt a = di_prompt d" "sh_hostSessionId ses = di_hostSessionId d"
    using assms(2) unfolding s_def svc_ok_def dispatches_ok_def by blast
  from ok a(1) have id: "ap_id a = di_approvalId d" and "approval_sound s a" by (simp_all add: svc_ok_def approvals_ok_def)
  with a obtain author pid resolver where who: "om_get (sv_participants s) (di_participantId d) = Some author"
     "pa_sharedSessionId author = di_sharedSessionId d" "canPrompt ses (pa_role author)" "di_prompt d \<noteq> []"
     "ap_resolvedByParticipantId a = Some pid" "om_get (sv_participants s) pid = Some resolver"
     "pa_sharedSessionId resolver = di_sharedSessionId d" "pa_role resolver = RoleHost \<or> sh_mode ses = PromptDirect"
    unfolding approval_sound_def by auto
  moreover from this have "pa_role author \<noteq> RoleViewer" by (auto simp: canPrompt_def)
  moreover have "distinct (map di_approvalId (dispatched s))" using ok by (simp add: svc_ok_def dispatches_ok_def)
  moreover have "asked ops a" "granted ops a"
    using explained_run [OF assms(1), of ops] a(1,3) by (auto simp: s_def explained_def)
  moreover from this have "\<exists>inp txt. OpPrompt inp txt \<in> set ops \<and> di_prompt d = trim txt
      \<and> ai_participantId inp = di_participantId d \<and> ai_sharedSessionId inp = di_sharedSessionId d"
    using a unfolding asked_def by metis
  moreover have "pid = di_participantId d \<or> (\<exists>inp. OpRespond inp (di_approvalId d) ActApprove \<in> set ops \<and> ai_participantId inp = pid
      \<and> ai_sharedSessionId inp = di_sharedSessionId d)"
    using \<open>granted ops a\<close> who(5) a id by (auto simp: granted_def)
  ultimately show ?thesis using a by metis
qed

text \<open>Who acts: the participant named in the input, as the service has it after the expiry pass.\<close>

definition acts_as :: "shared_env \<Rightarrow> auth_input \<Rightarrow> shared_svc \<Rightarrow> participant \<Rightarrow> shared_session \<Rightarrow> bool" where
  "acts_as env inp s p ses = (om_get (sv_sessions (expireSessions env s)) (ai_sharedSessionId inp) = Some ses
     \<and> sh_status ses = ShActive
     \<and> om_get (sv_participants (expireSessions env s)) (ai_participantId inp) = Some p
     \<and> pa_sharedSessionId p = ai_sharedSessionId inp \<and> pa_accessToken p = ai_participantToken inp
     \<and> pa_leftAt p = None)"

lemma acts_asI: "authenticateParticipant env inp s = (Inr p, s1) \<Longrightarrow> \<exists>ses. acts_as env inp s p ses"
  by (auto simp: authenticate_iff acts_as_def)

lemma acts_two:
  assumes ok: "svc_ok env s" and a: "authenticateParticipant env inp s = (Inr p, s1)"
    and e: "ensureSessionActive env (ai_sharedSessionId inp) s1 = (Inr ses, s2)"
  shows "acts_as env inp s p ses"
proof -
  have s1: "s1 = expireSessions env s" and s2: "s2 = expireSessions env s1"
    and ses: "om_get (sv_sessions s2) (ai_sharedSessionId inp) = Some ses" "sh_status ses = ShActive"
    using a e by (auto simp: authenticate_iff ensure_active)
  have ok1: "svc_ok env s1" unfolding s1 by (rule goodD [OF expire_good ok])
  from expire_view [OF ok1, of "ai_sharedSessionId inp" ses] ses s2
  have "om_get (sv_sessions s1) (ai_sharedSessionId inp) = Some ses" by (simp add: session_view_def)
  then show ?thesis using a ses s1 by (auto simp: authenticate_iff acts_as_def)
qed

lemma acts_later:
  assumes ok: "svc_ok env s" and e: "ensureSessionActive env (ai_sharedSessionId inp) s = (Inr ses, s1)"
    and a: "authenticateParticipant env inp s1 = (Inr p, s2)"
  shows "acts_as env inp s p ses"
proof -
  let ?sid = "ai_sharedSessionId inp"
  have s1: "s1 = expireSessions env s" and s2: "s2 = expireSessions env s1"
    and ses: "om_get (sv_sessions s1) ?sid = Some ses" "sh_status ses = ShActive"
    using a e by (auto simp: authenticate_iff ensure_active)
  obtain x where x: "om_get (sv_sessions s2) ?sid = Some x" "sh_status x = ShActive"
    and p: "om_get (sv_participants s2) (ai_participantId inp) = Some p" "pa_sharedSessionId p = ?sid"
      "pa_accessToken p = ai_participantToken inp" "pa_leftAt p = None"
    using a by (auto simp: authenticate_iff)
  have ok1: "svc_ok env s1" unfolding s1 by (rule goodD [OF expire_good ok])
  have ok2: "svc_ok env s2" unfolding s2 by (rule goodD [OF expire_good ok1])
  have v: "session_view s2 ?sid = session_view s1 ?sid" using expire_view [OF ok1] x s2 by blast
  have "ai_participantId inp \<in> set (members s2 ?sid)" using ok2 p unfolding svc_ok_def participants_ok_def by blast
  with v p have "om_get (sv_participants s1) (ai_participantId inp) = Some p" by (auto simp: session_view_def)
  with p ses s1 show ?thesis by (simp add: acts_as_def)
qed

lemma sendMessage_authorised:
  assumes ok: "svc_ok env s" and m: "fst (sendMessage env inp txt s) = Inr m"
  shows "\<exists>p ses. acts_as env inp s p ses \<and> canComment ses (pa_role p) \<and> trim txt \<noteq> [] \<and> ms_text m = trim txt"
proof -
  obtain r1 s1 where a: "authenticateParticipant env inp s = (r1, s1)" by fastforce
  obtain r2 s2 where e: "ensureSessionActive env (ai_sharedSessionId inp) s1 = (r2, s2)" by fastforce
  from m obtain p where p: "r1 = Inr p" by (cases r1) (auto simp: sendMessage_def a)
  with m obtain ses where ses: "r2 = Inr ses" by (cases r2) (auto simp: sendMessage_def a e)
  from m p ses have "canComment ses (pa_role p) \<and> trim txt \<noteq> [] \<and> ms_text m = trim txt"
    by (auto simp: sendMessage_def a e Let_def case_prod_beta split: if_splits)
  with acts_two [OF ok] a e p ses show ?thesis by blast
qed

lemma sendPrompt_authorised:
  assumes ok: "svc_ok env s" and m: "fst (sendPrompt env inp txt s) = Inr r"
  shows "\<exists>p ses. acts_as env inp s p ses \<and> canPrompt ses (pa_role p) \<and> trim txt \<noteq> []
        \<and> fst r = (if sh_mode ses = PromptWithApproval \<and> pa_role p \<noteq> RoleHost then PsPending else PsApproved)"
proof -
  obtain r1 s1 where a: "authenticateParticipant env inp s = (r1, s1)" by fastforce
  obtain r2 s2 where e: "ensureSessionActive env (ai_sharedSessionId inp) s1 = (r2, s2)" by fastforce
  from m obtain p where p: "r1 = Inr p" by (cases r1) (auto simp: sendPrompt_def a)
  with m obtain ses where ses: "r2 = Inr ses" by (cases r2) (auto simp: sendPrompt_def a e)
  have "canPrompt ses (pa_role p) \<and> trim txt \<noteq> []"
    using m p ses by (auto simp: sendPrompt_def a e split: if_splits)
  moreover from this have "fst r = (if sh_mode ses = PromptWithApproval \<and> pa_role p \<noteq> RoleHost then PsPending else PsApproved)"
    using m p ses by (auto simp: sendPrompt_def a e Let_def case_prod_beta createApproval_def split: if_splits)
  ultimately show ?thesis using acts_two [OF ok] a e p ses by blast
qed

lemma respond_authorised:
  assumes ok: "svc_ok env s" and m: "fst (respondToApproval env inp aid action s) = Inr x"
  shows "\<exists>p ses. acts_as env inp s p ses \<and> pa_role p = RoleHost \<and> ap_sharedSessionId x = sh_id ses"
proof -
  obtain r1 s1 where a: "authenticateParticipant env inp s = (r1, s1)" by fastforce
  obtain r2 s2 where e: "ensureSessionActive env (ai_sharedSessionId inp) s1 = (r2, s2)" by fastforce
  from m obtain p where p: "r1 = Inr p" by (cases r1) (auto simp: respondToApproval_def a)
  with m have host: "pa_role p = RoleHost" by (auto simp: respondToApproval_def a split: if_splits)
  with m p obtain ses where ses: "r2 = Inr ses" by (cases r2) (auto simp: respondToApproval_def a e)
  from m p ses host have "ap_sharedSessionId x = sh_id ses"
    by (auto simp: respondToApproval_def a e Let_def case_prod_beta split: option.splits if_splits)
  with host acts_two [OF ok] a e p ses show ?thesis by blast
qed

lemma close_authorised:
  assumes ok: "svc_ok env s" and m: "fst (closeSession env inp s) = Inr c"
  shows "\<exists>p ses. acts_as env inp s p ses \<and> pa_role p = RoleHost"
proof -
  obtain r1 s1 where e: "ensureSessionActive env (ai_sharedSessionId inp) s = (r1, s1)" by fastforce
  obtain r2 s2 where a: "authenticateParticipant env inp s1 = (r2, s2)" by fastforce
  from m obtain ses where ses: "r1 = Inr ses" by (cases r1) (auto simp: closeSession_def e)
  with m obtain p where p: "r2 = Inr p" by (cases r2) (auto simp: closeSession_def a e)
  with m ses have "pa_role p = RoleHost" by (auto simp: closeSession_def a e split: if_splits)
  with acts_later [OF ok] a e p ses show ?thesis by blast
qed

lemma leave_authorised:
  assumes ok: "svc_ok env s" and m: "fst (leaveSession env inp s) = Inr q"
  shows "\<exists>p ses. acts_as env inp s p ses \<and> participant_le p q \<and> pa_leftAt q \<noteq> None"
proof -
  obtain r1 s1 where e: "ensureSessionActive env (ai_sharedSessionId inp) s = (r1, s1)" by fastforce
  obtain r2 s2 where a: "authenticateParticipant env inp s1 = (r2, s2)" by fastforce
  from m obtain ses where ses: "r1 = Inr ses" by (cases r1) (auto simp: leaveSession_def e)
  with m obtain p where p: "r2 = Inr p" by (cases r2) (auto simp: leaveSession_def a e)
  have "pa_leftAt p = None" using a p by (auto simp: authenticate_iff)
  with m ses p have "participant_le p q \<and> pa_leftAt q \<noteq> None"
    by (auto simp: leaveSession_def a e Let_def case_prod_beta participant_le_def)
  with acts_later [OF ok] a e p ses show ?thesis by blast
qed

text \<open>C22. Nobody acts in a shared session without the access token of a participant of that session who has not left, while the session is active and not expired; comments and prompts need the permission of the participant's role in the session's mode and a text that is not blank; resolving an approval and closing the session need the host role.\<close>
theorem shared_actions_authorised:
  assumes "svc_ok env s"
  shows "(fst (sendMessage env inp txt s) = Inr m \<longrightarrow>
      (\<exists>p ses. acts_as env inp s p ses \<and> canComment ses (pa_role p) \<and> trim txt \<noteq> [] \<and> ms_text m = trim txt))
    \<and> (fst (sendPrompt env inp txt s) = Inr r \<longrightarrow>
      (\<exists>p ses. acts_as env inp s p ses \<and> canPrompt ses (pa_role p) \<and> trim txt \<noteq> []
        \<and> fst r = (if sh_mode ses = PromptWithApproval \<and> pa_role p \<noteq> RoleHost then PsPending else PsApproved)))
    \<and> (fst (respondToApproval env inp aid action s) = Inr a \<longrightarrow>
      (\<exists>p ses. acts_as env inp s p ses \<and> pa_role p = RoleHost \<and> ap_sharedSessionId a = sh_id ses))
    \<and> (fst (closeSession env inp s) = Inr c \<longrightarrow> (\<exists>p ses. acts_as env inp s p ses \<and> pa_role p = RoleHost))
    \<and> (fst (leaveSession env inp s) = Inr q \<longrightarrow> (\<exists>p ses. acts_as env inp s p ses \<and> participant_le p q \<and> pa_leftAt q \<noteq> None))"
  using sendMessage_authorised [OF assms] sendPrompt_authorised [OF assms] respond_authorised [OF assms]
    close_authorised [OF assms] leave_authorised [OF assms] by blast

text \<open>Once a session is closed, expired, or its expiry time has been reached by the clock, no operation on it succeeds: joining, commenting, prompting, resolving, leaving, closing and listing all fail and do nothing but the expiry pass, it is no longer found, and all its participants have left.\<close>
theorem shared_inactive_rejects:
  assumes "svc_ok env s" and "om_get (sv_sessions s) sid = Some ses"
    and "sh_status ses \<noteq> ShActive \<or> (\<exists>e. sh_expiresAt ses = Some e \<and> e \<le> env_now env (sv_ticks s))"
    and "ji_sharedSessionId ji = sid" and "ai_sharedSessionId ai = sid"
  shows "(\<exists>err. joinSession env ji s = (Inl err, expireSessions env s)
        \<and> sendMessage env ai txt s = (Inl err, expireSessions env s)
        \<and> sendPrompt env ai txt s = (Inl err, expireSessions env s)
        \<and> respondToApproval env ai aid action s = (Inl err, expireSessions env s)
        \<and> leaveSession env ai s = (Inl err, expireSessions env s)
        \<and> closeSession env ai s = (Inl err, expireSessions env s)
        \<and> listParticipants env sid s = (Inl err, expireSessions env s)
        \<and> listApprovals env sid s = (Inl err, expireSessions env s)
        \<and> listMessages env sid s = (Inl err, expireSessions env s))
    \<and> getSession env sid s = (None, expireSessions env s)
    \<and> (\<forall>pid p. om_get (sv_participants (expireSessions env s)) pid = Some p \<and> pa_sharedSessionId p = sid \<longrightarrow> pa_leftAt p \<noteq> None)"
proof -
  let ?t = "expireSessions env s"
  from expire_due [OF assms(1-3)] obtain x where x: "om_get (sv_sessions ?t) sid = Some x" "sh_status x \<noteq> ShActive"
    by blast
  then obtain err where e: "ensureSessionActive env sid s = (Inl err, ?t)"
    by (auto simp: ensureSessionActive_def Let_def)
  then have a: "authenticateParticipant env ai s = (Inl err, ?t)" using assms by (simp add: authenticateParticipant_def)
  have "svc_ok env ?t" by (rule goodD [OF expire_good assms(1)])
  with x have "\<forall>pid p. om_get (sv_participants ?t) pid = Some p \<and> pa_sharedSessionId p = sid \<longrightarrow> pa_leftAt p \<noteq> None"
    unfolding svc_ok_def participants_ok_def by fastforce
  with e a assms(4,5) show ?thesis
    by (simp add: joinSession_def sendMessage_def sendPrompt_def respondToApproval_def leaveSession_def closeSession_def
        listParticipants_def listApprovals_def listMessages_def getSession_def)
qed

lemma is_active_user_iff:
  "is_active_user s u pid \<longleftrightarrow> (\<exists>p. om_get (sv_participants s) pid = Some p \<and> pa_userId p = u \<and> pa_leftAt p = None)"
  by (auto simp: is_active_user_def split: option.split)

lemma find_user_eq:
  "findActiveParticipantByUserId sid u s = Option.bind (List.find (is_active_user s (trim u)) (members s sid)) (om_get (sv_participants s))"
  by (auto simp: findActiveParticipantByUserId_def members_def split: option.split)

lemma find_user_None: "findActiveParticipantByUserId sid u s = None \<longleftrightarrow> List.find (is_active_user s (trim u)) (members s sid) = None"
proof (cases "List.find (is_active_user s (trim u)) (members s sid)")
  case (Some pid)
  then have "is_active_user s (trim u) pid" using find_Some_iff_set by metis
  with Some show ?thesis by (auto simp: find_user_eq is_active_user_iff)
qed (simp add: find_user_eq)

lemma join_finds:
  assumes ok: "svc_ok env s" and j: "joinSession env inp s = (Inr (ses, p), t)"
  shows "findActiveParticipantByUserId (ji_sharedSessionId inp) (ji_userId inp) t = Some p"
    and "om_get (sv_sessions t) (ji_sharedSessionId inp) = Some ses" and "sh_inviteToken ses = ji_inviteToken inp"
proof -
  let ?sid = "ji_sharedSessionId inp"
  obtain r s1 where e: "ensureSessionActive env ?sid s = (r, s1)" by fastforce
  with j have r: "r = Inr ses" by (cases r) (auto simp: joinSession_def Let_def case_prod_beta split: if_splits option.splits)
  have ok1: "svc_ok env s1" using goodD [OF ensure_good ok] e by (metis snd_conv)
  have ses: "om_get (sv_sessions s1) ?sid = Some ses" using e r by (auto simp: ensure_active)
  have id: "sh_id ses = ?sid" using ok1 ses by (auto simp: svc_ok_def sessions_ok_def)
  show tok: "sh_inviteToken ses = ji_inviteToken inp" using j e r by (auto simp: joinSession_def split: if_splits)
  have "findActiveParticipantByUserId ?sid (ji_userId inp) t = Some p \<and> om_get (sv_sessions t) ?sid = Some ses"
  proof (cases "findActiveParticipantByUserId ?sid (ji_userId inp) s1")
    case (Some x)
    with j e r tok have "p = x" "t = s1" by (auto simp: joinSession_def)
    with Some ses show ?thesis by simp
  next
    case None
    let ?n = "env_uuid env (sv_uuids s1)"
    have fresh: "om_get (sv_participants s1) ?n = None" using ok1 by (auto simp: svc_ok_def fresh_ok_def)
    have p: "pa_id p = ?n" "pa_userId p = trim (ji_userId inp)" "pa_leftAt p = None"
      and t: "sv_participants t = om_set (sv_participants s1) ?n p" "members t ?sid = set_add ?n (members s1 ?sid)"
        "sv_sessions t = sv_sessions s1"
      using j e r tok None id
      by (auto simp: joinSession_def Let_def case_prod_beta uuidv4_def generateToken_def read_now_def
          insertParticipant_def emit_shared_def add_effect_def members_def)
    have none: "List.find (is_active_user s1 (trim (ji_userId inp))) (members s1 ?sid) = None"
      using None find_user_None by blast
    have nin: "?n \<notin> set (members s1 ?sid)" using ok1 fresh unfolding svc_ok_def participants_ok_def by force
    have "is_active_user t u pid = is_active_user s1 u pid" if "pid \<in> set (members s1 ?sid)" for u pid
      using nin that by (auto simp: is_active_user_iff t)
    then have "List.find (is_active_user t (trim (ji_userId inp))) (members s1 ?sid) = None"
      using none find_cong_set by metis
    moreover have "is_active_user t (trim (ji_userId inp)) ?n" using p by (simp add: is_active_user_iff t)
    ultimately show ?thesis using nin ses by (simp add: find_user_eq t set_add_def find_append)
  qed
  then show "findActiveParticipantByUserId ?sid (ji_userId inp) t = Some p" "om_get (sv_sessions t) ?sid = Some ses" by auto
qed

lemma join_existing:
  assumes ok: "svc_ok env s" and ses: "om_get (sv_sessions s) (ji_sharedSessionId inp) = Some ses"
    and act: "om_get (sv_sessions (expireSessions env s)) (ji_sharedSessionId inp) = Some x" "sh_status x = ShActive"
    and tok: "sh_inviteToken ses = ji_inviteToken inp"
    and find: "findActiveParticipantByUserId (ji_sharedSessionId inp) (ji_userId inp) s = Some p"
  shows "joinSession env inp s = (Inr (ses, p), expireSessions env s)"
proof -
  have v: "session_view (expireSessions env s) (ji_sharedSessionId inp) = session_view s (ji_sharedSessionId inp)"
    using expire_view [OF ok act] .
  then have "x = ses" using act(1) ses by (simp add: session_view_def)
  moreover have "ensureSessionActive env (ji_sharedSessionId inp) s = (Inr x, expireSessions env s)"
    using act by (simp add: ensure_active)
  moreover have "findActiveParticipantByUserId (ji_sharedSessionId inp) (ji_userId inp) (expireSessions env s) = Some p"
    using find find_user_view [OF v] by simp
  ultimately show ?thesis using tok by (simp add: joinSession_def)
qed

text \<open>A user has one seat: joining again, with a user id that differs at most in surrounding white space and whatever name and role are asked for, gives back the participant of the first join, access token included, and changes nothing.\<close>
theorem shared_join_once:
  assumes "svc_ok env s" and "svc_ok env t" and "joinSession env inp s = (Inr (ses, p), t)"
    and "ji_sharedSessionId inp' = ji_sharedSessionId inp" and "ji_inviteToken inp' = ji_inviteToken inp"
    and "trim (ji_userId inp') = trim (ji_userId inp)"
    and "getSession env (ji_sharedSessionId inp) t = (Some ses', t')"
  shows "joinSession env inp' t = (Inr (ses, p), t')"
proof -
  note J = join_finds [OF assms(1,3)]
  have "t' = expireSessions env t" using lists_state(2) [of env "ji_sharedSessionId inp" t] assms(7) by simp
  moreover have "om_get (sv_sessions (expireSessions env t)) (ji_sharedSessionId inp) = Some ses'" "sh_status ses' = ShActive"
    using assms(7) ensure_active [of env "ji_sharedSessionId inp" t ses']
    by (auto simp: getSession_def split: prod.splits sum.splits)
  moreover have "findActiveParticipantByUserId (ji_sharedSessionId inp') (ji_userId inp') t = Some p"
    using J(1) assms(4,6) by (simp add: find_user_eq)
  ultimately show ?thesis using join_existing [OF assms(2), of inp' ses ses' p] J assms(4,5) by simp
qed

text \<open>Whoever holds the invite token and names the host's user id when joining gets the host's own participant, with its access token, and with it every right of the host: the user id is not authenticated.\<close>
theorem shared_join_as_host:
  assumes "inj (env_uuid env)" and "svc_ok env s" and "createSession env ci s = (Inr (ses, host), t)"
    and "getSession env (sh_id ses) t = (Some ses', t')"
    and "ji_sharedSessionId inp = sh_id ses" and "ji_inviteToken inp = sh_inviteToken ses"
    and "trim (ji_userId inp) = trim (ci_hostUserId ci)"
  shows "joinSession env inp t = (Inr (ses, host), t') \<and> pa_role host = RoleHost"
proof -
  let ?s1 = "snd (hub_getSession env (ci_hostSessionId ci) (expireSessions env s))"
  have ok0: "svc_ok env (expireSessions env s)" by (rule goodD [OF expire_good assms(2)])
  have ok1: "svc_ok env ?s1" by (rule same_data_ok [OF same_hub ok0])
  have okt: "svc_ok env t" using goodD [OF createSession_good [OF assms(1)] assms(2)] assms(3) by (metis snd_conv)
  have none: "om_get (sv_participantsBySession ?s1) (env_uuid env (sv_uuids ?s1)) = None"
    using ok1 by (auto simp: svc_ok_def fresh_ok_def)
  obtain ws where "fst (hub_getSession env (ci_hostSessionId ci) (expireSessions env s)) = Some ws"
    using assms(3) by (cases "fst (hub_getSession env (ci_hostSessionId ci) (expireSessions env s))")
      (auto simp: createSession_def case_prod_beta)
  with assms(3) none have t: "om_get (sv_sessions t) (sh_id ses) = Some ses" "members t (sh_id ses) = [pa_id host]"
      "om_get (sv_participants t) (pa_id host) = Some host" "pa_leftAt host = None" "pa_userId host = trim (ci_hostUserId ci)"
      "pa_role host = RoleHost"
    by (auto simp: createSession_def case_prod_beta Let_def uuidv4_def generateToken_def read_now_def
          registerHostSessionForwarder_def insertParticipant_def add_effect_def emit_shared_def members_def set_add_def)
  then have "findActiveParticipantByUserId (ji_sharedSessionId inp) (ji_userId inp) t = Some host"
    using assms(5,7) by (simp add: find_user_eq is_active_user_iff)
  moreover have "t' = expireSessions env t" using lists_state(2) [of env "sh_id ses" t] assms(4) by simp
  moreover have "om_get (sv_sessions (expireSessions env t)) (sh_id ses) = Some ses'" "sh_status ses' = ShActive"
    using assms(4) ensure_active [of env "sh_id ses" t ses']
    by (auto simp: getSession_def split: prod.splits sum.splits)
  ultimately show ?thesis using join_existing [OF okt, of inp ses ses' host] t assms(5,6) by simp
qed

section \<open>An example\<close>

text \<open>An environment with a clock that ticks, distinct ids and tokens, and a hub that knows every
  host session; a session shared by Alice that Bob joins, with a prompt of Bob that Alice grants.\<close>

definition sample_env :: shared_env where
  "sample_env = \<lparr>env_now = int, env_iso = (\<lambda>t. []), env_uuid = (\<lambda>n. replicate (Suc n) CHR ''u''),
     env_token = (\<lambda>n. replicate (Suc n) CHR ''t''), env_hostWorkspace = (\<lambda>n h. Some ''ws'')\<rparr>"

definition sample_create :: "int option \<Rightarrow> create_input" where
  "sample_create e = \<lparr>ci_hostSessionId = ''acp'', ci_hostUserId = ''alice'', ci_hostDisplayName = None,
     ci_mode = None, ci_workspaceId = None, ci_expiresAt = e\<rparr>"

definition sample_join :: "string \<Rightarrow> join_input" where
  "sample_join user = \<lparr>ji_sharedSessionId = ''u'', ji_inviteToken = ''t'', ji_userId = user,
     ji_displayName = None, ji_role = None\<rparr>"

definition alice :: auth_input where
  "alice = \<lparr>ai_sharedSessionId = ''u'', ai_participantId = ''uu'', ai_participantToken = ''tt''\<rparr>"

definition bob :: auth_input where
  "bob = \<lparr>ai_sharedSessionId = ''u'', ai_participantId = ''uuu'', ai_participantToken = ''ttt''\<rparr>"

definition sample_ops :: "shared_op list" where
  "sample_ops = [OpCreate (sample_create None), OpJoin (sample_join ''bob''), OpPrompt bob ''go'',
     OpRespond alice ''uuuu'' ActApprove]"

definition sample_state :: shared_svc where
  "sample_state = shared_run sample_env sample_ops new_service"

lemma sample_inj: "inj (env_uuid sample_env)"
proof (rule injI)
  fix a b assume "env_uuid sample_env a = env_uuid sample_env b"
  then have "length (replicate (Suc a) CHR ''u'') = length (replicate (Suc b) CHR ''u'')" by (simp add: sample_env_def)
  then show "a = b" by simp
qed

lemma sample_state_ok: "svc_ok sample_env sample_state"
  unfolding sample_state_def by (rule goodD [OF shared_run_good [OF sample_inj] new_service_ok])

theorem shared_reachable_ok_witness: "svc_ok sample_env (shared_run sample_env sample_ops new_service)"
  by (rule shared_reachable_ok [OF sample_inj])

theorem shared_only_moves_forward_witness:
  "svc_le (shared_run sample_env sample_ops new_service) (shared_run sample_env (sample_ops @ [OpClose alice]) new_service)"
  by (rule shared_only_moves_forward [OF sample_inj])

definition sample_dispatch :: dispatch_input where
  "sample_dispatch = \<lparr>di_sharedSessionId = ''u'', di_hostSessionId = ''acp'', di_participantId = ''uuu'',
     di_prompt = ''go'', di_approvalId = ''uuuu''\<rparr>"

theorem shared_dispatch_authorised_witness:
  "\<exists>resolver pid ses. om_get (sv_participants (shared_run sample_env sample_ops new_service)) pid = Some resolver
     \<and> om_get (sv_sessions (shared_run sample_env sample_ops new_service)) ''u'' = Some ses
     \<and> (\<exists>inp txt. OpPrompt inp txt \<in> set sample_ops \<and> ''go'' = trim txt \<and> ai_participantId inp = ''uuu'')
     \<and> (\<exists>inp. OpRespond inp ''uuuu'' ActApprove \<in> set sample_ops \<and> ai_participantId inp = pid)"
proof -
  let ?s = "shared_run sample_env sample_ops new_service"
  have "dispatched ?s = [sample_dispatch]"
    and resolved: "map_option ap_resolvedByParticipantId (om_get (sv_approvals ?s) ''uuuu'') = Some (Some ''uu'')" by code_simp+
  then have "sample_dispatch \<in> set (dispatched ?s)" by simp
  from shared_dispatch_authorised [OF sample_inj this] obtain a ses resolver pid where
    "om_get (sv_approvals ?s) ''uuuu'' = Some a" "om_get (sv_sessions ?s) ''u'' = Some ses"
    "om_get (sv_participants ?s) pid = Some resolver" "ap_resolvedByParticipantId a = Some pid"
    "\<exists>inp txt. OpPrompt inp txt \<in> set sample_ops \<and> ''go'' = trim txt \<and> ai_participantId inp = ''uuu''"
    "pid = ''uuu'' \<or> (\<exists>inp. OpRespond inp ''uuuu'' ActApprove \<in> set sample_ops \<and> ai_participantId inp = pid)"
    unfolding sample_dispatch_def dispatch_input.simps by metis
  with resolved show ?thesis by auto
qed

theorem shared_actions_authorised_witness:
  "\<exists>p ses. acts_as sample_env bob sample_state p ses \<and> canComment ses (pa_role p)"
proof -
  have "\<not> isl (fst (sendMessage sample_env bob ''hi'' sample_state))" by code_simp
  then obtain m where "fst (sendMessage sample_env bob ''hi'' sample_state) = Inr m"
    by (cases "fst (sendMessage sample_env bob ''hi'' sample_state)") auto
  with shared_actions_authorised [OF sample_state_ok, of bob "''hi''" m] show ?thesis by blast
qed

theorem shared_inactive_rejects_witness:
  "isl (fst (sendPrompt sample_env alice ''go'' (shared_run sample_env [OpCreate (sample_create (Some 3))] new_service)))"
proof -
  let ?s = "shared_run sample_env [OpCreate (sample_create (Some 3))] new_service"
  have ok: "svc_ok sample_env ?s" by (rule goodD [OF shared_run_good [OF sample_inj] new_service_ok])
  have "map_option sh_expiresAt (om_get (sv_sessions ?s) ''u'') = Some (Some 3)"
    and "3 \<le> env_now sample_env (sv_ticks ?s)" by code_simp+
  then obtain ses where "om_get (sv_sessions ?s) ''u'' = Some ses" "sh_expiresAt ses = Some 3"
    and "3 \<le> env_now sample_env (sv_ticks ?s)" by auto
  moreover have "ai_sharedSessionId alice = ''u''" "ji_sharedSessionId (sample_join ''bob'') = ''u''"
    by (simp_all add: alice_def sample_join_def)
  ultimately have "\<exists>err. sendPrompt sample_env alice ''go'' ?s = (Inl err, expireSessions sample_env ?s)"
    using shared_inactive_rejects [OF ok, of "''u''" ses "sample_join ''bob''" alice] by blast
  then show ?thesis by auto
qed

theorem shared_join_once_witness:
  "fst (joinSession sample_env (sample_join '' bob '') sample_state) = fst (joinSession sample_env (sample_join ''bob'') sample_state)"
proof -
  let ?t = "snd (joinSession sample_env (sample_join ''bob'') sample_state)"
  have "\<not> isl (fst (joinSession sample_env (sample_join ''bob'') sample_state))"
    and "fst (getSession sample_env ''u'' ?t) \<noteq> None"
    and "fst (joinSession sample_env (sample_join '' bob '') sample_state) = fst (joinSession sample_env (sample_join '' bob '') ?t)"
    by code_simp+
  then obtain ses p ses' t' where j: "joinSession sample_env (sample_join ''bob'') sample_state = (Inr (ses, p), ?t)"
    and g: "getSession sample_env ''u'' ?t = (Some ses', t')"
    and eq: "fst (joinSession sample_env (sample_join '' bob '') sample_state) = fst (joinSession sample_env (sample_join '' bob '') ?t)"
    by (metis isl_def not_None_eq old.sum.exhaust prod.collapse)
  have ok: "svc_ok sample_env ?t" by (rule goodD [OF joinSession_good [OF sample_inj] sample_state_ok])
  have same: "ji_sharedSessionId (sample_join '' bob '') = ji_sharedSessionId (sample_join ''bob'')"
      "ji_inviteToken (sample_join '' bob '') = ji_inviteToken (sample_join ''bob'')"
      "trim (ji_userId (sample_join '' bob '')) = trim (ji_userId (sample_join ''bob''))"
      "ji_sharedSessionId (sample_join ''bob'') = ''u''"
    by (simp add: sample_join_def, simp add: sample_join_def, code_simp, simp add: sample_join_def)
  from shared_join_once [OF sample_state_ok ok j same(1,2,3)] g same(4) j eq show ?thesis by (metis fst_conv)
qed

theorem shared_join_as_host_witness:
  "\<exists>ses host t. createSession sample_env (sample_create None) new_service = (Inr (ses, host), t)
     \<and> fst (joinSession sample_env (sample_join ''alice'') t) = Inr (ses, host) \<and> pa_role host = RoleHost"
proof -
  let ?r = "createSession sample_env (sample_create None) new_service"
  have "\<not> isl (fst ?r)" and g: "fst (getSession sample_env ''u'' (snd ?r)) \<noteq> None"
    and "map sh_id (case fst ?r of Inl e \<Rightarrow> [] | Inr x \<Rightarrow> [fst x]) = [''u'']"
    and "map sh_inviteToken (case fst ?r of Inl e \<Rightarrow> [] | Inr x \<Rightarrow> [fst x]) = [''t'']"
    by code_simp+
  then obtain ses host where c: "?r = (Inr (ses, host), snd ?r)" and f: "sh_id ses = ''u''" "sh_inviteToken ses = ''t''"
    by (cases ?r; cases "fst ?r") auto
  from g obtain ses' t' where g': "getSession sample_env (sh_id ses) (snd ?r) = (Some ses', t')"
    using f by (metis not_None_eq prod.collapse)
  have "joinSession sample_env (sample_join ''alice'') (snd ?r) = (Inr (ses, host), t') \<and> pa_role host = RoleHost"
    by (rule shared_join_as_host [OF sample_inj new_service_ok c g']) (simp_all add: f sample_join_def sample_create_def)
  with c show ?thesis by (metis fst_conv)
qed

end
