(* ===== verification/TaskStore.thy ===== *)
theory TaskStore
  imports LaneHistoryProps
begin

text \<open>
  The in-memory task store and what it calls: src/src/core/store/task-store.ts
  (\<open>InMemoryTaskStore\<close>), src/src/core/kanban/task-adaptive.ts (which search hints and old sessions a
  run of a card is given, and when a card's snapshot is only a guess),
  src/src/core/kanban/task-comment-log.ts (appending a comment) and
  src/src/core/kanban/task-dependency-cleanup.ts (what a deleted card leaves behind). Cards are
  values: that a caller writes into the lists of a card it saved or read is not modelled.
\<close>

section \<open>Search hints of a card\<close>

definition uniqueNonEmptyStrings :: "string option list \<Rightarrow> string list" where
  "uniqueNonEmptyStrings values = uniq (filter (\<lambda>s. trim s \<noteq> []) (map_some (\<lambda>v. v) values))"

text \<open>\<open>spec?.field\<close> and \<open>[...(primary?.field ?? []), ...(fallback?.field ?? [])]\<close>\<close>

definition spec_items :: "(search_spec \<Rightarrow> string list option) \<Rightarrow> search_spec option \<Rightarrow> string list option" where
  "spec_items field spec = Option.bind spec field"

definition spread_both :: "string list option \<Rightarrow> string list option \<Rightarrow> string option list" where
  "spread_both primary fallback = map Some (orDefault primary []) @ map Some (orDefault fallback [])"

definition mergeSearchSpecs :: "search_spec option \<Rightarrow> search_spec option \<Rightarrow> search_spec option" where
  "mergeSearchSpecs primary fallback =
     (let both = (\<lambda>field. Some (uniqueNonEmptyStrings (spread_both (spec_items field primary) (spec_items field fallback))))
      in normalizeTaskContextSearchSpec (js_of_spec
           \<lparr>sp_query = nullish (Option.bind primary sp_query) (Option.bind fallback sp_query),
            sp_featureCandidates = both sp_featureCandidates,
            sp_relatedFiles = both sp_relatedFiles,
            sp_routeCandidates = both sp_routeCandidates,
            sp_apiCandidates = both sp_apiCandidates,
            sp_moduleHints = both sp_moduleHints,
            sp_symptomHints = both sp_symptomHints\<rparr>))"

text \<open>The chains \<open>task?.jitContextSnapshot?.analysis\<close> and the like.\<close>

definition snapshot_of :: "task option \<Rightarrow> jit_snapshot option" where
  "snapshot_of t = Option.bind t tk_jitContextSnapshot"

definition analysis_of :: "task option \<Rightarrow> jit_analysis option" where
  "analysis_of t = Option.bind (snapshot_of t) js_analysis"

definition resolveRecommendedContextSearchSpec :: "task option \<Rightarrow> search_spec option" where
  "resolveRecommendedContextSearchSpec t =
     mergeSearchSpecs (Option.bind (analysis_of t) ja_recommendedContextSearchSpec)
       (Option.bind (snapshot_of t) js_recommendedContextSearchSpec)"

definition hasConfirmedKanbanTaskAdaptiveContext :: "string \<Rightarrow> task option \<Rightarrow> bool" where
  "hasConfirmedKanbanTaskAdaptiveContext nowIso t =
     (let hasLaneExperience = (Option.bind (normalizeSnapshot nowIso (snapshot_of t)) js_perLaneAnalysis \<noteq> None)
      in normalizeTaskContextSearchSpec (js_opt js_of_spec (Option.bind t tk_contextSearchSpec)) \<noteq> None
         \<or> analysis_of t \<noteq> None \<or> hasLaneExperience)"

definition shouldEnableKanbanTaskAdaptiveHarness :: "string \<Rightarrow> task option \<Rightarrow> bool" where
  "shouldEnableKanbanTaskAdaptiveHarness nowIso t =
     (case t of None \<Rightarrow> True
      | Some c \<Rightarrow> tk_columnId c \<noteq> Some ''backlog'' \<or> hasConfirmedKanbanTaskAdaptiveContext nowIso t)"

definition stripSpeculativeKanbanTaskAdaptiveSnapshot :: "string \<Rightarrow> task \<Rightarrow> task" where
  "stripSpeculativeKanbanTaskAdaptiveSnapshot nowIso t =
     (if tk_columnId t = Some ''backlog'' \<and> \<not> hasConfirmedKanbanTaskAdaptiveContext nowIso (Some t)
      then t\<lparr>tk_jitContextSnapshot := None\<rparr> else t)"

definition mergeTaskHintArrays :: "string list option \<Rightarrow> string list option \<Rightarrow> string list option" where
  "mergeTaskHintArrays primary fallback =
     (let values = uniqueNonEmptyStrings (spread_both primary fallback)
      in if length values > 0 then Some values else None)"

definition own_and_recommended :: "(search_spec \<Rightarrow> string list option) \<Rightarrow> task option \<Rightarrow> string list option" where
  "own_and_recommended field t =
     mergeTaskHintArrays (spec_items field (Option.bind t tk_contextSearchSpec))
       (spec_items field (resolveRecommendedContextSearchSpec t))"

definition collectContextSearchFeatureIds :: "task option \<Rightarrow> string list option" where
  "collectContextSearchFeatureIds t = own_and_recommended sp_featureCandidates t"

definition collectContextSearchFilePaths :: "task option \<Rightarrow> string list option" where
  "collectContextSearchFilePaths t = own_and_recommended sp_relatedFiles t"

definition collectContextSearchRoutes :: "task option \<Rightarrow> string list option" where
  "collectContextSearchRoutes t = own_and_recommended sp_routeCandidates t"

definition collectContextSearchApis :: "task option \<Rightarrow> string list option" where
  "collectContextSearchApis t = own_and_recommended sp_apiCandidates t"

definition collectContextSearchModules :: "task option \<Rightarrow> string list option" where
  "collectContextSearchModules t = own_and_recommended sp_moduleHints t"

definition collectContextSearchSymptoms :: "task option \<Rightarrow> string list option" where
  "collectContextSearchSymptoms t = own_and_recommended sp_symptomHints t"

definition resolveContextSearchQuery :: "task option \<Rightarrow> string option" where
  "resolveContextSearchQuery t =
     (let query = map_option trim (Option.bind (Option.bind t tk_contextSearchSpec) sp_query);
          recommendedQuery = map_option trim
            (Option.bind (Option.bind (snapshot_of t) js_recommendedContextSearchSpec) sp_query);
          title = map_option (\<lambda>c. trim (tk_title c)) t
      in if truthy query then query
         else if truthy recommendedQuery then recommendedQuery
         else if truthy title then title else None)"

definition collectKanbanTaskHistorySessionIds :: "task option \<Rightarrow> string list option" where
  "collectKanbanTaskHistorySessionIds t =
     (case t of None \<Rightarrow> None
      | Some c \<Rightarrow>
         (let historySessionIds = uniqueNonEmptyStrings
                ([tk_triggerSessionId c] @ map Some (tk_sessionIds c)
                 @ map (\<lambda>e. Some (ls_sessionId e)) (tk_laneSessions c)
                 @ map Some (orDefault (map_option js_matchedSessionIds (snapshot_of t)) [])
                 @ map (\<lambda>l. Some (sl_sessionId l)) (orDefault (map_option ja_topSessions (analysis_of t)) [])
                 @ map (\<lambda>s. Some (sd_sessionId s))
                     (orDefault (map_option hs_seedSessions (Option.bind (snapshot_of t) js_historySummary)) []))
          in if length historySessionIds > 0 then Some historySessionIds else None))"

datatype adaptive_task_type = AtImplementation | AtPlanning | AtAnalysis | AtReview

definition resolveKanbanTaskAdaptiveTaskType :: "string option \<Rightarrow> adaptive_task_type" where
  "resolveKanbanTaskAdaptiveTaskType columnId =
     (if columnId = Some ''backlog'' \<or> columnId = Some ''todo'' then AtPlanning
      else if columnId = Some ''review'' then AtReview
      else AtImplementation)"

record harness_options =
  hx_taskId :: "string option"
  hx_taskLabel :: "string option"
  hx_locale :: "string option"
  hx_query :: "string option"
  hx_featureIds :: "string list option"
  hx_filePaths :: "string list option"
  hx_routeCandidates :: "string list option"
  hx_apiCandidates :: "string list option"
  hx_historySessionIds :: "string list option"
  hx_moduleHints :: "string list option"
  hx_symptomHints :: "string list option"
  hx_taskType :: "adaptive_task_type option"
  hx_role :: "string option"

definition buildKanbanTaskAdaptiveHarnessOptions ::
  "string \<Rightarrow> string \<Rightarrow> string option \<Rightarrow> string option \<Rightarrow> adaptive_task_type option \<Rightarrow> task option
     \<Rightarrow> harness_options option" where
  "buildKanbanTaskAdaptiveHarnessOptions nowIso promptLabel locale' role taskType t =
     (if t \<noteq> None \<and> \<not> shouldEnableKanbanTaskAdaptiveHarness nowIso t then None
      else Some \<lparr>hx_taskId = map_option tk_id t,
        hx_taskLabel = nullish (map_option tk_title t) (Some (trim promptLabel)),
        hx_locale = locale',
        hx_query = resolveContextSearchQuery t,
        hx_featureIds = collectContextSearchFeatureIds t,
        hx_filePaths = collectContextSearchFilePaths t,
        hx_routeCandidates = collectContextSearchRoutes t,
        hx_apiCandidates = collectContextSearchApis t,
        hx_historySessionIds = collectKanbanTaskHistorySessionIds t,
        hx_moduleHints = collectContextSearchModules t,
        hx_symptomHints = collectContextSearchSymptoms t,
        hx_taskType = nullish taskType (Some (resolveKanbanTaskAdaptiveTaskType (Option.bind t tk_columnId))),
        hx_role = nullish role (Option.bind t tk_assignedRole)\<rparr>)"

section \<open>The store\<close>

type_synonym task_store = "(string, task) omap"

definition hydrateTask :: "string \<Rightarrow> task \<Rightarrow> task" where
  "hydrateTask nowIso t =
     stripSpeculativeKanbanTaskAdaptiveSnapshot nowIso
       (t\<lparr>tk_comments := hydrateTaskComments (Some (tk_comments t)) (tk_comment t)\<rparr>)"

definition store_save :: "string \<Rightarrow> task_store \<Rightarrow> task \<Rightarrow> task_store" where
  "store_save nowIso s t =
     (let incoming = stripSpeculativeKanbanTaskAdaptiveSnapshot nowIso t;
          merged = mergeLaneRecords
            (map_option (\<lambda>c. (tk_sessionIds c, tk_laneSessions c)) (om_get s (tk_id t)))
            (tk_sessionIds incoming, tk_laneSessions incoming)
      in om_set s (tk_id t) (incoming\<lparr>tk_sessionIds := fst merged, tk_laneSessions := snd merged\<rparr>))"

definition store_get :: "string \<Rightarrow> task_store \<Rightarrow> string \<Rightarrow> task option" where
  "store_get nowIso s taskId = map_option (hydrateTask nowIso) (om_get s taskId)"

definition listByWorkspace :: "string \<Rightarrow> task_store \<Rightarrow> string \<Rightarrow> task list" where
  "listByWorkspace nowIso s workspaceId =
     map (hydrateTask nowIso) (filter (\<lambda>t. tk_workspaceId t = workspaceId) (om_values s))"

definition listByStatus :: "string \<Rightarrow> task_store \<Rightarrow> string \<Rightarrow> task_status \<Rightarrow> task list" where
  "listByStatus nowIso s workspaceId status =
     map (hydrateTask nowIso)
       (filter (\<lambda>t. tk_workspaceId t = workspaceId \<and> tk_status t = status) (om_values s))"

definition listByAssignee :: "string \<Rightarrow> task_store \<Rightarrow> string \<Rightarrow> task list" where
  "listByAssignee nowIso s agentId =
     map (hydrateTask nowIso) (filter (\<lambda>t. tk_assignedTo t = Some agentId) (om_values s))"

definition dependency_met :: "task_store \<Rightarrow> string \<Rightarrow> bool" where
  "dependency_met s depId = (case om_get s depId of None \<Rightarrow> False | Some dep \<Rightarrow> tk_status dep = TS_COMPLETED)"

definition findReadyTasks :: "string \<Rightarrow> task_store \<Rightarrow> string \<Rightarrow> task list" where
  "findReadyTasks nowIso s workspaceId =
     filter (\<lambda>t. tk_status t = TS_PENDING \<and> list_all (dependency_met s) (tk_dependencies t))
       (listByWorkspace nowIso s workspaceId)"

definition updateStatus :: "int \<Rightarrow> task_store \<Rightarrow> string \<Rightarrow> task_status \<Rightarrow> task_store" where
  "updateStatus now s taskId status =
     (case om_get s taskId of None \<Rightarrow> s
      | Some t \<Rightarrow> om_set s taskId (t\<lparr>tk_status := status, tk_updatedAt := now\<rparr>))"

definition store_delete :: "task_store \<Rightarrow> string \<Rightarrow> task_store" where
  "store_delete s taskId = om_del s taskId"

text \<open>The loop over the entries; deleting the entry it stands on does not disturb the iteration.\<close>

definition deleteByWorkspace :: "task_store \<Rightarrow> string \<Rightarrow> task_store \<times> nat" where
  "deleteByWorkspace s workspaceId =
     foldl (\<lambda>(m, deleted) (taskId, t). if tk_workspaceId t \<noteq> workspaceId then (m, deleted)
            else (om_del m taskId, deleted + 1)) (s, 0) s"

section \<open>Comments\<close>

definition appendTaskComment :: "string option \<Rightarrow> string \<Rightarrow> string" where
  "appendTaskComment existing nextText =
     (let trimmedNext = trim nextText; trimmedExisting = map_option trim existing
      in if trimmedNext = [] then orDefault existing []
         else if truthy trimmedExisting then the trimmedExisting @ ''\<newline>\<newline>'' @ trimmedNext
         else trimmedNext)"

text \<open>The metadata; \<open>source\<close> may be missing (\<^const>\<open>None\<close>) or present and undefined.\<close>

record comment_metadata =
  cm_agentId :: "string option"
  cm_sessionId :: "string option"
  cm_source :: "comment_source option option"

definition appendTaskCommentEntry ::
  "string \<Rightarrow> string \<Rightarrow> task_comment list option \<Rightarrow> string \<Rightarrow> comment_metadata option \<Rightarrow> task_comment list" where
  "appendTaskCommentEntry newId nowIso existing nextText metadata =
     (let trimmedNext = trim nextText;
          source = (case Option.bind metadata cm_source of Some src \<Rightarrow> src | None \<Rightarrow> Some UpdateCard)
      in if trimmedNext = [] then orDefault existing []
         else orDefault existing [] @
           [\<lparr>tc_id = newId, tc_body = trimmedNext, tc_createdAt = nowIso, tc_source = source,
             tc_agentId = Option.bind metadata cm_agentId, tc_sessionId = Option.bind metadata cm_sessionId\<rparr>])"

section \<open>What a deleted card leaves behind\<close>

definition quoted :: "string \<Rightarrow> string" where
  "quoted s = [CHR 0x22] @ s @ [CHR 0x22]"

definition buildDeletedDependencyNote :: "string \<Rightarrow> string \<Rightarrow> bool \<Rightarrow> string" where
  "buildDeletedDependencyNote deletedId deletedTitle yamlMention =
     (if \<not> yamlMention
      then ''Dependency card '' @ deletedId @ '' ('' @ quoted deletedTitle @ '') was deleted. ''
           @ ''Its id was removed from this card'' @ [CHR 0x27] @ ''s structured dependencies.''
      else ''Dependency card '' @ deletedId @ '' ('' @ quoted deletedTitle @ '') was deleted. ''
           @ ''This card'' @ [CHR 0x27] @ ''s canonical YAML (depends_on / unblock_condition) still mentions that id; ''
           @ ''refresh the story during the next backlog pass and point it at the replacement card, if any.'')"

record cleanup_result =
  cr_structuralReferrerIds :: "string list"
  cr_yamlMentionTaskIds :: "string list"
  cr_updatedTaskIds :: "string list"

record deleted_task =
  dt_id :: string
  dt_title :: string
  dt_workspaceId :: string

text \<open>
  What the loop reads from the outside: the ids drawn for the comments and the clock, per card it
  changes, and what other requests do to the store while the loop waits for the save before.
\<close>

record cleanup_env =
  ce_host :: js_host
  ce_newId :: "nat \<Rightarrow> string"
  ce_now :: "nat \<Rightarrow> int"
  ce_between :: "nat \<Rightarrow> task_store \<Rightarrow> task_store"

definition hasStructuralRef :: "string \<Rightarrow> task \<Rightarrow> bool" where
  "hasStructuralRef deletedId t = (deletedId \<in> set (tk_dependencies t))"

definition hasYamlMention :: "string \<Rightarrow> task \<Rightarrow> bool" where
  "hasYamlMention deletedId t = strIncludes (tk_objective t) deletedId"

definition cleaned_card :: "cleanup_env \<Rightarrow> deleted_task \<Rightarrow> nat \<Rightarrow> task \<Rightarrow> task" where
  "cleaned_card env d i t =
     (let t1 = (if hasStructuralRef (dt_id d) t
                then t\<lparr>tk_dependencies := filter (\<lambda>k. k \<noteq> dt_id d) (tk_dependencies t)\<rparr> else t);
          note' = buildDeletedDependencyNote (dt_id d) (dt_title d) (hasYamlMention (dt_id d) t);
          nowIso = hostToISO (ce_host env) (ce_now env i)
      in t1\<lparr>tk_comment := Some (appendTaskComment (tk_comment t1) note'),
            tk_comments := appendTaskCommentEntry (ce_newId env i) nowIso (Some (tk_comments t1)) note'
              (Some \<lparr>cm_agentId = None, cm_sessionId = None, cm_source = Some None\<rparr>),
            tk_updatedAt := ce_now env i\<rparr>)"

text \<open>The loop, with the cards it told the notifier about as its third result.\<close>

fun cleanup_loop ::
  "cleanup_env \<Rightarrow> deleted_task \<Rightarrow> nat \<Rightarrow> task list \<Rightarrow> task_store \<Rightarrow> cleanup_result \<Rightarrow> task list
     \<Rightarrow> task_store \<times> cleanup_result \<times> task list" where
  "cleanup_loop env d i [] s r notified = (s, r, notified)"
| "cleanup_loop env d i (t # rest) s r notified =
     (if tk_id t = dt_id d then cleanup_loop env d i rest s r notified
      else if \<not> hasStructuralRef (dt_id d) t \<and> \<not> hasYamlMention (dt_id d) t
      then cleanup_loop env d i rest s r notified
      else let t' = cleaned_card env d i t;
               s' = store_save (hostToISO (ce_host env) (ce_now env i)) (ce_between env i s) t';
               r' = r\<lparr>cr_structuralReferrerIds := cr_structuralReferrerIds r
                        @ (if hasStructuralRef (dt_id d) t then [tk_id t] else []),
                      cr_yamlMentionTaskIds := cr_yamlMentionTaskIds r
                        @ (if hasYamlMention (dt_id d) t then [tk_id t] else []),
                      cr_updatedTaskIds := cr_updatedTaskIds r @ [tk_id t]\<rparr>
           in cleanup_loop env d (Suc i) rest s' r' (notified @ [t']))"

definition cleanupDanglingDependencyReferences ::
  "cleanup_env \<Rightarrow> string \<Rightarrow> deleted_task \<Rightarrow> task_store \<Rightarrow> task_store \<times> cleanup_result \<times> task list" where
  "cleanupDanglingDependencyReferences env nowIso d s =
     cleanup_loop env d 0 (listByWorkspace nowIso s (dt_workspaceId d)) s
       \<lparr>cr_structuralReferrerIds = [], cr_yamlMentionTaskIds = [], cr_updatedTaskIds = []\<rparr> []"

end
