(* ===== verification/TaskStoreProps.thy ===== *)
theory TaskStoreProps
  imports TaskStore
begin

text \<open>
  The in-memory task store keeps what runs recorded however stale the saved copies are, gives back
  what was saved, and is left without dangling dependencies by the cleanup after a deletion; the
  hints handed to an agent are clean. The saves and status updates move the store forward in an
  order (the locale \<open>machine\<close> of the prelude is interpreted on them).
\<close>

section \<open>Speculative snapshots\<close>

lemma confirmed_eq:
  "hasConfirmedKanbanTaskAdaptiveContext nowIso (Some t) =
     (normalizeTaskContextSearchSpec (js_opt js_of_spec (tk_contextSearchSpec t)) \<noteq> None
      \<or> (case tk_jitContextSnapshot t of None \<Rightarrow> False
         | Some v \<Rightarrow> js_analysis v \<noteq> None \<or> Option.bind (normalizeSnapshot nowIso (Some v)) js_perLaneAnalysis \<noteq> None))"
proof -
  have "normalizeSnapshot nowIso None = None" by (simp add: normalizeSnapshot_def normalizeTaskJitContextSnapshot_def falsy_def)
  then show ?thesis
    by (auto simp: hasConfirmedKanbanTaskAdaptiveContext_def Let_def analysis_of_def snapshot_of_def split: option.split)
qed

lemma no_analysis_any_time:
  assumes "js_analysis v = None"
  shows "normalizeSnapshot n (Some v) = normalizeSnapshot m (Some v)"
proof -
  have analysis: "jprop (js_of_snapshot v) ''analysis'' = JUndef"
    using assms by (simp add: js_of_snapshot_def jprop_JObj)
  have "normalizeTaskJitContextAnalysis k JUndef = Inr None" for k
    by (simp add: normalizeTaskJitContextAnalysis_def falsy_def)
  then have "normalizeTaskJitContextSnapshot n (js_of_snapshot v) = normalizeTaskJitContextSnapshot m (js_of_snapshot v)"
    by (simp only: normalizeTaskJitContextSnapshot_def analysis)
  then show ?thesis by (simp add: normalizeSnapshot_def)
qed

lemma confirmed_any_time:
  "hasConfirmedKanbanTaskAdaptiveContext n (Some t) = hasConfirmedKanbanTaskAdaptiveContext m (Some t)"
proof (cases "tk_jitContextSnapshot t")
  case (Some v)
  then show ?thesis using no_analysis_any_time [of v n m] by (cases "js_analysis v") (simp_all add: confirmed_eq)
qed (simp add: confirmed_eq)

lemma confirmed_cong:
  "tk_contextSearchSpec t = tk_contextSearchSpec u \<Longrightarrow> tk_jitContextSnapshot t = tk_jitContextSnapshot u
     \<Longrightarrow> hasConfirmedKanbanTaskAdaptiveContext n (Some t) = hasConfirmedKanbanTaskAdaptiveContext n (Some u)"
  by (simp add: confirmed_eq)

lemma strip_any_time: "stripSpeculativeKanbanTaskAdaptiveSnapshot n t = stripSpeculativeKanbanTaskAdaptiveSnapshot m t"
  by (simp add: stripSpeculativeKanbanTaskAdaptiveSnapshot_def confirmed_any_time [of n t m])

lemma strip_idem [simp]:
  "stripSpeculativeKanbanTaskAdaptiveSnapshot n (stripSpeculativeKanbanTaskAdaptiveSnapshot m t)
     = stripSpeculativeKanbanTaskAdaptiveSnapshot m t"
  by (auto simp: stripSpeculativeKanbanTaskAdaptiveSnapshot_def confirmed_any_time [of n t m])

lemma strip_get [simp]:
  "tk_id (stripSpeculativeKanbanTaskAdaptiveSnapshot n t) = tk_id t"
  "tk_status (stripSpeculativeKanbanTaskAdaptiveSnapshot n t) = tk_status t"
  "tk_columnId (stripSpeculativeKanbanTaskAdaptiveSnapshot n t) = tk_columnId t"
  "tk_workspaceId (stripSpeculativeKanbanTaskAdaptiveSnapshot n t) = tk_workspaceId t"
  "tk_dependencies (stripSpeculativeKanbanTaskAdaptiveSnapshot n t) = tk_dependencies t"
  "tk_objective (stripSpeculativeKanbanTaskAdaptiveSnapshot n t) = tk_objective t"
  "tk_comment (stripSpeculativeKanbanTaskAdaptiveSnapshot n t) = tk_comment t"
  "tk_comments (stripSpeculativeKanbanTaskAdaptiveSnapshot n t) = tk_comments t"
  "tk_sessionIds (stripSpeculativeKanbanTaskAdaptiveSnapshot n t) = tk_sessionIds t"
  "tk_laneSessions (stripSpeculativeKanbanTaskAdaptiveSnapshot n t) = tk_laneSessions t"
  by (simp_all add: stripSpeculativeKanbanTaskAdaptiveSnapshot_def)

text \<open>Stripping looks at the column, the hints and the snapshot only.\<close>

lemma strip_commutes:
  "stripSpeculativeKanbanTaskAdaptiveSnapshot n (t\<lparr>tk_comments := c\<rparr>) = (stripSpeculativeKanbanTaskAdaptiveSnapshot n t)\<lparr>tk_comments := c\<rparr>"
  "stripSpeculativeKanbanTaskAdaptiveSnapshot n (t\<lparr>tk_sessionIds := i\<rparr>) = (stripSpeculativeKanbanTaskAdaptiveSnapshot n t)\<lparr>tk_sessionIds := i\<rparr>"
  "stripSpeculativeKanbanTaskAdaptiveSnapshot n (t\<lparr>tk_laneSessions := l\<rparr>) = (stripSpeculativeKanbanTaskAdaptiveSnapshot n t)\<lparr>tk_laneSessions := l\<rparr>"
  by (simp_all add: stripSpeculativeKanbanTaskAdaptiveSnapshot_def confirmed_eq)

lemma hydrate_get [simp]:
  "tk_id (hydrateTask n t) = tk_id t" "tk_status (hydrateTask n t) = tk_status t"
  "tk_columnId (hydrateTask n t) = tk_columnId t" "tk_workspaceId (hydrateTask n t) = tk_workspaceId t"
  "tk_dependencies (hydrateTask n t) = tk_dependencies t" "tk_objective (hydrateTask n t) = tk_objective t"
  "tk_comment (hydrateTask n t) = tk_comment t" "tk_sessionIds (hydrateTask n t) = tk_sessionIds t"
  "tk_laneSessions (hydrateTask n t) = tk_laneSessions t"
  "tk_comments (hydrateTask n t) = hydrateTaskComments (Some (tk_comments t)) (tk_comment t)"
  by (simp_all add: hydrateTask_def)

lemma hydrate_any_time: "hydrateTask n t = hydrateTask m t"
  by (simp add: hydrateTask_def strip_any_time [of n _ m])

lemma hydrateTask_idem [simp]: "hydrateTask n (hydrateTask m t) = hydrateTask m t"
  by (simp add: hydrateTask_def strip_commutes hydrate_idem)

section \<open>Reading back what was saved\<close>

definition task_runs_ok :: "task \<Rightarrow> bool" where
  "task_runs_ok t = (distinct (tk_sessionIds t) \<and> distinct (map ls_sessionId (tk_laneSessions t)))"

definition store_ok :: "task_store \<Rightarrow> bool" where
  "store_ok s = (om_wf s \<and> (\<forall>i t. om_get s i = Some t \<longrightarrow> tk_id t = i \<and> task_runs_ok t))"

definition row_runs :: "task option \<Rightarrow> (string list \<times> lane_session list) option" where
  "row_runs c = map_option (\<lambda>t. (tk_sessionIds t, tk_laneSessions t)) c"

text \<open>The row a save writes over the row \<open>old\<close>.\<close>

definition saved_row :: "task option \<Rightarrow> task \<Rightarrow> task" where
  "saved_row old t =
     (stripSpeculativeKanbanTaskAdaptiveSnapshot [] t)
       \<lparr>tk_sessionIds := fst (mergeLaneRecords (row_runs old) (tk_sessionIds t, tk_laneSessions t)),
        tk_laneSessions := snd (mergeLaneRecords (row_runs old) (tk_sessionIds t, tk_laneSessions t))\<rparr>"

lemma save_eq: "store_save n s t = om_set s (tk_id t) (saved_row (om_get s (tk_id t)) t)"
  by (simp add: store_save_def Let_def saved_row_def row_runs_def strip_any_time [of n t "[]"])

lemma saved_row_get [simp]:
  "tk_id (saved_row old t) = tk_id t" "tk_status (saved_row old t) = tk_status t"
  "tk_workspaceId (saved_row old t) = tk_workspaceId t" "tk_dependencies (saved_row old t) = tk_dependencies t"
  "tk_objective (saved_row old t) = tk_objective t" "tk_comment (saved_row old t) = tk_comment t"
  "tk_comments (saved_row old t) = tk_comments t"
  "tk_sessionIds (saved_row old t) = mergeSessionIds (map_option tk_sessionIds old) (Some (tk_sessionIds t))"
  "tk_laneSessions (saved_row old t) = mergeLaneSessions (map_option tk_laneSessions old) (Some (tk_laneSessions t))"
  by (simp_all add: saved_row_def row_runs_def mergeLaneRecords_def option.map_comp comp_def)

lemma merge_new: "mergeSessionIds None (Some ids) = ids" "mergeLaneSessions None (Some runs) = runs"
  by (simp_all add: mergeSessionIds_def mergeLaneSessions_def)

lemma merge_same:
  "distinct sids \<Longrightarrow> mergeSessionIds (Some sids) (Some sids) = sids"
  "distinct (map ls_sessionId runs) \<Longrightarrow> mergeLaneSessions (Some runs) (Some runs) = runs"
proof -
  show "distinct sids \<Longrightarrow> mergeSessionIds (Some sids) (Some sids) = sids" by (simp add: mergeSessionIds_eq)
  assume d: "distinct (map ls_sessionId runs)"
  have "merged_entry runs e = e" if "e \<in> set runs" for e
    using counterpart_distinct [OF d that] by (simp add: merged_entry_def mergeLaneSession_def Let_def fill_self)
  then show "mergeLaneSessions (Some runs) (Some runs) = runs" by (simp add: merge_lists filter_empty_conv map_idI)
qed

lemma merge_ids_distinct: "distinct sids \<Longrightarrow> distinct iids \<Longrightarrow> distinct (mergeSessionIds (Some sids) (Some iids))"
  by (auto simp: mergeSessionIds_eq uniq_distinct)

lemma saved_row_ok: "task_runs_ok t \<Longrightarrow> (\<forall>c. old = Some c \<longrightarrow> task_runs_ok c) \<Longrightarrow> task_runs_ok (saved_row old t)"
  by (cases old) (simp_all add: task_runs_ok_def merge_new merge_ids_distinct merge_distinct)

lemma save_ok: "store_ok s \<Longrightarrow> task_runs_ok t \<Longrightarrow> store_ok (store_save n s t)"
  by (auto simp: store_ok_def save_eq intro!: saved_row_ok)

lemma updateStatus_ok: "store_ok s \<Longrightarrow> store_ok (updateStatus now s i st)"
  by (auto simp: store_ok_def updateStatus_def task_runs_ok_def split: option.split)

lemma delete_ok: "store_ok s \<Longrightarrow> store_ok (store_delete s i)"
  by (auto simp: store_ok_def store_delete_def)

lemma om_keys_set_order: "om_keys (om_set m k v) = (if om_get m k = None then om_keys m @ [k] else om_keys m)"
  by (induction m k v rule: om_set.induct) (auto simp: om_keys_def)

lemma hydrate_saved_row_same:
  assumes "task_runs_ok c"
  shows "hydrateTask n (saved_row (Some c) (hydrateTask m c)) = hydrateTask n c"
proof -
  have row: "saved_row (Some c) (hydrateTask m c) = hydrateTask m c"
    using assms by (simp add: saved_row_def row_runs_def mergeLaneRecords_def merge_same task_runs_ok_def strip_commutes
        hydrateTask_def)
  show ?thesis unfolding row by (simp add: hydrate_any_time [of n c m])
qed

text \<open>C28. A saved card is read back as it was saved: the card that was passed, with its comments shown from the old free text if it has none, its snapshot dropped if the card is in the backlog and nothing confirms it, and its runs merged with those the row had; other cards are not touched, and a new card comes last. Reading any card and saving it back, at any later time, changes nothing that can be read.\<close>
theorem store_save_roundtrip:
  assumes "store_ok s" and "store_get n s i = Some got"
  shows "store_get n' (store_save n s t) (tk_id t) =
      Some ((stripSpeculativeKanbanTaskAdaptiveSnapshot n t)
        \<lparr>tk_comments := hydrateTaskComments (Some (tk_comments t)) (tk_comment t),
         tk_sessionIds := mergeSessionIds (map_option tk_sessionIds (om_get s (tk_id t))) (Some (tk_sessionIds t)),
         tk_laneSessions := mergeLaneSessions (map_option tk_laneSessions (om_get s (tk_id t))) (Some (tk_laneSessions t))\<rparr>)
    \<and> (\<forall>j. j \<noteq> tk_id t \<longrightarrow> store_get n' (store_save n s t) j = store_get n' s j)
    \<and> om_keys (store_save n s t) = (if om_get s (tk_id t) = None then om_keys s @ [tk_id t] else om_keys s)
    \<and> (\<forall>j. store_get n' (store_save m s got) j = store_get n' s j) \<and> om_keys (store_save m s got) = om_keys s"
proof -
  from assms obtain c where c: "om_get s i = Some c" "got = hydrateTask n c" "tk_id c = i" "task_runs_ok c"
    by (auto simp: store_get_def store_ok_def)
  have again: "store_get n' (store_save m s got) j = store_get n' s j" for j
    using c hydrate_saved_row_same [OF c(4), of n' n] by (simp add: store_get_def save_eq)
  have row: "hydrateTask n' (saved_row old t) = (stripSpeculativeKanbanTaskAdaptiveSnapshot n t)
        \<lparr>tk_comments := hydrateTaskComments (Some (tk_comments t)) (tk_comment t),
         tk_sessionIds := mergeSessionIds (map_option tk_sessionIds old) (Some (tk_sessionIds t)),
         tk_laneSessions := mergeLaneSessions (map_option tk_laneSessions old) (Some (tk_laneSessions t))\<rparr>" for old
    by (simp add: hydrateTask_def saved_row_def strip_commutes row_runs_def mergeLaneRecords_def option.map_comp comp_def
        strip_any_time [of n t "[]"])
  show ?thesis using again row c by (simp add: store_get_def save_eq om_keys_set_order)
qed

section \<open>Saves move the store forward\<close>

datatype store_write = WriteSave string task | WriteStatus int string task_status

fun write_step :: "store_write \<Rightarrow> task_store \<Rightarrow> task_store" where
  "write_step (WriteSave nowIso t) s = store_save nowIso s t"
| "write_step (WriteStatus now i st) s = updateStatus now s i st"

text \<open>What a later row of a card still knows of an earlier one.\<close>

definition row_le :: "task \<Rightarrow> task \<Rightarrow> bool" where
  "row_le c c' =
     (set (tk_sessionIds c) \<subseteq> set (tk_sessionIds c')
      \<and> ls_sessionId ` set (tk_laneSessions c) \<subseteq> ls_sessionId ` set (tk_laneSessions c')
      \<and> (\<forall>i. ended_in (tk_laneSessions c) i \<longrightarrow> ended_in (tk_laneSessions c') i)
      \<and> (\<forall>i. placed_in (tk_laneSessions c) i \<longrightarrow> placed_in (tk_laneSessions c') i))"

definition store_le :: "task_store \<Rightarrow> task_store \<Rightarrow> bool" where
  "store_le s s' = (\<forall>i c. om_get s i = Some c \<longrightarrow> (\<exists>c'. om_get s' i = Some c' \<and> row_le c c'))"

lemma row_le_refl [simp]: "row_le c c"
  by (simp add: row_le_def)

lemma row_le_trans: "row_le a b \<Longrightarrow> row_le b c \<Longrightarrow> row_le a c"
  unfolding row_le_def by (meson subset_trans)

lemma row_le_saved: "row_le c (saved_row (Some c) t)"
  by (auto simp: row_le_def merge_ids mergeSessionIds_eq ended_merge placed_merge)

lemma save_le: "store_le s (store_save n s t)"
  by (auto simp: store_le_def save_eq row_le_saved)

lemma updateStatus_le: "store_le s (updateStatus now s i st)"
  by (auto simp: store_le_def updateStatus_def row_le_def split: option.split)

lemma store_le_refl [simp]: "store_le s s"
  by (auto simp: store_le_def intro: row_le_refl)

lemma store_le_trans: "store_le s t \<Longrightarrow> store_le t u \<Longrightarrow> store_le s u"
  unfolding store_le_def by (meson row_le_trans)

interpretation writes: machine write_step "\<lambda>s. True" store_le
proof unfold_locales
  show "store_le s (write_step w s)" for w s by (cases w) (simp_all add: save_le updateStatus_le)
qed (auto intro: store_le_trans)

text \<open>C13. However many requests save their copies of a card, in whatever order and however stale, a card that is not deleted stays in the store, its session ids and runs stay listed, a run that had ended never reads as running again, and a run whose column and step were known keeps a column and a step.\<close>
theorem store_runs_never_reopen:
  assumes "store_get n s i = Some c"
  shows "\<exists>c'. store_get n' (fold write_step ws s) i = Some c'
    \<and> set (tk_sessionIds c) \<subseteq> set (tk_sessionIds c')
    \<and> ls_sessionId ` set (tk_laneSessions c) \<subseteq> ls_sessionId ` set (tk_laneSessions c')
    \<and> (\<forall>run. ended_in (tk_laneSessions c) run \<longrightarrow> ended_in (tk_laneSessions c') run)
    \<and> (\<forall>run. placed_in (tk_laneSessions c) run \<longrightarrow> placed_in (tk_laneSessions c') run)"
proof -
  from assms obtain row where row: "om_get s i = Some row" "c = hydrateTask n row" by (auto simp: store_get_def)
  with writes.run_le [of s ws] obtain row' where row': "om_get (fold write_step ws s) i = Some row'" "row_le row row'"
    by (auto simp: store_le_def)
  then have "store_get n' (fold write_step ws s) i = Some (hydrateTask n' row')" by (simp add: store_get_def)
  with row row' show ?thesis by (auto simp: row_le_def)
qed

section \<open>Deletion and the cleanup after it\<close>

lemma deleteByWorkspace_eq:
  assumes "om_wf s"
  shows "deleteByWorkspace s ws = (filter (\<lambda>kv. tk_workspaceId (snd kv) \<noteq> ws) s,
     length (filter (\<lambda>t. tk_workspaceId t = ws) (om_values s)))"
proof -
  let ?f = "\<lambda>(m, deleted) (taskId, t). if tk_workspaceId t \<noteq> ws then (m, deleted) else (om_del m taskId, deleted + 1)"
  have "om_wf (m @ kvs) \<Longrightarrow> foldl ?f (m @ kvs, k) kvs =
      (m @ filter (\<lambda>kv. tk_workspaceId (snd kv) \<noteq> ws) kvs, k + length (filter (\<lambda>t. tk_workspaceId t = ws) (om_values kvs)))"
    for m kvs and k :: nat
  proof (induction kvs arbitrary: m k)
    case (Cons kv kvs)
    obtain i t where kv: "kv = (i, t)" by fastforce
    show ?case
    proof (cases "tk_workspaceId t = ws")
      case False
      with Cons.IH [of "m @ [kv]" k] Cons.prems kv show ?thesis by (simp add: om_values_def)
    next
      case True
      have "filter (\<lambda>kv. fst kv \<noteq> i) m = m" "filter (\<lambda>kv. fst kv \<noteq> i) kvs = kvs"
        using Cons.prems kv by (force simp: om_wf_def intro!: filter_True)+
      then have "om_del (m @ kv # kvs) i = m @ kvs" by (simp add: om_del_def kv)
      moreover have "om_wf (m @ kvs)" using Cons.prems by (auto simp: om_wf_def)
      ultimately show ?thesis using Cons.IH [of m "Suc k"] True kv by (simp add: om_values_def)
    qed
  qed (simp add: om_values_def)
  from this [of "[]" s 0] assms show ?thesis by (simp add: deleteByWorkspace_def)
qed

lemma cleanup_le:
  assumes "\<And>j s. store_le s (ce_between env j s)"
  shows "store_le s (fst (cleanup_loop env d i ts s r notified))"
proof (induction ts arbitrary: i s r notified)
  case (Cons t ts)
  have "store_le s (store_save n (ce_between env i s) t')" for n t'
    using assms save_le store_le_trans by blast
  with Cons store_le_trans show ?case by (auto simp: Let_def) blast+
qed simp

lemma note_not_blank: "trim (buildDeletedDependencyNote i n b) \<noteq> []"
  by (simp add: trim_Nil_iff buildDeletedDependencyNote_def is_ws_def)

definition affected :: "string \<Rightarrow> task \<Rightarrow> bool" where
  "affected deletedId t = (tk_id t \<noteq> deletedId \<and> (hasStructuralRef deletedId t \<or> hasYamlMention deletedId t))"

lemma cleaned_get [simp]:
  "tk_id (cleaned_card env d k t) = tk_id t" "tk_status (cleaned_card env d k t) = tk_status t"
  "tk_workspaceId (cleaned_card env d k t) = tk_workspaceId t" "tk_objective (cleaned_card env d k t) = tk_objective t"
  "tk_sessionIds (cleaned_card env d k t) = tk_sessionIds t" "tk_laneSessions (cleaned_card env d k t) = tk_laneSessions t"
  "tk_dependencies (cleaned_card env d k t) = filter (\<lambda>i. i \<noteq> dt_id d) (tk_dependencies t)"
  "map tc_body (tk_comments (cleaned_card env d k t)) = map tc_body (tk_comments t)
     @ [trim (buildDeletedDependencyNote (dt_id d) (dt_title d) (hasYamlMention (dt_id d) t))]"
  by (auto simp: cleaned_card_def Let_def appendTaskCommentEntry_def note_not_blank hasStructuralRef_def intro!: filter_True [symmetric])

definition hits :: "deleted_task \<Rightarrow> task list \<Rightarrow> task list" where
  "hits d ts = filter (affected (dt_id d)) ts"

definition counted :: "deleted_task \<Rightarrow> task list \<Rightarrow> cleanup_result \<Rightarrow> cleanup_result" where
  "counted d ts r =
     r\<lparr>cr_structuralReferrerIds := cr_structuralReferrerIds r @ map tk_id (filter (hasStructuralRef (dt_id d)) ts),
       cr_yamlMentionTaskIds := cr_yamlMentionTaskIds r @ map tk_id (filter (hasYamlMention (dt_id d)) ts),
       cr_updatedTaskIds := cr_updatedTaskIds r @ map tk_id ts\<rparr>"

lemma cleanup_miss:
  "\<not> affected (dt_id d) t \<Longrightarrow> cleanup_loop env d i (t # ts) s r told = cleanup_loop env d i ts s r told"
  by (auto simp: affected_def)

lemma cleanup_hit:
  assumes "affected (dt_id d) t" and "\<And>j s. ce_between env j s = s"
  shows "cleanup_loop env d i (t # ts) s r told =
    cleanup_loop env d (Suc i) ts (store_save (hostToISO (ce_host env) (ce_now env i)) s (cleaned_card env d i t))
      (counted d [t] r) (told @ [cleaned_card env d i t])"
  using assms by (auto simp: affected_def counted_def Let_def)

lemma cleanup_loop_spec:
  assumes quiet: "\<And>j s. ce_between env j s = s" and d: "distinct (map tk_id ts)"
  shows "\<exists>s' ns. cleanup_loop env d i ts s r told = (s', counted d (hits d ts) r, told @ ns)
    \<and> map tk_id ns = map tk_id (hits d ts)
    \<and> (\<forall>j. j \<notin> tk_id ` set (hits d ts) \<longrightarrow> om_get s' j = om_get s j)
    \<and> (\<forall>t\<in>set (hits d ts). \<exists>k. om_get s' (tk_id t) = Some (saved_row (om_get s (tk_id t)) (cleaned_card env d k t)))"
  using d
proof (induction ts arbitrary: i s r told)
  case (Cons t ts)
  show ?case
  proof (cases "affected (dt_id d) t")
    case False
    with Cons show ?thesis by (simp add: cleanup_miss hits_def del: cleanup_loop.simps)
  next
    case True
    let ?t = "cleaned_card env d i t"
    let ?s = "store_save (hostToISO (ce_host env) (ce_now env i)) s ?t"
    have row: "om_get ?s j = (if j = tk_id t then Some (saved_row (om_get s (tk_id t)) ?t) else om_get s j)" for j
      by (simp add: save_eq)
    have fresh: "tk_id u \<noteq> tk_id t" if "u \<in> set ts" for u using Cons.prems that by (metis distinct.simps(2) imageI list.set_map list.simps(9))
    then have fresh': "tk_id t \<notin> tk_id ` set (hits d ts)" by (force simp: hits_def)
    from Cons.IH [of "Suc i" ?s "counted d [t] r" "told @ [?t]"] Cons.prems obtain s' ns where ih:
      "cleanup_loop env d (Suc i) ts ?s (counted d [t] r) (told @ [?t]) = (s', counted d (hits d ts) (counted d [t] r), (told @ [?t]) @ ns)"
      "map tk_id ns = map tk_id (hits d ts)"
      "\<And>j. j \<notin> tk_id ` set (hits d ts) \<Longrightarrow> om_get s' j = om_get ?s j"
      "\<And>u. u \<in> set (hits d ts) \<Longrightarrow> \<exists>k. om_get s' (tk_id u) = Some (saved_row (om_get ?s (tk_id u)) (cleaned_card env d k u))"
      by auto
    have hit: "hits d (t # ts) = t # hits d ts" using True by (simp add: hits_def)
    have cnt: "counted d (hits d ts) (counted d [t] r) = counted d (t # hits d ts) r" by (simp add: counted_def)
    have here: "om_get s' (tk_id t) = Some (saved_row (om_get s (tk_id t)) ?t)" using ih(3) [OF fresh'] row by simp
    have "\<exists>k. om_get s' (tk_id u) = Some (saved_row (om_get s (tk_id u)) (cleaned_card env d k u))" if "u \<in> set (hits d ts)" for u
      using ih(4) [OF that] row fresh that by (auto simp: hits_def)
    with ih here row show ?thesis
      unfolding cleanup_hit [OF True quiet] hit cnt by (intro exI [of _ s'] exI [of _ "?t # ns"]) auto
  qed
qed (simp add: hits_def counted_def)

lemma mem_values:
  assumes "store_ok s"
  shows "c \<in> set (om_values s) \<longleftrightarrow> om_get s (tk_id c) = Some c"
proof
  assume "c \<in> set (om_values s)"
  then obtain i where "(i, c) \<in> set s" by (auto simp: om_values_def)
  with assms have "om_get s i = Some c" by (simp add: store_ok_def om_mem_get)
  with assms show "om_get s (tk_id c) = Some c" by (auto simp: store_ok_def)
qed (rule om_get_in_values)

lemma distinct_values:
  assumes "store_ok s"
  shows "distinct (map tk_id (om_values s))"
proof -
  have "tk_id v = k" if "(k, v) \<in> set s" for k v
    using assms that by (simp add: store_ok_def om_mem_get)
  then have "map tk_id (om_values s) = om_keys s" by (auto simp: om_values_def om_keys_def)
  with assms show ?thesis by (simp add: store_ok_def om_wf_def om_keys_def)
qed

lemma listed_rows:
  assumes "store_ok s"
  shows "distinct (map tk_id (listByWorkspace n s ws))"
    "t \<in> set (listByWorkspace n s ws) \<longleftrightarrow> tk_workspaceId t = ws \<and> store_get n s (tk_id t) = Some t"
proof -
  show "distinct (map tk_id (listByWorkspace n s ws))"
    using distinct_values [OF assms] by (simp add: listByWorkspace_def comp_def distinct_map_filter)
  have "t \<in> set (listByWorkspace n s ws)
      \<longleftrightarrow> (\<exists>c. om_get s (tk_id c) = Some c \<and> tk_workspaceId c = ws \<and> t = hydrateTask n c)"
    by (auto simp: listByWorkspace_def mem_values [OF assms])
  also have "\<dots> \<longleftrightarrow> tk_workspaceId t = ws \<and> store_get n s (tk_id t) = Some t"
  proof
    assume "tk_workspaceId t = ws \<and> store_get n s (tk_id t) = Some t"
    then obtain c where c: "om_get s (tk_id t) = Some c" "t = hydrateTask n c" "tk_workspaceId t = ws"
      by (auto simp: store_get_def)
    then have "tk_id c = tk_id t" "tk_workspaceId c = ws" by simp_all
    with c show "\<exists>c. om_get s (tk_id c) = Some c \<and> tk_workspaceId c = ws \<and> t = hydrateTask n c" by metis
  qed (auto simp: store_get_def)
  finally show "t \<in> set (listByWorkspace n s ws) \<longleftrightarrow> tk_workspaceId t = ws \<and> store_get n s (tk_id t) = Some t" .
qed

text \<open>The row of a cleaned card reads as the card did, without the dependency and with one comment more.\<close>

lemma cleaned_row:
  assumes "store_ok s" and t: "store_get n s (tk_id t) = Some t" and "row = saved_row (om_get s (tk_id t)) (cleaned_card env d k t)"
  shows "tk_id row = tk_id t" "tk_workspaceId row = tk_workspaceId t" "tk_status row = tk_status t"
    "tk_objective row = tk_objective t"
    "tk_dependencies row = filter (\<lambda>k. k \<noteq> dt_id d) (tk_dependencies t)"
    "tk_sessionIds row = tk_sessionIds t" "tk_laneSessions row = tk_laneSessions t"
    "map tc_body (tk_comments (hydrateTask m row)) = map tc_body (tk_comments t)
       @ [trim (buildDeletedDependencyNote (dt_id d) (dt_title d) (hasYamlMention (dt_id d) t))]"
proof -
  from t obtain c where g: "om_get s (tk_id t) = Some c" "hydrateTask n c = t"
    unfolding store_get_def by blast
  with assms(1) have "task_runs_ok c" unfolding store_ok_def by blast
  note c = g(1) g(2) [symmetric] this
  have runs: "mergeSessionIds (Some (tk_sessionIds c)) (Some (tk_sessionIds t)) = tk_sessionIds t"
      "mergeLaneSessions (Some (tk_laneSessions c)) (Some (tk_laneSessions t)) = tk_laneSessions t"
    using c(3) by (subst c(2), simp add: task_runs_ok_def merge_same)+
  show "tk_id row = tk_id t" "tk_workspaceId row = tk_workspaceId t" "tk_status row = tk_status t"
    "tk_objective row = tk_objective t" "tk_dependencies row = filter (\<lambda>k. k \<noteq> dt_id d) (tk_dependencies t)"
    "tk_sessionIds row = tk_sessionIds t" "tk_laneSessions row = tk_laneSessions t"
    unfolding assms(3) by (simp_all add: c(1) runs)
  have row: "tk_comments row = tk_comments (cleaned_card env d k t)" by (simp add: assms(3))
  have "tk_comments row \<noteq> []" by (metis cleaned_get(8) list.map_disc_iff row snoc_eq_iff_butlast)
  then have "tk_comments (hydrateTask m row) = tk_comments row" by (simp add: hydrateTaskComments_def)
  then show "map tc_body (tk_comments (hydrateTask m row)) = map tc_body (tk_comments t)
       @ [trim (buildDeletedDependencyNote (dt_id d) (dt_title d) (hasYamlMention (dt_id d) t))]"
    by (simp add: row)
qed

definition same_but_dependency :: "deleted_task \<Rightarrow> task \<Rightarrow> task \<Rightarrow> bool" where
  "same_but_dependency d t row =
     (tk_id row = tk_id t \<and> tk_workspaceId row = tk_workspaceId t \<and> tk_status row = tk_status t
      \<and> tk_objective row = tk_objective t \<and> tk_sessionIds row = tk_sessionIds t \<and> tk_laneSessions row = tk_laneSessions t
      \<and> tk_dependencies row = filter (\<lambda>k. k \<noteq> dt_id d) (tk_dependencies t))"

lemma cleaned_row_same:
  assumes "store_ok s" and "store_get n s (tk_id t) = Some t"
  shows "same_but_dependency d t (saved_row (om_get s (tk_id t)) (cleaned_card env d k t))"
  unfolding same_but_dependency_def by (intro conjI cleaned_row [OF assms refl])

lemma missed_row_same:
  assumes "store_get n s (tk_id t) = Some t" and "\<not> affected (dt_id d) t" and "tk_id t \<noteq> dt_id d"
  shows "\<exists>row. om_get s (tk_id t) = Some row \<and> same_but_dependency d t row"
proof -
  obtain c where c: "om_get s (tk_id t) = Some c" "hydrateTask n c = t"
    using assms(1) unfolding store_get_def by blast
  have no: "filter (\<lambda>k. k \<noteq> dt_id d) (tk_dependencies t) = tk_dependencies t"
    using assms(2,3) by (auto simp: affected_def hasStructuralRef_def intro!: filter_True)
  have "same_but_dependency d t c" unfolding same_but_dependency_def no by (simp add: c(2) [symmetric])
  with c(1) show ?thesis by blast
qed

lemma missed_id:
  assumes "distinct (map tk_id ts)" and "t \<in> set ts" and "\<not> affected (dt_id d) t"
  shows "tk_id t \<notin> tk_id ` set (hits d ts)"
proof
  assume "tk_id t \<in> tk_id ` set (hits d ts)"
  then obtain u where u: "u \<in> set ts" "affected (dt_id d) u" "tk_id u = tk_id t" by (auto simp: hits_def)
  with assms(1,2) have "u = t" by (simp add: distinct_map inj_on_def)
  with u assms(3) show False by simp
qed

abbreviation nothing_counted :: cleanup_result where
  "nothing_counted \<equiv> \<lparr>cr_structuralReferrerIds = [], cr_yamlMentionTaskIds = [], cr_updatedTaskIds = []\<rparr>"

lemma cleanup_rows:
  assumes ok: "store_ok s" and quiet: "\<And>j s. ce_between env j s = s" and ts: "ts = listByWorkspace n s (dt_workspaceId d)"
  shows "\<exists>s' told. cleanupDanglingDependencyReferences env n d s = (s', counted d (hits d ts) nothing_counted, told)
    \<and> map tk_id told = map tk_id (hits d ts)
    \<and> (\<forall>j. j \<notin> tk_id ` set (hits d ts) \<longrightarrow> om_get s' j = om_get s j)
    \<and> (\<forall>t\<in>set ts. affected (dt_id d) t \<longrightarrow> (\<exists>k. om_get s' (tk_id t) = Some (saved_row (om_get s (tk_id t)) (cleaned_card env d k t))))
    \<and> (\<forall>t\<in>set ts. tk_id t \<noteq> dt_id d \<longrightarrow> (\<exists>row. om_get s' (tk_id t) = Some row \<and> same_but_dependency d t row))
    \<and> (\<forall>k. dependency_met s' k = dependency_met s k)"
proof -
  have d: "distinct (map tk_id ts)" unfolding ts by (rule listed_rows(1) [OF ok])
  have got: "store_get n s (tk_id t) = Some t" if "t \<in> set ts" for t
    using that unfolding ts listed_rows(2) [OF ok] by simp
  from cleanup_loop_spec [of env, OF quiet d, of d 0 s nothing_counted "[]"]
  obtain s' told where run: "cleanupDanglingDependencyReferences env n d s = (s', counted d (hits d ts) nothing_counted, told)"
      "map tk_id told = map tk_id (hits d ts)"
    and same: "\<And>j. j \<notin> tk_id ` set (hits d ts) \<Longrightarrow> om_get s' j = om_get s j"
    and hit: "\<And>t. t \<in> set ts \<Longrightarrow> affected (dt_id d) t \<Longrightarrow>
      \<exists>k. om_get s' (tk_id t) = Some (saved_row (om_get s (tk_id t)) (cleaned_card env d k t))"
    unfolding cleanupDanglingDependencyReferences_def ts [symmetric] by (auto simp: hits_def)
  have row: "\<exists>row. om_get s' (tk_id t) = Some row \<and> same_but_dependency d t row" if t: "t \<in> set ts" "tk_id t \<noteq> dt_id d" for t
  proof (cases "affected (dt_id d) t")
    case True
    from hit [OF t(1) True] cleaned_row_same [OF ok got [OF t(1)]] show ?thesis by metis
  next
    case False
    from same [OF missed_id [OF d t(1) False]] missed_row_same [OF got [OF t(1)] False t(2)] show ?thesis by simp
  qed
  have "dependency_met s' k = dependency_met s k" for k
  proof (cases "k \<in> tk_id ` set (hits d ts)")
    case True
    then obtain t where t: "t \<in> set ts" "tk_id t = k" "tk_id t \<noteq> dt_id d" by (auto simp: hits_def affected_def)
    obtain c where "om_get s k = Some c" "hydrateTask n c = t"
      using got [OF t(1)] t(2) unfolding store_get_def by blast
    with row [OF t(1,3)] t(2) show ?thesis by (auto simp: dependency_met_def same_but_dependency_def)
  qed (simp add: dependency_met_def same)
  with run same hit row show ?thesis by blast
qed

text \<open>C29. After the cleanup that follows a deletion, when nothing else writes in between, no card of the workspace lists the deleted card as a dependency: the cards that listed it or mention its id in their objective are exactly those it reports and notifies about, each once; each gets one comment and loses the dependency, and keeps its objective, status, sessions and runs; all other cards read as before. So a pending card whose other dependencies are completed is ready.\<close>
theorem cleanup_leaves_nothing_dangling:
  assumes "store_ok s" and "\<And>j s. ce_between env j s = s"
  shows "\<exists>s' r told. cleanupDanglingDependencyReferences env n d s = (s', r, told)
    \<and> cr_updatedTaskIds r = map tk_id (filter (affected (dt_id d)) (listByWorkspace n s (dt_workspaceId d)))
    \<and> map tk_id told = cr_updatedTaskIds r \<and> distinct (cr_updatedTaskIds r)
    \<and> (\<forall>i. i \<notin> set (cr_updatedTaskIds r) \<longrightarrow> store_get m s' i = store_get m s i)
    \<and> (\<forall>t\<in>set (listByWorkspace n s (dt_workspaceId d)). affected (dt_id d) t \<longrightarrow>
        (\<exists>t'. store_get m s' (tk_id t) = Some t' \<and> tk_dependencies t' = filter (\<lambda>k. k \<noteq> dt_id d) (tk_dependencies t)
          \<and> map tc_body (tk_comments t') = map tc_body (tk_comments t)
              @ [trim (buildDeletedDependencyNote (dt_id d) (dt_title d) (hasYamlMention (dt_id d) t))]
          \<and> tk_objective t' = tk_objective t \<and> tk_status t' = tk_status t
          \<and> tk_sessionIds t' = tk_sessionIds t \<and> tk_laneSessions t' = tk_laneSessions t))
    \<and> (\<forall>t\<in>set (listByWorkspace n s (dt_workspaceId d)). tk_id t \<noteq> dt_id d \<longrightarrow>
        (\<exists>t'. store_get m s' (tk_id t) = Some t' \<and> dt_id d \<notin> set (tk_dependencies t')
          \<and> (tk_status t = TS_PENDING \<and> (\<forall>k\<in>set (tk_dependencies t). k \<noteq> dt_id d \<longrightarrow> dependency_met s k)
              \<longrightarrow> t' \<in> set (findReadyTasks m s' (dt_workspaceId d)))))"
proof -
  let ?ws = "dt_workspaceId d"
  let ?ts = "listByWorkspace n s ?ws"
  from cleanup_rows [OF assms refl, of n d] obtain s' told where
    run: "cleanupDanglingDependencyReferences env n d s = (s', counted d (hits d ?ts) nothing_counted, told)"
      "map tk_id told = map tk_id (hits d ?ts)"
    and same: "\<And>j. j \<notin> tk_id ` set (hits d ?ts) \<Longrightarrow> om_get s' j = om_get s j"
    and hit: "\<And>t. t \<in> set ?ts \<Longrightarrow> affected (dt_id d) t \<Longrightarrow>
      \<exists>k. om_get s' (tk_id t) = Some (saved_row (om_get s (tk_id t)) (cleaned_card env d k t))"
    and row: "\<And>t. t \<in> set ?ts \<Longrightarrow> tk_id t \<noteq> dt_id d \<Longrightarrow> \<exists>row. om_get s' (tk_id t) = Some row \<and> same_but_dependency d t row"
    and met: "\<And>k. dependency_met s' k = dependency_met s k" by blast
  have got: "store_get n s (tk_id t) = Some t" "tk_workspaceId t = ?ws" if "t \<in> set ?ts" for t
    using that listed_rows(2) [OF assms(1)] by blast+
  have ids: "cr_updatedTaskIds (counted d (hits d ?ts) nothing_counted) = map tk_id (hits d ?ts)"
    by (simp add: counted_def)
  have "distinct (map tk_id (hits d ?ts))"
    using listed_rows(1) [OF assms(1)] by (simp add: hits_def distinct_map_filter)
  moreover have "store_get m s' i = store_get m s i" if "i \<notin> set (map tk_id (hits d ?ts))" for i
    using same [of i] that by (simp add: store_get_def)
  moreover have "\<exists>t'. store_get m s' (tk_id t) = Some t' \<and> tk_dependencies t' = filter (\<lambda>k. k \<noteq> dt_id d) (tk_dependencies t)
          \<and> map tc_body (tk_comments t') = map tc_body (tk_comments t)
              @ [trim (buildDeletedDependencyNote (dt_id d) (dt_title d) (hasYamlMention (dt_id d) t))]
          \<and> tk_objective t' = tk_objective t \<and> tk_status t' = tk_status t
          \<and> tk_sessionIds t' = tk_sessionIds t \<and> tk_laneSessions t' = tk_laneSessions t"
    if t: "t \<in> set ?ts" "affected (dt_id d) t" for t
  proof -
    from hit [OF t] obtain k where k: "om_get s' (tk_id t) = Some (saved_row (om_get s (tk_id t)) (cleaned_card env d k t))" ..
    note cl = cleaned_row [OF assms(1) got(1) [OF t(1)] refl]
    show ?thesis unfolding store_get_def k by (simp add: cl del: hydrate_get(10) saved_row_get)
  qed
  moreover have "\<exists>t'. store_get m s' (tk_id t) = Some t' \<and> dt_id d \<notin> set (tk_dependencies t')
          \<and> (tk_status t = TS_PENDING \<and> (\<forall>k\<in>set (tk_dependencies t). k \<noteq> dt_id d \<longrightarrow> dependency_met s k)
              \<longrightarrow> t' \<in> set (findReadyTasks m s' ?ws))"
    if t: "t \<in> set ?ts" "tk_id t \<noteq> dt_id d" for t
  proof -
    from row [OF t] obtain r where r: "om_get s' (tk_id t) = Some r" "same_but_dependency d t r" by blast
    from r(1) have "r \<in> set (om_values s')" by (rule om_get_in_values)
    with r got(2) [OF t(1)] have "hydrateTask m r \<in> set (listByWorkspace m s' ?ws)"
      by (auto simp: listByWorkspace_def same_but_dependency_def)
    with r show ?thesis by (auto simp: store_get_def findReadyTasks_def list_all_iff met same_but_dependency_def)
  qed
  ultimately show ?thesis using run unfolding ids [symmetric] hits_def [symmetric] by (intro exI conjI) (auto simp: ids)
qed

text \<open>What other requests do while the cleanup waits for a save: if they move the store forward, the whole cleanup does, so no run is lost or reopened. But a card is written back as it was listed at the start: whatever another request made of its status, column or objective in between is undone, and a card deleted in between is stored again.\<close>
theorem cleanup_under_interference:
  "((\<forall>j s. store_le s (ce_between env j s)) \<longrightarrow> store_le s (fst (cleanupDanglingDependencyReferences env n d s)))
   \<and> (listByWorkspace n s (dt_workspaceId d) = [t] \<and> affected (dt_id d) t \<longrightarrow>
       (\<exists>t'. store_get m (fst (cleanupDanglingDependencyReferences env n d s)) (tk_id t) = Some t'
          \<and> tk_status t' = tk_status t \<and> tk_columnId t' = tk_columnId t \<and> tk_objective t' = tk_objective t))"
proof (intro conjI impI)
  assume "\<forall>j s. store_le s (ce_between env j s)"
  then show "store_le s (fst (cleanupDanglingDependencyReferences env n d s))"
    by (simp add: cleanupDanglingDependencyReferences_def cleanup_le)
next
  assume t: "listByWorkspace n s (dt_workspaceId d) = [t] \<and> affected (dt_id d) t"
  have col: "tk_columnId (saved_row old c) = tk_columnId c" "tk_columnId (cleaned_card env d k t) = tk_columnId t" for old c k
    by (simp_all add: saved_row_def cleaned_card_def Let_def)
  obtain i where i: "fst (cleanupDanglingDependencyReferences env n d s)
      = store_save i (ce_between env 0 s) (cleaned_card env d 0 t)"
    using t by (auto simp: cleanupDanglingDependencyReferences_def affected_def Let_def)
  show "\<exists>t'. store_get m (fst (cleanupDanglingDependencyReferences env n d s)) (tk_id t) = Some t'
      \<and> tk_status t' = tk_status t \<and> tk_columnId t' = tk_columnId t \<and> tk_objective t' = tk_objective t"
    unfolding i by (simp add: store_get_def save_eq col)
qed

section \<open>The hints handed to an agent\<close>

lemma set_unique_strings: "set (uniqueNonEmptyStrings vs) = {s. Some s \<in> set vs \<and> trim s \<noteq> []}"
  by (auto simp: uniqueNonEmptyStrings_def set_map_some)

definition hints_ok :: "string list option \<Rightarrow> bool" where
  "hints_ok v = (case v of None \<Rightarrow> True | Some ss \<Rightarrow> ss \<noteq> [] \<and> distinct ss \<and> (\<forall>s\<in>set ss. trim s \<noteq> []))"

lemma unique_strings_ok:
  "hints_ok (let values = uniqueNonEmptyStrings vs in if length values > 0 then Some values else None)"
  using set_unique_strings [of vs] by (auto simp: hints_ok_def Let_def uniqueNonEmptyStrings_def)

lemma unique_strings_set:
  "set (orDefault (let values = uniqueNonEmptyStrings vs in if length values > 0 then Some values else None) [])
     = {s. Some s \<in> set vs \<and> trim s \<noteq> []}"
  using set_unique_strings [of vs] by (auto simp: Let_def)

lemma own_hints_ok: "hints_ok (own_and_recommended field t)"
  by (simp only: own_and_recommended_def mergeTaskHintArrays_def unique_strings_ok)

lemma own_hints_handed:
  "Option.bind (tk_contextSearchSpec t) field = Some ss \<Longrightarrow> x \<in> set ss \<Longrightarrow> trim x \<noteq> []
     \<Longrightarrow> x \<in> set (orDefault (own_and_recommended field (Some t)) [])"
  unfolding own_and_recommended_def mergeTaskHintArrays_def unique_strings_set spread_both_def spec_items_def by auto

lemma history_ok: "hints_ok (collectKanbanTaskHistorySessionIds t)"
proof (cases t)
  case (Some c)
  then show ?thesis by (simp only: collectKanbanTaskHistorySessionIds_def option.case unique_strings_ok)
qed (simp add: collectKanbanTaskHistorySessionIds_def hints_ok_def)

lemma history_has:
  "trim x \<noteq> [] \<Longrightarrow> tk_triggerSessionId c = Some x \<or> x \<in> set (tk_sessionIds c) \<or> x \<in> ls_sessionId ` set (tk_laneSessions c)
     \<Longrightarrow> x \<in> set (orDefault (collectKanbanTaskHistorySessionIds (Some c)) [])"
  unfolding collectKanbanTaskHistorySessionIds_def option.case unique_strings_set by auto

text \<open>The hints handed to the agent of a card: there are none exactly when the card is in the backlog and nothing on it confirms its context. Otherwise every list that is handed over has an entry, no blank and no repeated entry, the query is trimmed and not blank, every hint the card itself has (blanks aside) is among them, and so is every session the card has run.\<close>
theorem harness_hints_clean:
  "(buildKanbanTaskAdaptiveHarnessOptions nowIso label loc role ty (Some t) = None
      \<longleftrightarrow> tk_columnId t = Some ''backlog'' \<and> \<not> hasConfirmedKanbanTaskAdaptiveContext nowIso (Some t))
   \<and> (\<forall>x. buildKanbanTaskAdaptiveHarnessOptions nowIso label loc role ty (Some t) = Some x \<longrightarrow>
        (\<forall>(own, handed) \<in> set [(sp_featureCandidates, hx_featureIds), (sp_relatedFiles, hx_filePaths),
             (sp_routeCandidates, hx_routeCandidates), (sp_apiCandidates, hx_apiCandidates),
             (sp_moduleHints, hx_moduleHints), (sp_symptomHints, hx_symptomHints)].
           hints_ok (handed x)
           \<and> (\<forall>ss s. Option.bind (tk_contextSearchSpec t) own = Some ss \<and> s \<in> set ss \<and> trim s \<noteq> [] \<longrightarrow> s \<in> set (orDefault (handed x) [])))
        \<and> otext_ok (hx_query x) \<and> hints_ok (hx_historySessionIds x)
        \<and> (\<forall>s. (tk_triggerSessionId t = Some s \<or> s \<in> set (tk_sessionIds t) \<or> s \<in> ls_sessionId ` set (tk_laneSessions t)) \<and> trim s \<noteq> []
             \<longrightarrow> s \<in> set (orDefault (hx_historySessionIds x) [])))"
proof (intro conjI allI impI)
  show "buildKanbanTaskAdaptiveHarnessOptions nowIso label loc role ty (Some t) = None
      \<longleftrightarrow> tk_columnId t = Some ''backlog'' \<and> \<not> hasConfirmedKanbanTaskAdaptiveContext nowIso (Some t)"
    by (simp add: buildKanbanTaskAdaptiveHarnessOptions_def shouldEnableKanbanTaskAdaptiveHarness_def)
next
  fix x assume x: "buildKanbanTaskAdaptiveHarnessOptions nowIso label loc role ty (Some t) = Some x"
  then have fields: "hx_featureIds x = own_and_recommended sp_featureCandidates (Some t)"
      "hx_filePaths x = own_and_recommended sp_relatedFiles (Some t)"
      "hx_routeCandidates x = own_and_recommended sp_routeCandidates (Some t)"
      "hx_apiCandidates x = own_and_recommended sp_apiCandidates (Some t)"
      "hx_moduleHints x = own_and_recommended sp_moduleHints (Some t)"
      "hx_symptomHints x = own_and_recommended sp_symptomHints (Some t)"
      "hx_historySessionIds x = collectKanbanTaskHistorySessionIds (Some t)"
      "hx_query x = resolveContextSearchQuery (Some t)"
    by (auto simp: buildKanbanTaskAdaptiveHarnessOptions_def collectContextSearchFeatureIds_def
        collectContextSearchFilePaths_def collectContextSearchRoutes_def collectContextSearchApis_def
        collectContextSearchModules_def collectContextSearchSymptoms_def split: if_splits)
  show "\<forall>(own, handed) \<in> set [(sp_featureCandidates, hx_featureIds), (sp_relatedFiles, hx_filePaths),
             (sp_routeCandidates, hx_routeCandidates), (sp_apiCandidates, hx_apiCandidates),
             (sp_moduleHints, hx_moduleHints), (sp_symptomHints, hx_symptomHints)].
           hints_ok (handed x)
           \<and> (\<forall>ss s. Option.bind (tk_contextSearchSpec t) own = Some ss \<and> s \<in> set ss \<and> trim s \<noteq> [] \<longrightarrow> s \<in> set (orDefault (handed x) []))"
    by (auto simp: fields own_hints_ok intro: own_hints_handed)
  show "hints_ok (hx_historySessionIds x)" by (simp add: fields history_ok)
  have "otext_ok (map_option trim v)" if "truthy (map_option trim v)" for v
    using that by (cases v) (simp_all add: text_ok_def)
  then show "otext_ok (hx_query x)" by (auto simp: fields resolveContextSearchQuery_def Let_def text_ok_def)
  fix s assume "(tk_triggerSessionId t = Some s \<or> s \<in> set (tk_sessionIds t) \<or> s \<in> ls_sessionId ` set (tk_laneSessions t)) \<and> trim s \<noteq> []"
  then show "s \<in> set (orDefault (hx_historySessionIds x) [])" unfolding fields by (intro history_has) auto
qed

section \<open>Witnesses\<close>

definition sample_card :: "string \<Rightarrow> string list \<Rightarrow> task" where
  "sample_card i deps = (createTask concrete_host 7 ''c1''
       (sample_params\<lparr>tp_id := i, tp_dependencies := Some deps, tp_jitContextSnapshot := None\<rparr>))
     \<lparr>tk_triggerSessionId := Some ''s1'', tk_laneSessions := [sample_run ''a'' LaneCompleted ''7'']\<rparr>"

definition sample_store :: task_store where
  "sample_store = store_save ''n'' (store_save ''n'' [] (sample_card ''p'' [''x''])) (sample_card ''q'' [])"

lemma sample_store_ok: "store_ok sample_store"
proof -
  have "task_runs_ok (sample_card ''p'' [''x''])" "task_runs_ok (sample_card ''q'' [])" by code_simp+
  moreover have "store_ok []" by (simp add: store_ok_def)
  ultimately show ?thesis unfolding sample_store_def by (intro save_ok)
qed

definition sample_env :: "(nat \<Rightarrow> task_store \<Rightarrow> task_store) \<Rightarrow> cleanup_env" where
  "sample_env between = \<lparr>ce_host = concrete_host, ce_newId = (\<lambda>i. ''c2''), ce_now = (\<lambda>i. 9), ce_between = between\<rparr>"

definition sample_deleted :: deleted_task where
  "sample_deleted = \<lparr>dt_id = ''x'', dt_title = ''X'', dt_workspaceId = ''w''\<rparr>"

theorem store_save_roundtrip_witness:
  "\<exists>c. store_get ''n'' sample_store ''p'' = Some c
     \<and> (\<forall>j. store_get ''k'' (store_save ''m'' sample_store c) j = store_get ''k'' sample_store j)"
proof -
  have "store_get ''n'' sample_store ''p'' \<noteq> None" by code_simp
  then obtain c where c: "store_get ''n'' sample_store ''p'' = Some c" by blast
  from store_save_roundtrip [OF sample_store_ok c] c show ?thesis by blast
qed

theorem store_runs_never_reopen_witness:
  "\<exists>c'. store_get ''n'' (fold write_step
      [WriteSave ''n'' ((sample_card ''p'' [])\<lparr>tk_laneSessions := [sample_run ''a'' LaneRunning ''7'']\<rparr>),
       WriteStatus 9 ''p'' TS_BLOCKED] sample_store) ''p'' = Some c' \<and> ended_in (tk_laneSessions c') ''a''"
proof -
  have "map_option tk_laneSessions (store_get ''n'' sample_store ''p'') = Some [sample_run ''a'' LaneCompleted ''7'']" by code_simp
  then obtain c where c: "store_get ''n'' sample_store ''p'' = Some c" "tk_laneSessions c = [sample_run ''a'' LaneCompleted ''7'']" by auto
  have "ended_in [sample_run ''a'' LaneCompleted ''7''] ''a''" by code_simp
  with store_runs_never_reopen [OF c(1)] c(2) show ?thesis by metis
qed

theorem cleanup_leaves_nothing_dangling_witness:
  "\<exists>s' r told t'. cleanupDanglingDependencyReferences (sample_env (\<lambda>j s. s)) ''n'' sample_deleted sample_store = (s', r, told)
     \<and> cr_updatedTaskIds r = [''p''] \<and> store_get ''n'' s' ''p'' = Some t' \<and> ''x'' \<notin> set (tk_dependencies t')
     \<and> t' \<in> set (findReadyTasks ''n'' s' ''w'')"
proof -
  let ?l = "listByWorkspace ''n'' sample_store (dt_workspaceId sample_deleted)"
  have ids: "map tk_id (filter (affected (dt_id sample_deleted)) ?l) = [''p'']" by code_simp
  have "list_ex (\<lambda>t. tk_id t = ''p'' \<and> tk_status t = TS_PENDING \<and> tk_dependencies t = [''x'']) ?l" by code_simp
  then obtain t where t: "t \<in> set ?l" "tk_id t = ''p''" "tk_status t = TS_PENDING" "tk_dependencies t = [''x'']"
    by (auto simp: list_ex_iff)
  have d: "dt_id sample_deleted = ''x''" "dt_workspaceId sample_deleted = ''w''" by (simp_all add: sample_deleted_def)
  have quiet: "ce_between (sample_env (\<lambda>j s. s)) j s = s" for j s by (simp add: sample_env_def)
  from cleanup_leaves_nothing_dangling [OF sample_store_ok quiet, of "''n''" sample_deleted "''n''"]
  obtain s' r told where run: "cleanupDanglingDependencyReferences (sample_env (\<lambda>j s. s)) ''n'' sample_deleted sample_store = (s', r, told)"
      "cr_updatedTaskIds r = [''p'']"
    and all: "\<forall>t\<in>set ?l. tk_id t \<noteq> dt_id sample_deleted \<longrightarrow>
        (\<exists>t'. store_get ''n'' s' (tk_id t) = Some t' \<and> dt_id sample_deleted \<notin> set (tk_dependencies t')
          \<and> (tk_status t = TS_PENDING \<and> (\<forall>k\<in>set (tk_dependencies t). k \<noteq> dt_id sample_deleted \<longrightarrow> dependency_met sample_store k)
              \<longrightarrow> t' \<in> set (findReadyTasks ''n'' s' (dt_workspaceId sample_deleted))))"
    unfolding ids by metis
  from all t d obtain t' where "store_get ''n'' s' ''p'' = Some t'" "''x'' \<notin> set (tk_dependencies t')"
      "t' \<in> set (findReadyTasks ''n'' s' ''w'')" by auto
  with run show ?thesis by blast
qed

theorem cleanup_under_interference_witness:
  "store_le sample_store (fst (cleanupDanglingDependencyReferences
      (sample_env (\<lambda>j s. updateStatus 9 s ''p'' TS_COMPLETED)) ''n'' sample_deleted sample_store))
   \<and> (let s = store_save ''n'' [] (sample_card ''p'' [''x'']) in
      store_get ''n'' (fst (cleanupDanglingDependencyReferences (sample_env (\<lambda>j s. store_delete s ''p'')) ''n'' sample_deleted s)) ''p'' \<noteq> None)"
proof -
  have le: "\<forall>j s. store_le s (ce_between (sample_env (\<lambda>j s. updateStatus 9 s ''p'' TS_COMPLETED)) j s)"
    by (simp add: sample_env_def updateStatus_le)
  let ?s = "store_save ''n'' [] (sample_card ''p'' [''x''])"
  let ?l = "listByWorkspace ''n'' ?s (dt_workspaceId sample_deleted)"
  have "map tk_id ?l = [''p''] \<and> list_all (affected (dt_id sample_deleted)) ?l" by code_simp
  then obtain t where t: "?l = [t]" "affected (dt_id sample_deleted) t" "tk_id t = ''p''" by (cases ?l) auto
  have "store_le sample_store (fst (cleanupDanglingDependencyReferences
      (sample_env (\<lambda>j s. updateStatus 9 s ''p'' TS_COMPLETED)) ''n'' sample_deleted sample_store))"
    using cleanup_under_interference [THEN conjunct1, THEN mp, OF le] .
  moreover have "store_get ''n'' (fst (cleanupDanglingDependencyReferences
      (sample_env (\<lambda>j s. store_delete s ''p'')) ''n'' sample_deleted ?s)) ''p'' \<noteq> None"
    using cleanup_under_interference [where env = "sample_env (\<lambda>j s. store_delete s ''p'')" and m = "''n''",
        THEN conjunct2, THEN mp, OF conjI, OF t(1,2)] t(3) by auto
  ultimately show ?thesis by (simp add: Let_def)
qed

theorem harness_hints_clean_witness:
  "\<exists>x. buildKanbanTaskAdaptiveHarnessOptions ''n'' ''label'' None None None (Some (sample_card ''p'' [])) = Some x
     \<and> ''s1'' \<in> set (orDefault (hx_historySessionIds x) []) \<and> hints_ok (hx_historySessionIds x)"
proof -
  let ?b = "buildKanbanTaskAdaptiveHarnessOptions ''n'' ''label'' None None None (Some (sample_card ''p'' []))"
  note clean = harness_hints_clean [of "''n''" "''label''" None None None "sample_card ''p'' []"]
  have "tk_columnId (sample_card ''p'' []) \<noteq> Some ''backlog''" by code_simp
  with clean [THEN conjunct1] have "?b \<noteq> None" by blast
  then obtain x where x: "?b = Some x" by blast
  have "tk_triggerSessionId (sample_card ''p'' []) = Some ''s1''" "trim ''s1'' \<noteq> []" by code_simp+
  with clean [THEN conjunct2, THEN spec, THEN mp, OF x] x show ?thesis by blast
qed

end
