(* ===== verification/LaneSettlement.thy ===== *)
theory LaneSettlement
  imports RetryPolicy TaskStore EventBus
begin

text \<open>
  How the record of a lane run follows the real end of its session:
  src/src/core/kanban/lane-session-settlement.ts. The outcome of a session is read from its history,
  a record that is still running is ended by it, and a rate limit gets its rerun time. Settling works
  on the in-memory task store; what other requests do to the store between its reads and its save is
  a field of the environment. The reader of the database (\<open>readPersistedSessionEndHistory\<close>) is an
  argument of its user, as it is in the code. \<open>stringify\<close> is \<open>JSON.stringify\<close>.
\<close>

section \<open>The outcome of a session\<close>

record history_entry =
  he_update :: "json option"
  he_createdAt :: "string option"

datatype session_outcome =
    OutcomeCompleted "string option"
  | OutcomeFailed lane_recovery_reason "string option" "string option"
  | OutcomeUnknown

text \<open>The session store as far as the outcome needs it; the second function gives the \<open>terminalAt\<close>
  of a session's activity, if it has one.\<close>

record live_sessions =
  lv_getHistory :: "string \<Rightarrow> history_entry list"
  lv_terminalAt :: "string \<Rightarrow> string option"

definition TURN_ACTIVITY :: "string list" where
  "TURN_ACTIVITY = [''user_message'', ''agent_message'', ''agent_message_chunk'', ''agent_thought_chunk'',
     ''tool_call'', ''tool_call_update'', ''plan'']"

definition isProcessExit :: "json \<Rightarrow> bool" where
  "isProcessExit update = (jprop (jprop update ''error'') ''code'' = JStr ''process_exited'')"

definition errorEntryOutcome :: "(json \<Rightarrow> string) \<Rightarrow> history_entry \<Rightarrow> json \<Rightarrow> session_outcome" where
  "errorEntryOutcome stringify entry update =
     (let err = jprop update ''error'';
          text' = (case err of JStr s \<Rightarrow> s | _ \<Rightarrow> stringify (if err = JUndef then JNull else err))
      in if classifyRetryableEnvironmentFailure (JStr text')
         then OutcomeFailed RateLimited (he_createdAt entry) (Some text')
         else OutcomeFailed AgentFailed (he_createdAt entry) None)"

definition exit_outcome :: "history_entry option \<Rightarrow> session_outcome" where
  "exit_outcome exit = (case exit of
     Some e \<Rightarrow> OutcomeFailed AgentFailed (he_createdAt e) None | None \<Rightarrow> OutcomeUnknown)"

text \<open>The loop from the newest entry back.\<close>

fun outcome_loop :: "(json \<Rightarrow> string) \<Rightarrow> history_entry list \<Rightarrow> history_entry option \<Rightarrow> session_outcome" where
  "outcome_loop stringify [] exit = exit_outcome exit"
| "outcome_loop stringify (entry # older) exit =
     (let update = orDefault (he_update entry) (JObj []);
          kind = jprop update ''sessionUpdate''
      in if kind = JStr ''turn_complete''
         then (if jprop update ''stopReason'' = JStr ''cancelled''
               then OutcomeFailed TurnCancelled (he_createdAt entry) None
               else OutcomeCompleted (he_createdAt entry))
         else if kind = JStr ''error''
         then (if isProcessExit update
               then outcome_loop stringify older (if exit = None then Some entry else exit)
               else errorEntryOutcome stringify entry update)
         else if (case kind of JStr k \<Rightarrow> k \<in> set TURN_ACTIVITY | _ \<Rightarrow> False) then exit_outcome exit
         else outcome_loop stringify older exit)"

definition resolveSessionOutcome :: "(json \<Rightarrow> string) \<Rightarrow> history_entry list \<Rightarrow> session_outcome" where
  "resolveSessionOutcome stringify entries = outcome_loop stringify (rev entries) None"

definition resolveLiveSessionOutcome :: "(json \<Rightarrow> string) \<Rightarrow> live_sessions \<Rightarrow> string \<Rightarrow> session_outcome" where
  "resolveLiveSessionOutcome stringify sessions sessionId =
     (case resolveSessionOutcome stringify (lv_getHistory sessions sessionId) of
        OutcomeUnknown \<Rightarrow> OutcomeUnknown
      | OutcomeCompleted endedAt \<Rightarrow>
          OutcomeCompleted (if truthy endedAt then endedAt else lv_terminalAt sessions sessionId)
      | OutcomeFailed reason endedAt evidence \<Rightarrow>
          OutcomeFailed reason (if truthy endedAt then endedAt else lv_terminalAt sessions sessionId) evidence)"

text \<open>The reader, if there is one, gives the history or fails (\<^const>\<open>None\<close>).\<close>

definition resolvePersistedSessionOutcome ::
  "(json \<Rightarrow> string) \<Rightarrow> string \<Rightarrow> (string \<Rightarrow> history_entry list option) option \<Rightarrow> session_outcome" where
  "resolvePersistedSessionOutcome stringify sessionId read =
     (case read of None \<Rightarrow> OutcomeUnknown
      | Some r \<Rightarrow> (case r sessionId of None \<Rightarrow> OutcomeUnknown | Some h \<Rightarrow> resolveSessionOutcome stringify h))"

section \<open>Ending a record\<close>

definition record_running :: "task \<Rightarrow> string \<Rightarrow> bool" where
  "record_running t sessionId = (map_option ls_status (getTaskLaneSession t (Some sessionId)) = Some LaneRunning)"

text \<open>The clock and the number drawn of one call.\<close>

record settle_clock =
  sc_host :: js_host
  sc_now :: int
  sc_random :: rat

definition sc_iso :: "settle_clock \<Rightarrow> string" where
  "sc_iso c = hostToISO (sc_host c) (sc_now c)"

definition endRunningLaneRecord ::
  "settle_clock \<Rightarrow> task \<Rightarrow> string \<Rightarrow> lane_status \<Rightarrow> string option \<Rightarrow> lane_recovery_reason option
     \<Rightarrow> task \<times> (retry_error + bool)" where
  "endRunningLaneRecord c t sessionId status completedAt recoveryReason =
     (if \<not> record_running t sessionId then (t, Inr False)
      else (case markTaskLaneSessionStatus (sc_host c) (sc_iso c) t (Some sessionId) status completedAt of
              (t1, Inl e) \<Rightarrow> (t1, Inl (MemoryError e))
            | (t1, Inr _) \<Rightarrow>
                (case recoveryReason of None \<Rightarrow> (t1, Inr True)
                 | Some reason \<Rightarrow>
                     (case upsertTaskLaneSession (sc_host c) (sc_iso c) t1
                             ((empty_patch sessionId)\<lparr>lp_recoveryReason := Some (Some reason)\<rparr>) of
                        (t2, Inl e) \<Rightarrow> (t2, Inl (MemoryError e))
                      | (t2, Inr _) \<Rightarrow> (t2, Inr True)))))"

definition planRerunOfEndedRateLimit ::
  "settle_clock \<Rightarrow> task \<Rightarrow> string \<Rightarrow> string \<Rightarrow> int \<Rightarrow> task \<times> (retry_error + unit)" where
  "planRerunOfEndedRateLimit c t sessionId evidence now =
     (let columnId = Option.bind (getTaskLaneSession t (Some sessionId)) ls_columnId in
      if \<not> truthy columnId \<or> columnId \<noteq> tk_columnId t then (t, Inr ())
      else apsnd (map_sum id (\<lambda>_. ()))
             (planRateLimitRetry (sc_host c) (sc_iso c) now (sc_random c) t (the columnId) sessionId evidence))"

definition endLaneRecordByOutcome ::
  "settle_clock \<Rightarrow> task \<Rightarrow> string \<Rightarrow> session_outcome \<Rightarrow> int option \<Rightarrow> task \<times> (retry_error + bool)" where
  "endLaneRecordByOutcome c t sessionId outcome optionsNow =
     (case outcome of
        OutcomeCompleted endedAt \<Rightarrow> endRunningLaneRecord c t sessionId LaneCompleted endedAt None
      | OutcomeFailed reason endedAt evidence \<Rightarrow>
          (case endRunningLaneRecord c t sessionId LaneFailed endedAt (Some reason) of
             (t1, Inl e) \<Rightarrow> (t1, Inl e)
           | (t1, Inr ended) \<Rightarrow>
               if ended \<and> reason = RateLimited
               then let endedAtMs = (if truthy endedAt then hostDateParse (sc_host c) (the endedAt) else None);
                        now = orDefault (nullish endedAtMs optionsNow) (sc_now c)
                    in (case planRerunOfEndedRateLimit c t1 sessionId (orDefault evidence []) now of
                          (t2, Inl e) \<Rightarrow> (t2, Inl e) | (t2, Inr _) \<Rightarrow> (t2, Inr ended))
               else (t1, Inr ended))
      | OutcomeUnknown \<Rightarrow> (t, Inr False))"

section \<open>Events\<close>

definition event_data :: "agent_event \<Rightarrow> string \<Rightarrow> json" where
  "event_data event key = jprop (JObj (ev_data event)) key"

definition isEndFailure :: "agent_event \<Rightarrow> bool" where
  "isEndFailure event = (ev_type event = AGENT_FAILED \<or> event_data event ''success'' = JBool False)"

definition reconcileExitAfterTurnEnd :: "(json \<Rightarrow> string) \<Rightarrow> agent_event \<Rightarrow> live_sessions \<Rightarrow> agent_event" where
  "reconcileExitAfterTurnEnd stringify event sessions =
     (case event_data event ''sessionId'' of
        JStr sessionId \<Rightarrow>
          if ev_type event \<noteq> AGENT_FAILED then event
          else (case resolveSessionOutcome stringify (lv_getHistory sessions sessionId) of
                  OutcomeCompleted _ \<Rightarrow> event\<lparr>ev_type := AGENT_COMPLETED,
                    ev_data := om_set (om_set (om_set (ev_data event) ''success'' (JBool True))
                      ''stopReason'' (JStr ''end_turn'')) ''reconciledFrom'' (JStr ''process_exit'')\<rparr>
                | _ \<Rightarrow> event)
      | _ \<Rightarrow> event)"

fun outcome_completed :: "session_outcome \<Rightarrow> bool" where
  "outcome_completed (OutcomeCompleted endedAt) = True"
| "outcome_completed (OutcomeFailed r endedAt ev) = False"
| "outcome_completed OutcomeUnknown = False"

fun outcome_endedAt :: "session_outcome \<Rightarrow> string option" where
  "outcome_endedAt (OutcomeCompleted endedAt) = endedAt"
| "outcome_endedAt (OutcomeFailed r endedAt ev) = endedAt"
| "outcome_endedAt OutcomeUnknown = None"

fun outcome_evidence :: "session_outcome \<Rightarrow> json" where
  "outcome_evidence (OutcomeFailed r endedAt (Some ev)) = JStr ev"
| "outcome_evidence _ = JUndef"

definition endForEvent ::
  "agent_event \<Rightarrow> session_outcome \<Rightarrow> string \<Rightarrow> lane_status \<times> lane_recovery_reason option" where
  "endForEvent event outcome evidence =
     (if ev_type event = AGENT_TIMEOUT then (LaneTimedOut, Some WatchdogInactivity)
      else if ev_type event = AGENT_COMPLETED \<and> event_data event ''stopReason'' = JStr ''cancelled''
      then (LaneFailed, Some TurnCancelled)
      else if \<not> isEndFailure event \<or> outcome_completed outcome then (LaneCompleted, None)
      else if isEnvironmentFailureMessage (event_data event ''error'') then (LaneFailed, Some EnvironmentFailure)
      else if classifyRetryableEnvironmentFailure (JStr evidence) then (LaneFailed, Some RateLimited)
      else (LaneFailed, Some AgentFailed))"

section \<open>Settling on the store\<close>

datatype settle_mode = SettleTeardown | SettleEvent

text \<open>What others do to the store before the card is read, and before it is saved.\<close>

record settle_env =
  se_clock :: settle_clock
  se_stringify :: "json \<Rightarrow> string"
  se_sessions :: live_sessions
  se_beforeRead :: "task_store \<Rightarrow> task_store"
  se_beforeSave :: "task_store \<Rightarrow> task_store"

definition findCardWithRunningRecord :: "string \<Rightarrow> task_store \<Rightarrow> string \<Rightarrow> string \<Rightarrow> string option" where
  "findCardWithRunningRecord nowIso s workspaceId sessionId =
     (if workspaceId = [] then None
      else map_option tk_id
        (List.find (\<lambda>t. record_running t sessionId) (listByWorkspace nowIso s workspaceId)))"

text \<open>The end of the record, for a card that was just read and has the running record.\<close>

definition settle_end ::
  "settle_env \<Rightarrow> agent_event \<Rightarrow> settle_mode \<Rightarrow> task \<Rightarrow> lane_session \<Rightarrow> lane_status \<times> lane_recovery_reason option" where
  "settle_end env event mode t entry =
     (let sessionId = ls_sessionId entry;
          outcome = resolveLiveSessionOutcome (se_stringify env) (se_sessions env) sessionId;
          leftColumn = (truthy (tk_columnId t) \<and> ls_columnId entry \<noteq> tk_columnId t);
          evidence = collectRateLimitEvidence False (event_data event ''error'') (outcome_evidence outcome) None
      in if mode = SettleTeardown \<or> leftColumn
         then (if outcome_completed outcome then LaneCompleted else LaneTransitioned, None)
         else endForEvent event outcome evidence)"

definition settle_card ::
  "settle_env \<Rightarrow> agent_event \<Rightarrow> settle_mode \<Rightarrow> task \<Rightarrow> lane_session \<Rightarrow> task \<times> (retry_error + unit)" where
  "settle_card env event mode t entry =
     (let sessionId = ls_sessionId entry;
          outcome = resolveLiveSessionOutcome (se_stringify env) (se_sessions env) sessionId;
          evidence = collectRateLimitEvidence False (event_data event ''error'') (outcome_evidence outcome) None;
          (status, recoveryReason) = settle_end env event mode t entry;
          completedAt = (if status = LaneCompleted \<and> outcome_completed outcome then outcome_endedAt outcome else None)
      in (case endRunningLaneRecord (se_clock env) t sessionId status completedAt recoveryReason of
            (t1, Inl e) \<Rightarrow> (t1, Inl e)
          | (t1, Inr ended) \<Rightarrow>
              if ended \<and> recoveryReason = Some RateLimited
              then planRerunOfEndedRateLimit (se_clock env) t1 sessionId evidence (sc_now (se_clock env))
              else (t1, Inr ())))"

text \<open>From the point where the card's id is known.\<close>

definition settle_found ::
  "settle_env \<Rightarrow> agent_event \<Rightarrow> settle_mode \<Rightarrow> string \<Rightarrow> string \<Rightarrow> task_store \<Rightarrow> task_store \<times> (retry_error + bool)" where
  "settle_found env event mode sessionId found s1 =
     (case store_get (sc_iso (se_clock env)) s1 found of
        None \<Rightarrow> (s1, Inr False)
      | Some t \<Rightarrow>
          (case getTaskLaneSession t (Some sessionId) of
             None \<Rightarrow> (s1, Inr False)
           | Some entry \<Rightarrow>
              if ls_status entry \<noteq> LaneRunning then (s1, Inr False)
              else (case settle_card env event mode t entry of
                      (t', Inl e) \<Rightarrow> (s1, Inl e)
                    | (t', Inr _) \<Rightarrow>
                        (store_save (sc_iso (se_clock env)) (se_beforeSave env s1)
                           (t'\<lparr>tk_updatedAt := sc_now (se_clock env)\<rparr>), Inr True))))"

definition settleEndedLaneSession ::
  "settle_env \<Rightarrow> agent_event \<Rightarrow> settle_mode \<Rightarrow> string option \<Rightarrow> task_store \<Rightarrow> task_store \<times> (retry_error + bool)" where
  "settleEndedLaneSession env event mode cardId s =
     (case event_data event ''sessionId'' of
        JStr sessionId \<Rightarrow>
          if sessionId = [] then (s, Inr False)
          else (case nullish cardId
                       (findCardWithRunningRecord (sc_iso (se_clock env)) s (ev_workspaceId event) sessionId) of
                  None \<Rightarrow> (s, Inr False)
                | Some found \<Rightarrow>
                   if found = [] then (s, Inr False)
                   else settle_found env event mode sessionId found (se_beforeRead env s))
      | _ \<Rightarrow> (s, Inr False))"

definition settleUnhandledLaneEnd ::
  "settle_env \<Rightarrow> agent_event \<Rightarrow> settle_mode \<Rightarrow> string option \<Rightarrow> task_store \<Rightarrow> task_store" where
  "settleUnhandledLaneEnd env event mode cardId s = fst (settleEndedLaneSession env event mode cardId s)"

end
