(* ===== verification/LaneSettlementProps.thy ===== *)
theory LaneSettlementProps
  imports LaneSettlement RetryProps TaskStoreProps
begin

text \<open>
  The outcome of a session is that of its latest turn; settling ends one running record, changes
  nothing else, and is done once, also when other requests write in between.
\<close>

section \<open>The latest turn decides\<close>

definition entry_update :: "history_entry \<Rightarrow> json" where
  "entry_update e = orDefault (he_update e) (JObj [])"

definition entry_kind :: "history_entry \<Rightarrow> json" where
  "entry_kind e = jprop (entry_update e) ''sessionUpdate''"

definition is_exit :: "history_entry \<Rightarrow> bool" where
  "is_exit e = (entry_kind e = JStr ''error'' \<and> isProcessExit (entry_update e))"

definition is_activity :: "history_entry \<Rightarrow> bool" where
  "is_activity e = (case entry_kind e of JStr k \<Rightarrow> k \<in> set TURN_ACTIVITY | _ \<Rightarrow> False)"

definition ends_turn :: "history_entry \<Rightarrow> bool" where
  "ends_turn e = (entry_kind e = JStr ''turn_complete'')"

text \<open>An entry that settles the question: a turn end, an error that is no process exit, or activity.\<close>

definition decisive :: "history_entry \<Rightarrow> bool" where
  "decisive e = (ends_turn e \<or> (entry_kind e = JStr ''error'' \<and> \<not> isProcessExit (entry_update e)) \<or> is_activity e)"

definition decided :: "(json \<Rightarrow> string) \<Rightarrow> history_entry \<Rightarrow> history_entry option \<Rightarrow> session_outcome" where
  "decided stringify e exit =
     (if ends_turn e
      then (if jprop (entry_update e) ''stopReason'' = JStr ''cancelled''
            then OutcomeFailed TurnCancelled (he_createdAt e) None else OutcomeCompleted (he_createdAt e))
      else if is_activity e then exit_outcome exit
      else errorEntryOutcome stringify e (entry_update e))"

lemma activity_not_error: "is_activity e \<Longrightarrow> entry_kind e \<noteq> JStr ''error'' \<and> entry_kind e \<noteq> JStr ''turn_complete''"
  by (auto simp: is_activity_def TURN_ACTIVITY_def)

lemma outcome_step:
  "outcome_loop stringify (e # es) exit =
     (if decisive e then decided stringify e exit
      else outcome_loop stringify es (if is_exit e \<and> exit = None then Some e else exit))"
  using activity_not_error [of e]
  by (auto simp: decisive_def decided_def is_exit_def ends_turn_def entry_kind_def entry_update_def is_activity_def Let_def)

lemma outcome_loop_spec:
  "outcome_loop stringify es exit =
     (case List.find decisive es of
        Some e \<Rightarrow> decided stringify e (nullish exit (List.find is_exit (takeWhile (\<lambda>x. \<not> decisive x) es)))
      | None \<Rightarrow> exit_outcome (nullish exit (List.find is_exit es)))"
proof (induction es arbitrary: exit)
  case (Cons e es)
  show ?case unfolding outcome_step using Cons by (cases exit) (auto split: option.split)
qed simp

lemma errorEntry_not_completed: "\<not> outcome_completed (errorEntryOutcome f e u)"
  by (simp add: errorEntryOutcome_def Let_def)

lemma exit_not_completed: "\<not> outcome_completed (exit_outcome x)"
  by (cases x) (simp_all add: exit_outcome_def)

text \<open>C30. The outcome of a session is decided by the newest entry of its history that is the end of a turn, an error other than the exit of the process, or a sign of a turn in progress: a turn end gives success, or a cancelled turn; an error gives a failure; a turn in progress, or no such entry at all, gives a failure if the process exited after it and is unknown otherwise. So a session counts as completed exactly when its newest such entry is the end of a turn that was not cancelled.\<close>
theorem session_outcome_of_latest_turn:
  "resolveSessionOutcome stringify h =
     (case List.find decisive (rev h) of
        Some e \<Rightarrow> decided stringify e (List.find is_exit (takeWhile (\<lambda>x. \<not> decisive x) (rev h)))
      | None \<Rightarrow> exit_outcome (List.find is_exit (rev h)))
   \<and> (outcome_completed (resolveSessionOutcome stringify h) \<longleftrightarrow>
        (\<exists>e. List.find decisive (rev h) = Some e \<and> ends_turn e \<and> jprop (entry_update e) ''stopReason'' \<noteq> JStr ''cancelled''))"
  by (auto simp: resolveSessionOutcome_def outcome_loop_spec decided_def errorEntry_not_completed exit_not_completed
      split: option.splits)

section \<open>Changing one run\<close>

definition only_run :: "string \<Rightarrow> task \<Rightarrow> task \<Rightarrow> bool" where
  "only_run i t t' =
     (t'\<lparr>tk_laneSessions := tk_laneSessions t, tk_jitContextSnapshot := tk_jitContextSnapshot t\<rparr> = t
      \<and> map ls_sessionId (tk_laneSessions t') = map ls_sessionId (tk_laneSessions t)
      \<and> filter (\<lambda>e. ls_sessionId e \<noteq> i) (tk_laneSessions t') = filter (\<lambda>e. ls_sessionId e \<noteq> i) (tk_laneSessions t))"

lemma only_run_refl [simp]: "only_run i t t"
  by (simp add: only_run_def)

lemma only_run_trans:
  assumes "only_run i t u" and "only_run i u v"
  shows "only_run i t v"
proof -
  have "v\<lparr>tk_laneSessions := tk_laneSessions t, tk_jitContextSnapshot := tk_jitContextSnapshot t\<rparr>
      = v\<lparr>tk_laneSessions := tk_laneSessions u, tk_jitContextSnapshot := tk_jitContextSnapshot u\<rparr>
         \<lparr>tk_laneSessions := tk_laneSessions t, tk_jitContextSnapshot := tk_jitContextSnapshot t\<rparr>" by simp
  also have "\<dots> = t" using assms by (simp only: only_run_def)
  finally show ?thesis using assms by (simp add: only_run_def)
qed

lemma only_run_get:
  assumes "only_run i t t'"
  shows "tk_id t' = tk_id t" "tk_sessionIds t' = tk_sessionIds t" "tk_status t' = tk_status t" "tk_columnId t' = tk_columnId t"
    "tk_triggerSessionId t' = tk_triggerSessionId t"
proof -
  let ?orig = "t'\<lparr>tk_laneSessions := tk_laneSessions t, tk_jitContextSnapshot := tk_jitContextSnapshot t\<rparr>"
  have eq: "?orig = t" using assms by (simp add: only_run_def)
  have "tk_id ?orig = tk_id t'" "tk_sessionIds ?orig = tk_sessionIds t'" "tk_status ?orig = tk_status t'"
    "tk_columnId ?orig = tk_columnId t'" "tk_triggerSessionId ?orig = tk_triggerSessionId t'" by simp_all
  then show "tk_id t' = tk_id t" "tk_sessionIds t' = tk_sessionIds t" "tk_status t' = tk_status t" "tk_columnId t' = tk_columnId t"
    "tk_triggerSessionId t' = tk_triggerSessionId t" unfolding eq by simp_all
qed

lemma only_run_put:
  assumes "session_index i t = Some k" and "ls_sessionId e = i"
  shows "only_run i t (fst (with_refresh host now (t\<lparr>tk_laneSessions := (tk_laneSessions t)[k := e]\<rparr>) x))"
proof -
  let ?u = "t\<lparr>tk_laneSessions := (tk_laneSessions t)[k := e]\<rparr>"
  obtain v where v: "fst (with_refresh host now ?u x) = ?u\<lparr>tk_jitContextSnapshot := v\<rparr>"
    using with_refresh_frame [of host now ?u x] by blast
  obtain as y bs where s: "tk_laneSessions t = as @ y # bs" "length as = k" "ls_sessionId y = i"
    using find_index_split [OF assms(1) [unfolded session_index_def]] by blast
  then have "(tk_laneSessions t)[k := e] = as @ e # bs" by (auto simp: list_update_append)
  then show ?thesis unfolding only_run_def v using s assms(2) by simp
qed

lemma mark_only: "only_run i t (fst (markTaskLaneSessionStatus host now t (Some i) st ca))"
proof (cases rule: mark_cases [of "Some i" t host now st ca])
  case (marked s k e)
  then have e: "ls_sessionId e = i" and k: "session_index i t = Some k" by simp_all
  show ?thesis unfolding marked(6) by (rule only_run_put [OF k e])
qed simp

lemma has_index: "getTaskLaneSession t (Some i) = Some e \<Longrightarrow> \<exists>k. session_index i t = Some k \<and> tk_laneSessions t ! k = e \<and> i \<noteq> [] \<and> ls_sessionId e = i"
  using find_by_index [of "\<lambda>e. ls_sessionId e = i" "tk_laneSessions t"]
  by (auto simp: getTaskLaneSession_def session_index_def truthy_def dest: find_Some_iff_set split: if_splits)

lemma upsert_known:
  assumes "getTaskLaneSession t (Some (lp_sessionId p)) = Some e"
  shows "only_run (lp_sessionId p) t (fst (upsertTaskLaneSession host now t p))"
    and "getTaskLaneSession (fst (upsertTaskLaneSession host now t p)) (Some (lp_sessionId p)) = Some (assign_lane_session now p e)"
proof -
  from has_index [OF assms] obtain k where k: "session_index (lp_sessionId p) t = Some k" "tk_laneSessions t ! k = e"
      "lp_sessionId p \<noteq> []" by blast
  have up: "upsertTaskLaneSession host now t p = with_refresh host now
      (t\<lparr>tk_laneSessions := (tk_laneSessions t)[k := assign_lane_session now p e]\<rparr>) (assign_lane_session now p e)"
    using k by (simp add: upsertTaskLaneSession_def Let_def)
  have id: "ls_sessionId (assign_lane_session now p e) = lp_sessionId p" by (simp add: assign_lane_session_def Let_def)
  show "only_run (lp_sessionId p) t (fst (upsertTaskLaneSession host now t p))"
    unfolding up by (rule only_run_put [OF k(1) id])
  have "upserted now t p = assign_lane_session now p e" using k by (simp add: upserted_def)
  then show "getTaskLaneSession (fst (upsertTaskLaneSession host now t p)) (Some (lp_sessionId p)) = Some (assign_lane_session now p e)"
    using put_first_find [of ls_sessionId "upserted now t p" "tk_laneSessions t"] k(3) id
    by (simp add: upsert_eq getTaskLaneSession_def)
qed

text \<open>What a patch without a status leaves of a record.\<close>

lemma assign_keeps:
  "lp_status p = None \<Longrightarrow> ls_status (assign_lane_session now p e) = ls_status e"
  "ls_recoveryReason (assign_lane_session now p e) = orDefault (lp_recoveryReason p) (ls_recoveryReason e)"
  "lp_completedAt p = None \<Longrightarrow> ls_completedAt (assign_lane_session now p e) = ls_completedAt e"
  "lp_columnId p = None \<Longrightarrow> ls_columnId (assign_lane_session now p e) = ls_columnId e"
  by (simp_all add: assign_lane_session_def Let_def)

lemma empty_patch_get [simp]:
  "lp_sessionId (empty_patch i) = i" "lp_status (empty_patch i) = None" "lp_completedAt (empty_patch i) = None"
  "lp_columnId (empty_patch i) = None" "lp_recoveryReason (empty_patch i) = None"
  by (simp_all add: empty_patch_def)

text \<open>The ended record: its status and reason, which the rerun plan leaves alone.\<close>

definition ended_as :: "lane_status \<Rightarrow> lane_recovery_reason option \<Rightarrow> lane_session \<Rightarrow> task \<Rightarrow> bool" where
  "ended_as st reason e t' = (\<exists>e'. getTaskLaneSession t' (Some (ls_sessionId e)) = Some e' \<and> ls_status e' = st
     \<and> ls_columnId e' = ls_columnId e
     \<and> ls_recoveryReason e' = (case reason of None \<Rightarrow> ls_recoveryReason e | Some r \<Rightarrow> Some r))"

lemma end_running:
  assumes "endRunningLaneRecord c t i st ca reason = (t', Inr b)"
  shows "b \<longleftrightarrow> record_running t i" "\<not> b \<Longrightarrow> t' = t" "only_run i t t'"
    "b \<Longrightarrow> getTaskLaneSession t (Some i) = Some e \<Longrightarrow> ended_as st reason e t'"
proof -
  show "b \<longleftrightarrow> record_running t i" "\<not> b \<Longrightarrow> t' = t"
    using assms by (auto simp: endRunningLaneRecord_def split: if_splits prod.splits sum.splits option.splits)
  let ?m = "markTaskLaneSessionStatus (sc_host c) (sc_iso c) t (Some i) st ca"
  let ?p = "\<lambda>r. (empty_patch i)\<lparr>lp_recoveryReason := Some (Some r)\<rparr>"
  have "only_run i t t' \<and> (b \<longrightarrow> getTaskLaneSession t (Some i) = Some e \<longrightarrow> ended_as st reason e t')"
  proof (cases "record_running t i")
    case False
    with assms show ?thesis by (auto simp: endRunningLaneRecord_def)
  next
    case True
    then obtain o' where o: "getTaskLaneSession t (Some i) = Some o'" by (auto simp: record_running_def)
    have ne: "i \<noteq> []" "ls_sessionId o' = i" using has_index [OF o] by auto
    have got: "getTaskLaneSession (fst ?m) (Some i) = Some (marked_session (sc_iso c) st ca o')"
      using mark_done(1) [OF ne(1)] o by simp
    show ?thesis
    proof (cases reason)
      case None
      then have "t' = fst ?m" using assms True by (auto simp: endRunningLaneRecord_def split: prod.splits sum.splits)
      with None o ne got mark_only show ?thesis by (auto simp: ended_as_def marked_session_def)
    next
      case (Some r)
      have t': "t' = fst (upsertTaskLaneSession (sc_host c) (sc_iso c) (fst ?m) (?p r))"
        using assms True Some by (auto simp: endRunningLaneRecord_def split: prod.splits sum.splits)
      have known: "getTaskLaneSession (fst ?m) (Some (lp_sessionId (?p r))) = Some (marked_session (sc_iso c) st ca o')"
        using got by simp
      show ?thesis
        using upsert_known [OF known, where host = "sc_host c" and now = "sc_iso c"] mark_only [of i t "sc_host c" "sc_iso c" st ca] o ne Some
        by (auto simp: t' ended_as_def assign_keeps intro: only_run_trans)
    qed
  qed
  then show "only_run i t t'" "b \<Longrightarrow> getTaskLaneSession t (Some i) = Some e \<Longrightarrow> ended_as st reason e t'" by blast+
qed

lemma plan_rerun:
  assumes "planRerunOfEndedRateLimit c t i evidence now = (t', Inr u)" and "getTaskLaneSession t (Some i) = Some e"
  shows "only_run i t t'" "\<exists>e'. getTaskLaneSession t' (Some i) = Some e' \<and> ls_status e' = ls_status e
     \<and> ls_columnId e' = ls_columnId e \<and> ls_recoveryReason e' = ls_recoveryReason e"
proof -
  let ?up = "\<lambda>v. upsertTaskLaneSession (sc_host c) (sc_iso c) t ((empty_patch i)\<lparr>lp_retryAfterAt := Some (Some v)\<rparr>)"
  have known: "getTaskLaneSession t (Some (lp_sessionId ((empty_patch i)\<lparr>lp_retryAfterAt := Some (Some v)\<rparr>))) = Some e" for v
    using assms(2) by simp
  have "t' = t \<or> (\<exists>v. t' = fst (?up v))"
    using assms(1) by (auto simp: planRerunOfEndedRateLimit_def Let_def planRateLimitRetry_def with_retry_at_def
        split: if_splits option.splits prod.splits sum.splits) (metis fst_conv)+
  then have "only_run i t t' \<and> (\<exists>e'. getTaskLaneSession t' (Some i) = Some e' \<and> ls_status e' = ls_status e
     \<and> ls_columnId e' = ls_columnId e \<and> ls_recoveryReason e' = ls_recoveryReason e)"
    using assms(2) upsert_known [OF known, where host = "sc_host c" and now = "sc_iso c"] by (auto simp: assign_keeps)
  then show "only_run i t t'" "\<exists>e'. getTaskLaneSession t' (Some i) = Some e' \<and> ls_status e' = ls_status e
     \<and> ls_columnId e' = ls_columnId e \<and> ls_recoveryReason e' = ls_recoveryReason e" by blast+
qed

section \<open>Settling\<close>

lemma settle_card_run:
  assumes "settle_card env event mode t e = (t', Inr u)" and "getTaskLaneSession t (Some i) = Some e" and "ls_status e = LaneRunning"
  shows "only_run i t t'" "ended_as (fst (settle_end env event mode t e)) (snd (settle_end env event mode t e)) e t'"
proof -
  obtain st reason where end': "settle_end env event mode t e = (st, reason)" by fastforce
  have i: "ls_sessionId e = i" using has_index [OF assms(2)] by blast
  from assms(1) obtain ca t1 b ev where t1: "endRunningLaneRecord (se_clock env) t i st ca reason = (t1, Inr b)"
    and rest: "(t1, Inr ()) = (t', Inr u) \<or> planRerunOfEndedRateLimit (se_clock env) t1 i ev (sc_now (se_clock env)) = (t', Inr u)"
    by (auto simp: settle_card_def Let_def end' i split: prod.splits sum.splits if_splits)
  have run: "record_running t i" using assms(2,3) by (simp add: record_running_def)
  note one = end_running [OF t1]
  have as: "ended_as st reason e t1" using one(4) one(1) run assms(2) by blast
  then obtain e1 where e1: "getTaskLaneSession t1 (Some i) = Some e1" "ls_status e1 = st" "ls_columnId e1 = ls_columnId e"
      "ls_recoveryReason e1 = (case reason of None \<Rightarrow> ls_recoveryReason e | Some r \<Rightarrow> Some r)"
    by (auto simp: ended_as_def i)
  have "only_run i t t' \<and> ended_as st reason e t'"
    using rest
  proof
    assume "(t1, Inr ()) = (t', Inr u)"
    with one(3) as show ?thesis by simp
  next
    assume "planRerunOfEndedRateLimit (se_clock env) t1 i ev (sc_now (se_clock env)) = (t', Inr u)"
    from plan_rerun [OF this e1(1)] e1 one(3) show ?thesis by (auto simp: ended_as_def i intro: only_run_trans)
  qed
  then show "only_run i t t'" "ended_as (fst (settle_end env event mode t e)) (snd (settle_end env event mode t e)) e t'"
    by (simp_all add: end')
qed

lemma merge_one_run:
  assumes d: "distinct (map ls_sessionId stored)" and ids: "map ls_sessionId inc = map ls_sessionId stored"
    and others: "filter (\<lambda>e. ls_sessionId e \<noteq> i) inc = filter (\<lambda>e. ls_sessionId e \<noteq> i) stored"
  shows "mergeLaneSessions (Some stored) (Some inc) = map (\<lambda>e. if ls_sessionId e = i then merged_entry stored e else e) inc"
proof -
  have "merged_entry stored e = e" if "e \<in> set inc" "ls_sessionId e \<noteq> i" for e
  proof -
    have "e \<in> set (filter (\<lambda>e. ls_sessionId e \<noteq> i) stored)" unfolding others [symmetric] using that by simp
    then have "e \<in> set stored" by simp
    then show ?thesis using counterpart_distinct [OF d] by (simp add: merged_entry_def mergeLaneSession_def Let_def fill_self)
  qed
  then have "map (merged_entry stored) inc = map (\<lambda>e. if ls_sessionId e = i then merged_entry stored e else e) inc" by simp
  moreover have "ls_sessionId ` set inc = ls_sessionId ` set stored" by (metis ids list.set_map)
  ultimately show ?thesis unfolding merge_lists by (simp add: filter_empty_conv)
qed

lemma find_map_key: "(\<And>x. key (f x) = key x) \<Longrightarrow> List.find (\<lambda>x. key x = k) (map f xs) = map_option f (List.find (\<lambda>x. key x = k) xs)"
  by (induction xs) auto

lemma merged_entry_ended:
  assumes "ls_status e \<noteq> LaneRunning"
  shows "ls_status (merged_entry stored e) = ls_status e"
  using assms by (auto simp: merged_entry_def mergeLaneSession_def Let_def fill_keeps split: option.split)

text \<open>The row saved for a card with one run ended.\<close>

lemma saved_run:
  fixes now :: int
  assumes ok: "task_runs_ok c" and t: "hydrateTask n c = t" and only: "only_run i t t'"
    and as: "ended_as st reason e t'" and i: "ls_sessionId e = i" and st: "st \<noteq> LaneRunning"
  defines "row \<equiv> saved_row (Some c) (t'\<lparr>tk_updatedAt := now\<rparr>)"
  shows "map_option ls_status (getTaskLaneSession row (Some i)) = Some st"
    "filter (\<lambda>e. ls_sessionId e \<noteq> i) (tk_laneSessions row) = filter (\<lambda>e. ls_sessionId e \<noteq> i) (tk_laneSessions t)"
    "tk_sessionIds row = tk_sessionIds t" "tk_status row = tk_status t"
proof -
  have lanes: "tk_laneSessions c = tk_laneSessions t" "tk_sessionIds c = tk_sessionIds t" using t by auto
  note frame = only_run_get [OF only]
  let ?f = "\<lambda>x. if ls_sessionId x = i then merged_entry (tk_laneSessions t) x else x"
  have row: "tk_laneSessions row = map ?f (tk_laneSessions t')"
    using merge_one_run [of "tk_laneSessions t" "tk_laneSessions t'" i] ok only lanes
    by (simp add: row_def task_runs_ok_def only_run_def)
  from as obtain e' where e': "getTaskLaneSession t' (Some i) = Some e'" "ls_status e' = st" by (auto simp: ended_as_def i)
  have "getTaskLaneSession row (Some i) = Some (?f e')"
    using e'(1) find_map_key [of ls_sessionId ?f i "tk_laneSessions t'"]
    by (auto simp: getTaskLaneSession_def row truthy_def split: if_splits)
  then show "map_option ls_status (getTaskLaneSession row (Some i)) = Some st"
    using e'(2) st merged_entry_ended [of e'] by simp
  show "filter (\<lambda>e. ls_sessionId e \<noteq> i) (tk_laneSessions row) = filter (\<lambda>e. ls_sessionId e \<noteq> i) (tk_laneSessions t)"
    using only unfolding row only_run_def by (auto simp: filter_map comp_def cong: map_cong intro!: map_idI)
  show "tk_sessionIds row = tk_sessionIds t" using ok lanes frame by (simp add: row_def task_runs_ok_def merge_same)
  show "tk_status row = tk_status t" using frame by (simp add: row_def)
qed

text \<open>The events that may end a run as completed: no failure, no timeout, no cancelled turn.\<close>

definition reports_success :: "agent_event \<Rightarrow> bool" where
  "reports_success event \<longleftrightarrow> \<not> isEndFailure event \<and> ev_type event \<noteq> AGENT_TIMEOUT
     \<and> \<not> (ev_type event = AGENT_COMPLETED \<and> event_data event ''stopReason'' = JStr ''cancelled'')"

definition in_run_column :: "task \<Rightarrow> lane_session \<Rightarrow> bool" where
  "in_run_column t e \<longleftrightarrow> \<not> truthy (tk_columnId t) \<or> ls_columnId e = tk_columnId t"

lemma settle_end_facts:
  fixes mode :: settle_mode
  defines "outcome e env \<equiv> resolveLiveSessionOutcome (se_stringify env) (se_sessions env) (ls_sessionId e)"
  shows "fst (settle_end env event mode t e) \<noteq> LaneRunning"
    "mode = SettleTeardown \<or> \<not> in_run_column t e \<Longrightarrow> fst (settle_end env event mode t e) \<in> {LaneCompleted, LaneTransitioned}"
    "fst (settle_end env event mode t e) = LaneCompleted
       \<Longrightarrow> outcome_completed (outcome e env) \<or> mode = SettleEvent \<and> in_run_column t e \<and> reports_success event"
  by (cases mode; auto simp: settle_end_def Let_def endForEvent_def outcome_def in_run_column_def reports_success_def split: if_splits)+

definition settled_run ::
  "settle_env \<Rightarrow> agent_event \<Rightarrow> settle_mode \<Rightarrow> task_store \<Rightarrow> task_store \<Rightarrow> string \<Rightarrow> string \<Rightarrow> task \<Rightarrow> lane_session \<Rightarrow> task \<Rightarrow> bool" where
  "settled_run env event mode s1 s' sid i t e t' =
     (store_get (sc_iso (se_clock env)) s1 i = Some t \<and> getTaskLaneSession t (Some sid) = Some e \<and> ls_status e = LaneRunning
      \<and> settle_card env event mode t e = (t', Inr ())
      \<and> s' = store_save (sc_iso (se_clock env)) (se_beforeSave env s1) (t'\<lparr>tk_updatedAt := sc_now (se_clock env)\<rparr>))"

lemma settle_found_cases:
  assumes "settle_found env event mode sid i s1 = (s', r)"
  shows "(r \<noteq> Inr True \<and> s' = s1) \<or> (r = Inr True \<and> (\<exists>t e t'. settled_run env event mode s1 s' sid i t e t'))"
proof (cases "store_get (sc_iso (se_clock env)) s1 i")
  case (Some t)
  note t = this
  show ?thesis
  proof (cases "getTaskLaneSession t (Some sid)")
    case (Some e)
    obtain t' x where x: "settle_card env event mode t e = (t', x)" by fastforce
    show ?thesis using assms t Some x by (cases x) (auto simp: settle_found_def settled_run_def split: if_splits)
  qed (use assms t in \<open>auto simp: settle_found_def\<close>)
qed (use assms in \<open>auto simp: settle_found_def\<close>)

lemma settle_cases:
  assumes "settleEndedLaneSession env event mode cardId s = (s', r)"
  shows "(r \<noteq> Inr True \<and> (s' = s \<or> s' = se_beforeRead env s))
    \<or> (r = Inr True \<and> (\<exists>sid i t e t'. event_data event ''sessionId'' = JStr sid \<and> settled_run env event mode (se_beforeRead env s) s' sid i t e t'))"
proof (cases "\<exists>sid. event_data event ''sessionId'' = JStr sid \<and> sid \<noteq> []")
  case True
  then obtain sid where sid: "event_data event ''sessionId'' = JStr sid" "sid \<noteq> []" by blast
  show ?thesis
  proof (cases "nullish cardId (findCardWithRunningRecord (sc_iso (se_clock env)) s (ev_workspaceId event) sid)")
    case None
    with assms sid show ?thesis by (auto simp: settleEndedLaneSession_def)
  next
    case (Some i)
    show ?thesis
    proof (cases "i = []")
      case False
      with assms sid Some have "settle_found env event mode sid i (se_beforeRead env s) = (s', r)"
        by (simp add: settleEndedLaneSession_def)
      from settle_found_cases [OF this] sid(1) show ?thesis by blast
    qed (use assms sid Some in \<open>auto simp: settleEndedLaneSession_def\<close>)
  qed
next
  case False
  with assms show ?thesis by (auto simp: settleEndedLaneSession_def split: json.splits if_splits)
qed

lemma store_get_any_time: "store_get n s i = store_get m s i"
  using hydrate_any_time [of n _ m] by (simp add: store_get_def cong: map_option_cong)

lemma settle_again:
  assumes "store_get n s i = Some t" and "map_option ls_status (getTaskLaneSession t (Some sid)) = Some st" and "st \<noteq> LaneRunning"
    and "event_data event ''sessionId'' = JStr sid" and "se_beforeRead env s = s"
  shows "settleEndedLaneSession env event mode (Some i) s = (s, Inr False)"
  using assms store_get_any_time [of "sc_iso (se_clock env)" s i n]
  by (auto simp: settleEndedLaneSession_def settle_found_def)

text \<open>The row saved for the card over whatever is stored by then: the run is ended as it was settled.\<close>

lemma saved_over_any:
  assumes as: "ended_as st reason e t'" and i: "ls_sessionId e = i" and st: "st \<noteq> LaneRunning"
  shows "map_option ls_status (getTaskLaneSession (saved_row old (t'\<lparr>tk_updatedAt := now\<rparr>)) (Some i)) = Some st"
proof -
  from as i obtain e' where e': "getTaskLaneSession t' (Some i) = Some e'" "ls_status e' = st" by (auto simp: ended_as_def)
  then have found: "List.find (\<lambda>x. ls_sessionId x = i) (tk_laneSessions t') = Some e'" "i \<noteq> []"
    by (auto simp: getTaskLaneSession_def truthy_def split: if_splits)
  have kept: "ls_status (merged_entry stored e') = st" for stored using merged_entry_ended [of e' stored] e'(2) st by simp
  have "\<exists>f. List.find (\<lambda>x. ls_sessionId x = i) (mergeLaneSessions old' (Some (tk_laneSessions t'))) = Some f \<and> ls_status f = st" for old'
  proof (cases old')
    case None
    then show ?thesis using found(1) e'(2) by (simp add: merge_new)
  next
    case (Some stored)
    then show ?thesis
      using found(1) kept [of stored] find_map_key [of ls_sessionId "merged_entry stored" i "tk_laneSessions t'"]
      by (simp add: merge_lists find_append)
  qed
  then show ?thesis using found(2) by (auto simp: getTaskLaneSession_def truthy_def)
qed

text \<open>C12. Settling the end of a session ends one run and nothing else, whatever other requests write before the card is read and before it is saved. Either nothing is written, also when an error occurs, or the card it read had the session's run on record as running, and afterwards that run has ended, no other card differs from what was stored, and of the card no session, run or end of a run is lost; when nothing was written between the read and the save, every other run and the session ids are as they were. The card keeps the status it was read with. When the card was ended by the user or has left the run's column, the run never ends as failed or timed out. A run ends as completed only when the session's own outcome is a completed turn, or when an event that is no failure, no timeout and no cancelled turn arrives while the card is in the run's column. Settling the same session again changes nothing.\<close>
theorem settle_ends_one_run:
  assumes "store_ok (se_beforeRead env s)" and "settleEndedLaneSession env event mode cardId s = (s', r)"
  defines "read \<equiv> se_beforeRead env s" and "stored \<equiv> se_beforeSave env (se_beforeRead env s)"
  shows "(r \<noteq> Inr True \<longrightarrow> s' = s \<or> s' = read)
    \<and> (r = Inr True \<longrightarrow> (\<exists>sid i t e t'. event_data event ''sessionId'' = JStr sid
         \<and> store_get n read i = Some t \<and> getTaskLaneSession t (Some sid) = Some e \<and> ls_status e = LaneRunning
         \<and> store_get n s' i = Some t' \<and> (\<forall>j. j \<noteq> i \<longrightarrow> store_get n s' j = store_get n stored j) \<and> store_le stored s'
         \<and> map_option ls_status (getTaskLaneSession t' (Some sid)) = Some (fst (settle_end env event mode t e))
         \<and> fst (settle_end env event mode t e) \<noteq> LaneRunning \<and> tk_status t' = tk_status t
         \<and> (stored = read \<longrightarrow> filter (\<lambda>x. ls_sessionId x \<noteq> sid) (tk_laneSessions t') = filter (\<lambda>x. ls_sessionId x \<noteq> sid) (tk_laneSessions t)
              \<and> tk_sessionIds t' = tk_sessionIds t)
         \<and> (mode = SettleTeardown \<or> \<not> in_run_column t e
              \<longrightarrow> fst (settle_end env event mode t e) \<in> {LaneCompleted, LaneTransitioned})
         \<and> (fst (settle_end env event mode t e) = LaneCompleted \<longrightarrow>
              outcome_completed (resolveLiveSessionOutcome (se_stringify env) (se_sessions env) sid)
              \<or> mode = SettleEvent \<and> in_run_column t e \<and> reports_success event)
         \<and> (se_beforeRead env s' = s' \<longrightarrow> settleEndedLaneSession env event mode' (Some i) s' = (s', Inr False))))"
proof (cases "r = Inr True")
  case False
  with settle_cases [OF assms(2)] show ?thesis by (auto simp: read_def)
next
  case True
  with settle_cases [OF assms(2)] obtain sid i t e u where ev: "event_data event ''sessionId'' = JStr sid"
    and settled: "settled_run env event mode read s' sid i t e u" unfolding read_def by blast
  then have got: "store_get (sc_iso (se_clock env)) read i = Some t" and e: "getTaskLaneSession t (Some sid) = Some e"
      "ls_status e = LaneRunning" "settle_card env event mode t e = (u, Inr ())"
    and saved: "s' = store_save (sc_iso (se_clock env)) stored (u\<lparr>tk_updatedAt := sc_now (se_clock env)\<rparr>)"
    unfolding settled_run_def stored_def read_def by blast+
  let ?st = "fst (settle_end env event mode t e)"
  let ?row = "saved_row (om_get stored i) (u\<lparr>tk_updatedAt := sc_now (se_clock env)\<rparr>)"
  have get: "store_get n read i = Some t" using got store_get_any_time by metis
  then obtain c where c: "om_get read i = Some c" "hydrateTask n c = t" unfolding store_get_def by blast
  with assms(1) have ok: "task_runs_ok c" "tk_id c = i" by (auto simp: store_ok_def read_def)
  have sid: "ls_sessionId e = sid" using has_index [OF e(1)] by blast
  note run = settle_card_run [OF e(3,1,2)]
  have "tk_id u = i" using only_run_get(1) [OF run(1)] c(2) ok(2) by auto
  then have s': "s' = om_set stored i ?row" by (simp add: saved save_eq)
  have lanes: "getTaskLaneSession (hydrateTask n ?row) (Some sid) = getTaskLaneSession ?row (Some sid)"
    by (simp add: getTaskLaneSession_def)
  have now': "store_get n s' i = Some (hydrateTask n ?row)" by (simp add: s' store_get_def)
  have st: "map_option ls_status (getTaskLaneSession (hydrateTask n ?row) (Some sid)) = Some ?st"
    unfolding lanes by (rule saved_over_any [OF run(2) sid settle_end_facts(1)])
  have status: "tk_status (hydrateTask n ?row) = tk_status t" using only_run_get [OF run(1)] by simp
  have rest: "filter (\<lambda>x. ls_sessionId x \<noteq> sid) (tk_laneSessions (hydrateTask n ?row)) = filter (\<lambda>x. ls_sessionId x \<noteq> sid) (tk_laneSessions t)
      \<and> tk_sessionIds (hydrateTask n ?row) = tk_sessionIds t" if "stored = read"
    using saved_run(2,3) [OF ok(1) c(2) run(1) run(2) sid settle_end_facts(1)] c(1) that by simp
  have others: "\<forall>j. j \<noteq> i \<longrightarrow> store_get n s' j = store_get n stored j" by (simp add: s' store_get_def)
  have le: "store_le stored s'" unfolding saved by (rule save_le)
  have again: "settleEndedLaneSession env event mode' (Some i) s' = (s', Inr False)" if "se_beforeRead env s' = s'"
    by (rule settle_again [OF now' st settle_end_facts(1) ev that])
  note facts = settle_end_facts [where env = env and event = event and mode = mode and t = t and e = e, unfolded sid]
  show ?thesis
    using True ev get e(1,2) now' others le st status rest facts again by blast
qed

lemma run_in_list: "map_option ls_status (getTaskLaneSession t (Some sid)) = Some st \<Longrightarrow>
    \<exists>x\<in>set (tk_laneSessions t). ls_sessionId x = sid \<and> ls_status x = st"
  by (auto simp: getTaskLaneSession_def dest: find_Some_iff_set split: if_splits)

lemma merge_ends:
  assumes "x \<in> set inc" and "ls_status x \<noteq> LaneRunning"
  shows "\<exists>y\<in>set (mergeLaneSessions old (Some inc)). ls_sessionId y = ls_sessionId x \<and> ls_status y \<noteq> LaneRunning"
proof (cases old)
  case None
  with assms show ?thesis by (auto simp: merge_new)
next
  case (Some stored)
  have "merged_entry stored x \<in> set (mergeLaneSessions old (Some inc))" using assms by (simp add: Some merge_lists)
  moreover have "ls_sessionId (merged_entry stored x) = ls_sessionId x"
    "ls_status (merged_entry stored x) \<noteq> LaneRunning" using assms merged_entry_ended by simp_all
  ultimately show ?thesis by blast
qed

text \<open>When other requests write while a session's end is settled, the settling still only moves the store forward: what they recorded of sessions and runs is kept and no ended run reads as running again, and the settled run is saved as ended; and if nothing is settled, nothing is written.\<close>
theorem settle_under_interference:
  assumes "settleEndedLaneSession env event mode cardId s = (s', r)"
  shows "(r \<noteq> Inr True \<longrightarrow> s' = s \<or> s' = se_beforeRead env s)
    \<and> (r = Inr True \<longrightarrow> store_le (se_beforeSave env (se_beforeRead env s)) s'
        \<and> (\<exists>i t' sid. event_data event ''sessionId'' = JStr sid \<and> om_get s' i = Some t'
             \<and> (\<exists>x\<in>set (tk_laneSessions t'). ls_sessionId x = sid \<and> ls_status x \<noteq> LaneRunning)))"
proof (cases "r = Inr True")
  case False
  with settle_cases [OF assms] show ?thesis by blast
next
  case True
  with settle_cases [OF assms] obtain sid i t e t' where ev: "event_data event ''sessionId'' = JStr sid"
    and settled: "settled_run env event mode (se_beforeRead env s) s' sid i t e t'" by blast
  from settled have e: "getTaskLaneSession t (Some sid) = Some e" "ls_status e = LaneRunning"
      "settle_card env event mode t e = (t', Inr ())"
    and s': "s' = store_save (sc_iso (se_clock env)) (se_beforeSave env (se_beforeRead env s)) (t'\<lparr>tk_updatedAt := sc_now (se_clock env)\<rparr>)"
    unfolding settled_run_def by blast+
  have sid: "ls_sessionId e = sid" using has_index [OF e(1)] by blast
  obtain e' where e': "getTaskLaneSession t' (Some sid) = Some e'" "ls_status e' = fst (settle_end env event mode t e)"
    using settle_card_run(2) [OF e(3,1,2)] by (auto simp: ended_as_def sid)
  have "\<exists>x\<in>set (tk_laneSessions t'). ls_sessionId x = sid \<and> ls_status x \<noteq> LaneRunning"
    using run_in_list [of t' sid "fst (settle_end env event mode t e)"] e' settle_end_facts(1) [of env event mode t e] by auto
  then have "\<exists>y\<in>set (mergeLaneSessions old (Some (tk_laneSessions t'))). ls_sessionId y = sid \<and> ls_status y \<noteq> LaneRunning" for old
    using merge_ends by blast
  then have "\<exists>row. om_get s' (tk_id t') = Some row \<and> (\<exists>x\<in>set (tk_laneSessions row). ls_sessionId x = sid \<and> ls_status x \<noteq> LaneRunning)"
    by (simp add: s' save_eq)
  moreover have "store_le (se_beforeSave env (se_beforeRead env s)) s'" unfolding s' by (rule save_le)
  ultimately show ?thesis using True ev by blast
qed

lemma outcome_not_running:
  "\<not> record_running t sid \<Longrightarrow> endLaneRecordByOutcome c t sid outcome optNow = (t, Inr False)"
  by (cases outcome) (simp_all add: endLaneRecordByOutcome_def endRunningLaneRecord_def)

lemma ended_not_running: "ended_as st reason e t \<Longrightarrow> ls_sessionId e = i \<Longrightarrow> st \<noteq> LaneRunning \<Longrightarrow> \<not> record_running t i"
  by (auto simp: ended_as_def record_running_def)

text \<open>The failed outcome: the record ended, and the rerun perhaps planned.\<close>

lemma failed_recorded:
  assumes "endLaneRecordByOutcome c t sid (OutcomeFailed reason endedAt ev) optNow = (t', Inr b)"
  shows "b \<longleftrightarrow> record_running t sid" "\<not> b \<Longrightarrow> t' = t" "only_run sid t t'"
    "b \<Longrightarrow> getTaskLaneSession t (Some sid) = Some e \<Longrightarrow> ended_as LaneFailed (Some reason) e t'"
proof -
  from assms obtain t1 b1 where t1: "endRunningLaneRecord c t sid LaneFailed endedAt (Some reason) = (t1, Inr b1)"
    by (auto simp: endLaneRecordByOutcome_def split: prod.splits sum.splits)
  with assms obtain now where t': "b1 = b" "t' = t1 \<or> b \<and> (\<exists>u. planRerunOfEndedRateLimit c t1 sid (orDefault ev []) now = (t', Inr u))"
    by (auto simp: endLaneRecordByOutcome_def Let_def split: prod.splits sum.splits if_splits)
  note one = end_running [OF t1]
  show b: "b \<longleftrightarrow> record_running t sid" using one(1) t'(1) by simp
  show "\<not> b \<Longrightarrow> t' = t" using one(2) t' by blast
  have "only_run sid t t' \<and> (b \<longrightarrow> getTaskLaneSession t (Some sid) = Some e \<longrightarrow> ended_as LaneFailed (Some reason) e t')"
  proof (cases "t' = t1")
    case True
    with one(3) one(4) t'(1) show ?thesis by blast
  next
    case False
    with t' obtain u where u: "planRerunOfEndedRateLimit c t1 sid (orDefault ev []) now = (t', Inr u)" and "b" by blast
    with b obtain o' where o: "getTaskLaneSession t (Some sid) = Some o'" by (auto simp: record_running_def)
    then have id: "ls_sessionId o' = sid" using has_index by blast
    from one(4) [OF _ o] t'(1) \<open>b\<close> obtain e1 where e1: "getTaskLaneSession t1 (Some sid) = Some e1" "ls_status e1 = LaneFailed"
        "ls_columnId e1 = ls_columnId o'" "ls_recoveryReason e1 = Some reason" by (auto simp: ended_as_def id)
    from plan_rerun [OF u e1(1)] e1 one(3) o id show ?thesis by (auto simp: ended_as_def intro: only_run_trans)
  qed
  then show "only_run sid t t'" "b \<Longrightarrow> getTaskLaneSession t (Some sid) = Some e \<Longrightarrow> ended_as LaneFailed (Some reason) e t'" by blast+
qed

text \<open>Recording the outcome of an ended session on its card: nothing changes when the outcome is unknown or the run had ended before; otherwise the run is ended, completed if its session was and failed with the outcome's reason if not, and no other run changes.\<close>
theorem outcome_recorded_once:
  assumes "endLaneRecordByOutcome c t sid outcome optNow = (t', Inr b)"
  shows "(b \<longleftrightarrow> record_running t sid \<and> outcome \<noteq> OutcomeUnknown) \<and> (\<not> b \<longrightarrow> t' = t) \<and> only_run sid t t'
    \<and> (b \<longrightarrow> (\<exists>e. getTaskLaneSession t' (Some sid) = Some e
          \<and> (case outcome of OutcomeCompleted endedAt \<Rightarrow> ls_status e = LaneCompleted
             | OutcomeFailed reason endedAt ev \<Rightarrow> ls_status e = LaneFailed \<and> ls_recoveryReason e = Some reason
             | OutcomeUnknown \<Rightarrow> False)))
    \<and> endLaneRecordByOutcome c t' sid outcome optNow = (t', Inr False)"
proof -
  have main: "(b \<longleftrightarrow> record_running t sid \<and> outcome \<noteq> OutcomeUnknown) \<and> (\<not> b \<longrightarrow> t' = t) \<and> only_run sid t t'
    \<and> (\<forall>e. b \<longrightarrow> getTaskLaneSession t (Some sid) = Some e \<longrightarrow>
         (\<exists>st r. st \<noteq> LaneRunning \<and> ended_as st r e t' \<and> (case outcome of OutcomeCompleted endedAt \<Rightarrow> st = LaneCompleted
             | OutcomeFailed reason endedAt ev \<Rightarrow> st = LaneFailed \<and> r = Some reason | OutcomeUnknown \<Rightarrow> False)))"
  proof (cases outcome)
    case (OutcomeCompleted endedAt)
    with assms have "endRunningLaneRecord c t sid LaneCompleted endedAt None = (t', Inr b)" by (simp add: endLaneRecordByOutcome_def)
    from end_running [OF this] OutcomeCompleted show ?thesis by fastforce
  next
    case (OutcomeFailed reason endedAt ev)
    from failed_recorded [OF assms [unfolded OutcomeFailed]] OutcomeFailed show ?thesis by fastforce
  next
    case OutcomeUnknown
    with assms show ?thesis by (simp add: endLaneRecordByOutcome_def)
  qed
  have rec: "\<exists>e. getTaskLaneSession t (Some sid) = Some e \<and> ls_sessionId e = sid" if b
    using main that has_index by (fastforce simp: record_running_def)
  have after: "\<not> record_running t' sid \<or> outcome = OutcomeUnknown"
    using main rec ended_not_running by (cases b) blast+
  then have "endLaneRecordByOutcome c t' sid outcome optNow = (t', Inr False)"
    using outcome_not_running by (auto simp: endLaneRecordByOutcome_def)
  moreover have "\<exists>e. getTaskLaneSession t' (Some sid) = Some e
          \<and> (case outcome of OutcomeCompleted endedAt \<Rightarrow> ls_status e = LaneCompleted
             | OutcomeFailed reason endedAt ev \<Rightarrow> ls_status e = LaneFailed \<and> ls_recoveryReason e = Some reason
             | OutcomeUnknown \<Rightarrow> False)" if b
  proof -
    from rec [OF that] obtain e where e: "getTaskLaneSession t (Some sid) = Some e" "ls_sessionId e = sid" by blast
    with main that obtain st r where "ended_as st r e t'" "case outcome of OutcomeCompleted endedAt \<Rightarrow> st = LaneCompleted
             | OutcomeFailed reason endedAt ev \<Rightarrow> st = LaneFailed \<and> r = Some reason | OutcomeUnknown \<Rightarrow> False" by blast
    with e show ?thesis by (cases outcome) (auto simp: ended_as_def)
  qed
  ultimately show ?thesis using main by blast
qed

section \<open>Witnesses\<close>

definition update_entry :: "string \<Rightarrow> (string \<times> json) list \<Rightarrow> history_entry" where
  "update_entry kind rest = \<lparr>he_update = Some (JObj ((''sessionUpdate'', JStr kind) # rest)), he_createdAt = Some ''9''\<rparr>"

definition sample_history :: "history_entry list" where
  "sample_history = [update_entry ''agent_message'' [], update_entry ''turn_complete'' [(''stopReason'', JStr ''end_turn'')],
     update_entry ''error'' [(''error'', JObj [(''code'', JStr ''process_exited'')])]]"

definition sample_settle :: "(task_store \<Rightarrow> task_store) \<Rightarrow> settle_env" where
  "sample_settle between = \<lparr>se_clock = \<lparr>sc_host = concrete_host, sc_now = 9, sc_random = 0\<rparr>, se_stringify = (\<lambda>v. []),
     se_sessions = \<lparr>lv_getHistory = (\<lambda>i. sample_history), lv_terminalAt = (\<lambda>i. None)\<rparr>,
     se_beforeRead = id, se_beforeSave = between\<rparr>"

definition sample_end :: agent_event where
  "sample_end = \<lparr>ev_type = AGENT_FAILED, ev_agentId = ''a'', ev_workspaceId = ''w'',
     ev_data = [(''sessionId'', JStr ''s1'')], ev_timestamp = 9\<rparr>"

definition running_store :: task_store where
  "running_store = store_save ''n'' [] ((sample_card ''p'' [])\<lparr>tk_laneSessions := [sample_run ''s1'' LaneRunning ''7'']\<rparr>)"

lemma running_store_ok: "store_ok running_store"
proof -
  have "task_runs_ok ((sample_card ''p'' [])\<lparr>tk_laneSessions := [sample_run ''s1'' LaneRunning ''7'']\<rparr>)" by code_simp
  then show ?thesis unfolding running_store_def by (intro save_ok) (simp_all add: store_ok_def)
qed

lemma sample_settled: "snd (settleEndedLaneSession (sample_settle id) sample_end SettleEvent None running_store) = Inr True"
  by code_simp

theorem settle_ends_one_run_witness:
  "\<exists>i t. store_get ''n'' running_store i = Some t
     \<and> settleEndedLaneSession (sample_settle id) sample_end SettleTeardown (Some i)
         (fst (settleEndedLaneSession (sample_settle id) sample_end SettleEvent None running_store))
       = (fst (settleEndedLaneSession (sample_settle id) sample_end SettleEvent None running_store), Inr False)"
proof -
  let ?r = "settleEndedLaneSession (sample_settle id) sample_end SettleEvent None running_store"
  have eq: "?r = (fst ?r, Inr True)" using sample_settled by (metis prod.collapse)
  have before: "se_beforeRead (sample_settle id) x = x" for x by (simp add: sample_settle_def)
  have "store_ok (se_beforeRead (sample_settle id) running_store)" using running_store_ok before by simp
  from settle_ends_one_run [OF this eq, of "''n''" SettleTeardown] before show ?thesis by metis
qed

theorem settle_under_interference_witness:
  "store_le (updateStatus 9 running_store ''p'' TS_BLOCKED)
     (fst (settleEndedLaneSession (sample_settle (\<lambda>s. updateStatus 9 s ''p'' TS_BLOCKED)) sample_end SettleEvent None running_store))"
proof -
  let ?env = "sample_settle (\<lambda>s. updateStatus 9 s ''p'' TS_BLOCKED)"
  let ?r = "settleEndedLaneSession ?env sample_end SettleEvent None running_store"
  have "snd ?r = Inr True" by code_simp
  then have eq: "?r = (fst ?r, Inr True)" by (metis prod.collapse)
  have "se_beforeSave ?env (se_beforeRead ?env running_store) = updateStatus 9 running_store ''p'' TS_BLOCKED"
    by (simp add: sample_settle_def)
  with settle_under_interference [OF eq] show ?thesis by metis
qed

theorem outcome_recorded_once_witness:
  "\<exists>t'. endLaneRecordByOutcome (se_clock (sample_settle id)) sample_moving ''b'' (OutcomeFailed RateLimited None (Some ''x'')) None = (t', Inr True)
     \<and> map_option ls_recoveryReason (getTaskLaneSession t' (Some ''b'')) = Some (Some RateLimited)"
proof -
  let ?r = "endLaneRecordByOutcome (se_clock (sample_settle id)) sample_moving ''b'' (OutcomeFailed RateLimited None (Some ''x'')) None"
  have "snd ?r = Inr True" by code_simp
  then have eq: "?r = (fst ?r, Inr True)" by (metis prod.collapse)
  from outcome_recorded_once [OF eq] have "map_option ls_recoveryReason (getTaskLaneSession (fst ?r) (Some ''b'')) = Some (Some RateLimited)"
    by auto
  with eq show ?thesis by blast
qed

end
