(* ===== verification/JsAsync.thy ===== *)
theory JsAsync
  imports JsBase
begin

text \<open>
  Asynchronous functions on a shared state. A function runs without interruption up to its next
  \<open>await\<close>; there other calls may run and change the state. An action takes the state, gives the state
  it leaves and either its result or what it throws; \<open>pause others\<close> is an \<open>await\<close>, where \<open>others\<close> says what
  the other calls do to the state. The locale holds the rules by which a relation between states that
  every piece respects is respected by the whole function.
\<close>

type_synonym ('s, 'e, 'a) action = "'s \<Rightarrow> 's \<times> ('e + 'a)"

definition ret :: "'a \<Rightarrow> ('s, 'e, 'a) action" where
  "ret x = (\<lambda>s. (s, Inr x))"

definition throw :: "'e \<Rightarrow> ('s, 'e, 'a) action" where
  "throw e = (\<lambda>s. (s, Inl e))"

definition andThen :: "('s, 'e, 'a) action \<Rightarrow> ('a \<Rightarrow> ('s, 'e, 'b) action) \<Rightarrow> ('s, 'e, 'b) action" where
  "andThen m f = (\<lambda>s. case m s of (s', Inl e) \<Rightarrow> (s', Inl e) | (s', Inr x) \<Rightarrow> f x s')"

definition next_do :: "('s, 'e, 'a) action \<Rightarrow> ('s, 'e, 'b) action \<Rightarrow> ('s, 'e, 'b) action" where
  "next_do m k = andThen m (\<lambda>_. k)"

definition catching :: "('s, 'e, 'a) action \<Rightarrow> ('e \<Rightarrow> ('s, 'e, 'a) action) \<Rightarrow> ('s, 'e, 'a) action" where
  "catching m h = (\<lambda>s. case m s of (s', Inl e) \<Rightarrow> h e s' | (s', Inr x) \<Rightarrow> (s', Inr x))"

definition gets :: "('s \<Rightarrow> 'a) \<Rightarrow> ('s, 'e, 'a) action" where
  "gets f = (\<lambda>s. (s, Inr (f s)))"

definition modify :: "('s \<Rightarrow> 's) \<Rightarrow> ('s, 'e, unit) action" where
  "modify f = (\<lambda>s. (f s, Inr ()))"

definition when_do :: "bool \<Rightarrow> ('s, 'e, unit) action \<Rightarrow> ('s, 'e, unit) action" where
  "when_do b m = (if b then m else ret ())"

fun for_each :: "('a \<Rightarrow> ('s, 'e, unit) action) \<Rightarrow> 'a list \<Rightarrow> ('s, 'e, unit) action" where
  "for_each f [] = ret ()"
| "for_each f (x # xs) = next_do (f x) (for_each f xs)"

named_theorems run_simps

lemma run_ret [run_simps]: "ret x s = (s, Inr x)"
  by (simp add: ret_def)

lemma run_throw [run_simps]: "throw e s = (s, Inl e)"
  by (simp add: throw_def)

lemma run_gets [run_simps]: "gets f s = (s, Inr (f s))"
  by (simp add: gets_def)

lemma run_modify [run_simps]: "modify f s = (f s, Inr ())"
  by (simp add: modify_def)

lemma run_when [run_simps]: "when_do b m s = (if b then m s else (s, Inr ()))"
  by (simp add: when_do_def ret_def)

lemma run_andThen [run_simps]:
  "andThen m f s = (case m s of (s', Inl e) \<Rightarrow> (s', Inl e) | (s', Inr x) \<Rightarrow> f x s')"
  by (simp add: andThen_def)

lemma run_next [run_simps]:
  "next_do m k s = (case m s of (s', Inl e) \<Rightarrow> (s', Inl e) | (s', Inr x) \<Rightarrow> k s')"
  by (simp add: next_do_def andThen_def)

lemma run_catching [run_simps]:
  "catching m h s = (case m s of (s', Inl e) \<Rightarrow> h e s' | (s', Inr x) \<Rightarrow> (s', Inr x))"
  by (simp add: catching_def)

text \<open>The laws of a sequence of actions.\<close>

lemma andThen_ret [simp]: "andThen (ret x) f = f x" "andThen m ret = m"
  by (auto simp: fun_eq_iff run_simps split: prod.splits sum.splits)

lemma andThen_assoc: "andThen (andThen m f) g = andThen m (\<lambda>x. andThen (f x) g)"
  by (auto simp: fun_eq_iff run_simps split: prod.splits sum.splits)

lemma for_each_append: "for_each f (xs @ ys) = next_do (for_each f xs) (for_each f ys)"
  by (induction xs) (simp_all add: next_do_def andThen_assoc)

section \<open>What every piece respects, the whole respects\<close>

locale guarantee =
  fixes le :: "'s \<Rightarrow> 's \<Rightarrow> bool"
  assumes le_refl: "le s s"
    and le_trans: "le s t \<Longrightarrow> le t u \<Longrightarrow> le s u"
begin

definition keeps :: "('s, 'e, 'a) action \<Rightarrow> bool" where
  "keeps m \<longleftrightarrow> (\<forall>s. le s (fst (m s)))"

lemma keepsD: "keeps m \<Longrightarrow> le s (fst (m s))"
  by (simp add: keeps_def)

lemma keeps_step: "keeps m \<Longrightarrow> m s = (s', r) \<Longrightarrow> le s s'"
  unfolding keeps_def by (metis fst_conv)

lemma keeps_ret: "keeps (ret x)"
  by (simp add: keeps_def run_simps le_refl)

lemma keeps_throw: "keeps (throw e)"
  by (simp add: keeps_def run_simps le_refl)

lemma keeps_gets: "keeps (gets f)"
  by (simp add: keeps_def run_simps le_refl)

lemma keeps_modify: "(\<And>s. le s (f s)) \<Longrightarrow> keeps (modify f)"
  by (simp add: keeps_def run_simps)

lemma keeps_andThen: "keeps m \<Longrightarrow> (\<And>x. keeps (f x)) \<Longrightarrow> keeps (andThen m f)"
  unfolding keeps_def run_andThen
  by (auto split: prod.split sum.split) (metis fst_conv le_trans)+

lemma keeps_next: "keeps m \<Longrightarrow> keeps k \<Longrightarrow> keeps (next_do m k)"
  unfolding next_do_def by (rule keeps_andThen)

lemma keeps_catching: "keeps m \<Longrightarrow> (\<And>e. keeps (h e)) \<Longrightarrow> keeps (catching m h)"
  unfolding keeps_def run_catching
  by (auto split: prod.split sum.split) (metis fst_conv le_trans)+

lemma keeps_when: "keeps m \<Longrightarrow> keeps (when_do b m)"
  by (simp add: when_do_def keeps_ret)

lemma keeps_each: "(\<And>x. keeps (f x)) \<Longrightarrow> keeps (for_each f xs)"
  by (induction xs) (simp_all add: keeps_ret keeps_next)

lemma keeps_if: "keeps m \<Longrightarrow> keeps k \<Longrightarrow> keeps (if b then m else k)"
  by simp

lemma keeps_option: "keeps m \<Longrightarrow> (\<And>x. keeps (f x)) \<Longrightarrow> keeps (case v of None \<Rightarrow> m | Some x \<Rightarrow> f x)"
  by (cases v) simp_all

lemma keeps_prod: "(\<And>x y. keeps (f x y)) \<Longrightarrow> keeps (case v of (x, y) \<Rightarrow> f x y)"
  by (cases v) simp

lemma keeps_sum: "(\<And>x. keeps (f x)) \<Longrightarrow> (\<And>y. keeps (g y)) \<Longrightarrow> keeps (case v of Inl x \<Rightarrow> f x | Inr y \<Rightarrow> g y)"
  by (cases v) simp_all

text \<open>What a loop achieves for each element stays, when the relation keeps it.\<close>

lemma each_holds:
  assumes keep: "\<And>x. keeps (f x)" and returns: "\<And>x s. \<not> isl (snd (f x s))"
    and holds: "\<And>x s. Q x (fst (f x s))" and stable: "\<And>x s t. le s t \<Longrightarrow> Q x s \<Longrightarrow> Q x t"
  shows "x \<in> set xs \<Longrightarrow> Q x (fst (for_each f xs s))"
proof (induction xs arbitrary: s)
  case (Cons y ys)
  obtain s1 v where y: "f y s = (s1, Inr v)"
    using returns[of y s] by (metis isl_def prod.collapse sum.collapse(2))
  then have run: "for_each f (y # ys) s = for_each f ys s1" by (simp add: run_simps)
  have "Q y s1" using holds[of y s] y by simp
  then have "Q y (fst (for_each f ys s1))" by (rule stable[OF keepsD[OF keeps_each[OF keep]]])
  then show ?case unfolding run using Cons.IH[of s1] Cons.prems by auto
qed simp

lemmas keeps_intros = keeps_ret keeps_throw keeps_gets keeps_andThen keeps_next keeps_catching keeps_when
  keeps_each keeps_if keeps_option keeps_prod keeps_sum

end

end
