(* ===== verification/BoardSupervision.thy ===== *)
theory BoardSupervision
  imports LaneHistory SessionQueue
begin

text \<open>
  The board's settings for supervising sessions (src/src/core/kanban/board-session-supervision.ts, with
  the types of src/src/core/models/kanban.ts), which live as JSON texts in the metadata of the workspace,
  and the test whether a lane still has a live session (src/src/core/kanban/lane-live-session.ts).
  \<open>JSON.parse\<close> (\<^const>\<open>None\<close> when it throws), \<open>JSON.stringify\<close> and \<open>String\<close> on values other than
  strings are arguments.
\<close>

section \<open>Settings\<close>

datatype supervision_mode = SmDisabled | SmWatchdogRetry | SmRalphLoop

fun supervision_mode_str :: "supervision_mode \<Rightarrow> string" where
  "supervision_mode_str SmDisabled = ''disabled''"
| "supervision_mode_str SmWatchdogRetry = ''watchdog_retry''"
| "supervision_mode_str SmRalphLoop = ''ralph_loop''"

fun requirement_str :: "lane_completion_requirement \<Rightarrow> string" where
  "requirement_str TurnComplete = ''turn_complete''"
| "requirement_str CompletionSummary = ''completion_summary''"
| "requirement_str VerificationReport = ''verification_report''"

record dev_supervision =
  sup_mode :: supervision_mode
  sup_inactivityTimeoutMinutes :: int
  sup_maxRecoveryAttempts :: int
  sup_completionRequirement :: lane_completion_requirement

record lane_watchdog =
  wd_enabled :: bool
  wd_inactivityTimeoutMinutes :: int

record json_lib =
  jl_parse :: "string \<Rightarrow> json option"
  jl_stringify :: "json \<Rightarrow> string"
  jl_string :: "json \<Rightarrow> string"

definition DEFAULT_KANBAN_DEV_SESSION_SUPERVISION :: dev_supervision where
  "DEFAULT_KANBAN_DEV_SESSION_SUPERVISION =
     \<lparr>sup_mode = SmWatchdogRetry, sup_inactivityTimeoutMinutes = 10, sup_maxRecoveryAttempts = 1,
      sup_completionRequirement = TurnComplete\<rparr>"

definition VALID_MODES :: "supervision_mode list" where
  "VALID_MODES = [SmDisabled, SmWatchdogRetry, SmRalphLoop]"

definition VALID_COMPLETION_REQUIREMENTS :: "lane_completion_requirement list" where
  "VALID_COMPLETION_REQUIREMENTS = [TurnComplete, CompletionSummary, VerificationReport]"

definition supervisionKey :: "string \<Rightarrow> string" where
  "supervisionKey boardId = ''kanbanDevSessionSupervision:'' @ boardId"

definition normalizeMode :: "json \<Rightarrow> supervision_mode" where
  "normalizeMode value =
     orDefault (List.find (\<lambda>m. value = JStr (supervision_mode_str m)) VALID_MODES)
       (sup_mode DEFAULT_KANBAN_DEV_SESSION_SUPERVISION)"

definition normalizeCompletionRequirement :: "json \<Rightarrow> lane_completion_requirement" where
  "normalizeCompletionRequirement value =
     orDefault (List.find (\<lambda>r. value = JStr (requirement_str r)) VALID_COMPLETION_REQUIREMENTS)
       (sup_completionRequirement DEFAULT_KANBAN_DEV_SESSION_SUPERVISION)"

text \<open>The finite number a value stands for: a number itself, or what \<open>parseInt\<close> finds in its text.\<close>

definition finite_number :: "json_lib \<Rightarrow> json \<Rightarrow> rat option" where
  "finite_number lib value =
     (case value of
        JNum (Fin r) \<Rightarrow> Some r
      | JNum n \<Rightarrow> None
      | JUndef \<Rightarrow> map_option of_int (parseInt10 [])
      | JNull \<Rightarrow> map_option of_int (parseInt10 [])
      | JStr s \<Rightarrow> map_option of_int (parseInt10 s)
      | v \<Rightarrow> map_option of_int (parseInt10 (jl_string lib v)))"

definition normalizeMinutes :: "json_lib \<Rightarrow> json \<Rightarrow> int" where
  "normalizeMinutes lib value =
     (case finite_number lib value of
        None \<Rightarrow> sup_inactivityTimeoutMinutes DEFAULT_KANBAN_DEV_SESSION_SUPERVISION
      | Some parsed \<Rightarrow> min 120 (max 1 \<lfloor>parsed\<rfloor>))"

definition normalizeAttempts :: "json_lib \<Rightarrow> json \<Rightarrow> int" where
  "normalizeAttempts lib value =
     (case finite_number lib value of
        None \<Rightarrow> sup_maxRecoveryAttempts DEFAULT_KANBAN_DEV_SESSION_SUPERVISION
      | Some parsed \<Rightarrow> min 10 (max 0 \<lfloor>parsed\<rfloor>))"

definition normalizeKanbanDevSessionSupervision :: "json_lib \<Rightarrow> json \<Rightarrow> dev_supervision" where
  "normalizeKanbanDevSessionSupervision lib config =
     \<lparr>sup_mode = normalizeMode (jprop config ''mode''),
      sup_inactivityTimeoutMinutes = normalizeMinutes lib (jprop config ''inactivityTimeoutMinutes''),
      sup_maxRecoveryAttempts = normalizeAttempts lib (jprop config ''maxRecoveryAttempts''),
      sup_completionRequirement = normalizeCompletionRequirement (jprop config ''completionRequirement'')\<rparr>"

definition getKanbanDevSessionSupervision ::
  "json_lib \<Rightarrow> (string, string) omap option \<Rightarrow> string \<Rightarrow> dev_supervision" where
  "getKanbanDevSessionSupervision lib metadata boardId =
     (let raw = Option.bind metadata (\<lambda>m. om_get m (supervisionKey boardId))
      in if \<not> truthy raw then DEFAULT_KANBAN_DEV_SESSION_SUPERVISION
         else (case jl_parse lib (the raw) of
                 None \<Rightarrow> DEFAULT_KANBAN_DEV_SESSION_SUPERVISION
               | Some parsed \<Rightarrow> normalizeKanbanDevSessionSupervision lib parsed))"

definition js_of_supervision :: "dev_supervision \<Rightarrow> json" where
  "js_of_supervision c = JObj
     [(''mode'', JStr (supervision_mode_str (sup_mode c))),
      (''inactivityTimeoutMinutes'', JNum (Fin (of_int (sup_inactivityTimeoutMinutes c)))),
      (''maxRecoveryAttempts'', JNum (Fin (of_int (sup_maxRecoveryAttempts c)))),
      (''completionRequirement'', JStr (requirement_str (sup_completionRequirement c)))]"

definition setKanbanDevSessionSupervision ::
  "json_lib \<Rightarrow> (string, string) omap option \<Rightarrow> string \<Rightarrow> json \<Rightarrow> (string, string) omap" where
  "setKanbanDevSessionSupervision lib metadata boardId config =
     om_set (orDefault metadata []) (supervisionKey boardId)
       (jl_stringify lib (js_of_supervision (normalizeKanbanDevSessionSupervision lib config)))"

definition getDefaultKanbanDevSessionSupervision :: dev_supervision where
  "getDefaultKanbanDevSessionSupervision = DEFAULT_KANBAN_DEV_SESSION_SUPERVISION"

definition DEFAULT_KANBAN_LANE_SESSION_WATCHDOG :: lane_watchdog where
  "DEFAULT_KANBAN_LANE_SESSION_WATCHDOG = \<lparr>wd_enabled = True, wd_inactivityTimeoutMinutes = 20\<rparr>"

definition laneWatchdogMetadataKey :: "string \<Rightarrow> string" where
  "laneWatchdogMetadataKey boardId = ''kanbanLaneSessionWatchdog:'' @ boardId"

definition normalizeKanbanLaneSessionWatchdog :: "json_lib \<Rightarrow> json \<Rightarrow> lane_watchdog" where
  "normalizeKanbanLaneSessionWatchdog lib config =
     \<lparr>wd_enabled = (case jprop config ''enabled'' of
         JBool b \<Rightarrow> b | _ \<Rightarrow> wd_enabled DEFAULT_KANBAN_LANE_SESSION_WATCHDOG),
      wd_inactivityTimeoutMinutes =
        (case finite_number lib (jprop config ''inactivityTimeoutMinutes'') of
           None \<Rightarrow> wd_inactivityTimeoutMinutes DEFAULT_KANBAN_LANE_SESSION_WATCHDOG
         | Some parsed \<Rightarrow> min 240 (max 1 \<lfloor>parsed\<rfloor>))\<rparr>"

definition getKanbanLaneSessionWatchdog ::
  "json_lib \<Rightarrow> (string, string) omap option \<Rightarrow> string \<Rightarrow> lane_watchdog" where
  "getKanbanLaneSessionWatchdog lib metadata boardId =
     (let raw = Option.bind metadata (\<lambda>m. om_get m (laneWatchdogMetadataKey boardId))
      in if \<not> truthy raw then DEFAULT_KANBAN_LANE_SESSION_WATCHDOG
         else (case jl_parse lib (the raw) of
                 None \<Rightarrow> DEFAULT_KANBAN_LANE_SESSION_WATCHDOG
               | Some parsed \<Rightarrow> normalizeKanbanLaneSessionWatchdog lib parsed))"

definition js_of_watchdog :: "lane_watchdog \<Rightarrow> json" where
  "js_of_watchdog w = JObj
     [(''enabled'', JBool (wd_enabled w)),
      (''inactivityTimeoutMinutes'', JNum (Fin (of_int (wd_inactivityTimeoutMinutes w))))]"

definition setKanbanLaneSessionWatchdog ::
  "json_lib \<Rightarrow> (string, string) omap option \<Rightarrow> string \<Rightarrow> json \<Rightarrow> (string, string) omap" where
  "setKanbanLaneSessionWatchdog lib metadata boardId config =
     om_set (orDefault metadata []) (laneWatchdogMetadataKey boardId)
       (jl_stringify lib (js_of_watchdog (normalizeKanbanLaneSessionWatchdog lib config)))"

definition getDefaultKanbanLaneSessionWatchdog :: lane_watchdog where
  "getDefaultKanbanLaneSessionWatchdog = DEFAULT_KANBAN_LANE_SESSION_WATCHDOG"

section \<open>Live sessions\<close>

datatype acp_status = AcpConnecting | AcpReady | AcpError

record session_view =
  sv_acpStatus :: "acp_status option"
  sv_acpError :: "string option"
  sv_createdAt :: string
  sv_ownerInstanceId :: "string option"
  sv_leaseExpiresAt :: "string option"

text \<open>The session store, the process manager, the id of this instance and the clock.\<close>

record live_deps =
  ld_getSession :: "string \<Rightarrow> session_view option"
  ld_hasActiveSession :: "string \<Rightarrow> bool"
  ld_instanceId :: string
  ld_host :: js_host
  ld_now :: int

definition isExecutionLeaseActive :: "js_host \<Rightarrow> string option \<Rightarrow> int \<Rightarrow> bool" where
  "isExecutionLeaseActive host leaseExpiresAt now =
     (truthy leaseExpiresAt
      \<and> (case hostDateParse host (the leaseExpiresAt) of None \<Rightarrow> False | Some expiresAt \<Rightarrow> expiresAt > now))"

definition isSessionActivelyRunning :: "live_deps \<Rightarrow> string option \<Rightarrow> bool" where
  "isSessionActivelyRunning deps sessionId =
     (if \<not> truthy sessionId then False
      else if ld_hasActiveSession deps (the sessionId) then True
      else (case ld_getSession deps (the sessionId) of
              None \<Rightarrow> False
            | Some session \<Rightarrow>
                if sv_acpStatus session = Some AcpReady \<or> sv_acpStatus session = Some AcpConnecting then True
                else if sv_acpStatus session = Some AcpError then False
                else let ownerInstanceId = map_option trim (sv_ownerInstanceId session)
                     in if \<not> truthy ownerInstanceId then False
                        else if ownerInstanceId \<noteq> Some (ld_instanceId deps) then False
                        else isExecutionLeaseActive (ld_host deps) (sv_leaseExpiresAt session) (ld_now deps)))"

definition findLiveColumnSession :: "live_deps \<Rightarrow> task option \<Rightarrow> string option \<Rightarrow> string option" where
  "findLiveColumnSession deps t columnId =
     (case t of
        None \<Rightarrow> None
      | Some c \<Rightarrow>
          if \<not> truthy columnId then None
          else map_option ls_sessionId
            (List.find (\<lambda>e. ls_columnId e = columnId \<and> ls_status e = LaneRunning
               \<and> isSessionActivelyRunning deps (Some (ls_sessionId e))) (rev (tk_laneSessions c))))"

text \<open>The automation as far as it is read: whether it is running, and its session.\<close>

definition isLiveRunningAutomation :: "live_deps \<Rightarrow> (bool \<times> string option) option \<Rightarrow> string option \<Rightarrow> bool" where
  "isLiveRunningAutomation deps automation newSessionId =
     (case automation of
        None \<Rightarrow> False
      | Some (running, sessionId) \<Rightarrow>
          running \<and> sessionId \<noteq> None \<and> sessionId \<noteq> newSessionId \<and> isSessionActivelyRunning deps sessionId)"

section \<open>Properties of the settings\<close>

lemma mode_str_inj [simp]: "supervision_mode_str m = supervision_mode_str m' \<longleftrightarrow> m = m'"
  by (cases m; cases m') simp_all

lemma requirement_str_inj [simp]: "requirement_str r = requirement_str r' \<longleftrightarrow> r = r'"
  by (cases r; cases r') simp_all

lemma normalizeMode_of_str [simp]: "normalizeMode (JStr (supervision_mode_str m)) = m"
  by (cases m) (simp_all add: normalizeMode_def VALID_MODES_def orDefault_def)

lemma normalizeRequirement_of_str [simp]: "normalizeCompletionRequirement (JStr (requirement_str r)) = r"
  by (cases r) (simp_all add: normalizeCompletionRequirement_def VALID_COMPLETION_REQUIREMENTS_def orDefault_def)

definition supervision_ok :: "dev_supervision \<Rightarrow> bool" where
  "supervision_ok c \<longleftrightarrow> 1 \<le> sup_inactivityTimeoutMinutes c \<and> sup_inactivityTimeoutMinutes c \<le> 120
     \<and> 0 \<le> sup_maxRecoveryAttempts c \<and> sup_maxRecoveryAttempts c \<le> 10"

definition watchdog_ok :: "lane_watchdog \<Rightarrow> bool" where
  "watchdog_ok w \<longleftrightarrow> 1 \<le> wd_inactivityTimeoutMinutes w \<and> wd_inactivityTimeoutMinutes w \<le> 240"

lemma normalized_supervision_ok: "supervision_ok (normalizeKanbanDevSessionSupervision lib config)"
  by (auto simp: supervision_ok_def normalizeKanbanDevSessionSupervision_def normalizeMinutes_def
      normalizeAttempts_def DEFAULT_KANBAN_DEV_SESSION_SUPERVISION_def split: option.splits)

lemma normalized_watchdog_ok: "watchdog_ok (normalizeKanbanLaneSessionWatchdog lib config)"
  by (auto simp: watchdog_ok_def normalizeKanbanLaneSessionWatchdog_def
      DEFAULT_KANBAN_LANE_SESSION_WATCHDOG_def split: option.splits)

lemma read_supervision_ok: "supervision_ok (getKanbanDevSessionSupervision lib metadata boardId)"
proof -
  have "supervision_ok DEFAULT_KANBAN_DEV_SESSION_SUPERVISION"
    by (simp add: supervision_ok_def DEFAULT_KANBAN_DEV_SESSION_SUPERVISION_def)
  then show ?thesis
    by (auto simp: getKanbanDevSessionSupervision_def Let_def normalized_supervision_ok split: option.splits)
qed

lemma normalize_supervision_stable:
  "supervision_ok c \<Longrightarrow> normalizeKanbanDevSessionSupervision lib (js_of_supervision c) = c"
  by (cases c) (auto simp: normalizeKanbanDevSessionSupervision_def js_of_supervision_def jprop_def
      finite_number_def normalizeMinutes_def normalizeAttempts_def supervision_ok_def)

lemma normalize_watchdog_stable:
  "watchdog_ok w \<Longrightarrow> normalizeKanbanLaneSessionWatchdog lib (js_of_watchdog w) = w"
  by (cases w) (auto simp: normalizeKanbanLaneSessionWatchdog_def js_of_watchdog_def jprop_def
      finite_number_def watchdog_ok_def)

text \<open>Reading a board's supervision back gives what was stored, normalised into its bounds, whatever stood
  there before, and leaves every other key of the workspace alone, the limits and watchdogs of all boards
  included; the same holds of the lane watchdog. JSON.parse is assumed to undo JSON.stringify on
  the two stored values, whose texts are not empty.
\<close>

theorem supervision_settings_roundtrip:
  assumes supervision: "v = js_of_supervision (normalizeKanbanDevSessionSupervision lib config)"
      "jl_parse lib (jl_stringify lib v) = Some v" "jl_stringify lib v \<noteq> []"
    and watchdog: "u = js_of_watchdog (normalizeKanbanLaneSessionWatchdog lib config)"
      "jl_parse lib (jl_stringify lib u) = Some u" "jl_stringify lib u \<noteq> []"
  shows "getKanbanDevSessionSupervision lib (Some (setKanbanDevSessionSupervision lib metadata boardId config)) boardId
           = normalizeKanbanDevSessionSupervision lib config
         \<and> supervision_ok (normalizeKanbanDevSessionSupervision lib config)
         \<and> getKanbanLaneSessionWatchdog lib (Some (setKanbanLaneSessionWatchdog lib metadata boardId config)) boardId
           = normalizeKanbanLaneSessionWatchdog lib config
         \<and> watchdog_ok (normalizeKanbanLaneSessionWatchdog lib config)
         \<and> (k \<noteq> supervisionKey boardId \<longrightarrow>
             om_get (setKanbanDevSessionSupervision lib metadata boardId config) k = om_get (orDefault metadata []) k)
         \<and> getKanbanLaneSessionWatchdog lib (Some (setKanbanDevSessionSupervision lib metadata boardId config)) b
           = getKanbanLaneSessionWatchdog lib (Some (orDefault metadata [])) b"
proof -
  have keys: "laneWatchdogMetadataKey b \<noteq> supervisionKey boardId"
    by (simp add: laneWatchdogMetadataKey_def supervisionKey_def)
  show ?thesis
    using assms keys normalize_supervision_stable[OF normalized_supervision_ok]
      normalize_watchdog_stable[OF normalized_watchdog_ok]
    by (simp add: getKanbanDevSessionSupervision_def setKanbanDevSessionSupervision_def
        getKanbanLaneSessionWatchdog_def setKanbanLaneSessionWatchdog_def truthy_def Let_def
        normalized_supervision_ok normalized_watchdog_ok)
qed

text \<open>A library that knows the two values a blank configuration is stored as.\<close>

definition two_values :: json_lib where
  "two_values =
     (let c = js_of_supervision DEFAULT_KANBAN_DEV_SESSION_SUPERVISION; w = js_of_watchdog DEFAULT_KANBAN_LANE_SESSION_WATCHDOG
      in \<lparr>jl_parse = (\<lambda>s. if s = ''c'' then Some c else if s = ''w'' then Some w else None),
          jl_stringify = (\<lambda>v. if v = c then ''c'' else ''w''), jl_string = (\<lambda>v. [])\<rparr>)"

theorem supervision_settings_roundtrip_witness:
  "getKanbanDevSessionSupervision two_values (Some (setKanbanDevSessionSupervision two_values None ''b'' JUndef)) ''b''
     = DEFAULT_KANBAN_DEV_SESSION_SUPERVISION"
proof -
  have s: "normalizeKanbanDevSessionSupervision two_values JUndef = DEFAULT_KANBAN_DEV_SESSION_SUPERVISION"
    and w: "normalizeKanbanLaneSessionWatchdog two_values JUndef = DEFAULT_KANBAN_LANE_SESSION_WATCHDOG" by code_simp+
  have other: "js_of_watchdog DEFAULT_KANBAN_LANE_SESSION_WATCHDOG \<noteq> js_of_supervision DEFAULT_KANBAN_DEV_SESSION_SUPERVISION"
    by (simp add: js_of_watchdog_def js_of_supervision_def)
  have lib: "jl_stringify two_values (js_of_supervision DEFAULT_KANBAN_DEV_SESSION_SUPERVISION) = ''c''"
    "jl_parse two_values ''c'' = Some (js_of_supervision DEFAULT_KANBAN_DEV_SESSION_SUPERVISION)"
    "jl_stringify two_values (js_of_watchdog DEFAULT_KANBAN_LANE_SESSION_WATCHDOG) = ''w''"
    "jl_parse two_values ''w'' = Some (js_of_watchdog DEFAULT_KANBAN_LANE_SESSION_WATCHDOG)"
    using other by (simp_all add: two_values_def Let_def)
  show ?thesis
    using supervision_settings_roundtrip[of _ two_values JUndef _ None "''b''", OF refl _ _ refl]
    by (simp add: s w lib)
qed

end
