(* ===== verification/WorkflowOrchestrator.thy ===== *)
theory WorkflowOrchestrator
  imports JsAsync BoardSupervision RetryMachines LaneSettlement LaneAutomation EffectiveAutomation EventBus
begin

text \<open>
  The orchestrator of src/src/core/kanban/workflow-orchestrator.ts: one object that follows the
  automation of each card. It starts the steps of a lane, ends the process of a session when its step
  is over, restarts a failed Dev step, hands a step to a fallback agent, moves a finished card on and
  ends silent sessions.

  Its handlers are asynchronous. Every \<open>await\<close> of the code is a \<open>pause\<close>, where other calls may run:
  the environment says what they do to the whole state. The automation of a card is an object that
  several calls share, so the state has a heap of automations and the map of active ones holds
  references. A card read from the store is a copy of the call. What the orchestrator does to the
  outside (ending processes, starting sessions, prompts, events, callbacks) is recorded in a log.
  A callback that is not set is \<^const>\<open>None\<close> or \<^const>\<open>False\<close> in the environment.
\<close>

section \<open>State\<close>

datatype run_status = RunQueued | RunRunning | RunCompleted | RunFailed

record active_automation =
  aa_cardId :: string
  aa_cardTitle :: string
  aa_boardId :: string
  aa_workspaceId :: string
  aa_columnId :: string
  aa_columnName :: string
  aa_stage :: column_stage
  aa_automation :: column_automation
  aa_steps :: "automation_step list"
  aa_currentStepIndex :: nat
  aa_sessionId :: "string option"
  aa_startedAt :: int
  aa_status :: run_status
  aa_supervision :: dev_supervision
  aa_laneWatchdog :: "lane_watchdog option"
  aa_attempt :: int
  aa_recoveryAttempts :: int
  aa_signaledSessionIds :: "string set"
  aa_enableAutomaticFallback :: "bool option"

record supervision_context =
  sx_attempt :: int
  sx_mode :: supervision_mode
  sx_completionRequirement :: lane_completion_requirement
  sx_objective :: string
  sx_recoveredFromSessionId :: "string option"
  sx_recoveryReason :: "lane_recovery_reason option"

record create_call =
  cc_workspaceId :: string
  cc_cardId :: string
  cc_cardTitle :: string
  cc_columnId :: string
  cc_columnName :: string
  cc_automation :: column_automation
  cc_step :: "automation_step option"
  cc_stepIndex :: nat
  cc_supervision :: "supervision_context option"

text \<open>What the callback that creates a session gives: a string, an object or null.\<close>

datatype created = CreatedId string | CreatedObject "string option" "bool option" | CreatedNothing

record recovery_notification =
  rn_workspaceId :: string
  rn_sessionId :: string
  rn_cardId :: string
  rn_cardTitle :: string
  rn_boardId :: string
  rn_columnId :: string
  rn_reason :: string
  rn_mode :: supervision_mode

record pending_cleanup =
  pc_taskId :: string
  pc_columnId :: string
  pc_automation :: column_automation

datatype orch_effect =
    KillSession string
  | CreateSession create_call
  | SendPrompt recovery_notification
  | EmitEvent agent_event
  | CleanupCardSession string
  | FallbackArtifact string string
  | DoneWorktreeCleanup string string
  | AfterLaneEnd string

text \<open>The activity of a session in the session store, as far as it is used.\<close>

record session_activity =
  sa_lastActivityAt :: string
  sa_lastMeaningfulActivityAt :: "string option"
  sa_terminalAt :: "string option"

text \<open>
  \<open>ow_active\<close> gives a card its place in the order of the map and the reference of its automation; a
  reference is a position in \<open>ow_heap\<close>. \<open>ow_timers\<close> are the timers that forget a finished automation.
  The stores, the session store, the marks of the user's cancels and the log are shared with the rest
  of the program. \<open>ow_awaits\<close> counts the awaits.
\<close>

record orch_world =
  ow_started :: bool
  ow_heap :: "active_automation list"
  ow_active :: "(string, nat \<times> nat) omap"
  ow_nextPlace :: nat
  ow_teardownSessionIds :: "string set"
  ow_deferredTeardownSessionIds :: "string set"
  ow_endedSessionIds :: "string set"
  ow_cardEndedSessionIds :: "string set"
  ow_departedLaneSessions :: "(string, string) omap"
  ow_pendingWorktreeCleanup :: "(string, pending_cleanup) omap"
  ow_retries :: retry_scheduler
  ow_timers :: "(string \<times> nat) list"
  ow_store :: task_store
  ow_boards :: "(string, kanban_board) omap"
  ow_sessions :: "(string, session_view) omap"
  ow_activity :: "(string, session_activity) omap"
  ow_history :: "(string, history_entry list) omap"
  ow_cancelMarks :: cancel_marks
  ow_log :: "orch_effect list"
  ow_awaits :: nat

datatype orch_error = CallbackRejected string | CardError retry_error | OutOfFuel

type_synonym 'a orch = "(orch_world, orch_error, 'a) action"

record lane_query =
  lq_workspaceId :: string
  lq_boardId :: string
  lq_columnId :: string
  lq_stage :: column_stage

text \<open>
  The environment: the host, the clock and the random numbers at each await, the other calls, the
  callbacks (a left value is a rejected promise), and the texts for people, which contain characters
  this development has no type for. While a run is settled the other calls act on the store by
  \<open>oe_beforeRead\<close> and \<open>oe_beforeSave\<close>.
\<close>

record orch_env =
  oe_host :: js_host
  oe_stringify :: "json \<Rightarrow> string"
  oe_messageText :: "history_entry \<Rightarrow> string"
  oe_syncText :: "sync_error \<Rightarrow> string"
  oe_now :: "nat \<Rightarrow> int"
  oe_random :: "nat \<Rightarrow> rat"
  oe_others :: "nat \<Rightarrow> orch_world \<Rightarrow> orch_world"
  oe_beforeRead :: "nat \<Rightarrow> task_store \<Rightarrow> task_store"
  oe_beforeSave :: "nat \<Rightarrow> task_store \<Rightarrow> task_store"
  oe_createSession :: "(nat \<Rightarrow> create_call \<Rightarrow> string + created) option"
  oe_resolveDevSessionSupervision :: "(nat \<Rightarrow> lane_query \<Rightarrow> string + dev_supervision) option"
  oe_resolveLaneSessionWatchdog :: "(nat \<Rightarrow> lane_query \<Rightarrow> string + lane_watchdog) option"
  oe_hasActiveSession :: "nat \<Rightarrow> string \<Rightarrow> bool"
  oe_instanceId :: string
  oe_canPrompt :: bool
  oe_canCleanupCard :: bool
  oe_canKeepArtifact :: bool
  oe_canCleanWorktree :: bool
  oe_canRouteAfterLane :: bool

definition pause :: "orch_env \<Rightarrow> unit orch" where
  "pause env = modify (\<lambda>w. oe_others env (ow_awaits w) (w\<lparr>ow_awaits := Suc (ow_awaits w)\<rparr>))"

definition now_of :: "orch_env \<Rightarrow> orch_world \<Rightarrow> int" where
  "now_of env w = oe_now env (ow_awaits w)"

definition iso_of :: "orch_env \<Rightarrow> orch_world \<Rightarrow> string" where
  "iso_of env w = hostToISO (oe_host env) (now_of env w)"

definition log_effect :: "orch_effect \<Rightarrow> unit orch" where
  "log_effect e = modify (\<lambda>w. w\<lparr>ow_log := ow_log w @ [e]\<rparr>)"

definition read_card :: "orch_env \<Rightarrow> string \<Rightarrow> task option orch" where
  "read_card env cardId =
     next_do (pause env) (andThen (gets (\<lambda>w. store_get (iso_of env w) (ow_store w) cardId)) (\<lambda>t.
       next_do (pause env) (ret t)))"

definition save_card :: "orch_env \<Rightarrow> task \<Rightarrow> unit orch" where
  "save_card env t =
     next_do (pause env) (next_do (modify (\<lambda>w. w\<lparr>ow_store := store_save (iso_of env w) (ow_store w) t\<rparr>)) (pause env))"

definition read_board :: "orch_env \<Rightarrow> string \<Rightarrow> kanban_board option orch" where
  "read_board env boardId =
     next_do (pause env) (andThen (gets (\<lambda>w. om_get (ow_boards w) boardId)) (\<lambda>b. next_do (pause env) (ret b)))"

definition automation_at :: "nat \<Rightarrow> orch_world \<Rightarrow> active_automation" where
  "automation_at r w = ow_heap w ! r"

definition set_automation :: "nat \<Rightarrow> (active_automation \<Rightarrow> active_automation) \<Rightarrow> unit orch" where
  "set_automation r f = modify (\<lambda>w. w\<lparr>ow_heap := (ow_heap w)[r := f (ow_heap w ! r)]\<rparr>)"

text \<open>\<open>activeAutomations.set(cardId, { ... })\<close>: a new object; a card that is there keeps its place.\<close>

definition put_automation :: "string \<Rightarrow> active_automation \<Rightarrow> nat orch" where
  "put_automation cardId a =
     andThen (gets (\<lambda>w. length (ow_heap w))) (\<lambda>r.
       next_do (modify (\<lambda>w.
         (let place = (case om_get (ow_active w) cardId of Some (p, _) \<Rightarrow> p | None \<Rightarrow> ow_nextPlace w)
          in w\<lparr>ow_heap := ow_heap w @ [a], ow_active := om_set (ow_active w) cardId (place, r),
               ow_nextPlace := Suc (ow_nextPlace w)\<rparr>))) (ret r))"

text \<open>The next entry of an iterator over the live map that stands at a place.\<close>

definition next_active :: "nat \<Rightarrow> orch_world \<Rightarrow> (string \<times> nat \<times> nat) option" where
  "next_active place w = List.find (\<lambda>(cardId, p, r). place \<le> p) (ow_active w)"

definition card_result :: "task \<times> (js_error + 'a) \<Rightarrow> task orch" where
  "card_result v = (case v of (t, Inl e) \<Rightarrow> throw (CardError (MemoryError e)) | (t, Inr x) \<Rightarrow> ret t)"

section \<open>Reading events and automations\<close>

definition is_jstr :: "json \<Rightarrow> bool" where
  "is_jstr v = (case v of JStr s \<Rightarrow> True | _ \<Rightarrow> False)"

text \<open>The session an event is about, if its data names one with a text that is not empty.\<close>

definition event_session :: "agent_event \<Rightarrow> string option" where
  "event_session event = (case event_data event ''sessionId'' of JStr s \<Rightarrow> if s = [] then None else Some s | _ \<Rightarrow> None)"

definition shouldSuperviseStage :: "column_stage \<Rightarrow> bool" where
  "shouldSuperviseStage stage = (stage = StDev)"

definition getDisabledSupervisionConfig :: dev_supervision where
  "getDisabledSupervisionConfig = getDefaultKanbanDevSessionSupervision\<lparr>sup_mode := SmDisabled\<rparr>"

definition isRecoveryMode :: "supervision_mode \<Rightarrow> bool" where
  "isRecoveryMode mode = (mode = SmWatchdogRetry \<or> mode = SmRalphLoop)"

definition getInactivityTimeoutMinutes :: "active_automation \<Rightarrow> int" where
  "getInactivityTimeoutMinutes a =
     (case aa_laneWatchdog a of
        None \<Rightarrow> sup_inactivityTimeoutMinutes (aa_supervision a)
      | Some watchdog \<Rightarrow> if isRecoveryMode (sup_mode (aa_supervision a))
          then sup_inactivityTimeoutMinutes (aa_supervision a) else wd_inactivityTimeoutMinutes watchdog)"

definition isCancelledTurn :: "agent_event \<Rightarrow> bool" where
  "isCancelledTurn event = (ev_type event = AGENT_COMPLETED \<and> event_data event ''stopReason'' = JStr ''cancelled'')"

definition isInTurnEvent :: "agent_event \<Rightarrow> bool" where
  "isInTurnEvent event = (ev_type event = REPORT_SUBMITTED \<or> is_jstr (event_data event ''synthesizedBy''))"

definition getRecoveryReason ::
  "int \<Rightarrow> cancel_marks \<Rightarrow> agent_event \<Rightarrow> bool \<Rightarrow> bool \<Rightarrow> bool \<Rightarrow> lane_recovery_reason" where
  "getRecoveryReason now marks event completionSatisfied environmentFailure rateLimited =
     (if environmentFailure then EnvironmentFailure
      else if rateLimited then RateLimited
      else if isCancelledTurn event then resolveCancelledTurnReason (event_data event ''sessionId'') now marks
      else if ev_type event = AGENT_TIMEOUT then WatchdogInactivity
      else if ev_type event = AGENT_FAILED then AgentFailed
      else if ev_type event = AGENT_COMPLETED \<and> \<not> completionSatisfied then CompletionCriteriaNotMet
      else AgentFailed)"

definition getAutomationStepLabel :: "automation_step option \<Rightarrow> nat \<Rightarrow> string" where
  "getAutomationStepLabel step stepIndex =
     (case step of
        None \<Rightarrow> ''Step '' @ show_nat (stepIndex + 1)
      | Some s \<Rightarrow> orDefault (nullish (nullish (as_specialistName s) (as_specialistId s)) (as_role s))
                    (''Step '' @ show_nat (stepIndex + 1)))"

definition buildNonDevAutomationRepeatLimitMessage :: "string \<Rightarrow> nat \<Rightarrow> string" where
  "buildNonDevAutomationRepeatLimitMessage columnName runCount =
     ''Stopped Kanban automation for \"'' @ columnName @ ''\" after '' @ show_nat (runCount + 1) @ '' runs. ''
     @ ''Non-dev lanes are limited to '' @ show_nat NON_DEV_AUTOMATION_REPEAT_LIMIT
     @ '' automation runs to prevent loops.''"

definition buildAutomationSteps :: "column_automation \<Rightarrow> task option \<Rightarrow> automation_step list" where
  "buildAutomationSteps automation t =
     (let fallbackSteps = (case t of
            None \<Rightarrow> []
          | Some c \<Rightarrow> if trueOpt (tk_enableAutomaticFallback c)
                      then buildFallbackSteps (tk_fallbackAgentChain c) else [])
      in getKanbanAutomationSteps (Some automation) @ fallbackSteps)"

definition readCreatedSession :: "created \<Rightarrow> string option \<times> bool" where
  "readCreatedSession result =
     (case result of
        CreatedId s \<Rightarrow> (if s = [] then None else Some s, False)
      | CreatedObject sessionId queued \<Rightarrow> (sessionId, \<not> truthy sessionId \<and> queued = Some True)
      | CreatedNothing \<Rightarrow> (None, False))"

definition current_step :: "active_automation \<Rightarrow> automation_step option" where
  "current_step a = step_at (Some (aa_steps a)) (int (aa_currentStepIndex a))"

definition buildSupervisionContext ::
  "active_automation \<Rightarrow> string \<Rightarrow> string option \<Rightarrow> lane_recovery_reason option \<Rightarrow> supervision_context option" where
  "buildSupervisionContext a objective recoveredFromSessionId recoveryReason =
     (if \<not> isRecoveryMode (sup_mode (aa_supervision a)) then None
      else Some \<lparr>sx_attempt = aa_attempt a, sx_mode = sup_mode (aa_supervision a),
                 sx_completionRequirement = sup_completionRequirement (aa_supervision a),
                 sx_objective = objective, sx_recoveredFromSessionId = recoveredFromSessionId,
                 sx_recoveryReason = recoveryReason\<rparr>)"

definition buildRecoveryMessage :: "active_automation \<Rightarrow> lane_recovery_reason \<Rightarrow> string" where
  "buildRecoveryMessage a reason =
     (let stepLabel = getAutomationStepLabel (current_step a) (aa_currentStepIndex a);
          reasonLabel = (if reason = WatchdogInactivity then ''inactive too long''
             else if reason = CompletionCriteriaNotMet then ''stopped before completion criteria were met''
             else ''failed'')
      in stepLabel @ '' recovered after session '' @ reasonLabel @ ''. Attempt '' @ show_int (aa_attempt a)
         @ ''/'' @ show_int (sup_maxRecoveryAttempts (aa_supervision a) + 1) @ ''.'')"

definition buildFailureMessage :: "active_automation \<Rightarrow> agent_event \<Rightarrow> bool \<Rightarrow> string" where
  "buildFailureMessage a event completionSatisfied =
     (let stepLabel = getAutomationStepLabel (current_step a) (aa_currentStepIndex a)
      in if ev_type event = AGENT_TIMEOUT
         then stepLabel @ '' timed out after '' @ show_int (getInactivityTimeoutMinutes a) @ '' minutes without activity.''
         else if ev_type event = AGENT_FAILED
         then (case event_data event ''error'' of JStr error \<Rightarrow> error | _ \<Rightarrow> ''ACP session failed.'')
         else if isCancelledTurn event
         then stepLabel @ '' was cancelled before it finished; rerun the card to run it again.''
         else if ev_type event = AGENT_COMPLETED \<and> \<not> completionSatisfied
         then stepLabel @ '' completed but did not satisfy ''
                @ requirement_str (sup_completionRequirement (aa_supervision a)) @ ''.''
         else ''ACP session did not complete successfully.'')"

definition isCompletionSatisfied :: "task option \<Rightarrow> active_automation \<Rightarrow> bool \<Rightarrow> bool" where
  "isCompletionSatisfied t a successEvent =
     (if \<not> successEvent then False
      else if sup_mode (aa_supervision a) \<noteq> SmRalphLoop then True
      else (case sup_completionRequirement (aa_supervision a) of
              CompletionSummary \<Rightarrow> truthy (map_option trim (Option.bind t tk_completionSummary))
            | VerificationReport \<Rightarrow> truthy (map_option trim (Option.bind t tk_verificationReport))
            | TurnComplete \<Rightarrow> True))"

definition shouldRecover :: "task \<Rightarrow> active_automation \<Rightarrow> agent_event \<Rightarrow> bool \<Rightarrow> bool" where
  "shouldRecover t a event completionSatisfied =
     (if \<not> isRecoveryMode (sup_mode (aa_supervision a)) then False
      else if tk_columnId t \<noteq> Some (aa_columnId a) then False
      else if aa_recoveryAttempts a \<ge> sup_maxRecoveryAttempts (aa_supervision a) then False
      else if ev_type event = AGENT_TIMEOUT \<or> ev_type event = AGENT_FAILED then True
      else if sup_mode (aa_supervision a) = SmRalphLoop \<and> ev_type event = AGENT_COMPLETED
      then \<not> completionSatisfied else False)"

definition isPostCompletionTeardownFailure ::
  "orch_world \<Rightarrow> task \<Rightarrow> active_automation \<Rightarrow> string \<Rightarrow> agent_event \<Rightarrow> bool" where
  "isPostCompletionTeardownFailure w t a eventSessionId event =
     (let failureEvent = (ev_type event = AGENT_FAILED \<or> ev_type event = AGENT_TIMEOUT
            \<or> event_data event ''success'' = JBool False);
          laneColumn = Option.bind (getTaskLaneSession t (Some eventSessionId)) ls_columnId
      in if \<not> failureEvent \<or> tk_status t \<noteq> TS_COMPLETED then False
         else if eventSessionId \<in> ow_teardownSessionIds w then True
         else if tk_columnId t = Some (aa_columnId a)
                 \<and> isLaneAutomationComplete t (aa_columnId a) (Some (aa_automation a)) then True
         else truthy laneColumn \<and> laneColumn \<noteq> tk_columnId t)"

end
