(* ===== verification/WorkflowHandlers.thy ===== *)
theory WorkflowHandlers
  imports WorkflowOrchestrator
begin

text \<open>
  The operations of the orchestrator (src/src/core/kanban/workflow-orchestrator.ts): ending sessions,
  starting a lane, the end of a step with its next step, fallback and recovery, winding a finished card
  down, moving it on, the watchdog, and the rerun of a rate-limited step (rate-limit-retry.ts).
\<close>

section \<open>Ending sessions\<close>

text \<open>The kill itself may fail; the failure is only printed.\<close>

definition endSessionProcess :: "orch_env \<Rightarrow> string \<Rightarrow> unit orch" where
  "endSessionProcess env sessionId =
     andThen (gets (\<lambda>w. sessionId \<in> ow_endedSessionIds w)) (\<lambda>ended.
       if ended then pause env
       else next_do (modify (\<lambda>w. w\<lparr>ow_endedSessionIds := insert sessionId (ow_endedSessionIds w),
                                    ow_log := ow_log w @ [KillSession sessionId]\<rparr>)) (pause env))"

definition killTeardownSession :: "orch_env \<Rightarrow> string \<Rightarrow> unit orch" where
  "killTeardownSession env sessionId = endSessionProcess env sessionId"

definition undefer :: "string \<Rightarrow> unit orch" where
  "undefer sessionId =
     modify (\<lambda>w. w\<lparr>ow_deferredTeardownSessionIds := ow_deferredTeardownSessionIds w - {sessionId}\<rparr>)"

definition defer_session :: "string \<Rightarrow> unit orch" where
  "defer_session sessionId =
     modify (\<lambda>w. w\<lparr>ow_deferredTeardownSessionIds := insert sessionId (ow_deferredTeardownSessionIds w)\<rparr>)"

definition mark_teardown :: "string \<Rightarrow> unit orch" where
  "mark_teardown sessionId =
     modify (\<lambda>w. w\<lparr>ow_teardownSessionIds := insert sessionId (ow_teardownSessionIds w)\<rparr>)"

definition killFailedSession :: "orch_env \<Rightarrow> string \<Rightarrow> unit orch" where
  "killFailedSession env sessionId = next_do (undefer sessionId) (endSessionProcess env sessionId)"

definition endFinishedStepSession :: "orch_env \<Rightarrow> string \<Rightarrow> agent_event \<Rightarrow> unit orch" where
  "endFinishedStepSession env sessionId event =
     andThen (gets (\<lambda>w. sessionId \<in> ow_endedSessionIds w)) (\<lambda>ended.
       if ended then pause env
       else if isInTurnEvent event then next_do (defer_session sessionId) (pause env)
       else next_do (undefer sessionId) (endSessionProcess env sessionId))"

definition forget_departed :: "string \<Rightarrow> unit orch" where
  "forget_departed sessionId =
     modify (\<lambda>w. w\<lparr>ow_departedLaneSessions := om_del (ow_departedLaneSessions w) sessionId\<rparr>)"

definition endTaskSessions :: "orch_env \<Rightarrow> string list \<Rightarrow> unit orch" where
  "endTaskSessions env sessionIds =
     (let unique = uniq (filter (\<lambda>s. s \<noteq> []) sessionIds)
      in next_do
           (for_each (\<lambda>sessionId.
              next_do (modify (\<lambda>w. w\<lparr>ow_teardownSessionIds := insert sessionId (ow_teardownSessionIds w),
                                      ow_cardEndedSessionIds := insert sessionId (ow_cardEndedSessionIds w)\<rparr>))
                (next_do (undefer sessionId) (forget_departed sessionId))) unique)
           (for_each (endSessionProcess env) unique))"

text \<open>The user deleted the card or, with a column, moved it away from that column.\<close>

definition forgetCard :: "string \<Rightarrow> string option \<Rightarrow> orch_world \<Rightarrow> orch_world" where
  "forgetCard cardId columnId w0 =
     (let w = w0\<lparr>ow_retries := sched_forget cardId columnId (ow_retries w0)\<rparr>
      in case om_get (ow_active w) cardId of
           None \<Rightarrow> w
         | Some (_, r) \<Rightarrow>
             (let a = automation_at r w
              in if columnId \<noteq> None \<and> Some (aa_columnId a) \<noteq> columnId then w
                 else w\<lparr>ow_cardEndedSessionIds :=
                          (if truthy (aa_sessionId a) then insert (the (aa_sessionId a)) (ow_cardEndedSessionIds w)
                           else ow_cardEndedSessionIds w),
                        ow_active := om_del (ow_active w) cardId\<rparr>))"

definition leaveLane :: "string \<Rightarrow> string \<Rightarrow> orch_world \<Rightarrow> orch_world" where
  "leaveLane cardId columnId w =
     (case om_get (ow_active w) cardId of
        None \<Rightarrow> w
      | Some (_, r) \<Rightarrow>
          (let a = automation_at r w
           in if aa_columnId a \<noteq> columnId then w
              else w\<lparr>ow_departedLaneSessions :=
                       (if truthy (aa_sessionId a) \<and> aa_status a = RunRunning
                        then om_set (ow_departedLaneSessions w) (the (aa_sessionId a)) cardId
                        else ow_departedLaneSessions w),
                     ow_active := om_del (ow_active w) cardId\<rparr>))"

definition windDownDepartedSession :: "orch_env \<Rightarrow> string \<Rightarrow> string \<Rightarrow> agent_event \<Rightarrow> unit orch" where
  "windDownDepartedSession env sessionId cardId event =
     next_do (when_do (\<not> isInTurnEvent event) (forget_departed sessionId))
       (andThen (read_card env cardId) (\<lambda>card. next_do
         (case card of
            None \<Rightarrow> ret ()
          | Some t \<Rightarrow>
              if record_running t sessionId
              then andThen (gets (iso_of env)) (\<lambda>iso.
                     andThen (card_result (markTaskLaneSessionStatus (oe_host env) iso t (Some sessionId) LaneCompleted None))
                       (save_card env))
              else ret ())
         (endFinishedStepSession env sessionId event)))"

section \<open>Starting a lane\<close>

definition create_session :: "orch_env \<Rightarrow> create_call \<Rightarrow> created orch" where
  "create_session env call =
     (case oe_createSession env of
        None \<Rightarrow> ret CreatedNothing
      | Some create \<Rightarrow>
          andThen (gets ow_awaits) (\<lambda>n.
            next_do (log_effect (CreateSession call)) (next_do (pause env)
              (case create n call of Inl message \<Rightarrow> throw (CallbackRejected message) | Inr c \<Rightarrow> ret c))))"

definition lane_call :: "active_automation \<Rightarrow> nat \<Rightarrow> supervision_context option \<Rightarrow> create_call" where
  "lane_call a stepIndex supervision =
     \<lparr>cc_workspaceId = aa_workspaceId a, cc_cardId = aa_cardId a, cc_cardTitle = aa_cardTitle a,
      cc_columnId = aa_columnId a, cc_columnName = aa_columnName a, cc_automation = aa_automation a,
      cc_step = step_at (Some (aa_steps a)) (int stepIndex), cc_stepIndex = stepIndex, cc_supervision = supervision\<rparr>"

definition cleanup_card :: "orch_env \<Rightarrow> string \<Rightarrow> unit orch" where
  "cleanup_card env cardId = when_do (oe_canCleanupCard env) (log_effect (CleanupCardSession cardId))"

text \<open>A resolver answers after an \<open>await\<close>; without one the default is awaited.\<close>

definition resolveLaneSupervision :: "orch_env \<Rightarrow> lane_query \<Rightarrow> dev_supervision orch" where
  "resolveLaneSupervision env q =
     (if shouldSuperviseStage (lq_stage q)
      then (case oe_resolveDevSessionSupervision env of
              None \<Rightarrow> next_do (pause env) (ret getDefaultKanbanDevSessionSupervision)
            | Some resolver \<Rightarrow> andThen (gets ow_awaits) (\<lambda>n. next_do (pause env)
                (case resolver n q of Inl message \<Rightarrow> throw (CallbackRejected message) | Inr s \<Rightarrow> ret s)))
      else next_do (pause env) (ret getDisabledSupervisionConfig))"

definition resolveLaneWatchdog :: "orch_env \<Rightarrow> lane_query \<Rightarrow> lane_watchdog option orch" where
  "resolveLaneWatchdog env q =
     (if shouldSuperviseStage (lq_stage q) then next_do (pause env) (ret None)
      else andThen
        (case oe_resolveLaneSessionWatchdog env of
           None \<Rightarrow> next_do (pause env) (ret getDefaultKanbanLaneSessionWatchdog)
         | Some resolver \<Rightarrow> andThen (gets ow_awaits) (\<lambda>n. next_do (pause env)
             (case resolver n q of Inl message \<Rightarrow> ret getDefaultKanbanLaneSessionWatchdog | Inr w \<Rightarrow> ret w)))
        (\<lambda>watchdog. ret (if wd_enabled watchdog then Some watchdog else None)))"

definition column_query :: "string \<Rightarrow> string \<Rightarrow> kanban_column \<Rightarrow> lane_query" where
  "column_query workspaceId boardId column =
     \<lparr>lq_workspaceId = workspaceId, lq_boardId = boardId, lq_columnId = kc_id column, lq_stage = kc_stage column\<rparr>"

definition new_automation ::
  "transition_data \<Rightarrow> kanban_column \<Rightarrow> column_automation \<Rightarrow> automation_step list \<Rightarrow> int \<Rightarrow> dev_supervision
     \<Rightarrow> lane_watchdog option \<Rightarrow> bool option \<Rightarrow> active_automation" where
  "new_automation d column automation steps now supervision watchdog fallback =
     \<lparr>aa_cardId = td_cardId d, aa_cardTitle = td_cardTitle d, aa_boardId = td_boardId d,
      aa_workspaceId = td_workspaceId d, aa_columnId = kc_id column, aa_columnName = kc_name column,
      aa_stage = kc_stage column, aa_automation = automation, aa_steps = steps, aa_currentStepIndex = 0,
      aa_sessionId = None, aa_startedAt = now, aa_status = RunQueued, aa_supervision = supervision,
      aa_laneWatchdog = watchdog, aa_attempt = 1, aa_recoveryAttempts = 0, aa_signaledSessionIds = {},
      aa_enableAutomaticFallback = fallback\<rparr>"

definition start_lane :: "orch_env \<Rightarrow> nat \<Rightarrow> string \<Rightarrow> unit orch" where
  "start_lane env r laneObjective =
     (if oe_createSession env = None then ret ()
      else catching
        (andThen (gets (automation_at r)) (\<lambda>a.
           andThen (create_session env (lane_call a 0 (buildSupervisionContext a laneObjective None None))) (\<lambda>c.
             (let sessionId = fst (readCreatedSession c)
              in when_do (truthy sessionId)
                   (set_automation r (\<lambda>a. a\<lparr>aa_status := RunRunning, aa_sessionId := sessionId\<rparr>))))))
        (\<lambda>_. set_automation r (\<lambda>a. a\<lparr>aa_status := RunFailed\<rparr>)))"

text \<open>The refusal of a lane that has run too often; the message is saved on the card.\<close>

definition stop_repeated_lane :: "orch_env \<Rightarrow> task option \<Rightarrow> kanban_column \<Rightarrow> unit orch" where
  "stop_repeated_lane env oc column =
     (case oc of
        None \<Rightarrow> ret ()
      | Some t \<Rightarrow> andThen (gets (now_of env)) (\<lambda>now.
          save_card env (t\<lparr>tk_lastSyncError := Some (buildNonDevAutomationRepeatLimitMessage (kc_name column)
                             (getNonDevAutomationRunCount oc (kc_id column) (kc_stage column))),
                           tk_updatedAt := now\<rparr>)))"

definition has_live_automation :: "orch_world \<Rightarrow> string \<Rightarrow> string \<Rightarrow> string \<Rightarrow> bool" where
  "has_live_automation w cardId boardId columnId =
     (case om_get (ow_active w) cardId of
        None \<Rightarrow> False
      | Some (_, r) \<Rightarrow> (let a = automation_at r w
          in aa_boardId a = boardId \<and> aa_columnId a = columnId \<and> (aa_status a = RunQueued \<or> aa_status a = RunRunning)))"

definition enter_lane ::
  "orch_env \<Rightarrow> transition_data \<Rightarrow> task option \<Rightarrow> kanban_column \<Rightarrow> column_automation \<Rightarrow> unit orch" where
  "enter_lane env d oc column automation =
     (let laneObjective = orDefault (orElse (map_option (\<lambda>t. trim (tk_objective t)) oc) (Some (td_cardTitle d))) [];
          steps = buildAutomationSteps automation oc;
          q = column_query (td_workspaceId d) (td_boardId d) column
      in if steps = [] then ret ()
         else if hasExceededNonDevAutomationRepeatLimit oc (kc_id column) (kc_stage column)
         then stop_repeated_lane env oc column
         else andThen (resolveLaneSupervision env q) (\<lambda>supervision.
           andThen (gets (\<lambda>w. has_live_automation w (td_cardId d) (td_boardId d) (kc_id column))) (\<lambda>live.
             if live then ret ()
             else andThen (gets (now_of env)) (\<lambda>now.
               andThen (resolveLaneWatchdog env q) (\<lambda>watchdog.
                 andThen (put_automation (td_cardId d)
                    (new_automation d column automation steps now supervision watchdog
                       (Option.bind oc tk_enableAutomaticFallback))) (\<lambda>r.
                   start_lane env r laneObjective))))))"

definition leave_on_transition :: "transition_data \<Rightarrow> orch_world \<Rightarrow> orch_world" where
  "leave_on_transition d w =
     (let w1 = w\<lparr>ow_retries := sched_cancel (td_cardId d)
                   (if trueOpt (td_laneRerun d) then None else Some (td_toColumnId d)) (ow_retries w)\<rparr>
      in if td_fromColumnId d \<noteq> td_toColumnId d \<or> trueOpt (td_laneRerun d)
         then leaveLane (td_cardId d) (td_fromColumnId d) w1 else w1)"

definition handleColumnTransitionData :: "orch_env \<Rightarrow> transition_data \<Rightarrow> unit orch" where
  "handleColumnTransitionData env d =
     next_do (modify (leave_on_transition d))
       (andThen (read_board env (td_boardId d)) (\<lambda>board.
          case Option.bind board (\<lambda>b. resolveTransitionAutomation (kb_columns b) d) of
            None \<Rightarrow> ret ()
          | Some (column, automation) \<Rightarrow>
              andThen (read_card env (td_cardId d)) (\<lambda>card. enter_lane env d card column automation)))"

section \<open>Adopting a run\<close>

definition live_view :: "orch_env \<Rightarrow> orch_world \<Rightarrow> live_deps" where
  "live_view env w =
     \<lparr>ld_getSession = om_get (ow_sessions w), ld_hasActiveSession = oe_hasActiveSession env (ow_awaits w),
      ld_instanceId = oe_instanceId env, ld_host = oe_host env, ld_now = now_of env w\<rparr>"

definition running_of :: "orch_world \<Rightarrow> string \<Rightarrow> (bool \<times> string option) option" where
  "running_of w cardId =
     map_option (\<lambda>(p, r). let a = automation_at r w in (aa_status a = RunRunning, aa_sessionId a))
       (om_get (ow_active w) cardId)"

definition adopted_automation ::
  "string \<Rightarrow> task \<Rightarrow> string \<Rightarrow> kanban_column \<Rightarrow> column_automation \<Rightarrow> automation_step list \<Rightarrow> nat \<Rightarrow> string option
     \<Rightarrow> (int \<times> int) option \<Rightarrow> int \<Rightarrow> dev_supervision \<Rightarrow> lane_watchdog option \<Rightarrow> active_automation" where
  "adopted_automation cardId t boardId column automation steps stepIndex sessionId counters now supervision watchdog =
     \<lparr>aa_cardId = cardId, aa_cardTitle = tk_title t, aa_boardId = boardId,
      aa_workspaceId = tk_workspaceId t, aa_columnId = kc_id column, aa_columnName = kc_name column,
      aa_stage = kc_stage column, aa_automation = automation, aa_steps = steps, aa_currentStepIndex = stepIndex,
      aa_sessionId = sessionId, aa_startedAt = now,
      aa_status = (if truthy sessionId then RunRunning else RunQueued), aa_supervision = supervision,
      aa_laneWatchdog = watchdog, aa_attempt = orDefault (map_option fst counters) 1,
      aa_recoveryAttempts = orDefault (map_option snd counters) 0, aa_signaledSessionIds = {},
      aa_enableAutomaticFallback = tk_enableAutomaticFallback t\<rparr>"

definition adopt_on_column ::
  "orch_env \<Rightarrow> string \<Rightarrow> task \<Rightarrow> string \<Rightarrow> kanban_column \<Rightarrow> int \<Rightarrow> string option \<Rightarrow> (int \<times> int) option \<Rightarrow> bool orch" where
  "adopt_on_column env cardId t boardId column stepIndex sessionId counters =
     (case enabled_automation (Some column) of
        None \<Rightarrow> ret False
      | Some automation \<Rightarrow>
          (let steps = buildAutomationSteps automation (Some t);
               q = column_query (tk_workspaceId t) boardId column
           in if step_at (Some steps) stepIndex = None then ret False
              else andThen (gets (now_of env)) (\<lambda>now.
                andThen (resolveLaneSupervision env q) (\<lambda>supervision.
                  andThen (resolveLaneWatchdog env q) (\<lambda>watchdog.
                    next_do (put_automation cardId
                       (adopted_automation cardId t boardId column automation steps (nat stepIndex) sessionId counters
                          now supervision watchdog)) (ret True))))))"

definition adoptLaneRun ::
  "orch_env \<Rightarrow> string \<Rightarrow> string \<Rightarrow> int \<Rightarrow> string option \<Rightarrow> (int \<times> int) option \<Rightarrow> bool orch" where
  "adoptLaneRun env cardId columnId stepIndex sessionId counters =
     andThen (gets (\<lambda>w. isLiveRunningAutomation (live_view env w) (running_of w cardId) sessionId)) (\<lambda>live.
       if live then ret False
       else andThen (read_card env cardId) (\<lambda>oc. case oc of
         None \<Rightarrow> ret False
       | Some t \<Rightarrow>
           if \<not> truthy (tk_boardId t) \<or> tk_columnId t \<noteq> Some columnId then ret False
           else andThen (read_board env (the (tk_boardId t))) (\<lambda>board.
             case Option.bind board (\<lambda>b. find_column (kb_columns b) (Some columnId)) of
               None \<Rightarrow> ret False
             | Some column \<Rightarrow>
                 adopt_on_column env cardId t (the (tk_boardId t)) column stepIndex sessionId counters)))"

section \<open>The rerun of a rate-limited step\<close>

definition retry_call :: "retry_entry \<Rightarrow> active_automation \<Rightarrow> task \<Rightarrow> create_call" where
  "retry_call entry a t =
     (lane_call a (nat (re_stepIndex entry))
        (buildSupervisionContext a (if tk_objective t = [] then tk_title t else tk_objective t)
           (Some (re_failedSessionId entry)) None))
       \<lparr>cc_cardId := re_cardId entry, cc_columnId := re_columnId entry\<rparr>"

definition start_retry :: "orch_env \<Rightarrow> retry_entry \<Rightarrow> task \<Rightarrow> nat \<Rightarrow> unit orch" where
  "start_retry env entry t r =
     andThen (gets (now_of env)) (\<lambda>now. let t1 = released_card now t in
       next_do (save_card env t1) (next_do (cleanup_card env (re_cardId entry)) (catching
         (andThen (gets (automation_at r)) (\<lambda>a. andThen (create_session env (retry_call entry a t1)) (\<lambda>c.
            case readCreatedSession c of (sessionId, queued) \<Rightarrow>
              if truthy sessionId
              then set_automation r (\<lambda>a. a\<lparr>aa_status := RunRunning, aa_sessionId := sessionId\<rparr>)
              else when_do (\<not> queued) (set_automation r (\<lambda>a. a\<lparr>aa_status := RunFailed\<rparr>)))))
         (\<lambda>_. set_automation r (\<lambda>a. a\<lparr>aa_status := RunFailed\<rparr>)))))"

definition run_rate_limit_retry :: "orch_env \<Rightarrow> retry_entry \<Rightarrow> unit orch" where
  "run_rate_limit_retry env entry =
     andThen (read_card env (re_cardId entry)) (\<lambda>oc.
       if oe_createSession env = None \<or> oc = None \<or> \<not> canRunRateLimitRetry oc entry then ret ()
       else andThen (adoptLaneRun env (re_cardId entry) (re_columnId entry) (re_stepIndex entry) None
                       (Some (re_attempt entry, re_recoveryAttempts entry))) (\<lambda>adopted.
         next_do (pause env) (andThen (gets (\<lambda>w. om_get (ow_active w) (re_cardId entry))) (\<lambda>found.
           next_do (pause env) (case found of
             None \<Rightarrow> ret ()
           | Some (_, r) \<Rightarrow> if adopted then start_retry env entry (the oc) r else ret ())))))"

text \<open>A timer of the scheduler fires.\<close>

definition fire_retry_timer :: "orch_env \<Rightarrow> nat \<Rightarrow> unit orch" where
  "fire_retry_timer env timer =
     andThen (gets (\<lambda>w. length (rq_runs (ow_retries w)))) (\<lambda>n.
       next_do (modify (\<lambda>w. w\<lparr>ow_retries := sched_fire timer (now_of env w) (ow_retries w)\<rparr>))
         (andThen (gets (\<lambda>w. map fst (drop n (rq_runs (ow_retries w)))))
            (for_each (run_rate_limit_retry env))))"

section \<open>Starting the next step, recovering a step\<close>

definition notify_now :: "orch_env \<Rightarrow> recovery_notification \<Rightarrow> unit orch" where
  "notify_now env n =
     andThen (gets (\<lambda>w. oe_canPrompt env \<and> rn_sessionId n \<notin> ow_endedSessionIds w
         \<and> (case om_get (ow_sessions w) (rn_sessionId n) of
              None \<Rightarrow> False | Some session \<Rightarrow> sv_acpStatus session \<noteq> Some AcpError))) (\<lambda>send.
       when_do send (log_effect (SendPrompt n)))"

definition notifyKanbanAgent :: "orch_env \<Rightarrow> recovery_notification \<Rightarrow> unit orch" where
  "notifyKanbanAgent env n = next_do (notify_now env n) (pause env)"

definition notification :: "active_automation \<Rightarrow> string \<Rightarrow> string \<Rightarrow> recovery_notification" where
  "notification a sessionId reason =
     \<lparr>rn_workspaceId = aa_workspaceId a, rn_sessionId = sessionId, rn_cardId = aa_cardId a,
      rn_cardTitle = aa_cardTitle a, rn_boardId = aa_boardId a, rn_columnId = aa_columnId a,
      rn_reason = reason, rn_mode = sup_mode (aa_supervision a)\<rparr>"

datatype step_start = StepStarted | StepQueued | StepFailed

definition release_session :: "string option \<Rightarrow> task \<Rightarrow> task" where
  "release_session previousSessionId t =
     (if \<not> truthy previousSessionId then t
      else let t1 = (if the previousSessionId \<in> set (tk_sessionIds t) then t
                     else t\<lparr>tk_sessionIds := tk_sessionIds t @ [the previousSessionId]\<rparr>)
           in if tk_triggerSessionId t1 = previousSessionId then t1\<lparr>tk_triggerSessionId := None\<rparr> else t1)"

text \<open>What both do once the session is asked for: the automation runs, waits in the queue, or failed; the
  card carries the message of a callback that threw.\<close>

definition session_answered :: "nat \<Rightarrow> task \<Rightarrow> created \<Rightarrow> (task \<times> step_start) orch" where
  "session_answered r t c =
     (case readCreatedSession c of (sessionId, queued) \<Rightarrow>
        if queued then next_do (set_automation r (\<lambda>a. a\<lparr>aa_status := RunQueued\<rparr>)) (ret (t, StepQueued))
        else if \<not> truthy sessionId
        then next_do (set_automation r (\<lambda>a. a\<lparr>aa_status := RunFailed\<rparr>)) (ret (t, StepFailed))
        else next_do (set_automation r (\<lambda>a. a\<lparr>aa_status := RunRunning, aa_sessionId := sessionId\<rparr>))
               (ret (t, StepStarted)))"

definition session_refused :: "orch_env \<Rightarrow> nat \<Rightarrow> task \<Rightarrow> orch_error \<Rightarrow> (task \<times> step_start) orch" where
  "session_refused env r t e =
     next_do (set_automation r (\<lambda>a. a\<lparr>aa_status := RunFailed\<rparr>))
       (andThen (gets (now_of env)) (\<lambda>now.
          let t1 = t\<lparr>tk_lastSyncError := (case e of CallbackRejected message \<Rightarrow> Some message | _ \<Rightarrow> None),
                      tk_updatedAt := now\<rparr>
          in next_do (save_card env t1) (ret (t1, StepFailed))))"

definition take_session ::
  "orch_env \<Rightarrow> nat \<Rightarrow> task \<Rightarrow> (nat \<Rightarrow> active_automation \<Rightarrow> create_call) \<Rightarrow> (task \<times> step_start) orch" where
  "take_session env r t call =
     catching (andThen (gets (automation_at r)) (\<lambda>a.
         andThen (create_session env (call (aa_currentStepIndex a) a)) (session_answered r t)))
       (session_refused env r t)"

definition next_step_automation :: "nat \<Rightarrow> int \<Rightarrow> active_automation \<Rightarrow> active_automation" where
  "next_step_automation nextStepIndex now a =
     a\<lparr>aa_currentStepIndex := nextStepIndex, aa_attempt := 1, aa_recoveryAttempts := 0, aa_status := RunQueued,
       aa_startedAt := now, aa_sessionId := None, aa_signaledSessionIds := {}\<rparr>"

definition objective_or :: "task \<Rightarrow> string \<Rightarrow> string" where
  "objective_or t title = (if tk_objective t = [] then title else tk_objective t)"

definition startNextAutomationStep ::
  "orch_env \<Rightarrow> string \<Rightarrow> nat \<Rightarrow> task \<Rightarrow> nat \<Rightarrow> (task \<times> step_start) orch" where
  "startNextAutomationStep env cardId r t nextStepIndex =
     andThen (gets (automation_at r)) (\<lambda>a.
       if oe_createSession env = None \<or> step_at (Some (aa_steps a)) (int nextStepIndex) = None
       then ret (t, StepFailed)
       else andThen (gets (now_of env)) (\<lambda>now.
         let t1 = (release_session (aa_sessionId a) t)\<lparr>tk_lastSyncError := None, tk_updatedAt := now\<rparr>
         in next_do (save_card env t1) (next_do (cleanup_card env cardId)
              (andThen (gets (now_of env)) (\<lambda>later.
                 next_do (set_automation r (next_step_automation nextStepIndex later))
                   (take_session env r t1 (\<lambda>_ a. (lane_call a nextStepIndex
                      (buildSupervisionContext a (objective_or t1 (aa_cardTitle a)) None None))
                        \<lparr>cc_cardId := cardId\<rparr>)))))))"

definition recovering_automation :: "int \<Rightarrow> active_automation \<Rightarrow> active_automation" where
  "recovering_automation now a =
     a\<lparr>aa_recoveryAttempts := aa_recoveryAttempts a + 1, aa_attempt := aa_attempt a + 1, aa_status := RunQueued,
       aa_startedAt := now, aa_sessionId := None,
       aa_signaledSessionIds := (if truthy (aa_sessionId a) then aa_signaledSessionIds a - {the (aa_sessionId a)}
                                 else aa_signaledSessionIds a)\<rparr>"

definition recoverAutomation ::
  "orch_env \<Rightarrow> string \<Rightarrow> nat \<Rightarrow> task \<Rightarrow> lane_recovery_reason \<Rightarrow> (task \<times> step_start) orch" where
  "recoverAutomation env cardId r t reason =
     andThen (gets (automation_at r)) (\<lambda>a.
       if oe_createSession env = None \<or> \<not> isRecoveryMode (sup_mode (aa_supervision a)) then ret (t, StepFailed)
       else andThen (gets (now_of env)) (\<lambda>now.
         let a1 = recovering_automation now a;
             t1 = (release_session (aa_sessionId a) t)\<lparr>tk_lastSyncError := Some (buildRecoveryMessage a1 reason),
                                                       tk_updatedAt := now\<rparr>
         in next_do (set_automation r (recovering_automation now)) (next_do (save_card env t1)
              (next_do (cleanup_card env cardId)
                 (take_session env r t1 (\<lambda>i a'. (lane_call a' i
                    (buildSupervisionContext a' (objective_or t1 (aa_cardTitle a')) (aa_sessionId a) (Some reason)))
                      \<lparr>cc_cardId := cardId\<rparr>))))))"

section \<open>Moving a finished card on\<close>

text \<open>The column after the current one by position, when the card may move there by itself.\<close>

definition auto_advance_target :: "kanban_board \<Rightarrow> task \<Rightarrow> active_automation \<Rightarrow> (kanban_column \<times> kanban_column) option" where
  "auto_advance_target board t a =
     (if tk_columnId t \<noteq> Some (aa_columnId a) then None
      else case find_column (kb_columns board) (Some (aa_columnId a)) of
        None \<Rightarrow> None
      | Some currentColumn \<Rightarrow>
          if kc_stage currentColumn = StDone then None
          else let sortedColumns = sort_by (by_key kc_position) (kb_columns board)
               in (case find_index (\<lambda>c. kc_id c = kc_id currentColumn) sortedColumns of
                     None \<Rightarrow> None
                   | Some currentIndex \<Rightarrow>
                       if Suc currentIndex < length sortedColumns
                       then let nextColumn = sortedColumns ! Suc currentIndex
                            in if kc_stage nextColumn = StBlocked then None else Some (currentColumn, nextColumn)
                       else None))"

definition advanced_card :: "kanban_board \<Rightarrow> kanban_column \<Rightarrow> int \<Rightarrow> task \<Rightarrow> task" where
  "advanced_card board nextColumn now t =
     (let t1 = t\<lparr>tk_columnId := Some (kc_id nextColumn),
                 tk_status := resolveTaskStatusForBoardColumn (kb_columns board) (Some (kc_id nextColumn))\<rparr>;
          t2 = (if truthy (tk_triggerSessionId t1) \<and> the (tk_triggerSessionId t1) \<notin> set (tk_sessionIds t1)
                then t1\<lparr>tk_sessionIds := tk_sessionIds t1 @ [the (tk_triggerSessionId t1)]\<rparr> else t1)
      in t2\<lparr>tk_triggerSessionId := None, tk_updatedAt := now\<rparr>)"

definition advance_event :: "string \<Rightarrow> active_automation \<Rightarrow> kanban_column \<Rightarrow> kanban_column \<Rightarrow> int \<Rightarrow> agent_event" where
  "advance_event cardId a currentColumn nextColumn now =
     \<lparr>ev_type = COLUMN_TRANSITION, ev_agentId = ''kanban-workflow-orchestrator'', ev_workspaceId = aa_workspaceId a,
      ev_data = js_of_transition
        \<lparr>td_cardId = cardId, td_cardTitle = aa_cardTitle a, td_boardId = aa_boardId a,
         td_workspaceId = aa_workspaceId a, td_fromColumnId = aa_columnId a, td_toColumnId = kc_id nextColumn,
         td_fromColumnName = Some (kc_name currentColumn), td_toColumnName = Some (kc_name nextColumn),
         td_laneRerun = None\<rparr>,
      ev_timestamp = now\<rparr>"

text \<open>\<open>emit\<close> calls the subscribers, which belong to the others, before it returns.\<close>

definition emit_event :: "orch_env \<Rightarrow> agent_event \<Rightarrow> unit orch" where
  "emit_event env event = next_do (log_effect (EmitEvent event)) (pause env)"

definition autoAdvanceCard :: "orch_env \<Rightarrow> string \<Rightarrow> nat \<Rightarrow> unit orch" where
  "autoAdvanceCard env cardId r =
     andThen (gets (automation_at r)) (\<lambda>a0. andThen (read_board env (aa_boardId a0)) (\<lambda>board. case board of
       None \<Rightarrow> ret ()
     | Some b \<Rightarrow> andThen (read_card env cardId) (\<lambda>oc. case oc of
         None \<Rightarrow> ret ()
       | Some t \<Rightarrow> andThen (gets (automation_at r)) (\<lambda>a. case auto_advance_target b t a of
           None \<Rightarrow> ret ()
         | Some (currentColumn, nextColumn) \<Rightarrow> andThen (gets (now_of env)) (\<lambda>now.
             next_do (save_card env (advanced_card b nextColumn now t)) (next_do (cleanup_card env cardId)
               (andThen (gets (now_of env)) (\<lambda>later.
                  emit_event env (advance_event cardId a currentColumn nextColumn later)))))))))"

section \<open>Winding a card down\<close>

text \<open>It reads the card and calls the callback; nothing waits for it.\<close>

definition runDoneWorktreeCleanup :: "orch_env \<Rightarrow> pending_cleanup \<Rightarrow> unit orch" where
  "runDoneWorktreeCleanup env pending =
     (if \<not> oe_canCleanWorktree env then ret ()
      else andThen (gets (\<lambda>w. store_get (iso_of env w) (ow_store w) (pc_taskId pending))) (\<lambda>oc.
        when_do (oc \<noteq> None) (log_effect (DoneWorktreeCleanup (pc_taskId pending) (pc_columnId pending)))))"

definition teardown_one :: "orch_env \<Rightarrow> bool \<Rightarrow> string \<Rightarrow> string \<Rightarrow> unit orch" where
  "teardown_one env deferCurrent eventSessionId sessionId =
     (if deferCurrent \<and> sessionId = eventSessionId then defer_session sessionId
      else killTeardownSession env sessionId)"

definition teardownFinishedCardSessions ::
  "orch_env \<Rightarrow> task \<Rightarrow> string \<Rightarrow> agent_event \<Rightarrow> nat \<Rightarrow> unit orch" where
  "teardownFinishedCardSessions env t eventSessionId event r =
     (let deferCurrent = isInTurnEvent event;
          sessionIds = collectTaskSessionIds t
      in next_do (for_each mark_teardown sessionIds)
           (next_do (for_each (teardown_one env deferCurrent eventSessionId) sessionIds)
              (andThen (gets (automation_at r)) (\<lambda>a.
                 let pending = \<lparr>pc_taskId = tk_id t, pc_columnId = aa_columnId a, pc_automation = aa_automation a\<rparr>
                 in if deferCurrent \<and> eventSessionId \<in> set sessionIds
                    then modify (\<lambda>w. w\<lparr>ow_pendingWorktreeCleanup :=
                           om_set (ow_pendingWorktreeCleanup w) eventSessionId pending\<rparr>)
                    else runDoneWorktreeCleanup env pending))))"

definition finishDeferredTeardown :: "orch_env \<Rightarrow> agent_event \<Rightarrow> unit orch" where
  "finishDeferredTeardown env event =
     (case event_session event of
        None \<Rightarrow> ret ()
      | Some sessionId \<Rightarrow>
          andThen (gets (\<lambda>w. sessionId \<in> ow_deferredTeardownSessionIds w)) (\<lambda>deferred.
            if \<not> deferred \<or> isInTurnEvent event then ret ()
            else next_do (undefer sessionId) (next_do (killTeardownSession env sessionId)
              (andThen (gets (\<lambda>w. om_get (ow_pendingWorktreeCleanup w) sessionId)) (\<lambda>pending. case pending of
                 None \<Rightarrow> ret ()
               | Some p \<Rightarrow> next_do
                   (modify (\<lambda>w. w\<lparr>ow_pendingWorktreeCleanup := om_del (ow_pendingWorktreeCleanup w) sessionId\<rparr>))
                   (runDoneWorktreeCleanup env p))))))"

definition endCardSessionsAfterDoneFailure :: "orch_env \<Rightarrow> task \<Rightarrow> unit orch" where
  "endCardSessionsAfterDoneFailure env t =
     (let sessionIds = collectTaskSessionIds t
      in next_do (for_each mark_teardown sessionIds)
           (for_each (\<lambda>sessionId. next_do (undefer sessionId) (endSessionProcess env sessionId)) sessionIds))"

section \<open>The end of a step\<close>

text \<open>What the end of a session is found to be.\<close>

record step_end =
  st_event :: agent_event
  st_success :: bool
  st_satisfied :: bool
  st_environment :: bool
  st_evidence :: string
  st_rateLimited :: bool
  st_recover :: bool

definition successEvent :: "agent_event \<Rightarrow> bool" where
  "successEvent event = (ev_type event \<noteq> AGENT_FAILED \<and> ev_type event \<noteq> AGENT_TIMEOUT
     \<and> event_data event ''success'' \<noteq> JBool False \<and> \<not> isCancelledTurn event)"

definition js_opt_text :: "string option \<Rightarrow> json" where
  "js_opt_text v = (case v of None \<Rightarrow> JUndef | Some s \<Rightarrow> JStr s)"

definition history_of :: "orch_world \<Rightarrow> string \<Rightarrow> history_entry list" where
  "history_of w sessionId = orDefault (om_get (ow_history w) sessionId) []"

definition live_sessions_of :: "orch_world \<Rightarrow> live_sessions" where
  "live_sessions_of w =
     \<lparr>lv_getHistory = history_of w, lv_terminalAt = (\<lambda>s. Option.bind (om_get (ow_activity w) s) sa_terminalAt)\<rparr>"

text \<open>The card's copy gets the last activity of the session, and a record if it has none.\<close>

definition note_activity :: "orch_env \<Rightarrow> nat \<Rightarrow> string \<Rightarrow> task \<Rightarrow> task orch" where
  "note_activity env r sessionId t =
     andThen (gets (\<lambda>w.
        let a = automation_at r w;
            activity = om_get (ow_activity w) sessionId;
            backfill = buildLaneSessionBackfill t (Some \<lparr>ba_columnId = Some (aa_columnId a),
              ba_columnName = Some (aa_columnName a), ba_currentStepIndex = int (aa_currentStepIndex a),
              ba_steps = Some (aa_steps a)\<rparr>) sessionId
        in upsertTaskLaneSession (oe_host env) (iso_of env w) t
             (backfill\<lparr>lp_lastActivityAt := Some (nullish (Option.bind activity sa_lastMeaningfulActivityAt)
                                                   (map_option sa_lastActivityAt activity))\<rparr>)))
       card_result"

definition end_found ::
  "orch_env \<Rightarrow> nat \<Rightarrow> string \<Rightarrow> task option \<Rightarrow> agent_event \<Rightarrow> bool \<Rightarrow> orch_world \<Rightarrow> step_end" where
  "end_found env r sessionId oc event satisfied w =
     (let success = successEvent event;
          cancelled = isCancelledTurn event;
          acpError = js_opt_text (Option.bind (om_get (ow_sessions w) sessionId) sv_acpError);
          environment = (\<not> success \<and> isEnvironmentFailureMessage
            (if is_jstr (event_data event ''error'') \<and> event_data event ''error'' \<noteq> JStr []
             then event_data event ''error'' else acpError));
          evidence = (if \<not> success \<and> \<not> environment \<and> \<not> cancelled
            then collectRateLimitEvidence (ev_type event = AGENT_TIMEOUT) (event_data event ''error'') acpError
                   (if history_of w sessionId = [] then None
                    else Some (oe_messageText env (last (history_of w sessionId))))
            else []);
          rateLimited = classifyRetryableEnvironmentFailure (JStr evidence)
      in \<lparr>st_event = event, st_success = success, st_satisfied = satisfied, st_environment = environment,
          st_evidence = evidence, st_rateLimited = rateLimited,
          st_recover = (case oc of None \<Rightarrow> False
            | Some t \<Rightarrow> \<not> environment \<and> \<not> rateLimited \<and> \<not> cancelled
                \<and> shouldRecover t (automation_at r w) event satisfied)\<rparr>)"

text \<open>A failed session is ended first; \<open>isCompletionSatisfied\<close> and \<open>shouldRecover\<close> are awaited.\<close>

definition classify_end :: "orch_env \<Rightarrow> nat \<Rightarrow> string \<Rightarrow> task option \<Rightarrow> agent_event \<Rightarrow> step_end orch" where
  "classify_end env r sessionId oc event =
     next_do (when_do (\<not> successEvent event) (killFailedSession env sessionId))
       (andThen (gets (\<lambda>w. isCompletionSatisfied oc (automation_at r w) (successEvent event))) (\<lambda>satisfied.
          next_do (pause env) (andThen (gets (end_found env r sessionId oc event satisfied)) (\<lambda>e.
            next_do (when_do (oc \<noteq> None \<and> \<not> st_environment e \<and> \<not> st_rateLimited e \<and> \<not> isCancelledTurn event)
                       (pause env))
              (ret e)))))"

text \<open>An ended record is final; a running one is ended on the copy of the card.\<close>

definition end_record :: "orch_env \<Rightarrow> string \<Rightarrow> step_end \<Rightarrow> task \<Rightarrow> task orch" where
  "end_record env sessionId e t =
     (if \<not> record_running t sessionId then ret t
      else andThen (gets (iso_of env)) (\<lambda>iso.
        andThen (card_result (markTaskLaneSessionStatus (oe_host env) iso t (Some sessionId)
            (if ev_type (st_event e) = AGENT_TIMEOUT then LaneTimedOut
             else if st_success e \<and> st_satisfied e then LaneCompleted else LaneFailed) None)) (\<lambda>t1.
          if st_success e \<and> st_satisfied e then ret t1
          else andThen (gets (\<lambda>w. getRecoveryReason (now_of env w) (ow_cancelMarks w) (st_event e) (st_satisfied e)
                 (st_environment e) (st_rateLimited e))) (\<lambda>reason.
            card_result (upsertTaskLaneSession (oe_host env) iso t1
              ((empty_patch sessionId)\<lparr>lp_recoveryReason := Some (Some reason)\<rparr>))))))"

definition plan_retry :: "orch_env \<Rightarrow> nat \<Rightarrow> string \<Rightarrow> step_end \<Rightarrow> task \<Rightarrow> (task \<times> retry_plan option) orch" where
  "plan_retry env r sessionId e t =
     (if \<not> st_rateLimited e \<and> \<not> isCancelledTurn (st_event e) then ret (t, None)
      else andThen (gets (\<lambda>w. planLaneStepRetry (oe_host env) (iso_of env w) (now_of env w)
             (oe_random env (ow_awaits w)) t (aa_columnId (automation_at r w)) sessionId (st_evidence e)
             (st_rateLimited e))) (\<lambda>v. case v of
        (t1, Inl err) \<Rightarrow> throw (CardError err) | (t1, Inr plan) \<Rightarrow> ret (t1, plan)))"

definition step_done :: "step_end \<Rightarrow> bool \<Rightarrow> bool" where
  "step_done e failedToAdvance = (\<not> failedToAdvance \<and> st_success e \<and> st_satisfied e)"

definition end_error :: "orch_env \<Rightarrow> active_automation \<Rightarrow> step_end \<Rightarrow> bool \<Rightarrow> retry_plan option \<Rightarrow> string option \<Rightarrow> string option" where
  "end_error env a e failedToAdvance plan lastSyncError =
     (let message = buildFailureMessage a (st_event e) (st_satisfied e)
      in if step_done e failedToAdvance then None
         else if st_environment e then Some (formatEnvironmentFailureError message)
         else (case plan of
                 Some p \<Rightarrow> Some (oe_syncText env (pl_lastSyncError p))
               | None \<Rightarrow> if truthy lastSyncError then lastSyncError else Some message))"

definition failed_lane_watchdog :: "active_automation \<Rightarrow> step_end \<Rightarrow> bool" where
  "failed_lane_watchdog a e = (ev_type (st_event e) = AGENT_TIMEOUT \<and> aa_laneWatchdog a \<noteq> None)"

definition can_fallback :: "active_automation \<Rightarrow> step_end \<Rightarrow> nat \<Rightarrow> bool" where
  "can_fallback a e nextStepIndex =
     (\<not> st_success e \<and> \<not> st_environment e \<and> \<not> st_rateLimited e \<and> \<not> failed_lane_watchdog a e
      \<and> \<not> isCancelledTurn (st_event e) \<and> trueOpt (aa_enableAutomaticFallback a)
      \<and> nextStepIndex < length (aa_steps a))"

definition signal_session :: "nat \<Rightarrow> string \<Rightarrow> unit orch" where
  "signal_session r sessionId =
     set_automation r (\<lambda>a. a\<lparr>aa_signaledSessionIds := insert sessionId (aa_signaledSessionIds a)\<rparr>)"

text \<open>What tried to go on: the copy of the card, and whether the handler is done.\<close>

definition try_advance :: "orch_env \<Rightarrow> string \<Rightarrow> nat \<Rightarrow> string \<Rightarrow> step_end \<Rightarrow> task \<Rightarrow> (task \<times> bool \<times> bool) orch" where
  "try_advance env cardId r sessionId e t =
     andThen (gets (automation_at r)) (\<lambda>a.
       let nextStepIndex = Suc (aa_currentStepIndex a)
       in if \<not> (st_success e \<and> st_satisfied e \<and> nextStepIndex < length (aa_steps a)) then ret (t, False, False)
          else andThen (startNextAutomationStep env cardId r t nextStepIndex) (\<lambda>(t1, start).
            next_do (pause env)
              (if start = StepFailed then ret (t1, False, True)
               else next_do (signal_session r sessionId)
                 (next_do (endFinishedStepSession env sessionId (st_event e)) (ret (t1, True, False))))))"

definition try_fallback :: "orch_env \<Rightarrow> string \<Rightarrow> nat \<Rightarrow> string \<Rightarrow> step_end \<Rightarrow> nat \<Rightarrow> task \<Rightarrow> (task \<times> bool) orch" where
  "try_fallback env cardId r sessionId e nextStepIndex t =
     andThen (gets (automation_at r)) (\<lambda>a.
       let maxAttempts = orDefault (tk_maxFallbackAttempts t) (int (length (aa_steps a)))
       in if \<not> int (aa_currentStepIndex a) < maxAttempts then ret (t, False)
          else andThen (startNextAutomationStep env cardId r t nextStepIndex) (\<lambda>(t1, start).
            next_do (pause env)
              (if start = StepFailed then ret (t1, False)
               else next_do (signal_session r sessionId) (ret (t1, True)))))"

definition try_recover :: "orch_env \<Rightarrow> string \<Rightarrow> nat \<Rightarrow> string \<Rightarrow> step_end \<Rightarrow> task \<Rightarrow> (task \<times> bool) orch" where
  "try_recover env cardId r sessionId e t =
     andThen (gets (\<lambda>w. (automation_at r w,
        getRecoveryReason (now_of env w) (ow_cancelMarks w) (st_event e) (st_satisfied e) False False))) (\<lambda>(a, reason).
       next_do (notifyKanbanAgent env (notification a sessionId (''Recovery reason: '' @ recovery_reason_str reason @ ''.'')))
         (andThen (recoverAutomation env cardId r t reason) (\<lambda>(t1, start).
            next_do (pause env)
              (if start = StepFailed then ret (t1, False)
               else next_do (endFinishedStepSession env sessionId (st_event e)) (ret (t1, True))))))"

text \<open>The step ended and nothing follows it. \<^const>\<open>None\<close> is a card that is no longer there.\<close>

definition save_end :: "orch_env \<Rightarrow> nat \<Rightarrow> step_end \<Rightarrow> bool \<Rightarrow> retry_plan option \<Rightarrow> task option \<Rightarrow> task option orch" where
  "save_end env r e failedToAdvance plan oc =
     (case oc of
        None \<Rightarrow> ret None
      | Some t \<Rightarrow> andThen (gets (automation_at r)) (\<lambda>a.
          let t1 = t\<lparr>tk_lastSyncError := end_error env a e failedToAdvance plan (tk_lastSyncError t)\<rparr>
          in next_do (save_card env t1) (ret (Some t1))))"

definition schedule_retry :: "orch_env \<Rightarrow> nat \<Rightarrow> string \<Rightarrow> retry_plan option \<Rightarrow> unit orch" where
  "schedule_retry env r sessionId plan =
     (case Option.bind plan pl_retryAt of
        None \<Rightarrow> ret ()
      | Some retryAt \<Rightarrow> modify (\<lambda>w. let a = automation_at r w
          in w\<lparr>ow_retries := sched_schedule (now_of env w)
                 (active_entry (aa_cardId a) (aa_columnId a) (int (aa_currentStepIndex a)) (aa_attempt a)
                    (aa_recoveryAttempts a) sessionId retryAt) (ow_retries w)\<rparr>))"

definition keep_artifact :: "orch_env \<Rightarrow> string \<Rightarrow> bool \<Rightarrow> task option \<Rightarrow> unit orch" where
  "keep_artifact env sessionId isDone oc =
     when_do (oc \<noteq> None \<and> isDone \<and> oe_canKeepArtifact env)
       (next_do (log_effect (FallbackArtifact (tk_id (the oc)) sessionId)) (pause env))"

definition wind_down_done :: "orch_env \<Rightarrow> nat \<Rightarrow> string \<Rightarrow> agent_event \<Rightarrow> bool \<Rightarrow> task option \<Rightarrow> unit orch" where
  "wind_down_done env r sessionId event isDone oc =
     (case oc of
        None \<Rightarrow> ret ()
      | Some t \<Rightarrow>
          next_do
            (andThen (gets (automation_at r)) (\<lambda>a.
               when_do (isDone \<and> aa_stage a = StDone \<and> tk_columnId t = Some (aa_columnId a) \<and> tk_status t = TS_COMPLETED)
                 (next_do (teardownFinishedCardSessions env t sessionId event r) (pause env))))
            (andThen (gets (automation_at r)) (\<lambda>a.
               when_do (aa_stage a = StDone \<and> aa_status a = RunFailed) (next_do (endCardSessionsAfterDoneFailure env t) (pause env)))))"

definition route_after_lane :: "orch_env \<Rightarrow> string \<Rightarrow> nat \<Rightarrow> retry_plan option \<Rightarrow> task option \<Rightarrow> unit orch" where
  "route_after_lane env cardId r plan oc =
     andThen (gets (automation_at r)) (\<lambda>a.
       when_do (oc \<noteq> None \<and> Option.bind plan pl_retryAt = None \<and> aa_stage a \<noteq> StBlocked \<and> oe_canRouteAfterLane env)
         (next_do (log_effect (AfterLaneEnd cardId)) (pause env)))"

definition finish_step ::
  "orch_env \<Rightarrow> string \<Rightarrow> nat \<Rightarrow> string \<Rightarrow> step_end \<Rightarrow> bool \<Rightarrow> retry_plan option \<Rightarrow> task option \<Rightarrow> unit orch" where
  "finish_step env cardId r sessionId e failedToAdvance plan oc =
     (let isDone = step_done e failedToAdvance in
      next_do (set_automation r (\<lambda>a. a\<lparr>aa_status := (if isDone then RunCompleted else RunFailed),
                 aa_signaledSessionIds := insert sessionId (aa_signaledSessionIds a)\<rparr>))
      (andThen (save_end env r e failedToAdvance plan oc) (\<lambda>oc1.
      next_do (schedule_retry env r sessionId plan)
      (next_do (keep_artifact env sessionId isDone oc1)
      (next_do (andThen (gets (automation_at r)) (\<lambda>a.
                  when_do (isDone \<and> trueOpt (ca_autoAdvanceOnSuccess (aa_automation a))) (autoAdvanceCard env cardId r)))
      (next_do (wind_down_done env r sessionId (st_event e) isDone oc1)
      (next_do (endFinishedStepSession env sessionId (st_event e))
      (next_do (route_after_lane env cardId r plan oc1)
         (modify (\<lambda>w. w\<lparr>ow_timers := ow_timers w @ [(cardId, r)]\<rparr>))))))))))"

text \<open>First the next step of the lane, after a failure a fallback agent; the flags say that the handler is
  done, and that the next step could not start.\<close>

definition advance_or_fall_back ::
  "orch_env \<Rightarrow> string \<Rightarrow> nat \<Rightarrow> string \<Rightarrow> step_end \<Rightarrow> task \<Rightarrow> (task \<times> bool \<times> bool) orch" where
  "advance_or_fall_back env cardId r sessionId e t =
     andThen (gets (\<lambda>w. Suc (aa_currentStepIndex (automation_at r w)))) (\<lambda>nextStepIndex.
     andThen (try_advance env cardId r sessionId e t) (\<lambda>(t1, handled, failedToAdvance).
       andThen (gets (\<lambda>w. \<not> handled \<and> can_fallback (automation_at r w) e nextStepIndex)) (\<lambda>fallback.
         if \<not> fallback then ret (t1, handled, failedToAdvance)
         else andThen (try_fallback env cardId r sessionId e nextStepIndex t1) (\<lambda>(t2, handed).
                ret (t2, handed, failedToAdvance)))))"

definition go_on ::
  "orch_env \<Rightarrow> string \<Rightarrow> nat \<Rightarrow> string \<Rightarrow> step_end \<Rightarrow> retry_plan option \<Rightarrow> task \<Rightarrow> unit orch" where
  "go_on env cardId r sessionId e plan t =
     andThen (advance_or_fall_back env cardId r sessionId e t) (\<lambda>(t1, handled, failedToAdvance).
       if handled then ret ()
       else andThen (if st_recover e then try_recover env cardId r sessionId e t1 else ret (t1, False))
         (\<lambda>(t2, recovered).
           if recovered then ret ()
           else finish_step env cardId r sessionId e failedToAdvance plan (Some t2)))"

text \<open>The end of a session that belongs to the automation. Without a card there is nothing to go on with.\<close>

definition end_of_step :: "orch_env \<Rightarrow> string \<Rightarrow> nat \<Rightarrow> string \<Rightarrow> task option \<Rightarrow> agent_event \<Rightarrow> unit orch" where
  "end_of_step env cardId r sessionId oc event0 =
     andThen (gets (\<lambda>w. reconcileExitAfterTurnEnd (oe_stringify env) event0 (live_sessions_of w))) (\<lambda>event.
     case oc of
       None \<Rightarrow> andThen (classify_end env r sessionId None event) (\<lambda>e.
                 finish_step env cardId r sessionId e False None None)
     | Some t0 \<Rightarrow>
         andThen (note_activity env r sessionId t0) (\<lambda>t1.
         andThen (classify_end env r sessionId (Some t1) event) (\<lambda>e.
         andThen (end_record env sessionId e t1) (\<lambda>t2.
         andThen (plan_retry env r sessionId e t2) (\<lambda>(t3, plan).
           go_on env cardId r sessionId e plan t3)))))"

section \<open>Events\<close>

definition settle_env_of :: "orch_env \<Rightarrow> orch_world \<Rightarrow> settle_env" where
  "settle_env_of env w =
     \<lparr>se_clock = \<lparr>sc_host = oe_host env, sc_now = now_of env w, sc_random = oe_random env (ow_awaits w)\<rparr>,
      se_stringify = oe_stringify env, se_sessions = live_sessions_of w,
      se_beforeRead = oe_beforeRead env (ow_awaits w), se_beforeSave = oe_beforeSave env (ow_awaits w)\<rparr>"

definition settle_lane :: "orch_env \<Rightarrow> agent_event \<Rightarrow> settle_mode \<Rightarrow> string option \<Rightarrow> unit orch" where
  "settle_lane env event mode cardId =
     next_do (pause env)
       (next_do (modify (\<lambda>w. w\<lparr>ow_store := settleUnhandledLaneEnd (settle_env_of env w) event mode cardId (ow_store w)\<rparr>))
          (pause env))"

text \<open>A card with no session of its own takes its trigger session; \<open>adopted\<close> says that it did.\<close>

definition adopt_trigger :: "nat \<Rightarrow> task option \<Rightarrow> (string option \<times> bool) orch" where
  "adopt_trigger r oc =
     andThen (gets (\<lambda>w. aa_sessionId (automation_at r w))) (\<lambda>own.
       let sessionId = nullish own (Option.bind oc tk_triggerSessionId);
           adopted = (\<not> truthy own \<and> truthy sessionId)
       in next_do (when_do adopted (set_automation r (\<lambda>a. a\<lparr>aa_sessionId := sessionId, aa_status := RunRunning\<rparr>)))
            (ret (sessionId, adopted)))"

text \<open>One round of the loop over the active automations; it is true when the event is dealt with.\<close>

definition end_for_card :: "orch_env \<Rightarrow> string \<Rightarrow> nat \<Rightarrow> agent_event \<Rightarrow> bool orch" where
  "end_for_card env cardId r event =
     andThen (gets (\<lambda>w. aa_status (automation_at r w))) (\<lambda>status.
     case event_session event of
       None \<Rightarrow> ret False
     | Some eventSessionId \<Rightarrow>
         if status = RunCompleted \<or> status = RunFailed then ret False
         else andThen (read_card env cardId) (\<lambda>oc.
           andThen (adopt_trigger r oc) (\<lambda>(sessionId, adopted).
           if sessionId \<noteq> Some eventSessionId then ret False
           else andThen (gets (\<lambda>w. case oc of None \<Rightarrow> False
                  | Some t \<Rightarrow> isPostCompletionTeardownFailure w t (automation_at r w) eventSessionId event)) (\<lambda>teardown.
             if teardown
             then next_do (when_do adopted (set_automation r (\<lambda>a. a\<lparr>aa_sessionId := None, aa_status := RunQueued\<rparr>)))
               (next_do (signal_session r eventSessionId)
                 (next_do (settle_lane env event SettleTeardown (Some cardId)) (ret True)))
             else next_do (end_of_step env cardId r eventSessionId oc event) (ret True)))))"

fun end_loop :: "orch_env \<Rightarrow> nat \<Rightarrow> nat \<Rightarrow> agent_event \<Rightarrow> unit orch" where
  "end_loop env 0 place event = throw OutOfFuel"
| "end_loop env (Suc fuel) place event =
     andThen (gets (next_active place)) (\<lambda>entry. case entry of
       None \<Rightarrow> settle_lane env event SettleEvent None
     | Some (cardId, p, r) \<Rightarrow> andThen (end_for_card env cardId r event) (\<lambda>dealt.
         if dealt then ret () else end_loop env fuel (Suc p) event))"

definition handleAgentCompletion :: "orch_env \<Rightarrow> nat \<Rightarrow> agent_event \<Rightarrow> unit orch" where
  "handleAgentCompletion env fuel event =
     next_do (finishDeferredTeardown env event) (next_do (pause env)
       (andThen (gets (\<lambda>w. (case event_session event of None \<Rightarrow> False | Some s \<Rightarrow> s \<in> ow_cardEndedSessionIds w,
                          Option.bind (event_session event) (om_get (ow_departedLaneSessions w))))) (\<lambda>(cardEnded, departed).
          if cardEnded then settle_lane env event SettleTeardown None
          else if truthy departed
          then windDownDepartedSession env (the (event_session event)) (the departed) event
          else end_loop env fuel 0 event)))"

section \<open>The watchdog\<close>

text \<open>\<open>markSessionTimedOut\<close> of the session store, as far as the activity is used here.\<close>

definition markSessionTimedOut :: "orch_env \<Rightarrow> string \<Rightarrow> unit orch" where
  "markSessionTimedOut env sessionId =
     modify (\<lambda>w. w\<lparr>ow_activity := om_set (ow_activity w) sessionId
       \<lparr>sa_lastActivityAt = iso_of env w, sa_lastMeaningfulActivityAt = Some (iso_of env w),
        sa_terminalAt = Some (iso_of env w)\<rparr>\<rparr>)"

definition adoptQueuedStepSession :: "orch_env \<Rightarrow> nat \<Rightarrow> unit orch" where
  "adoptQueuedStepSession env r =
     andThen (gets (automation_at r)) (\<lambda>a0.
     if aa_status a0 \<noteq> RunQueued \<or> truthy (aa_sessionId a0) then ret ()
     else andThen (read_card env (aa_cardId a0)) (\<lambda>oc.
       andThen (gets (automation_at r)) (\<lambda>a.
         let sessionId = Option.bind oc tk_triggerSessionId;
             laneSession = Option.bind oc (\<lambda>t. getTaskLaneSession t sessionId)
         in if \<not> truthy sessionId \<or> Option.bind oc tk_columnId \<noteq> Some (aa_columnId a) then ret ()
            else (case laneSession of
              None \<Rightarrow> ret ()
            | Some run \<Rightarrow>
                if ls_columnId run \<noteq> Some (aa_columnId a) \<or> ls_status run \<noteq> LaneRunning
                   \<or> (ls_stepIndex run \<noteq> None \<and> ls_stepIndex run \<noteq> Some (int (aa_currentStepIndex a)))
                then ret ()
                else andThen (gets (now_of env)) (\<lambda>now.
                  set_automation r (\<lambda>a. a\<lparr>aa_sessionId := sessionId, aa_status := RunRunning,
                    aa_startedAt := orDefault (hostDateParse (oe_host env) (ls_startedAt run)) now\<rparr>))))))"

definition watchdog_event :: "active_automation \<Rightarrow> string \<Rightarrow> agent_event_type \<Rightarrow> string \<Rightarrow> (string \<times> json) list \<Rightarrow> int \<Rightarrow> agent_event" where
  "watchdog_event a sessionId kind error details now =
     \<lparr>ev_type = kind, ev_agentId = sessionId, ev_workspaceId = aa_workspaceId a,
      ev_data = [(''sessionId'', JStr sessionId), (''success'', JBool False), (''error'', JStr error)] @ details
                @ [(''watchdog'', JBool True)],
      ev_timestamp = now\<rparr>"

text \<open>The session is in error: a Dev step is reported as failed.\<close>

definition report_error :: "orch_env \<Rightarrow> nat \<Rightarrow> string \<Rightarrow> session_view \<Rightarrow> unit orch" where
  "report_error env r sessionId session =
     (let reason = orDefault (sv_acpError session) ''ACP session entered error state.'' in
      next_do (signal_session r sessionId) (andThen (gets (automation_at r)) (\<lambda>a.
        next_do (notify_now env (notification a sessionId reason))
          (andThen (gets (now_of env)) (\<lambda>now. emit_event env (watchdog_event a sessionId AGENT_FAILED reason [] now))))))"

definition last_activity :: "orch_world \<Rightarrow> js_host \<Rightarrow> active_automation \<Rightarrow> string \<Rightarrow> string" where
  "last_activity w host a sessionId =
     (let activity = om_get (ow_activity w) sessionId
      in orDefault (nullish (nullish (Option.bind activity sa_lastMeaningfulActivityAt) (map_option sa_lastActivityAt activity))
                      (map_option sv_createdAt (om_get (ow_sessions w) sessionId)))
           (hostToISO host (aa_startedAt a)))"

definition time_out :: "orch_env \<Rightarrow> nat \<Rightarrow> string \<Rightarrow> int \<Rightarrow> string \<Rightarrow> unit orch" where
  "time_out env r sessionId idleMs lastActivityAt =
     andThen (gets (automation_at r)) (\<lambda>a0.
     let reason = ''No ACP activity for '' @ show_int (getInactivityTimeoutMinutes a0) @ '' minutes.'' in
     next_do (markSessionTimedOut env sessionId) (next_do (signal_session r sessionId)
       (andThen (gets (automation_at r)) (\<lambda>a.
         next_do (when_do (isRecoveryMode (sup_mode (aa_supervision a))) (notify_now env (notification a sessionId reason)))
           (andThen (gets (now_of env)) (\<lambda>later.
              emit_event env (watchdog_event a sessionId AGENT_TIMEOUT reason
                [(''inactivityMs'', JNum (Fin (of_int idleMs))), (''lastActivityAt'', JStr lastActivityAt)] later)))))))"

definition scan_session :: "orch_env \<Rightarrow> int \<Rightarrow> nat \<Rightarrow> unit orch" where
  "scan_session env now r =
     andThen (gets (\<lambda>w. (automation_at r w, ow_sessions w))) (\<lambda>(a, sessions).
     if aa_status a \<noteq> RunRunning \<or> \<not> truthy (aa_sessionId a) then ret ()
     else let sessionId = the (aa_sessionId a); session = om_get sessions sessionId in
       if sessionId \<in> aa_signaledSessionIds a then ret ()
       else if isRecoveryMode (sup_mode (aa_supervision a)) \<and> Option.bind session sv_acpStatus = Some AcpError
       then report_error env r sessionId (the session)
       else andThen (gets (\<lambda>w. last_activity w (oe_host env) a sessionId)) (\<lambda>lastActivityAt.
         case hostDateParse (oe_host env) lastActivityAt of
           None \<Rightarrow> ret ()
         | Some lastActivityMs \<Rightarrow>
             if now - lastActivityMs < getInactivityTimeoutMinutes a * 60000 then ret ()
             else time_out env r sessionId (now - lastActivityMs) lastActivityAt))"

definition scan_automation :: "orch_env \<Rightarrow> int \<Rightarrow> nat \<Rightarrow> unit orch" where
  "scan_automation env now r =
     andThen (gets (automation_at r)) (\<lambda>a.
       if \<not> isRecoveryMode (sup_mode (aa_supervision a)) \<and> aa_laneWatchdog a = None then ret ()
       else next_do (adoptQueuedStepSession env r) (next_do (pause env) (scan_session env now r)))"

fun scan_loop :: "orch_env \<Rightarrow> nat \<Rightarrow> nat \<Rightarrow> int \<Rightarrow> unit orch" where
  "scan_loop env 0 place now = throw OutOfFuel"
| "scan_loop env (Suc fuel) place now =
     andThen (gets (next_active place)) (\<lambda>entry. case entry of
       None \<Rightarrow> ret ()
     | Some (cardId, p, r) \<Rightarrow> next_do (scan_automation env now r) (scan_loop env fuel (Suc p) now))"

definition scanForInactiveSessions :: "orch_env \<Rightarrow> nat \<Rightarrow> unit orch" where
  "scanForInactiveSessions env fuel = andThen (gets (now_of env)) (scan_loop env fuel 0)"

section \<open>The operations together\<close>

definition orch_start :: "orch_world \<Rightarrow> orch_world" where
  "orch_start w = w\<lparr>ow_started := True\<rparr>"

definition orch_stop :: "orch_world \<Rightarrow> orch_world" where
  "orch_stop w =
     (if \<not> ow_started w then w
      else w\<lparr>ow_active := [], ow_retries := sched_stopAll (ow_retries w), ow_started := False\<rparr>)"

definition is_end_event :: "agent_event \<Rightarrow> bool" where
  "is_end_event event = (ev_type event = AGENT_COMPLETED \<or> ev_type event = REPORT_SUBMITTED
     \<or> ev_type event = AGENT_FAILED \<or> ev_type event = AGENT_TIMEOUT)"

text \<open>The timer set when a step is over: it forgets the automation unless another took its place.\<close>

definition forget_finished :: "nat \<Rightarrow> orch_world \<Rightarrow> orch_world" where
  "forget_finished i w =
     (if i \<ge> length (ow_timers w) then w
      else let (cardId, r) = ow_timers w ! i;
               w1 = w\<lparr>ow_timers := take i (ow_timers w) @ drop (Suc i) (ow_timers w)\<rparr>
           in if map_option snd (om_get (ow_active w) cardId) = Some r
              then w1\<lparr>ow_active := om_del (ow_active w) cardId\<rparr> else w1)"

datatype orch_op =
    OpStart | OpStop
  | OpTransition transition_data
  | OpEnd agent_event nat
  | OpEndSessions "string list"
  | OpForget string "string option"
  | OpAdopt string string int "string option"
  | OpScan nat
  | OpRetryTimer nat
  | OpForgetTimer nat

fun orch_do :: "orch_env \<Rightarrow> orch_op \<Rightarrow> unit orch" where
  "orch_do env OpStart = modify orch_start"
| "orch_do env OpStop = modify orch_stop"
| "orch_do env (OpTransition d) = handleColumnTransitionData env d"
| "orch_do env (OpEnd event fuel) =
     andThen (gets ow_started) (\<lambda>started. when_do (started \<and> is_end_event event) (handleAgentCompletion env fuel event))"
| "orch_do env (OpEndSessions sessionIds) = endTaskSessions env sessionIds"
| "orch_do env (OpForget cardId columnId) = modify (forgetCard cardId columnId)"
| "orch_do env (OpAdopt cardId columnId stepIndex sessionId) =
     andThen (adoptLaneRun env cardId columnId stepIndex sessionId None) (\<lambda>_. ret ())"
| "orch_do env (OpScan fuel) =
     andThen (gets ow_started) (\<lambda>started. when_do started (scanForInactiveSessions env fuel))"
| "orch_do env (OpRetryTimer timer) = fire_retry_timer env timer"
| "orch_do env (OpForgetTimer i) = modify (forget_finished i)"

definition orch_step :: "orch_env \<Rightarrow> orch_op \<Rightarrow> orch_world \<Rightarrow> orch_world" where
  "orch_step env oper w = fst (orch_do env oper w)"

end
