(* ===== verification/WorkflowGuarantee.thy ===== *)
theory WorkflowGuarantee
  imports WorkflowHandlers
begin

text \<open>
  What every operation of the orchestrator respects, however the other calls run at its awaits. A
  locale fixes a relation between states that the primitive changes respect and that the other calls
  respect at an await; then every operation respects it. \<open>orch_pieces\<close> is about the parts that start no
  session and leave the plan of every automation alone, \<open>orch_guarantee\<close> about all operations.
\<close>

section \<open>The plan of an automation\<close>

text \<open>An automation without what says how its current session stands.\<close>

definition core :: "active_automation \<Rightarrow> active_automation" where
  "core a = a\<lparr>aa_sessionId := None, aa_startedAt := 0, aa_status := RunQueued, aa_signaledSessionIds := {}\<rparr>"

definition cores :: "orch_world \<Rightarrow> active_automation list" where
  "cores w = map core (ow_heap w)"

lemma core_simps [simp]:
  "core (a\<lparr>aa_sessionId := s\<rparr>) = core a" "core (a\<lparr>aa_startedAt := n\<rparr>) = core a"
  "core (a\<lparr>aa_status := st\<rparr>) = core a" "core (a\<lparr>aa_signaledSessionIds := ss\<rparr>) = core a"
  by (cases a, simp add: core_def)+

lemma core_fields [simp]:
  "aa_currentStepIndex (core a) = aa_currentStepIndex a" "aa_steps (core a) = aa_steps a"
  "aa_recoveryAttempts (core a) = aa_recoveryAttempts a" "aa_supervision (core a) = aa_supervision a"
  "aa_laneWatchdog (core a) = aa_laneWatchdog a" "aa_stage (core a) = aa_stage a"
  by (cases a, simp add: core_def)+

lemma cores_update: "(\<And>a. core (f a) = core a) \<Longrightarrow> map core (h[r := f (h ! r)]) = map core h"
  by (cases "r < length h") (simp_all add: map_update list_update_same_conv list_update_beyond)

text \<open>The plans depend on the heap only.\<close>

lemma cores_frame [simp]:
  "cores (w\<lparr>ow_started := x0\<rparr>) = cores w" "cores (w\<lparr>ow_active := x1\<rparr>) = cores w"
  "cores (w\<lparr>ow_nextPlace := x2\<rparr>) = cores w" "cores (w\<lparr>ow_teardownSessionIds := x3\<rparr>) = cores w"
  "cores (w\<lparr>ow_deferredTeardownSessionIds := x4\<rparr>) = cores w" "cores (w\<lparr>ow_endedSessionIds := x5\<rparr>) = cores w"
  "cores (w\<lparr>ow_cardEndedSessionIds := x6\<rparr>) = cores w" "cores (w\<lparr>ow_departedLaneSessions := x7\<rparr>) = cores w"
  "cores (w\<lparr>ow_pendingWorktreeCleanup := x8\<rparr>) = cores w" "cores (w\<lparr>ow_retries := x9\<rparr>) = cores w"
  "cores (w\<lparr>ow_timers := x10\<rparr>) = cores w" "cores (w\<lparr>ow_store := x11\<rparr>) = cores w"
  "cores (w\<lparr>ow_boards := x12\<rparr>) = cores w" "cores (w\<lparr>ow_sessions := x13\<rparr>) = cores w"
  "cores (w\<lparr>ow_activity := x14\<rparr>) = cores w" "cores (w\<lparr>ow_history := x15\<rparr>) = cores w"
  "cores (w\<lparr>ow_cancelMarks := x16\<rparr>) = cores w" "cores (w\<lparr>ow_log := x17\<rparr>) = cores w"
  "cores (w\<lparr>ow_awaits := x18\<rparr>) = cores w"
  by (simp_all add: cores_def)

lemma om_del_subset: "x \<in> set (om_del m k) \<Longrightarrow> x \<in> set m"
  by (auto simp: om_del_def)

section \<open>Parts that start nothing\<close>

locale orch_pieces = guarantee le
  for le :: "orch_world \<Rightarrow> orch_world \<Rightarrow> bool" +
  fixes env :: orch_env
  assumes le_frame: "ow_log w' = ow_log w \<Longrightarrow> ow_endedSessionIds w' = ow_endedSessionIds w
      \<Longrightarrow> ow_cardEndedSessionIds w \<subseteq> ow_cardEndedSessionIds w' \<Longrightarrow> cores w' = cores w
      \<Longrightarrow> set (ow_active w') \<subseteq> set (ow_active w) \<Longrightarrow> le w w'"
    and le_others: "le w (oe_others env n (w\<lparr>ow_awaits := Suc (ow_awaits w)\<rparr>))"
    and le_kill: "sessionId \<notin> ow_endedSessionIds w \<Longrightarrow>
      le w (w\<lparr>ow_endedSessionIds := insert sessionId (ow_endedSessionIds w), ow_log := ow_log w @ [KillSession sessionId]\<rparr>)"
    and le_prompt: "rn_sessionId p \<notin> ow_endedSessionIds w \<Longrightarrow> le w (w\<lparr>ow_log := ow_log w @ [SendPrompt p]\<rparr>)"
    and le_effect: "(\<And>s. e \<noteq> KillSession s) \<Longrightarrow> (\<And>p. e \<noteq> SendPrompt p) \<Longrightarrow> (\<And>c. e \<noteq> CreateSession c) \<Longrightarrow> le w (w\<lparr>ow_log := ow_log w @ [e]\<rparr>)"
begin

lemma keeps_pause: "keeps (pause env)"
  unfolding pause_def by (intro keeps_modify le_others)

lemma keeps_frame:
  assumes "\<And>w. ow_log (f w) = ow_log w" "\<And>w. ow_endedSessionIds (f w) = ow_endedSessionIds w"
    "\<And>w. ow_cardEndedSessionIds w \<subseteq> ow_cardEndedSessionIds (f w)" "\<And>w. cores (f w) = cores w"
    "\<And>w. set (ow_active (f w)) \<subseteq> set (ow_active w)"
  shows "keeps (modify f)"
  using assms by (intro keeps_modify le_frame)

lemma keeps_effect: "(\<And>s. e \<noteq> KillSession s) \<Longrightarrow> (\<And>p. e \<noteq> SendPrompt p) \<Longrightarrow> (\<And>c. e \<noteq> CreateSession c) \<Longrightarrow> keeps (log_effect e)"
  unfolding log_effect_def by (intro keeps_modify le_effect)

lemma keeps_card_result: "keeps (card_result v)"
  by (auto simp: card_result_def intro!: keeps_intros)

lemma keeps_read_card: "keeps (read_card env cardId)"
  unfolding read_card_def by (intro keeps_intros keeps_pause)

lemma keeps_read_board: "keeps (read_board env boardId)"
  unfolding read_board_def by (intro keeps_intros keeps_pause)

lemma keeps_save_card: "keeps (save_card env t)"
  unfolding save_card_def by (intro keeps_intros keeps_pause keeps_frame) (simp_all add: cores_def)

lemma keeps_set_automation: "(\<And>a. core (f a) = core a) \<Longrightarrow> keeps (set_automation r f)"
  unfolding set_automation_def by (intro keeps_frame) (simp_all add: cores_def cores_update)

lemma keeps_undefer: "keeps (undefer sessionId)"
  unfolding undefer_def by (intro keeps_frame) (simp_all add: cores_def)

lemma keeps_defer: "keeps (defer_session sessionId)"
  unfolding defer_session_def by (intro keeps_frame) (simp_all add: cores_def)

lemma keeps_mark: "keeps (mark_teardown sessionId)"
  unfolding mark_teardown_def by (intro keeps_frame) (simp_all add: cores_def)

lemma keeps_forget_departed: "keeps (forget_departed sessionId)"
  unfolding forget_departed_def by (intro keeps_frame) (simp_all add: cores_def)

lemma keeps_end_process: "keeps (endSessionProcess env sessionId)"
proof -
  have "le w (fst (endSessionProcess env sessionId w))" for w
    using le_trans[OF le_kill keepsD[OF keeps_pause]] keepsD[OF keeps_pause]
    by (simp add: endSessionProcess_def run_simps)
  then show ?thesis by (simp add: keeps_def)
qed

lemma keeps_notify_now: "keeps (notify_now env n)"
  unfolding keeps_def
  by (auto simp: notify_now_def run_simps log_effect_def intro!: le_prompt le_refl split: option.splits)

lemmas keeps_basics = keeps_pause keeps_card_result keeps_read_card keeps_read_board keeps_save_card
  keeps_set_automation keeps_undefer keeps_defer keeps_mark keeps_forget_departed
  keeps_end_process keeps_notify_now

lemma keeps_kill_failed: "keeps (killFailedSession env sessionId)"
  unfolding killFailedSession_def by (intro keeps_intros keeps_basics)

lemma keeps_end_finished: "keeps (endFinishedStepSession env sessionId event)"
  unfolding endFinishedStepSession_def by (intro keeps_intros keeps_basics)

lemma keeps_end_task_sessions: "keeps (endTaskSessions env sessionIds)"
  unfolding endTaskSessions_def Let_def
  by (intro keeps_intros keeps_basics keeps_frame) auto

lemma keeps_wind_down: "keeps (windDownDepartedSession env sessionId cardId event)"
  unfolding windDownDepartedSession_def
  by (intro keeps_intros keeps_basics keeps_end_finished)

lemma keeps_cleanup: "keeps (cleanup_card env cardId)"
  unfolding cleanup_card_def by (intro keeps_intros keeps_effect) auto

lemma keeps_emit: "keeps (emit_event env event)"
  unfolding emit_event_def by (intro keeps_intros keeps_basics keeps_effect) auto

lemma keeps_supervision: "keeps (resolveLaneSupervision env q)"
  unfolding resolveLaneSupervision_def by (intro keeps_intros keeps_basics)

lemma keeps_watchdog: "keeps (resolveLaneWatchdog env q)"
  unfolding resolveLaneWatchdog_def by (intro keeps_intros keeps_basics)

lemmas keeps_calls = keeps_basics keeps_kill_failed keeps_end_finished keeps_cleanup keeps_emit
  keeps_supervision keeps_watchdog

lemma keeps_leave: "keeps (modify (leave_on_transition d))"
  by (rule keeps_frame) (auto simp: leave_on_transition_def leaveLane_def Let_def dest: om_del_subset split: option.split)

lemma keeps_notify: "keeps (notifyKanbanAgent env n)"
  unfolding notifyKanbanAgent_def by (intro keeps_intros keeps_calls)

lemma keeps_advance: "keeps (autoAdvanceCard env cardId r)"
  unfolding autoAdvanceCard_def by (intro keeps_intros keeps_calls)

lemma keeps_worktree: "keeps (runDoneWorktreeCleanup env pending)"
  unfolding runDoneWorktreeCleanup_def by (intro keeps_intros keeps_effect) auto

lemma keeps_teardown: "keeps (teardownFinishedCardSessions env t sessionId event r)"
  unfolding teardownFinishedCardSessions_def teardown_one_def killTeardownSession_def Let_def
  by (intro keeps_intros keeps_calls keeps_worktree keeps_frame) simp_all

lemma keeps_deferred: "keeps (finishDeferredTeardown env event)"
  unfolding finishDeferredTeardown_def killTeardownSession_def
  by (intro keeps_intros keeps_calls keeps_worktree keeps_frame) simp_all

lemma keeps_done_failure: "keeps (endCardSessionsAfterDoneFailure env t)"
  unfolding endCardSessionsAfterDoneFailure_def Let_def by (intro keeps_intros keeps_calls)

lemma keeps_note_activity: "keeps (note_activity env r sessionId t)"
  unfolding note_activity_def by (intro keeps_intros keeps_calls)

lemma keeps_classify: "keeps (classify_end env r sessionId oc event)"
  unfolding classify_end_def Let_def by (intro keeps_intros keeps_calls)

lemma keeps_end_record: "keeps (end_record env sessionId e t)"
  unfolding end_record_def by (intro keeps_intros keeps_calls)

lemma keeps_plan: "keeps (plan_retry env r sessionId e t)"
  unfolding plan_retry_def by (intro keeps_intros keeps_calls)

lemma keeps_finish: "keeps (finish_step env cardId r sessionId e failed plan oc)"
  unfolding finish_step_def save_end_def schedule_retry_def keep_artifact_def wind_down_done_def
    route_after_lane_def Let_def
  by (intro keeps_intros keeps_calls keeps_advance keeps_teardown keeps_done_failure keeps_effect keeps_frame) auto

lemma keeps_settle: "keeps (settle_lane env event mode cardId)"
  unfolding settle_lane_def by (intro keeps_intros keeps_calls keeps_frame) simp_all

lemma keeps_scan_automation: "keeps (scan_automation env now r)"
  unfolding scan_automation_def adoptQueuedStepSession_def scan_session_def report_error_def time_out_def
    markSessionTimedOut_def signal_session_def Let_def
  by (intro keeps_intros keeps_calls keeps_frame) simp_all

lemma keeps_scan: "keeps (scanForInactiveSessions env fuel)"
proof -
  have "keeps (scan_loop env fuel place now)" for place now
    by (induction fuel arbitrary: place) (auto intro!: keeps_intros keeps_scan_automation)
  then show ?thesis unfolding scanForInactiveSessions_def by (intro keeps_intros)
qed

lemma keeps_end_for_card_if:
  "(\<And>sessionId oc. keeps (end_of_step env cardId r sessionId oc event)) \<Longrightarrow> keeps (end_for_card env cardId r event)"
  unfolding end_for_card_def adopt_trigger_def signal_session_def Let_def
  by (intro keeps_intros keeps_calls keeps_settle) simp_all

lemma keeps_completion_if:
  assumes loop: "keeps (end_loop env fuel 0 event)"
  shows "keeps (handleAgentCompletion env fuel event)"
  unfolding handleAgentCompletion_def
  by (intro keeps_intros keeps_calls keeps_deferred keeps_settle keeps_wind_down loop)

end

section \<open>All operations\<close>

locale orch_guarantee = orch_pieces +
  assumes le_create: "le w (w\<lparr>ow_log := ow_log w @ [CreateSession c]\<rparr>)"
    and le_heap: "ow_log w' = ow_log w \<Longrightarrow> ow_endedSessionIds w' = ow_endedSessionIds w
      \<Longrightarrow> ow_cardEndedSessionIds w' = ow_cardEndedSessionIds w \<Longrightarrow> le w w'"
begin

lemma keeps_any_automation: "keeps (set_automation r f)"
  unfolding set_automation_def by (intro keeps_modify le_heap) simp_all

lemma keeps_put_automation: "keeps (put_automation cardId a)"
  unfolding put_automation_def by (intro keeps_intros keeps_modify le_heap) (simp_all add: Let_def)

lemma keeps_create: "keeps (create_session env call)"
  unfolding create_session_def log_effect_def by (intro keeps_intros keeps_basics keeps_modify le_create)

lemmas keeps_all = keeps_calls keeps_create keeps_put_automation keeps_any_automation

lemma keeps_start_lane: "keeps (start_lane env r laneObjective)"
  unfolding start_lane_def Let_def by (intro keeps_intros keeps_all)

lemma keeps_enter_lane: "keeps (enter_lane env d oc column automation)"
  unfolding enter_lane_def stop_repeated_lane_def Let_def
  by (intro keeps_intros keeps_all keeps_start_lane)

lemma keeps_transition: "keeps (handleColumnTransitionData env d)"
  unfolding handleColumnTransitionData_def
  by (intro keeps_intros keeps_all keeps_leave keeps_enter_lane)

lemma keeps_adopt: "keeps (adoptLaneRun env cardId columnId stepIndex sessionId counters)"
  unfolding adoptLaneRun_def adopt_on_column_def Let_def by (intro keeps_intros keeps_all)

lemma keeps_retry: "keeps (run_rate_limit_retry env entry)"
  unfolding run_rate_limit_retry_def start_retry_def Let_def
  by (intro keeps_intros keeps_all keeps_adopt)

lemma keeps_fire: "keeps (fire_retry_timer env timer)"
  unfolding fire_retry_timer_def by (intro keeps_intros keeps_retry keeps_frame) simp_all

lemma keeps_take: "keeps (take_session env r t call)"
  unfolding take_session_def session_answered_def session_refused_def Let_def by (intro keeps_intros keeps_all)

lemma keeps_next_step: "keeps (startNextAutomationStep env cardId r t i)"
  unfolding startNextAutomationStep_def Let_def by (intro keeps_intros keeps_all keeps_take)

lemma keeps_recover: "keeps (recoverAutomation env cardId r t reason)"
  unfolding recoverAutomation_def Let_def by (intro keeps_intros keeps_all keeps_take)

lemma keeps_tries:
  "keeps (try_advance env cardId r sessionId e t)"
  "keeps (try_fallback env cardId r sessionId e i t)"
  "keeps (try_recover env cardId r sessionId e t)"
  unfolding try_advance_def try_fallback_def try_recover_def signal_session_def Let_def
  by (intro keeps_intros keeps_all keeps_next_step keeps_recover keeps_notify)+

lemma keeps_end_of_step: "keeps (end_of_step env cardId r sessionId oc event)"
  unfolding end_of_step_def go_on_def advance_or_fall_back_def
  by (intro keeps_intros keeps_note_activity keeps_classify keeps_end_record keeps_plan keeps_tries keeps_finish)

lemma keeps_completion: "keeps (handleAgentCompletion env fuel event)"
proof -
  have "keeps (end_loop env fuel place event)" for place
    by (induction fuel arbitrary: place)
      (auto intro!: keeps_intros keeps_settle keeps_end_for_card_if keeps_end_of_step)
  then show ?thesis by (rule keeps_completion_if)
qed

lemma keeps_do: "keeps (orch_do env oper)"
proof (cases oper)
  case OpStart
  then show ?thesis by (simp add: keeps_frame orch_start_def)
next
  case OpStop
  then show ?thesis by (simp add: keeps_frame orch_stop_def)
next
  case (OpForget cardId columnId)
  then show ?thesis
    by simp (rule keeps_frame; auto simp: forgetCard_def Let_def dest: om_del_subset split: option.split)
next
  case (OpForgetTimer i)
  then show ?thesis
    by simp (rule keeps_frame; auto simp: forget_finished_def Let_def dest: om_del_subset split: prod.split)
qed (auto intro!: keeps_intros keeps_transition keeps_completion keeps_end_task_sessions keeps_adopt keeps_scan keeps_fire)

lemma step_keeps: "le w (orch_step env oper w)"
  unfolding orch_step_def by (rule keepsD[OF keeps_do])

lemma run_keeps: "le w (fold (orch_step env) ops w)"
  by (induction ops arbitrary: w) (auto intro: le_refl le_trans step_keeps)

end

end
