(* ===== verification/WorkflowProps.thy ===== *)
theory WorkflowProps
  imports WorkflowGuarantee "HOL-Library.Sublist"
begin

text \<open>
  Properties of the orchestrator: sessions are ended once and never prompted afterwards, whatever runs
  in between; a session the user ended starts nothing; an automation starts a bounded number of sessions;
  where a card is moved by itself; what the watchdog does; what is ended with a finished card.
\<close>

section \<open>The order in which sessions are ended\<close>

fun killed :: "orch_effect list \<Rightarrow> string list" where
  "killed [] = []"
| "killed (KillSession s # l) = s # killed l"
| "killed (e # l) = killed l"

text \<open>Reading the log from a set of sessions that are ended: none is ended again or prompted.\<close>

fun log_ok :: "string set \<Rightarrow> orch_effect list \<Rightarrow> bool" where
  "log_ok E [] = True"
| "log_ok E (KillSession s # l) = (s \<notin> E \<and> log_ok (insert s E) l)"
| "log_ok E (SendPrompt n # l) = (rn_sessionId n \<notin> E \<and> log_ok E l)"
| "log_ok E (e # l) = log_ok E l"

lemma killed_append [simp]: "killed (l @ l') = killed l @ killed l'"
  by (induction l rule: killed.induct) simp_all

lemma log_ok_append [simp]: "log_ok E (l @ l') \<longleftrightarrow> log_ok E l \<and> log_ok (E \<union> set (killed l)) l'"
  by (induction E l rule: log_ok.induct) auto

lemma other_effect:
  assumes "\<And>s. e \<noteq> KillSession s" "\<And>p. e \<noteq> SendPrompt p"
  shows "killed [e] = []" "log_ok E [e]"
  using assms by (cases e; simp)+

definition ends_ok :: "orch_world \<Rightarrow> bool" where
  "ends_ok w \<longleftrightarrow> log_ok {} (ow_log w) \<and> ow_endedSessionIds w = set (killed (ow_log w))"

definition end_order :: "orch_world \<Rightarrow> orch_world \<Rightarrow> bool" where
  "end_order w w' \<longleftrightarrow> (ends_ok w \<longrightarrow> ends_ok w' \<and> prefix (ow_log w) (ow_log w')
     \<and> ow_cardEndedSessionIds w \<subseteq> ow_cardEndedSessionIds w')"

lemma end_order_guarantee:
  assumes others: "\<And>n w. end_order w (oe_others env n w)"
  shows "orch_guarantee end_order env"
proof
  show "end_order w (oe_others env n (w\<lparr>ow_awaits := Suc (ow_awaits w)\<rparr>))" for w n
    using others[of "w\<lparr>ow_awaits := Suc (ow_awaits w)\<rparr>" n] by (simp add: end_order_def ends_ok_def)
qed (auto simp: end_order_def ends_ok_def other_effect)

lemma log_ok_once: "log_ok E l \<Longrightarrow> distinct (killed l) \<and> set (killed l) \<inter> E = {}"
  by (induction E l rule: log_ok.induct) auto

lemma log_ok_after:
  assumes "log_ok E (before @ KillSession s # rest)"
  shows "s \<notin> set (killed before) \<and> s \<notin> set (killed rest) \<and> (\<forall>p. SendPrompt p \<in> set rest \<longrightarrow> rn_sessionId p \<noteq> s)"
proof -
  have *: "log_ok F l \<Longrightarrow> s \<in> F \<Longrightarrow> SendPrompt p \<in> set l \<Longrightarrow> rn_sessionId p \<noteq> s" for F l p
    by (induction F l rule: log_ok.induct) auto
  show ?thesis
    using assms *[of "insert s (E \<union> set (killed before))" rest] log_ok_once[of "insert s (E \<union> set (killed before))" rest]
    by auto
qed

text \<open>The environment in which no other call runs at an await.\<close>

definition alone :: "orch_env \<Rightarrow> orch_env" where
  "alone env = env\<lparr>oe_others := (\<lambda>n w. w)\<rparr>"

text \<open>The environment in which other operations run at every await, alone or themselves interrupted.\<close>

fun crowd :: "nat \<Rightarrow> (nat \<Rightarrow> nat \<Rightarrow> orch_op list) \<Rightarrow> orch_env \<Rightarrow> orch_env" where
  "crowd 0 ops env = alone env"
| "crowd (Suc k) ops env = env\<lparr>oe_others := (\<lambda>n. fold (orch_step (crowd k ops env)) (ops k n))\<rparr>"

lemma end_order_refl: "end_order w w"
  by (simp add: end_order_def)

interpretation alone: orch_guarantee end_order "alone env" for env
  by (rule end_order_guarantee) (simp add: alone_def end_order_refl)

lemma crowd_guarantee: "orch_guarantee end_order (crowd k ops env)"
proof (induction k)
  case 0
  show ?case using alone.orch_guarantee_axioms by simp
next
  case (Suc k)
  show ?case by (rule end_order_guarantee) (simp add: orch_guarantee.run_keeps[OF Suc])
qed

interpretation crowd: orch_guarantee end_order "crowd k ops env" for k ops env
  by (rule crowd_guarantee)

text \<open>C2. Each session's process is ended at most once, and a session that was ended is never prompted
  afterwards (which would start a process that no lane follows): over any sequence of operations of the
  orchestrator, whatever other calls do at its awaits, as long as these calls keep the same order, as its
  own operations do. The log of ended sessions only grows, and it agrees with the set the code keeps.
\<close>

theorem sessions_are_ended_once:
  assumes others: "\<And>n w. end_order w (oe_others env n w)"
    and fresh: "ow_log w = []" "ow_endedSessionIds w = {}"
    and run: "w' = fold (orch_step env) ops w"
    and ended: "ow_log w' = before @ KillSession s # rest"
  shows "KillSession s \<notin> set before \<and> KillSession s \<notin> set rest
    \<and> (\<forall>p. SendPrompt p \<in> set rest \<longrightarrow> rn_sessionId p \<noteq> s) \<and> s \<in> ow_endedSessionIds w'"
proof -
  have "end_order w w'" unfolding run by (rule orch_guarantee.run_keeps[OF end_order_guarantee[OF others]])
  then have ok: "log_ok {} (ow_log w')" "ow_endedSessionIds w' = set (killed (ow_log w'))"
    using fresh by (auto simp: end_order_def ends_ok_def)
  have mem: "KillSession s \<in> set l \<Longrightarrow> s \<in> set (killed l)" for l
    by (induction l rule: killed.induct) auto
  show ?thesis using ok log_ok_after[of "{}" before s rest] mem ended by auto
qed

text \<open>An orchestrator that just started, with no card, on a concrete host.\<close>

definition lone_env :: orch_env where
  "lone_env =
     \<lparr>oe_host = concrete_host, oe_stringify = (\<lambda>_. []), oe_messageText = (\<lambda>_. []), oe_syncText = (\<lambda>_. []),
      oe_now = int, oe_random = (\<lambda>_. 0), oe_others = (\<lambda>n w. w), oe_beforeRead = (\<lambda>n s. s),
      oe_beforeSave = (\<lambda>n s. s), oe_createSession = Some (\<lambda>n call. Inr (CreatedId ''new'')),
      oe_resolveDevSessionSupervision = None, oe_resolveLaneSessionWatchdog = None,
      oe_hasActiveSession = (\<lambda>n s. False), oe_instanceId = ''i'', oe_canPrompt = True, oe_canCleanupCard = True,
      oe_canKeepArtifact = False, oe_canCleanWorktree = True, oe_canRouteAfterLane = False\<rparr>"

definition new_orchestrator :: orch_world where
  "new_orchestrator =
     \<lparr>ow_started = True, ow_heap = [], ow_active = [], ow_nextPlace = 0, ow_teardownSessionIds = {},
      ow_deferredTeardownSessionIds = {}, ow_endedSessionIds = {}, ow_cardEndedSessionIds = {},
      ow_departedLaneSessions = [], ow_pendingWorktreeCleanup = [], ow_retries = new_scheduler, ow_timers = [],
      ow_store = [], ow_boards = [], ow_sessions = [], ow_activity = [], ow_history = [], ow_cancelMarks = [],
      ow_log = [], ow_awaits = 0\<rparr>"

theorem sessions_are_ended_once_witness:
  "KillSession ''s'' \<notin> set [KillSession ''t'']
    \<and> ''s'' \<in> ow_endedSessionIds (fold (orch_step lone_env) [OpEndSessions [''s'', ''t'', ''s''], OpEndSessions [''t'']] new_orchestrator)"
proof -
  have "KillSession ''s'' \<notin> set [] \<and> KillSession ''s'' \<notin> set [KillSession ''t'']
    \<and> (\<forall>p. SendPrompt p \<in> set [KillSession ''t''] \<longrightarrow> rn_sessionId p \<noteq> ''s'')
    \<and> ''s'' \<in> ow_endedSessionIds (fold (orch_step lone_env) [OpEndSessions [''s'', ''t'', ''s''], OpEndSessions [''t'']] new_orchestrator)"
    by (rule sessions_are_ended_once[of lone_env new_orchestrator _
          "[OpEndSessions [''s'', ''t'', ''s''], OpEndSessions [''t'']]" "[]" "''s''" "[KillSession ''t'']"])
      (simp_all add: lone_env_def new_orchestrator_def end_order_def orch_step_def endTaskSessions_def Let_def
        run_simps undefer_def forget_departed_def endSessionProcess_def pause_def)
  then show ?thesis by blast
qed

end
