(* ===== verification/WorkflowBudget.thy ===== *)
theory WorkflowBudget
  imports WorkflowProps
begin

text \<open>
  How many sessions the end of steps can start. Each automation has a budget: its remaining steps, and
  for each the recoveries that are left. Handling the end of a session spends at least one unit of it
  for every session it asks for, as long as the other calls at its awaits start none themselves.
\<close>

fun creates :: "orch_effect list \<Rightarrow> create_call list" where
  "creates [] = []"
| "creates (CreateSession c # l) = c # creates l"
| "creates (e # l) = creates l"

lemma creates_append [simp]: "creates (l @ l') = creates l @ creates l'"
  by (induction l rule: creates.induct) simp_all

lemma creates_other: "(\<And>c. e \<noteq> CreateSession c) \<Longrightarrow> creates [e] = []"
  by (cases e) auto

definition max_recoveries :: "active_automation \<Rightarrow> nat" where
  "max_recoveries a = nat (sup_maxRecoveryAttempts (aa_supervision a))"

definition budget :: "active_automation \<Rightarrow> nat" where
  "budget a = (length (aa_steps a) - Suc (aa_currentStepIndex a)) * Suc (max_recoveries a)
     + nat (sup_maxRecoveryAttempts (aa_supervision a) - aa_recoveryAttempts a)"

definition total_budget :: "orch_world \<Rightarrow> nat" where
  "total_budget w = sum_list (map budget (ow_heap w))"

lemma budget_core: "budget (core a) = budget a"
  by (simp add: budget_def max_recoveries_def)

lemma total_budget_cores: "total_budget w = sum_list (map budget (cores w))"
  by (simp add: total_budget_def cores_def comp_def budget_core)

text \<open>
  No session is asked for, no plan changes, no automation is added and no mark of the user is lost; or what is asked for is paid from
  the budgets. \<open>r\<close> is the automation at work; every active automation is on the heap.
\<close>

definition calm :: "orch_world \<Rightarrow> orch_world \<Rightarrow> bool" where
  "calm w w' \<longleftrightarrow> creates (ow_log w') = creates (ow_log w) \<and> cores w' = cores w
     \<and> set (ow_active w') \<subseteq> set (ow_active w)
     \<and> ow_cardEndedSessionIds w \<subseteq> ow_cardEndedSessionIds w'"

definition refs_ok :: "orch_world \<Rightarrow> bool" where
  "refs_ok w \<longleftrightarrow> (\<forall>(cardId, p, r)\<in>set (ow_active w). r < length (ow_heap w))"

definition spends :: "nat \<Rightarrow> orch_world \<Rightarrow> orch_world \<Rightarrow> bool" where
  "spends r w w' \<longleftrightarrow> (refs_ok w \<and> r < length (ow_heap w) \<longrightarrow> refs_ok w' \<and> length (ow_heap w') = length (ow_heap w)
     \<and> length (creates (ow_log w')) + total_budget w' \<le> length (creates (ow_log w)) + total_budget w)"

lemma cores_length: "cores w' = cores w \<Longrightarrow> length (ow_heap w') = length (ow_heap w)"
  unfolding cores_def by (rule map_eq_imp_length_eq)

lemma calm_refs: "calm w w' \<Longrightarrow> refs_ok w \<Longrightarrow> refs_ok w'"
  unfolding refs_ok_def calm_def using cores_length[of w' w] by fastforce

lemma calm_spends: "calm w w' \<Longrightarrow> spends r w w'"
  using calm_refs[of w w'] cores_length[of w' w] by (simp add: calm_def spends_def total_budget_cores)

lemma calm_refl: "calm w w"
  by (simp add: calm_def)

lemma calm_trans: "calm w w' \<Longrightarrow> calm w' w'' \<Longrightarrow> calm w w''"
  by (auto simp: calm_def)

lemma calm_awaits: "calm (w\<lparr>ow_awaits := n\<rparr>) w' = calm w w'"
  by (simp add: calm_def)

text \<open>An action that asks for at most \<open>k\<close> sessions and changes the plan of \<open>r\<close> by \<open>f\<close>.\<close>

definition asks :: "nat \<Rightarrow> (active_automation \<Rightarrow> active_automation) \<Rightarrow> nat \<Rightarrow> orch_world \<Rightarrow> orch_world \<Rightarrow> bool" where
  "asks k f r w w' \<longleftrightarrow> length (creates (ow_log w')) \<le> length (creates (ow_log w)) + k
     \<and> cores w' = (cores w)[r := f (cores w ! r)] \<and> set (ow_active w') \<subseteq> set (ow_active w)"

lemma calm_asks: "calm w w' \<Longrightarrow> asks 0 id r w w'"
  by (simp add: calm_def asks_def)

lemma asks_trans:
  "asks k f r w w' \<Longrightarrow> asks l g r w' w'' \<Longrightarrow> r < length (ow_heap w) \<Longrightarrow> asks (k + l) (g \<circ> f) r w w''"
  by (auto simp: asks_def cores_def)

lemma asks_calm: "asks k f r w w' \<Longrightarrow> calm w' w'' \<Longrightarrow> asks k f r w w''"
  by (auto simp: asks_def calm_def)

lemma calm_then_asks: "calm w w' \<Longrightarrow> asks k f r w' w'' \<Longrightarrow> asks k f r w w''"
  by (auto simp: asks_def calm_def)

lemma asks_length: "asks k f r w w' \<Longrightarrow> length (ow_heap w') = length (ow_heap w)"
  unfolding asks_def cores_def by (metis length_list_update length_map)

lemma asks_refs: "asks k f r w w' \<Longrightarrow> refs_ok w \<Longrightarrow> refs_ok w'"
  using asks_length[of k f r w w'] unfolding refs_ok_def asks_def by fastforce

lemma sum_list_update_nat:
  "r < length xs \<Longrightarrow> sum_list (xs[r := y]) + xs ! r = sum_list xs + (y :: nat)"
  by (induction xs arbitrary: r) (auto split: nat.split)

lemma asks_spends:
  assumes "asks k f r w w'" "r < length (ow_heap w) \<Longrightarrow> budget (f (cores w ! r)) + k \<le> budget (cores w ! r)"
  shows "spends r w w'"
proof -
  let ?b = "map budget (cores w)"
  have "r < length (ow_heap w) \<Longrightarrow> total_budget w' + ?b ! r = total_budget w + budget (f (cores w ! r))"
    using assms(1) sum_list_update_nat[of r ?b "budget (f (cores w ! r))"]
    by (simp add: total_budget_cores asks_def map_update) (simp add: cores_def)
  then show ?thesis
    using assms asks_refs[OF assms(1)] asks_length[OF assms(1)]
    by (simp add: spends_def asks_def) (auto simp: cores_def)
qed

text \<open>The same for an event, where the automations are those of the map.\<close>

definition pays :: "orch_world \<Rightarrow> orch_world \<Rightarrow> bool" where
  "pays w w' \<longleftrightarrow> (refs_ok w \<longrightarrow> refs_ok w'
     \<and> length (creates (ow_log w')) + total_budget w' \<le> length (creates (ow_log w)) + total_budget w)"

lemma calm_pays: "calm w w' \<Longrightarrow> pays w w'"
  using calm_refs[of w w'] by (simp add: pays_def) (simp add: calm_def total_budget_cores)

lemma pays_trans: "pays w w' \<Longrightarrow> pays w' w'' \<Longrightarrow> pays w w''"
  by (auto simp: pays_def)

locale calm_others =
  fixes env :: orch_env
  assumes calm_others: "calm w (oe_others env n w)"

sublocale calm_others \<subseteq> quiet: orch_pieces calm env
proof
  show "calm w (oe_others env n (w\<lparr>ow_awaits := Suc (ow_awaits w)\<rparr>))" for w n
    using calm_others[of "w\<lparr>ow_awaits := Suc (ow_awaits w)\<rparr>" n] by (simp add: calm_awaits)
qed (auto simp: calm_def creates_other)

context calm_others
begin

lemma create_once:
  "length (creates (ow_log (fst (create_session env call w)))) \<le> length (creates (ow_log w)) + 1
   \<and> cores (fst (create_session env call w)) = cores w
   \<and> set (ow_active (fst (create_session env call w))) \<subseteq> set (ow_active w)"
proof (cases "oe_createSession env")
  case None
  then show ?thesis by (simp add: create_session_def run_simps)
next
  case (Some create)
  let ?w1 = "w\<lparr>ow_log := ow_log w @ [CreateSession call]\<rparr>"
  let ?w2 = "oe_others env (ow_awaits w) (?w1\<lparr>ow_awaits := Suc (ow_awaits w)\<rparr>)"
  have "fst (create_session env call w) = ?w2"
    by (auto simp: create_session_def Some run_simps log_effect_def pause_def split: sum.split)
  moreover have "calm (?w1\<lparr>ow_awaits := Suc (ow_awaits w)\<rparr>) ?w2" by (rule calm_others)
  ultimately show ?thesis by (simp add: calm_def)
qed

text \<open>Asking for the session of a step.\<close>

lemma take_once: "asks 1 id r w (fst (take_session env r t call w))"
proof -
  have m: "quiet.keeps (session_answered r t c)" for c
    unfolding session_answered_def by (intro quiet.keeps_intros quiet.keeps_set_automation) simp_all
  have h: "quiet.keeps (session_refused env r t e)" for e
    unfolding session_refused_def Let_def
    by (intro quiet.keeps_intros quiet.keeps_set_automation quiet.keeps_save_card) simp_all
  let ?call = "call (aa_currentStepIndex (automation_at r w)) (automation_at r w)"
  obtain w1 v where c: "create_session env ?call w = (w1, v)" by (cases "create_session env ?call w")
  have one: "asks 1 id r w w1"
    using create_once[of ?call w] c by (simp add: asks_def)
  have "calm w1 (fst (take_session env r t call w))"
  proof (cases v)
    case (Inl e)
    then show ?thesis using quiet.keepsD[OF h[of e], of w1] by (simp add: take_session_def run_simps c)
  next
    case (Inr x)
    have "fst (take_session env r t call w) = fst (catching (session_answered r t x) (session_refused env r t) w1)"
      by (simp add: take_session_def run_simps c Inr)
    then show ?thesis using quiet.keepsD[OF quiet.keeps_catching[OF m[of x] h], of w1] by simp
  qed
  then show ?thesis by (rule asks_calm[OF one])
qed

lemma run_save: obtains w1 where "save_card env t w = (w1, Inr ())" "calm w w1"
proof (rule that)
  show "save_card env t w = (fst (save_card env t w), Inr ())"
    by (simp add: save_card_def run_simps pause_def)
  show "calm w (fst (save_card env t w))" by (rule quiet.keepsD[OF quiet.keeps_save_card])
qed

lemma run_cleanup: obtains w1 where "cleanup_card env cardId w = (w1, Inr ())" "calm w w1"
proof (rule that)
  show "cleanup_card env cardId w = (fst (cleanup_card env cardId w), Inr ())"
    by (simp add: cleanup_card_def log_effect_def run_simps)
  show "calm w (fst (cleanup_card env cardId w))" by (rule quiet.keepsD[OF quiet.keeps_cleanup])
qed

end

text \<open>How the two restarts change a plan.\<close>

definition to_step :: "nat \<Rightarrow> active_automation \<Rightarrow> active_automation" where
  "to_step i a = a\<lparr>aa_currentStepIndex := i, aa_attempt := 1, aa_recoveryAttempts := 0\<rparr>"

definition once_more :: "active_automation \<Rightarrow> active_automation" where
  "once_more a = a\<lparr>aa_recoveryAttempts := aa_recoveryAttempts a + 1, aa_attempt := aa_attempt a + 1\<rparr>"

lemma core_next: "core (next_step_automation i now a) = to_step i (core a)"
  by (cases a) (simp add: core_def next_step_automation_def to_step_def)

lemma core_recovering: "core (recovering_automation now a) = once_more (core a)"
  by (cases a) (simp add: core_def recovering_automation_def once_more_def)

lemma asks_set:
  assumes "\<And>a. core (f a) = g (core a)"
  shows "r < length (ow_heap w) \<Longrightarrow> asks 0 g r w (fst (set_automation r f w))"
  using assms by (simp add: asks_def set_automation_def run_simps cores_def map_update)

context calm_others
begin

lemma next_step_asks:
  assumes r: "r < length (ow_heap w)"
  shows "calm w (fst (startNextAutomationStep env cardId r t i w))
    \<or> asks 1 (to_step i) r w (fst (startNextAutomationStep env cardId r t i w))
      \<and> i < length (aa_steps (automation_at r w))"
proof (cases "oe_createSession env = None \<or> step_at (Some (aa_steps (automation_at r w))) (int i) = None")
  case True
  then show ?thesis by (simp add: startNextAutomationStep_def run_simps calm_refl)
next
  case False
  then obtain create st where cs: "oe_createSession env = Some create"
      "step_at (Some (aa_steps (automation_at r w))) (int i) = Some st"
    by auto
  let ?t1 = "(release_session (aa_sessionId (automation_at r w)) t)
    \<lparr>tk_lastSyncError := None, tk_updatedAt := now_of env w\<rparr>"
  obtain w1 where 1: "save_card env ?t1 w = (w1, Inr ())" "calm w w1" by (rule run_save)
  obtain w2 where 2: "cleanup_card env cardId w1 = (w2, Inr ())" "calm w1 w2" by (rule run_cleanup)
  let ?w3 = "fst (set_automation r (next_step_automation i (now_of env w2)) w2)"
  have r2: "r < length (ow_heap w2)"
    using r calm_trans[OF 1(2) 2(2)] cores_length[of w2 w] by (simp add: calm_def)
  have 3: "asks 0 (to_step i) r w2 ?w3" by (intro asks_set core_next r2)
  have run: "fst (startNextAutomationStep env cardId r t i w) = fst (take_session env r ?t1
      (\<lambda>_ a. (lane_call a i (buildSupervisionContext a (objective_or ?t1 (aa_cardTitle a)) None None))
               \<lparr>cc_cardId := cardId\<rparr>) ?w3)"
    by (simp add: startNextAutomationStep_def run_simps Let_def 1 2 set_automation_def cs)
  have "asks (0 + 1) (id \<circ> to_step i) r w (fst (startNextAutomationStep env cardId r t i w))"
    unfolding run by (rule calm_then_asks[OF calm_trans[OF 1(2) 2(2)] asks_trans[OF 3 take_once r2]])
  then show ?thesis using cs by (simp add: step_at_def split: if_splits)
qed

lemma recover_asks:
  assumes r: "r < length (ow_heap w)"
  shows "calm w (fst (recoverAutomation env cardId r t reason w))
    \<or> asks 1 once_more r w (fst (recoverAutomation env cardId r t reason w))"
proof (cases "oe_createSession env = None \<or> \<not> isRecoveryMode (sup_mode (aa_supervision (automation_at r w)))")
  case True
  then show ?thesis by (simp add: recoverAutomation_def run_simps calm_refl)
next
  case False
  then obtain create where cs: "oe_createSession env = Some create"
      "isRecoveryMode (sup_mode (aa_supervision (automation_at r w)))"
    by auto
  let ?a = "automation_at r w"
  let ?a1 = "recovering_automation (now_of env w) ?a"
  let ?t1 = "(release_session (aa_sessionId ?a) t)
    \<lparr>tk_lastSyncError := Some (buildRecoveryMessage ?a1 reason), tk_updatedAt := now_of env w\<rparr>"
  let ?w1 = "fst (set_automation r (recovering_automation (now_of env w)) w)"
  have 1: "asks 0 once_more r w ?w1" by (intro asks_set core_recovering r)
  obtain w2 where 2: "save_card env ?t1 ?w1 = (w2, Inr ())" "calm ?w1 w2" by (rule run_save)
  obtain w3 where 3: "cleanup_card env cardId w2 = (w3, Inr ())" "calm w2 w3" by (rule run_cleanup)
  have run: "fst (recoverAutomation env cardId r t reason w) = fst (take_session env r ?t1
      (\<lambda>i a'. (lane_call a' i (buildSupervisionContext a' (objective_or ?t1 (aa_cardTitle a')) (aa_sessionId ?a)
                 (Some reason)))\<lparr>cc_cardId := cardId\<rparr>) w3)"
    using 2 3 by (simp add: recoverAutomation_def run_simps Let_def set_automation_def cs)
  have "asks (0 + 1) (id \<circ> once_more) r w (fst (recoverAutomation env cardId r t reason w))"
    unfolding run
    by (rule asks_trans[OF 1 calm_then_asks[OF calm_trans[OF 2(2) 3(2)] take_once] r])
  then show ?thesis by simp
qed

end

lemma advance_budget:
  assumes "Suc (aa_currentStepIndex c) < length (aa_steps c)"
  shows "budget (to_step (Suc (aa_currentStepIndex c)) c) + 1 \<le> budget c"
    and "aa_recoveryAttempts c < sup_maxRecoveryAttempts (aa_supervision c) \<Longrightarrow>
      budget (once_more (to_step (Suc (aa_currentStepIndex c)) c)) + 2 \<le> budget c"
proof -
  obtain k where "length (aa_steps c) = Suc (Suc (aa_currentStepIndex c + k))"
    using less_imp_Suc_add[OF assms] by auto
  then show "budget (to_step (Suc (aa_currentStepIndex c)) c) + 1 \<le> budget c"
    and "aa_recoveryAttempts c < sup_maxRecoveryAttempts (aa_supervision c) \<Longrightarrow>
      budget (once_more (to_step (Suc (aa_currentStepIndex c)) c)) + 2 \<le> budget c"
    by (simp_all add: budget_def to_step_def once_more_def max_recoveries_def)
qed

lemma recover_budget:
  "aa_recoveryAttempts c < sup_maxRecoveryAttempts (aa_supervision c) \<Longrightarrow> budget (once_more c) + 1 \<le> budget c"
  by (simp add: budget_def once_more_def max_recoveries_def)

lemma fst_andThen: "fst (andThen m k w) = (case m w of (w', Inl e) \<Rightarrow> w' | (w', Inr x) \<Rightarrow> fst (k x w'))"
  by (auto simp: run_andThen split: prod.split sum.split)

section \<open>The end of a step\<close>

context calm_others
begin

text \<open>What follows an action that asks for sessions, when it asks for none.\<close>

lemma then_calm:
  assumes "calm w (fst (m w)) \<or> asks k f r w (fst (m w))" "\<And>x. quiet.keeps (h x)"
  shows "calm w (fst (andThen m h w)) \<or> asks k f r w (fst (andThen m h w))"
proof (cases "m w")
  case (Pair w1 v)
  have "calm w1 (fst (andThen m h w))"
    using quiet.keepsD[OF assms(2)] by (auto simp: fst_andThen Pair calm_refl split: sum.split)
  then show ?thesis using assms(1) Pair calm_trans asks_calm by auto
qed

lemma calm_after_next:
  assumes "r < length (ow_heap w)" "\<And>x. quiet.keeps (h x)"
  shows "calm w (fst (andThen (startNextAutomationStep env cardId r t i) h w))
    \<or> asks 1 (to_step i) r w (fst (andThen (startNextAutomationStep env cardId r t i) h w))"
  using next_step_asks[OF assms(1)] by (intro then_calm assms(2)) blast

lemma advance_asks:
  assumes r: "r < length (ow_heap w)" and i: "i = Suc (aa_currentStepIndex (automation_at r w))"
  shows "calm w (fst (try_advance env cardId r sessionId e t w))
    \<or> asks 1 (to_step i) r w (fst (try_advance env cardId r sessionId e t w)) \<and> i < length (aa_steps (automation_at r w))"
proof (cases "st_success e \<and> st_satisfied e \<and> i < length (aa_steps (automation_at r w))")
  case True
  define h :: "task \<times> step_start \<Rightarrow> (task \<times> bool \<times> bool) orch" where
    "h = (\<lambda>(t1, start). next_do (pause env)
      (if start = StepFailed then ret (t1, False, True)
       else next_do (signal_session r sessionId)
         (next_do (endFinishedStepSession env sessionId (st_event e)) (ret (t1, True, False)))))"
  have keeps: "quiet.keeps (h x)" for x
    unfolding h_def signal_session_def by (intro quiet.keeps_intros quiet.keeps_calls) simp_all
  have "try_advance env cardId r sessionId e t w = andThen (startNextAutomationStep env cardId r t i) h w"
    using True i by (simp add: try_advance_def run_gets run_andThen Let_def h_def)
  then show ?thesis using True calm_after_next[OF r keeps] by simp
next
  case False
  then show ?thesis using i by (simp add: try_advance_def run_simps Let_def calm_refl)
qed

lemma fallback_asks:
  assumes r: "r < length (ow_heap w)"
  shows "calm w (fst (try_fallback env cardId r sessionId e i t w))
    \<or> asks 1 (to_step i) r w (fst (try_fallback env cardId r sessionId e i t w))"
proof (cases "int (aa_currentStepIndex (automation_at r w)) < orDefault (tk_maxFallbackAttempts t)
                (int (length (aa_steps (automation_at r w))))")
  case True
  define h :: "task \<times> step_start \<Rightarrow> (task \<times> bool) orch" where
    "h = (\<lambda>(t1, start). next_do (pause env)
      (if start = StepFailed then ret (t1, False) else next_do (signal_session r sessionId) (ret (t1, True))))"
  have keeps: "quiet.keeps (h x)" for x
    unfolding h_def signal_session_def by (intro quiet.keeps_intros quiet.keeps_calls) simp_all
  have "try_fallback env cardId r sessionId e i t w = andThen (startNextAutomationStep env cardId r t i) h w"
    using True by (simp add: try_fallback_def run_gets run_andThen Let_def h_def)
  then show ?thesis using calm_after_next[OF r keeps] by simp
next
  case False
  then show ?thesis by (simp add: try_fallback_def run_simps Let_def calm_refl)
qed

lemma advance_not_tried:
  "\<not> (st_success e \<and> st_satisfied e) \<Longrightarrow> try_advance env cardId r sessionId e t w = (w, Inr (t, False, False))"
  by (auto simp: try_advance_def run_simps Let_def)

text \<open>The lane goes at most one step on.\<close>

lemma first_asks:
  assumes r: "r < length (ow_heap w)" and i: "i = Suc (aa_currentStepIndex (automation_at r w))"
  shows "calm w (fst (advance_or_fall_back env cardId r sessionId e t w))
    \<or> asks 1 (to_step i) r w (fst (advance_or_fall_back env cardId r sessionId e t w))
      \<and> i < length (aa_steps (automation_at r w))"
proof (cases "st_success e")
  case True
  then have no: "\<not> can_fallback a e j" for a j by (simp add: can_fallback_def)
  have "fst (advance_or_fall_back env cardId r sessionId e t w) = fst (try_advance env cardId r sessionId e t w)"
    by (auto simp: advance_or_fall_back_def run_gets run_andThen no run_ret split: prod.split sum.split)
  then show ?thesis using advance_asks[OF r i] by simp
next
  case False
  then have "fst (advance_or_fall_back env cardId r sessionId e t w)
      = (if can_fallback (automation_at r w) e i then fst (try_fallback env cardId r sessionId e i t w) else w)"
    using i by (auto simp: advance_or_fall_back_def run_gets run_andThen advance_not_tried run_ret split: prod.split sum.split)
  then show ?thesis
    using fallback_asks[OF r, of cardId sessionId e i t] by (auto simp: calm_refl can_fallback_def)
qed

lemma try_recover_asks:
  assumes r: "r < length (ow_heap w)"
  shows "calm w (fst (try_recover env cardId r sessionId e t w))
    \<or> asks 1 once_more r w (fst (try_recover env cardId r sessionId e t w))"
proof -
  define reason where "reason = getRecoveryReason (now_of env w) (ow_cancelMarks w) (st_event e) (st_satisfied e) False False"
  define h :: "task \<times> step_start \<Rightarrow> (task \<times> bool) orch" where
    "h = (\<lambda>(t1, start). next_do (pause env)
      (if start = StepFailed then ret (t1, False)
       else next_do (endFinishedStepSession env sessionId (st_event e)) (ret (t1, True))))"
  have keeps: "quiet.keeps (h x)" for x
    unfolding h_def by (intro quiet.keeps_intros quiet.keeps_calls)
  define n where "n = notification (automation_at r w) sessionId (''Recovery reason: '' @ recovery_reason_str reason @ ''.'')"
  define w1 where "w1 = fst (notifyKanbanAgent env n w)"
  have c: "calm w w1" unfolding w1_def by (rule quiet.keepsD[OF quiet.keeps_notify])
  have n: "notifyKanbanAgent env n w = (w1, Inr ())"
    by (simp add: w1_def notifyKanbanAgent_def notify_now_def run_simps pause_def log_effect_def split: prod.split)
  have run: "try_recover env cardId r sessionId e t w = andThen (recoverAutomation env cardId r t reason) h w1"
    by (simp only: try_recover_def run_gets run_andThen run_next prod.case sum.case reason_def[symmetric] n_def[symmetric] n h_def)
  have "r < length (ow_heap w1)" using r c cores_length[of w1 w] by (simp add: calm_def)
  then have "calm w1 (fst (andThen (recoverAutomation env cardId r t reason) h w1))
    \<or> asks 1 once_more r w1 (fst (andThen (recoverAutomation env cardId r t reason) h w1))"
    by (intro then_calm recover_asks keeps)
  then show ?thesis unfolding run using c calm_trans calm_then_asks by blast
qed

lemma calm_automation:
  "calm w w' \<Longrightarrow> r < length (ow_heap w) \<Longrightarrow> core (automation_at r w') = core (automation_at r w)"
  unfolding calm_def cores_def automation_at_def by (metis length_map nth_map)

lemma go_on_spends:
  assumes recover: "st_recover e \<Longrightarrow>
      aa_recoveryAttempts (automation_at r w) < sup_maxRecoveryAttempts (aa_supervision (automation_at r w))"
  shows "spends r w (fst (go_on env cardId r sessionId e plan t w))"
proof (cases "r < length (ow_heap w)")
  case False
  then show ?thesis by (simp add: spends_def)
next
  case r: True
  let ?c = "cores w ! r" and ?i = "Suc (aa_currentStepIndex (automation_at r w))"
  have c: "?c = core (automation_at r w)" using r by (simp add: cores_def automation_at_def)
  obtain w1 v where first: "advance_or_fall_back env cardId r sessionId e t w = (w1, v)"
    by (cases "advance_or_fall_back env cardId r sessionId e t w")
  then have asks1: "calm w w1 \<or> asks 1 (to_step ?i) r w w1 \<and> ?i < length (aa_steps (automation_at r w))"
    using first_asks[OF r refl, of cardId sessionId e t] by simp
  have finish: "quiet.keeps (finish_step env cardId r sessionId e failed plan (Some t2))" for failed t2
    by (rule quiet.keeps_finish)
  define h where "h = (\<lambda>failed (t2, recovered). if recovered then ret ()
      else finish_step env cardId r sessionId e failed plan (Some t2))"
  have h: "quiet.keeps (h failed x)" for failed x
    unfolding h_def by (intro quiet.keeps_intros finish)
  have r1: "r < length (ow_heap w1)"
    using asks1 r asks_length[of 1 _ r w w1] cores_length[of w1 w] by (auto simp: calm_def)
  have rest: "calm w1 (fst (andThen (try_recover env cardId r sessionId e t1) (h failed) w1))
    \<or> asks 1 once_more r w1 (fst (andThen (try_recover env cardId r sessionId e t1) (h failed) w1))" for t1 failed
    by (intro then_calm try_recover_asks r1 h)
  have calm_rest: "calm w1 (fst (h failed (t1, False) w1))" for t1 failed
    by (rule quiet.keepsD[OF h])
  obtain w2 where w2: "fst (go_on env cardId r sessionId e plan t w) = w2" by blast
  have "calm w1 w2 \<or> st_recover e \<and> asks 1 once_more r w1 w2"
  proof (cases v)
    case (Inl err)
    then show ?thesis using w2 by (auto simp: go_on_def fst_andThen first calm_refl)
  next
    case (Inr x)
    obtain t1 handled failed where x: "x = (t1, handled, failed)" by (cases x)
    have "w2 = (if handled then w1
      else if st_recover e then fst (andThen (try_recover env cardId r sessionId e t1) (h failed) w1)
      else fst (h failed (t1, False) w1))"
      using w2 by (auto simp: go_on_def fst_andThen first Inr x run_ret h_def)
    then show ?thesis using rest[of t1 failed] calm_rest[of failed t1] by (auto simp: calm_refl)
  qed
  then consider "calm w w2" | "asks 1 (to_step ?i) r w w2" "?i < length (aa_steps (automation_at r w))"
    | "st_recover e" "asks 1 once_more r w w2"
    | "st_recover e" "asks (1 + 1) (once_more \<circ> to_step ?i) r w w2" "?i < length (aa_steps (automation_at r w))"
    using asks1
  proof (elim disjE conjE)
    assume "asks 1 (to_step ?i) r w w1" "?i < length (aa_steps (automation_at r w))" "asks 1 once_more r w1 w2" "st_recover e"
    then show thesis using that(4) asks_trans[of 1 "to_step ?i" r w w1 1 once_more w2] r by simp
  qed (blast intro: that calm_trans asks_calm calm_then_asks)+
  then have "spends r w w2"
  proof cases
    case 1
    then show ?thesis by (rule calm_spends)
  next
    case 2
    show ?thesis by (rule asks_spends[OF 2(1)]) (use advance_budget(1)[of ?c] c 2(2) in simp)
  next
    case 3
    show ?thesis by (rule asks_spends[OF 3(2)]) (use recover_budget[of ?c] c recover[OF 3(1)] in simp)
  next
    case 4
    show ?thesis by (rule asks_spends[OF 4(2)]) (use advance_budget(2)[of ?c] c 4(3) recover[OF 4(1)] in simp)
  qed
  then show ?thesis using w2 by simp
qed

lemma spends_trans: "spends r w w' \<Longrightarrow> spends r w' w'' \<Longrightarrow> spends r w w''"
  by (auto simp: spends_def)

lemma then_spends:
  assumes m: "quiet.keeps m" and f: "\<And>x w1. m w = (w1, Inr x) \<Longrightarrow> spends r w1 (fst (f x w1))"
  shows "spends r w (fst (andThen m f w))"
proof (cases "m w")
  case (Pair w1 v)
  have "calm w w1" using quiet.keepsD[OF m, of w] Pair by simp
  then show ?thesis
    using f[of w1] Pair spends_trans[OF calm_spends] by (cases v) (auto simp: fst_andThen calm_spends)
qed

lemma found_recover:
  assumes "st_recover (end_found env r sessionId oc event b w)"
  shows "aa_recoveryAttempts (automation_at r w) < sup_maxRecoveryAttempts (aa_supervision (automation_at r w))"
proof -
  obtain t where "shouldRecover t (automation_at r w) event b"
    using assms by (auto simp: end_found_def Let_def split: option.splits)
  then show ?thesis by (auto simp: shouldRecover_def split: if_splits)
qed

lemma classify_recover:
  assumes r: "r < length (ow_heap w)" and run: "classify_end env r sessionId oc event w = (w', Inr e)" and e: "st_recover e"
  shows "aa_recoveryAttempts (automation_at r w') < sup_maxRecoveryAttempts (aa_supervision (automation_at r w'))"
proof -
  define w1 where "w1 = fst (when_do (\<not> successEvent event) (killFailedSession env sessionId) w)"
  define w2 where "w2 = fst (pause env w1)"
  have kill: "when_do (\<not> successEvent event) (killFailedSession env sessionId) w = (w1, Inr ())"
    by (simp add: w1_def when_do_def killFailedSession_def undefer_def endSessionProcess_def run_simps pause_def)
  have p: "pause env v = (fst (pause env v), Inr ())" for v
    by (simp add: pause_def run_simps)
  have "calm w w1" unfolding w1_def by (rule quiet.keepsD) (intro quiet.keeps_intros quiet.keeps_kill_failed)
  moreover have "calm w1 w2" unfolding w2_def by (rule quiet.keepsD[OF quiet.keeps_pause])
  ultimately have len: "r < length (ow_heap w2)"
    using r cores_length[of w2 w] calm_trans[of w w1 w2] by (simp add: calm_def)
  have pw: "pause env w1 = (w2, Inr ())" unfolding w2_def by (rule p)
  define w3 where "w3 = fst (pause env w2)"
  have pw2: "pause env w2 = (w3, Inr ())" unfolding w3_def by (rule p)
  have "(w' = w2 \<or> w' = w3) \<and> (\<exists>b. e = end_found env r sessionId oc event b w2)"
    using run[unfolded classify_end_def run_next kill prod.case sum.case]
    by (auto simp: run_next run_andThen run_gets pw run_when run_ret pw2 split: if_splits)
  moreover have "calm w2 w3" unfolding w3_def by (rule quiet.keepsD[OF quiet.keeps_pause])
  ultimately show ?thesis
    using calm_automation[OF _ len] core_fields(3,4) found_recover e by metis
qed

lemma end_of_step_spends: "spends r w (fst (end_of_step env cardId r sessionId oc event0 w))"
proof (cases oc)
  case None
  have "quiet.keeps (end_of_step env cardId r sessionId oc event0)"
    unfolding end_of_step_def None option.case
    by (intro quiet.keeps_intros quiet.keeps_classify quiet.keeps_finish)
  then show ?thesis by (rule calm_spends[OF quiet.keepsD])
next
  case (Some t0)
  have rest: "spends r w3 (fst (andThen (end_record env sessionId e t1) (\<lambda>t2.
      andThen (plan_retry env r sessionId e t2) (\<lambda>(t3, plan). go_on env cardId r sessionId e plan t3)) w3))"
    if c: "classify_end env r sessionId (Some t1) event w2 = (w3, Inr e)" for t1 event w2 w3 e
  proof (cases "r < length (ow_heap w3)")
    case False
    then show ?thesis by (simp add: spends_def)
  next
    case True
    have "calm w2 w3" using quiet.keepsD[OF quiet.keeps_classify[of r sessionId "Some t1" event], of w2] c by simp
    then have "r < length (ow_heap w2)" using True cores_length[of w3 w2] by (simp add: calm_def)
    then have rec: "st_recover e \<Longrightarrow> aa_recoveryAttempts (automation_at r w3)
        < sup_maxRecoveryAttempts (aa_supervision (automation_at r w3))"
      using classify_recover c by blast
    show ?thesis
    proof (rule then_spends[OF quiet.keeps_end_record])
      fix t2 w4 assume r4: "end_record env sessionId e t1 w3 = (w4, Inr t2)"
      have c4: "calm w3 w4" using quiet.keepsD[OF quiet.keeps_end_record[of sessionId e t1], of w3] r4 by simp
      show "spends r w4 (fst (andThen (plan_retry env r sessionId e t2)
              (\<lambda>(t3, plan). go_on env cardId r sessionId e plan t3) w4))"
      proof (rule then_spends[OF quiet.keeps_plan])
        fix x w5 assume r5: "plan_retry env r sessionId e t2 w4 = (w5, Inr x)"
        have "calm w4 w5" using quiet.keepsD[OF quiet.keeps_plan[of r sessionId e t2], of w4] r5 by simp
        then have "core (automation_at r w5) = core (automation_at r w3)"
          using calm_automation[OF calm_trans[OF c4] True] by blast
        then have "st_recover e \<Longrightarrow> aa_recoveryAttempts (automation_at r w5)
            < sup_maxRecoveryAttempts (aa_supervision (automation_at r w5))"
          using rec core_fields(3,4) by metis
        then show "spends r w5 (fst ((\<lambda>(t3, plan). go_on env cardId r sessionId e plan t3) x w5))"
          by (cases x) (simp add: go_on_spends)
      qed
    qed
  qed
  show ?thesis
    unfolding end_of_step_def Some option.case
    by (intro then_spends quiet.keeps_gets quiet.keeps_note_activity quiet.keeps_classify rest)
qed

text \<open>The loop over the active automations, and the whole handler.\<close>

lemma card_spends: "spends r w (fst (end_for_card env cardId r event w))"
  unfolding end_for_card_def
proof (rule then_spends[OF quiet.keeps_gets])
  fix status w1
  let ?finish = "\<lambda>oc s. \<lambda>(sessionId, adopted).
      if sessionId \<noteq> Some s then ret False
      else andThen (gets (\<lambda>w. case oc of None \<Rightarrow> False
             | Some t \<Rightarrow> isPostCompletionTeardownFailure w t (automation_at r w) s event)) (\<lambda>teardown.
        if teardown
        then next_do (when_do adopted (set_automation r (\<lambda>a. a\<lparr>aa_sessionId := None, aa_status := RunQueued\<rparr>)))
          (next_do (signal_session r s) (next_do (settle_lane env event SettleTeardown (Some cardId)) (ret True)))
        else next_do (end_of_step env cardId r s oc event) (ret True))"
  have finish: "spends r w2 (fst (?finish oc s x w2))" for oc s x w2
  proof (cases x)
    case (Pair sessionId adopted)
    have settle: "quiet.keeps (next_do (when_do adopted (set_automation r (\<lambda>a. a\<lparr>aa_sessionId := None, aa_status := RunQueued\<rparr>)))
          (next_do (signal_session r s) (next_do (settle_lane env event SettleTeardown (Some cardId)) (ret True))))"
      unfolding signal_session_def
      by (intro quiet.keeps_intros quiet.keeps_set_automation quiet.keeps_settle) simp_all
    have "spends r w3 (fst (next_do (end_of_step env cardId r s oc event) (ret True) w3))" for w3
      using end_of_step_spends[of r w3 cardId s oc event] by (auto simp: run_next run_ret split: prod.split sum.split)
    then show ?thesis
      using calm_spends[OF quiet.keepsD[OF settle]]
      by (auto simp: Pair run_andThen run_gets run_ret intro: calm_spends calm_refl)
  qed
  have adopt: "quiet.keeps (adopt_trigger r oc)" for oc
    unfolding adopt_trigger_def Let_def by (intro quiet.keeps_intros quiet.keeps_set_automation) simp_all
  show "spends r w1 (fst ((case event_session event of None \<Rightarrow> ret False
      | Some s \<Rightarrow> if status = RunCompleted \<or> status = RunFailed then ret False
          else andThen (read_card env cardId) (\<lambda>oc. andThen (adopt_trigger r oc) (?finish oc s))) w1))"
  proof (cases "event_session event")
    case None
    then show ?thesis by (simp add: run_ret calm_spends calm_refl)
  next
    case (Some s)
    have "spends r w1 (fst (andThen (read_card env cardId) (\<lambda>oc. andThen (adopt_trigger r oc) (?finish oc s)) w1))"
      by (intro then_spends quiet.keeps_read_card adopt finish)
    then show ?thesis
      by (cases "status = RunCompleted \<or> status = RunFailed") (simp_all only: Some option.case if_True if_False
          run_ret fst_conv calm_spends calm_refl)
  qed
qed

lemma loop_pays: "pays w (fst (end_loop env fuel place event w))"
proof (induction fuel arbitrary: place w)
  case 0
  show ?case by (simp add: run_throw calm_pays calm_refl)
next
  case (Suc fuel)
  show ?case
  proof (cases "next_active place w")
    case None
    have "calm w (fst (settle_lane env event SettleEvent None w))"
      by (rule quiet.keepsD[OF quiet.keeps_settle])
    then show ?thesis by (simp add: run_andThen run_gets None calm_pays)
  next
    case (Some entry)
    obtain cardId p r where entry: "entry = (cardId, p, r)" by (cases entry)
    have "(cardId, p, r) \<in> set (ow_active w)"
      using Some entry unfolding next_active_def by (auto simp: find_Some_iff in_set_conv_nth)
    then have ok: "refs_ok w \<Longrightarrow> r < length (ow_heap w)" by (auto simp: refs_ok_def)
    obtain w1 v where card: "end_for_card env cardId r event w = (w1, v)" by (cases "end_for_card env cardId r event w")
    have "pays w w1" using card_spends[of r w cardId event] ok card by (auto simp: spends_def pays_def)
    then show ?thesis
      using Suc.IH[of w1 "Suc p"] pays_trans
      by (auto simp: run_andThen run_gets Some entry card run_ret split: sum.split)
  qed
qed

end

sublocale calm_others \<subseteq> pay: orch_pieces pays env
proof
  show "pays w (oe_others env n (w\<lparr>ow_awaits := Suc (ow_awaits w)\<rparr>))" for w n
    using calm_others[of "w\<lparr>ow_awaits := Suc (ow_awaits w)\<rparr>" n] by (intro calm_pays) (simp add: calm_awaits)
qed (auto intro: pays_trans calm_pays calm_refl simp: calm_def creates_other)

section \<open>Operations that start no lane\<close>

definition starts_lane :: "orch_op \<Rightarrow> bool" where
  "starts_lane oper \<longleftrightarrow> (case oper of OpTransition d \<Rightarrow> True | OpAdopt c l i s \<Rightarrow> True | OpRetryTimer n \<Rightarrow> True | _ \<Rightarrow> False)"

context calm_others
begin

lemma step_pays: "\<not> starts_lane oper \<Longrightarrow> pays w (orch_step env oper w)"
proof -
  have "pay.keeps (orch_do env oper)" if "\<not> starts_lane oper"
  proof (cases oper)
    case OpStart
    then show ?thesis by (simp add: pay.keeps_frame orch_start_def)
  next
    case OpStop
    then show ?thesis by (simp add: pay.keeps_frame orch_stop_def)
  next
    case (OpEnd event fuel)
    have "pay.keeps (handleAgentCompletion env fuel event)"
      by (rule pay.keeps_completion_if) (simp add: pay.keeps_def loop_pays)
    then show ?thesis by (simp add: OpEnd) (intro pay.keeps_intros)
  next
    case (OpForget cardId columnId)
    then show ?thesis
      by simp (rule pay.keeps_frame; auto simp: forgetCard_def Let_def dest: om_del_subset split: option.split)
  next
    case (OpForgetTimer i)
    then show ?thesis
      by simp (rule pay.keeps_frame; auto simp: forget_finished_def Let_def dest: om_del_subset split: prod.split)
  qed (use that in \<open>auto simp: starts_lane_def intro!: pay.keeps_intros pay.keeps_end_task_sessions pay.keeps_scan\<close>)
  then show "\<not> starts_lane oper \<Longrightarrow> pays w (orch_step env oper w)"
    unfolding orch_step_def by (simp add: pay.keeps_def)
qed

lemma run_pays: "list_all (\<lambda>oper. \<not> starts_lane oper) ops \<Longrightarrow> pays w (fold (orch_step env) ops w)"
proof (induction ops arbitrary: w)
  case Nil
  then show ?case by (simp add: calm_pays calm_refl)
next
  case (Cons oper ops)
  then show ?case using step_pays[of oper w] pays_trans by fastforce
qed

end

interpretation alone: calm_others "alone env" for env
  by unfold_locales (simp add: alone_def calm_refl)

text \<open>C8. The sessions of a lane are bounded: whatever ends of sessions, scans of the watchdog and deletions
  follow each other, in any number and order, the orchestrator asks for at most as many sessions as the
  automations had left, which is for each step that is left one session and its recoveries
  (as many as the board's supervision allows). No loop of failures and restarts can go on for ever. The other
  calls at the awaits of a handler must not start sessions themselves.
\<close>

theorem lane_sessions_are_bounded:
  assumes others: "\<And>n w. calm w (oe_others env n w)"
    and refs: "refs_ok w"
    and ops: "list_all (\<lambda>oper. \<not> starts_lane oper) ops"
    and run: "w' = fold (orch_step env) ops w"
  shows "length (creates (ow_log w')) + total_budget w' \<le> length (creates (ow_log w)) + total_budget w"
  using calm_others.run_pays[OF calm_others.intro[OF others] ops, of w] refs run by (simp add: pays_def)

end
