(* ===== verification/WorkflowAdvance.thy ===== *)
theory WorkflowAdvance
  imports WorkflowBudget
begin

text \<open>
  What follows the end of a session: nothing when the user ended it or when the watchdog of a lane
  outside Dev did; the next step after a success. Where a finished card moves, which processes end with
  it, and when the watchdog reports a session.
\<close>

section \<open>Sessions that were ended stay ended\<close>

text \<open>The sets of ended sessions only grow, also at the awaits.\<close>

definition ends_stay :: "orch_world \<Rightarrow> orch_world \<Rightarrow> bool" where
  "ends_stay w w' \<longleftrightarrow> ow_cardEndedSessionIds w \<subseteq> ow_cardEndedSessionIds w'
     \<and> ow_endedSessionIds w \<subseteq> ow_endedSessionIds w'"

locale ends_kept =
  fixes env :: orch_env
  assumes ends_others: "ends_stay w (oe_others env n w)"

sublocale ends_kept \<subseteq> stay: orch_guarantee ends_stay env
proof
  show "ends_stay w (oe_others env n (w\<lparr>ow_awaits := Suc (ow_awaits w)\<rparr>))" for w n
    using ends_others[of "w\<lparr>ow_awaits := Suc (ow_awaits w)\<rparr>" n] by (simp add: ends_stay_def)
qed (auto simp: ends_stay_def)

context ends_kept
begin

lemma end_process_ends: "s \<in> ow_endedSessionIds (fst (endSessionProcess env s w))"
  using stay.keepsD[OF stay.keeps_pause, of w] stay.keepsD[OF stay.keeps_pause,
      of "w\<lparr>ow_endedSessionIds := insert s (ow_endedSessionIds w), ow_log := ow_log w @ [KillSession s]\<rparr>"]
  by (auto simp: endSessionProcess_def run_simps ends_stay_def)

lemma end_process_returns: "\<not> isl (snd (endSessionProcess env s w))"
  by (simp add: endSessionProcess_def run_simps pause_def)

lemma user_end_marks: "s \<in> set ids \<Longrightarrow> s \<noteq> [] \<Longrightarrow> s \<in> ow_cardEndedSessionIds (fst (endTaskSessions env ids w))"
proof -
  assume s: "s \<in> set ids" "s \<noteq> []"
  let ?mark = "\<lambda>sessionId. next_do (modify (\<lambda>w. w\<lparr>ow_teardownSessionIds := insert sessionId (ow_teardownSessionIds w),
                       ow_cardEndedSessionIds := insert sessionId (ow_cardEndedSessionIds w)\<rparr>))
                (next_do (undefer sessionId) (forget_departed sessionId))"
  let ?ids = "uniq (filter (\<lambda>s. s \<noteq> []) ids)"
  have keep: "stay.keeps (?mark x)" for x
    by (intro stay.keeps_intros stay.keeps_undefer stay.keeps_forget_departed stay.keeps_frame) auto
  have marked: "s \<in> ow_cardEndedSessionIds (fst (for_each ?mark ?ids w))"
    by (rule stay.each_holds[OF keep]) (use s in \<open>auto simp: run_simps undefer_def forget_departed_def ends_stay_def\<close>)
  have kills: "ends_stay v (fst (for_each (endSessionProcess env) ?ids v))" for v
    by (rule stay.keepsD[OF stay.keeps_each[OF stay.keeps_end_process]])
  have ok: "snd (for_each ?mark xs v) = Inr ()" for xs v
    by (induction xs arbitrary: v) (simp_all add: run_simps undefer_def forget_departed_def)
  have "fst (endTaskSessions env ids w)
      = fst (for_each (endSessionProcess env) ?ids (fst (for_each ?mark ?ids w)))"
    using ok[of ?ids w] by (auto simp: endTaskSessions_def Let_def run_next split: prod.split)
  then show ?thesis
    using marked kills by (auto simp: ends_stay_def)
qed

lemma run_stays: "ends_stay w (fold (orch_step env) ops w)"
  by (rule stay.run_keeps)

end

interpretation alone: ends_kept "alone env" for env
  by unfold_locales (simp add: alone_def ends_stay_def)

context calm_others
begin

lemma pause_returns: "pause env w = (oe_others env (ow_awaits w) (w\<lparr>ow_awaits := Suc (ow_awaits w)\<rparr>), Inr ())"
  by (simp add: pause_def run_simps)

lemma marked_end_calm:
  assumes "event_session event = Some s" "s \<in> ow_cardEndedSessionIds w"
  shows "calm w (fst (handleAgentCompletion env fuel event w))"
proof -
  obtain w1 v where 1: "finishDeferredTeardown env event w = (w1, v)" by (cases "finishDeferredTeardown env event w")
  then have c1: "calm w w1" using quiet.keepsD[OF quiet.keeps_deferred, of w event] by simp
  define w2 where "w2 = fst (pause env w1)"
  have 2: "pause env w1 = (w2, Inr ())" unfolding w2_def pause_returns by simp
  have c2: "calm w w2" using calm_trans[OF c1] quiet.keepsD[OF quiet.keeps_pause, of w1] by (simp add: w2_def)
  then have "s \<in> ow_cardEndedSessionIds w2" using assms(2) by (auto simp: calm_def)
  then have "fst (handleAgentCompletion env fuel event w)
      = (if isl v then w1 else fst (settle_lane env event SettleTeardown None w2))"
    using assms(1) by (auto simp: handleAgentCompletion_def run_next run_andThen run_gets 1 2 split: sum.split)
  then show ?thesis
    using c1 calm_trans[OF c2 quiet.keepsD[OF quiet.keeps_settle]] by simp
qed

end

text \<open>C9. A session that the user ended (by deleting its card or moving it) never starts anything again: after
  it was ended, whatever operations follow, the end of this session (the failure its aborted prompt raises,
  a timeout, a late completion) asks for no session, changes no automation's step or retry counters and
  adds no automation.
\<close>

theorem user_ended_session_starts_nothing:
  assumes others: "\<And>n w. calm w (oe_others env n w) \<and> ends_stay w (oe_others env n w)"
    and ended: "s \<in> set ids" "s \<noteq> []" and event: "event_session event = Some s"
    and run: "w' = fold (orch_step env) (OpEndSessions ids # ops) w"
  shows "calm w' (orch_step env (OpEnd event fuel) w')"
proof -
  have stay: "ends_kept env" and quiet: "calm_others env"
    using others by (simp_all add: ends_kept_def calm_others_def)
  let ?w1 = "orch_step env (OpEndSessions ids) w"
  have "s \<in> ow_cardEndedSessionIds ?w1"
    using ends_kept.user_end_marks[OF stay ended] by (simp add: orch_step_def)
  moreover have "ends_stay ?w1 w'"
    using ends_kept.run_stays[OF stay] by (simp add: run)
  ultimately have "s \<in> ow_cardEndedSessionIds w'" by (auto simp: ends_stay_def)
  then show ?thesis
    using calm_others.marked_end_calm[OF quiet event]
    by (auto simp: orch_step_def run_andThen run_gets when_do_def run_ret calm_refl)
qed

text \<open>An event about a session, as the bus brings it.\<close>

definition session_event :: "agent_event_type \<Rightarrow> string \<Rightarrow> (string \<times> json) list \<Rightarrow> agent_event" where
  "session_event kind s details =
     \<lparr>ev_type = kind, ev_agentId = s, ev_workspaceId = ''w'', ev_data = (''sessionId'', JStr s) # details, ev_timestamp = 0\<rparr>"

theorem user_ended_session_starts_nothing_witness:
  "calm (fold (orch_step lone_env) [OpEndSessions [''s''], OpScan 3] new_orchestrator)
     (orch_step lone_env (OpEnd (session_event AGENT_FAILED ''s'' []) 3)
       (fold (orch_step lone_env) [OpEndSessions [''s''], OpScan 3] new_orchestrator))"
  by (rule user_ended_session_starts_nothing[where s = "''s''" and ids = "[''s'']" and ops = "[OpScan 3]" and w = new_orchestrator])
    (simp_all add: lone_env_def calm_refl ends_stay_def event_session_def event_data_def session_event_def jprop_def)

section \<open>The step after a success\<close>

definition next_call :: "string \<Rightarrow> nat \<Rightarrow> task \<Rightarrow> active_automation \<Rightarrow> create_call" where
  "next_call cardId i t a = (lane_call a i (buildSupervisionContext a (objective_or t (aa_cardTitle a)) None None))
     \<lparr>cc_cardId := cardId\<rparr>"

definition cleanup_log :: "orch_env \<Rightarrow> string \<Rightarrow> orch_effect list" where
  "cleanup_log env cardId = (if oe_canCleanupCard env then [CleanupCardSession cardId] else [])"

lemma run_pause_alone: "oe_others env = (\<lambda>n w. w) \<Longrightarrow> pause env w = (w\<lparr>ow_awaits := Suc (ow_awaits w)\<rparr>, Inr ())"
  by (simp add: pause_def run_simps)

lemma next_step_alone:
  assumes alone: "oe_others env = (\<lambda>n w. w)"
    and create: "oe_createSession env = Some create" "\<And>n c. \<exists>s. create n c = Inr (CreatedId s) \<and> s \<noteq> []"
    and step: "step_at (Some (aa_steps (automation_at r w))) (int i) = Some st"
    and r: "r < length (ow_heap w)"
  obtains w' t1 s where "startNextAutomationStep env cardId r t i w = (w', Inr (t1, StepStarted))"
    "ow_log w' = ow_log w @ cleanup_log env cardId @ [CreateSession (next_call cardId i t1
        (next_step_automation i (now_of env (w\<lparr>ow_awaits := ow_awaits w + 2\<rparr>)) (automation_at r w)))]"
    "ow_heap w' = (ow_heap w)[r := (next_step_automation i (now_of env (w\<lparr>ow_awaits := ow_awaits w + 2\<rparr>)) (automation_at r w))
        \<lparr>aa_status := RunRunning, aa_sessionId := Some s\<rparr>]"
    "ow_active w' = ow_active w" "ow_endedSessionIds w' = ow_endedSessionIds w"
    "t1 = (release_session (aa_sessionId (automation_at r w)) t)\<lparr>tk_lastSyncError := None, tk_updatedAt := now_of env w\<rparr>"
    "ow_awaits w' = ow_awaits w + 3"
    "ow_store w' = store_save (iso_of env (w\<lparr>ow_awaits := Suc (ow_awaits w)\<rparr>)) (ow_store w) t1"
proof -
  let ?t1 = "(release_session (aa_sessionId (automation_at r w)) t)\<lparr>tk_lastSyncError := None, tk_updatedAt := now_of env w\<rparr>"
  let ?a = "next_step_automation i (now_of env (w\<lparr>ow_awaits := ow_awaits w + 2\<rparr>)) (automation_at r w)"
  obtain s where s: "create (ow_awaits w + 2) (next_call cardId i ?t1 ?a) = Inr (CreatedId s)" "s \<noteq> []"
    using create(2) by blast
  show ?thesis
  proof (rule that[of "fst (startNextAutomationStep env cardId r t i w)" ?t1 s])
  qed (use s r step in \<open>simp_all add: startNextAutomationStep_def run_simps create(1) Let_def save_card_def run_pause_alone[OF alone]
      cleanup_card_def log_effect_def set_automation_def automation_at_def take_session_def create_session_def
      next_call_def[symmetric] now_of_def session_answered_def readCreatedSession_def truthy_def cleanup_log_def iso_of_def\<close>)
qed

text \<open>The automation when it runs step \<open>i\<close> afresh in session \<open>s\<close>.\<close>

definition runs_step :: "nat \<Rightarrow> string \<Rightarrow> active_automation \<Rightarrow> bool" where
  "runs_step i s a \<longleftrightarrow> aa_status a = RunRunning \<and> aa_sessionId a = Some s \<and> aa_currentStepIndex a = i
     \<and> aa_attempt a = 1 \<and> aa_recoveryAttempts a = 0"

lemma step_exists: "i < length (aa_steps a) \<Longrightarrow> step_at (Some (aa_steps a)) (int i) = Some (aa_steps a ! i)"
  by (simp add: step_at_def)

lemma next_call_fields [simp]:
  "cc_stepIndex (next_call cardId i t a) = i" "cc_cardId (next_call cardId i t a) = cardId"
  "cc_step (next_call cardId i t a) = step_at (Some (aa_steps a)) (int i)"
  by (simp_all add: next_call_def lane_call_def)

lemma log_cleanup [simp]: "creates (cleanup_log env cardId) = []" "killed (cleanup_log env cardId) = []"
  by (simp_all add: cleanup_log_def)

lemma advance_alone:
  assumes alone: "oe_others env = (\<lambda>n w. w)"
    and create: "oe_createSession env = Some create" "\<And>n c. \<exists>s. create n c = Inr (CreatedId s) \<and> s \<noteq> []"
    and r: "r < length (ow_heap w)"
    and a: "a = automation_at r w" and i: "i = Suc (aa_currentStepIndex a)" "i < length (aa_steps a)"
    and e: "st_success e" "st_satisfied e" and live: "sessionId \<notin> ow_endedSessionIds w"
  obtains w' t1 c s where "try_advance env cardId r sessionId e t w = (w', Inr (t1, True, False))"
    "creates (ow_log w') = creates (ow_log w) @ [c]"
    "cc_stepIndex c = i" "cc_step c = Some (aa_steps a ! i)" "cc_cardId c = cardId"
    "runs_step i s (automation_at r w')" "length (ow_heap w') = length (ow_heap w)"
    "killed (ow_log w') = killed (ow_log w) @ (if isInTurnEvent (st_event e) then [] else [sessionId])"
    "isInTurnEvent (st_event e) \<longrightarrow> sessionId \<in> ow_deferredTeardownSessionIds w'"
    "ow_awaits w < ow_awaits w'"
proof -
  have st: "step_at (Some (aa_steps (automation_at r w))) (int i) = Some (aa_steps a ! i)"
    using step_exists[OF i(2)] a by simp
  obtain w1 t1 s where 1: "startNextAutomationStep env cardId r t i w = (w1, Inr (t1, StepStarted))"
    "ow_log w1 = ow_log w @ cleanup_log env cardId @ [CreateSession (next_call cardId i t1
        (next_step_automation i (now_of env (w\<lparr>ow_awaits := ow_awaits w + 2\<rparr>)) (automation_at r w)))]"
    "ow_heap w1 = (ow_heap w)[r := (next_step_automation i (now_of env (w\<lparr>ow_awaits := ow_awaits w + 2\<rparr>)) (automation_at r w))
        \<lparr>aa_status := RunRunning, aa_sessionId := Some s\<rparr>]"
    "ow_active w1 = ow_active w" "ow_endedSessionIds w1 = ow_endedSessionIds w"
    "t1 = (release_session (aa_sessionId (automation_at r w)) t)\<lparr>tk_lastSyncError := None, tk_updatedAt := now_of env w\<rparr>"
    "ow_awaits w1 = ow_awaits w + 3"
    "ow_store w1 = store_save (iso_of env (w\<lparr>ow_awaits := Suc (ow_awaits w)\<rparr>)) (ow_store w) t1"
    by (rule next_step_alone[OF alone create st r])
  have idx: "Suc (aa_currentStepIndex (automation_at r w)) = i" "i < length (aa_steps (automation_at r w))"
    using i a by auto
  let ?w' = "fst (try_advance env cardId r sessionId e t w)"
  have run: "try_advance env cardId r sessionId e t w = (?w', Inr (t1, True, False))"
    by (simp add: e idx 1(1) try_advance_def run_simps Let_def run_pause_alone[OF alone] signal_session_def
        set_automation_def endFinishedStepSession_def defer_session_def undefer_def endSessionProcess_def)
  have w': "ow_log ?w' = ow_log w1 @ (if isInTurnEvent (st_event e) then [] else [KillSession sessionId])"
    "ow_heap ?w' = (ow_heap w1)[r := (ow_heap w1 ! r)\<lparr>aa_signaledSessionIds := insert sessionId (aa_signaledSessionIds (ow_heap w1 ! r))\<rparr>]"
    "isInTurnEvent (st_event e) \<longrightarrow> sessionId \<in> ow_deferredTeardownSessionIds ?w'"
    "ow_awaits w1 < ow_awaits ?w'"
    by (simp_all add: e idx 1(1,5,7) live try_advance_def run_simps Let_def run_pause_alone[OF alone] signal_session_def
        set_automation_def endFinishedStepSession_def defer_session_def undefer_def endSessionProcess_def)
  have aw: "ow_awaits w < ow_awaits ?w'" using w'(4) 1(7) by simp
  show thesis
    by (rule that[OF run, of "next_call cardId i t1 (next_step_automation i (now_of env (w\<lparr>ow_awaits := ow_awaits w + 2\<rparr>)) a)" s])
      (simp_all add: w' aw 1(2,3,5,7) r a st[unfolded a automation_at_def] runs_step_def automation_at_def next_step_automation_def)
qed

text \<open>C18. When a step succeeded and the lane has another one, exactly one session is asked for: that of the
  next step, with fresh attempt counters; the automation runs it, and the process of the finished session
  is ended, or, when the end came from inside the agent's turn, kept for the next event of the session so
  that its last writes are not cut off.
\<close>

theorem next_step_starts_once:
  assumes alone: "oe_others env = (\<lambda>n w. w)"
    and create: "oe_createSession env = Some create" "\<And>n c. \<exists>s. create n c = Inr (CreatedId s) \<and> s \<noteq> []"
    and r: "r < length (ow_heap w)"
    and a: "a = automation_at r w" and i: "i = Suc (aa_currentStepIndex a)" "i < length (aa_steps a)"
    and e: "st_success e" "st_satisfied e" and live: "sessionId \<notin> ow_endedSessionIds w"
  shows "\<exists>w' c s. go_on env cardId r sessionId e plan t w = (w', Inr ())
    \<and> creates (ow_log w') = creates (ow_log w) @ [c]
    \<and> cc_stepIndex c = i \<and> cc_step c = Some (aa_steps a ! i) \<and> cc_cardId c = cardId
    \<and> runs_step i s (automation_at r w')
    \<and> killed (ow_log w') = killed (ow_log w) @ (if isInTurnEvent (st_event e) then [] else [sessionId])
    \<and> (isInTurnEvent (st_event e) \<longrightarrow> sessionId \<in> ow_deferredTeardownSessionIds w')"
proof -
  obtain w' t1 c s where 1: "try_advance env cardId r sessionId e t w = (w', Inr (t1, True, False))"
    and rest: "creates (ow_log w') = creates (ow_log w) @ [c]" "cc_stepIndex c = i" "cc_step c = Some (aa_steps a ! i)"
    "cc_cardId c = cardId" "runs_step i s (automation_at r w')" "length (ow_heap w') = length (ow_heap w)"
    "killed (ow_log w') = killed (ow_log w) @ (if isInTurnEvent (st_event e) then [] else [sessionId])"
    "isInTurnEvent (st_event e) \<longrightarrow> sessionId \<in> ow_deferredTeardownSessionIds w'" "ow_awaits w < ow_awaits w'"
    by (rule advance_alone[OF alone create r a i e live])
  have "go_on env cardId r sessionId e plan t w = (w', Inr ())"
    by (simp add: go_on_def advance_or_fall_back_def run_simps 1)
  then show ?thesis using rest by blast
qed

text \<open>C38. The code does not keep two ends of one session apart. When a second end of the same session (a
  report and the completion of the turn, say) is handled while the first waits for the card to be saved,
  both start the next step: two sessions run one step of the lane.
\<close>

theorem two_ends_start_a_step_twice:
  assumes alone: "oe_others env = (\<lambda>n w. w)"
    and create: "oe_createSession env = Some create" "\<And>n c. \<exists>s. create n c = Inr (CreatedId s) \<and> s \<noteq> []"
    and r: "r < length (ow_heap w)"
    and a: "a = automation_at r w" and i: "i = Suc (aa_currentStepIndex a)" "i < length (aa_steps a)"
    and e: "st_success e" "st_satisfied e" and live: "sessionId \<notin> ow_endedSessionIds w"
    and second: "racing = env\<lparr>oe_others := (\<lambda>n v. if n = ow_awaits w
                   then fst (try_advance env cardId r sessionId e t v) else v)\<rparr>"
  shows "\<exists>c1 c2. creates (ow_log (fst (try_advance racing cardId r sessionId e t w))) = creates (ow_log w) @ [c1, c2]
    \<and> cc_cardId c1 = cardId \<and> cc_cardId c2 = cardId \<and> cc_stepIndex c1 = i \<and> cc_stepIndex c2 = i"
proof -
  let ?v = "w\<lparr>ow_awaits := Suc (ow_awaits w)\<rparr>"
  have v: "r < length (ow_heap ?v)" "a = automation_at r ?v" "sessionId \<notin> ow_endedSessionIds ?v"
    using r a live by (simp_all add: automation_at_def)
  obtain w1 t1 c1 s where 1: "try_advance env cardId r sessionId e t ?v = (w1, Inr (t1, True, False))"
    "creates (ow_log w1) = creates (ow_log ?v) @ [c1]" "cc_stepIndex c1 = i" "cc_step c1 = Some (aa_steps a ! i)"
    "cc_cardId c1 = cardId" "runs_step i s (automation_at r w1)" "length (ow_heap w1) = length (ow_heap ?v)"
    "killed (ow_log w1) = killed (ow_log ?v) @ (if isInTurnEvent (st_event e) then [] else [sessionId])"
    "isInTurnEvent (st_event e) \<longrightarrow> sessionId \<in> ow_deferredTeardownSessionIds w1" "ow_awaits ?v < ow_awaits w1"
    by (rule advance_alone[OF alone create v(1,2) i e v(3)])
  have others: "oe_others racing n u = (if n = ow_awaits w then fst (try_advance env cardId r sessionId e t u) else u)" for n u
    by (simp add: second)
  have cr: "oe_createSession racing = Some create" by (simp add: second create)
  have a1: "ow_awaits w1 \<noteq> ow_awaits w" "ow_awaits w < ow_awaits w1" using 1(10) by simp_all
  have first: "pause racing w = (w1, Inr ())"
    using 1(1) by (simp add: pause_def run_simps others)
  have later: "pause racing u = (u\<lparr>ow_awaits := Suc (ow_awaits u)\<rparr>, Inr ())" if "ow_awaits w < ow_awaits u" for u
    using that by (simp add: pause_def run_simps others)
  have idx: "Suc (aa_currentStepIndex (automation_at r w)) = i" "i < length (aa_steps (automation_at r w))"
    "step_at (Some (aa_steps (automation_at r w))) (int i) = Some (aa_steps a ! i)"
    using i a step_exists[OF i(2)] by auto
  define c2 where "c2 = next_call cardId i
    ((release_session (aa_sessionId (automation_at r w)) t)\<lparr>tk_lastSyncError := None, tk_updatedAt := now_of racing w\<rparr>)
    (next_step_automation i (now_of racing (w1\<lparr>ow_awaits := Suc (ow_awaits w1)\<rparr>)) (ow_heap w1 ! r))"
  obtain s2 where s2: "create (Suc (ow_awaits w1)) c2 = Inr (CreatedId s2)" "s2 \<noteq> []"
    using create(2) by blast
  have r1: "r < length (ow_heap w1)" using 1(7) r by simp
  have "ow_log (fst (try_advance racing cardId r sessionId e t w)) = ow_log w1 @ cleanup_log racing cardId @ [CreateSession c2]
      @ (if sessionId \<in> ow_endedSessionIds w1 \<or> isInTurnEvent (st_event e) then [] else [KillSession sessionId])"
    using s2 r1 a1(2)
    by (simp add: less_SucI e idx[unfolded automation_at_def] a1 try_advance_def run_simps Let_def startNextAutomationStep_def save_card_def first later cr
        cleanup_card_def log_effect_def set_automation_def automation_at_def take_session_def create_session_def
        next_call_def[symmetric] c2_def now_of_def session_answered_def readCreatedSession_def truthy_def cleanup_log_def
        signal_session_def endFinishedStepSession_def defer_session_def undefer_def endSessionProcess_def)
  then show ?thesis using 1(2,3,5) by (auto simp: c2_def)
qed

end
