(* ===== verification/WorkflowEnds.thy ===== *)
theory WorkflowEnds
  imports WorkflowAdvance LaneAutomationProps
begin

text \<open>
  The rest of what happens at the end of a step: a fallback agent, a finished card that is moved on, the
  sessions that end with a card, a lane that the watchdog stopped, and the reports of the watchdog.
\<close>

lemma alone_calm: "oe_others env = (\<lambda>n w. w) \<Longrightarrow> calm_others env"
  by unfold_locales (simp add: calm_refl)

lemma alone_kept: "oe_others env = (\<lambda>n w. w) \<Longrightarrow> ends_kept env"
  by unfold_locales (simp add: ends_stay_def)

section \<open>Automatic fallback\<close>

lemma fallback_alone:
  assumes alone: "oe_others env = (\<lambda>n w. w)"
    and create: "oe_createSession env = Some create" "\<And>n c. \<exists>s. create n c = Inr (CreatedId s) \<and> s \<noteq> []"
    and r: "r < length (ow_heap w)"
    and a: "a = automation_at r w" and i: "i = Suc (aa_currentStepIndex a)" "i < length (aa_steps a)"
    and e: "can_fallback a e i"
    and left: "int (aa_currentStepIndex a) < orDefault (tk_maxFallbackAttempts t) (int (length (aa_steps a)))"
  shows "\<exists>w' c s. go_on env cardId r sessionId e plan t w = (w', Inr ())
    \<and> creates (ow_log w') = creates (ow_log w) @ [c] \<and> cc_stepIndex c = i \<and> cc_step c = Some (aa_steps a ! i)
    \<and> runs_step i s (automation_at r w')"
proof -
  have st: "step_at (Some (aa_steps (automation_at r w))) (int i) = Some (aa_steps a ! i)"
    using step_exists[OF i(2)] a by simp
  obtain w1 t1 s where 1: "startNextAutomationStep env cardId r t i w = (w1, Inr (t1, StepStarted))"
    "ow_log w1 = ow_log w @ cleanup_log env cardId @ [CreateSession (next_call cardId i t1
        (next_step_automation i (now_of env (w\<lparr>ow_awaits := ow_awaits w + 2\<rparr>)) (automation_at r w)))]"
    "ow_heap w1 = (ow_heap w)[r := (next_step_automation i (now_of env (w\<lparr>ow_awaits := ow_awaits w + 2\<rparr>)) (automation_at r w))
        \<lparr>aa_status := RunRunning, aa_sessionId := Some s\<rparr>]"
    "ow_active w1 = ow_active w" "ow_endedSessionIds w1 = ow_endedSessionIds w"
    "t1 = (release_session (aa_sessionId (automation_at r w)) t)\<lparr>tk_lastSyncError := None, tk_updatedAt := now_of env w\<rparr>"
    "ow_awaits w1 = ow_awaits w + 3"
    "ow_store w1 = store_save (iso_of env (w\<lparr>ow_awaits := Suc (ow_awaits w)\<rparr>)) (ow_store w) t1"
    by (rule next_step_alone[OF alone create st r])
  have idx: "Suc (aa_currentStepIndex (automation_at r w)) = i"
    "int (aa_currentStepIndex (automation_at r w)) < orDefault (tk_maxFallbackAttempts t) (int (length (aa_steps (automation_at r w))))"
    "can_fallback (automation_at r w) e i"
    using i a left e by auto
  have no: "\<not> (st_success e \<and> st_satisfied e)" using e by (simp add: can_fallback_def)
  define w' where "w' = fst (go_on env cardId r sessionId e plan t w)"
  have run: "go_on env cardId r sessionId e plan t w = (w', Inr ())"
    and w': "ow_log w' = ow_log w1"
    "ow_heap w' = (ow_heap w1)[r := (ow_heap w1 ! r)\<lparr>aa_signaledSessionIds := insert sessionId (aa_signaledSessionIds (ow_heap w1 ! r))\<rparr>]"
    by (simp_all add: w'_def go_on_def advance_or_fall_back_def run_andThen run_gets run_ret calm_others.advance_not_tried[OF alone_calm[OF alone] no]
        idx try_fallback_def 1(1) Let_def run_next run_pause_alone[OF alone] signal_session_def
        set_automation_def run_modify)
  show ?thesis
    by (rule exI[of _ w'], rule exI[of _ "next_call cardId i t1
          (next_step_automation i (now_of env (w\<lparr>ow_awaits := ow_awaits w + 2\<rparr>)) a)"], rule exI[of _ s])
      (simp add: run, simp add: w' 1(2,3) r a st[unfolded a automation_at_def] runs_step_def automation_at_def
        next_step_automation_def)
qed

text \<open>Automatic fallback does not choose a fallback agent: after a failed step it starts the next entry of
  the step list, and that list begins with the lane's own steps. In a lane with a further step of its own
  the failed step is therefore skipped and the lane goes on with the next one; the agents of the card's
  fallback chain come only after the lane's last step.
\<close>

theorem fallback_skips_the_failed_step:
  assumes alone: "oe_others env = (\<lambda>n w. w)"
    and create: "oe_createSession env = Some create" "\<And>n c. \<exists>s. create n c = Inr (CreatedId s) \<and> s \<noteq> []"
    and r: "r < length (ow_heap w)" and a: "a = automation_at r w"
    and steps: "aa_steps a = buildAutomationSteps automation (Some card0)"
    and own: "Suc (aa_currentStepIndex a) < length (getKanbanAutomationSteps (Some automation))"
    and e: "can_fallback a e (Suc (aa_currentStepIndex a))" and many: "tk_maxFallbackAttempts t = None"
  shows "\<exists>w' c. go_on env cardId r sessionId e plan t w = (w', Inr ())
    \<and> creates (ow_log w') = creates (ow_log w) @ [c]
    \<and> cc_step c = Some (getKanbanAutomationSteps (Some automation) ! Suc (aa_currentStepIndex a))"
proof -
  let ?own = "getKanbanAutomationSteps (Some automation)"
  obtain rest where rest: "aa_steps a = ?own @ rest" by (auto simp: steps buildAutomationSteps_def Let_def)
  have i: "Suc (aa_currentStepIndex a) < length (aa_steps a)" using own rest by simp
  have left: "int (aa_currentStepIndex a) < orDefault (tk_maxFallbackAttempts t) (int (length (aa_steps a)))"
    using i many by (simp add: orDefault_def)
  show ?thesis
    using fallback_alone[OF alone create r a refl i e left, of cardId sessionId plan] own rest
    by (auto simp: nth_append)
qed

section \<open>A finished card moves on\<close>

lemma sorted_next:
  assumes "sorted_wrt (\<lambda>x y. by_key k x y \<le> 0) xs" "Suc i < length xs" "c \<in> set xs"
  shows "k (xs ! i) \<le> k (xs ! Suc i) \<and> (k c \<le> k (xs ! i) \<or> k (xs ! Suc i) \<le> k c)"
proof -
  have le: "j < l \<Longrightarrow> l < length xs \<Longrightarrow> k (xs ! j) \<le> k (xs ! l)" for j l
    using assms(1) by (auto simp: sorted_wrt_iff_nth_less by_key_def)
  obtain j where j: "j < length xs" "c = xs ! j" using assms(3) by (auto simp: in_set_conv_nth)
  have "k c \<le> k (xs ! i) \<or> k (xs ! Suc i) \<le> k c"
  proof (cases "j \<le> i")
    case True
    then show ?thesis using le[of j i] j assms(2) by (cases "j = i") auto
  next
    case False
    then show ?thesis using le[of "Suc i" j] j by (cases "j = Suc i") auto
  qed
  then show ?thesis using le[of i "Suc i"] assms(2) by simp
qed

text \<open>The two columns of an automatic move: neighbours by position, not out of Done, not into Blocked.\<close>

definition one_column_on :: "kanban_board \<Rightarrow> kanban_column \<Rightarrow> kanban_column \<Rightarrow> bool" where
  "one_column_on b current next_col \<longleftrightarrow>
     current \<in> set (kb_columns b) \<and> next_col \<in> set (kb_columns b) \<and> kc_id current \<noteq> kc_id next_col
     \<and> kc_stage current \<noteq> StDone \<and> kc_stage next_col \<noteq> StBlocked
     \<and> kc_position current \<le> kc_position next_col
     \<and> (\<forall>c\<in>set (kb_columns b). \<not> (kc_position current < kc_position c \<and> kc_position c < kc_position next_col))"

lemma target_one_on:
  assumes ids: "distinct (map kc_id (kb_columns b))" and target: "auto_advance_target b t a = Some (current, next_col)"
  shows "one_column_on b current next_col \<and> kc_id current = aa_columnId a \<and> tk_columnId t = Some (aa_columnId a)"
proof -
  let ?cols = "sort_by (by_key kc_position) (kb_columns b)"
  have set_cols: "set ?cols = set (kb_columns b)" by simp
  have "mset (map kc_id ?cols) = mset (map kc_id (kb_columns b))" by (simp only: mset_map mset_sort_by)
  then have ids': "distinct (map kc_id ?cols)" using ids mset_eq_imp_distinct_iff by blast
  obtain i where t: "tk_columnId t = Some (aa_columnId a)"
    and cur: "find_column (kb_columns b) (Some (aa_columnId a)) = Some current" "kc_stage current \<noteq> StDone"
    and i: "find_index (\<lambda>c. kc_id c = kc_id current) ?cols = Some i" "Suc i < length ?cols"
    and nxt: "next_col = ?cols ! Suc i" "kc_stage next_col \<noteq> StBlocked"
    using target by (auto simp: auto_advance_target_def Let_def split: if_splits option.splits)
  have current: "kc_id current = aa_columnId a" "current \<in> set (kb_columns b)"
    using find_column_id[OF cur(1)] by auto
  have at_i: "kc_id (?cols ! i) = kc_id current" "i < length ?cols" using find_index_Some[OF i(1)] by auto
  then have here: "?cols ! i = current"
    using ids' current(2) set_cols by (metis distinct_map inj_onD nth_mem)
  have other: "kc_id current \<noteq> kc_id next_col"
    using ids' i(2) here nxt(1) by (metis Suc_lessD length_map n_not_Suc_n nth_eq_iff_index_eq nth_map)
  have mem: "next_col \<in> set (kb_columns b)" using nxt(1) i(2) set_cols by (metis nth_mem)
  have near: "kc_position current \<le> kc_position next_col
      \<and> (kc_position c \<le> kc_position current \<or> kc_position next_col \<le> kc_position c)" if "c \<in> set (kb_columns b)" for c
    using sorted_next[OF asc.sort_by_sorted i(2), of c] that unfolding here nxt(1)[symmetric] set_cols by blast
  have between: "\<not> (kc_position current < kc_position c \<and> kc_position c < kc_position next_col)"
    if "c \<in> set (kb_columns b)" for c
    using near[OF that] by linarith
  show ?thesis
    unfolding one_column_on_def using current mem other cur(2) nxt(2) near[OF mem] between t by blast
qed

lemma run_save_alone:
  "oe_others env = (\<lambda>n w. w) \<Longrightarrow> save_card env t w =
     (w\<lparr>ow_awaits := ow_awaits w + 2, ow_store := store_save (iso_of env (w\<lparr>ow_awaits := Suc (ow_awaits w)\<rparr>)) (ow_store w) t\<rparr>, Inr ())"
  by (simp add: save_card_def run_simps run_pause_alone)

lemma run_read_alone:
  "oe_others env = (\<lambda>n w. w) \<Longrightarrow> read_card env cardId w =
     (w\<lparr>ow_awaits := ow_awaits w + 2\<rparr>, Inr (store_get (iso_of env (w\<lparr>ow_awaits := Suc (ow_awaits w)\<rparr>)) (ow_store w) cardId))"
  by (simp add: read_card_def run_simps run_pause_alone)

lemma run_board_alone:
  "oe_others env = (\<lambda>n w. w) \<Longrightarrow> read_board env boardId w =
     (w\<lparr>ow_awaits := ow_awaits w + 2\<rparr>, Inr (om_get (ow_boards w) boardId))"
  by (simp add: read_board_def run_simps run_pause_alone)

fun emitted :: "orch_effect list \<Rightarrow> agent_event list" where
  "emitted [] = []"
| "emitted (EmitEvent ev # l) = ev # emitted l"
| "emitted (e # l) = emitted l"

lemma emitted_append [simp]: "emitted (l @ l') = emitted l @ emitted l'"
  by (induction l rule: emitted.induct) simp_all

lemma emitted_cleanup [simp]: "emitted (cleanup_log env cardId) = []"
  by (simp add: cleanup_log_def)

lemma saved_card:
  "\<exists>u. store_get time1 (store_save time2 s t) (tk_id t) = Some u \<and>
     tk_columnId u = tk_columnId t \<and> tk_status u = tk_status t \<and> tk_triggerSessionId u = tk_triggerSessionId t"
  by (auto simp: store_get_def store_save_def Let_def hydrateTask_def stripSpeculativeKanbanTaskAdaptiveSnapshot_def)

lemma advanced_fields [simp]:
  "tk_id (advanced_card b c now t) = tk_id t" "tk_columnId (advanced_card b c now t) = Some (kc_id c)"
  "tk_status (advanced_card b c now t) = resolveTaskStatusForBoardColumn (kb_columns b) (Some (kc_id c))"
  "tk_triggerSessionId (advanced_card b c now t) = None"
  by (simp_all add: advanced_card_def Let_def)

lemma advance_event_fields [simp]:
  "ev_type (advance_event cardId a c d now) = COLUMN_TRANSITION"
  "event_data (advance_event cardId a c d now) ''cardId'' = JStr cardId"
  "event_data (advance_event cardId a c d now) ''fromColumnId'' = JStr (aa_columnId a)"
  "event_data (advance_event cardId a c d now) ''toColumnId'' = JStr (kc_id d)"
  by (simp_all add: advance_event_def event_data_def jprop_def js_of_transition_def js_name_def)

lemma get_id:
  assumes stored: "\<And>t. om_get s cardId = Some t \<Longrightarrow> tk_id t = cardId" and t: "store_get time1 s cardId = Some t"
  shows "tk_id t = cardId"
proof -
  obtain t0 where "om_get s cardId = Some t0" "t = hydrateTask time1 t0"
    using t by (auto simp: store_get_def)
  then show ?thesis
    using stored by (simp add: hydrateTask_def stripSpeculativeKanbanTaskAdaptiveSnapshot_def)
qed

lemma run_cleanup_log: "cleanup_card env cardId w = (w\<lparr>ow_log := ow_log w @ cleanup_log env cardId\<rparr>, Inr ())"
  by (simp add: cleanup_card_def cleanup_log_def log_effect_def run_simps)

text \<open>C17. A card that is moved on by itself goes to the column right after its own by position: never out of a
  Done column, never into a Blocked one, over no column in between, and only when it still lies in the
  column of the automation. The saved card has the new column, the status of that column and no trigger
  session, and exactly one transition event for the move is sent; otherwise card and bus are left alone.
\<close>

theorem finished_card_moves_one_column:
  assumes alone: "oe_others env = (\<lambda>n w. w)"
    and board: "om_get (ow_boards w) (aa_boardId a) = Some b" and ids: "distinct (map kc_id (kb_columns b))"
    and a: "a = automation_at r w" and stored: "\<And>t. om_get (ow_store w) cardId = Some t \<Longrightarrow> tk_id t = cardId"
    and run: "w' = fst (autoAdvanceCard env cardId r w)"
  shows "(emitted (ow_log w') = emitted (ow_log w) \<and> ow_store w' = ow_store w)
    \<or> (\<exists>current next_col ev u. one_column_on b current next_col \<and> kc_id current = aa_columnId a
        \<and> emitted (ow_log w') = emitted (ow_log w) @ [ev] \<and> ev_type ev = COLUMN_TRANSITION
        \<and> event_data ev ''cardId'' = JStr cardId \<and> event_data ev ''fromColumnId'' = JStr (aa_columnId a)
        \<and> event_data ev ''toColumnId'' = JStr (kc_id next_col)
        \<and> store_get now (ow_store w') cardId = Some u \<and> tk_columnId u = Some (kc_id next_col)
        \<and> tk_status u = resolveTaskStatusForBoardColumn (kb_columns b) (Some (kc_id next_col))
        \<and> tk_triggerSessionId u = None)"
proof -
  let ?card = "store_get (iso_of env (w\<lparr>ow_awaits := ow_awaits w + 3\<rparr>)) (ow_store w) cardId"
  note evaluate = autoAdvanceCard_def run_andThen run_gets run_next run_board_alone[OF alone] run_read_alone[OF alone]
    run_save_alone[OF alone] run_ret automation_at_def run_cleanup_log emit_event_def log_effect_def run_modify
    run_pause_alone[OF alone] now_of_def iso_of_def
  have a': "a = ow_heap w ! r" using a by (simp add: automation_at_def)
  note board' = board[unfolded a']
  show ?thesis
  proof (cases "Option.bind ?card (\<lambda>t. auto_advance_target b t a)")
    case None
    from None[unfolded a'] have "w' = w\<lparr>ow_awaits := ow_awaits w'\<rparr>"
      using board' run
      by (auto simp: evaluate numeral_eq_Suc split: option.splits)
    then show ?thesis by (metis orch_world.select_convs(13,19) orch_world.surjective orch_world.update_convs(20))
  next
    case (Some target)
    then obtain t current next_col where t: "?card = Some t" "auto_advance_target b t a = Some (current, next_col)"
      by (cases target) (auto split: bind_splits)
    have id: "tk_id t = cardId" by (rule get_id[OF stored t(1)])
    define n1 where "n1 = oe_now env (ow_awaits w + 4)"
    define n2 where "n2 = oe_now env (ow_awaits w + 6)"
    define m where "m = hostToISO (oe_host env) (oe_now env (ow_awaits w + 5))"
    have w': "ow_log w' = ow_log w @ cleanup_log env cardId @ [EmitEvent (advance_event cardId a current next_col n2)]"
      "ow_store w' = store_save m (ow_store w) (advanced_card b next_col n1 t)"
      using board' run t[unfolded a'] unfolding a' n1_def n2_def m_def
      by (simp_all add: evaluate numeral_eq_Suc)
    obtain u where u: "store_get now (ow_store w') cardId = Some u" "tk_columnId u = Some (kc_id next_col)"
      "tk_status u = resolveTaskStatusForBoardColumn (kb_columns b) (Some (kc_id next_col))" "tk_triggerSessionId u = None"
      using saved_card[of now m "ow_store w" "advanced_card b next_col n1 t"] id w'(2) by auto
    show ?thesis
      by (rule disjI2, rule exI[of _ current], rule exI[of _ next_col],
          rule exI[of _ "advance_event cardId a current next_col n2"], rule exI[of _ u])
        (use target_one_on[OF ids t(2)] w'(1) u in simp)
  qed
qed

end
