(* ===== verification/WorkflowDone.thy ===== *)
theory WorkflowDone
  imports WorkflowEnds
begin

text \<open>
  The end of a lane: a Done lane ends every session of its card, also when other calls run in between;
  the watchdog ends a silent step and reports it once; the loops over the automations end.
\<close>

section \<open>A Done lane ends the sessions of its card\<close>

text \<open>No other call touches the automation, and no ended session is forgotten.\<close>

definition held :: "nat \<Rightarrow> orch_world \<Rightarrow> orch_world \<Rightarrow> bool" where
  "held r w w' \<longleftrightarrow> ends_stay w w' \<and> automation_at r w' = automation_at r w"

locale lane_held =
  fixes env :: orch_env and r :: nat
  assumes others_hold: "held r w (oe_others env n w)"

sublocale lane_held \<subseteq> kept: ends_kept env
  by unfold_locales (use others_hold in \<open>simp add: held_def\<close>)

sublocale lane_held \<subseteq> hold: guarantee "held r"
  by unfold_locales (auto simp: held_def ends_stay_def)

context lane_held
begin

lemma hold_frame:
  assumes "\<And>w. ow_endedSessionIds (f w) = ow_endedSessionIds w"
    "\<And>w. ow_cardEndedSessionIds w \<subseteq> ow_cardEndedSessionIds (f w)" "\<And>w. ow_heap (f w) = ow_heap w"
  shows "hold.keeps (modify f)"
  using assms by (intro hold.keeps_modify) (simp add: held_def ends_stay_def automation_at_def)

lemma hold_pause: "hold.keeps (pause env)"
proof -
  have "held r w (w\<lparr>ow_awaits := Suc (ow_awaits w)\<rparr>)" for w
    by (simp add: held_def ends_stay_def automation_at_def)
  then show ?thesis
    unfolding pause_def by (intro hold.keeps_modify) (rule hold.le_trans[OF _ others_hold])
qed

lemma hold_log: "hold.keeps (log_effect e)"
  unfolding log_effect_def by (rule hold_frame) simp_all

lemma hold_save: "hold.keeps (save_card env t)"
  unfolding save_card_def by (intro hold.keeps_intros hold_pause hold_frame) simp_all

lemma hold_advance: "hold.keeps (autoAdvanceCard env cardId r')"
  unfolding autoAdvanceCard_def read_board_def read_card_def cleanup_card_def emit_event_def
  by (intro hold.keeps_intros hold_pause hold_save hold_log)

lemma hold_retry: "hold.keeps (schedule_retry env r' sessionId plan)"
  unfolding schedule_retry_def by (intro hold.keeps_intros hold_frame) (simp_all add: Let_def)

lemma hold_artifact: "hold.keeps (keep_artifact env sessionId isDone oc)"
  unfolding keep_artifact_def by (intro hold.keeps_intros hold_pause hold_log)

lemma hold_kill: "hold.keeps (endSessionProcess env s)"
  unfolding endSessionProcess_def
  by (intro hold.keeps_intros hold_pause hold.keeps_modify) (auto simp: held_def ends_stay_def automation_at_def)

lemma hold_mark: "hold.keeps (mark_teardown s)"
  unfolding mark_teardown_def by (intro hold_frame) simp_all

lemma hold_teardown: "hold.keeps (teardownFinishedCardSessions env t sessionId event r')"
  unfolding teardownFinishedCardSessions_def teardown_one_def killTeardownSession_def runDoneWorktreeCleanup_def
    defer_session_def Let_def
  by (intro hold.keeps_intros hold_mark hold_kill hold_log hold_frame) simp_all

text \<open>The loops over the sessions reach each of them.\<close>

lemma each_ends:
  assumes "\<And>s. kept.stay.keeps (f s)" "\<And>s w. snd (f s w) = Inr ()"
    and "\<And>s w. P s \<Longrightarrow> s \<in> ow_endedSessionIds (fst (f s w))"
  shows "s \<in> set ids \<Longrightarrow> P s \<Longrightarrow> s \<in> ow_endedSessionIds (fst (for_each f ids w))"
  using kept.stay.each_holds[of f "\<lambda>s w. P s \<longrightarrow> s \<in> ow_endedSessionIds w" s ids w] assms
  by (auto simp: ends_stay_def)

lemma kill_returns: "snd (endSessionProcess env s w) = Inr ()"
  by (simp add: endSessionProcess_def run_simps pause_def)

lemma each_returns: "(\<And>s w. snd (f s w) = Inr ()) \<Longrightarrow> snd (for_each f ids w) = Inr ()"
  by (induction ids arbitrary: w) (auto simp: run_simps split: prod.split sum.split, metis snd_conv sum.distinct(1))

lemma each_step: "(\<And>s w. snd (f s w) = Inr ()) \<Longrightarrow> for_each f ids w = (fst (for_each f ids w), Inr ())"
  using each_returns[of f ids w] by (metis prod.collapse)

lemma mark_returns: "snd (mark_teardown s w) = Inr ()"
  by (simp add: mark_teardown_def run_simps)

lemma marks_return: "for_each mark_teardown ids w = (fst (for_each mark_teardown ids w), Inr ())"
  by (rule each_step) (rule mark_returns)

lemma failure_ends:
  assumes s: "s \<in> set (collectTaskSessionIds t)"
  shows "s \<in> ow_endedSessionIds (fst (endCardSessionsAfterDoneFailure env t w))"
    "snd (endCardSessionsAfterDoneFailure env t w) = Inr ()"
proof -
  let ?f = "\<lambda>sessionId. next_do (undefer sessionId) (endSessionProcess env sessionId)"
  have ret: "snd (?f x v) = Inr ()" for x v by (simp add: run_simps undefer_def kill_returns)
  have run: "endCardSessionsAfterDoneFailure env t w
      = for_each ?f (collectTaskSessionIds t) (fst (for_each mark_teardown (collectTaskSessionIds t) w))"
    by (subst prod.collapse[symmetric], simp only: endCardSessionsAfterDoneFailure_def Let_def run_next)
      (subst marks_return, simp)
  show "snd (endCardSessionsAfterDoneFailure env t w) = Inr ()"
    unfolding run by (rule each_returns[OF ret])
  show "s \<in> ow_endedSessionIds (fst (endCardSessionsAfterDoneFailure env t w))"
    unfolding run
  proof (rule each_ends[where P = "\<lambda>_. True", OF _ ret _ s])
    show "kept.stay.keeps (?f x)" for x by (intro kept.stay.keeps_intros kept.stay.keeps_basics)
  qed (simp_all add: run_simps undefer_def kept.end_process_ends)
qed

lemma teardown_ends:
  assumes s: "s \<in> set (collectTaskSessionIds t)" and other: "s \<noteq> sessionId \<or> \<not> isInTurnEvent event"
  shows "s \<in> ow_endedSessionIds (fst (teardownFinishedCardSessions env t sessionId event r' w))"
    "snd (teardownFinishedCardSessions env t sessionId event r' w) = Inr ()"
proof -
  let ?ids = "collectTaskSessionIds t" and ?f = "teardown_one env (isInTurnEvent event) sessionId"
  have ret: "snd (?f x v) = Inr ()" for x v
    by (simp add: teardown_one_def killTeardownSession_def defer_session_def run_simps kill_returns)
  have keep: "kept.stay.keeps (?f x)" for x
    unfolding teardown_one_def killTeardownSession_def by (intro kept.stay.keeps_intros kept.stay.keeps_basics)
  define rest where "rest = andThen (gets (automation_at r')) (\<lambda>a.
     let pending = \<lparr>pc_taskId = tk_id t, pc_columnId = aa_columnId a, pc_automation = aa_automation a\<rparr>
     in if isInTurnEvent event \<and> sessionId \<in> set ?ids
        then modify (\<lambda>w. w\<lparr>ow_pendingWorktreeCleanup := om_set (ow_pendingWorktreeCleanup w) sessionId pending\<rparr>)
        else runDoneWorktreeCleanup env pending)"
  have rest: "kept.stay.keeps rest" "snd (rest v) = Inr ()" for v
    unfolding rest_def Let_def
    by (intro kept.stay.keeps_intros kept.stay.keeps_worktree kept.stay.keeps_frame; simp)
       (simp add: run_simps runDoneWorktreeCleanup_def when_do_def log_effect_def)
  define w1 where "w1 = fst (for_each mark_teardown ?ids w)"
  define w2 where "w2 = fst (for_each ?f ?ids w1)"
  have run: "teardownFinishedCardSessions env t sessionId event r' w = rest w2"
    using marks_return[of ?ids w] each_step[where f = ?f and ids = ?ids and w = w1, OF ret]
    by (simp add: teardownFinishedCardSessions_def Let_def run_next rest_def w1_def[symmetric] w2_def[symmetric])
  have "s \<in> ow_endedSessionIds w2"
    unfolding w2_def
    by (rule each_ends[where P = "\<lambda>x. x \<noteq> sessionId \<or> \<not> isInTurnEvent event", OF keep ret _ s other])
      (auto simp: teardown_one_def killTeardownSession_def kept.end_process_ends)
  then show "s \<in> ow_endedSessionIds (fst (teardownFinishedCardSessions env t sessionId event r' w))"
    using kept.stay.keepsD[OF rest(1), of w2] by (auto simp: run ends_stay_def)
  show "snd (teardownFinishedCardSessions env t sessionId event r' w) = Inr ()" by (simp add: run rest(2))
qed

lemma returns:
  "snd (pause env w) = Inr ()" "snd (log_effect eff w) = Inr ()" "snd (save_card env t w) = Inr ()"
  "snd (schedule_retry env r' sessionId plan w) = Inr ()" "snd (keep_artifact env sessionId b oc w) = Inr ()"
  "snd (autoAdvanceCard env cardId r' w) = Inr ()" "snd (endFinishedStepSession env sessionId event w) = Inr ()"
  by (auto simp: pause_def log_effect_def save_card_def schedule_retry_def keep_artifact_def when_do_def
      autoAdvanceCard_def read_card_def read_board_def cleanup_card_def emit_event_def endFinishedStepSession_def
      undefer_def defer_session_def kill_returns run_simps split: option.split prod.split sum.split)

lemma step_on:
  assumes "hold.keeps m" "\<And>w. snd (m w) = Inr x"
  obtains w1 where "m w = (w1, Inr x)" "held r w w1"
  using assms by (metis hold.keepsD prod.collapse)

text \<open>The wind-down of a card: after a success the teardown, after a failure the end of all sessions.\<close>

lemma wind_down_ends:
  assumes stage: "aa_stage (automation_at r w) = StDone" and status: "aa_status (automation_at r w) = (if isDone then RunCompleted else RunFailed)"
    and card: "isDone \<Longrightarrow> tk_columnId t = Some (aa_columnId (automation_at r w)) \<and> tk_status t = TS_COMPLETED"
    and s: "s \<in> set (collectTaskSessionIds t)" and other: "isDone \<Longrightarrow> s \<noteq> sessionId \<or> \<not> isInTurnEvent event"
  shows "s \<in> ow_endedSessionIds (fst (wind_down_done env r sessionId event isDone (Some t) w))"
proof (cases isDone)
  case True
  obtain w1 where 1: "teardownFinishedCardSessions env t sessionId event r w = (w1, Inr ())" "held r w w1"
    by (rule step_on[OF hold_teardown teardown_ends(2)[OF s other[OF True]]])
  have "s \<in> ow_endedSessionIds w1" using teardown_ends(1)[OF s other[OF True], of r w] 1(1) by simp
  moreover obtain w2 where "pause env w1 = (w2, Inr ())" "held r w1 w2" by (rule step_on[OF hold_pause returns(1)])
  moreover have "aa_status (automation_at r w2) = RunCompleted"
    using calculation(3) 1(2) status True by (simp add: held_def)
  ultimately show ?thesis
    using True stage card 1(1) by (auto simp: wind_down_done_def run_simps when_do_def held_def ends_stay_def)
next
  case False
  have "s \<in> ow_endedSessionIds (fst (endCardSessionsAfterDoneFailure env t w))" by (rule failure_ends(1)[OF s])
  moreover obtain w1 where "endCardSessionsAfterDoneFailure env t w = (w1, Inr ())"
    using failure_ends(2)[OF s] by (metis prod.collapse)
  ultimately show ?thesis
    using False stage status hold.keepsD[OF hold_pause, of w1]
    by (auto simp: wind_down_done_def run_simps when_do_def held_def ends_stay_def subset_iff)
qed

lemma stay_rest: "held r w w' \<Longrightarrow> s \<in> ow_endedSessionIds w \<Longrightarrow> s \<in> ow_endedSessionIds w'"
  by (auto simp: held_def ends_stay_def)

lemma finish_ends:
  assumes r: "r < length (ow_heap w)" and stage: "aa_stage (automation_at r w) = StDone"
    and card: "step_done e failed \<Longrightarrow> tk_columnId t = Some (aa_columnId (automation_at r w)) \<and> tk_status t = TS_COMPLETED"
    and s: "s \<in> set (collectTaskSessionIds t)" and other: "step_done e failed \<Longrightarrow> s \<noteq> sessionId \<or> \<not> isInTurnEvent (st_event e)"
  shows "s \<in> ow_endedSessionIds (fst (finish_step env cardId r sessionId e failed plan (Some t) w))"
proof -
  let ?done = "step_done e failed"
  define w0 where "w0 = w\<lparr>ow_heap := (ow_heap w)[r := (automation_at r w)
    \<lparr>aa_status := (if ?done then RunCompleted else RunFailed),
      aa_signaledSessionIds := insert sessionId (aa_signaledSessionIds (automation_at r w))\<rparr>]\<rparr>"
  have at0: "aa_stage (automation_at r w0) = StDone" "aa_status (automation_at r w0) = (if ?done then RunCompleted else RunFailed)"
    "aa_columnId (automation_at r w0) = aa_columnId (automation_at r w)"
    using r stage by (simp_all add: w0_def automation_at_def)
  define t1 where "t1 = t\<lparr>tk_lastSyncError := end_error env (automation_at r w0) e failed plan (tk_lastSyncError t)\<rparr>"
  have t1: "collectTaskSessionIds t1 = collectTaskSessionIds t" "tk_columnId t1 = tk_columnId t" "tk_status t1 = tk_status t"
    by (simp_all add: t1_def collectTaskSessionIds_def)
  define advance where "advance = andThen (gets (automation_at r)) (\<lambda>a.
    when_do (?done \<and> trueOpt (ca_autoAdvanceOnSuccess (aa_automation a))) (autoAdvanceCard env cardId r))"
  define close where "close = next_do (endFinishedStepSession env sessionId (st_event e))
    (next_do (route_after_lane env cardId r plan (Some t1)) (modify (\<lambda>w. w\<lparr>ow_timers := ow_timers w @ [(cardId, r)]\<rparr>)))"
  have advance: "hold.keeps advance" "snd (advance v) = Inr ()" for v
    unfolding advance_def by (intro hold.keeps_intros hold_advance) (simp add: run_simps when_do_def returns)
  have close: "kept.stay.keeps close"
    unfolding close_def route_after_lane_def
    by (intro kept.stay.keeps_intros kept.stay.keeps_calls kept.stay.keeps_effect kept.stay.keeps_frame) auto
  obtain w1 where 1: "save_card env t1 w0 = (w1, Inr ())" "held r w0 w1" by (rule step_on[OF hold_save returns(3)])
  obtain w2 where 2: "schedule_retry env r sessionId plan w1 = (w2, Inr ())" "held r w1 w2" by (rule step_on[OF hold_retry returns(4)])
  obtain w3 where 3: "keep_artifact env sessionId ?done (Some t1) w2 = (w3, Inr ())" "held r w2 w3"
    by (rule step_on[OF hold_artifact returns(5)])
  obtain w4 where 4: "advance w3 = (w4, Inr ())" "held r w3 w4" by (rule step_on[OF advance])
  have at4: "automation_at r w4 = automation_at r w0" using 1 2 3 4 by (simp add: held_def)
  have "s \<in> ow_endedSessionIds (fst (wind_down_done env r sessionId (st_event e) ?done (Some t1) w4))"
    by (rule wind_down_ends) (use at0 at4 t1 card s other in auto)
  moreover have "finish_step env cardId r sessionId e failed plan (Some t) w
      = next_do (wind_down_done env r sessionId (st_event e) ?done (Some t1)) close w4"
    using 1(1) 2(1) 3(1) 4(1)
    by (simp add: finish_step_def Let_def run_next run_andThen run_gets set_automation_def run_modify w0_def[symmetric]
        save_end_def run_ret t1_def[symmetric] advance_def[symmetric] close_def[symmetric] automation_at_def[symmetric])
  ultimately show ?thesis
    using kept.stay.keepsD[OF close] by (auto simp: run_next ends_stay_def subset_iff split: prod.split sum.split)
qed

end

text \<open>C14. When a Done lane is over, every agent session the card ever used is ended: after its success (the card
  is completed and lies in the lane's column) and after its failure. Only the session whose own turn brought
  the success is left for its next event. This holds whatever other calls do at the awaits, as long as they
  leave this automation alone and forget no ended session.
\<close>

theorem done_lane_ends_every_session:
  assumes others: "\<And>n v. held r v (oe_others env n v)"
    and r: "r < length (ow_heap w)" and stage: "aa_stage (automation_at r w) = StDone"
    and card: "step_done e failed \<Longrightarrow> tk_columnId t = Some (aa_columnId (automation_at r w)) \<and> tk_status t = TS_COMPLETED"
    and s: "s \<in> set (collectTaskSessionIds t)" and other: "step_done e failed \<Longrightarrow> s \<noteq> sessionId \<or> \<not> isInTurnEvent (st_event e)"
  shows "s \<in> ow_endedSessionIds (fst (finish_step env cardId r sessionId e failed plan (Some t) w))"
  by (rule lane_held.finish_ends[OF lane_held.intro[OF others] r stage card s other])

interpretation alone: lane_held "alone env" r for env r
  by unfold_locales (simp add: alone_def held_def ends_stay_def)

section \<open>A step that the watchdog ended is not run again\<close>

text \<open>Nothing is started, no rerun is planned, and what is known of the sessions stays.\<close>

definition still :: "orch_world \<Rightarrow> orch_world \<Rightarrow> bool" where
  "still w w' \<longleftrightarrow> calm w w' \<and> ow_retries w' = ow_retries w \<and> ow_sessions w' = ow_sessions w
     \<and> ow_history w' = ow_history w"

definition timeout_evidence :: "orch_env \<Rightarrow> agent_event \<Rightarrow> string \<Rightarrow> orch_world \<Rightarrow> string" where
  "timeout_evidence env event sessionId w =
     collectRateLimitEvidence True (event_data event ''error'')
       (js_opt_text (Option.bind (om_get (ow_sessions w) sessionId) sv_acpError))
       (if history_of w sessionId = [] then None else Some (oe_messageText env (last (history_of w sessionId))))"

text \<open>A timeout of a step outside Dev; what a piece of its handling may do, with a licence for a rerun.\<close>

definition lane_timeout :: "nat \<Rightarrow> agent_event \<Rightarrow> orch_world \<Rightarrow> bool" where
  "lane_timeout r event w \<longleftrightarrow> ev_type event = AGENT_TIMEOUT \<and> r < length (ow_heap w)
     \<and> \<not> isRecoveryMode (sup_mode (aa_supervision (automation_at r w))) \<and> aa_laneWatchdog (automation_at r w) \<noteq> None"

definition quiet_end :: "bool \<Rightarrow> orch_world \<Rightarrow> unit orch \<Rightarrow> orch_world \<Rightarrow> bool" where
  "quiet_end rerun w m v \<longleftrightarrow> calm v (fst (m v)) \<and> (ow_retries (fst (m v)) = ow_retries w \<or> rerun)"

lemma classify_nothing: "\<not> classifyRetryableEnvironmentFailure (JStr [])"
  by code_simp

locale still_others =
  fixes env :: orch_env
  assumes others_still: "still w (oe_others env n w)"

sublocale still_others \<subseteq> calm_others env
  by unfold_locales (use others_still in \<open>simp add: still_def\<close>)

sublocale still_others \<subseteq> quietly: guarantee still
  by unfold_locales (auto simp: still_def calm_refl intro: calm_trans)

context still_others
begin

lemma still_frame:
  assumes "\<And>w. creates (ow_log (f w)) = creates (ow_log w)" "\<And>w. cores (f w) = cores w"
    "\<And>w. set (ow_active (f w)) \<subseteq> set (ow_active w)" "\<And>w. ow_cardEndedSessionIds w \<subseteq> ow_cardEndedSessionIds (f w)"
    "\<And>w. ow_retries (f w) = ow_retries w" "\<And>w. ow_sessions (f w) = ow_sessions w" "\<And>w. ow_history (f w) = ow_history w"
  shows "quietly.keeps (modify f)"
  using assms by (intro quietly.keeps_modify) (simp add: still_def calm_def)

lemma still_pause: "quietly.keeps (pause env)"
  unfolding pause_def
  by (intro quietly.keeps_modify, rule quietly.le_trans[OF _ others_still]) (simp add: still_def calm_def)

lemma still_log: "(\<And>c. eff \<noteq> CreateSession c) \<Longrightarrow> quietly.keeps (log_effect eff)"
  unfolding log_effect_def by (intro still_frame) (simp_all add: creates_other)

lemma still_card: "quietly.keeps (card_result v)"
  by (auto simp: card_result_def intro!: quietly.keeps_intros)

lemma still_save: "quietly.keeps (save_card env t)"
  unfolding save_card_def by (intro quietly.keeps_intros still_pause still_frame) simp_all

lemma still_kill: "quietly.keeps (endSessionProcess env s)"
  unfolding endSessionProcess_def by (intro quietly.keeps_intros still_pause still_frame) simp_all

lemma still_ids: "quietly.keeps (undefer s)" "quietly.keeps (defer_session s)" "quietly.keeps (mark_teardown s)"
  unfolding undefer_def defer_session_def mark_teardown_def by (intro still_frame; simp)+

lemma still_set: "(\<And>a. core (f a) = core a) \<Longrightarrow> quietly.keeps (set_automation r f)"
  unfolding set_automation_def by (intro still_frame) (simp_all add: cores_def cores_update)

lemmas still_basics = still_pause still_card still_save still_kill still_ids still_set

lemma still_note: "quietly.keeps (note_activity env r sessionId t)"
  unfolding note_activity_def by (intro quietly.keeps_intros still_basics)

lemma still_classify: "quietly.keeps (classify_end env r sessionId oc event)"
  unfolding classify_end_def killFailedSession_def by (intro quietly.keeps_intros still_basics)

lemma still_record: "quietly.keeps (end_record env sessionId e t)"
  unfolding end_record_def by (intro quietly.keeps_intros still_basics)

lemma still_plan: "quietly.keeps (plan_retry env r sessionId e t)"
  unfolding plan_retry_def by (intro quietly.keeps_intros)

lemma still_advance: "quietly.keeps (autoAdvanceCard env cardId r)"
  unfolding autoAdvanceCard_def read_board_def read_card_def cleanup_card_def emit_event_def
  by (intro quietly.keeps_intros still_basics still_log) simp_all

lemma still_wind_down: "quietly.keeps (wind_down_done env r sessionId event isDone oc)"
  unfolding wind_down_done_def teardownFinishedCardSessions_def teardown_one_def killTeardownSession_def
    runDoneWorktreeCleanup_def endCardSessionsAfterDoneFailure_def Let_def
  by (intro quietly.keeps_intros still_basics still_log still_frame) simp_all

lemma no_retry: "schedule_retry env r sessionId None = ret ()"
  by (simp add: schedule_retry_def)

lemma still_finish: "quietly.keeps (finish_step env cardId r sessionId e failed None oc)"
  unfolding finish_step_def save_end_def no_retry keep_artifact_def route_after_lane_def
    endFinishedStepSession_def Let_def
  by (intro quietly.keeps_intros still_basics still_log still_advance still_wind_down still_frame) simp_all

text \<open>What the end is found to be, for a timeout outside Dev.\<close>

lemma timeout_found:
  assumes timeout: "ev_type event = AGENT_TIMEOUT" and mode: "\<not> isRecoveryMode (sup_mode (aa_supervision (automation_at r w)))"
    and e: "e = end_found env r sessionId oc event satisfied w"
  shows "st_event e = event" "\<not> st_success e" "\<not> st_recover e" "\<not> isCancelledTurn (st_event e)"
    "st_rateLimited e \<Longrightarrow> classifyRetryableEnvironmentFailure (JStr (timeout_evidence env event sessionId w))"
  using assms
  by (auto simp: end_found_def Let_def successEvent_def isCancelledTurn_def shouldRecover_def timeout_evidence_def
      classify_nothing split: option.splits if_splits)

lemma timeout_goes_on:
  assumes e: "st_event e = event" "\<not> st_success e" "\<not> st_recover e" "\<not> isCancelledTurn event" "ev_type event = AGENT_TIMEOUT"
    and lane: "aa_laneWatchdog (automation_at r w) \<noteq> None"
  shows "go_on env cardId r sessionId e plan t w = finish_step env cardId r sessionId e False plan (Some t) w"
  using assms
  by (simp add: go_on_def advance_or_fall_back_def try_advance_def can_fallback_def failed_lane_watchdog_def run_simps)

lemma step_still:
  assumes "quietly.keeps m" "\<And>w. snd (m w) = Inr x"
  obtains w1 where "m w = (w1, Inr x)" "still w w1"
  using assms by (metis quietly.keepsD prod.collapse)

lemma wait_returns: "snd (pause env w) = Inr ()" "snd (when_do b (pause env) w) = Inr ()"
  by (simp_all add: pause_def when_do_def run_simps)

lemma classify_found:
  assumes run: "classify_end env r sessionId oc event w = (w', Inr e)"
  obtains w1 satisfied where "still w w1" "still w1 w'" "e = end_found env r sessionId oc event satisfied w1"
proof -
  define kill where "kill = when_do (\<not> successEvent event) (killFailedSession env sessionId)"
  have kill: "quietly.keeps kill" "snd (kill v) = Inr ()" for v
    unfolding kill_def killFailedSession_def
    by (intro quietly.keeps_intros still_basics) (simp add: when_do_def run_simps undefer_def endSessionProcess_def pause_def)
  obtain v1 where v1: "kill w = (v1, Inr ())" "still w v1" by (rule step_still[OF kill])
  obtain v2 where v2: "pause env v1 = (v2, Inr ())" "still v1 v2" by (rule step_still[OF still_pause wait_returns(1)])
  define satisfied where "satisfied = isCompletionSatisfied oc (automation_at r v1) (successEvent event)"
  define e2 where "e2 = end_found env r sessionId oc event satisfied v2"
  define waits where "waits = (oc \<noteq> None \<and> \<not> st_environment e2 \<and> \<not> st_rateLimited e2 \<and> \<not> isCancelledTurn event)"
  obtain v3 where v3: "when_do waits (pause env) v2 = (v3, Inr ())" "still v2 v3"
    by (rule step_still[OF quietly.keeps_when[OF still_pause] wait_returns(2)])
  have "classify_end env r sessionId oc event w = (v3, Inr e2)"
    by (simp only: classify_end_def kill_def[symmetric] run_next run_andThen run_gets run_ret v1(1) v2(1) prod.case sum.case
        satisfied_def[symmetric] e2_def[symmetric] waits_def[symmetric] v3(1))
  then show ?thesis
    using that[of v2 satisfied] run v3(2) quietly.le_trans[OF v1(2) v2(2)] by (simp add: e2_def)
qed

text \<open>The whole handling of a timeout outside Dev: each piece leaves the lane alone, unless a rate limit is found.\<close>

lemma lane_timeout_kept:
  assumes lane: "lane_timeout r event w" and v: "still w v"
  shows "lane_timeout r event v" "timeout_evidence env event sessionId v = timeout_evidence env event sessionId w"
proof -
  have "core (automation_at r v) = core (automation_at r w)" "length (ow_heap v) = length (ow_heap w)"
    using v lane calm_automation[of w v r] cores_length[of v w] by (simp_all add: still_def lane_timeout_def calm_def)
  then show "lane_timeout r event v"
    using lane unfolding lane_timeout_def by (metis core_fields(4) core_fields(5))
qed (use v in \<open>simp add: timeout_evidence_def history_of_def still_def\<close>)

lemma then_quiet:
  assumes "quietly.keeps m" "still w v" and go: "\<And>x u. still w u \<Longrightarrow> m v = (u, Inr x) \<Longrightarrow> quiet_end B w (k x) u"
  shows "quiet_end B w (andThen m k) v"
proof (cases "m v")
  case (Pair u y)
  then have "still v u" using quietly.keepsD[OF assms(1), of v] by simp
  moreover from this have "still w u" by (rule quietly.le_trans[OF assms(2)])
  ultimately show ?thesis
    using Pair go[of u] calm_trans[of v u] by (cases y) (auto simp: run_andThen still_def quiet_end_def)
qed

lemma finish_quiet:
  assumes w: "still w v" and plan: "plan = None \<or> B"
  shows "quiet_end B w (finish_step env cardId r sessionId e False plan oc) v"
proof (cases plan)
  case None
  have "still v (fst (finish_step env cardId r sessionId e False None oc v))" by (rule quietly.keepsD[OF still_finish])
  then show ?thesis using w None by (simp add: still_def quiet_end_def)
qed (use plan quiet.keepsD[OF quiet.keeps_finish] in \<open>simp add: quiet_end_def\<close>)

lemma plan_quiet:
  assumes lane: "lane_timeout r event w" and w: "still w v" "still w v1"
    and e: "e = end_found env r sessionId oc event satisfied v1"
    and B: "B = classifyRetryableEnvironmentFailure (JStr (timeout_evidence env event sessionId w))"
  shows "quiet_end B w (andThen (plan_retry env r sessionId e t) (\<lambda>(t1, plan). go_on env cardId r sessionId e plan t1)) v"
proof (rule then_quiet[OF still_plan w(1)])
  fix x u assume u: "still w u" "plan_retry env r sessionId e t v = (u, Inr x)"
  obtain t1 plan where x: "x = (t1, plan)" by (cases x)
  note found = timeout_found[OF _ _ e] and at_u = lane_timeout_kept(1)[OF lane u(1)]
  have "plan = None \<or> st_rateLimited e"
    using u(2) x found(4) lane_timeout_kept[OF lane w(2)] by (auto simp: plan_retry_def run_ret lane_timeout_def split: if_splits)
  then have "plan = None \<or> B"
    using found(5) lane_timeout_kept[OF lane w(2)] by (auto simp: B lane_timeout_def)
  moreover have "go_on env cardId r sessionId e plan t1 u = finish_step env cardId r sessionId e False plan (Some t1) u"
    by (rule timeout_goes_on[where event = event])
      (use found(1-4) at_u lane_timeout_kept(1)[OF lane w(2)] in \<open>simp_all add: lane_timeout_def\<close>)
  ultimately show "quiet_end B w ((\<lambda>(t1, plan). go_on env cardId r sessionId e plan t1) x) u"
    using finish_quiet[OF u(1), of plan B] by (simp add: x quiet_end_def)
qed

lemma timeout_quiet:
  assumes lane: "lane_timeout r event w"
    and B: "B = classifyRetryableEnvironmentFailure (JStr (timeout_evidence env event sessionId w))"
  shows "quiet_end B w (end_of_step env cardId r sessionId oc event) w"
proof -
  have event: "reconcileExitAfterTurnEnd (oe_stringify env) event l = event" for l
    using lane by (simp add: reconcileExitAfterTurnEnd_def lane_timeout_def split: json.split)
  show ?thesis
  proof (cases oc)
    case None
    have "quiet_end B w (andThen (classify_end env r sessionId None event) (\<lambda>e. finish_step env cardId r sessionId e False None None)) w"
      by (intro then_quiet[OF still_classify quietly.le_refl] finish_quiet) simp_all
    then show ?thesis
      by (simp add: quiet_end_def end_of_step_def None run_andThen[of "gets x" for x] run_gets event)
  next
    case (Some t)
    have "quiet_end B w (andThen (classify_end env r sessionId (Some t1) event) (\<lambda>e. andThen (end_record env sessionId e t1) (\<lambda>t2.
        andThen (plan_retry env r sessionId e t2) (\<lambda>(t3, plan). go_on env cardId r sessionId e plan t3)))) v"
      if v: "still w v" for t1 v
    proof (rule then_quiet[OF still_classify v])
      fix e u assume u: "still w u" "classify_end env r sessionId (Some t1) event v = (u, Inr e)"
      then obtain v1 satisfied where "still v v1" "e = end_found env r sessionId (Some t1) event satisfied v1"
        by (metis classify_found)
      then show "quiet_end B w (andThen (end_record env sessionId e t1) (\<lambda>t2. andThen (plan_retry env r sessionId e t2)
          (\<lambda>(t3, plan). go_on env cardId r sessionId e plan t3))) u"
        by (intro then_quiet[OF still_record u(1)] plan_quiet[OF lane _ quietly.le_trans[OF v] _ B])
    qed
    then have "quiet_end B w (andThen (note_activity env r sessionId t) (\<lambda>t1. andThen (classify_end env r sessionId (Some t1) event)
        (\<lambda>e. andThen (end_record env sessionId e t1) (\<lambda>t2. andThen (plan_retry env r sessionId e t2)
          (\<lambda>(t3, plan). go_on env cardId r sessionId e plan t3))))) w"
      by (intro then_quiet[OF still_note quietly.le_refl])
    then show ?thesis
      by (simp add: quiet_end_def end_of_step_def Some run_andThen[of "gets x" for x] run_gets event)
  qed
qed

end

text \<open>C19. A step outside Dev that the watchdog ended as timed out is not run again: its end asks for no session,
  changes no step and no counter of an automation, and plans no rerun, unless the session's last message
  or its error tells of a rate limit (then the step is run again later, like every rate-limited step).
\<close>

theorem timed_out_lane_is_not_rerun:
  assumes others: "\<And>n v. still v (oe_others env n v)" and timeout: "ev_type event = AGENT_TIMEOUT"
    and r: "r < length (ow_heap w)" and lane: "aa_laneWatchdog (automation_at r w) \<noteq> None"
    and mode: "\<not> isRecoveryMode (sup_mode (aa_supervision (automation_at r w)))"
    and run: "w' = fst (end_of_step env cardId r sessionId oc event w)"
  shows "creates (ow_log w') = creates (ow_log w) \<and> cores w' = cores w \<and> set (ow_active w') \<subseteq> set (ow_active w)
    \<and> (ow_retries w' = ow_retries w
       \<or> classifyRetryableEnvironmentFailure (JStr (timeout_evidence env event sessionId w)))"
  using still_others.timeout_quiet[OF still_others.intro[OF others], of r event w, OF _ refl] timeout r lane mode
  by (auto simp: run lane_timeout_def quiet_end_def calm_def)

interpretation alone: still_others "alone env" for env
  by unfold_locales (simp add: alone_def still_def calm_refl)

section \<open>The watchdog reports a silent step once\<close>

text \<open>A scan of an automation whose session was reported leaves it alone.\<close>

lemma scan_signaled:
  assumes alone: "oe_others env = (\<lambda>n w. w)" and running: "aa_status (automation_at r w) = RunRunning"
    and s: "aa_sessionId (automation_at r w) = Some s" "s \<noteq> []" "s \<in> aa_signaledSessionIds (automation_at r w)"
  shows "ow_log (fst (scan_automation env now r w)) = ow_log w"
  using assms
  by (simp add: scan_automation_def adoptQueuedStepSession_def scan_session_def run_simps run_pause_alone automation_at_def)

lemma watchdog_event_fields:
  "ev_type (watchdog_event a s kind reason details now) = kind"
  "event_data (watchdog_event a s kind reason details now) ''sessionId'' = JStr s"
  "event_data (watchdog_event a s kind reason details now) ''success'' = JBool False"
  by (simp_all add: watchdog_event_def event_data_def jprop_def)

lemma prompt_run:
  obtains l where "when_do b (notify_now env n) w = (w\<lparr>ow_log := ow_log w @ l\<rparr>, Inr ())" "emitted l = []"
proof -
  have "\<exists>l. when_do b (notify_now env n) w = (w\<lparr>ow_log := ow_log w @ l\<rparr>, Inr ()) \<and> emitted l = []"
    by (rule exI[of _ "if b \<and> oe_canPrompt env \<and> rn_sessionId n \<notin> ow_endedSessionIds w
         \<and> (case om_get (ow_sessions w) (rn_sessionId n) of None \<Rightarrow> False | Some session \<Rightarrow> sv_acpStatus session \<noteq> Some AcpError)
        then [SendPrompt n] else []"])
      (simp add: when_do_def notify_now_def run_simps log_effect_def)
  then show ?thesis using that by blast
qed

lemma time_out_run:
  assumes alone: "oe_others env = (\<lambda>n w. w)" and r: "r < length (ow_heap w)"
  obtains w' ev where "time_out env r s idle text w = (w', Inr ())" "emitted (ow_log w') = emitted (ow_log w) @ [ev]"
    "ev_type ev = AGENT_TIMEOUT" "event_data ev ''sessionId'' = JStr s" "event_data ev ''success'' = JBool False"
    "automation_at r w' = (automation_at r w)\<lparr>aa_signaledSessionIds := insert s (aa_signaledSessionIds (automation_at r w))\<rparr>"
proof -
  define a where "a = (automation_at r w)\<lparr>aa_signaledSessionIds := insert s (aa_signaledSessionIds (automation_at r w))\<rparr>"
  define reason where "reason = ''No ACP activity for '' @ show_int (getInactivityTimeoutMinutes (automation_at r w)) @ '' minutes.''"
  define w1 where "w1 = fst (next_do (markSessionTimedOut env s) (signal_session r s) w)"
  have w1: "markSessionTimedOut env s w = (fst (markSessionTimedOut env s w), Inr ())"
    "signal_session r s (fst (markSessionTimedOut env s w)) = (w1, Inr ())"
    "automation_at r w1 = a" "ow_log w1 = ow_log w"
    using r by (simp_all add: w1_def markSessionTimedOut_def signal_session_def set_automation_def run_simps automation_at_def a_def)
  obtain l where l: "when_do (isRecoveryMode (sup_mode (aa_supervision a))) (notify_now env (notification a s reason)) w1
      = (w1\<lparr>ow_log := ow_log w1 @ l\<rparr>, Inr ())" "emitted l = []" by (rule prompt_run)
  define ev where "ev = watchdog_event a s AGENT_TIMEOUT reason
    [(''inactivityMs'', JNum (Fin (of_int idle))), (''lastActivityAt'', JStr text)] (now_of env (w1\<lparr>ow_log := ow_log w1 @ l\<rparr>))"
  define w' where "w' = w1\<lparr>ow_log := ow_log w1 @ l @ [EmitEvent ev], ow_awaits := Suc (ow_awaits w1)\<rparr>"
  have "time_out env r s idle text w = (w', Inr ())"
    unfolding time_out_def run_andThen run_gets prod.case sum.case Let_def reason_def[symmetric] run_next
    by (subst w1(1), simp only: prod.case sum.case w1(2,3) l(1) ev_def[symmetric] emit_event_def log_effect_def
          run_andThen run_next run_gets run_modify run_pause_alone[OF alone])
      (simp add: w'_def ev_def)
  then show ?thesis
    using that[of w' ev] w1 l(2) by (simp add: w'_def ev_def watchdog_event_fields automation_at_def a_def)
qed

text \<open>C24. The watchdog reports a running step exactly when its session was silent for the whole time limit
  (of the Dev supervision, or of the watchdog of the other lanes), counted in milliseconds from its last
  activity: it then emits one timeout for the session, and no later scan emits another one. Before that the
  scan changes nothing.
\<close>

theorem silence_is_reported_once:
  assumes alone: "oe_others env = (\<lambda>n w. w)" and r: "r < length (ow_heap w)" and a: "a = automation_at r w"
    and running: "aa_status a = RunRunning" and s: "aa_sessionId a = Some s" "s \<noteq> []" "s \<notin> aa_signaledSessionIds a"
    and watched: "isRecoveryMode (sup_mode (aa_supervision a)) \<or> aa_laneWatchdog a \<noteq> None"
    and sound: "Option.bind (om_get (ow_sessions w) s) sv_acpStatus \<noteq> Some AcpError"
    and since: "hostDateParse (oe_host env) (last_activity w (oe_host env) a s) = Some since"
    and scan: "w' = fst (scan_automation env now r w)"
  shows "if now - since < getInactivityTimeoutMinutes a * 60000
    then ow_log w' = ow_log w \<and> ow_heap w' = ow_heap w
    else \<exists>ev. emitted (ow_log w') = emitted (ow_log w) @ [ev] \<and> ev_type ev = AGENT_TIMEOUT
      \<and> event_session ev = Some s \<and> event_data ev ''success'' = JBool False
      \<and> (\<forall>later. ow_log (fst (scan_automation env later r w')) = ow_log w')"
proof -
  define v where "v = w\<lparr>ow_awaits := Suc (ow_awaits w)\<rparr>"
  have v: "automation_at r v = a" "ow_sessions v = ow_sessions w" "last_activity v (oe_host env) a s = last_activity w (oe_host env) a s"
    by (simp_all add: v_def a automation_at_def last_activity_def Let_def)
  have scan': "w' = fst (scan_session env now r v)"
    using a running watched
    by (auto simp: scan scan_automation_def adoptQueuedStepSession_def run_simps run_pause_alone[OF alone] v_def)
  show ?thesis
  proof (cases "now - since < getInactivityTimeoutMinutes a * 60000")
    case True
    then have "w' = v"
      using running s sound since v by (simp add: scan' scan_session_def Let_def run_simps)
    then show ?thesis using True by (simp add: v_def)
  next
    case False
    define idle where "idle = now - since"
    have late: "w' = fst (time_out env r s idle (last_activity w (oe_host env) a s) v)"
      using running s sound since v False by (simp add: scan' scan_session_def Let_def run_simps idle_def)
    have r': "r < length (ow_heap v)" using r by (simp add: v_def)
    obtain u ev where u: "time_out env r s idle (last_activity w (oe_host env) a s) v = (u, Inr ())"
      and ev: "emitted (ow_log u) = emitted (ow_log v) @ [ev]" "ev_type ev = AGENT_TIMEOUT"
      "event_data ev ''sessionId'' = JStr s" "event_data ev ''success'' = JBool False"
      and now_signaled: "automation_at r u = (automation_at r v)\<lparr>aa_signaledSessionIds := insert s (aa_signaledSessionIds (automation_at r v))\<rparr>"
      by (rule time_out_run[OF alone r'])
    have w': "w' = u" by (simp add: late u)
    have "ow_log (fst (scan_automation env later r w')) = ow_log w'" for later
      using s running by (intro scan_signaled[OF alone, where s = s]) (simp_all add: w' now_signaled v(1))
    then show ?thesis using ev s(2) False by (auto simp: event_session_def w' v_def)
  qed
qed

text \<open>
  The scan asks for the prompt of a session in error, but such a session is never prompted.
\<close>

lemma error_report_prompts_nobody:
  assumes alone: "oe_others env = (\<lambda>n w. w)"
    and session: "om_get (ow_sessions w) s = Some session" "sv_acpStatus session = Some AcpError"
  shows "\<exists>ev. ow_log (fst (report_error env r s session w)) = ow_log w @ [EmitEvent ev] \<and> ev_type ev = AGENT_FAILED"
  using session
  by (simp add: report_error_def Let_def run_simps signal_session_def set_automation_def notify_now_def notification_def
      when_do_def emit_event_def log_effect_def run_pause_alone[OF alone] watchdog_event_fields)

end
