(* ===== verification/WorkflowLoops.thy ===== *)
theory WorkflowLoops
  imports WorkflowDone
begin

text \<open>
  The loops over the live map of automations end: the handler of an event and the scan of the watchdog
  visit each automation at most once, so a fuel above the number of automations is enough.
\<close>

section \<open>Actions that add no automation\<close>

text \<open>An action that adds no entry to the map and does not run out of fuel.\<close>

definition bounded :: "'a orch \<Rightarrow> bool" where
  "bounded m \<longleftrightarrow> (\<forall>w. set (ow_active (fst (m w))) \<subseteq> set (ow_active w) \<and> snd (m w) \<noteq> Inl OutOfFuel)"

named_theorems bounded_intros

lemma bounded_ret [bounded_intros]: "bounded (ret x)"
  by (simp add: bounded_def run_simps)

lemma bounded_gets [bounded_intros]: "bounded (gets f)"
  by (simp add: bounded_def run_simps)

lemma bounded_throw: "e \<noteq> OutOfFuel \<Longrightarrow> bounded (throw e)"
  by (simp add: bounded_def run_simps)

lemma bounded_modify: "(\<And>w. set (ow_active (f w)) \<subseteq> set (ow_active w)) \<Longrightarrow> bounded (modify f)"
  by (simp add: bounded_def run_simps)

lemma bounded_andThen [bounded_intros]: "bounded m \<Longrightarrow> (\<And>x. bounded (f x)) \<Longrightarrow> bounded (andThen m f)"
proof -
  assume m: "bounded m" and f: "\<And>x. bounded (f x)"
  have "set (ow_active (fst (andThen m f w))) \<subseteq> set (ow_active w) \<and> snd (andThen m f w) \<noteq> Inl OutOfFuel" for w
    using m[unfolded bounded_def, rule_format, of w] f[unfolded bounded_def, rule_format, of _ "fst (m w)"]
    by (cases "m w"; cases "snd (m w)") (auto simp: run_andThen)
  then show ?thesis by (simp add: bounded_def)
qed

lemma bounded_next [bounded_intros]: "bounded m \<Longrightarrow> bounded k \<Longrightarrow> bounded (next_do m k)"
  unfolding next_do_def by (rule bounded_andThen)

lemma bounded_catching [bounded_intros]: "bounded m \<Longrightarrow> (\<And>e. bounded (h e)) \<Longrightarrow> bounded (catching m h)"
proof -
  assume m: "bounded m" and h: "\<And>e. bounded (h e)"
  have "set (ow_active (fst (catching m h w))) \<subseteq> set (ow_active w) \<and> snd (catching m h w) \<noteq> Inl OutOfFuel" for w
    using m[unfolded bounded_def, rule_format, of w] h[unfolded bounded_def, rule_format, of _ "fst (m w)"]
    by (cases "m w"; cases "snd (m w)") (auto simp: run_catching)
  then show ?thesis by (simp add: bounded_def)
qed

lemma bounded_when [bounded_intros]: "bounded m \<Longrightarrow> bounded (when_do b m)"
  by (simp add: when_do_def bounded_ret)

lemma bounded_each [bounded_intros]: "(\<And>x. bounded (f x)) \<Longrightarrow> bounded (for_each f xs)"
  by (induction xs) (simp_all add: bounded_ret bounded_next)

lemma bounded_if [bounded_intros]: "bounded m \<Longrightarrow> bounded k \<Longrightarrow> bounded (if b then m else k)"
  by simp

lemma bounded_option [bounded_intros]: "bounded m \<Longrightarrow> (\<And>x. bounded (f x)) \<Longrightarrow> bounded (case v of None \<Rightarrow> m | Some x \<Rightarrow> f x)"
  by (cases v) simp_all

lemma bounded_prod [bounded_intros]: "(\<And>x y. bounded (f x y)) \<Longrightarrow> bounded (case v of (x, y) \<Rightarrow> f x y)"
  by (cases v) simp

lemma bounded_sum [bounded_intros]: "(\<And>x. bounded (f x)) \<Longrightarrow> (\<And>y. bounded (g y)) \<Longrightarrow> bounded (case v of Inl x \<Rightarrow> f x | Inr y \<Rightarrow> g y)"
  by (cases v) simp_all

lemma bounded_log [bounded_intros]: "bounded (log_effect e)"
  unfolding log_effect_def by (rule bounded_modify) simp

lemma bounded_card_result [bounded_intros]: "bounded (card_result v)"
  by (auto simp: card_result_def intro!: bounded_intros bounded_throw split: sum.split)

lemma bounded_set [bounded_intros]: "bounded (set_automation r f)"
  unfolding set_automation_def by (rule bounded_modify) simp

lemma bounded_signal [bounded_intros]: "bounded (signal_session r s)"
  unfolding signal_session_def by (rule bounded_set)

lemma bounded_ids [bounded_intros]: "bounded (undefer s)" "bounded (defer_session s)" "bounded (mark_teardown s)" "bounded (forget_departed s)"
  unfolding undefer_def defer_session_def mark_teardown_def forget_departed_def by (intro bounded_modify; simp)+

section \<open>The handlers\<close>

locale no_new_automations =
  fixes env :: orch_env
  assumes others_add_none: "set (ow_active (oe_others env n w)) \<subseteq> set (ow_active w)"
begin

lemma bounded_pause: "bounded (pause env)"
  unfolding pause_def by (rule bounded_modify) (use others_add_none in fastforce)

lemma bounded_read: "bounded (read_card env cardId)" "bounded (read_board env boardId)"
  unfolding read_card_def read_board_def by (intro bounded_intros bounded_pause)+

lemma bounded_save: "bounded (save_card env t)"
  unfolding save_card_def by (intro bounded_intros bounded_pause bounded_modify) simp

lemma bounded_kill: "bounded (endSessionProcess env s)"
  unfolding endSessionProcess_def by (intro bounded_intros bounded_pause bounded_modify) simp

lemma bounded_end_finished: "bounded (endFinishedStepSession env s event)"
  unfolding endFinishedStepSession_def by (intro bounded_intros bounded_pause bounded_kill)

lemma bounded_cleanup: "bounded (cleanup_card env cardId)" "bounded (emit_event env event)"
  "bounded (notify_now env n)" "bounded (notifyKanbanAgent env n)"
  unfolding cleanup_card_def emit_event_def notify_now_def notifyKanbanAgent_def
  by (intro bounded_intros bounded_pause)+

lemmas bounded_calls = bounded_pause bounded_read bounded_save bounded_kill bounded_end_finished bounded_cleanup

lemma bounded_create: "bounded (create_session env call)"
  unfolding create_session_def
  by (intro bounded_intros bounded_calls) (auto intro: bounded_throw bounded_ret split: sum.split)

lemma bounded_take: "bounded (take_session env r t call)"
  unfolding take_session_def session_answered_def session_refused_def Let_def
  by (intro bounded_intros bounded_calls bounded_create)

lemma bounded_starts: "bounded (startNextAutomationStep env cardId r t i)" "bounded (recoverAutomation env cardId r t reason)"
  unfolding startNextAutomationStep_def recoverAutomation_def Let_def
  by (intro bounded_intros bounded_calls bounded_take)+

lemma bounded_tries: "bounded (try_advance env cardId r s e t)" "bounded (try_fallback env cardId r s e i t)"
  "bounded (try_recover env cardId r s e t)"
  unfolding try_advance_def try_fallback_def try_recover_def Let_def
  by (intro bounded_intros bounded_calls bounded_starts)+

lemma bounded_worktree: "bounded (runDoneWorktreeCleanup env pending)"
  unfolding runDoneWorktreeCleanup_def by (intro bounded_intros)

lemma bounded_wind_down: "bounded (wind_down_done env r s event isDone oc)"
  unfolding wind_down_done_def teardownFinishedCardSessions_def teardown_one_def killTeardownSession_def
    endCardSessionsAfterDoneFailure_def Let_def
  by (intro bounded_intros bounded_calls bounded_worktree bounded_modify) simp_all

lemma bounded_advance: "bounded (autoAdvanceCard env cardId r)"
  unfolding autoAdvanceCard_def by (intro bounded_intros bounded_calls)

lemma bounded_finish: "bounded (finish_step env cardId r s e failed plan oc)"
  unfolding finish_step_def save_end_def schedule_retry_def keep_artifact_def route_after_lane_def Let_def
  by (intro bounded_intros bounded_calls bounded_wind_down bounded_advance bounded_modify) simp_all

lemma bounded_go_on: "bounded (go_on env cardId r s e plan t)"
  unfolding go_on_def advance_or_fall_back_def by (intro bounded_intros bounded_tries bounded_finish)

lemma bounded_end_of_step: "bounded (end_of_step env cardId r s oc event)"
  unfolding end_of_step_def note_activity_def classify_end_def killFailedSession_def end_record_def plan_retry_def Let_def
  by (intro bounded_intros bounded_calls bounded_go_on bounded_finish bounded_throw) simp_all

lemma bounded_settle: "bounded (settle_lane env event mode cardId)"
  unfolding settle_lane_def by (intro bounded_intros bounded_calls bounded_modify) simp_all

lemma bounded_card: "bounded (end_for_card env cardId r event)"
  unfolding end_for_card_def adopt_trigger_def Let_def
  by (intro bounded_intros bounded_calls bounded_settle bounded_end_of_step)

lemma bounded_scan: "bounded (scan_automation env now r)"
  unfolding scan_automation_def adoptQueuedStepSession_def scan_session_def report_error_def time_out_def
    markSessionTimedOut_def Let_def
  by (intro bounded_intros bounded_calls bounded_modify) simp_all

text \<open>The loop at a place visits only the entries at or behind it; each round leaves one behind.\<close>

definition ahead :: "nat \<Rightarrow> orch_world \<Rightarrow> (string \<times> nat \<times> nat) set" where
  "ahead place w = {e \<in> set (ow_active w). place \<le> fst (snd e)}"

lemma next_ahead:
  assumes "next_active place w = Some (cardId, p, r)" and "set (ow_active w') \<subseteq> set (ow_active w)"
  shows "card (ahead (Suc p) w') < card (ahead place w)"
proof (rule psubset_card_mono)
  have "(cardId, p, r) \<in> set (ow_active w)" "place \<le> p"
    using assms(1) unfolding next_active_def by (auto simp: find_Some_iff in_set_conv_nth)
  then have "(cardId, p, r) \<in> ahead place w" "(cardId, p, r) \<notin> ahead (Suc p) w'" "ahead (Suc p) w' \<subseteq> ahead place w"
    using assms(2) by (auto simp: ahead_def)
  then show "ahead (Suc p) w' \<subset> ahead place w" by blast
qed (simp add: ahead_def)

lemma end_loop_ends: "card (ahead place w) < fuel \<Longrightarrow> snd (end_loop env fuel place event w) \<noteq> Inl OutOfFuel"
proof (induction fuel arbitrary: place w)
  case (Suc fuel)
  show ?case
  proof (cases "next_active place w")
    case None
    then show ?thesis using bounded_settle[of event SettleEvent None] by (simp add: run_andThen run_gets bounded_def)
  next
    case (Some entry)
    obtain cardId p r where entry: "entry = (cardId, p, r)" by (cases entry)
    obtain w' v where round: "end_for_card env cardId r event w = (w', v)" by (cases "end_for_card env cardId r event w")
    have "set (ow_active w') \<subseteq> set (ow_active w)" and v: "v \<noteq> Inl OutOfFuel"
      using bounded_card[of cardId r event] round unfolding bounded_def by (metis fst_conv, metis snd_conv)
    then have "card (ahead (Suc p) w') < fuel"
      using next_ahead[of place w cardId p r w'] Some entry Suc.prems by simp
    then show ?thesis
      using Suc.IH[of "Suc p" w'] v by (auto simp: run_andThen run_gets Some entry round run_ret split: sum.split)
  qed
qed simp

lemma scan_loop_ends: "card (ahead place w) < fuel \<Longrightarrow> snd (scan_loop env fuel place now w) \<noteq> Inl OutOfFuel"
proof (induction fuel arbitrary: place w)
  case (Suc fuel)
  show ?case
  proof (cases "next_active place w")
    case None
    then show ?thesis by (simp add: run_andThen run_gets run_ret)
  next
    case (Some entry)
    obtain cardId p r where entry: "entry = (cardId, p, r)" by (cases entry)
    obtain w' v where round: "scan_automation env now r w = (w', v)" by (cases "scan_automation env now r w")
    have "set (ow_active w') \<subseteq> set (ow_active w)" and v: "v \<noteq> Inl OutOfFuel"
      using bounded_scan[of now r] round unfolding bounded_def by (metis fst_conv, metis snd_conv)
    then have "card (ahead (Suc p) w') < fuel"
      using next_ahead[of place w cardId p r w'] Some entry Suc.prems by simp
    then show ?thesis
      using Suc.IH[of "Suc p" w'] v by (auto simp: run_andThen run_next run_gets Some entry round split: sum.split)
  qed
qed simp

lemma few_ahead: "set (ow_active w') \<subseteq> set (ow_active w) \<Longrightarrow> card (ahead place w') \<le> length (ow_active w)"
proof -
  assume "set (ow_active w') \<subseteq> set (ow_active w)"
  then have "card (ahead place w') \<le> card (set (ow_active w))" by (intro card_mono) (auto simp: ahead_def)
  then show ?thesis using card_length[of "ow_active w"] by linarith
qed

lemma bounded_deferred: "bounded (finishDeferredTeardown env event)"
  unfolding finishDeferredTeardown_def killTeardownSession_def
  by (intro bounded_intros bounded_calls bounded_worktree bounded_modify) simp_all

lemma bounded_departed: "bounded (windDownDepartedSession env s cardId event)"
  unfolding windDownDepartedSession_def by (intro bounded_intros bounded_calls)

lemma completion_ends:
  assumes fuel: "length (ow_active w) < fuel"
  shows "snd (handleAgentCompletion env fuel event w) \<noteq> Inl OutOfFuel"
proof -
  define first where "first = next_do (finishDeferredTeardown env event) (pause env)"
  have b: "bounded first" unfolding first_def by (intro bounded_intros bounded_deferred bounded_pause)
  obtain w1 v where 1: "first w = (w1, v)" by (cases "first w")
  have w1: "set (ow_active w1) \<subseteq> set (ow_active w)" "v \<noteq> Inl OutOfFuel"
    using b 1 unfolding bounded_def by (metis fst_conv, metis snd_conv)
  define rest where "rest = andThen (gets (\<lambda>w. (case event_session event of None \<Rightarrow> False | Some s \<Rightarrow> s \<in> ow_cardEndedSessionIds w,
                          Option.bind (event_session event) (om_get (ow_departedLaneSessions w))))) (\<lambda>(cardEnded, departed).
          if cardEnded then settle_lane env event SettleTeardown None
          else if truthy departed
          then windDownDepartedSession env (the (event_session event)) (the departed) event
          else end_loop env fuel 0 event)"
  have "snd (rest w1) \<noteq> Inl OutOfFuel"
    using bounded_settle[of event SettleTeardown None] bounded_departed[of "the (event_session event)" _ event]
      end_loop_ends[of 0 w1 fuel event] few_ahead[OF w1(1), of 0] fuel
    by (auto simp: rest_def run_andThen run_gets bounded_def)
  moreover have "handleAgentCompletion env fuel event w = andThen first (\<lambda>_. rest) w"
    by (simp add: handleAgentCompletion_def first_def rest_def run_next run_andThen split: prod.split sum.split)
  ultimately show ?thesis using 1 w1(2) by (auto simp: run_andThen split: sum.split)
qed

lemma scan_ends: "length (ow_active w) < fuel \<Longrightarrow> snd (scanForInactiveSessions env fuel w) \<noteq> Inl OutOfFuel"
  using scan_loop_ends[of 0 w fuel] few_ahead[of w w 0] by (simp add: scanForInactiveSessions_def run_andThen run_gets)

end

text \<open>C25. The loops over the map of automations end, although it changes while they run: with a fuel above the
  number of automations, the handler of an event and the scan of the watchdog come to an end for every event
  and state, whatever other calls do at the awaits, as long as these add no automation.
\<close>

theorem automation_loops_end:
  assumes others: "\<And>n w. set (ow_active (oe_others env n w)) \<subseteq> set (ow_active w)"
    and fuel: "length (ow_active w) < fuel"
  shows "snd (handleAgentCompletion env fuel event w) \<noteq> Inl OutOfFuel
    \<and> snd (scanForInactiveSessions env fuel w) \<noteq> Inl OutOfFuel"
proof -
  have env: "no_new_automations env" by (rule no_new_automations.intro[OF others])
  show ?thesis
    using no_new_automations.completion_ends[OF env fuel] no_new_automations.scan_ends[OF env fuel] by blast
qed

interpretation alone: no_new_automations "alone env" for env
  by unfold_locales (simp add: alone_def)

end
