(* ===== verification/WorkflowWitnesses.thy ===== *)
theory WorkflowWitnesses
  imports WorkflowLoops
begin

text \<open>
  Concrete runs of the orchestrator: a card in a lane of two steps whose first session runs. The
  theorems about the lanes are applied to it, so that none of them holds for want of a state.
\<close>

definition two_steps :: column_automation where
  "two_steps = sample_automation [sample_step ''DEVELOPER'', sample_step ''GATE'']"

definition running_lane :: active_automation where
  "running_lane =
     \<lparr>aa_cardId = ''c1'', aa_cardTitle = ''card'', aa_boardId = ''b'', aa_workspaceId = ''w'', aa_columnId = ''dev'',
      aa_columnName = ''Dev'', aa_stage = StDev, aa_automation = two_steps,
      aa_steps = buildAutomationSteps two_steps (Some sample_moving), aa_currentStepIndex = 0,
      aa_sessionId = Some ''s'', aa_startedAt = 0, aa_status = RunRunning,
      aa_supervision = \<lparr>sup_mode = SmWatchdogRetry, sup_inactivityTimeoutMinutes = 10, sup_maxRecoveryAttempts = 1,
                        sup_completionRequirement = TurnComplete\<rparr>,
      aa_laneWatchdog = None, aa_attempt = 1, aa_recoveryAttempts = 0, aa_signaledSessionIds = {},
      aa_enableAutomaticFallback = Some True\<rparr>"

definition plain_board :: kanban_board where
  "plain_board = \<lparr>kb_id = ''b'', kb_workspaceId = ''w'', kb_name = ''Board'', kb_isDefault = True, kb_githubToken = None,
     kb_columns = sample_columns, kb_createdAt = 0, kb_updatedAt = 0\<rparr>"

definition dev_card :: task where
  "dev_card = sample_moving\<lparr>tk_id := ''c1'', tk_columnId := Some ''dev''\<rparr>"

definition busy_orchestrator :: orch_world where
  "busy_orchestrator = new_orchestrator\<lparr>ow_heap := [running_lane], ow_active := [(''c1'', 0, 0)], ow_nextPlace := 1,
     ow_boards := [(''b'', plain_board)], ow_store := [(''c1'', dev_card)]\<rparr>"

definition done_step :: step_end where
  "done_step = \<lparr>st_event = session_event REPORT_SUBMITTED ''s'' [(''success'', JBool True)], st_success = True,
     st_satisfied = True, st_environment = False, st_evidence = [], st_rateLimited = False, st_recover = False\<rparr>"

definition failed_step :: step_end where
  "failed_step = \<lparr>st_event = session_event AGENT_FAILED ''s'' [], st_success = False,
     st_satisfied = False, st_environment = False, st_evidence = [], st_rateLimited = False, st_recover = False\<rparr>"

lemma lane_of_two: "length (getKanbanAutomationSteps (Some two_steps)) = 2" "length (aa_steps running_lane) = 2"
  by code_simp+

lemma lone_create: "oe_others lone_env = (\<lambda>n w. w)" "oe_createSession lone_env = Some (\<lambda>n call. Inr (CreatedId ''new''))"
  by (simp_all add: lone_env_def)

lemma busy_fields [simp]:
  "ow_heap busy_orchestrator = [running_lane]" "ow_active busy_orchestrator = [(''c1'', 0, 0)]"
  "ow_endedSessionIds busy_orchestrator = {}" "ow_log busy_orchestrator = []"
  "ow_boards busy_orchestrator = [(''b'', plain_board)]" "ow_store busy_orchestrator = [(''c1'', dev_card)]"
  by (simp_all add: busy_orchestrator_def new_orchestrator_def)

lemma running_first [simp]: "automation_at 0 busy_orchestrator = running_lane" "aa_currentStepIndex running_lane = 0"
  by (simp_all add: automation_at_def running_lane_def)

theorem lane_sessions_are_bounded_witness:
  "length (creates (ow_log (fold (orch_step lone_env)
       [OpEnd (session_event AGENT_FAILED ''s'' []) 3, OpScan 3] busy_orchestrator))) \<le> 3"
proof -
  have budget: "total_budget busy_orchestrator = 3"
    by (simp add: total_budget_def budget_def max_recoveries_def lane_of_two) (simp add: running_lane_def)
  show ?thesis
    using lane_sessions_are_bounded[of lone_env busy_orchestrator "[OpEnd (session_event AGENT_FAILED ''s'' []) 3, OpScan 3]", OF _ _ _ refl]
    by (simp add: starts_lane_def budget lone_create calm_refl refs_ok_def)
qed

theorem next_step_starts_once_witness:
  "\<exists>w' c s. go_on lone_env ''c1'' 0 ''s'' done_step None dev_card busy_orchestrator = (w', Inr ())
    \<and> creates (ow_log w') = [c] \<and> cc_stepIndex c = 1 \<and> runs_step 1 s (automation_at 0 w')
    \<and> killed (ow_log w') = (if isInTurnEvent (st_event done_step) then [] else [''s''])"
proof -
  obtain w' c s where "go_on lone_env ''c1'' 0 ''s'' done_step None dev_card busy_orchestrator = (w', Inr ())"
    "creates (ow_log w') = creates (ow_log busy_orchestrator) @ [c]" "cc_stepIndex c = 1" "runs_step 1 s (automation_at 0 w')"
    "killed (ow_log w') = killed (ow_log busy_orchestrator) @ (if isInTurnEvent (st_event done_step) then [] else [''s''])"
    using next_step_starts_once[of lone_env "\<lambda>n call. Inr (CreatedId ''new'')" 0 busy_orchestrator running_lane 1 done_step "''s''" "''c1''" None dev_card]
    by (auto simp: lone_create lane_of_two done_step_def)
  then show ?thesis by auto
qed

theorem two_ends_start_a_step_twice_witness:
  "\<exists>c1 c2. creates (ow_log (fst (try_advance
        (lone_env\<lparr>oe_others := (\<lambda>n v. if n = ow_awaits busy_orchestrator
           then fst (try_advance lone_env ''c1'' 0 ''s'' done_step dev_card v) else v)\<rparr>)
        ''c1'' 0 ''s'' done_step dev_card busy_orchestrator))) = [c1, c2]
    \<and> cc_stepIndex c1 = 1 \<and> cc_stepIndex c2 = 1"
  using two_ends_start_a_step_twice[of lone_env "\<lambda>n call. Inr (CreatedId ''new'')" 0 busy_orchestrator running_lane 1
      done_step "''s''" _ "''c1''" dev_card, OF _ _ _ _ _ _ _ _ _ _ refl]
  by (auto simp: lone_create lane_of_two done_step_def)

theorem fallback_skips_the_failed_step_witness:
  "\<exists>w' c. go_on lone_env ''c1'' 0 ''s'' failed_step None dev_card busy_orchestrator = (w', Inr ())
    \<and> creates (ow_log w') = [c] \<and> cc_step c = Some (getKanbanAutomationSteps (Some two_steps) ! 1)"
proof -
  have "can_fallback running_lane failed_step (Suc (aa_currentStepIndex running_lane))" "tk_maxFallbackAttempts dev_card = None"
    by code_simp+
  then show ?thesis
    using fallback_skips_the_failed_step[of lone_env "\<lambda>n call. Inr (CreatedId ''new'')" 0 busy_orchestrator running_lane
        two_steps sample_moving failed_step dev_card "''c1''" "''s''" None]
    by (auto simp: lone_create lane_of_two) (auto simp: running_lane_def)
qed

theorem finished_card_moves_one_column_witness:
  "\<exists>u. store_get [] (ow_store (fst (autoAdvanceCard lone_env ''c1'' 0 busy_orchestrator))) ''c1'' = Some u
    \<and> tk_columnId u = Some ''review''"
proof -
  let ?w' = "fst (autoAdvanceCard lone_env ''c1'' 0 busy_orchestrator)"
  have moved: "emitted (ow_log ?w') \<noteq> emitted (ow_log busy_orchestrator)" by code_simp
  have ids: "distinct (map kc_id (kb_columns plain_board))"
    and board: "om_get (ow_boards busy_orchestrator) (aa_boardId running_lane) = Some plain_board"
    and stored: "om_get (ow_store busy_orchestrator) ''c1'' = Some dev_card" "tk_id dev_card = ''c1''" by code_simp+
  obtain current next_col ev u where u: "one_column_on plain_board current next_col" "kc_id current = aa_columnId running_lane"
    "store_get [] (ow_store ?w') ''c1'' = Some u" "tk_columnId u = Some (kc_id next_col)"
    using finished_card_moves_one_column[of lone_env busy_orchestrator running_lane plain_board 0 "''c1''" ?w' "[]",
        OF lone_create(1) board ids running_first(1)[symmetric] _ refl] stored moved by auto
  moreover have "kc_id next_col = ''review''"
    using u(1,2) by (auto simp: one_column_on_def plain_board_def sample_columns_def default_column_def running_lane_def)
  ultimately show ?thesis by auto
qed

definition done_orchestrator :: orch_world where
  "done_orchestrator = busy_orchestrator\<lparr>ow_heap := [running_lane\<lparr>aa_stage := StDone\<rparr>]\<rparr>"

theorem done_lane_ends_every_session_witness:
  "''b'' \<in> ow_endedSessionIds (fst (finish_step lone_env ''c1'' 0 ''s'' failed_step False None (Some dev_card) done_orchestrator))"
proof (rule done_lane_ends_every_session)
  show "held 0 v (oe_others lone_env n v)" for n v by (simp add: lone_create held_def ends_stay_def)
  show "''b'' \<in> set (collectTaskSessionIds dev_card)" by code_simp
qed (simp_all add: done_orchestrator_def automation_at_def step_done_def failed_step_def)

definition pushing_orchestrator :: orch_world where
  "pushing_orchestrator = busy_orchestrator\<lparr>ow_heap :=
     [running_lane\<lparr>aa_stage := StDone, aa_laneWatchdog := Some getDefaultKanbanLaneSessionWatchdog,
        aa_supervision := getDisabledSupervisionConfig\<rparr>]\<rparr>"

theorem timed_out_lane_is_not_rerun_witness:
  "creates (ow_log (fst (end_of_step lone_env ''c1'' 0 ''s'' (Some dev_card) (session_event AGENT_TIMEOUT ''s'' []) pushing_orchestrator))) = []"
proof -
  have "creates (ow_log pushing_orchestrator) = []" by (simp add: pushing_orchestrator_def)
  then show ?thesis
    using timed_out_lane_is_not_rerun[of lone_env "session_event AGENT_TIMEOUT ''s'' []" 0 pushing_orchestrator _ "''c1''" "''s''" "Some dev_card", OF _ _ _ _ _ refl]
    by (simp add: lone_create still_def calm_refl session_event_def pushing_orchestrator_def automation_at_def
        getDisabledSupervisionConfig_def isRecoveryMode_def)
qed

definition silent_orchestrator :: orch_world where
  "silent_orchestrator = busy_orchestrator\<lparr>ow_activity := [(''s'',
     \<lparr>sa_lastActivityAt = ''7'', sa_lastMeaningfulActivityAt = None, sa_terminalAt = None\<rparr>)]\<rparr>"

theorem silence_is_reported_once_witness:
  "ow_log (fst (scan_automation lone_env 600006 0 silent_orchestrator)) = []
   \<and> (\<exists>ev. emitted (ow_log (fst (scan_automation lone_env 600007 0 silent_orchestrator))) = [ev] \<and> ev_type ev = AGENT_TIMEOUT)"
proof -
  have at: "running_lane = automation_at 0 silent_orchestrator" "ow_log silent_orchestrator = []"
    by (simp_all add: silent_orchestrator_def automation_at_def)
  have lane: "aa_status running_lane = RunRunning" "aa_sessionId running_lane = Some ''s''" "''s'' \<notin> aa_signaledSessionIds running_lane"
    "isRecoveryMode (sup_mode (aa_supervision running_lane))" "getInactivityTimeoutMinutes running_lane = 10"
    "Option.bind (om_get (ow_sessions silent_orchestrator) ''s'') sv_acpStatus \<noteq> Some AcpError"
    "hostDateParse (oe_host lone_env) (last_activity silent_orchestrator (oe_host lone_env) running_lane ''s'') = Some 7"
    by code_simp+
  have place: "0 < length (ow_heap silent_orchestrator)" by (simp add: silent_orchestrator_def)
  have "if now - 7 < getInactivityTimeoutMinutes running_lane * 60000
      then ow_log (fst (scan_automation lone_env now 0 silent_orchestrator)) = ow_log silent_orchestrator
        \<and> ow_heap (fst (scan_automation lone_env now 0 silent_orchestrator)) = ow_heap silent_orchestrator
      else \<exists>ev. emitted (ow_log (fst (scan_automation lone_env now 0 silent_orchestrator))) = emitted (ow_log silent_orchestrator) @ [ev]
        \<and> ev_type ev = AGENT_TIMEOUT \<and> event_session ev = Some ''s'' \<and> event_data ev ''success'' = JBool False
        \<and> (\<forall>later. ow_log (fst (scan_automation lone_env later 0 (fst (scan_automation lone_env now 0 silent_orchestrator))))
               = ow_log (fst (scan_automation lone_env now 0 silent_orchestrator)))" for now
    by (rule silence_is_reported_once[OF lone_create(1) place at(1) lane(1,2) _ lane(3) _ lane(6,7) refl])
      (use lane(4) in simp_all)
  from this[of 600006] this[of 600007] show ?thesis by (auto simp: lane(5) at(2))
qed

theorem automation_loops_end_witness:
  "snd (handleAgentCompletion lone_env 2 (session_event AGENT_FAILED ''s'' []) busy_orchestrator) \<noteq> Inl OutOfFuel"
  using automation_loops_end[of lone_env busy_orchestrator 2 "session_event AGENT_FAILED ''s'' []"] by (simp add: lone_create)

end
