(* ===== verification/AgentModel.thy ===== *)
theory AgentModel
  imports JsAsync EventBus TaskStore SessionQueueOrder
begin

text \<open>
  The agents of a workspace: src/src/core/models/agent.ts and message.ts, the in-memory stores of
  src/src/core/store/agent-store.ts and conversation-store.ts, and the pure part of
  src/src/core/orchestration/delegation-depth.ts, which limits how deep agents may create agents.
  The stores are ordered maps; what the code returns as a copy is the value.
\<close>

section \<open>Agents\<close>

datatype agent_role = AR_ROUTA | AR_CRAFTER | AR_GATE | AR_DEVELOPER

fun agent_role_str :: "agent_role \<Rightarrow> string" where
  "agent_role_str AR_ROUTA = ''ROUTA''"
| "agent_role_str AR_CRAFTER = ''CRAFTER''"
| "agent_role_str AR_GATE = ''GATE''"
| "agent_role_str AR_DEVELOPER = ''DEVELOPER''"

definition agent_roles :: "agent_role list" where
  "agent_roles = [AR_ROUTA, AR_CRAFTER, AR_GATE, AR_DEVELOPER]"

text \<open>\<open>s.toUpperCase() as AgentRole\<close>, checked against the values of the enumeration.\<close>

definition parse_role :: "string \<Rightarrow> agent_role option" where
  "parse_role s = List.find (\<lambda>r. agent_role_str r = toUpperCase s) agent_roles"

datatype agent_status = AS_PENDING | AS_ACTIVE | AS_COMPLETED | AS_ERROR | AS_CANCELLED

fun agent_status_str :: "agent_status \<Rightarrow> string" where
  "agent_status_str AS_PENDING = ''PENDING''"
| "agent_status_str AS_ACTIVE = ''ACTIVE''"
| "agent_status_str AS_COMPLETED = ''COMPLETED''"
| "agent_status_str AS_ERROR = ''ERROR''"
| "agent_status_str AS_CANCELLED = ''CANCELLED''"

text \<open>The tier is a text: the tool that creates agents does not check it against the enumeration.\<close>

record agent =
  ag_id :: string
  ag_name :: string
  ag_role :: agent_role
  ag_modelTier :: string
  ag_workspaceId :: string
  ag_parentId :: "string option"
  ag_status :: agent_status
  ag_createdAt :: int
  ag_updatedAt :: int
  ag_metadata :: "(string, string) omap"

record agent_params =
  ap_name :: string
  ap_role :: agent_role
  ap_workspaceId :: string
  ap_parentId :: "string option"
  ap_modelTier :: "string option"
  ap_metadata :: "(string, string) omap option"

definition createAgentModel :: "int \<Rightarrow> string \<Rightarrow> agent_params \<Rightarrow> agent" where
  "createAgentModel now agentId p =
     \<lparr>ag_id = agentId, ag_name = ap_name p, ag_role = ap_role p, ag_modelTier = orDefault (ap_modelTier p) ''SMART'',
      ag_workspaceId = ap_workspaceId p, ag_parentId = ap_parentId p, ag_status = AS_PENDING,
      ag_createdAt = now, ag_updatedAt = now, ag_metadata = orDefault (ap_metadata p) []\<rparr>"

type_synonym agent_store = "(string, agent) omap"

definition agent_save :: "agent_store \<Rightarrow> agent \<Rightarrow> agent_store" where
  "agent_save s a = om_set s (ag_id a) a"

definition agent_get :: "agent_store \<Rightarrow> string \<Rightarrow> agent option" where
  "agent_get s agentId = om_get s agentId"

definition agents_by_workspace :: "agent_store \<Rightarrow> string \<Rightarrow> agent list" where
  "agents_by_workspace s workspaceId = filter (\<lambda>a. ag_workspaceId a = workspaceId) (om_values s)"

definition agents_by_parent :: "agent_store \<Rightarrow> string \<Rightarrow> agent list" where
  "agents_by_parent s parentId = filter (\<lambda>a. ag_parentId a = Some parentId) (om_values s)"

definition agents_by_role :: "agent_store \<Rightarrow> string \<Rightarrow> agent_role \<Rightarrow> agent list" where
  "agents_by_role s workspaceId role =
     filter (\<lambda>a. ag_workspaceId a = workspaceId \<and> ag_role a = role) (om_values s)"

definition agents_by_status :: "agent_store \<Rightarrow> string \<Rightarrow> agent_status \<Rightarrow> agent list" where
  "agents_by_status s workspaceId status =
     filter (\<lambda>a. ag_workspaceId a = workspaceId \<and> ag_status a = status) (om_values s)"

definition agent_delete :: "agent_store \<Rightarrow> string \<Rightarrow> agent_store" where
  "agent_delete s agentId = om_del s agentId"

definition agent_updateStatus :: "int \<Rightarrow> agent_store \<Rightarrow> string \<Rightarrow> agent_status \<Rightarrow> agent_store" where
  "agent_updateStatus now s agentId status =
     (case om_get s agentId of None \<Rightarrow> s
      | Some a \<Rightarrow> om_set s agentId (a\<lparr>ag_status := status, ag_updatedAt := now\<rparr>))"

section \<open>Conversations\<close>

datatype message_role = MR_SYSTEM | MR_USER | MR_ASSISTANT | MR_TOOL

fun message_role_str :: "message_role \<Rightarrow> string" where
  "message_role_str MR_SYSTEM = ''SYSTEM''"
| "message_role_str MR_USER = ''USER''"
| "message_role_str MR_ASSISTANT = ''ASSISTANT''"
| "message_role_str MR_TOOL = ''TOOL''"

record message =
  mg_id :: string
  mg_agentId :: string
  mg_role :: message_role
  mg_content :: string
  mg_timestamp :: int
  mg_toolName :: "string option"
  mg_toolArgs :: "string option"
  mg_turn :: "int option"

text \<open>\<open>createMessage\<close> as all its callers here use it, without a tool and without a turn.\<close>

definition createMessage :: "int \<Rightarrow> string \<Rightarrow> string \<Rightarrow> message_role \<Rightarrow> string \<Rightarrow> message" where
  "createMessage now messageId agentId role content =
     \<lparr>mg_id = messageId, mg_agentId = agentId, mg_role = role, mg_content = content, mg_timestamp = now,
      mg_toolName = None, mg_toolArgs = None, mg_turn = None\<rparr>"

type_synonym conversation_store = "(string, message list) omap"

definition conv_append :: "conversation_store \<Rightarrow> message \<Rightarrow> conversation_store" where
  "conv_append s m = om_set s (mg_agentId m) (orDefault (om_get s (mg_agentId m)) [] @ [m])"

definition getConversation :: "conversation_store \<Rightarrow> string \<Rightarrow> message list" where
  "getConversation s agentId = orDefault (om_get s agentId) []"

text \<open>\<open>xs.slice(k)\<close> for an integer \<open>k\<close>.\<close>

definition slice_from :: "int \<Rightarrow> 'a list \<Rightarrow> 'a list" where
  "slice_from k xs = (if k < 0 then drop (nat (int (length xs) + k)) xs else drop (nat k) xs)"

definition getLastN :: "conversation_store \<Rightarrow> string \<Rightarrow> int \<Rightarrow> message list" where
  "getLastN s agentId n = slice_from (- n) (orDefault (om_get s agentId) [])"

definition getByTurnRange :: "conversation_store \<Rightarrow> string \<Rightarrow> int \<Rightarrow> int \<Rightarrow> message list" where
  "getByTurnRange s agentId startTurn endTurn =
     filter (\<lambda>m. case mg_turn m of None \<Rightarrow> False | Some turn \<Rightarrow> turn \<ge> startTurn \<and> turn \<le> endTurn)
       (orDefault (om_get s agentId) [])"

definition getMessageCount :: "conversation_store \<Rightarrow> string \<Rightarrow> nat" where
  "getMessageCount s agentId = length (orDefault (om_get s agentId) [])"

definition deleteConversation :: "conversation_store \<Rightarrow> string \<Rightarrow> conversation_store" where
  "deleteConversation s agentId = om_del s agentId"

section \<open>Delegation depth\<close>

definition MAX_DELEGATION_DEPTH :: int where
  "MAX_DELEGATION_DEPTH = 2"

record depth_check =
  dc_allowed :: bool
  dc_currentDepth :: int
  dc_error :: "string option"

text \<open>The depth an agent's metadata names; what does not start with a number counts as 0.\<close>

definition depth_of :: "agent option \<Rightarrow> int" where
  "depth_of a = (case Option.bind a (\<lambda>x. om_get (ag_metadata x) ''delegationDepth'') of
       None \<Rightarrow> 0
     | Some depth \<Rightarrow> orDefault (parseInt10 depth) 0)"

definition check_depth :: "int \<Rightarrow> depth_check" where
  "check_depth parentDepth =
     (if parentDepth \<ge> MAX_DELEGATION_DEPTH
      then \<lparr>dc_allowed = False, dc_currentDepth = parentDepth,
            dc_error = Some (''Cannot create sub-agent: maximum delegation depth (''
              @ show_int MAX_DELEGATION_DEPTH @ '') reached. You are at depth '' @ show_int parentDepth
              @ ''. Please complete this task directly instead of delegating further.'')\<rparr>
      else \<lparr>dc_allowed = True, dc_currentDepth = parentDepth, dc_error = None\<rparr>)"

definition calculateChildDepth :: "int \<Rightarrow> int" where
  "calculateChildDepth parentDepth = parentDepth + 1"

definition createDelegationMetadata :: "int \<Rightarrow> (string, string) omap" where
  "createDelegationMetadata depth = [(''delegationDepth'', show_int depth)]"

text \<open>Spreading an object over another one, and setting a property.\<close>

definition om_spread :: "('k, 'v) omap \<Rightarrow> ('k, 'v) omap \<Rightarrow> ('k, 'v) omap" where
  "om_spread base over = foldl (\<lambda>m (k, v). om_set m k v) base over"

definition buildAgentMetadata ::
  "int \<Rightarrow> string option \<Rightarrow> string option \<Rightarrow> (string, string) omap option \<Rightarrow> (string, string) omap" where
  "buildAgentMetadata depth createdByAgentId specialist additionalMetadata =
     (let metadata = om_spread (createDelegationMetadata depth) (orDefault additionalMetadata []);
          metadata = (if truthy createdByAgentId
             then om_set metadata ''createdByAgentId'' (the createdByAgentId) else metadata)
      in if truthy specialist then om_set metadata ''specialist'' (the specialist) else metadata)"

section \<open>Results of tools\<close>

datatype tool_result = successResult json | errorResult string

section \<open>Lemmas\<close>

lemma parse_role_str [simp]: "parse_role (agent_role_str r) = Some r"
  by (cases r; hypsubst; code_simp)

lemma agent_get_save [simp]:
  "agent_get (agent_save s a) agentId = (if agentId = ag_id a then Some a else agent_get s agentId)"
  by (simp add: agent_get_def agent_save_def)

lemma agent_get_updateStatus:
  "agent_get (agent_updateStatus now s agentId status) other =
     (if other = agentId then map_option (\<lambda>a. a\<lparr>ag_status := status, ag_updatedAt := now\<rparr>) (agent_get s other)
      else agent_get s other)"
  by (simp add: agent_get_def agent_updateStatus_def split: option.split)

lemma getConversation_append [simp]:
  "getConversation (conv_append s m) agentId =
     (if agentId = mg_agentId m then getConversation s agentId @ [m] else getConversation s agentId)"
  by (simp add: getConversation_def conv_append_def)

lemma om_get_spread_other: "k \<notin> fst ` set over \<Longrightarrow> om_get (om_spread base over) k = om_get base k"
  unfolding om_spread_def by (induction over arbitrary: base) auto

lemma parseInt_show_int: "parseInt10 (show_int n) = Some n"
proof (cases "n < 0")
  case True
  then have "parse_digits None (show_nat (nat (- n))) = Some (- n)"
    using parse_show[of None "nat (- n)" "[]"] by simp
  with True show ?thesis
    by (simp add: show_int_def parseInt10_def trimStart_def is_ws_def)
next
  case False
  then show ?thesis by (simp add: show_int_def parseInt_show)
qed

end
