(* ===== verification/CompletionMemory.thy ===== *)
theory CompletionMemory
  imports AgentModel
begin

text \<open>
  What is remembered of the completion of a delegated agent:
  src/src/core/orchestration/completion-memory.ts. Several sources report the same completion (the
  agent's own report, the end of its session, an automatic report, an error); each snapshot is merged
  into the one remembered so far. A text that the code normalises to \<open>null\<close> or leaves undefined is
  \<^const>\<open>None\<close>.
\<close>

datatype snapshot_source = SnapReported | SnapAuto | SnapSessionEnd | SnapError

record completion_snapshot =
  cs_sessionId :: string
  cs_role :: agent_role
  cs_agentId :: string
  cs_taskId :: string
  cs_taskTitle :: string
  cs_status :: string
  cs_summary :: "string option"
  cs_verificationVerdict :: "string option"
  cs_verificationReport :: "string option"
  cs_snapshotSource :: snapshot_source

fun snapshot_priority :: "snapshot_source \<Rightarrow> nat" where
  "snapshot_priority SnapSessionEnd = 0"
| "snapshot_priority SnapAuto = 1"
| "snapshot_priority SnapReported = 2"
| "snapshot_priority SnapError = 3"

definition normalizeOptionalText :: "string option \<Rightarrow> string option" where
  "normalizeOptionalText value = (if truthy (map_option trim value) then value else None)"

definition normalizeNullableText :: "string option \<Rightarrow> string option" where
  "normalizeNullableText value = nullish (normalizeOptionalText value) None"

definition shouldReplaceCompletionStatus ::
  "string \<Rightarrow> string \<Rightarrow> snapshot_source \<Rightarrow> snapshot_source \<Rightarrow> bool" where
  "shouldReplaceCompletionStatus currentStatus incomingStatus currentSource incomingSource =
     (if incomingStatus = currentStatus then False
      else if currentStatus = ''unknown'' then True
      else snapshot_priority incomingSource \<ge> snapshot_priority currentSource)"

definition completionSnapshotsEqual :: "completion_snapshot option \<Rightarrow> completion_snapshot option \<Rightarrow> bool" where
  "completionSnapshotsEqual left right = (left = right)"

text \<open>A text of the incoming snapshot replaces the current one when it is there.\<close>

definition newer_text :: "string option \<Rightarrow> string option \<Rightarrow> string option" where
  "newer_text current incoming = (if incoming \<noteq> None \<and> incoming \<noteq> current then incoming else current)"

definition mergeCompletionSnapshot ::
  "completion_snapshot option \<Rightarrow> completion_snapshot \<Rightarrow> completion_snapshot" where
  "mergeCompletionSnapshot current incoming =
     (case current of
        None \<Rightarrow> incoming
      | Some cur \<Rightarrow>
          let merged = cur\<lparr>cs_sessionId := cs_sessionId incoming, cs_role := cs_role incoming,
                cs_agentId := cs_agentId incoming, cs_taskId := cs_taskId incoming,
                cs_taskTitle := cs_taskTitle incoming\<rparr>;
              merged = (if shouldReplaceCompletionStatus (cs_status cur) (cs_status incoming)
                  (cs_snapshotSource cur) (cs_snapshotSource incoming)
                then merged\<lparr>cs_status := cs_status incoming\<rparr> else merged);
              merged = merged\<lparr>cs_summary := newer_text (cs_summary cur) (cs_summary incoming),
                cs_verificationVerdict := newer_text (cs_verificationVerdict cur) (cs_verificationVerdict incoming),
                cs_verificationReport := newer_text (cs_verificationReport cur) (cs_verificationReport incoming)\<rparr>
          in if \<not> completionSnapshotsEqual (Some cur) (Some merged)
             then merged\<lparr>cs_snapshotSource := cs_snapshotSource incoming\<rparr> else merged)"

lemma newer_text_alt: "newer_text c i = nullish i c"
  by (cases i) (auto simp: newer_text_def nullish_def)

lemma nullish_idem [simp]: "nullish i (nullish i c) = nullish i c"
  by (cases i) (auto simp: nullish_def)

text \<open>The fields of a merged snapshot.\<close>

lemma merged_fields:
  "cs_sessionId (mergeCompletionSnapshot (Some c) i) = cs_sessionId i"
  "cs_role (mergeCompletionSnapshot (Some c) i) = cs_role i"
  "cs_agentId (mergeCompletionSnapshot (Some c) i) = cs_agentId i"
  "cs_taskId (mergeCompletionSnapshot (Some c) i) = cs_taskId i"
  "cs_taskTitle (mergeCompletionSnapshot (Some c) i) = cs_taskTitle i"
  "cs_summary (mergeCompletionSnapshot (Some c) i) = nullish (cs_summary i) (cs_summary c)"
  "cs_verificationVerdict (mergeCompletionSnapshot (Some c) i)
     = nullish (cs_verificationVerdict i) (cs_verificationVerdict c)"
  "cs_verificationReport (mergeCompletionSnapshot (Some c) i)
     = nullish (cs_verificationReport i) (cs_verificationReport c)"
  "cs_status (mergeCompletionSnapshot (Some c) i) =
     (if shouldReplaceCompletionStatus (cs_status c) (cs_status i) (cs_snapshotSource c) (cs_snapshotSource i)
      then cs_status i else cs_status c)"
  by (simp_all add: mergeCompletionSnapshot_def Let_def newer_text_alt)

lemma merged_source:
  "cs_snapshotSource (mergeCompletionSnapshot (Some c) i) =
     (if mergeCompletionSnapshot (Some c) i = c then cs_snapshotSource c else cs_snapshotSource i)"
  by (auto simp: mergeCompletionSnapshot_def Let_def completionSnapshotsEqual_def)

text \<open>Merging a snapshot that brings nothing new changes nothing.\<close>

lemma merge_nothing_new:
  assumes "cs_sessionId i = cs_sessionId m" "cs_role i = cs_role m" "cs_agentId i = cs_agentId m"
    "cs_taskId i = cs_taskId m" "cs_taskTitle i = cs_taskTitle m"
    "nullish (cs_summary i) (cs_summary m) = cs_summary m"
    "nullish (cs_verificationVerdict i) (cs_verificationVerdict m) = cs_verificationVerdict m"
    "nullish (cs_verificationReport i) (cs_verificationReport m) = cs_verificationReport m"
    "\<not> shouldReplaceCompletionStatus (cs_status m) (cs_status i) (cs_snapshotSource m) (cs_snapshotSource i)"
  shows "mergeCompletionSnapshot (Some m) i = m"
  using assms by (cases m) (simp add: mergeCompletionSnapshot_def Let_def completionSnapshotsEqual_def newer_text_alt)

text \<open>
  A snapshot of a source that ranks at least as high as what is remembered is taken over once: merging
  it again changes nothing.
\<close>

lemma merge_same_again:
  assumes rank: "snapshot_priority (cs_snapshotSource c) \<le> snapshot_priority (cs_snapshotSource i)"
  shows "mergeCompletionSnapshot (Some (mergeCompletionSnapshot (Some c) i)) i = mergeCompletionSnapshot (Some c) i"
proof (rule merge_nothing_new)
  have "cs_status (mergeCompletionSnapshot (Some c) i) = cs_status i"
    using rank by (auto simp: merged_fields shouldReplaceCompletionStatus_def)
  then show "\<not> shouldReplaceCompletionStatus (cs_status (mergeCompletionSnapshot (Some c) i)) (cs_status i)
      (cs_snapshotSource (mergeCompletionSnapshot (Some c) i)) (cs_snapshotSource i)"
    by (simp add: shouldReplaceCompletionStatus_def)
qed (simp_all add: merged_fields)

end
