(* ===== verification/SessionConfig.thy ===== *)
theory SessionConfig
  imports BoardSupervision AgentModel
begin

text \<open>
  The configuration options an agent process advertises (src/src/core/acp/config-options.ts), the
  pure part of src/src/core/acp/session-config-apply.ts, and the model and the reasoning effort a
  delegated agent takes over from the agent that delegates
  (src/src/core/orchestration/delegation-model-inheritance.ts). The entries of an option come from the
  process as JSON; \<open>JSON.parse\<close> is a parameter.
\<close>

section \<open>Options\<close>

definition MODEL_CONFIG_ID :: string where
  "MODEL_CONFIG_ID = ''model''"

definition REASONING_EFFORT_CONFIG_ID :: string where
  "REASONING_EFFORT_CONFIG_ID = ''reasoning_effort''"

record config_option =
  co_id :: string
  co_currentValue :: json
  co_options :: "json list option"

record model_value =
  mv_provider :: "string option"
  mv_model :: string

record config_summary =
  sm_model :: "string option"
  sm_reasoningEffort :: "string option"

text \<open>An entry of the flattened list: its value and the group it came from.\<close>

record flat_value =
  fv_value :: string
  fv_group :: json

definition findOption :: "config_option list option \<Rightarrow> string \<Rightarrow> config_option option" where
  "findOption options oid = List.find (\<lambda>option. co_id option = oid) (orDefault options [])"

definition flat_child :: "json \<Rightarrow> json \<Rightarrow> flat_value option" where
  "flat_child g child = (case jprop child ''value'' of
       JStr v \<Rightarrow> Some \<lparr>fv_value = v, fv_group = g\<rparr> | _ \<Rightarrow> None)"

definition flat_entry :: "json \<Rightarrow> flat_value list" where
  "flat_entry entry = (case jprop entry ''options'' of
       JArr children \<Rightarrow> map_some (flat_child (jprop entry ''group'')) children
     | _ \<Rightarrow> map_some (flat_child (jprop entry ''group'')) [entry])"

definition flattenOptionValues :: "config_option option \<Rightarrow> flat_value list" where
  "flattenOptionValues option = concat (map flat_entry (orDefault (Option.bind option co_options) []))"

definition parseModelValue :: "json_lib \<Rightarrow> json \<Rightarrow> model_value option" where
  "parseModelValue lib value = (case value of
       JStr s \<Rightarrow> if s = [] then None
         else (case jl_parse lib s of
             Some (JArr (p # JStr m # rest)) \<Rightarrow>
               Some \<lparr>mv_provider = (case p of JStr q \<Rightarrow> Some q | _ \<Rightarrow> None), mv_model = m\<rparr>
           | _ \<Rightarrow> Some \<lparr>mv_provider = None, mv_model = s\<rparr>)
     | _ \<Rightarrow> None)"

definition current_value :: "config_option option \<Rightarrow> json" where
  "current_value option = (case option of None \<Rightarrow> JUndef | Some c \<Rightarrow> co_currentValue c)"

text \<open>The exact value, else the current provider's value for the model, else the first for the model.\<close>

definition resolveModelValue :: "json_lib \<Rightarrow> config_option list option \<Rightarrow> string \<Rightarrow> string option" where
  "resolveModelValue lib options modelId =
     (let modelOption = findOption options MODEL_CONFIG_ID;
          values = flattenOptionValues modelOption;
          wanted = trim modelId;
          currentProvider = Option.bind (parseModelValue lib (current_value modelOption)) mv_provider;
          matches = filter (\<lambda>e. map_option mv_model (parseModelValue lib (JStr (fv_value e))) = Some wanted) values;
          sameProvider = (if truthy currentProvider
             then List.find (\<lambda>e. Option.bind (parseModelValue lib (JStr (fv_value e))) mv_provider = currentProvider) matches
             else None)
      in if wanted = [] then None
         else case List.find (\<lambda>e. fv_value e = wanted) values of
             Some exact \<Rightarrow> Some (fv_value exact)
           | None \<Rightarrow> (case matches of [] \<Rightarrow> None | m # _ \<Rightarrow> Some (fv_value (orDefault sameProvider m))))"

definition summarizeConfigOptions :: "json_lib \<Rightarrow> config_option list option \<Rightarrow> config_summary" where
  "summarizeConfigOptions lib options =
     \<lparr>sm_model = map_option mv_model (parseModelValue lib (current_value (findOption options MODEL_CONFIG_ID))),
      sm_reasoningEffort = (case current_value (findOption options REASONING_EFFORT_CONFIG_ID) of
          JStr e \<Rightarrow> Some e | _ \<Rightarrow> None)\<rparr>"

definition DSH_ENV_MODEL_GROUP :: string where
  "DSH_ENV_MODEL_GROUP = ''local-7357''"

definition isDshEnvStartableModel :: "json_lib \<Rightarrow> string option \<Rightarrow> config_option list option \<Rightarrow> bool" where
  "isDshEnvStartableModel lib model options =
     (case parseModelValue lib (case model of None \<Rightarrow> JUndef | Some m \<Rightarrow> JStr (trim m)) of
        None \<Rightarrow> False
      | Some parsed \<Rightarrow> if truthy (mv_provider parsed) then mv_provider parsed = Some DSH_ENV_MODEL_GROUP
          else list_ex (\<lambda>e. case parseModelValue lib (JStr (fv_value e)) of
                 None \<Rightarrow> False
               | Some v \<Rightarrow> mv_provider v = Some DSH_ENV_MODEL_GROUP \<and> mv_model v = mv_model parsed)
            (flattenOptionValues (findOption options MODEL_CONFIG_ID)))"

definition buildRecoveryModelEnv ::
  "json_lib \<Rightarrow> string \<Rightarrow> string option \<Rightarrow> config_option list option \<Rightarrow> (string, string) omap option" where
  "buildRecoveryModelEnv lib provider storedModel knownOptions =
     (case parseModelValue lib (case storedModel of None \<Rightarrow> JUndef | Some m \<Rightarrow> JStr (trim m)) of
        None \<Rightarrow> None
      | Some parsed \<Rightarrow> if provider \<noteq> ''dsh'' \<or> \<not> isDshEnvStartableModel lib storedModel knownOptions then None
          else Some [(''DSH_ACP_MODEL'', mv_model parsed)])"

section \<open>What a delegated agent takes over\<close>

record child_model_input =
  ci_childProvider :: string
  ci_callerProvider :: "string option"
  ci_callerModel :: "string option"
  ci_callerReasoningEffort :: "string option"
  ci_roleModel :: "string option"

record role_model_config =
  rm_crafterModel :: "string option"
  rm_gateModel :: "string option"
  rm_routaModel :: "string option"

record model_plan =
  mp_model :: "string option"
  mp_reasoningEffort :: "string option"
  mp_extraEnv :: "(string, string) omap option"

definition nonempty :: "string option \<Rightarrow> string option" where
  "nonempty v = (if truthy v then v else None)"

definition resolveChildModelConfig :: "child_model_input \<Rightarrow> config_summary" where
  "resolveChildModelConfig input =
     (if ci_callerProvider input = None \<or> Some (ci_childProvider input) \<noteq> ci_callerProvider input
      then \<lparr>sm_model = None, sm_reasoningEffort = None\<rparr>
      else \<lparr>sm_model = nonempty (orElse (map_option trim (ci_roleModel input)) (map_option trim (ci_callerModel input))),
            sm_reasoningEffort = ci_callerReasoningEffort input\<rparr>)"

definition resolveRoleModel :: "agent_role \<Rightarrow> string option \<Rightarrow> role_model_config \<Rightarrow> string option" where
  "resolveRoleModel role specialistModel config =
     (let fromSpecialist = map_option trim specialistModel;
          byRole = (case role of AR_CRAFTER \<Rightarrow> rm_crafterModel config | AR_GATE \<Rightarrow> rm_gateModel config
             | AR_ROUTA \<Rightarrow> rm_routaModel config | AR_DEVELOPER \<Rightarrow> None)
      in if truthy fromSpecialist then fromSpecialist else nonempty (map_option trim byRole))"

definition buildChildModelEnv ::
  "json_lib \<Rightarrow> string \<Rightarrow> string option \<Rightarrow> config_option list option \<Rightarrow> (string, string) omap option" where
  "buildChildModelEnv lib childProvider model callerOptions =
     (if childProvider \<noteq> ''dsh'' \<or> \<not> truthy model then None
      else case Option.bind (resolveModelValue lib callerOptions (the model)) (\<lambda>v. parseModelValue lib (JStr v)) of
             None \<Rightarrow> None
           | Some v \<Rightarrow> if mv_provider v = Some DSH_ENV_MODEL_GROUP then Some [(''DSH_ACP_MODEL'', the model)] else None)"

text \<open>What the session store knows of a session.\<close>

record http_session =
  hs_cwd :: string
  hs_workspaceId :: string
  hs_provider :: "string option"
  hs_model :: "string option"
  hs_reasoningEffort :: "string option"

text \<open>\<open>callerOptions\<close> is what the manager gives for the caller, \<^const>\<open>None\<close> when it throws.\<close>

definition planDelegationModel ::
  "json_lib \<Rightarrow> http_session option \<Rightarrow> string \<Rightarrow> agent_role \<Rightarrow> string option \<Rightarrow> role_model_config
     \<Rightarrow> config_option list option \<Rightarrow> model_plan" where
  "planDelegationModel lib caller childProvider role specialistModel config callerOptions =
     (let inherited = resolveChildModelConfig
            \<lparr>ci_childProvider = childProvider, ci_callerProvider = Option.bind caller hs_provider,
             ci_callerModel = Option.bind caller hs_model,
             ci_callerReasoningEffort = Option.bind caller hs_reasoningEffort,
             ci_roleModel = resolveRoleModel role specialistModel config\<rparr>
      in if \<not> truthy (sm_model inherited) \<and> sm_reasoningEffort inherited = None
         then \<lparr>mp_model = None, mp_reasoningEffort = None, mp_extraEnv = None\<rparr>
         else \<lparr>mp_model = sm_model inherited, mp_reasoningEffort = sm_reasoningEffort inherited,
               mp_extraEnv = buildChildModelEnv lib childProvider (sm_model inherited) callerOptions\<rparr>)"

section \<open>Lemmas\<close>

text \<open>The value chosen for a model is one the agent offers, and stands for that model.\<close>

lemma find_in: "List.find P xs = Some x \<Longrightarrow> x \<in> set xs \<and> P x"
  by (induction xs) (auto split: if_splits)

lemma resolved_value_offered:
  assumes "resolveModelValue lib options modelId = Some v"
  shows "v \<in> fv_value ` set (flattenOptionValues (findOption options MODEL_CONFIG_ID))
     \<and> (v = trim modelId \<or> map_option mv_model (parseModelValue lib (JStr v)) = Some (trim modelId))"
proof -
  define vs where "vs = flattenOptionValues (findOption options MODEL_CONFIG_ID)"
  define ms where "ms = filter (\<lambda>e. map_option mv_model (parseModelValue lib (JStr (fv_value e))) = Some (trim modelId)) vs"
  define same where "same = (let p = Option.bind (parseModelValue lib (current_value (findOption options MODEL_CONFIG_ID))) mv_provider
     in if truthy p then List.find (\<lambda>e. Option.bind (parseModelValue lib (JStr (fv_value e))) mv_provider = p) ms else None)"
  have same_in: "same = Some e \<Longrightarrow> e \<in> set ms" for e
    using find_in by (fastforce simp: same_def Let_def split: if_splits)
  have "(\<exists>e\<in>set vs. fv_value e = trim modelId \<and> v = fv_value e) \<or> (\<exists>m ms'. ms = m # ms' \<and> v = fv_value (orDefault same m))"
    using assms find_in unfolding resolveModelValue_def Let_def vs_def[symmetric] ms_def[symmetric] same_def[unfolded Let_def, symmetric]
    by (fastforce split: if_splits option.splits list.splits)
  moreover have "ms = m # ms' \<Longrightarrow> orDefault same m \<in> set ms" for m ms'
    using same_in by (cases same) (auto simp: orDefault_def)
  ultimately consider e where "e \<in> set vs" "fv_value e = trim modelId" "v = fv_value e"
    | e where "e \<in> set ms" "v = fv_value e" by blast
  then show ?thesis unfolding vs_def[symmetric] by cases (force, force simp: ms_def)
qed

end
