(* ===== verification/TeamWorld.thy ===== *)
theory TeamWorld
  imports CompletionMemory SessionConfig
begin

text \<open>
  The state that the agent tools (src/src/core/tools/agent-tools.ts), the notifier of
  src/src/core/acp/lifecycle-notifier.ts and the delegation of
  src/src/core/orchestration/orchestrator.ts share, and the steps they are made of.

  As in the orchestrator of lanes, every \<open>await\<close> is a pause at which other calls may run. An event put
  on the bus is recorded in the log; the handlers the bus calls for it, and the promises the code
  starts without awaiting them, are calls of their own. Every store call may be rejected. The record of
  a delegated agent, a delegation group and the promise of a completion are objects that several calls
  share: records and groups are on heaps, and the maps hold references.
\<close>

section \<open>Data\<close>

record child_record =
  cr_agentId :: string
  cr_sessionId :: string
  cr_parentAgentId :: string
  cr_parentSessionId :: string
  cr_taskId :: string
  cr_role :: agent_role
  cr_provider :: string
  cr_cwd :: string
  cr_workspaceId :: string
  cr_completionHandled :: bool

text \<open>\<open>completedAgentIds\<close> is a set: a list without repetitions.\<close>

record delegation_group =
  dg_groupId :: string
  dg_parentAgentId :: string
  dg_parentSessionId :: string
  dg_childAgentIds :: "string list"
  dg_completedAgentIds :: "string list"

record orchestrator_config =
  oc_defaultCrafterProvider :: string
  oc_defaultGateProvider :: string
  oc_models :: role_model_config
  oc_defaultCwd :: string

record specialist =
  sp_id :: string
  sp_name :: string
  sp_role :: agent_role
  sp_defaultModelTier :: string
  sp_systemPrompt :: string
  sp_roleReminder :: string
  sp_model :: "string option"

datatype wait_mode = WmImmediate | WmAfterAll

fun wait_mode_str :: "wait_mode \<Rightarrow> string" where
  "wait_mode_str WmImmediate = ''immediate''"
| "wait_mode_str WmAfterAll = ''after_all''"

record delegate_params =
  dp_taskId :: string
  dp_callerAgentId :: string
  dp_callerSessionId :: string
  dp_workspaceId :: string
  dp_specialist :: string
  dp_provider :: "string option"
  dp_cwd :: "string option"
  dp_additionalInstructions :: "string option"
  dp_waitMode :: "wait_mode option"

text \<open>
  The prompt that wakes a parent, as data: the text of a group's report has an arrow that is no
  character of this development. A missing task has the status \<open>unknown\<close>.
\<close>

datatype report_line =
    ReportLine string agent_role string "task_status option"
  | SummaryLine string

datatype wake_message =
    AgentReport string agent_role string "task_status option" "string option" "verification_verdict option"
      "string option"
  | GroupReport nat "report_line list"

text \<open>src/src/core/tools/permission-store.ts\<close>

datatype permission_decision = PdPending | PdAllow | PdDeny

fun decision_str :: "permission_decision \<Rightarrow> string" where
  "decision_str PdPending = ''pending''"
| "decision_str PdAllow = ''allow''"
| "decision_str PdDeny = ''deny''"

text \<open>The options and the constraints are JSON objects; the urgency is an unchecked text.\<close>

record permission_request =
  pr_id :: string
  pr_requestingAgentId :: string
  pr_coordinatorAgentId :: string
  pr_workspaceId :: string
  pr_type :: string
  pr_tool :: "string option"
  pr_description :: string
  pr_options :: json
  pr_urgency :: string
  pr_decision :: permission_decision
  pr_feedback :: "string option"
  pr_constraints :: json
  pr_createdAt :: int
  pr_respondedAt :: "int option"

type_synonym permission_store = "(string, permission_request) omap"

text \<open>The kinds of process a session can run on, and the adapters a prompt can be sent through.\<close>

datatype session_kind = WorkspaceSession | ClaudeSession | SdkSession | AcpSession

datatype adapter_kind = ClaudeAdapter | SdkAdapter | OpencodeAdapter | DockerAdapter

record session_registration =
  sr_sessionId :: string
  sr_name :: string
  sr_cwd :: string
  sr_workspaceId :: string
  sr_routaAgentId :: string
  sr_provider :: string
  sr_role :: agent_role
  sr_specialistId :: string
  sr_parentSessionId :: string
  sr_sandboxId :: "string option"
  sr_model :: "string option"
  sr_reasoningEffort :: "string option"

text \<open>The object in a report file, typed as the code casts it.\<close>

record report_file =
  rf_agentId :: "string option"
  rf_taskId :: "string option"
  rf_summary :: "string option"
  rf_filesModified :: "string list option"
  rf_verificationResults :: "string option"
  rf_success :: "bool option"

text \<open>What is written to the files of the agent memory in a working directory.\<close>

datatype memory_entry =
    MemCompletion completion_snapshot
  | MemSessionStart string agent_role string string string string string string
  | MemDelegation string string string agent_role string string string wait_mode

text \<open>
  What the calls do to the outside, and the promises they start without awaiting them. The number in
  \<open>ParentPrompted\<close> and \<open>ParentWoken\<close> is the record on whose behalf the prompt is sent: it is sent, and
  it was handled without an error.
\<close>

datatype team_effect =
    TeamEvent agent_event
  | AgentEventTo string string json
  | UiNotify string "(string \<times> json) list"
  | SessionRegistered session_registration
  | ProcessCreated session_kind string string
  | OptionSet string string string
  | ChildPrompted string string string
  | ParentPrompted nat string wake_message "string option"
  | ParentWoken nat string wake_message
  | ParentUnreachable nat string
  | MemoryWritten string memory_entry
  | OutcomeSaved string string
  | ChildKilled string
  | WatchStarted string string
  | WatchStopped string string
  | ReportFileRemoved string
  | SessionEndScheduled string nat
  | ReportFileSeen string string
  | SandboxChanged string string json

record team_world =
  tw_agents :: agent_store
  tw_conversations :: conversation_store
  tw_store :: task_store
  tw_records :: "child_record list"
  tw_childAgents :: "(string, nat) omap"
  tw_agentSessions :: "(string, string) omap"
  tw_groupObjects :: "delegation_group list"
  tw_groups :: "(string, nat) omap"
  tw_activeGroup :: "(string, string) omap"
  tw_watchers :: "(string, string) omap"
  tw_bridges :: "(string, string) omap"
  tw_subscribers :: "(string, string list) omap"
  tw_snapshots :: "(string, completion_snapshot) omap"
  tw_memoryWrites :: "(string, nat) omap"
  tw_completing :: "(string, nat) omap"
  tw_permissions :: "permission_store option"
  tw_notifies :: bool
  tw_registers :: bool
  tw_ids :: nat
  tw_awaits :: nat
  tw_log :: "team_effect list"

text \<open>
  The environment: the host, the clock, the identifiers, the other calls at each await, the errors of
  the stores, and the parts of the program and of the machine that are not modelled here. A left value
  is a rejected promise.
\<close>

record team_env =
  te_host :: js_host
  te_json :: json_lib
  te_now :: "nat \<Rightarrow> int"
  te_uuid :: "nat \<Rightarrow> string"
  te_others :: "nat \<Rightarrow> team_world \<Rightarrow> team_world"
  te_storeFails :: "nat \<Rightarrow> string option"
  te_config :: orchestrator_config
  te_specialists :: "specialist list"
  te_sessions :: "nat \<Rightarrow> string \<Rightarrow> http_session option"
  te_processCwd :: string
  te_fingerprint :: "task \<Rightarrow> string \<Rightarrow> string"
  te_traceDigest :: "nat \<Rightarrow> string \<Rightarrow> string \<Rightarrow> agent_role \<Rightarrow> string option"
  te_playbook :: "nat \<Rightarrow> string \<Rightarrow> string \<Rightarrow> agent_role \<Rightarrow> string option"
  te_hasTraces :: "nat \<Rightarrow> string \<Rightarrow> string \<Rightarrow> bool"
  te_memoryFails :: "nat \<Rightarrow> bool"
  te_sandbox :: "nat \<Rightarrow> string + string option"
  te_createSession :: "nat \<Rightarrow> session_kind \<Rightarrow> string \<Rightarrow> string + string"
  te_hasProcess :: "nat \<Rightarrow> session_kind \<Rightarrow> string \<Rightarrow> bool"
  te_configOptions :: "nat \<Rightarrow> string \<Rightarrow> config_option list option"
  te_setOption :: "nat \<Rightarrow> string \<Rightarrow> string \<Rightarrow> string \<Rightarrow> config_option list option"
  te_applyConstraints :: "nat \<Rightarrow> string \<Rightarrow> json \<Rightarrow> string option"
  te_watchFails :: "string \<Rightarrow> bool"
  te_agentEvents :: "nat \<Rightarrow> string \<Rightarrow> json \<Rightarrow> json list"
  te_reportFile :: "nat \<Rightarrow> string \<Rightarrow> report_file option"
  te_fuel :: nat
  te_adapterOf :: "nat \<Rightarrow> string \<Rightarrow> adapter_kind option"
  te_adapterAlive :: "nat \<Rightarrow> string \<Rightarrow> bool"
  te_workspaceAgent :: "nat \<Rightarrow> string \<Rightarrow> bool"
  te_processReady :: "nat \<Rightarrow> string \<Rightarrow> bool"
  te_promptFails :: "nat \<Rightarrow> string \<Rightarrow> string option"

type_synonym 'a team = "(team_world, string, 'a) action"

section \<open>Steps\<close>

definition tpause :: "team_env \<Rightarrow> unit team" where
  "tpause env = modify (\<lambda>w. te_others env (tw_awaits w) (w\<lparr>tw_awaits := Suc (tw_awaits w)\<rparr>))"

definition time_of :: "team_env \<Rightarrow> team_world \<Rightarrow> int" where
  "time_of env w = te_now env (tw_awaits w)"

definition tiso_of :: "team_env \<Rightarrow> team_world \<Rightarrow> string" where
  "tiso_of env w = hostToISO (te_host env) (time_of env w)"

definition note_effect :: "team_effect \<Rightarrow> unit team" where
  "note_effect e = modify (\<lambda>w. w\<lparr>tw_log := tw_log w @ [e]\<rparr>)"

text \<open>What a part outside the model answers at this await.\<close>

definition ask :: "(nat \<Rightarrow> 'a) \<Rightarrow> 'a team" where
  "ask f = gets (\<lambda>w. f (tw_awaits w))"

definition uuidv4 :: "team_env \<Rightarrow> string team" where
  "uuidv4 env = andThen (gets tw_ids) (\<lambda>n.
     next_do (modify (\<lambda>w. w\<lparr>tw_ids := Suc (tw_ids w)\<rparr>)) (ret (te_uuid env n)))"

text \<open>A call of a store: it is awaited, and it may be rejected.\<close>

definition store_call :: "team_env \<Rightarrow> 'a team \<Rightarrow> 'a team" where
  "store_call env m = next_do (tpause env) (andThen (ask (te_storeFails env)) (\<lambda>failure.
     case failure of
       Some e \<Rightarrow> throw e
     | None \<Rightarrow> andThen m (\<lambda>x. next_do (tpause env) (ret x))))"

definition get_task :: "team_env \<Rightarrow> string \<Rightarrow> task option team" where
  "get_task env taskId = store_call env (gets (\<lambda>w. store_get (tiso_of env w) (tw_store w) taskId))"

definition save_task :: "team_env \<Rightarrow> task \<Rightarrow> unit team" where
  "save_task env t = store_call env (modify (\<lambda>w. w\<lparr>tw_store := store_save (tiso_of env w) (tw_store w) t\<rparr>))"

definition get_agent :: "team_env \<Rightarrow> string \<Rightarrow> agent option team" where
  "get_agent env agentId = store_call env (gets (\<lambda>w. agent_get (tw_agents w) agentId))"

definition save_agent :: "team_env \<Rightarrow> agent \<Rightarrow> unit team" where
  "save_agent env a = store_call env (modify (\<lambda>w. w\<lparr>tw_agents := agent_save (tw_agents w) a\<rparr>))"

definition set_agent_status :: "team_env \<Rightarrow> string \<Rightarrow> agent_status \<Rightarrow> unit team" where
  "set_agent_status env agentId status = store_call env (modify (\<lambda>w.
     w\<lparr>tw_agents := agent_updateStatus (time_of env w) (tw_agents w) agentId status\<rparr>))"

text \<open>\<open>conversationStore.append(createMessage({ id: uuidv4(), ... }))\<close> for a message of the user.\<close>

definition append_message :: "team_env \<Rightarrow> string \<Rightarrow> string \<Rightarrow> unit team" where
  "append_message env agentId content =
     andThen (uuidv4 env) (\<lambda>messageId. andThen (gets (time_of env)) (\<lambda>now.
       store_call env (modify (\<lambda>w. w\<lparr>tw_conversations :=
         conv_append (tw_conversations w) (createMessage now messageId agentId MR_USER content)\<rparr>))))"

definition emit_team :: "team_env \<Rightarrow> agent_event_type \<Rightarrow> string \<Rightarrow> string \<Rightarrow> (string \<times> json) list \<Rightarrow> unit team" where
  "emit_team env etype agentId workspaceId d = andThen (gets (time_of env)) (\<lambda>now.
     note_effect (TeamEvent \<lparr>ev_type = etype, ev_agentId = agentId, ev_workspaceId = workspaceId, ev_data = d,
       ev_timestamp = now\<rparr>))"

definition record_at :: "nat \<Rightarrow> team_world \<Rightarrow> child_record" where
  "record_at r w = tw_records w ! r"

definition nl :: string where
  "nl = [CHR 0x0A]"

section \<open>Specialists and providers\<close>

text \<open>src/src/core/orchestration/specialist-prompts.ts: the lookup in the loaded list, and the prompts.\<close>

definition getSpecialistByRole :: "team_env \<Rightarrow> agent_role \<Rightarrow> specialist option" where
  "getSpecialistByRole env role = List.find (\<lambda>s. sp_role s = role) (te_specialists env)"

definition getSpecialistById :: "team_env \<Rightarrow> string \<Rightarrow> specialist option" where
  "getSpecialistById env sid = List.find (\<lambda>s. sp_id s = toLowerCase sid) (te_specialists env)"

definition buildDelegationPrompt ::
  "specialist \<Rightarrow> string \<Rightarrow> string \<Rightarrow> string \<Rightarrow> string \<Rightarrow> string \<Rightarrow> string option \<Rightarrow> string" where
  "buildDelegationPrompt s agentId taskId taskTitle taskContent parentAgentId additionalContext =
     sp_systemPrompt s @ nl @ nl @ ''---'' @ nl @ nl
     @ ''**Your Agent ID:** '' @ agentId @ nl
     @ ''**Your Parent Agent ID:** '' @ parentAgentId @ nl
     @ ''**Task ID:** '' @ taskId @ nl @ nl
     @ ''# Task: '' @ taskTitle @ nl @ nl
     @ taskContent @ nl @ nl
     @ ''---'' @ nl @ ''**Reminder:** '' @ sp_roleReminder s @ nl
     @ (if truthy additionalContext
        then nl @ ''**Additional Context:** '' @ the additionalContext @ nl else [])
     @ nl @ ''**SCOPE: Complete THIS task only.** When done, call `report_to_parent` with your results.''"

text \<open>\<^const>\<open>None\<close> when there is no coordinator, which the code does not expect.\<close>

definition buildCoordinatorPrompt :: "team_env \<Rightarrow> string \<Rightarrow> string \<Rightarrow> string \<Rightarrow> string option" where
  "buildCoordinatorPrompt env agentId workspaceId userRequest =
     map_option (\<lambda>s. sp_systemPrompt s @ nl @ nl @ ''---'' @ nl @ nl
       @ ''**Your Agent ID:** '' @ agentId @ nl
       @ ''**Workspace ID:** '' @ workspaceId @ nl @ nl
       @ ''## User Request'' @ nl @ nl @ userRequest @ nl @ nl
       @ ''---'' @ nl @ ''**Reminder:** '' @ sp_roleReminder s @ nl) (getSpecialistByRole env AR_ROUTA)"

definition buildSpecialistFirstPrompt :: "specialist \<Rightarrow> string \<Rightarrow> string" where
  "buildSpecialistFirstPrompt s userRequest =
     sp_systemPrompt s
     @ (if sp_roleReminder s \<noteq> [] then nl @ nl @ ''---'' @ nl @ ''**Reminder:** '' @ sp_roleReminder s else [])
     @ nl @ nl @ ''---'' @ nl @ nl @ userRequest"

text \<open>src/src/core/acp/acp-presets.ts\<close>

definition normalizeProviderPresetId :: "string \<Rightarrow> string" where
  "normalizeProviderPresetId providerId =
     (if toLowerCase providerId \<in> {''claude-code'', ''claudecode''} then ''claude''
      else if toLowerCase providerId \<in> {''claude-haha'', ''cchaha''} then ''cc-haha'' else providerId)"

definition isClaudeStreamJsonProvider :: "string \<Rightarrow> bool" where
  "isClaudeStreamJsonProvider providerId =
     (providerId \<noteq> [] \<and> normalizeProviderPresetId providerId \<in> {''claude'', ''cc-haha''})"

end
