(* ===== verification/AgentTools.thy ===== *)
theory AgentTools
  imports TeamWorld
begin

text \<open>
  The tools through which agents work together, src/src/core/tools/agent-tools.ts: creating agents and
  tasks, handing a task to an agent, messages, the report to the parent, waking the agent of a task,
  the status of a task, permissions (with src/src/core/tools/permission-store.ts) and the orderly
  shutdown; and the notifier of src/src/core/acp/lifecycle-notifier.ts. A tool gives a result; it throws
  only when a store does.
\<close>

section \<open>Results\<close>

definition is_hex :: "char \<Rightarrow> bool" where
  "is_hex c = (c \<in> set ''0123456789abcdefABCDEF'')"

text \<open>The test of the code's pattern for a UUID: five groups of hexadecimal digits.\<close>

definition looksLikeUuid :: "string \<Rightarrow> bool" where
  "looksLikeUuid s = (length s = 36 \<and>
     list_all (\<lambda>i. if i \<in> {8, 13, 18, 23} then s ! i = CHR ''-'' else is_hex (s ! i)) [0..<36])"

definition verdict_str :: "verification_verdict \<Rightarrow> string" where
  "verdict_str v = (case v of VV_APPROVED \<Rightarrow> ''APPROVED'' | VV_NOT_APPROVED \<Rightarrow> ''NOT_APPROVED'' | VV_BLOCKED \<Rightarrow> ''BLOCKED'')"

definition task_statuses :: "task_status list" where
  "task_statuses = [TS_PENDING, TS_IN_PROGRESS, TS_REVIEW_REQUIRED, TS_COMPLETED, TS_NEEDS_FIX, TS_BLOCKED, TS_CANCELLED]"

definition parse_task_status :: "string \<Rightarrow> task_status option" where
  "parse_task_status s = List.find (\<lambda>t. task_status_str t = toUpperCase s) task_statuses"

definition iso_time :: "team_env \<Rightarrow> int \<Rightarrow> json" where
  "iso_time env t = JStr (hostToISO (te_host env) t)"

definition js_nat :: "nat \<Rightarrow> json" where
  "js_nat n = JNum (Fin (of_nat n))"

definition js_int :: "int \<Rightarrow> json" where
  "js_int n = JNum (Fin (of_int n))"

definition js_meta :: "(string, string) omap \<Rightarrow> json" where
  "js_meta m = JObj (map (\<lambda>(k, v). (k, JStr v)) m)"

section \<open>Tasks\<close>

text \<open>\<open>createTask\<close>: \<open>p\<close> holds what the caller gives (the fields the tool does not take are absent) and gets
  a new id.\<close>

definition createTaskTool :: "team_env \<Rightarrow> task_params \<Rightarrow> tool_result team" where
  "createTaskTool env p =
     andThen (uuidv4 env) (\<lambda>taskId. andThen (gets (time_of env)) (\<lambda>now.
       let t = createTask (te_host env) now [] (p\<lparr>tp_id := taskId\<rparr>)
       in next_do (save_task env t)
            (ret (successResult (JObj [(''taskId'', JStr (tk_id t)), (''title'', JStr (tk_title t)),
              (''status'', JStr (task_status_str (tk_status t)))])))))"

definition listTasks :: "team_env \<Rightarrow> string \<Rightarrow> tool_result team" where
  "listTasks env workspaceId =
     andThen (store_call env (gets (\<lambda>w. listByWorkspace (tiso_of env w) (tw_store w) workspaceId))) (\<lambda>tasks.
       ret (successResult (JArr (map (\<lambda>t. JObj [(''id'', JStr (tk_id t)), (''title'', JStr (tk_title t)),
         (''status'', JStr (task_status_str (tk_status t))), (''assignedTo'', js_text (tk_assignedTo t)),
         (''verificationVerdict'', js_text (map_option verdict_str (tk_verificationVerdict t)))]) tasks))))"

definition updateTaskStatus :: "team_env \<Rightarrow> string \<Rightarrow> string \<Rightarrow> string \<Rightarrow> string option \<Rightarrow> tool_result team" where
  "updateTaskStatus env taskId newStatus agentId summary =
     (case parse_task_status newStatus of
        None \<Rightarrow> ret (errorResult (''Invalid status: '' @ newStatus @ ''. Must be one of: ''
          @ js_join '', '' (map task_status_str task_statuses)))
      | Some status \<Rightarrow> andThen (get_task env taskId) (\<lambda>found. case found of
          None \<Rightarrow> ret (errorResult (''Task not found: '' @ taskId))
        | Some t \<Rightarrow> andThen (gets (time_of env)) (\<lambda>now.
            let t' = t\<lparr>tk_status := status,
                  tk_completionSummary := (if truthy summary then summary else tk_completionSummary t),
                  tk_updatedAt := now\<rparr>
            in next_do (save_task env t')
               (next_do (emit_team env TASK_STATUS_CHANGED agentId (tk_workspaceId t)
                  [(''taskId'', JStr taskId), (''oldStatus'', JStr (task_status_str (tk_status t))),
                   (''newStatus'', JStr (task_status_str status)), (''summary'', js_text summary)])
               (next_do (when_do (status = TS_COMPLETED)
                  (emit_team env TASK_COMPLETED agentId (tk_workspaceId t)
                    [(''taskId'', JStr taskId), (''taskTitle'', JStr (tk_title t)), (''summary'', js_text summary)]))
               (ret (successResult (JObj [(''taskId'', JStr taskId),
                  (''oldStatus'', JStr (task_status_str (tk_status t))),
                  (''newStatus'', JStr (task_status_str status)), (''updatedAt'', iso_time env now)]))))))))"

section \<open>Agents\<close>

definition listAgents :: "team_env \<Rightarrow> string \<Rightarrow> tool_result team" where
  "listAgents env workspaceId =
     andThen (store_call env (gets (\<lambda>w. agents_by_workspace (tw_agents w) workspaceId))) (\<lambda>agents.
       ret (successResult (JArr (map (\<lambda>a. JObj [(''id'', JStr (ag_id a)), (''name'', JStr (ag_name a)),
         (''role'', JStr (agent_role_str (ag_role a))), (''modelTier'', JStr (ag_modelTier a)),
         (''workspaceId'', JStr (ag_workspaceId a)), (''status'', JStr (agent_status_str (ag_status a))),
         (''parentId'', js_text (ag_parentId a)), (''metadata'', js_meta (ag_metadata a)),
         (''createdAt'', iso_time env (ag_createdAt a)), (''updatedAt'', iso_time env (ag_updatedAt a))]) agents))))"

record read_params =
  rp_agentId :: string
  rp_lastN :: "int option"
  rp_startTurn :: "int option"
  rp_endTurn :: "int option"
  rp_includeToolCalls :: "bool option"

definition read_messages :: "team_env \<Rightarrow> read_params \<Rightarrow> message list team" where
  "read_messages env p = store_call env (gets (\<lambda>w.
     case (rp_lastN p, rp_startTurn p, rp_endTurn p) of
       (Some n, _) \<Rightarrow> getLastN (tw_conversations w) (rp_agentId p) n
     | (None, Some a, Some b) \<Rightarrow> getByTurnRange (tw_conversations w) (rp_agentId p) a b
     | _ \<Rightarrow> getConversation (tw_conversations w) (rp_agentId p)))"

definition readAgentConversation :: "team_env \<Rightarrow> read_params \<Rightarrow> tool_result team" where
  "readAgentConversation env p =
     andThen (get_agent env (rp_agentId p)) (\<lambda>found. case found of
       None \<Rightarrow> ret (errorResult (''Agent not found: '' @ rp_agentId p))
     | Some a \<Rightarrow> andThen (read_messages env p) (\<lambda>messages.
         let shown = (if trueOpt (rp_includeToolCalls p) then messages
                      else filter (\<lambda>m. mg_role m \<noteq> MR_TOOL) messages)
         in ret (successResult (JObj [(''agentId'', JStr (rp_agentId p)), (''agentName'', JStr (ag_name a)),
              (''messageCount'', js_nat (length shown)),
              (''messages'', JArr (map (\<lambda>m. JObj [(''role'', JStr (message_role_str (mg_role m))),
                 (''content'', JStr (mg_content m)),
                 (''turn'', case mg_turn m of None \<Rightarrow> JUndef | Some n \<Rightarrow> js_int n),
                 (''toolName'', js_text (mg_toolName m)), (''timestamp'', iso_time env (mg_timestamp m))]) shown))]))))"

record create_agent_params =
  cp_name :: string
  cp_role :: string
  cp_workspaceId :: string
  cp_parentId :: "string option"
  cp_modelTier :: "string option"
  cp_metadata :: "(string, string) omap option"

definition createAgentTool :: "team_env \<Rightarrow> create_agent_params \<Rightarrow> tool_result team" where
  "createAgentTool env p =
     (case parse_role (cp_role p) of
        None \<Rightarrow> ret (errorResult (''Invalid role: '' @ cp_role p @ ''. Must be one of: ''
          @ js_join '', '' (map agent_role_str agent_roles)))
      | Some role \<Rightarrow> andThen (uuidv4 env) (\<lambda>agentId. andThen (gets (time_of env)) (\<lambda>now.
          let a = createAgentModel now agentId
                \<lparr>ap_name = cp_name p, ap_role = role, ap_workspaceId = cp_workspaceId p, ap_parentId = cp_parentId p,
                 ap_modelTier = Some (if truthy (cp_modelTier p) then toUpperCase (the (cp_modelTier p)) else ''SMART''),
                 ap_metadata = Some (orDefault (cp_metadata p) [])\<rparr>
          in next_do (save_agent env a)
             (next_do (emit_team env AGENT_CREATED (ag_id a) (ag_workspaceId a)
                [(''name'', JStr (ag_name a)), (''role'', JStr (agent_role_str (ag_role a))),
                 (''metadata'', js_meta (ag_metadata a))])
             (ret (successResult (JObj [(''agentId'', JStr (ag_id a)), (''name'', JStr (ag_name a)),
                (''role'', JStr (agent_role_str (ag_role a))),
                (''status'', JStr (agent_status_str (ag_status a)))])))))))"

definition task_not_found :: "string \<Rightarrow> string \<Rightarrow> tool_result" where
  "task_not_found taskId name_hint =
     errorResult (''Task not found: '' @ taskId @ ''. ''
       @ (if looksLikeUuid taskId
          then ''Use list_tasks to see available tasks, or create_task to create a new one.''
          else ''The taskId \"'' @ taskId @ ''\" looks like a task name, not a UUID. ''
            @ ''You must use the UUID returned by create_task. '' @ name_hint))"

definition delegate :: "team_env \<Rightarrow> string \<Rightarrow> string \<Rightarrow> string \<Rightarrow> tool_result team" where
  "delegate env agentId taskId callerAgentId =
     andThen (get_agent env agentId) (\<lambda>foundAgent. case foundAgent of
       None \<Rightarrow> ret (errorResult (''Agent not found: '' @ agentId))
     | Some a \<Rightarrow> andThen (get_task env taskId) (\<lambda>found. case found of
         None \<Rightarrow> ret (task_not_found taskId
           (''First call create_task to create tasks, then use the returned taskId (UUID format). ''
            @ ''Or use list_tasks to see existing tasks.''))
       | Some t \<Rightarrow> andThen (gets (time_of env)) (\<lambda>now.
           next_do (save_task env (t\<lparr>tk_assignedTo := Some agentId, tk_status := TS_IN_PROGRESS, tk_updatedAt := now\<rparr>))
           (next_do (set_agent_status env agentId AS_ACTIVE)
           (next_do (append_message env agentId
              (''Task delegated: '' @ tk_title t @ nl @ ''Objective: '' @ tk_objective t))
           (next_do (emit_team env TASK_ASSIGNED agentId (ag_workspaceId a)
              [(''taskId'', JStr taskId), (''callerAgentId'', JStr callerAgentId), (''taskTitle'', JStr (tk_title t))])
           (ret (successResult (JObj [(''agentId'', JStr agentId), (''taskId'', JStr taskId),
              (''status'', JStr ''delegated'')])))))))))"

definition messageAgent :: "team_env \<Rightarrow> string \<Rightarrow> string \<Rightarrow> string \<Rightarrow> tool_result team" where
  "messageAgent env fromAgentId toAgentId msg =
     andThen (get_agent env toAgentId) (\<lambda>found. case found of
       None \<Rightarrow> ret (errorResult (''Target agent not found: '' @ toAgentId))
     | Some a \<Rightarrow>
         next_do (append_message env toAgentId (''[From agent '' @ fromAgentId @ '']: '' @ msg))
         (next_do (emit_team env MESSAGE_SENT fromAgentId (ag_workspaceId a)
            [(''fromAgentId'', JStr fromAgentId), (''toAgentId'', JStr toAgentId),
             (''messagePreview'', JStr (take 200 msg))])
         (ret (successResult (JObj [(''delivered'', JBool True), (''toAgentId'', JStr toAgentId),
            (''fromAgentId'', JStr fromAgentId)])))))"

record completion_report =
  rt_agentId :: string
  rt_taskId :: string
  rt_summary :: string
  rt_filesModified :: "string list option"
  rt_verificationResults :: "string option"
  rt_success :: bool

definition js_bool_str :: "bool \<Rightarrow> string" where
  "js_bool_str b = (if b then ''true'' else ''false'')"

text \<open>The part of a report that goes into the task.\<close>

definition report_on_task :: "team_env \<Rightarrow> completion_report \<Rightarrow> unit team" where
  "report_on_task env report =
     when_do (rt_taskId report \<noteq> []) (andThen (get_task env (rt_taskId report)) (\<lambda>found. case found of
       None \<Rightarrow> ret ()
     | Some t \<Rightarrow> andThen (gets (time_of env)) (\<lambda>now.
         save_task env (t\<lparr>tk_status := (if rt_success report then TS_COMPLETED else TS_NEEDS_FIX),
           tk_completionSummary := Some (rt_summary report), tk_updatedAt := now\<rparr>))))"

definition report_text :: "agent \<Rightarrow> string \<Rightarrow> completion_report \<Rightarrow> string" where
  "report_text a agentId report =
     ''[Completion Report from '' @ ag_name a @ '' ('' @ agentId @ '')]'' @ nl
     @ ''Task: '' @ rt_taskId report @ nl
     @ ''Success: '' @ js_bool_str (rt_success report) @ nl
     @ ''Summary: '' @ rt_summary report @ nl
     @ (case rt_filesModified report of None \<Rightarrow> [] | Some files \<Rightarrow> ''Files Modified: '' @ js_join '', '' files)"

definition reportToParent :: "team_env \<Rightarrow> string \<Rightarrow> completion_report \<Rightarrow> tool_result team" where
  "reportToParent env agentId report =
     andThen (get_agent env agentId) (\<lambda>found. case found of
       None \<Rightarrow> ret (errorResult (''Agent not found: '' @ agentId))
     | Some a \<Rightarrow>
         if \<not> truthy (ag_parentId a) then ret (errorResult (''Agent '' @ agentId @ '' has no parent to report to''))
         else next_do (report_on_task env report)
           (next_do (set_agent_status env agentId AS_COMPLETED)
           (next_do (append_message env (the (ag_parentId a)) (report_text a agentId report))
           (next_do (emit_team env REPORT_SUBMITTED agentId (ag_workspaceId a)
              [(''parentId'', js_text (ag_parentId a)), (''taskId'', JStr (rt_taskId report)),
               (''success'', JBool (rt_success report))])
           (ret (successResult (JObj [(''reported'', JBool True), (''parentId'', js_text (ag_parentId a)),
              (''success'', JBool (rt_success report))])))))))"

section \<open>The agent of a task\<close>

record wake_params =
  wp_taskId :: string
  wp_contextMessage :: string
  wp_callerAgentId :: string
  wp_workspaceId :: string
  wp_agentName :: "string option"
  wp_modelTier :: "string option"

text \<open>The id a successful result of \<open>createAgent\<close> carries.\<close>

definition result_agentId :: "tool_result \<Rightarrow> string option" where
  "result_agentId v = (case v of
       successResult d \<Rightarrow> (case jprop d ''agentId'' of JStr s \<Rightarrow> Some s | _ \<Rightarrow> None)
     | errorResult e \<Rightarrow> None)"

definition create_task_agent :: "team_env \<Rightarrow> wake_params \<Rightarrow> tool_result team" where
  "create_task_agent env p =
     andThen (createAgentTool env
         \<lparr>cp_name = orDefault (wp_agentName p) (''crafter-'' @ take 8 (wp_taskId p)), cp_role = agent_role_str AR_CRAFTER,
          cp_workspaceId = wp_workspaceId p, cp_parentId = Some (wp_callerAgentId p),
          cp_modelTier = wp_modelTier p, cp_metadata = None\<rparr>) (\<lambda>created.
       case result_agentId created of
         None \<Rightarrow> ret created
       | Some newAgentId \<Rightarrow>
           next_do (delegate env newAgentId (wp_taskId p) (wp_callerAgentId p))
           (next_do (append_message env newAgentId (wp_contextMessage p))
           (ret (successResult (JObj [(''agentId'', JStr newAgentId), (''action'', JStr ''created''),
              (''taskId'', JStr (wp_taskId p))])))))"

definition wakeOrCreateTaskAgent :: "team_env \<Rightarrow> wake_params \<Rightarrow> tool_result team" where
  "wakeOrCreateTaskAgent env p =
     andThen (get_task env (wp_taskId p)) (\<lambda>found. case found of
       None \<Rightarrow> ret (errorResult (''Task not found: '' @ wp_taskId p))
     | Some t \<Rightarrow>
         andThen (if truthy (tk_assignedTo t) then get_agent env (the (tk_assignedTo t)) else ret None) (\<lambda>assigned.
           case assigned of
             None \<Rightarrow> create_task_agent env p
           | Some a \<Rightarrow> if ag_status a \<noteq> AS_COMPLETED \<and> ag_status a \<noteq> AS_ERROR
               then next_do (set_agent_status env (ag_id a) AS_ACTIVE)
                 (next_do (append_message env (ag_id a) (wp_contextMessage p))
                 (ret (successResult (JObj [(''agentId'', JStr (ag_id a)), (''action'', JStr ''woken''),
                    (''name'', JStr (ag_name a))]))))
               else create_task_agent env p))"

definition sendMessageToTaskAgent :: "team_env \<Rightarrow> string \<Rightarrow> string \<Rightarrow> string \<Rightarrow> tool_result team" where
  "sendMessageToTaskAgent env taskId msg callerAgentId =
     andThen (get_task env taskId) (\<lambda>found. case found of
       None \<Rightarrow> ret (errorResult (''Task not found: '' @ taskId))
     | Some t \<Rightarrow> if \<not> truthy (tk_assignedTo t)
         then ret (errorResult (''Task '' @ taskId @ '' has no assigned agent''))
         else messageAgent env callerAgentId (the (tk_assignedTo t)) msg)"

definition agent_tasks :: "team_env \<Rightarrow> string \<Rightarrow> task list team" where
  "agent_tasks env agentId = store_call env (gets (\<lambda>w. listByAssignee (tiso_of env w) (tw_store w) agentId))"

definition getAgentStatus :: "team_env \<Rightarrow> string \<Rightarrow> tool_result team" where
  "getAgentStatus env agentId =
     andThen (get_agent env agentId) (\<lambda>found. case found of
       None \<Rightarrow> ret (errorResult (''Agent not found: '' @ agentId))
     | Some a \<Rightarrow>
         andThen (store_call env (gets (\<lambda>w. getMessageCount (tw_conversations w) agentId))) (\<lambda>messageCount.
         andThen (agent_tasks env agentId) (\<lambda>tasks.
           ret (successResult (JObj [(''agentId'', JStr (ag_id a)), (''name'', JStr (ag_name a)),
             (''role'', JStr (agent_role_str (ag_role a))), (''status'', JStr (agent_status_str (ag_status a))),
             (''modelTier'', JStr (ag_modelTier a)), (''parentId'', js_text (ag_parentId a)),
             (''messageCount'', js_nat messageCount),
             (''tasks'', JArr (map (\<lambda>t. JObj [(''id'', JStr (tk_id t)), (''title'', JStr (tk_title t)),
                (''status'', JStr (task_status_str (tk_status t)))]) tasks))])))))"

definition last_response :: "team_env \<Rightarrow> message list \<Rightarrow> json" where
  "last_response env messages =
     (case rev (filter (\<lambda>m. mg_role m = MR_ASSISTANT) messages) of
        [] \<Rightarrow> JNull
      | m # _ \<Rightarrow> JObj [(''content'', JStr (take 500 (mg_content m))), (''timestamp'', iso_time env (mg_timestamp m))])"

definition getAgentSummary :: "team_env \<Rightarrow> string \<Rightarrow> tool_result team" where
  "getAgentSummary env agentId =
     andThen (get_agent env agentId) (\<lambda>found. case found of
       None \<Rightarrow> ret (errorResult (''Agent not found: '' @ agentId))
     | Some a \<Rightarrow>
         andThen (store_call env (gets (\<lambda>w. getMessageCount (tw_conversations w) agentId))) (\<lambda>messageCount.
         andThen (store_call env (gets (\<lambda>w. getLastN (tw_conversations w) agentId 3))) (\<lambda>lastMessages.
         andThen (agent_tasks env agentId) (\<lambda>tasks.
         andThen (store_call env (gets (\<lambda>w. getConversation (tw_conversations w) agentId))) (\<lambda>all.
           ret (successResult (JObj [(''agentId'', JStr (ag_id a)), (''name'', JStr (ag_name a)),
             (''role'', JStr (agent_role_str (ag_role a))), (''status'', JStr (agent_status_str (ag_status a))),
             (''messageCount'', js_nat messageCount),
             (''toolCallCount'', js_nat (length (filter (\<lambda>m. mg_role m = MR_TOOL) all))),
             (''lastResponse'', last_response env lastMessages),
             (''activeTasks'', JArr (map (\<lambda>t. JObj [(''id'', JStr (tk_id t)), (''title'', JStr (tk_title t))])
                (filter (\<lambda>t. tk_status t = TS_IN_PROGRESS) tasks)))])))))))"

section \<open>Permissions\<close>

definition permission_save :: "permission_store \<Rightarrow> permission_request \<Rightarrow> permission_store" where
  "permission_save s r = om_set s (pr_id r) r"

definition permission_delete :: "permission_store \<Rightarrow> string \<Rightarrow> permission_store" where
  "permission_delete s requestId = om_del s requestId"

text \<open>\<open>PermissionStore.respond\<close>: false when the request is not there or is answered already.\<close>

definition permission_respond ::
  "int \<Rightarrow> permission_store \<Rightarrow> string \<Rightarrow> permission_decision \<Rightarrow> string option \<Rightarrow> json \<Rightarrow> bool \<times> permission_store" where
  "permission_respond now s requestId decision feedback constraints =
     (case om_get s requestId of
        None \<Rightarrow> (False, s)
      | Some r \<Rightarrow> if pr_decision r \<noteq> PdPending then (False, s)
          else (True, om_set s requestId (r\<lparr>pr_decision := decision, pr_feedback := feedback,
                 pr_constraints := constraints, pr_respondedAt := Some now\<rparr>)))"

definition permission_listPending :: "permission_store \<Rightarrow> string \<Rightarrow> permission_request list" where
  "permission_listPending s coordinatorAgentId =
     filter (\<lambda>r. pr_coordinatorAgentId r = coordinatorAgentId \<and> pr_decision r = PdPending) (om_values s)"

definition permission_listByRequester :: "permission_store \<Rightarrow> string \<Rightarrow> permission_request list" where
  "permission_listByRequester s agentId = filter (\<lambda>r. pr_requestingAgentId r = agentId) (om_values s)"

definition extractSandboxId :: "json \<Rightarrow> string option" where
  "extractSandboxId options = (case jprop options ''sandboxId'' of
       JStr s \<Rightarrow> if trim s \<noteq> [] then Some (trim s) else None | _ \<Rightarrow> None)"

text \<open>\<open>permissionStore\<close> is set once, by \<open>setPermissionStore\<close>; \<^const>\<open>None\<close> while it is not.\<close>

definition with_permissions :: "(permission_store \<Rightarrow> tool_result team) \<Rightarrow> tool_result team" where
  "with_permissions f = andThen (gets tw_permissions) (\<lambda>v. case v of
     None \<Rightarrow> ret (errorResult ''Permission store not configured'') | Some s \<Rightarrow> f s)"

definition set_permissions :: "(permission_store \<Rightarrow> permission_store) \<Rightarrow> unit team" where
  "set_permissions f = modify (\<lambda>w. w\<lparr>tw_permissions := map_option f (tw_permissions w)\<rparr>)"

record ask_params =
  qp_requestingAgentId :: string
  qp_coordinatorAgentId :: string
  qp_workspaceId :: string
  qp_type :: string
  qp_tool :: "string option"
  qp_description :: string
  qp_options :: json
  qp_urgency :: "string option"

definition requestPermission :: "team_env \<Rightarrow> ask_params \<Rightarrow> tool_result team" where
  "requestPermission env p = with_permissions (\<lambda>_.
     andThen (get_agent env (qp_coordinatorAgentId p)) (\<lambda>coordinator. case coordinator of
       None \<Rightarrow> ret (errorResult (''Coordinator agent not found: '' @ qp_coordinatorAgentId p))
     | Some _ \<Rightarrow> andThen (uuidv4 env) (\<lambda>requestId. andThen (gets (time_of env)) (\<lambda>now.
         let urgency = orDefault (qp_urgency p) ''normal'';
             sandboxId = extractSandboxId (qp_options p);
             request = \<lparr>pr_id = requestId, pr_requestingAgentId = qp_requestingAgentId p,
               pr_coordinatorAgentId = qp_coordinatorAgentId p, pr_workspaceId = qp_workspaceId p,
               pr_type = qp_type p, pr_tool = qp_tool p, pr_description = qp_description p,
               pr_options = qp_options p, pr_urgency = urgency, pr_decision = PdPending, pr_feedback = None,
               pr_constraints = JUndef, pr_createdAt = now, pr_respondedAt = None\<rparr>
         in next_do (set_permissions (\<lambda>s. permission_save s request))
            (next_do (append_message env (qp_coordinatorAgentId p)
              (''[Permission Request] Agent '' @ qp_requestingAgentId p @ '' requests permission.''
               @ nl @ ''Request ID: '' @ requestId @ nl @ ''Type: '' @ qp_type p
               @ (if truthy (qp_tool p) then nl @ ''Tool: '' @ the (qp_tool p) else [])
               @ (case sandboxId of None \<Rightarrow> [] | Some i \<Rightarrow> nl @ ''Sandbox ID: '' @ i)
               @ nl @ ''Description: '' @ qp_description p @ nl @ ''Urgency: '' @ urgency
               @ nl @ ''Call respondToPermission to allow or deny.''))
            (next_do (emit_team env PERMISSION_REQUESTED (qp_requestingAgentId p) (qp_workspaceId p)
              [(''requestId'', JStr requestId), (''coordinatorAgentId'', JStr (qp_coordinatorAgentId p)),
               (''type'', JStr (qp_type p)), (''tool'', js_text (qp_tool p)),
               (''description'', JStr (qp_description p)), (''urgency'', JStr urgency)])
            (ret (successResult (JObj [(''requestId'', JStr requestId), (''decision'', JStr ''pending''),
               (''message'', JStr ''Permission request submitted. Await coordinator response.'')])))))))))"

record answer_params =
  wr_requestId :: string
  wr_coordinatorAgentId :: string
  wr_allow :: bool
  wr_feedback :: "string option"
  wr_constraints :: json

definition answer_of :: "answer_params \<Rightarrow> permission_decision" where
  "answer_of p = (if wr_allow p then PdAllow else PdDeny)"

text \<open>
  The change of the sandbox that an allowed request asks for: the sandbox that was changed. The
  constraints are an object or are not given; what the sandbox service answers is left out.
\<close>

definition change_sandbox :: "team_env \<Rightarrow> permission_request \<Rightarrow> answer_params \<Rightarrow> string option team" where
  "change_sandbox env request p =
     (case extractSandboxId (pr_options request) of
        None \<Rightarrow> ret None
      | Some sandboxId \<Rightarrow> if \<not> wr_allow p \<or> wr_constraints p = JUndef then ret None
          else andThen (ask (\<lambda>n. te_applyConstraints env n sandboxId (wr_constraints p))) (\<lambda>failure.
            case failure of
              Some e \<Rightarrow> next_do (tpause env) (throw e)
            | None \<Rightarrow> next_do (note_effect (SandboxChanged (pr_id request) sandboxId (wr_constraints p)))
                (next_do (tpause env) (ret (Some sandboxId)))))"

definition finish_answer :: "team_env \<Rightarrow> permission_request \<Rightarrow> answer_params \<Rightarrow> string option \<Rightarrow> tool_result team" where
  "finish_answer env request p changed =
     andThen (gets (\<lambda>w. permission_respond (time_of env w) (orDefault (tw_permissions w) []) (wr_requestId p)
         (answer_of p) (wr_feedback p) (wr_constraints p))) (\<lambda>(ok, s).
       if \<not> ok then ret (errorResult ''Permission request already resolved or not found'')
       else next_do (set_permissions (\<lambda>_. s))
         (next_do (append_message env (pr_requestingAgentId request)
            (''[Permission Response] Request '' @ wr_requestId p @ '' has been '' @ decision_str (answer_of p) @ ''.''
             @ (if truthy (wr_feedback p) then nl @ ''Feedback: '' @ the (wr_feedback p) else [])
             @ (if wr_constraints p = JUndef then []
                else nl @ ''Constraints: '' @ jl_stringify (te_json env) (wr_constraints p))
             @ (case changed of None \<Rightarrow> [] | Some i \<Rightarrow> nl @ ''Sandbox policy updated for: '' @ i)))
         (next_do (emit_team env PERMISSION_RESPONDED (wr_coordinatorAgentId p) (pr_workspaceId request)
            [(''requestId'', JStr (wr_requestId p)), (''requestingAgentId'', JStr (pr_requestingAgentId request)),
             (''decision'', JStr (decision_str (answer_of p))), (''feedback'', js_text (wr_feedback p))])
         (ret (successResult (JObj [(''requestId'', JStr (wr_requestId p)),
            (''decision'', JStr (decision_str (answer_of p))),
            (''notified'', JStr (pr_requestingAgentId request)),
            (''sandboxMutation'', case changed of None \<Rightarrow> JUndef
               | Some i \<Rightarrow> JObj [(''sandboxId'', JStr i), (''applied'', JBool True)])]))))))"

definition respondToPermission :: "team_env \<Rightarrow> answer_params \<Rightarrow> tool_result team" where
  "respondToPermission env p = with_permissions (\<lambda>s.
     case om_get s (wr_requestId p) of
       None \<Rightarrow> ret (errorResult (''Permission request not found: '' @ wr_requestId p))
     | Some request \<Rightarrow>
         if pr_coordinatorAgentId request \<noteq> wr_coordinatorAgentId p
         then ret (errorResult ''Only the designated coordinator can respond to this request'')
         else andThen (catching (andThen (change_sandbox env request p) (\<lambda>changed. ret (Inr changed)))
                (\<lambda>e. ret (Inl e))) (\<lambda>v. case v of
             Inl e \<Rightarrow> ret (errorResult (''Permission granted but sandbox policy mutation failed: '' @ e))
           | Inr changed \<Rightarrow> finish_answer env request p changed))"

definition listPendingPermissions :: "team_env \<Rightarrow> string \<Rightarrow> tool_result team" where
  "listPendingPermissions env coordinatorAgentId = with_permissions (\<lambda>s.
     let pending = permission_listPending s coordinatorAgentId
     in ret (successResult (JObj [(''count'', js_nat (length pending)),
          (''requests'', JArr (map (\<lambda>r. JObj [(''id'', JStr (pr_id r)),
             (''requestingAgentId'', JStr (pr_requestingAgentId r)), (''type'', JStr (pr_type r)),
             (''tool'', js_text (pr_tool r)), (''description'', JStr (pr_description r)),
             (''urgency'', JStr (pr_urgency r)), (''sandboxId'', js_text (extractSandboxId (pr_options r))),
             (''createdAt'', iso_time env (pr_createdAt r))]) pending))])))"

section \<open>Shutdown\<close>

definition ask_to_stop :: "team_env \<Rightarrow> string \<Rightarrow> string \<Rightarrow> string option \<Rightarrow> int \<Rightarrow> agent \<Rightarrow> unit team" where
  "ask_to_stop env coordinatorAgentId workspaceId reason timeoutMs a =
     next_do (append_message env (ag_id a)
        (''[Shutdown Request] The coordinator has initiated a graceful shutdown.''
         @ (if truthy reason then nl @ ''Reason: '' @ the reason else [])
         @ nl @ ''Finish your current operation, save state, and call acknowledgeShutdown.''))
     (emit_team env SHUTDOWN_REQUESTED coordinatorAgentId workspaceId
        [(''targetAgentId'', JStr (ag_id a)), (''reason'', JStr (orDefault reason [])), (''timeoutMs'', js_int timeoutMs)])"

definition requestShutdown :: "team_env \<Rightarrow> string \<Rightarrow> string \<Rightarrow> string option \<Rightarrow> int option \<Rightarrow> tool_result team" where
  "requestShutdown env coordinatorAgentId workspaceId reason timeout =
     andThen (store_call env (gets (\<lambda>w. agents_by_status (tw_agents w) workspaceId AS_ACTIVE))) (\<lambda>activeAgents.
       let timeoutMs = orDefault timeout 30000;
           children = filter (\<lambda>a. ag_parentId a = Some coordinatorAgentId) activeAgents
       in if children = [] then ret (successResult (JObj [
              (''message'', JStr ''No active child agents to shut down.''), (''agentIds'', JArr [])]))
          else next_do (for_each (ask_to_stop env coordinatorAgentId workspaceId reason timeoutMs) children)
            (ret (successResult (JObj [
              (''message'', JStr (''Shutdown requested for '' @ show_nat (length children) @ '' agent(s).'')),
              (''agentIds'', JArr (map (\<lambda>a. JStr (ag_id a)) children)), (''timeoutMs'', js_int timeoutMs)]))))"

definition acknowledgeShutdown :: "team_env \<Rightarrow> string \<Rightarrow> string \<Rightarrow> string option \<Rightarrow> tool_result team" where
  "acknowledgeShutdown env agentId workspaceId summary =
     andThen (get_agent env agentId) (\<lambda>found. case found of
       None \<Rightarrow> ret (errorResult (''Agent not found: '' @ agentId))
     | Some a \<Rightarrow> next_do (set_agent_status env agentId AS_COMPLETED)
         (next_do (emit_team env SHUTDOWN_ACKNOWLEDGED agentId workspaceId
            [(''summary'', JStr (orDefault summary ''Agent shut down gracefully.''))])
         (next_do (when_do (truthy (ag_parentId a)) (append_message env (the (ag_parentId a))
            (''[Shutdown Acknowledged] Agent '' @ ag_name a @ '' has shut down.''
             @ (if truthy summary then nl @ ''Summary: '' @ the summary else []))))
         (ret (successResult (JObj [(''agentId'', JStr agentId),
            (''status'', JStr (agent_status_str AS_COMPLETED)), (''acknowledged'', JBool True)]))))))"

section \<open>The notifier\<close>

record notifier =
  nt_agentId :: string
  nt_workspaceId :: string
  nt_parentId :: "string option"
  nt_agentName :: "string option"

definition nt_label :: "notifier \<Rightarrow> string" where
  "nt_label n = orDefault (nt_agentName n) (nt_agentId n)"

text \<open>A message to the parent; when the store rejects it, that is only logged.\<close>

definition deliverToParent :: "team_env \<Rightarrow> notifier \<Rightarrow> string \<Rightarrow> unit team" where
  "deliverToParent env n content = when_do (truthy (nt_parentId n))
     (catching (append_message env (the (nt_parentId n)) content) (\<lambda>e. ret ()))"

definition notifyIdle :: "team_env \<Rightarrow> notifier \<Rightarrow> string option \<Rightarrow> unit team" where
  "notifyIdle env n summary =
     next_do (set_agent_status env (nt_agentId n) AS_ACTIVE)
     (next_do (emit_team env AGENT_IDLE (nt_agentId n) (nt_workspaceId n)
        [(''summary'', JStr (orDefault summary ''Agent is idle, awaiting new work.''))])
     (deliverToParent env n (''[Lifecycle: IDLE] Agent '' @ nt_label n @ '' has finished its current turn and is idle.''
        @ (if truthy summary then nl @ ''Summary: '' @ the summary else []))))"

definition notifyCompleted :: "team_env \<Rightarrow> notifier \<Rightarrow> string option \<Rightarrow> string list option \<Rightarrow> unit team" where
  "notifyCompleted env n summary filesModified =
     next_do (set_agent_status env (nt_agentId n) AS_COMPLETED)
     (next_do (emit_team env AGENT_COMPLETED (nt_agentId n) (nt_workspaceId n)
        [(''summary'', JStr (orDefault summary ''Agent completed successfully.'')),
         (''filesModified'', JArr (map JStr (orDefault filesModified [])))])
     (deliverToParent env n (''[Lifecycle: COMPLETED] Agent '' @ nt_label n @ '' has completed all work.''
        @ (if truthy summary then nl @ ''Summary: '' @ the summary else [])
        @ (if orDefault filesModified [] \<noteq> [] then nl @ ''Files modified: '' @ js_join '', '' (the filesModified) else []))))"

definition notifyFailed :: "team_env \<Rightarrow> notifier \<Rightarrow> string \<Rightarrow> string option \<Rightarrow> unit team" where
  "notifyFailed env n failure pendingWork =
     next_do (set_agent_status env (nt_agentId n) AS_ERROR)
     (next_do (emit_team env AGENT_FAILED (nt_agentId n) (nt_workspaceId n)
        [(''error'', JStr failure), (''pendingWork'', JStr (orDefault pendingWork []))])
     (deliverToParent env n (''[Lifecycle: FAILED] Agent '' @ nt_label n @ '' has failed.''
        @ nl @ ''Error: '' @ failure
        @ (if truthy pendingWork then nl @ ''Pending work: '' @ the pendingWork else []))))"

definition notifyTimeout :: "team_env \<Rightarrow> notifier \<Rightarrow> string \<Rightarrow> string option \<Rightarrow> unit team" where
  "notifyTimeout env n reason pendingWork =
     next_do (set_agent_status env (nt_agentId n) AS_ERROR)
     (next_do (emit_team env AGENT_TIMEOUT (nt_agentId n) (nt_workspaceId n)
        [(''reason'', JStr reason), (''pendingWork'', JStr (orDefault pendingWork []))])
     (deliverToParent env n (''[Lifecycle: TIMEOUT] Agent '' @ nt_label n @ '' timed out.''
        @ nl @ ''Reason: '' @ reason
        @ (if truthy pendingWork then nl @ ''Pending work: '' @ the pendingWork else []))))"

end
