(* ===== verification/Delegation.thy ===== *)
theory Delegation
  imports AgentTools
begin

text \<open>
  The delegation of tasks to agents on processes of their own,
  src/src/core/orchestration/orchestrator.ts: where a delegated agent works, its name on the team, its
  process, its completion from one of four sources, and the prompt that wakes the agent that delegated.
\<close>

section \<open>Where a delegated agent works\<close>

text \<open>\<open>path.relative\<close> of POSIX: paths are resolved to their segments first.\<close>

fun split_slash :: "string \<Rightarrow> string list" where
  "split_slash [] = [[]]"
| "split_slash (c # s) = (if c = CHR ''/'' then [] # split_slash s
     else case split_slash s of x # xs \<Rightarrow> (c # x) # xs | [] \<Rightarrow> [[c]])"

definition path_step :: "string list \<Rightarrow> string \<Rightarrow> string list" where
  "path_step p seg = (if seg = [] \<or> seg = ''.'' then p else if seg = ''..'' then butlast p else p @ [seg])"

definition path_resolve :: "string \<Rightarrow> string \<Rightarrow> string list" where
  "path_resolve cwd p =
     (if startsWith p ''/'' then foldl path_step [] (split_slash p)
      else foldl path_step (foldl path_step [] (split_slash cwd)) (split_slash p))"

fun relative_segments :: "string list \<Rightarrow> string list \<Rightarrow> string list" where
  "relative_segments (a # as) (b # bs) =
     (if a = b then relative_segments as bs else replicate (length (a # as)) ''..'' @ b # bs)"
| "relative_segments as bs = replicate (length as) ''..'' @ bs"

definition path_relative :: "string \<Rightarrow> string \<Rightarrow> string \<Rightarrow> string" where
  "path_relative cwd p q = js_join ''/'' (relative_segments (path_resolve cwd p) (path_resolve cwd q))"

definition resolveDelegationCwd ::
  "team_env \<Rightarrow> http_session option \<Rightarrow> string option \<Rightarrow> string" where
  "resolveDelegationCwd env session requestedCwd =
     (case map_option hs_cwd session of
        None \<Rightarrow> orDefault requestedCwd (oc_defaultCwd (te_config env))
      | Some sessionCwd \<Rightarrow>
          if sessionCwd = [] then orDefault requestedCwd (oc_defaultCwd (te_config env))
          else if \<not> truthy requestedCwd then sessionCwd
          else let relative = path_relative (te_processCwd env) sessionCwd (the requestedCwd);
                   insideSessionRepo = (relative = [] \<or> \<not> startsWith relative ''..'' \<and> \<not> startsWith relative ''/'')
               in if insideSessionRepo then the requestedCwd else sessionCwd)"

definition resolveSessionCwd :: "team_env \<Rightarrow> nat \<Rightarrow> string \<Rightarrow> string \<Rightarrow> string" where
  "resolveSessionCwd env n sessionId fallbackCwd =
     orDefault (map_option hs_cwd (te_sessions env n sessionId)) fallbackCwd"

definition hasKnownSessionId :: "string \<Rightarrow> bool" where
  "hasKnownSessionId sessionId = (trim sessionId \<noteq> [] \<and> sessionId \<noteq> ''unknown'')"

section \<open>The name of a delegated agent on the team\<close>

definition TEAM_LEAD_SPECIALIST_ID :: string where
  "TEAM_LEAD_SPECIALIST_ID = ''team-agent-lead''"

definition TEAM_RUNTIME_LABELS :: "(string, string list) omap" where
  "TEAM_RUNTIME_LABELS =
     [(''team-researcher'', [''Alex'', ''Sam'', ''Jack'', ''Tina'', ''Eric'']),
      (''team-frontend-dev'', [''Lee'', ''Taylor'', ''Felix'', ''Jay'', ''Robin'']),
      (''team-backend-dev'', [''Jimmy'', ''Bill'', ''Robin'', ''James'', ''Jason'']),
      (''team-qa'', [''Chris'', ''Terry'', ''Leo'', ''Ben'', ''David'']),
      (''team-ux-designer'', [''Kelly'', ''Kerry'', ''Emma'', ''Alice'']),
      (''team-code-reviewer'', [''Mark'', ''Ryan'', ''Daniel'', ''Ray'', ''Kim'']),
      (''team-operations'', [''Emily'', ''Ben'', ''Olivia'', ''Grace'', ''Ivan'']),
      (''team-general-engineer'', [''Nick'', ''Cindy'', ''Hunk'', ''Sarah'', ''Chloe''])]"

definition roster_text :: "task \<Rightarrow> string option \<Rightarrow> string" where
  "roster_text t additionalInstructions = toLowerCase (js_join '' ''
     [tk_title t, tk_objective t, orDefault (tk_scope t) [], js_join '' '' (orDefault (tk_acceptanceCriteria t) []),
      js_join '' '' (orDefault (tk_testCases t) []), orDefault additionalInstructions []])"

definition mentions :: "string \<Rightarrow> string list \<Rightarrow> bool" where
  "mentions txt words = list_ex (strIncludes txt) words"

definition inferRosterRoleId :: "task \<Rightarrow> string \<Rightarrow> string option \<Rightarrow> string option" where
  "inferRosterRoleId t specialistId additionalInstructions =
     (let s = roster_text t additionalInstructions in
      if startsWith specialistId ''team-'' then Some specialistId
      else if mentions s [''research''] then Some ''team-researcher''
      else if mentions s [''frontend'', ''react'', ''next.js'', ''tailwind'', ''ui ''] then Some ''team-frontend-dev''
      else if mentions s [''backend'', ''api'', ''database'', ''service''] then Some ''team-backend-dev''
      else if mentions s [''ux'', ''design'', ''accessibility''] then Some ''team-ux-designer''
      else if mentions s [''review'', ''risk'', ''bug''] then Some ''team-code-reviewer''
      else if mentions s [''qa'', ''test'', ''verify'', ''validation''] then Some ''team-qa''
      else if mentions s [''deploy'', ''ci'', ''infra'', ''monitor'', ''release''] then Some ''team-operations''
      else if specialistId = ''gate'' then Some ''team-qa''
      else if specialistId = ''crafter'' \<or> specialistId = ''developer'' then Some ''team-general-engineer''
      else None)"

text \<open>The labels that agents of a role have, without repetitions, and the label of the next one.\<close>

definition used_labels :: "string \<Rightarrow> agent list \<Rightarrow> string list" where
  "used_labels rosterRoleId agents = uniq (filter (\<lambda>l. l \<noteq> [])
     (map_some (\<lambda>a. om_get (ag_metadata a) ''displayLabel'')
       (filter (\<lambda>a. om_get (ag_metadata a) ''rosterRoleId'' = Some rosterRoleId) agents)))"

definition next_label :: "string list \<Rightarrow> string list \<Rightarrow> string" where
  "next_label labels used =
     (let fallbackIndex = length used
      in case List.find (\<lambda>l. l \<notin> set used) labels of
           Some l \<Rightarrow> l
         | None \<Rightarrow> labels ! (fallbackIndex mod length labels) @ '' '' @ show_nat (fallbackIndex div length labels + 1))"

definition buildTeamRuntimeMetadata ::
  "team_env \<Rightarrow> string \<Rightarrow> string \<Rightarrow> task \<Rightarrow> string \<Rightarrow> string option \<Rightarrow> (string, string) omap option team" where
  "buildTeamRuntimeMetadata env workspaceId callerAgentId t specialistId additionalInstructions =
     andThen (get_agent env callerAgentId) (\<lambda>caller.
       if Option.bind caller (\<lambda>a. om_get (ag_metadata a) ''specialist'') \<noteq> Some TEAM_LEAD_SPECIALIST_ID then ret None
       else case inferRosterRoleId t specialistId additionalInstructions of
           None \<Rightarrow> ret None
         | Some rosterRoleId \<Rightarrow> if rosterRoleId = [] then ret None else
             (case orDefault (om_get TEAM_RUNTIME_LABELS rosterRoleId) [] of
                [] \<Rightarrow> ret (Some [(''rosterRoleId'', rosterRoleId)])
              | l # ls \<Rightarrow> andThen (store_call env (gets (\<lambda>w. agents_by_workspace (tw_agents w) workspaceId))) (\<lambda>agents.
                  ret (Some [(''rosterRoleId'', rosterRoleId),
                    (''displayLabel'', next_label (l # ls) (used_labels rosterRoleId agents))]))))"

section \<open>Depth\<close>

text \<open>src/src/core/orchestration/delegation-depth.ts on the store: an agent that cannot be read has depth 0.\<close>

definition getDelegationDepth :: "team_env \<Rightarrow> string \<Rightarrow> int team" where
  "getDelegationDepth env agentId =
     catching (andThen (get_agent env agentId) (\<lambda>a. ret (depth_of a))) (\<lambda>e. ret 0)"

definition checkDelegationDepth :: "team_env \<Rightarrow> string \<Rightarrow> depth_check team" where
  "checkDelegationDepth env agentId = andThen (getDelegationDepth env agentId) (\<lambda>d. ret (check_depth d))"

definition resolveSpecialist :: "team_env \<Rightarrow> string \<Rightarrow> specialist option" where
  "resolveSpecialist env input = (case parse_role input of
       Some role \<Rightarrow> getSpecialistByRole env role
     | None \<Rightarrow> getSpecialistById env input)"

section \<open>The files and events of a delegated agent\<close>

definition dispatchChildAgentEvent :: "string \<Rightarrow> json \<Rightarrow> unit team" where
  "dispatchChildAgentEvent agentId event =
     andThen (gets (\<lambda>w. orDefault (om_get (tw_subscribers w) agentId) [])) (\<lambda>handlers.
       for_each (\<lambda>h. note_effect (AgentEventTo agentId h event)) handlers)"

definition cleanupReportWatcher :: "string \<Rightarrow> unit team" where
  "cleanupReportWatcher agentId =
     andThen (gets (\<lambda>w. om_get (tw_watchers w) agentId)) (\<lambda>found. case found of
       None \<Rightarrow> ret ()
     | Some cwd \<Rightarrow> next_do (note_effect (WatchStopped agentId cwd))
         (modify (\<lambda>w. w\<lparr>tw_watchers := om_del (tw_watchers w) agentId\<rparr>)))"

definition watchForReportFiles :: "team_env \<Rightarrow> string \<Rightarrow> string \<Rightarrow> unit team" where
  "watchForReportFiles env agentId cwd =
     next_do (cleanupReportWatcher agentId)
       (when_do (\<not> te_watchFails env cwd)
         (next_do (note_effect (WatchStarted agentId cwd))
           (modify (\<lambda>w. w\<lparr>tw_watchers := om_set (tw_watchers w) agentId cwd\<rparr>))))"

definition is_report_file :: "string \<Rightarrow> bool" where
  "is_report_file filename = (startsWith filename ''.report_to_parent_'' \<and> startsWith (rev filename) (rev ''.json''))"

text \<open>
  A change of a file in a directory calls every watcher on it; each that recognises a report starts to
  process it, without awaiting.
\<close>

definition on_file_change :: "string \<Rightarrow> string \<Rightarrow> unit team" where
  "on_file_change dir filename =
     andThen (gets (\<lambda>w. map fst (filter (\<lambda>(agentId, cwd). cwd = dir) (tw_watchers w)))) (\<lambda>agents.
       for_each (\<lambda>agentId. when_do (is_report_file filename) (note_effect (ReportFileSeen agentId (dir @ ''/'' @ filename)))) agents)"

definition report_of_file :: "string \<Rightarrow> child_record \<Rightarrow> report_file \<Rightarrow> completion_report" where
  "report_of_file agentId rec f =
     \<lparr>rt_agentId = orDefault (rf_agentId f) agentId, rt_taskId = orDefault (rf_taskId f) (cr_taskId rec),
      rt_summary = orDefault (rf_summary f) ''Completed (from report file)'',
      rt_filesModified = rf_filesModified f, rt_verificationResults = rf_verificationResults f,
      rt_success = orDefault (rf_success f) True\<rparr>"

text \<open>What is thrown is only logged.\<close>

definition processReportFile :: "team_env \<Rightarrow> string \<Rightarrow> string \<Rightarrow> unit team" where
  "processReportFile env agentId filePath =
     catching (next_do (tpause env) (andThen (ask (\<lambda>n. te_reportFile env n filePath)) (\<lambda>content.
       case content of
         None \<Rightarrow> throw ''cannot read the report''
       | Some f \<Rightarrow> andThen (gets (\<lambda>w. om_get (tw_childAgents w) agentId)) (\<lambda>found. case found of
           None \<Rightarrow> ret ()
         | Some r \<Rightarrow> andThen (gets (record_at r)) (\<lambda>rec.
             next_do (reportToParent env (orDefault (rf_agentId f) agentId) (report_of_file agentId rec f))
             (next_do (note_effect (ReportFileRemoved filePath)) (cleanupReportWatcher agentId)))))))
     (\<lambda>e. ret ())"

section \<open>Completion\<close>

definition set_record :: "nat \<Rightarrow> (child_record \<Rightarrow> child_record) \<Rightarrow> unit team" where
  "set_record r f = modify (\<lambda>w. w\<lparr>tw_records := (tw_records w)[r := f (tw_records w ! r)]\<rparr>)"

definition attempt :: "'a team \<Rightarrow> (string + 'a) team" where
  "attempt m = catching (andThen m (\<lambda>x. ret (Inr x))) (\<lambda>e. ret (Inl e))"

definition buildCompletionMemorySnapshot ::
  "string \<Rightarrow> child_record \<Rightarrow> snapshot_source \<Rightarrow> task option \<Rightarrow> completion_snapshot" where
  "buildCompletionMemorySnapshot childAgentId rec source t =
     \<lparr>cs_sessionId = cr_sessionId rec, cs_role = cr_role rec, cs_agentId = childAgentId, cs_taskId = cr_taskId rec,
      cs_taskTitle = orDefault (map_option tk_title t) (cr_taskId rec),
      cs_status = orDefault (map_option (\<lambda>x. task_status_str (tk_status x)) t) ''unknown'',
      cs_summary = normalizeOptionalText (Option.bind t tk_completionSummary),
      cs_verificationVerdict = normalizeNullableText (map_option verdict_str (Option.bind t tk_verificationVerdict)),
      cs_verificationReport = normalizeNullableText (Option.bind t tk_verificationReport),
      cs_snapshotSource = source\<rparr>"

definition write_memory :: "team_env \<Rightarrow> string \<Rightarrow> memory_entry \<Rightarrow> unit team" where
  "write_memory env cwd e =
     next_do (tpause env) (andThen (ask (te_memoryFails env)) (\<lambda>failed.
       if failed then throw ''cannot write the memory''
       else next_do (note_effect (MemoryWritten cwd e)) (tpause env)))"

text \<open>
  The writes for an agent queue up behind each other; \<open>tw_memoryWrites\<close> has the last of them, named by
  the await at which it was queued.
\<close>

definition merge_and_write :: "team_env \<Rightarrow> string \<Rightarrow> string \<Rightarrow> completion_snapshot \<Rightarrow> unit team" where
  "merge_and_write env childAgentId cwd incoming =
     andThen (gets (\<lambda>w. om_get (tw_snapshots w) childAgentId)) (\<lambda>current.
       let nextSnapshot = mergeCompletionSnapshot current incoming
       in if completionSnapshotsEqual current (Some nextSnapshot) then ret ()
          else catching (next_do (write_memory env cwd (MemCompletion nextSnapshot))
                 (modify (\<lambda>w. w\<lparr>tw_snapshots := om_set (tw_snapshots w) childAgentId nextSnapshot\<rparr>)))
               (\<lambda>e. ret ()))"

definition recordChildCompletionMemory :: "team_env \<Rightarrow> string \<Rightarrow> nat \<Rightarrow> snapshot_source \<Rightarrow> unit team" where
  "recordChildCompletionMemory env childAgentId r source =
     andThen (gets (record_at r)) (\<lambda>rec.
     andThen (catching (get_task env (cr_taskId rec)) (\<lambda>e. ret None)) (\<lambda>t.
     andThen (gets tw_awaits) (\<lambda>ticket.
       next_do (modify (\<lambda>w. w\<lparr>tw_memoryWrites := om_set (tw_memoryWrites w) childAgentId ticket\<rparr>))
       (next_do (tpause env)
       (next_do (merge_and_write env childAgentId (cr_cwd rec)
          (buildCompletionMemorySnapshot childAgentId rec source t))
       (next_do (tpause env)
       (next_do (modify (\<lambda>w. if om_get (tw_memoryWrites w) childAgentId = Some ticket
            then w\<lparr>tw_memoryWrites := om_del (tw_memoryWrites w) childAgentId\<rparr> else w))
          (tpause env))))))))"

section \<open>Waking the agent that delegated\<close>

definition deliver_prompt ::
  "team_env \<Rightarrow> nat \<Rightarrow> string \<Rightarrow> wake_message \<Rightarrow> string option \<Rightarrow> unit team" where
  "deliver_prompt env r sessionId msg workspaceId =
     next_do (note_effect (ParentPrompted r sessionId msg workspaceId))
     (next_do (tpause env) (andThen (ask (\<lambda>n. te_promptFails env n sessionId)) (\<lambda>failure. case failure of
        Some e \<Rightarrow> throw e
      | None \<Rightarrow> next_do (note_effect (ParentWoken r sessionId msg)) (tpause env))))"

text \<open>A session without a live process is only reported on the console.\<close>

definition sendPromptToSession :: "team_env \<Rightarrow> nat \<Rightarrow> string \<Rightarrow> wake_message \<Rightarrow> string option \<Rightarrow> unit team" where
  "sendPromptToSession env r sessionId msg fallbackWorkspaceId =
     andThen (ask (\<lambda>n. (te_adapterOf env n sessionId, te_adapterAlive env n sessionId,
         te_workspaceAgent env n sessionId, te_processReady env n sessionId,
         nullish (map_option hs_workspaceId (te_sessions env n sessionId)) fallbackWorkspaceId)))
       (\<lambda>(adapter, alive, workspaceAgent, ready, workspaceId).
         case adapter of
           Some kind \<Rightarrow>
             if alive then deliver_prompt env r sessionId msg (if kind = OpencodeAdapter then workspaceId else None)
             else note_effect (ParentUnreachable r sessionId)
         | None \<Rightarrow>
             if workspaceAgent then deliver_prompt env r sessionId msg None
             else if ready then deliver_prompt env r sessionId msg None
             else note_effect (ParentUnreachable r sessionId))"

definition status_text :: "task option \<Rightarrow> string" where
  "status_text t = orDefault (map_option (\<lambda>x. task_status_str (tk_status x)) t) ''unknown''"

definition group_at :: "nat \<Rightarrow> team_world \<Rightarrow> delegation_group" where
  "group_at g w = tw_groupObjects w ! g"

definition set_group :: "nat \<Rightarrow> (delegation_group \<Rightarrow> delegation_group) \<Rightarrow> unit team" where
  "set_group g f = modify (\<lambda>w. w\<lparr>tw_groupObjects := (tw_groupObjects w)[g := f (tw_groupObjects w ! g)]\<rparr>)"

text \<open>The lines on one child of a group.\<close>

definition child_lines :: "team_env \<Rightarrow> string \<Rightarrow> report_line list team" where
  "child_lines env childId =
     andThen (gets (\<lambda>w. map_option (\<lambda>r. record_at r w) (om_get (tw_childAgents w) childId))) (\<lambda>found.
       case found of
         None \<Rightarrow> ret []
       | Some rec \<Rightarrow>
           andThen (get_agent env childId) (\<lambda>a. andThen (get_task env (cr_taskId rec)) (\<lambda>t.
             ret (ReportLine (orDefault (map_option ag_name a) childId) (cr_role rec)
                    (orDefault (map_option tk_title t) (cr_taskId rec)) (map_option tk_status t)
                  # (case Option.bind t tk_completionSummary of
                       None \<Rightarrow> [] | Some s \<Rightarrow> if s = [] then [] else [SummaryLine s])))))"

text \<open>
  The loop over the children of a group. It reads the list of the group as it is at each round, so a
  child that joins meanwhile is reported as well; the fuel bounds the number of rounds.
\<close>

fun group_lines :: "team_env \<Rightarrow> nat \<Rightarrow> nat \<Rightarrow> nat \<Rightarrow> report_line list team" where
  "group_lines env g i 0 = throw ''out of fuel''"
| "group_lines env g i (Suc fuel) =
     andThen (gets (\<lambda>w. dg_childAgentIds (group_at g w))) (\<lambda>ids.
       if i \<ge> length ids then ret []
       else andThen (child_lines env (ids ! i)) (\<lambda>ls.
         andThen (group_lines env g (Suc i) fuel) (\<lambda>rest. ret (ls @ rest))))"

definition group_message :: "team_env \<Rightarrow> string \<Rightarrow> wake_message team" where
  "group_message env groupId =
     andThen (gets (\<lambda>w. om_get (tw_groups w) groupId)) (\<lambda>found. case found of
       None \<Rightarrow> ret (GroupReport 0 [])
     | Some g \<Rightarrow> andThen (group_lines env g 0 (te_fuel env)) (\<lambda>ls.
         andThen (gets (\<lambda>w. length (dg_childAgentIds (group_at g w)))) (\<lambda>n. ret (GroupReport n ls))))"

definition agent_message :: "team_env \<Rightarrow> child_record \<Rightarrow> wake_message team" where
  "agent_message env rec =
     andThen (get_agent env (cr_agentId rec)) (\<lambda>a. andThen (get_task env (cr_taskId rec)) (\<lambda>t.
       ret (AgentReport (orDefault (map_option ag_name a) (cr_agentId rec)) (cr_role rec)
         (orDefault (map_option tk_title t) (cr_taskId rec)) (map_option tk_status t)
         (case Option.bind t tk_completionSummary of None \<Rightarrow> None | Some s \<Rightarrow> if s = [] then None else Some s)
         (Option.bind t tk_verificationVerdict)
         (case Option.bind t tk_verificationReport of None \<Rightarrow> None | Some s \<Rightarrow> if s = [] then None else Some s))))"

definition notify_completion :: "team_env \<Rightarrow> child_record \<Rightarrow> unit team" where
  "notify_completion env rec =
     andThen (get_task env (cr_taskId rec)) (\<lambda>t.
       note_effect (UiNotify (cr_parentSessionId rec)
         [(''sessionId'', JStr (cr_parentSessionId rec)),
          (''update'', JObj [(''sessionUpdate'', JStr ''task_completion''), (''taskId'', JStr (cr_taskId rec)),
             (''taskTitle'', JStr (orDefault (map_option tk_title t) (cr_taskId rec))),
             (''taskStatus'', JStr (status_text t)),
             (''completionSummary'', js_text (Option.bind t tk_completionSummary)),
             (''agentId'', JStr (cr_agentId rec)), (''agentRole'', JStr (agent_role_str (cr_role rec)))])]))"

definition wakeParent :: "team_env \<Rightarrow> nat \<Rightarrow> string option \<Rightarrow> unit team" where
  "wakeParent env r groupId =
     andThen (gets (record_at r)) (\<lambda>rec.
     andThen (case groupId of Some g \<Rightarrow> group_message env g | None \<Rightarrow> agent_message env rec) (\<lambda>msg.
     andThen (gets tw_notifies) (\<lambda>notifies.
       next_do (when_do (notifies \<and> groupId = None) (notify_completion env rec))
         (sendPromptToSession env r (cr_parentSessionId rec) msg (Some (cr_workspaceId rec))))))"

definition save_outcome :: "team_env \<Rightarrow> child_record \<Rightarrow> unit team" where
  "save_outcome env rec =
     next_do (tpause env) (andThen (ask (\<lambda>n. te_hasTraces env n (cr_cwd rec) (cr_sessionId rec))) (\<lambda>traces.
       when_do traces (next_do (tpause env) (next_do (note_effect (OutcomeSaved (cr_cwd rec) (cr_sessionId rec))) (tpause env)))))"

text \<open>The first group, in the order of the map, that has the child; its entry is updated.\<close>

definition find_group :: "string \<Rightarrow> team_world \<Rightarrow> (string \<times> nat) option" where
  "find_group childAgentId w =
     List.find (\<lambda>(groupId, g). childAgentId \<in> set (dg_childAgentIds (group_at g w))) (tw_groups w)"

definition complete_in_group :: "string \<Rightarrow> delegation_group \<Rightarrow> delegation_group" where
  "complete_in_group childAgentId g = g\<lparr>dg_completedAgentIds :=
     (if childAgentId \<in> set (dg_completedAgentIds g) then dg_completedAgentIds g
      else dg_completedAgentIds g @ [childAgentId])\<rparr>"

definition group_done :: "delegation_group \<Rightarrow> bool" where
  "group_done g = (length (dg_completedAgentIds g) \<ge> length (dg_childAgentIds g))"

definition close_group :: "string \<Rightarrow> string \<Rightarrow> unit team" where
  "close_group groupId parentAgentId = modify (\<lambda>w. w\<lparr>tw_groups := om_del (tw_groups w) groupId,
     tw_activeGroup := om_del (tw_activeGroup w) parentAgentId\<rparr>)"

definition complete_child :: "team_env \<Rightarrow> string \<Rightarrow> nat \<Rightarrow> unit team" where
  "complete_child env childAgentId r =
     andThen (gets (find_group childAgentId)) (\<lambda>found. case found of
       None \<Rightarrow> wakeParent env r None
     | Some (groupId, g) \<Rightarrow>
         next_do (set_group g (complete_in_group childAgentId))
         (andThen (gets (\<lambda>w. group_done (group_at g w))) (\<lambda>over.
           when_do over (next_do (wakeParent env r (Some groupId))
             (andThen (gets (record_at r)) (\<lambda>rec. close_group groupId (cr_parentAgentId rec)))))))"

definition forget_child :: "string \<Rightarrow> unit team" where
  "forget_child childAgentId =
     next_do (cleanupReportWatcher childAgentId)
       (modify (\<lambda>w. w\<lparr>tw_bridges := om_del (tw_bridges w) childAgentId,
          tw_subscribers := om_del (tw_subscribers w) childAgentId\<rparr>))"

definition handleChildCompletion :: "team_env \<Rightarrow> string \<Rightarrow> nat \<Rightarrow> unit team" where
  "handleChildCompletion env childAgentId r =
     andThen (gets (record_at r)) (\<lambda>rec.
       next_do (catching (andThen (get_task env (cr_taskId rec)) (\<lambda>t. ret ())) (\<lambda>e. ret ()))
       (next_do (save_outcome env rec)
       (next_do (forget_child childAgentId)
          (complete_child env childAgentId r))))"

text \<open>
  The completion of a child runs once at a time: \<open>tw_completing\<close> has the record whose completion is in
  flight. A second source waits for it; whether it fails goes to the console only.
\<close>

definition run_completion :: "team_env \<Rightarrow> string \<Rightarrow> nat \<Rightarrow> unit team" where
  "run_completion env childAgentId r =
     next_do (modify (\<lambda>w. w\<lparr>tw_completing := om_set (tw_completing w) childAgentId r\<rparr>))
     (andThen (attempt (handleChildCompletion env childAgentId r)) (\<lambda>outcome.
       next_do (tpause env)
       (next_do (when_do (\<not> isl outcome) (set_record r (\<lambda>c. c\<lparr>cr_completionHandled := True\<rparr>)))
       (next_do (tpause env)
       (next_do (modify (\<lambda>w. w\<lparr>tw_completing := om_del (tw_completing w) childAgentId\<rparr>))
       (next_do (tpause env)
         (case outcome of Inl e \<Rightarrow> throw e | Inr u \<Rightarrow> ret ())))))))"

definition finalizeChildCompletion :: "team_env \<Rightarrow> string \<Rightarrow> nat \<Rightarrow> snapshot_source \<Rightarrow> unit team" where
  "finalizeChildCompletion env childAgentId r source =
     next_do (recordChildCompletionMemory env childAgentId r source)
       (andThen (gets (\<lambda>w. (cr_completionHandled (record_at r w), om_get (tw_completing w) childAgentId)))
         (\<lambda>(handled, inFlight).
           if handled then ret ()
           else if inFlight \<noteq> None then tpause env
           else run_completion env childAgentId r))"

definition scheduleSessionEndCompletion :: "team_env \<Rightarrow> string \<Rightarrow> nat \<Rightarrow> unit team" where
  "scheduleSessionEndCompletion env childAgentId r =
     next_do (tpause env) (andThen (gets (\<lambda>w. cr_completionHandled (record_at r w))) (\<lambda>handled.
       if handled then ret () else finalizeChildCompletion env childAgentId r SnapSessionEnd))"

definition auto_report :: "string \<Rightarrow> child_record \<Rightarrow> completion_report" where
  "auto_report childAgentId rec =
     \<lparr>rt_agentId = childAgentId, rt_taskId = cr_taskId rec,
      rt_summary = ''Reported completion back to lead (auto-submitted by orchestrator).'',
      rt_filesModified = None, rt_verificationResults = None, rt_success = True\<rparr>"

definition autoReportIfNeeded :: "team_env \<Rightarrow> string \<Rightarrow> unit team" where
  "autoReportIfNeeded env childAgentId =
     next_do (tpause env) (andThen (gets (\<lambda>w. om_get (tw_childAgents w) childAgentId)) (\<lambda>found. case found of
       None \<Rightarrow> ret ()
     | Some r \<Rightarrow> andThen (gets (record_at r)) (\<lambda>rec.
         if cr_completionHandled rec then ret ()
         else andThen (get_agent env childAgentId) (\<lambda>a. case a of
             None \<Rightarrow> ret ()
           | Some ag \<Rightarrow> if ag_status ag = AS_COMPLETED then ret ()
               else next_do (reportToParent env childAgentId (auto_report childAgentId rec))
                 (finalizeChildCompletion env childAgentId r SnapAuto)))))"

definition handleReportSubmitted :: "team_env \<Rightarrow> string \<Rightarrow> unit team" where
  "handleReportSubmitted env childAgentId =
     andThen (gets (\<lambda>w. om_get (tw_childAgents w) childAgentId)) (\<lambda>found. case found of
       None \<Rightarrow> ret ()
     | Some r \<Rightarrow> finalizeChildCompletion env childAgentId r SnapReported)"

definition handleChildError :: "team_env \<Rightarrow> string \<Rightarrow> string \<Rightarrow> unit team" where
  "handleChildError env agentId failure =
     andThen (gets (\<lambda>w. om_get (tw_childAgents w) agentId)) (\<lambda>found. case found of
       None \<Rightarrow> ret ()
     | Some r \<Rightarrow> andThen (gets (record_at r)) (\<lambda>rec.
         next_do (set_agent_status env agentId AS_ERROR)
         (andThen (get_task env (cr_taskId rec)) (\<lambda>t.
           next_do (case t of
               None \<Rightarrow> ret ()
             | Some x \<Rightarrow> andThen (gets (time_of env)) (\<lambda>now.
                 save_task env (x\<lparr>tk_status := TS_NEEDS_FIX, tk_completionSummary := Some (''Error: '' @ failure),
                   tk_updatedAt := now\<rparr>)))
           (next_do (emit_team env AGENT_ERROR agentId (cr_workspaceId rec)
              [(''parentAgentId'', JStr (cr_parentAgentId rec)), (''error'', JStr failure)])
           (finalizeChildCompletion env agentId r SnapError))))))"

text \<open>
  The two handlers the constructor puts on the bus. The error of a lifecycle event is text; another
  value or none counts as missing.
\<close>

definition ev_text :: "agent_event \<Rightarrow> string \<Rightarrow> string option" where
  "ev_text event k = (case jprop (JObj (ev_data event)) k of JStr s \<Rightarrow> Some s | _ \<Rightarrow> None)"

definition on_bus_event :: "team_env \<Rightarrow> agent_event \<Rightarrow> unit team" where
  "on_bus_event env event =
     (if ev_type event = REPORT_SUBMITTED then handleReportSubmitted env (ev_agentId event)
      else andThen (gets (\<lambda>w. om_get (tw_childAgents w) (ev_agentId event))) (\<lambda>found.
        if found = None then ret ()
        else if ev_type event \<in> {AGENT_COMPLETED, AGENT_IDLE} then autoReportIfNeeded env (ev_agentId event)
        else if ev_type event \<in> {AGENT_FAILED, AGENT_TIMEOUT}
        then handleChildError env (ev_agentId event)
               (orDefault (nullish (ev_text event ''error'') (ev_text event ''reason'')) ''Agent lifecycle failure'')
        else ret ()))"

end
