(* ===== verification/DelegationSpawn.thy ===== *)
theory DelegationSpawn
  imports Delegation
begin

text \<open>
  The start of a delegated agent (\<open>delegateTaskWithSpawn\<close>, \<open>spawnChildAgent\<close>) of
  src/src/core/orchestration/orchestrator.ts, the model and the effort its session gets
  (src/src/core/acp/session-config-apply.ts, delegation-model-inheritance.ts), the updates its process
  sends, and the calls that the rest of the program makes.
\<close>

section \<open>Model and effort of a session\<close>

text \<open>What is thrown while the options are read or set becomes a warning; the warnings are texts for the log.\<close>

definition set_option ::
  "team_env \<Rightarrow> string \<Rightarrow> string \<Rightarrow> string \<Rightarrow> config_option list \<Rightarrow> config_option list team" where
  "set_option env sessionId configId value options =
     next_do (note_effect (OptionSet sessionId configId value))
     (andThen (ask (\<lambda>n. te_setOption env n sessionId configId value)) (\<lambda>answer.
        next_do (tpause env) (ret (orDefault answer options))))"

definition apply_model ::
  "team_env \<Rightarrow> string \<Rightarrow> string option \<Rightarrow> config_option list \<Rightarrow> config_option list team" where
  "apply_model env sessionId model options =
     (let lib = te_json env; requestedModel = map_option trim model;
          wantedModelId = orDefault (map_option mv_model (parseModelValue lib (js_text requestedModel))) (orDefault requestedModel [])
      in if \<not> truthy requestedModel \<or> findOption (Some options) MODEL_CONFIG_ID = None
            \<or> sm_model (summarizeConfigOptions lib (Some options)) = Some wantedModelId then ret options
         else case resolveModelValue lib (Some options) (the requestedModel) of
             None \<Rightarrow> ret options
           | Some v \<Rightarrow> if v = [] then ret options else set_option env sessionId MODEL_CONFIG_ID v options)"

definition apply_effort ::
  "team_env \<Rightarrow> string \<Rightarrow> string option \<Rightarrow> config_option list \<Rightarrow> config_option list team" where
  "apply_effort env sessionId effort options =
     (case effort of
        None \<Rightarrow> ret options
      | Some requestedEffort \<Rightarrow> (case findOption (Some options) REASONING_EFFORT_CONFIG_ID of
          None \<Rightarrow> ret options
        | Some effortOption \<Rightarrow> if co_currentValue effortOption = JStr requestedEffort then ret options
            else set_option env sessionId REASONING_EFFORT_CONFIG_ID requestedEffort options))"

definition applySessionConfig ::
  "team_env \<Rightarrow> string \<Rightarrow> string option \<Rightarrow> string option \<Rightarrow> config_summary team" where
  "applySessionConfig env sessionId model effort =
     andThen (ask (\<lambda>n. te_configOptions env n sessionId)) (\<lambda>found. case found of
       None \<Rightarrow> ret \<lparr>sm_model = None, sm_reasoningEffort = None\<rparr>
     | Some options \<Rightarrow> andThen (apply_model env sessionId model options) (\<lambda>options1.
         andThen (apply_effort env sessionId effort options1) (\<lambda>options2.
           ret (summarizeConfigOptions (te_json env) (Some options2)))))"

definition applyChildModelConfig :: "team_env \<Rightarrow> string \<Rightarrow> model_plan \<Rightarrow> config_summary team" where
  "applyChildModelConfig env sessionId plan =
     (if \<not> truthy (mp_model plan) \<and> mp_reasoningEffort plan = None
      then ret \<lparr>sm_model = None, sm_reasoningEffort = None\<rparr>
      else andThen (applySessionConfig env sessionId (mp_model plan) (mp_reasoningEffort plan)) (\<lambda>applied.
        next_do (tpause env) (ret \<lparr>sm_model = nonempty (nullish (sm_model applied) (mp_model plan)),
          sm_reasoningEffort = sm_reasoningEffort applied\<rparr>)))"

section \<open>The process of a delegated agent\<close>

definition isWorkspaceProvider :: "string \<Rightarrow> bool" where
  "isWorkspaceProvider provider = (provider \<in> {''workspace'', ''workspace-agent'', ''routa-native''})"

definition kind_of_provider :: "string \<Rightarrow> session_kind" where
  "kind_of_provider provider =
     (if isWorkspaceProvider provider then WorkspaceSession
      else if isClaudeStreamJsonProvider provider then ClaudeSession
      else if provider = ''claude-code-sdk'' then SdkSession else AcpSession)"

text \<open>\<open>makeStartedEvent\<close>, the first event of an agent, without its time.\<close>

definition started_event :: "string \<Rightarrow> string \<Rightarrow> json" where
  "started_event sessionId provider =
     JObj [(''type'', JStr ''agent_started''), (''sessionId'', JStr sessionId), (''provider'', JStr provider)]"

definition create_process :: "team_env \<Rightarrow> session_kind \<Rightarrow> string \<Rightarrow> string \<Rightarrow> string team" where
  "create_process env kind sessionId cwd =
     next_do (tpause env) (andThen (ask (\<lambda>n. te_createSession env n kind sessionId)) (\<lambda>answer. case answer of
       Inl e \<Rightarrow> throw e
     | Inr acpSessionId \<Rightarrow> next_do (note_effect (ProcessCreated kind sessionId cwd))
         (next_do (tpause env) (ret acpSessionId))))"

text \<open>The first prompt is sent without being awaited; its end is a call of its own.\<close>

definition prompt_child :: "team_env \<Rightarrow> session_kind \<Rightarrow> string \<Rightarrow> string \<Rightarrow> string \<Rightarrow> unit team" where
  "prompt_child env kind sessionId agentId initialPrompt =
     andThen (ask (\<lambda>n. te_hasProcess env n kind sessionId)) (\<lambda>running.
       when_do running (note_effect (ChildPrompted agentId sessionId initialPrompt)))"

record spawn_result =
  sw_sandboxId :: "string option"
  sw_config :: config_summary

definition no_config :: config_summary where
  "no_config = \<lparr>sm_model = None, sm_reasoningEffort = None\<rparr>"

text \<open>A record of the notifier is given to the processes of the workspace and of the SDK.\<close>

definition notifier_of :: "string \<Rightarrow> string \<Rightarrow> agent option \<Rightarrow> notifier" where
  "notifier_of agentId workspaceId a =
     \<lparr>nt_agentId = agentId, nt_workspaceId = workspaceId, nt_parentId = Option.bind a ag_parentId,
      nt_agentName = map_option ag_name a\<rparr>"

definition start_process ::
  "team_env \<Rightarrow> string \<Rightarrow> string \<Rightarrow> string \<Rightarrow> string \<Rightarrow> string \<Rightarrow> model_plan \<Rightarrow> spawn_result team" where
  "start_process env sessionId agentId provider cwd initialPrompt plan =
     (case kind_of_provider provider of
        WorkspaceSession \<Rightarrow>
          next_do (tpause env) (andThen (ask (te_sandbox env)) (\<lambda>sandbox. case sandbox of
            Inl e \<Rightarrow> throw e
          | Inr sandboxId \<Rightarrow> next_do (create_process env WorkspaceSession sessionId cwd)
              (next_do (prompt_child env WorkspaceSession sessionId agentId initialPrompt)
              (ret \<lparr>sw_sandboxId = sandboxId, sw_config = no_config\<rparr>))))
      | ClaudeSession \<Rightarrow>
          next_do (create_process env ClaudeSession sessionId cwd)
          (next_do (watchForReportFiles env agentId cwd)
          (next_do (prompt_child env ClaudeSession sessionId agentId initialPrompt)
          (ret \<lparr>sw_sandboxId = None, sw_config = no_config\<rparr>)))
      | SdkSession \<Rightarrow>
          next_do (create_process env SdkSession sessionId cwd)
          (next_do (prompt_child env SdkSession sessionId agentId initialPrompt)
          (ret \<lparr>sw_sandboxId = None, sw_config = no_config\<rparr>))
      | AcpSession \<Rightarrow>
          next_do (create_process env AcpSession sessionId cwd)
          (andThen (applyChildModelConfig env sessionId plan) (\<lambda>config.
          next_do (prompt_child env AcpSession sessionId agentId initialPrompt)
          (ret \<lparr>sw_sandboxId = None, sw_config = config\<rparr>))))"

definition spawnChildAgent ::
  "team_env \<Rightarrow> string \<Rightarrow> string \<Rightarrow> string \<Rightarrow> string \<Rightarrow> string \<Rightarrow> string \<Rightarrow> model_plan \<Rightarrow> spawn_result team" where
  "spawnChildAgent env sessionId agentId provider cwd initialPrompt workspaceId plan =
     next_do (modify (\<lambda>w. w\<lparr>tw_bridges := om_set (tw_bridges w) agentId sessionId\<rparr>))
     (next_do (dispatchChildAgentEvent agentId (started_event sessionId provider))
     (andThen (get_agent env agentId) (\<lambda>a.
       if workspaceId = [] then throw (''workspaceId is required to spawn child agent '' @ agentId)
       else start_process env sessionId agentId provider cwd initialPrompt plan)))"

section \<open>Delegating a task\<close>

text \<open>\<open>s.replace(/\\s+/g, "-")\<close>\<close>

fun dash_spaces :: "string \<Rightarrow> string" where
  "dash_spaces [] = []"
| "dash_spaces (c # s) = (if is_ws c
     then (case s of d # _ \<Rightarrow> if is_ws d then dash_spaces s else CHR ''-'' # dash_spaces s | [] \<Rightarrow> ''-'')
     else c # dash_spaces s)"

definition bullet_list :: "string \<Rightarrow> string list \<Rightarrow> string" where
  "bullet_list mark items = js_join nl (map (\<lambda>c. ''- '' @ mark @ c @ mark) items)"

definition task_content :: "task \<Rightarrow> string" where
  "task_content t =
     ''## Objective'' @ nl @ tk_objective t @ nl
     @ (if truthy (tk_scope t) then nl @ ''## Scope'' @ nl @ the (tk_scope t) @ nl else [])
     @ (case tk_acceptanceCriteria t of None \<Rightarrow> []
        | Some cs \<Rightarrow> nl @ ''## Definition of Done'' @ nl @ bullet_list [] cs @ nl)
     @ (case tk_testCases t of None \<Rightarrow> []
        | Some cs \<Rightarrow> nl @ ''## Test Cases'' @ nl @ bullet_list [] cs @ nl)
     @ (case tk_verificationCommands t of None \<Rightarrow> []
        | Some cs \<Rightarrow> nl @ ''## Verification'' @ nl @ bullet_list ''`'' cs @ nl)"

definition agent_name_of :: "specialist \<Rightarrow> task \<Rightarrow> string" where
  "agent_name_of s t = sp_id s @ ''-'' @ toLowerCase (dash_spaces (take 30 (tk_title t)))"

text \<open>The digest of the caller's traces and the learned playbook, when there are any, join the instructions.\<close>

definition with_digest :: "string option \<Rightarrow> string option \<Rightarrow> string option" where
  "with_digest context digest = (if \<not> truthy digest then context
     else if truthy context then Some (the context @ nl @ nl @ the digest) else digest)"

definition with_playbook :: "string option \<Rightarrow> string option \<Rightarrow> string option" where
  "with_playbook context playbook = (if \<not> truthy playbook then context
     else if truthy context then Some (the playbook @ nl @ nl @ the context) else playbook)"

definition enriched_context ::
  "team_env \<Rightarrow> string \<Rightarrow> string \<Rightarrow> string \<Rightarrow> agent_role \<Rightarrow> string option \<Rightarrow> string option team" where
  "enriched_context env cwd callerSessionId fingerprint role additionalInstructions =
     next_do (tpause env) (andThen (ask (\<lambda>n. te_traceDigest env n cwd callerSessionId role)) (\<lambda>digest.
     next_do (tpause env) (andThen (ask (\<lambda>n. te_playbook env n cwd fingerprint role)) (\<lambda>playbook.
       ret (with_playbook (with_digest additionalInstructions digest) playbook)))))"

text \<open>The group that the caller's next children join: the open one or a new one.\<close>

definition join_group :: "team_env \<Rightarrow> string \<Rightarrow> string \<Rightarrow> string \<Rightarrow> unit team" where
  "join_group env callerAgentId callerSessionId agentId =
     andThen (gets (\<lambda>w. om_get (tw_activeGroup w) callerAgentId)) (\<lambda>active.
     andThen (if truthy active then ret (the active)
       else andThen (uuidv4 env) (\<lambda>u.
         let groupId = ''delegation-group-'' @ u in
         next_do (modify (\<lambda>w. w\<lparr>tw_activeGroup := om_set (tw_activeGroup w) callerAgentId groupId,
           tw_groups := om_set (tw_groups w) groupId (length (tw_groupObjects w)),
           tw_groupObjects := tw_groupObjects w @ [\<lparr>dg_groupId = groupId, dg_parentAgentId = callerAgentId,
             dg_parentSessionId = callerSessionId, dg_childAgentIds = [], dg_completedAgentIds = []\<rparr>]\<rparr>))
         (ret groupId))) (\<lambda>groupId.
       andThen (gets (\<lambda>w. om_get (tw_groups w) groupId)) (\<lambda>found. case found of
         None \<Rightarrow> throw ''Cannot read properties of undefined''
       | Some g \<Rightarrow> set_group g (\<lambda>x. x\<lparr>dg_childAgentIds := dg_childAgentIds x @ [agentId]\<rparr>))))"

definition track_child :: "child_record \<Rightarrow> unit team" where
  "track_child rec = modify (\<lambda>w. w\<lparr>tw_childAgents := om_set (tw_childAgents w) (cr_agentId rec) (length (tw_records w)),
     tw_records := tw_records w @ [rec],
     tw_agentSessions := om_set (tw_agentSessions w) (cr_agentId rec) (cr_sessionId rec)\<rparr>)"

definition registration ::
  "child_record \<Rightarrow> string \<Rightarrow> string \<Rightarrow> spawn_result \<Rightarrow> session_registration" where
  "registration rec title specialistId spawned =
     \<lparr>sr_sessionId = cr_sessionId rec, sr_name = take 50 title, sr_cwd = cr_cwd rec,
      sr_workspaceId = cr_workspaceId rec, sr_routaAgentId = cr_agentId rec, sr_provider = cr_provider rec,
      sr_role = cr_role rec, sr_specialistId = specialistId, sr_parentSessionId = cr_parentSessionId rec,
      sr_sandboxId = sw_sandboxId spawned, sr_model = sm_model (sw_config spawned),
      sr_reasoningEffort = sm_reasoningEffort (sw_config spawned)\<rparr>"

text \<open>The two memory files of a delegation are written independently; an error of either is only logged.\<close>

definition write_delegation_memory ::
  "team_env \<Rightarrow> child_record \<Rightarrow> string \<Rightarrow> string \<Rightarrow> wait_mode \<Rightarrow> unit team" where
  "write_delegation_memory env rec title initialPrompt waitMode =
     next_do (catching (write_memory env (cr_cwd rec) (MemSessionStart (cr_sessionId rec) (cr_role rec) (cr_agentId rec)
        (cr_taskId rec) title (cr_parentAgentId rec) (cr_provider rec) initialPrompt)) (\<lambda>e. ret ()))
     (when_do (hasKnownSessionId (cr_parentSessionId rec))
       (andThen (ask (\<lambda>n. resolveSessionCwd env n (cr_parentSessionId rec) (cr_cwd rec))) (\<lambda>cwd.
          catching (write_memory env cwd (MemDelegation (cr_parentSessionId rec) (cr_parentAgentId rec) (cr_agentId rec)
            (cr_role rec) (cr_taskId rec) title (cr_provider rec) waitMode)) (\<lambda>e. ret ()))))"

text \<open>What follows the start of the process.\<close>

definition after_spawn ::
  "team_env \<Rightarrow> delegate_params \<Rightarrow> specialist \<Rightarrow> task \<Rightarrow> child_record \<Rightarrow> string \<Rightarrow> spawn_result \<Rightarrow> tool_result team" where
  "after_spawn env p s t rec initialPrompt spawned =
     (let waitMode = orDefault (dp_waitMode p) WmImmediate in
      next_do (track_child rec)
      (andThen (gets tw_registers) (\<lambda>registers.
      next_do (when_do registers (note_effect (SessionRegistered (registration rec (tk_title t) (sp_id s) spawned))))
      (next_do (when_do (waitMode = WmAfterAll) (join_group env (dp_callerAgentId p) (dp_callerSessionId p) (cr_agentId rec)))
      (next_do (emit_team env TASK_ASSIGNED (cr_agentId rec) (dp_workspaceId p)
         [(''taskId'', JStr (dp_taskId p)), (''callerAgentId'', JStr (dp_callerAgentId p)),
          (''taskTitle'', JStr (tk_title t)), (''provider'', JStr (cr_provider rec)), (''specialist'', JStr (sp_id s))])
      (next_do (write_delegation_memory env rec (tk_title t) initialPrompt waitMode)
      (ret (successResult (JObj [(''agentId'', JStr (cr_agentId rec)), (''taskId'', JStr (dp_taskId p)),
         (''agentName'', JStr (agent_name_of s t)), (''specialist'', JStr (sp_id s)),
         (''provider'', JStr (cr_provider rec)), (''sessionId'', JStr (cr_sessionId rec)),
         (''waitMode'', JStr (wait_mode_str waitMode)),
         (''message'', JStr (''Task \"'' @ tk_title t @ ''\" delegated to '' @ sp_name s @ '' agent. ''
            @ (if waitMode = WmAfterAll
               then ''You will be notified when ALL delegated agents in this group complete.''
               else ''You will be notified when this agent completes.'')))])))))))))"

text \<open>Assigning the task, starting the process, and what is taken back when it does not start.\<close>

definition assign_and_spawn ::
  "team_env \<Rightarrow> delegate_params \<Rightarrow> specialist \<Rightarrow> task \<Rightarrow> string \<Rightarrow> string \<Rightarrow> model_plan \<Rightarrow> string \<Rightarrow> string \<Rightarrow> tool_result team" where
  "assign_and_spawn env p s t provider cwd plan agentId initialPrompt =
     andThen (gets (time_of env)) (\<lambda>now.
     let t1 = t\<lparr>tk_assignedTo := Some agentId, tk_status := TS_IN_PROGRESS, tk_updatedAt := now\<rparr> in
     next_do (save_task env t1)
     (next_do (set_agent_status env agentId AS_ACTIVE)
     (andThen (uuidv4 env) (\<lambda>childSessionId.
     andThen (attempt (spawnChildAgent env childSessionId agentId provider cwd initialPrompt (dp_workspaceId p) plan))
       (\<lambda>outcome. case outcome of
         Inl e \<Rightarrow> next_do (set_agent_status env agentId AS_ERROR)
           (andThen (gets (time_of env)) (\<lambda>later.
           next_do (save_task env (t1\<lparr>tk_status := TS_BLOCKED, tk_updatedAt := later\<rparr>))
           (ret (errorResult (''Failed to spawn agent process: '' @ e)))))
       | Inr spawned \<Rightarrow> after_spawn env p s t1
           \<lparr>cr_agentId = agentId, cr_sessionId = childSessionId, cr_parentAgentId = dp_callerAgentId p,
            cr_parentSessionId = dp_callerSessionId p, cr_taskId = dp_taskId p, cr_role = sp_role s,
            cr_provider = provider, cr_cwd = cwd, cr_workspaceId = dp_workspaceId p,
            cr_completionHandled = False\<rparr> initialPrompt spawned)))))"

definition delegate_to ::
  "team_env \<Rightarrow> delegate_params \<Rightarrow> int \<Rightarrow> specialist \<Rightarrow> task \<Rightarrow> tool_result team" where
  "delegate_to env p depth s t =
     andThen (ask (\<lambda>n. (te_sessions env n (dp_callerSessionId p), te_configOptions env n (dp_callerSessionId p))))
       (\<lambda>(session, options).
     let provider = orDefault (dp_provider p)
           (if sp_role s = AR_CRAFTER then oc_defaultCrafterProvider (te_config env) else oc_defaultGateProvider (te_config env));
         cwd = resolveDelegationCwd env session (dp_cwd p);
         plan = planDelegationModel (te_json env) session provider (sp_role s) (sp_model s) (oc_models (te_config env)) options;
         fingerprint = te_fingerprint env t (dp_workspaceId p)
     in andThen (buildTeamRuntimeMetadata env (dp_workspaceId p) (dp_callerAgentId p) t (sp_id s) (dp_additionalInstructions p))
       (\<lambda>roster.
     andThen (createAgentTool env
         \<lparr>cp_name = agent_name_of s t, cp_role = agent_role_str (sp_role s), cp_workspaceId = dp_workspaceId p,
          cp_parentId = Some (dp_callerAgentId p), cp_modelTier = Some (sp_defaultModelTier s),
          cp_metadata = Some (buildAgentMetadata (calculateChildDepth depth) (Some (dp_callerAgentId p)) (Some (sp_id s)) roster)\<rparr>)
       (\<lambda>created. case result_agentId created of
         None \<Rightarrow> ret (errorResult (''Failed to create agent: '' @ (case created of errorResult e \<Rightarrow> e | successResult d \<Rightarrow> ''undefined'')))
       | Some agentId \<Rightarrow>
           andThen (enriched_context env cwd (dp_callerSessionId p) fingerprint (sp_role s) (dp_additionalInstructions p))
             (\<lambda>context.
           assign_and_spawn env p s t provider cwd plan agentId
             (buildDelegationPrompt s agentId (dp_taskId p) (tk_title t) (task_content t) (dp_callerAgentId p) context)))))"

text \<open>What follows the check of the depth.\<close>

definition delegate_checked :: "team_env \<Rightarrow> delegate_params \<Rightarrow> int \<Rightarrow> tool_result team" where
  "delegate_checked env p depth =
     (case resolveSpecialist env (dp_specialist p) of
           None \<Rightarrow> ret (errorResult (''Unknown specialist: '' @ dp_specialist p
             @ ''. Use \"CRAFTER\", \"GATE\", \"crafter\", or \"gate\".''))
         | Some s \<Rightarrow> andThen (attempt (get_task env (dp_taskId p))) (\<lambda>loaded. case loaded of
             Inl e \<Rightarrow> ret (errorResult (''Failed to load task '' @ dp_taskId p @ '': '' @ e))
           | Inr None \<Rightarrow> ret (task_not_found (dp_taskId p)
               (''First call create_task to create tasks, then use the returned taskId (UUID format like \"dda97509-b414-4c50-9835-73a1ec2f...\"). ''
                @ ''Alternatively, use convert_task_blocks to convert @@@task blocks into tasks, or list_tasks to see existing tasks.''))
           | Inr (Some t) \<Rightarrow> delegate_to env p depth s t))"

definition delegateTaskWithSpawn :: "team_env \<Rightarrow> delegate_params \<Rightarrow> tool_result team" where
  "delegateTaskWithSpawn env p =
     andThen (checkDelegationDepth env (dp_callerAgentId p)) (\<lambda>depthCheck.
       if \<not> dc_allowed depthCheck then ret (errorResult (the (dc_error depthCheck)))
       else delegate_checked env p (dc_currentDepth depthCheck))"

section \<open>Updates of the process, and the other calls\<close>

text \<open>\<open>checkForCompletion\<close> on the parameters of an update.\<close>

definition checkForCompletion :: "string \<Rightarrow> json \<Rightarrow> unit team" where
  "checkForCompletion agentId params =
     (if jprop (jprop params ''update'') ''sessionUpdate'' \<in> {JStr ''completed'', JStr ''ended''}
      then andThen (gets (\<lambda>w. om_get (tw_childAgents w) agentId)) (\<lambda>found. case found of
          None \<Rightarrow> ret ()
        | Some r \<Rightarrow> note_effect (SessionEndScheduled agentId r))
      else ret ())"

text \<open>
  The handler \<open>spawnChildAgent\<close> gives to the process, for a \<open>session/update\<close>. The semantic events of the
  update come from the provider's adapter and the agent's bridge, which are not modelled here.
\<close>

definition on_child_update :: "team_env \<Rightarrow> string \<Rightarrow> string \<Rightarrow> string \<Rightarrow> (string \<times> json) list \<Rightarrow> unit team" where
  "on_child_update env agentId sessionId parentSessionId params =
     next_do (checkForCompletion agentId (JObj params))
     (andThen (ask (\<lambda>n. te_agentEvents env n agentId (JObj params))) (\<lambda>events.
     next_do (for_each (dispatchChildAgentEvent agentId) events)
     (andThen (gets tw_notifies) (\<lambda>notifies.
       when_do notifies (next_do
         (note_effect (UiNotify sessionId (om_spread params [(''sessionId'', JStr sessionId)])))
         (note_effect (UiNotify parentSessionId (om_spread params
            [(''sessionId'', JStr parentSessionId), (''childAgentId'', JStr agentId), (''childSessionId'', JStr sessionId)]))))))))"

definition registerAgentSession :: "string \<Rightarrow> string \<Rightarrow> unit team" where
  "registerAgentSession agentId sessionId =
     modify (\<lambda>w. w\<lparr>tw_agentSessions := om_set (tw_agentSessions w) agentId sessionId\<rparr>)"

definition setNotificationHandler :: "unit team" where
  "setNotificationHandler = modify (\<lambda>w. w\<lparr>tw_notifies := True\<rparr>)"

definition setSessionRegistrationHandler :: "unit team" where
  "setSessionRegistrationHandler = modify (\<lambda>w. w\<lparr>tw_registers := True\<rparr>)"

text \<open>Handlers are named; a set of them is a list without repetitions.\<close>

definition subscribeToChildAgentEvents :: "string \<Rightarrow> string \<Rightarrow> unit team" where
  "subscribeToChildAgentEvents agentId handler = modify (\<lambda>w.
     let hs = orDefault (om_get (tw_subscribers w) agentId) []
     in w\<lparr>tw_subscribers := om_set (tw_subscribers w) agentId (if handler \<in> set hs then hs else hs @ [handler])\<rparr>)"

definition getSessionForAgent :: "team_world \<Rightarrow> string \<Rightarrow> string option" where
  "getSessionForAgent w agentId = om_get (tw_agentSessions w) agentId"

definition getChildAgents :: "team_world \<Rightarrow> string \<Rightarrow> child_record list" where
  "getChildAgents w parentAgentId =
     filter (\<lambda>c. cr_parentAgentId c = parentAgentId) (map (\<lambda>r. record_at r w) (om_values (tw_childAgents w)))"

definition cleanup_child :: "string \<Rightarrow> string \<times> nat \<Rightarrow> unit team" where
  "cleanup_child sessionId = (\<lambda>(agentId, r). andThen (gets (record_at r)) (\<lambda>rec.
     when_do (cr_parentSessionId rec = sessionId \<or> cr_sessionId rec = sessionId)
       (next_do (note_effect (ChildKilled (cr_sessionId rec)))
         (modify (\<lambda>w. w\<lparr>tw_childAgents := om_del (tw_childAgents w) agentId,
            tw_agentSessions := om_del (tw_agentSessions w) agentId\<rparr>)))))"

definition cleanup_session :: "string \<Rightarrow> unit team" where
  "cleanup_session sessionId = andThen (gets tw_childAgents) (for_each (cleanup_child sessionId))"

text \<open>
  The calls that reach the orchestrator: from the tools, the bus, the processes, the watchers and the
  promises started before. What a call returns or throws is not used. The end of a session was scheduled
  with the record of its child and the id in it.
\<close>

datatype team_call =
    CallDelegate delegate_params
  | CallBusEvent agent_event
  | CallTurnEnded string
  | CallTurnFailed string string
  | CallSessionEnd nat
  | CallReportFile string string
  | CallFileChange string string
  | CallUpdate string string string "(string \<times> json) list"
  | CallRegister string string
  | CallSubscribe string string
  | CallCleanup string
  | CallReport string completion_report
  | CallNotifyIdle notifier "string option"
  | CallNotifyFailed notifier string "string option"
  | CallWakeOrCreate wake_params
  | CallTaskStatus string string string "string option"

definition ignoring :: "'a team \<Rightarrow> unit team" where
  "ignoring m = catching (andThen m (\<lambda>x. ret ())) (\<lambda>e. ret ())"

definition run_call :: "team_env \<Rightarrow> team_call \<Rightarrow> unit team" where
  "run_call env c = (case c of
       CallDelegate p \<Rightarrow> ignoring (delegateTaskWithSpawn env p)
     | CallBusEvent event \<Rightarrow> ignoring (on_bus_event env event)
     | CallTurnEnded agentId \<Rightarrow> ignoring (autoReportIfNeeded env agentId)
     | CallTurnFailed agentId failure \<Rightarrow> ignoring (handleChildError env agentId failure)
     | CallSessionEnd r \<Rightarrow> ignoring (andThen (gets (\<lambda>w. (r < length (tw_records w), cr_agentId (record_at r w))))
         (\<lambda>(known, agentId). when_do known (scheduleSessionEndCompletion env agentId r)))
     | CallReportFile agentId filePath \<Rightarrow> ignoring (processReportFile env agentId filePath)
     | CallFileChange dir filename \<Rightarrow> ignoring (on_file_change dir filename)
     | CallUpdate agentId sessionId parentSessionId params \<Rightarrow>
         ignoring (on_child_update env agentId sessionId parentSessionId params)
     | CallRegister agentId sessionId \<Rightarrow> ignoring (registerAgentSession agentId sessionId)
     | CallSubscribe agentId handler \<Rightarrow> ignoring (subscribeToChildAgentEvents agentId handler)
     | CallCleanup sessionId \<Rightarrow> ignoring (cleanup_session sessionId)
     | CallReport agentId report \<Rightarrow> ignoring (reportToParent env agentId report)
     | CallNotifyIdle n summary \<Rightarrow> ignoring (notifyIdle env n summary)
     | CallNotifyFailed n failure pendingWork \<Rightarrow> ignoring (notifyFailed env n failure pendingWork)
     | CallWakeOrCreate p \<Rightarrow> ignoring (wakeOrCreateTaskAgent env p)
     | CallTaskStatus taskId status agentId summary \<Rightarrow> ignoring (updateTaskStatus env taskId status agentId summary))"

definition run_calls :: "team_env \<Rightarrow> team_call list \<Rightarrow> unit team" where
  "run_calls env = for_each (run_call env)"

end
