(* ===== verification/DelegationGuarantee.thy ===== *)
theory DelegationGuarantee
  imports DelegationSpawn
begin

text \<open>
  What every call of the delegation respects, whatever the other calls do at its awaits: a record stays
  what it is, a completion that was handled stays handled, and the number of times the parent was woken
  for a child, together with what is left to it, never grows.
\<close>

section \<open>The order of states\<close>

fun is_woken :: "nat \<Rightarrow> team_effect \<Rightarrow> bool" where
  "is_woken r (ParentWoken r' s m) = (r' = r)"
| "is_woken r e = False"

definition woken :: "nat \<Rightarrow> team_world \<Rightarrow> nat" where
  "woken r w = length (filter (is_woken r) (tw_log w))"

text \<open>One more wake-up is possible while the completion is neither handled nor in flight.\<close>

definition left_to :: "nat \<Rightarrow> team_world \<Rightarrow> nat" where
  "left_to r w = (if cr_completionHandled (record_at r w)
      \<or> om_get (tw_completing w) (cr_agentId (record_at r w)) \<noteq> None then 0 else 1)"

definition tracked :: "team_world \<Rightarrow> bool" where
  "tracked w \<longleftrightarrow> (\<forall>(k, r)\<in>set (tw_childAgents w). r < length (tw_records w) \<and> cr_agentId (tw_records w ! r) = k)"

definition same_child :: "child_record \<Rightarrow> child_record \<Rightarrow> bool" where
  "same_child c c' \<longleftrightarrow> (c' = c \<or> c' = c\<lparr>cr_completionHandled := True\<rparr>)"

definition child_le :: "nat \<Rightarrow> team_world \<Rightarrow> team_world \<Rightarrow> bool" where
  "child_le r w w' \<longleftrightarrow> same_child (record_at r w) (record_at r w') \<and> woken r w \<le> woken r w'
     \<and> woken r w' + left_to r w' \<le> woken r w + left_to r w"

definition team_le :: "team_world \<Rightarrow> team_world \<Rightarrow> bool" where
  "team_le w w' \<longleftrightarrow> (tracked w \<longrightarrow> tracked w' \<and> length (tw_records w) \<le> length (tw_records w')
     \<and> (\<forall>r<length (tw_records w). child_le r w w'))"

lemma same_child_refl [simp]: "same_child c c"
  by (simp add: same_child_def)

lemma same_child_trans: "same_child c d \<Longrightarrow> same_child d e \<Longrightarrow> same_child c e"
  by (auto simp: same_child_def)

lemma same_child_fields:
  assumes "same_child c d"
  shows "cr_agentId d = cr_agentId c" "cr_completionHandled c \<Longrightarrow> cr_completionHandled d"
  using assms by (auto simp: same_child_def)

lemma child_le_refl: "child_le r w w"
  by (simp add: child_le_def)

lemma child_le_trans: "child_le r w w' \<Longrightarrow> child_le r w' w'' \<Longrightarrow> child_le r w w''"
  unfolding child_le_def by (auto intro: same_child_trans)

lemma team_le_refl: "team_le w w"
  by (simp add: team_le_def child_le_refl)

lemma team_le_trans: "team_le w w' \<Longrightarrow> team_le w' w'' \<Longrightarrow> team_le w w''"
  unfolding team_le_def by (meson child_le_trans le_trans less_le_trans)

interpretation tg: guarantee team_le
  by unfold_locales (rule team_le_refl, rule team_le_trans)

fun is_prompt :: "team_effect \<Rightarrow> bool" where
  "is_prompt (ParentPrompted r s m ws) = True"
| "is_prompt e = False"

definition prompts :: "team_world \<Rightarrow> team_effect list" where
  "prompts w = filter is_prompt (tw_log w)"

text \<open>
  A step that leaves alone the stores, the records, the groups, the maps of children and completions,
  the prompts for parents and the wake-ups.
\<close>

definition neutral :: "team_world \<Rightarrow> team_world \<Rightarrow> bool" where
  "neutral w w' \<longleftrightarrow> tw_agents w' = tw_agents w \<and> tw_store w' = tw_store w
     \<and> tw_conversations w' = tw_conversations w \<and> tw_records w' = tw_records w
     \<and> tw_childAgents w' = tw_childAgents w \<and> tw_completing w' = tw_completing w
     \<and> tw_groups w' = tw_groups w \<and> tw_groupObjects w' = tw_groupObjects w
     \<and> tw_activeGroup w' = tw_activeGroup w \<and> prompts w' = prompts w \<and> (\<forall>r. woken r w' = woken r w)"

text \<open>A state with the same records, maps and wake-ups.\<close>

definition same_team :: "team_world \<Rightarrow> team_world \<Rightarrow> bool" where
  "same_team w w' \<longleftrightarrow> tw_records w' = tw_records w \<and> tw_childAgents w' = tw_childAgents w
     \<and> tw_completing w' = tw_completing w \<and> (\<forall>r. woken r w' = woken r w)"

lemma same_team_le: "same_team w w' \<Longrightarrow> team_le w w'"
  by (auto simp: same_team_def team_le_def tracked_def child_le_def record_at_def left_to_def)

section \<open>Neutral steps\<close>

text \<open>A relation that neutral steps and the other calls respect is respected by all that is made of them.\<close>

locale team_pieces = guarantee le
  for le :: "team_world \<Rightarrow> team_world \<Rightarrow> bool" +
  fixes env :: team_env
  assumes le_neutral: "neutral w w' \<Longrightarrow> le w w'"
    and le_others: "le w (te_others env n w)"
begin

lemma keeps_neutral: "(\<And>w. neutral w (f w)) \<Longrightarrow> keeps (modify f)"
  by (intro keeps_modify le_neutral)

lemma keeps_note: "(\<And>r s m. e \<noteq> ParentWoken r s m) \<Longrightarrow> \<not> is_prompt e \<Longrightarrow> keeps (note_effect e)"
proof -
  assume "\<And>r s m. e \<noteq> ParentWoken r s m" and e: "\<not> is_prompt e"
  then have "\<not> is_woken r e" for r by (cases e) auto
  then show ?thesis
    unfolding note_effect_def using e by (intro keeps_neutral) (simp add: neutral_def woken_def prompts_def)
qed

lemma keeps_tpause: "keeps (tpause env)"
proof -
  have "le w (w\<lparr>tw_awaits := Suc (tw_awaits w)\<rparr>)" for w
    by (intro le_neutral) (simp add: neutral_def woken_def prompts_def)
  then show ?thesis unfolding tpause_def by (intro keeps_modify) (rule le_trans[OF _ le_others])
qed

lemma keeps_list: "keeps m \<Longrightarrow> (\<And>x xs. keeps (f x xs)) \<Longrightarrow> keeps (case v of [] \<Rightarrow> m | x # xs \<Rightarrow> f x xs)"
  by (cases v) simp_all

lemma keeps_ask: "keeps (ask f)"
  by (simp add: ask_def keeps_gets)

lemmas keeps_rules = keeps_intros keeps_list keeps_ask keeps_tpause

lemma keeps_uuid: "keeps (uuidv4 env)"
  unfolding uuidv4_def by (intro keeps_rules keeps_neutral) (simp add: neutral_def woken_def prompts_def)

lemma keeps_store_call: "keeps m \<Longrightarrow> keeps (store_call env m)"
  unfolding store_call_def by (intro keeps_rules)

lemma keeps_get_task: "keeps (get_task env taskId)"
  unfolding get_task_def by (intro keeps_store_call keeps_rules)

lemma keeps_get_agent: "keeps (get_agent env agentId)"
  unfolding get_agent_def by (intro keeps_store_call keeps_rules)

lemma keeps_emit: "keeps (emit_team env etype agentId workspaceId d)"
  unfolding emit_team_def by (intro keeps_rules keeps_note) auto

lemmas keeps_pieces = keeps_rules keeps_uuid keeps_store_call keeps_get_task keeps_get_agent keeps_emit

lemma keeps_dispatch: "keeps (dispatchChildAgentEvent agentId event)"
  unfolding dispatchChildAgentEvent_def by (intro keeps_pieces keeps_note) auto

lemma keeps_unwatch: "keeps (cleanupReportWatcher agentId)"
  unfolding cleanupReportWatcher_def
  by (intro keeps_pieces keeps_note keeps_neutral) (auto simp: neutral_def woken_def prompts_def)

lemma keeps_watch: "keeps (watchForReportFiles env agentId cwd)"
  unfolding watchForReportFiles_def
  by (intro keeps_pieces keeps_unwatch keeps_note keeps_neutral) (auto simp: neutral_def woken_def prompts_def)

lemma keeps_file_change: "keeps (on_file_change dir filename)"
  unfolding on_file_change_def by (intro keeps_pieces keeps_note) auto

lemma keeps_write_memory: "keeps (write_memory env cwd e)"
  unfolding write_memory_def by (intro keeps_pieces keeps_note) auto

lemma keeps_merge: "keeps (merge_and_write env childAgentId cwd incoming)"
  unfolding merge_and_write_def Let_def
  by (intro keeps_pieces keeps_write_memory keeps_neutral) (auto simp: neutral_def woken_def prompts_def)

lemma keeps_record_memory: "keeps (recordChildCompletionMemory env childAgentId r source)"
  unfolding recordChildCompletionMemory_def
  by (intro keeps_pieces keeps_merge keeps_neutral) (auto simp: neutral_def woken_def prompts_def)

lemma keeps_child_lines: "keeps (child_lines env childId)"
  unfolding child_lines_def by (intro keeps_pieces)

lemma keeps_group_lines: "keeps (group_lines env g i fuel)"
  by (induction fuel arbitrary: i) (auto intro!: keeps_pieces keeps_child_lines)

lemma keeps_message: "keeps (group_message env groupId)" "keeps (agent_message env rec)"
  unfolding group_message_def agent_message_def by (intro keeps_pieces keeps_group_lines)+

lemma keeps_notify_completion: "keeps (notify_completion env rec)"
  unfolding notify_completion_def by (intro keeps_pieces keeps_note) auto

lemma keeps_outcome: "keeps (save_outcome env rec)"
  unfolding save_outcome_def by (intro keeps_pieces keeps_note) auto

lemma keeps_forget: "keeps (forget_child childAgentId)"
  unfolding forget_child_def by (intro keeps_pieces keeps_unwatch keeps_neutral) (simp add: neutral_def woken_def prompts_def)

lemma keeps_set_option: "keeps (set_option env sessionId configId value options)"
  unfolding set_option_def by (intro keeps_pieces keeps_note) auto

lemma keeps_apply_config: "keeps (applySessionConfig env sessionId model effort)"
  unfolding applySessionConfig_def apply_model_def apply_effort_def Let_def
  by (intro keeps_pieces keeps_set_option)

lemma keeps_child_config: "keeps (applyChildModelConfig env sessionId plan)"
  unfolding applyChildModelConfig_def by (intro keeps_pieces keeps_apply_config)

lemma keeps_create_process: "keeps (create_process env kind sessionId cwd)"
  unfolding create_process_def by (intro keeps_pieces keeps_note) auto

lemma keeps_prompt_child: "keeps (prompt_child env kind sessionId agentId initialPrompt)"
  unfolding prompt_child_def by (intro keeps_pieces keeps_note) auto

lemma keeps_start: "keeps (start_process env sessionId agentId provider cwd initialPrompt plan)"
  unfolding start_process_def
  by (cases "kind_of_provider provider")
     (auto intro!: keeps_pieces keeps_create_process keeps_prompt_child keeps_watch keeps_child_config)

lemma keeps_spawn: "keeps (spawnChildAgent env sessionId agentId provider cwd initialPrompt workspaceId plan)"
  unfolding spawnChildAgent_def
  by (intro keeps_pieces keeps_dispatch keeps_start keeps_neutral) (simp add: neutral_def woken_def prompts_def)

lemma keeps_delegation_memory: "keeps (write_delegation_memory env rec title initialPrompt waitMode)"
  unfolding write_delegation_memory_def by (intro keeps_pieces keeps_write_memory)

lemma keeps_roster: "keeps (buildTeamRuntimeMetadata env workspaceId callerAgentId t specialistId additional)"
  unfolding buildTeamRuntimeMetadata_def by (intro keeps_pieces)

lemma keeps_context: "keeps (enriched_context env cwd callerSessionId fingerprint role additional)"
  unfolding enriched_context_def by (intro keeps_pieces)

lemma keeps_update: "keeps (on_child_update env agentId sessionId parentSessionId params)"
  unfolding on_child_update_def checkForCompletion_def
  by (intro keeps_pieces keeps_dispatch keeps_note) auto

end

section \<open>Steps that change the stores\<close>

locale team_others =
  fixes env :: team_env
  assumes others: "team_le w (te_others env n w)"

sublocale team_others \<subseteq> team_pieces team_le env
  by unfold_locales (auto intro: same_team_le others simp: neutral_def same_team_def)

context team_others
begin

lemma keeps_same: "(\<And>w. same_team w (f w)) \<Longrightarrow> keeps (modify f)"
  by (intro keeps_modify same_team_le)

lemma keeps_prompted: "keeps (note_effect (ParentPrompted r s m ws))"
  unfolding note_effect_def by (intro keeps_same) (simp add: same_team_def woken_def)

lemma keeps_save_task: "keeps (save_task env t)"
  unfolding save_task_def by (intro keeps_store_call keeps_same) (simp add: same_team_def woken_def)

lemma keeps_save_agent: "keeps (save_agent env a)"
  unfolding save_agent_def by (intro keeps_store_call keeps_same) (simp add: same_team_def woken_def)

lemma keeps_agent_status: "keeps (set_agent_status env agentId status)"
  unfolding set_agent_status_def by (intro keeps_store_call keeps_same) (simp add: same_team_def woken_def)

lemma keeps_append: "keeps (append_message env agentId content)"
  unfolding append_message_def
  by (intro keeps_store_call keeps_rules keeps_uuid keeps_same) (simp add: same_team_def woken_def)

lemmas keeps_steps = keeps_pieces keeps_save_task keeps_save_agent keeps_agent_status keeps_append

lemma keeps_create_agent: "keeps (createAgentTool env p)"
  unfolding createAgentTool_def Let_def by (intro keeps_steps)

lemma keeps_delegate: "keeps (delegate env agentId taskId callerAgentId)"
  unfolding delegate_def by (intro keeps_steps)

lemma keeps_report: "keeps (reportToParent env agentId report)"
  unfolding reportToParent_def report_on_task_def by (intro keeps_steps)

lemma keeps_create_task_agent: "keeps (create_task_agent env p)"
  unfolding create_task_agent_def by (intro keeps_steps keeps_create_agent keeps_delegate)

lemma keeps_wake_or_create: "keeps (wakeOrCreateTaskAgent env p)"
  unfolding wakeOrCreateTaskAgent_def by (intro keeps_steps keeps_create_task_agent)

lemma keeps_task_status: "keeps (updateTaskStatus env taskId status agentId summary)"
  unfolding updateTaskStatus_def Let_def by (intro keeps_steps)

lemma keeps_deliver: "keeps (deliverToParent env n content)"
  unfolding deliverToParent_def by (intro keeps_steps)

lemma keeps_notify_idle: "keeps (notifyIdle env n summary)"
  unfolding notifyIdle_def by (intro keeps_steps keeps_deliver)

lemma keeps_notify_failed: "keeps (notifyFailed env n failure pendingWork)"
  unfolding notifyFailed_def by (intro keeps_steps keeps_deliver)

lemma keeps_report_file: "keeps (processReportFile env agentId filePath)"
  unfolding processReportFile_def
  by (intro keeps_steps keeps_report keeps_unwatch keeps_note) auto

lemma keeps_set_group: "keeps (set_group g f)"
  unfolding set_group_def by (intro keeps_same) (simp add: same_team_def woken_def)

lemma keeps_close_group: "keeps (close_group groupId parentAgentId)"
  unfolding close_group_def by (intro keeps_same) (simp add: same_team_def woken_def)

lemma keeps_join: "keeps (join_group env callerAgentId callerSessionId agentId)"
  unfolding join_group_def Let_def
  by (intro keeps_steps keeps_set_group keeps_same) (simp add: same_team_def woken_def)

end

end
