(* ===== verification/DelegationOnce.thy ===== *)
theory DelegationOnce
  imports DelegationGuarantee
begin

text \<open>
  The completion of a delegated agent wakes the agent that delegated at most once: the proof for the
  part that is in flight, and the property over any sequence of calls.
\<close>

section \<open>One wake-up inside a call\<close>

text \<open>A run that respects the order, except that it may wake the parent of a child once when it succeeds.\<close>

definition one_wake :: "nat \<Rightarrow> team_world \<Rightarrow> team_world \<Rightarrow> bool \<Rightarrow> bool" where
  "one_wake r w w' ok \<longleftrightarrow> (\<exists>u. team_le w u \<and> (team_le u w'
     \<or> ok \<and> (\<exists>s m. team_le (u\<lparr>tw_log := tw_log u @ [ParentWoken r s m]\<rparr>) w')))"

definition wakes_once :: "nat \<Rightarrow> 'a team \<Rightarrow> bool" where
  "wakes_once r m \<longleftrightarrow> (\<forall>w. one_wake r w (fst (m w)) (\<not> isl (snd (m w))))"

lemma one_wake_before: "team_le w u \<Longrightarrow> one_wake r u w' ok \<Longrightarrow> one_wake r w w' ok"
  unfolding one_wake_def using team_le_trans by blast

lemma one_wake_after: "one_wake r w u ok \<Longrightarrow> team_le u w' \<Longrightarrow> one_wake r w w' ok"
  unfolding one_wake_def using team_le_trans by blast

lemma keeps_wakes: "tg.keeps m \<Longrightarrow> wakes_once r m"
  unfolding wakes_once_def one_wake_def using tg.keepsD team_le_refl by blast

lemma wakes_andThen:
  assumes "tg.keeps m" "\<And>x. wakes_once r (f x)"
  shows "wakes_once r (andThen m f)"
  unfolding wakes_once_def
proof
  fix w
  obtain w1 v where m: "m w = (w1, v)" by (cases "m w")
  have le: "team_le w w1" using tg.keepsD[OF assms(1), of w] m by simp
  show "one_wake r w (fst (andThen m f w)) (\<not> isl (snd (andThen m f w)))"
  proof (cases v)
    case (Inl e)
    then show ?thesis using m le team_le_refl by (auto simp: run_andThen one_wake_def)
  next
    case (Inr x)
    have "one_wake r w1 (fst (f x w1)) (\<not> isl (snd (f x w1)))"
      using assms(2)[of x] by (simp add: wakes_once_def)
    then show ?thesis using m Inr one_wake_before[OF le] by (simp add: run_andThen)
  qed
qed

lemma wakes_next: "tg.keeps m \<Longrightarrow> wakes_once r k \<Longrightarrow> wakes_once r (next_do m k)"
  unfolding next_do_def by (rule wakes_andThen)

text \<open>What follows a wake-up must not fail.\<close>

lemma wakes_then:
  assumes "wakes_once r m" "tg.keeps k" "\<And>w. \<not> isl (snd (k w))"
  shows "wakes_once r (next_do m k)"
  unfolding wakes_once_def
proof
  fix w
  obtain w1 v where m: "m w = (w1, v)" by (cases "m w")
  have one: "one_wake r w w1 (\<not> isl v)" using assms(1) m by (auto simp: wakes_once_def dest: spec[of _ w])
  show "one_wake r w (fst (next_do m k w)) (\<not> isl (snd (next_do m k w)))"
    using m one one_wake_after[OF _ tg.keepsD[OF assms(2), of w1]] assms(3)[of w1]
    by (cases v) (auto simp: run_next)
qed

lemma wakes_when: "wakes_once r m \<Longrightarrow> wakes_once r (when_do b m)"
  by (simp add: when_do_def keeps_wakes tg.keeps_ret)

section \<open>The completion in flight\<close>

definition owns :: "string \<Rightarrow> nat \<Rightarrow> team_world \<Rightarrow> bool" where
  "owns a r w \<longleftrightarrow> tracked w \<and> r < length (tw_records w) \<and> cr_agentId (record_at r w) = a"

lemma owns_stable: "team_le w w' \<Longrightarrow> owns a r w \<Longrightarrow> owns a r w'"
  by (auto simp: owns_def team_le_def child_le_def dest!: same_child_fields(1))

definition flight :: "string \<Rightarrow> nat \<Rightarrow> team_world \<Rightarrow> team_world" where
  "flight a r w = w\<lparr>tw_completing := om_set (tw_completing w) a r\<rparr>"

definition landed :: "string \<Rightarrow> team_world \<Rightarrow> team_world" where
  "landed a w = w\<lparr>tw_completing := om_del (tw_completing w) a\<rparr>"

definition handled_at :: "nat \<Rightarrow> team_world \<Rightarrow> team_world" where
  "handled_at r w = w\<lparr>tw_records := (tw_records w)[r := (tw_records w ! r)\<lparr>cr_completionHandled := True\<rparr>]\<rparr>"

lemma flight_simps [simp]:
  "tw_records (flight a r w) = tw_records w" "tw_childAgents (flight a r w) = tw_childAgents w"
  "tw_log (flight a r w) = tw_log w" "record_at q (flight a r w) = record_at q w"
  "woken q (flight a r w) = woken q w" "tracked (flight a r w) = tracked w"
  "left_to q (flight a r w) = (if cr_agentId (record_at q w) = a then 0 else left_to q w)"
  by (simp_all add: flight_def woken_def record_at_def tracked_def left_to_def)

lemma landed_simps [simp]:
  "tw_records (landed a w) = tw_records w" "tw_childAgents (landed a w) = tw_childAgents w"
  "tw_log (landed a w) = tw_log w" "record_at q (landed a w) = record_at q w"
  "woken q (landed a w) = woken q w" "tracked (landed a w) = tracked w"
  "left_to q (landed a w) = (if cr_agentId (record_at q w) \<noteq> a then left_to q w
      else if cr_completionHandled (record_at q w) then 0 else 1)"
  by (simp_all add: landed_def woken_def record_at_def tracked_def left_to_def)

lemma handled_simps [simp]:
  "tw_childAgents (handled_at r w) = tw_childAgents w" "tw_log (handled_at r w) = tw_log w"
  "woken q (handled_at r w) = woken q w" "length (tw_records (handled_at r w)) = length (tw_records w)"
  by (simp_all add: handled_at_def woken_def)

lemma handled_record:
  "q < length (tw_records w) \<Longrightarrow>
     record_at q (handled_at r w) = (if q = r then (record_at q w)\<lparr>cr_completionHandled := True\<rparr> else record_at q w)"
  by (auto simp: handled_at_def record_at_def nth_list_update)

lemma handled_at_le: "team_le w (handled_at r w)"
proof -
  have "tracked w \<Longrightarrow> tracked (handled_at r w)"
    unfolding tracked_def handled_at_def
    by (cases "r < length (tw_records w)") (auto simp: nth_list_update dest!: bspec)
  moreover have "q < length (tw_records w) \<Longrightarrow> child_le q w (handled_at r w)" for q
    by (auto simp: child_le_def handled_record same_child_def left_to_def) (simp_all add: handled_at_def)
  ultimately show ?thesis by (simp add: team_le_def)
qed

lemma woken_snoc [simp]:
  "woken q (w\<lparr>tw_log := tw_log w @ [ParentWoken r s m]\<rparr>) = woken q w + (if r = q then 1 else 0)"
  by (simp add: woken_def)

lemma snoc_simps [simp]:
  "record_at q (w\<lparr>tw_log := l\<rparr>) = record_at q w" "left_to q (w\<lparr>tw_log := l\<rparr>) = left_to q w"
  "tracked (w\<lparr>tw_log := l\<rparr>) = tracked w"
  by (simp_all add: record_at_def left_to_def tracked_def)

text \<open>
  What the other children see of a run with one wake-up for \<open>r\<close>, and what \<open>r\<close> itself sees while its
  completion is in flight.
\<close>

lemma one_wake_sees:
  assumes "one_wake r w w' ok" "tracked w" "r < length (tw_records w)"
  shows "tracked w' \<and> length (tw_records w) \<le> length (tw_records w')
     \<and> (\<forall>q<length (tw_records w). q \<noteq> r \<longrightarrow> child_le q w w')
     \<and> same_child (record_at r w) (record_at r w') \<and> woken r w \<le> woken r w'
     \<and> woken r w' + left_to r w' \<le> woken r w + left_to r w + (if ok then 1 else 0)"
proof -
  obtain u where u: "team_le w u" and then_: "team_le u w'
      \<or> ok \<and> (\<exists>s m. team_le (u\<lparr>tw_log := tw_log u @ [ParentWoken r s m]\<rparr>) w')"
    using assms(1) by (auto simp: one_wake_def)
  have wu: "tracked u" "length (tw_records w) \<le> length (tw_records u)"
      "\<And>q. q < length (tw_records w) \<Longrightarrow> child_le q w u"
    using u assms(2) by (auto simp: team_le_def)
  from then_ show ?thesis
  proof
    assume "team_le u w'"
    then have "team_le w w'" by (rule team_le_trans[OF u])
    then show ?thesis using assms(2,3) by (auto simp: team_le_def child_le_def)
  next
    assume "ok \<and> (\<exists>s m. team_le (u\<lparr>tw_log := tw_log u @ [ParentWoken r s m]\<rparr>) w')"
    then obtain s m where ok: ok and le: "team_le (u\<lparr>tw_log := tw_log u @ [ParentWoken r s m]\<rparr>) w'" by blast
    define v where "v = u\<lparr>tw_log := tw_log u @ [ParentWoken r s m]\<rparr>"
    have v: "tracked v" "tw_records v = tw_records u" "\<And>q. q \<noteq> r \<Longrightarrow> child_le q u v"
        "woken r v = Suc (woken r u)" "left_to r v = left_to r u" "record_at r v = record_at r u"
      using wu(1) by (auto simp: v_def child_le_def)
    have vw: "tracked w'" "length (tw_records u) \<le> length (tw_records w')"
        "\<And>q. q < length (tw_records u) \<Longrightarrow> child_le q v w'"
      using le v(1,2) by (auto simp: v_def team_le_def)
    have "q < length (tw_records w) \<Longrightarrow> q \<noteq> r \<Longrightarrow> child_le q w w'" for q
      using wu v vw by (meson child_le_trans less_le_trans)
    moreover have "child_le r w u" "child_le r v w'" using wu vw assms(3) by auto
    ultimately show ?thesis using wu v vw ok by (auto simp: child_le_def intro: same_child_trans)
  qed
qed

lemma team_le_sees:
  assumes "team_le w w'" "tracked w"
  shows "tracked w'" "length (tw_records w) \<le> length (tw_records w')"
    "q < length (tw_records w) \<Longrightarrow> child_le q w w'"
  using assms by (auto simp: team_le_def)

lemma completion_respects:
  assumes own: "owns a r w0" and idle: "\<not> cr_completionHandled (record_at r w0)" "om_get (tw_completing w0) a = None"
    and one: "one_wake r (flight a r w0) w2 ok" and le3: "team_le w2 w3"
    and w4: "w4 = (if ok then handled_at r w3 else w3)" and le5: "team_le w4 w5"
  shows "team_le w0 (landed a w5)"
proof -
  have r: "r < length (tw_records w0)" "cr_agentId (record_at r w0) = a" "tracked w0" using own by (auto simp: owns_def)
  note two = one_wake_sees[OF one]
  have t2: "tracked w2" "length (tw_records w0) \<le> length (tw_records w2)" using two r by auto
  have le25: "team_le w2 w5"
    using le3 le5 handled_at_le team_le_trans unfolding w4 by (metis (full_types))
  note t5 = team_le_sees[OF le25 t2(1)]
  have len: "length (tw_records w0) \<le> length (tw_records w5)" using t2(2) t5(2) by simp
  have others: "child_le q w0 (landed a w5)" if q: "q < length (tw_records w0)" "q \<noteq> r" for q
  proof -
    have "child_le q (flight a r w0) w2" using two q r by simp
    moreover have "child_le q w2 w5" using t5(3) q t2(2) by simp
    ultimately have "child_le q (flight a r w0) w5" by (rule child_le_trans)
    then have c: "same_child (record_at q w0) (record_at q w5)" "woken q w0 \<le> woken q w5"
        "woken q w5 + left_to q w5 \<le> woken q w0 + (if cr_agentId (record_at q w0) = a then 0 else left_to q w0)"
      by (auto simp: child_le_def)
    have "cr_agentId (record_at q w0) = a \<Longrightarrow> left_to q w0 = (if cr_completionHandled (record_at q w0) then 0 else 1)"
      using idle(2) by (simp add: left_to_def)
    then show ?thesis using c same_child_fields[OF c(1)] by (auto simp: child_le_def split: if_splits)
  qed
  have own_child: "child_le r w0 (landed a w5)"
  proof -
    have l0: "left_to r w0 = 1" using idle r by (simp add: left_to_def)
    have two': "same_child (record_at r w0) (record_at r w2)" "woken r w0 \<le> woken r w2"
        "woken r w2 + left_to r w2 \<le> woken r w0 + (if ok then 1 else 0)"
      using two r by auto
    have five: "child_le r w2 w5" using t5(3) r(1) t2(2) by simp
    have same: "same_child (record_at r w0) (record_at r w5)"
      using two'(1) five by (auto simp: child_le_def intro: same_child_trans)
    have handled: "ok \<Longrightarrow> cr_completionHandled (record_at r w5)"
    proof -
      assume ok: ok
      note t3 = team_le_sees[OF le3 t2(1)]
      have "tracked w4" using team_le_sees(1)[OF handled_at_le t3(1)] t3(1) by (simp add: w4)
      have r3: "r < length (tw_records w3)" using r(1) t2(2) t3(2) by simp
      have h4: "cr_completionHandled (record_at r w4)" using ok r3 by (simp add: w4 handled_record)
      have "r < length (tw_records w4)" using r3 by (simp add: w4)
      then have "child_le r w4 w5" using team_le_sees(3)[OF le5 \<open>tracked w4\<close>] by simp
      then show ?thesis using h4 same_child_fields(2) by (auto simp: child_le_def)
    qed
    show ?thesis
      using l0 two'(2,3) five same handled same_child_fields(1)[OF same] r(2)
      by (cases ok) (auto simp: child_le_def)
  qed
  have "child_le q w0 (landed a w5)" if "q < length (tw_records w0)" for q
    using others own_child that by (cases "q = r") auto
  then show ?thesis using t5(1) len r by (simp add: team_le_def)
qed

section \<open>The calls\<close>

context team_others
begin

lemma wakes_deliver: "wakes_once r (deliver_prompt env r sessionId msg workspaceId)"
proof -
  have "wakes_once r (next_do (note_effect (ParentWoken r sessionId msg)) (tpause env))"
    unfolding wakes_once_def
  proof
    fix w
    have "team_le (w\<lparr>tw_log := tw_log w @ [ParentWoken r sessionId msg]\<rparr>)
        (fst (tpause env (w\<lparr>tw_log := tw_log w @ [ParentWoken r sessionId msg]\<rparr>)))"
      by (rule tg.keepsD[OF keeps_tpause])
    then show "one_wake r w (fst (next_do (note_effect (ParentWoken r sessionId msg)) (tpause env) w))
        (\<not> isl (snd (next_do (note_effect (ParentWoken r sessionId msg)) (tpause env) w)))"
      unfolding one_wake_def using team_le_refl[of w]
      by (auto simp: run_simps note_effect_def tpause_def)
  qed
  then show ?thesis
    unfolding deliver_prompt_def
    by (intro wakes_next wakes_andThen keeps_prompted keeps_steps)
       (auto intro: keeps_wakes keeps_steps split: option.split)
qed

lemma wakes_send: "wakes_once r (sendPromptToSession env r sessionId msg fallback)"
  unfolding sendPromptToSession_def
  by (intro wakes_andThen keeps_ask)
     (auto intro!: wakes_deliver keeps_wakes keeps_note split: prod.split option.split)

lemma wakes_wakeParent: "wakes_once r (wakeParent env r groupId)"
  unfolding wakeParent_def
  by (intro wakes_andThen wakes_next wakes_send keeps_steps keeps_notify_completion)
     (auto intro: keeps_message split: option.split)

lemma wakes_complete: "wakes_once r (complete_child env childAgentId r)"
proof -
  have "wakes_once r (when_do over (next_do (wakeParent env r (Some groupId))
      (andThen (gets (record_at r)) (\<lambda>rec. close_group groupId (cr_parentAgentId rec)))))" for over groupId
    by (intro wakes_when wakes_then wakes_wakeParent keeps_steps keeps_close_group)
       (simp add: run_simps close_group_def)
  then have "wakes_once r (case found of None \<Rightarrow> wakeParent env r None | Some (groupId, g) \<Rightarrow>
      next_do (set_group g (complete_in_group childAgentId))
        (andThen (gets (\<lambda>w. group_done (group_at g w))) (\<lambda>over. when_do over (next_do (wakeParent env r (Some groupId))
          (andThen (gets (record_at r)) (\<lambda>rec. close_group groupId (cr_parentAgentId rec)))))))" for found
    by (auto intro!: wakes_wakeParent wakes_next wakes_andThen keeps_set_group tg.keeps_gets split: option.split)
  then show ?thesis unfolding complete_child_def by (intro wakes_andThen tg.keeps_gets)
qed

lemma wakes_handle: "wakes_once r (handleChildCompletion env childAgentId r)"
  unfolding handleChildCompletion_def
  by (intro wakes_andThen wakes_next wakes_complete keeps_steps keeps_outcome keeps_forget)

lemma run_completion_le:
  assumes "owns a r w" "\<not> cr_completionHandled (record_at r w)" "om_get (tw_completing w) a = None"
  shows "team_le w (fst (run_completion env a r w))"
proof -
  obtain w2 v where h: "handleChildCompletion env a r (flight a r w) = (w2, v)" by fastforce
  define w3 where "w3 = fst (tpause env w2)"
  define w4 where "w4 = (if \<not> isl v then handled_at r w3 else w3)"
  define w5 where "w5 = fst (tpause env w4)"
  have p: "tpause env u = (fst (tpause env u), Inr ())" for u by (simp add: tpause_def run_simps)
  have run: "fst (run_completion env a r w) = fst (tpause env (landed a w5))"
    using h p[of w2] p[of w4] p[of "landed a w5"]
    by (cases v) (auto simp: run_completion_def run_simps attempt_def flight_def[symmetric] w3_def w4_def w5_def
      set_record_def handled_at_def landed_def[symmetric] split: prod.splits)
  have one: "one_wake r (flight a r w) w2 (\<not> isl v)"
    using wakes_handle[of r a] h by (auto simp: wakes_once_def dest: spec[of _ "flight a r w"])
  have "team_le w (landed a w5)"
    by (rule completion_respects[OF assms one _ refl, of w3])
       (simp_all add: w3_def w5_def w4_def tg.keepsD[OF keeps_tpause])
  then show ?thesis unfolding run by (rule team_le_trans[OF _ tg.keepsD[OF keeps_tpause]])
qed

lemma finalize_le:
  assumes "owns a r w"
  shows "team_le w (fst (finalizeChildCompletion env a r source w))"
proof -
  obtain w1 v where m: "recordChildCompletionMemory env a r source w = (w1, v)" by fastforce
  have le: "team_le w w1" using tg.keepsD[OF keeps_record_memory, of w a r source] m by simp
  show ?thesis
  proof (cases v)
    case (Inl e)
    then show ?thesis using m le by (simp add: finalizeChildCompletion_def run_simps)
  next
    case (Inr u)
    have own: "owns a r w1" by (rule owns_stable[OF le assms])
    have "team_le w1 (fst (finalizeChildCompletion env a r source w))"
      using m Inr run_completion_le[OF own] tg.keepsD[OF keeps_tpause, of w1] team_le_refl
      by (auto simp: finalizeChildCompletion_def run_next run_andThen run_gets run_ret)
    then show ?thesis by (rule team_le_trans[OF le])
  qed
qed

end

end
