(* ===== verification/DelegationProps.thy ===== *)
theory DelegationProps
  imports DelegationOnce
begin

text \<open>
  Every call of the delegation respects the order of states, also when other calls run at its awaits;
  so a delegated agent's completion wakes the agent that delegated at most once.
\<close>

section \<open>Calls that look the child up\<close>

text \<open>The order, from a state in which \<open>r\<close> is the record of the agent \<open>a\<close>.\<close>

definition owned_le :: "string \<Rightarrow> nat \<Rightarrow> team_world \<Rightarrow> team_world \<Rightarrow> bool" where
  "owned_le a r w w' \<longleftrightarrow> (owns a r w \<longrightarrow> team_le w w')"

interpretation og: guarantee "owned_le a r" for a r
  by unfold_locales (auto simp: owned_le_def intro: team_le_refl team_le_trans owns_stable)

lemma owned_keeps: "tg.keeps m \<Longrightarrow> og.keeps a r m"
  by (simp add: tg.keeps_def og.keeps_def owned_le_def)

text \<open>A child that is found in the map owns its record.\<close>

lemma found_owns:
  assumes "tracked w" "om_get (tw_childAgents w) a = Some r"
  shows "owns a r w"
proof -
  have "(a, r) \<in> set (tw_childAgents w)" using assms(2) by (rule map_of_SomeD)
  then show ?thesis using assms(1) by (auto simp: tracked_def owns_def record_at_def)
qed

lemma keeps_found:
  assumes "tg.keeps (k None)" "\<And>r. og.keeps a r (k (Some r))"
  shows "tg.keeps (andThen (gets (\<lambda>w. om_get (tw_childAgents w) a)) k)"
  unfolding tg.keeps_def
proof
  fix w
  show "team_le w (fst (andThen (gets (\<lambda>w. om_get (tw_childAgents w) a)) k w))"
  proof (cases "om_get (tw_childAgents w) a")
    case None
    then show ?thesis using tg.keepsD[OF assms(1), of w] by (simp add: run_simps)
  next
    case (Some r)
    then show ?thesis using og.keepsD[OF assms(2), of r w] found_owns[of w a r]
      by (cases "tracked w") (simp_all add: run_simps owned_le_def team_le_def)
  qed
qed

section \<open>The calls\<close>

lemma om_set_mem: "x \<in> set (om_set m k v) \<Longrightarrow> x = (k, v) \<or> x \<in> set m"
  by (induction m) (auto split: if_splits)

lemma track_le: "tg.keeps (track_child rec)"
proof -
  have "team_le w (w\<lparr>tw_childAgents := om_set (tw_childAgents w) (cr_agentId rec) (length (tw_records w)),
     tw_records := tw_records w @ [rec], tw_agentSessions := m\<rparr>)" for w m
  proof -
    let ?w = "w\<lparr>tw_childAgents := om_set (tw_childAgents w) (cr_agentId rec) (length (tw_records w)),
       tw_records := tw_records w @ [rec], tw_agentSessions := m\<rparr>"
    have "tracked w \<Longrightarrow> tracked ?w"
      using om_set_mem by (fastforce simp: tracked_def nth_append)
    moreover have "r < length (tw_records w) \<Longrightarrow> child_le r w ?w" for r
      by (simp add: child_le_def record_at_def woken_def left_to_def nth_append)
    ultimately show ?thesis by (simp add: team_le_def)
  qed
  then show ?thesis unfolding track_child_def by (intro tg.keeps_modify)
qed

lemma untrack_le: "tg.keeps (modify (\<lambda>w. w\<lparr>tw_childAgents := om_del (tw_childAgents w) agentId,
    tw_agentSessions := om_del (tw_agentSessions w) agentId\<rparr>))"
proof (rule tg.keeps_modify)
  fix w
  have "tracked w \<Longrightarrow> tracked (w\<lparr>tw_childAgents := om_del (tw_childAgents w) agentId,
      tw_agentSessions := om_del (tw_agentSessions w) agentId\<rparr>)"
    by (auto simp: tracked_def om_del_def)
  then show "team_le w (w\<lparr>tw_childAgents := om_del (tw_childAgents w) agentId,
      tw_agentSessions := om_del (tw_agentSessions w) agentId\<rparr>)"
    by (simp add: team_le_def child_le_def record_at_def woken_def left_to_def)
qed

context team_others
begin

lemma keeps_cleanup_session: "keeps (cleanup_session sessionId)"
  unfolding cleanup_session_def cleanup_child_def
  by (intro keeps_intros keeps_note untrack_le) auto

lemma owned_finalize: "og.keeps a r (finalizeChildCompletion env a r source)"
  unfolding og.keeps_def owned_le_def using finalize_le by blast

lemma owned_steps:
  "og.keeps a r (tpause env)" "og.keeps a r (get_agent env agentId)" "og.keeps a r (get_task env taskId)"
  "og.keeps a r (save_task env t)" "og.keeps a r (set_agent_status env agentId status)"
  "og.keeps a r (emit_team env etype agentId workspaceId d)" "og.keeps a r (reportToParent env agentId report)"
  by (intro owned_keeps keeps_steps keeps_report)+

lemma keeps_auto_report: "tg.keeps (autoReportIfNeeded env childAgentId)"
  unfolding autoReportIfNeeded_def
  by (intro tg.keeps_next keeps_tpause keeps_found)
     (auto intro!: tg.keeps_ret og.keeps_intros owned_steps owned_finalize)

lemma keeps_report_submitted: "tg.keeps (handleReportSubmitted env childAgentId)"
  unfolding handleReportSubmitted_def
  by (intro keeps_found) (auto intro!: tg.keeps_ret owned_finalize)

lemma keeps_child_error: "tg.keeps (handleChildError env agentId failure)"
  unfolding handleChildError_def
  by (intro keeps_found) (auto intro!: tg.keeps_ret og.keeps_intros owned_steps owned_finalize)

lemma keeps_bus_event: "tg.keeps (on_bus_event env event)"
  unfolding on_bus_event_def
  by (intro tg.keeps_intros keeps_report_submitted keeps_auto_report keeps_child_error)

lemma keeps_session_end:
  "tg.keeps (andThen (gets (\<lambda>w. (r < length (tw_records w), cr_agentId (record_at r w))))
     (\<lambda>(known, agentId). when_do known (scheduleSessionEndCompletion env agentId r)))"
  unfolding tg.keeps_def
proof
  fix w
  have "og.keeps a r (scheduleSessionEndCompletion env a r)" for a
    unfolding scheduleSessionEndCompletion_def
    by (intro og.keeps_intros owned_steps owned_finalize)
  from og.keepsD[OF this, of "cr_agentId (record_at r w)" w]
  show "team_le w (fst (andThen (gets (\<lambda>w. (r < length (tw_records w), cr_agentId (record_at r w))))
     (\<lambda>(known, agentId). when_do known (scheduleSessionEndCompletion env agentId r)) w))"
    by (cases "tracked w") (auto simp: run_simps owned_le_def owns_def team_le_def team_le_refl[unfolded team_le_def])
qed

lemma keeps_after_spawn: "tg.keeps (after_spawn env p s t rec initialPrompt spawned)"
  unfolding after_spawn_def Let_def
  by (intro keeps_steps track_le keeps_join keeps_delegation_memory keeps_note) auto

lemma keeps_assign: "tg.keeps (assign_and_spawn env p s t provider cwd plan agentId initialPrompt)"
  unfolding assign_and_spawn_def Let_def attempt_def
  by (intro keeps_steps keeps_spawn keeps_after_spawn)

lemma keeps_delegate_to: "tg.keeps (delegate_to env p depth s t)"
  unfolding delegate_to_def Let_def
  by (intro keeps_steps keeps_roster keeps_create_agent keeps_context keeps_assign)

lemma keeps_delegate_spawn: "tg.keeps (delegateTaskWithSpawn env p)"
  unfolding delegateTaskWithSpawn_def delegate_checked_def checkDelegationDepth_def getDelegationDepth_def attempt_def
  by (intro keeps_steps keeps_delegate_to)

lemma keeps_ignoring: "tg.keeps m \<Longrightarrow> tg.keeps (ignoring m)"
  unfolding ignoring_def by (intro tg.keeps_intros)

lemma keeps_call: "tg.keeps (run_call env c)"
  by (cases c; simp add: run_call_def registerAgentSession_def subscribeToChildAgentEvents_def Let_def;
      intro keeps_ignoring keeps_delegate_spawn keeps_bus_event keeps_auto_report keeps_child_error keeps_session_end
        keeps_report_file keeps_file_change keeps_update keeps_cleanup_session keeps_report keeps_notify_idle
        keeps_notify_failed keeps_wake_or_create keeps_task_status keeps_same)
     (simp_all add: same_team_def woken_def)

lemma keeps_calls: "tg.keeps (run_calls env cs)"
  unfolding run_calls_def by (intro tg.keeps_each keeps_call)

end

section \<open>At most one wake-up\<close>

text \<open>The environment in which no other call runs at an await.\<close>

definition team_alone :: "team_env \<Rightarrow> team_env" where
  "team_alone env = env\<lparr>te_others := (\<lambda>n w. w)\<rparr>"

text \<open>The environment in which other calls run at every await, alone or themselves interrupted.\<close>

fun team_crowd :: "nat \<Rightarrow> (nat \<Rightarrow> nat \<Rightarrow> team_call list) \<Rightarrow> team_env \<Rightarrow> team_env" where
  "team_crowd 0 calls env = team_alone env"
| "team_crowd (Suc k) calls env =
     env\<lparr>te_others := (\<lambda>n w. fst (run_calls (team_crowd k calls env) (calls k n) w))\<rparr>"

interpretation team_alone: team_others "team_alone env" for env
  by unfold_locales (simp add: team_alone_def team_le_refl)

lemma crowd_others: "team_others (team_crowd k calls env)"
proof (induction k)
  case 0
  show ?case using team_alone.team_others_axioms by simp
next
  case (Suc k)
  show ?case
    by unfold_locales (simp add: tg.keepsD[OF team_others.keeps_calls[OF Suc]])
qed

interpretation team_crowd: team_others "team_crowd k calls env" for k calls env
  by (rule crowd_others)

lemma calls_keep_team:
  assumes "\<And>n w. team_le w (te_others env n w)"
  shows "team_le w (fst (run_calls env calls w))"
  by (rule tg.keepsD[OF team_others.keeps_calls]) (unfold_locales, rule assms)

text \<open>C3. A delegated agent's completion wakes the agent that delegated at most once, whichever of its four
  sources report it (its own report, the end of its session, the automatic report, an error), in whatever
  order and however they overlap: over any sequence of calls, with other calls at every await that keep the
  same order, as all calls of the orchestrator do, the prompts about a child that were handled without an
  error are at most one; and once the completion counts as handled there is none any more.
\<close>

theorem parent_is_woken_once:
  assumes others: "\<And>n w. team_le w (te_others env n w)"
    and start: "tracked w" "r < length (tw_records w)"
    and run: "w' = fst (run_calls env calls w)"
  shows "woken r w' \<le> woken r w + 1
    \<and> (cr_completionHandled (record_at r w) \<longrightarrow>
         woken r w' = woken r w \<and> cr_completionHandled (record_at r w'))"
proof -
  have "team_le w w'" unfolding run by (rule calls_keep_team[OF others])
  then have "child_le r w w'" using start by (simp add: team_le_def)
  then show ?thesis using same_child_fields(2)
    by (auto simp: child_le_def left_to_def split: if_splits)
qed

end
