(* ===== verification/DelegationQuiet.thy ===== *)
theory DelegationQuiet
  imports DelegationProps
begin

text \<open>
  What the calls do when no other call runs at their awaits and no store call is rejected: the steps
  as equations, and the parts that leave the stores alone.
\<close>

section \<open>Parts that leave the stores alone\<close>

definition same_data :: "team_world \<Rightarrow> team_world \<Rightarrow> bool" where
  "same_data w w' \<longleftrightarrow> tw_agents w' = tw_agents w \<and> tw_store w' = tw_store w
     \<and> tw_conversations w' = tw_conversations w"

interpretation dg: guarantee same_data
  by unfold_locales (simp_all add: same_data_def)

interpretation ng: guarantee neutral
  by unfold_locales (simp_all add: neutral_def)

locale quiet_team =
  fixes env :: team_env
  assumes quiet: "te_others env n w = w" and stores_work: "te_storeFails env n = None"

sublocale quiet_team \<subseteq> team_others env
  by unfold_locales (simp add: quiet team_le_refl)

sublocale quiet_team \<subseteq> data: team_pieces same_data env
  by unfold_locales (simp_all add: quiet same_data_def neutral_def)

sublocale quiet_team \<subseteq> neutral: team_pieces neutral env
  by unfold_locales (simp_all add: quiet neutral_def)

context quiet_team
begin

lemma data_note: "dg.keeps (note_effect e)"
  unfolding note_effect_def by (intro dg.keeps_modify) (simp add: same_data_def)

lemma data_set_group: "dg.keeps (set_group g f)" "dg.keeps (close_group groupId parentAgentId)"
  unfolding set_group_def close_group_def by (intro dg.keeps_modify; simp add: same_data_def)+

lemma data_join: "dg.keeps (join_group env callerAgentId callerSessionId agentId)"
  unfolding join_group_def Let_def
  by (intro data.keeps_pieces data_set_group dg.keeps_modify) (simp add: same_data_def)

lemma data_send: "dg.keeps (sendPromptToSession env r sessionId msg fallback)"
  unfolding sendPromptToSession_def deliver_prompt_def
  by (intro data.keeps_pieces data_note)

lemma data_wake: "dg.keeps (wakeParent env r groupId)"
  unfolding wakeParent_def
  by (intro data.keeps_pieces data_send data.keeps_notify_completion data.keeps_message)

lemma data_handle: "dg.keeps (handleChildCompletion env childAgentId r)"
  unfolding handleChildCompletion_def complete_child_def
  by (intro data.keeps_pieces data.keeps_outcome data.keeps_forget data_wake data_set_group)

lemma data_run: "dg.keeps (run_completion env childAgentId r)"
  unfolding run_completion_def attempt_def set_record_def
  by (intro data.keeps_pieces data_handle dg.keeps_modify) (simp_all add: same_data_def)

lemma data_finalize: "dg.keeps (finalizeChildCompletion env childAgentId r source)"
  unfolding finalizeChildCompletion_def
  by (intro data.keeps_pieces data.keeps_record_memory data_run)

section \<open>Steps as equations\<close>

lemma q_tpause: "tpause env w = (w\<lparr>tw_awaits := Suc (tw_awaits w)\<rparr>, Inr ())"
  by (simp add: tpause_def run_simps quiet)

lemma q_store_call:
  "store_call env m w = (case m (w\<lparr>tw_awaits := Suc (tw_awaits w)\<rparr>) of
     (w', Inl e) \<Rightarrow> (w', Inl e) | (w', Inr x) \<Rightarrow> (w'\<lparr>tw_awaits := Suc (tw_awaits w')\<rparr>, Inr x))"
  by (simp add: store_call_def run_simps ask_def q_tpause stores_work)

lemma q_get_agent:
  "get_agent env agentId w = (w\<lparr>tw_awaits := tw_awaits w + 2\<rparr>, Inr (agent_get (tw_agents w) agentId))"
  by (simp add: get_agent_def q_store_call run_simps)

lemma q_get_task:
  "get_task env taskId w = (w\<lparr>tw_awaits := tw_awaits w + 2\<rparr>,
     Inr (store_get (hostToISO (te_host env) (te_now env (tw_awaits w + 1))) (tw_store w) taskId))"
  by (simp add: get_task_def q_store_call run_simps tiso_of_def time_of_def)

lemma q_save_task:
  "save_task env t w = (w\<lparr>tw_awaits := tw_awaits w + 2, tw_store :=
     store_save (hostToISO (te_host env) (te_now env (tw_awaits w + 1))) (tw_store w) t\<rparr>, Inr ())"
  by (simp add: save_task_def q_store_call run_simps tiso_of_def time_of_def)

lemma q_agent_status:
  "set_agent_status env agentId status w = (w\<lparr>tw_awaits := tw_awaits w + 2, tw_agents :=
     agent_updateStatus (te_now env (tw_awaits w + 1)) (tw_agents w) agentId status\<rparr>, Inr ())"
  by (simp add: set_agent_status_def q_store_call run_simps time_of_def)

lemma q_append:
  "append_message env agentId content w = (w\<lparr>tw_ids := Suc (tw_ids w), tw_awaits := tw_awaits w + 2,
     tw_conversations := conv_append (tw_conversations w)
       (createMessage (te_now env (tw_awaits w)) (te_uuid env (tw_ids w)) agentId MR_USER content)\<rparr>, Inr ())"
  by (simp add: append_message_def q_store_call run_simps time_of_def uuidv4_def)

lemma q_emit:
  "emit_team env etype agentId workspaceId d w = (w\<lparr>tw_log := tw_log w @ [TeamEvent \<lparr>ev_type = etype,
     ev_agentId = agentId, ev_workspaceId = workspaceId, ev_data = d, ev_timestamp = te_now env (tw_awaits w)\<rparr>]\<rparr>, Inr ())"
  by (simp add: emit_team_def note_effect_def run_simps time_of_def)

lemmas q_steps = q_tpause q_get_agent q_get_task q_save_task q_agent_status q_append q_emit

end

text \<open>What a store gives back of a task that was saved.\<close>

lemma saved_task:
  "\<exists>t'. store_get later (store_save now s t) (tk_id t) = Some t' \<and> tk_status t' = tk_status t
     \<and> tk_completionSummary t' = tk_completionSummary t \<and> tk_id t' = tk_id t \<and> tk_assignedTo t' = tk_assignedTo t"
  by (simp add: store_get_def store_save_def hydrateTask_def stripSpeculativeKanbanTaskAdaptiveSnapshot_def Let_def)

lemma stored_task:
  "om_get s taskId = Some t \<Longrightarrow> \<exists>t'. store_get now s taskId = Some t' \<and> tk_id t' = tk_id t \<and> tk_status t' = tk_status t"
  by (simp add: store_get_def hydrateTask_def stripSpeculativeKanbanTaskAdaptiveSnapshot_def)

end
