(* ===== verification/DelegationBehaviour.thy ===== *)
theory DelegationBehaviour
  imports DelegationQuiet
begin

text \<open>
  What single calls of the delegation do: when a group wakes the agent that delegated, what late and
  repeated reports do to a task, and what happens to a child that joins a group that is being reported.
\<close>

section \<open>The quiet environment\<close>

definition team_quiet :: "team_env \<Rightarrow> team_env" where
  "team_quiet env = env\<lparr>te_others := (\<lambda>n w. w), te_storeFails := (\<lambda>n. None)\<rparr>"

interpretation team_quiet: quiet_team "team_quiet env" for env
  by unfold_locales (simp_all add: team_quiet_def)

lemmas quiet_steps = team_quiet.q_steps

section \<open>Groups\<close>

lemma group_done_iff:
  assumes "distinct (dg_childAgentIds g)" "distinct (dg_completedAgentIds g)"
    "set (dg_completedAgentIds g) \<subseteq> set (dg_childAgentIds g)"
  shows "group_done g \<longleftrightarrow> set (dg_childAgentIds g) = set (dg_completedAgentIds g)"
proof -
  have "length (dg_childAgentIds g) = card (set (dg_childAgentIds g))"
    "length (dg_completedAgentIds g) = card (set (dg_completedAgentIds g))"
    using assms by (simp_all add: distinct_card)
  then show ?thesis
    using assms(3) unfolding group_done_def
    by (metis card_mono card_seteq List.finite_set antisym order_refl)
qed

definition group_ok_at :: "delegation_group \<Rightarrow> bool" where
  "group_ok_at g \<longleftrightarrow> distinct (dg_childAgentIds g) \<and> distinct (dg_completedAgentIds g)
     \<and> set (dg_completedAgentIds g) \<subseteq> set (dg_childAgentIds g)"

lemma complete_in_group_ok:
  assumes "group_ok_at g" "a \<in> set (dg_childAgentIds g)"
  shows "group_ok_at (complete_in_group a g)
    \<and> (group_done (complete_in_group a g) \<longleftrightarrow> set (dg_childAgentIds g) - set (dg_completedAgentIds g) \<subseteq> {a})"
proof -
  have ok: "group_ok_at (complete_in_group a g)"
    using assms by (auto simp: group_ok_at_def complete_in_group_def)
  then show ?thesis
    using group_done_iff[of "complete_in_group a g"] assms
    by (auto simp: group_ok_at_def complete_in_group_def)
qed

lemma group_at_set:
  "g < length (tw_groupObjects w) \<Longrightarrow> group_at g (w\<lparr>tw_groupObjects := (tw_groupObjects w)[g := x]\<rparr>) = x"
  by (simp add: group_at_def)

text \<open>What a report says of a child, and of an agent on its own: read off the state, without the calls.\<close>

definition task_of :: "team_world \<Rightarrow> child_record \<Rightarrow> task option" where
  "task_of w rec = om_get (tw_store w) (cr_taskId rec)"

definition agent_name :: "team_world \<Rightarrow> string \<Rightarrow> string" where
  "agent_name w agentId = orDefault (map_option ag_name (agent_get (tw_agents w) agentId)) agentId"

definition said :: "(task \<Rightarrow> string option) \<Rightarrow> task option \<Rightarrow> string option" where
  "said field t = (case Option.bind t field of None \<Rightarrow> None | Some x \<Rightarrow> if x = [] then None else Some x)"

definition child_report :: "team_world \<Rightarrow> string \<Rightarrow> report_line list" where
  "child_report w childId = (case om_get (tw_childAgents w) childId of
     None \<Rightarrow> []
   | Some q \<Rightarrow> let rec = record_at q w; t = task_of w rec in
       ReportLine (agent_name w childId) (cr_role rec) (orDefault (map_option tk_title t) (cr_taskId rec)) (map_option tk_status t)
       # (case said tk_completionSummary t of None \<Rightarrow> [] | Some x \<Rightarrow> [SummaryLine x]))"

definition agent_report :: "team_world \<Rightarrow> child_record \<Rightarrow> wake_message" where
  "agent_report w rec = (let t = task_of w rec in
     AgentReport (agent_name w (cr_agentId rec)) (cr_role rec) (orDefault (map_option tk_title t) (cr_taskId rec))
       (map_option tk_status t) (said tk_completionSummary t) (Option.bind t tk_verificationVerdict) (said tk_verificationReport t))"

text \<open>A session with a live process that takes prompts.\<close>

definition reachable :: "team_env \<Rightarrow> string \<Rightarrow> bool" where
  "reachable env sessionId \<longleftrightarrow> (\<forall>n. te_promptFails env n sessionId = None
     \<and> (case te_adapterOf env n sessionId of
          Some k \<Rightarrow> te_adapterAlive env n sessionId
        | None \<Rightarrow> te_workspaceAgent env n sessionId \<or> te_processReady env n sessionId))"

lemma read_fields:
  "store_get now s taskId = map_option (hydrateTask now) (om_get s taskId)"
  "tk_title (hydrateTask now t) = tk_title t" "tk_status (hydrateTask now t) = tk_status t"
  "tk_completionSummary (hydrateTask now t) = tk_completionSummary t"
  "tk_verificationVerdict (hydrateTask now t) = tk_verificationVerdict t"
  "tk_verificationReport (hydrateTask now t) = tk_verificationReport t"
  by (simp_all add: store_get_def hydrateTask_def stripSpeculativeKanbanTaskAdaptiveSnapshot_def)

lemma report_later [simp]: "child_report (w\<lparr>tw_awaits := k\<rparr>) c = child_report w c"
  by (simp add: child_report_def task_of_def agent_name_def record_at_def cong: option.case_cong)

lemma quiet_child_lines: "\<exists>k. child_lines (team_quiet env) c w = (w\<lparr>tw_awaits := k\<rparr>, Inr (child_report w c))"
proof (cases "om_get (tw_childAgents w) c")
  case None
  then have "child_lines (team_quiet env) c w = (w\<lparr>tw_awaits := tw_awaits w\<rparr>, Inr (child_report w c))"
    by (simp add: child_lines_def child_report_def run_simps)
  then show ?thesis by blast
next
  case (Some q)
  then have "child_lines (team_quiet env) c w = (w\<lparr>tw_awaits := tw_awaits w + 4\<rparr>, Inr (child_report w c))"
    by (cases "task_of w (record_at q w)")
      (auto simp: child_lines_def child_report_def run_simps quiet_steps read_fields task_of_def agent_name_def said_def Let_def
        split: option.split)
  then show ?thesis by blast
qed

lemma quiet_group_lines:
  "i \<le> length (dg_childAgentIds (group_at g w)) \<Longrightarrow> length (dg_childAgentIds (group_at g w)) < i + fuel \<Longrightarrow>
   \<exists>k. group_lines (team_quiet env) g i fuel w
     = (w\<lparr>tw_awaits := k\<rparr>, Inr (concat (map (child_report w) (drop i (dg_childAgentIds (group_at g w))))))"
proof (induction fuel arbitrary: i w)
  case (Suc fuel)
  let ?ids = "dg_childAgentIds (group_at g w)"
  show ?case
  proof (cases "i < length ?ids")
    case True
    obtain k where k: "child_lines (team_quiet env) (?ids ! i) w = (w\<lparr>tw_awaits := k\<rparr>, Inr (child_report w (?ids ! i)))"
      using quiet_child_lines by blast
    have same: "group_at g (w\<lparr>tw_awaits := k\<rparr>) = group_at g w" by (simp add: group_at_def)
    then obtain m where m: "group_lines (team_quiet env) g (Suc i) fuel (w\<lparr>tw_awaits := k\<rparr>)
        = (w\<lparr>tw_awaits := m\<rparr>, Inr (concat (map (child_report w) (drop (Suc i) ?ids))))"
      using Suc.IH [of "Suc i" "w\<lparr>tw_awaits := k\<rparr>"] Suc.prems True by auto
    have "group_lines (team_quiet env) g i (Suc fuel) w = (w\<lparr>tw_awaits := m\<rparr>,
        Inr (child_report w (?ids ! i) @ concat (map (child_report w) (drop (Suc i) ?ids))))"
      using True k m by (simp add: run_simps)
    then show ?thesis using Cons_nth_drop_Suc [OF True] by (metis concat.simps(2) list.simps(9))
  next
    case False
    then have "group_lines (team_quiet env) g i (Suc fuel) w = (w\<lparr>tw_awaits := tw_awaits w\<rparr>, Inr [])" by (simp add: run_simps)
    then show ?thesis using False by (intro exI [of _ "tw_awaits w"]) (simp del: group_lines.simps)
  qed
qed simp

lemma quiet_deliver:
  assumes "\<And>n. te_promptFails env n sessionId = None"
  shows "\<exists>k. deliver_prompt (team_quiet env) r sessionId msg ws w
    = (w\<lparr>tw_awaits := k, tw_log := tw_log w @ [ParentPrompted r sessionId msg ws, ParentWoken r sessionId msg]\<rparr>, Inr ())"
proof -
  have "te_promptFails (team_quiet env) n sessionId = None" for n using assms by (simp add: team_quiet_def)
  then have "deliver_prompt (team_quiet env) r sessionId msg ws w = (w\<lparr>tw_awaits := Suc (Suc (tw_awaits w)),
      tw_log := tw_log w @ [ParentPrompted r sessionId msg ws, ParentWoken r sessionId msg]\<rparr>, Inr ())"
    by (cases w) (simp add: deliver_prompt_def ask_def run_simps note_effect_def quiet_steps)
  then show ?thesis by blast
qed

lemma quiet_send:
  assumes "reachable env sessionId"
  shows "\<exists>k ws. sendPromptToSession (team_quiet env) r sessionId msg fallback w
    = (w\<lparr>tw_awaits := k, tw_log := tw_log w @ [ParentPrompted r sessionId msg ws, ParentWoken r sessionId msg]\<rparr>, Inr ())"
proof -
  have "\<exists>ws. sendPromptToSession (team_quiet env) r sessionId msg fallback w = deliver_prompt (team_quiet env) r sessionId msg ws w"
    using assms [unfolded reachable_def, rule_format, of "tw_awaits w"]
    by (auto simp: sendPromptToSession_def ask_def run_andThen run_gets team_quiet_def split: option.splits)
  moreover have "te_promptFails env n sessionId = None" for n using assms by (simp add: reachable_def)
  ultimately show ?thesis using quiet_deliver [of env sessionId r msg] by metis
qed

lemma quiet_wake_group:
  assumes "om_get (tw_groups w) groupId = Some g" "length (dg_childAgentIds (group_at g w)) < te_fuel env"
    and "reachable env (cr_parentSessionId (record_at r w))"
  shows "\<exists>k ws. wakeParent (team_quiet env) r (Some groupId) w = (w\<lparr>tw_awaits := k, tw_log := tw_log w @
      (let msg = GroupReport (length (dg_childAgentIds (group_at g w))) (concat (map (child_report w) (dg_childAgentIds (group_at g w))))
       in [ParentPrompted r (cr_parentSessionId (record_at r w)) msg ws, ParentWoken r (cr_parentSessionId (record_at r w)) msg])\<rparr>, Inr ())"
proof -
  let ?rec = "record_at r w" let ?ids = "dg_childAgentIds (group_at g w)"
  define msg where "msg = GroupReport (length ?ids) (concat (map (child_report w) ?ids))"
  obtain k where k: "group_lines (team_quiet env) g 0 (te_fuel env) w = (w\<lparr>tw_awaits := k\<rparr>, Inr (concat (map (child_report w) ?ids)))"
    using quiet_group_lines [of 0 g w "te_fuel env" env] assms(2) by auto
  have "te_fuel (team_quiet env) = te_fuel env" by (simp add: team_quiet_def)
  then have "group_message (team_quiet env) groupId w = (w\<lparr>tw_awaits := k\<rparr>, Inr msg)"
    using assms(1) k by (simp add: group_message_def run_simps msg_def group_at_def)
  then have "wakeParent (team_quiet env) r (Some groupId) w
      = sendPromptToSession (team_quiet env) r (cr_parentSessionId ?rec) msg (Some (cr_workspaceId ?rec)) (w\<lparr>tw_awaits := k\<rparr>)"
    by (simp add: wakeParent_def run_simps)
  then show ?thesis
    using quiet_send [OF assms(3), of r msg "Some (cr_workspaceId ?rec)" "w\<lparr>tw_awaits := k\<rparr>"] by (simp add: msg_def Let_def)
qed

lemma quiet_wake_alone:
  assumes "reachable env (cr_parentSessionId (record_at r w))"
  shows "\<exists>k es ws. wakeParent (team_quiet env) r None w = (w\<lparr>tw_awaits := k, tw_log := tw_log w @ es @
      (let msg = agent_report w (record_at r w)
       in [ParentPrompted r (cr_parentSessionId (record_at r w)) msg ws, ParentWoken r (cr_parentSessionId (record_at r w)) msg])\<rparr>, Inr ())
    \<and> (es = [] \<or> (\<exists>d. es = [UiNotify (cr_parentSessionId (record_at r w)) d]))"
proof -
  let ?rec = "record_at r w"
  obtain k where k: "agent_message (team_quiet env) ?rec w = (w\<lparr>tw_awaits := k\<rparr>, Inr (agent_report w ?rec))"
    by (cases "task_of w ?rec")
      (auto simp: agent_message_def agent_report_def run_simps quiet_steps read_fields task_of_def agent_name_def said_def Let_def
        split: option.split)
  have "\<exists>m es. when_do (tw_notifies w \<and> None = (None :: string option)) (notify_completion (team_quiet env) ?rec) (w\<lparr>tw_awaits := k\<rparr>)
      = (w\<lparr>tw_awaits := m, tw_log := tw_log w @ es\<rparr>, Inr ()) \<and> (es = [] \<or> (\<exists>d. es = [UiNotify (cr_parentSessionId ?rec) d]))"
  proof (cases "tw_notifies w")
    case True
    have "\<exists>d. notify_completion (team_quiet env) ?rec (w\<lparr>tw_awaits := k\<rparr>)
        = (w\<lparr>tw_awaits := k + 2, tw_log := tw_log w @ [UiNotify (cr_parentSessionId ?rec) d]\<rparr>, Inr ())"
      by (simp add: notify_completion_def run_andThen team_quiet.q_get_task note_effect_def run_modify) blast
    then show ?thesis using True by (auto simp: run_when)
  next
    case False
    then have "when_do (tw_notifies w \<and> None = (None :: string option)) (notify_completion (team_quiet env) ?rec) (w\<lparr>tw_awaits := k\<rparr>)
        = (w\<lparr>tw_awaits := k, tw_log := tw_log w @ []\<rparr>, Inr ())" by (simp add: run_when)
    then show ?thesis by blast
  qed
  then obtain m es where n: "when_do (tw_notifies w \<and> None = (None :: string option)) (notify_completion (team_quiet env) ?rec) (w\<lparr>tw_awaits := k\<rparr>)
      = (w\<lparr>tw_awaits := m, tw_log := tw_log w @ es\<rparr>, Inr ())" "es = [] \<or> (\<exists>d. es = [UiNotify (cr_parentSessionId ?rec) d])"
    by blast
  have "wakeParent (team_quiet env) r None w
      = sendPromptToSession (team_quiet env) r (cr_parentSessionId ?rec) (agent_report w ?rec) (Some (cr_workspaceId ?rec))
          (w\<lparr>tw_awaits := m, tw_log := tw_log w @ es\<rparr>)"
    using k n(1) by (simp add: wakeParent_def run_andThen run_gets run_next)
  then show ?thesis
    using quiet_send [OF assms, of r "agent_report w ?rec" "Some (cr_workspaceId ?rec)" "w\<lparr>tw_awaits := m, tw_log := tw_log w @ es\<rparr>"] n(2)
    by (auto simp: Let_def)
qed

text \<open>C4. A child of a group wakes nobody while another child of the group is unfinished: its completion is
  only entered in the group, without an await and so with no other call in between, whatever the
  environment. The last child's completion wakes the agent that delegated. When no other call runs
  meanwhile, the stores work and that agent's session takes prompts, it gets exactly one prompt, in the
  session from which it delegated, with the report of the group, which counts all its children and says of
  each tracked child the name, the role, the task, its status and the summary; afterwards the group is gone
  and the agent has no open group, and nothing else has changed but the entry of the completion. A child of
  no group wakes the agent that delegated at once, with its own report.\<close>

theorem group_wakes_with_the_last:
  assumes grp: "find_group a w = Some (groupId, g)" "g < length (tw_groupObjects w)" "om_get (tw_groups w) groupId = Some g"
    and ok: "group_ok_at (group_at g w)" and fuel: "length (dg_childAgentIds (group_at g w)) < te_fuel env"
    and reach: "reachable env (cr_parentSessionId (record_at r w))" "reachable env (cr_parentSessionId (record_at q w))"
    and w1: "w1 = w\<lparr>tw_groupObjects := (tw_groupObjects w)[g := complete_in_group a (group_at g w)]\<rparr>"
  shows "(\<not> set (dg_childAgentIds (group_at g w)) - set (dg_completedAgentIds (group_at g w)) \<subseteq> {a}
       \<longrightarrow> complete_child anyEnv a r w = (w1, Inr ()))
    \<and> (set (dg_childAgentIds (group_at g w)) - set (dg_completedAgentIds (group_at g w)) \<subseteq> {a}
       \<longrightarrow> (\<exists>k ws msg. complete_child (team_quiet env) a r w = (w1\<lparr>tw_awaits := k,
              tw_log := tw_log w @ [ParentPrompted r (cr_parentSessionId (record_at r w)) msg ws,
                ParentWoken r (cr_parentSessionId (record_at r w)) msg],
              tw_groups := om_del (tw_groups w) groupId,
              tw_activeGroup := om_del (tw_activeGroup w) (cr_parentAgentId (record_at r w))\<rparr>, Inr ())
            \<and> msg = GroupReport (length (dg_childAgentIds (group_at g w)))
                 (concat (map (child_report w) (dg_childAgentIds (group_at g w))))))
    \<and> group_ok_at (group_at g w1)
    \<and> (find_group b w = None
       \<longrightarrow> (\<exists>k ws es. complete_child (team_quiet env) b q w = (w\<lparr>tw_awaits := k, tw_log := tw_log w @ es @
              [ParentPrompted q (cr_parentSessionId (record_at q w)) (agent_report w (record_at q w)) ws,
               ParentWoken q (cr_parentSessionId (record_at q w)) (agent_report w (record_at q w))]\<rparr>, Inr ())
            \<and> (es = [] \<or> (\<exists>d. es = [UiNotify (cr_parentSessionId (record_at q w)) d]))))"
proof -
  have a: "a \<in> set (dg_childAgentIds (group_at g w))"
    using find_in[OF grp(1)[unfolded find_group_def]] by simp
  have at: "group_at g w1 = complete_in_group a (group_at g w)"
    unfolding w1 by (rule group_at_set[OF grp(2)])
  have run: "complete_child e a r w = when_do (group_done (group_at g w1)) (next_do (wakeParent e r (Some groupId))
      (andThen (gets (record_at r)) (\<lambda>rec. close_group groupId (cr_parentAgentId rec)))) w1" for e
    using grp by (simp add: complete_child_def run_andThen run_gets run_next set_group_def run_modify w1 group_at_def)
  have done_iff: "group_done (group_at g w1) \<longleftrightarrow> set (dg_childAgentIds (group_at g w)) - set (dg_completedAgentIds (group_at g w)) \<subseteq> {a}"
    and ok1: "group_ok_at (group_at g w1)"
    using complete_in_group_ok[OF ok a] unfolding at by blast+
  have same: "dg_childAgentIds (group_at g w1) = dg_childAgentIds (group_at g w)" "record_at r w1 = record_at r w"
      "tw_groups w1 = tw_groups w" "tw_log w1 = tw_log w" "tw_activeGroup w1 = tw_activeGroup w" "child_report w1 = child_report w"
    unfolding at by (simp_all add: complete_in_group_def w1 record_at_def child_report_def task_of_def agent_name_def fun_eq_iff
        cong: option.case_cong)
  obtain k ws where wake: "wakeParent (team_quiet env) r (Some groupId) w1 = (w1\<lparr>tw_awaits := k, tw_log := tw_log w @
      (let msg = GroupReport (length (dg_childAgentIds (group_at g w))) (concat (map (child_report w) (dg_childAgentIds (group_at g w))))
       in [ParentPrompted r (cr_parentSessionId (record_at r w)) msg ws, ParentWoken r (cr_parentSessionId (record_at r w)) msg])\<rparr>, Inr ())"
    using quiet_wake_group [of w1 groupId g env r] grp(3) fuel reach(1) by (auto simp: same)
  have last: "\<exists>k ws msg. complete_child (team_quiet env) a r w = (w1\<lparr>tw_awaits := k,
              tw_log := tw_log w @ [ParentPrompted r (cr_parentSessionId (record_at r w)) msg ws,
                ParentWoken r (cr_parentSessionId (record_at r w)) msg],
              tw_groups := om_del (tw_groups w) groupId,
              tw_activeGroup := om_del (tw_activeGroup w) (cr_parentAgentId (record_at r w))\<rparr>, Inr ())
            \<and> msg = GroupReport (length (dg_childAgentIds (group_at g w)))
                 (concat (map (child_report w) (dg_childAgentIds (group_at g w))))"
    if "group_done (group_at g w1)"
    using wake that same by (auto simp: run run_when run_simps close_group_def Let_def record_at_def intro!: exI)
  have alone: "complete_child (team_quiet env) b q w = wakeParent (team_quiet env) q None w" if "find_group b w = None"
    using that by (simp add: complete_child_def run_andThen run_gets)
  show ?thesis
    using last ok1 quiet_wake_alone [OF reach(2)] alone run [of anyEnv]
    unfolding done_iff by (auto simp: run_when Let_def)
qed

text \<open>While a finished group is being reported, the agent that delegated may delegate again; its group
  is still open, so the new child joins it, and when the report returns the group is deleted with the new
  child in it. The child is then in no group: its completion wakes the agent that delegated by itself,
  although it asked to be woken when all are done.
\<close>

theorem late_joiner_loses_its_group:
  assumes open_group: "om_get (tw_activeGroup w) parent = Some groupId" "groupId \<noteq> []"
      "om_get (tw_groups w) groupId = Some g" "g < length (tw_groupObjects w)"
    and new: "\<And>k g'. (k, g') \<in> set (tw_groups w) \<Longrightarrow> child \<notin> set (dg_childAgentIds (group_at g' w))"
    and own: "\<And>k. (k, g) \<in> set (tw_groups w) \<Longrightarrow> k = groupId"
    and joined: "w1 = fst (join_group env parent session child w)"
    and reported: "w2 = fst (close_group groupId parent w1)"
  shows "find_group child w1 = Some (groupId, g)
    \<and> find_group child w2 = None \<and> om_get (tw_activeGroup w2) parent = None
    \<and> complete_child env child r w2 = wakeParent env r None w2"
proof -
  have w1: "w1 = w\<lparr>tw_groupObjects := (tw_groupObjects w)[g := (group_at g w)\<lparr>dg_childAgentIds :=
      dg_childAgentIds (group_at g w) @ [child]\<rparr>]\<rparr>"
    using open_group by (simp add: joined join_group_def run_simps set_group_def group_at_def truthy_def)
  have at: "group_at g' w1 = (if g' = g then (group_at g w)\<lparr>dg_childAgentIds := dg_childAgentIds (group_at g w) @ [child]\<rparr>
      else group_at g' w)" for g'
    using open_group(4) by (auto simp: w1 group_at_def nth_list_update)
  have grps: "tw_groups w1 = tw_groups w" by (simp add: w1)
  have in_w1: "(k, g') \<in> set (tw_groups w) \<Longrightarrow> child \<in> set (dg_childAgentIds (group_at g' w1)) \<longleftrightarrow> g' = g" for k g'
    using new by (auto simp: at)
  have "(groupId, g) \<in> set (tw_groups w)" using open_group(3) by (rule map_of_SomeD)
  then have "find_group child w1 \<noteq> None"
    unfolding find_group_def grps find_None_iff using in_w1 by blast
  moreover have "find_group child w1 = Some (k, g') \<Longrightarrow> k = groupId \<and> g' = g" for k g'
    using find_in[of _ "tw_groups w" "(k, g')"] in_w1 own unfolding find_group_def grps by blast
  ultimately have one: "find_group child w1 = Some (groupId, g)" by (cases "find_group child w1") auto
  have w2: "tw_groups w2 = om_del (tw_groups w) groupId" "group_at g' w2 = group_at g' w1"
      "tw_activeGroup w2 = om_del (tw_activeGroup w) parent" for g'
    by (simp_all add: reported close_group_def run_simps w1 group_at_def)
  have none: "find_group child w2 = None"
    unfolding find_group_def find_None_iff w2 using in_w1 own by (auto simp: om_del_def)
  then show ?thesis using one w2(3) by (simp add: complete_child_def run_andThen run_gets)
qed

section \<open>Late and repeated reports\<close>

definition task_says :: "team_world \<Rightarrow> string \<Rightarrow> task_status \<Rightarrow> string option \<Rightarrow> bool" where
  "task_says w taskId status summary \<longleftrightarrow> (case om_get (tw_store w) taskId of
     None \<Rightarrow> False
   | Some t \<Rightarrow> tk_id t = taskId \<and> tk_status t = status \<and> tk_completionSummary t = summary)"

lemma says_saved:
  "tw_store w' = store_save now s t \<Longrightarrow> tk_id t = taskId \<Longrightarrow> task_says w' taskId (tk_status t) (tk_completionSummary t)"
  by (auto simp: task_says_def store_save_def stripSpeculativeKanbanTaskAdaptiveSnapshot_def Let_def)

lemma says_data: "same_data w w' \<Longrightarrow> task_says w' taskId status summary = task_says w taskId status summary"
  by (simp add: same_data_def task_says_def)

lemma read_task:
  assumes "task_says w taskId status summary"
  obtains t where "store_get now (tw_store w) taskId = Some t" "tk_id t = taskId"
  using assms by (auto simp: task_says_def store_get_def hydrateTask_def
    stripSpeculativeKanbanTaskAdaptiveSnapshot_def split: option.splits)

text \<open>A report of an agent that has a parent, on a task that is stored.\<close>

lemma quiet_report:
  assumes agent: "agent_get (tw_agents w) a = Some ag" "truthy (ag_parentId ag)"
    and task: "task_says w (rt_taskId rep) st sm" "rt_taskId rep \<noteq> []"
  obtains w' res n where "reportToParent (team_quiet env) a rep w = (w', Inr res)"
    "task_says w' (rt_taskId rep) (if rt_success rep then TS_COMPLETED else TS_NEEDS_FIX) (Some (rt_summary rep))"
    "tw_agents w' = agent_updateStatus n (tw_agents w) a AS_COMPLETED"
    "tw_childAgents w' = tw_childAgents w" "tw_records w' = tw_records w" "tw_completing w' = tw_completing w"
proof -
  obtain t where t: "store_get (hostToISO (te_host (team_quiet env)) (te_now (team_quiet env) (tw_awaits w + 3))) (tw_store w)
      (rt_taskId rep) = Some t" "tk_id t = rt_taskId rep"
    using read_task[OF task(1)] by metis
  let ?t' = "t\<lparr>tk_status := (if rt_success rep then TS_COMPLETED else TS_NEEDS_FIX),
     tk_completionSummary := Some (rt_summary rep), tk_updatedAt := te_now (team_quiet env) (tw_awaits w + 4)\<rparr>"
  obtain w' v where run: "reportToParent (team_quiet env) a rep w = (w', v)" by fastforce
  have "tw_store w' = store_save (hostToISO (te_host (team_quiet env)) (te_now (team_quiet env) (tw_awaits w + 5))) (tw_store w) ?t'
    \<and> tw_agents w' = agent_updateStatus (te_now (team_quiet env) (tw_awaits w + 7)) (tw_agents w) a AS_COMPLETED
    \<and> tw_childAgents w' = tw_childAgents w \<and> tw_records w' = tw_records w \<and> tw_completing w' = tw_completing w
    \<and> (\<exists>res. v = Inr res)"
    using run agent task(2) t
    by (auto simp: reportToParent_def report_on_task_def run_simps quiet_steps time_of_def numeral_eq_Suc)
  then show thesis
    using that[of w'] run says_saved[of w' _ "tw_store w" ?t' "rt_taskId rep"] t(2) by auto
qed

end
