(* ===== verification/DelegationDepth.thy ===== *)
theory DelegationDepth
  imports DelegationBehaviour
begin

text \<open>
  How deep agents create agents. Every agent that a call makes is made with metadata and a parent that
  the call chooses; nothing changes them afterwards. A delegation writes its depth into the metadata.
\<close>

section \<open>Agents that are made\<close>

text \<open>Each agent is one from before, with its metadata and its parent, or is made as \<open>P\<close> says.\<close>

type_synonym making = "(string, string) omap \<Rightarrow> string option \<Rightarrow> bool"

definition made :: "making \<Rightarrow> team_world \<Rightarrow> team_world \<Rightarrow> bool" where
  "made P w w' \<longleftrightarrow> (\<forall>a ag'. agent_get (tw_agents w') a = Some ag' \<longrightarrow>
     P (ag_metadata ag') (ag_parentId ag') \<or> (\<exists>ag. agent_get (tw_agents w) a = Some ag
       \<and> ag_metadata ag' = ag_metadata ag \<and> ag_parentId ag' = ag_parentId ag))"

lemma made_same: "tw_agents w' = tw_agents w \<Longrightarrow> made P w w'"
  by (auto simp: made_def)

lemma made_trans: "made P w w' \<Longrightarrow> made P w' w'' \<Longrightarrow> made P w w''"
  unfolding made_def by metis

interpretation mg: guarantee "made P" for P
  by unfold_locales (rule made_same, simp, rule made_trans)

text \<open>The name on the team that a delegation adds to the metadata says nothing of a depth.\<close>

definition no_depth :: "(string, string) omap option \<Rightarrow> bool" where
  "no_depth roster \<longleftrightarrow> ''delegationDepth'' \<notin> fst ` set (orDefault roster [])"

lemma roster_no_depth:
  "buildTeamRuntimeMetadata env workspaceId callerAgentId t specialistId additional w = (w', Inr roster) \<Longrightarrow> no_depth roster"
  by (auto simp: buildTeamRuntimeMetadata_def run_simps no_depth_def split: prod.splits sum.splits if_splits option.splits list.splits)

locale agent_makers =
  fixes env :: team_env and P :: making
  assumes others_make: "made P w (te_others env n w)"

sublocale agent_makers \<subseteq> team_pieces "made P" env
  by unfold_locales (auto intro: made_same others_make simp: neutral_def)

context agent_makers
begin

lemma keeps_agents: "(\<And>w. tw_agents (f w) = tw_agents w) \<Longrightarrow> keeps (modify f)"
  by (intro keeps_modify made_same)

lemma keeps_effect: "keeps (note_effect e)"
  unfolding note_effect_def by (intro keeps_agents) simp

lemma keeps_save_task: "keeps (save_task env t)"
  unfolding save_task_def by (intro keeps_store_call keeps_agents) simp

lemma keeps_agent_status: "keeps (set_agent_status env agentId status)"
proof -
  have "made P w (w\<lparr>tw_agents := agent_updateStatus now (tw_agents w) agentId status\<rparr>)" for w now
    by (auto simp: made_def agent_get_updateStatus split: if_splits)
  then show ?thesis unfolding set_agent_status_def by (intro keeps_store_call keeps_modify)
qed

lemma keeps_append: "keeps (append_message env agentId content)"
  unfolding append_message_def by (intro keeps_store_call keeps_rules keeps_uuid keeps_agents) simp

lemmas keeps_steps = keeps_pieces keeps_effect keeps_save_task keeps_agent_status keeps_append keeps_unwatch keeps_dispatch

lemma keeps_save_agent: "P (ag_metadata ag) (ag_parentId ag) \<Longrightarrow> keeps (save_agent env ag)"
  unfolding save_agent_def
  by (intro keeps_store_call keeps_modify) (auto simp: made_def split: if_splits)

lemma keeps_create_agent:
  "P (orDefault (cp_metadata p) []) (cp_parentId p) \<Longrightarrow> keeps (createAgentTool env p)"
  unfolding createAgentTool_def Let_def
  by (cases "parse_role (cp_role p)")
     (auto intro!: keeps_steps keeps_save_agent simp: createAgentModel_def)

lemma keeps_report: "keeps (reportToParent env agentId report)"
  unfolding reportToParent_def report_on_task_def by (intro keeps_steps)

lemma keeps_delegate: "keeps (delegate env agentId taskId callerAgentId)"
  unfolding delegate_def by (intro keeps_steps)

lemma keeps_create_task_agent: "P [] (Some (wp_callerAgentId p)) \<Longrightarrow> keeps (create_task_agent env p)"
  unfolding create_task_agent_def by (intro keeps_steps keeps_create_agent keeps_delegate) simp

lemma keeps_wake_or_create: "P [] (Some (wp_callerAgentId p)) \<Longrightarrow> keeps (wakeOrCreateTaskAgent env p)"
  unfolding wakeOrCreateTaskAgent_def by (intro keeps_steps keeps_create_task_agent)

lemma keeps_task_status: "keeps (updateTaskStatus env taskId status agentId summary)"
  unfolding updateTaskStatus_def Let_def by (intro keeps_steps)

lemma keeps_notifier: "keeps (notifyIdle env n summary)" "keeps (notifyFailed env n failure pendingWork)"
  unfolding notifyIdle_def notifyFailed_def deliverToParent_def by (intro keeps_steps)+

lemma keeps_report_file: "keeps (processReportFile env agentId filePath)"
  unfolding processReportFile_def by (intro keeps_steps keeps_report)

lemma keeps_group_steps: "keeps (set_group g f)" "keeps (close_group groupId parentAgentId)"
  unfolding set_group_def close_group_def by (intro keeps_agents; simp)+

lemma keeps_join: "keeps (join_group env callerAgentId callerSessionId agentId)"
  unfolding join_group_def Let_def by (intro keeps_steps keeps_group_steps keeps_agents) simp

lemma keeps_wake: "keeps (wakeParent env r groupId)"
  unfolding wakeParent_def sendPromptToSession_def deliver_prompt_def
  by (intro keeps_steps keeps_notify_completion keeps_message)

lemma keeps_handle: "keeps (handleChildCompletion env childAgentId r)"
  unfolding handleChildCompletion_def complete_child_def
  by (intro keeps_steps keeps_outcome keeps_forget keeps_wake keeps_group_steps)

lemma keeps_finalize: "keeps (finalizeChildCompletion env childAgentId r source)"
  unfolding finalizeChildCompletion_def run_completion_def attempt_def set_record_def
  by (intro keeps_steps keeps_record_memory keeps_handle keeps_agents; simp)

lemma keeps_sources:
  "keeps (autoReportIfNeeded env a)" "keeps (handleReportSubmitted env a)" "keeps (handleChildError env a failure)"
  "keeps (scheduleSessionEndCompletion env a r)"
  unfolding autoReportIfNeeded_def handleReportSubmitted_def handleChildError_def scheduleSessionEndCompletion_def
  by (intro keeps_steps keeps_report keeps_finalize)+

lemma keeps_bus_event: "keeps (on_bus_event env event)"
  unfolding on_bus_event_def by (intro keeps_steps keeps_sources)

lemma keeps_cleanup_session: "keeps (cleanup_session sessionId)"
  unfolding cleanup_session_def cleanup_child_def by (intro keeps_steps keeps_agents) simp

lemma keeps_after_spawn: "keeps (after_spawn env p s t rec initialPrompt spawned)"
  unfolding after_spawn_def Let_def track_child_def
  by (intro keeps_steps keeps_join keeps_delegation_memory keeps_agents) simp

lemma keeps_assign: "keeps (assign_and_spawn env p s t provider cwd plan agentId initialPrompt)"
  unfolding assign_and_spawn_def Let_def attempt_def by (intro keeps_steps keeps_spawn keeps_after_spawn)

lemma keeps_with_result:
  assumes "keeps m" "\<And>w w' x. m w = (w', Inr x) \<Longrightarrow> Q x" "\<And>x. Q x \<Longrightarrow> keeps (f x)"
  shows "keeps (andThen m f)"
  unfolding keeps_def run_andThen
proof
  fix w
  obtain w' v where m: "m w = (w', v)" by fastforce
  show "made P w (fst (case m w of (s', Inl e) \<Rightarrow> (s', Inl e) | (s', Inr x) \<Rightarrow> f x s'))"
    using keeps_step[OF assms(1) m] keepsD[OF assms(3)] assms(2)[of w w'] m
    by (cases v) (auto intro: made_trans)
qed

lemma keeps_delegate_to:
  assumes "\<And>s roster. no_depth roster \<Longrightarrow> P (buildAgentMetadata (calculateChildDepth d) (Some (dp_callerAgentId p)) (Some s) roster)
    (Some (dp_callerAgentId p))"
  shows "keeps (delegate_to env p d s t)"
  unfolding delegate_to_def Let_def
  by (intro keeps_steps keeps_with_result[where Q = no_depth] keeps_roster keeps_create_agent keeps_context keeps_assign)
     (auto simp: assms dest: roster_no_depth)

lemma keeps_delegate_checked:
  assumes "\<And>s roster. no_depth roster \<Longrightarrow> P (buildAgentMetadata (calculateChildDepth d) (Some (dp_callerAgentId p)) (Some s) roster)
    (Some (dp_callerAgentId p))"
  shows "keeps (delegate_checked env p d)"
  unfolding delegate_checked_def attempt_def by (intro keeps_steps keeps_delegate_to assms)

end

section \<open>The depth that is written\<close>

lemma depth_written:
  "no_depth roster \<Longrightarrow> om_get (buildAgentMetadata d c s roster) ''delegationDepth'' = Some (show_int d)"
  by (cases roster) (simp_all add: buildAgentMetadata_def no_depth_def createDelegationMetadata_def Let_def om_get_spread_other)

definition at_depth :: "int \<Rightarrow> (string, string) omap \<Rightarrow> bool" where
  "at_depth d metadata \<longleftrightarrow> (case om_get metadata ''delegationDepth'' of None \<Rightarrow> d = 0
     | Some s \<Rightarrow> orDefault (parseInt10 s) 0 = d)"

lemma depth_of_agent: "depth_of (Some ag) = d \<longleftrightarrow> at_depth d (ag_metadata ag)"
  by (auto simp: depth_of_def at_depth_def split: option.split)

lemma written_depth: "no_depth roster \<Longrightarrow> at_depth d (buildAgentMetadata d c s roster)"
  by (simp add: at_depth_def depth_written parseInt_show_int)

text \<open>Agents that are made of at most the greatest depth.\<close>

definition shallow :: making where
  "shallow metadata parent \<longleftrightarrow> (\<exists>d\<le>MAX_DELEGATION_DEPTH. at_depth d metadata)"

lemma shallow_plain: "shallow [] parent"
  by (auto simp: shallow_def at_depth_def MAX_DELEGATION_DEPTH_def)

locale shallow_team = agent_makers env shallow for env
begin

lemma keeps_delegate_spawn: "keeps (delegateTaskWithSpawn env p)"
proof -
  have "keeps (if \<not> dc_allowed (check_depth d) then ret x else delegate_checked env p (dc_currentDepth (check_depth d)))" for d x
  proof (cases "dc_allowed (check_depth d)")
    case True
    then have "keeps (delegate_checked env p (dc_currentDepth (check_depth d)))"
      by (intro keeps_delegate_checked)
         (auto simp: shallow_def check_depth_def calculateChildDepth_def split: if_splits
            intro!: written_depth exI[of _ "d + 1"])
    with True show ?thesis by simp
  qed (simp add: keeps_ret)
  then show ?thesis
    unfolding delegateTaskWithSpawn_def checkDelegationDepth_def getDelegationDepth_def andThen_assoc andThen_ret
    by (intro keeps_andThen keeps_catching keeps_get_agent keeps_ret)
qed

lemma keeps_call: "keeps (run_call env c)"
  by (cases c; simp add: run_call_def registerAgentSession_def subscribeToChildAgentEvents_def ignoring_def Let_def;
      intro keeps_steps keeps_delegate_spawn keeps_bus_event keeps_sources
        keeps_report_file keeps_file_change keeps_update keeps_cleanup_session keeps_report keeps_notifier
        keeps_wake_or_create keeps_task_status keeps_agents shallow_plain)
     simp_all

lemma keeps_calls: "keeps (run_calls env cs)"
  unfolding run_calls_def by (intro keeps_each keeps_call)

end

interpretation shallow_alone: shallow_team "team_alone env" for env
  by unfold_locales (simp add: team_alone_def made_same)

lemma crowd_shallow: "shallow_team (team_crowd k calls env)"
proof (induction k)
  case 0
  show ?case using shallow_alone.shallow_team_axioms by simp
next
  case (Suc k)
  show ?case
    by unfold_locales (simp add: mg.keepsD[OF shallow_team.keeps_calls[OF Suc]])
qed

interpretation shallow_crowd: shallow_team "team_crowd k calls env" for k calls env
  by (rule crowd_shallow)

text \<open>C5. No agent is ever deeper than the limit of delegation says, whatever the calls of the orchestrator
  and however they overlap: if every agent in the store has a depth of at most two, so has every agent
  after any sequence of calls, with other calls at every await that only make such agents, as all calls of
  the orchestrator do.
\<close>

theorem delegation_depth_is_bounded:
  assumes others: "\<And>n w. made shallow w (te_others env n w)"
    and start: "\<And>a ag. agent_get (tw_agents w) a = Some ag \<Longrightarrow> depth_of (Some ag) \<le> MAX_DELEGATION_DEPTH"
    and agent: "agent_get (tw_agents (fst (run_calls env calls w))) a = Some ag"
  shows "depth_of (Some ag) \<le> MAX_DELEGATION_DEPTH"
proof -
  have "agent_makers env shallow" by unfold_locales (rule others)
  then have "made shallow w (fst (run_calls env calls w))"
    by (intro mg.keepsD shallow_team.keeps_calls) (simp add: shallow_team_def)
  then show ?thesis
    using agent start unfolding made_def shallow_def depth_of_agent[symmetric]
    by (metis depth_of_agent)
qed

section \<open>One delegation\<close>

text \<open>Agents that are made for a caller of a known depth.\<close>

definition child_of :: "string \<Rightarrow> int \<Rightarrow> making" where
  "child_of caller d metadata parent \<longleftrightarrow> at_depth d metadata \<and> parent = Some caller"

interpretation children: agent_makers "team_quiet env" "child_of caller d" for env caller d
  by unfold_locales (simp add: team_quiet_def made_same)

text \<open>C6. A delegation goes exactly one level down: an agent at the greatest depth, or deeper, is refused and
  nothing changes but the time; for any other agent, every agent that the delegation makes has the
  caller's depth plus one and the caller as its parent, and the metadata and the parents of the agents
  that exist stay as they are.
\<close>

theorem delegation_goes_one_level_down:
  assumes depth: "depth_of (agent_get (tw_agents w) (dp_callerAgentId p)) = d"
    and run: "delegateTaskWithSpawn (team_quiet env) p w = (w', v)"
  shows "(MAX_DELEGATION_DEPTH \<le> d \<longrightarrow> neutral w w' \<and> (\<exists>e. v = Inr (errorResult e)))
    \<and> (d < MAX_DELEGATION_DEPTH \<longrightarrow> made (child_of (dp_callerAgentId p) (d + 1)) w w')"
proof -
  let ?e = "team_quiet env"
  let ?w = "w\<lparr>tw_awaits := tw_awaits w + 2\<rparr>"
  have check: "checkDelegationDepth ?e (dp_callerAgentId p) w = (?w, Inr (check_depth d))"
    using depth by (simp add: checkDelegationDepth_def getDelegationDepth_def run_simps quiet_steps)
  have n: "neutral w ?w" by (simp add: neutral_def prompts_def woken_def)
  show ?thesis
  proof (cases "MAX_DELEGATION_DEPTH \<le> d")
    case True
    then show ?thesis
      using run check n by (auto simp: delegateTaskWithSpawn_def run_simps check_depth_def)
  next
    case False
    have keep: "mg.keeps (child_of (dp_callerAgentId p) (d + 1)) (delegate_checked ?e p d)"
      by (intro children.keeps_delegate_checked)
         (auto simp: child_of_def calculateChildDepth_def written_depth)
    have "delegate_checked ?e p d ?w = (w', v)"
      using run check False by (simp add: delegateTaskWithSpawn_def run_andThen check_depth_def)
    then have "made (child_of (dp_callerAgentId p) (d + 1)) ?w w'" by (rule mg.keeps_step[OF keep])
    then show ?thesis using False by (simp add: made_def)
  qed
qed

lemma quiet_save_agent:
  "save_agent (team_quiet env) ag w =
     (w\<lparr>tw_awaits := tw_awaits w + 2, tw_agents := agent_save (tw_agents w) ag\<rparr>, Inr ())"
  by (simp add: save_agent_def team_quiet.q_store_call run_simps)

lemma quiet_uuid: "uuidv4 (team_quiet env) w = (w\<lparr>tw_ids := Suc (tw_ids w)\<rparr>, Inr (te_uuid env (tw_ids w)))"
  by (simp add: uuidv4_def run_simps team_quiet_def)

lemma quiet_create_agent:
  assumes "parse_role (cp_role p) = Some role"
  obtains w' d ag where "createAgentTool (team_quiet env) p w = (w', Inr (successResult d))"
    "jprop d ''agentId'' = JStr (te_uuid env (tw_ids w))" "tw_agents w' = agent_save (tw_agents w) ag"
    "ag_id ag = te_uuid env (tw_ids w)" "ag_parentId ag = cp_parentId p" "ag_metadata ag = orDefault (cp_metadata p) []"
    "tw_store w' = tw_store w"
proof -
  obtain w' d where run: "createAgentTool (team_quiet env) p w = (w', Inr (successResult d))"
      "jprop d ''agentId'' = JStr (te_uuid env (tw_ids w))" "tw_store w' = tw_store w"
      "tw_agents w' = agent_save (tw_agents w) (createAgentModel (time_of (team_quiet env) (w\<lparr>tw_ids := Suc (tw_ids w)\<rparr>))
         (te_uuid env (tw_ids w)) \<lparr>ap_name = cp_name p, ap_role = role, ap_workspaceId = cp_workspaceId p,
           ap_parentId = cp_parentId p,
           ap_modelTier = Some (if truthy (cp_modelTier p) then toUpperCase (the (cp_modelTier p)) else ''SMART''),
           ap_metadata = Some (orDefault (cp_metadata p) [])\<rparr>)"
    using assms
    by (simp add: createAgentTool_def Let_def run_simps quiet_steps quiet_save_agent quiet_uuid createAgentModel_def jprop_def)
  show thesis by (rule that[OF run(1,2,4) _ _ _ run(3)]) (simp_all add: createAgentModel_def)
qed

lemma quiet_delegate:
  "\<not> isl (snd (delegate (team_quiet env) agentId taskId callerAgentId w))
    \<and> (let agents = tw_agents (fst (delegate (team_quiet env) agentId taskId callerAgentId w))
       in agents = tw_agents w \<or> (\<exists>n. agents = agent_updateStatus n (tw_agents w) agentId AS_ACTIVE))"
  by (cases "agent_get (tw_agents w) agentId";
      cases "store_get (hostToISO (te_host (team_quiet env)) (te_now (team_quiet env) (tw_awaits w + 3))) (tw_store w) taskId")
     (auto simp: delegate_def run_simps quiet_steps numeral_eq_Suc Let_def)

text \<open>C36. The limit does not hold for the other way to give a task to an agent: an agent at the greatest depth,
  which is refused a delegation, makes an agent for a task without one by waking the agent of that task;
  the new agent has no depth in its metadata, so it counts as an agent at the top, and may delegate.
\<close>

theorem waking_bypasses_the_depth:
  assumes deep: "MAX_DELEGATION_DEPTH \<le> depth_of (agent_get (tw_agents w) (dp_callerAgentId q))"
    and same: "wp_callerAgentId p = dp_callerAgentId q"
    and task: "om_get (tw_store w) (wp_taskId p) = Some t" "tk_assignedTo t = None"
    and id: "te_uuid env (tw_ids w) = newId"
    and woke: "w' = fst (wakeOrCreateTaskAgent (team_quiet env) p w)"
  shows "(\<exists>w1 e. delegateTaskWithSpawn (team_quiet env) q w = (w1, Inr (errorResult e)))
    \<and> (\<exists>ag. agent_get (tw_agents w') newId = Some ag \<and> ag_parentId ag = Some (dp_callerAgentId q)
         \<and> dc_allowed (check_depth (depth_of (Some ag))))"
proof
  show "\<exists>w1 e. delegateTaskWithSpawn (team_quiet env) q w = (w1, Inr (errorResult e))"
    using deep by (simp add: delegateTaskWithSpawn_def checkDelegationDepth_def getDelegationDepth_def run_simps
      quiet_steps check_depth_def)
  have t: "\<exists>t'. store_get now (tw_store w) (wp_taskId p) = Some t' \<and> tk_assignedTo t' = None" for now
    using task by (simp add: store_get_def hydrateTask_def stripSpeculativeKanbanTaskAdaptiveSnapshot_def)
  let ?w = "w\<lparr>tw_awaits := tw_awaits w + 2\<rparr>"
  let ?cp = "\<lparr>cp_name = orDefault (wp_agentName p) (''crafter-'' @ take 8 (wp_taskId p)), cp_role = agent_role_str AR_CRAFTER,
      cp_workspaceId = wp_workspaceId p, cp_parentId = Some (wp_callerAgentId p), cp_modelTier = wp_modelTier p,
      cp_metadata = None\<rparr>"
  obtain t' where "store_get (hostToISO (te_host (team_quiet env)) (te_now (team_quiet env) (tw_awaits w + 1))) (tw_store w) (wp_taskId p) = Some t'"
      "tk_assignedTo t' = None"
    using t by blast
  then have w': "w' = fst (create_task_agent (team_quiet env) p ?w)"
    by (simp add: woke wakeOrCreateTaskAgent_def run_simps quiet_steps)
  obtain w1 d ag where w1: "createAgentTool (team_quiet env) ?cp ?w = (w1, Inr (successResult d))"
      "jprop d ''agentId'' = JStr newId" "tw_agents w1 = agent_save (tw_agents w) ag" "ag_id ag = newId"
      "ag_parentId ag = Some (dp_callerAgentId q)" "ag_metadata ag = []"
    by (rule quiet_create_agent[of ?cp AR_CRAFTER env ?w]) (use id same parse_role_str[of AR_CRAFTER] in auto)
  obtain w2 v where w2: "delegate (team_quiet env) newId (wp_taskId p) (wp_callerAgentId p) w1 = (w2, Inr v)"
      "tw_agents w2 = tw_agents w1 \<or> (\<exists>n. tw_agents w2 = agent_updateStatus n (tw_agents w1) newId AS_ACTIVE)"
    using quiet_delegate[of env newId "wp_taskId p" "wp_callerAgentId p" w1]
    by (cases "delegate (team_quiet env) newId (wp_taskId p) (wp_callerAgentId p) w1"; cases "snd (delegate (team_quiet env) newId (wp_taskId p) (wp_callerAgentId p) w1)") (auto simp: Let_def)
  have "tw_agents w' = tw_agents w2"
    using w1(1,2) w2(1) by (simp add: w' create_task_agent_def run_simps quiet_steps result_agentId_def)
  then obtain ag' where "agent_get (tw_agents w') newId = Some ag'" "ag_parentId ag' = Some (dp_callerAgentId q)" "ag_metadata ag' = []"
    using w1(3-6) w2(2) by (auto simp: agent_get_updateStatus)
  then show "\<exists>ag. agent_get (tw_agents w') newId = Some ag \<and> ag_parentId ag = Some (dp_callerAgentId q)
         \<and> dc_allowed (check_depth (depth_of (Some ag)))"
    by (simp add: depth_of_def check_depth_def MAX_DELEGATION_DEPTH_def)
qed

end
