(* ===== verification/DelegationReports.thy ===== *)
theory DelegationReports
  imports DelegationBehaviour
begin

text \<open>
  Reports about a delegated agent that overlap: the automatic report after the agent's own, an error
  after the completion, a parent without a process, and the report files of agents that share a
  directory. The calls run one after the other, with no other call at their awaits and stores that work.
\<close>

lemma ignoring_run: "ignoring m w = (fst (m w), Inr ())"
  by (cases "m w"; cases "snd (m w)") (auto simp: ignoring_def run_simps)

lemma call_returns: "run_call env c w = (fst (run_call env c w), Inr ())"
  by (cases c) (simp_all add: run_call_def ignoring_run)

lemma calls_step: "run_calls env (c # cs) w = run_calls env cs (fst (run_call env c w))"
  unfolding run_calls_def for_each.simps run_next by (subst call_returns) simp

lemma calls_end: "run_calls env [] w = (w, Inr ())"
  by (simp add: run_calls_def run_simps)

text \<open>The state of a child that is being worked on: its record, its agent, its parent and its task.\<close>

definition at_work :: "string \<Rightarrow> nat \<Rightarrow> string \<Rightarrow> team_world \<Rightarrow> bool" where
  "at_work a r taskId w \<longleftrightarrow> om_get (tw_childAgents w) a = Some r \<and> cr_taskId (record_at r w) = taskId
     \<and> taskId \<noteq> [] \<and> (case agent_get (tw_agents w) a of None \<Rightarrow> False | Some ag \<Rightarrow> truthy (ag_parentId ag))"

lemma at_work_status:
  "tw_agents w' = agent_updateStatus n (tw_agents w) b status \<Longrightarrow> tw_childAgents w' = tw_childAgents w
     \<Longrightarrow> tw_records w' = tw_records w \<Longrightarrow> at_work a r taskId w' = at_work a r taskId w"
  by (auto simp: at_work_def agent_get_updateStatus record_at_def split: option.split)

lemma notify_idle_effect:
  obtains w' k where "notifyIdle (team_quiet env) n summary w = (w', Inr ())"
    "tw_agents w' = agent_updateStatus k (tw_agents w) (nt_agentId n) AS_ACTIVE"
    "tw_childAgents w' = tw_childAgents w" "tw_records w' = tw_records w" "tw_store w' = tw_store w"
  by (cases "truthy (nt_parentId n)")
     (simp_all add: notifyIdle_def deliverToParent_def run_simps quiet_steps)

text \<open>The automatic report of an agent that is not marked as completed.\<close>

lemma auto_report_effect:
  assumes work: "at_work a r taskId w" and fresh: "\<not> cr_completionHandled (record_at r w)"
    and status: "\<And>ag. agent_get (tw_agents w) a = Some ag \<Longrightarrow> ag_status ag \<noteq> AS_COMPLETED"
    and task: "task_says w taskId st sm"
  shows "task_says (fst (autoReportIfNeeded (team_quiet env) a w)) taskId TS_COMPLETED
    (Some ''Reported completion back to lead (auto-submitted by orchestrator).'')"
proof -
  define w1 where "w1 = w\<lparr>tw_awaits := tw_awaits w + 3\<rparr>"
  obtain ag where ag: "agent_get (tw_agents w) a = Some ag" "truthy (ag_parentId ag)"
    using work by (auto simp: at_work_def split: option.splits)
  let ?rep = "auto_report a (record_at r w)"
  have rep: "rt_taskId ?rep = taskId" "rt_success ?rep" "taskId \<noteq> []"
    using work by (simp_all add: auto_report_def at_work_def)
  have t1: "task_says w1 (rt_taskId ?rep) st sm" "agent_get (tw_agents w1) a = Some ag"
    using task rep(1) ag by (simp_all add: w1_def task_says_def)
  obtain w2 res n where w2: "reportToParent (team_quiet env) a ?rep w1 = (w2, Inr res)"
      "task_says w2 (rt_taskId ?rep) (if rt_success ?rep then TS_COMPLETED else TS_NEEDS_FIX) (Some (rt_summary ?rep))"
    by (rule quiet_report[OF t1(2) ag(2) t1(1)]) (simp add: rep)
  have "fst (autoReportIfNeeded (team_quiet env) a w) = fst (finalizeChildCompletion (team_quiet env) a r SnapAuto w2)"
    using work fresh status[OF ag(1)] ag w2(1)
    by (simp add: autoReportIfNeeded_def run_simps quiet_steps at_work_def w1_def record_at_def numeral_eq_Suc)
  moreover have "same_data w2 (fst (finalizeChildCompletion (team_quiet env) a r SnapAuto w2))"
    by (rule dg.keepsD[OF team_quiet.data_finalize])
  ultimately show ?thesis using w2(2) rep says_data by (simp add: auto_report_def)
qed

text \<open>C34. A failure that an agent reports can turn into a success by itself: while the completion of the report
  is not handled yet (the agent that delegated is working on the prompt that woke it), the end of the
  agent's turn marks it as active again, so the automatic report two seconds later takes it for an agent
  that did not report, and overwrites the task: it is completed, with the automatic summary instead of the
  agent's.
\<close>

theorem automatic_report_hides_a_failure:
  assumes work: "at_work a r taskId w" and unhandled: "\<not> cr_completionHandled (record_at r w)"
    and task: "task_says w taskId st sm"
    and report: "rt_taskId rep = taskId" "\<not> rt_success rep" and turn_end: "nt_agentId n = a"
  shows "task_says (fst (run_calls (team_quiet env) [CallReport a rep] w)) taskId TS_NEEDS_FIX (Some (rt_summary rep))
    \<and> task_says (fst (run_calls (team_quiet env) [CallReport a rep, CallNotifyIdle n summary, CallTurnEnded a] w))
        taskId TS_COMPLETED (Some ''Reported completion back to lead (auto-submitted by orchestrator).'')"
proof -
  obtain ag where ag: "agent_get (tw_agents w) a = Some ag" "truthy (ag_parentId ag)"
    using work by (auto simp: at_work_def split: option.splits)
  have "task_says w (rt_taskId rep) st sm" "rt_taskId rep \<noteq> []"
    using task report(1) work by (simp_all add: at_work_def)
  then obtain w1 res k where w1: "reportToParent (team_quiet env) a rep w = (w1, Inr res)"
      "task_says w1 (rt_taskId rep) (if rt_success rep then TS_COMPLETED else TS_NEEDS_FIX) (Some (rt_summary rep))"
      "tw_agents w1 = agent_updateStatus k (tw_agents w) a AS_COMPLETED"
      "tw_childAgents w1 = tw_childAgents w" "tw_records w1 = tw_records w"
    by (rule quiet_report[OF ag])
  have work1: "at_work a r taskId w1" using work at_work_status[OF w1(3-5)] by simp
  obtain w2 k2 where w2: "notifyIdle (team_quiet env) n summary w1 = (w2, Inr ())"
      "tw_agents w2 = agent_updateStatus k2 (tw_agents w1) (nt_agentId n) AS_ACTIVE"
      "tw_childAgents w2 = tw_childAgents w1" "tw_records w2 = tw_records w1" "tw_store w2 = tw_store w1"
    using notify_idle_effect by blast
  have work2: "at_work a r taskId w2" "\<not> cr_completionHandled (record_at r w2)"
    using work1 at_work_status[OF w2(2-4)] w2(4) unhandled w1(5) by (auto simp: record_at_def)
  have active: "agent_get (tw_agents w2) a = Some x \<Longrightarrow> ag_status x \<noteq> AS_COMPLETED" for x
    using w2(2) turn_end by (auto simp: agent_get_updateStatus)
  have "task_says w2 taskId TS_NEEDS_FIX (Some (rt_summary rep))" using w1(2) w2(5) report by (simp add: task_says_def)
  from auto_report_effect[OF work2 active this]
  show ?thesis using w1(1,2) w2(1) report by (simp add: calls_step calls_end run_call_def ignoring_run)
qed

section \<open>An error after the completion\<close>

lemma handled_finalize:
  assumes "cr_completionHandled (record_at r w)"
  shows "neutral w (fst (finalizeChildCompletion (team_quiet env) a r source w))"
proof -
  obtain w1 v where m: "recordChildCompletionMemory (team_quiet env) a r source w = (w1, v)" by fastforce
  have n: "neutral w w1" using ng.keepsD[OF team_quiet.neutral.keeps_record_memory, of w env a r source] m by simp
  then have "cr_completionHandled (record_at r w1)" using assms by (simp add: neutral_def record_at_def)
  then show ?thesis using m n by (cases v) (simp_all add: finalizeChildCompletion_def run_simps)
qed

text \<open>C35. An error of the agent's process that comes after its completion was handled rewrites the finished
  task: its status becomes NEEDS_FIX and its summary the error, whatever they were, and the agent is marked
  as failed; but the agent that delegated was woken before and is told nothing.
\<close>

theorem late_error_reopens_the_task:
  assumes work: "at_work a r taskId w" and handled: "cr_completionHandled (record_at r w)"
    and task: "task_says w taskId st sm"
    and run: "w' = fst (run_calls (team_quiet env) [CallTurnFailed a failure] w)"
  shows "task_says w' taskId TS_NEEDS_FIX (Some (''Error: '' @ failure))
    \<and> map_option ag_status (agent_get (tw_agents w') a) = Some AS_ERROR \<and> prompts w' = prompts w"
proof -
  obtain ag where ag: "agent_get (tw_agents w) a = Some ag"
    using work by (auto simp: at_work_def split: option.splits)
  obtain t where t: "store_get (hostToISO (te_host (team_quiet env)) (te_now (team_quiet env) (tw_awaits w + 3))) (tw_store w) taskId = Some t"
      "tk_id t = taskId"
    using read_task[OF task] by metis
  let ?t = "t\<lparr>tk_status := TS_NEEDS_FIX, tk_completionSummary := Some (''Error: '' @ failure),
    tk_updatedAt := te_now (team_quiet env) (tw_awaits w + 4)\<rparr>"
  obtain u where u: "fst (handleChildError (team_quiet env) a failure w) = fst (finalizeChildCompletion (team_quiet env) a r SnapError u)"
      "tw_store u = store_save (hostToISO (te_host (team_quiet env)) (te_now (team_quiet env) (tw_awaits w + 5))) (tw_store w) ?t"
      "tw_agents u = agent_updateStatus (te_now (team_quiet env) (tw_awaits w + 1)) (tw_agents w) a AS_ERROR"
      "tw_records u = tw_records w" "prompts u = prompts w"
    using work t
    by (auto simp: handleChildError_def run_simps quiet_steps time_of_def at_work_def prompts_def record_at_def numeral_eq_Suc)
  have "neutral u w'"
    using handled_finalize[of r u env a SnapError] u(1,4) handled
    by (simp add: run calls_step calls_end run_call_def ignoring_run record_at_def)
  then have w': "tw_store w' = tw_store u" "tw_agents w' = tw_agents u" "prompts w' = prompts u"
    by (simp_all add: neutral_def)
  have "task_says u taskId TS_NEEDS_FIX (Some (''Error: '' @ failure))"
    using says_saved[OF u(2), of taskId] t(2) by simp
  then show ?thesis using w' u(3,5) ag by (simp add: task_says_def agent_get_updateStatus)
qed

section \<open>A parent without a process\<close>

definition unreachable :: "team_env \<Rightarrow> string \<Rightarrow> bool" where
  "unreachable env sessionId \<longleftrightarrow> (\<forall>n. case te_adapterOf env n sessionId of
       Some k \<Rightarrow> \<not> te_adapterAlive env n sessionId
     | None \<Rightarrow> \<not> te_workspaceAgent env n sessionId \<and> \<not> te_processReady env n sessionId)"

lemma unreachable_send:
  assumes "unreachable env (cr_parentSessionId rec)"
  shows "sendPromptToSession (team_quiet env) r (cr_parentSessionId rec) msg fallback w =
    (w\<lparr>tw_log := tw_log w @ [ParentUnreachable r (cr_parentSessionId rec)]\<rparr>, Inr ())"
  using assms unfolding unreachable_def
  by (auto simp: sendPromptToSession_def ask_def run_simps note_effect_def team_quiet_def dest!: spec[of _ "tw_awaits w"]
      split: option.splits)

text \<open>The steps up to the prompt neither fail nor do more than neutral steps.\<close>

lemma returns_step: "neutral w (fst (m w)) \<Longrightarrow> \<not> isl (snd (m w)) \<Longrightarrow> \<exists>w' x. m w = (w', Inr x) \<and> neutral w w'"
  by (metis isl_def prod.collapse sum.collapse(2) surjective_pairing)

lemma quiet_message:
  "\<exists>w' msg. agent_message (team_quiet env) rec w = (w', Inr msg) \<and> neutral w w'"
proof (rule returns_step)
  show "neutral w (fst (agent_message (team_quiet env) rec w))"
    by (rule ng.keepsD[OF team_quiet.neutral.keeps_message(2)])
qed (simp add: agent_message_def run_simps quiet_steps)

lemma quiet_notify: "\<exists>w'. when_do b (notify_completion (team_quiet env) rec) w = (w', Inr ()) \<and> neutral w w'"
proof -
  have "\<exists>w' x. when_do b (notify_completion (team_quiet env) rec) w = (w', Inr x) \<and> neutral w w'"
  proof (rule returns_step)
    show "neutral w (fst (when_do b (notify_completion (team_quiet env) rec) w))"
      by (rule ng.keepsD[OF ng.keeps_when[OF team_quiet.neutral.keeps_notify_completion]])
  qed (simp add: notify_completion_def run_simps quiet_steps note_effect_def)
  then show ?thesis by simp
qed

lemma quiet_outcome: "\<exists>w'. save_outcome (team_quiet env) rec w = (w', Inr ()) \<and> neutral w w'"
proof -
  have "\<exists>w' x. save_outcome (team_quiet env) rec w = (w', Inr x) \<and> neutral w w'"
  proof (rule returns_step)
    show "neutral w (fst (save_outcome (team_quiet env) rec w))"
      by (rule ng.keepsD[OF team_quiet.neutral.keeps_outcome])
  qed (simp add: save_outcome_def run_simps quiet_steps note_effect_def ask_def)
  then show ?thesis by simp
qed

lemma quiet_forget: "\<exists>w'. forget_child a w = (w', Inr ()) \<and> neutral w w'"
  by (cases "om_get (tw_watchers w) a")
     (auto simp: forget_child_def cleanupReportWatcher_def run_simps note_effect_def neutral_def prompts_def woken_def)

lemma quiet_memory: "\<exists>w'. recordChildCompletionMemory (team_quiet env) a r source w = (w', Inr ()) \<and> neutral w w'"
proof -
  have merge: "\<not> isl (snd (merge_and_write (team_quiet env) a cwd incoming u))" for cwd incoming u
    by (auto simp: merge_and_write_def Let_def run_simps split: prod.split sum.split)
  have "\<exists>w' x. recordChildCompletionMemory (team_quiet env) a r source w = (w', Inr x) \<and> neutral w w'"
  proof (rule returns_step)
    show "neutral w (fst (recordChildCompletionMemory (team_quiet env) a r source w))"
      by (rule ng.keepsD[OF team_quiet.neutral.keeps_record_memory])
  qed (use merge in \<open>auto simp: recordChildCompletionMemory_def run_simps quiet_steps split: prod.split sum.split;
        metis isl_def snd_conv\<close>)
  then show ?thesis by simp
qed

lemma neutral_group: "neutral w w' \<Longrightarrow> find_group a w' = find_group a w"
  by (simp add: neutral_def find_group_def group_at_def)

lemma neutral_record: "neutral w w' \<Longrightarrow> record_at r w' = record_at r w"
  by (simp add: neutral_def record_at_def)

lemma unreachable_handle:
  assumes gone: "unreachable env (cr_parentSessionId (record_at r w))" and alone: "find_group a w = None"
  shows "\<exists>w'. handleChildCompletion (team_quiet env) a r w = (w', Inr ()) \<and> prompts w' = prompts w
    \<and> tw_records w' = tw_records w \<and> tw_completing w' = tw_completing w"
proof -
  let ?e = "team_quiet env" let ?rec = "record_at r w"
  define w1 where "w1 = w\<lparr>tw_awaits := tw_awaits w + 2\<rparr>"
  have n1: "neutral w w1" by (simp add: w1_def neutral_def prompts_def woken_def)
  obtain w2 where w2: "save_outcome ?e ?rec w1 = (w2, Inr ())" "neutral w1 w2" using quiet_outcome by blast
  obtain w3 where w3: "forget_child a w2 = (w3, Inr ())" "neutral w2 w3" using quiet_forget by blast
  have n3: "neutral w w3" using n1 w2(2) w3(2) by (simp add: neutral_def)
  obtain w4 msg where w4: "agent_message ?e ?rec w3 = (w4, Inr msg)" "neutral w3 w4" using quiet_message by blast
  obtain w5 where w5: "when_do (tw_notifies w4 \<and> None = (None :: string option)) (notify_completion ?e ?rec) w4 = (w5, Inr ())" "neutral w4 w5"
    using quiet_notify by blast
  have n5: "neutral w w5" using n3 w4(2) w5(2) by (simp add: neutral_def)
  have "handleChildCompletion ?e a r w = complete_child ?e a r w3"
    using w2(1) w3(1) by (simp add: handleChildCompletion_def run_andThen run_next run_gets run_catching run_ret quiet_steps w1_def)
  also have "\<dots> = wakeParent ?e r None w3"
    using neutral_group[OF n3] alone by (simp add: complete_child_def run_andThen run_gets)
  also have "\<dots> = sendPromptToSession ?e r (cr_parentSessionId ?rec) msg (Some (cr_workspaceId ?rec)) w5"
    using w4(1) w5(1) neutral_record[OF n3] by (simp add: wakeParent_def run_andThen run_gets run_next)
  also have "\<dots> = (w5\<lparr>tw_log := tw_log w5 @ [ParentUnreachable r (cr_parentSessionId ?rec)]\<rparr>, Inr ())"
    by (rule unreachable_send[OF gone])
  finally show ?thesis using n5 by (simp add: neutral_def prompts_def)
qed

text \<open>An agent that delegated and has no live process is never told, and nobody notices: the completion of
  the child is entered as handled although no prompt was sent, so no later report, end of session or error
  makes another attempt; the missing process is mentioned on the console only.
\<close>

theorem unreachable_parent_counts_as_told:
  assumes gone: "unreachable env (cr_parentSessionId (record_at r w))" and alone: "find_group a w = None"
    and child: "tracked w" "om_get (tw_childAgents w) a = Some r" "r < length (tw_records w)" "cr_agentId (record_at r w) = a"
    and idle: "\<not> cr_completionHandled (record_at r w)" "om_get (tw_completing w) a = None"
    and event: "ev_type event = REPORT_SUBMITTED" "ev_agentId event = a"
    and run: "w' = fst (run_calls (team_quiet env) (CallBusEvent event # later) w)"
    and w1: "w1 = fst (run_calls (team_quiet env) [CallBusEvent event] w)"
  shows "prompts w1 = prompts w \<and> cr_completionHandled (record_at r w1)
    \<and> woken r w' = woken r w1 \<and> cr_completionHandled (record_at r w')"
proof -
  let ?e = "team_quiet env"
  obtain u where u: "recordChildCompletionMemory ?e a r SnapReported w = (u, Inr ())" "neutral w u"
    using quiet_memory by blast
  have same: "record_at r u = record_at r w" "tw_completing u = tw_completing w" "tw_records u = tw_records w" "prompts u = prompts w"
    using u(2) by (simp_all add: neutral_def record_at_def)
  have away: "record_at r (flight a r u) = record_at r u" by simp
  have g: "find_group a (flight a r u) = find_group a u" by (simp add: flight_def find_group_def group_at_def)
  have fl: "unreachable env (cr_parentSessionId (record_at r (flight a r u)))" "find_group a (flight a r u) = None"
    using gone same alone neutral_group[OF u(2)] away g by simp_all
  obtain v where v: "handleChildCompletion ?e a r (flight a r u) = (v, Inr ())" "prompts v = prompts u" "tw_records v = tw_records u"
    using unreachable_handle[OF fl] by (auto simp: flight_def prompts_def)
  have "w1 = fst (finalizeChildCompletion ?e a r SnapReported w)"
    using child(2) event by (simp add: w1 calls_step calls_end run_call_def ignoring_run on_bus_event_def
      handleReportSubmitted_def run_andThen run_gets)
  also have "\<dots> = fst (run_completion ?e a r u)"
    using u(1) idle same by (simp add: finalizeChildCompletion_def run_next run_andThen run_gets)
  finally have w1': "tw_records w1 = (tw_records u)[r := (tw_records u ! r)\<lparr>cr_completionHandled := True\<rparr>] \<and> tw_log w1 = tw_log v"
    using v by (simp add: run_completion_def run_simps attempt_def flight_def[symmetric] quiet_steps set_record_def)
  have told: "prompts w1 = prompts w \<and> cr_completionHandled (record_at r w1)"
    using w1' v(2) same child(3) by (simp add: prompts_def record_at_def)
  have len: "r < length (tw_records w1)" using w1' same child(3) by simp
  have quiet: "team_le v (te_others ?e n v)" for n v by (simp add: team_quiet_def team_le_refl)
  have "team_le w w1" unfolding w1 by (rule calls_keep_team[OF quiet])
  then have "tracked w1" using child(1) by (simp add: team_le_def)
  moreover have "team_le w1 w'"
    using calls_keep_team[OF quiet, where w = w1 and calls = later] by (simp add: run w1 calls_step calls_end)
  ultimately have "child_le r w1 w'" using len by (simp add: team_le_def)
  then have "woken r w' = woken r w1 \<and> cr_completionHandled (record_at r w')"
    using told same_child_fields(2) by (auto simp: child_le_def left_to_def split: if_splits)
  then show ?thesis using told by simp
qed

end
