(* ===== verification/DelegationRules.thy ===== *)
theory DelegationRules
  imports DelegationReports "HOL-Library.Sublist"
begin

text \<open>
  The rules a delegation keeps and those it does not: the directory an agent may work in, the memory of
  its completion, the answers to its requests for permission and the report files of agents that work in
  the same directory.
\<close>

section \<open>Directories\<close>

lemma relative_split:
  "\<exists>p as' bs'. as = p @ as' \<and> bs = p @ bs' \<and> relative_segments as bs = replicate (length as') ''..'' @ bs'"
proof (induction as bs rule: relative_segments.induct)
  case (1 a as b bs)
  show ?case
  proof (cases "a = b")
    case True
    then obtain p as' bs' where "as = p @ as'" "bs = p @ bs'"
      "relative_segments as bs = replicate (length as') ''..'' @ bs'" using 1 by blast
    then show ?thesis using True by (intro exI[of _ "a # p"] exI[of _ as'] exI[of _ bs']) simp
  next
    case False
    then show ?thesis by (intro exI[of _ "[]"] exI[of _ "a # as"] exI[of _ "b # bs"]) simp
  qed
qed auto

lemma relative_prefix: "relative_segments p (p @ q) = q"
  by (induction p) (cases q; simp)+

lemma join_starts: "startsWith (js_join sep (x # xs)) x"
  by (cases xs) (simp_all add: startsWith_iff)

lemma outside_starts_up:
  assumes "\<not> prefix as bs"
  shows "startsWith (js_join ''/'' (relative_segments as bs)) ''..'' \<and> js_join ''/'' (relative_segments as bs) \<noteq> []"
proof -
  obtain p as' bs' where s: "as = p @ as'" "bs = p @ bs'" "relative_segments as bs = replicate (length as') ''..'' @ bs'"
    using relative_split by blast
  then have "as' \<noteq> []" using assms by auto
  then obtain xs where "relative_segments as bs = ''..'' # xs" using s(3) by (cases as') auto
  then show ?thesis using join_starts[of "''/''" "''..''" xs] by (cases xs) auto
qed

text \<open>The names of a resolved path are not empty and have no slash.\<close>

definition good_name :: "string \<Rightarrow> bool" where
  "good_name seg \<longleftrightarrow> seg \<noteq> [] \<and> CHR ''/'' \<notin> set seg"

lemma split_no_slash: "seg \<in> set (split_slash s) \<Longrightarrow> CHR ''/'' \<notin> set seg"
  by (induction s arbitrary: seg rule: split_slash.induct) (auto split: if_splits list.splits)

lemma steps_good:
  "\<lbrakk>\<And>seg. seg \<in> set p \<Longrightarrow> good_name seg; \<And>seg. seg \<in> set segs \<Longrightarrow> CHR ''/'' \<notin> set seg;
    seg \<in> set (foldl path_step p segs)\<rbrakk> \<Longrightarrow> good_name seg"
proof (induction segs arbitrary: p)
  case (Cons x segs)
  have "good_name y" if "y \<in> set (path_step p x)" for y
    using that Cons.prems(1,2) by (auto simp: path_step_def good_name_def split: if_splits dest: in_set_butlastD)
  then show ?case using Cons.IH[of "path_step p x"] Cons.prems by auto
qed auto

lemma resolved_good: "seg \<in> set (path_resolve cwd p) \<Longrightarrow> good_name seg"
  unfolding path_resolve_def
  by (rule steps_good[of "if startsWith p ''/'' then [] else foldl path_step [] (split_slash cwd)" "split_slash p"])
     (auto intro: steps_good[of "[]" "split_slash cwd"] dest: split_no_slash split: if_splits)

lemma below_stays_down:
  assumes "good_name x" "\<not> startsWith x ''..''"
  shows "\<not> startsWith (js_join ''/'' (x # xs)) ''..'' \<and> \<not> startsWith (js_join ''/'' (x # xs)) ''/''"
proof -
  obtain c y where x: "x = c # y" "c \<noteq> CHR ''/''" using assms(1) by (cases x) (auto simp: good_name_def)
  then show ?thesis using assms(2) by (cases y; cases xs) auto
qed

text \<open>C7. A delegated agent of a session that has a directory works in that directory or below it, whatever
  directory the caller asks for: its directory resolves to a path that the path of the session's directory
  is a beginning of. A directory below the session's is granted as it was asked for, unless its first name
  below the session's starts with two dots.
\<close>

theorem delegated_directory_stays_inside:
  assumes session: "hs_cwd s \<noteq> []" and base: "base = path_resolve (te_processCwd env) (hs_cwd s)"
  shows "prefix base (path_resolve (te_processCwd env) (resolveDelegationCwd env (Some s) requested))
    \<and> (asked \<noteq> [] \<and> path_resolve (te_processCwd env) asked = base @ first # rest \<and> \<not> startsWith first ''..''
       \<longrightarrow> resolveDelegationCwd env (Some s) (Some asked) = asked)"
proof
  let ?at = "path_resolve (te_processCwd env)"
  show "prefix base (?at (resolveDelegationCwd env (Some s) requested))"
  proof (cases "truthy requested")
    case True
    then obtain dir where dir: "requested = Some dir" "dir \<noteq> []" by (cases requested) (auto simp: truthy_def)
    then show ?thesis
      using outside_starts_up[of base "?at dir"] session base
      by (auto simp: resolveDelegationCwd_def Let_def path_relative_def truthy_def)
  qed (use session base in \<open>simp add: resolveDelegationCwd_def\<close>)
  show "asked \<noteq> [] \<and> ?at asked = base @ first # rest \<and> \<not> startsWith first ''..''
       \<longrightarrow> resolveDelegationCwd env (Some s) (Some asked) = asked"
  proof
    assume a: "asked \<noteq> [] \<and> ?at asked = base @ first # rest \<and> \<not> startsWith first ''..''"
    then have "good_name first" using resolved_good[of first "te_processCwd env" asked] by simp
    moreover have "path_relative (te_processCwd env) (hs_cwd s) asked = js_join ''/'' (first # rest)"
      using a relative_prefix[of base "first # rest"] base by (simp add: path_relative_def)
    ultimately show "resolveDelegationCwd env (Some s) (Some asked) = asked"
      using below_stays_down[of first rest] a session by (simp add: resolveDelegationCwd_def truthy_def Let_def)
  qed
qed

section \<open>The memory of a completion\<close>

text \<open>What is remembered of a completion settles only when sources report in the order of their rank: a
  snapshot of a source that ranks at least as high as what is remembered is taken over once, and again
  changes nothing. But a source of a lower rank that brings a text the memory has not takes over the rank
  with it, and then its status wins the next time it reports the same.
\<close>

theorem completion_memory_settles:
  assumes once: "m = mergeCompletionSnapshot (Some c) i"
  shows "(snapshot_priority (cs_snapshotSource c) \<le> snapshot_priority (cs_snapshotSource i)
      \<longrightarrow> cs_status m = cs_status i \<and> mergeCompletionSnapshot (Some m) i = m)
    \<and> (snapshot_priority (cs_snapshotSource i) < snapshot_priority (cs_snapshotSource c)
        \<and> cs_status c \<noteq> ''unknown'' \<and> cs_summary i = Some txt \<and> cs_summary c \<noteq> Some txt
      \<longrightarrow> cs_status m = cs_status c \<and> cs_status (mergeCompletionSnapshot (Some m) i) = cs_status i)"
proof (intro conjI impI)
  assume "snapshot_priority (cs_snapshotSource c) \<le> snapshot_priority (cs_snapshotSource i)"
  then show "cs_status m = cs_status i" "mergeCompletionSnapshot (Some m) i = m"
    using merge_same_again by (auto simp: once merged_fields shouldReplaceCompletionStatus_def)
next
  assume low: "snapshot_priority (cs_snapshotSource i) < snapshot_priority (cs_snapshotSource c)
        \<and> cs_status c \<noteq> ''unknown'' \<and> cs_summary i = Some txt \<and> cs_summary c \<noteq> Some txt"
  then show first: "cs_status m = cs_status c" by (simp add: once merged_fields shouldReplaceCompletionStatus_def)
  have "cs_summary m = Some txt" using low by (simp add: once merged_fields nullish_def)
  then have "cs_snapshotSource m = cs_snapshotSource i"
    using low merged_source[of c i] once by auto
  then show "cs_status (mergeCompletionSnapshot (Some m) i) = cs_status i"
    by (simp add: merged_fields shouldReplaceCompletionStatus_def)
qed

section \<open>Answers to a request for permission\<close>

text \<open>What is answered is final in the store: an answer to a request that has one changes nothing there.\<close>

lemma answered_stays:
  "om_get s requestId = Some q \<Longrightarrow> pr_decision q \<noteq> PdPending
    \<Longrightarrow> permission_respond now s requestId decision feedback constraints = (False, s)"
  by (simp add: permission_respond_def)

lemma change_keeps_permissions:
  "tw_permissions (fst (change_sandbox (team_quiet env) q p w)) = tw_permissions w"
  by (auto simp: change_sandbox_def run_simps ask_def quiet_steps note_effect_def split: option.split)

text \<open>C37. An answer to a request for permission is final in the store, and only the designated coordinator gives
  one; but a second answer reaches the sandbox. When the coordinator allows, with constraints, a request
  that was answered before, also one that was denied, the sandbox of the request is changed first, and
  then the answer is refused as coming too late.
\<close>

theorem late_approval_changes_the_sandbox:
  assumes store: "tw_permissions w = Some s" "om_get s (wr_requestId p) = Some q"
    and answered: "pr_decision q \<noteq> PdPending"
    and run: "respondToPermission (team_quiet env) p w = (w', v)"
  shows "tw_permissions w' = Some s \<and> (\<exists>e. v = Inr (errorResult e))
    \<and> (pr_coordinatorAgentId q \<noteq> wr_coordinatorAgentId p \<longrightarrow> w' = w)
    \<and> (pr_coordinatorAgentId q = wr_coordinatorAgentId p \<and> wr_allow p \<and> wr_constraints p \<noteq> JUndef
        \<and> extractSandboxId (pr_options q) = Some sandbox \<and> te_applyConstraints env (tw_awaits w) sandbox (wr_constraints p) = None
       \<longrightarrow> tw_log w' = tw_log w @ [SandboxChanged (pr_id q) sandbox (wr_constraints p)])"
proof (cases "pr_coordinatorAgentId q = wr_coordinatorAgentId p")
  case True
  obtain w1 x where c: "change_sandbox (team_quiet env) q p w = (w1, x)" by fastforce
  have s1: "tw_permissions w1 = Some s" using change_keeps_permissions[of env q p w] c store by simp
  have "tw_permissions w' = Some s \<and> (\<exists>e. v = Inr (errorResult e)) \<and> tw_log w' = tw_log w1"
    using run store True c s1 answered
    by (cases x) (auto simp: respondToPermission_def with_permissions_def run_simps finish_answer_def answered_stays)
  moreover have "tw_log w1 = tw_log w @ [SandboxChanged (pr_id q) sandbox (wr_constraints p)]"
    if "wr_allow p \<and> wr_constraints p \<noteq> JUndef \<and> extractSandboxId (pr_options q) = Some sandbox
      \<and> te_applyConstraints env (tw_awaits w) sandbox (wr_constraints p) = None"
  proof -
    have "te_applyConstraints (team_quiet env) = te_applyConstraints env" by (simp add: team_quiet_def)
    then show ?thesis using that c by (auto simp: change_sandbox_def run_simps ask_def quiet_steps note_effect_def)
  qed
  ultimately show ?thesis using True by simp
next
  case False
  then show ?thesis
    using run store by (auto simp: respondToPermission_def with_permissions_def run_simps)
qed

section \<open>Report files\<close>

text \<open>A report file says nothing of which agent wrote it unless its content does: every watcher on the
  directory is called for it, and an agent that works in the directory and processes a file that names
  neither an agent nor a task reports its own task with it, whoever wrote the file.
\<close>

theorem report_file_of_any_agent:
  assumes watched: "(a, dir) \<in> set (tw_watchers w)" "is_report_file filename" "path = dir @ ''/'' @ filename"
    and content: "\<And>n. te_reportFile env n path = Some f" "rf_agentId f = None" "rf_taskId f = None"
    and work: "at_work a r taskId w" and task: "task_says w taskId st sm"
  shows "ReportFileSeen a path \<in> set (tw_log (fst (on_file_change dir filename w)))
    \<and> task_says (fst (processReportFile (team_quiet env) a path w)) taskId
        (if orDefault (rf_success f) True then TS_COMPLETED else TS_NEEDS_FIX)
        (Some (orDefault (rf_summary f) ''Completed (from report file)''))"
proof
  have log: "tw_log (fst (for_each (\<lambda>b. when_do True (note_effect (ReportFileSeen b path))) bs u))
      = tw_log u @ map (\<lambda>b. ReportFileSeen b path) bs" for bs u
    by (induction bs arbitrary: u) (simp_all add: run_simps note_effect_def)
  have "a \<in> fst ` {x \<in> set (tw_watchers w). snd x = dir}" using watched(1) by force
  then show "ReportFileSeen a path \<in> set (tw_log (fst (on_file_change dir filename w)))"
    using watched(2,3) log by (auto simp: on_file_change_def run_andThen run_gets split_beta)
  define w1 where "w1 = w\<lparr>tw_awaits := tw_awaits w + 1\<rparr>"
  obtain ag where ag: "agent_get (tw_agents w1) a = Some ag" "truthy (ag_parentId ag)"
    using work by (auto simp: at_work_def w1_def split: option.splits)
  let ?rep = "report_of_file a (record_at r w) f"
  have rep: "rt_taskId ?rep = taskId" "taskId \<noteq> []"
    using work content by (simp_all add: report_of_file_def at_work_def)
  have "task_says w1 (rt_taskId ?rep) st sm" using task rep by (simp add: w1_def task_says_def)
  then obtain w2 res where w2: "reportToParent (team_quiet env) a ?rep w1 = (w2, Inr res)"
      "task_says w2 (rt_taskId ?rep) (if rt_success ?rep then TS_COMPLETED else TS_NEEDS_FIX) (Some (rt_summary ?rep))"
    by (rule quiet_report[OF ag]) (simp add: rep)
  have readable: "te_reportFile (team_quiet env) n path = Some f" for n using content(1) by (simp add: team_quiet_def)
  have "same_data w2 (fst (next_do (note_effect (ReportFileRemoved path)) (cleanupReportWatcher a) w2))"
    by (rule dg.keepsD[OF dg.keeps_next[OF team_quiet.data_note team_quiet.data.keeps_unwatch]])
  moreover have "fst (processReportFile (team_quiet env) a path w)
      = fst (next_do (note_effect (ReportFileRemoved path)) (cleanupReportWatcher a) w2)"
    using work w2(1) readable content
    by (auto simp: processReportFile_def run_simps quiet_steps ask_def at_work_def w1_def record_at_def split: prod.split sum.split)
  ultimately show "task_says (fst (processReportFile (team_quiet env) a path w)) taskId
        (if orDefault (rf_success f) True then TS_COMPLETED else TS_NEEDS_FIX)
        (Some (orDefault (rf_summary f) ''Completed (from report file)''))"
    using w2(2) rep says_data by (simp add: report_of_file_def)
qed

end
