(* ===== verification/DelegationWitnesses.thy ===== *)
theory DelegationWitnesses
  imports DelegationDepth DelegationRules
begin

text \<open>
  A concrete team: an agent \<open>lead\<close> that delegated the task \<open>t1\<close> to the agent \<open>dev\<close>, which works in
  \<open>/repo\<close>. The theorems about the delegation are applied to it.
\<close>

definition plain_lib :: json_lib where
  "plain_lib = \<lparr>jl_parse = (\<lambda>_. None), jl_stringify = (\<lambda>_. []), jl_string = (\<lambda>_. [])\<rparr>"

definition lone_report :: report_file where
  "lone_report = \<lparr>rf_agentId = None, rf_taskId = None, rf_summary = None, rf_filesModified = None,
     rf_verificationResults = None, rf_success = None\<rparr>"

definition lone_team :: team_env where
  "lone_team =
     \<lparr>te_host = concrete_host, te_json = plain_lib, te_now = int, te_uuid = show_nat, te_others = (\<lambda>n w. w),
      te_storeFails = (\<lambda>n. None),
      te_config = \<lparr>oc_defaultCrafterProvider = ''opencode'', oc_defaultGateProvider = ''opencode'',
         oc_models = \<lparr>rm_crafterModel = None, rm_gateModel = None, rm_routaModel = None\<rparr>, oc_defaultCwd = ''/repo''\<rparr>,
      te_specialists = [], te_sessions = (\<lambda>n s. None), te_processCwd = ''/srv'', te_fingerprint = (\<lambda>t ws. []),
      te_traceDigest = (\<lambda>n c s r. None), te_playbook = (\<lambda>n c s r. None), te_hasTraces = (\<lambda>n c s. False),
      te_memoryFails = (\<lambda>n. False), te_sandbox = (\<lambda>n. Inr None), te_createSession = (\<lambda>n k s. Inr s),
      te_hasProcess = (\<lambda>n k s. True), te_configOptions = (\<lambda>n s. None), te_setOption = (\<lambda>n s c v. None),
      te_applyConstraints = (\<lambda>n s c. None), te_watchFails = (\<lambda>c. False), te_agentEvents = (\<lambda>n a p. []),
      te_reportFile = (\<lambda>n f. Some lone_report), te_fuel = 9, te_adapterOf = (\<lambda>n s. None),
      te_adapterAlive = (\<lambda>n s. False), te_workspaceAgent = (\<lambda>n s. False), te_processReady = (\<lambda>n s. False),
      te_promptFails = (\<lambda>n s. None)\<rparr>"

definition dev_agent :: agent where
  "dev_agent = \<lparr>ag_id = ''dev'', ag_name = ''dev'', ag_role = AR_CRAFTER, ag_modelTier = ''SMART'',
     ag_workspaceId = ''w'', ag_parentId = Some ''lead'', ag_status = AS_ACTIVE, ag_createdAt = 0, ag_updatedAt = 0,
     ag_metadata = [(''delegationDepth'', ''2'')]\<rparr>"

definition dev_record :: child_record where
  "dev_record = \<lparr>cr_agentId = ''dev'', cr_sessionId = ''s1'', cr_parentAgentId = ''lead'', cr_parentSessionId = ''s0'',
     cr_taskId = ''t1'', cr_role = AR_CRAFTER, cr_provider = ''opencode'', cr_cwd = ''/repo'', cr_workspaceId = ''w'',
     cr_completionHandled = False\<rparr>"

definition dev_task :: task where
  "dev_task = (createTask concrete_host 0 ''c1'' sample_params)
     \<lparr>tk_id := ''t1'', tk_status := TS_IN_PROGRESS, tk_completionSummary := None, tk_assignedTo := None\<rparr>"

definition denied_request :: permission_request where
  "denied_request = \<lparr>pr_id = ''p1'', pr_requestingAgentId = ''dev'', pr_coordinatorAgentId = ''lead'', pr_workspaceId = ''w'',
     pr_type = ''network'', pr_tool = None, pr_description = [], pr_options = JObj [(''sandboxId'', JStr ''box'')],
     pr_urgency = ''normal'', pr_decision = PdDeny, pr_feedback = None, pr_constraints = JUndef, pr_createdAt = 0,
     pr_respondedAt = Some 1\<rparr>"

definition small_team :: team_world where
  "small_team =
     \<lparr>tw_agents = [(''dev'', dev_agent)], tw_conversations = [], tw_store = [(''t1'', dev_task)],
      tw_records = [dev_record], tw_childAgents = [(''dev'', 0)], tw_agentSessions = [(''dev'', ''s1'')],
      tw_groupObjects = [\<lparr>dg_groupId = ''g'', dg_parentAgentId = ''lead'', dg_parentSessionId = ''s0'',
         dg_childAgentIds = [''dev'', ''qa''], dg_completedAgentIds = [''qa'']\<rparr>],
      tw_groups = [], tw_activeGroup = [(''lead'', ''g'')], tw_watchers = [(''dev'', ''/repo'')], tw_bridges = [],
      tw_subscribers = [], tw_snapshots = [], tw_memoryWrites = [], tw_completing = [],
      tw_permissions = Some [(''p1'', denied_request)], tw_notifies = False, tw_registers = False, tw_ids = 0,
      tw_awaits = 0, tw_log = []\<rparr>"

definition grouped_team :: team_world where
  "grouped_team = small_team\<lparr>tw_groups := [(''g'', 0)]\<rparr>"

definition told_team :: team_world where
  "told_team = small_team\<lparr>tw_records := [dev_record\<lparr>cr_completionHandled := True\<rparr>]\<rparr>"

lemma small_fields [simp]:
  "tw_records small_team = [dev_record]" "tw_childAgents small_team = [(''dev'', 0)]" "tw_log small_team = []"
  "tw_completing small_team = []" "tw_groups small_team = []" "record_at 0 small_team = dev_record"
  "tw_store small_team = [(''t1'', dev_task)]" "tw_agents small_team = [(''dev'', dev_agent)]"
  "tw_awaits small_team = 0" "tw_ids small_team = 0"
  by (simp_all add: small_team_def record_at_def)

lemma record_fields [simp]:
  "cr_agentId dev_record = ''dev''" "cr_taskId dev_record = ''t1''" "\<not> cr_completionHandled dev_record"
  "cr_parentSessionId dev_record = ''s0''"
  by (simp_all add: dev_record_def)

lemma small_works: "at_work ''dev'' 0 ''t1'' small_team" "at_work ''dev'' 0 ''t1'' told_team"
  by (simp_all add: at_work_def agent_get_def dev_agent_def told_team_def record_at_def truthy_def)

lemma small_task: "task_says small_team ''t1'' TS_IN_PROGRESS None" "task_says told_team ''t1'' TS_IN_PROGRESS None"
  by (simp_all add: task_says_def dev_task_def told_team_def)

lemma small_tracked: "tracked small_team"
  by (simp add: tracked_def)

definition reported :: agent_event where
  "reported = \<lparr>ev_type = REPORT_SUBMITTED, ev_agentId = ''dev'', ev_workspaceId = ''w'', ev_data = [], ev_timestamp = 0\<rparr>"

section \<open>Completion\<close>

text \<open>The end of the session is handled at every await of the handling of the report.\<close>

theorem parent_is_woken_once_witness:
  "woken 0 (fst (run_calls (team_crowd 1 (\<lambda>k n. [CallSessionEnd 0]) lone_team)
     [CallBusEvent reported, CallTurnEnded ''dev''] small_team)) \<le> 1"
proof -
  have "woken 0 small_team = 0" by (simp add: woken_def)
  then show ?thesis
    using parent_is_woken_once[OF team_others.others[OF crowd_others] small_tracked _ refl, of 0 1 "\<lambda>k n. [CallSessionEnd 0]" lone_team]
    by (simp del: team_crowd.simps)
qed

definition answering_team :: team_env where
  "answering_team = lone_team\<lparr>te_processReady := (\<lambda>n s. True)\<rparr>"

theorem group_wakes_with_the_last_witness:
  "\<exists>w' ws ls. complete_child (team_quiet answering_team) ''dev'' 0 grouped_team = (w', Inr ())
    \<and> tw_log w' = [ParentPrompted 0 ''s0'' (GroupReport 2 ls) ws, ParentWoken 0 ''s0'' (GroupReport 2 ls)]
    \<and> ls = [ReportLine ''dev'' AR_CRAFTER ''T'' (Some TS_IN_PROGRESS)] \<and> tw_groups w' = []"
proof -
  have g: "group_at 0 grouped_team = \<lparr>dg_groupId = ''g'', dg_parentAgentId = ''lead'', dg_parentSessionId = ''s0'',
      dg_childAgentIds = [''dev'', ''qa''], dg_completedAgentIds = [''qa'']\<rparr>"
    by (simp add: group_at_def grouped_team_def small_team_def)
  have "find_group ''dev'' grouped_team = Some (''g'', 0)"
    by (simp add: find_group_def g) (simp add: grouped_team_def g[unfolded grouped_team_def])
  moreover have "0 < length (tw_groupObjects grouped_team)" "om_get (tw_groups grouped_team) ''g'' = Some 0"
    by (simp_all add: grouped_team_def small_team_def)
  moreover have "group_ok_at (group_at 0 grouped_team)" by (simp add: g group_ok_at_def)
  moreover have "length (dg_childAgentIds (group_at 0 grouped_team)) < te_fuel answering_team"
    by (simp add: g answering_team_def lone_team_def)
  moreover have rec: "record_at 0 grouped_team = dev_record" by (simp add: grouped_team_def record_at_def)
  moreover have "reachable answering_team (cr_parentSessionId (record_at 0 grouped_team))"
    by (simp add: reachable_def answering_team_def lone_team_def)
  ultimately obtain k ws where run: "complete_child (team_quiet answering_team) ''dev'' 0 grouped_team =
      (grouped_team\<lparr>tw_groupObjects := (tw_groupObjects grouped_team)[0 := complete_in_group ''dev'' (group_at 0 grouped_team)]\<rparr>
        \<lparr>tw_awaits := k, tw_log := tw_log grouped_team @ [ParentPrompted 0 ''s0'' (GroupReport 2 (child_report grouped_team ''dev'' @ child_report grouped_team ''qa'')) ws,
                ParentWoken 0 ''s0'' (GroupReport 2 (child_report grouped_team ''dev'' @ child_report grouped_team ''qa''))],
              tw_groups := om_del (tw_groups grouped_team) ''g'',
              tw_activeGroup := om_del (tw_activeGroup grouped_team) (cr_parentAgentId dev_record)\<rparr>, Inr ())"
    using group_wakes_with_the_last[of "''dev''" grouped_team "''g''" 0 answering_team 0 0 _ lone_team "''dev''", OF _ _ _ _ _ _ _ refl]
    by (auto simp: g numeral_2_eq_2)
  have "child_report grouped_team ''dev'' = [ReportLine ''dev'' AR_CRAFTER ''T'' (Some TS_IN_PROGRESS)]"
    "child_report grouped_team ''qa'' = []" by code_simp+
  then show ?thesis using run by (auto simp: grouped_team_def om_del_def)
qed

theorem late_joiner_loses_its_group_witness:
  "find_group ''new'' (fst (close_group ''g'' ''lead'' (fst (join_group lone_team ''lead'' ''s0'' ''new'' grouped_team)))) = None"
proof -
  have f: "om_get (tw_activeGroup grouped_team) ''lead'' = Some ''g''" "om_get (tw_groups grouped_team) ''g'' = Some 0"
    "0 < length (tw_groupObjects grouped_team)" "tw_groups grouped_team = [(''g'', 0)]"
    "dg_childAgentIds (group_at 0 grouped_team) = [''dev'', ''qa'']"
    by (simp_all add: grouped_team_def small_team_def group_at_def)
  have new: "(k, g') \<in> set (tw_groups grouped_team) \<Longrightarrow> ''new'' \<notin> set (dg_childAgentIds (group_at g' grouped_team))" for k g'
    using f(4,5) by auto
  have own: "(k, 0) \<in> set (tw_groups grouped_team) \<Longrightarrow> k = ''g''" for k
    using f(4) by auto
  show ?thesis
    by (rule late_joiner_loses_its_group[OF f(1) _ f(2,3) new own refl refl, THEN conjunct2, THEN conjunct1]) simp
qed

definition bad_report :: completion_report where
  "bad_report = \<lparr>rt_agentId = ''dev'', rt_taskId = ''t1'', rt_summary = ''it does not build'', rt_filesModified = None,
     rt_verificationResults = None, rt_success = False\<rparr>"

definition dev_notifier :: notifier where
  "dev_notifier = \<lparr>nt_agentId = ''dev'', nt_workspaceId = ''w'', nt_parentId = Some ''lead'', nt_agentName = None\<rparr>"

theorem automatic_report_hides_a_failure_witness:
  "task_says (fst (run_calls (team_quiet lone_team) [CallReport ''dev'' bad_report, CallNotifyIdle dev_notifier None,
     CallTurnEnded ''dev''] small_team)) ''t1'' TS_COMPLETED
     (Some ''Reported completion back to lead (auto-submitted by orchestrator).'')"
  using automatic_report_hides_a_failure[OF small_works(1) _ small_task(1), of bad_report dev_notifier lone_team None]
  by (simp add: bad_report_def dev_notifier_def)

theorem late_error_reopens_the_task_witness:
  "task_says (fst (run_calls (team_quiet lone_team) [CallTurnFailed ''dev'' ''exit 1''] told_team)) ''t1''
     TS_NEEDS_FIX (Some ''Error: exit 1'')"
proof -
  have "cr_completionHandled (record_at 0 told_team)" by (simp add: told_team_def record_at_def)
  then show ?thesis
    using late_error_reopens_the_task[OF small_works(2) _ small_task(2) refl, of lone_team "''exit 1''"] by simp
qed

theorem unreachable_parent_counts_as_told_witness:
  "prompts (fst (run_calls (team_quiet lone_team) [CallBusEvent reported] small_team)) = []
    \<and> cr_completionHandled (record_at 0 (fst (run_calls (team_quiet lone_team) [CallBusEvent reported, CallSessionEnd 0] small_team)))"
proof -
  have gone: "unreachable lone_team s" for s by (simp add: unreachable_def lone_team_def)
  have e: "ev_type reported = REPORT_SUBMITTED" "ev_agentId reported = ''dev''" by (simp_all add: reported_def)
  have alone: "find_group ''dev'' small_team = None" by (simp add: find_group_def)
  show ?thesis
    using unreachable_parent_counts_as_told[OF gone alone small_tracked _ _ _ _ _ e refl refl, of 0 "[CallSessionEnd 0]"]
    by (simp add: prompts_def)
qed

section \<open>Depth\<close>

definition deep_call :: delegate_params where
  "deep_call = \<lparr>dp_taskId = ''t1'', dp_callerAgentId = ''dev'', dp_callerSessionId = ''s1'', dp_workspaceId = ''w'',
     dp_specialist = ''CRAFTER'', dp_provider = None, dp_cwd = None, dp_additionalInstructions = None, dp_waitMode = None\<rparr>"

definition deep_wake :: wake_params where
  "deep_wake = \<lparr>wp_taskId = ''t1'', wp_contextMessage = [], wp_callerAgentId = ''dev'', wp_workspaceId = ''w'',
     wp_agentName = None, wp_modelTier = None\<rparr>"

lemma dev_depth: "depth_of (agent_get (tw_agents small_team) ''dev'') = 2"
proof -
  have "parseInt10 ''2'' = Some 2" by code_simp
  then show ?thesis by (simp add: agent_get_def depth_of_def dev_agent_def)
qed

text \<open>The agent that delegates is at the greatest depth, and at every await another agent is made.\<close>

theorem delegation_depth_is_bounded_witness:
  "\<forall>a. case agent_get (tw_agents (fst (run_calls (team_crowd 1 (\<lambda>k n. [CallWakeOrCreate deep_wake]) lone_team)
      [CallWakeOrCreate deep_wake, CallDelegate deep_call] small_team))) a of
     None \<Rightarrow> True | Some ag \<Rightarrow> depth_of (Some ag) \<le> MAX_DELEGATION_DEPTH"
proof -
  have "depth_of (Some dev_agent) = 2" using dev_depth by (simp add: agent_get_def)
  then have "agent_get (tw_agents small_team) a = Some ag \<Longrightarrow> depth_of (Some ag) \<le> MAX_DELEGATION_DEPTH" for a ag
    by (auto simp: agent_get_def MAX_DELEGATION_DEPTH_def split: if_splits)
  then show ?thesis
    using delegation_depth_is_bounded[OF agent_makers.others_make[OF shallow_team.axioms(1)[OF crowd_shallow]], of small_team]
    by (auto simp del: team_crowd.simps split: option.split)
qed

theorem delegation_goes_one_level_down_witness:
  "\<exists>w' e. delegateTaskWithSpawn (team_quiet lone_team) deep_call small_team = (w', Inr (errorResult e)) \<and> neutral small_team w'"
proof -
  have "dp_callerAgentId deep_call = ''dev''" by (simp add: deep_call_def)
  then show ?thesis
    using delegation_goes_one_level_down[of small_team deep_call 2 lone_team "fst (delegateTaskWithSpawn (team_quiet lone_team) deep_call small_team)"
        "snd (delegateTaskWithSpawn (team_quiet lone_team) deep_call small_team)"] dev_depth
    by (auto simp: MAX_DELEGATION_DEPTH_def) (metis prod.collapse)
qed

theorem waking_bypasses_the_depth_witness:
  "\<exists>ag. agent_get (tw_agents (fst (wakeOrCreateTaskAgent (team_quiet lone_team) deep_wake small_team))) ''0'' = Some ag
    \<and> ag_parentId ag = Some ''dev'' \<and> dc_allowed (check_depth (depth_of (Some ag)))"
proof -
  have f: "dp_callerAgentId deep_call = ''dev''" "wp_callerAgentId deep_wake = ''dev''" "wp_taskId deep_wake = ''t1''"
    by (simp_all add: deep_call_def deep_wake_def)
  have id: "te_uuid lone_team (tw_ids small_team) = ''0''" by (simp add: lone_team_def) code_simp
  have t: "om_get (tw_store small_team) (wp_taskId deep_wake) = Some dev_task" "tk_assignedTo dev_task = None"
    by (simp_all add: f dev_task_def)
  have "MAX_DELEGATION_DEPTH \<le> depth_of (agent_get (tw_agents small_team) (dp_callerAgentId deep_call))"
    using dev_depth f by (simp add: MAX_DELEGATION_DEPTH_def)
  from waking_bypasses_the_depth[OF this _ t id refl] show ?thesis by (simp add: f)
qed

section \<open>Rules\<close>

definition repo_session :: http_session where
  "repo_session = \<lparr>hs_cwd = ''/repo'', hs_workspaceId = ''w'', hs_provider = None, hs_model = None, hs_reasoningEffort = None\<rparr>"

theorem delegated_directory_stays_inside_witness:
  "resolveDelegationCwd lone_team (Some repo_session) (Some ''/repo/src/lib'') = ''/repo/src/lib''"
proof -
  have p: "path_resolve ''/srv'' ''/repo/src/lib'' = path_resolve ''/srv'' ''/repo'' @ ''src'' # [''lib'']"
    "\<not> startsWith ''src'' ''..''" by code_simp+
  have s: "hs_cwd repo_session = ''/repo''" "te_processCwd lone_team = ''/srv''" by (simp_all add: repo_session_def lone_team_def)
  show ?thesis
    using delegated_directory_stays_inside[OF _ refl, of repo_session lone_team None "''/repo/src/lib''" "''src''" "[''lib'']"] p s
    by simp
qed

definition seen :: "string \<Rightarrow> string option \<Rightarrow> snapshot_source \<Rightarrow> completion_snapshot" where
  "seen status summary source = \<lparr>cs_sessionId = ''s1'', cs_role = AR_CRAFTER, cs_agentId = ''dev'', cs_taskId = ''t1'',
     cs_taskTitle = ''T'', cs_status = status, cs_summary = summary, cs_verificationVerdict = None,
     cs_verificationReport = None, cs_snapshotSource = source\<rparr>"

theorem completion_memory_settles_witness:
  "cs_status (mergeCompletionSnapshot (Some (mergeCompletionSnapshot (Some (seen ''NEEDS_FIX'' None SnapError))
      (seen ''COMPLETED'' (Some ''done'') SnapSessionEnd))) (seen ''COMPLETED'' (Some ''done'') SnapSessionEnd)) = ''COMPLETED''"
  using completion_memory_settles[OF refl, of "seen ''NEEDS_FIX'' None SnapError" "seen ''COMPLETED'' (Some ''done'') SnapSessionEnd" "''done''"]
  by (simp add: seen_def)

definition late_yes :: answer_params where
  "late_yes = \<lparr>wr_requestId = ''p1'', wr_coordinatorAgentId = ''lead'', wr_allow = True, wr_feedback = None,
     wr_constraints = JObj []\<rparr>"

theorem late_approval_changes_the_sandbox_witness:
  "tw_log (fst (respondToPermission (team_quiet lone_team) late_yes small_team)) = [SandboxChanged ''p1'' ''box'' (JObj [])]"
proof -
  have f: "tw_permissions small_team = Some [(''p1'', denied_request)]"
    "om_get [(''p1'', denied_request)] (wr_requestId late_yes) = Some denied_request" "pr_decision denied_request \<noteq> PdPending"
    "te_applyConstraints lone_team = (\<lambda>n s c. None)"
    by (simp_all add: small_team_def late_yes_def denied_request_def lone_team_def)
  have x: "extractSandboxId (JObj [(''sandboxId'', JStr ''box'')]) = Some ''box''" by code_simp
  show ?thesis
    using late_approval_changes_the_sandbox[OF f(1-3) prod.collapse[symmetric], of lone_team "''box''"] f(4) x
    by (simp add: late_yes_def denied_request_def)
qed

theorem report_file_of_any_agent_witness:
  "task_says (fst (processReportFile (team_quiet lone_team) ''dev'' ''/repo/.report_to_parent_qa.json'' small_team)) ''t1''
     TS_COMPLETED (Some ''Completed (from report file)'')"
proof -
  have w: "(''dev'', ''/repo'') \<in> set (tw_watchers small_team)" by (simp add: small_team_def)
  have n: "is_report_file ''.report_to_parent_qa.json''" by code_simp
  have c: "te_reportFile lone_team n p = Some lone_report" for n p by (simp add: lone_team_def)
  show ?thesis
    using report_file_of_any_agent[OF w n refl c _ _ small_works(1) small_task(1)] by (simp add: lone_report_def)
qed

end
