(* ===== verification/CanonicalStory.thy ===== *)
theory CanonicalStory
  imports RegexMatch TaskModel KanbanModel
begin

text \<open>
  The canonical story of a card, src/src/core/kanban/canonical-story.ts: the YAML block in a
  description, and the checks that turn what the YAML parser gives into a typed story. The parser
  itself (\<open>yaml.load\<close> of the package js-yaml) is a parameter: a text gives a value, or the message of
  the error it throws. A reader gives its value with the issues it adds, in the order the code adds them.
\<close>

section \<open>The YAML block\<close>

definition lf :: string where
  "lf = [CHR 0x0A]"

definition code_fence :: string where
  "code_fence = ''```''"

text \<open>A lazy \<open>[\s\S]*?\<close> followed by a literal: the text before the first occurrence of the literal.\<close>

fun text_before :: "string \<Rightarrow> string \<Rightarrow> string option" where
  "text_before stop [] = (if stop = [] then Some [] else None)"
| "text_before stop (c # s) =
     (if startsWith (c # s) stop then Some [] else map_option (\<lambda>t. c # t) (text_before stop s))"

fun first_some :: "('a \<Rightarrow> 'b option) \<Rightarrow> 'a list \<Rightarrow> 'b option" where
  "first_some f [] = None"
| "first_some f (x # xs) = (case f x of Some y \<Rightarrow> Some y | None \<Rightarrow> first_some f xs)"

text \<open>\<open>/```yaml\s*\n([\s\S]*?)\n```/i\<close>: what stands before the group, and its group 1.\<close>

definition YAML_OPENING :: rx where
  "YAML_OPENING = rx_seq [rx_lit (code_fence @ ''yaml''), RxStar is_ws, RxCls (\<lambda>c. c = CHR 0x0A)]"

definition CANONICAL_STORY_GROUP :: "string \<Rightarrow> string option" where
  "CANONICAL_STORY_GROUP content =
     first_some (\<lambda>pos. text_before (lf @ code_fence) (snd pos))
       (concat (map (rx_ends YAML_OPENING) (positions None content)))"

definition extractCanonicalStoryYaml :: "string option \<Rightarrow> string option" where
  "extractCanonicalStoryYaml content = map_option trim (Option.bind content CANONICAL_STORY_GROUP)"

section \<open>The story\<close>

datatype story_status = SsPass | SsFail | SsWarning

fun story_status_str :: "story_status \<Rightarrow> string" where
  "story_status_str SsPass = ''pass''"
| "story_status_str SsFail = ''fail''"
| "story_status_str SsWarning = ''warning''"

definition CANONICAL_STORY_STATUS :: "story_status list" where
  "CANONICAL_STORY_STATUS = [SsPass, SsFail, SsWarning]"

record acceptance_criterion =
  ac_id :: string
  ac_text :: string
  ac_testable :: bool

record invest_check =
  iv_status :: story_status
  iv_reason :: string

text \<open>\<open>si_independent_story_check\<close> is \<open>pass\<close> or \<open>fail\<close> only.\<close>

record story_dependencies =
  si_independent_story_check :: story_status
  si_depends_on :: "string list"
  si_unblock_condition :: string

record story_invest =
  iv_independent :: invest_check
  iv_negotiable :: invest_check
  iv_valuable :: invest_check
  iv_estimable :: invest_check
  iv_small :: invest_check
  iv_testable :: invest_check

record canonical_story =
  cs_version :: int
  cs_language :: string
  cs_title :: string
  cs_problem_statement :: string
  cs_user_value :: string
  cs_acceptance_criteria :: "acceptance_criterion list"
  cs_constraints_and_affected_areas :: "string list"
  cs_dependencies_and_sequencing :: story_dependencies
  cs_out_of_scope :: "string list"
  cs_invest :: story_invest

record story_parse =
  cp_hasYamlBlock :: bool
  cp_story :: "canonical_story option"
  cp_issues :: "string list"
  cp_rawYaml :: "string option"

definition INVEST_KEYS :: "string list" where
  "INVEST_KEYS = [''independent'', ''negotiable'', ''valuable'', ''estimable'', ''small'', ''testable'']"

section \<open>Reading a value\<close>

type_synonym 'a reading = "'a \<times> string list"

definition readString :: "json \<Rightarrow> string \<Rightarrow> string reading" where
  "readString value path =
     (case value of
        JStr s \<Rightarrow> if trim s = [] then ([], [path @ '' must be a non-empty string'']) else (trim s, [])
      | _ \<Rightarrow> ([], [path @ '' must be a non-empty string'']))"

definition readBoolean :: "json \<Rightarrow> string \<Rightarrow> bool reading" where
  "readBoolean value path =
     (case value of JBool b \<Rightarrow> (b, []) | _ \<Rightarrow> (False, [path @ '' must be a boolean'']))"

definition at_index :: "string \<Rightarrow> nat \<Rightarrow> string" where
  "at_index path i = path @ ''['' @ show_nat i @ '']''"

text \<open>\<open>items.map((item, index) => ...)\<close>, the issues of the entries in their order.\<close>

definition read_each :: "(json \<Rightarrow> string \<Rightarrow> 'a reading) \<Rightarrow> string \<Rightarrow> json list \<Rightarrow> 'a list reading" where
  "read_each f path items =
     (let rs = map (\<lambda>(i, item). f item (at_index path i)) (List.enumerate 0 items)
      in (map fst rs, concat (map snd rs)))"

definition readStringArrayWithOptions :: "json \<Rightarrow> string \<Rightarrow> bool \<Rightarrow> bool \<Rightarrow> string list reading" where
  "readStringArrayWithOptions value path optional allowEmpty =
     (if (value = JUndef \<or> value = JNull) \<and> optional then ([], [])
      else (case value of
        JArr vs \<Rightarrow>
          (let (texts, issues) = read_each readString path vs;
               items = filter (\<lambda>s. s \<noteq> []) texts
           in (items, issues @ (if \<not> allowEmpty \<and> length items = 0
                 then [path @ '' must contain at least one non-empty string''] else [])))
      | _ \<Rightarrow> ([], [path @ '' must be an array of strings''])))"

definition readStringArray :: "json \<Rightarrow> string \<Rightarrow> string list reading" where
  "readStringArray value path = readStringArrayWithOptions value path False False"

text \<open>An entry that is no object adds its issue and no criterion.\<close>

definition readCriterion :: "json \<Rightarrow> string \<Rightarrow> acceptance_criterion list reading" where
  "readCriterion item path =
     (if \<not> is_object item then ([], [path @ '' must be an object''])
      else (let (cid, idIssues) = readString (jprop item ''id'') (path @ ''.id'');
                (text, textIssues) = readString (jprop item ''text'') (path @ ''.text'');
                (testable, testableIssues) = readBoolean (jprop item ''testable'') (path @ ''.testable'')
            in ([\<lparr>ac_id = cid, ac_text = text, ac_testable = testable\<rparr>],
                idIssues @ textIssues @ testableIssues)))"

definition readAcceptanceCriteria :: "json \<Rightarrow> string \<Rightarrow> acceptance_criterion list reading" where
  "readAcceptanceCriteria value path =
     (case value of
        JArr vs \<Rightarrow>
          (let (entries, issues) = read_each readCriterion path vs;
               criteria = concat entries
           in (criteria, issues @ (if length criteria < 2
                 then [path @ '' must contain at least 2 acceptance criteria''] else [])))
      | _ \<Rightarrow> ([], [path @ '' must be an array'']))"

definition parse_status :: "string \<Rightarrow> story_status option" where
  "parse_status s = List.find (\<lambda>st. story_status_str st = s) CANONICAL_STORY_STATUS"

definition readInvestCheck :: "json \<Rightarrow> string \<Rightarrow> invest_check reading" where
  "readInvestCheck value path =
     (if \<not> is_object value then (\<lparr>iv_status = SsFail, iv_reason = []\<rparr>, [path @ '' must be an object''])
      else (let (status, statusIssues) = readString (jprop value ''status'') (path @ ''.status'');
                (reason, reasonIssues) = readString (jprop value ''reason'') (path @ ''.reason'')
            in (\<lparr>iv_status = orDefault (parse_status status) SsFail, iv_reason = reason\<rparr>,
                statusIssues
                @ (if parse_status status = None
                   then [path @ ''.status must be one of: pass, fail, warning''] else [])
                @ reasonIssues)))"

section \<open>Parsing a story\<close>

text \<open>\<open>typeof version === "number" && Number.isInteger(version) && version > 0\<close>\<close>

definition positive_integer :: "json \<Rightarrow> int option" where
  "positive_integer v = (case v of
     JNum (Fin r) \<Rightarrow> if r = of_int \<lfloor>r\<rfloor> \<and> r \<ge> 1 then Some \<lfloor>r\<rfloor> else None | _ \<Rightarrow> None)"

definition pass_or_fail :: "json \<Rightarrow> story_status option" where
  "pass_or_fail v = (if v = JStr ''pass'' then Some SsPass else if v = JStr ''fail'' then Some SsFail else None)"

definition has_key :: "json \<Rightarrow> string \<Rightarrow> bool" where
  "has_key v k = (case v of JObj kvs \<Rightarrow> map_of kvs k \<noteq> None | _ \<Rightarrow> False)"

definition readDependencies :: "json \<Rightarrow> story_dependencies reading" where
  "readDependencies dependencies =
     (if \<not> is_object dependencies
      then (\<lparr>si_independent_story_check = SsFail, si_depends_on = [], si_unblock_condition = []\<rparr>, [])
      else (let (dependsOn, i1) = readStringArrayWithOptions (jprop dependencies ''depends_on'')
                  ''story.dependencies_and_sequencing.depends_on'' True True;
                (unblock, i2) = readString (jprop dependencies ''unblock_condition'')
                  ''story.dependencies_and_sequencing.unblock_condition''
            in (\<lparr>si_independent_story_check =
                   orDefault (pass_or_fail (jprop dependencies ''independent_story_check'')) SsFail,
                 si_depends_on = dependsOn, si_unblock_condition = unblock\<rparr>, i1 @ i2)))"

definition readInvestKey :: "json \<Rightarrow> string \<Rightarrow> invest_check reading" where
  "readInvestKey invest key =
     (if \<not> is_object invest then (\<lparr>iv_status = SsFail, iv_reason = []\<rparr>, [])
      else readInvestCheck (jprop invest key) (''story.invest.'' @ key))"

definition readInvest :: "json \<Rightarrow> story_invest reading" where
  "readInvest invest =
     (let (independent, i1) = readInvestKey invest ''independent'';
          (negotiable, i2) = readInvestKey invest ''negotiable'';
          (valuable, i3) = readInvestKey invest ''valuable'';
          (estimable, i4) = readInvestKey invest ''estimable'';
          (small, i5) = readInvestKey invest ''small'';
          (testable, i6) = readInvestKey invest ''testable''
      in (\<lparr>iv_independent = independent, iv_negotiable = negotiable, iv_valuable = valuable,
           iv_estimable = estimable, iv_small = small, iv_testable = testable\<rparr>,
          i1 @ i2 @ i3 @ i4 @ i5 @ i6))"

text \<open>The body of the object \<open>story\<close>, in the order in which the code builds it.\<close>

definition readStory :: "json \<Rightarrow> canonical_story reading" where
  "readStory body =
     (let dependencies = jprop body ''dependencies_and_sequencing'';
          invest = jprop body ''invest'';
          (language, i1) = readString (jprop body ''language'') ''story.language'';
          (title, i2) = readString (jprop body ''title'') ''story.title'';
          (problem, i3) = readString (jprop body ''problem_statement'') ''story.problem_statement'';
          (userValue, i4) = readString (jprop body ''user_value'') ''story.user_value'';
          (criteria, i5) = readAcceptanceCriteria (jprop body ''acceptance_criteria'') ''story.acceptance_criteria'';
          (areas, i6) = readStringArray (jprop body ''constraints_and_affected_areas'')
            ''story.constraints_and_affected_areas'';
          (sequencing, i7) = readDependencies dependencies;
          (outOfScope, i8) = readStringArray (jprop body ''out_of_scope'') ''story.out_of_scope'';
          (checks, i9) = readInvest invest
      in (\<lparr>cs_version = orDefault (positive_integer (jprop body ''version'')) 1,
           cs_language = language, cs_title = title, cs_problem_statement = problem,
           cs_user_value = userValue, cs_acceptance_criteria = criteria,
           cs_constraints_and_affected_areas = areas, cs_dependencies_and_sequencing = sequencing,
           cs_out_of_scope = outOfScope, cs_invest = checks\<rparr>,
          (if positive_integer (jprop body ''version'') = None
           then [''story.version must be a positive integer''] else [])
          @ (if \<not> is_object dependencies then [''story.dependencies_and_sequencing must be an object''] else [])
          @ (if \<not> is_object invest then [''story.invest must be an object''] else [])
          @ i1 @ i2 @ i3 @ i4 @ i5 @ i6 @ i7 @ i8 @ i9
          @ (if pass_or_fail (jprop dependencies ''independent_story_check'') = None
             then [''story.dependencies_and_sequencing.independent_story_check must be pass or fail''] else [])
          @ (if is_object invest
             then map (\<lambda>key. ''story.invest.'' @ key @ '' is required'')
                    (filter (\<lambda>key. \<not> has_key invest key) INVEST_KEYS) else [])))"

text \<open>\<open>yamlLoad\<close> is the parser; a left value is the message of the error it throws.\<close>

type_synonym yaml_load = "string \<Rightarrow> string + json"

definition story_failure :: "string \<Rightarrow> string \<Rightarrow> story_parse" where
  "story_failure rawYaml issue =
     \<lparr>cp_hasYamlBlock = True, cp_story = None, cp_issues = [issue], cp_rawYaml = Some rawYaml\<rparr>"

definition parseCanonicalStory :: "yaml_load \<Rightarrow> string option \<Rightarrow> story_parse" where
  "parseCanonicalStory yamlLoad content =
     (let rawYaml = extractCanonicalStoryYaml content in
      if \<not> truthy rawYaml
      then \<lparr>cp_hasYamlBlock = False, cp_story = None, cp_issues = [], cp_rawYaml = None\<rparr>
      else (case yamlLoad (the rawYaml) of
        Inl message \<Rightarrow> story_failure (the rawYaml) (''Failed to parse canonical story YAML: '' @ message)
      | Inr parsed \<Rightarrow>
          if \<not> is_object parsed
          then story_failure (the rawYaml) ''Canonical story YAML root must be an object''
          else if \<not> is_object (jprop parsed ''story'')
          then story_failure (the rawYaml) ''story must be an object''
          else (let (story, issues) = readStory (jprop parsed ''story'')
                in \<lparr>cp_hasYamlBlock = True,
                    cp_story = (if length issues = 0 then Some story else None),
                    cp_issues = issues, cp_rawYaml = rawYaml\<rparr>)))"

end
