(* ===== verification/TransitionGates.thy ===== *)
theory TransitionGates
  imports CanonicalStory LaneExperience TaskStore
begin

text \<open>
  What a column asks of a card. src/src/core/kanban/transition-gates.ts: the checklist, the human
  approval and the validator command of a column. src/src/core/kanban/task-derived-summary.ts: the
  fields a column requires, the INVEST checks of a story and the summary of the evidence on a card.
\<close>

section \<open>Texts\<close>

definition normalizeToken :: "string \<Rightarrow> string" where
  "normalizeToken value = toLowerCase (collapse_ws False (trim value))"

text \<open>\<open>Boolean(value?.trim())\<close>\<close>

definition has_text :: "string option \<Rightarrow> bool" where
  "has_text value = truthy (map_option trim value)"

definition collectTaskText :: "task \<Rightarrow> string" where
  "collectTaskText t =
     js_join lf (map the (filter has_text
       ([Some (tk_objective t), tk_comment t, tk_scope t]
        @ map Some (orDefault (tk_acceptanceCriteria t) [])
        @ map Some (orDefault (tk_verificationCommands t) [])
        @ map Some (orDefault (tk_testCases t) [])
        @ [tk_completionSummary t, tk_verificationReport t]
        @ map (\<lambda>c. Some (tc_body c)) (tk_comments t))))"

section \<open>Checked items\<close>

definition line_terminator :: "char \<Rightarrow> bool" where
  "line_terminator c = (c = CHR 0x0A \<or> c = CHR 0x0D)"

definition line_start :: "char option \<Rightarrow> bool" where
  "line_start p = (case p of None \<Rightarrow> True | Some c \<Rightarrow> line_terminator c)"

definition line_end :: "string \<Rightarrow> bool" where
  "line_end s = (case s of [] \<Rightarrow> True | c # _ \<Rightarrow> line_terminator c)"

text \<open>
  \<open>/^\s*[-*]\s+\[[xX]\]\s+(.+?)\s*$/gm\<close>: the part before the group; the group with its end, which is the
  shortest one after which \<open>\s*$\<close> matches; the match at a place, and the first match from a place on.
\<close>

definition CHECK_OPENING :: rx where
  "CHECK_OPENING = rx_seq [RxStar is_ws, RxCls (one_of ''-*''), rx_plus is_ws,
     RxCls (one_of ''[''), RxCls (one_of ''xX''), RxCls (one_of '']''), rx_plus is_ws]"

fun lazy_label :: "string \<Rightarrow> (string \<times> rx_pos) option" where
  "lazy_label [] = None"
| "lazy_label (c # s) =
     (if line_terminator c then None
      else (case List.find (\<lambda>e. line_end (snd e)) (star_ends is_ws (Some c) s) of
        Some e \<Rightarrow> Some ([c], e)
      | None \<Rightarrow> map_option (\<lambda>(label, e). (c # label, e)) (lazy_label s)))"

definition check_match :: "rx_pos \<Rightarrow> (string \<times> rx_pos) option" where
  "check_match pos =
     (if line_start (fst pos) then first_some (\<lambda>m. lazy_label (snd m)) (rx_ends CHECK_OPENING pos) else None)"

definition next_check :: "rx_pos \<Rightarrow> (string \<times> rx_pos) option" where
  "next_check pos = first_some check_match (positions (fst pos) (snd pos))"

lemma star_ends_le: "(q, r) \<in> set (star_ends P p s) \<Longrightarrow> length r \<le> length s"
  by (induction s arbitrary: p) (auto split: if_splits intro: le_SucI)

lemma rx_ends_le: "(q, r) \<in> set (rx_ends x pos) \<Longrightarrow> length r \<le> length (snd pos)"
proof (induction x arbitrary: pos q r)
  case (RxStar P)
  then show ?case by (auto dest: star_ends_le)
next
  case (RxSeq a b)
  then obtain m where m: "m \<in> set (rx_ends a pos)" and r: "(q, r) \<in> set (rx_ends b m)" by auto
  have "length r \<le> length (snd m)" using RxSeq.IH(2) [OF r] .
  also have "\<dots> \<le> length (snd pos)" using RxSeq.IH(1) [of "fst m" "snd m" pos] m by simp
  finally show ?case .
qed (auto split: list.splits if_splits)

lemma lazy_label_less: "lazy_label s = Some (label, e) \<Longrightarrow> length (snd e) < length s"
proof (induction s arbitrary: label e)
  case (Cons c s)
  show ?case
  proof (cases "List.find (\<lambda>e. line_end (snd e)) (star_ends is_ws (Some c) s)")
    case None
    with Cons.prems obtain l where "lazy_label s = Some (l, e)" by (auto split: if_splits)
    then have "length (snd e) < length s" by (rule Cons.IH)
    then show ?thesis by simp
  next
    case (Some e')
    then have "e' \<in> set (star_ends is_ws (Some c) s)" by (simp add: find_Some_iff_set)
    then have "length (snd e') \<le> length s" using star_ends_le by (metis prod.collapse)
    moreover have "e' = e" using Some Cons.prems by (auto split: if_splits)
    ultimately show ?thesis by simp
  qed
qed simp

lemma first_some_in: "first_some f xs = Some y \<Longrightarrow> \<exists>x\<in>set xs. f x = Some y"
  by (induction xs) (auto split: option.splits)

lemma next_check_less: "next_check pos = Some (label, e) \<Longrightarrow> length (snd e) < length (snd pos)"
proof -
  assume "next_check pos = Some (label, e)"
  then obtain m where m: "m \<in> set (positions (fst pos) (snd pos))" and "check_match m = Some (label, e)"
    unfolding next_check_def by (blast dest: first_some_in)
  then obtain k where k: "k \<in> set (rx_ends CHECK_OPENING m)" and "lazy_label (snd k) = Some (label, e)"
    unfolding check_match_def by (auto dest: first_some_in split: if_splits)
  then have "length (snd e) < length (snd k)" by (blast dest: lazy_label_less)
  also have "\<dots> \<le> length (snd m)" using rx_ends_le k by (metis prod.collapse)
  also have "\<dots> \<le> length (snd pos)"
  proof -
    have "x \<in> set (positions p s) \<Longrightarrow> length (snd x) \<le> length s" for x p s
      by (induction s arbitrary: p) (auto intro: le_SucI)
    with m show ?thesis by blast
  qed
  finally show ?thesis .
qed

text \<open>The loop over \<open>pattern.exec(text)\<close>; every match ends behind the place it starts from.\<close>

function check_labels :: "rx_pos \<Rightarrow> string list" where
  "check_labels pos = (case next_check pos of None \<Rightarrow> [] | Some (label, e) \<Rightarrow> label # check_labels e)"
  by auto
termination
  by (relation "measure (\<lambda>pos. length (snd pos))") (auto dest: next_check_less)

declare check_labels.simps [simp del]

definition collectCheckedChecklistLabels :: "string \<Rightarrow> string list" where
  "collectCheckedChecklistLabels text =
     uniq (map normalizeToken (filter (\<lambda>l. l \<noteq> []) (map trim (check_labels (None, text)))))"

section \<open>Validator evidence\<close>

text \<open>\<open>split(/\r?\n/)\<close>\<close>

fun split_lf :: "string \<Rightarrow> string list" where
  "split_lf [] = [[]]"
| "split_lf (c # s) = (if c = CHR 0x0A then [] # split_lf s
     else (case split_lf s of [] \<Rightarrow> [[c]] | l # ls \<Rightarrow> (c # l) # ls))"

definition strip_cr :: "string \<Rightarrow> string" where
  "strip_cr s = (if s \<noteq> [] \<and> last s = CHR 0x0D then butlast s else s)"

definition split_lines :: "string \<Rightarrow> string list" where
  "split_lines s = map strip_cr (butlast (split_lf s)) @ [last (split_lf s)]"

definition rx_words :: "string list \<Rightarrow> rx" where
  "rx_words ws = rx_seq [RxWordEdge, foldr (\<lambda>w r. RxAlt (rx_lit w) r) (butlast ws) (rx_lit (last ws)), RxWordEdge]"

definition FAIL_WORDS :: "string list" where
  "FAIL_WORDS = [''fail'', ''failed'', ''error'', ''errors'', ''red'']"

definition PASS_WORDS :: "string list" where
  "PASS_WORDS = [''pass'', ''passed'', ''success'', ''succeeded'', ''ok'', ''green'']"

definition evidence_line :: "string \<Rightarrow> string \<Rightarrow> bool" where
  "evidence_line commandLower line =
     (strIncludes (toLowerCase line) commandLower
      \<and> \<not> rx_test (rx_words FAIL_WORDS) line \<and> rx_test (rx_words PASS_WORDS) line)"

definition isValidatorEvidencePresent :: "task \<Rightarrow> string \<Rightarrow> bool" where
  "isValidatorEvidencePresent t command =
     (let normalizedCommand = trim command;
          evidenceText = js_join lf (map the (filter has_text
            ([tk_verificationReport t, tk_completionSummary t]
             @ map Some (orDefault (tk_verificationCommands t) []))))
      in if normalizedCommand = [] then True
         else list_ex (evidence_line (toLowerCase normalizedCommand)) (split_lines evidenceText))"

section \<open>The gates of a column\<close>

datatype gate_code = GateChecklist | GateHumanApproval | GateValidator

record gate_issue =
  gi_code :: gate_code
  gi_message :: string
  gi_missing :: "string list option"

record gate_result =
  gr_mode :: gate_mode
  gr_passed :: bool
  gr_blocking :: bool
  gr_issues :: "gate_issue list"

definition hasTransitionGateRequirements :: "column_automation \<Rightarrow> bool" where
  "hasTransitionGateRequirements a =
     (list_ex (\<lambda>item. length (trim item) > 0) (orDefault (ca_requiredChecklist a) [])
      \<or> ca_requiredHumanApproval a = Some True \<or> has_text (ca_validatorCommand a))"

definition checklist_issues :: "task \<Rightarrow> column_automation \<Rightarrow> gate_issue list" where
  "checklist_issues t a =
     (let requiredChecklist = filter (\<lambda>s. s \<noteq> []) (map trim (orDefault (ca_requiredChecklist a) []));
          checked = collectCheckedChecklistLabels (collectTaskText t);
          missing = filter (\<lambda>item. normalizeToken item \<notin> set checked) requiredChecklist
      in if length missing > 0
         then [\<lparr>gi_code = GateChecklist, gi_message = ''missing required checklist items: '' @ js_join '', '' missing,
                gi_missing = Some missing\<rparr>] else [])"

definition approval_issues :: "task \<Rightarrow> column_automation \<Rightarrow> gate_issue list" where
  "approval_issues t a =
     (if ca_requiredHumanApproval a = Some True \<and> tk_verificationVerdict t \<noteq> Some VV_APPROVED
      then [\<lparr>gi_code = GateHumanApproval, gi_message = ''missing required human approval verdict'', gi_missing = None\<rparr>]
      else [])"

definition validator_issues :: "task \<Rightarrow> column_automation \<Rightarrow> gate_issue list" where
  "validator_issues t a =
     (let validatorCommand = map_option trim (ca_validatorCommand a) in
      if truthy validatorCommand \<and> \<not> isValidatorEvidencePresent t (the validatorCommand)
      then [\<lparr>gi_code = GateValidator,
             gi_message = ''missing passing validator evidence for: '' @ the validatorCommand,
             gi_missing = Some [the validatorCommand]\<rparr>] else [])"

definition evaluateKanbanTransitionGates :: "task \<Rightarrow> kanban_column option \<Rightarrow> gate_result" where
  "evaluateKanbanTransitionGates t targetColumn =
     (case Option.bind targetColumn kc_automation of
        None \<Rightarrow> \<lparr>gr_mode = GateBlocking, gr_passed = True, gr_blocking = False, gr_issues = []\<rparr>
      | Some a \<Rightarrow>
          if \<not> ca_enabled a
          then \<lparr>gr_mode = GateBlocking, gr_passed = True, gr_blocking = False, gr_issues = []\<rparr>
          else let mode = (if ca_gateMode a = Some GateWarning then GateWarning else GateBlocking) in
            if \<not> hasTransitionGateRequirements a
            then \<lparr>gr_mode = mode, gr_passed = True, gr_blocking = False, gr_issues = []\<rparr>
            else let issues = checklist_issues t a @ approval_issues t a @ validator_issues t a in
              \<lparr>gr_mode = mode, gr_passed = (length issues = 0),
               gr_blocking = (mode = GateBlocking \<and> length issues > 0), gr_issues = issues\<rparr>)"

definition formatKanbanTransitionGateMessage :: "gate_result \<Rightarrow> string \<Rightarrow> string" where
  "formatKanbanTransitionGateMessage result targetColumnName =
     ''Cannot move task to '' @ quoted targetColumnName @ '': ''
     @ js_join ''; '' (map gi_message (gr_issues result)) @ ''.''"

definition formatKanbanTransitionGateWarning :: "gate_result \<Rightarrow> string \<Rightarrow> string" where
  "formatKanbanTransitionGateWarning result targetColumnName =
     ''Transition gate warning for '' @ quoted targetColumnName @ '': ''
     @ js_join ''; '' (map gi_message (gr_issues result)) @ ''.''"

section \<open>Required fields\<close>

fun formatRequiredTaskFieldLabel :: "required_task_field \<Rightarrow> string" where
  "formatRequiredTaskFieldLabel RfScope = ''scope''"
| "formatRequiredTaskFieldLabel RfAcceptanceCriteria = ''acceptance criteria''"
| "formatRequiredTaskFieldLabel RfVerificationCommands = ''verification commands''"
| "formatRequiredTaskFieldLabel RfTestCases = ''test cases''"
| "formatRequiredTaskFieldLabel RfVerificationPlan = ''verification plan''"
| "formatRequiredTaskFieldLabel RfDependenciesDeclared = ''dependency declaration''"

definition DEPENDENCY_DECLARATION_PATTERN :: rx where
  "DEPENDENCY_DECLARATION_PATTERN =
     rx_words [''depends on'', ''blocked by'', ''dependency plan'', ''execution order'', ''ready now'', ''no dependencies'']"

definition normalizeText :: "string option \<Rightarrow> string" where
  "normalizeText value = orDefault (map_option trim value) []"

definition normalizeItems :: "string list option \<Rightarrow> string list" where
  "normalizeItems values = filter (\<lambda>s. s \<noteq> []) (map trim (orDefault values []))"

record readiness_checks =
  rk_scope :: bool
  rk_acceptanceCriteria :: bool
  rk_verificationCommands :: bool
  rk_testCases :: bool
  rk_verificationPlan :: bool
  rk_dependenciesDeclared :: bool

record story_readiness =
  ry_ready :: bool
  ry_missing :: "required_task_field list"
  ry_requiredTaskFields :: "required_task_field list"
  ry_checks :: readiness_checks

definition buildTaskStoryReadinessChecks :: "yaml_load \<Rightarrow> task \<Rightarrow> readiness_checks" where
  "buildTaskStoryReadinessChecks yamlLoad t =
     (let objective = normalizeText (Some (tk_objective t)) @ lf @ normalizeText (tk_comment t);
          parseResult = parseCanonicalStory yamlLoad (Some (tk_objective t));
          hasCanonicalDependencies = (case cp_story parseResult of None \<Rightarrow> False
            | Some s \<Rightarrow> trim (si_unblock_condition (cs_dependencies_and_sequencing s)) \<noteq> []);
          verificationCommands = normalizeItems (tk_verificationCommands t);
          testCases = normalizeItems (tk_testCases t)
      in \<lparr>rk_scope = (length (normalizeText (tk_scope t)) > 0),
          rk_acceptanceCriteria = (length (normalizeItems (tk_acceptanceCriteria t)) > 0),
          rk_verificationCommands = (length verificationCommands > 0),
          rk_testCases = (length testCases > 0),
          rk_verificationPlan = (length verificationCommands > 0 \<or> length testCases > 0),
          rk_dependenciesDeclared = (hasCanonicalDependencies
            \<or> length (normalizeItems (Some (tk_dependencies t))) > 0
            \<or> normalizeText (tk_parallelGroup t) \<noteq> []
            \<or> rx_test DEPENDENCY_DECLARATION_PATTERN objective)\<rparr>)"

fun field_present :: "readiness_checks \<Rightarrow> required_task_field \<Rightarrow> bool" where
  "field_present k RfScope = rk_scope k"
| "field_present k RfAcceptanceCriteria = rk_acceptanceCriteria k"
| "field_present k RfVerificationCommands = rk_verificationCommands k"
| "field_present k RfTestCases = rk_testCases k"
| "field_present k RfVerificationPlan = rk_verificationPlan k"
| "field_present k RfDependenciesDeclared = rk_dependenciesDeclared k"

definition validateTaskReadiness :: "yaml_load \<Rightarrow> task \<Rightarrow> required_task_field list \<Rightarrow> story_readiness" where
  "validateTaskReadiness yamlLoad t requiredTaskFields =
     (let checks = buildTaskStoryReadinessChecks yamlLoad t;
          missing = filter (\<lambda>field. \<not> field_present checks field) requiredTaskFields
      in \<lparr>ry_ready = (length missing = 0), ry_missing = missing,
          ry_requiredTaskFields = requiredTaskFields, ry_checks = checks\<rparr>)"

definition resolveTargetRequiredTaskFields :: "kanban_column list \<Rightarrow> string option \<Rightarrow> required_task_field list" where
  "resolveTargetRequiredTaskFields columns targetColumnId =
     (if \<not> truthy targetColumnId then []
      else orDefault (Option.bind (Option.bind (List.find (\<lambda>c. Some (kc_id c) = targetColumnId) columns)
             kc_automation) ca_requiredTaskFields) [])"

definition resolveNextRequiredTaskFields :: "kanban_column list \<Rightarrow> string option \<Rightarrow> required_task_field list" where
  "resolveNextRequiredTaskFields columns currentColumnId =
     resolveTargetRequiredTaskFields columns (getNextHappyPathColumnId currentColumnId)"

end
