(* ===== verification/TaskSummaries.thy ===== *)
theory TaskSummaries
  imports TransitionGates
begin

text \<open>
  The summaries of a card that its views show, src/src/core/kanban/task-derived-summary.ts: the INVEST
  checks (those of the canonical story, or heuristic ones), the readiness for the next column and the
  evidence on a card. The stores the code asks are arguments: the board found, and the artifacts of the card.
\<close>

section \<open>INVEST\<close>

datatype invest_source = CanonicalStorySource | HeuristicSource

record invest_validation =
  vi_source :: invest_source
  vi_overallStatus :: story_status
  vi_checks :: story_invest
  vi_issues :: "string list"

definition summarizeStatuses :: "story_status list \<Rightarrow> story_status" where
  "summarizeStatuses statuses =
     (if SsFail \<in> set statuses then SsFail else if SsWarning \<in> set statuses then SsWarning else SsPass)"

definition invest_list :: "story_invest \<Rightarrow> invest_check list" where
  "invest_list v = [iv_independent v, iv_negotiable v, iv_valuable v, iv_estimable v, iv_small v, iv_testable v]"

definition check_of :: "story_status \<Rightarrow> string \<Rightarrow> invest_check" where
  "check_of status reason = \<lparr>iv_status = status, iv_reason = reason\<rparr>"

definition buildHeuristicInvestValidation :: "task \<Rightarrow> string list \<Rightarrow> invest_validation" where
  "buildHeuristicInvestValidation t issues =
     (let scope = normalizeText (tk_scope t);
          objective = normalizeText (Some (tk_objective t));
          comment = normalizeText (tk_comment t);
          acceptanceCriteria = normalizeItems (tk_acceptanceCriteria t);
          verificationCommands = normalizeItems (tk_verificationCommands t);
          testCases = normalizeItems (tk_testCases t);
          dependencies = normalizeItems (Some (tk_dependencies t));
          hasVerificationPlan = (length verificationCommands > 0 \<or> length testCases > 0);
          declaresDependencies = (length dependencies > 0
            \<or> rx_test DEPENDENCY_DECLARATION_PATTERN (objective @ lf @ comment));
          checks =
            \<lparr>iv_independent = (if length dependencies > 0
               then check_of SsFail (''Depends on '' @ js_join '', '' dependencies
                      @ '' and should likely be split or explicitly sequenced.'')
               else check_of SsPass (if declaresDependencies
                 then ''Dependency declaration is present and does not list blocking prerequisites.''
                 else ''No blocking prerequisite was detected.'')),
             iv_negotiable = check_of SsWarning
               ''Negotiability is a human judgment call when no canonical story contract is present.'',
             iv_valuable = (if length objective \<ge> 24
               then check_of SsPass ''Objective contains enough detail to express user or delivery value.''
               else check_of SsFail ''Objective is too thin to explain why this story matters.''),
             iv_estimable = (if scope \<noteq> [] \<and> length acceptanceCriteria > 0
               then check_of SsPass ''Scope and acceptance criteria provide enough context to estimate work.''
               else if scope \<noteq> [] \<or> length acceptanceCriteria > 0
               then check_of SsWarning ''Some sizing context exists, but either scope or acceptance criteria is still missing.''
               else check_of SsFail ''Missing scope and acceptance criteria leaves the story hard to estimate.''),
             iv_small = (if length acceptanceCriteria \<ge> 6 \<or> length dependencies \<ge> 2
               then check_of SsWarning ''The story may be too broad because it carries many acceptance criteria or dependencies.''
               else check_of SsPass ''The story looks narrow enough for a single implementation pass.''),
             iv_testable = (if length acceptanceCriteria \<ge> 2 \<or> hasVerificationPlan
               then check_of SsPass ''Acceptance criteria or an explicit verification plan makes the outcome testable.''
               else if length acceptanceCriteria = 1
               then check_of SsWarning ''A single acceptance criterion exists, but verification is still thin.''
               else check_of SsFail ''No acceptance criteria or verification plan was provided.'')\<rparr>
      in \<lparr>vi_source = HeuristicSource,
          vi_overallStatus = summarizeStatuses (map iv_status (invest_list checks)),
          vi_checks = checks, vi_issues = issues\<rparr>)"

definition buildTaskInvestValidation :: "yaml_load \<Rightarrow> task \<Rightarrow> invest_validation" where
  "buildTaskInvestValidation yamlLoad t =
     (let parseResult = parseCanonicalStory yamlLoad (Some (tk_objective t)) in
      case cp_story parseResult of
        Some story \<Rightarrow>
          \<lparr>vi_source = CanonicalStorySource,
           vi_overallStatus = summarizeStatuses (map iv_status (invest_list (cs_invest story))),
           vi_checks = cs_invest story, vi_issues = cp_issues parseResult\<rparr>
      | None \<Rightarrow> buildHeuristicInvestValidation t (cp_issues parseResult))"

section \<open>Readiness and evidence\<close>

text \<open>The board that the store gives for the card, if any.\<close>

definition board_columns :: "kanban_board option \<Rightarrow> kanban_column list" where
  "board_columns board = (case board of None \<Rightarrow> [] | Some b \<Rightarrow> kb_columns b)"

definition buildTaskStoryReadiness :: "yaml_load \<Rightarrow> task \<Rightarrow> kanban_board option \<Rightarrow> story_readiness" where
  "buildTaskStoryReadiness yamlLoad t board =
     validateTaskReadiness yamlLoad t
       (resolveNextRequiredTaskFields (board_columns (if truthy (tk_boardId t) then board else None)) (tk_columnId t))"

datatype artifact_type = AtScreenshot | AtTestResults | AtCodeDiff | AtLogs | AtCanvas

fun artifact_of :: "required_artifact \<Rightarrow> artifact_type" where
  "artifact_of RaScreenshot = AtScreenshot"
| "artifact_of RaTestResults = AtTestResults"
| "artifact_of RaCodeDiff = AtCodeDiff"

fun artifact_str :: "artifact_type \<Rightarrow> string" where
  "artifact_str AtScreenshot = ''screenshot''"
| "artifact_str AtTestResults = ''test_results''"
| "artifact_str AtCodeDiff = ''code_diff''"
| "artifact_str AtLogs = ''logs''"
| "artifact_str AtCanvas = ''canvas''"

record artifact_summary =
  as_total :: nat
  as_byType :: "(artifact_type, nat) omap"
  as_requiredSatisfied :: bool
  as_missingRequired :: "artifact_type list"

record evidence_summary =
  es_artifact :: artifact_summary
  es_hasVerdict :: bool
  es_verdict :: "verification_verdict option"
  es_hasReport :: bool
  es_hasSummary :: bool
  es_totalRuns :: nat
  es_latestStatus :: string

definition resolveTransitionRequiredArtifacts :: "task \<Rightarrow> kanban_board option \<Rightarrow> artifact_type list" where
  "resolveTransitionRequiredArtifacts t board =
     (let nextColumnId = getNextHappyPathColumnId (tk_columnId t) in
      if truthy nextColumnId
      then map artifact_of (orDefault (Option.bind (Option.bind
             (List.find (\<lambda>c. Some (kc_id c) = nextColumnId) (board_columns board)) kc_automation) ca_requiredArtifacts) [])
      else [])"

definition buildTaskArtifactSummary :: "artifact_type list \<Rightarrow> artifact_summary" where
  "buildTaskArtifactSummary artifacts =
     \<lparr>as_total = length artifacts,
      as_byType = foldl (\<lambda>m a. om_set m a (orDefault (om_get m a) 0 + 1)) [] artifacts,
      as_requiredSatisfied = True, as_missingRequired = []\<rparr>"

text \<open>\<open>sessionIds\<close> is always there; its length decides.\<close>

definition buildTaskEvidenceSummary :: "task \<Rightarrow> artifact_type list \<Rightarrow> kanban_board option \<Rightarrow> evidence_summary" where
  "buildTaskEvidenceSummary t artifacts board =
     (let artifactSummary = buildTaskArtifactSummary artifacts;
          required = resolveTransitionRequiredArtifacts t (if truthy (tk_boardId t) then board else None);
          missingRequired = filter (\<lambda>a. orDefault (om_get (as_byType artifactSummary) a) 0 = 0) required
      in \<lparr>es_artifact = artifactSummary\<lparr>as_requiredSatisfied := (length missingRequired = 0),
                                        as_missingRequired := missingRequired\<rparr>,
          es_hasVerdict = (tk_verificationVerdict t \<noteq> None), es_verdict = tk_verificationVerdict t,
          es_hasReport = has_text (tk_verificationReport t),
          es_hasSummary = has_text (tk_completionSummary t),
          es_totalRuns = length (tk_sessionIds t),
          es_latestStatus = (if tk_laneSessions t \<noteq> [] then lane_status_str (ls_status (last (tk_laneSessions t)))
            else if length (tk_sessionIds t) > 0 then ''unknown'' else ''idle'')\<rparr>)"

section \<open>Lemmas\<close>

lemma count_by_type:
  "om_get (foldl (\<lambda>m a. om_set m a (orDefault (om_get m a) 0 + 1)) m0 xs) a
     = (if a \<in> set xs then Some (orDefault (om_get m0 a) 0 + count_list xs a) else om_get m0 a)"
proof (induction xs arbitrary: m0)
  case (Cons x xs)
  then show ?case by (auto simp: orDefault_def)
qed simp

lemma artifact_counted: "orDefault (om_get (as_byType (buildTaskArtifactSummary xs)) a) 0 = count_list xs a"
  unfolding buildTaskArtifactSummary_def artifact_summary.simps count_by_type
  by (simp add: orDefault_def count_list_0_iff)

text \<open>The artifacts that are reported missing are the required ones that the card has none of.\<close>

lemma evidence_missing:
  "as_missingRequired (es_artifact (buildTaskEvidenceSummary t artifacts board))
     = filter (\<lambda>a. a \<notin> set artifacts)
         (resolveTransitionRequiredArtifacts t (if truthy (tk_boardId t) then board else None))"
  by (simp add: buildTaskEvidenceSummary_def Let_def artifact_counted count_list_0_iff)

text \<open>A card without a canonical story never passes the INVEST checks as a whole.\<close>

lemma heuristic_never_passes: "vi_overallStatus (buildHeuristicInvestValidation t issues) \<noteq> SsPass"
  by (simp add: buildHeuristicInvestValidation_def Let_def summarizeStatuses_def invest_list_def check_of_def)

end
