(* ===== verification/ContractGate.thy ===== *)
theory ContractGate
  imports CanonicalStory TaskStore
begin

text \<open>
  The contract gate, src/src/core/kanban/task-contract-readiness.ts: whether the description of a card
  holds the canonical story that a column asks for, the errors that refuse a move or a new
  description, and the notes that count the refusals. Then the guard on writing a description,
  src/src/core/kanban/task-description-write-guard.ts.
\<close>

section \<open>Rules and readiness\<close>

definition DEFAULT_CONTRACT_LOOP_BREAKER_THRESHOLD :: int where
  "DEFAULT_CONTRACT_LOOP_BREAKER_THRESHOLD = 2"

definition CONTRACT_GATE_BLOCKED_LABEL :: string where
  "CONTRACT_GATE_BLOCKED_LABEL = ''contract-gate-blocked''"

definition CONTRACT_GATE_NOTE_PREFIX :: string where
  "CONTRACT_GATE_NOTE_PREFIX = ''Contract gate blocked:''"

record contract_readiness =
  tr_checked :: bool
  tr_ready :: bool
  tr_hasCanonicalStoryBlock :: bool
  tr_issues :: "string list"
  tr_loopBreakerThreshold :: int
  tr_misplacedYamlInComment :: "bool option"

text \<open>The newest comment first.\<close>

definition detectMisplacedCanonicalYaml :: "yaml_load \<Rightarrow> task_comment list \<Rightarrow> bool" where
  "detectMisplacedCanonicalYaml yamlLoad comments =
     list_ex (\<lambda>c. tc_body c \<noteq> []
        \<and> cp_hasYamlBlock (parseCanonicalStory yamlLoad (Some (tc_body c)))
        \<and> cp_story (parseCanonicalStory yamlLoad (Some (tc_body c))) \<noteq> None) (rev comments)"

definition MISPLACED_CANONICAL_YAML_ISSUE :: string where
  "MISPLACED_CANONICAL_YAML_ISSUE =
     ''The canonical story YAML is in a comment, not in the card description. The gate reads only the ''
     @ ''description. Call `update_card` with the YAML as the description, then retry.''"

definition normalizeLoopBreakerThreshold :: "contract_rules option \<Rightarrow> int" where
  "normalizeLoopBreakerThreshold rules =
     max 1 (orDefault (Option.bind rules cr_loopBreakerThreshold) DEFAULT_CONTRACT_LOOP_BREAKER_THRESHOLD)"

definition hasContractRules :: "contract_rules option \<Rightarrow> bool" where
  "hasContractRules rules = (Option.bind rules cr_requireCanonicalStory = Some True)"

definition resolveTargetContractRules :: "kanban_column list \<Rightarrow> string option \<Rightarrow> contract_rules option" where
  "resolveTargetContractRules columns targetColumnId =
     (if \<not> truthy targetColumnId then None
      else Option.bind (Option.bind (List.find (\<lambda>c. Some (kc_id c) = targetColumnId) columns) kc_automation)
             ca_contractRules)"

definition resolveCurrentOrNextContractRules ::
  "kanban_column list \<Rightarrow> string option \<Rightarrow> contract_rules option" where
  "resolveCurrentOrNextContractRules columns currentColumnId =
     (let current = orDefault currentColumnId ''backlog'';
          currentRules = resolveTargetContractRules columns (Some current)
      in if hasContractRules currentRules then currentRules
         else resolveTargetContractRules columns (getNextHappyPathColumnId (Some current)))"

text \<open>The name of the column whose rules count, and the rules.\<close>

definition contract_rules_of :: "kanban_column option \<Rightarrow> contract_rules option" where
  "contract_rules_of column = Option.bind (Option.bind column kc_automation) ca_contractRules"

definition resolveCurrentOrNextContractGate ::
  "kanban_column list \<Rightarrow> string option \<Rightarrow> (string \<times> contract_rules) option" where
  "resolveCurrentOrNextContractGate columns currentColumnId =
     (let current = orDefault currentColumnId ''backlog'';
          currentColumn = List.find (\<lambda>c. kc_id c = current) columns;
          nextColumnId = getNextHappyPathColumnId (Some current);
          nextColumn = (if truthy nextColumnId
            then List.find (\<lambda>c. Some (kc_id c) = nextColumnId) columns else None)
      in if hasContractRules (contract_rules_of currentColumn)
         then Some (kc_name (the currentColumn), the (contract_rules_of currentColumn))
         else if hasContractRules (contract_rules_of nextColumn)
         then Some (kc_name (the nextColumn), the (contract_rules_of nextColumn))
         else None)"

definition buildTaskContractReadiness ::
  "yaml_load \<Rightarrow> string \<Rightarrow> task_comment list \<Rightarrow> contract_rules option \<Rightarrow> contract_readiness" where
  "buildTaskContractReadiness yamlLoad objective comments rules =
     (if \<not> hasContractRules rules
      then \<lparr>tr_checked = False, tr_ready = True, tr_hasCanonicalStoryBlock = True, tr_issues = [],
            tr_loopBreakerThreshold = normalizeLoopBreakerThreshold rules, tr_misplacedYamlInComment = None\<rparr>
      else let parseResult = parseCanonicalStory yamlLoad (Some objective) in
        if \<not> cp_hasYamlBlock parseResult
        then let misplaced = detectMisplacedCanonicalYaml yamlLoad comments in
          \<lparr>tr_checked = True, tr_ready = False, tr_hasCanonicalStoryBlock = False,
           tr_issues = [if misplaced then MISPLACED_CANONICAL_YAML_ISSUE
             else ''Canonical story YAML is missing. Add exactly one ```yaml``` block with the canonical story contract.''],
           tr_loopBreakerThreshold = normalizeLoopBreakerThreshold rules,
           tr_misplacedYamlInComment = (if misplaced then Some True else None)\<rparr>
        else \<lparr>tr_checked = True, tr_ready = (cp_story parseResult \<noteq> None), tr_hasCanonicalStoryBlock = True,
              tr_issues = (if cp_story parseResult \<noteq> None then [] else cp_issues parseResult),
              tr_loopBreakerThreshold = normalizeLoopBreakerThreshold rules,
              tr_misplacedYamlInComment = None\<rparr>)"

section \<open>Errors and notes\<close>

definition formatTaskContractIssues :: "string list \<Rightarrow> string" where
  "formatTaskContractIssues issues =
     (if length issues = 0 then ''Canonical story YAML failed validation.''
      else let summary = js_join '' '' (take 2 issues) in
        if length issues > 2 then summary @ '' ('' @ show_nat (length issues - 2) @ '' more issue(s))'' else summary)"

definition first_issue :: "contract_readiness \<Rightarrow> string" where
  "first_issue r = (case tr_issues r of [] \<Rightarrow> ''Canonical story YAML is missing.'' | i # _ \<Rightarrow> i)"

definition buildTaskContractTransitionErrorFromRules ::
  "contract_readiness \<Rightarrow> string \<Rightarrow> contract_rules option \<Rightarrow> string option" where
  "buildTaskContractTransitionErrorFromRules readiness targetColumnName rules =
     (if \<not> hasContractRules rules \<or> tr_ready readiness then None
      else if \<not> tr_hasCanonicalStoryBlock readiness then
        (if tr_misplacedYamlInComment readiness = Some True
         then Some (''Cannot move task to '' @ quoted targetColumnName @ '': '' @ MISPLACED_CANONICAL_YAML_ISSUE)
         else Some (''Cannot move task to '' @ quoted targetColumnName @ '': '' @ first_issue readiness
                @ '' Regenerate the canonical YAML in Backlog before retrying.''))
      else Some (''Cannot move task to '' @ quoted targetColumnName @ '': canonical story YAML is invalid. ''
             @ formatTaskContractIssues (tr_issues readiness)
             @ '' Regenerate the canonical YAML in Backlog before retrying.''))"

definition buildTaskContractUpdateErrorFromRules ::
  "contract_readiness \<Rightarrow> string \<Rightarrow> contract_rules option \<Rightarrow> string option" where
  "buildTaskContractUpdateErrorFromRules readiness targetColumnName rules =
     (if \<not> hasContractRules rules \<or> tr_ready readiness then None
      else if \<not> tr_hasCanonicalStoryBlock readiness
      then Some (''Cannot update card description: '' @ first_issue readiness
             @ '' This card must satisfy the canonical contract gate for '' @ quoted targetColumnName @ ''.'')
      else Some (''Cannot update card description: canonical story YAML is invalid for ''
             @ quoted targetColumnName @ ''. '' @ formatTaskContractIssues (tr_issues readiness)))"

definition buildContractGateNote :: "string \<Rightarrow> string" where
  "buildContractGateNote message = trim (CONTRACT_GATE_NOTE_PREFIX @ '' '' @ message)"

definition countContractGateFailures :: "task_comment list \<Rightarrow> nat" where
  "countContractGateFailures comments =
     length (filter (\<lambda>c. startsWith (tc_body c) CONTRACT_GATE_NOTE_PREFIX) comments)"

definition buildContractLoopBreakerMessage :: "string \<Rightarrow> nat \<Rightarrow> int \<Rightarrow> string" where
  "buildContractLoopBreakerMessage targetColumnName failureCount threshold =
     ''Stopped automatic retries for '' @ quoted targetColumnName @ '' after '' @ show_nat failureCount
     @ '' canonical contract gate failures (limit: '' @ show_int threshold
     @ ''). Regenerate the canonical story YAML in Backlog before retrying.''"

section \<open>Writing a description\<close>

definition DESCRIPTION_FROZEN_STAGES :: "column_stage set" where
  "DESCRIPTION_FROZEN_STAGES = {StDev, StReview, StBlocked, StDone}"

definition normalizeColumnStage :: "string option \<Rightarrow> column_stage option" where
  "normalizeColumnStage columnId =
     List.find (\<lambda>st. stage_str st = toLowerCase (orDefault columnId ''backlog''))
       [StBacklog, StTodo, StDev, StReview, StBlocked, StDone]"

text \<open>A missing board has no columns to look at.\<close>

definition resolveTaskColumnStage ::
  "string option \<Rightarrow> string option \<Rightarrow> kanban_column list option \<Rightarrow> column_stage option" where
  "resolveTaskColumnStage boardId columnId boardColumns =
     (let current = orDefault columnId ''backlog'' in
      if truthy boardId \<and> boardColumns \<noteq> None
      then nullish (map_option kc_stage (List.find (\<lambda>c. kc_id c = current) (the boardColumns)))
             (normalizeColumnStage (Some current))
      else normalizeColumnStage (Some current))"

record description_guard =
  gd_error :: "string option"
  gd_frozen :: bool
  gd_contractGate :: "(string \<times> contract_readiness) option"

text \<open>The part of the guard behind the freeze: only the new description is read, no comment.\<close>

definition guard_contract ::
  "yaml_load \<Rightarrow> string option \<Rightarrow> string option \<Rightarrow> string \<Rightarrow> kanban_column list option \<Rightarrow> description_guard" where
  "guard_contract yamlLoad boardId columnId newObjective boardColumns =
     (let free = \<lparr>gd_error = None, gd_frozen = False, gd_contractGate = None\<rparr> in
      if \<not> (truthy boardId \<and> boardColumns \<noteq> None) then free
      else (case resolveCurrentOrNextContractGate (the boardColumns) columnId of
        None \<Rightarrow> free
      | Some (columnName, rules) \<Rightarrow>
          (let readiness = buildTaskContractReadiness yamlLoad newObjective [] (Some rules);
               error = buildTaskContractUpdateErrorFromRules readiness columnName (Some rules)
           in if truthy error
              then \<lparr>gd_error = error, gd_frozen = False, gd_contractGate = Some (columnName, readiness)\<rparr>
              else free)))"

definition evaluateTaskDescriptionWriteGuard ::
  "yaml_load \<Rightarrow> string option \<Rightarrow> string option \<Rightarrow> string \<Rightarrow> kanban_column list option \<Rightarrow> description_guard" where
  "evaluateTaskDescriptionWriteGuard yamlLoad boardId columnId newObjective boardColumns =
     (case resolveTaskColumnStage boardId columnId boardColumns of
        Some stage \<Rightarrow>
          if stage \<in> DESCRIPTION_FROZEN_STAGES
          then \<lparr>gd_error = Some (''Cannot update card description in '' @ stage_str stage @ ''. ''
                  @ ''The story description is frozen from dev onward; update the comment field instead.''),
                gd_frozen = True, gd_contractGate = None\<rparr>
          else guard_contract yamlLoad boardId columnId newObjective boardColumns
      | None \<Rightarrow> guard_contract yamlLoad boardId columnId newObjective boardColumns)"

end
