(* ===== verification/BoardWorld.thy ===== *)
theory BoardWorld
  imports JsAsync EventBus TaskSummaries ContractGate LaneAutomation
begin

text \<open>
  The state that the board tools of src/src/core/tools/kanban-tools.ts work on, and the steps they are
  made of: the stores of cards, boards, artifacts, worktrees and codebases. Every \<open>await\<close> is a pause at
  which other calls may run; every store call may be rejected. A card or a board read from a store is a
  copy of the call. What the tools do to the outside is recorded in a log: the handlers that the bus
  calls for an event are calls of their own.
\<close>

section \<open>Data\<close>

text \<open>src/src/core/models/worktree.ts and codebase.ts\<close>

record worktree_row =
  wr_id :: string
  wr_codebaseId :: string
  wr_workspaceId :: string
  wr_worktreePath :: string
  wr_branch :: string
  wr_baseBranch :: string

record codebase_row =
  cw_id :: string
  cw_workspaceId :: string
  cw_repoPath :: string
  cw_branch :: "string option"
  cw_isDefault :: bool
  cw_sourceType :: "string option"
  cw_sourceUrl :: "string option"

datatype notice_entity = NeTask | NeBoard | NeColumn

datatype notice_action = NaCreated | NaUpdated | NaDeleted | NaMoved

datatype board_effect =
    BoardNotice string notice_entity notice_action "string option"
  | CardTransition agent_event

text \<open>The artifact store, as far as it is read: the card and the type of each artifact.\<close>

record board_world =
  bw_store :: task_store
  bw_boards :: "(string, kanban_board) omap"
  bw_artifacts :: "(string \<times> artifact_type) list"
  bw_worktrees :: "(string, worktree_row) omap"
  bw_codebases :: "(string, codebase_row) omap"
  bw_ids :: nat
  bw_awaits :: nat
  bw_log :: "board_effect list"

datatype board_error = StoreRejected string | CardThrew js_error

text \<open>
  The environment: the host, the clock, the identifiers, the YAML parser, the other calls at each await
  and the errors of the stores. \<open>be_git\<close> is what a git process answers: the output, or \<^const>\<open>None\<close> when it
  fails. \<open>be_hasBus\<close> and \<open>be_hasArtifacts\<close> say whether the setters were called, and
  \<open>be_compatible\<close> that the automation system is set and has the same two stores.
\<close>

record board_env =
  be_host :: js_host
  be_yaml :: yaml_load
  be_now :: "nat \<Rightarrow> int"
  be_uuid :: "nat \<Rightarrow> string"
  be_others :: "nat \<Rightarrow> board_world \<Rightarrow> board_world"
  be_storeFails :: "nat \<Rightarrow> string option"
  be_git :: "nat \<Rightarrow> string \<Rightarrow> string list \<Rightarrow> string option"
  be_hasBus :: bool
  be_hasArtifacts :: bool
  be_compatible :: bool

type_synonym 'a board = "(board_world, board_error, 'a) action"

section \<open>Steps\<close>

definition bpause :: "board_env \<Rightarrow> unit board" where
  "bpause env = modify (\<lambda>w. be_others env (bw_awaits w) (w\<lparr>bw_awaits := Suc (bw_awaits w)\<rparr>))"

definition bnow :: "board_env \<Rightarrow> board_world \<Rightarrow> int" where
  "bnow env w = be_now env (bw_awaits w)"

definition biso :: "board_env \<Rightarrow> board_world \<Rightarrow> string" where
  "biso env w = hostToISO (be_host env) (bnow env w)"

definition board_note :: "board_effect \<Rightarrow> unit board" where
  "board_note e = modify (\<lambda>w. w\<lparr>bw_log := bw_log w @ [e]\<rparr>)"

definition fresh_id :: "board_env \<Rightarrow> string board" where
  "fresh_id env = andThen (gets bw_ids) (\<lambda>n.
     next_do (modify (\<lambda>w. w\<lparr>bw_ids := Suc (bw_ids w)\<rparr>)) (ret (be_uuid env n)))"

definition board_call :: "board_env \<Rightarrow> 'a board \<Rightarrow> 'a board" where
  "board_call env m = next_do (bpause env) (andThen (gets (\<lambda>w. be_storeFails env (bw_awaits w))) (\<lambda>failure.
     case failure of
       Some e \<Rightarrow> throw (StoreRejected e)
     | None \<Rightarrow> andThen m (\<lambda>x. next_do (bpause env) (ret x))))"

definition card_get :: "board_env \<Rightarrow> string \<Rightarrow> task option board" where
  "card_get env cardId = board_call env (gets (\<lambda>w. store_get (biso env w) (bw_store w) cardId))"

definition card_save :: "board_env \<Rightarrow> task \<Rightarrow> unit board" where
  "card_save env t = board_call env (modify (\<lambda>w. w\<lparr>bw_store := store_save (biso env w) (bw_store w) t\<rparr>))"

text \<open>src/src/core/store/kanban-board-store.ts: the columns of a stored and of a read board are copies.\<close>

definition board_get :: "board_env \<Rightarrow> string \<Rightarrow> kanban_board option board" where
  "board_get env boardId = board_call env (gets (\<lambda>w.
     map_option (\<lambda>b. b\<lparr>kb_columns := cloneKanbanColumns (kb_columns b)\<rparr>) (om_get (bw_boards w) boardId)))"

definition board_save :: "board_env \<Rightarrow> kanban_board \<Rightarrow> unit board" where
  "board_save env b = board_call env (modify (\<lambda>w.
     w\<lparr>bw_boards := om_set (bw_boards w) (kb_id b) (b\<lparr>kb_columns := cloneKanbanColumns (kb_columns b)\<rparr>)\<rparr>))"

definition board_list :: "board_env \<Rightarrow> string \<Rightarrow> kanban_board list board" where
  "board_list env workspaceId = board_call env (gets (\<lambda>w.
     map (\<lambda>b. b\<lparr>kb_columns := cloneKanbanColumns (kb_columns b)\<rparr>)
       (sort_by (\<lambda>a b. kb_createdAt a - kb_createdAt b)
         (filter (\<lambda>b. kb_workspaceId b = workspaceId) (om_values (bw_boards w))))))"

definition board_default :: "board_env \<Rightarrow> string \<Rightarrow> kanban_board option board" where
  "board_default env workspaceId = board_call env (gets (\<lambda>w.
     map_option (\<lambda>b. b\<lparr>kb_columns := cloneKanbanColumns (kb_columns b)\<rparr>)
       (List.find (\<lambda>b. kb_workspaceId b = workspaceId \<and> kb_isDefault b) (om_values (bw_boards w)))))"

definition artifacts_of :: "board_env \<Rightarrow> string \<Rightarrow> artifact_type \<Rightarrow> nat board" where
  "artifacts_of env cardId atype = board_call env (gets (\<lambda>w.
     length (filter (\<lambda>a. fst a = cardId \<and> snd a = atype) (bw_artifacts w))))"

definition worktree_get :: "board_env \<Rightarrow> string \<Rightarrow> worktree_row option board" where
  "worktree_get env worktreeId = board_call env (gets (\<lambda>w. om_get (bw_worktrees w) worktreeId))"

definition codebase_get :: "board_env \<Rightarrow> string \<Rightarrow> codebase_row option board" where
  "codebase_get env codebaseId = board_call env (gets (\<lambda>w. om_get (bw_codebases w) codebaseId))"

definition codebase_default :: "board_env \<Rightarrow> string \<Rightarrow> codebase_row option board" where
  "codebase_default env workspaceId = board_call env (gets (\<lambda>w.
     List.find (\<lambda>c. cw_workspaceId c = workspaceId \<and> cw_isDefault c) (om_values (bw_codebases w))))"

definition codebase_by_path :: "board_env \<Rightarrow> string \<Rightarrow> string \<Rightarrow> codebase_row option board" where
  "codebase_by_path env workspaceId repoPath = board_call env (gets (\<lambda>w.
     List.find (\<lambda>c. cw_workspaceId c = workspaceId \<and> cw_repoPath c = repoPath) (om_values (bw_codebases w))))"

text \<open>\<open>notifyWorkspaceChanged\<close>\<close>

definition notifyWorkspaceChanged ::
  "string \<Rightarrow> notice_entity \<Rightarrow> notice_action \<Rightarrow> string option \<Rightarrow> unit board" where
  "notifyWorkspaceChanged workspaceId entity change resourceId =
     board_note (BoardNotice workspaceId entity change resourceId)"

definition emit_transition :: "board_env \<Rightarrow> transition_data \<Rightarrow> unit board" where
  "emit_transition env d = andThen (gets (bnow env)) (\<lambda>now.
     board_note (CardTransition \<lparr>ev_type = COLUMN_TRANSITION, ev_agentId = ''kanban-system'',
       ev_workspaceId = td_workspaceId d, ev_data = js_of_transition d, ev_timestamp = now\<rparr>))"

text \<open>A process of git in a directory, awaited, and without awaiting.\<close>

definition git_async :: "board_env \<Rightarrow> string list \<Rightarrow> string \<Rightarrow> string option board" where
  "git_async env args cwd = next_do (bpause env)
     (andThen (gets (\<lambda>w. map_option trimEnd (be_git env (bw_awaits w) cwd args))) (\<lambda>out.
       next_do (bpause env) (ret out)))"

definition git_sync :: "board_env \<Rightarrow> string list \<Rightarrow> string \<Rightarrow> string option board" where
  "git_sync env args cwd = gets (\<lambda>w. map_option trimEnd (be_git env (bw_awaits w) cwd args))"

end
