(* ===== verification/GitDelivery.thy ===== *)
theory GitDelivery
  imports BoardWorld
begin

text \<open>
  Whether the work of a card is delivered. The repository of a card
  (src/src/core/kanban/task-worktree-truth.ts), what git says of it (src/src/core/git/git-utils-async.ts
  and git-utils.ts: the functions the delivery uses, over the answers of the git processes), the rules
  of a column (src/src/core/kanban/task-delivery-readiness.ts) and the frozen range of commits
  (task-delivery-snapshot.ts). The counts that git prints are decimal numerals; any other text of a
  count is read as 0.
\<close>

section \<open>Reading what git prints\<close>

function split_ws :: "string \<Rightarrow> string list" where
  "split_ws s =
     (let word = takeWhile (\<lambda>c. \<not> is_ws c) s; rest = dropWhile (\<lambda>c. \<not> is_ws c) s
      in if rest = [] then [word] else word # split_ws (dropWhile is_ws rest))"
  by auto
termination
proof (relation "measure length", simp)
  fix s word rest
  assume "word = takeWhile (\<lambda>c. \<not> is_ws c) s" and rest: "rest = dropWhile (\<lambda>c. \<not> is_ws c) s" and "rest \<noteq> []"
  then have "is_ws (hd rest)" using hd_dropWhile [of "\<lambda>c. \<not> is_ws c" s] by simp
  with \<open>rest \<noteq> []\<close> have "length (dropWhile is_ws rest) < length rest"
    by (cases rest) (simp_all add: le_imp_less_Suc length_dropWhile_le)
  also have "length rest \<le> length s" unfolding rest by (rule length_dropWhile_le)
  finally show "(dropWhile is_ws rest, s) \<in> measure length" by simp
qed

declare split_ws.simps [simp del]

text \<open>\<open>Number(text) || 0\<close> and \<open>Number.parseInt(text, 10) || 0\<close> on a text of digits; \<open>parseInt\<close> reads the
  digits in front.\<close>

definition number_or_zero :: "string \<Rightarrow> nat" where
  "number_or_zero s = (if s \<noteq> [] \<and> list_all is_digit s then decimal_value s else 0)"

definition parse_int :: "string \<Rightarrow> nat option" where
  "parse_int s = (let ds = takeWhile is_digit (trimStart s) in if ds = [] then None else Some (decimal_value ds))"

definition at_start :: "rx \<Rightarrow> string \<Rightarrow> bool" where
  "at_start r s = (rx_ends r (None, s) \<noteq> [])"

definition not_in :: "string \<Rightarrow> char \<Rightarrow> bool" where
  "not_in s c = (c \<notin> set s)"

definition OWNER_AND_REPO :: "string \<Rightarrow> rx" where
  "OWNER_AND_REPO sep = rx_seq [rx_lit sep, rx_plus (not_in ''/''), rx_lit ''/'',
     rx_plus (\<lambda>c. not_in ''/#?.'' c \<and> \<not> is_ws c)]"

definition GITHUB_URL_PATTERNS :: "rx list" where
  "GITHUB_URL_PATTERNS =
     [rx_seq [rx_lit ''http'', RxOpt (rx_lit ''s''), rx_lit ''://github.com'', OWNER_AND_REPO ''/''],
      rx_seq [rx_lit ''git@github.com'', OWNER_AND_REPO '':''],
      rx_seq [rx_lit ''github.com'', OWNER_AND_REPO ''/'']]"

definition name_char :: "char \<Rightarrow> bool" where
  "name_char c = (is_word c \<or> c = CHR ''-'')"

definition SIMPLE_OWNER_REPO :: rx where
  "SIMPLE_OWNER_REPO = rx_seq [rx_plus name_char, RxCls (one_of ''/''),
     rx_plus (\<lambda>c. name_char c \<or> c = CHR ''.''), RxEnd]"

definition isGitHubUrl :: "string \<Rightarrow> bool" where
  "isGitHubUrl url =
     (let trimmedUrl = trim url in
      list_ex (\<lambda>p. at_start p trimmedUrl) GITHUB_URL_PATTERNS
      \<or> (at_start SIMPLE_OWNER_REPO trimmedUrl \<and> not_in trimmedUrl (CHR 0x5C) \<and> not_in trimmedUrl (CHR '':'')))"

section \<open>Asking git\<close>

text \<open>A failed process is caught in each of these.\<close>

definition hasGitRef :: "board_env \<Rightarrow> string \<Rightarrow> string \<Rightarrow> bool board" where
  "hasGitRef env repoPath ref =
     andThen (git_async env [''rev-parse'', ''--verify'', ref] repoPath) (\<lambda>out. ret (out \<noteq> None))"

definition isRefAncestorAsync :: "board_env \<Rightarrow> string \<Rightarrow> string \<Rightarrow> string \<Rightarrow> bool board" where
  "isRefAncestorAsync env repoPath ref descendant =
     andThen (git_async env [''merge-base'', ''--is-ancestor'', ref, descendant] repoPath) (\<lambda>out. ret (out \<noteq> None))"

definition isGitRepositoryAsync :: "board_env \<Rightarrow> string \<Rightarrow> bool board" where
  "isGitRepositoryAsync env dir =
     andThen (git_async env [''rev-parse'', ''--git-dir''] dir) (\<lambda>out. ret (out \<noteq> None))"

definition isBareGitRepositoryAsync :: "board_env \<Rightarrow> string \<Rightarrow> bool board" where
  "isBareGitRepositoryAsync env dir =
     andThen (git_async env [''rev-parse'', ''--is-bare-repository''] dir) (\<lambda>out. ret (out = Some ''true''))"

definition supportsGitWorktreeOperations :: "board_env \<Rightarrow> string \<Rightarrow> bool board" where
  "supportsGitWorktreeOperations env repoPath =
     andThen (isGitRepositoryAsync env repoPath) (\<lambda>isRepo.
       if \<not> isRepo then ret False
       else andThen (isBareGitRepositoryAsync env repoPath) (\<lambda>bare. ret (\<not> bare)))"

definition nonempty_text :: "string option \<Rightarrow> string option" where
  "nonempty_text v = (if truthy v then v else None)"

definition getCurrentBranchAsync :: "board_env \<Rightarrow> string \<Rightarrow> string option board" where
  "getCurrentBranchAsync env repoPath =
     andThen (git_async env [''rev-parse'', ''--abbrev-ref'', ''HEAD''] repoPath) (\<lambda>out. ret (nonempty_text out))"

definition getRemoteUrlAsync :: "board_env \<Rightarrow> string \<Rightarrow> string option board" where
  "getRemoteUrlAsync env repoPath =
     andThen (git_async env [''remote'', ''get-url'', ''origin''] repoPath) (\<lambda>out. ret (nonempty_text out))"

definition base_candidates :: "string option \<Rightarrow> string list" where
  "base_candidates baseBranch =
     (let normalizedBaseBranch = map_option trim baseBranch
      in uniq (filter (\<lambda>s. s \<noteq> [])
           ((if truthy normalizedBaseBranch then [''origin/'' @ the normalizedBaseBranch, the normalizedBaseBranch] else [])
            @ [''origin/main'', ''main'', ''origin/master'', ''master''])))"

fun first_ref :: "board_env \<Rightarrow> string \<Rightarrow> string list \<Rightarrow> string option board" where
  "first_ref env repoPath [] = ret None"
| "first_ref env repoPath (candidate # rest) =
     andThen (hasGitRef env repoPath candidate) (\<lambda>found.
       if found then ret (Some candidate) else first_ref env repoPath rest)"

definition resolveBaseRef :: "board_env \<Rightarrow> string \<Rightarrow> string option \<Rightarrow> string option board" where
  "resolveBaseRef env repoPath baseBranch = first_ref env repoPath (base_candidates baseBranch)"

record repo_status =
  rp_clean :: bool
  rp_ahead :: nat
  rp_behind :: nat
  rp_modified :: nat
  rp_untracked :: nat

definition CLEAN_STATUS :: repo_status where
  "CLEAN_STATUS = \<lparr>rp_clean = True, rp_ahead = 0, rp_behind = 0, rp_modified = 0, rp_untracked = 0\<rparr>"

definition status_lines :: "string \<Rightarrow> string list" where
  "status_lines output = filter (\<lambda>l. l \<noteq> []) (split_lf output)"

definition with_changes :: "string option \<Rightarrow> repo_status \<Rightarrow> repo_status" where
  "with_changes output s =
     (case output of None \<Rightarrow> s
      | Some text \<Rightarrow> s\<lparr>rp_modified := length (filter (\<lambda>l. \<not> startsWith l ''??'') (status_lines text)),
          rp_untracked := length (filter (\<lambda>l. startsWith l ''??'') (status_lines text)),
          rp_clean := (length (status_lines text) = 0)\<rparr>)"

definition with_upstream :: "string option \<Rightarrow> repo_status \<Rightarrow> repo_status" where
  "with_upstream output s =
     (case output of None \<Rightarrow> s
      | Some text \<Rightarrow> s\<lparr>rp_ahead := (case split_ws text of a # _ \<Rightarrow> number_or_zero a | [] \<Rightarrow> 0),
          rp_behind := (case split_ws text of _ # b # _ \<Rightarrow> number_or_zero b | _ \<Rightarrow> 0)\<rparr>)"

definition getRepoStatusAsync :: "board_env \<Rightarrow> string \<Rightarrow> repo_status board" where
  "getRepoStatusAsync env repoPath =
     andThen (supportsGitWorktreeOperations env repoPath) (\<lambda>supported.
     andThen (if supported then git_async env [''status'', ''--porcelain'', ''-uall''] repoPath else ret None) (\<lambda>output.
     andThen (git_async env [''rev-list'', ''--left-right'', ''--count'', ''HEAD...@'' @ ''{upstream}''] repoPath) (\<lambda>aheadBehind.
       ret (with_upstream aheadBehind (with_changes output CLEAN_STATUS)))))"

definition resolveLandedOnBase :: "board_env \<Rightarrow> string \<Rightarrow> string option \<Rightarrow> string option \<Rightarrow> bool option board" where
  "resolveLandedOnBase env repoPath baseRef baseBranch =
     (if \<not> truthy baseRef then ret None
      else andThen (isRefAncestorAsync env repoPath ''HEAD'' (the baseRef)) (\<lambda>landed.
        if landed then ret (Some True)
        else if truthy baseBranch \<and> baseRef \<noteq> baseBranch
        then andThen (hasGitRef env repoPath (the baseBranch)) (\<lambda>found.
          if found then andThen (isRefAncestorAsync env repoPath ''HEAD'' (the baseBranch)) (\<lambda>b. ret (Some b))
          else ret (Some False))
        else ret (Some False)))"

text \<open>The entries of a reflog: \<open>/^commit( \([^)]*\))?:/\<close> on what follows the first space.\<close>

definition COMMIT_ENTRY :: rx where
  "COMMIT_ENTRY = rx_seq [RxCls (one_of ''c''), RxCls (one_of ''o''), RxCls (one_of ''m''), RxCls (one_of ''m''),
     RxCls (one_of ''i''), RxCls (one_of ''t''),
     RxOpt (rx_seq [RxCls (one_of '' ''), RxCls (one_of ''(''), RxStar (not_in '')''), RxCls (one_of '')'')]),
     RxCls (one_of '':'')]"

fun authored_loop :: "board_env \<Rightarrow> string \<Rightarrow> string list \<Rightarrow> bool board" where
  "authored_loop env repoPath [] = ret False"
| "authored_loop env repoPath (line # rest) =
     (let sha = takeWhile (\<lambda>c. c \<noteq> CHR '' '') line; subject = drop (length sha + 1) line
      in if sha = [] \<or> sha = line then authored_loop env repoPath rest
         else if \<not> at_start COMMIT_ENTRY subject then authored_loop env repoPath rest
         else andThen (isRefAncestorAsync env repoPath sha ''HEAD'') (\<lambda>kept.
           if kept then ret True else authored_loop env repoPath rest))"

definition hasBranchAuthoredCommitsOnHeadAsync ::
  "board_env \<Rightarrow> string \<Rightarrow> string option \<Rightarrow> string option \<Rightarrow> bool board" where
  "hasBranchAuthoredCommitsOnHeadAsync env repoPath branch fallbackSha =
     (let normalizedBranch = map_option trim branch; fallback = map_option trim fallbackSha in
      andThen
        (if truthy normalizedBranch \<and> the normalizedBranch \<noteq> ''unknown'' \<and> the normalizedBranch \<noteq> ''HEAD''
         then andThen (git_async env [''reflog'', ''show'', ''--format=%H %gs'', ''refs/heads/'' @ the normalizedBranch] repoPath)
           (\<lambda>reflog. case reflog of None \<Rightarrow> ret False | Some text \<Rightarrow> authored_loop env repoPath (split_lf text))
         else ret False) (\<lambda>authored.
        if authored then ret True
        else if truthy fallback then isRefAncestorAsync env repoPath (the fallback) ''HEAD''
        else ret False))"

record repo_delivery =
  rd_branch :: string
  rd_baseBranch :: "string option"
  rd_baseRef :: "string option"
  rd_status :: repo_status
  rd_commitsSinceBase :: nat
  rd_hasCommitsSinceBase :: bool
  rd_hasUncommittedChanges :: bool
  rd_remoteUrl :: "string option"
  rd_isGitHubRepo :: bool
  rd_canCreatePullRequest :: bool
  rd_landedOnBase :: "bool option"

definition without_origin :: "string \<Rightarrow> string" where
  "without_origin ref = (if startsWith ref ''origin/'' then drop 7 ref else ref)"

definition getRepoDeliveryStatusAsync ::
  "board_env \<Rightarrow> string \<Rightarrow> string option \<Rightarrow> string option \<Rightarrow> string option \<Rightarrow> repo_delivery board" where
  "getRepoDeliveryStatusAsync env repoPath base sourceType sourceUrl =
     andThen (getCurrentBranchAsync env repoPath) (\<lambda>current.
     andThen (getRepoStatusAsync env repoPath) (\<lambda>status.
     andThen (getRemoteUrlAsync env repoPath) (\<lambda>remoteUrl.
     andThen (resolveBaseRef env repoPath base) (\<lambda>baseRef.
     andThen (if truthy baseRef
       then andThen (git_async env [''rev-list'', ''--count'', the baseRef @ ''..HEAD''] repoPath) (\<lambda>out.
         ret (case out of None \<Rightarrow> rp_ahead status | Some text \<Rightarrow> orDefault (parse_int text) 0))
       else ret (rp_ahead status)) (\<lambda>commitsSinceBase.
     (let branch = orDefault current ''unknown'';
          normalizedBaseBranch = orElse (map_option trim base) (map_option without_origin baseRef);
          hasUncommittedChanges = (\<not> rp_clean status \<or> rp_modified status > 0 \<or> rp_untracked status > 0);
          isGitHubRepo = (sourceType = Some ''github'' \<or> (truthy sourceUrl \<and> isGitHubUrl (the sourceUrl))
            \<or> (truthy remoteUrl \<and> isGitHubUrl (the remoteUrl)));
          hasCommitsSinceBase = (commitsSinceBase > 0);
          canCreatePullRequest = (isGitHubRepo \<and> hasCommitsSinceBase \<and> \<not> hasUncommittedChanges
            \<and> branch \<noteq> [] \<and> truthy normalizedBaseBranch \<and> Some branch \<noteq> normalizedBaseBranch)
      in andThen (resolveLandedOnBase env repoPath baseRef normalizedBaseBranch) (\<lambda>landedOnBase.
           ret \<lparr>rd_branch = branch, rd_baseBranch = normalizedBaseBranch, rd_baseRef = baseRef, rd_status = status,
             rd_commitsSinceBase = commitsSinceBase, rd_hasCommitsSinceBase = hasCommitsSinceBase,
             rd_hasUncommittedChanges = hasUncommittedChanges, rd_remoteUrl = remoteUrl,
             rd_isGitHubRepo = isGitHubRepo, rd_canCreatePullRequest = canCreatePullRequest,
             rd_landedOnBase = landedOnBase\<rparr>)))))))"

end
