(* ===== verification/TaskDelivery.thy ===== *)
theory TaskDelivery
  imports GitDelivery
begin

text \<open>
  The repository of a card, whether its work is delivered, the rules of a column about it and the frozen
  range of commits: src/src/core/kanban/task-worktree-truth.ts, task-delivery-readiness.ts and
  task-delivery-snapshot.ts.
\<close>

section \<open>The repository of a card\<close>

datatype truth_source = TsWorktree | TsRepoPath | TsCodebaseIds | TsDefaultCodebase

record worktree_truth =
  wt_source :: truth_source
  wt_worktreeId :: "string option"
  wt_worktree :: "worktree_row option"
  wt_codebase :: "codebase_row option"
  wt_repoPath :: string
  wt_cwd :: string
  wt_branch :: "string option"
  wt_baseBranch :: "string option"

definition worktree_truth_of :: "worktree_row \<Rightarrow> codebase_row option \<Rightarrow> string \<Rightarrow> worktree_truth" where
  "worktree_truth_of row codebase worktreeId =
     \<lparr>wt_source = TsWorktree, wt_worktreeId = Some worktreeId, wt_worktree = Some row, wt_codebase = codebase,
      wt_repoPath = wr_worktreePath row, wt_cwd = wr_worktreePath row, wt_branch = Some (wr_branch row),
      wt_baseBranch = orElse (Some (wr_baseBranch row)) (Option.bind codebase cw_branch)\<rparr>"

definition codebase_truth_of :: "truth_source \<Rightarrow> codebase_row \<Rightarrow> worktree_truth" where
  "codebase_truth_of source codebase =
     \<lparr>wt_source = source, wt_worktreeId = None, wt_worktree = None, wt_codebase = Some codebase,
      wt_repoPath = cw_repoPath codebase, wt_cwd = cw_repoPath codebase, wt_branch = cw_branch codebase,
      wt_baseBranch = cw_branch codebase\<rparr>"

definition has_repo :: "codebase_row option \<Rightarrow> bool" where
  "has_repo codebase = truthy (map_option cw_repoPath codebase)"

definition default_truth :: "board_env \<Rightarrow> string \<Rightarrow> worktree_truth option board" where
  "default_truth env workspaceId =
     andThen (codebase_default env workspaceId) (\<lambda>codebase.
       ret (if has_repo codebase then Some (codebase_truth_of TsDefaultCodebase (the codebase)) else None))"

definition codebase_truth :: "board_env \<Rightarrow> string \<Rightarrow> string list \<Rightarrow> worktree_truth option board" where
  "codebase_truth env workspaceId codebaseIds =
     (case codebaseIds of
        [] \<Rightarrow> default_truth env workspaceId
      | primary # _ \<Rightarrow>
          if primary = [] then default_truth env workspaceId
          else andThen (codebase_get env primary) (\<lambda>codebase.
            if has_repo codebase then ret (Some (codebase_truth_of TsCodebaseIds (the codebase)))
            else default_truth env workspaceId))"

definition repo_path_truth ::
  "board_env \<Rightarrow> string \<Rightarrow> string list \<Rightarrow> string option \<Rightarrow> worktree_truth option board" where
  "repo_path_truth env workspaceId codebaseIds preferredRepoPath =
     (let preferred = map_option trim preferredRepoPath in
      if \<not> truthy preferred then codebase_truth env workspaceId codebaseIds
      else andThen (codebase_by_path env workspaceId (the preferred)) (\<lambda>codebase.
        if has_repo codebase then ret (Some (codebase_truth_of TsRepoPath (the codebase)))
        else codebase_truth env workspaceId codebaseIds))"

definition resolveTaskWorktreeTruth :: "board_env \<Rightarrow> task \<Rightarrow> string option \<Rightarrow> worktree_truth option board" where
  "resolveTaskWorktreeTruth env t preferredRepoPath =
     (let others = repo_path_truth env (tk_workspaceId t) (tk_codebaseIds t) preferredRepoPath in
      if \<not> truthy (tk_worktreeId t) then others
      else andThen (worktree_get env (the (tk_worktreeId t))) (\<lambda>row.
        if truthy (map_option wr_worktreePath row)
        then andThen (codebase_get env (wr_codebaseId (the row))) (\<lambda>codebase.
          ret (Some (worktree_truth_of (the row) codebase (the (tk_worktreeId t)))))
        else others))"

section \<open>Readiness\<close>

record delivery_readiness =
  dl_checked :: bool
  dl_repoPath :: "string option"
  dl_branch :: "string option"
  dl_baseBranch :: "string option"
  dl_baseRef :: "string option"
  dl_modified :: nat
  dl_untracked :: nat
  dl_ahead :: nat
  dl_behind :: nat
  dl_commitsSinceBase :: nat
  dl_hasCommitsSinceBase :: bool
  dl_hasUncommittedChanges :: bool
  dl_isGitHubRepo :: bool
  dl_canCreatePullRequest :: bool
  dl_landedOnBase :: "bool option"
  dl_hasLandedOwnCommits :: bool
  dl_resolvedAsDelivered :: "bool option"
  dl_reason :: "string option"

definition NO_REPOSITORY :: string where
  "NO_REPOSITORY = ''Task has no linked repository or worktree.''"

definition unchecked_delivery :: "string option \<Rightarrow> string \<Rightarrow> delivery_readiness" where
  "unchecked_delivery repoPath reason =
     \<lparr>dl_checked = False, dl_repoPath = repoPath, dl_branch = None, dl_baseBranch = None, dl_baseRef = None,
      dl_modified = 0, dl_untracked = 0, dl_ahead = 0, dl_behind = 0, dl_commitsSinceBase = 0,
      dl_hasCommitsSinceBase = False, dl_hasUncommittedChanges = False, dl_isGitHubRepo = False,
      dl_canCreatePullRequest = False, dl_landedOnBase = None, dl_hasLandedOwnCommits = False,
      dl_resolvedAsDelivered = None, dl_reason = Some reason\<rparr>"

definition mapReadiness :: "string \<Rightarrow> repo_delivery \<Rightarrow> delivery_readiness" where
  "mapReadiness repoPath d =
     \<lparr>dl_checked = True, dl_repoPath = Some repoPath, dl_branch = Some (rd_branch d),
      dl_baseBranch = rd_baseBranch d, dl_baseRef = rd_baseRef d,
      dl_modified = rp_modified (rd_status d), dl_untracked = rp_untracked (rd_status d),
      dl_ahead = rp_ahead (rd_status d), dl_behind = rp_behind (rd_status d),
      dl_commitsSinceBase = rd_commitsSinceBase d, dl_hasCommitsSinceBase = rd_hasCommitsSinceBase d,
      dl_hasUncommittedChanges = rd_hasUncommittedChanges d, dl_isGitHubRepo = rd_isGitHubRepo d,
      dl_canCreatePullRequest = rd_canCreatePullRequest d, dl_landedOnBase = rd_landedOnBase d,
      dl_hasLandedOwnCommits = False, dl_resolvedAsDelivered = None, dl_reason = None\<rparr>"

definition resolved_as_delivered :: "board_env \<Rightarrow> task \<Rightarrow> bool" where
  "resolved_as_delivered env t =
     ((case tk_attentionResolution t of None \<Rightarrow> False | Some r \<Rightarrow> ar_category r \<in> DONE_WITHOUT_OWN_COMMITS_CATEGORIES)
      \<and> isAttentionResolutionInEffect (be_host env) (tk_attentionResolution t) (tk_columnId t) (tk_laneSessions t))"

definition checked_readiness :: "board_env \<Rightarrow> task \<Rightarrow> worktree_truth \<Rightarrow> delivery_readiness board" where
  "checked_readiness env t truth =
     andThen (getRepoDeliveryStatusAsync env (wt_repoPath truth) (wt_baseBranch truth)
         (Option.bind (wt_codebase truth) cw_sourceType) (Option.bind (wt_codebase truth) cw_sourceUrl)) (\<lambda>d.
       let readiness = (mapReadiness (wt_repoPath truth) d)
             \<lparr>dl_resolvedAsDelivered := Some (resolved_as_delivered env t)\<rparr>
       in if dl_landedOnBase readiness = Some True \<and> \<not> dl_hasCommitsSinceBase readiness
          then andThen (hasBranchAuthoredCommitsOnHeadAsync env (wt_repoPath truth) (dl_branch readiness)
              (map_option dv_headSha (tk_deliverySnapshot t))) (\<lambda>own.
            ret (readiness\<lparr>dl_hasLandedOwnCommits := own\<rparr>))
          else ret readiness)"

definition buildTaskDeliveryReadiness :: "board_env \<Rightarrow> task \<Rightarrow> delivery_readiness board" where
  "buildTaskDeliveryReadiness env t =
     andThen (resolveTaskWorktreeTruth env t None) (\<lambda>found.
       case found of
         None \<Rightarrow> ret (unchecked_delivery None NO_REPOSITORY)
       | Some truth \<Rightarrow>
           andThen (isGitRepositoryAsync env (wt_repoPath truth)) (\<lambda>isRepo.
             if \<not> isRepo
             then ret (unchecked_delivery (Some (wt_repoPath truth)) ''Linked repository is missing or is not a git repository.'')
             else andThen (if wt_source truth \<noteq> TsWorktree then isBareGitRepositoryAsync env (wt_repoPath truth)
                           else ret False) (\<lambda>bare.
               if bare
               then ret (unchecked_delivery (Some (wt_repoPath truth))
                 ''Linked repository is a bare git repo. Attach a task worktree before checking delivery readiness.'')
               else checked_readiness env t truth)))"

section \<open>The rules of a column\<close>

definition formatBaseReference :: "delivery_readiness \<Rightarrow> string" where
  "formatBaseReference r = orDefault (nullish (dl_baseRef r) (dl_baseBranch r)) ''the base branch''"

definition rule_set :: "bool option \<Rightarrow> bool" where
  "rule_set v = (v = Some True)"

definition hasDeliveryRules :: "delivery_rules option \<Rightarrow> bool" where
  "hasDeliveryRules rules =
     (case rules of None \<Rightarrow> False
      | Some r \<Rightarrow> rule_set (dr_requireCommittedChanges r) \<or> rule_set (dr_requireCleanWorktree r)
                  \<or> rule_set (dr_requirePullRequestReady r))"

definition landed_own_commits :: "delivery_readiness \<Rightarrow> string option \<Rightarrow> bool" where
  "landed_own_commits r targetStage =
     ((dl_landedOnBase r = Some True \<and> dl_hasLandedOwnCommits r)
      \<or> (targetStage = Some ''done'' \<and> dl_resolvedAsDelivered r = Some True))"

definition buildTaskDeliveryTransitionErrorFromRules ::
  "delivery_readiness \<Rightarrow> string \<Rightarrow> delivery_rules option \<Rightarrow> string option \<Rightarrow> string option" where
  "buildTaskDeliveryTransitionErrorFromRules readiness targetColumnName rules targetStage =
     (if \<not> hasDeliveryRules rules then None
      else let r = the rules; head = ''Cannot move task to '' @ quoted targetColumnName @ '': '';
               branch = quoted (orDefault (dl_branch readiness) ''unknown'')
        in if \<not> dl_checked readiness
           then (if \<not> truthy (dl_reason readiness) \<or> dl_reason readiness = Some NO_REPOSITORY then None
                 else Some (head @ the (dl_reason readiness)))
           else if rule_set (dr_requireCommittedChanges r) \<and> \<not> dl_hasCommitsSinceBase readiness
                   \<and> \<not> landed_own_commits readiness targetStage
           then Some (head @ ''no committed changes detected on branch '' @ branch @ '' relative to ''
                  @ quoted (formatBaseReference readiness) @ ''. Commit your implementation before requesting review.'')
           else if rule_set (dr_requireCleanWorktree r) \<and> dl_hasUncommittedChanges readiness
           then Some (head @ ''branch '' @ branch @ '' still has uncommitted changes (''
                  @ show_nat (dl_modified readiness) @ '' modified, '' @ show_nat (dl_untracked readiness)
                  @ '' untracked). Commit the current card'' @ [CHR 0x27]
                  @ ''s work, then stash or restore unrelated leftovers before ''
                  @ (if rule_set (dr_requirePullRequestReady r) then ''marking the task done'' else ''requesting review'')
                  @ ''.'')
           else if rule_set (dr_requirePullRequestReady r) \<and> dl_isGitHubRepo readiness
                   \<and> \<not> dl_canCreatePullRequest readiness \<and> \<not> landed_own_commits readiness targetStage
           then Some (head @ ''GitHub repo is not PR-ready yet. Use a feature branch instead of ''
                  @ quoted (orDefault (dl_baseBranch readiness) ''the base branch'')
                  @ '' so this task can open a pull request cleanly.'')
           else None)"

definition built_in_rules :: "string \<Rightarrow> delivery_rules option" where
  "built_in_rules targetColumnId =
     (if targetColumnId = ''review''
      then Some \<lparr>dr_requireCommittedChanges = Some True, dr_requireCleanWorktree = Some True, dr_requirePullRequestReady = None\<rparr>
      else if targetColumnId = ''done''
      then Some \<lparr>dr_requireCommittedChanges = Some True, dr_requireCleanWorktree = Some True, dr_requirePullRequestReady = Some True\<rparr>
      else None)"

definition buildTaskDeliveryTransitionError :: "delivery_readiness \<Rightarrow> string \<Rightarrow> string \<Rightarrow> string option" where
  "buildTaskDeliveryTransitionError readiness targetColumnName targetColumnId =
     buildTaskDeliveryTransitionErrorFromRules readiness targetColumnName (built_in_rules targetColumnId)
       (Some targetColumnId)"

section \<open>The frozen range of commits\<close>

definition shouldCaptureTaskDeliverySnapshotForColumn :: "string option \<Rightarrow> bool" where
  "shouldCaptureTaskDeliverySnapshotForColumn columnId = (columnId = Some ''review'' \<or> columnId = Some ''done'')"

definition getRepoRefSha :: "board_env \<Rightarrow> string \<Rightarrow> string \<Rightarrow> string option board" where
  "getRepoRefSha env repoPath ref = git_sync env [''rev-parse'', ref] repoPath"

definition numstat_number :: "string \<Rightarrow> int" where
  "numstat_number raw = (if raw = ''-'' then 0 else int (orDefault (parse_int raw) 0))"

definition numstat_line :: "string \<Rightarrow> int \<times> int" where
  "numstat_line line =
     (case split_ws line of
        a # b # _ \<Rightarrow> (numstat_number a, numstat_number b)
      | [a] \<Rightarrow> (numstat_number a, 0) | [] \<Rightarrow> (0, 0))"

definition trimmed_lines :: "string \<Rightarrow> string list" where
  "trimmed_lines output = filter (\<lambda>l. l \<noteq> []) (map trim (split_lf output))"

definition countNumstatTotals :: "string \<Rightarrow> int \<times> int" where
  "countNumstatTotals output =
     foldl (\<lambda>(additions, deletions) line. (additions + fst (numstat_line line), deletions + snd (numstat_line line)))
       (0, 0) (trimmed_lines output)"

fun split_char :: "char \<Rightarrow> string \<Rightarrow> string list" where
  "split_char d [] = [[]]"
| "split_char d (c # s) = (if c = d then [] # split_char d s
     else (case split_char d s of [] \<Rightarrow> [[c]] | l # ls \<Rightarrow> (c # l) # ls))"

definition commit_of :: "board_env \<Rightarrow> string \<Rightarrow> string list \<Rightarrow> delivery_commit list board" where
  "commit_of env repoPath parts =
     (case parts of
        sha # shortSha # summary # authorName # authoredAt # _ \<Rightarrow>
          if [] \<in> {sha, shortSha, summary, authorName, authoredAt} then ret []
          else andThen (git_sync env [''--no-pager'', ''show'', ''--format='', ''--numstat'', ''--find-renames'',
                 ''--find-copies'', sha] repoPath) (\<lambda>numstat.
            let counts = countNumstatTotals (orDefault numstat [])
            in ret [\<lparr>dc_sha = sha, dc_shortSha = shortSha, dc_summary = summary, dc_authorName = authorName,
                dc_authoredAt = authoredAt, dc_additions = fst counts, dc_deletions = snd counts\<rparr>])
      | _ \<Rightarrow> ret [])"

fun commits_loop :: "board_env \<Rightarrow> string \<Rightarrow> string list \<Rightarrow> delivery_commit list board" where
  "commits_loop env repoPath [] = ret []"
| "commits_loop env repoPath (line # rest) =
     andThen (commit_of env repoPath (split_char (CHR 0x1F) line)) (\<lambda>c.
       andThen (commits_loop env repoPath rest) (\<lambda>cs. ret (c @ cs)))"

definition getRepoCommitChanges :: "board_env \<Rightarrow> string \<Rightarrow> string \<Rightarrow> nat \<Rightarrow> delivery_commit list board" where
  "getRepoCommitChanges env repoPath baseRef maxCount =
     andThen (git_sync env [''log'', ''--format=%H%x1f%h%x1f%s%x1f%an%x1f%aI'', baseRef @ ''..HEAD'', ''-n'',
         show_nat (max 1 maxCount)] repoPath) (\<lambda>output.
       if \<not> truthy output then ret [] else commits_loop env repoPath (trimmed_lines (the output)))"

definition captureTaskDeliverySnapshot ::
  "board_env \<Rightarrow> task \<Rightarrow> delivery_readiness \<Rightarrow> delivery_source \<Rightarrow> delivery_snapshot option board" where
  "captureTaskDeliverySnapshot env t readiness source =
     (let keep = ret (tk_deliverySnapshot t) in
      if \<not> dl_checked readiness \<or> \<not> truthy (dl_repoPath readiness) \<or> \<not> truthy (dl_baseRef readiness)
         \<or> dl_commitsSinceBase readiness = 0 then keep
      else let repoPath = the (dl_repoPath readiness); baseRef = the (dl_baseRef readiness) in
        andThen (getRepoRefSha env repoPath baseRef) (\<lambda>baseSha.
        andThen (getRepoRefSha env repoPath ''HEAD'') (\<lambda>headSha.
          if \<not> truthy baseSha \<or> \<not> truthy headSha \<or> baseSha = headSha then keep
          else andThen (getRepoCommitChanges env repoPath baseRef (max (dl_commitsSinceBase readiness) 1)) (\<lambda>commits.
            if length commits = 0 then keep
            else andThen (gets (biso env)) (\<lambda>nowIso.
              ret (Some \<lparr>dv_capturedAt = nowIso, dv_repoPath = repoPath, dv_worktreeId = tk_worktreeId t,
                dv_worktreePath = None, dv_branch = dl_branch readiness, dv_baseBranch = dl_baseBranch readiness,
                dv_baseRef = baseRef, dv_baseSha = the baseSha, dv_headSha = the headSha, dv_commits = commits,
                dv_source = source, dv_landedAt = None\<rparr>))))))"

definition markTaskDeliveryLanded ::
  "string \<Rightarrow> delivery_snapshot option \<Rightarrow> bool option \<Rightarrow> delivery_snapshot option" where
  "markTaskDeliveryLanded landedAt snapshot landedOnBase =
     (case snapshot of None \<Rightarrow> None
      | Some s \<Rightarrow> if truthy (dv_landedAt s) \<or> landedOnBase \<noteq> Some True \<or> dv_headSha s = [] then Some s
          else Some (s\<lparr>dv_landedAt := Some landedAt\<rparr>))"

end
