(* ===== verification/CardMoves.thy ===== *)
theory CardMoves
  imports TaskDelivery LaneHistory AgentModel RetryPolicy
begin

text \<open>
  Moving and updating a card: \<open>moveCard\<close>, \<open>updateCard\<close> and the notes they leave, in
  src/src/core/tools/kanban-tools.ts, with the completion reports of
  src/src/core/kanban/completion-report.ts and task-comment-log.ts. A move passes the guard of the lane,
  the artifacts, the required fields, the contract, the delivery rules and the gates of the target column
  in this order; the card it works on was read at the start.
\<close>

section \<open>Notes\<close>

definition verdict_text :: "verification_verdict \<Rightarrow> string" where
  "verdict_text v = (case v of VV_APPROVED \<Rightarrow> ''APPROVED'' | VV_NOT_APPROVED \<Rightarrow> ''NOT_APPROVED'' | VV_BLOCKED \<Rightarrow> ''BLOCKED'')"

text \<open>
  The title of a completion report. The Chinese titles and the full-width bracket of the pattern cannot
  match: they have characters that no text of this development contains.
\<close>

definition COMPLETION_REPORT_TITLE :: rx where
  "COMPLETION_REPORT_TITLE = rx_seq
     [RxStar is_ws,
      RxOpt (RxAlt (rx_seq [RxCls (one_of ''#''), rx_upto 5 (RxCls (one_of ''#'')), RxStar is_ws])
                   (rx_seq [RxCls (one_of ''[''), RxStar is_ws])),
      rx_lit ''completion'', rx_plus is_ws, RxAlt (rx_lit ''summary'') (rx_lit ''report'')]"

definition isCompletionReportNote :: "string \<Rightarrow> bool" where
  "isCompletionReportNote body =
     (if body = [] then False
      else at_start COMPLETION_REPORT_TITLE
        (orDefault (List.find (\<lambda>line. length (trim line) > 0) (split_lf body)) []))"

definition upsertTaskCommentEntry ::
  "string \<Rightarrow> string \<Rightarrow> task_comment list \<Rightarrow> string \<Rightarrow> comment_metadata \<Rightarrow> task_comment list" where
  "upsertTaskCommentEntry newId nowIso entries nextText metadata =
     (let trimmedNext = trim nextText in
      if trimmedNext = [] \<or> \<not> isCompletionReportNote trimmedNext
      then appendTaskCommentEntry newId nowIso (Some entries) nextText (Some metadata)
      else (case last_index (\<lambda>c. isCompletionReportNote (tc_body c)) entries of
        None \<Rightarrow> appendTaskCommentEntry newId nowIso (Some entries) nextText (Some metadata)
      | Some i \<Rightarrow> entries[i := (entries ! i)\<lparr>tc_body := trimmedNext, tc_createdAt := nowIso,
          tc_agentId := cm_agentId metadata, tc_sessionId := cm_sessionId metadata\<rparr>]))"

definition note_metadata :: "string option \<Rightarrow> comment_metadata" where
  "note_metadata sessionId = \<lparr>cm_agentId = None, cm_sessionId = sessionId, cm_source = Some None\<rparr>"

text \<open>An identifier that is drawn here for an entry that is then not added makes no difference.\<close>

definition append_note :: "board_env \<Rightarrow> task \<Rightarrow> string \<Rightarrow> comment_metadata \<Rightarrow> task board" where
  "append_note env t body metadata =
     andThen (fresh_id env) (\<lambda>noteId. andThen (gets (biso env)) (\<lambda>nowIso.
       ret (t\<lparr>tk_comments := appendTaskCommentEntry noteId nowIso (Some (tk_comments t)) body (Some metadata)\<rparr>)))"

definition save_noted :: "board_env \<Rightarrow> task \<Rightarrow> unit board" where
  "save_noted env t =
     andThen (gets (bnow env)) (\<lambda>now.
       next_do (card_save env (t\<lparr>tk_updatedAt := now\<rparr>))
         (notifyWorkspaceChanged (tk_workspaceId t) NeTask NaUpdated (Some (tk_id t))))"

definition block_note :: "string \<Rightarrow> string" where
  "block_note message = trim (''Move blocked: '' @ message)"

definition recordTaskMoveBlockComment :: "board_env \<Rightarrow> task \<Rightarrow> string \<Rightarrow> string option \<Rightarrow> unit board" where
  "recordTaskMoveBlockComment env t message sessionId =
     (let note = block_note message;
          lastComment = (if tk_comments t = [] then None else Some (trim (tc_body (last (tk_comments t)))))
      in if lastComment = Some note then ret ()
         else andThen (append_note env (t\<lparr>tk_comment := Some (appendTaskComment (tk_comment t) note)\<rparr>) note
                (note_metadata sessionId)) (save_noted env))"

text \<open>What a failed contract gate leaves on the card, behind the note.\<close>

definition contract_loop_breaker :: "string \<Rightarrow> int \<Rightarrow> task \<Rightarrow> task" where
  "contract_loop_breaker targetColumnName threshold t =
     (let failureCount = countContractGateFailures (tk_comments t);
          nextLabels = uniq (tk_labels t @ [CONTRACT_GATE_BLOCKED_LABEL])
      in if int failureCount < threshold then t
         else t\<lparr>tk_lastSyncError := Some (buildContractLoopBreakerMessage targetColumnName failureCount threshold),
                tk_labels := (if length nextLabels \<noteq> length (tk_labels t) then nextLabels else tk_labels t)\<rparr>)"

definition recordTaskContractGateFailure ::
  "board_env \<Rightarrow> task \<Rightarrow> string \<Rightarrow> string \<Rightarrow> int \<Rightarrow> string option \<Rightarrow> unit board" where
  "recordTaskContractGateFailure env t message targetColumnName threshold sessionId =
     (let note = buildContractGateNote message in
      andThen (append_note env (t\<lparr>tk_comment := Some (appendTaskComment (tk_comment t) note)\<rparr>) note
          (note_metadata sessionId)) (\<lambda>noted.
        save_noted env (contract_loop_breaker targetColumnName threshold noted)))"

section \<open>Moving a card\<close>

record move_params =
  mv_cardId :: string
  mv_targetColumnId :: string
  mv_position :: "int option"

definition num_json :: "int \<Rightarrow> json" where
  "num_json n = JNum (Fin (of_int n))"

definition taskToMoveAck :: "task \<Rightarrow> json" where
  "taskToMoveAck t = JObj
     [(''id'', JStr (tk_id t)), (''columnId'', JStr (orDefault (tk_columnId t) ''backlog'')),
      (''position'', num_json (tk_position t)), (''status'', JStr (task_status_str (tk_status t)))]"

definition from_column :: "task \<Rightarrow> string" where
  "from_column t = orDefault (tk_columnId t) ''backlog''"

text \<open>The guard of the lane: the error that refuses the move.\<close>

definition lane_block :: "task \<Rightarrow> kanban_column list \<Rightarrow> string \<Rightarrow> string option" where
  "lane_block t columns targetColumnId =
     (if from_column t \<noteq> targetColumnId
         \<and> \<not> isExemptFromRemainingLaneStepsGuard (Some (from_column t)) targetColumnId
               (map_option verdict_text (tk_verificationVerdict t)) columns
      then resolveRemainingLaneStepsMoveBlock t columns else None)"

definition required_artifacts :: "kanban_column \<Rightarrow> required_artifact list" where
  "required_artifacts column = orDefault (Option.bind (kc_automation column) ca_requiredArtifacts) []"

fun missing_artifacts :: "board_env \<Rightarrow> string \<Rightarrow> required_artifact list \<Rightarrow> string list board" where
  "missing_artifacts env cardId [] = ret []"
| "missing_artifacts env cardId (a # rest) =
     andThen (artifacts_of env cardId (artifact_of a)) (\<lambda>n.
       andThen (missing_artifacts env cardId rest) (\<lambda>missing.
         ret (if n = 0 then artifact_str (artifact_of a) # missing else missing)))"

definition artifacts_error :: "string \<Rightarrow> string list \<Rightarrow> string" where
  "artifacts_error columnName missing =
     ''Cannot move card to '' @ quoted columnName @ '': missing required artifacts: '' @ js_join '', '' missing
     @ ''. Please provide these artifacts before moving the card.''"

definition fields_error :: "yaml_load \<Rightarrow> task \<Rightarrow> kanban_column list \<Rightarrow> kanban_column \<Rightarrow> string option" where
  "fields_error yamlLoad t columns targetColumn =
     (let required = resolveTargetRequiredTaskFields columns (Some (kc_id targetColumn));
          readiness = validateTaskReadiness yamlLoad t required
      in if length required > 0 \<and> \<not> ry_ready readiness
         then Some (''Cannot move card to '' @ quoted (kc_name targetColumn) @ '': missing required task fields: ''
                @ js_join '', '' (map formatRequiredTaskFieldLabel (ry_missing readiness))
                @ ''. Please complete this story definition before moving the card.'')
         else None)"

definition column_contract :: "kanban_column \<Rightarrow> contract_rules option" where
  "column_contract column = Option.bind (kc_automation column) ca_contractRules"

definition column_delivery :: "kanban_column \<Rightarrow> delivery_rules option" where
  "column_delivery column = Option.bind (kc_automation column) ca_deliveryRules"

definition resolution_after :: "task \<Rightarrow> string \<Rightarrow> attention_resolution option" where
  "resolution_after t targetColumnId =
     attentionResolutionAfterMove (tk_attentionResolution t) (Some (from_column t)) (Some targetColumnId)"

definition keeps_lane_session :: "task \<Rightarrow> string \<Rightarrow> bool \<Rightarrow> bool" where
  "keeps_lane_session t targetColumnId laneRerun =
     (\<not> laneRerun \<and> from_column t = targetColumnId
      \<and> Option.bind (getTaskLaneSession t (tk_triggerSessionId t)) ls_columnId = Some targetColumnId)"

text \<open>The end of a move: the session, the column, the store, the notice and the event.\<close>

definition finalize_session :: "board_env \<Rightarrow> task \<Rightarrow> task board" where
  "finalize_session env t =
     andThen (gets (biso env)) (\<lambda>nowIso.
       case finalizeActiveTaskSession (be_host env) nowIso t LaneCompleted of
         (t', Inl e) \<Rightarrow> throw (CardThrew e) | (t', Inr _) \<Rightarrow> ret t')"

definition put_in_column ::
  "board_env \<Rightarrow> move_params \<Rightarrow> task \<Rightarrow> attention_resolution option \<Rightarrow> kanban_column list \<Rightarrow> string \<Rightarrow> kanban_column
     \<Rightarrow> bool \<Rightarrow> tool_result board" where
  "put_in_column env p t resolution columns fromId targetColumn laneRerun =
     andThen (gets (bnow env)) (\<lambda>now.
       (let target = mv_targetColumnId p;
            moved = t\<lparr>tk_attentionResolution := resolution, tk_columnId := Some target,
              tk_status := columnIdToTaskStatus (Some target),
              tk_position := orDefault (mv_position p) (tk_position t), tk_updatedAt := now\<rparr>
        in next_do (card_save env moved)
          (next_do (notifyWorkspaceChanged (tk_workspaceId t) NeTask
              (if fromId \<noteq> target then NaMoved else NaUpdated) (Some (tk_id t)))
          (next_do (when_do (be_hasBus env \<and> (fromId \<noteq> target \<or> laneRerun))
              (emit_transition env \<lparr>td_cardId = tk_id t, td_cardTitle = tk_title t,
                 td_boardId = orDefault (tk_boardId t) [], td_workspaceId = tk_workspaceId t,
                 td_fromColumnId = fromId, td_toColumnId = target,
                 td_fromColumnName = map_option kc_name (List.find (\<lambda>c. kc_id c = fromId) columns),
                 td_toColumnName = Some (kc_name targetColumn),
                 td_laneRerun = (if laneRerun then Some True else None)\<rparr>))
            (ret (successResult (taskToMoveAck moved)))))))"

definition finish_move ::
  "board_env \<Rightarrow> move_params \<Rightarrow> task \<Rightarrow> attention_resolution option \<Rightarrow> kanban_column list \<Rightarrow> string \<Rightarrow> kanban_column
     \<Rightarrow> bool \<Rightarrow> tool_result board" where
  "finish_move env p t resolution columns fromId targetColumn laneRerun =
     andThen (if keeps_lane_session t (mv_targetColumnId p) laneRerun then ret t else finalize_session env t) (\<lambda>t'.
       put_in_column env p t' resolution columns fromId targetColumn laneRerun)"

definition buildReviewLaneRerunLimitMessage :: "string \<Rightarrow> nat \<Rightarrow> string" where
  "buildReviewLaneRerunLimitMessage columnName rerunCount =
     ''Cannot rerun '' @ quoted columnName @ '': the lane already reran '' @ show_nat rerunCount
     @ '' times this round (limit '' @ show_nat REVIEW_LANE_RERUN_LIMIT
     @ ''). Write a failure report and move the card to '' @ quoted ''blocked'' @ '' instead.''"

text \<open>The rerun of the review lane, or a plain move.\<close>

definition rerun_or_move ::
  "board_env \<Rightarrow> move_params \<Rightarrow> task \<Rightarrow> attention_resolution option \<Rightarrow> kanban_column list \<Rightarrow> string \<Rightarrow> kanban_column
     \<Rightarrow> tool_result board" where
  "rerun_or_move env p t resolution columns fromId targetColumn =
     (if \<not> isReviewLaneRerunMove fromId targetColumn
      then finish_move env p t resolution columns fromId targetColumn False
      else let rerunCount = countLaneRerunRequests t (kc_id targetColumn) in
        if rerunCount \<ge> REVIEW_LANE_RERUN_LIMIT
        then let limitMessage = buildReviewLaneRerunLimitMessage (kc_name targetColumn) rerunCount
          in next_do (recordTaskMoveBlockComment env (t\<lparr>tk_lastSyncError := Some limitMessage\<rparr>) limitMessage
                 (tk_triggerSessionId t))
               (ret (errorResult limitMessage))
        else andThen (gets (biso env)) (\<lambda>nowIso.
          finish_move env p ((markLaneRerunRequest nowIso t (kc_id targetColumn))\<lparr>tk_verificationVerdict := None\<rparr>)
            resolution columns fromId targetColumn True))"

text \<open>The frozen range of commits, when the card enters \<open>review\<close> or \<open>done\<close>.\<close>

definition with_snapshot ::
  "board_env \<Rightarrow> move_params \<Rightarrow> string \<Rightarrow> task \<Rightarrow> delivery_readiness option \<Rightarrow> task board" where
  "with_snapshot env p fromId t readiness =
     (case readiness of None \<Rightarrow> ret t
      | Some r \<Rightarrow>
          if fromId \<noteq> mv_targetColumnId p \<and> shouldCaptureTaskDeliverySnapshotForColumn (Some (mv_targetColumnId p))
          then andThen (captureTaskDeliverySnapshot env t r
              (if mv_targetColumnId p = ''done'' then DsDoneTransition else DsReviewTransition)) (\<lambda>snapshot.
            ret (t\<lparr>tk_deliverySnapshot := snapshot\<rparr>))
          else ret t)"

text \<open>The gates of the target column; a warning is a note on the card.\<close>

definition gated_move ::
  "board_env \<Rightarrow> move_params \<Rightarrow> task \<Rightarrow> kanban_column list \<Rightarrow> kanban_column \<Rightarrow> delivery_readiness option
     \<Rightarrow> tool_result board" where
  "gated_move env p t columns targetColumn readiness =
     (let gateResult = evaluateKanbanTransitionGates t (Some targetColumn);
          resolution = resolution_after t (mv_targetColumnId p); fromId = from_column t
      in if \<not> gr_passed gateResult \<and> gr_blocking gateResult
         then ret (errorResult (formatKanbanTransitionGateMessage gateResult (kc_name targetColumn)))
         else andThen (if gr_passed gateResult then ret t
             else append_note env t (formatKanbanTransitionGateWarning gateResult (kc_name targetColumn))
               \<lparr>cm_agentId = None, cm_sessionId = tk_triggerSessionId t, cm_source = Some (Some UpdateCard)\<rparr>) (\<lambda>warned.
           andThen (with_snapshot env p fromId warned readiness) (\<lambda>t'.
             rerun_or_move env p t' resolution columns fromId targetColumn)))"

definition delivered_move ::
  "board_env \<Rightarrow> move_params \<Rightarrow> task \<Rightarrow> kanban_column list \<Rightarrow> kanban_column \<Rightarrow> tool_result board" where
  "delivered_move env p t columns targetColumn =
     (if \<not> be_compatible env then gated_move env p t columns targetColumn None
      else andThen (buildTaskDeliveryReadiness env
          (t\<lparr>tk_attentionResolution := resolution_after t (mv_targetColumnId p)\<rparr>)) (\<lambda>readiness.
        case buildTaskDeliveryTransitionErrorFromRules readiness (kc_name targetColumn)
               (column_delivery targetColumn) (Some (stage_str (kc_stage targetColumn))) of
          Some deliveryError \<Rightarrow>
            next_do (recordTaskMoveBlockComment env t deliveryError (tk_triggerSessionId t))
              (ret (errorResult deliveryError))
        | None \<Rightarrow> gated_move env p t columns targetColumn (Some readiness)))"

definition contracted_move ::
  "board_env \<Rightarrow> move_params \<Rightarrow> task \<Rightarrow> kanban_column list \<Rightarrow> kanban_column \<Rightarrow> tool_result board" where
  "contracted_move env p t columns targetColumn =
     (let rules = column_contract targetColumn;
          readiness = buildTaskContractReadiness (be_yaml env) (tk_objective t) (tk_comments t) rules
      in case buildTaskContractTransitionErrorFromRules readiness (kc_name targetColumn) rules of
           Some contractError \<Rightarrow>
             next_do (recordTaskContractGateFailure env t contractError (kc_name targetColumn)
                 (tr_loopBreakerThreshold readiness) (tk_triggerSessionId t))
               (ret (errorResult contractError))
         | None \<Rightarrow> delivered_move env p t columns targetColumn)"

definition checked_move ::
  "board_env \<Rightarrow> move_params \<Rightarrow> task \<Rightarrow> kanban_column list \<Rightarrow> kanban_column \<Rightarrow> tool_result board" where
  "checked_move env p t columns targetColumn =
     (case lane_block t columns (mv_targetColumnId p) of
        Some message \<Rightarrow> ret (errorResult message)
      | None \<Rightarrow>
          andThen (if be_hasArtifacts env then missing_artifacts env (tk_id t) (required_artifacts targetColumn)
                   else ret []) (\<lambda>missing.
            if length missing > 0 then ret (errorResult (artifacts_error (kc_name targetColumn) missing))
            else (case fields_error (be_yaml env) t columns targetColumn of
                Some message \<Rightarrow> ret (errorResult message)
              | None \<Rightarrow> contracted_move env p t columns targetColumn)))"

definition moveCard :: "board_env \<Rightarrow> move_params \<Rightarrow> tool_result board" where
  "moveCard env p =
     andThen (card_get env (mv_cardId p)) (\<lambda>found.
       case found of
         None \<Rightarrow> ret (errorResult (''Card not found: '' @ mv_cardId p))
       | Some t \<Rightarrow>
           if \<not> truthy (tk_boardId t)
           then ret (errorResult (''Card '' @ mv_cardId p @ '' is not associated with a board''))
           else andThen (board_get env (the (tk_boardId t))) (\<lambda>board.
             case board of
               None \<Rightarrow> ret (errorResult (''Board not found: '' @ the (tk_boardId t)))
             | Some b \<Rightarrow>
                 (case List.find (\<lambda>c. kc_id c = mv_targetColumnId p) (kb_columns b) of
                    None \<Rightarrow> ret (errorResult (''Column not found: '' @ mv_targetColumnId p))
                  | Some targetColumn \<Rightarrow> checked_move env p t (kb_columns b) targetColumn)))"

section \<open>Updating a card\<close>

record update_params =
  uc_cardId :: string
  uc_title :: "string option"
  uc_description :: "string option"
  uc_comment :: "string option"
  uc_agentId :: "string option"
  uc_sessionId :: "string option"
  uc_priority :: "task_priority option"
  uc_labels :: "string list option"

definition updated_fields :: "update_params \<Rightarrow> string list" where
  "updated_fields p =
     (if uc_title p \<noteq> None then [''title''] else []) @ (if uc_description p \<noteq> None then [''description''] else [])
     @ (if uc_comment p \<noteq> None then [''comment''] else []) @ (if uc_priority p \<noteq> None then [''priority''] else [])
     @ (if uc_labels p \<noteq> None then [''labels''] else [])"

definition taskToUpdateAck :: "board_env \<Rightarrow> task \<Rightarrow> string list \<Rightarrow> json" where
  "taskToUpdateAck env t updatedFields = JObj
     [(''id'', JStr (tk_id t)), (''updatedFields'', js_items updatedFields),
      (''updatedAt'', JStr (hostToISO (be_host env) (tk_updatedAt t)))]"

definition with_comment :: "string \<Rightarrow> string \<Rightarrow> update_params \<Rightarrow> task \<Rightarrow> task" where
  "with_comment newId nowIso p t =
     (case uc_comment p of None \<Rightarrow> t
      | Some comment \<Rightarrow>
          t\<lparr>tk_comment := Some (appendTaskComment (tk_comment t) comment),
            tk_comments := upsertTaskCommentEntry newId nowIso (tk_comments t) comment
              \<lparr>cm_agentId = uc_agentId p, cm_sessionId = uc_sessionId p, cm_source = None\<rparr>\<rparr>)"

definition with_fields :: "update_params \<Rightarrow> task \<Rightarrow> task" where
  "with_fields p t =
     t\<lparr>tk_title := orDefault (uc_title p) (tk_title t),
       tk_objective := orDefault (uc_description p) (tk_objective t),
       tk_priority := nullish (uc_priority p) (tk_priority t),
       tk_labels := orDefault (uc_labels p) (tk_labels t)\<rparr>"

definition write_card :: "board_env \<Rightarrow> update_params \<Rightarrow> task \<Rightarrow> tool_result board" where
  "write_card env p t =
     andThen (fresh_id env) (\<lambda>newId. andThen (gets (biso env)) (\<lambda>nowIso. andThen (gets (bnow env)) (\<lambda>now.
       (let t' = (with_comment newId nowIso p (with_fields p t))\<lparr>tk_updatedAt := now\<rparr>
        in next_do (card_save env t')
          (next_do (notifyWorkspaceChanged (tk_workspaceId t) NeTask NaUpdated (Some (tk_id t)))
            (ret (successResult (taskToUpdateAck env t' (updated_fields p)))))))))"

text \<open>A guard with an error refuses the new description; only the contract is noted on the card.\<close>

definition refuse_description ::
  "board_env \<Rightarrow> update_params \<Rightarrow> task \<Rightarrow> description_guard \<Rightarrow> string \<Rightarrow> tool_result board" where
  "refuse_description env p t guard error =
     next_do (case gd_contractGate guard of None \<Rightarrow> ret ()
         | Some (columnName, readiness) \<Rightarrow>
             recordTaskContractGateFailure env t error columnName (tr_loopBreakerThreshold readiness) (uc_sessionId p))
       (ret (errorResult error))"

definition updateCard :: "board_env \<Rightarrow> update_params \<Rightarrow> tool_result board" where
  "updateCard env p =
     andThen (card_get env (uc_cardId p)) (\<lambda>found.
       case found of
         None \<Rightarrow> ret (errorResult (''Card not found: '' @ uc_cardId p))
       | Some t \<Rightarrow>
           (case uc_description p of
              None \<Rightarrow> write_card env p t
            | Some description \<Rightarrow>
                andThen (if truthy (tk_boardId t) then board_get env (the (tk_boardId t)) else ret None) (\<lambda>board.
                  (let guard = evaluateTaskDescriptionWriteGuard (be_yaml env) (tk_boardId t) (tk_columnId t)
                         description (map_option kb_columns board)
                   in case gd_error guard of
                        Some error \<Rightarrow> refuse_description env p t guard error
                      | None \<Rightarrow> write_card env p t))))"

end
