(* ===== verification/StoryProps.thy ===== *)
theory StoryProps
  imports CanonicalStory
begin

text \<open>
  What the checks of a canonical story promise. A reader either adds an issue or gives a well-formed
  value (one lemma per reader), and on a well-formed value written as a YAML value it gives that value
  back without an issue; both compose to the whole story.
\<close>

section \<open>Well-formed stories\<close>

definition criterion_ok :: "acceptance_criterion \<Rightarrow> bool" where
  "criterion_ok c = (text_ok (ac_id c) \<and> text_ok (ac_text c))"

definition dependencies_ok :: "story_dependencies \<Rightarrow> bool" where
  "dependencies_ok d = (si_independent_story_check d \<in> {SsPass, SsFail}
     \<and> list_all text_ok (si_depends_on d) \<and> text_ok (si_unblock_condition d))"

definition invest_ok :: "story_invest \<Rightarrow> bool" where
  "invest_ok v = list_all (\<lambda>c. text_ok (iv_reason c))
     [iv_independent v, iv_negotiable v, iv_valuable v, iv_estimable v, iv_small v, iv_testable v]"

definition story_ok :: "canonical_story \<Rightarrow> bool" where
  "story_ok s =
     (cs_version s \<ge> 1
      \<and> list_all text_ok [cs_language s, cs_title s, cs_problem_statement s, cs_user_value s]
      \<and> length (cs_acceptance_criteria s) \<ge> 2 \<and> list_all criterion_ok (cs_acceptance_criteria s)
      \<and> cs_constraints_and_affected_areas s \<noteq> [] \<and> list_all text_ok (cs_constraints_and_affected_areas s)
      \<and> dependencies_ok (cs_dependencies_and_sequencing s)
      \<and> cs_out_of_scope s \<noteq> [] \<and> list_all text_ok (cs_out_of_scope s)
      \<and> invest_ok (cs_invest s))"

section \<open>A story as a YAML value\<close>

definition js_of_criterion :: "acceptance_criterion \<Rightarrow> json" where
  "js_of_criterion c = JObj [(''id'', JStr (ac_id c)), (''text'', JStr (ac_text c)), (''testable'', JBool (ac_testable c))]"

definition js_of_check :: "invest_check \<Rightarrow> json" where
  "js_of_check c = JObj [(''status'', JStr (story_status_str (iv_status c))), (''reason'', JStr (iv_reason c))]"

definition js_of_dependencies :: "story_dependencies \<Rightarrow> json" where
  "js_of_dependencies d = JObj
     [(''independent_story_check'', JStr (story_status_str (si_independent_story_check d))),
      (''depends_on'', JArr (map JStr (si_depends_on d))),
      (''unblock_condition'', JStr (si_unblock_condition d))]"

definition js_of_invest :: "story_invest \<Rightarrow> json" where
  "js_of_invest v = JObj
     [(''independent'', js_of_check (iv_independent v)), (''negotiable'', js_of_check (iv_negotiable v)),
      (''valuable'', js_of_check (iv_valuable v)), (''estimable'', js_of_check (iv_estimable v)),
      (''small'', js_of_check (iv_small v)), (''testable'', js_of_check (iv_testable v))]"

definition js_of_story :: "canonical_story \<Rightarrow> json" where
  "js_of_story s = JObj
     [(''version'', JNum (Fin (of_int (cs_version s)))), (''language'', JStr (cs_language s)),
      (''title'', JStr (cs_title s)), (''problem_statement'', JStr (cs_problem_statement s)),
      (''user_value'', JStr (cs_user_value s)),
      (''acceptance_criteria'', JArr (map js_of_criterion (cs_acceptance_criteria s))),
      (''constraints_and_affected_areas'', JArr (map JStr (cs_constraints_and_affected_areas s))),
      (''dependencies_and_sequencing'', js_of_dependencies (cs_dependencies_and_sequencing s)),
      (''out_of_scope'', JArr (map JStr (cs_out_of_scope s))),
      (''invest'', js_of_invest (cs_invest s))]"

definition story_document :: "canonical_story \<Rightarrow> json" where
  "story_document s = JObj [(''story'', js_of_story s)]"

section \<open>Readers without an issue\<close>

text \<open>The collection has, for each reader, what it gives when it adds no issue.\<close>

named_theorems reads_well

lemma readString_ok [reads_well]: "readString v p = (x, []) \<Longrightarrow> text_ok x"
  by (auto simp: readString_def text_ok_def split: json.splits if_splits)

lemma read_each_ok:
  assumes ok: "\<And>v p x. f v p = (x, []) \<Longrightarrow> P x" and read: "read_each f path vs = (xs, [])"
  shows "list_all P xs \<and> length xs = length vs"
proof -
  let ?rs = "map (\<lambda>(i, item). f item (at_index path i)) (List.enumerate 0 vs)"
  from read have xs: "xs = map fst ?rs" and none: "\<forall>r\<in>set ?rs. snd r = []"
    by (auto simp: read_each_def Let_def)
  have "P (fst r)" if r: "r \<in> set ?rs" for r
  proof -
    from r obtain i item where "r = f item (at_index path i)" by auto
    then have "f item (at_index path i) = (fst r, [])" using none r by (metis prod.collapse)
    then show ?thesis by (rule ok)
  qed
  then show ?thesis unfolding xs list_all_iff by simp
qed

lemma readStringArray_ok [reads_well]:
  assumes "readStringArrayWithOptions v p opt emp = (xs, [])"
  shows "list_all text_ok xs" and "\<not> emp \<Longrightarrow> \<not> opt \<Longrightarrow> xs \<noteq> []"
proof -
  have "list_all text_ok xs \<and> (\<not> emp \<and> \<not> opt \<longrightarrow> xs \<noteq> [])"
  proof (cases v)
    case (JArr vs)
    obtain ys issues where r: "read_each readString p vs = (ys, issues)" by (meson surj_pair)
    with assms JArr have "issues = []" and xs: "xs = filter (\<lambda>s. s \<noteq> []) ys"
      and "\<not> emp \<longrightarrow> xs \<noteq> []"
      by (auto simp: readStringArrayWithOptions_def Let_def split: if_splits)
    moreover from this r have "list_all text_ok ys"
      using read_each_ok [of readString text_ok p vs ys] readString_ok by blast
    ultimately show ?thesis by (auto simp: list_all_iff)
  qed (use assms in \<open>auto simp: readStringArrayWithOptions_def split: if_splits\<close>)
  then show "list_all text_ok xs" and "\<not> emp \<Longrightarrow> \<not> opt \<Longrightarrow> xs \<noteq> []" by auto
qed

lemma readCriterion_ok: "readCriterion v p = (cs, []) \<Longrightarrow> list_all criterion_ok cs"
  by (auto simp: readCriterion_def criterion_ok_def Let_def split: if_splits prod.splits dest: readString_ok)

lemma readAcceptanceCriteria_ok [reads_well]:
  assumes "readAcceptanceCriteria v p = (cs, [])"
  shows "list_all criterion_ok cs \<and> length cs \<ge> 2"
proof (cases v)
  case (JArr vs)
  obtain es issues where r: "read_each readCriterion p vs = (es, issues)" by (meson surj_pair)
  with assms JArr have "issues = []" and cs: "cs = concat es" and "length cs \<ge> 2"
    by (auto simp: readAcceptanceCriteria_def Let_def split: if_splits)
  moreover from this r have "list_all (list_all criterion_ok) es"
    using read_each_ok [of readCriterion "list_all criterion_ok" p vs es] readCriterion_ok by blast
  ultimately show ?thesis by (auto simp: list_all_iff)
qed (use assms in \<open>auto simp: readAcceptanceCriteria_def split: if_splits\<close>)

lemma readInvestKey_ok [reads_well]:
  "is_object v \<Longrightarrow> readInvestKey v key = (c, []) \<Longrightarrow> text_ok (iv_reason c)"
  by (auto simp: readInvestKey_def readInvestCheck_def Let_def split: if_splits prod.splits dest: readString_ok)

lemma readInvest_ok [reads_well]: "is_object v \<Longrightarrow> readInvest v = (c, []) \<Longrightarrow> invest_ok c"
  by (auto simp: readInvest_def invest_ok_def Let_def split: prod.splits dest: readInvestKey_ok)

lemma pass_or_fail_in: "orDefault (pass_or_fail v) SsFail \<in> {SsPass, SsFail}"
  by (simp add: pass_or_fail_def orDefault_def)

lemma readDependencies_ok [reads_well]:
  assumes "is_object v" and "readDependencies v = (d, [])"
  shows "dependencies_ok d"
  using assms pass_or_fail_in [of "jprop v ''independent_story_check''"]
  by (auto simp: readDependencies_def dependencies_ok_def Let_def split: prod.splits dest: readString_ok readStringArray_ok)

lemma positive_integer_ge: "positive_integer v = Some n \<Longrightarrow> n \<ge> 1"
  by (auto simp: positive_integer_def le_floor_iff split: json.splits js_num.splits if_splits)

lemma readStory_ok:
  assumes "readStory v = (s, [])"
  shows "story_ok s"
proof -
  have dep: "is_object (jprop v ''dependencies_and_sequencing'')" and inv: "is_object (jprop v ''invest'')"
    using assms by (auto simp: readStory_def Let_def split: prod.splits if_splits)
  obtain n where n: "positive_integer (jprop v ''version'') = Some n"
    using assms by (auto simp: readStory_def Let_def split: prod.splits if_splits)
  show ?thesis
    using assms dep inv n positive_integer_ge [OF n]
    by (auto simp: readStory_def story_ok_def readStringArray_def orDefault_def Let_def split: prod.splits if_splits
        dest: readString_ok readStringArray_ok readAcceptanceCriteria_ok readDependencies_ok readInvest_ok)
qed

section \<open>Reading a written story\<close>

named_theorems reads_back

lemma text_okD: "text_ok s \<Longrightarrow> trim s = s \<and> s \<noteq> []"
  by (simp add: text_ok_def trim_trimmed)

lemma readString_back [reads_back]: "text_ok s \<Longrightarrow> readString (JStr s) p = (s, [])"
  by (simp add: readString_def text_okD)

lemma read_each_back:
  assumes "\<And>x p. x \<in> set xs \<Longrightarrow> f (js x) p = (g x, [])"
  shows "read_each f path (map js xs) = (map g xs, [])"
proof -
  have "map (\<lambda>(i, item). f item (at_index path i)) (List.enumerate n (map js xs)) = map (\<lambda>x. (g x, [])) xs" for n
    using assms
  proof (induction xs arbitrary: n)
    case (Cons x xs)
    then show ?case by (simp del: enumerate_simps add: enumerate_simps)
  qed simp
  then show ?thesis by (simp add: read_each_def Let_def comp_def)
qed

lemma readStringArray_back [reads_back]:
  assumes "list_all text_ok xs" and "emp \<or> xs \<noteq> []"
  shows "readStringArrayWithOptions (JArr (map JStr xs)) p opt emp = (xs, [])"
proof -
  have "read_each readString p (map JStr xs) = (xs, [])"
    using read_each_back [of xs readString JStr "\<lambda>x. x" p] assms by (simp add: list_all_iff reads_back)
  moreover have "filter (\<lambda>s. s \<noteq> []) xs = xs"
    using assms by (auto simp: list_all_iff text_ok_def intro: filter_True)
  ultimately show ?thesis using assms(2) by (simp add: readStringArrayWithOptions_def)
qed

lemma readCriteria_back [reads_back]:
  assumes "list_all criterion_ok cs" and "length cs \<ge> 2"
  shows "readAcceptanceCriteria (JArr (map js_of_criterion cs)) p = (cs, [])"
proof -
  have "readCriterion (js_of_criterion c) q = ([c], [])" if "c \<in> set cs" for c q
    using assms(1) that
    by (simp add: list_all_iff criterion_ok_def readCriterion_def js_of_criterion_def is_object_def jprop_def
        readBoolean_def reads_back)
  then have "read_each readCriterion p (map js_of_criterion cs) = (map (\<lambda>c. [c]) cs, [])"
    by (rule read_each_back)
  moreover have "concat (map (\<lambda>c. [c]) cs) = cs" by (induction cs) simp_all
  ultimately show ?thesis using assms(2) by (simp add: readAcceptanceCriteria_def)
qed

lemma status_text_ok: "text_ok (story_status_str s)"
  by (cases s) (simp_all add: text_ok_def trimmed_def is_ws_def)

lemma parse_status_back: "parse_status (story_status_str s) = Some s"
  by (cases s) (simp_all add: parse_status_def CANONICAL_STORY_STATUS_def)

lemma readInvestCheck_back [reads_back]: "text_ok (iv_reason c) \<Longrightarrow> readInvestCheck (js_of_check c) p = (c, [])"
  by (simp add: readInvestCheck_def js_of_check_def is_object_def jprop_def reads_back status_text_ok
      parse_status_back orDefault_def)

lemma readInvest_back [reads_back]: "invest_ok v \<Longrightarrow> readInvest (js_of_invest v) = (v, [])"
  by (simp add: readInvest_def readInvestKey_def js_of_invest_def is_object_def jprop_def invest_ok_def reads_back)

lemma pass_or_fail_back:
  "s \<in> {SsPass, SsFail} \<Longrightarrow> pass_or_fail (JStr (story_status_str s)) = Some s"
  by (auto simp: pass_or_fail_def)

lemma readDependencies_back [reads_back]:
  "dependencies_ok d \<Longrightarrow> readDependencies (js_of_dependencies d) = (d, [])"
  by (simp add: readDependencies_def js_of_dependencies_def is_object_def jprop_def dependencies_ok_def reads_back
      pass_or_fail_back orDefault_def)

lemma positive_integer_back: "n \<ge> 1 \<Longrightarrow> positive_integer (JNum (Fin (of_int n))) = Some n"
  by (simp add: positive_integer_def)

lemma readStory_back:
  assumes ok: "story_ok s"
  shows "readStory (js_of_story s) = (s, [])"
proof -
  have props: "jprop (js_of_story s) k = (case map_of (case js_of_story s of JObj kvs \<Rightarrow> kvs) k of
     Some w \<Rightarrow> w | None \<Rightarrow> JUndef)" for k
    by (simp add: jprop_def js_of_story_def)
  have dep: "is_object (js_of_dependencies d)" and inv: "is_object (js_of_invest v)" for d v
    by (simp_all add: js_of_dependencies_def js_of_invest_def is_object_def)
  have keys: "filter (\<lambda>key. \<not> has_key (js_of_invest v) key) INVEST_KEYS = []" for v
    by (simp add: js_of_invest_def has_key_def INVEST_KEYS_def)
  have check: "pass_or_fail (jprop (js_of_dependencies (cs_dependencies_and_sequencing s)) ''independent_story_check'')
      = Some (si_independent_story_check (cs_dependencies_and_sequencing s))"
    using ok by (simp add: js_of_dependencies_def jprop_def story_ok_def dependencies_ok_def pass_or_fail_back)
  show ?thesis
    using ok unfolding readStory_def props
    by (simp add: js_of_story_def story_ok_def readStringArray_def reads_back dep inv keys check
        positive_integer_back orDefault_def)
qed

section \<open>Finding the block\<close>

lemma text_before_found:
  assumes "\<not> strIncludes r (lf @ code_fence)"
  shows "text_before (lf @ code_fence) (r @ lf @ code_fence @ rest) = Some r"
  using assms
proof (induction r)
  case Nil
  then show ?case by (simp add: lf_def code_fence_def)
next
  case (Cons c r)
  have "\<not> startsWith ((c # r) @ lf @ code_fence @ rest) (lf @ code_fence)"
  proof
    assume "startsWith ((c # r) @ lf @ code_fence @ rest) (lf @ code_fence)"
    moreover from Cons.prems have "\<not> startsWith (c # r) (lf @ code_fence)" by simp
    ultimately show False
      by (cases r; cases "tl r"; cases "tl (tl r)") (auto simp: lf_def code_fence_def)
  qed
  moreover have "text_before (lf @ code_fence) (r @ lf @ code_fence @ rest) = Some r"
    using Cons by simp
  ultimately show ?case by simp
qed

lemma first_some_append:
  "first_some f (xs @ ys) = (case first_some f xs of Some y \<Rightarrow> Some y | None \<Rightarrow> first_some f ys)"
  by (induction xs) (simp_all split: option.splits)

lemma lower_backtick: "lower_char c = CHR 0x60 \<longleftrightarrow> c = CHR 0x60"
proof
  assume eq: "lower_char c = CHR 0x60"
  let ?n = "of_char c :: nat"
  show "c = CHR 0x60"
  proof (rule ccontr)
    assume "c \<noteq> CHR 0x60"
    with eq have range: "(65 \<le> ?n \<and> ?n \<le> 90) \<or> (192 \<le> ?n \<and> ?n \<le> 222)"
      and "char_of (?n + 32) = CHR 0x60"
      by (auto simp: lower_char_def Let_def split: if_splits)
    then have "(of_char (char_of (?n + 32)) :: nat) = of_char (CHR 0x60)" by simp
    then have "(?n + 32) mod 256 = 96" by (simp add: of_char_of)
    with range show False by auto
  qed
qed (simp add: lower_char_def)

lemma rx_seq_Cons: "rx_ends (rx_seq (r # rs)) pos = concat (map (rx_ends (rx_seq rs)) (rx_ends r pos))"
  by (simp add: rx_seq_def)

lemma rx_lit_Cons: "rx_lit (c # s) = RxSeq (RxCls (\<lambda>x. lower_char x = lower_char c)) (rx_lit s)"
  by (simp add: rx_lit_def rx_seq_def)

lemma rx_lit_exact: "q \<noteq> [] \<Longrightarrow> rx_ends (rx_lit q) (p, q @ s) = [(Some (last q), s)]"
proof (induction q arbitrary: p)
  case (Cons c q)
  then show ?case by (cases "q = []") (simp_all add: rx_lit_Cons, simp add: rx_lit_def rx_seq_def)
qed simp

lemma opening_starts:
  assumes "s = [] \<or> hd s \<noteq> CHR 0x60"
  shows "rx_ends YAML_OPENING (p, s) = []"
proof -
  have "rx_lit (code_fence @ ''yaml'') =
      RxSeq (RxCls (\<lambda>x. lower_char x = lower_char (CHR 0x60))) (rx_lit (tl (code_fence @ ''yaml'')))"
    by (simp add: code_fence_def rx_lit_Cons)
  moreover have "lower_char (CHR 0x60) = CHR 0x60" by (simp add: lower_backtick)
  ultimately have "rx_ends (rx_lit (code_fence @ ''yaml'')) (p, s) = []"
    using assms by (cases s) (simp_all add: lower_backtick)
  then show ?thesis unfolding YAML_OPENING_def rx_seq_Cons by simp
qed

lemma star_ends_stop: "s \<noteq> [] \<Longrightarrow> \<not> P (hd s) \<Longrightarrow> star_ends P p s = [(p, s)]"
  by (cases s) auto

lemma opening_ends:
  assumes "r \<noteq> []" and "\<not> is_ws (hd r)"
  shows "rx_ends YAML_OPENING (p, (code_fence @ ''yaml'') @ lf @ r) = [(Some (CHR 0x0A), r)]"
proof -
  have ws: "is_ws (CHR 0x0A)" by (simp add: is_ws_def)
  have not: "hd r \<noteq> CHR 0x0A" using assms ws by auto
  have lit: "rx_ends (rx_lit (code_fence @ ''yaml'')) (p, (code_fence @ ''yaml'') @ lf @ r) = [(Some (CHR ''l''), lf @ r)]"
    by (subst rx_lit_exact) (simp_all add: code_fence_def)
  have star: "star_ends is_ws q (lf @ r) = [(Some (CHR 0x0A), r), (q, lf @ r)]" for q
    using star_ends_stop [of r is_ws "Some (CHR 0x0A)"] assms ws by (simp add: lf_def)
  have "rx_ends (rx_seq [RxCls (\<lambda>c. c = CHR 0x0A)]) (Some (CHR 0x0A), r) = []"
    using not assms by (cases r) (simp_all add: rx_seq_def)
  moreover have "rx_ends (rx_seq [RxCls (\<lambda>c. c = CHR 0x0A)]) (q, lf @ r) = [(Some (CHR 0x0A), r)]" for q
    by (simp add: rx_seq_def lf_def)
  ultimately show ?thesis
    unfolding YAML_OPENING_def rx_seq_Cons [of "rx_lit _"] rx_seq_Cons [of "RxStar _"] by (simp only: lit list.map rx_ends.simps fst_conv snd_conv star concat.simps append_Nil append_Nil2)
qed

lemma extract_block:
  assumes plain: "CHR 0x60 \<notin> set before" and r: "text_ok r" and one: "\<not> strIncludes r (lf @ code_fence)"
  shows "CANONICAL_STORY_GROUP (before @ code_fence @ ''yaml'' @ lf @ r @ lf @ code_fence @ rest) = Some r"
proof -
  let ?tail = "code_fence @ ''yaml'' @ lf @ r @ lf @ code_fence @ rest"
  let ?f = "\<lambda>pos. text_before (lf @ code_fence) (snd pos)"
  have "first_some ?f (concat (map (rx_ends YAML_OPENING) (positions p (before @ ?tail)))) = Some r" for p
    using plain
  proof (induction before arbitrary: p)
    case Nil
    have "r @ lf @ code_fence @ rest \<noteq> [] \<and> \<not> is_ws (hd (r @ lf @ code_fence @ rest))"
      using r by (cases r) (auto simp: text_ok_def trimmed_def)
    then have "rx_ends YAML_OPENING (p, ?tail) = [(Some (CHR 0x0A), r @ lf @ code_fence @ rest)]"
      using opening_ends [of "r @ lf @ code_fence @ rest" p] by simp
    then show ?case
      using text_before_found [OF one, of rest] by (simp add: code_fence_def)
  next
    case (Cons c before)
    then have "rx_ends YAML_OPENING (p, c # before @ ?tail) = []" by (intro opening_starts) auto
    with Cons show ?case by simp
  qed
  then show ?thesis by (simp add: CANONICAL_STORY_GROUP_def)
qed

section \<open>Properties\<close>

text \<open>What a description is parsed to is well formed: when a story is accepted there is a YAML block, no issue was found, the version is a positive integer, every text is trimmed and not blank, there are at least two acceptance criteria with an id and a text each, the affected areas and the out-of-scope list are not empty, the unblock condition is given, and each of the six INVEST checks has a reason.\<close>
theorem parsed_story_is_well_formed:
  assumes "cp_story (parseCanonicalStory yamlLoad content) = Some s"
  shows "story_ok s \<and> cp_issues (parseCanonicalStory yamlLoad content) = []
    \<and> (\<exists>raw. extractCanonicalStoryYaml content = Some raw \<and> raw \<noteq> [] \<and> trimmed raw)"
proof -
  obtain raw where raw: "extractCanonicalStoryYaml content = Some raw" "raw \<noteq> []"
    using assms by (cases "extractCanonicalStoryYaml content") (auto simp: parseCanonicalStory_def Let_def split: if_splits)
  moreover have "trimmed raw"
    using raw(1) by (auto simp: extractCanonicalStoryYaml_def)
  moreover obtain v where "readStory v = (s, [])" and "cp_issues (parseCanonicalStory yamlLoad content) = []"
    using assms raw
    by (auto simp: parseCanonicalStory_def story_failure_def Let_def split: sum.splits if_splits prod.splits)
  ultimately show ?thesis using readStory_ok by blast
qed

text \<open>C33. A well-formed story that is written into a description is read back exactly: whatever plain text stands before the block and whatever stands after it, when the YAML parser reads the block as the written value, parsing gives that story, no issue, and the text of the block.\<close>
theorem story_block_roundtrip:
  assumes "story_ok s" and "text_ok r" and "\<not> strIncludes r (lf @ code_fence)" and "CHR 0x60 \<notin> set before"
    and "yamlLoad r = Inr (story_document s)"
  shows "parseCanonicalStory yamlLoad (Some (before @ code_fence @ ''yaml'' @ lf @ r @ lf @ code_fence @ rest))
    = \<lparr>cp_hasYamlBlock = True, cp_story = Some s, cp_issues = [], cp_rawYaml = Some r\<rparr>"
proof -
  let ?content = "before @ code_fence @ ''yaml'' @ lf @ r @ lf @ code_fence @ rest"
  have raw: "extractCanonicalStoryYaml (Some ?content) = Some r"
    using extract_block [OF assms(4,2,3)] text_okD [OF assms(2)] by (simp add: extractCanonicalStoryYaml_def)
  have root: "is_object (story_document s)" "jprop (story_document s) ''story'' = js_of_story s"
    "is_object (js_of_story s)"
    by (simp_all add: story_document_def js_of_story_def is_object_def jprop_def)
  have "truthy (Some r)" using assms(2) by (auto simp: text_ok_def)
  then show ?thesis
    unfolding parseCanonicalStory_def raw Let_def
    using assms(5) readStory_back [OF assms(1)] root by simp
qed

definition sample_story :: canonical_story where
  "sample_story =
     \<lparr>cs_version = 1, cs_language = ''en'', cs_title = ''Login'', cs_problem_statement = ''No login'',
      cs_user_value = ''Safety'',
      cs_acceptance_criteria =
        [\<lparr>ac_id = ''AC1'', ac_text = ''form'', ac_testable = True\<rparr>,
         \<lparr>ac_id = ''AC2'', ac_text = ''logout'', ac_testable = False\<rparr>],
      cs_constraints_and_affected_areas = [''api''],
      cs_dependencies_and_sequencing =
        \<lparr>si_independent_story_check = SsPass, si_depends_on = [], si_unblock_condition = ''none''\<rparr>,
      cs_out_of_scope = [''sso''],
      cs_invest = (let c = \<lparr>iv_status = SsPass, iv_reason = ''fine''\<rparr> in
        \<lparr>iv_independent = c, iv_negotiable = c, iv_valuable = c, iv_estimable = c, iv_small = c, iv_testable = c\<rparr>)\<rparr>"

definition sample_yaml :: yaml_load where
  "sample_yaml text = (if text = ''story: login'' then Inr (story_document sample_story) else Inl ''bad yaml'')"

definition sample_description :: string where
  "sample_description =
     ''As agreed.'' @ lf @ code_fence @ ''yaml'' @ lf @ ''story: login'' @ lf @ code_fence @ '' Thanks.''"

lemma sample_story_ok: "story_ok sample_story"
  by (simp add: sample_story_def story_ok_def text_ok_def trimmed_def criterion_ok_def dependencies_ok_def
      invest_ok_def Let_def is_ws_def)

theorem story_block_roundtrip_witness:
  "parseCanonicalStory sample_yaml (Some sample_description)
     = \<lparr>cp_hasYamlBlock = True, cp_story = Some sample_story, cp_issues = [], cp_rawYaml = Some ''story: login''\<rparr>"
proof -
  have "text_ok ''story: login''" by (simp add: text_ok_def trimmed_def is_ws_def)
  moreover have "\<not> strIncludes ''story: login'' (lf @ code_fence)" by (simp add: lf_def code_fence_def)
  moreover have "CHR 0x60 \<notin> set (''As agreed.'' @ lf)" by (simp add: lf_def)
  moreover have "sample_yaml ''story: login'' = Inr (story_document sample_story)" by (simp add: sample_yaml_def)
  ultimately show ?thesis
    using story_block_roundtrip [OF sample_story_ok, of "''story: login''" "''As agreed.'' @ lf" sample_yaml "'' Thanks.''"]
    by (simp add: sample_description_def)
qed

lemma sample_story_parsed: "cp_story (parseCanonicalStory sample_yaml (Some sample_description)) = Some sample_story"
proof -
  have "text_ok ''story: login''" "\<not> strIncludes ''story: login'' (lf @ code_fence)"
    "CHR 0x60 \<notin> set (''As agreed.'' @ lf)"
    by (simp_all add: text_ok_def trimmed_def is_ws_def lf_def code_fence_def)
  then have "CANONICAL_STORY_GROUP sample_description = Some ''story: login''"
    using extract_block [of "''As agreed.'' @ lf" "''story: login''" "'' Thanks.''"]
    by (simp add: sample_description_def)
  then show ?thesis
    using readStory_back [OF sample_story_ok]
    by (simp add: parseCanonicalStory_def extractCanonicalStoryYaml_def trim_trimmed trimmed_def is_ws_def
        sample_yaml_def story_document_def is_object_def jprop_def js_of_story_def)
qed

theorem parsed_story_is_well_formed_witness:
  "story_ok sample_story \<and> cp_issues (parseCanonicalStory sample_yaml (Some sample_description)) = []"
  using parsed_story_is_well_formed [OF sample_story_parsed] by blast

end
