(* ===== verification/GateProps.thy ===== *)
theory GateProps
  imports StoryProps ContractGate TransitionGates
begin

text \<open>
  What the gates of a column promise: what it means to pass the contract gate, that the guard on a
  description and the contract gate agree, and what counts as evidence of a validator command.
\<close>

section \<open>The contract gate\<close>

lemma readiness_iff:
  assumes "hasContractRules rules"
  shows "tr_ready (buildTaskContractReadiness yamlLoad objective comments rules)
    \<longleftrightarrow> cp_story (parseCanonicalStory yamlLoad (Some objective)) \<noteq> None"
proof -
  have "cp_story (parseCanonicalStory yamlLoad (Some objective)) = None"
    if "\<not> cp_hasYamlBlock (parseCanonicalStory yamlLoad (Some objective))"
    using that by (auto simp: parseCanonicalStory_def story_failure_def Let_def split: if_splits sum.splits prod.splits)
  with assms show ?thesis by (auto simp: buildTaskContractReadiness_def Let_def)
qed

lemma contract_error_None:
  "buildTaskContractTransitionErrorFromRules (buildTaskContractReadiness yamlLoad objective comments rules) name rules = None
   \<longleftrightarrow> (hasContractRules rules \<longrightarrow> cp_story (parseCanonicalStory yamlLoad (Some objective)) \<noteq> None)"
  by (cases "hasContractRules rules") (simp_all add: buildTaskContractTransitionErrorFromRules_def readiness_iff Let_def)

lemma update_error_None:
  "hasContractRules rules \<Longrightarrow>
   buildTaskContractUpdateErrorFromRules (buildTaskContractReadiness yamlLoad objective comments rules) name rules = None
   \<longleftrightarrow> cp_story (parseCanonicalStory yamlLoad (Some objective)) \<noteq> None"
  by (simp add: buildTaskContractUpdateErrorFromRules_def readiness_iff Let_def)

lemma update_error_truthy:
  "truthy (buildTaskContractUpdateErrorFromRules r name rules) \<longleftrightarrow> buildTaskContractUpdateErrorFromRules r name rules \<noteq> None"
  by (simp add: buildTaskContractUpdateErrorFromRules_def)

lemma rules_there: "hasContractRules v \<Longrightarrow> hasContractRules (Some (the v))"
  by (cases v) (simp_all add: hasContractRules_def)

lemma gate_has_rules:
  "resolveCurrentOrNextContractGate columns columnId = Some (name, rules) \<Longrightarrow> hasContractRules (Some rules)"
  by (auto simp: resolveCurrentOrNextContractGate_def Let_def intro: rules_there split: if_splits)

lemma happy_path_id:
  assumes "getNextHappyPathColumnId c = Some n"
  shows "n \<noteq> []"
proof -
  have "stage_str st \<noteq> []" for st by (cases st) simp_all
  then show ?thesis
    using assms by (auto simp: getNextHappyPathColumnId_def Let_def split: option.splits if_splits)
qed

text \<open>C32. A description that the guard accepts passes the contract gate on the way to the next column: when the guard finds no error for a card on a board, a move of the card with this description to the next column of the happy path is not refused by the contract of that column, whatever comments the card has; and the card is not in a stage from Dev on, where the description is frozen.\<close>
theorem accepted_description_passes_the_gate:
  assumes "gd_error (evaluateTaskDescriptionWriteGuard yamlLoad boardId columnId description (Some columns)) = None"
    and "truthy boardId"
    and "getNextHappyPathColumnId (Some (orDefault columnId ''backlog'')) = Some target"
    and "List.find (\<lambda>c. kc_id c = target) columns = Some column"
  shows "buildTaskContractTransitionErrorFromRules
      (buildTaskContractReadiness yamlLoad description comments (contract_rules_of (Some column)))
      (kc_name column) (contract_rules_of (Some column)) = None
    \<and> (\<forall>stage \<in> DESCRIPTION_FROZEN_STAGES. resolveTaskColumnStage boardId columnId (Some columns) \<noteq> Some stage)"
proof -
  have contract: "gd_error (guard_contract yamlLoad boardId columnId description (Some columns)) = None"
    and stage: "\<forall>stage \<in> DESCRIPTION_FROZEN_STAGES. resolveTaskColumnStage boardId columnId (Some columns) \<noteq> Some stage"
    using assms(1) by (auto simp: evaluateTaskDescriptionWriteGuard_def split: option.splits if_splits)
  have "cp_story (parseCanonicalStory yamlLoad (Some description)) \<noteq> None"
    if "hasContractRules (contract_rules_of (Some column))"
  proof -
    have "target \<noteq> []" using assms(3) by (rule happy_path_id)
    then have "\<exists>name rules. resolveCurrentOrNextContractGate columns columnId = Some (name, rules)"
      using that assms(3,4) by (auto simp: resolveCurrentOrNextContractGate_def Let_def)
    then obtain name rules where gate: "resolveCurrentOrNextContractGate columns columnId = Some (name, rules)" by blast
    then have "hasContractRules (Some rules)" by (rule gate_has_rules)
    with contract gate assms(2) show ?thesis
      by (auto simp: guard_contract_def Let_def update_error_truthy update_error_None split: if_splits)
  qed
  then show ?thesis using stage by (simp add: contract_error_None)
qed

section \<open>Words in a line\<close>

lemma place_start: "(p, s) \<in> set (positions p s)"
  by (cases s) simp_all

lemma place_in_text: "((if a = [] then p else Some (last a)), s) \<in> set (positions p (a @ s))"
proof (induction a arbitrary: p)
  case (Cons c a)
  then show ?case using Cons.IH [of "Some c"] by (auto simp: place_start)
qed (simp add: place_start)

lemma rx_seqI: "m \<in> set (rx_ends a p) \<Longrightarrow> x \<in> set (rx_ends b m) \<Longrightarrow> x \<in> set (rx_ends (RxSeq a b) p)"
  by auto

lemma word_edge: "word_before (fst p) \<noteq> word_at (snd p) \<Longrightarrow> p \<in> set (rx_ends RxWordEdge p)"
  by simp

lemma some_end_of_words:
  "w \<in> set us \<or> w = l \<Longrightarrow>
   set (rx_ends (rx_lit w) pos) \<subseteq> set (rx_ends (foldr (\<lambda>w r. RxAlt (rx_lit w) r) us (rx_lit l)) pos)"
  by (induction us) auto

lemma rx_words_found:
  assumes w: "w \<in> set ws" "w \<noteq> []" "is_word (hd w)" "is_word (last w)"
    and a: "a = [] \<or> \<not> is_word (last a)" and b: "b = [] \<or> \<not> is_word (hd b)"
  shows "rx_test (rx_words ws) (a @ w @ b)"
proof -
  let ?pos = "(if a = [] then None else Some (last a), w @ b)"
  let ?words = "foldr (\<lambda>w r. RxAlt (rx_lit w) r) (butlast ws) (rx_lit (last ws))"
  have "ws \<noteq> []" using w(1) by auto
  then have "set ws = set (butlast ws @ [last ws])" by simp
  with w(1) have "w \<in> set (butlast ws) \<or> w = last ws" by auto
  then have words: "(Some (last w), b) \<in> set (rx_ends ?words ?pos)"
    using some_end_of_words [of w "butlast ws" "last ws" ?pos] rx_lit_exact [OF w(2), of "fst ?pos" b] by auto
  have left: "?pos \<in> set (rx_ends RxWordEdge ?pos)"
    using a w(2,3) by (intro word_edge) (cases w; auto simp: word_before_def word_at_def)
  have right: "(Some (last w), b) \<in> set (rx_ends (RxSeq RxWordEdge RxEps) (Some (last w), b))"
    using b w(4) by (intro rx_seqI [OF word_edge]) (cases b; auto simp: word_before_def word_at_def)+
  have "(Some (last w), b) \<in> set (rx_ends (rx_words ws) ?pos)"
    unfolding rx_words_def rx_seq_def foldr.simps comp_def id_def by (rule rx_seqI [OF left rx_seqI [OF words right]])
  moreover have "?pos \<in> set (positions None (a @ w @ b))" by (rule place_in_text)
  ultimately show ?thesis unfolding rx_test_def list_ex_iff by (metis empty_iff list.set(1))
qed

section \<open>Evidence of a validator\<close>

lemma split_lf_single: "CHR 0x0A \<notin> set s \<Longrightarrow> split_lf s = [s]"
  by (induction s) auto

lemma split_lines_single: "CHR 0x0A \<notin> set s \<Longrightarrow> split_lines s = [s]"
  by (simp add: split_lines_def split_lf_single)

definition test_report :: "string \<Rightarrow> nat \<Rightarrow> string" where
  "test_report command n = command @ '': '' @ show_nat n @ '' passed, 0 failed''"

lemma test_report_fails: "rx_test (rx_words FAIL_WORDS) (test_report command n)"
proof -
  have "rx_test (rx_words FAIL_WORDS) ((command @ '': '' @ show_nat n @ '' passed, 0 '') @ ''failed'' @ [])"
    by (rule rx_words_found) (simp_all add: FAIL_WORDS_def is_word_def)
  then show ?thesis by (simp add: test_report_def)
qed

text \<open>A test report that says how many tests failed is never evidence of success: a column that asks for a validator command refuses a card whose report reads, for this command, that n tests passed and 0 failed, whatever the command and the number are, because the word failed in a line makes the line count as a failure.\<close>
theorem zero_failed_is_no_evidence:
  assumes "kc_automation column = Some a" and "ca_enabled a" and "ca_validatorCommand a = Some command"
    and "text_ok command" and "CHR 0x0A \<notin> set command"
    and "tk_verificationReport t = Some (test_report command n)"
    and "tk_completionSummary t = None" and "tk_verificationCommands t = None"
  shows "\<not> gr_passed (evaluateKanbanTransitionGates t (Some column))
    \<and> gr_blocking (evaluateKanbanTransitionGates t (Some column)) = (ca_gateMode a \<noteq> Some GateWarning)"
proof -
  have oneline: "CHR 0x0A \<notin> set (test_report command n)"
    using assms(5) show_nat_not_ws [of n] by (auto simp: test_report_def is_ws_def)
  have shown: "has_text (Some (test_report command n))"
    unfolding has_text_def using trim_Nil_iff [of "test_report command n"] by (auto simp: test_report_def is_ws_def)
  have "\<not> isValidatorEvidencePresent t command"
    unfolding isValidatorEvidencePresent_def Let_def assms(6-8)
    using text_okD [OF assms(4)] shown oneline
    by (simp add: split_lines_single evidence_line_def test_report_fails has_text_def orDefault_def)
  then have issue: "validator_issues t a \<noteq> []"
    using assms(3,4) text_okD [OF assms(4)] by (auto simp: validator_issues_def Let_def)
  have "hasTransitionGateRequirements a"
    using assms(3) text_okD [OF assms(4)] by (simp add: hasTransitionGateRequirements_def has_text_def)
  then show ?thesis using assms(1,2) issue by (auto simp: evaluateKanbanTransitionGates_def Let_def)
qed

text \<open>A command that the card only plans to run is its own evidence, when it has a word of success and none of failure.\<close>

theorem planned_command_is_evidence:
  assumes "text_ok command" and "CHR 0x0A \<notin> set command" and "tk_verificationCommands t = Some [command]"
    and "rx_test (rx_words PASS_WORDS) command" and "\<not> rx_test (rx_words FAIL_WORDS) command"
    and "tk_verificationReport t = None" and "tk_completionSummary t = None"
  shows "isValidatorEvidencePresent t command"
proof -
  have "strIncludes (toLowerCase command) (toLowerCase command)"
    unfolding strIncludes_iff by (metis append_Nil append_Nil2)
  then show ?thesis
    unfolding isValidatorEvidencePresent_def Let_def assms(3,6,7)
    using text_okD [OF assms(1)] assms(2,4,5)
    by (simp add: split_lines_single evidence_line_def has_text_def orDefault_def)
qed

end
