(* ===== verification/MoveRefused.thy ===== *)
theory MoveRefused
  imports MoveProps TaskStoreProps
begin

text \<open>
  What a refused move leaves. Alone it keeps every card in its place and announces nothing; but it saves
  the card as it was read at the start, so that it undoes what other calls did to the card meanwhile.
\<close>

section \<open>The place of a card\<close>

definition same_place :: "task \<Rightarrow> task \<Rightarrow> bool" where
  "same_place t t' \<longleftrightarrow>
     tk_id t' = tk_id t \<and> tk_workspaceId t' = tk_workspaceId t \<and> tk_boardId t' = tk_boardId t
     \<and> tk_columnId t' = tk_columnId t \<and> tk_status t' = tk_status t \<and> tk_position t' = tk_position t
     \<and> tk_title t' = tk_title t \<and> tk_objective t' = tk_objective t
     \<and> tk_triggerSessionId t' = tk_triggerSessionId t \<and> tk_verificationVerdict t' = tk_verificationVerdict t
     \<and> tk_verificationReport t' = tk_verificationReport t \<and> tk_completionSummary t' = tk_completionSummary t
     \<and> tk_attentionResolution t' = tk_attentionResolution t \<and> tk_deliverySnapshot t' = tk_deliverySnapshot t"

lemma same_place_refl: "same_place t t"
  by (simp add: same_place_def)

lemma same_place_trans: "same_place a b \<Longrightarrow> same_place b c \<Longrightarrow> same_place a c"
  by (simp add: same_place_def)

lemma strip_place: "same_place t (stripSpeculativeKanbanTaskAdaptiveSnapshot n t)"
  by (simp add: stripSpeculativeKanbanTaskAdaptiveSnapshot_def same_place_def)

lemma hydrate_place: "same_place t (hydrateTask n t)"
  by (simp add: hydrateTask_def stripSpeculativeKanbanTaskAdaptiveSnapshot_def same_place_def)

text \<open>The row that a save leaves.\<close>

lemma row_after_save: "\<exists>row. om_get (store_save n s t) (tk_id t) = Some row \<and> same_place t row"
  by (simp add: store_save_def Let_def same_place_def stripSpeculativeKanbanTaskAdaptiveSnapshot_def)

lemma saved_others: "k \<noteq> tk_id t \<Longrightarrow> om_get (store_save n s t) k = om_get s k"
  by (simp add: store_save_def Let_def stripSpeculativeKanbanTaskAdaptiveSnapshot_def)

lemma clone_columns [simp]: "cloneKanbanColumns cs = cs"
proof -
  have "cloneColumnAutomation a = a" for a
    by (simp add: cloneColumnAutomation_def option.map_ident list.map_ident)
  then have "map_option cloneColumnAutomation v = v" for v by (cases v) simp_all
  then show ?thesis by (simp add: cloneKanbanColumns_def)
qed

section \<open>Runs that change nothing\<close>

text \<open>Alone: no other call runs while this one waits.\<close>

definition undisturbed :: "board_env \<Rightarrow> bool" where
  "undisturbed env \<longleftrightarrow> be_others env = (\<lambda>k w. w)"

definition kept :: "board_world \<Rightarrow> board_world \<Rightarrow> bool" where
  "kept w w' \<longleftrightarrow> bw_store w' = bw_store w \<and> bw_boards w' = bw_boards w \<and> bw_log w' = bw_log w"

interpretation unmoved: guarantee kept
  by unfold_locales (auto simp: kept_def)

lemma unmoved_pause: "undisturbed env \<Longrightarrow> unmoved.keeps (bpause env)"
  unfolding bpause_def by (rule unmoved.keeps_modify) (simp add: undisturbed_def kept_def)

lemma unmoved_call: "undisturbed env \<Longrightarrow> unmoved.keeps m \<Longrightarrow> unmoved.keeps (board_call env m)"
  unfolding board_call_def
  by (intro unmoved.keeps_next unmoved.keeps_andThen unmoved.keeps_gets unmoved_pause unmoved.keeps_option
      unmoved.keeps_throw unmoved.keeps_ret)

lemma unmoved_git: "undisturbed env \<Longrightarrow> unmoved.keeps (git_async env args cwd)"
  unfolding git_async_def by (intro unmoved.keeps_next unmoved.keeps_andThen unmoved.keeps_gets unmoved_pause unmoved.keeps_ret)

lemma unmoved_git_sync: "unmoved.keeps (git_sync env args cwd)"
  unfolding git_sync_def by (rule unmoved.keeps_gets)

lemmas unmoved_rules = unmoved.keeps_ret unmoved.keeps_throw unmoved.keeps_gets unmoved.keeps_andThen unmoved.keeps_next
  unmoved.keeps_if unmoved.keeps_option unmoved_call unmoved_git unmoved_git_sync

lemma unmoved_reads:
  assumes "undisturbed env"
  shows "unmoved.keeps (card_get env k)" "unmoved.keeps (board_get env b)" "unmoved.keeps (artifacts_of env c a)"
    "unmoved.keeps (worktree_get env i)" "unmoved.keeps (codebase_get env i)" "unmoved.keeps (codebase_default env ws)"
    "unmoved.keeps (codebase_by_path env ws path)"
  unfolding card_get_def board_get_def artifacts_of_def worktree_get_def codebase_get_def codebase_default_def
    codebase_by_path_def
  by (intro unmoved_rules assms)+

lemma unmoved_artifacts: "undisturbed env \<Longrightarrow> unmoved.keeps (missing_artifacts env c as)"
  by (induction as) (auto intro!: unmoved_rules unmoved_reads)

lemma unmoved_repo_checks:
  assumes "undisturbed env"
  shows "unmoved.keeps (isGitRepositoryAsync env d)" "unmoved.keeps (isBareGitRepositoryAsync env d)"
    "unmoved.keeps (hasGitRef env d r)" "unmoved.keeps (isRefAncestorAsync env d r q)"
  unfolding isGitRepositoryAsync_def isBareGitRepositoryAsync_def hasGitRef_def isRefAncestorAsync_def
  by (intro unmoved_rules assms)+

lemma unmoved_supports: "undisturbed env \<Longrightarrow> unmoved.keeps (supportsGitWorktreeOperations env d)"
  unfolding supportsGitWorktreeOperations_def by (intro unmoved_rules unmoved_repo_checks)

lemma unmoved_authored: "undisturbed env \<Longrightarrow> unmoved.keeps (authored_loop env d ls)"
  by (induction ls) (auto simp: Let_def intro!: unmoved_rules unmoved_repo_checks)

lemma unmoved_own_commits: "undisturbed env \<Longrightarrow> unmoved.keeps (hasBranchAuthoredCommitsOnHeadAsync env d b f)"
  unfolding hasBranchAuthoredCommitsOnHeadAsync_def Let_def
  by (intro unmoved_rules unmoved_repo_checks unmoved_authored)

lemma unmoved_first_ref: "undisturbed env \<Longrightarrow> unmoved.keeps (first_ref env d cs)"
  by (induction cs) (auto intro!: unmoved_rules unmoved_repo_checks)

lemma unmoved_landed: "undisturbed env \<Longrightarrow> unmoved.keeps (resolveLandedOnBase env d r b)"
  unfolding resolveLandedOnBase_def by (intro unmoved_rules unmoved_repo_checks)

lemma unmoved_delivery_status: "undisturbed env \<Longrightarrow> unmoved.keeps (getRepoDeliveryStatusAsync env d b st su)"
  unfolding getRepoDeliveryStatusAsync_def getCurrentBranchAsync_def getRepoStatusAsync_def getRemoteUrlAsync_def
    resolveBaseRef_def Let_def
  by (intro unmoved_rules unmoved_supports unmoved_first_ref unmoved_landed)

lemma unmoved_truth: "undisturbed env \<Longrightarrow> unmoved.keeps (resolveTaskWorktreeTruth env t pref)"
proof -
  assume a: "undisturbed env"
  have d: "unmoved.keeps (default_truth env ws)" for ws
    unfolding default_truth_def by (intro unmoved_rules unmoved_reads a)
  have c: "unmoved.keeps (codebase_truth env ws ids)" for ws ids
    unfolding codebase_truth_def by (cases ids) (auto intro!: unmoved_rules unmoved_reads a d)
  have r: "unmoved.keeps (repo_path_truth env ws ids path)" for ws ids path
    unfolding repo_path_truth_def Let_def by (intro unmoved_rules unmoved_reads a c)
  show ?thesis
    unfolding resolveTaskWorktreeTruth_def Let_def by (intro unmoved_rules unmoved_reads a r)
qed

lemma unmoved_readiness: "undisturbed env \<Longrightarrow> unmoved.keeps (buildTaskDeliveryReadiness env t)"
  unfolding buildTaskDeliveryReadiness_def checked_readiness_def Let_def
  by (intro unmoved_rules unmoved_truth unmoved_repo_checks unmoved_delivery_status unmoved_own_commits)

lemma unmoved_note: "unmoved.keeps (append_note env t body m)"
  unfolding append_note_def fresh_id_def
  by (intro unmoved_rules unmoved.keeps_modify) (simp add: kept_def)

lemma unmoved_commits: "unmoved.keeps (commits_loop env d ls)"
proof (induction ls)
  case (Cons l ls)
  have "unmoved.keeps (commit_of env d parts)" for parts
    unfolding commit_of_def Let_def by (auto intro!: unmoved_rules split: list.split)
  with Cons show ?case by (auto intro!: unmoved_rules)
qed (simp add: unmoved_rules)

lemma unmoved_snapshot: "unmoved.keeps (with_snapshot env p f t r)"
  unfolding with_snapshot_def captureTaskDeliverySnapshot_def getRepoRefSha_def getRepoCommitChanges_def Let_def
  by (intro unmoved_rules unmoved_commits)

section \<open>Refused moves\<close>

definition noted :: "board_world \<Rightarrow> board_world \<Rightarrow> bool" where
  "noted w w' \<longleftrightarrow> bw_boards w' = bw_boards w
     \<and> (\<forall>k. rel_option same_place (om_get (bw_store w) k) (om_get (bw_store w') k))
     \<and> (\<exists>es. bw_log w' = bw_log w @ es \<and> (\<forall>x \<in> set es. \<exists>ws i. x = BoardNotice ws NeTask NaUpdated (Some i)))"

lemma kept_noted: "kept w w1 \<Longrightarrow> noted w1 w' \<Longrightarrow> noted w w'"
  by (auto simp: kept_def noted_def)

lemma noted_refl: "noted w w"
  by (auto simp: noted_def option.rel_refl same_place_refl)

lemma kept_is_noted: "kept w w' \<Longrightarrow> noted w w'"
  using kept_noted noted_refl by blast

text \<open>The card a call works on, against the store.\<close>

definition card_is :: "task \<Rightarrow> board_world \<Rightarrow> bool" where
  "card_is t w \<longleftrightarrow> (\<exists>row. om_get (bw_store w) (tk_id t) = Some row \<and> same_place row t)"

lemma card_is_kept: "card_is t w \<Longrightarrow> kept w w' \<Longrightarrow> card_is t w'"
  by (simp add: card_is_def kept_def)

lemma card_is_same: "card_is t w \<Longrightarrow> same_place t t2 \<Longrightarrow> card_is t2 w"
  unfolding card_is_def by (metis same_place_def same_place_trans)

lemma save_noted_noted:
  assumes "undisturbed env" and "card_is t w" and "save_noted env t w = (w', Inr x)"
  shows "noted w w'"
proof -
  define t2 where "t2 = t\<lparr>tk_updatedAt := bnow env w\<rparr>"
  have same: "same_place t t2" by (simp add: t2_def same_place_def)
  from assms(3) obtain n s where store: "bw_store w' = store_save n (bw_store w) t2"
    and boards: "bw_boards w' = bw_boards w"
    and log: "bw_log w' = bw_log w @ [BoardNotice (tk_workspaceId t) NeTask NaUpdated (Some (tk_id t))]"
    using assms(1) unfolding save_noted_def t2_def
    by (auto simp: run_returns card_save_def board_call_def bpause_def undisturbed_def notifyWorkspaceChanged_def board_note_def
        split: option.splits)
  obtain row where row: "om_get (bw_store w) (tk_id t) = Some row" "same_place row t"
    using assms(2) by (auto simp: card_is_def)
  obtain row' where row': "om_get (bw_store w') (tk_id t2) = Some row'" "same_place t2 row'"
    using row_after_save [of n "bw_store w" t2] by (auto simp: store)
  have "rel_option same_place (om_get (bw_store w) k) (om_get (bw_store w') k)" for k
  proof (cases "k = tk_id t")
    case True
    then have "same_place row row'" using row(2) same row'(2) same_place_trans by blast
    then show ?thesis using True row(1) row'(1) by (simp add: t2_def)
  next
    case False
    then have "om_get (bw_store w') k = om_get (bw_store w) k"
      using saved_others [of k t2 n "bw_store w"] by (simp add: store t2_def)
    then show ?thesis by (simp add: option.rel_refl same_place_refl)
  qed
  then show ?thesis using boards log by (auto simp: noted_def)
qed

lemma note_place: "append_note env t body m w = (w', Inr t') \<Longrightarrow> same_place t t'"
  by (auto simp: append_note_def run_returns same_place_def fresh_id_def)

lemma block_noted:
  assumes "undisturbed env" and "card_is t w" and "recordTaskMoveBlockComment env t msg sid w = (w', Inr x)"
  shows "noted w w'"
proof (cases "recordTaskMoveBlockComment env t msg sid = ret ()")
  case True
  then show ?thesis using assms(3) by (simp add: run_returns noted_refl)
next
  case False
  let ?t = "t\<lparr>tk_comment := Some (appendTaskComment (tk_comment t) (block_note msg))\<rparr>"
  obtain w1 t1 where n: "append_note env ?t (block_note msg) (note_metadata sid) w = (w1, Inr t1)"
    and s: "save_noted env t1 w1 = (w', Inr x)"
    using assms(3) False by (auto simp: recordTaskMoveBlockComment_def run_returns Let_def split: if_splits)
  have "kept w w1" using unmoved.keeps_step [OF unmoved_note n] .
  moreover have "same_place t t1"
    using note_place [OF n] by (simp add: same_place_def)
  ultimately show ?thesis
    using save_noted_noted [OF assms(1) _ s] card_is_kept card_is_same assms(2) kept_noted by blast
qed

lemma contract_noted:
  assumes "undisturbed env" and "card_is t w" and "recordTaskContractGateFailure env t msg name n sid w = (w', Inr x)"
  shows "noted w w'"
proof -
  let ?t = "t\<lparr>tk_comment := Some (appendTaskComment (tk_comment t) (buildContractGateNote msg))\<rparr>"
  obtain w1 t1 where n: "append_note env ?t (buildContractGateNote msg) (note_metadata sid) w = (w1, Inr t1)"
    and s: "save_noted env (contract_loop_breaker name n t1) w1 = (w', Inr x)"
    using assms(3) by (auto simp: recordTaskContractGateFailure_def run_returns Let_def)
  have "kept w w1" using unmoved.keeps_step [OF unmoved_note n] .
  moreover have "same_place t (contract_loop_breaker name n t1)"
    using note_place [OF n] by (simp add: same_place_def contract_loop_breaker_def Let_def)
  ultimately show ?thesis
    using save_noted_noted [OF assms(1) _ s] card_is_kept card_is_same assms(2) kept_noted by blast
qed

text \<open>Each stage of a move that ends in an error.\<close>

lemma put_in_column_no_error: "put_in_column env p t res cs f c rr w \<noteq> (w', Inr (errorResult e))"
  by (auto simp: put_in_column_def run_returns Let_def)

lemma finish_no_error: "finish_move env p t res cs f c rr w \<noteq> (w', Inr (errorResult e))"
  by (auto simp: finish_move_def run_returns put_in_column_no_error)

lemma rerun_noted:
  assumes "undisturbed env" and "card_is t w" and "rerun_or_move env p t res cs f c w = (w', Inr (errorResult e))"
  shows "noted w w'"
proof -
  obtain msg x where "recordTaskMoveBlockComment env (t\<lparr>tk_lastSyncError := Some msg\<rparr>) msg (tk_triggerSessionId t) w = (w', Inr x)"
    using assms(3) by (auto simp: rerun_or_move_def run_returns finish_no_error Let_def split: if_splits)
  moreover have "same_place t (t\<lparr>tk_lastSyncError := Some msg\<rparr>)" by (simp add: same_place_def)
  ultimately show ?thesis using block_noted [OF assms(1)] card_is_same assms(2) by blast
qed

lemma snapshot_kept_place:
  assumes "with_snapshot env p f t r w = (w', Inr t')" and "f = mv_targetColumnId p"
  shows "t' = t"
  using assms by (auto simp: with_snapshot_def run_returns split: option.splits)

lemma gated_noted:
  assumes env: "undisturbed env" and r: "card_is t w" and c: "kc_id column = mv_targetColumnId p"
    and run: "gated_move env p t cs column readiness w = (w', Inr (errorResult e))"
  shows "noted w w'"
proof (cases "\<not> gr_passed (evaluateKanbanTransitionGates t (Some column)) \<and> gr_blocking (evaluateKanbanTransitionGates t (Some column))")
  case True
  then show ?thesis using run by (simp add: gated_move_def Let_def run_returns noted_refl)
next
  case False
  define warn where "warn = (if gr_passed (evaluateKanbanTransitionGates t (Some column)) then ret t
    else append_note env t (formatKanbanTransitionGateWarning (evaluateKanbanTransitionGates t (Some column)) (kc_name column))
      \<lparr>cm_agentId = None, cm_sessionId = tk_triggerSessionId t, cm_source = Some (Some UpdateCard)\<rparr>)"
  from run False obtain w1 t1 w2 t2 where warned: "warn w = (w1, Inr t1)"
    and snap: "with_snapshot env p (from_column t) t1 readiness w1 = (w2, Inr t2)"
    and rerun: "rerun_or_move env p t2 (resolution_after t (mv_targetColumnId p)) cs (from_column t) column w2
      = (w', Inr (errorResult e))"
    by (auto simp: gated_move_def warn_def Let_def run_returns)
  have "kept w w1" and place: "same_place t t1"
    using warned unmoved.keeps_step [OF unmoved_note] note_place
    by (auto simp: warn_def run_returns same_place_refl kept_def split: if_splits)
  moreover have "kept w1 w2" using unmoved.keeps_step [OF unmoved_snapshot snap] .
  ultimately have kept: "kept w w2" by (simp add: kept_def)
  have "isReviewLaneRerunMove (from_column t) column"
    using rerun by (auto simp: rerun_or_move_def finish_no_error split: if_splits)
  then have "from_column t = mv_targetColumnId p" using c by (simp add: isReviewLaneRerunMove_def)
  then have "t2 = t1" using snapshot_kept_place [OF snap] by simp
  then have "card_is t2 w2" using r kept place card_is_kept card_is_same by blast
  then show ?thesis using rerun_noted [OF env _ rerun] kept kept_noted by blast
qed

lemma delivered_noted:
  assumes env: "undisturbed env" and r: "card_is t w" and c: "kc_id column = mv_targetColumnId p"
    and run: "delivered_move env p t cs column w = (w', Inr (errorResult e))"
  shows "noted w w'"
proof (cases "be_compatible env")
  case True
  from run obtain w1 d where d: "buildTaskDeliveryReadiness env
        (t\<lparr>tk_attentionResolution := resolution_after t (mv_targetColumnId p)\<rparr>) w = (w1, Inr d)"
    and rest: "(case buildTaskDeliveryTransitionErrorFromRules d (kc_name column)
               (column_delivery column) (Some (stage_str (kc_stage column))) of
          Some deliveryError \<Rightarrow>
            next_do (recordTaskMoveBlockComment env t deliveryError (tk_triggerSessionId t))
              (ret (errorResult deliveryError))
        | None \<Rightarrow> gated_move env p t cs column (Some d)) w1 = (w', Inr (errorResult e))"
    using True by (auto simp: delivered_move_def run_returns)
  have kept: "kept w w1" using unmoved.keeps_step [OF unmoved_readiness [OF env] d] .
  with r have "card_is t w1" by (rule card_is_kept)
  then have "noted w1 w'"
    using rest env c block_noted gated_noted by (auto simp: run_returns split: option.splits)
  with kept show ?thesis by (rule kept_noted)
next
  case False
  then show ?thesis using run env r c gated_noted by (simp add: delivered_move_def)
qed

lemma contracted_noted:
  assumes env: "undisturbed env" and r: "card_is t w" and c: "kc_id column = mv_targetColumnId p"
    and run: "contracted_move env p t cs column w = (w', Inr (errorResult e))"
  shows "noted w w'"
  using run env r c contract_noted delivered_noted
  by (auto simp: contracted_move_def Let_def run_returns split: option.splits)

lemma checked_noted:
  assumes env: "undisturbed env" and r: "card_is t w" and c: "kc_id column = mv_targetColumnId p"
    and run: "checked_move env p t cs column w = (w', Inr (errorResult e))"
  shows "noted w w'"
proof (cases "lane_block t cs (mv_targetColumnId p)")
  case None
  from run None obtain w1 missing where m: "(if be_hasArtifacts env
          then missing_artifacts env (tk_id t) (required_artifacts column) else ret []) w = (w1, Inr missing)"
    and rest: "(if length missing > 0 then ret (errorResult (artifacts_error (kc_name column) missing))
            else (case fields_error (be_yaml env) t cs column of
                Some message \<Rightarrow> ret (errorResult message)
              | None \<Rightarrow> contracted_move env p t cs column)) w1 = (w', Inr (errorResult e))"
    by (auto simp: checked_move_def run_returns)
  have kept: "kept w w1"
    using m unmoved.keeps_step [OF unmoved_artifacts [OF env]] by (auto simp: run_returns kept_def split: if_splits)
  with r have "card_is t w1" by (rule card_is_kept)
  then have "noted w1 w'"
    using rest env c contracted_noted noted_refl by (auto simp: run_returns split: option.splits if_splits)
  with kept show ?thesis by (rule kept_noted)
next
  case (Some msg)
  then show ?thesis using run by (simp add: checked_move_def run_returns noted_refl)
qed

lemma move_run:
  assumes "card_get env (mv_cardId p) w = (w1, Inr (Some t))" and "truthy (tk_boardId t)"
    and "board_get env (the (tk_boardId t)) w1 = (w2, Inr board)"
  shows "moveCard env p w =
    (case board of
       None \<Rightarrow> (w2, Inr (errorResult (''Board not found: '' @ the (tk_boardId t))))
     | Some b \<Rightarrow>
         (case List.find (\<lambda>c. kc_id c = mv_targetColumnId p) (kb_columns b) of
            None \<Rightarrow> (w2, Inr (errorResult (''Column not found: '' @ mv_targetColumnId p)))
          | Some targetColumn \<Rightarrow> checked_move env p t (kb_columns b) targetColumn w2))"
  using assms by (simp add: moveCard_def run_andThen run_ret split: option.split)

text \<open>C16. A refused move leaves every card where it is: when no other call runs meanwhile and the store keeps each card under its own id, a move that answers with an error keeps the column, the status, the position, the description, the session, the verdict, the reports, the conclusion and the frozen commits of every card, keeps the boards, and tells the views nothing but an update of a card; it announces no transition. Only comments, labels and the last error of a card can have changed.\<close>
theorem refused_move_keeps_the_card:
  assumes "be_others env = (\<lambda>k w. w)"
    and "\<forall>k t. om_get (bw_store w) k = Some t \<longrightarrow> tk_id t = k"
    and "moveCard env p w = (w', Inr (errorResult e))"
  shows "(\<forall>k. rel_option same_place (om_get (bw_store w) k) (om_get (bw_store w') k))
    \<and> bw_boards w' = bw_boards w
    \<and> (\<exists>es. bw_log w' = bw_log w @ es \<and> (\<forall>x \<in> set es. \<exists>ws i. x = BoardNotice ws NeTask NaUpdated (Some i)))"
proof -
  have env: "undisturbed env" using assms(1) by (simp add: undisturbed_def)
  from assms(3) obtain w1 found where found: "card_get env (mv_cardId p) w = (w1, Inr found)"
    by (auto simp: moveCard_def run_returns)
  have k1: "kept w w1" using unmoved.keeps_step [OF unmoved_reads(1) [OF env] found] .
  have "noted w1 w'"
  proof (cases found)
    case None
    then show ?thesis using assms(3) found by (auto simp: moveCard_def run_returns noted_refl)
  next
    case (Some t)
    have r: "card_is t w1"
    proof -
      obtain row n where "om_get (bw_store w) (mv_cardId p) = Some row" "t = hydrateTask n row"
        using found Some env
        by (auto simp: card_get_def board_call_def bpause_def undisturbed_def run_returns store_get_def
            dest!: sym [of "Some t"] split: option.splits)
      moreover from this have "tk_id t = mv_cardId p"
        using assms(2) hydrate_place [of row n] by (auto simp: same_place_def)
      ultimately show ?thesis using k1 hydrate_place by (auto simp: card_is_def kept_def)
    qed
    show ?thesis
    proof (cases "truthy (tk_boardId t)")
      case True
      with assms(3) found Some obtain w2 board where board: "board_get env (the (tk_boardId t)) w1 = (w2, Inr board)"
        by (auto simp: moveCard_def run_returns)
      note run = move_run [OF found [unfolded Some] True board]
      have k2: "kept w1 w2" using unmoved.keeps_step [OF unmoved_reads(2) [OF env] board] .
      with r have r2: "card_is t w2" by (rule card_is_kept)
      have "noted w2 w'"
      proof (cases "\<exists>b c. board = Some b \<and> List.find (\<lambda>c. kc_id c = mv_targetColumnId p) (kb_columns b) = Some c")
        case True
        then obtain b c where bc: "board = Some b" "List.find (\<lambda>c. kc_id c = mv_targetColumnId p) (kb_columns b) = Some c"
          by blast
        then have "kc_id c = mv_targetColumnId p" by (blast dest: find_Some_iff_set)
        moreover have "checked_move env p t (kb_columns b) c w2 = (w', Inr (errorResult e))"
          using run bc assms(3) by simp
        ultimately show ?thesis using checked_noted [OF env r2] by blast
      next
        case False
        then have "w' = w2" using run assms(3) by (auto split: option.splits)
        then show ?thesis by (simp add: noted_refl)
      qed
      with k2 show ?thesis by (rule kept_noted)
    next
      case False
      then show ?thesis using assms(3) found Some by (auto simp: moveCard_def run_returns noted_refl)
    qed
  qed
  with k1 have "noted w w'" by (rule kept_noted)
  then show ?thesis by (auto simp: noted_def)
qed

section \<open>A refused move and other calls\<close>

text \<open>One other call, at one await, that does anything to the cards.\<close>

definition disturbed_at :: "nat \<Rightarrow> (task_store \<Rightarrow> task_store) \<Rightarrow> board_env \<Rightarrow> bool" where
  "disturbed_at n f env \<longleftrightarrow>
     be_others env = (\<lambda>k u. if k = n then u\<lparr>bw_store := f (bw_store u)\<rparr> else u) \<and> (\<forall>k. be_storeFails env k = None)"

definition after_await :: "nat \<Rightarrow> (task_store \<Rightarrow> task_store) \<Rightarrow> board_world \<Rightarrow> task_store" where
  "after_await n f w = (if bw_awaits w = n then f (bw_store w) else bw_store w)"

lemma pause_run:
  assumes "disturbed_at n f env"
  shows "bpause env w = (w\<lparr>bw_store := after_await n f w, bw_awaits := Suc (bw_awaits w)\<rparr>, Inr ())"
proof -
  have "be_others env (bw_awaits w) (w\<lparr>bw_awaits := Suc (bw_awaits w)\<rparr>)
      = w\<lparr>bw_store := after_await n f w, bw_awaits := Suc (bw_awaits w)\<rparr>"
    using assms by (cases w) (simp add: disturbed_at_def after_await_def)
  then show ?thesis by (simp add: bpause_def run_simps)
qed

lemma call_run:
  assumes d: "disturbed_at n f env" and m: "\<And>s k. m (w\<lparr>bw_store := s, bw_awaits := k\<rparr>) = (w\<lparr>bw_store := s, bw_awaits := k\<rparr>, Inr (g s k))"
  shows "\<exists>s. board_call env m w = (w\<lparr>bw_store := s, bw_awaits := Suc (Suc (bw_awaits w))\<rparr>,
      Inr (g (after_await n f w) (Suc (bw_awaits w))))"
proof -
  let ?w1 = "w\<lparr>bw_store := after_await n f w, bw_awaits := Suc (bw_awaits w)\<rparr>"
  have quiet: "be_storeFails env k = None" for k using d by (simp add: disturbed_at_def)
  have "bpause env ?w1 = (w\<lparr>bw_store := after_await n f ?w1, bw_awaits := Suc (Suc (bw_awaits w))\<rparr>, Inr ())"
    by (cases w) (simp add: pause_run [OF d])
  then have "board_call env m w = (w\<lparr>bw_store := after_await n f ?w1, bw_awaits := Suc (Suc (bw_awaits w))\<rparr>,
      Inr (g (after_await n f w) (Suc (bw_awaits w))))"
    by (simp add: board_call_def run_simps pause_run [OF d, of w] quiet m)
  then show ?thesis by blast
qed

lemma card_get_run:
  assumes "disturbed_at n f env" and "bw_awaits w \<noteq> n" and "om_get (bw_store w) k = Some row"
  shows "\<exists>s iso. card_get env k w = (w\<lparr>bw_store := s, bw_awaits := Suc (Suc (bw_awaits w))\<rparr>, Inr (Some (hydrateTask iso row)))"
proof -
  have "gets (\<lambda>w. store_get (biso env w) (bw_store w) k) (w\<lparr>bw_store := s, bw_awaits := i\<rparr>)
      = (w\<lparr>bw_store := s, bw_awaits := i\<rparr>, Inr (store_get (biso env (w\<lparr>bw_store := s, bw_awaits := i\<rparr>)) s k))" for s i
    by (simp add: run_gets)
  from call_run [OF assms(1) this] show ?thesis
    using assms(2,3) by (auto simp: card_get_def store_get_def after_await_def)
qed

lemma board_get_run:
  assumes "disturbed_at n f env"
  shows "\<exists>s. board_get env k w = (w\<lparr>bw_store := s, bw_awaits := Suc (Suc (bw_awaits w))\<rparr>, Inr (om_get (bw_boards w) k))"
proof -
  let ?m = "\<lambda>w. map_option (\<lambda>b. b\<lparr>kb_columns := cloneKanbanColumns (kb_columns b)\<rparr>) (om_get (bw_boards w) k)"
  have "gets ?m (w\<lparr>bw_store := s, bw_awaits := i\<rparr>)
      = (w\<lparr>bw_store := s, bw_awaits := i\<rparr>, Inr (?m w))" for s i
    by (simp add: run_gets)
  from call_run [OF assms this] show ?thesis
    by (auto simp: board_get_def option.map_ident)
qed

lemma card_save_run:
  assumes "disturbed_at n f env" and "Suc (bw_awaits w) \<noteq> n"
  shows "\<exists>w'. card_save env t w = (w', Inr ()) \<and> (\<exists>row. om_get (bw_store w') (tk_id t) = Some row \<and> same_place t row)"
  using assms row_after_save [of _ _ t]
  by (auto simp: card_save_def board_call_def bpause_def disturbed_at_def run_simps)

lemma save_noted_run:
  assumes "disturbed_at n f env" and "Suc (bw_awaits w) \<noteq> n"
  shows "\<exists>w'. save_noted env t w = (w', Inr ()) \<and> (\<exists>row. om_get (bw_store w') (tk_id t) = Some row \<and> same_place t row)"
proof -
  define t2 where "t2 = t\<lparr>tk_updatedAt := bnow env w\<rparr>"
  obtain w' row where "card_save env t2 w = (w', Inr ())" "om_get (bw_store w') (tk_id t2) = Some row" "same_place t2 row"
    using card_save_run [OF assms] by blast
  then show ?thesis
    by (auto simp: save_noted_def run_simps notifyWorkspaceChanged_def board_note_def t2_def [symmetric])
      (simp_all add: t2_def same_place_def)
qed

text \<open>C39. A refused move takes back what another call did to the card while it waited. The card has no canonical story and the target column requires one; whatever another call does to the cards at one of the awaits between reading the card and saving it (also when it moves the card, finishes it or changes its description), the move answers with an error, and the card is then stored in the column, with the status, the description, the session and the verdict it had when the refused move began.\<close>
theorem refused_move_undoes_other_changes:
  assumes "disturbed_at n f env" and "n \<in> {1, 2, 3, 4}" and "bw_awaits w = 0"
    and "om_get (bw_store w) (mv_cardId p) = Some row" and "tk_id row = mv_cardId p"
    and "tk_boardId row = Some boardId" and "boardId \<noteq> []" and "tk_triggerSessionId row = None"
    and "om_get (bw_boards w) boardId = Some b"
    and "List.find (\<lambda>c. kc_id c = mv_targetColumnId p) (kb_columns b) = Some column"
    and "required_artifacts column = []"
    and "resolveTargetRequiredTaskFields (kb_columns b) (Some (kc_id column)) = []"
    and "hasContractRules (column_contract column)"
    and "cp_story (parseCanonicalStory (be_yaml env) (Some (tk_objective row))) = None"
  shows "\<exists>w' e row'. moveCard env p w = (w', Inr (errorResult e))
    \<and> om_get (bw_store w') (mv_cardId p) = Some row' \<and> same_place row row'"
proof -
  obtain s1 iso where get: "card_get env (mv_cardId p) w = (w\<lparr>bw_store := s1, bw_awaits := 2\<rparr>, Inr (Some (hydrateTask iso row)))"
    using card_get_run [OF assms(1) _ assms(4)] assms(2,3) by (auto simp: numeral_2_eq_2)
  define w1 where "w1 = w\<lparr>bw_store := s1, bw_awaits := 2\<rparr>"
  define t where "t = hydrateTask iso row"
  have place: "same_place row t" unfolding t_def by (rule hydrate_place)
  obtain s2 where brd: "board_get env boardId w1 = (w1\<lparr>bw_store := s2, bw_awaits := 4\<rparr>, Inr (Some b))"
    using board_get_run [OF assms(1), of boardId w1] assms(9) by (auto simp: w1_def eval_nat_numeral)
  define w2 where "w2 = w1\<lparr>bw_store := s2, bw_awaits := 4\<rparr>"
  have tid: "tk_boardId t = Some boardId" "tk_objective t = tk_objective row" "tk_triggerSessionId t = None" "tk_id t = mv_cardId p"
    using place assms(5,6,8) by (simp_all add: same_place_def)
  have truthy: "truthy (tk_boardId t)" using tid assms(7) by simp
  have "the (tk_boardId t) = boardId" using tid by simp
  with brd have brd': "board_get env (the (tk_boardId t)) w1 = (w2, Inr (Some b))" by (simp add: w2_def)
  have run: "moveCard env p w = checked_move env p t (kb_columns b) column w2"
    using move_run [OF get [folded w1_def t_def] truthy brd'] assms(10) by simp
  have lane: "lane_block t (kb_columns b) (mv_targetColumnId p) = None"
    using tid(3) by (simp add: lane_block_def resolveRemainingLaneStepsMoveBlock_def)
  have flds: "fields_error (be_yaml env) t (kb_columns b) column = None"
    using assms(12) by (simp add: fields_error_def)
  define readiness where "readiness = buildTaskContractReadiness (be_yaml env) (tk_objective t) (tk_comments t) (column_contract column)"
  obtain err where err: "buildTaskContractTransitionErrorFromRules readiness (kc_name column) (column_contract column) = Some err"
    using contract_error_None [of "be_yaml env" "tk_objective t" "tk_comments t" "column_contract column" "kc_name column"]
      assms(13,14) tid(2) by (auto simp: readiness_def)
  have checked: "checked_move env p t (kb_columns b) column w2 = contracted_move env p t (kb_columns b) column w2"
    using lane flds assms(11) by (simp add: checked_move_def run_simps)
  obtain w3 t3 where added: "append_note env (t\<lparr>tk_comment := Some (appendTaskComment (tk_comment t) (buildContractGateNote err))\<rparr>)
      (buildContractGateNote err) (note_metadata (tk_triggerSessionId t)) w2 = (w3, Inr t3)"
    and w3: "bw_awaits w3 = 4"
    by (auto simp: append_note_def fresh_id_def run_simps w2_def)
  define t4 where "t4 = contract_loop_breaker (kc_name column) (tr_loopBreakerThreshold readiness) t3"
  have place4: "same_place t t4"
    using note_place [OF added] by (simp add: t4_def same_place_def contract_loop_breaker_def Let_def)
  obtain w4 row' where save: "save_noted env t4 w3 = (w4, Inr ())" "om_get (bw_store w4) (tk_id t4) = Some row'" "same_place t4 row'"
    using save_noted_run [OF assms(1), of w3 t4] w3 assms(2) by auto
  have "contracted_move env p t (kb_columns b) column w2 = (w4, Inr (errorResult err))"
    using err added save(1)
    by (simp add: contracted_move_def readiness_def [symmetric] Let_def recordTaskContractGateFailure_def run_simps t4_def [symmetric])
  moreover have "same_place row row'"
    using place place4 save(3) same_place_trans by blast
  moreover have "tk_id t4 = mv_cardId p" using place4 tid(4) by (simp add: same_place_def)
  ultimately show ?thesis using run checked save(2) by auto
qed

end
