(* ===== verification/MoveWitnesses.thy ===== *)
theory MoveWitnesses
  imports MoveRefused LaneAutomationProps
begin

text \<open>
  A concrete board with the columns Backlog, Todo and Dev. Todo asks for the canonical story, Dev for the
  output of a validator and a clean worktree. The theorems about the gates and the moves are applied to it.
\<close>

definition story_rules :: contract_rules where
  "story_rules = \<lparr>cr_requireCanonicalStory = Some True, cr_loopBreakerThreshold = None\<rparr>"

definition clean_rules :: delivery_rules where
  "clean_rules = \<lparr>dr_requireCommittedChanges = None, dr_requireCleanWorktree = Some True, dr_requirePullRequestReady = None\<rparr>"

definition todo_column :: kanban_column where
  "todo_column = (default_column ''todo'' ''Todo'' ''sky'' 1 StTodo)
     \<lparr>kc_automation := Some ((sample_automation [])\<lparr>ca_contractRules := Some story_rules\<rparr>)\<rparr>"

definition dev_column :: kanban_column where
  "dev_column = (default_column ''dev'' ''Dev'' ''amber'' 2 StDev)
     \<lparr>kc_automation := Some ((sample_automation [])\<lparr>ca_validatorCommand := Some ''npm test''\<rparr>)\<rparr>"

definition gate_columns :: "kanban_column list" where
  "gate_columns = [default_column ''backlog'' ''Backlog'' ''slate'' 0 StBacklog, todo_column, dev_column]"

definition gate_board :: kanban_board where
  "gate_board = \<lparr>kb_id = ''b'', kb_workspaceId = ''w'', kb_name = ''Board'', kb_isDefault = True,
     kb_githubToken = None, kb_columns = gate_columns, kb_createdAt = 0, kb_updatedAt = 0\<rparr>"

definition plain_card :: task where
  "plain_card = (createTask concrete_host 0 ''c1'' (sample_params\<lparr>tp_jitContextSnapshot := None\<rparr>))
     \<lparr>tk_boardId := Some ''b'', tk_columnId := Some ''backlog'', tk_codebaseIds := [''cb'']\<rparr>"


definition repo_row :: codebase_row where
  "repo_row = \<lparr>cw_id = ''cb'', cw_workspaceId = ''w'', cw_repoPath = ''/repo'', cw_branch = Some ''main'', cw_isDefault = True,
     cw_sourceType = None, cw_sourceUrl = None\<rparr>"

definition board_with :: "task \<Rightarrow> board_world" where
  "board_with t = \<lparr>bw_store = [(''t'', t)], bw_boards = [(''b'', gate_board)], bw_artifacts = [], bw_worktrees = [],
     bw_codebases = [(''cb'', repo_row)], bw_ids = 0, bw_awaits = 0, bw_log = []\<rparr>"

text \<open>A repository in which \<open>git\<close> answers nothing but the questions whether it is one and where its branches are.\<close>

definition locked_git :: "nat \<Rightarrow> string \<Rightarrow> string list \<Rightarrow> string option" where
  "locked_git k cwd args =
     (if args = [''rev-parse'', ''--git-dir''] then Some ''.git''
      else if args = [''rev-parse'', ''--is-bare-repository''] then Some ''false'' else None)"

definition board_quiet :: board_env where
  "board_quiet = \<lparr>be_host = concrete_host, be_yaml = sample_yaml, be_now = int, be_uuid = show_nat, be_others = (\<lambda>k w. w),
     be_storeFails = (\<lambda>k. None), be_git = locked_git, be_hasBus = True, be_hasArtifacts = False,
     be_compatible = False\<rparr>"

definition to_todo :: move_params where
  "to_todo = \<lparr>mv_cardId = ''t'', mv_targetColumnId = ''todo'', mv_position = None\<rparr>"

section \<open>The guard and the gates\<close>

lemma happy_backlog: "getNextHappyPathColumnId (Some (orDefault (Some ''backlog'') ''backlog'')) = Some ''todo''"
  by code_simp

lemma find_todo: "List.find (\<lambda>c. kc_id c = ''todo'') gate_columns = Some todo_column"
  by code_simp

lemma story_found: "cp_story (parseCanonicalStory sample_yaml (Some sample_description)) \<noteq> None"
  using sample_story_parsed by simp

theorem accepted_description_passes_the_gate_witness:
  "buildTaskContractTransitionErrorFromRules
     (buildTaskContractReadiness sample_yaml sample_description [] (contract_rules_of (Some todo_column)))
     ''Todo'' (contract_rules_of (Some todo_column)) = None"
proof -
  have gate: "resolveCurrentOrNextContractGate gate_columns (Some ''backlog'') = Some (''Todo'', story_rules)"
    and stage: "resolveTaskColumnStage (Some ''b'') (Some ''backlog'') (Some gate_columns) = Some StBacklog"
    by code_simp+
  have "buildTaskContractUpdateErrorFromRules (buildTaskContractReadiness sample_yaml sample_description [] (Some story_rules))
      ''Todo'' (Some story_rules) = None"
    by (rule update_error_None [THEN iffD2]) (simp_all add: story_found hasContractRules_def story_rules_def)
  then have "gd_error (evaluateTaskDescriptionWriteGuard sample_yaml (Some ''b'') (Some ''backlog'') sample_description
      (Some gate_columns)) = None"
    by (simp add: evaluateTaskDescriptionWriteGuard_def stage DESCRIPTION_FROZEN_STAGES_def guard_contract_def gate Let_def)
  moreover have "kc_name todo_column = ''Todo''" by code_simp
  ultimately show ?thesis
    using accepted_description_passes_the_gate [of sample_yaml "Some ''b''" "Some ''backlog''" sample_description gate_columns
        "''todo''" todo_column "[]"] happy_backlog find_todo by simp
qed

theorem zero_failed_is_no_evidence_witness:
  "\<not> gr_passed (evaluateKanbanTransitionGates
       (plain_card\<lparr>tk_verificationReport := Some (test_report ''npm test'' 12)\<rparr>) (Some dev_column))"
proof -
  have "text_ok ''npm test''" "CHR 0x0A \<notin> set ''npm test''" by (simp_all add: text_ok_def trimmed_def is_ws_def)
  moreover have "kc_automation dev_column = Some ((sample_automation [])\<lparr>ca_validatorCommand := Some ''npm test''\<rparr>)"
    by (simp add: dev_column_def)
  moreover have "tk_completionSummary plain_card = None" "tk_verificationCommands plain_card = None"
    by code_simp+
  ultimately show ?thesis
    using zero_failed_is_no_evidence [of dev_column _ "''npm test''"
        "plain_card\<lparr>tk_verificationReport := Some (test_report ''npm test'' 12)\<rparr>" 12]
    by (simp add: sample_automation_def)
qed

section \<open>The moves\<close>

lemma quiet_card: "card_get board_quiet ''t'' (board_with t) = (board_with t\<lparr>bw_awaits := 2\<rparr>, Inr (Some (hydrateTask (hostToISO concrete_host 1) t)))"
  by (simp add: card_get_def board_call_def bpause_def board_quiet_def board_with_def run_simps store_get_def biso_def bnow_def)

lemma quiet_git: "git_async board_quiet args cwd w = (w\<lparr>bw_awaits := Suc (Suc (bw_awaits w))\<rparr>, Inr (map_option trimEnd (locked_git 0 cwd args)))"
  by (simp add: git_async_def bpause_def board_quiet_def run_simps locked_git_def)

lemma quiet_call: "board_call board_quiet m w = (case m (w\<lparr>bw_awaits := Suc (bw_awaits w)\<rparr>) of
    (u, Inl e) \<Rightarrow> (u, Inl e) | (u, Inr x) \<Rightarrow> (u\<lparr>bw_awaits := Suc (bw_awaits u)\<rparr>, Inr x))"
  by (simp add: board_call_def bpause_def board_quiet_def run_simps split: prod.split sum.split)

lemma locked_readiness:
  "\<exists>w' readiness. buildTaskDeliveryReadiness board_quiet plain_card (board_with plain_card) = (w', Inr readiness) \<and> dl_checked readiness"
proof -
  have refs: "base_candidates (Some ''main'') = [''origin/main'', ''main'', ''origin/master'', ''master'']" by code_simp
  have card: "tk_worktreeId plain_card = None" "tk_codebaseIds plain_card = [''cb'']" "tk_deliverySnapshot plain_card = None"
    by code_simp+
  have git: "trimEnd ''.git'' = ''.git''" "trimEnd ''false'' = ''false''" by code_simp+
  have yes: "locked_git 0 cwd [''rev-parse'', ''--git-dir''] = Some ''.git''"
    "locked_git 0 cwd [''rev-parse'', ''--is-bare-repository''] = Some ''false''"
    "locked_git 0 cwd [''rev-parse'', ''--abbrev-ref'', ''HEAD''] = None"
    "locked_git 0 cwd [''status'', x, y] = None"
    "locked_git 0 cwd [''remote'', x, y] = None" "locked_git 0 cwd (''rev-list'' # xs) = None"
    "locked_git 0 cwd [''rev-parse'', ''--verify'', r] = None" for cwd x y xs r
    by (simp_all add: locked_git_def)
  show ?thesis
    by (simp add: buildTaskDeliveryReadiness_def resolveTaskWorktreeTruth_def repo_path_truth_def codebase_truth_def
        codebase_get_def quiet_call run_simps card board_with_def repo_row_def has_repo_def codebase_truth_of_def
        isGitRepositoryAsync_def isBareGitRepositoryAsync_def quiet_git yes git checked_readiness_def
        getRepoDeliveryStatusAsync_def getCurrentBranchAsync_def getRepoStatusAsync_def supportsGitWorktreeOperations_def
        getRemoteUrlAsync_def resolveBaseRef_def refs hasGitRef_def nonempty_text_def resolveLandedOnBase_def mapReadiness_def Let_def)
qed

theorem failed_status_counts_as_clean_witness:
  "\<exists>w' readiness. buildTaskDeliveryReadiness board_quiet plain_card (board_with plain_card) = (w', Inr readiness)
    \<and> buildTaskDeliveryTransitionErrorFromRules readiness ''Dev'' (Some clean_rules) None = None
    \<and> \<not> dl_hasUncommittedChanges readiness"
proof -
  obtain w' readiness where run: "buildTaskDeliveryReadiness board_quiet plain_card (board_with plain_card) = (w', Inr readiness)"
    and checked: "dl_checked readiness" using locked_readiness by blast
  have "status_fails board_quiet" by (simp add: status_fails_def board_quiet_def locked_git_def)
  then show ?thesis
    using failed_status_counts_as_clean [OF _ run checked, of clean_rules "''Dev''" None] run by (auto simp: clean_rules_def)
qed

section \<open>A refused move\<close>

lemma plain_card_fields:
  "tk_id plain_card = ''t''" "tk_boardId plain_card = Some ''b''" "tk_triggerSessionId plain_card = None"
  "tk_columnId plain_card = Some ''backlog''" "tk_laneSessions plain_card = []"
  "tk_verificationVerdict plain_card = None" "tk_objective plain_card = ''O''"
  by code_simp+

lemma no_story: "cp_story (parseCanonicalStory sample_yaml (Some ''O'')) = None"
  by code_simp

lemma todo_contract: "hasContractRules (column_contract todo_column)" "required_artifacts todo_column = []"
  "resolveTargetRequiredTaskFields (kb_columns gate_board) (Some (kc_id todo_column)) = []" "kb_columns gate_board = gate_columns"
  by code_simp+

text \<open>Another call that finishes the card while the move waits.\<close>

definition finish_card :: "task_store \<Rightarrow> task_store" where
  "finish_card s = map (\<lambda>(k, t). (k, t\<lparr>tk_columnId := Some ''done'', tk_status := TS_COMPLETED\<rparr>)) s"

definition board_disturbed :: board_env where
  "board_disturbed = board_quiet\<lparr>be_others := (\<lambda>k u. if k = 3 then u\<lparr>bw_store := finish_card (bw_store u)\<rparr> else u)\<rparr>"

theorem refused_move_undoes_other_changes_witness:
  "\<exists>w' e row'. moveCard board_disturbed to_todo (board_with plain_card) = (w', Inr (errorResult e))
    \<and> om_get (bw_store w') ''t'' = Some row' \<and> tk_columnId row' = Some ''backlog''"
proof -
  have "disturbed_at 3 finish_card board_disturbed"
    by (simp add: disturbed_at_def board_disturbed_def board_quiet_def)
  then obtain w' e row' where "moveCard board_disturbed to_todo (board_with plain_card) = (w', Inr (errorResult e))"
    and "om_get (bw_store w') ''t'' = Some row'" and "same_place plain_card row'"
    using refused_move_undoes_other_changes [of 3 finish_card board_disturbed "board_with plain_card" to_todo plain_card "''b''"
        gate_board todo_column] todo_contract no_story find_todo
    by (auto simp: board_with_def to_todo_def plain_card_fields board_disturbed_def board_quiet_def)
  then show ?thesis by (auto simp: same_place_def plain_card_fields)
qed

text \<open>The moves up to the contract, on a card that came from the store.\<close>

definition card_read :: "task \<Rightarrow> task" where
  "card_read t = hydrateTask (hostToISO concrete_host 1) t"

lemma card_read_fields:
  "tk_boardId (card_read t) = tk_boardId t" "tk_triggerSessionId (card_read t) = tk_triggerSessionId t"
  "tk_objective (card_read t) = tk_objective t" "tk_columnId (card_read t) = tk_columnId t"
  using hydrate_place [of t] by (simp_all add: card_read_def same_place_def)

lemma quiet_move:
  assumes "tk_boardId t = Some ''b''" and "tk_triggerSessionId t = None"
  shows "moveCard board_quiet to_todo (board_with t)
    = contracted_move board_quiet to_todo (card_read t) gate_columns todo_column (board_with t\<lparr>bw_awaits := 4\<rparr>)"
proof -
  note fields = card_read_fields [of t]
  have get: "card_get board_quiet (mv_cardId to_todo) (board_with t) = (board_with t\<lparr>bw_awaits := 2\<rparr>, Inr (Some (card_read t)))"
    using quiet_card by (simp add: to_todo_def card_read_def)
  have brd: "board_get board_quiet (the (tk_boardId (card_read t))) (board_with t\<lparr>bw_awaits := 2\<rparr>)
      = (board_with t\<lparr>bw_awaits := 4\<rparr>, Inr (Some gate_board))"
    using assms by (simp add: fields board_get_def quiet_call run_simps board_with_def eval_nat_numeral)
  have lane: "lane_block (card_read t) gate_columns ''todo'' = None"
    using assms by (simp add: lane_block_def resolveRemainingLaneStepsMoveBlock_def fields)
  have required: "fields_error (be_yaml board_quiet) (card_read t) gate_columns todo_column = None"
    using todo_contract by (simp add: fields_error_def)
  have noArtifacts: "be_hasArtifacts board_quiet = False" and target: "mv_targetColumnId to_todo = ''todo''"
    by (simp_all add: board_quiet_def to_todo_def)
  have "truthy (tk_boardId (card_read t))" using assms by (simp add: fields)
  then have "moveCard board_quiet to_todo (board_with t)
      = checked_move board_quiet to_todo (card_read t) gate_columns todo_column (board_with t\<lparr>bw_awaits := 4\<rparr>)"
    using move_run [OF get _ brd] todo_contract(4) find_todo target by simp
  then show ?thesis using lane required noArtifacts target by (simp add: checked_move_def run_simps)
qed

lemma quiet_save: "\<exists>w'. card_save board_quiet t w = (w', Inr ())"
  by (simp add: card_save_def quiet_call run_simps)

lemma refused_run: "\<exists>w' e. moveCard board_quiet to_todo (board_with plain_card) = (w', Inr (errorResult e))"
proof -
  let ?t = "card_read plain_card" and ?w = "board_with plain_card\<lparr>bw_awaits := 4\<rparr>"
  let ?r = "buildTaskContractReadiness (be_yaml board_quiet) (tk_objective ?t) (tk_comments ?t) (column_contract todo_column)"
  have "be_yaml board_quiet = sample_yaml" by (simp add: board_quiet_def)
  then obtain err where err: "buildTaskContractTransitionErrorFromRules ?r (kc_name todo_column) (column_contract todo_column) = Some err"
    using contract_error_None [of "be_yaml board_quiet" "tk_objective ?t" "tk_comments ?t" "column_contract todo_column" "kc_name todo_column"]
      todo_contract(1) no_story by (auto simp: card_read_fields plain_card_fields)
  have "\<exists>w'. save_noted board_quiet u v = (w', Inr ())" for u v
    using quiet_save [of "u\<lparr>tk_updatedAt := bnow board_quiet v\<rparr>" v]
    by (auto simp: save_noted_def run_simps notifyWorkspaceChanged_def board_note_def)
  then have "\<exists>w'. recordTaskContractGateFailure board_quiet ?t err m n sid ?w = (w', Inr ())" for m n sid
    by (simp add: recordTaskContractGateFailure_def append_note_def fresh_id_def run_simps Let_def)
  then obtain w' where "recordTaskContractGateFailure board_quiet ?t err (kc_name todo_column) (tr_loopBreakerThreshold ?r)
      (tk_triggerSessionId ?t) ?w = (w', Inr ())" by blast
  then have "contracted_move board_quiet to_todo ?t gate_columns todo_column ?w = (w', Inr (errorResult err))"
    using err by (simp add: contracted_move_def Let_def run_simps)
  then show ?thesis using quiet_move [of plain_card] by (auto simp: plain_card_fields)
qed

theorem refused_move_keeps_the_card_witness:
  "\<exists>w' e. moveCard board_quiet to_todo (board_with plain_card) = (w', Inr (errorResult e))
    \<and> rel_option same_place (Some plain_card) (om_get (bw_store w') ''t'')"
proof -
  obtain w' e where run: "moveCard board_quiet to_todo (board_with plain_card) = (w', Inr (errorResult e))"
    using refused_run by blast
  have "be_others board_quiet = (\<lambda>k w. w)" by (simp add: board_quiet_def)
  moreover have "\<forall>k t. om_get (bw_store (board_with plain_card)) k = Some t \<longrightarrow> tk_id t = k"
    by (simp add: board_with_def plain_card_fields)
  ultimately have "rel_option same_place (om_get (bw_store (board_with plain_card)) ''t'') (om_get (bw_store w') ''t'')"
    using refused_move_keeps_the_card [OF _ _ run] by blast
  with run show ?thesis by (auto simp: board_with_def)
qed

section \<open>A move that is done\<close>




end
