(* ===== verification/Spec2Isabelle.thy ===== *)
theory Spec2Isabelle
  imports KanbanModel LaneHistoryProps LaneAutomationProps EffectiveAutomation RetryProps RetryMachines
    SessionQueueOrder EventBus SharedProps TaskStoreProps LaneSettlementProps WorkflowWitnesses
    DelegationWitnesses MoveWitnesses
begin

text \<open>
  Routa runs coding agents on the cards of a kanban board. This development models the part of it
  that decides what happens to a card, and the part that lets agents give tasks to other agents: the
  TypeScript files of src/src/core/models, kanban, git, events, store, shared-session, orchestration, tools and
  acp named below. It is written from the sources; every definition carries the name of the function or type
  it translates.

  How the program works. A card (models/task.ts) lies in a column of a board (models/kanban.ts).
  A column may have an automation: a list of steps, each of which an agent session runs. When a
  card enters the column (column-transition.ts, told by the event bus), the orchestrator takes the
  steps that apply to the card (effective-task-automation.ts), puts a job into the board's queue
  (kanban-session-queue.ts), which keeps the number of running sessions below the board's limit,
  and records each run on the card (task-lane-history.ts). A session's end comes back over the event
  bus (event-bus.ts) to the orchestrator (workflow-orchestrator.ts), which follows one automation per
  card: it ends the run's record, starts the next step, a fallback or a recovery, moves a finished card
  on, ends the processes of sessions that are no longer needed, and watches for silent ones within the
  limits of the board (board-session-supervision.ts). The end of a session that no automation follows is
  settled by what its history says (lane-session-settlement.ts). A failure outside
  the card is retried with a backoff and a fuse (environment-failure.ts, rate-limit-retry.ts,
  lane-cancel-origin.ts), at most one path reruns a lane at a time (lane-rerun-claim.ts), and after
  a restart the interrupted steps are found again (interrupted-lane-resume.ts). In a review lane the
  verdict of a gate decides where the card goes (review-verdict-authority.ts,
  review-lane-convergence.ts, review-lane-rerun.ts). Every request reads a card from the store,
  changes its copy and saves it; the store merges the runs of both sides on save (task-store.ts,
  lane-session-merge.ts), so that a stale copy does not undo what another request recorded. A card's
  snapshot keeps what its runs found (task-lane-experience.ts, the JIT context of task.ts) and is
  handed to the next agent (task-adaptive.ts). An agent or a user moves and changes a card with the board
  tools (tools/kanban-tools.ts). A move passes the guard of the lane, the artifacts and fields the target
  column requires (task-derived-summary.ts), the contract of the canonical story in the card's description
  (canonical-story.ts, task-contract-readiness.ts), the delivery rules about the card's repository
  (task-worktree-truth.ts, task-delivery-readiness.ts, git-utils-async.ts) and the gates of the column
  (transition-gates.ts); on entering Review or Done the range of its commits is frozen
  (task-delivery-snapshot.ts). A new description must keep to the contract, and from Dev on it is frozen
  (task-description-write-guard.ts). Apart from the board, a session can be shared with
  other people, who write to it under the host's approval (shared-session/service.ts).

  Agents work together through tools (tools/agent-tools.ts): they create agents and tasks, send messages,
  report to the agent that made them and ask it for permission (tools/permission-store.ts). An agent may
  delegate a task (orchestration/orchestrator.ts): the orchestrator checks how deep the caller is
  (delegation-depth.ts), makes an agent, starts a process for it in the repository of the caller's session,
  on a model the plan of delegation-model-inheritance.ts chooses, and tracks it. Its completion comes from
  its own report, the end of its session, an automatic report or an error (lifecycle-notifier.ts, the bus);
  it is remembered (completion-memory.ts) and wakes the agent that delegated with a prompt, at once or, for
  a group, when all its children are done.

  Theories.
  \<^item> \<open>JsBase\<close>: strings, optional values, arrays, stable sorting, insertion-ordered maps and JSON
    values of JavaScript. Interfaces as locales: \<open>js_map\<close> and \<open>js_comparator\<close>, interpreted on these
    functions, and \<open>machine\<close>, a component whose operations keep an invariant and only move its
    state forward; the shared sessions, the store, the scheduler and the claims are interpretations.
  \<^item> \<open>RegexMatch\<close>: a backtracking matcher for the regular expressions the code uses.
  \<^item> \<open>TaskTypes\<close>, \<open>TaskContext\<close>, \<open>TaskModel\<close>: the card, \<open>createTask\<close>, the JIT context (reading,
    normalising and merging a snapshot: what is well formed, the round trip through JSON, which
    values throw), the resolver's conclusion on a blocked card.
  \<^item> \<open>KanbanModel\<close>: boards, columns, steps, positions, the happy path.
  \<^item> \<open>LaneExperience\<close>: grouping a card's runs by lane and summarising them; the refresh of the
    snapshot is a refinement of replacing the analyses of lanes with runs.
  \<^item> \<open>LaneHistory\<close>, \<open>LaneHistoryProps\<close>: the records of a card's runs, one per session, how they
    change when a card moves, and the merge on save.
  \<^item> \<open>LaneAutomation\<close>, \<open>LaneAutomationProps\<close>: the current step of a lane, the guard against moving a
    card with steps left, the resume step, verdicts, convergence, transition events on the bus.
  \<^item> \<open>EffectiveAutomation\<close>: which steps run for a card, with which provider.
  \<^item> \<open>RetryPolicy\<close>, \<open>RetryProps\<close>, \<open>RetryMachines\<close>: classification of failures, fuse, rerun time,
    the decision after a restart; the timer scheduler and the rerun claims as machines over their
    operations, with the schedule of timers and of concurrent paths as an argument.
  \<^item> \<open>SessionQueue\<close>, \<open>SessionQueueProps\<close>, \<open>SessionQueueOrder\<close>: the queue. Each asynchronous call is a
    thread whose state says at which await it stands; a step runs one thread to its next await, and
    the environment chooses the thread and what the store or the start of a session answers.
  \<^item> \<open>TaskStore\<close>, \<open>TaskStoreProps\<close>: the in-memory store, search hints, comments, the cleanup after
    a deletion with other requests between its saves.
  \<^item> \<open>LaneSettlement\<close>, \<open>LaneSettlementProps\<close>: the outcome of a session and the end of its run.
  \<^item> \<open>BoardSupervision\<close>: the settings of supervision and watchdog, sessions that are alive.
  \<^item> \<open>JsAsync\<close>: actions on a state that may fail, for asynchronous code, and the locale \<open>guarantee\<close>: a
    relation between states that every piece respects is respected by the whole.
  \<^item> \<open>WorkflowOrchestrator\<close>, \<open>WorkflowHandlers\<close>: the orchestrator's state, its environment and every
    handler, one definition per method or part of a method.
  \<^item> \<open>WorkflowGuarantee\<close>: the locales \<open>orch_pieces\<close> and \<open>orch_guarantee\<close>, in which every handler is
    shown to respect a relation that its primitive changes respect. \<open>WorkflowProps\<close> interprets them with
    the order of session ends, \<open>WorkflowBudget\<close> with the sessions an automation has left.
  \<^item> \<open>WorkflowAdvance\<close>, \<open>WorkflowEnds\<close>, \<open>WorkflowDone\<close>, \<open>WorkflowLoops\<close>, \<open>WorkflowWitnesses\<close>: what
    follows the end of a session, where a finished card goes, the wind-down of a Done lane, the
    watchdog, the end of the loops; concrete runs.
  \<^item> \<open>EventBus\<close>: subscriptions, buffers, wait groups, pre-subscriptions, over the locale \<open>mailbox\<close> of
    the accounting between what is posted and what is taken.
  \<^item> \<open>SharedSession\<close>, \<open>SharedInvariant\<close>, \<open>SharedProps\<close>: the shared sessions.
  \<^item> \<open>AgentModel\<close>, \<open>SessionConfig\<close>, \<open>CompletionMemory\<close>: agents, messages, their stores and the depth; the
    options of a session and the model of a delegated one; the merge of the snapshots of a completion.
  \<^item> \<open>TeamWorld\<close>, \<open>AgentTools\<close>: the state the tools and the delegation share, its environment and the steps
    calls are made of; the tools, the permissions and the notifier.
  \<^item> \<open>Delegation\<close>, \<open>DelegationSpawn\<close>: the delegation, one definition per method or part of a method, and the
    calls that reach it.
  \<^item> \<open>DelegationGuarantee\<close>, \<open>DelegationOnce\<close>, \<open>DelegationProps\<close>: the locales \<open>team_pieces\<close> (any relation that
    steps on other parts of the state respect) and \<open>team_others\<close> (its instance for the order in which a
    completion is handled at most once), the part of a completion that is in flight, and all calls; the
    calls interpret the locale as each other's environment, to any depth of interruption.
  \<^item> \<open>DelegationQuiet\<close>, \<open>DelegationBehaviour\<close>, \<open>DelegationReports\<close>: the steps as equations when no other call
    runs, and what single calls do: groups, late and repeated reports, a parent without a process.
  \<^item> \<open>DelegationDepth\<close>, \<open>DelegationRules\<close>, \<open>DelegationWitnesses\<close>: which agents a call makes, in the locale
    \<open>agent_makers\<close>, and so how deep they are; directories, answers to permissions, report files; a concrete
    team.
  \<^item> \<open>CanonicalStory\<close>, \<open>StoryProps\<close>: the fenced block of a description, reading a story from the value of
    the YAML parser; what is accepted is well formed, and a written story is read back.
  \<^item> \<open>ContractGate\<close>, \<open>TransitionGates\<close>, \<open>TaskSummaries\<close>, \<open>GateProps\<close>: the contract of a column and the guard of a
    description, which agree; checklist, approval and evidence; required fields and summaries.
  \<^item> \<open>BoardWorld\<close>, \<open>GitDelivery\<close>, \<open>TaskDelivery\<close>: the stores and the git processes the board tools work on, the
    repository of a card, whether its work is delivered, the frozen commits.
  \<^item> \<open>CardMoves\<close>, \<open>MoveProps\<close>, \<open>MoveRefused\<close>, \<open>MoveWitnesses\<close>: moving and updating a card; what a successful move
    has passed and left, in the face of any other calls, and what a refused one leaves alone or undoes, over
    the locale \<open>guarantee\<close>; concrete moves.

  Conventions. An interface is a record whose fields have a short prefix, an optional property is an
  option, an error is the left side of a sum. An operation that changes a card in place gives the card
  afterwards, also when it then fails. What depends on the machine or on chance is an argument: the
  clock, \<open>Date.parse\<close> and \<open>toISOString\<close> (the record \<open>js_host\<close>), identifiers, random numbers,
  \<open>JSON.stringify\<close>. Numbers of JavaScript that are not integers are exact rationals. A string is a
  list of characters below U+0100.

  Asynchronous code. A handler of the orchestrator is an action that runs from its start to its end; at
  every await it pauses, and the environment's \<open>oe_others\<close> changes the state as the other calls do, any
  function of the number of awaits so far and of the state. A theorem says what it asks of them: nothing,
  that they respect the same relation (which the orchestrator's own operations do), or that there are none.
  The effects (ending a process, asking for a session, prompting one, emitting an event) go to a log.
  Automations live in a heap and are named by their position, since handlers hold on to them. The delegation
  is modelled the same way: \<open>te_others\<close> are the other calls, the records of delegated agents and the groups
  are on heaps, every call of a store may be rejected, and what the code starts without awaiting it (the
  handlers of an event, the prompt of a new process, the processing of a report file) is a call of its own.

  Bounds. Two loops have fuel, those over the orchestrator's map of automations, which may change while they
  run; theorem \<open>automation_loops_end\<close> shows that one more than the number of automations is enough. The report
  on a group reads the group's children while others may join; its rounds are bounded by the environment's
  \<open>te_fuel\<close>, and no property rests on the report being complete. The other loops are structural or recurse on the length of a
  list (\<open>uniq\<close>) or on the timers left (\<open>run_timers\<close>). The loop that drains the queue is a thread, and theorem \<open>drain_serves_in_order\<close> shows
  that it ends when nothing else runs. The chained timers of a rerun end because every timer shortens the
  remaining time by the longest delay a timer can have (theorem \<open>scheduled_rerun_runs\<close>).

  Not modelled. The trigger of agents and the singleton that wires the orchestrator's callbacks
  (agent-trigger.ts, workflow-orchestrator-singleton.ts; the callbacks are parameters), the tool that updates
  a task, the board tools other than moving and updating a card, what the YAML parser makes of a text and what
  a git process prints (a parameter and the environment), the database stores (SQL), processes and streams of agents (acp-process-manager.ts, the provider adapters and
  the event bridge), the loading of specialists, traces and playbooks (answers of the environment), the
  function that ends a subscription to an agent's events, artifacts and screenshots, HTTP routes, the user
  interface and the texts for people with characters above U+00FF. That two holders of a card share the same record
  object in memory is not modelled either: cards are values, which is how the database stores
  behave.
\<close>

end
